(* ===== verification/Js_Prelude.thy ===== *)
theory Js_Prelude
  imports Main "HOL-Library.Char_ord" "HOL-Library.List_Lexorder"
begin

text \<open>
  The fragment of the JavaScript run time that the modelled modules use, and the generic lemmas
  the components share.

  \<^item> Numbers.  A \<open>number\<close> that a function checks with \<open>Number.isSafeInteger\<close> before using it is a
    \<open>js_number\<close>: an integral double, or anything else (a fraction, an infinity, NaN).  A
    number that the code only stores and compares (a timestamp written from \<open>Date.now()\<close>, a
    satoshi amount of a stored row) is an \<open>int\<close>.
  \<^item> Strings.  A string is a list of code units; the model covers the code units below 256, and
    case folding and trimming are those of ECMAScript on that range.
  \<^item> Exceptions.  \<open>throw new Error(m)\<close> is \<open>Inl m\<close>, a normal return is \<open>Inr\<close>.
  \<^item> IndexedDB.  An object store is a list of keyed rows in primary-key order; its interface is
    the locale \<open>object_store\<close>.
\<close>

named_theorems js_num "facts about safe integers and checked numbers"
named_theorems js_str "facts about string helpers"
named_theorems store_simps "what a lookup returns after a write to an object store"

subsection \<open>Numbers\<close>

definition MAX_SAFE_INTEGER :: int where
  "MAX_SAFE_INTEGER = 9007199254740991"

datatype js_number = JSInt int | JSOther

definition is_safe :: "int \<Rightarrow> bool" where
  "is_safe i \<longleftrightarrow> \<bar>i\<bar> \<le> MAX_SAFE_INTEGER"

fun isSafeInteger :: "js_number \<Rightarrow> bool" where
  "isSafeInteger (JSInt i) = is_safe i"
| "isSafeInteger JSOther = False"

text \<open>The value of a number that passed the check.\<close>

fun safe_value :: "js_number \<Rightarrow> int option" where
  "safe_value (JSInt i) = (if is_safe i then Some i else None)"
| "safe_value JSOther = None"

lemma safe_value_Some [js_num]: "safe_value x = Some i \<longleftrightarrow> x = JSInt i \<and> is_safe i"
  by (cases x) auto

lemma safe_value_None [js_num]: "safe_value x = None \<longleftrightarrow> \<not> isSafeInteger x"
  by (cases x) auto

lemma is_safe_mono: "is_safe b \<Longrightarrow> 0 \<le> a \<Longrightarrow> a \<le> b \<Longrightarrow> is_safe a"
  by (simp add: is_safe_def)

lemma is_safe_nonneg: "0 \<le> i \<Longrightarrow> is_safe i \<longleftrightarrow> i \<le> MAX_SAFE_INTEGER"
  by (simp add: is_safe_def)

text \<open>A truthy optional number (neither \<open>undefined\<close> nor \<open>0\<close>).\<close>

fun num_truthy :: "int option \<Rightarrow> bool" where
  "num_truthy None = False"
| "num_truthy (Some n) = (n \<noteq> 0)"

text \<open>\<open>a ?? b\<close>.\<close>

fun or_else :: "'a option \<Rightarrow> 'a \<Rightarrow> 'a" where
  "or_else None d = d"
| "or_else (Some x) d = x"

subsection \<open>Exceptions as values\<close>

type_synonym 'a result = "string + 'a"

definition bind_result :: "'e + 'a \<Rightarrow> ('a \<Rightarrow> 'e + 'b) \<Rightarrow> 'e + 'b" where
  "bind_result r f = (case r of Inl e \<Rightarrow> Inl e | Inr x \<Rightarrow> f x)"

lemma bind_result_simps [simp]:
  "bind_result (Inl e) f = Inl e"
  "bind_result (Inr x) f = f x"
  by (simp_all add: bind_result_def)

lemma bind_result_Inr: "bind_result r f = Inr y \<longleftrightarrow> (\<exists>x. r = Inr x \<and> f x = Inr y)"
  by (cases r) auto

text \<open>A guard that throws: the rest runs where the guard is false.\<close>

lemma throw_Inr [js_num]: "((if b then Inl e else r) = Inr y) \<longleftrightarrow> \<not> b \<and> r = Inr y"
  by auto

lemma bind_result_cong [fundef_cong]:
  "r = r' \<Longrightarrow> (\<And>x. r' = Inr x \<Longrightarrow> f x = g x) \<Longrightarrow> bind_result r f = bind_result r' g"
  by (cases r') auto

subsection \<open>Strings\<close>

type_synonym js_string = string

definition char_code :: "char \<Rightarrow> nat" where
  "char_code c = of_char c"

definition char_lower :: "char \<Rightarrow> char" where
  "char_lower c =
     (let n = char_code c
      in if (65 \<le> n \<and> n \<le> 90) \<or> (192 \<le> n \<and> n \<le> 222 \<and> n \<noteq> 215) then char_of (n + 32) else c)"

definition toLowerCase :: "js_string \<Rightarrow> js_string" where
  "toLowerCase s = map char_lower s"

definition is_js_space :: "char \<Rightarrow> bool" where
  "is_js_space c =
     (let n = char_code c in (9 \<le> n \<and> n \<le> 13) \<or> n = 32 \<or> n = 160)"

definition js_trim :: "js_string \<Rightarrow> js_string" where
  "js_trim s = rev (dropWhile is_js_space (rev (dropWhile is_js_space s)))"

definition startsWith :: "js_string \<Rightarrow> js_string \<Rightarrow> bool" where
  "startsWith s p \<longleftrightarrow> take (length p) s = p"

definition is_digit :: "char \<Rightarrow> bool" where
  "is_digit c \<longleftrightarrow> 48 \<le> char_code c \<and> char_code c \<le> 57"

definition is_lower_hex :: "char \<Rightarrow> bool" where
  "is_lower_hex c \<longleftrightarrow> is_digit c \<or> (97 \<le> char_code c \<and> char_code c \<le> 102)"

definition is_any_hex :: "char \<Rightarrow> bool" where
  "is_any_hex c \<longleftrightarrow> is_lower_hex c \<or> (65 \<le> char_code c \<and> char_code c \<le> 70)"

definition is_lower_alpha :: "char \<Rightarrow> bool" where
  "is_lower_alpha c \<longleftrightarrow> 97 \<le> char_code c \<and> char_code c \<le> 122"

definition is_upper_alpha :: "char \<Rightarrow> bool" where
  "is_upper_alpha c \<longleftrightarrow> 65 \<le> char_code c \<and> char_code c \<le> 90"

text \<open>The patterns \<open>/^[0-9a-f]{64}$/\<close> and \<open>/^[0-9a-f]{64}$/i\<close>.\<close>

definition is_hex64 :: "js_string \<Rightarrow> bool" where
  "is_hex64 s \<longleftrightarrow> length s = 64 \<and> list_all is_lower_hex s"

definition is_hex64_i :: "js_string \<Rightarrow> bool" where
  "is_hex64_i s \<longleftrightarrow> length s = 64 \<and> list_all is_any_hex s"

text \<open>A truthy optional string (neither \<open>undefined\<close> nor empty).\<close>

fun truthy :: "js_string option \<Rightarrow> bool" where
  "truthy None = False"
| "truthy (Some s) = (s \<noteq> [])"

lemma truthy_iff: "truthy x \<longleftrightarrow> (\<exists>s. x = Some s \<and> s \<noteq> [])"
  by (cases x) auto

lemma length_toLowerCase [simp]: "length (toLowerCase s) = length s"
  by (simp add: toLowerCase_def)

lemma toLowerCase_append [simp]: "toLowerCase (s @ t) = toLowerCase s @ toLowerCase t"
  by (simp add: toLowerCase_def)

lemma char_code_char_of: "n < 256 \<Longrightarrow> char_code (char_of n) = n"
  by (simp add: char_code_def)

lemma char_code_lt: "char_code c < 256"
  by (simp add: char_code_def)

lemma char_lower_idem [simp]: "char_lower (char_lower c) = char_lower c"
proof (cases "(65 \<le> char_code c \<and> char_code c \<le> 90)
    \<or> (192 \<le> char_code c \<and> char_code c \<le> 222 \<and> char_code c \<noteq> 215)")
  case True
  let ?d = "char_of (char_code c + 32) :: char"
  have "char_code ?d = char_code c + 32" using True by (auto intro: char_code_char_of)
  then show ?thesis using True by (auto simp: char_lower_def Let_def)
qed (auto simp: char_lower_def Let_def)

lemma toLowerCase_idem [simp]: "toLowerCase (toLowerCase s) = toLowerCase s"
  by (simp add: toLowerCase_def)

lemma js_trim_Nil [simp]: "js_trim [] = []"
  by (simp add: js_trim_def)

lemma dropWhile_idem [simp]: "dropWhile P (dropWhile P s) = dropWhile P s"
  by (induction s) auto

lemma dropWhile_rev_dropWhile:
  "dropWhile P (rev (dropWhile P (rev (dropWhile P s)))) = rev (dropWhile P (rev (dropWhile P s)))"
proof -
  let ?t = "dropWhile P s"
  obtain k where k: "dropWhile P (rev ?t) = drop k (rev ?t)" by (metis dropWhile_eq_drop)
  then have r: "rev (dropWhile P (rev ?t)) = take (length ?t - k) ?t"
    by (simp add: rev_drop)
  have "dropWhile P (take n ?t) = take n ?t" for n
  proof (cases "?t = []")
    case True
    then show ?thesis by (simp only: take_Nil dropWhile.simps)
  next
    case False
    then have "\<not> P (hd ?t)" by (rule hd_dropWhile)
    with False show ?thesis by (cases "?t"; cases n) auto
  qed
  then show ?thesis unfolding r by blast
qed

lemma js_trim_idem [js_str]: "js_trim (js_trim s) = js_trim s"
  unfolding js_trim_def by (simp only: dropWhile_rev_dropWhile rev_rev_ident dropWhile_idem)

subsection \<open>Stable sorting\<close>

text \<open>
  \<open>Array.prototype.sort\<close> with a comparator: stable, and for a consistent comparator the result
  does not depend on the algorithm.
\<close>

fun insert_by :: "('a \<Rightarrow> 'a \<Rightarrow> int) \<Rightarrow> 'a \<Rightarrow> 'a list \<Rightarrow> 'a list" where
  "insert_by cmp x [] = [x]"
| "insert_by cmp x (y # ys) = (if cmp x y \<le> 0 then x # y # ys else y # insert_by cmp x ys)"

definition js_sort :: "('a \<Rightarrow> 'a \<Rightarrow> int) \<Rightarrow> 'a list \<Rightarrow> 'a list" where
  "js_sort cmp xs = foldr (insert_by cmp) xs []"

lemma set_insert_by [simp]: "set (insert_by cmp x ys) = insert x (set ys)"
  by (induction ys) auto

lemma set_js_sort [simp]: "set (js_sort cmp xs) = set xs"
  by (induction xs) (auto simp: js_sort_def)

lemma length_insert_by [simp]: "length (insert_by cmp x ys) = Suc (length ys)"
  by (induction ys) auto

lemma length_js_sort [simp]: "length (js_sort cmp xs) = length xs"
  by (induction xs) (auto simp: js_sort_def)

lemma distinct_insert_by: "distinct (map f (insert_by cmp x ys)) \<longleftrightarrow> f x \<notin> f ` set ys \<and> distinct (map f ys)"
  by (induction ys) auto

lemma distinct_js_sort: "distinct (map f (js_sort cmp xs)) \<longleftrightarrow> distinct (map f xs)"
proof (induction xs)
  case (Cons x xs)
  have "set (foldr (insert_by cmp) xs []) = set xs" using set_js_sort [of cmp xs] by (simp add: js_sort_def)
  with Cons show ?case by (simp add: js_sort_def distinct_insert_by)
qed (simp add: js_sort_def)

subsection \<open>Object stores\<close>

text \<open>
  The interface the components rely on: rows by primary key, a write replaces the row of its key
  and no other.
\<close>

locale object_store =
  fixes get :: "'t \<Rightarrow> 'k \<Rightarrow> 'v option"
    and put :: "'k \<Rightarrow> 'v \<Rightarrow> 't \<Rightarrow> 't"
    and remove_row :: "'k \<Rightarrow> 't \<Rightarrow> 't"
    and well_keyed :: "'t \<Rightarrow> bool"
  assumes get_put: "well_keyed t \<Longrightarrow> get (put k v t) k' = (if k' = k then Some v else get t k')"
    and get_remove: "well_keyed t \<Longrightarrow> get (remove_row k t) k' = (if k' = k then None else get t k')"
    and put_keyed: "well_keyed t \<Longrightarrow> well_keyed (put k v t)"
    and remove_keyed: "well_keyed t \<Longrightarrow> well_keyed (remove_row k t)"
begin

lemma get_put_same: "well_keyed t \<Longrightarrow> get (put k v t) k = Some v"
  by (simp add: get_put)

lemma get_put_other: "well_keyed t \<Longrightarrow> k' \<noteq> k \<Longrightarrow> get (put k v t) k' = get t k'"
  by (simp add: get_put)

lemma remove_all_keyed: "well_keyed t \<Longrightarrow> well_keyed (fold remove_row ks t)"
  by (induction ks arbitrary: t) (auto simp: remove_keyed)

lemma get_remove_all:
  "well_keyed t \<Longrightarrow> get (fold remove_row ks t) k = (if k \<in> set ks then None else get t k)"
  by (induction ks arbitrary: t) (auto simp: remove_keyed get_remove)

text \<open>A property of all rows survives a write that establishes it for the new row.\<close>

lemma all_rows_put:
  "well_keyed t \<Longrightarrow> (\<And>k' v'. get t k' = Some v' \<Longrightarrow> P k' v') \<Longrightarrow> P k v \<Longrightarrow>
   get (put k v t) k'' = Some w \<Longrightarrow> P k'' w"
  by (auto simp: get_put split: if_splits)

end

text \<open>The implementation: an association list in key order.\<close>

type_synonym 'v table = "(js_string \<times> 'v) list"

definition table_get :: "'v table \<Rightarrow> js_string \<Rightarrow> 'v option" where
  "table_get t k = map_of t k"

fun table_put :: "js_string \<Rightarrow> 'v \<Rightarrow> 'v table \<Rightarrow> 'v table" where
  "table_put k v [] = [(k, v)]"
| "table_put k v ((k', v') # t) =
     (if k = k' then (k, v) # t
      else if k < k' then (k, v) # (k', v') # t
      else (k', v') # table_put k v t)"

definition table_remove :: "js_string \<Rightarrow> 'v table \<Rightarrow> 'v table" where
  "table_remove k t = filter (\<lambda>(k', _). k' \<noteq> k) t"

definition table_keyed :: "'v table \<Rightarrow> bool" where
  "table_keyed t \<longleftrightarrow> sorted_wrt (<) (map fst t)"

definition table_rows :: "'v table \<Rightarrow> 'v list" where
  "table_rows t = map snd t"

lemma table_get_put: "table_get (table_put k v t) k' = (if k' = k then Some v else table_get t k')"
  by (induction k v t rule: table_put.induct) (auto simp: table_get_def)

lemma fst_table_put: "fst ` set (table_put k v t) = insert k (fst ` set t)"
  by (induction k v t rule: table_put.induct) auto

lemma table_put_keyed: "table_keyed t \<Longrightarrow> table_keyed (table_put k v t)"
proof (induction k v t rule: table_put.induct)
  case (2 k v k' v' t)
  show ?case
  proof (cases "k' < k")
    case True
    with 2 have "table_keyed (table_put k v t)" by (auto simp: table_keyed_def)
    moreover have "\<forall>x \<in> fst ` set (table_put k v t). k' < x"
      using 2 True unfolding fst_table_put by (auto simp: table_keyed_def)
    moreover have "\<not> k < k'" "k \<noteq> k'" using True by auto
    ultimately show ?thesis by (auto simp: table_keyed_def)
  next
    case False
    with 2 have "k < k' \<or> k = k'" by auto
    with 2 show ?thesis by (auto simp: table_keyed_def dest: less_trans)
  qed
qed (simp add: table_keyed_def)

lemma table_get_remove: "table_get (table_remove k t) k' = (if k' = k then None else table_get t k')"
  by (induction t) (auto simp: table_remove_def table_get_def)

lemma table_remove_keyed: "table_keyed t \<Longrightarrow> table_keyed (table_remove k t)"
proof (induction t)
  case (Cons p t)
  have "fst ` set (table_remove k t) \<subseteq> fst ` set t" by (auto simp: table_remove_def)
  with Cons show ?case by (auto simp: table_keyed_def table_remove_def)
qed (simp add: table_keyed_def table_remove_def)

interpretation tbl: object_store table_get table_put table_remove table_keyed
  by unfold_locales
    (simp_all add: table_get_put table_get_remove table_put_keyed table_remove_keyed)

declare table_get_put [store_simps] table_get_remove [store_simps]

lemma table_get_rows: "table_keyed t \<Longrightarrow> v \<in> set (table_rows t) \<longleftrightarrow> (\<exists>k. table_get t k = Some v)"
proof -
  assume "table_keyed t"
  then have "distinct (map fst t)" by (auto simp: table_keyed_def strict_sorted_iff)
  then show ?thesis by (force simp: table_rows_def table_get_def image_iff)
qed

end
