(* ===== verification/Relay_Health.thy ===== *)
theory Relay_Health
  imports Js_Prelude
begin

text \<open>
  Relay URLs and relay health: \<open>normalizeRelayUrl\<close> and \<open>tryNormalizeRelayUrl\<close> of
  \<open>relay-settings.ts\<close>, and the process-local failure and cooldown records of
  \<open>relay-health.ts\<close>.  The WHATWG URL parser is the parameter \<open>parse\<close> (\<open>None\<close> where
  \<open>new URL\<close> throws); times are milliseconds.
\<close>

subsection \<open>Relay URL normalization\<close>

record url_parts =
  protocol :: js_string
  username :: js_string
  password :: js_string
  hostname :: js_string
  host :: js_string
  pathname :: js_string

type_synonym url_parser = "js_string \<Rightarrow> url_parts option"

definition is_scheme_char :: "char \<Rightarrow> bool" where
  "is_scheme_char c \<longleftrightarrow> is_lower_alpha c \<or> is_upper_alpha c \<or> is_digit c
     \<or> c = CHR ''+'' \<or> c = CHR ''.'' \<or> c = CHR ''-''"

text \<open>The test \<open>/^[a-z][a-z0-9+.-]*:\/\//i\<close>.\<close>

fun has_scheme :: "js_string \<Rightarrow> bool" where
  "has_scheme [] = False"
| "has_scheme (c # cs) =
     ((is_lower_alpha c \<or> is_upper_alpha c) \<and> startsWith (dropWhile is_scheme_char cs) ''://'')"

definition strip_trailing_slashes :: "js_string \<Rightarrow> js_string" where
  "strip_trailing_slashes s = rev (dropWhile (\<lambda>c. c = CHR ''/'') (rev s))"

definition ws_protocol :: "url_parts \<Rightarrow> js_string" where
  "ws_protocol parsed =
     (if protocol parsed = ''http:'' then ''ws:''
      else if protocol parsed = ''https:'' then ''wss:''
      else protocol parsed)"

definition relay_path :: "url_parts \<Rightarrow> js_string" where
  "relay_path parsed =
     (if pathname parsed = ''/'' then [] else strip_trailing_slashes (pathname parsed))"

definition relay_url_of_parts :: "url_parts \<Rightarrow> js_string result" where
  "relay_url_of_parts parsed =
     (if ws_protocol parsed \<noteq> ''ws:'' \<and> ws_protocol parsed \<noteq> ''wss:''
      then Inl ''Relay URL must use ws:// or wss://''
      else if hostname parsed = [] then Inl ''Relay URL must include a host''
      else if username parsed \<noteq> [] \<or> password parsed \<noteq> []
      then Inl ''Relay URL must not include credentials''
      else Inr (ws_protocol parsed @ ''//'' @ toLowerCase (host parsed) @ relay_path parsed))"

definition normalizeRelayUrl :: "url_parser \<Rightarrow> js_string \<Rightarrow> js_string result" where
  "normalizeRelayUrl parse input =
     (let trimmed = js_trim input
      in if trimmed = [] then Inl ''Relay URL is required''
         else let withScheme = (if has_scheme trimmed then trimmed else ''wss://'' @ trimmed)
         in case parse withScheme of
              None \<Rightarrow> Inl ''Invalid URL''
            | Some parsed \<Rightarrow> relay_url_of_parts parsed)"

definition tryNormalizeRelayUrl :: "url_parser \<Rightarrow> js_string \<Rightarrow> js_string option" where
  "tryNormalizeRelayUrl parse input =
     (case normalizeRelayUrl parse input of Inl _ \<Rightarrow> None | Inr url \<Rightarrow> Some url)"

text \<open>The memo table in front of it: emptied when it is full, then filled again.\<close>

definition MAX_NORMALIZE_RELAY_URL_CACHE :: nat where
  "MAX_NORMALIZE_RELAY_URL_CACHE = 2000"

definition normalizeRelayUrl_cached ::
    "url_parser \<Rightarrow> js_string \<Rightarrow> js_string table \<Rightarrow> js_string result \<times> js_string table" where
  "normalizeRelayUrl_cached parse input cache =
     (case table_get cache input of
        Some cached \<Rightarrow> (Inr cached, cache)
      | None \<Rightarrow>
          (case normalizeRelayUrl parse input of
             Inl e \<Rightarrow> (Inl e, cache)
           | Inr url \<Rightarrow>
               let cache1 = (if length cache \<ge> MAX_NORMALIZE_RELAY_URL_CACHE then [] else cache)
               in (Inr url, table_put input url cache1)))"

subsection \<open>Health records\<close>

record RelayHealthRecord =
  url :: js_string
  consecutiveFailures :: nat
  lastSuccessAt :: "int option"
  lastFailureAt :: "int option"
  cooldownUntil :: "int option"
  rateLimitUntil :: "int option"

type_synonym health = "RelayHealthRecord table"

record RelayHealthSnapshot =
  records :: health
  capturedAt :: int

definition BASE_COOLDOWN_MS :: int where "BASE_COOLDOWN_MS = 30000"
definition MAX_COOLDOWN_MS :: int where "MAX_COOLDOWN_MS = 30 * 60000"
definition FAILURES_BEFORE_COOLDOWN :: nat where "FAILURES_BEFORE_COOLDOWN = 2"

lemmas cooldown_constants = BASE_COOLDOWN_MS_def MAX_COOLDOWN_MS_def FAILURES_BEFORE_COOLDOWN_def

text \<open>The record of a relay, created when it is missing.  Callers write it back.\<close>

definition ensureRecord :: "js_string \<Rightarrow> health \<Rightarrow> RelayHealthRecord" where
  "ensureRecord u h =
     (case table_get h u of
        Some existing \<Rightarrow> existing
      | None \<Rightarrow> \<lparr>url = u, consecutiveFailures = 0, lastSuccessAt = None, lastFailureAt = None,
                 cooldownUntil = None, rateLimitUntil = None\<rparr>)"

definition recordRelaySuccess :: "url_parser \<Rightarrow> js_string \<Rightarrow> int \<Rightarrow> health \<Rightarrow> health" where
  "recordRelaySuccess parse u now h =
     (case tryNormalizeRelayUrl parse u of
        None \<Rightarrow> h
      | Some normalized \<Rightarrow>
          table_put normalized
            ((ensureRecord normalized h)
               \<lparr>consecutiveFailures := 0, lastSuccessAt := Some now, cooldownUntil := None\<rparr>) h)"

definition failed_record :: "RelayHealthRecord \<Rightarrow> int \<Rightarrow> RelayHealthRecord" where
  "failed_record r now =
     (let r1 = r\<lparr>consecutiveFailures := consecutiveFailures r + 1, lastFailureAt := Some now\<rparr>
      in if consecutiveFailures r1 \<ge> FAILURES_BEFORE_COOLDOWN
         then let overflow = consecutiveFailures r1 - FAILURES_BEFORE_COOLDOWN;
                  cooldown = min (BASE_COOLDOWN_MS * 2 ^ overflow) MAX_COOLDOWN_MS
              in r1\<lparr>cooldownUntil := Some (now + cooldown)\<rparr>
         else r1)"

definition recordRelayFailure :: "url_parser \<Rightarrow> js_string \<Rightarrow> int \<Rightarrow> health \<Rightarrow> health" where
  "recordRelayFailure parse u now h =
     (case tryNormalizeRelayUrl parse u of
        None \<Rightarrow> h
      | Some normalized \<Rightarrow> table_put normalized (failed_record (ensureRecord normalized h) now) h)"

definition recordRelayRateLimit :: "url_parser \<Rightarrow> js_string \<Rightarrow> int \<Rightarrow> health \<Rightarrow> health" where
  "recordRelayRateLimit parse u now h =
     (case tryNormalizeRelayUrl parse u of
        None \<Rightarrow> h
      | Some normalized \<Rightarrow>
          table_put normalized
            ((ensureRecord normalized h)
               \<lparr>lastFailureAt := Some now, rateLimitUntil := Some (now + 60000)\<rparr>) h)"

definition getRelayHealth :: "url_parser \<Rightarrow> js_string \<Rightarrow> health \<Rightarrow> RelayHealthRecord option" where
  "getRelayHealth parse u h =
     (case tryNormalizeRelayUrl parse u of None \<Rightarrow> None | Some normalized \<Rightarrow> table_get h normalized)"

definition isRelayRateLimited :: "url_parser \<Rightarrow> js_string \<Rightarrow> int \<Rightarrow> health \<Rightarrow> bool" where
  "isRelayRateLimited parse u now h =
     (or_else (Option.bind (getRelayHealth parse u h) rateLimitUntil) 0 > now)"

definition record_parked :: "RelayHealthRecord \<Rightarrow> int \<Rightarrow> bool" where
  "record_parked r now \<longleftrightarrow> or_else (cooldownUntil r) 0 > now \<or> or_else (rateLimitUntil r) 0 > now"

definition isRelayInCooldown :: "url_parser \<Rightarrow> js_string \<Rightarrow> int \<Rightarrow> health \<Rightarrow> bool" where
  "isRelayInCooldown parse u now h =
     (case getRelayHealth parse u h of None \<Rightarrow> False | Some r \<Rightarrow> record_parked r now)"

text \<open>Both partitions return the healthy and the parked URLs, normalized, in the given order.\<close>

fun partitionByHealth ::
    "url_parser \<Rightarrow> js_string list \<Rightarrow> int \<Rightarrow> health \<Rightarrow> js_string list \<times> js_string list" where
  "partitionByHealth parse [] now h = ([], [])"
| "partitionByHealth parse (u # us) now h =
     (let (healthy, parked) = partitionByHealth parse us now h
      in case tryNormalizeRelayUrl parse u of
           None \<Rightarrow> (healthy, parked)
         | Some normalized \<Rightarrow>
             if isRelayInCooldown parse normalized now h then (healthy, normalized # parked)
             else (normalized # healthy, parked))"

fun partitionByHealthSnapshot ::
    "url_parser \<Rightarrow> js_string list \<Rightarrow> RelayHealthSnapshot \<Rightarrow> js_string list \<times> js_string list" where
  "partitionByHealthSnapshot parse [] snapshot = ([], [])"
| "partitionByHealthSnapshot parse (u # us) snapshot =
     (let (healthy, parked) = partitionByHealthSnapshot parse us snapshot
      in case tryNormalizeRelayUrl parse u of
           None \<Rightarrow> (healthy, parked)
         | Some normalized \<Rightarrow>
             let r = table_get (records snapshot) normalized
             in if or_else (Option.bind r cooldownUntil) 0 > capturedAt snapshot
                  \<or> or_else (Option.bind r rateLimitUntil) 0 > capturedAt snapshot
                then (healthy, normalized # parked)
                else (normalized # healthy, parked))"

definition snapshotRelayHealth :: "int \<Rightarrow> health \<Rightarrow> RelayHealthSnapshot" where
  "snapshotRelayHealth now h = \<lparr>records = h, capturedAt = now\<rparr>"

definition resetRelayHealth :: "health \<Rightarrow> health" where
  "resetRelayHealth h = []"


subsection \<open>Lemmas\<close>

lemmas health_ops = recordRelaySuccess_def recordRelayFailure_def recordRelayRateLimit_def
lemmas health_queries = getRelayHealth_def isRelayRateLimited_def isRelayInCooldown_def record_parked_def

lemma tryNormalize_Some: "tryNormalizeRelayUrl parse s = Some u \<longleftrightarrow> normalizeRelayUrl parse s = Inr u"
  by (auto simp: tryNormalizeRelayUrl_def split: sum.splits)

text \<open>
  What \<open>normalizeRelayUrl\<close> relies on of \<open>new URL\<close>: a parsed URL with a special scheme has an
  absolute, percent-encoded path and a lower-case host, and the text made of a WebSocket scheme,
  its host and a leading part of its path reads back as these components.
\<close>

definition url_reads_back :: "url_parser \<Rightarrow> bool" where
  "url_reads_back parse \<longleftrightarrow>
     (\<forall>s p. parse s = Some p \<and> ws_protocol p \<in> {''ws:'', ''wss:''} \<longrightarrow>
        toLowerCase (host p) = host p
        \<and> (\<forall>c \<in> set (host p @ pathname p). \<not> is_js_space c)
        \<and> (\<forall>n. parse (ws_protocol p @ ''//'' @ host p @ take n (pathname p)) =
               Some \<lparr>protocol = ws_protocol p, username = [], password = [], hostname = hostname p,
                     host = host p,
                     pathname = (if take n (pathname p) = [] then ''/'' else take n (pathname p))\<rparr>))"

lemma strip_is_take: "\<exists>n. strip_trailing_slashes s = take n s"
proof -
  obtain k where "dropWhile (\<lambda>c. c = CHR ''/'') (rev s) = drop k (rev s)" by (metis dropWhile_eq_drop)
  then show ?thesis by (auto simp: strip_trailing_slashes_def rev_drop)
qed

lemma strip_idem [simp]: "strip_trailing_slashes (strip_trailing_slashes s) = strip_trailing_slashes s"
  by (simp add: strip_trailing_slashes_def)

lemma strip_slash [simp]: "strip_trailing_slashes ''/'' = []"
  by (simp add: strip_trailing_slashes_def)

lemma strip_no_slash [simp]: "strip_trailing_slashes s \<noteq> ''/''"
proof
  assume "strip_trailing_slashes s = ''/''"
  then have "strip_trailing_slashes (strip_trailing_slashes s) = []" by (simp only: strip_slash)
  then have "strip_trailing_slashes s = []" by (simp only: strip_idem)
  with \<open>strip_trailing_slashes s = ''/''\<close> show False by simp
qed

lemma relay_path_strip: "relay_path p = strip_trailing_slashes (pathname p)"
  by (simp add: relay_path_def)

lemma js_trim_no_space: "\<forall>c \<in> set s. \<not> is_js_space c \<Longrightarrow> js_trim s = s"
proof -
  assume a: "\<forall>c \<in> set s. \<not> is_js_space c"
  then have b: "dropWhile is_js_space s = s" by (cases s) auto
  from a have "\<forall>c \<in> set (rev s). \<not> is_js_space c" by simp
  then have "dropWhile is_js_space (rev s) = rev s" by (cases "rev s") auto
  with b show ?thesis by (simp add: js_trim_def)
qed

lemma ws_protocol_reads:
  "ws_protocol p \<in> {''ws:'', ''wss:''} \<Longrightarrow> protocol q = ws_protocol p \<Longrightarrow> ws_protocol q = ws_protocol p"
  by (auto simp: ws_protocol_def)

lemma relay_url_of_parts_Inr:
  "relay_url_of_parts p = Inr u \<longleftrightarrow>
     ws_protocol p \<in> {''ws:'', ''wss:''} \<and> hostname p \<noteq> [] \<and> username p = [] \<and> password p = []
     \<and> u = ws_protocol p @ ''//'' @ toLowerCase (host p) @ relay_path p"
  unfolding relay_url_of_parts_def throw_Inr by auto

lemma normalizeRelayUrl_Inr:
  "normalizeRelayUrl parse input = Inr u \<Longrightarrow> \<exists>s p. parse s = Some p \<and> relay_url_of_parts p = Inr u"
  by (auto simp: normalizeRelayUrl_def Let_def js_num split: option.splits)

lemma has_scheme_ws:
  "proto \<in> {''ws:'', ''wss:''} \<Longrightarrow> has_scheme (proto @ ''//'' @ rest)"
  by (auto simp: startsWith_def is_scheme_char_def is_lower_alpha_def is_upper_alpha_def is_digit_def
      char_code_def)

lemma normalize_with_scheme:
  assumes "has_scheme s" "\<forall>c \<in> set s. \<not> is_js_space c"
  shows "normalizeRelayUrl parse s =
           (case parse s of None \<Rightarrow> Inl ''Invalid URL'' | Some parsed \<Rightarrow> relay_url_of_parts parsed)"
proof -
  have "s \<noteq> []" using assms(1) by auto
  with assms js_trim_no_space [OF assms(2)] show ?thesis by (simp add: normalizeRelayUrl_def Let_def)
qed

lemma normalize_idem:
  assumes "url_reads_back parse" "normalizeRelayUrl parse input = Inr u"
  shows "normalizeRelayUrl parse u = Inr u"
proof -
  obtain s p where p: "parse s = Some p" "relay_url_of_parts p = Inr u"
    using normalizeRelayUrl_Inr [OF assms(2)] by blast
  note parts = p(2) [unfolded relay_url_of_parts_Inr]
  obtain n where n: "relay_path p = take n (pathname p)"
    unfolding relay_path_strip using strip_is_take by blast
  let ?q = "\<lparr>protocol = ws_protocol p, username = [], password = [], hostname = hostname p,
             host = host p, pathname = (if relay_path p = [] then ''/'' else relay_path p)\<rparr>"
  have low: "toLowerCase (host p) = host p" and sp: "\<forall>c \<in> set (host p @ pathname p). \<not> is_js_space c"
    and rd: "parse (ws_protocol p @ ''//'' @ host p @ relay_path p) = Some ?q"
    using assms(1) p(1) parts unfolding url_reads_back_def n by blast+
  have u: "u = ws_protocol p @ ''//'' @ host p @ relay_path p" using parts low by simp
  have "\<forall>c \<in> set (ws_protocol p @ ''//''). \<not> is_js_space c"
    using parts by (auto simp: is_js_space_def char_code_def)
  with sp have "\<forall>c \<in> set u. \<not> is_js_space c" unfolding u n by (auto dest: in_set_takeD)
  moreover have "has_scheme u" unfolding u using parts by (intro has_scheme_ws) simp
  ultimately have "normalizeRelayUrl parse u = relay_url_of_parts ?q"
    using normalize_with_scheme rd u by simp
  also have "\<dots> = Inr u"
    unfolding relay_url_of_parts_Inr
    using parts low u ws_protocol_reads [of p ?q] by (simp add: relay_path_strip)
  finally show ?thesis .
qed

subsection \<open>Histories of relay outcomes\<close>

text \<open>The three outcomes a caller reports, as one event, and the effect of a history of them.\<close>

datatype relay_event =
    Succeeded js_string int
  | Failed js_string int
  | Throttled js_string int

fun report :: "url_parser \<Rightarrow> relay_event \<Rightarrow> health \<Rightarrow> health" where
  "report parse (Succeeded u now) h = recordRelaySuccess parse u now h"
| "report parse (Failed u now) h = recordRelayFailure parse u now h"
| "report parse (Throttled u now) h = recordRelayRateLimit parse u now h"

definition reports :: "url_parser \<Rightarrow> relay_event list \<Rightarrow> health \<Rightarrow> health" where
  "reports parse es h = fold (report parse) es h"

fun event_url :: "relay_event \<Rightarrow> js_string" where
  "event_url (Succeeded u _) = u"
| "event_url (Failed u _) = u"
| "event_url (Throttled u _) = u"

text \<open>What an event makes of one record.\<close>

fun record_after :: "relay_event \<Rightarrow> RelayHealthRecord \<Rightarrow> RelayHealthRecord" where
  "record_after (Succeeded _ now) r =
     r\<lparr>consecutiveFailures := 0, lastSuccessAt := Some now, cooldownUntil := None\<rparr>"
| "record_after (Failed _ now) r = failed_record r now"
| "record_after (Throttled _ now) r = r\<lparr>lastFailureAt := Some now, rateLimitUntil := Some (now + 60000)\<rparr>"

lemma report_record:
  "report parse e h =
     (case tryNormalizeRelayUrl parse (event_url e) of
        None \<Rightarrow> h | Some u \<Rightarrow> table_put u (record_after e (ensureRecord u h)) h)"
  by (cases e) (simp_all add: health_ops split: option.split)

lemma report_get [store_simps]:
  "table_get (report parse e h) u =
     (if tryNormalizeRelayUrl parse (event_url e) = Some u
      then Some (record_after e (ensureRecord u h)) else table_get h u)"
  by (auto simp: report_record table_get_put split: option.splits)

lemma reports_simps [simp]:
  "reports parse [] h = h"
  "reports parse (e # es) h = reports parse es (report parse e h)"
  by (simp_all add: reports_def)

lemma ensureRecord_Some: "table_get h u = Some r \<Longrightarrow> ensureRecord u h = r"
  by (simp add: ensureRecord_def)

text \<open>Only the events of its own relay change a record.\<close>

lemma reports_get:
  "table_get h u = Some r \<Longrightarrow>
   table_get (reports parse es h) u =
     Some (fold record_after (filter (\<lambda>e. tryNormalizeRelayUrl parse (event_url e) = Some u) es) r)"
  by (induction es arbitrary: h r) (simp_all add: store_simps ensureRecord_Some)

lemma record_after_rate [simp]:
  "(\<forall>v t. e \<noteq> Throttled v t) \<Longrightarrow> rateLimitUntil (record_after e r) = rateLimitUntil r"
  by (cases e) (simp_all add: failed_record_def Let_def)

lemma fold_record_after_rate:
  "\<forall>e \<in> set es. \<forall>v t. e \<noteq> Throttled v t \<Longrightarrow> rateLimitUntil (fold record_after es r) = rateLimitUntil r"
  by (induction es arbitrary: r) simp_all

text \<open>The cooldown a run of failures ends in.\<close>

definition backoff :: "nat \<Rightarrow> int" where
  "backoff failures = min (BASE_COOLDOWN_MS * 2 ^ (failures - FAILURES_BEFORE_COOLDOWN)) MAX_COOLDOWN_MS"

lemma failed_record_fields [simp]:
  "consecutiveFailures (failed_record r now) = consecutiveFailures r + 1"
  "rateLimitUntil (failed_record r now) = rateLimitUntil r"
  "lastFailureAt (failed_record r now) = Some now"
  "lastSuccessAt (failed_record r now) = lastSuccessAt r"
  "cooldownUntil (failed_record r now) =
     (if consecutiveFailures r + 1 \<ge> FAILURES_BEFORE_COOLDOWN
      then Some (now + backoff (consecutiveFailures r + 1)) else cooldownUntil r)"
  by (simp_all add: failed_record_def Let_def backoff_def)

lemma failures_fold:
  "\<lbrakk>consecutiveFailures r = 0; cooldownUntil r = None; ts \<noteq> []\<rbrakk> \<Longrightarrow>
   let r' = fold record_after (map (Failed u) ts) r
   in consecutiveFailures r' = length ts
      \<and> cooldownUntil r' = (if length ts \<ge> 2 then Some (last ts + backoff (length ts)) else None)
      \<and> rateLimitUntil r' = rateLimitUntil r"
proof (induction ts rule: rev_induct)
  case (snoc t ts)
  then show ?case
    by (cases "ts = []") (auto simp: Let_def cooldown_constants Suc_le_eq neq_Nil_conv)
qed simp

lemma backoff_bounds: "BASE_COOLDOWN_MS \<le> backoff n" "backoff n \<le> MAX_COOLDOWN_MS"
  by (simp_all add: backoff_def cooldown_constants)

subsection \<open>Reachable health states\<close>

text \<open>Any history of reports and resets from the empty map.\<close>

inductive reachable_health :: "url_parser \<Rightarrow> health \<Rightarrow> bool" for parse where
  start: "reachable_health parse []"
| reported: "reachable_health parse h \<Longrightarrow> reachable_health parse (report parse e h)"
| reset: "reachable_health parse h \<Longrightarrow> reachable_health parse (resetRelayHealth h)"

definition record_ok :: "RelayHealthRecord \<Rightarrow> bool" where
  "record_ok r \<longleftrightarrow>
     (cooldownUntil r = None \<longleftrightarrow> consecutiveFailures r < FAILURES_BEFORE_COOLDOWN)
     \<and> (consecutiveFailures r > 0 \<or> rateLimitUntil r \<noteq> None \<longrightarrow> lastFailureAt r \<noteq> None)"

lemma record_ok_after: "record_ok r \<Longrightarrow> record_ok (record_after e r)"
  by (cases e) (auto simp: record_ok_def cooldown_constants split: option.splits)

lemma record_ok_new: "record_ok (ensureRecord u [])"
  by (simp add: record_ok_def ensureRecord_def table_get_def cooldown_constants)

lemma ensureRecord_ok:
  "(\<And>v r. table_get h v = Some r \<Longrightarrow> record_ok r \<and> url r = v) \<Longrightarrow>
   record_ok (ensureRecord u h) \<and> url (ensureRecord u h) = u"
  using record_ok_new [of u] by (auto simp: ensureRecord_def table_get_def split: option.splits)

lemma url_record_after [simp]: "url (record_after e r) = url r"
  by (cases e) (simp_all add: failed_record_def Let_def)

lemma reachable_records_ok:
  "reachable_health parse h \<Longrightarrow> table_get h u = Some r \<Longrightarrow> record_ok r \<and> url r = u"
proof (induction arbitrary: u r rule: reachable_health.induct)
  case (reported h e)
  then show ?case
    using ensureRecord_ok [of h] record_ok_after by (auto simp: store_simps split: if_split_asm)
qed (auto simp: resetRelayHealth_def table_get_def)

lemma partition_filter:
  "partitionByHealth parse us now h =
     (let ns = List.map_filter (tryNormalizeRelayUrl parse) us
      in (filter (\<lambda>n. \<not> isRelayInCooldown parse n now h) ns,
          filter (\<lambda>n. isRelayInCooldown parse n now h) ns))"
  by (induction us) (auto simp: List.map_filter_simps Let_def split: option.splits)

lemma snapshot_parked:
  assumes "tryNormalizeRelayUrl parse n = Some n" "0 \<le> now"
  shows "isRelayInCooldown parse n now h \<longleftrightarrow>
     or_else (Option.bind (table_get h n) cooldownUntil) 0 > now
     \<or> or_else (Option.bind (table_get h n) rateLimitUntil) 0 > now"
  using assms by (cases "table_get h n") (simp_all add: health_queries)

lemma tryNormalize_idem:
  "url_reads_back parse \<Longrightarrow> tryNormalizeRelayUrl parse s = Some n \<Longrightarrow> tryNormalizeRelayUrl parse n = Some n"
  unfolding tryNormalize_Some by (rule normalize_idem)

lemma snapshot_partition:
  assumes "url_reads_back parse" "0 \<le> now"
  shows "partitionByHealthSnapshot parse us (snapshotRelayHealth now h) = partitionByHealth parse us now h"
proof (induction us)
  case (Cons u us)
  show ?case
  proof (cases "tryNormalizeRelayUrl parse u")
    case (Some n)
    with Cons snapshot_parked [OF tryNormalize_idem [OF assms(1) Some] assms(2), of h] show ?thesis
      by (simp add: snapshotRelayHealth_def split: prod.split)
  qed (simp add: Cons)
qed simp

subsection \<open>The normalization cache\<close>

definition cache_ok :: "url_parser \<Rightarrow> js_string table \<Rightarrow> bool" where
  "cache_ok parse cache \<longleftrightarrow>
     length cache \<le> MAX_NORMALIZE_RELAY_URL_CACHE
     \<and> (\<forall>k v. table_get cache k = Some v \<longrightarrow> normalizeRelayUrl parse k = Inr v)"

lemma length_table_put: "length (table_put k v t) \<le> Suc (length t)"
  by (induction k v t rule: table_put.induct) auto

lemma cached_ok:
  assumes "cache_ok parse cache"
  shows "fst (normalizeRelayUrl_cached parse input cache) = normalizeRelayUrl parse input"
    and "cache_ok parse (snd (normalizeRelayUrl_cached parse input cache))"
proof -
  let ?c = "if length cache \<ge> MAX_NORMALIZE_RELAY_URL_CACHE then [] else cache"
  have len: "length (table_put input v ?c) \<le> MAX_NORMALIZE_RELAY_URL_CACHE" for v
    using length_table_put [of input v ?c] by (auto simp: MAX_NORMALIZE_RELAY_URL_CACHE_def)
  have get: "table_get ?c k = Some v \<Longrightarrow> table_get cache k = Some v" for k v
    by (auto simp: table_get_def split: if_split_asm)
  show "fst (normalizeRelayUrl_cached parse input cache) = normalizeRelayUrl parse input"
    using assms by (auto simp: normalizeRelayUrl_cached_def cache_ok_def Let_def
        split: option.splits sum.splits)
  show "cache_ok parse (snd (normalizeRelayUrl_cached parse input cache))"
  proof (cases "table_get cache input")
    case None
    show ?thesis
    proof (cases "normalizeRelayUrl parse input")
      case (Inl e)
      with None assms show ?thesis by (simp add: normalizeRelayUrl_cached_def)
    next
      case (Inr v)
      have "snd (normalizeRelayUrl_cached parse input cache) = table_put input v ?c"
        using None Inr by (simp add: normalizeRelayUrl_cached_def Let_def)
      moreover have "cache_ok parse (table_put input v ?c)"
        unfolding cache_ok_def table_get_put
        using len [of v] get assms Inr unfolding cache_ok_def by (metis option.inject)
      ultimately show ?thesis by (simp only:)
    qed
  next
    case (Some v)
    then show ?thesis using assms by (simp add: normalizeRelayUrl_cached_def)
  qed
qed

subsection \<open>Properties\<close>

text \<open>The parser the witnesses run on: one host, reached over either WebSocket scheme.\<close>

definition sample_parts :: "js_string \<Rightarrow> url_parts" where
  "sample_parts proto = \<lparr>protocol = proto, username = [], password = [], hostname = ''r.io'',
                         host = ''r.io'', pathname = ''/''\<rparr>"

definition sample_parse :: url_parser where
  "sample_parse s =
     (if s = ''wss://r.io'' \<or> s = ''wss://r.io/'' then Some (sample_parts ''wss:'')
      else if s = ''ws://r.io'' \<or> s = ''ws://r.io/'' then Some (sample_parts ''ws:'')
      else if s = ''https://r.io'' then Some (sample_parts ''https:'')
      else None)"

lemma sample_parse_Some:
  "sample_parse s = Some p \<Longrightarrow> p \<in> {sample_parts ''wss:'', sample_parts ''ws:'', sample_parts ''https:''}"
  by (auto simp: sample_parse_def split: if_split_asm)

lemma sample_parse_reads:
  "sample_parse (''wss://r.io'' @ t) = Some (sample_parts ''wss:'')"
  "sample_parse (''ws://r.io'' @ t) = Some (sample_parts ''ws:'')" if "t = [] \<or> t = ''/''"
  using that by (auto simp: sample_parse_def)

lemma sample_reads_back: "url_reads_back sample_parse"
  unfolding url_reads_back_def
proof (intro allI impI)
  fix s p
  assume "sample_parse s = Some p \<and> ws_protocol p \<in> {''ws:'', ''wss:''}"
  then consider "p = sample_parts ''wss:''" | "p = sample_parts ''ws:''" | "p = sample_parts ''https:''"
    using sample_parse_Some by blast
  then obtain proto where proto: "ws_protocol p = proto" "proto = ''ws:'' \<or> proto = ''wss:''"
      "host p = ''r.io''" "hostname p = ''r.io''" "pathname p = ''/''"
    by cases (simp_all add: sample_parts_def ws_protocol_def)
  have "\<forall>c \<in> set (''r.io'' @ ''/''). \<not> is_js_space c"
    by (simp add: is_js_space_def char_code_def)
  moreover have "toLowerCase ''r.io'' = ''r.io''"
    by (simp add: toLowerCase_def char_lower_def char_code_def)
  moreover have "sample_parse (proto @ ''//'' @ ''r.io'' @ take n ''/'') = Some (sample_parts proto)" for n
    using proto(2) sample_parse_reads [of "take n ''/''"] by (cases n) auto
  moreover have "(if take n ''/'' = [] then ''/'' else take n ''/'') = ''/''" for n by (cases n) simp_all
  ultimately show "toLowerCase (host p) = host p
      \<and> (\<forall>c \<in> set (host p @ pathname p). \<not> is_js_space c)
      \<and> (\<forall>n. sample_parse (ws_protocol p @ ''//'' @ host p @ take n (pathname p)) =
             Some \<lparr>protocol = ws_protocol p, username = [], password = [], hostname = hostname p,
                   host = host p,
                   pathname = (if take n (pathname p) = [] then ''/'' else take n (pathname p))\<rparr>)"
    unfolding proto sample_parts_def by simp
qed

lemma sample_url_normal: "tryNormalizeRelayUrl sample_parse ''r.io'' = Some ''wss://r.io''"
  by code_simp

text \<open>Normalizing a relay URL is idempotent: the text \<open>normalizeRelayUrl\<close> returns is a
  WebSocket URL, and normalizing it again returns it unchanged, given that a serialized URL
  reads back as its components.\<close>

theorem normalized_relay_url_is_stable:
  assumes "url_reads_back parse" "normalizeRelayUrl parse input = Inr u"
  shows "normalizeRelayUrl parse u = Inr u \<and> (startsWith u ''ws://'' \<or> startsWith u ''wss://'')"
proof -
  obtain p where "relay_url_of_parts p = Inr u" using normalizeRelayUrl_Inr [OF assms(2)] by blast
  then show ?thesis
    using normalize_idem [OF assms] by (auto simp: relay_url_of_parts_Inr startsWith_def)
qed

theorem normalized_relay_url_is_stable_witness:
  "normalizeRelayUrl sample_parse ''wss://r.io'' = Inr ''wss://r.io''
   \<and> (startsWith ''wss://r.io'' ''ws://'' \<or> startsWith ''wss://r.io'' ''wss://'')"
  using normalized_relay_url_is_stable [OF sample_reads_back, of "''r.io''" "''wss://r.io''"]
    sample_url_normal by (simp add: tryNormalize_Some)

text \<open>The memo table of \<open>normalizeRelayUrl\<close> is transparent: with a cache that holds only
  results of earlier calls and at most 2000 of them, a call returns what the uncached
  function returns and leaves such a cache.\<close>

theorem normalize_cache_transparent:
  assumes "cache_ok parse cache"
  shows "fst (normalizeRelayUrl_cached parse input cache) = normalizeRelayUrl parse input
    \<and> cache_ok parse (snd (normalizeRelayUrl_cached parse input cache))"
  using cached_ok [OF assms] by simp

theorem normalize_cache_transparent_witness:
  "fst (normalizeRelayUrl_cached sample_parse ''r.io'' []) = normalizeRelayUrl sample_parse ''r.io''
   \<and> cache_ok sample_parse (snd (normalizeRelayUrl_cached sample_parse ''r.io'' []))"
  by (rule normalize_cache_transparent) (simp add: cache_ok_def table_get_def)

text \<open>A run of consecutive failures after a success parks a relay with exponential back-off:
  one failure does not park it, and from the second on it is parked until
  30 seconds, doubled for every further failure and capped at 30 minutes, after the last
  failure, or until a throttle it had before runs out.\<close>

theorem failures_back_off_exponentially:
  assumes "tryNormalizeRelayUrl parse u = Some n" "ts \<noteq> []" "0 \<le> now"
  shows "isRelayInCooldown parse u now (reports parse (Succeeded u t0 # map (Failed u) ts) h) \<longleftrightarrow>
     (2 \<le> length ts \<and> now < last ts + min (30000 * 2 ^ (length ts - 2)) 1800000)
     \<or> isRelayRateLimited parse u now h"
proof -
  let ?init = "record_after (Succeeded u t0) (ensureRecord n h)"
  let ?r = "fold record_after (map (Failed u) ts) ?init"
  have "table_get (report parse (Succeeded u t0) h) n = Some ?init"
    using assms(1) by (simp add: report_get del: report.simps record_after.simps)
  from reports_get [OF this, of parse "map (Failed u) ts"]
  have "table_get (reports parse (Succeeded u t0 # map (Failed u) ts) h) n =
      Some (fold record_after (filter (\<lambda>e. tryNormalizeRelayUrl parse (event_url e) = Some n) (map (Failed u) ts)) ?init)"
    by (simp only: reports_simps)
  also have "filter (\<lambda>e. tryNormalizeRelayUrl parse (event_url e) = Some n) (map (Failed u) ts) = map (Failed u) ts"
    using assms(1) by (simp add: filter_map comp_def)
  finally have "table_get (reports parse (Succeeded u t0 # map (Failed u) ts) h) n = Some ?r" .
  moreover have "or_else (rateLimitUntil (ensureRecord n h)) 0 > now \<longleftrightarrow> isRelayRateLimited parse u now h"
    using assms by (simp add: health_queries ensureRecord_def split: option.split)
  ultimately show ?thesis
    using failures_fold [of ?init ts u] assms
    by (simp add: health_queries Let_def backoff_def cooldown_constants)
qed

theorem failures_back_off_exponentially_witness:
  "isRelayInCooldown sample_parse ''r.io'' 61000
     (reports sample_parse (Succeeded ''r.io'' 0 # map (Failed ''r.io'') [1000, 2000, 3000]) []) \<longleftrightarrow>
   (2 \<le> length [1000, 2000, 3000 :: int]
      \<and> 61000 < last [1000, 2000, 3000 :: int] + min (30000 * 2 ^ (length [1000, 2000, 3000 :: int] - 2)) 1800000)
   \<or> isRelayRateLimited sample_parse ''r.io'' 61000 []"
  by (rule failures_back_off_exponentially [OF sample_url_normal]) simp_all

text \<open>A relay that throttled a client stays excluded for exactly one minute: no later success
  or failure, of this relay or of another, lifts or extends the throttle.\<close>

theorem throttle_lasts_one_minute:
  assumes "tryNormalizeRelayUrl parse u = Some n" "\<forall>e \<in> set es. \<forall>v t. e \<noteq> Throttled v t"
  shows "(isRelayRateLimited parse u now (reports parse (Throttled u t # es) h) \<longleftrightarrow> now < t + 60000)
    \<and> (now < t + 60000 \<longrightarrow> isRelayInCooldown parse u now (reports parse (Throttled u t # es) h))"
proof -
  let ?init = "record_after (Throttled u t) (ensureRecord n h)"
  let ?es = "filter (\<lambda>e. tryNormalizeRelayUrl parse (event_url e) = Some n) es"
  have "table_get (report parse (Throttled u t) h) n = Some ?init"
    using assms(1) by (simp add: report_get del: report.simps record_after.simps)
  from reports_get [OF this, of parse es]
  have "table_get (reports parse (Throttled u t # es) h) n = Some (fold record_after ?es ?init)"
    by simp
  moreover have "rateLimitUntil (fold record_after ?es ?init) = Some (t + 60000)"
    using assms(2) by (subst fold_record_after_rate) simp_all
  ultimately show ?thesis using assms(1) by (simp add: health_queries)
qed

theorem throttle_lasts_one_minute_witness:
  "isRelayRateLimited sample_parse ''r.io'' 60500
      (reports sample_parse (Throttled ''r.io'' 1000 # [Succeeded ''r.io'' 2000]) [])
   \<and> isRelayInCooldown sample_parse ''r.io'' 60500
      (reports sample_parse (Throttled ''r.io'' 1000 # [Succeeded ''r.io'' 2000]) [])"
  using throttle_lasts_one_minute [OF sample_url_normal, of "[Succeeded ''r.io'' 2000]" 60500 1000 "[]"]
  by simp

text \<open>A snapshot decides as the live records do: partitioning URLs with a snapshot taken at a
  time gives what the live partition gives at that time, and the live partition splits the
  valid URLs, in their order, by their cooldown.\<close>

theorem snapshot_partition_agrees:
  assumes "url_reads_back parse" "0 \<le> now"
  shows "partitionByHealthSnapshot parse us (snapshotRelayHealth now h) = partitionByHealth parse us now h
    \<and> partitionByHealth parse us now h =
        (let ns = List.map_filter (tryNormalizeRelayUrl parse) us
         in (filter (\<lambda>n. \<not> isRelayInCooldown parse n now h) ns,
             filter (\<lambda>n. isRelayInCooldown parse n now h) ns))"
  using snapshot_partition [OF assms] partition_filter by blast

theorem snapshot_partition_agrees_witness:
  "partitionByHealthSnapshot sample_parse [''r.io''] (snapshotRelayHealth 5 []) = partitionByHealth sample_parse [''r.io''] 5 []
   \<and> partitionByHealth sample_parse [''r.io''] 5 [] =
        (let ns = List.map_filter (tryNormalizeRelayUrl sample_parse) [''r.io'']
         in (filter (\<lambda>n. \<not> isRelayInCooldown sample_parse n 5 []) ns,
             filter (\<lambda>n. isRelayInCooldown sample_parse n 5 []) ns))"
  by (rule snapshot_partition_agrees [OF sample_reads_back]) simp

text \<open>Every health state that reports and resets can reach is consistent: a record is stored
  under its own URL, it has a cooldown exactly from the second consecutive failure on, and a
  record that counts a failure or a throttle has the time of one.\<close>

theorem reachable_health_consistent:
  assumes "reachable_health parse h" "table_get h u = Some r"
  shows "url r = u \<and> (cooldownUntil r \<noteq> None \<longleftrightarrow> consecutiveFailures r \<ge> 2)
    \<and> (consecutiveFailures r > 0 \<or> rateLimitUntil r \<noteq> None \<longrightarrow> lastFailureAt r \<noteq> None)"
  using reachable_records_ok [OF assms] by (auto simp: record_ok_def cooldown_constants)

theorem reachable_health_consistent_witness:
  "let r = record_after (Failed ''r.io'' 7) (ensureRecord ''wss://r.io'' [])
   in url r = ''wss://r.io'' \<and> cooldownUntil r = None \<and> consecutiveFailures r < 2"
proof -
  let ?h = "report sample_parse (Failed ''r.io'' 7) []"
  have "reachable_health sample_parse ?h" by (intro reachable_health.intros)
  moreover have "table_get ?h ''wss://r.io'' = Some (record_after (Failed ''r.io'' 7) (ensureRecord ''wss://r.io'' []))"
    by (simp add: report_get sample_url_normal del: report.simps record_after.simps)
  ultimately show ?thesis
    using reachable_health_consistent [of sample_parse ?h "''wss://r.io''"]
    by (simp add: Let_def ensureRecord_def table_get_def failed_record_def cooldown_constants)
qed

end
