(* ===== verification/Spark_Fees.thy ===== *)
theory Spark_Fees
  imports Complex_Main Js_Prelude
begin

text \<open>
  Checkout economics: the Conduit fee of \<open>checkout-spark-router-obligations.ts\<close> and the settled
  allocation of \<open>checkout-spark-settled-allocation.ts\<close>.  Every amount arrives as a
  \<open>js_number\<close>, because each function validates it itself; a result is a plain integer, or the
  message of the error the code throws.  BigInt arithmetic is integer arithmetic; the lemmas on
  safe integers show that the few sums the code makes in double arithmetic are exact.
\<close>

type_synonym fee_policy = "js_string option"

subsection \<open>The Conduit fee\<close>

definition CONDUIT_FEE_NUMERATOR :: int where "CONDUIT_FEE_NUMERATOR = 21"
definition CONDUIT_FEE_DENOMINATOR :: int where "CONDUIT_FEE_DENOMINATOR = 1000"
definition CONDUIT_FEE_FLOOR_SATS :: int where "CONDUIT_FEE_FLOOR_SATS = 111"

definition CHECKOUT_SPARK_CURRENT_CONDUIT_FEE_POLICY :: js_string where
  "CHECKOUT_SPARK_CURRENT_CONDUIT_FEE_POLICY = ''percentage-only-v1''"

lemmas fee_constants =
  CONDUIT_FEE_NUMERATOR_def CONDUIT_FEE_DENOMINATOR_def CONDUIT_FEE_FLOOR_SATS_def

definition CONDUIT_CHECKOUT_FEE_RECIPIENT :: js_string where
  "CONDUIT_CHECKOUT_FEE_RECIPIENT = ''conduithodlings@strike.me''"

definition CONDUIT_CHECKOUT_LOCAL_CANARY_FEE_RECIPIENT :: js_string where
  "CONDUIT_CHECKOUT_LOCAL_CANARY_FEE_RECIPIENT = ''conduit-tester@rizful.com''"

definition checkoutSparkConduitFeeRecipient :: "js_string \<Rightarrow> js_string result" where
  "checkoutSparkConduitFeeRecipient policy =
     (if policy = ''production'' then Inr CONDUIT_CHECKOUT_FEE_RECIPIENT
      else if policy = ''local_router_canary'' then Inr CONDUIT_CHECKOUT_LOCAL_CANARY_FEE_RECIPIENT
      else Inl ''Checkout Spark Conduit destination policy is invalid.'')"

definition checkoutSparkConduitFeePolicyForNewPlan ::
    "js_number \<Rightarrow> js_number \<Rightarrow> fee_policy result" where
  "checkoutSparkConduitFeePolicyForNewPlan commerceTotalSats organizerFeeSats =
     (case (safe_value commerceTotalSats, safe_value organizerFeeSats) of
        (Some c, Some f) \<Rightarrow>
          if c < 0 \<or> f < 0 then Inl ''Checkout Spark fee policy amounts are invalid.''
          else Inr (if c = 0 \<and> f > 0 then None
                    else Some CHECKOUT_SPARK_CURRENT_CONDUIT_FEE_POLICY)
      | _ \<Rightarrow> Inl ''Checkout Spark fee policy amounts are invalid.'')"

definition normalizePositiveSats :: "js_number \<Rightarrow> js_string \<Rightarrow> int result" where
  "normalizePositiveSats value label =
     (case safe_value value of
        Some v \<Rightarrow> if v \<le> 0 then Inl (''Checkout Spark '' @ label @ '' is invalid.'') else Inr v
      | None \<Rightarrow> Inl (''Checkout Spark '' @ label @ '' is invalid.''))"

definition normalizeFeeSats :: "js_number \<Rightarrow> int result" where
  "normalizeFeeSats value =
     (case safe_value value of
        Some v \<Rightarrow> if v < 0 then Inl ''Checkout Spark maximum fee is invalid.'' else Inr v
      | None \<Rightarrow> Inl ''Checkout Spark maximum fee is invalid.'')"

definition normalizeBoundedString :: "js_string \<Rightarrow> js_string \<Rightarrow> nat \<Rightarrow> js_string result" where
  "normalizeBoundedString value label maxLength =
     (let normalized = js_trim value
      in if normalized = [] \<or> length normalized > maxLength
         then Inl (''Checkout Spark '' @ label @ '' is invalid.'')
         else Inr normalized)"

definition safeNumber :: "int \<Rightarrow> js_string \<Rightarrow> int result" where
  "safeNumber value label =
     (if value > MAX_SAFE_INTEGER then Inl (''Checkout Spark '' @ label @ '' is unsafe.'')
      else Inr value)"

definition calculateConduitCheckoutFeeSats :: "js_number \<Rightarrow> fee_policy \<Rightarrow> int result" where
  "calculateConduitCheckoutFeeSats commerceTotalSats conduitFeePolicy =
     (if conduitFeePolicy \<noteq> None \<and> conduitFeePolicy \<noteq> Some CHECKOUT_SPARK_CURRENT_CONDUIT_FEE_POLICY
      then Inl ''Checkout Spark Conduit fee policy is invalid.''
      else if conduitFeePolicy \<noteq> None \<and> commerceTotalSats = JSInt 0 then Inr 0
      else bind_result (normalizePositiveSats commerceTotalSats ''commerce total'')
        (\<lambda>commerceTotal.
          let percentageFee =
                (commerceTotal * CONDUIT_FEE_NUMERATOR + CONDUIT_FEE_DENOMINATOR - 1)
                  div CONDUIT_FEE_DENOMINATOR
          in safeNumber
               (if conduitFeePolicy \<noteq> None \<or> percentageFee > CONDUIT_FEE_FLOOR_SATS
                then percentageFee else CONDUIT_FEE_FLOOR_SATS)
               ''Conduit fee''))"

subsection \<open>Allocation weights and gross funding\<close>

definition INBOUND_ALLOWANCE_NUMERATOR :: int where "INBOUND_ALLOWANCE_NUMERATOR = 15"
definition INBOUND_ALLOWANCE_DENOMINATOR :: int where "INBOUND_ALLOWANCE_DENOMINATOR = 10000"

record CheckoutSparkAllocationWeights =
  commerceWeightSats :: js_number
  conduitWeightSats :: js_number

record CheckoutSparkEventAllocationWeights = CheckoutSparkAllocationWeights +
  organizerWeightSats :: js_number

record CheckoutSparkSettledAllocation =
  commerceAllocationSats :: int
  conduitAllocationSats :: int

record CheckoutSparkEventSettledAllocation = CheckoutSparkSettledAllocation +
  organizerAllocationSats :: int

definition calculateCheckoutSparkEventAllocationWeights ::
    "js_number \<Rightarrow> js_number \<Rightarrow> fee_policy \<Rightarrow> CheckoutSparkEventAllocationWeights result" where
  "calculateCheckoutSparkEventAllocationWeights commerceTotalSats organizerFeeSats conduitFeePolicy =
     (case (safe_value commerceTotalSats, safe_value organizerFeeSats) of
        (Some c, Some f) \<Rightarrow>
          if c < 0 \<or> f < 0 \<or> (c = 0 \<and> f = 0)
          then Inl ''Checkout Spark event allocation weights are invalid.''
          else bind_result
            (calculateConduitCheckoutFeeSats
               (JSInt (if conduitFeePolicy = None then (if c = 0 then 1 else c) else c))
               conduitFeePolicy)
            (\<lambda>d. if c + f + d > MAX_SAFE_INTEGER
                 then Inl ''Checkout Spark event allocation weights are unsafe.''
                 else Inr \<lparr>commerceWeightSats = JSInt c, conduitWeightSats = JSInt d,
                           organizerWeightSats = JSInt f\<rparr>)
      | _ \<Rightarrow> Inl ''Checkout Spark event allocation weights are invalid.'')"

definition calculateCheckoutSparkAllocationWeights ::
    "js_number \<Rightarrow> fee_policy \<Rightarrow> CheckoutSparkAllocationWeights result" where
  "calculateCheckoutSparkAllocationWeights commerceTotalSats conduitFeePolicy =
     (case safe_value commerceTotalSats of
        Some c \<Rightarrow>
          if c \<le> 0 then Inl ''Checkout Spark allocation weights are invalid.''
          else bind_result (calculateConduitCheckoutFeeSats commerceTotalSats conduitFeePolicy)
            (\<lambda>d. if c + d > MAX_SAFE_INTEGER
                 then Inl ''Checkout Spark allocation weights are unsafe.''
                 else Inr \<lparr>commerceWeightSats = JSInt c, conduitWeightSats = JSInt d\<rparr>)
      | None \<Rightarrow> Inl ''Checkout Spark allocation weights are invalid.'')"

definition calculateCheckoutSparkInboundNetworkAllowanceSats :: "js_number \<Rightarrow> int result" where
  "calculateCheckoutSparkInboundNetworkAllowanceSats commerceTotalSats =
     (case safe_value commerceTotalSats of
        Some c \<Rightarrow>
          if c \<le> 0 then Inl ''Checkout Spark inbound allowance base is invalid.''
          else Inr ((c * INBOUND_ALLOWANCE_NUMERATOR + INBOUND_ALLOWANCE_DENOMINATOR - 1)
                      div INBOUND_ALLOWANCE_DENOMINATOR)
      | None \<Rightarrow> Inl ''Checkout Spark inbound allowance base is invalid.'')"

text \<open>The integer value of a weight that the code computed itself.\<close>

fun int_of_number :: "js_number \<Rightarrow> int" where
  "int_of_number (JSInt i) = i"
| "int_of_number JSOther = 0"

definition calculateCheckoutSparkEventSettledGrossFundingSats ::
    "js_number \<Rightarrow> js_number \<Rightarrow> fee_policy \<Rightarrow> int result" where
  "calculateCheckoutSparkEventSettledGrossFundingSats commerceTotalSats organizerFeeSats conduitFeePolicy =
     bind_result
       (calculateCheckoutSparkEventAllocationWeights commerceTotalSats organizerFeeSats conduitFeePolicy)
       (\<lambda>weights.
          let allowanceBase = int_of_number commerceTotalSats + int_of_number organizerFeeSats
          in bind_result (calculateCheckoutSparkInboundNetworkAllowanceSats (JSInt allowanceBase))
               (\<lambda>allowance.
                  let gross = allowanceBase + int_of_number (conduitWeightSats weights) + allowance
                  in if gross * 1000 > MAX_SAFE_INTEGER
                     then Inl ''Checkout Spark event gross funding is unsafe.''
                     else Inr gross))"

definition calculateCheckoutSparkSettledGrossFundingSats ::
    "js_number \<Rightarrow> fee_policy \<Rightarrow> int result" where
  "calculateCheckoutSparkSettledGrossFundingSats commerceTotalSats conduitFeePolicy =
     bind_result (calculateCheckoutSparkAllocationWeights commerceTotalSats conduitFeePolicy)
       (\<lambda>weights.
          bind_result (calculateCheckoutSparkInboundNetworkAllowanceSats commerceTotalSats)
            (\<lambda>allowance.
               let gross = int_of_number (commerceWeightSats weights)
                         + int_of_number (conduitWeightSats weights) + allowance
               in if gross * 1000 > MAX_SAFE_INTEGER
                  then Inl ''Checkout Spark gross funding is unsafe.''
                  else Inr gross))"

subsection \<open>Allocation of a settled receive\<close>

definition allocateCheckoutSparkSettledSats ::
    "js_number \<Rightarrow> js_number \<Rightarrow> 'a CheckoutSparkAllocationWeights_scheme \<Rightarrow> fee_policy \<Rightarrow>
     CheckoutSparkSettledAllocation result" where
  "allocateCheckoutSparkSettledSats settledSats fundingInvoiceGrossSats weights conduitFeePolicy =
     (case (safe_value settledSats, safe_value fundingInvoiceGrossSats) of
        (Some settled, Some gross) \<Rightarrow>
          if settled \<le> 0 \<or> gross \<le> 0 \<or> settled > gross
          then Inl ''Checkout Spark settled amount is invalid.''
          else (case (safe_value (commerceWeightSats weights), safe_value (conduitWeightSats weights)) of
            (Some c, Some d) \<Rightarrow>
              if c \<le> 0 then Inl ''Checkout Spark allocation weights are invalid.''
              else bind_result (calculateConduitCheckoutFeeSats (JSInt c) conduitFeePolicy)
                (\<lambda>fee.
                   if d \<noteq> fee then Inl ''Checkout Spark allocation weights are invalid.''
                   else let totalWeight = c + d
                        in if totalWeight > MAX_SAFE_INTEGER
                           then Inl ''Checkout Spark allocation weights are unsafe.''
                           else if gross < totalWeight
                           then Inl ''Checkout Spark funding invoice is below frozen weights.''
                           else let conduit = (settled * d) div totalWeight
                                in Inr \<lparr>commerceAllocationSats = settled - conduit,
                                        conduitAllocationSats = conduit\<rparr>)
          | _ \<Rightarrow> Inl ''Checkout Spark allocation weights are invalid.'')
      | _ \<Rightarrow> Inl ''Checkout Spark settled amount is invalid.'')"

definition allocateCheckoutSparkEventSettledSats ::
    "js_number \<Rightarrow> js_number \<Rightarrow> CheckoutSparkEventAllocationWeights \<Rightarrow> fee_policy \<Rightarrow>
     CheckoutSparkEventSettledAllocation result" where
  "allocateCheckoutSparkEventSettledSats settledSats fundingInvoiceGrossSats weights conduitFeePolicy =
     bind_result
       (calculateCheckoutSparkEventAllocationWeights (commerceWeightSats weights)
          (organizerWeightSats weights) conduitFeePolicy)
       (\<lambda>expected.
          let uncovered = ''Checkout Spark event credit does not cover frozen obligations.'';
              c = int_of_number (commerceWeightSats expected);
              d = int_of_number (conduitWeightSats expected);
              f = int_of_number (organizerWeightSats expected)
          in if conduitWeightSats expected \<noteq> conduitWeightSats weights then Inl uncovered
             else case (safe_value settledSats, safe_value fundingInvoiceGrossSats) of
               (Some settled, Some gross) \<Rightarrow>
                 if settled > gross \<or> settled < c + d + f then Inl uncovered
                 else bind_result
                   (calculateCheckoutSparkEventSettledGrossFundingSats
                      (commerceWeightSats expected) (organizerWeightSats expected) conduitFeePolicy)
                   (\<lambda>expectedGross.
                      if gross \<noteq> expectedGross then Inl uncovered
                      else let remaining = settled - f
                           in if c = 0
                              then Inr \<lparr>commerceAllocationSats = 0, conduitAllocationSats = remaining,
                                        organizerAllocationSats = f\<rparr>
                              else bind_result
                                (allocateCheckoutSparkSettledSats (JSInt remaining) (JSInt (gross - f))
                                   weights conduitFeePolicy)
                                (\<lambda>divided. Inr
                                   \<lparr>commerceAllocationSats = commerceAllocationSats divided,
                                    conduitAllocationSats = conduitAllocationSats divided,
                                    organizerAllocationSats = f\<rparr>))
             | _ \<Rightarrow> Inl uncovered)"

subsection \<open>The buyer's price\<close>

record CheckoutSparkBuyerPrice =
  itemSubtotalSats :: int
  shippingSubtotalSats :: int
  commerceTotalSats :: int
  conduitFeeSats :: int
  networkAllowanceSats :: int
  coordinationFeeSats :: int
  totalSats :: int
  minimumApplies :: bool

record CheckoutSparkEventBuyerPrice = CheckoutSparkBuyerPrice +
  organizerFeeSats :: int

definition calculateCheckoutSparkBuyerPrice ::
    "js_number \<Rightarrow> js_number \<Rightarrow> fee_policy \<Rightarrow> CheckoutSparkBuyerPrice result" where
  "calculateCheckoutSparkBuyerPrice itemSubtotal shippingSubtotal conduitFeePolicy =
     (case (safe_value itemSubtotal, safe_value shippingSubtotal) of
        (Some items, Some shipping) \<Rightarrow>
          if items < 0 \<or> shipping < 0 \<or> items + shipping > MAX_SAFE_INTEGER
          then Inl ''Checkout Spark buyer price is invalid.''
          else let commerce = items + shipping
          in bind_result
            (if commerce = 0 then Inr 0
             else calculateCheckoutSparkSettledGrossFundingSats (JSInt commerce) conduitFeePolicy)
            (\<lambda>total.
          bind_result
            (if commerce = 0 \<and> conduitFeePolicy = None then Inr 0
             else calculateConduitCheckoutFeeSats (JSInt commerce) conduitFeePolicy)
            (\<lambda>conduitFee.
          bind_result (calculateConduitCheckoutFeeSats (JSInt 1) None)
            (\<lambda>minimumFee. Inr
               \<lparr>itemSubtotalSats = items, shippingSubtotalSats = shipping,
                commerceTotalSats = commerce, conduitFeeSats = conduitFee,
                networkAllowanceSats = total - commerce - conduitFee,
                coordinationFeeSats = total - commerce, totalSats = total,
                minimumApplies = (conduitFeePolicy = None \<and> conduitFee = minimumFee)\<rparr>)))
      | _ \<Rightarrow> Inl ''Checkout Spark buyer price is invalid.'')"

definition calculateCheckoutSparkEventBuyerPrice ::
    "js_number \<Rightarrow> js_number \<Rightarrow> js_number \<Rightarrow> fee_policy \<Rightarrow> CheckoutSparkEventBuyerPrice result" where
  "calculateCheckoutSparkEventBuyerPrice itemSubtotal shippingSubtotal organizerFee conduitFeePolicy =
     bind_result (calculateCheckoutSparkBuyerPrice itemSubtotal shippingSubtotal conduitFeePolicy)
       (\<lambda>ordinary.
          let commerce = commerceTotalSats ordinary
          in if commerce = 0 \<and> organizerFee = JSInt 0
             then Inr (CheckoutSparkBuyerPrice.extend ordinary \<lparr>organizerFeeSats = 0\<rparr>)
             else bind_result
               (calculateCheckoutSparkEventAllocationWeights (JSInt commerce) organizerFee conduitFeePolicy)
               (\<lambda>weights.
             bind_result
               (calculateCheckoutSparkEventSettledGrossFundingSats (JSInt commerce) organizerFee conduitFeePolicy)
               (\<lambda>total.
             bind_result (calculateConduitCheckoutFeeSats (JSInt 1) None)
               (\<lambda>minimumFee.
             let d = int_of_number (conduitWeightSats weights);
                 f = int_of_number (organizerWeightSats weights)
             in Inr (CheckoutSparkBuyerPrice.extend
                  (ordinary
                     \<lparr>conduitFeeSats := d,
                      networkAllowanceSats := total - commerce - d - f,
                      coordinationFeeSats := total - commerce - f,
                      totalSats := total,
                      minimumApplies := (conduitFeePolicy = None \<and> d = minimumFee)\<rparr>)
                  \<lparr>organizerFeeSats = f\<rparr>)))))"

subsection \<open>What the fee functions return\<close>

lemma normalizePositiveSats_Inr [js_num]:
  "normalizePositiveSats x l = Inr v \<longleftrightarrow> x = JSInt v \<and> is_safe v \<and> 0 < v"
  by (cases x) (auto simp: normalizePositiveSats_def)

lemma normalizeFeeSats_Inr [js_num]:
  "normalizeFeeSats x = Inr v \<longleftrightarrow> x = JSInt v \<and> is_safe v \<and> 0 \<le> v"
  by (cases x) (auto simp: normalizeFeeSats_def)

lemma safeNumber_Inr [js_num]: "safeNumber v l = Inr w \<longleftrightarrow> w = v \<and> v \<le> MAX_SAFE_INTEGER"
  by (auto simp: safeNumber_def)

lemma conduit_fee_Inr:
  "calculateConduitCheckoutFeeSats x p = Inr d \<longleftrightarrow>
     (p = None \<or> p = Some CHECKOUT_SPARK_CURRENT_CONDUIT_FEE_POLICY) \<and>
     (if p \<noteq> None \<and> x = JSInt 0 then d = 0
      else \<exists>c. x = JSInt c \<and> is_safe c \<and> 0 < c \<and> d \<le> MAX_SAFE_INTEGER \<and>
        d = (if p = None then max 111 ((c * 21 + 999) div 1000) else (c * 21 + 999) div 1000))"
proof -
  have m: "(if b \<or> 111 < q then q else 111) = (if b then q else max 111 q)" for b and q :: int
    by (simp add: max_def)
  show ?thesis
    unfolding calculateConduitCheckoutFeeSats_def bind_result_Inr normalizePositiveSats_Inr
      safeNumber_Inr throw_Inr Let_def fee_constants m add_diff_eq [symmetric]
    by (cases p; cases "x = JSInt 0")
      (auto simp: bind_result_Inr normalizePositiveSats_Inr safeNumber_Inr simp del: max_less_iff_conj)
qed

lemma conduit_fee_bounds:
  assumes "calculateConduitCheckoutFeeSats (JSInt c) p = Inr d"
  shows "0 \<le> d" "0 \<le> c" "is_safe d" "is_safe c" "21 * c \<le> 1000 * d"
    "1000 * d \<le> max (21 * c + 999) 111000"
proof -
  have "0 \<le> d \<and> 0 \<le> c \<and> is_safe d \<and> is_safe c \<and> 21 * c \<le> 1000 * d
      \<and> 1000 * d \<le> max (21 * c + 999) 111000"
    using assms unfolding conduit_fee_Inr
    by (auto simp: is_safe_def MAX_SAFE_INTEGER_def split: if_splits)
  then show "0 \<le> d" "0 \<le> c" "is_safe d" "is_safe c" "21 * c \<le> 1000 * d"
    "1000 * d \<le> max (21 * c + 999) 111000" by auto
qed

lemma conduit_fee_minimum: "calculateConduitCheckoutFeeSats (JSInt 1) None = Inr 111"
  by (simp add: conduit_fee_Inr is_safe_def MAX_SAFE_INTEGER_def)

lemma weights_Inr:
  "calculateCheckoutSparkAllocationWeights x p = Inr w \<longleftrightarrow>
     (\<exists>c d. x = JSInt c \<and> 0 < c \<and> is_safe c \<and> c + d \<le> MAX_SAFE_INTEGER \<and>
        calculateConduitCheckoutFeeSats (JSInt c) p = Inr d \<and>
        w = \<lparr>commerceWeightSats = JSInt c, conduitWeightSats = JSInt d\<rparr>)"
  by (cases x) (auto simp: calculateCheckoutSparkAllocationWeights_def bind_result_Inr throw_Inr not_le not_less)

lemma event_weights_Inr:
  "calculateCheckoutSparkEventAllocationWeights x y p = Inr w \<longleftrightarrow>
     (\<exists>c f d. x = JSInt c \<and> y = JSInt f \<and> is_safe c \<and> is_safe f \<and> 0 \<le> c \<and> 0 \<le> f \<and> 0 < c + f \<and>
        c + f + d \<le> MAX_SAFE_INTEGER \<and>
        calculateConduitCheckoutFeeSats (JSInt (if p = None \<and> c = 0 then 1 else c)) p = Inr d \<and>
        w = \<lparr>commerceWeightSats = JSInt c, conduitWeightSats = JSInt d, organizerWeightSats = JSInt f\<rparr>)"
  by (cases x; cases y)
    (auto simp: calculateCheckoutSparkEventAllocationWeights_def bind_result_Inr throw_Inr not_le not_less)

lemma allowance_Inr [js_num]:
  "calculateCheckoutSparkInboundNetworkAllowanceSats x = Inr a \<longleftrightarrow>
     (\<exists>c. x = JSInt c \<and> is_safe c \<and> 0 < c \<and> a = (c * 15 + 9999) div 10000)"
  by (cases x) (auto simp: calculateCheckoutSparkInboundNetworkAllowanceSats_def
      INBOUND_ALLOWANCE_NUMERATOR_def INBOUND_ALLOWANCE_DENOMINATOR_def)

lemma gross_Inr:
  "calculateCheckoutSparkSettledGrossFundingSats x p = Inr g \<longleftrightarrow>
     (\<exists>c d. x = JSInt c \<and> 0 < c \<and> is_safe c \<and> c + d \<le> MAX_SAFE_INTEGER \<and>
        calculateConduitCheckoutFeeSats (JSInt c) p = Inr d \<and>
        g = c + d + (c * 15 + 9999) div 10000 \<and> g * 1000 \<le> MAX_SAFE_INTEGER)"
  unfolding calculateCheckoutSparkSettledGrossFundingSats_def
  by (auto simp: bind_result_Inr weights_Inr js_num Let_def not_less)

lemma event_gross_Inr:
  "calculateCheckoutSparkEventSettledGrossFundingSats x y p = Inr g \<longleftrightarrow>
     (\<exists>c f d. x = JSInt c \<and> y = JSInt f \<and> is_safe c \<and> is_safe f \<and> 0 \<le> c \<and> 0 \<le> f \<and> 0 < c + f \<and>
        is_safe (c + f) \<and> c + f + d \<le> MAX_SAFE_INTEGER \<and>
        calculateConduitCheckoutFeeSats (JSInt (if p = None \<and> c = 0 then 1 else c)) p = Inr d \<and>
        g = c + f + d + ((c + f) * 15 + 9999) div 10000 \<and> g * 1000 \<le> MAX_SAFE_INTEGER)"
    (is "?L = Inr g \<longleftrightarrow> ?R")
proof
  assume "?L = Inr g"
  then show ?R
    unfolding calculateCheckoutSparkEventSettledGrossFundingSats_def bind_result_Inr
      event_weights_Inr Let_def allowance_Inr throw_Inr
    by (elim exE conjE) (simp add: not_less)
next
  assume ?R
  then show "?L = Inr g"
    unfolding calculateCheckoutSparkEventSettledGrossFundingSats_def bind_result_Inr
      event_weights_Inr Let_def allowance_Inr throw_Inr
    by (elim exE conjE) (simp add: not_less)
qed

lemma allocate_Inr:
  "allocateCheckoutSparkSettledSats s g w p = Inr a \<longleftrightarrow>
     (\<exists>settled gross c d. s = JSInt settled \<and> g = JSInt gross \<and> is_safe settled \<and> is_safe gross \<and>
        0 < settled \<and> settled \<le> gross \<and>
        commerceWeightSats w = JSInt c \<and> conduitWeightSats w = JSInt d \<and> is_safe c \<and> is_safe d \<and> 0 < c \<and>
        calculateConduitCheckoutFeeSats (JSInt c) p = Inr d \<and>
        c + d \<le> MAX_SAFE_INTEGER \<and> c + d \<le> gross \<and>
        a = \<lparr>commerceAllocationSats = settled - (settled * d) div (c + d),
             conduitAllocationSats = (settled * d) div (c + d)\<rparr>)"
  unfolding allocateCheckoutSparkSettledSats_def
  by (cases s; cases g; cases "commerceWeightSats w"; cases "conduitWeightSats w")
    (auto simp: bind_result_Inr throw_Inr Let_def not_le not_less)

lemma proportional_share_bounds:
  fixes s c d :: int
  assumes "0 < c" "0 \<le> d" "0 \<le> s"
  shows "0 \<le> (s * d) div (c + d)" "(s * d) div (c + d) \<le> s"
    "c + d \<le> s \<Longrightarrow> d \<le> (s * d) div (c + d)"
    "c + d \<le> s \<Longrightarrow> c \<le> s - (s * d) div (c + d)"
proof -
  let ?q = "(s * d) div (c + d)"
  have pos: "0 < c + d" using assms by simp
  show "0 \<le> ?q" using assms by (simp add: pos_imp_zdiv_nonneg_iff)
  have qle: "?q * (c + d) \<le> s * d" 
    using pos by (metis div_mult_mod_eq le_add_same_cancel1 pos_mod_sign)
  have "s * d \<le> s * (c + d)" using assms by (simp add: mult_left_mono)
  with qle have "?q * (c + d) \<le> s * (c + d)" by linarith
  then show qs: "?q \<le> s" using pos by simp
  show "d \<le> ?q" if "c + d \<le> s"
  proof -
    have "d * (c + d) \<le> s * d" using that assms by (simp add: mult.commute mult_left_mono)
    then have "d * (c + d) div (c + d) \<le> ?q" using pos by (intro zdiv_mono1) auto
    then show ?thesis using pos by simp
  qed
  show "c \<le> s - ?q" if le: "c + d \<le> s"
  proof -
    have "c * (c + d) \<le> c * s" using le assms by (simp add: mult_left_mono)
    also have "c * s = s * (c + d) - s * d" by (simp add: algebra_simps)
    also have "\<dots> \<le> s * (c + d) - ?q * (c + d)" using qle by linarith
    also have "\<dots> = (s - ?q) * (c + d)" by (simp add: algebra_simps)
    finally show ?thesis using pos by simp
  qed
qed

lemma ceiling_of_ratio: "(a + 999) div 1000 = \<lceil>(of_int a :: rat) / 1000\<rceil>"
proof -
  have "\<lceil>(of_int a :: rat) / of_int 1000\<rceil> = - (- a div 1000)"
    by (rule ceiling_divide_eq_div)
  moreover have "(a + 999) div 1000 = - (- a div 1000)"
    using div_mult_mod_eq [of a 1000] by linarith
  ultimately show ?thesis by simp
qed

lemma is_safe_total:
  "0 < g \<Longrightarrow> g * 1000 \<le> MAX_SAFE_INTEGER \<Longrightarrow> is_safe g"
  by (simp add: is_safe_def)

lemma event_allocation_parts:
  assumes "allocateCheckoutSparkEventSettledSats s g w p = Inr a"
  shows "\<exists>settled gross c d f. s = JSInt settled \<and> g = JSInt gross \<and> settled \<le> gross \<and> commerceWeightSats w = JSInt c \<and>
    conduitWeightSats w = JSInt d \<and> organizerWeightSats w = JSInt f \<and> 0 \<le> c \<and> 0 \<le> d \<and> 0 \<le> f \<and> c + d + f \<le> settled \<and>
    organizerAllocationSats a = f \<and> (c = 0 \<longrightarrow> commerceAllocationSats a = 0) \<and>
    commerceAllocationSats a + conduitAllocationSats a + organizerAllocationSats a = settled \<and>
    c \<le> commerceAllocationSats a \<and> d \<le> conduitAllocationSats a"
proof -
  let ?e = "calculateCheckoutSparkEventAllocationWeights (commerceWeightSats w) (organizerWeightSats w) p"
  from assms obtain e where e: "?e = Inr e"
    by (cases ?e) (auto simp: allocateCheckoutSparkEventSettledSats_def)
  then obtain c f d where cf: "commerceWeightSats w = JSInt c" "organizerWeightSats w = JSInt f" "0 \<le> c" "0 \<le> f"
    and edef: "e = \<lparr>commerceWeightSats = JSInt c, conduitWeightSats = JSInt d, organizerWeightSats = JSInt f\<rparr>"
    and fee0: "\<exists>x. calculateConduitCheckoutFeeSats (JSInt x) p = Inr d"
    unfolding event_weights_Inr by blast
  have d0: "0 \<le> d" using fee0 conduit_fee_bounds(1) by blast
  have d: "conduitWeightSats w = JSInt d"
    using assms e edef by (simp add: allocateCheckoutSparkEventSettledSats_def Let_def throw_Inr)
  from assms e edef d obtain settled gross where s: "s = JSInt settled" "g = JSInt gross" "settled \<le> gross"
    and cov: "c + d + f \<le> settled"
    and rest: "(if c = 0 then Inr \<lparr>commerceAllocationSats = 0, conduitAllocationSats = settled - f,
                  organizerAllocationSats = f\<rparr>
       else bind_result (allocateCheckoutSparkSettledSats (JSInt (settled - f)) (JSInt (gross - f)) w p)
              (\<lambda>divided. Inr \<lparr>commerceAllocationSats = commerceAllocationSats divided,
                 conduitAllocationSats = conduitAllocationSats divided,
                 organizerAllocationSats = f\<rparr>)) = Inr a"
    by (cases s; cases g; cases "c = 0")
      (auto simp: allocateCheckoutSparkEventSettledSats_def Let_def throw_Inr bind_result_Inr
         not_less split: if_split_asm)
  show ?thesis
  proof (cases "c = 0")
    case True
    then show ?thesis using rest cf d d0 s cov by auto
  next
    case False
    then obtain v where
      v: "allocateCheckoutSparkSettledSats (JSInt (settled - f)) (JSInt (gross - f)) w p = Inr v"
      and a: "a = \<lparr>commerceAllocationSats = commerceAllocationSats v,
                 conduitAllocationSats = conduitAllocationSats v, organizerAllocationSats = f\<rparr>"
      using rest by (auto simp: bind_result_Inr)
    from v cf d have "0 < c" and fee: "calculateConduitCheckoutFeeSats (JSInt c) p = Inr d"
      and veq: "v = \<lparr>commerceAllocationSats = settled - f - ((settled - f) * d) div (c + d),
             conduitAllocationSats = ((settled - f) * d) div (c + d)\<rparr>"
      unfolding allocate_Inr by auto
    have "0 \<le> d" using fee by (rule conduit_fee_bounds)
    from proportional_share_bounds(3,4) [OF \<open>0 < c\<close> this, of "settled - f"] \<open>0 < c\<close> \<open>0 \<le> d\<close> cov
    have "d \<le> conduitAllocationSats v" "c \<le> commerceAllocationSats v" by (simp_all add: veq)
    then show ?thesis using a cf d s cov veq False \<open>0 \<le> d\<close> by auto
  qed
qed

subsection \<open>Properties\<close>

text \<open>
  The Conduit fee of a positive safe commerce total is exactly the ceiling of 2.1 percent of it;
  without a policy it is never below the 111-sat floor.  The function never throws on such a
  total, so the narrowing of the BigInt result is always safe.\<close>

theorem conduit_fee_is_ceiling:
  assumes "is_safe c" and "0 < c" and "p = None \<or> p = Some CHECKOUT_SPARK_CURRENT_CONDUIT_FEE_POLICY"
  shows "calculateConduitCheckoutFeeSats (JSInt c) p =
    Inr (let pct = \<lceil>of_int (c * 21) / 1000 :: rat\<rceil> in if p = None then max 111 pct else pct)"
proof -
  have "(c * 21 + 999) div 1000 \<le> MAX_SAFE_INTEGER"
    using assms(1) by (simp add: is_safe_def MAX_SAFE_INTEGER_def)
  then show ?thesis
    using assms unfolding conduit_fee_Inr ceiling_of_ratio [symmetric] Let_def
    by (auto simp: MAX_SAFE_INTEGER_def)
qed

theorem conduit_fee_is_ceiling_witness:
  "calculateConduitCheckoutFeeSats (JSInt 10001) (Some CHECKOUT_SPARK_CURRENT_CONDUIT_FEE_POLICY) = Inr 211"
proof -
  have "\<lceil>of_int (10001 * 21) / 1000 :: rat\<rceil> = 211"
    unfolding ceiling_of_ratio [symmetric] by simp
  then show ?thesis
    using conduit_fee_is_ceiling [of 10001 "Some CHECKOUT_SPARK_CURRENT_CONDUIT_FEE_POLICY"]
    by (simp add: is_safe_def MAX_SAFE_INTEGER_def)
qed

text \<open>C31.
  Dividing a settled credit neither creates nor loses a satoshi: the two shares are non-negative
  and add up to exactly the credit, Conduit's share is the floor of its proportional share, and a
  credit that covers the frozen weights gives each side at least its weight.\<close>

theorem allocation_conserves_credit:
  assumes "allocateCheckoutSparkSettledSats s g w p = Inr a"
  shows "\<exists>settled c d. s = JSInt settled \<and> commerceWeightSats w = JSInt c \<and> conduitWeightSats w = JSInt d \<and>
    commerceAllocationSats a + conduitAllocationSats a = settled \<and>
    0 \<le> commerceAllocationSats a \<and> 0 \<le> conduitAllocationSats a \<and>
    conduitAllocationSats a = \<lfloor>of_int (settled * d) / of_int (c + d) :: rat\<rfloor> \<and>
    (c + d \<le> settled \<longrightarrow> c \<le> commerceAllocationSats a \<and> d \<le> conduitAllocationSats a)"
proof -
  from assms obtain settled gross c d where
    eqs: "s = JSInt settled" "commerceWeightSats w = JSInt c" "conduitWeightSats w = JSInt d"
    and pos: "0 < settled" "0 < c"
    and fee: "calculateConduitCheckoutFeeSats (JSInt c) p = Inr d"
    and a: "a = \<lparr>commerceAllocationSats = settled - (settled * d) div (c + d),
             conduitAllocationSats = (settled * d) div (c + d)\<rparr>"
    unfolding allocate_Inr by blast
  have floor: "(settled * d) div (c + d) = \<lfloor>of_int (settled * d) / of_int (c + d) :: rat\<rfloor>"
    by (rule floor_divide_of_int_eq [symmetric])
  have "0 \<le> d" using fee by (rule conduit_fee_bounds)
  with pos have "0 \<le> settled" by simp
  note share = proportional_share_bounds [OF pos(2) \<open>0 \<le> d\<close> this]
  show ?thesis
    by (rule exI [of _ settled], rule exI [of _ c], rule exI [of _ d])
      (use eqs a share in \<open>simp add: floor [symmetric] del: of_int_mult of_int_add\<close>)
qed

theorem allocation_conserves_credit_witness:
  "\<exists>a. allocateCheckoutSparkSettledSats (JSInt 10300) (JSInt 10300)
       \<lparr>commerceWeightSats = JSInt 10000, conduitWeightSats = JSInt 210\<rparr> None = Inr a
     \<and> commerceAllocationSats a + conduitAllocationSats a = 10300
     \<and> 10000 \<le> commerceAllocationSats a \<and> 210 \<le> conduitAllocationSats a"
proof -
  have "allocateCheckoutSparkSettledSats (JSInt 10300) (JSInt 10300)
      \<lparr>commerceWeightSats = JSInt 10000, conduitWeightSats = JSInt 210\<rparr> None
    = Inr \<lparr>commerceAllocationSats = 10089, conduitAllocationSats = 211\<rparr>"
    by (simp add: allocate_Inr conduit_fee_Inr is_safe_def MAX_SAFE_INTEGER_def)
  with allocation_conserves_credit [OF this] show ?thesis by auto
qed

text \<open>C38.
  Whatever price the buyer is quoted for a non-empty order pays for the order: the quote adds up
  to goods, shipping, Conduit fee and a non-negative network allowance, and when exactly that
  total arrives, the allocation does not throw and covers both frozen weights.\<close>

theorem quoted_price_funds_allocation:
  assumes "calculateCheckoutSparkBuyerPrice i s p = Inr price" and "0 < commerceTotalSats price"
  shows "totalSats price = itemSubtotalSats price + shippingSubtotalSats price
           + conduitFeeSats price + networkAllowanceSats price
    \<and> 0 \<le> networkAllowanceSats price
    \<and> (\<exists>w a. calculateCheckoutSparkAllocationWeights (JSInt (commerceTotalSats price)) p = Inr w \<and>
         allocateCheckoutSparkSettledSats (JSInt (totalSats price)) (JSInt (totalSats price)) w p = Inr a \<and>
         commerceTotalSats price \<le> commerceAllocationSats a \<and>
         conduitFeeSats price \<le> conduitAllocationSats a)"
proof -
  from assms obtain items shipping d where
    price: "itemSubtotalSats price = items" "shippingSubtotalSats price = shipping"
      "commerceTotalSats price = items + shipping" "conduitFeeSats price = d"
      "networkAllowanceSats price = totalSats price - (items + shipping) - d"
    and gross: "calculateCheckoutSparkSettledGrossFundingSats (JSInt (items + shipping)) p = Inr (totalSats price)"
    and fee: "calculateConduitCheckoutFeeSats (JSInt (items + shipping)) p = Inr d"
    by (cases i; cases s)
      (auto simp: calculateCheckoutSparkBuyerPrice_def bind_result_Inr throw_Inr Let_def split: if_splits)
  let ?c = "items + shipping" and ?t = "totalSats price"
  from gross fee have t: "?t = ?c + d + (?c * 15 + 9999) div 10000" "?t * 1000 \<le> MAX_SAFE_INTEGER"
    and c: "0 < ?c" "is_safe ?c" "?c + d \<le> MAX_SAFE_INTEGER"
    unfolding gross_Inr by auto
  have d: "0 \<le> d" "is_safe d" using fee by (rule conduit_fee_bounds)+
  have cov: "?c + d \<le> ?t" "0 < ?t" using t(1) c(1) d(1) by simp_all
  have "is_safe ?t" using cov(2) t(2) by (rule is_safe_total)
  let ?w = "\<lparr>commerceWeightSats = JSInt ?c, conduitWeightSats = JSInt d\<rparr>"
  let ?a = "\<lparr>commerceAllocationSats = ?t - (?t * d) div (?c + d),
             conduitAllocationSats = (?t * d) div (?c + d)\<rparr>"
  have w: "calculateCheckoutSparkAllocationWeights (JSInt ?c) p = Inr ?w"
    unfolding weights_Inr using c fee by blast
  have a: "allocateCheckoutSparkSettledSats (JSInt ?t) (JSInt ?t) ?w p = Inr ?a"
    unfolding allocate_Inr using c d cov fee \<open>is_safe ?t\<close> by auto
  have "?c \<le> commerceAllocationSats ?a" "d \<le> conduitAllocationSats ?a"
    using proportional_share_bounds [OF c(1) d(1), of ?t] cov by simp_all
  with w a show ?thesis using price t(1) c(1) by auto
qed

theorem quoted_price_funds_allocation_witness:
  "\<exists>price. calculateCheckoutSparkBuyerPrice (JSInt 9000) (JSInt 1000) None = Inr price
    \<and> totalSats price = 10225 \<and> 0 \<le> networkAllowanceSats price"
proof -
  let ?price = "\<lparr>itemSubtotalSats = 9000, shippingSubtotalSats = 1000, commerceTotalSats = 10000,
      conduitFeeSats = 210, networkAllowanceSats = 15, coordinationFeeSats = 225, totalSats = 10225,
      minimumApplies = False\<rparr>"
  have fee: "calculateConduitCheckoutFeeSats (JSInt 10000) None = Inr 210"
    by (simp add: conduit_fee_Inr is_safe_def MAX_SAFE_INTEGER_def)
  moreover have "calculateCheckoutSparkSettledGrossFundingSats (JSInt 10000) None = Inr 10225"
    unfolding gross_Inr using fee by (simp add: is_safe_def MAX_SAFE_INTEGER_def)
  ultimately have price: "calculateCheckoutSparkBuyerPrice (JSInt 9000) (JSInt 1000) None = Inr ?price"
    by (simp add: calculateCheckoutSparkBuyerPrice_def conduit_fee_minimum is_safe_def MAX_SAFE_INTEGER_def)
  from quoted_price_funds_allocation [OF this] price show ?thesis by simp
qed

text \<open>
  An event allocation pays the organizer exactly the signed fee, and what remains of the credit
  is split so that nothing is lost and both Conduit and commerce receive at least their frozen
  weights.  A credit below the frozen obligations is never allocated.\<close>

theorem event_allocation_covers_obligations:
  assumes "allocateCheckoutSparkEventSettledSats s g w p = Inr a"
  shows "\<exists>settled c d f. s = JSInt settled \<and> commerceWeightSats w = JSInt c \<and>
    conduitWeightSats w = JSInt d \<and> organizerWeightSats w = JSInt f \<and> c + d + f \<le> settled \<and>
    organizerAllocationSats a = f \<and>
    commerceAllocationSats a + conduitAllocationSats a + organizerAllocationSats a = settled \<and>
    c \<le> commerceAllocationSats a \<and> d \<le> conduitAllocationSats a"
  using event_allocation_parts [OF assms] by blast

theorem event_allocation_covers_obligations_witness:
  "\<exists>a. allocateCheckoutSparkEventSettledSats (JSInt 10726) (JSInt 10726)
       \<lparr>commerceWeightSats = JSInt 10000, conduitWeightSats = JSInt 210, organizerWeightSats = JSInt 500\<rparr>
       None = Inr a
     \<and> organizerAllocationSats a = 500 \<and> 10000 \<le> commerceAllocationSats a \<and> 210 \<le> conduitAllocationSats a"
proof -
  have fee: "calculateConduitCheckoutFeeSats (JSInt 10000) None = Inr 210"
    by (simp add: conduit_fee_Inr is_safe_def MAX_SAFE_INTEGER_def)
  let ?w = "\<lparr>commerceWeightSats = JSInt 10000, conduitWeightSats = JSInt 210, organizerWeightSats = JSInt 500\<rparr>"
  have w: "calculateCheckoutSparkEventAllocationWeights (JSInt 10000) (JSInt 500) None = Inr ?w"
    unfolding event_weights_Inr using fee by (simp add: is_safe_def MAX_SAFE_INTEGER_def)
  have g: "calculateCheckoutSparkEventSettledGrossFundingSats (JSInt 10000) (JSInt 500) None = Inr 10726"
    unfolding event_gross_Inr using fee by (simp add: is_safe_def MAX_SAFE_INTEGER_def)
  have "allocateCheckoutSparkSettledSats (JSInt 10226) (JSInt 10226) ?w None
      = Inr \<lparr>commerceAllocationSats = 10016, conduitAllocationSats = 210\<rparr>"
    unfolding allocate_Inr using fee by (simp add: is_safe_def MAX_SAFE_INTEGER_def)
  then have "allocateCheckoutSparkEventSettledSats (JSInt 10726) (JSInt 10726) ?w None
      = Inr \<lparr>commerceAllocationSats = 10016, conduitAllocationSats = 210, organizerAllocationSats = 500\<rparr>"
    using w g by (simp add: allocateCheckoutSparkEventSettledSats_def is_safe_def MAX_SAFE_INTEGER_def)
  with event_allocation_covers_obligations [OF this] show ?thesis by auto
qed

end
