(* ===== verification/Bech32.thy ===== *)
theory Bech32
  imports Js_Prelude "HOL-Library.Word"
begin

text \<open>
  The bech32 checksum of \<open>lightning.ts\<close>.  Data symbols are natural numbers below 32; the checksum
  runs on 32-bit words, as the bitwise operators of JavaScript do.  The lemmas show that one step
  of it is linear over XOR and loses nothing, from which a created checksum always verifies and
  every single changed symbol is noticed.
\<close>

unbundle bit_operations_syntax

subsection \<open>Bech32\<close>

definition BECH32_CHARSET :: js_string where
  "BECH32_CHARSET = ''qpzry9x8gf2tvdw0s3jn54khce6mua7l''"

definition BECH32_GENERATORS :: "32 word list" where
  "BECH32_GENERATORS = [0x3b6a57b2, 0x26508e6d, 0x1ea119fa, 0x3d4233dd, 0x2a1462b3]"

text \<open>\<open>String.prototype.indexOf\<close> and \<open>lastIndexOf\<close> of one character.\<close>

fun indexOf :: "js_string \<Rightarrow> char \<Rightarrow> nat option" where
  "indexOf [] c = None"
| "indexOf (d # ds) c = (if d = c then Some 0 else map_option Suc (indexOf ds c))"

definition lastIndexOf :: "js_string \<Rightarrow> char \<Rightarrow> nat option" where
  "lastIndexOf s c = map_option (\<lambda>k. length s - 1 - k) (indexOf (rev s) c)"

text \<open>\<open>[...].map(indexOf)\<close> over the charset, \<open>None\<close> when a character is outside it.\<close>

fun charset_values :: "js_string \<Rightarrow> nat list option" where
  "charset_values [] = Some []"
| "charset_values (c # cs) =
     (case indexOf BECH32_CHARSET c of
        None \<Rightarrow> None
      | Some v \<Rightarrow> map_option (\<lambda>vs. v # vs) (charset_values cs))"

definition polymod_step :: "nat \<Rightarrow> 32 word \<Rightarrow> 32 word" where
  "polymod_step value chk =
     (let chkTop = signed_drop_bit 25 chk;
          chk1 = push_bit 5 (chk AND 0x1ffffff) XOR of_nat value
      in fold (\<lambda>index c. if signed_drop_bit index chkTop AND 1 \<noteq> 0
                         then c XOR BECH32_GENERATORS ! index else c) [0..<5] chk1)"

definition bech32Polymod :: "nat list \<Rightarrow> 32 word" where
  "bech32Polymod values = fold polymod_step values 1"

definition bech32HrpExpand :: "js_string \<Rightarrow> nat list" where
  "bech32HrpExpand hrp =
     map (\<lambda>c. drop_bit 5 (char_code c)) hrp @ [0] @ map (\<lambda>c. char_code c AND 31) hrp"

definition isValidBech32Invoice :: "js_string \<Rightarrow> bool" where
  "isValidBech32Invoice invoice \<longleftrightarrow>
     (if invoice = [] \<or> invoice \<noteq> toLowerCase invoice then False
      else case lastIndexOf invoice (CHR ''1'') of
        None \<Rightarrow> False
      | Some separatorIndex \<Rightarrow>
          if separatorIndex = 0 \<or> separatorIndex + 7 > length invoice then False
          else case charset_values (drop (separatorIndex + 1) invoice) of
            None \<Rightarrow> False
          | Some values \<Rightarrow>
              bech32Polymod (bech32HrpExpand (take separatorIndex invoice) @ values) = 1)"

definition createBech32Checksum :: "js_string \<Rightarrow> nat list \<Rightarrow> nat list" where
  "createBech32Checksum hrp words =
     (let values = bech32HrpExpand hrp @ words @ [0, 0, 0, 0, 0, 0];
          polymod = bech32Polymod values XOR 1
      in map (\<lambda>index. unat (signed_drop_bit (5 * (5 - index)) polymod AND 31)) [0..<6])"

subsection \<open>The checksum is linear\<close>

text \<open>What a step adds for the five bits it shifts out, and the step without its symbol.\<close>

definition reduction :: "32 word \<Rightarrow> 32 word" where
  "reduction c =
     (if bit c 25 then 0x3b6a57b2 else 0) XOR (if bit c 26 then 0x26508e6d else 0)
     XOR (if bit c 27 then 0x1ea119fa else 0) XOR (if bit c 28 then 0x3d4233dd else 0)
     XOR (if bit c 29 then 0x2a1462b3 else 0)"

definition shift_symbol :: "32 word \<Rightarrow> 32 word" where
  "shift_symbol c = push_bit 5 (take_bit 25 c) XOR reduction c"

lemma top_bit:
  assumes "k < 5"
  shows "(signed_drop_bit k (signed_drop_bit 25 (c :: 32 word)) AND 1 \<noteq> 0) = bit c (25 + k)"
proof -
  have "bit (signed_drop_bit k (signed_drop_bit 25 c)) 0 = bit c (25 + k)"
    using assms by (simp add: bit_signed_drop_bit_iff add.commute)
  then show ?thesis by (simp only: bit_0 and_one_eq mod2_eq_if) auto
qed

lemma xor_if: "(if b then x XOR g else x) = x XOR (if b then g else (0 :: 32 word))"
  by simp

lemma polymod_step_eq: "polymod_step v c = shift_symbol c XOR of_nat v"
proof -
  have five: "fold f [0..<5] x = f 4 (f 3 (f 2 (f 1 (f 0 x))))" for f and x :: "32 word"
    by (simp add: upt_conv_Cons numeral_nat)
  have gens: "BECH32_GENERATORS ! 0 = 0x3b6a57b2" "BECH32_GENERATORS ! 1 = 0x26508e6d"
    "BECH32_GENERATORS ! 2 = 0x1ea119fa" "BECH32_GENERATORS ! 3 = 0x3d4233dd" "BECH32_GENERATORS ! 4 = 0x2a1462b3"
    by (simp_all add: BECH32_GENERATORS_def numeral_nat)
  have bits: "(signed_drop_bit 0 (signed_drop_bit 25 c) AND 1 \<noteq> 0) = bit c 25"
    "(signed_drop_bit 1 (signed_drop_bit 25 c) AND 1 \<noteq> 0) = bit c 26"
    "(signed_drop_bit 2 (signed_drop_bit 25 c) AND 1 \<noteq> 0) = bit c 27"
    "(signed_drop_bit 3 (signed_drop_bit 25 c) AND 1 \<noteq> 0) = bit c 28"
    "(signed_drop_bit 4 (signed_drop_bit 25 c) AND 1 \<noteq> 0) = bit c 29"
    using top_bit [of 0 c] top_bit [of 1 c] top_bit [of 2 c] top_bit [of 3 c] top_bit [of 4 c] by simp_all
  have m: "(0x1ffffff :: 32 word) = mask 25" by (simp add: mask_eq_exp_minus_1)
  show ?thesis
    unfolding polymod_step_def Let_def five bits xor_if gens m shift_symbol_def reduction_def
      take_bit_eq_mask
    by (simp only: xor.assoc xor.commute xor.left_commute)
qed

lemma reduction_xor: "reduction (a XOR b) = reduction a XOR reduction b"
proof -
  have x: "(if bit (a XOR b) n then g else 0) = (if bit a n then g else 0) XOR (if bit b n then g else (0 :: 32 word))" for n g
    by (simp add: bit_xor_iff)
  show ?thesis unfolding reduction_def x by (simp only: xor.assoc xor.commute xor.left_commute)
qed

lemma shift_symbol_xor: "shift_symbol (a XOR b) = shift_symbol a XOR shift_symbol b"
  unfolding shift_symbol_def reduction_xor take_bit_xor push_bit_xor
  by (simp only: xor.assoc xor.commute xor.left_commute)

lemma polymod_fold_xor:
  "fold polymod_step vs (a XOR b) = fold polymod_step vs a XOR (shift_symbol ^^ length vs) b"
proof (induction vs arbitrary: a b)
  case (Cons v vs)
  have "polymod_step v (a XOR b) = polymod_step v a XOR shift_symbol b"
    unfolding polymod_step_eq shift_symbol_xor by (simp only: xor.assoc xor.commute xor.left_commute)
  then show ?case using Cons.IH by (simp add: funpow_swap1)
qed simp

text \<open>The state stays below 2 to the 30.\<close>

lemma take_bit_shift: "take_bit 30 (shift_symbol c) = shift_symbol c"
proof -
  have "take_bit 30 (push_bit 5 (take_bit 25 c)) = push_bit 5 (take_bit 25 c)"
    by (rule bit_eqI) (auto simp: bit_simps)
  moreover have "take_bit 30 (reduction c) = reduction c"
    by (simp add: reduction_def take_bit_xor)
  ultimately show ?thesis by (simp only: shift_symbol_def take_bit_xor)
qed

lemma take_bit_symbol: "v < 32 \<Longrightarrow> take_bit 30 (of_nat v :: 32 word) = of_nat v"
proof -
  assume "v < 32"
  then have "take_bit 30 v = v" by (simp add: take_bit_eq_mod)
  then show ?thesis by (metis take_bit_of_nat)
qed

lemma take_bit_step: "v < 32 \<Longrightarrow> take_bit 30 (polymod_step v c) = polymod_step v c"
  by (simp only: polymod_step_eq take_bit_xor take_bit_shift take_bit_symbol)

lemma take_bit_polymod: "\<forall>v \<in> set vs. v < 32 \<Longrightarrow> take_bit 30 (bech32Polymod vs) = bech32Polymod vs"
proof (cases vs rule: rev_cases)
  case (snoc ys y)
  assume "\<forall>v \<in> set vs. v < 32"
  with snoc show ?thesis by (simp add: bech32Polymod_def take_bit_step)
qed (simp add: bech32Polymod_def)

lemma shift_symbol_low: "take_bit 25 c = c \<Longrightarrow> shift_symbol c = push_bit 5 c"
proof -
  assume c: "take_bit 25 c = c"
  have "\<not> bit c n" if "25 \<le> n" for n using c that by (metis bit_take_bit_iff not_less)
  then have "reduction c = 0" by (simp add: reduction_def)
  with c show ?thesis by (simp add: shift_symbol_def)
qed

text \<open>Packing the top-down digits of a 30-bit value gives the value back.\<close>

lemma pack_digit:
  assumes "take_bit 30 q = q" "k < 6"
  shows "polymod_step (unat (signed_drop_bit (5 * k) q AND 31)) (drop_bit (5 * Suc k) q) = drop_bit (5 * k) (q :: 32 word)"
proof -
  have hi: "\<not> bit q n" if "30 \<le> n" for n using assms(1) that by (metis bit_take_bit_iff not_less)
  have "\<not> bit q (5 + 5 * k + n)" if "25 \<le> n" for n using hi that by simp
  then have "take_bit 25 (drop_bit (5 * Suc k) q) = drop_bit (5 * Suc k) q"
    by (intro bit_eqI) (auto simp: bit_take_bit_iff bit_drop_bit_eq not_less [symmetric])
  then have "polymod_step (unat (signed_drop_bit (5 * k) q AND 31)) (drop_bit (5 * Suc k) q)
      = push_bit 5 (drop_bit (5 * Suc k) q) XOR (signed_drop_bit (5 * k) q AND mask 5)"
    by (simp add: polymod_step_eq shift_symbol_low mask_eq_exp_minus_1)
  also have "\<dots> = drop_bit (5 * k) q"
  proof (rule bit_eqI)
    fix n assume "possible_bit TYPE(32 word) n"
    then have n: "n < 32" by simp
    show "bit (push_bit 5 (drop_bit (5 * Suc k) q) XOR (signed_drop_bit (5 * k) q AND mask 5)) n = bit (drop_bit (5 * k) q) n"
      using n hi assms(2)
      by (cases "n < 5")
        (auto simp: bit_xor_iff bit_and_iff bit_push_bit_iff bit_drop_bit_eq bit_mask_iff bit_signed_drop_bit_iff add.commute)
  qed
  finally show ?thesis .
qed

lemma pack_checksum:
  assumes "take_bit 30 q = q"
  shows "fold polymod_step (map (\<lambda>index. unat (signed_drop_bit (5 * (5 - index)) q AND 31)) [0..<6]) 0 = (q :: 32 word)"
proof -
  let ?d = "\<lambda>k. unat (signed_drop_bit (5 * k) q AND 31)"
  have l: "map (\<lambda>index. ?d (5 - index)) [0..<6] = [?d 5, ?d 4, ?d 3, ?d 2, ?d 1, ?d 0]"
    by (simp add: upt_conv_Cons numeral_nat)
  have "\<not> bit q n" if "30 \<le> n" for n using assms that by (metis bit_take_bit_iff not_less)
  then have z: "drop_bit (5 * Suc 5) q = 0" by (intro bit_eqI) (simp add: bit_drop_bit_eq)
  have "fold polymod_step (map (\<lambda>index. ?d (5 - index)) [0..<6]) (drop_bit (5 * Suc 5) q) = drop_bit (5 * 0) q"
    unfolding l
    using pack_digit [OF assms, of 5] pack_digit [OF assms, of 4] pack_digit [OF assms, of 3]
      pack_digit [OF assms, of 2] pack_digit [OF assms, of 1] pack_digit [OF assms, of 0]
    by (simp only: fold_simps comp_apply id_apply) simp
  then show ?thesis unfolding z by simp
qed

lemma hrp_expand_small: "v \<in> set (bech32HrpExpand h) \<Longrightarrow> v < 32"
proof -
  have "drop_bit 5 (char_code c) < 32" for c
    using char_code_lt [of c] by (simp add: drop_bit_eq_div)
  moreover have "char_code c AND 31 < 32" for c
  proof -
    have m: "(31 :: nat) = mask 5" by (simp add: mask_eq_exp_minus_1)
    show ?thesis unfolding m by (simp add: take_bit_eq_mod flip: take_bit_eq_mask)
  qed
  ultimately show "v \<in> set (bech32HrpExpand h) \<Longrightarrow> v < 32"
    by (auto simp: bech32HrpExpand_def)
qed

lemma polymod_zero_symbols: "fold polymod_step (replicate n 0) c = (shift_symbol ^^ n) c"
  by (induction n arbitrary: c) (simp_all add: polymod_step_eq funpow_swap1)

text \<open>A checksum over the state of the prefix: six zero symbols, or the digits of their result.\<close>

lemma checksum_closes:
  assumes "\<forall>v \<in> set vs. v < 32"
    and "q = bech32Polymod (vs @ [0, 0, 0, 0, 0, 0]) XOR 1"
  shows "bech32Polymod (vs @ map (\<lambda>index. unat (signed_drop_bit (5 * (5 - index)) q AND 31)) [0..<6]) = 1"
proof -
  let ?s = "fold polymod_step vs 1"
  let ?d = "map (\<lambda>index. unat (signed_drop_bit (5 * (5 - index)) q AND 31)) [0..<6]"
  have "take_bit 30 (bech32Polymod (vs @ [0, 0, 0, 0, 0, 0])) = bech32Polymod (vs @ [0, 0, 0, 0, 0, 0])"
    by (rule take_bit_polymod) (use assms(1) in auto)
  then have q30: "take_bit 30 q = q" unfolding assms(2) take_bit_xor by simp
  have "bech32Polymod (vs @ ?d) = fold polymod_step ?d (0 XOR ?s)"
    by (simp add: bech32Polymod_def)
  also have "\<dots> = fold polymod_step ?d 0 XOR (shift_symbol ^^ 6) ?s"
    by (simp only: polymod_fold_xor length_map length_upt) simp
  also have "fold polymod_step ?d 0 = q" by (rule pack_checksum [OF q30])
  also have "(shift_symbol ^^ 6) ?s = q XOR 1"
  proof -
    have "[0, 0, 0, 0, 0, 0] = replicate 6 (0 :: nat)" by (simp add: numeral_nat)
    then have "bech32Polymod (vs @ [0, 0, 0, 0, 0, 0]) = (shift_symbol ^^ 6) ?s"
      by (simp only: bech32Polymod_def fold_append comp_apply polymod_zero_symbols)
    then show ?thesis using assms(2) by (simp add: xor.assoc)
  qed
  finally show ?thesis by (simp flip: xor.assoc)
qed

lemma length_checksum [simp]: "length (createBech32Checksum h ws) = 6"
  by (simp add: createBech32Checksum_def Let_def)

lemma checksum_small: "v \<in> set (createBech32Checksum h ws) \<Longrightarrow> v < 32"
proof -
  have "unat (x AND 31) < 32" for x :: "32 word"
  proof -
    have "(31 :: 32 word) = mask 5" by (simp add: mask_eq_exp_minus_1)
    then have "unat (x AND 31) = take_bit 5 (unat x)"
      by (simp only: take_bit_eq_mask [symmetric] unsigned_take_bit_eq)
    then show ?thesis using take_bit_nat_less_exp [of 5 "unat x"] by simp
  qed
  then show "v \<in> set (createBech32Checksum h ws) \<Longrightarrow> v < 32"
    by (auto simp: createBech32Checksum_def Let_def)
qed

lemma created_checksum:
  "\<forall>w \<in> set ws. w < 32 \<Longrightarrow> bech32Polymod (bech32HrpExpand h @ ws @ createBech32Checksum h ws) = 1"
  unfolding createBech32Checksum_def Let_def append_assoc [symmetric]
  by (rule checksum_closes) (auto simp: hrp_expand_small)

text \<open>The symbol shift loses nothing, so no single symbol can change without changing the
  checksum.\<close>

lemma reduction_low:
  assumes "take_bit 5 (reduction c) = 0"
  shows "\<not> bit c 25 \<and> \<not> bit c 26 \<and> \<not> bit c 27 \<and> \<not> bit c 28 \<and> \<not> bit c 29"
proof -
  have z: "\<not> bit (reduction c) n" if "n < 5" for n
  proof -
    have "bit (take_bit 5 (reduction c)) n = bit (reduction c) n" using that by (simp add: bit_take_bit_iff)
    with assms show ?thesis by simp
  qed
  have i: "bit (if b then g else 0 :: 32 word) n = (b \<and> bit g n)" for b g n by simp
  have g: "bit (0x3b6a57b2 :: 32 word) 0 = False" "bit (0x26508e6d :: 32 word) 0 = True"
    "bit (0x1ea119fa :: 32 word) 0 = False" "bit (0x3d4233dd :: 32 word) 0 = True" "bit (0x2a1462b3 :: 32 word) 0 = True"
    "bit (0x3b6a57b2 :: 32 word) 1 = True" "bit (0x26508e6d :: 32 word) 1 = False"
    "bit (0x1ea119fa :: 32 word) 1 = True" "bit (0x3d4233dd :: 32 word) 1 = False" "bit (0x2a1462b3 :: 32 word) 1 = True"
    "bit (0x3b6a57b2 :: 32 word) 2 = False" "bit (0x26508e6d :: 32 word) 2 = True"
    "bit (0x1ea119fa :: 32 word) 2 = False" "bit (0x3d4233dd :: 32 word) 2 = True" "bit (0x2a1462b3 :: 32 word) 2 = False"
    "bit (0x3b6a57b2 :: 32 word) 3 = False" "bit (0x26508e6d :: 32 word) 3 = True"
    "bit (0x1ea119fa :: 32 word) 3 = True" "bit (0x3d4233dd :: 32 word) 3 = True" "bit (0x2a1462b3 :: 32 word) 3 = False"
    "bit (0x3b6a57b2 :: 32 word) 4 = True" "bit (0x26508e6d :: 32 word) 4 = False"
    "bit (0x1ea119fa :: 32 word) 4 = True" "bit (0x3d4233dd :: 32 word) 4 = True" "bit (0x2a1462b3 :: 32 word) 4 = True"
    by code_simp+
  show ?thesis
    using z [of 0] z [of 1] z [of 2] z [of 3] z [of 4]
    unfolding reduction_def bit_xor_iff i g by simp argo
qed

lemma shift_symbol_zero:
  assumes "take_bit 30 c = c" "shift_symbol c = 0"
  shows "c = 0"
proof -
  have "take_bit 5 (push_bit 5 (take_bit 25 c)) = 0"
    by (intro bit_eqI) (auto simp: bit_take_bit_iff bit_push_bit_iff)
  moreover have "take_bit 5 (shift_symbol c) = take_bit 5 (push_bit 5 (take_bit 25 c)) XOR take_bit 5 (reduction c)"
    by (simp only: shift_symbol_def take_bit_xor)
  ultimately have "take_bit 5 (reduction c) = 0" using assms(2) by simp
  then have z: "\<not> bit c 25 \<and> \<not> bit c 26 \<and> \<not> bit c 27 \<and> \<not> bit c 28 \<and> \<not> bit c 29"
    by (rule reduction_low)
  then have "reduction c = 0" by (simp add: reduction_def)
  with assms(2) have p: "push_bit 5 (take_bit 25 c) = 0" by (simp add: shift_symbol_def)
  show ?thesis
  proof (rule bit_eqI)
    fix n assume "possible_bit TYPE(32 word) n"
    have "\<not> bit c n"
    proof (cases "n < 25")
      case True
      have "bit (push_bit 5 (take_bit 25 c)) (n + 5) = bit c n"
        using True by (simp add: bit_push_bit_iff bit_take_bit_iff)
      with p show ?thesis by simp
    next
      case False
      show ?thesis
      proof (cases "n < 30")
        case True
        with False have "n = 25 \<or> n = 26 \<or> n = 27 \<or> n = 28 \<or> n = 29" by auto
        with z show ?thesis by auto
      next
        case False
        with assms(1) show ?thesis by (metis bit_take_bit_iff)
      qed
    qed
    then show "bit c n = bit 0 n" by simp
  qed
qed

lemma shift_symbols_zero: "take_bit 30 c = c \<Longrightarrow> (shift_symbol ^^ n) c = 0 \<Longrightarrow> c = 0"
proof (induction n arbitrary: c)
  case (Suc n)
  then have "(shift_symbol ^^ n) (shift_symbol c) = 0" by (simp add: funpow_swap1)
  then have "shift_symbol c = 0" using Suc.IH [of "shift_symbol c"] take_bit_shift by blast
  with Suc.prems(1) show ?case by (rule shift_symbol_zero)
qed simp

lemma single_symbol_detected:
  assumes "v < 32" "w < 32" "v \<noteq> w" "bech32Polymod (xs @ v # ys) = 1"
  shows "bech32Polymod (xs @ w # ys) \<noteq> 1"
proof
  assume w: "bech32Polymod (xs @ w # ys) = 1"
  let ?s = "fold polymod_step xs 1"
  let ?e = "of_nat v XOR (of_nat w :: 32 word)"
  have "polymod_step w ?s XOR ?e = polymod_step v ?s"
    unfolding polymod_step_eq by (rule bit_eqI) (auto simp: bit_xor_iff)
  then have "bech32Polymod (xs @ v # ys) = fold polymod_step ys (polymod_step w ?s XOR ?e)"
    by (simp add: bech32Polymod_def)
  also have "\<dots> = bech32Polymod (xs @ w # ys) XOR (shift_symbol ^^ length ys) ?e"
    unfolding polymod_fold_xor by (simp add: bech32Polymod_def)
  finally have "1 = 1 XOR (shift_symbol ^^ length ys) ?e" using assms(4) w by simp
  then have "1 XOR 1 = 1 XOR (1 XOR (shift_symbol ^^ length ys) ?e)" by (rule arg_cong)
  then have "(shift_symbol ^^ length ys) ?e = 0" by (simp only: xor.assoc [symmetric] xor_self_eq xor.left_neutral)
  moreover have "take_bit 30 ?e = ?e" by (simp only: take_bit_xor take_bit_symbol [OF assms(1)] take_bit_symbol [OF assms(2)])
  ultimately have "?e = 0" by (rule shift_symbols_zero [rotated])
  moreover have "(of_nat v :: 32 word) = ?e XOR of_nat w" by (simp add: xor.assoc)
  ultimately have "(of_nat v :: 32 word) = of_nat w" by simp
  moreover have "unat (of_nat u :: 32 word) = u" if "u < 32" for u
    using that by (simp add: unsigned_of_nat take_bit_nat_eq_self)
  ultimately have "v = w" using assms(1,2) by metis
  with assms(3) show False by simp
qed


subsection \<open>Lemmas on texts\<close>

lemma indexOf_Some: "indexOf s c = Some k \<Longrightarrow> k < length s \<and> s ! k = c"
  by (induction s arbitrary: k) (auto split: if_split_asm)

lemma indexOf_None: "indexOf s c = None \<longleftrightarrow> c \<notin> set s"
  by (induction s) auto

lemma indexOf_first: "c \<notin> set xs \<Longrightarrow> indexOf (xs @ c # ys) c = Some (length xs)"
  by (induction xs) auto

lemma lastIndexOf_last: "c \<notin> set ys \<Longrightarrow> lastIndexOf (xs @ c # ys) c = Some (length xs)"
  by (simp add: lastIndexOf_def indexOf_first)

lemma charset_index:
  "indexOf BECH32_CHARSET c = Some v \<Longrightarrow> v < 32 \<and> BECH32_CHARSET ! v = c"
  using indexOf_Some [of BECH32_CHARSET c v] by (simp add: BECH32_CHARSET_def)

lemma charset_index_nth: "v < 32 \<Longrightarrow> indexOf BECH32_CHARSET (BECH32_CHARSET ! v) = Some v"
proof -
  have "list_all (\<lambda>v. indexOf BECH32_CHARSET (BECH32_CHARSET ! v) = Some v) [0..<32]" by code_simp
  then show "v < 32 \<Longrightarrow> indexOf BECH32_CHARSET (BECH32_CHARSET ! v) = Some v" by (simp add: list_all_iff)
qed

lemma charset_values_append:
  "charset_values (xs @ ys) =
     (case charset_values xs of
        None \<Rightarrow> None
      | Some vs \<Rightarrow> map_option (\<lambda>ws. vs @ ws) (charset_values ys))"
  by (cases "charset_values ys"; induction xs) (auto split: option.splits)

lemma charset_values_map:
  "\<forall>v \<in> set vs. v < 32 \<Longrightarrow> charset_values (map (\<lambda>v. BECH32_CHARSET ! v) vs) = Some vs"
  by (induction vs) (simp_all add: charset_index_nth)

lemma charset_values_small: "charset_values s = Some vs \<Longrightarrow> v \<in> set vs \<Longrightarrow> v < 32"
  by (induction s arbitrary: vs) (auto split: option.splits dest: charset_index)

lemma length_charset_values: "charset_values s = Some vs \<Longrightarrow> length vs = length s"
  by (induction s arbitrary: vs) (auto split: option.splits)

lemma charset_no_one: "charset_values s = Some vs \<Longrightarrow> CHR ''1'' \<notin> set s"
proof (induction s arbitrary: vs)
  case (Cons c s)
  then obtain v where "indexOf BECH32_CHARSET c = Some v" by (auto split: option.splits)
  moreover have "indexOf BECH32_CHARSET (CHR ''1'') = None" by code_simp
  ultimately show ?case using Cons by (auto split: option.splits)
qed simp

lemma length_charset: "length BECH32_CHARSET = 32"
  by (simp add: BECH32_CHARSET_def)

lemma charset_lower: "c \<in> set BECH32_CHARSET \<Longrightarrow> char_lower c = c"
proof -
  have "list_all (\<lambda>c. char_lower c = c) BECH32_CHARSET" by code_simp
  then show "c \<in> set BECH32_CHARSET \<Longrightarrow> char_lower c = c" by (simp add: list_all_iff)
qed

lemma valid_bech32_parts:
  assumes "CHR ''1'' \<notin> set dat"
  shows "isValidBech32Invoice (h @ ''1'' @ dat) \<longleftrightarrow>
     toLowerCase (h @ ''1'' @ dat) = h @ ''1'' @ dat \<and> h \<noteq> [] \<and> 6 \<le> length dat
     \<and> (\<exists>vs. charset_values dat = Some vs \<and> bech32Polymod (bech32HrpExpand h @ vs) = 1)"
proof -
  have "lastIndexOf (h @ ''1'' @ dat) (CHR ''1'') = Some (length h)"
    using lastIndexOf_last [OF assms, of h] by simp
  then show ?thesis by (auto simp: isValidBech32Invoice_def split: option.split)
qed

subsection \<open>Properties\<close>

text \<open>Encoding produces valid bech32: for a lower-case prefix and any data symbols, the text
  made of the prefix, the separator, the symbols and the checksum of \<open>createBech32Checksum\<close>
  passes \<open>isValidBech32Invoice\<close>.\<close>

theorem checksummed_text_is_valid:
  assumes "h \<noteq> []" "toLowerCase h = h" "\<forall>w \<in> set ws. w < 32"
  shows "isValidBech32Invoice
    (h @ ''1'' @ map (\<lambda>v. BECH32_CHARSET ! v) (ws @ createBech32Checksum h ws))"
proof -
  let ?vs = "ws @ createBech32Checksum h ws"
  let ?dat = "map (\<lambda>v. BECH32_CHARSET ! v) ?vs"
  have small: "\<forall>v \<in> set ?vs. v < 32" using assms(3) checksum_small by auto
  then have vals: "charset_values ?dat = Some ?vs" by (rule charset_values_map)
  have "\<forall>v \<in> set ?vs. char_lower (BECH32_CHARSET ! v) = BECH32_CHARSET ! v"
    using small length_charset charset_lower nth_mem by metis
  then have "toLowerCase ?dat = ?dat" by (simp add: toLowerCase_def)
  moreover have "toLowerCase ''1'' = ''1''" by code_simp
  moreover have "bech32Polymod (bech32HrpExpand h @ ?vs) = 1" using created_checksum assms(3) by blast
  ultimately show ?thesis
    unfolding valid_bech32_parts [OF charset_no_one [OF vals]]
    using assms(1,2) vals by (simp only: toLowerCase_append length_map length_append length_checksum) simp
qed

theorem checksummed_text_is_valid_witness:
  "isValidBech32Invoice
     (''lnbc'' @ ''1'' @ map (\<lambda>v. BECH32_CHARSET ! v) ([3, 1, 17] @ createBech32Checksum ''lnbc'' [3, 1, 17]))"
  by (rule checksummed_text_is_valid) (simp_all, code_simp)

text \<open>C40. Every single-character error in the data part of an invoice is detected: a valid bech32
  text in which one data character is replaced by another character of the charset is rejected.\<close>

theorem single_character_error_is_rejected:
  assumes "isValidBech32Invoice (h @ ''1'' @ xs @ c # ys)" "CHR ''1'' \<notin> set (xs @ c # ys)"
    "d \<in> set BECH32_CHARSET" "d \<noteq> c"
  shows "\<not> isValidBech32Invoice (h @ ''1'' @ xs @ d # ys)"
proof -
  have "d \<noteq> CHR ''1''" using assms(3) by (auto simp: BECH32_CHARSET_def)
  then have one: "CHR ''1'' \<notin> set (xs @ d # ys)" using assms(2) by auto
  obtain vs where vs: "charset_values (xs @ c # ys) = Some vs" "bech32Polymod (bech32HrpExpand h @ vs) = 1"
    using assms(1) unfolding valid_bech32_parts [OF assms(2)] by blast
  then obtain us v ws where parts: "charset_values xs = Some us" "indexOf BECH32_CHARSET c = Some v"
      "charset_values ys = Some ws" "vs = us @ v # ws"
    by (auto simp: charset_values_append split: option.splits)
  obtain w where w: "indexOf BECH32_CHARSET d = Some w"
    using assms(3) indexOf_None [of BECH32_CHARSET d] by (cases "indexOf BECH32_CHARSET d") auto
  have "v < 32" "w < 32" "v \<noteq> w"
    using charset_index parts(2) w assms(4) by auto
  moreover have "bech32Polymod ((bech32HrpExpand h @ us) @ v # ws) = 1" using vs(2) parts(4) by simp
  ultimately have "bech32Polymod ((bech32HrpExpand h @ us) @ w # ws) \<noteq> 1"
    by (rule single_symbol_detected)
  then show ?thesis
    unfolding valid_bech32_parts [OF one] using parts w by (simp add: charset_values_append)
qed

theorem single_character_error_is_rejected_witness:
  "\<not> isValidBech32Invoice (''lnbc'' @ ''1'' @ [] @ CHR ''q'' #
       map (\<lambda>v. BECH32_CHARSET ! v) ([1, 17] @ createBech32Checksum ''lnbc'' [3, 1, 17]))"
  by (rule single_character_error_is_rejected [where c = "CHR ''r''"]) code_simp+

end
