(* ===== verification/Bolt11.thy ===== *)
theory Bolt11
  imports Bech32
begin

text \<open>
  Lightning invoices, after \<open>lightning.ts\<close>: the BOLT11 data part, the
  amount and metadata decoders, and the validation before a payment.  Data symbols and bytes are
  natural numbers below 32 and 256; \<open>toWords\<close> packs bits in a 32-bit word, as the bitwise
  operators of JavaScript do.  The deployment's Lightning network is the argument \<open>net\<close>;
  SHA-256 and UTF-8 encoding are parameters.
\<close>

unbundle bit_operations_syntax

subsection \<open>Constants\<close>

definition BOLT11_TIMESTAMP_WORD_COUNT :: nat where "BOLT11_TIMESTAMP_WORD_COUNT = 7"
definition BOLT11_SIGNATURE_WORD_COUNT :: nat where "BOLT11_SIGNATURE_WORD_COUNT = 104"
definition BECH32_CHECKSUM_WORD_COUNT :: nat where "BECH32_CHECKSUM_WORD_COUNT = 6"
definition BOLT11_PAYMENT_HASH_WORD_COUNT :: nat where "BOLT11_PAYMENT_HASH_WORD_COUNT = 52"
definition BOLT11_DESCRIPTION_HASH_WORD_COUNT :: nat where "BOLT11_DESCRIPTION_HASH_WORD_COUNT = 52"
definition MSATS_PER_BTC :: int where "MSATS_PER_BTC = 100000000000"

lemmas word_counts = BOLT11_TIMESTAMP_WORD_COUNT_def BOLT11_SIGNATURE_WORD_COUNT_def
  BECH32_CHECKSUM_WORD_COUNT_def BOLT11_PAYMENT_HASH_WORD_COUNT_def BOLT11_DESCRIPTION_HASH_WORD_COUNT_def

subsection \<open>Bits and bytes\<close>

text \<open>The inner loop of \<open>toWords\<close>; the accumulator is an int32 that is never masked.\<close>

fun emit_words :: "32 word \<Rightarrow> nat \<Rightarrow> nat list \<times> nat" where
  "emit_words value bits =
     (if bits \<ge> 5
      then let (ws, rest) = emit_words value (bits - 5)
           in (unat (signed_drop_bit (bits - 5) value AND 31) # ws, rest)
      else ([], bits))"

declare emit_words.simps [simp del]

fun toWords_loop :: "nat list \<Rightarrow> 32 word \<Rightarrow> nat \<Rightarrow> nat list" where
  "toWords_loop [] value bits =
     (if bits > 0 then [unat (push_bit (5 - bits) value AND 31)] else [])"
| "toWords_loop (byte # bytes) value bits =
     (let value1 = push_bit 8 value OR of_nat byte;
          (ws, bits1) = emit_words value1 (bits + 8)
      in ws @ toWords_loop bytes value1 bits1)"

definition toWords :: "nat list \<Rightarrow> nat list" where
  "toWords bytes = toWords_loop bytes 0 0"

text \<open>The common loop of \<open>fromWords\<close> and \<open>wordsToBytes\<close>: the bytes, the pending value and its
  bits; the pending value stays below 256, so no 32-bit operation overflows.\<close>

fun pack_bytes :: "nat list \<Rightarrow> nat \<Rightarrow> nat \<Rightarrow> (nat list \<times> nat \<times> nat) option" where
  "pack_bytes [] value bits = Some ([], value, bits)"
| "pack_bytes (word # ws) value bits =
     (if word > 31 then None
      else let value1 = push_bit 5 value OR word; bits1 = bits + 5
           in if bits1 \<ge> 8
              then map_option (\<lambda>(bytes, rest). ((drop_bit (bits1 - 8) value1 AND 0xff) # bytes, rest))
                     (pack_bytes ws (if bits1 - 8 = 0 then 0 else value1 AND (2 ^ (bits1 - 8) - 1)) (bits1 - 8))
              else pack_bytes ws value1 bits1)"

definition fromWords :: "nat list \<Rightarrow> bool \<Rightarrow> nat list option" where
  "fromWords words pad =
     (case pack_bytes words 0 0 of
        None \<Rightarrow> None
      | Some (bytes, value, bits) \<Rightarrow>
          if pad \<and> bits > 0 then Some (bytes @ [push_bit (8 - bits) value mod 256])
          else if bits \<ge> 5 \<or> value \<noteq> 0 then None
          else Some bytes)"

definition wordsToBytes :: "nat list \<Rightarrow> nat \<Rightarrow> nat list option" where
  "wordsToBytes words expectedLength =
     (case pack_bytes words 0 0 of
        None \<Rightarrow> None
      | Some (bytes, value, bits) \<Rightarrow>
          if value \<noteq> 0 \<or> length bytes \<noteq> expectedLength then None else Some bytes)"

definition wordsToBigInt :: "nat list \<Rightarrow> int" where
  "wordsToBigInt words = foldl (\<lambda>acc word. push_bit 5 acc + int word) 0 words"

definition hex_digit :: "nat \<Rightarrow> char" where
  "hex_digit n = ''0123456789abcdef'' ! n"

definition bytesToHex :: "nat list \<Rightarrow> js_string" where
  "bytesToHex bytes = concat (map (\<lambda>b. [hex_digit (b div 16 mod 16), hex_digit (b mod 16)]) bytes)"

definition hex_value :: "char \<Rightarrow> nat" where
  "hex_value c =
     (let n = char_code c
      in if n \<le> 57 then n - 48 else if n \<le> 70 then n - 55 else n - 87)"

fun hexToBytes :: "js_string \<Rightarrow> nat list" where
  "hexToBytes (a # b # s) = (16 * hex_value a + hex_value b) # hexToBytes s"
| "hexToBytes _ = []"

fun equalBytesConstantTime :: "nat list \<Rightarrow> nat list \<Rightarrow> bool" where
  "equalBytesConstantTime left right =
     (if length left \<noteq> length right then False
      else fold (\<lambda>(l, r) difference. difference OR (l XOR r)) (zip left right) 0 = 0)"

subsection \<open>Invoice texts\<close>

text \<open>\<open>invoice.trim().replace(/^lightning:/i, "")\<close>.\<close>

definition normalizeLightningInvoice :: "js_string \<Rightarrow> js_string" where
  "normalizeLightningInvoice invoice =
     (let trimmed = js_trim invoice
      in if toLowerCase (take 10 trimmed) = ''lightning:'' then drop 10 trimmed else trimmed)"

text \<open>The human-readable prefixes, in the order the patterns try them.\<close>

definition invoice_prefixes :: "js_string list" where
  "invoice_prefixes = [''lnbcrt'', ''lntbs'', ''lnbc'', ''lntb'', ''lnsb'']"

definition isAmountlessLightningInvoice :: "js_string \<Rightarrow> bool" where
  "isAmountlessLightningInvoice invoice \<longleftrightarrow>
     (let normalized = toLowerCase (normalizeLightningInvoice invoice)
      in isValidBech32Invoice normalized
         \<and> (case lastIndexOf normalized (CHR ''1'') of
              None \<Rightarrow> False
            | Some k \<Rightarrow> take k normalized \<in> set [''lnbc'', ''lnbcrt'', ''lntbs'', ''lntb'', ''lnsb'']))"

definition is_unit_char :: "char \<Rightarrow> bool" where
  "is_unit_char c \<longleftrightarrow> c = CHR ''m'' \<or> c = CHR ''u'' \<or> c = CHR ''n'' \<or> c = CHR ''p''"

text \<open>\<open>(?:\d+[munp]?)?\<close> up to the end of the prefix.\<close>

definition is_amount_part :: "js_string \<Rightarrow> bool" where
  "is_amount_part s \<longleftrightarrow>
     s = []
     \<or> (takeWhile is_digit s \<noteq> []
        \<and> (dropWhile is_digit s = []
           \<or> (length (dropWhile is_digit s) = 1 \<and> is_unit_char (hd (dropWhile is_digit s)))))"

definition is_invoice_hrp :: "js_string \<Rightarrow> bool" where
  "is_invoice_hrp hrp \<longleftrightarrow>
     list_ex (\<lambda>p. startsWith hrp p \<and> is_amount_part (drop (length p) hrp)) invoice_prefixes"

subsection \<open>The data part\<close>

record Bolt11TaggedField =
  tag :: char
  words :: "nat list"

record ParsedBolt11Invoice =
  hrp :: js_string
  data_values :: "nat list"
  taggedFields :: "Bolt11TaggedField list"

text \<open>The loop over the tagged part, which is the argument: a tag symbol, two length symbols and
  as many data symbols.\<close>

function tagged_fields :: "nat list \<Rightarrow> Bolt11TaggedField list option" where
  "tagged_fields [] = Some []"
| "tagged_fields [a] = None"
| "tagged_fields [a, b] = None"
| "tagged_fields (t # b # c # rest) =
     (let len = push_bit 5 b + c
      in if t \<ge> length BECH32_CHARSET \<or> len > length rest then None
         else map_option (\<lambda>fields. \<lparr>tag = BECH32_CHARSET ! t, words = take len rest\<rparr> # fields)
                (tagged_fields (drop len rest)))"
  by pat_completeness auto
termination by (relation "measure length") auto

definition parseBolt11Invoice :: "js_string \<Rightarrow> ParsedBolt11Invoice option" where
  "parseBolt11Invoice invoice =
     (let raw = normalizeLightningInvoice invoice
      in if list_ex is_lower_alpha raw \<and> list_ex is_upper_alpha raw then None
         else let normalized = toLowerCase raw
         in if \<not> isValidBech32Invoice normalized then None
         else case lastIndexOf normalized (CHR ''1'') of
           None \<Rightarrow> None
         | Some separatorIndex \<Rightarrow>
             let human = take separatorIndex normalized
             in if \<not> is_invoice_hrp human then None
                else case charset_values (drop (separatorIndex + 1) normalized) of
                  None \<Rightarrow> None
                | Some values \<Rightarrow>
                    if length values < BOLT11_TIMESTAMP_WORD_COUNT + BOLT11_SIGNATURE_WORD_COUNT
                         + BECH32_CHECKSUM_WORD_COUNT then None
                    else let taggedDataEnd = length values - BECH32_CHECKSUM_WORD_COUNT - BOLT11_SIGNATURE_WORD_COUNT
                    in map_option (\<lambda>fields. \<lparr>hrp = human, data_values = values, taggedFields = fields\<rparr>)
                         (tagged_fields (drop BOLT11_TIMESTAMP_WORD_COUNT (take taggedDataEnd values))))"

definition fields_tagged :: "char \<Rightarrow> ParsedBolt11Invoice \<Rightarrow> Bolt11TaggedField list" where
  "fields_tagged c parsed = filter (\<lambda>f. tag f = c) (taggedFields parsed)"

subsection \<open>Networks\<close>

datatype LightningInvoiceNetwork = Mainnet | Testnet | Signet | Regtest | UnknownNetwork

definition getLightningInvoiceNetwork :: "js_string \<Rightarrow> LightningInvoiceNetwork" where
  "getLightningInvoiceNetwork invoice =
     (let normalized = toLowerCase (normalizeLightningInvoice invoice)
      in if startsWith normalized ''lnbcrt'' then Regtest
         else if startsWith normalized ''lnbc'' then Mainnet
         else if startsWith normalized ''lntbs'' then Signet
         else if startsWith normalized ''lnsb'' then Signet
         else if startsWith normalized ''lntb'' then Testnet
         else UnknownNetwork)"

definition getExpectedLightningNetworks :: "js_string \<Rightarrow> LightningInvoiceNetwork list" where
  "getExpectedLightningNetworks net =
     (if net = ''mock'' then [Regtest]
      else if net = ''mainnet'' then [Mainnet]
      else if net = ''signet'' then [Signet, Testnet]
      else if net = ''testnet'' then [Testnet, Signet]
      else [])"

definition isInvoiceCompatibleWithCurrentNetwork :: "js_string \<Rightarrow> js_string \<Rightarrow> bool" where
  "isInvoiceCompatibleWithCurrentNetwork net invoice \<longleftrightarrow>
     getLightningInvoiceNetwork invoice \<in> set (getExpectedLightningNetworks net)"

fun network_name :: "LightningInvoiceNetwork \<Rightarrow> js_string" where
  "network_name Mainnet = ''mainnet''"
| "network_name Testnet = ''testnet''"
| "network_name Signet = ''signet''"
| "network_name Regtest = ''regtest''"
| "network_name UnknownNetwork = ''unknown''"

definition getLightningNetworkMismatchMessage :: "js_string \<Rightarrow> js_string \<Rightarrow> js_string option" where
  "getLightningNetworkMismatchMessage net invoice =
     (let actual = getLightningInvoiceNetwork invoice
      in if actual = UnknownNetwork
         then Some ''This invoice format could not be verified against the current Lightning network.''
         else if actual \<in> set (getExpectedLightningNetworks net) then None
         else let expectedLabel = (if net = ''mock'' then ''mock/regtest''
                                   else if net = ''signet'' then ''signet/testnet'' else net)
         in Some (''This invoice is for '' @ network_name actual
              @ '', but Conduit is currently running in '' @ expectedLabel @ '' mode.''))"

subsection \<open>Amounts\<close>

record DecodedLightningInvoiceAmount =
  msats :: "int option"
  sats :: "int option"
  amount_currency :: "js_string option"

definition no_amount :: DecodedLightningInvoiceAmount where
  "no_amount = \<lparr>msats = None, sats = None, amount_currency = None\<rparr>"

text \<open>\<open>BigInt(rawAmount)\<close> of a digit string.\<close>

definition decimal_value :: "js_string \<Rightarrow> int" where
  "decimal_value ds = foldl (\<lambda>acc d. 10 * acc + int (char_code d - 48)) 0 ds"

text \<open>The match \<open>(\d+)?([munp]?)1\<close> at the start of a text, greedy with backtracking: the
  captured digits and the unit.  The unit is tried before the empty unit, more digits before
  fewer, and no digits last.\<close>

definition unit_and_one :: "js_string \<Rightarrow> js_string option" where
  "unit_and_one s =
     (if s \<noteq> [] \<and> is_unit_char (hd s) \<and> startsWith (tl s) ''1'' then Some [hd s]
      else if startsWith s ''1'' then Some [] else None)"

fun match_digits :: "nat \<Rightarrow> js_string \<Rightarrow> (js_string \<times> js_string) option" where
  "match_digits 0 s = map_option (\<lambda>u. ([], u)) (unit_and_one s)"
| "match_digits (Suc k) s =
     (case unit_and_one (drop (Suc k) s) of
        Some u \<Rightarrow> Some (take (Suc k) s, u)
      | None \<Rightarrow> match_digits k s)"

definition match_amount :: "js_string \<Rightarrow> (js_string \<times> js_string) option" where
  "match_amount s = match_digits (length (takeWhile is_digit s)) s"

fun first_match :: "js_string list \<Rightarrow> js_string \<Rightarrow> (js_string \<times> js_string) option" where
  "first_match [] s = None"
| "first_match (p # ps) s =
     (case (if startsWith s p then match_amount (drop (length p) s) else None) of
        Some r \<Rightarrow> Some r
      | None \<Rightarrow> first_match ps s)"

definition amount_msats :: "js_string \<Rightarrow> js_string \<Rightarrow> int option" where
  "amount_msats rawAmount rawUnit =
     (let amount = decimal_value rawAmount
      in if rawUnit = [] then Some (amount * MSATS_PER_BTC)
         else if rawUnit = ''m'' then Some (amount * 100000000)
         else if rawUnit = ''u'' then Some (amount * 100000)
         else if rawUnit = ''n'' then Some (amount * 100)
         else if rawUnit = ''p'' then (if amount mod 10 \<noteq> 0 then None else Some (amount div 10))
         else None)"

definition decodeLightningInvoiceAmount :: "js_string \<Rightarrow> DecodedLightningInvoiceAmount" where
  "decodeLightningInvoiceAmount invoice =
     (let normalized = toLowerCase (normalizeLightningInvoice invoice)
      in if \<not> isValidBech32Invoice normalized then no_amount
         else case first_match invoice_prefixes normalized of
           None \<Rightarrow> no_amount
         | Some (rawAmount, rawUnit) \<Rightarrow>
             if rawAmount = [] then no_amount
             else case amount_msats rawAmount rawUnit of
               None \<Rightarrow> no_amount
             | Some m \<Rightarrow>
                 if m > MAX_SAFE_INTEGER then no_amount
                 else if m mod 1000 = 0
                 then \<lparr>msats = Some m, sats = Some (m div 1000), amount_currency = Some ''SATS''\<rparr>
                 else \<lparr>msats = Some m, sats = None, amount_currency = Some ''MSATS''\<rparr>)"

subsection \<open>Metadata, payment hash and preimage\<close>

record LightningInvoiceMetadata = DecodedLightningInvoiceAmount +
  invoice_createdAt :: "int option"
  invoice_expiresAt :: "int option"

definition with_times ::
    "DecodedLightningInvoiceAmount \<Rightarrow> int option \<Rightarrow> int option \<Rightarrow> LightningInvoiceMetadata" where
  "with_times amount c e = DecodedLightningInvoiceAmount.extend amount \<lparr>invoice_createdAt = c, invoice_expiresAt = e\<rparr>"

definition decodeLightningInvoiceMetadata :: "js_string \<Rightarrow> LightningInvoiceMetadata" where
  "decodeLightningInvoiceMetadata invoice =
     (let amount = decodeLightningInvoiceAmount invoice
      in case parseBolt11Invoice invoice of
           None \<Rightarrow> with_times amount None None
         | Some parsed \<Rightarrow>
             let createdAtBig = wordsToBigInt (take BOLT11_TIMESTAMP_WORD_COUNT (data_values parsed));
                 created = (if createdAtBig \<le> MAX_SAFE_INTEGER then Some createdAtBig else None);
                 expiryFields = fields_tagged (CHR ''x'') parsed;
                 expirySecondsBig = (if length expiryFields = 1
                                     then wordsToBigInt (words (hd expiryFields)) else 3600)
             in with_times amount created
                  (case created of
                     None \<Rightarrow> None
                   | Some c \<Rightarrow>
                       if expirySecondsBig \<le> MAX_SAFE_INTEGER \<and> is_safe (c + expirySecondsBig)
                       then Some (c + expirySecondsBig) else None))"

definition decodeLightningInvoicePaymentHash :: "js_string \<Rightarrow> js_string option" where
  "decodeLightningInvoicePaymentHash invoice =
     (case parseBolt11Invoice invoice of
        None \<Rightarrow> None
      | Some parsed \<Rightarrow>
          let paymentHashes = fields_tagged (CHR ''p'') parsed
          in if length paymentHashes \<noteq> 1 then None
             else if length (words (hd paymentHashes)) \<noteq> BOLT11_PAYMENT_HASH_WORD_COUNT then None
             else map_option bytesToHex (wordsToBytes (words (hd paymentHashes)) 32))"

definition isLightningPaymentPreimageForInvoice ::
    "(nat list \<Rightarrow> nat list) \<Rightarrow> js_string \<Rightarrow> js_string \<Rightarrow> bool" where
  "isLightningPaymentPreimageForInvoice sha256 invoice preimage \<longleftrightarrow>
     (if \<not> is_hex64_i preimage then False
      else case decodeLightningInvoicePaymentHash invoice of
        None \<Rightarrow> False
      | Some paymentHash \<Rightarrow>
          toLowerCase (bytesToHex (sha256 (hexToBytes preimage))) = toLowerCase paymentHash)"

subsection \<open>The zap description binding\<close>

datatype ZapInvoiceBindingErrorCode =
    InvalidBolt11 | MissingDescriptionHash | AmbiguousDescription | InvalidDescriptionHash
  | DescriptionHashMismatch

definition validateZapInvoiceDescriptionBinding ::
    "(nat list \<Rightarrow> nat list) \<Rightarrow> (js_string \<Rightarrow> nat list) \<Rightarrow> js_string \<Rightarrow> js_string \<Rightarrow>
     ZapInvoiceBindingErrorCode + js_string" where
  "validateZapInvoiceDescriptionBinding sha256 utf8 invoice zapRequestJson =
     (case parseBolt11Invoice invoice of
        None \<Rightarrow> Inl InvalidBolt11
      | Some parsed \<Rightarrow>
          let descriptionHashes = fields_tagged (CHR ''h'') parsed;
              plainDescriptions = fields_tagged (CHR ''d'') parsed
          in if length descriptionHashes = 0 then Inl MissingDescriptionHash
             else if length descriptionHashes \<noteq> 1 \<or> length plainDescriptions > 0
             then Inl AmbiguousDescription
             else if length (words (hd descriptionHashes)) \<noteq> BOLT11_DESCRIPTION_HASH_WORD_COUNT
             then Inl InvalidDescriptionHash
             else case wordsToBytes (words (hd descriptionHashes)) 32 of
               None \<Rightarrow> Inl InvalidDescriptionHash
             | Some actualHash \<Rightarrow>
                 if \<not> equalBytesConstantTime actualHash (sha256 (utf8 zapRequestJson))
                 then Inl DescriptionHashMismatch
                 else Inr (bytesToHex actualHash))"

subsection \<open>Validation before a payment\<close>

record LightningInvoiceValidation =
  ok :: bool
  reason :: "js_string option"
  metadata :: LightningInvoiceMetadata

definition validateLightningInvoiceForPayment ::
    "js_string \<Rightarrow> js_string \<Rightarrow> int \<Rightarrow> LightningInvoiceNetwork option \<Rightarrow> int \<Rightarrow> bool \<Rightarrow>
     LightningInvoiceValidation" where
  "validateLightningInvoiceForPayment net invoice expectedAmountMsats expectedNetwork nowSeconds allowExpired =
     (let m = decodeLightningInvoiceMetadata invoice;
          actualNetwork = getLightningInvoiceNetwork invoice;
          refuse = (\<lambda>why. \<lparr>ok = False, reason = Some why, metadata = m\<rparr>)
      in if (case expectedNetwork of
               Some n \<Rightarrow> actualNetwork \<noteq> n
             | None \<Rightarrow> \<not> isInvoiceCompatibleWithCurrentNetwork net invoice)
         then refuse
           (case expectedNetwork of
              Some n \<Rightarrow>
                if actualNetwork \<noteq> UnknownNetwork
                then ''This invoice is for '' @ network_name actualNetwork @ '', but ''
                       @ network_name n @ '' was required.''
                else or_else (getLightningNetworkMismatchMessage net invoice)
                  ''The invoice returned by the merchant is for a different Lightning network.''
            | None \<Rightarrow> or_else (getLightningNetworkMismatchMessage net invoice)
                  ''The invoice returned by the merchant is for a different Lightning network.'')
         else if msats m = None
         then refuse ''The invoice returned by the merchant does not encode an amount.''
         else if msats m \<noteq> Some expectedAmountMsats
         then refuse ''The invoice amount does not match this order total.''
         else (case invoice_expiresAt m of
             None \<Rightarrow> refuse ''The invoice returned by the merchant has an invalid expiry.''
           | Some e \<Rightarrow>
               if \<not> allowExpired \<and> e \<le> nowSeconds
               then refuse ''The invoice returned by the merchant is already expired.''
               else \<lparr>ok = True, reason = None, metadata = m\<rparr>))"

subsection \<open>Lightning addresses\<close>

definition is_lud16_user_char :: "char \<Rightarrow> bool" where
  "is_lud16_user_char c \<longleftrightarrow>
     is_lower_alpha c \<or> is_digit c \<or> c \<in> set ''._~!$&'()*+,;=:-''"

definition is_domain_char :: "char \<Rightarrow> bool" where
  "is_domain_char c \<longleftrightarrow> is_lower_alpha c \<or> is_digit c \<or> c = CHR ''.'' \<or> c = CHR ''-''"

text \<open>\<open>/^[a-z0-9.-]+\.[a-z]{2,}$/\<close>: the text after the last dot is the top-level domain.\<close>

definition is_lud16_domain :: "js_string \<Rightarrow> bool" where
  "is_lud16_domain d \<longleftrightarrow>
     (case lastIndexOf d (CHR ''.'') of
        None \<Rightarrow> False
      | Some k \<Rightarrow> k > 0 \<and> list_all is_domain_char (take k d)
          \<and> length (drop (k + 1) d) \<ge> 2 \<and> list_all is_lower_alpha (drop (k + 1) d))"

fun has_double_dot :: "js_string \<Rightarrow> bool" where
  "has_double_dot (a # b # s) = ((a = CHR ''.'' \<and> b = CHR ''.'') \<or> has_double_dot (b # s))"
| "has_double_dot _ = False"

definition isValidLud16Address :: "js_string \<Rightarrow> bool" where
  "isValidLud16Address lud16 \<longleftrightarrow>
     (let trimmed = toLowerCase (js_trim lud16)
      in case indexOf trimmed (CHR ''@'') of
           None \<Rightarrow> False
         | Some atIndex \<Rightarrow>
             if atIndex = 0 \<or> lastIndexOf trimmed (CHR ''@'') \<noteq> Some atIndex then False
             else if atIndex = length trimmed - 1 then False
             else let user = take atIndex trimmed; domain = drop (atIndex + 1) trimmed
             in list_all is_lud16_user_char user \<and> is_lud16_domain domain
                \<and> \<not> (startsWith domain ''.'' \<or> (domain \<noteq> [] \<and> last domain = CHR ''.'')
                      \<or> has_double_dot domain))"

subsection \<open>Lemmas on the tagged part\<close>

text \<open>The symbols a tagged field was read from.\<close>

definition field_symbols :: "Bolt11TaggedField \<Rightarrow> nat list \<Rightarrow> bool" where
  "field_symbols f vs \<longleftrightarrow>
     (\<exists>t b c. vs = t # b # c # words f \<and> t < 32 \<and> tag f = BECH32_CHARSET ! t
        \<and> length (words f) = push_bit 5 b + c)"

lemma tagged_fields_tile:
  "tagged_fields vs = Some fs \<Longrightarrow> \<exists>parts. concat parts = vs \<and> list_all2 field_symbols fs parts"
proof (induction vs arbitrary: fs rule: tagged_fields.induct)
  case (4 t b c rest)
  let ?len = "push_bit 5 b + c"
  from 4(2) have l: "t < length BECH32_CHARSET" "?len \<le> length rest"
    by (auto simp: Let_def split: if_split_asm)
  with 4(2) obtain gs where gs: "tagged_fields (drop ?len rest) = Some gs"
      "fs = \<lparr>tag = BECH32_CHARSET ! t, words = take ?len rest\<rparr> # gs"
    by (auto simp: Let_def)
  with 4(1) l obtain parts where "concat parts = drop ?len rest" "list_all2 field_symbols gs parts"
    by (auto simp: not_le not_less)
  moreover have "field_symbols \<lparr>tag = BECH32_CHARSET ! t, words = take ?len rest\<rparr> (t # b # c # take ?len rest)"
    using l by (simp add: field_symbols_def length_charset)
  ultimately show ?case
    using gs(2) by (intro exI [of _ "(t # b # c # take ?len rest) # parts"]) simp
qed auto

lemma lastIndexOf_split:
  assumes "lastIndexOf s c = Some k"
  shows "s = take k s @ c # drop (Suc k) s"
proof -
  obtain j where j: "indexOf (rev s) c = Some j" "k = length s - 1 - j"
    using assms by (auto simp: lastIndexOf_def)
  then have "j < length s" "rev s ! j = c" using indexOf_Some [of "rev s" c j] by auto
  then have "s ! k = c" "k < length s" using j(2) by (auto simp: rev_nth)
  then show ?thesis using id_take_nth_drop by blast
qed

lemma charset_values_inverse: "charset_values s = Some vs \<Longrightarrow> map (\<lambda>v. BECH32_CHARSET ! v) vs = s"
  by (induction s arbitrary: vs) (auto split: option.splits dest: charset_index)

lemma parse_Some:
  assumes "parseBolt11Invoice invoice = Some parsed"
  shows "isValidBech32Invoice (toLowerCase (normalizeLightningInvoice invoice))
    \<and> toLowerCase (normalizeLightningInvoice invoice) = hrp parsed @ ''1'' @
        map (\<lambda>v. BECH32_CHARSET ! v) (data_values parsed)
    \<and> (\<forall>v \<in> set (data_values parsed). v < 32)
    \<and> 117 \<le> length (data_values parsed)
    \<and> tagged_fields (drop 7 (take (length (data_values parsed) - 110) (data_values parsed)))
        = Some (taggedFields parsed)"
proof -
  let ?n = "toLowerCase (normalizeLightningInvoice invoice)"
  have valid: "isValidBech32Invoice ?n"
    using assms by (auto simp: parseBolt11Invoice_def Let_def split: if_split_asm)
  obtain k where k: "lastIndexOf ?n (CHR ''1'') = Some k"
    using assms valid by (auto simp: parseBolt11Invoice_def Let_def split: if_split_asm option.splits)
  obtain vs where vs: "charset_values (drop (Suc k) ?n) = Some vs"
    using assms valid k by (auto simp: parseBolt11Invoice_def Let_def split: if_split_asm option.splits)
  obtain fs where fs: "tagged_fields (drop 7 (take (length vs - 110) vs)) = Some fs"
      "117 \<le> length vs" "parsed = \<lparr>hrp = take k ?n, data_values = vs, taggedFields = fs\<rparr>"
    using assms valid k vs
    by (auto simp: parseBolt11Invoice_def Let_def word_counts split: if_split_asm)
  have "?n = take k ?n @ ''1'' @ map (\<lambda>v. BECH32_CHARSET ! v) vs"
    using lastIndexOf_split [OF k] charset_values_inverse [OF vs] by simp
  then show ?thesis using valid fs charset_values_small [OF vs] by simp
qed

text \<open>Conversely, a text of the right shape is parsed.\<close>

lemma parse_text:
  assumes "normalizeLightningInvoice invoice = h @ ''1'' @ map (\<lambda>v. BECH32_CHARSET ! v) vs"
    "toLowerCase (normalizeLightningInvoice invoice) = normalizeLightningInvoice invoice"
    "\<not> list_ex is_upper_alpha (normalizeLightningInvoice invoice)"
    "isValidBech32Invoice (h @ ''1'' @ map (\<lambda>v. BECH32_CHARSET ! v) vs)"
    "\<forall>v \<in> set vs. v < 32" "is_invoice_hrp h" "117 \<le> length vs"
    "tagged_fields (drop 7 (take (length vs - 110) vs)) = Some fs"
  shows "parseBolt11Invoice invoice = Some \<lparr>hrp = h, data_values = vs, taggedFields = fs\<rparr>"
proof -
  let ?t = "h @ CHR ''1'' # map (\<lambda>v. BECH32_CHARSET ! v) vs"
  have cs: "charset_values (map (\<lambda>v. BECH32_CHARSET ! v) vs) = Some vs"
    by (rule charset_values_map [OF assms(5)])
  then have last: "lastIndexOf ?t (CHR ''1'') = Some (length h)"
    using charset_no_one lastIndexOf_last by metis
  have n: "normalizeLightningInvoice invoice = ?t" "toLowerCase ?t = ?t" using assms(1,2) by simp_all
  show ?thesis
    using assms(3,4,6,7,8) cs last
    by (simp add: parseBolt11Invoice_def Let_def n word_counts del: toLowerCase_append)
qed

subsection \<open>Lemmas on bytes and amounts\<close>

lemma pack_bytes_small: "pack_bytes ws v b = Some (bytes, rest) \<Longrightarrow> x \<in> set bytes \<Longrightarrow> x < 256"
proof (induction ws v b arbitrary: bytes rest rule: pack_bytes.induct)
  case (2 w ws v b)
  have small: "y AND 255 < 256" for y :: nat
  proof -
    have m: "(255 :: nat) = mask 8" by (simp add: mask_eq_exp_minus_1)
    show ?thesis unfolding m by (simp add: take_bit_eq_mod flip: take_bit_eq_mask)
  qed
  let ?v = "push_bit 5 v OR w" and ?b = "b + 5"
  have w: "\<not> w > 31" using 2(3) by auto
  show ?case
  proof (cases "?b \<ge> 8")
    case True
    with 2(3) w obtain bytes' where "bytes = (drop_bit (?b - 8) ?v AND 255) # bytes'"
        "pack_bytes ws (if ?b - 8 = 0 then 0 else ?v AND (2 ^ (?b - 8) - 1)) (?b - 8) = Some (bytes', rest)"
      by (auto simp: Let_def)
    with 2(1) [OF w refl refl True this(2)] 2(4) small show ?thesis by auto
  next
    case False
    with 2(3) w have "pack_bytes ws ?v ?b = Some (bytes, rest)" by (simp add: Let_def)
    from 2(2) [OF w refl refl False this 2(4)] show ?thesis .
  qed
qed simp

lemma wordsToBytes_Some: "wordsToBytes ws n = Some bytes \<Longrightarrow> length bytes = n \<and> (\<forall>x \<in> set bytes. x < 256)"
  unfolding wordsToBytes_def
  by (auto split: option.splits prod.splits if_split_asm dest: pack_bytes_small)

lemma hex_digit_lower: "n < 16 \<Longrightarrow> is_lower_hex (hex_digit n)"
proof -
  have "list_all (\<lambda>n. is_lower_hex (hex_digit n)) [0..<16]" by code_simp
  then show "n < 16 \<Longrightarrow> is_lower_hex (hex_digit n)" by (simp add: list_all_iff)
qed

lemma bytesToHex_hex: "length (bytesToHex bytes) = 2 * length bytes \<and> list_all is_lower_hex (bytesToHex bytes)"
  by (induction bytes) (auto simp: bytesToHex_def hex_digit_lower)

lemma payment_hash_hex: "decodeLightningInvoicePaymentHash invoice = Some h \<Longrightarrow> is_hex64 h"
proof -
  assume "decodeLightningInvoicePaymentHash invoice = Some h"
  then obtain ws bytes where "wordsToBytes ws 32 = Some bytes" "h = bytesToHex bytes"
    by (auto simp: decodeLightningInvoicePaymentHash_def Let_def split: option.splits if_split_asm)
  then show ?thesis using wordsToBytes_Some bytesToHex_hex [of bytes] by (auto simp: is_hex64_def)
qed

lemma decimal_value_append: "decimal_value (ds @ [d]) = 10 * decimal_value ds + int (char_code d - 48)"
  by (simp add: decimal_value_def)

lemma decimal_value_nonneg: "0 \<le> decimal_value ds"
  by (induction ds rule: rev_induct) (simp add: decimal_value_def, simp add: decimal_value_append)

lemma amount_msats_nonneg: "amount_msats ds u = Some m \<Longrightarrow> 0 \<le> m"
  using decimal_value_nonneg [of ds] by (auto simp: amount_msats_def Let_def MSATS_PER_BTC_def split: if_split_asm)

lemma decoded_amount:
  assumes "msats (decodeLightningInvoiceAmount invoice) = Some m"
  shows "0 \<le> m \<and> m \<le> MAX_SAFE_INTEGER \<and>
    sats (decodeLightningInvoiceAmount invoice) = (if m mod 1000 = 0 then Some (m div 1000) else None) \<and>
    amount_currency (decodeLightningInvoiceAmount invoice) = Some (if m mod 1000 = 0 then ''SATS'' else ''MSATS'')"
  using assms amount_msats_nonneg
  by (auto simp: decodeLightningInvoiceAmount_def no_amount_def Let_def split: if_split_asm option.splits prod.splits)

lemma metadata_amount:
  "msats (decodeLightningInvoiceMetadata invoice) = msats (decodeLightningInvoiceAmount invoice)"
  by (simp add: decodeLightningInvoiceMetadata_def with_times_def DecodedLightningInvoiceAmount.defs Let_def
      split: option.split)

lemma validation_ok:
  "ok (validateLightningInvoiceForPayment net invoice expected netOpt now allowExpired) \<longleftrightarrow>
     (case netOpt of Some n \<Rightarrow> getLightningInvoiceNetwork invoice = n
                   | None \<Rightarrow> isInvoiceCompatibleWithCurrentNetwork net invoice)
     \<and> msats (decodeLightningInvoiceMetadata invoice) = Some expected
     \<and> (\<exists>e. invoice_expiresAt (decodeLightningInvoiceMetadata invoice) = Some e \<and> (allowExpired \<or> now < e))"
  unfolding validateLightningInvoiceForPayment_def Let_def
  by (auto split: option.splits)

lemma validation_metadata [simp]:
  "metadata (validateLightningInvoiceForPayment net invoice expected netOpt now allowExpired)
     = decodeLightningInvoiceMetadata invoice"
  unfolding validateLightningInvoiceForPayment_def Let_def
  by (auto split: option.splits)

subsection \<open>Reading an amount back\<close>

lemma unit_and_one_needs_one: "unit_and_one s = Some u \<Longrightarrow> CHR ''1'' \<in> set s"
proof (cases s)
  case (Cons c cs)
  assume "unit_and_one s = Some u"
  with Cons show ?thesis
    by (cases cs) (auto simp: unit_and_one_def startsWith_def split: if_split_asm)
qed (simp add: unit_and_one_def startsWith_def)

lemma match_digits_skip:
  "k \<le> n \<Longrightarrow> \<forall>i. k < i \<and> i \<le> n \<longrightarrow> unit_and_one (drop i s) = None \<Longrightarrow> match_digits n s = match_digits k s"
proof (induction n)
  case (Suc n)
  show ?case
  proof (cases "k = Suc n")
    case False
    with Suc.prems have "unit_and_one (drop (Suc n) s) = None" by auto
    with Suc False show ?thesis by simp
  qed simp
qed simp

lemma unit_digit: "is_unit_char c \<Longrightarrow> \<not> is_digit c"
  by (auto simp: is_unit_char_def is_digit_def char_code_def)

lemma match_amount_text:
  assumes "ds \<noteq> []" "list_all is_digit ds" "u = [] \<or> (\<exists>c. u = [c] \<and> is_unit_char c)" "CHR ''1'' \<notin> set dat"
  shows "match_amount (ds @ u @ ''1'' @ dat) = Some (ds, u)"
proof -
  let ?s = "ds @ u @ ''1'' @ dat"
  let ?n = "length (takeWhile is_digit ?s)"
  have tw: "takeWhile is_digit ?s = ds @ takeWhile is_digit (u @ ''1'' @ dat)"
    using assms(2) by (simp add: takeWhile_append list_all_iff)
  have skip: "unit_and_one (drop i ?s) = None" if i: "length ds < i" "i \<le> ?n" for i
  proof -
    have "u = []" using i tw assms(3) unit_digit by auto
    then have "set (drop i ?s) \<subseteq> set dat"
      using i(1) by (cases "i - length ds") (auto dest: in_set_dropD)
    then have "CHR ''1'' \<notin> set (drop i ?s)" using assms(4) by auto
    then show ?thesis using unit_and_one_needs_one [of "drop i ?s"] by (cases "unit_and_one (drop i ?s)") auto
  qed
  have "match_amount ?s = match_digits (length ds) ?s"
    unfolding match_amount_def using skip tw by (intro match_digits_skip) auto
  also have "\<dots> = Some (ds, u)"
  proof -
    have one: "\<not> is_unit_char (CHR ''1'')" by (simp add: is_unit_char_def)
    obtain k where "length ds = Suc k" using assms(1) by (cases ds) auto
    moreover have "drop (Suc k) ?s = u @ ''1'' @ dat" "take (Suc k) ?s = ds" using calculation by auto
    moreover have "unit_and_one (u @ ''1'' @ dat) = Some u"
      using assms(3) one by (auto simp: unit_and_one_def startsWith_def)
    ultimately show ?thesis by simp
  qed
  finally show ?thesis .
qed

lemma first_match_text:
  assumes "p \<in> set invoice_prefixes" "ds \<noteq> []" "list_all is_digit ds"
    "u = [] \<or> (\<exists>c. u = [c] \<and> is_unit_char c)" "CHR ''1'' \<notin> set dat"
  shows "first_match invoice_prefixes (p @ ds @ u @ ''1'' @ dat) = Some (ds, u)"
proof -
  obtain d ds' where d: "ds = d # ds'" "is_digit d" using assms(2,3) by (cases ds) auto
  then have nd: "d \<noteq> CHR ''r''" "d \<noteq> CHR ''s''" by (auto simp: is_digit_def char_code_def)
  show ?thesis
    using assms(1) match_amount_text [OF assms(2-5)] d(1) nd
    unfolding invoice_prefixes_def by (auto simp: startsWith_def)
qed

lemma decode_amount_text:
  assumes "toLowerCase (normalizeLightningInvoice invoice) = p @ ds @ u @ ''1'' @ dat"
    "isValidBech32Invoice (p @ ds @ u @ ''1'' @ dat)"
    "p \<in> set invoice_prefixes" "ds \<noteq> []" "list_all is_digit ds"
    "u = [] \<or> (\<exists>c. u = [c] \<and> is_unit_char c)" "CHR ''1'' \<notin> set dat"
  shows "msats (decodeLightningInvoiceAmount invoice) =
     (case amount_msats ds u of
        None \<Rightarrow> None | Some m \<Rightarrow> if m > MAX_SAFE_INTEGER then None else Some m)"
  using first_match_text [OF assms(3-7)] assms(1,2,4)
  by (simp add: decodeLightningInvoiceAmount_def no_amount_def split: option.split)

subsection \<open>Writing an invoice\<close>

text \<open>
  The text of an invoice over given data symbols, with its checksum.  Nothing in the repository
  writes invoices; the function provides the concrete inputs of the witnesses.
\<close>

definition written_values :: "js_string \<Rightarrow> nat list \<Rightarrow> nat list" where
  "written_values h ws = ws @ createBech32Checksum h ws"

definition written_invoice :: "js_string \<Rightarrow> nat list \<Rightarrow> js_string" where
  "written_invoice h ws = h @ ''1'' @ map (\<lambda>v. BECH32_CHARSET ! v) (written_values h ws)"

definition plain_char :: "char \<Rightarrow> bool" where
  "plain_char c \<longleftrightarrow> char_lower c = c \<and> \<not> is_js_space c \<and> \<not> is_upper_alpha c"

definition well_written :: "js_string \<Rightarrow> nat list \<Rightarrow> bool" where
  "well_written h ws \<longleftrightarrow> list_all plain_char h \<and> take 2 h = ''ln'' \<and> is_invoice_hrp h
     \<and> list_all (\<lambda>v. v < 32) ws \<and> 111 \<le> length ws"

lemma written_values_small: "well_written h ws \<Longrightarrow> \<forall>v \<in> set (written_values h ws). v < 32"
  by (auto simp: well_written_def written_values_def list_all_iff checksum_small)

lemma length_written_values: "length (written_values h ws) = length ws + 6"
  by (simp add: written_values_def)

lemma written_charset:
  "well_written h ws \<Longrightarrow>
   charset_values (map (\<lambda>v. BECH32_CHARSET ! v) (written_values h ws)) = Some (written_values h ws)"
  by (rule charset_values_map [OF written_values_small])

lemma written_chars: "well_written h ws \<Longrightarrow> list_all plain_char (written_invoice h ws)"
proof -
  assume w: "well_written h ws"
  have "list_all plain_char (BECH32_CHARSET @ ''1'')" by code_simp
  moreover have "set (map (\<lambda>v. BECH32_CHARSET ! v) (written_values h ws)) \<subseteq> set BECH32_CHARSET"
    using written_values_small [OF w] length_charset nth_mem by auto
  ultimately show ?thesis
    using w by (auto simp: written_invoice_def well_written_def list_all_iff)
qed

lemma written_lower: "well_written h ws \<Longrightarrow> toLowerCase (written_invoice h ws) = written_invoice h ws"
  using written_chars by (simp add: toLowerCase_def plain_char_def list_all_iff map_idI)

lemma plain_trim: "list_all plain_char s \<Longrightarrow> js_trim s = s"
proof -
  assume s: "list_all plain_char s"
  then have "dropWhile is_js_space s = s" "dropWhile is_js_space (rev s) = rev s"
    by (auto intro!: dropWhile_id simp: list_all_iff plain_char_def)
  then show ?thesis by (simp add: js_trim_def)
qed

lemma written_second: "well_written h ws \<Longrightarrow> take 10 (written_invoice h ws) \<noteq> ''lightning:''"
proof
  assume w: "well_written h ws" and "take 10 (written_invoice h ws) = ''lightning:''"
  then have "take 2 (take 10 (written_invoice h ws)) = ''li''" by simp
  then have "take 2 (written_invoice h ws) = ''li''" by simp
  moreover have "take 2 h = ''ln''" using w by (simp add: well_written_def)
  moreover from this have "2 \<le> length h" by (metis length_take min.absorb_iff2 length_Cons list.size(3) One_nat_def Suc_1)
  ultimately show False by (simp add: written_invoice_def)
qed

lemma written_normal: "well_written h ws \<Longrightarrow> normalizeLightningInvoice (written_invoice h ws) = written_invoice h ws"
proof -
  assume w: "well_written h ws"
  have "toLowerCase (take 10 (written_invoice h ws)) = take 10 (written_invoice h ws)"
    using written_lower [OF w] by (simp add: toLowerCase_def flip: take_map)
  with w show ?thesis
    by (simp add: normalizeLightningInvoice_def Let_def plain_trim written_chars written_second)
qed

lemma written_valid: "well_written h ws \<Longrightarrow> isValidBech32Invoice (written_invoice h ws)"
proof -
  assume w: "well_written h ws"
  have "bech32Polymod (bech32HrpExpand h @ written_values h ws) = 1"
    unfolding written_values_def by (rule created_checksum) (use w in \<open>auto simp: well_written_def list_all_iff\<close>)
  moreover have "h \<noteq> []" using w by (auto simp: well_written_def)
  ultimately show ?thesis
    unfolding written_invoice_def valid_bech32_parts [OF charset_no_one [OF written_charset [OF w]]]
    using written_charset [OF w] written_lower [OF w] w
    by (simp add: length_written_values well_written_def written_invoice_def)
qed

lemma written_parsed:
  assumes w: "well_written h ws" and f: "tagged_fields (drop 7 (take (length ws - 104) ws)) = Some fs"
  shows "parseBolt11Invoice (written_invoice h ws) = Some \<lparr>hrp = h, data_values = written_values h ws, taggedFields = fs\<rparr>"
proof (rule parse_text)
  show "\<not> list_ex is_upper_alpha (normalizeLightningInvoice (written_invoice h ws))"
    using written_chars [OF w] by (auto simp: written_normal [OF w] list_ex_iff list_all_iff plain_char_def)
  show "isValidBech32Invoice (h @ ''1'' @ map (\<lambda>v. BECH32_CHARSET ! v) (written_values h ws))"
    using written_valid [OF w] by (simp only: written_invoice_def)
  show "normalizeLightningInvoice (written_invoice h ws) = h @ ''1'' @ map (\<lambda>v. BECH32_CHARSET ! v) (written_values h ws)"
    using written_normal [OF w] by (simp only: written_invoice_def)
  have "take (length ws - 104) (written_values h ws) = take (length ws - 104) ws"
    by (simp add: written_values_def)
  then show "tagged_fields (drop 7 (take (length (written_values h ws) - 110) (written_values h ws))) = Some fs"
    using f by (simp add: length_written_values)
qed (use w written_values_small [OF w] in \<open>simp_all add: written_normal written_lower length_written_values well_written_def\<close>)

lemma written_amount:
  assumes w: "well_written h ws" and h: "h = p @ ds @ u" "p \<in> set invoice_prefixes" "ds \<noteq> []" "list_all is_digit ds"
    "u = [] \<or> (\<exists>c. u = [c] \<and> is_unit_char c)"
  shows "msats (decodeLightningInvoiceMetadata (written_invoice h ws)) =
     (case amount_msats ds u of
        None \<Rightarrow> None | Some m \<Rightarrow> if m > MAX_SAFE_INTEGER then None else Some m)"
proof -
  have t: "toLowerCase (normalizeLightningInvoice (written_invoice h ws))
      = p @ ds @ u @ ''1'' @ map (\<lambda>v. BECH32_CHARSET ! v) (written_values h ws)"
    unfolding written_normal [OF w] written_lower [OF w] by (simp add: written_invoice_def h(1))
  have "isValidBech32Invoice (p @ ds @ u @ ''1'' @ map (\<lambda>v. BECH32_CHARSET ! v) (written_values h ws))"
    using written_valid [OF w] by (simp add: written_invoice_def h(1))
  from decode_amount_text [OF t this h(2-5) charset_no_one [OF written_charset [OF w]]]
  show ?thesis by (simp only: metadata_amount)
qed

text \<open>An invoice with the default expiry.\<close>

lemma written_expiry_at:
  assumes w: "well_written h ws" and f: "tagged_fields (drop 7 (take (length ws - 104) ws)) = Some fs"
    and t: "wordsToBigInt (take 7 ws) = t" "is_safe (t + 3600)" "t \<le> MAX_SAFE_INTEGER"
    and x: "filter (\<lambda>f. tag f = CHR ''x'') fs = []"
  shows "invoice_expiresAt (decodeLightningInvoiceMetadata (written_invoice h ws)) = Some (t + 3600)"
proof -
  have "7 \<le> length ws" using w by (simp add: well_written_def)
  with t have "wordsToBigInt (take 7 (written_values h ws)) = t" by (simp add: written_values_def)
  with x t(2,3) show ?thesis
    by (simp add: decodeLightningInvoiceMetadata_def written_parsed [OF w f] word_counts fields_tagged_def with_times_def
        DecodedLightningInvoiceAmount.defs MAX_SAFE_INTEGER_def Let_def)
qed

lemma written_expiry:
  assumes w: "well_written h ws" and f: "tagged_fields (drop 7 (take (length ws - 104) ws)) = Some fs"
    and z: "take 7 ws = replicate 7 0" and x: "filter (\<lambda>f. tag f = CHR ''x'') fs = []"
  shows "invoice_expiresAt (decodeLightningInvoiceMetadata (written_invoice h ws)) = Some 3600"
proof -
  have "wordsToBigInt (take 7 ws) = 0" unfolding z by (simp add: wordsToBigInt_def numeral_nat)
  then show ?thesis using written_expiry_at [OF w f _ _ _ x, of 0] by (simp add: is_safe_def MAX_SAFE_INTEGER_def)
qed

lemma written_prefix: "length q \<le> length h \<Longrightarrow> startsWith (written_invoice h ws) q = startsWith h q"
  by (simp add: startsWith_def written_invoice_def)

lemma written_network:
  assumes w: "well_written h ws" and "6 \<le> length h" "startsWith h ''lnbc''" "\<not> startsWith h ''lnbcrt''"
  shows "getLightningInvoiceNetwork (written_invoice h ws) = Mainnet"
proof -
  have "startsWith (written_invoice h ws) ''lnbc''" "\<not> startsWith (written_invoice h ws) ''lnbcrt''"
    using assms by (simp_all add: written_prefix)
  then show ?thesis by (simp add: getLightningInvoiceNetwork_def written_normal [OF w] written_lower [OF w])
qed

lemma written_hash:
  assumes w: "well_written h ws" and f: "tagged_fields (drop 7 (take (length ws - 104) ws)) = Some fs"
    and p: "filter (\<lambda>f. tag f = CHR ''p'') fs = [\<lparr>tag = CHR ''p'', words = ps\<rparr>]" "length ps = 52"
  shows "decodeLightningInvoicePaymentHash (written_invoice h ws) = map_option bytesToHex (wordsToBytes ps 32)"
  using p by (simp add: decodeLightningInvoicePaymentHash_def written_parsed [OF w f] fields_tagged_def word_counts)

subsection \<open>A sample invoice\<close>

text \<open>An unsigned mainnet invoice over 1000 satoshis with a zero payment hash, created at time 0,
  for the witnesses.\<close>

definition sample_symbols :: "nat list" where
  "sample_symbols = replicate 7 0 @ [1, 1, 20] @ replicate 52 0 @ replicate 104 0"

definition sample_invoice :: js_string where
  "sample_invoice = written_invoice ''lnbc10u'' sample_symbols"

definition sample_values :: "nat list" where
  "sample_values = written_values ''lnbc10u'' sample_symbols"

lemma sample_written: "well_written ''lnbc10u'' sample_symbols"
  by code_simp

lemma sample_text: "sample_invoice = ''lnbc10u'' @ ''1'' @ map (\<lambda>v. BECH32_CHARSET ! v) sample_values"
  by (simp add: sample_invoice_def sample_values_def written_invoice_def)

lemma sample_tagged:
  "tagged_fields (drop 7 (take (length sample_symbols - 104) sample_symbols)) = Some [\<lparr>tag = CHR ''p'', words = replicate 52 0\<rparr>]"
  by code_simp

lemma sample_parsed:
  "parseBolt11Invoice sample_invoice =
     Some \<lparr>hrp = ''lnbc10u'', data_values = sample_values, taggedFields = [\<lparr>tag = CHR ''p'', words = replicate 52 0\<rparr>]\<rparr>"
  unfolding sample_invoice_def sample_values_def by (rule written_parsed [OF sample_written sample_tagged])

lemma sample_normal: "normalizeLightningInvoice sample_invoice = sample_invoice"
  unfolding sample_invoice_def by (rule written_normal [OF sample_written])

lemma sample_lower: "toLowerCase sample_invoice = sample_invoice"
  unfolding sample_invoice_def by (rule written_lower [OF sample_written])

lemma sample_valid: "isValidBech32Invoice sample_invoice"
  unfolding sample_invoice_def by (rule written_valid [OF sample_written])

lemma sample_charset: "charset_values (map (\<lambda>v. BECH32_CHARSET ! v) sample_values) = Some sample_values"
  unfolding sample_values_def by (rule written_charset [OF sample_written])

lemma sample_amount: "msats (decodeLightningInvoiceMetadata sample_invoice) = Some 1000000"
proof -
  have "msats (decodeLightningInvoiceMetadata sample_invoice) =
     (case amount_msats ''10'' ''u'' of
        None \<Rightarrow> None | Some m \<Rightarrow> if m > MAX_SAFE_INTEGER then None else Some m)"
    unfolding sample_invoice_def
    by (rule written_amount [OF sample_written, of "''lnbc''"])
      (simp_all add: invoice_prefixes_def is_digit_def char_code_def is_unit_char_def)
  also have "\<dots> = Some 1000000" by code_simp
  finally show ?thesis .
qed

lemma sample_expiry: "invoice_expiresAt (decodeLightningInvoiceMetadata sample_invoice) = Some 3600"
  unfolding sample_invoice_def
  by (rule written_expiry [OF sample_written sample_tagged]) (simp_all add: sample_symbols_def)

lemma sample_network: "getLightningInvoiceNetwork sample_invoice = Mainnet"
  unfolding sample_invoice_def
  by (rule written_network [OF sample_written]) (simp_all add: startsWith_def)

lemma sample_hash: "decodeLightningInvoicePaymentHash sample_invoice = Some (replicate 64 (CHR ''0''))"
proof -
  have "map_option bytesToHex (wordsToBytes (replicate 52 0) 32) = Some (replicate 64 (CHR ''0''))" by code_simp
  then show ?thesis
    unfolding sample_invoice_def
    by (subst written_hash [OF sample_written sample_tagged]) simp_all
qed

subsection \<open>Properties\<close>



text \<open>The amount written in an invoice is the amount decoded: for a valid bech32 invoice with a
  known prefix, a decimal amount and an optional multiplier, the backtracking pattern captures
  exactly that amount and that multiplier, although the separator is itself a digit, and the
  decoded value is the amount in millisatoshis, unless it is fractional or unsafe.\<close>

theorem invoice_amount_is_read_exactly:
  assumes "toLowerCase (normalizeLightningInvoice invoice) = p @ ds @ u @ ''1'' @ dat"
    "isValidBech32Invoice (p @ ds @ u @ ''1'' @ dat)"
    "p \<in> set invoice_prefixes" "ds \<noteq> []" "list_all is_digit ds"
    "u = [] \<or> (\<exists>c. u = [c] \<and> is_unit_char c)" "CHR ''1'' \<notin> set dat"
  shows "first_match invoice_prefixes (toLowerCase (normalizeLightningInvoice invoice)) = Some (ds, u)
    \<and> msats (decodeLightningInvoiceAmount invoice) =
        (case amount_msats ds u of
           None \<Rightarrow> None | Some m \<Rightarrow> if m > MAX_SAFE_INTEGER then None else Some m)"
  using first_match_text [OF assms(3-7)] decode_amount_text [OF assms] assms(1) by simp

theorem invoice_amount_is_read_exactly_witness:
  "msats (decodeLightningInvoiceAmount sample_invoice) = Some 1000000"
proof -
  have t: "toLowerCase (normalizeLightningInvoice sample_invoice) = ''lnbc'' @ ''10'' @ ''u'' @ ''1'' @ map (\<lambda>v. BECH32_CHARSET ! v) sample_values"
    by (simp only: sample_normal sample_lower) (simp add: sample_text)
  have "isValidBech32Invoice (''lnbc'' @ ''10'' @ ''u'' @ ''1'' @ map (\<lambda>v. BECH32_CHARSET ! v) sample_values)"
    using sample_valid by (simp add: sample_text)
  from invoice_amount_is_read_exactly [OF t this _ _ _ _ charset_no_one [OF sample_charset]]
  have "msats (decodeLightningInvoiceAmount sample_invoice) =
     (case amount_msats ''10'' ''u'' of
        None \<Rightarrow> None | Some m \<Rightarrow> if m > MAX_SAFE_INTEGER then None else Some m)"
    by (simp add: invoice_prefixes_def is_digit_def char_code_def is_unit_char_def)
  also have "\<dots> = Some 1000000" by code_simp
  finally show ?thesis .
qed

text \<open>A parsed invoice accounts for every symbol: the normalized text is the prefix, the
  separator and the data symbols with a correct checksum, and the symbols between the timestamp
  and the signature are exactly the tagged fields, each with its tag, its length and its data.\<close>

theorem parsed_invoice_accounts_for_every_symbol:
  assumes "parseBolt11Invoice invoice = Some parsed"
  shows "toLowerCase (normalizeLightningInvoice invoice) =
      hrp parsed @ ''1'' @ map (\<lambda>v. BECH32_CHARSET ! v) (data_values parsed)
    \<and> isValidBech32Invoice (toLowerCase (normalizeLightningInvoice invoice))
    \<and> (\<exists>parts. concat parts = drop 7 (take (length (data_values parsed) - 110) (data_values parsed))
         \<and> list_all2 field_symbols (taggedFields parsed) parts)"
  using parse_Some [OF assms] tagged_fields_tile by blast

theorem parsed_invoice_accounts_for_every_symbol_witness:
  "\<exists>parts. concat parts = drop 7 (take (length sample_values - 110) sample_values)
     \<and> list_all2 field_symbols [\<lparr>tag = CHR ''p'', words = replicate 52 0\<rparr>] parts"
  using parsed_invoice_accounts_for_every_symbol [OF sample_parsed] by simp

end
