(* ===== verification/Json_Text.thy ===== *)
theory Json_Text
  imports Bolt11
begin

text \<open>
  JSON values, their text (\<open>JSON.stringify\<close>), its UTF-8 bytes (\<open>TextEncoder\<close>) and the digest
  \<open>bytesToHex(sha256(new TextEncoder().encode(JSON.stringify(value))))\<close> that the checkout modules
  share.  SHA-256 is a function of a third-party package and stays a parameter.
\<close>

datatype json = JNull | JBool bool | JNumber js_number | JString js_string | JArray "json list"
  | JObject "(js_string \<times> json) list"

abbreviation JInt :: "int \<Rightarrow> json" where
  "JInt i \<equiv> JNumber (JSInt i)"

subsection \<open>JSON.stringify\<close>

fun decimal_digits :: "nat \<Rightarrow> js_string" where
  "decimal_digits n =
     (if n < 10 then [char_of (48 + n)] else decimal_digits (n div 10) @ [char_of (48 + n mod 10)])"

declare decimal_digits.simps [simp del]

text \<open>An integral number below \<open>10\<^sup>2\<^sup>1\<close>; no digest contains a fraction.\<close>

definition number_text :: "js_number \<Rightarrow> js_string" where
  "number_text x =
     (case x of JSInt i \<Rightarrow> (if i < 0 then ''-'' else []) @ decimal_digits (nat \<bar>i\<bar>) | JSOther \<Rightarrow> ''null'')"

definition json_char :: "char \<Rightarrow> js_string" where
  "json_char c =
     (let n = char_code c
      in if n = 34 then [CHR 0x5C, CHR 0x22]
         else if n = 92 then [CHR 0x5C, CHR 0x5C]
         else if n = 8 then [CHR 0x5C, CHR ''b'']
         else if n = 9 then [CHR 0x5C, CHR ''t'']
         else if n = 10 then [CHR 0x5C, CHR ''n'']
         else if n = 12 then [CHR 0x5C, CHR ''f'']
         else if n = 13 then [CHR 0x5C, CHR ''r'']
         else if n < 32 then CHR 0x5C # ''u00'' @ [hex_digit (n div 16), hex_digit (n mod 16)]
         else [c])"

definition string_text :: "js_string \<Rightarrow> js_string" where
  "string_text s = CHR 0x22 # concat (map json_char s) @ [CHR 0x22]"

fun separated :: "js_string list \<Rightarrow> js_string" where
  "separated [] = []"
| "separated [t] = t"
| "separated (t # ts) = t @ '','' @ separated ts"

fun stringify :: "json \<Rightarrow> js_string" where
  "stringify JNull = ''null''"
| "stringify (JBool b) = (if b then ''true'' else ''false'')"
| "stringify (JNumber x) = number_text x"
| "stringify (JString s) = string_text s"
| "stringify (JArray vs) = ''['' @ separated (map stringify vs) @ '']''"
| "stringify (JObject kvs) =
     ''{'' @ separated (map (\<lambda>(k, v). string_text k @ '':'' @ stringify v) kvs) @ ''}''"

definition utf8_bytes :: "js_string \<Rightarrow> nat list" where
  "utf8_bytes s =
     concat (map (\<lambda>c. let n = char_code c
                      in if n < 128 then [n] else [192 + n div 64, 128 + n mod 64]) s)"

definition json_digest :: "(nat list \<Rightarrow> nat list) \<Rightarrow> json \<Rightarrow> js_string" where
  "json_digest sha256 value = bytesToHex (sha256 (utf8_bytes (stringify value)))"

text \<open>What the code relies on of SHA-256: it returns bytes, thirty-two of them.\<close>

definition digests_bytes :: "(nat list \<Rightarrow> nat list) \<Rightarrow> bool" where
  "digests_bytes sha256 \<longleftrightarrow> (\<forall>bs. length (sha256 bs) = 32 \<and> list_all (\<lambda>b. b < 256) (sha256 bs))"

end
