(* ===== verification/Lifecycle_Types.thy ===== *)
theory Lifecycle_Types
  imports Json_Text
begin

text \<open>
  The buyer-side order record of \<open>db/index.ts\<close> (\<open>OrderLifecycle\<close>), the stored payment attempt,
  and the partial updates of a record.  Enumerations are datatypes; data that the lifecycle
  code never looks into is \<open>json\<close>; the constant currency field is left out.
\<close>

subsection \<open>Enumerations\<close>

datatype OrderCheckoutMode =
  AnonymousPublicZap | PublicZapAsShopper | PublicZap | PrivateCheckout | PayLater | ExternalWallet

datatype OrderPublicZapSigner = Anon | Shopper

datatype OrderBuyerIdentityKind = SignedIn | GuestEphemeral

datatype OrderDeliveryStatus = DeliveryNotStarted | DeliveryPending | DeliverySent | DeliveryFailed

datatype OrderInvoiceStatus =
  NotRequested | Requesting | Received | InvoiceManualRequired | InvoiceFailed

datatype OrderPaymentStatus =
  PaymentNotStarted | Paying | Paid | PaymentManualRequired | PaymentFailed | Ambiguous

datatype OrderProofDeliveryStatus =
  ProofNotStarted | ProofPending | ProofSent | ProofRetryNeeded | ProofFailed

datatype OrderZapReceiptStatus =
  NotApplicable | Waiting | Observed | ReceiptNotObserved | TimedOut

datatype OrderLifecyclePhase = PhasePending | InProgress | Completed | PhaseFailed | Cancelled

datatype OrderPaymentTarget = WalletTarget js_string js_string | WeblnTarget | ManualTarget

subsection \<open>Records\<close>

record OrderLifecycleItem =
  productId :: js_string
  quantity :: int
  item_details :: json

record PriorExpiredManualInvoice =
  prior_invoice :: js_string
  prior_paymentHash :: js_string
  prior_expiresAt :: int

record OrderCheckoutSparkRouterBinding =
  checkoutId :: js_string
  planDigest :: js_string
  walletId :: js_string

record OrderLifecycle =
  orderId :: js_string
  claimedReferralSource :: "json option"
  buyerPubkey :: js_string
  buyerIdentityKind :: "OrderBuyerIdentityKind option"
  guestSessionExpiresAt :: "js_number option"
  merchantPubkey :: js_string
  checkoutMode :: OrderCheckoutMode
  checkoutSparkRouterBinding :: "OrderCheckoutSparkRouterBinding option"
  eventMarketFreePurchaseDelivery :: "json option"
  publicZapSigner :: "OrderPublicZapSigner option"
  publicZapFallback :: bool
  merchantLightningAddress :: "js_string option"
  paymentTarget :: "OrderPaymentTarget option"
  walletPaymentAttemptId :: "js_string option"
  items :: "OrderLifecycleItem list"
  itemSubtotalSats :: int
  shippingCostSats :: int
  totalSats :: int
  totalMsats :: int
  pricingQuote :: "json option"
  zapContent :: "js_string option"
  shippingAddress :: "json option"
  contactNote :: "js_string option"
  guestContact :: "json option"
  addressValidity :: js_string
  shippingZoneEligibility :: js_string
  orderDeliveryStatus :: OrderDeliveryStatus
  orderDeliveryRoute :: "js_string option"
  orderRelayDelivery :: "json option"
  checkoutRecoveryPending :: bool
  paymentClaimId :: "js_string option"
  paymentClaimedAt :: "int option"
  paymentClaimLeaseExpiresAt :: "int option"
  proofDeliveryClaimId :: "js_string option"
  proofDeliveryClaimedAt :: "int option"
  proofDeliveryClaimLeaseExpiresAt :: "int option"
  invoiceStatus :: OrderInvoiceStatus
  paymentStatus :: OrderPaymentStatus
  proofDeliveryStatus :: OrderProofDeliveryStatus
  zapReceiptStatus :: OrderZapReceiptStatus
  invoice :: "js_string option"
  paymentHash :: "js_string option"
  priorExpiredManualInvoices :: "PriorExpiredManualInvoice list option"
  preimage :: "js_string option"
  feeMsats :: "int option"
  zapRequestId :: "js_string option"
  zapRequestCreatedAt :: "int option"
  zapReceiptId :: "js_string option"
  zapReceiptRelayUrls :: "js_string list option"
  zapLnurl :: "js_string option"
  zapReceiptPubkey :: "js_string option"
  invoiceExpiresAt :: "int option"
  zapReceiptObservationDeadline :: "int option"
  phase :: OrderLifecyclePhase
  lastError :: "js_string option"
  deliveryNotice :: "js_string option"
  createdAt :: int
  updatedAt :: int
  completedAt :: "int option"

datatype AttemptProofStatus = AttemptPending | AttemptSent | AttemptRetryNeeded

record StoredPaymentAttempt =
  attempt_id :: js_string
  attempt_orderId :: js_string
  attempt_buyerPubkey :: js_string
  attempt_merchantPubkey :: js_string
  attempt_amountMsats :: int
  attempt_currency :: js_string
  attempt_invoice :: "js_string option"
  attempt_paymentHash :: "js_string option"
  attempt_preimage :: "js_string option"
  attempt_feeMsats :: "int option"
  attempt_zapRequestId :: "js_string option"
  attempt_zapReceiptId :: "js_string option"
  attempt_proofDeliveryStatus :: AttemptProofStatus
  attempt_createdAt :: int
  attempt_updatedAt :: int

subsection \<open>Partial updates\<close>

text \<open>
  A \<open>Partial<OrderLifecycle>\<close> object is the list of its own properties, a later binding of a
  property (an object spread) replacing an earlier one; a property bound to \<open>undefined\<close> is a
  binding to \<open>None\<close>.
\<close>

datatype (plugins only: code) field_value =
    Set_claimedReferralSource "json option"
  | Set_buyerPubkey js_string
  | Set_buyerIdentityKind "OrderBuyerIdentityKind option"
  | Set_guestSessionExpiresAt "js_number option"
  | Set_merchantPubkey js_string
  | Set_checkoutMode OrderCheckoutMode
  | Set_checkoutSparkRouterBinding "OrderCheckoutSparkRouterBinding option"
  | Set_eventMarketFreePurchaseDelivery "json option"
  | Set_publicZapSigner "OrderPublicZapSigner option"
  | Set_publicZapFallback bool
  | Set_merchantLightningAddress "js_string option"
  | Set_paymentTarget "OrderPaymentTarget option"
  | Set_walletPaymentAttemptId "js_string option"
  | Set_items "OrderLifecycleItem list"
  | Set_itemSubtotalSats int
  | Set_shippingCostSats int
  | Set_totalSats int
  | Set_totalMsats int
  | Set_pricingQuote "json option"
  | Set_zapContent "js_string option"
  | Set_shippingAddress "json option"
  | Set_contactNote "js_string option"
  | Set_guestContact "json option"
  | Set_addressValidity js_string
  | Set_shippingZoneEligibility js_string
  | Set_orderDeliveryStatus OrderDeliveryStatus
  | Set_orderDeliveryRoute "js_string option"
  | Set_orderRelayDelivery "json option"
  | Set_checkoutRecoveryPending bool
  | Set_paymentClaimId "js_string option"
  | Set_paymentClaimedAt "int option"
  | Set_paymentClaimLeaseExpiresAt "int option"
  | Set_proofDeliveryClaimId "js_string option"
  | Set_proofDeliveryClaimedAt "int option"
  | Set_proofDeliveryClaimLeaseExpiresAt "int option"
  | Set_invoiceStatus OrderInvoiceStatus
  | Set_paymentStatus OrderPaymentStatus
  | Set_proofDeliveryStatus OrderProofDeliveryStatus
  | Set_zapReceiptStatus OrderZapReceiptStatus
  | Set_invoice "js_string option"
  | Set_paymentHash "js_string option"
  | Set_priorExpiredManualInvoices "PriorExpiredManualInvoice list option"
  | Set_preimage "js_string option"
  | Set_feeMsats "int option"
  | Set_zapRequestId "js_string option"
  | Set_zapRequestCreatedAt "int option"
  | Set_zapReceiptId "js_string option"
  | Set_zapReceiptRelayUrls "js_string list option"
  | Set_zapLnurl "js_string option"
  | Set_zapReceiptPubkey "js_string option"
  | Set_invoiceExpiresAt "int option"
  | Set_zapReceiptObservationDeadline "int option"
  | Set_phase OrderLifecyclePhase
  | Set_lastError "js_string option"
  | Set_deliveryNotice "js_string option"
  | Set_updatedAt int
  | Set_completedAt "int option"

type_synonym lifecycle_patch = "field_value list"

fun set_field :: "field_value \<Rightarrow> OrderLifecycle \<Rightarrow> OrderLifecycle" where
  "set_field (Set_claimedReferralSource v) r = r\<lparr>claimedReferralSource := v\<rparr>"
| "set_field (Set_buyerPubkey v) r = r\<lparr>buyerPubkey := v\<rparr>"
| "set_field (Set_buyerIdentityKind v) r = r\<lparr>buyerIdentityKind := v\<rparr>"
| "set_field (Set_guestSessionExpiresAt v) r = r\<lparr>guestSessionExpiresAt := v\<rparr>"
| "set_field (Set_merchantPubkey v) r = r\<lparr>merchantPubkey := v\<rparr>"
| "set_field (Set_checkoutMode v) r = r\<lparr>checkoutMode := v\<rparr>"
| "set_field (Set_checkoutSparkRouterBinding v) r = r\<lparr>checkoutSparkRouterBinding := v\<rparr>"
| "set_field (Set_eventMarketFreePurchaseDelivery v) r = r\<lparr>eventMarketFreePurchaseDelivery := v\<rparr>"
| "set_field (Set_publicZapSigner v) r = r\<lparr>publicZapSigner := v\<rparr>"
| "set_field (Set_publicZapFallback v) r = r\<lparr>publicZapFallback := v\<rparr>"
| "set_field (Set_merchantLightningAddress v) r = r\<lparr>merchantLightningAddress := v\<rparr>"
| "set_field (Set_paymentTarget v) r = r\<lparr>paymentTarget := v\<rparr>"
| "set_field (Set_walletPaymentAttemptId v) r = r\<lparr>walletPaymentAttemptId := v\<rparr>"
| "set_field (Set_items v) r = r\<lparr>items := v\<rparr>"
| "set_field (Set_itemSubtotalSats v) r = r\<lparr>itemSubtotalSats := v\<rparr>"
| "set_field (Set_shippingCostSats v) r = r\<lparr>shippingCostSats := v\<rparr>"
| "set_field (Set_totalSats v) r = r\<lparr>totalSats := v\<rparr>"
| "set_field (Set_totalMsats v) r = r\<lparr>totalMsats := v\<rparr>"
| "set_field (Set_pricingQuote v) r = r\<lparr>pricingQuote := v\<rparr>"
| "set_field (Set_zapContent v) r = r\<lparr>zapContent := v\<rparr>"
| "set_field (Set_shippingAddress v) r = r\<lparr>shippingAddress := v\<rparr>"
| "set_field (Set_contactNote v) r = r\<lparr>contactNote := v\<rparr>"
| "set_field (Set_guestContact v) r = r\<lparr>guestContact := v\<rparr>"
| "set_field (Set_addressValidity v) r = r\<lparr>addressValidity := v\<rparr>"
| "set_field (Set_shippingZoneEligibility v) r = r\<lparr>shippingZoneEligibility := v\<rparr>"
| "set_field (Set_orderDeliveryStatus v) r = r\<lparr>orderDeliveryStatus := v\<rparr>"
| "set_field (Set_orderDeliveryRoute v) r = r\<lparr>orderDeliveryRoute := v\<rparr>"
| "set_field (Set_orderRelayDelivery v) r = r\<lparr>orderRelayDelivery := v\<rparr>"
| "set_field (Set_checkoutRecoveryPending v) r = r\<lparr>checkoutRecoveryPending := v\<rparr>"
| "set_field (Set_paymentClaimId v) r = r\<lparr>paymentClaimId := v\<rparr>"
| "set_field (Set_paymentClaimedAt v) r = r\<lparr>paymentClaimedAt := v\<rparr>"
| "set_field (Set_paymentClaimLeaseExpiresAt v) r = r\<lparr>paymentClaimLeaseExpiresAt := v\<rparr>"
| "set_field (Set_proofDeliveryClaimId v) r = r\<lparr>proofDeliveryClaimId := v\<rparr>"
| "set_field (Set_proofDeliveryClaimedAt v) r = r\<lparr>proofDeliveryClaimedAt := v\<rparr>"
| "set_field (Set_proofDeliveryClaimLeaseExpiresAt v) r = r\<lparr>proofDeliveryClaimLeaseExpiresAt := v\<rparr>"
| "set_field (Set_invoiceStatus v) r = r\<lparr>invoiceStatus := v\<rparr>"
| "set_field (Set_paymentStatus v) r = r\<lparr>paymentStatus := v\<rparr>"
| "set_field (Set_proofDeliveryStatus v) r = r\<lparr>proofDeliveryStatus := v\<rparr>"
| "set_field (Set_zapReceiptStatus v) r = r\<lparr>zapReceiptStatus := v\<rparr>"
| "set_field (Set_invoice v) r = r\<lparr>invoice := v\<rparr>"
| "set_field (Set_paymentHash v) r = r\<lparr>paymentHash := v\<rparr>"
| "set_field (Set_priorExpiredManualInvoices v) r = r\<lparr>priorExpiredManualInvoices := v\<rparr>"
| "set_field (Set_preimage v) r = r\<lparr>preimage := v\<rparr>"
| "set_field (Set_feeMsats v) r = r\<lparr>feeMsats := v\<rparr>"
| "set_field (Set_zapRequestId v) r = r\<lparr>zapRequestId := v\<rparr>"
| "set_field (Set_zapRequestCreatedAt v) r = r\<lparr>zapRequestCreatedAt := v\<rparr>"
| "set_field (Set_zapReceiptId v) r = r\<lparr>zapReceiptId := v\<rparr>"
| "set_field (Set_zapReceiptRelayUrls v) r = r\<lparr>zapReceiptRelayUrls := v\<rparr>"
| "set_field (Set_zapLnurl v) r = r\<lparr>zapLnurl := v\<rparr>"
| "set_field (Set_zapReceiptPubkey v) r = r\<lparr>zapReceiptPubkey := v\<rparr>"
| "set_field (Set_invoiceExpiresAt v) r = r\<lparr>invoiceExpiresAt := v\<rparr>"
| "set_field (Set_zapReceiptObservationDeadline v) r = r\<lparr>zapReceiptObservationDeadline := v\<rparr>"
| "set_field (Set_phase v) r = r\<lparr>phase := v\<rparr>"
| "set_field (Set_lastError v) r = r\<lparr>lastError := v\<rparr>"
| "set_field (Set_deliveryNotice v) r = r\<lparr>deliveryNotice := v\<rparr>"
| "set_field (Set_updatedAt v) r = r\<lparr>updatedAt := v\<rparr>"
| "set_field (Set_completedAt v) r = r\<lparr>completedAt := v\<rparr>"

definition apply_patch :: "lifecycle_patch \<Rightarrow> OrderLifecycle \<Rightarrow> OrderLifecycle" where
  "apply_patch patch r = fold set_field patch r"

lemma apply_patch_simps [simp]:
  "apply_patch [] r = r"
  "apply_patch (f # fs) r = apply_patch fs (set_field f r)"
  by (simp_all add: apply_patch_def)

text \<open>The binding of a property in a patch, if it has one.\<close>

definition patched_paymentClaimId :: "lifecycle_patch \<Rightarrow> (js_string option) option" where
  "patched_paymentClaimId patch =
     fold (\<lambda>f found. case f of Set_paymentClaimId v \<Rightarrow> Some v | _ \<Rightarrow> found) patch None"

definition patched_proofDeliveryClaimId :: "lifecycle_patch \<Rightarrow> (js_string option) option" where
  "patched_proofDeliveryClaimId patch =
     fold (\<lambda>f found. case f of Set_proofDeliveryClaimId v \<Rightarrow> Some v | _ \<Rightarrow> found) patch None"

definition patched_proofDeliveryStatus :: "lifecycle_patch \<Rightarrow> OrderProofDeliveryStatus option" where
  "patched_proofDeliveryStatus patch =
     fold (\<lambda>f found. case f of Set_proofDeliveryStatus v \<Rightarrow> Some v | _ \<Rightarrow> found) patch None"

definition patched_paymentStatus :: "lifecycle_patch \<Rightarrow> OrderPaymentStatus option" where
  "patched_paymentStatus patch =
     fold (\<lambda>f found. case f of Set_paymentStatus v \<Rightarrow> Some v | _ \<Rightarrow> found) patch None"

definition patched_phase :: "lifecycle_patch \<Rightarrow> OrderLifecyclePhase option" where
  "patched_phase patch =
     fold (\<lambda>f found. case f of Set_phase v \<Rightarrow> Some v | _ \<Rightarrow> found) patch None"

definition patched_walletPaymentAttemptId :: "lifecycle_patch \<Rightarrow> (js_string option) option" where
  "patched_walletPaymentAttemptId patch =
     fold (\<lambda>f found. case f of Set_walletPaymentAttemptId v \<Rightarrow> Some v | _ \<Rightarrow> found) patch None"

end
