(* ===== verification/Lifecycle_Merge.thy ===== *)
theory Lifecycle_Merge
  imports Lifecycle_Types
begin

text \<open>
  The core of \<open>order-lifecycle.ts\<close>: the derived phase, the merge of a patch into a record, the
  creation of a record, and the database tables its transactions read and write.  A transaction
  is a function from the database to its result and the new database.
\<close>

subsection \<open>Constants and small predicates\<close>

definition GUEST_ORDER_LOCAL_RETENTION_MS :: int where
  "GUEST_ORDER_LOCAL_RETENTION_MS = 24 * 60 * 60 * 1000"
definition MAX_PRIOR_EXPIRED_MANUAL_INVOICES :: nat where
  "MAX_PRIOR_EXPIRED_MANUAL_INVOICES = 32"
definition ORDER_PAYMENT_CLAIM_LEASE_MS :: int where
  "ORDER_PAYMENT_CLAIM_LEASE_MS = 15000"
definition ORDER_PROOF_DELIVERY_CLAIM_LEASE_MS :: int where
  "ORDER_PROOF_DELIVERY_CLAIM_LEASE_MS = 30000"
definition LEGACY_ORDER_PAYMENT_RECOVERY_GRACE_MS :: int where
  "LEGACY_ORDER_PAYMENT_RECOVERY_GRACE_MS = 5 * 60000"
definition ORDER_PAYMENT_INTERRUPTED_BEFORE_WALLET_ERROR :: js_string where
  "ORDER_PAYMENT_INTERRUPTED_BEFORE_WALLET_ERROR =
     ''Payment setup was interrupted before a wallet request was sent.''"
definition ORDER_PAYMENT_INTERRUPTED_AFTER_WALLET_ERROR :: js_string where
  "ORDER_PAYMENT_INTERRUPTED_AFTER_WALLET_ERROR =
     ''Payment was interrupted after the invoice reached a wallet. Check that wallet before trying another payment path.''"

lemmas lease_constants = ORDER_PAYMENT_CLAIM_LEASE_MS_def ORDER_PROOF_DELIVERY_CLAIM_LEASE_MS_def
  LEGACY_ORDER_PAYMENT_RECOVERY_GRACE_MS_def

definition isGuestOrderDataExpired :: "OrderLifecycle \<Rightarrow> int \<Rightarrow> int \<Rightarrow> bool" where
  "isGuestOrderDataExpired lifecycle nowMs retentionMs \<longleftrightarrow>
     (if buyerIdentityKind lifecycle \<noteq> Some GuestEphemeral then False
      else let created = createdAt lifecycle
      in case guestSessionExpiresAt lifecycle of
           None \<Rightarrow> created \<le> nowMs - retentionMs
         | Some deadline \<Rightarrow>
             (case safe_value deadline of
                None \<Rightarrow> True
              | Some d \<Rightarrow>
                  if \<not> is_safe created \<or> d \<le> created \<or> d > created + GUEST_ORDER_LOCAL_RETENTION_MS
                  then True
                  else created \<le> nowMs - retentionMs \<or> nowMs \<ge> d))"

fun getOrderPublicZapSigner :: "OrderCheckoutMode \<Rightarrow> OrderPublicZapSigner option" where
  "getOrderPublicZapSigner AnonymousPublicZap = Some Anon"
| "getOrderPublicZapSigner PublicZapAsShopper = Some Shopper"
| "getOrderPublicZapSigner PublicZap = Some Shopper"
| "getOrderPublicZapSigner _ = None"

definition isOrderPublicZapMode :: "OrderCheckoutMode \<Rightarrow> bool" where
  "isOrderPublicZapMode mode \<longleftrightarrow> getOrderPublicZapSigner mode \<noteq> None"

text \<open>\<open>lifecycle.publicZapSigner ?? getOrderPublicZapSigner(lifecycle.checkoutMode)\<close>.\<close>

definition effective_signer :: "OrderLifecycle \<Rightarrow> OrderPublicZapSigner option" where
  "effective_signer lifecycle =
     (case publicZapSigner lifecycle of
        Some s \<Rightarrow> Some s | None \<Rightarrow> getOrderPublicZapSigner (checkoutMode lifecycle))"

subsection \<open>The derived phase\<close>

definition deriveOrderLifecyclePhase :: "OrderLifecyclePhase option \<Rightarrow> OrderLifecycle \<Rightarrow> OrderLifecyclePhase" where
  "deriveOrderLifecyclePhase pinned lifecycle =
     (if pinned = Some Cancelled then Cancelled
      else if pinned = Some Completed then Completed
      else if orderDeliveryStatus lifecycle = DeliveryFailed then PhaseFailed
      else if paymentStatus lifecycle = Paid then InProgress
      else if paymentStatus lifecycle = Paying \<or> invoiceStatus lifecycle = Requesting
           \<or> invoiceStatus lifecycle = Received \<or> orderDeliveryStatus lifecycle = DeliverySent
      then InProgress
      else if paymentStatus lifecycle = PaymentFailed then PhaseFailed
      else PhasePending)"

subsection \<open>Merging a patch\<close>

definition releases_payment_claim :: "lifecycle_patch \<Rightarrow> bool" where
  "releases_payment_claim patch \<longleftrightarrow> patched_paymentClaimId patch = Some None"

definition releases_proof_claim :: "lifecycle_patch \<Rightarrow> bool" where
  "releases_proof_claim patch \<longleftrightarrow>
     patched_proofDeliveryClaimId patch = Some None
     \<or> (case patched_proofDeliveryStatus patch of None \<Rightarrow> False | Some s \<Rightarrow> s \<noteq> ProofPending)"

definition mergeOrderLifecyclePatch ::
    "OrderLifecycle \<Rightarrow> lifecycle_patch \<Rightarrow> int \<Rightarrow> OrderLifecycle" where
  "mergeOrderLifecyclePatch existing patch now =
     (let merged0 = (apply_patch patch existing)\<lparr>updatedAt := now\<rparr>;
          merged1 = (if releases_payment_claim patch
                     then merged0\<lparr>paymentClaimedAt := None, paymentClaimLeaseExpiresAt := None\<rparr>
                     else merged0);
          merged2 = (if releases_proof_claim patch
                     then merged1\<lparr>proofDeliveryClaimId := None, proofDeliveryClaimedAt := None,
                                  proofDeliveryClaimLeaseExpiresAt := None\<rparr>
                     else merged1);
          merged3 = merged2\<lparr>phase :=
                      (case patched_phase patch of
                         Some p \<Rightarrow> p
                       | None \<Rightarrow> deriveOrderLifecyclePhase (Some (phase merged2)) merged2)\<rparr>
      in if phase merged3 = Completed \<and> \<not> num_truthy (completedAt merged3)
         then merged3\<lparr>completedAt := Some (updatedAt merged3)\<rparr>
         else merged3)"

subsection \<open>The database\<close>

record StoredOrderMessage =
  stored_id :: js_string
  stored_orderId :: js_string
  stored_row :: json

record database =
  orderLifecycles :: "OrderLifecycle table"
  paymentAttempts :: "StoredPaymentAttempt table"
  orderMessages :: "StoredOrderMessage table"
  profiles :: "json table"

definition getOrderLifecycle :: "js_string \<Rightarrow> database \<Rightarrow> OrderLifecycle option" where
  "getOrderLifecycle i d = table_get (orderLifecycles d) i"

definition getPaymentAttempt :: "js_string \<Rightarrow> database \<Rightarrow> StoredPaymentAttempt option" where
  "getPaymentAttempt i d = table_get (paymentAttempts d) i"

definition putOrderLifecycle :: "OrderLifecycle \<Rightarrow> database \<Rightarrow> database" where
  "putOrderLifecycle r d = d\<lparr>orderLifecycles := table_put (orderId r) r (orderLifecycles d)\<rparr>"

definition putPaymentAttempt :: "StoredPaymentAttempt \<Rightarrow> database \<Rightarrow> database" where
  "putPaymentAttempt a d = d\<lparr>paymentAttempts := table_put (attempt_id a) a (paymentAttempts d)\<rparr>"

text \<open>The input of a creation is a record whose phase and times are not yet set.\<close>

definition createOrderLifecycle ::
    "OrderLifecycle \<Rightarrow> int option \<Rightarrow> OrderLifecyclePhase option \<Rightarrow> int \<Rightarrow> database \<Rightarrow>
     OrderLifecycle \<times> database" where
  "createOrderLifecycle input inputCreatedAt inputPhase now d =
     (let r = input\<lparr>phase := (case inputPhase of Some p \<Rightarrow> p | None \<Rightarrow> deriveOrderLifecyclePhase None input),
                   createdAt := or_else inputCreatedAt now, updatedAt := now\<rparr>
      in (r, putOrderLifecycle r d))"

subsection \<open>Results\<close>

datatype OrderOpStatus =
    Missing | Claimed | SnapshotMismatch | UnsafeState | InvoiceHistoryLimit
  | Recorded | Patched | ClaimMismatch | RequestMismatch | Preserved | Bound | UpdatedTarget | Fenced
  | RecoveredBeforePayment | RestoredPaid | MarkedAmbiguous | NotInterrupted | ClaimActive
  | NotLegacyInterrupted | NotStale | Recovered

text \<open>A transaction's result: its status, the lifecycle it reports, the snapshot before a claim,
  and whether it took over the proof delivery.\<close>

record OrderOpResult =
  op_status :: OrderOpStatus
  op_lifecycle :: "OrderLifecycle option"
  preclaimLifecycle :: "OrderLifecycle option"
  proofDeliveryClaimed :: bool

definition op_result :: "OrderOpStatus \<Rightarrow> OrderLifecycle option \<Rightarrow> OrderOpResult" where
  "op_result st lifecycle =
     \<lparr>op_status = st, op_lifecycle = lifecycle, preclaimLifecycle = None, proofDeliveryClaimed = False\<rparr>"

text \<open>Answers without a write, and answers that store the record they report.\<close>

definition refuse :: "OrderOpStatus \<Rightarrow> OrderLifecycle \<Rightarrow> database \<Rightarrow> OrderOpResult \<times> database" where
  "refuse st lifecycle d = (op_result st (Some lifecycle), d)"

definition missing :: "database \<Rightarrow> OrderOpResult \<times> database" where
  "missing d = (op_result Missing None, d)"

definition store :: "OrderOpStatus \<Rightarrow> OrderLifecycle \<Rightarrow> database \<Rightarrow> OrderOpResult \<times> database" where
  "store st lifecycle d = (op_result st (Some lifecycle), putOrderLifecycle lifecycle d)"

definition store_claim :: "OrderLifecycle \<Rightarrow> OrderLifecycle \<Rightarrow> database \<Rightarrow> OrderOpResult \<times> database" where
  "store_claim claimed lifecycle d =
     ((op_result Claimed (Some claimed))\<lparr>preclaimLifecycle := Some lifecycle\<rparr>, putOrderLifecycle claimed d)"

subsection \<open>The merged record, field by field\<close>

definition merged_phase :: "OrderLifecycle \<Rightarrow> lifecycle_patch \<Rightarrow> OrderLifecyclePhase" where
  "merged_phase existing patch =
     (case patched_phase patch of
        Some p \<Rightarrow> p
      | None \<Rightarrow> deriveOrderLifecyclePhase (Some (phase (apply_patch patch existing))) (apply_patch patch existing))"

lemma derive_update [simp]:
  "deriveOrderLifecyclePhase p (r\<lparr>updatedAt := v1\<rparr>) = deriveOrderLifecyclePhase p r"
  "deriveOrderLifecyclePhase p (r\<lparr>paymentClaimedAt := v2\<rparr>) = deriveOrderLifecyclePhase p r"
  "deriveOrderLifecyclePhase p (r\<lparr>paymentClaimLeaseExpiresAt := v2\<rparr>) = deriveOrderLifecyclePhase p r"
  "deriveOrderLifecyclePhase p (r\<lparr>proofDeliveryClaimId := v3\<rparr>) = deriveOrderLifecyclePhase p r"
  "deriveOrderLifecyclePhase p (r\<lparr>proofDeliveryClaimedAt := v2\<rparr>) = deriveOrderLifecyclePhase p r"
  "deriveOrderLifecyclePhase p (r\<lparr>proofDeliveryClaimLeaseExpiresAt := v2\<rparr>) = deriveOrderLifecyclePhase p r"
  "deriveOrderLifecyclePhase p (r\<lparr>phase := v4\<rparr>) = deriveOrderLifecyclePhase p r"
  "deriveOrderLifecyclePhase p (r\<lparr>completedAt := v2\<rparr>) = deriveOrderLifecyclePhase p r"
  by (simp_all add: deriveOrderLifecyclePhase_def)

lemma merge_eq:
  "mergeOrderLifecyclePatch r patch now =
     (let a = apply_patch patch r; rp = releases_payment_claim patch; rq = releases_proof_claim patch
      in a\<lparr>paymentClaimedAt := (if rp then None else paymentClaimedAt a),
          paymentClaimLeaseExpiresAt := (if rp then None else paymentClaimLeaseExpiresAt a),
          proofDeliveryClaimId := (if rq then None else proofDeliveryClaimId a),
          proofDeliveryClaimedAt := (if rq then None else proofDeliveryClaimedAt a),
          proofDeliveryClaimLeaseExpiresAt := (if rq then None else proofDeliveryClaimLeaseExpiresAt a),
          phase := merged_phase r patch,
          updatedAt := now,
          completedAt := (if merged_phase r patch = Completed \<and> \<not> num_truthy (completedAt a)
                          then Some now else completedAt a)\<rparr>)"
  by (cases "releases_payment_claim patch"; cases "releases_proof_claim patch"; cases "patched_phase patch")
    (simp_all add: mergeOrderLifecyclePatch_def Let_def merged_phase_def)

text \<open>Every field a patch does not treat specially is the patched one.\<close>

named_theorems merge_fields "the fields of a merged record"

lemma merge_plain_fields [merge_fields]:
  "orderId (mergeOrderLifecyclePatch r patch now) = orderId (apply_patch patch r)"
  "claimedReferralSource (mergeOrderLifecyclePatch r patch now) = claimedReferralSource (apply_patch patch r)"
  "buyerPubkey (mergeOrderLifecyclePatch r patch now) = buyerPubkey (apply_patch patch r)"
  "buyerIdentityKind (mergeOrderLifecyclePatch r patch now) = buyerIdentityKind (apply_patch patch r)"
  "guestSessionExpiresAt (mergeOrderLifecyclePatch r patch now) = guestSessionExpiresAt (apply_patch patch r)"
  "merchantPubkey (mergeOrderLifecyclePatch r patch now) = merchantPubkey (apply_patch patch r)"
  "checkoutMode (mergeOrderLifecyclePatch r patch now) = checkoutMode (apply_patch patch r)"
  "checkoutSparkRouterBinding (mergeOrderLifecyclePatch r patch now) = checkoutSparkRouterBinding (apply_patch patch r)"
  "eventMarketFreePurchaseDelivery (mergeOrderLifecyclePatch r patch now) = eventMarketFreePurchaseDelivery (apply_patch patch r)"
  "publicZapSigner (mergeOrderLifecyclePatch r patch now) = publicZapSigner (apply_patch patch r)"
  "publicZapFallback (mergeOrderLifecyclePatch r patch now) = publicZapFallback (apply_patch patch r)"
  "merchantLightningAddress (mergeOrderLifecyclePatch r patch now) = merchantLightningAddress (apply_patch patch r)"
  "paymentTarget (mergeOrderLifecyclePatch r patch now) = paymentTarget (apply_patch patch r)"
  "walletPaymentAttemptId (mergeOrderLifecyclePatch r patch now) = walletPaymentAttemptId (apply_patch patch r)"
  "items (mergeOrderLifecyclePatch r patch now) = items (apply_patch patch r)"
  "itemSubtotalSats (mergeOrderLifecyclePatch r patch now) = itemSubtotalSats (apply_patch patch r)"
  "shippingCostSats (mergeOrderLifecyclePatch r patch now) = shippingCostSats (apply_patch patch r)"
  "totalSats (mergeOrderLifecyclePatch r patch now) = totalSats (apply_patch patch r)"
  "totalMsats (mergeOrderLifecyclePatch r patch now) = totalMsats (apply_patch patch r)"
  "pricingQuote (mergeOrderLifecyclePatch r patch now) = pricingQuote (apply_patch patch r)"
  "zapContent (mergeOrderLifecyclePatch r patch now) = zapContent (apply_patch patch r)"
  "shippingAddress (mergeOrderLifecyclePatch r patch now) = shippingAddress (apply_patch patch r)"
  "contactNote (mergeOrderLifecyclePatch r patch now) = contactNote (apply_patch patch r)"
  "guestContact (mergeOrderLifecyclePatch r patch now) = guestContact (apply_patch patch r)"
  "addressValidity (mergeOrderLifecyclePatch r patch now) = addressValidity (apply_patch patch r)"
  "shippingZoneEligibility (mergeOrderLifecyclePatch r patch now) = shippingZoneEligibility (apply_patch patch r)"
  "orderDeliveryStatus (mergeOrderLifecyclePatch r patch now) = orderDeliveryStatus (apply_patch patch r)"
  "orderDeliveryRoute (mergeOrderLifecyclePatch r patch now) = orderDeliveryRoute (apply_patch patch r)"
  "orderRelayDelivery (mergeOrderLifecyclePatch r patch now) = orderRelayDelivery (apply_patch patch r)"
  "checkoutRecoveryPending (mergeOrderLifecyclePatch r patch now) = checkoutRecoveryPending (apply_patch patch r)"
  "paymentClaimId (mergeOrderLifecyclePatch r patch now) = paymentClaimId (apply_patch patch r)"
  "invoiceStatus (mergeOrderLifecyclePatch r patch now) = invoiceStatus (apply_patch patch r)"
  "paymentStatus (mergeOrderLifecyclePatch r patch now) = paymentStatus (apply_patch patch r)"
  "proofDeliveryStatus (mergeOrderLifecyclePatch r patch now) = proofDeliveryStatus (apply_patch patch r)"
  "zapReceiptStatus (mergeOrderLifecyclePatch r patch now) = zapReceiptStatus (apply_patch patch r)"
  "invoice (mergeOrderLifecyclePatch r patch now) = invoice (apply_patch patch r)"
  "paymentHash (mergeOrderLifecyclePatch r patch now) = paymentHash (apply_patch patch r)"
  "priorExpiredManualInvoices (mergeOrderLifecyclePatch r patch now) = priorExpiredManualInvoices (apply_patch patch r)"
  "preimage (mergeOrderLifecyclePatch r patch now) = preimage (apply_patch patch r)"
  "feeMsats (mergeOrderLifecyclePatch r patch now) = feeMsats (apply_patch patch r)"
  "zapRequestId (mergeOrderLifecyclePatch r patch now) = zapRequestId (apply_patch patch r)"
  "zapRequestCreatedAt (mergeOrderLifecyclePatch r patch now) = zapRequestCreatedAt (apply_patch patch r)"
  "zapReceiptId (mergeOrderLifecyclePatch r patch now) = zapReceiptId (apply_patch patch r)"
  "zapReceiptRelayUrls (mergeOrderLifecyclePatch r patch now) = zapReceiptRelayUrls (apply_patch patch r)"
  "zapLnurl (mergeOrderLifecyclePatch r patch now) = zapLnurl (apply_patch patch r)"
  "zapReceiptPubkey (mergeOrderLifecyclePatch r patch now) = zapReceiptPubkey (apply_patch patch r)"
  "invoiceExpiresAt (mergeOrderLifecyclePatch r patch now) = invoiceExpiresAt (apply_patch patch r)"
  "zapReceiptObservationDeadline (mergeOrderLifecyclePatch r patch now) = zapReceiptObservationDeadline (apply_patch patch r)"
  "lastError (mergeOrderLifecyclePatch r patch now) = lastError (apply_patch patch r)"
  "deliveryNotice (mergeOrderLifecyclePatch r patch now) = deliveryNotice (apply_patch patch r)"
  "createdAt (mergeOrderLifecyclePatch r patch now) = createdAt (apply_patch patch r)"
  by (simp_all add: merge_eq Let_def)

lemma merge_special_fields [merge_fields]:
  "updatedAt (mergeOrderLifecyclePatch r patch now) = now"
  "phase (mergeOrderLifecyclePatch r patch now) = merged_phase r patch"
  "paymentClaimedAt (mergeOrderLifecyclePatch r patch now) =
     (if releases_payment_claim patch then None else paymentClaimedAt (apply_patch patch r))"
  "paymentClaimLeaseExpiresAt (mergeOrderLifecyclePatch r patch now) =
     (if releases_payment_claim patch then None else paymentClaimLeaseExpiresAt (apply_patch patch r))"
  "proofDeliveryClaimId (mergeOrderLifecyclePatch r patch now) =
     (if releases_proof_claim patch then None else proofDeliveryClaimId (apply_patch patch r))"
  "proofDeliveryClaimedAt (mergeOrderLifecyclePatch r patch now) =
     (if releases_proof_claim patch then None else proofDeliveryClaimedAt (apply_patch patch r))"
  "proofDeliveryClaimLeaseExpiresAt (mergeOrderLifecyclePatch r patch now) =
     (if releases_proof_claim patch then None else proofDeliveryClaimLeaseExpiresAt (apply_patch patch r))"
  "completedAt (mergeOrderLifecyclePatch r patch now) =
     (if merged_phase r patch = Completed \<and> \<not> num_truthy (completedAt (apply_patch patch r))
      then Some now else completedAt (apply_patch patch r))"
  by (simp_all add: merge_eq Let_def)

text \<open>The identity of a row is not patchable.\<close>

lemma set_field_identity [simp]:
  "orderId (set_field f r) = orderId r"
  "createdAt (set_field f r) = createdAt r"
  by (cases f; simp)+

lemma apply_patch_identity [simp]:
  "orderId (apply_patch patch r) = orderId r"
  "createdAt (apply_patch patch r) = createdAt r"
  by (induction patch arbitrary: r) simp_all

lemma merge_identity [simp]:
  "orderId (mergeOrderLifecyclePatch r patch now) = orderId r"
  "createdAt (mergeOrderLifecyclePatch r patch now) = createdAt r"
  by (simp_all add: merge_fields)

subsection \<open>Reading a patch\<close>

lemma fold_last_binding:
  "fold (\<lambda>f found. case g f of Some v \<Rightarrow> Some v | None \<Rightarrow> found) xs acc =
     (case fold (\<lambda>f found. case g f of Some v \<Rightarrow> Some v | None \<Rightarrow> found) xs None of
        Some v \<Rightarrow> Some v | None \<Rightarrow> acc)"
proof (induction xs arbitrary: acc)
  case (Cons x xs)
  let ?h = "\<lambda>f found. case g f of Some v \<Rightarrow> Some v | None \<Rightarrow> found"
  have "fold ?h xs (?h x acc) = (case fold ?h xs None of Some v \<Rightarrow> Some v | None \<Rightarrow> ?h x acc)"
    by (rule Cons.IH)
  moreover have "fold ?h xs (?h x None) = (case fold ?h xs None of Some v \<Rightarrow> Some v | None \<Rightarrow> ?h x None)"
    by (rule Cons.IH)
  ultimately show ?case by (auto split: option.splits)
qed simp

text \<open>The patched value of a field is its last binding, or the old value.\<close>

lemma apply_patch_paymentClaimId: "paymentClaimId (apply_patch patch r) = or_else (patched_paymentClaimId patch) (paymentClaimId r)"
proof -
  let ?g = "\<lambda>f. case f of Set_paymentClaimId v \<Rightarrow> Some v | _ \<Rightarrow> None"
  have "paymentClaimId (apply_patch patch r) =
      or_else (fold (\<lambda>f found. case ?g f of Some v \<Rightarrow> Some v | None \<Rightarrow> found) patch None) (paymentClaimId r)"
  proof (induction patch arbitrary: r)
    case (Cons f fs)
    then show ?case by (cases f) (simp_all, subst fold_last_binding, simp split: option.split)
  qed simp
  also have "fold (\<lambda>f found. case ?g f of Some v \<Rightarrow> Some v | None \<Rightarrow> found) patch None = patched_paymentClaimId patch"
    unfolding patched_paymentClaimId_def by (rule fold_cong) (auto split: field_value.split)
  finally show ?thesis .
qed

lemma apply_patch_proofDeliveryClaimId: "proofDeliveryClaimId (apply_patch patch r) = or_else (patched_proofDeliveryClaimId patch) (proofDeliveryClaimId r)"
proof -
  let ?g = "\<lambda>f. case f of Set_proofDeliveryClaimId v \<Rightarrow> Some v | _ \<Rightarrow> None"
  have "proofDeliveryClaimId (apply_patch patch r) =
      or_else (fold (\<lambda>f found. case ?g f of Some v \<Rightarrow> Some v | None \<Rightarrow> found) patch None) (proofDeliveryClaimId r)"
  proof (induction patch arbitrary: r)
    case (Cons f fs)
    then show ?case by (cases f) (simp_all, subst fold_last_binding, simp split: option.split)
  qed simp
  also have "fold (\<lambda>f found. case ?g f of Some v \<Rightarrow> Some v | None \<Rightarrow> found) patch None = patched_proofDeliveryClaimId patch"
    unfolding patched_proofDeliveryClaimId_def by (rule fold_cong) (auto split: field_value.split)
  finally show ?thesis .
qed

lemma apply_patch_proofDeliveryStatus: "proofDeliveryStatus (apply_patch patch r) = or_else (patched_proofDeliveryStatus patch) (proofDeliveryStatus r)"
proof -
  let ?g = "\<lambda>f. case f of Set_proofDeliveryStatus v \<Rightarrow> Some v | _ \<Rightarrow> None"
  have "proofDeliveryStatus (apply_patch patch r) =
      or_else (fold (\<lambda>f found. case ?g f of Some v \<Rightarrow> Some v | None \<Rightarrow> found) patch None) (proofDeliveryStatus r)"
  proof (induction patch arbitrary: r)
    case (Cons f fs)
    then show ?case by (cases f) (simp_all, subst fold_last_binding, simp split: option.split)
  qed simp
  also have "fold (\<lambda>f found. case ?g f of Some v \<Rightarrow> Some v | None \<Rightarrow> found) patch None = patched_proofDeliveryStatus patch"
    unfolding patched_proofDeliveryStatus_def by (rule fold_cong) (auto split: field_value.split)
  finally show ?thesis .
qed

lemma apply_patch_paymentStatus: "paymentStatus (apply_patch patch r) = or_else (patched_paymentStatus patch) (paymentStatus r)"
proof -
  let ?g = "\<lambda>f. case f of Set_paymentStatus v \<Rightarrow> Some v | _ \<Rightarrow> None"
  have "paymentStatus (apply_patch patch r) =
      or_else (fold (\<lambda>f found. case ?g f of Some v \<Rightarrow> Some v | None \<Rightarrow> found) patch None) (paymentStatus r)"
  proof (induction patch arbitrary: r)
    case (Cons f fs)
    then show ?case by (cases f) (simp_all, subst fold_last_binding, simp split: option.split)
  qed simp
  also have "fold (\<lambda>f found. case ?g f of Some v \<Rightarrow> Some v | None \<Rightarrow> found) patch None = patched_paymentStatus patch"
    unfolding patched_paymentStatus_def by (rule fold_cong) (auto split: field_value.split)
  finally show ?thesis .
qed

lemma apply_patch_phase: "phase (apply_patch patch r) = or_else (patched_phase patch) (phase r)"
proof -
  let ?g = "\<lambda>f. case f of Set_phase v \<Rightarrow> Some v | _ \<Rightarrow> None"
  have "phase (apply_patch patch r) =
      or_else (fold (\<lambda>f found. case ?g f of Some v \<Rightarrow> Some v | None \<Rightarrow> found) patch None) (phase r)"
  proof (induction patch arbitrary: r)
    case (Cons f fs)
    then show ?case by (cases f) (simp_all, subst fold_last_binding, simp split: option.split)
  qed simp
  also have "fold (\<lambda>f found. case ?g f of Some v \<Rightarrow> Some v | None \<Rightarrow> found) patch None = patched_phase patch"
    unfolding patched_phase_def by (rule fold_cong) (auto split: field_value.split)
  finally show ?thesis .
qed

lemma patched_append:
  "patched_paymentClaimId (p @ q) = (case patched_paymentClaimId q of Some v \<Rightarrow> Some v | None \<Rightarrow> patched_paymentClaimId p)"
  "patched_proofDeliveryClaimId (p @ q) = (case patched_proofDeliveryClaimId q of Some v \<Rightarrow> Some v | None \<Rightarrow> patched_proofDeliveryClaimId p)"
  "patched_proofDeliveryStatus (p @ q) = (case patched_proofDeliveryStatus q of Some v \<Rightarrow> Some v | None \<Rightarrow> patched_proofDeliveryStatus p)"
  "patched_paymentStatus (p @ q) = (case patched_paymentStatus q of Some v \<Rightarrow> Some v | None \<Rightarrow> patched_paymentStatus p)"
  "patched_phase (p @ q) = (case patched_phase q of Some v \<Rightarrow> Some v | None \<Rightarrow> patched_phase p)"
proof -
  have fold_g: "fold h (p @ q) None = (case fold h q None of Some v \<Rightarrow> Some v | None \<Rightarrow> fold h p None)"
    if "h = (\<lambda>f found. case g f of Some v \<Rightarrow> Some v | None \<Rightarrow> found)"
    for g :: "field_value \<Rightarrow> 'x option" and h
    unfolding that fold_append comp_def by (rule fold_last_binding)
  have c: "(\<lambda>f found. case f of Set_paymentClaimId v \<Rightarrow> Some v | _ \<Rightarrow> found)
      = (\<lambda>f found. case (case f of Set_paymentClaimId v \<Rightarrow> Some v | _ \<Rightarrow> None) of Some v \<Rightarrow> Some v | None \<Rightarrow> found)"
    by (intro ext) (simp split: field_value.split)
  show "patched_paymentClaimId (p @ q) = (case patched_paymentClaimId q of Some v \<Rightarrow> Some v | None \<Rightarrow> patched_paymentClaimId p)"
    unfolding patched_paymentClaimId_def by (rule fold_g [OF c])
  have c: "(\<lambda>f found. case f of Set_proofDeliveryClaimId v \<Rightarrow> Some v | _ \<Rightarrow> found)
      = (\<lambda>f found. case (case f of Set_proofDeliveryClaimId v \<Rightarrow> Some v | _ \<Rightarrow> None) of Some v \<Rightarrow> Some v | None \<Rightarrow> found)"
    by (intro ext) (simp split: field_value.split)
  show "patched_proofDeliveryClaimId (p @ q) = (case patched_proofDeliveryClaimId q of Some v \<Rightarrow> Some v | None \<Rightarrow> patched_proofDeliveryClaimId p)"
    unfolding patched_proofDeliveryClaimId_def by (rule fold_g [OF c])
  have c: "(\<lambda>f found. case f of Set_proofDeliveryStatus v \<Rightarrow> Some v | _ \<Rightarrow> found)
      = (\<lambda>f found. case (case f of Set_proofDeliveryStatus v \<Rightarrow> Some v | _ \<Rightarrow> None) of Some v \<Rightarrow> Some v | None \<Rightarrow> found)"
    by (intro ext) (simp split: field_value.split)
  show "patched_proofDeliveryStatus (p @ q) = (case patched_proofDeliveryStatus q of Some v \<Rightarrow> Some v | None \<Rightarrow> patched_proofDeliveryStatus p)"
    unfolding patched_proofDeliveryStatus_def by (rule fold_g [OF c])
  have c: "(\<lambda>f found. case f of Set_paymentStatus v \<Rightarrow> Some v | _ \<Rightarrow> found)
      = (\<lambda>f found. case (case f of Set_paymentStatus v \<Rightarrow> Some v | _ \<Rightarrow> None) of Some v \<Rightarrow> Some v | None \<Rightarrow> found)"
    by (intro ext) (simp split: field_value.split)
  show "patched_paymentStatus (p @ q) = (case patched_paymentStatus q of Some v \<Rightarrow> Some v | None \<Rightarrow> patched_paymentStatus p)"
    unfolding patched_paymentStatus_def by (rule fold_g [OF c])
  have c: "(\<lambda>f found. case f of Set_phase v \<Rightarrow> Some v | _ \<Rightarrow> found)
      = (\<lambda>f found. case (case f of Set_phase v \<Rightarrow> Some v | _ \<Rightarrow> None) of Some v \<Rightarrow> Some v | None \<Rightarrow> found)"
    by (intro ext) (simp split: field_value.split)
  show "patched_phase (p @ q) = (case patched_phase q of Some v \<Rightarrow> Some v | None \<Rightarrow> patched_phase p)"
    unfolding patched_phase_def by (rule fold_g [OF c])
qed

lemmas patched_defs = patched_paymentClaimId_def patched_proofDeliveryClaimId_def
  patched_proofDeliveryStatus_def patched_paymentStatus_def patched_phase_def

text \<open>A patch is read from its head.\<close>

lemma patched_Nil [simp]:
  "patched_paymentClaimId [] = None"
  "patched_proofDeliveryClaimId [] = None"
  "patched_proofDeliveryStatus [] = None"
  "patched_paymentStatus [] = None"
  "patched_phase [] = None"
  by (simp_all add: patched_defs)

lemma patched_single:
  "patched_paymentClaimId [x] = (case x of Set_paymentClaimId v \<Rightarrow> Some v | _ \<Rightarrow> None)"
  "patched_proofDeliveryClaimId [x] = (case x of Set_proofDeliveryClaimId v \<Rightarrow> Some v | _ \<Rightarrow> None)"
  "patched_proofDeliveryStatus [x] = (case x of Set_proofDeliveryStatus v \<Rightarrow> Some v | _ \<Rightarrow> None)"
  "patched_paymentStatus [x] = (case x of Set_paymentStatus v \<Rightarrow> Some v | _ \<Rightarrow> None)"
  "patched_phase [x] = (case x of Set_phase v \<Rightarrow> Some v | _ \<Rightarrow> None)"
  by (simp_all add: patched_defs)

lemma patched_Cons [simp]:
  "patched_paymentClaimId (x # p) =
     (case patched_paymentClaimId p of Some v \<Rightarrow> Some v | None \<Rightarrow> (case x of Set_paymentClaimId v \<Rightarrow> Some v | _ \<Rightarrow> None))"
  "patched_proofDeliveryClaimId (x # p) =
     (case patched_proofDeliveryClaimId p of Some v \<Rightarrow> Some v | None \<Rightarrow> (case x of Set_proofDeliveryClaimId v \<Rightarrow> Some v | _ \<Rightarrow> None))"
  "patched_proofDeliveryStatus (x # p) =
     (case patched_proofDeliveryStatus p of Some v \<Rightarrow> Some v | None \<Rightarrow> (case x of Set_proofDeliveryStatus v \<Rightarrow> Some v | _ \<Rightarrow> None))"
  "patched_paymentStatus (x # p) =
     (case patched_paymentStatus p of Some v \<Rightarrow> Some v | None \<Rightarrow> (case x of Set_paymentStatus v \<Rightarrow> Some v | _ \<Rightarrow> None))"
  "patched_phase (x # p) =
     (case patched_phase p of Some v \<Rightarrow> Some v | None \<Rightarrow> (case x of Set_phase v \<Rightarrow> Some v | _ \<Rightarrow> None))"
  using patched_append [of "[x]" p] by (simp_all add: patched_single split: option.split)

lemmas release_defs = releases_payment_claim_def releases_proof_claim_def

subsection \<open>Reading and writing rows\<close>

lemma get_put_lifecycle [store_simps]:
  "getOrderLifecycle i (putOrderLifecycle r d) = (if i = orderId r then Some r else getOrderLifecycle i d)"
  by (simp add: getOrderLifecycle_def putOrderLifecycle_def tbl.get_put table_get_put)

lemma get_put_attempt [store_simps]:
  "getPaymentAttempt i (putPaymentAttempt a d) = (if i = attempt_id a then Some a else getPaymentAttempt i d)"
  "getOrderLifecycle i (putPaymentAttempt a d) = getOrderLifecycle i d"
  "getPaymentAttempt i (putOrderLifecycle r d) = getPaymentAttempt i d"
  by (simp_all add: getOrderLifecycle_def getPaymentAttempt_def putPaymentAttempt_def putOrderLifecycle_def
      table_get_put)

text \<open>What the four kinds of answers report and write.\<close>

lemma answer_simps [simp]:
  "op_status (fst (refuse st r d)) = st" "snd (refuse st r d) = d" "op_lifecycle (fst (refuse st r d)) = Some r"
  "op_status (fst (missing d)) = Missing" "snd (missing d) = d" "op_lifecycle (fst (missing d)) = None"
  "op_status (fst (store st r d)) = st" "snd (store st r d) = putOrderLifecycle r d"
  "op_lifecycle (fst (store st r d)) = Some r"
  "op_status (fst (store_claim c r d)) = Claimed" "snd (store_claim c r d) = putOrderLifecycle c d"
  "op_lifecycle (fst (store_claim c r d)) = Some c" "preclaimLifecycle (fst (store_claim c r d)) = Some r"
  by (simp_all add: refuse_def missing_def store_def store_claim_def op_result_def)

subsection \<open>A sample order\<close>

definition sample_order :: OrderLifecycle where
  "sample_order =
    \<lparr>orderId = ''order-1'', claimedReferralSource = None, buyerPubkey = ''buyer'',
     buyerIdentityKind = None, guestSessionExpiresAt = None, merchantPubkey = ''shop'',
     checkoutMode = PrivateCheckout, checkoutSparkRouterBinding = None,
     eventMarketFreePurchaseDelivery = None, publicZapSigner = None, publicZapFallback = False,
     merchantLightningAddress = None, paymentTarget = Some ManualTarget,
     walletPaymentAttemptId = None,
     items = [\<lparr>productId = ''p'', quantity = 1, item_details = JNull\<rparr>],
     itemSubtotalSats = 1000, shippingCostSats = 0, totalSats = 1000, totalMsats = 1000000,
     pricingQuote = None, zapContent = None, shippingAddress = None, contactNote = None,
     guestContact = None, addressValidity = ''valid'', shippingZoneEligibility = ''eligible'',
     orderDeliveryStatus = DeliverySent, orderDeliveryRoute = None, orderRelayDelivery = None,
     checkoutRecoveryPending = False, paymentClaimId = None, paymentClaimedAt = None,
     paymentClaimLeaseExpiresAt = None, proofDeliveryClaimId = None, proofDeliveryClaimedAt = None,
     proofDeliveryClaimLeaseExpiresAt = None, invoiceStatus = NotRequested,
     paymentStatus = PaymentNotStarted, proofDeliveryStatus = ProofNotStarted,
     zapReceiptStatus = NotApplicable, invoice = None, paymentHash = None,
     priorExpiredManualInvoices = None, preimage = None, feeMsats = None, zapRequestId = None,
     zapRequestCreatedAt = None, zapReceiptId = None, zapReceiptRelayUrls = None, zapLnurl = None,
     zapReceiptPubkey = None, invoiceExpiresAt = None, zapReceiptObservationDeadline = None,
     phase = PhasePending, lastError = None, deliveryNotice = None, createdAt = 1, updatedAt = 1,
     completedAt = None\<rparr>"

definition sample_database :: "OrderLifecycle \<Rightarrow> database" where
  "sample_database r =
     \<lparr>orderLifecycles = [(orderId r, r)], paymentAttempts = [], orderMessages = [], profiles = []\<rparr>"

lemma get_sample_database [simp]:
  "getOrderLifecycle i (sample_database r) = (if i = orderId r then Some r else None)"
  "getPaymentAttempt i (sample_database r) = None"
  by (auto simp: getOrderLifecycle_def getPaymentAttempt_def sample_database_def table_get_def)

subsection \<open>Properties\<close>

text \<open>C23. A merge keeps a record coherent whatever the patch: the identity of the row never changes
  and its revision is the time of the merge; releasing the payment claim drops its lease, and a
  proof status other than pending, or a released proof claim, drops the proof claim with its
  lease; the phase is the pinned one or the derived one, so that a cancelled or completed order
  stays so unless the patch pins another phase; and a completed order has a completion time.\<close>

theorem merge_keeps_record_coherent:
  "let m = mergeOrderLifecyclePatch r patch now
   in orderId m = orderId r \<and> createdAt m = createdAt r \<and> updatedAt m = now
    \<and> (patched_paymentClaimId patch = Some None \<longrightarrow>
         paymentClaimId m = None \<and> paymentClaimedAt m = None \<and> paymentClaimLeaseExpiresAt m = None)
    \<and> (patched_proofDeliveryClaimId patch = Some None
       \<or> (patched_proofDeliveryStatus patch \<noteq> None \<and> proofDeliveryStatus m \<noteq> ProofPending) \<longrightarrow>
         proofDeliveryClaimId m = None \<and> proofDeliveryClaimedAt m = None \<and> proofDeliveryClaimLeaseExpiresAt m = None)
    \<and> (patched_phase patch = None \<longrightarrow> phase m = deriveOrderLifecyclePhase (Some (phase r)) m)
    \<and> (patched_phase patch = None \<and> phase r \<in> {Cancelled, Completed} \<longrightarrow> phase m = phase r)
    \<and> (phase m = Completed \<longrightarrow> completedAt m \<noteq> None)"
proof -
  let ?a = "apply_patch patch r"
  have derive: "deriveOrderLifecyclePhase p (mergeOrderLifecyclePatch r patch now) = deriveOrderLifecyclePhase p ?a" for p
    by (simp add: merge_eq Let_def)
  have pinned: "phase ?a = phase r" if "patched_phase patch = None"
    using that by (simp add: apply_patch_phase)
  show ?thesis
    unfolding Let_def
  proof (intro conjI impI)
    assume "patched_phase patch = None"
    then show "phase (mergeOrderLifecyclePatch r patch now) =
        deriveOrderLifecyclePhase (Some (phase r)) (mergeOrderLifecyclePatch r patch now)"
      by (simp add: derive merge_fields merged_phase_def pinned)
  next
    assume "patched_phase patch = None \<and> phase r \<in> {Cancelled, Completed}"
    then show "phase (mergeOrderLifecyclePatch r patch now) = phase r"
      by (auto simp: merge_fields merged_phase_def pinned deriveOrderLifecyclePhase_def)
  qed (auto simp: merge_fields release_defs apply_patch_paymentClaimId apply_patch_proofDeliveryStatus
        elim: num_truthy.elims split: option.splits)
qed

theorem merge_keeps_record_coherent_witness:
  "let m = mergeOrderLifecyclePatch
             (sample_order\<lparr>phase := Completed, paymentClaimId := Some ''c'', paymentClaimedAt := Some 5,
                           paymentClaimLeaseExpiresAt := Some 9, proofDeliveryClaimId := Some ''c''\<rparr>)
             [Set_paymentClaimId None, Set_paymentStatus Paid, Set_proofDeliveryStatus ProofSent] 7
   in paymentClaimId m = None \<and> paymentClaimLeaseExpiresAt m = None \<and> proofDeliveryClaimId m = None
    \<and> phase m = Completed \<and> completedAt m \<noteq> None \<and> updatedAt m = 7"
  using merge_keeps_record_coherent
    [of "sample_order\<lparr>phase := Completed, paymentClaimId := Some ''c'', paymentClaimedAt := Some 5,
           paymentClaimLeaseExpiresAt := Some 9, proofDeliveryClaimId := Some ''c''\<rparr>"
        "[Set_paymentClaimId None, Set_paymentStatus Paid, Set_proofDeliveryStatus ProofSent]" 7]
  by (simp add: Let_def patched_defs merge_fields release_defs merged_phase_def deriveOrderLifecyclePhase_def sample_order_def)

end
