(* ===== verification/Payment_Protocol.thy ===== *)
theory Payment_Protocol
  imports Lifecycle_Merge
begin

text \<open>
  The abstract protocol of an order's payment: what every operation of \<open>order-lifecycle.ts\<close> promises
  about the claim, the payment and the proof of one order, and what follows for any sequence of
  operations.  The operations are shown to refine it in \<open>Lifecycle_Claims\<close>, \<open>Lifecycle_Delivery\<close>
  and \<open>Lifecycle_Recovery\<close>.
\<close>

subsection \<open>The view of a record\<close>

record payment_view =
  v_routed :: bool
  v_claim :: "js_string option"
  v_payment :: OrderPaymentStatus
  v_paper :: bool
  v_proof :: OrderProofDeliveryStatus
  v_proof_claim :: "js_string option"
  v_history :: nat

definition view :: "OrderLifecycle \<Rightarrow> payment_view" where
  "view r =
     \<lparr>v_routed = (checkoutSparkRouterBinding r \<noteq> None), v_claim = paymentClaimId r,
      v_payment = paymentStatus r, v_paper = truthy (invoice r), v_proof = proofDeliveryStatus r,
      v_proof_claim = proofDeliveryClaimId r,
      v_history = length (or_else (priorExpiredManualInvoices r) [])\<rparr>"

lemma view_simps [simp]:
  "v_routed (view r) = (checkoutSparkRouterBinding r \<noteq> None)" "v_claim (view r) = paymentClaimId r"
  "v_payment (view r) = paymentStatus r" "v_paper (view r) = truthy (invoice r)"
  "v_proof (view r) = proofDeliveryStatus r" "v_proof_claim (view r) = proofDeliveryClaimId r"
  "v_history (view r) = length (or_else (priorExpiredManualInvoices r) [])"
  by (simp_all add: view_def)

subsection \<open>The protocol\<close>

text \<open>What the steps keep: the router binding and the history; the owner of a proof delivery is
  gone, owns a pending delivery, or is untouched.  A sent proof stays sent except in the rules
  that do not ask for \<open>keeps_sent\<close>.\<close>

definition proof_move :: "payment_view \<Rightarrow> payment_view \<Rightarrow> bool" where
  "proof_move v w \<longleftrightarrow>
     v_proof_claim w = None \<or> v_proof w = ProofPending
     \<or> (v_proof w = v_proof v \<and> v_proof_claim w = v_proof_claim v)"

definition keeps_frame :: "payment_view \<Rightarrow> payment_view \<Rightarrow> bool" where
  "keeps_frame v w \<longleftrightarrow> v_routed w = v_routed v \<and> v_history w = v_history v \<and> proof_move v w"

definition keeps_sent :: "payment_view \<Rightarrow> payment_view \<Rightarrow> bool" where
  "keeps_sent v w \<longleftrightarrow> (v_proof v = ProofSent \<longrightarrow> v_proof w = ProofSent)"

inductive protocol_step :: "payment_view \<Rightarrow> payment_view \<Rightarrow> bool" where
  unseen: "protocol_step v v"
| start: "\<lbrakk>\<not> v_routed v; \<not> truthy (v_claim v);
    v_payment v \<in> {PaymentNotStarted, PaymentManualRequired, PaymentFailed};
    \<not> v_routed w; v_claim w = Some c; v_payment w = PaymentNotStarted; \<not> v_paper w;
    v_proof w = ProofNotStarted; v_proof_claim w = None;
    v_history w \<le> max (v_history v) MAX_PRIOR_EXPIRED_MANUAL_INVOICES\<rbrakk> \<Longrightarrow> protocol_step v w"
| work: "\<lbrakk>truthy (v_claim v); keeps_frame v w; keeps_sent v w; v_claim w = v_claim v \<or> v_claim w = None;
    v_payment v = Paid \<longrightarrow> v_payment w = Paid\<rbrakk> \<Longrightarrow> protocol_step v w"
| give_up: "\<lbrakk>\<not> v_routed v; \<not> truthy (v_claim v); v_payment v \<in> {PaymentNotStarted, PaymentFailed};
    keeps_frame v w; v_claim w = None; v_payment w = PaymentFailed; v_proof w = ProofNotStarted\<rbrakk>
    \<Longrightarrow> protocol_step v w"
| settle: "\<lbrakk>keeps_frame v w; keeps_sent v w; v_claim w = None; v_payment w = Paid;
    v_paper v \<longrightarrow> v_paper w\<rbrakk> \<Longrightarrow> protocol_step v w"
| doubt: "\<lbrakk>v_payment v \<noteq> Paid; w = v\<lparr>v_payment := Ambiguous\<rparr>\<rbrakk> \<Longrightarrow> protocol_step v w"
| deliver: "\<lbrakk>keeps_frame v w; keeps_sent v w; v_payment w = v_payment v; v_paper w = v_paper v;
    v_claim w = v_claim v \<or> (v_payment v = Paid \<and> v_claim w = None)\<rbrakk> \<Longrightarrow> protocol_step v w"
| bind: "\<lbrakk>\<not> v_routed v; \<not> truthy (v_claim v); v_payment v \<in> {PaymentNotStarted, PaymentManualRequired};
    keeps_frame v w; v_claim w = v_claim v; v_payment w = PaymentManualRequired; v_paper w;
    v_proof v = ProofNotStarted; v_proof w = ProofNotStarted\<rbrakk> \<Longrightarrow> protocol_step v w"
| prove: "\<lbrakk>\<not> v_routed v; v_payment v \<in> {PaymentNotStarted, PaymentManualRequired, PaymentFailed};
    v_proof v = ProofNotStarted; keeps_frame v w; v_claim w = v_claim v; v_payment w = Paid;
    v_proof w = ProofPending; v_proof_claim w = Some c\<rbrakk> \<Longrightarrow> protocol_step v w"
| recover: "\<lbrakk>truthy (v_claim v); keeps_frame v w; v_claim w = None;
    v_payment w \<in> {Paid, PaymentFailed, Ambiguous}; v_payment v = Paid \<longrightarrow> v_payment w = Paid;
    v_payment w = PaymentFailed \<longrightarrow> \<not> v_paper v; v_paper v \<longrightarrow> v_paper w\<rbrakk> \<Longrightarrow> protocol_step v w"
| recover_legacy: "\<lbrakk>\<not> truthy (v_claim v); \<not> truthy (v_proof_claim v);
    v_payment v = Paying \<or> (v_payment v = Paid \<and> v_proof v = ProofPending);
    keeps_frame v w; v_claim w = v_claim v; v_payment w \<in> {Paid, PaymentFailed, Ambiguous};
    v_payment w = PaymentFailed \<longrightarrow> \<not> v_paper v; v_paper v \<longrightarrow> v_paper w\<rbrakk> \<Longrightarrow> protocol_step v w"

inductive_cases protocol_stepE [elim]: "protocol_step v w"

lemmas frame_defs = keeps_frame_def keeps_sent_def proof_move_def

subsection \<open>What the protocol keeps\<close>

text \<open>An owned proof delivery is pending; a router order is never claimed; the history of
  expired invoices is bounded.\<close>

definition coherent_view :: "payment_view \<Rightarrow> bool" where
  "coherent_view v \<longleftrightarrow>
     (v_proof_claim v \<noteq> None \<longrightarrow> v_proof v = ProofPending)
     \<and> (v_routed v \<longrightarrow> v_claim v = None)
     \<and> v_history v \<le> MAX_PRIOR_EXPIRED_MANUAL_INVOICES"

text \<open>Money has moved or may have moved, and the invoice that says so is kept.\<close>

definition settled_view :: "payment_view \<Rightarrow> bool" where
  "settled_view v \<longleftrightarrow> \<not> truthy (v_claim v) \<and> v_payment v \<in> {Paid, Ambiguous} \<and> v_paper v"

lemma step_keeps_coherent: "protocol_step v w \<Longrightarrow> coherent_view v \<Longrightarrow> coherent_view w"
  by (induction rule: protocol_step.induct) (auto simp: coherent_view_def frame_defs)

lemma step_keeps_settled: "protocol_step v w \<Longrightarrow> settled_view v \<Longrightarrow> settled_view w"
  by (induction rule: protocol_step.induct) (auto simp: settled_view_def)

lemma settled_cannot_start:
  "settled_view v \<Longrightarrow> v_payment v \<notin> {PaymentNotStarted, PaymentManualRequired, PaymentFailed}"
  by (auto simp: settled_view_def)

subsection \<open>Stores whose operations follow the protocol\<close>

text \<open>
  The interface between the database operations and their clients: rows by key, a set of
  well-formed databases, and steps that change a row by protocol steps only or remove it.
\<close>

locale protocol_store =
  fixes rows :: "'d \<Rightarrow> 'k \<Rightarrow> 'r option"
    and row_view :: "'r \<Rightarrow> payment_view"
    and well_formed :: "'d \<Rightarrow> bool"
    and step :: "'d \<Rightarrow> 'd \<Rightarrow> bool"
  assumes step_well_formed: "well_formed d \<Longrightarrow> step d e \<Longrightarrow> well_formed e"
    and step_refines: "well_formed d \<Longrightarrow> step d e \<Longrightarrow> rows e k = Some r' \<Longrightarrow>
      \<exists>r. rows d k = Some r \<and> protocol_step (row_view r) (row_view r')"
begin

lemma run_well_formed: "step\<^sup>*\<^sup>* d e \<Longrightarrow> well_formed d \<Longrightarrow> well_formed e"
  by (induction rule: rtranclp_induct) (auto intro: step_well_formed)

text \<open>An invariant of the protocol holds of every row along a run, when it holds at the start.\<close>

lemma run_invariant:
  assumes inv: "\<And>v w. protocol_step v w \<Longrightarrow> P v \<Longrightarrow> P w"
    and run: "step\<^sup>*\<^sup>* d e" and wf: "well_formed d"
    and init: "\<And>r. rows d k = Some r \<Longrightarrow> P (row_view r)"
    and row: "rows e k = Some r'"
  shows "P (row_view r')"
  using run init row
proof (induction arbitrary: r' rule: rtranclp_induct)
  case base
  then show ?case by blast
next
  case (step y z)
  have "well_formed y" using step.hyps(1) wf by (rule run_well_formed)
  with step.hyps(2) step.prems(2) obtain r where "rows y k = Some r"
    "protocol_step (row_view r) (row_view r')" using step_refines by blast
  with step.IH step.prems(1) inv show ?case by blast
qed

text \<open>A row at the end of a run was there at its start.\<close>

lemma run_from_row:
  "step\<^sup>*\<^sup>* d e \<Longrightarrow> well_formed d \<Longrightarrow> rows e k = Some r' \<Longrightarrow> \<exists>r. rows d k = Some r"
proof (induction arbitrary: r' rule: rtranclp_induct)
  case (step y z)
  have "well_formed y" using step.hyps(1) step.prems(1) by (rule run_well_formed)
  with step step_refines show ?case by blast
qed blast

lemma run_settled:
  assumes "step\<^sup>*\<^sup>* d e" "well_formed d" "rows d k = Some r" "settled_view (row_view r)" "rows e k = Some r'"
  shows "settled_view (row_view r')"
  by (rule run_invariant [of settled_view d e k]) (use assms step_keeps_settled in auto)

lemma run_coherent:
  assumes "step\<^sup>*\<^sup>* d e" "well_formed d" "\<And>r. rows d k = Some r \<Longrightarrow> coherent_view (row_view r)"
    "rows e k = Some r'"
  shows "coherent_view (row_view r')"
  by (rule run_invariant [of coherent_view d e k]) (use assms step_keeps_coherent in auto)

end

subsection \<open>Writes that follow the protocol\<close>

definition well_keyed_database :: "database \<Rightarrow> bool" where
  "well_keyed_database d \<longleftrightarrow>
     table_keyed (orderLifecycles d) \<and> (\<forall>i r. getOrderLifecycle i d = Some r \<longrightarrow> orderId r = i)"

text \<open>\<open>follows d e\<close>: the rows of \<open>e\<close> come from rows of \<open>d\<close> by protocol steps, under their keys.\<close>

definition follows :: "database \<Rightarrow> database \<Rightarrow> bool" where
  "follows d e \<longleftrightarrow>
     well_keyed_database e
     \<and> (\<forall>i r'. getOrderLifecycle i e = Some r' \<longrightarrow>
          (\<exists>r. getOrderLifecycle i d = Some r \<and> protocol_step (view r) (view r')))"

named_theorems follows_intros "writes that follow the protocol"

lemma follows_refl [simp, follows_intros]: "well_keyed_database d \<Longrightarrow> follows d d"
  by (auto simp: follows_def intro: unseen)

lemma follows_answers [simp, follows_intros]:
  "well_keyed_database d \<Longrightarrow> follows d (snd (refuse st r d))"
  "well_keyed_database d \<Longrightarrow> follows d (snd (missing d))"
  by simp_all

lemma follows_put [follows_intros]:
  assumes "well_keyed_database d" "getOrderLifecycle i d = Some r" "orderId r' = orderId r"
    "protocol_step (view r) (view r')"
  shows "follows d (putOrderLifecycle r' d)"
  using assms
  by (auto simp: follows_def well_keyed_database_def store_simps table_put_keyed putOrderLifecycle_def
      getOrderLifecycle_def intro: unseen)

lemma follows_store [follows_intros]:
  assumes "well_keyed_database d" "getOrderLifecycle i d = Some r" "orderId r' = orderId r"
    "protocol_step (view r) (view r')"
  shows "follows d (snd (store st r' d))" "follows d (snd (store_claim r' r d))"
  using assms by (simp_all add: follows_put)

lemma follows_put_attempt:
  "follows d e \<Longrightarrow> follows d (putPaymentAttempt a e)"
  by (simp add: follows_def well_keyed_database_def store_simps) (simp add: putPaymentAttempt_def)

end
