(* ===== verification/Lifecycle_Claims.thy ===== *)
theory Lifecycle_Claims
  imports Payment_Protocol
begin

text \<open>
  Payment claims of \<open>order-lifecycle.ts\<close>: the admission of a payment attempt, the claims that
  start or replace one (first payment, expired invoice, new address, private fallback), the
  replacement of the payment target, and the failure before a claim.

  The caller's \<open>shouldContinue\<close> is the boolean it returns when it is asked, just before the write;
  \<open>uuid\<close> is the next \<open>crypto.randomUUID()\<close>, \<open>lc\<close> is \<open>localeCompare\<close>.
\<close>

record PaymentItem =
  productAddress :: js_string
  item_quantity :: int

record OrderPaymentClaimInput =
  in_orderId :: js_string
  in_paymentClaimId :: js_string
  in_buyerPubkey :: js_string
  in_merchantPubkey :: js_string
  in_merchantLightningAddress :: "js_string option"
  in_checkoutMode :: OrderCheckoutMode
  in_zapContent :: js_string
  in_totalSats :: int
  in_totalMsats :: int
  in_items :: "PaymentItem list"
  in_paymentTarget :: OrderPaymentTarget

type_synonym locale_compare = "js_string \<Rightarrow> js_string \<Rightarrow> int"

subsection \<open>Matching a claim to the stored order\<close>

text \<open>The JSON text of two sorted item lists is equal when the lists are.\<close>

definition canonicalPaymentItems :: "locale_compare \<Rightarrow> PaymentItem list \<Rightarrow> PaymentItem list" where
  "canonicalPaymentItems lc =
     js_sort (\<lambda>left right.
       if productAddress left = productAddress right then item_quantity left - item_quantity right
       else lc (productAddress left) (productAddress right))"

definition checkoutModesMatchForPayment :: "OrderLifecycle \<Rightarrow> OrderCheckoutMode \<Rightarrow> bool" where
  "checkoutModesMatchForPayment lifecycle requestedMode \<longleftrightarrow>
     (let storedSigner = effective_signer lifecycle;
          requestedSigner = getOrderPublicZapSigner requestedMode
      in if storedSigner \<noteq> None \<or> requestedSigner \<noteq> None then storedSigner = requestedSigner
         else requestedMode = PrivateCheckout
           \<and> (checkoutMode lifecycle = PrivateCheckout \<or> checkoutMode lifecycle = ExternalWallet))"

fun paymentTargetsEqual :: "OrderPaymentTarget option \<Rightarrow> OrderPaymentTarget \<Rightarrow> bool" where
  "paymentTargetsEqual None requested = False"
| "paymentTargetsEqual (Some (WalletTarget w p)) (WalletTarget w' p') = (w = w' \<and> p = p')"
| "paymentTargetsEqual (Some WeblnTarget) WeblnTarget = True"
| "paymentTargetsEqual (Some ManualTarget) ManualTarget = True"
| "paymentTargetsEqual (Some _) _ = False"

definition paymentClaimIdentityMatchesLifecycle ::
    "locale_compare \<Rightarrow> OrderLifecycle \<Rightarrow> OrderPaymentClaimInput \<Rightarrow> bool" where
  "paymentClaimIdentityMatchesLifecycle lc lifecycle input \<longleftrightarrow>
     orderId lifecycle = in_orderId input
     \<and> buyerPubkey lifecycle = in_buyerPubkey input
     \<and> merchantPubkey lifecycle = in_merchantPubkey input
     \<and> merchantLightningAddress lifecycle = in_merchantLightningAddress input
     \<and> totalSats lifecycle = in_totalSats input
     \<and> totalMsats lifecycle = in_totalMsats input
     \<and> paymentTargetsEqual (paymentTarget lifecycle) (in_paymentTarget input)
     \<and> canonicalPaymentItems lc
         (map (\<lambda>i. \<lparr>productAddress = productId i, item_quantity = quantity i\<rparr>) (items lifecycle))
       = canonicalPaymentItems lc (in_items input)"

definition paymentClaimMatchesLifecycle ::
    "locale_compare \<Rightarrow> OrderLifecycle \<Rightarrow> OrderPaymentClaimInput \<Rightarrow> bool" where
  "paymentClaimMatchesLifecycle lc lifecycle input \<longleftrightarrow>
     paymentClaimIdentityMatchesLifecycle lc lifecycle input
     \<and> checkoutModesMatchForPayment lifecycle (in_checkoutMode input)
     \<and> or_else (zapContent lifecycle) [] = in_zapContent input"

subsection \<open>Building a claim\<close>

definition matches_hex_groups :: "nat list \<Rightarrow> js_string \<Rightarrow> bool" where
  "matches_hex_groups sizes s \<longleftrightarrow>
     length s = sum_list sizes + length sizes - 1
     \<and> list_all (\<lambda>i. if i \<in> set (butlast (map (\<lambda>k. sum_list (take (Suc k) sizes) + k) [0..<length sizes]))
                     then s ! i = CHR ''-'' else is_any_hex (s ! i)) [0..<length s]"

text \<open>\<open>UUID_V4_PATTERN\<close>: groups of 8, 4, 4, 4 and 12 hexadecimal digits, a version digit 4 and a
  variant digit 8, 9, a or b.\<close>

definition is_uuid_v4 :: "js_string \<Rightarrow> bool" where
  "is_uuid_v4 s \<longleftrightarrow>
     matches_hex_groups [8, 4, 4, 4, 12] s \<and> s ! 14 = CHR ''4''
     \<and> char_lower (s ! 19) \<in> set ''89ab''"

definition getWalletPaymentAttemptId :: "js_string \<Rightarrow> OrderLifecycle \<Rightarrow> js_string" where
  "getWalletPaymentAttemptId uuid lifecycle =
     (case walletPaymentAttemptId lifecycle of
        None \<Rightarrow> uuid
      | Some existing \<Rightarrow>
          if existing \<noteq> [] \<and> existing \<noteq> orderId lifecycle \<and> is_uuid_v4 existing
          then existing else uuid)"

definition is_wallet_target :: "OrderPaymentTarget \<Rightarrow> bool" where
  "is_wallet_target t \<longleftrightarrow> (case t of WalletTarget _ _ \<Rightarrow> True | _ \<Rightarrow> False)"

definition claim_patch ::
    "js_string \<Rightarrow> OrderLifecycle \<Rightarrow> OrderPaymentClaimInput \<Rightarrow> int \<Rightarrow> lifecycle_patch \<Rightarrow> lifecycle_patch" where
  "claim_patch uuid lifecycle input now overrides =
     [Set_paymentClaimId (Some (in_paymentClaimId input)),
      Set_paymentClaimedAt (Some now),
      Set_paymentClaimLeaseExpiresAt (Some (now + ORDER_PAYMENT_CLAIM_LEASE_MS)),
      Set_walletPaymentAttemptId
        (case patched_walletPaymentAttemptId overrides of
           Some v \<Rightarrow> v
         | None \<Rightarrow> if is_wallet_target (in_paymentTarget input)
                   then Some (getWalletPaymentAttemptId uuid lifecycle) else None),
      Set_invoiceStatus Requesting,
      Set_paymentStatus PaymentNotStarted,
      Set_proofDeliveryStatus ProofNotStarted,
      Set_zapReceiptStatus NotApplicable,
      Set_invoice None, Set_paymentHash None, Set_preimage None, Set_feeMsats None,
      Set_zapRequestId None, Set_zapRequestCreatedAt None, Set_zapReceiptId None,
      Set_zapReceiptRelayUrls None, Set_zapLnurl None, Set_zapReceiptPubkey None,
      Set_invoiceExpiresAt None, Set_zapReceiptObservationDeadline None, Set_lastError None]
     @ overrides"

definition buildClaimedOrderLifecycle ::
    "js_string \<Rightarrow> OrderLifecycle \<Rightarrow> OrderPaymentClaimInput \<Rightarrow> int \<Rightarrow> lifecycle_patch \<Rightarrow> OrderLifecycle" where
  "buildClaimedOrderLifecycle uuid lifecycle input now overrides =
     mergeOrderLifecyclePatch lifecycle (claim_patch uuid lifecycle input now overrides) now"

subsection \<open>Admission and the first claim\<close>

definition canStartOrReplaceOrderPayment :: "OrderLifecycle \<Rightarrow> bool" where
  "canStartOrReplaceOrderPayment lifecycle \<longleftrightarrow>
     (if checkoutSparkRouterBinding lifecycle \<noteq> None
         \<or> orderDeliveryStatus lifecycle \<noteq> DeliverySent
         \<or> phase lifecycle = Completed \<or> phase lifecycle = Cancelled then False
      else (paymentStatus lifecycle = PaymentNotStarted \<and> invoiceStatus lifecycle = NotRequested)
           \<or> paymentStatus lifecycle = PaymentFailed)"

datatype PaymentAdmission = Admissible | AdmissionMissing | AdmissionMismatch | AdmissionUnsafe

definition getOrderLifecyclePaymentAdmission ::
    "locale_compare \<Rightarrow> OrderLifecycle option \<Rightarrow> OrderPaymentClaimInput \<Rightarrow> PaymentAdmission" where
  "getOrderLifecyclePaymentAdmission lc lifecycleOpt input =
     (case lifecycleOpt of
        None \<Rightarrow> AdmissionMissing
      | Some lifecycle \<Rightarrow>
          if truthy (paymentClaimId lifecycle) then AdmissionUnsafe
          else if \<not> paymentClaimMatchesLifecycle lc lifecycle input then AdmissionMismatch
          else if canStartOrReplaceOrderPayment lifecycle then Admissible else AdmissionUnsafe)"

definition claimOrderLifecyclePayment ::
    "locale_compare \<Rightarrow> js_string \<Rightarrow> OrderPaymentClaimInput \<Rightarrow> bool \<Rightarrow> int \<Rightarrow> database \<Rightarrow>
     (OrderOpResult \<times> database) result" where
  "claimOrderLifecyclePayment lc uuid input shouldContinue now d =
     (if js_trim (in_paymentClaimId input) = [] then Inl ''Payment claim ID is required.''
      else Inr (case getOrderLifecycle (in_orderId input) d of
        None \<Rightarrow> missing d
      | Some lifecycle \<Rightarrow>
          (case getOrderLifecyclePaymentAdmission lc (Some lifecycle) input of
             AdmissionMissing \<Rightarrow> missing d
           | AdmissionMismatch \<Rightarrow> refuse SnapshotMismatch lifecycle d
           | AdmissionUnsafe \<Rightarrow> refuse UnsafeState lifecycle d
           | Admissible \<Rightarrow>
               if \<not> shouldContinue then refuse UnsafeState lifecycle d
               else store_claim (buildClaimedOrderLifecycle uuid lifecycle input now []) lifecycle d)))"

subsection \<open>Retrying an expired manual invoice\<close>

definition isExpiredManualInvoiceRetryEligible ::
    "js_string \<Rightarrow> OrderLifecycle \<Rightarrow> js_string \<Rightarrow> int \<Rightarrow> bool" where
  "isExpiredManualInvoiceRetryEligible net lifecycle normalizedExpectedInvoice nowMs \<longleftrightarrow>
     (let storedInvoice = (if truthy (invoice lifecycle)
                           then normalizeLightningInvoice (the (invoice lifecycle)) else []);
          storedPaymentHash = (if storedInvoice \<noteq> []
                               then decodeLightningInvoicePaymentHash storedInvoice else None);
          nowSeconds = nowMs div 1000;
          validation = validateLightningInvoiceForPayment net storedInvoice (totalMsats lifecycle)
                         None nowSeconds True
      in checkoutSparkRouterBinding lifecycle = None
         \<and> normalizedExpectedInvoice \<noteq> []
         \<and> toLowerCase storedInvoice = toLowerCase normalizedExpectedInvoice
         \<and> (checkoutMode lifecycle = PrivateCheckout \<or> checkoutMode lifecycle = ExternalWallet)
         \<and> publicZapSigner lifecycle = None
         \<and> paymentTarget lifecycle = Some ManualTarget
         \<and> orderDeliveryStatus lifecycle = DeliverySent
         \<and> phase lifecycle \<noteq> Completed
         \<and> phase lifecycle \<noteq> Cancelled
         \<and> completedAt lifecycle = None
         \<and> invoiceStatus lifecycle = InvoiceManualRequired
         \<and> paymentStatus lifecycle = PaymentManualRequired
         \<and> proofDeliveryStatus lifecycle = ProofNotStarted
         \<and> zapReceiptStatus lifecycle = NotApplicable
         \<and> paymentClaimId lifecycle = None
         \<and> proofDeliveryClaimId lifecycle = None
         \<and> preimage lifecycle = None
         \<and> feeMsats lifecycle = None
         \<and> (storedInvoice \<noteq> [] \<and> ok validation)
         \<and> (invoiceExpiresAt lifecycle = None
            \<or> invoice_expiresAt (metadata validation) = invoiceExpiresAt lifecycle)
         \<and> the (invoice_expiresAt (metadata validation)) \<le> nowSeconds
         \<and> storedPaymentHash \<noteq> None
         \<and> (paymentHash lifecycle = None
            \<or> toLowerCase (the storedPaymentHash) = toLowerCase (the (paymentHash lifecycle))))"

definition same_prior_invoice :: "PriorExpiredManualInvoice \<Rightarrow> PriorExpiredManualInvoice \<Rightarrow> bool" where
  "same_prior_invoice a b \<longleftrightarrow>
     toLowerCase (prior_invoice a) = toLowerCase (prior_invoice b)
     \<and> toLowerCase (prior_paymentHash a) = toLowerCase (prior_paymentHash b)"

text \<open>\<open>entries.filter((entry, index) => entries.findIndex(same) === index)\<close>: the first of every
  group of equal entries.\<close>

fun distinct_prior_invoices ::
    "PriorExpiredManualInvoice list \<Rightarrow> PriorExpiredManualInvoice list \<Rightarrow> PriorExpiredManualInvoice list" where
  "distinct_prior_invoices seen [] = []"
| "distinct_prior_invoices seen (e # es) =
     (if list_ex (same_prior_invoice e) seen then distinct_prior_invoices (seen @ [e]) es
      else e # distinct_prior_invoices (seen @ [e]) es)"

definition current_prior_invoice :: "js_string \<Rightarrow> OrderLifecycle \<Rightarrow> int \<Rightarrow> PriorExpiredManualInvoice" where
  "current_prior_invoice net lifecycle now =
     (let stored = the (invoice lifecycle)
      in \<lparr>prior_invoice = normalizeLightningInvoice stored,
          prior_paymentHash = the (decodeLightningInvoicePaymentHash stored),
          prior_expiresAt =
            the (invoice_expiresAt (metadata
              (validateLightningInvoiceForPayment net stored (totalMsats lifecycle) None (now div 1000) True)))\<rparr>)"

definition claimExpiredOrderInvoiceForRetry ::
    "js_string \<Rightarrow> locale_compare \<Rightarrow> js_string \<Rightarrow> OrderPaymentClaimInput \<Rightarrow> js_string \<Rightarrow> int option \<Rightarrow> bool \<Rightarrow>
     int \<Rightarrow> database \<Rightarrow> (OrderOpResult \<times> database) result" where
  "claimExpiredOrderInvoiceForRetry net lc uuid input expectedInvoice expectedUpdatedAt shouldContinue now d =
     (if js_trim (in_paymentClaimId input) = [] then Inl ''Payment claim ID is required.''
      else Inr (case getOrderLifecycle (in_orderId input) d of
        None \<Rightarrow> missing d
      | Some lifecycle \<Rightarrow>
          if \<not> paymentClaimMatchesLifecycle lc lifecycle input
             \<or> (expectedUpdatedAt \<noteq> None \<and> Some (updatedAt lifecycle) \<noteq> expectedUpdatedAt)
          then refuse SnapshotMismatch lifecycle d
          else if \<not> isExpiredManualInvoiceRetryEligible net lifecycle
                      (normalizeLightningInvoice expectedInvoice) now
                  \<or> in_paymentTarget input \<noteq> ManualTarget
          then refuse UnsafeState lifecycle d
          else if getPaymentAttempt (in_orderId input) d \<noteq> None
          then refuse UnsafeState lifecycle d
          else let currentInvoice = current_prior_invoice net lifecycle now;
                   priorInvoices = or_else (priorExpiredManualInvoices lifecycle) [];
                   currentInvoiceAlreadyRetained = list_ex (same_prior_invoice currentInvoice) priorInvoices;
                   distinctPriorInvoices = distinct_prior_invoices [] priorInvoices
          in if \<not> currentInvoiceAlreadyRetained
                \<and> length distinctPriorInvoices \<ge> MAX_PRIOR_EXPIRED_MANUAL_INVOICES
             then refuse InvoiceHistoryLimit lifecycle d
             else if \<not> shouldContinue then refuse UnsafeState lifecycle d
             else store_claim
               (buildClaimedOrderLifecycle uuid lifecycle input (max now (updatedAt lifecycle + 1))
                  [Set_priorExpiredManualInvoices
                     (Some (if currentInvoiceAlreadyRetained then distinctPriorInvoices
                            else distinctPriorInvoices @ [currentInvoice]))])
               lifecycle d))"

subsection \<open>Replacing the address or the target\<close>

datatype ReplacementAdmission = Replaceable | ReplacementMissing | ReplacementUnsafe

definition getOrderPaymentAddressReplacementAdmission :: "OrderLifecycle option \<Rightarrow> ReplacementAdmission" where
  "getOrderPaymentAddressReplacementAdmission lifecycleOpt =
     (case lifecycleOpt of
        None \<Rightarrow> ReplacementMissing
      | Some lifecycle \<Rightarrow>
          if checkoutSparkRouterBinding lifecycle \<noteq> None
             \<or> orderDeliveryStatus lifecycle \<noteq> DeliverySent
             \<or> phase lifecycle = Completed
             \<or> phase lifecycle = Cancelled
             \<or> completedAt lifecycle \<noteq> None
             \<or> checkoutMode lifecycle = PayLater
             \<or> paymentStatus lifecycle \<noteq> PaymentFailed
             \<or> invoiceStatus lifecycle \<noteq> InvoiceFailed
             \<or> proofDeliveryStatus lifecycle \<noteq> ProofNotStarted
             \<or> zapReceiptStatus lifecycle \<noteq> NotApplicable
             \<or> truthy (paymentClaimId lifecycle)
             \<or> truthy (proofDeliveryClaimId lifecycle)
             \<or> truthy (invoice lifecycle)
             \<or> truthy (paymentHash lifecycle)
             \<or> truthy (preimage lifecycle)
             \<or> feeMsats lifecycle \<noteq> None
             \<or> truthy (zapReceiptId lifecycle)
             \<or> invoiceExpiresAt lifecycle \<noteq> None
             \<or> zapReceiptObservationDeadline lifecycle \<noteq> None
          then ReplacementUnsafe
          else Replaceable)"

definition claimOrderLifecycleUpdatedAddressPayment ::
    "locale_compare \<Rightarrow> js_string \<Rightarrow> OrderPaymentClaimInput \<Rightarrow> int \<Rightarrow> js_string \<Rightarrow> bool \<Rightarrow> int \<Rightarrow> database \<Rightarrow>
     (OrderOpResult \<times> database) result" where
  "claimOrderLifecycleUpdatedAddressPayment lc uuid input expectedUpdatedAt newMerchantLightningAddress
       shouldContinue now d =
     (if js_trim (in_paymentClaimId input) = [] then Inl ''Payment claim ID is required.''
      else let address = toLowerCase (js_trim newMerchantLightningAddress)
      in Inr (case getOrderLifecycle (in_orderId input) d of
        None \<Rightarrow> missing d
      | Some lifecycle \<Rightarrow>
          (case getOrderPaymentAddressReplacementAdmission (Some lifecycle) of
             ReplacementMissing \<Rightarrow> missing d
           | ReplacementUnsafe \<Rightarrow> refuse UnsafeState lifecycle d
           | Replaceable \<Rightarrow>
               if updatedAt lifecycle \<noteq> expectedUpdatedAt
                  \<or> \<not> paymentClaimMatchesLifecycle lc lifecycle input
               then refuse SnapshotMismatch lifecycle d
               else if \<not> isValidLud16Address address
                  \<or> Some address = map_option (\<lambda>a. toLowerCase (js_trim a)) (merchantLightningAddress lifecycle)
               then refuse UnsafeState lifecycle d
               else if getPaymentAttempt (in_orderId input) d \<noteq> None
               then refuse UnsafeState lifecycle d
               else if \<not> shouldContinue then refuse UnsafeState lifecycle d
               else store_claim
                 (buildClaimedOrderLifecycle uuid lifecycle input (max now (updatedAt lifecycle + 1))
                    [Set_merchantLightningAddress (Some address),
                     Set_walletPaymentAttemptId
                       (if is_wallet_target (in_paymentTarget input) then Some uuid else None)])
                 lifecycle d)))"

definition getOrderPaymentTargetReplacementAdmission :: "OrderLifecycle option \<Rightarrow> ReplacementAdmission" where
  "getOrderPaymentTargetReplacementAdmission lifecycleOpt =
     (case lifecycleOpt of
        None \<Rightarrow> ReplacementMissing
      | Some lifecycle \<Rightarrow>
          if canStartOrReplaceOrderPayment lifecycle then Replaceable else ReplacementUnsafe)"

definition replaceOrderPaymentTarget ::
    "js_string \<Rightarrow> OrderPaymentTarget \<Rightarrow> bool \<Rightarrow> int \<Rightarrow> database \<Rightarrow> OrderOpResult \<times> database" where
  "replaceOrderPaymentTarget i target shouldContinue now d =
     (case getOrderLifecycle i d of
        None \<Rightarrow> missing d
      | Some lifecycle \<Rightarrow>
          (case getOrderPaymentTargetReplacementAdmission (Some lifecycle) of
             ReplacementMissing \<Rightarrow> missing d
           | ReplacementUnsafe \<Rightarrow> refuse UnsafeState lifecycle d
           | Replaceable \<Rightarrow>
               if \<not> shouldContinue then refuse UnsafeState lifecycle d
               else store UpdatedTarget
                 (lifecycle
                    \<lparr>paymentTarget := Some target,
                     walletPaymentAttemptId :=
                       (if paymentTargetsEqual (paymentTarget lifecycle) target \<and> is_wallet_target target
                        then walletPaymentAttemptId lifecycle else None),
                     updatedAt := now\<rparr>) d))"

subsection \<open>Private fallback and preparation failure\<close>

definition claimOrderLifecyclePrivateFallbackPayment ::
    "locale_compare \<Rightarrow> js_string \<Rightarrow> OrderPaymentClaimInput \<Rightarrow> bool \<Rightarrow> int \<Rightarrow> database \<Rightarrow>
     OrderOpResult \<times> database" where
  "claimOrderLifecyclePrivateFallbackPayment lc uuid input shouldContinue now d =
     (case getOrderLifecycle (in_orderId input) d of
        None \<Rightarrow> missing d
      | Some lifecycle \<Rightarrow>
          if in_checkoutMode input \<noteq> PrivateCheckout
             \<or> \<not> paymentClaimIdentityMatchesLifecycle lc lifecycle input
          then refuse SnapshotMismatch lifecycle d
          else if checkoutSparkRouterBinding lifecycle \<noteq> None
             \<or> truthy (paymentClaimId lifecycle)
             \<or> effective_signer lifecycle \<noteq> Some Anon
             \<or> orderDeliveryStatus lifecycle \<noteq> DeliverySent
             \<or> phase lifecycle = Completed
             \<or> phase lifecycle = Cancelled
             \<or> invoiceStatus lifecycle \<noteq> InvoiceFailed
             \<or> paymentStatus lifecycle \<noteq> PaymentFailed
          then refuse UnsafeState lifecycle d
          else if \<not> shouldContinue then refuse UnsafeState lifecycle d
          else store_claim
            (buildClaimedOrderLifecycle uuid lifecycle input now
               [Set_merchantLightningAddress (in_merchantLightningAddress input),
                Set_checkoutMode PrivateCheckout,
                Set_publicZapSigner None,
                Set_publicZapFallback True,
                Set_zapContent (Some []),
                Set_walletPaymentAttemptId
                  (if is_wallet_target (in_paymentTarget input) then Some uuid else None)])
            lifecycle d)"

definition recordOrderPaymentPreparationFailure ::
    "locale_compare \<Rightarrow> OrderPaymentClaimInput \<Rightarrow> js_string \<Rightarrow> int \<Rightarrow> database \<Rightarrow> OrderOpResult \<times> database" where
  "recordOrderPaymentPreparationFailure lc input error now d =
     (case getOrderLifecycle (in_orderId input) d of
        None \<Rightarrow> missing d
      | Some lifecycle \<Rightarrow>
          (case getOrderLifecyclePaymentAdmission lc (Some lifecycle) input of
             AdmissionMismatch \<Rightarrow> refuse SnapshotMismatch lifecycle d
           | AdmissionUnsafe \<Rightarrow> refuse UnsafeState lifecycle d
           | _ \<Rightarrow> store Recorded
               (mergeOrderLifecyclePatch lifecycle
                  [Set_paymentClaimId None, Set_invoiceStatus InvoiceFailed,
                   Set_paymentStatus PaymentFailed, Set_proofDeliveryStatus ProofNotStarted,
                   Set_zapReceiptStatus NotApplicable, Set_lastError (Some error)] now) d))"

subsection \<open>The claimed record\<close>

fun claim_override :: "field_value \<Rightarrow> bool" where
  "claim_override (Set_priorExpiredManualInvoices _) = True"
| "claim_override (Set_merchantLightningAddress _) = True"
| "claim_override (Set_walletPaymentAttemptId _) = True"
| "claim_override (Set_checkoutMode _) = True"
| "claim_override (Set_publicZapSigner _) = True"
| "claim_override (Set_publicZapFallback _) = True"
| "claim_override (Set_zapContent _) = True"
| "claim_override _ = False"

lemma apply_patch_append [simp]: "apply_patch (p @ q) r = apply_patch q (apply_patch p r)"
  by (simp add: apply_patch_def)

text \<open>What an override leaves alone.\<close>

definition claim_core :: "OrderLifecycle \<Rightarrow> OrderLifecycle" where
  "claim_core r = r\<lparr>priorExpiredManualInvoices := None, merchantLightningAddress := None,
     walletPaymentAttemptId := None, checkoutMode := PrivateCheckout, publicZapSigner := None,
     publicZapFallback := False, zapContent := None\<rparr>"

lemma overrides_keep_core: "list_all claim_override ov \<Longrightarrow> claim_core (apply_patch ov r) = claim_core r"
proof (induction ov arbitrary: r)
  case (Cons f fs)
  then have "claim_core (set_field f r) = claim_core r" by (cases f) (simp_all add: claim_core_def)
  with Cons show ?case by simp
qed simp

lemma claim_core_select:
  "paymentClaimId (claim_core r) = paymentClaimId r"
  "paymentClaimedAt (claim_core r) = paymentClaimedAt r"
  "paymentClaimLeaseExpiresAt (claim_core r) = paymentClaimLeaseExpiresAt r"
  "invoiceStatus (claim_core r) = invoiceStatus r" "paymentStatus (claim_core r) = paymentStatus r"
  "proofDeliveryStatus (claim_core r) = proofDeliveryStatus r"
  "proofDeliveryClaimId (claim_core r) = proofDeliveryClaimId r"
  "invoice (claim_core r) = invoice r" "paymentHash (claim_core r) = paymentHash r"
  "preimage (claim_core r) = preimage r"
  "checkoutSparkRouterBinding (claim_core r) = checkoutSparkRouterBinding r"
  "orderDeliveryStatus (claim_core r) = orderDeliveryStatus r" "phase (claim_core r) = phase r"
  "zapReceiptStatus (claim_core r) = zapReceiptStatus r"
  "zapReceiptId (claim_core r) = zapReceiptId r" "buyerPubkey (claim_core r) = buyerPubkey r"
  "merchantPubkey (claim_core r) = merchantPubkey r" "totalMsats (claim_core r) = totalMsats r"
  "totalSats (claim_core r) = totalSats r" "items (claim_core r) = items r"
  "paymentTarget (claim_core r) = paymentTarget r" "completedAt (claim_core r) = completedAt r"
  by (simp_all add: claim_core_def)

lemma claim_core_fields:
  assumes "claim_core a = claim_core b"
  shows "paymentClaimId a = paymentClaimId b"
    "paymentClaimedAt a = paymentClaimedAt b"
    "paymentClaimLeaseExpiresAt a = paymentClaimLeaseExpiresAt b"
    "invoiceStatus a = invoiceStatus b" "paymentStatus a = paymentStatus b"
    "proofDeliveryStatus a = proofDeliveryStatus b"
    "proofDeliveryClaimId a = proofDeliveryClaimId b" "invoice a = invoice b"
    "paymentHash a = paymentHash b" "preimage a = preimage b"
    "checkoutSparkRouterBinding a = checkoutSparkRouterBinding b"
    "orderDeliveryStatus a = orderDeliveryStatus b" "phase a = phase b"
    "zapReceiptStatus a = zapReceiptStatus b" "zapReceiptId a = zapReceiptId b"
    "buyerPubkey a = buyerPubkey b" "merchantPubkey a = merchantPubkey b"
    "totalMsats a = totalMsats b" "totalSats a = totalSats b" "items a = items b"
    "paymentTarget a = paymentTarget b" "completedAt a = completedAt b"
  using     arg_cong [OF assms, of paymentClaimId] arg_cong [OF assms, of paymentClaimedAt]
    arg_cong [OF assms, of paymentClaimLeaseExpiresAt] arg_cong [OF assms, of invoiceStatus]
    arg_cong [OF assms, of paymentStatus] arg_cong [OF assms, of proofDeliveryStatus]
    arg_cong [OF assms, of proofDeliveryClaimId] arg_cong [OF assms, of invoice]
    arg_cong [OF assms, of paymentHash] arg_cong [OF assms, of preimage]
    arg_cong [OF assms, of checkoutSparkRouterBinding] arg_cong [OF assms, of orderDeliveryStatus]
    arg_cong [OF assms, of phase] arg_cong [OF assms, of zapReceiptStatus]
    arg_cong [OF assms, of zapReceiptId] arg_cong [OF assms, of buyerPubkey]
    arg_cong [OF assms, of merchantPubkey] arg_cong [OF assms, of totalMsats]
    arg_cong [OF assms, of totalSats] arg_cong [OF assms, of items]
    arg_cong [OF assms, of paymentTarget] arg_cong [OF assms, of completedAt]
  by (simp_all only: claim_core_select)

lemmas override_fields = claim_core_fields [OF overrides_keep_core]

lemma overrides_patch_nothing_else:
  "list_all claim_override ov \<Longrightarrow> patched_paymentClaimId ov = None"
  "list_all claim_override ov \<Longrightarrow> patched_proofDeliveryClaimId ov = None"
  "list_all claim_override ov \<Longrightarrow> patched_proofDeliveryStatus ov = None"
  "list_all claim_override ov \<Longrightarrow> patched_phase ov = None"
  unfolding patched_defs
  by (induction ov rule: rev_induct; simp; case_tac x; simp)+

text \<open>Whatever the claim, the record starts a new attempt.\<close>

lemma claimed_fields:
  assumes "list_all claim_override ov"
  shows "orderId (buildClaimedOrderLifecycle uuid r input now ov) = orderId r"
    "updatedAt (buildClaimedOrderLifecycle uuid r input now ov) = now"
    "paymentClaimId (buildClaimedOrderLifecycle uuid r input now ov) = Some (in_paymentClaimId input)"
    "paymentClaimedAt (buildClaimedOrderLifecycle uuid r input now ov) = Some now"
    "paymentClaimLeaseExpiresAt (buildClaimedOrderLifecycle uuid r input now ov) =
       Some (now + ORDER_PAYMENT_CLAIM_LEASE_MS)"
    "invoiceStatus (buildClaimedOrderLifecycle uuid r input now ov) = Requesting"
    "paymentStatus (buildClaimedOrderLifecycle uuid r input now ov) = PaymentNotStarted"
    "proofDeliveryStatus (buildClaimedOrderLifecycle uuid r input now ov) = ProofNotStarted"
    "proofDeliveryClaimId (buildClaimedOrderLifecycle uuid r input now ov) = None"
    "invoice (buildClaimedOrderLifecycle uuid r input now ov) = None"
    "paymentHash (buildClaimedOrderLifecycle uuid r input now ov) = None"
    "preimage (buildClaimedOrderLifecycle uuid r input now ov) = None"
    "checkoutSparkRouterBinding (buildClaimedOrderLifecycle uuid r input now ov) = checkoutSparkRouterBinding r"
    "orderDeliveryStatus (buildClaimedOrderLifecycle uuid r input now ov) = orderDeliveryStatus r"
  using assms
  by (simp_all add: buildClaimedOrderLifecycle_def merge_fields claim_patch_def override_fields
      release_defs overrides_patch_nothing_else)

lemma distinct_prior_length: "length (distinct_prior_invoices seen es) \<le> length es"
  by (induction seen es rule: distinct_prior_invoices.induct) auto

subsection \<open>Every operation follows the protocol\<close>

lemma claim_follows:
  assumes "well_keyed_database d" "getOrderLifecycle i d = Some r" "list_all claim_override ov"
    "checkoutSparkRouterBinding r = None" "\<not> truthy (paymentClaimId r)"
    "paymentStatus r \<in> {PaymentNotStarted, PaymentManualRequired, PaymentFailed}"
    "length (or_else (priorExpiredManualInvoices (buildClaimedOrderLifecycle uuid r input now ov)) [])
       \<le> max (length (or_else (priorExpiredManualInvoices r) [])) MAX_PRIOR_EXPIRED_MANUAL_INVOICES"
  shows "follows d (putOrderLifecycle (buildClaimedOrderLifecycle uuid r input now ov) d)"
  by (rule follows_put [OF assms(1,2)], simp add: claimed_fields assms(3))
    (rule start [where c = "in_paymentClaimId input"], use assms in \<open>simp_all add: claimed_fields\<close>)

lemma claimed_history:
  "priorExpiredManualInvoices (buildClaimedOrderLifecycle uuid r input now []) = priorExpiredManualInvoices r"
  "priorExpiredManualInvoices (buildClaimedOrderLifecycle uuid r input now [Set_priorExpiredManualInvoices h]) = h"
  "priorExpiredManualInvoices (buildClaimedOrderLifecycle uuid r input now
     [Set_merchantLightningAddress a, Set_walletPaymentAttemptId w]) = priorExpiredManualInvoices r"
  "priorExpiredManualInvoices (buildClaimedOrderLifecycle uuid r input now
     [Set_merchantLightningAddress a, Set_checkoutMode m, Set_publicZapSigner s, Set_publicZapFallback b,
      Set_zapContent z, Set_walletPaymentAttemptId w]) = priorExpiredManualInvoices r"
  by (simp_all add: buildClaimedOrderLifecycle_def merge_fields claim_patch_def)

lemmas answer_defs = refuse_def missing_def store_def store_claim_def

lemma claimOrderLifecyclePayment_follows:
  assumes "well_keyed_database d" "claimOrderLifecyclePayment lc uuid input go now d = Inr (res, e)"
  shows "follows d e"
  using assms
  by (auto simp: claimOrderLifecyclePayment_def getOrderLifecyclePaymentAdmission_def answer_defs
      canStartOrReplaceOrderPayment_def claimed_history
      split: option.splits if_splits intro!: claim_follows)

lemma claimExpiredOrderInvoiceForRetry_follows:
  assumes "well_keyed_database d"
    "claimExpiredOrderInvoiceForRetry net lc uuid input expected revision go now d = Inr (res, e)"
  shows "follows d e"
proof -
  have len: "length (distinct_prior_invoices [] h) \<le> max (length h) MAX_PRIOR_EXPIRED_MANUAL_INVOICES" for h
    using distinct_prior_length [of "[]" h] by simp
  show ?thesis
    using assms len
    by (auto simp: claimExpiredOrderInvoiceForRetry_def answer_defs Let_def claimed_history
        isExpiredManualInvoiceRetryEligible_def
        split: option.splits if_splits intro!: claim_follows)
qed

lemma claimOrderLifecycleUpdatedAddressPayment_follows:
  assumes "well_keyed_database d"
    "claimOrderLifecycleUpdatedAddressPayment lc uuid input revision address go now d = Inr (res, e)"
  shows "follows d e"
  using assms
  by (auto simp: claimOrderLifecycleUpdatedAddressPayment_def getOrderPaymentAddressReplacementAdmission_def
      answer_defs Let_def claimed_history
      split: option.splits if_splits intro!: claim_follows)

lemma claimOrderLifecyclePrivateFallbackPayment_follows:
  assumes "well_keyed_database d"
  shows "follows d (snd (claimOrderLifecyclePrivateFallbackPayment lc uuid input go now d))"
  using assms
  by (auto simp: claimOrderLifecyclePrivateFallbackPayment_def answer_defs claimed_history
      split: option.splits if_splits intro!: claim_follows)

lemma replaceOrderPaymentTarget_follows:
  assumes "well_keyed_database d"
  shows "follows d (snd (replaceOrderPaymentTarget i target go now d))"
  using assms
  by (auto simp: replaceOrderPaymentTarget_def answer_defs getOrderPaymentTargetReplacementAdmission_def
      view_def split: option.splits if_splits intro!: follows_put unseen)

lemma recordOrderPaymentPreparationFailure_follows:
  assumes "well_keyed_database d"
  shows "follows d (snd (recordOrderPaymentPreparationFailure lc input error now d))"
  using assms
  by (auto simp: recordOrderPaymentPreparationFailure_def getOrderLifecyclePaymentAdmission_def answer_defs
      canStartOrReplaceOrderPayment_def merge_fields release_defs frame_defs
      split: option.splits if_splits intro!: follows_put give_up)

subsection \<open>Granted claims\<close>

text \<open>One of the four claims of a payment is granted for \<open>input\<close>, leading from \<open>d\<close> to \<open>e\<close>.\<close>

definition payment_claimed ::
    "js_string \<Rightarrow> locale_compare \<Rightarrow> OrderPaymentClaimInput \<Rightarrow> database \<Rightarrow> database \<Rightarrow> bool" where
  "payment_claimed net lc input d e \<longleftrightarrow>
     (\<exists>uuid go now res. op_status res = Claimed \<and>
        (claimOrderLifecyclePayment lc uuid input go now d = Inr (res, e)
         \<or> (\<exists>expected revision.
              claimExpiredOrderInvoiceForRetry net lc uuid input expected revision go now d = Inr (res, e))
         \<or> (\<exists>revision address.
              claimOrderLifecycleUpdatedAddressPayment lc uuid input revision address go now d = Inr (res, e))
         \<or> claimOrderLifecyclePrivateFallbackPayment lc uuid input go now d = (res, e)))"

definition claimable :: "OrderLifecycle \<Rightarrow> bool" where
  "claimable r \<longleftrightarrow>
     checkoutSparkRouterBinding r = None \<and> \<not> truthy (paymentClaimId r)
     \<and> orderDeliveryStatus r = DeliverySent \<and> phase r \<noteq> Completed \<and> phase r \<noteq> Cancelled
     \<and> ((paymentStatus r = PaymentNotStarted \<and> invoiceStatus r = NotRequested)
        \<or> paymentStatus r = PaymentFailed
        \<or> (paymentStatus r = PaymentManualRequired \<and> invoiceStatus r = InvoiceManualRequired))"

definition grants :: "OrderPaymentClaimInput \<Rightarrow> database \<Rightarrow> database \<Rightarrow> bool" where
  "grants input d e \<longleftrightarrow>
     (\<exists>r uuid t ov. getOrderLifecycle (in_orderId input) d = Some r \<and> orderId r = in_orderId input
        \<and> claimable r \<and> list_all claim_override ov
        \<and> e = putOrderLifecycle (buildClaimedOrderLifecycle uuid r input t ov) d)"

lemma grantsI:
  "\<lbrakk>getOrderLifecycle (in_orderId input) d = Some r; orderId r = in_orderId input; claimable r;
    list_all claim_override ov\<rbrakk>
   \<Longrightarrow> grants input d (putOrderLifecycle (buildClaimedOrderLifecycle uuid r input t ov) d)"
  unfolding grants_def by blast

lemma matching_identity:
  "paymentClaimMatchesLifecycle lc r input \<Longrightarrow> orderId r = in_orderId input"
  "paymentClaimIdentityMatchesLifecycle lc r input \<Longrightarrow> orderId r = in_orderId input"
  by (simp_all add: paymentClaimMatchesLifecycle_def paymentClaimIdentityMatchesLifecycle_def)

lemma claimOrderLifecyclePayment_grants:
  "claimOrderLifecyclePayment lc uuid input go now d = Inr (res, e) \<Longrightarrow> op_status res = Claimed \<Longrightarrow> grants input d e"
  by (auto simp: claimOrderLifecyclePayment_def getOrderLifecyclePaymentAdmission_def answer_defs op_result_def
      canStartOrReplaceOrderPayment_def claimable_def matching_identity
      split: option.splits if_splits intro!: grantsI)

lemma claimExpiredOrderInvoiceForRetry_grants:
  "claimExpiredOrderInvoiceForRetry net lc uuid input expected revision go now d = Inr (res, e) \<Longrightarrow>
   op_status res = Claimed \<Longrightarrow> grants input d e"
  by (auto simp: claimExpiredOrderInvoiceForRetry_def answer_defs op_result_def Let_def claimable_def
      isExpiredManualInvoiceRetryEligible_def matching_identity
      split: option.splits if_splits intro!: grantsI)

lemma claimOrderLifecycleUpdatedAddressPayment_grants:
  "claimOrderLifecycleUpdatedAddressPayment lc uuid input revision address go now d = Inr (res, e) \<Longrightarrow>
   op_status res = Claimed \<Longrightarrow> grants input d e"
  by (auto simp: claimOrderLifecycleUpdatedAddressPayment_def getOrderPaymentAddressReplacementAdmission_def
      answer_defs op_result_def Let_def claimable_def matching_identity
      split: option.splits if_splits intro!: grantsI)

lemma claimOrderLifecyclePrivateFallbackPayment_grants:
  "claimOrderLifecyclePrivateFallbackPayment lc uuid input go now d = (res, e) \<Longrightarrow>
   op_status res = Claimed \<Longrightarrow> grants input d e"
  by (auto simp: claimOrderLifecyclePrivateFallbackPayment_def answer_defs op_result_def claimable_def matching_identity
      split: option.splits if_splits intro!: grantsI)

lemma payment_claimed_grants: "payment_claimed net lc input d e \<Longrightarrow> grants input d e"
  unfolding payment_claimed_def
  by (elim exE conjE disjE)
    (erule claimOrderLifecyclePayment_grants claimExpiredOrderInvoiceForRetry_grants
      claimOrderLifecycleUpdatedAddressPayment_grants claimOrderLifecyclePrivateFallbackPayment_grants, assumption)+

lemma grants_claimable: "grants input d e \<Longrightarrow> getOrderLifecycle (in_orderId input) d = Some r \<Longrightarrow> claimable r"
  by (auto simp: grants_def)

lemma granted_row:
  assumes "grants input d e"
  obtains r' where "getOrderLifecycle (in_orderId input) e = Some r'" "\<not> claimable r'"
    "paymentClaimId r' = Some (in_paymentClaimId input)"
  using assms by (auto simp: grants_def store_simps claimed_fields claimable_def)

subsection \<open>Properties\<close>

text \<open>C7. Admission of a payment.  With a claim id and a stored order, the claim is granted exactly
  when the caller still wants it, no claim is held, the request repeats the order (parties, amounts,
  target, lines, mode and zap text), the order is not routed, was delivered, is not closed, and its
  payment never started or failed.  A granted claim is stored with its 15 second lease, an invoice
  request in progress and no evidence of an earlier attempt; a refused one writes nothing.\<close>

theorem payment_claim_admission:
  assumes row: "getOrderLifecycle (in_orderId input) d = Some r"
    and id: "js_trim (in_paymentClaimId input) \<noteq> []"
  shows "\<exists>res e. claimOrderLifecyclePayment lc uuid input go now d = Inr (res, e)
    \<and> (op_status res = Claimed \<longleftrightarrow>
         go \<and> \<not> truthy (paymentClaimId r) \<and> paymentClaimMatchesLifecycle lc r input
         \<and> checkoutSparkRouterBinding r = None \<and> orderDeliveryStatus r = DeliverySent
         \<and> phase r \<noteq> Completed \<and> phase r \<noteq> Cancelled
         \<and> (paymentStatus r = PaymentFailed
            \<or> (paymentStatus r = PaymentNotStarted \<and> invoiceStatus r = NotRequested)))
    \<and> (op_status res \<noteq> Claimed \<longrightarrow> e = d)
    \<and> (op_status res = Claimed \<longrightarrow>
         preclaimLifecycle res = Some r
         \<and> (\<exists>r'. op_lifecycle res = Some r' \<and> getOrderLifecycle (in_orderId input) e = Some r'
              \<and> paymentClaimId r' = Some (in_paymentClaimId input)
              \<and> paymentClaimLeaseExpiresAt r' = Some (now + 15000)
              \<and> invoiceStatus r' = Requesting \<and> paymentStatus r' = PaymentNotStarted
              \<and> proofDeliveryStatus r' = ProofNotStarted \<and> proofDeliveryClaimId r' = None
              \<and> invoice r' = None \<and> paymentHash r' = None \<and> preimage r' = None))"
proof -
  let ?c = "buildClaimedOrderLifecycle uuid r input now []"
  have "orderId ?c = in_orderId input" if "paymentClaimMatchesLifecycle lc r input"
    using matching_identity(1) [OF that] by (simp add: claimed_fields)
  then show ?thesis
    using row id
    by (auto simp: claimOrderLifecyclePayment_def getOrderLifecyclePaymentAdmission_def
        canStartOrReplaceOrderPayment_def answer_defs op_result_def store_simps claimed_fields lease_constants)
qed

definition sample_claim :: "js_string \<Rightarrow> OrderPaymentClaimInput" where
  "sample_claim c =
     \<lparr>in_orderId = ''order-1'', in_paymentClaimId = c, in_buyerPubkey = ''buyer'', in_merchantPubkey = ''shop'',
      in_merchantLightningAddress = None, in_checkoutMode = PrivateCheckout, in_zapContent = [],
      in_totalSats = 1000, in_totalMsats = 1000000,
      in_items = [\<lparr>productAddress = ''p'', item_quantity = 1\<rparr>], in_paymentTarget = ManualTarget\<rparr>"

lemma sample_claim_matches: "paymentClaimMatchesLifecycle lc sample_order (sample_claim c)"
  by (simp add: paymentClaimMatchesLifecycle_def paymentClaimIdentityMatchesLifecycle_def
      checkoutModesMatchForPayment_def effective_signer_def sample_order_def sample_claim_def Let_def)

lemma sample_claim_granted:
  "\<exists>res e. claimOrderLifecyclePayment (\<lambda>_ _. 0) ''u'' (sample_claim ''c'') True 100 (sample_database sample_order)
       = Inr (res, e) \<and> op_status res = Claimed"
  using sample_claim_matches [of "\<lambda>_ _. 0" "''c''"]
  by (simp add: claimOrderLifecyclePayment_def getOrderLifecyclePaymentAdmission_def canStartOrReplaceOrderPayment_def
      store_claim_def op_result_def)
    (simp add: sample_claim_def sample_order_def js_trim_def is_js_space_def char_code_def)

theorem payment_claim_admission_witness:
  "\<exists>res e. claimOrderLifecyclePayment (\<lambda>_ _. 0) ''u'' (sample_claim ''c'') True 100 (sample_database sample_order) = Inr (res, e)
     \<and> op_status res = Claimed"
proof -
  have "getOrderLifecycle (in_orderId (sample_claim ''c'')) (sample_database sample_order) = Some sample_order"
    by (simp add: sample_claim_def sample_order_def)
  moreover have "js_trim (in_paymentClaimId (sample_claim ''c'')) \<noteq> []"
    by (simp add: sample_claim_def js_trim_def is_js_space_def char_code_def)
  ultimately show ?thesis
    using payment_claim_admission [of "sample_claim ''c''" "sample_database sample_order" sample_order
        "\<lambda>_ _. 0" "''u''" True 100] sample_claim_matches [of "\<lambda>_ _. 0" "''c''"]
    by (auto simp: sample_order_def)
qed

text \<open>C4. At most one payment attempt is open.  Once any of the four claims (a first payment, the
  retry of an expired invoice, the payment to a new address, the private fallback) is granted on an
  order, none of the four is granted on the resulting state, whoever asks, whatever the claim ids
  are, even the empty one; the order also was not routed and not already claimed.\<close>

theorem payment_claims_exclude_each_other:
  assumes "payment_claimed net lc input d e" "in_orderId input' = in_orderId input"
  shows "\<not> payment_claimed net' lc' input' e e'
    \<and> (\<exists>r. getOrderLifecycle (in_orderId input) d = Some r
          \<and> checkoutSparkRouterBinding r = None \<and> \<not> truthy (paymentClaimId r))"
proof
  have g: "grants input d e" using assms(1) by (rule payment_claimed_grants)
  from g obtain r' where "getOrderLifecycle (in_orderId input) e = Some r'" "\<not> claimable r'" by (rule granted_row)
  with assms(2) show "\<not> payment_claimed net' lc' input' e e'"
    using payment_claimed_grants grants_claimable by metis
  show "\<exists>r. getOrderLifecycle (in_orderId input) d = Some r
      \<and> checkoutSparkRouterBinding r = None \<and> \<not> truthy (paymentClaimId r)"
    using g by (auto simp: grants_def claimable_def)
qed

theorem payment_claims_exclude_each_other_witness:
  "\<exists>e. payment_claimed ''mainnet'' (\<lambda>_ _. 0) (sample_claim ''c'') (sample_database sample_order) e
     \<and> \<not> payment_claimed ''mainnet'' (\<lambda>_ _. 0) (sample_claim ''d'') e e"
proof -
  obtain e where e: "payment_claimed ''mainnet'' (\<lambda>_ _. 0) (sample_claim ''c'') (sample_database sample_order) e"
    using sample_claim_granted unfolding payment_claimed_def by blast
  have "in_orderId (sample_claim ''d'') = in_orderId (sample_claim ''c'')" by (simp add: sample_claim_def)
  with e show ?thesis using payment_claims_exclude_each_other [OF e, of "sample_claim ''d''"] by blast
qed

lemma same_prior_invoice_equiv:
  "same_prior_invoice p p" "same_prior_invoice p q \<Longrightarrow> same_prior_invoice q p"
  "same_prior_invoice p q \<Longrightarrow> same_prior_invoice q s \<Longrightarrow> same_prior_invoice p s"
  by (simp_all add: same_prior_invoice_def)

lemma distinct_prior_covers:
  "e \<in> set es \<Longrightarrow> (\<exists>q \<in> set seen. same_prior_invoice e q) \<or> (\<exists>q \<in> set (distinct_prior_invoices seen es). same_prior_invoice e q)"
proof (induction seen es arbitrary: e rule: distinct_prior_invoices.induct)
  case (2 seen x xs)
  show ?case
  proof (cases "e = x")
    case True
    then show ?thesis using same_prior_invoice_equiv(1) by (auto simp: list_ex_iff)
  next
    case False
    with 2 have "(\<exists>q \<in> set (seen @ [x]). same_prior_invoice e q)
        \<or> (\<exists>q \<in> set (distinct_prior_invoices (seen @ [x]) xs). same_prior_invoice e q)"
      by (cases "list_ex (same_prior_invoice x) seen") auto
    then show ?thesis
      by (auto simp: list_ex_iff intro: same_prior_invoice_equiv(3))
  qed
qed simp

lemma distinct_prior_subset: "set (distinct_prior_invoices seen es) \<subseteq> set es"
  by (induction seen es rule: distinct_prior_invoices.induct) auto

text \<open>The decoders read the normalized text.\<close>

lemma decoders_read_normal:
  assumes "normalizeLightningInvoice x = normalizeLightningInvoice y"
  shows "decodeLightningInvoicePaymentHash x = decodeLightningInvoicePaymentHash y"
    "decodeLightningInvoiceMetadata x = decodeLightningInvoiceMetadata y"
proof -
  have p: "parseBolt11Invoice x = parseBolt11Invoice y"
    using assms by (simp add: parseBolt11Invoice_def)
  then show "decodeLightningInvoicePaymentHash x = decodeLightningInvoicePaymentHash y"
    by (simp add: decodeLightningInvoicePaymentHash_def)
  have "decodeLightningInvoiceAmount x = decodeLightningInvoiceAmount y"
    using assms by (simp add: decodeLightningInvoiceAmount_def)
  with p show "decodeLightningInvoiceMetadata x = decodeLightningInvoiceMetadata y"
    by (simp add: decodeLightningInvoiceMetadata_def)
qed

lemma eligible_facts:
  assumes "isExpiredManualInvoiceRetryEligible net r expected now"
    "normalizeLightningInvoice (normalizeLightningInvoice (the (invoice r))) = normalizeLightningInvoice (the (invoice r))"
  shows "truthy (invoice r)"
    "\<exists>h. decodeLightningInvoicePaymentHash (the (invoice r)) = Some h"
    "\<exists>t. invoice_expiresAt (decodeLightningInvoiceMetadata (the (invoice r))) = Some t \<and> t \<le> now div 1000"
proof -
  let ?n = "normalizeLightningInvoice (the (invoice r))"
  show t: "truthy (invoice r)"
    using assms(1) by (cases "truthy (invoice r)") (simp_all add: isExpiredManualInvoiceRetryEligible_def Let_def)
  have "decodeLightningInvoicePaymentHash ?n \<noteq> None"
    and "ok (validateLightningInvoiceForPayment net ?n (totalMsats r) None (now div 1000) True)"
    and "the (invoice_expiresAt (decodeLightningInvoiceMetadata ?n)) \<le> now div 1000"
    using assms(1) t by (simp_all add: isExpiredManualInvoiceRetryEligible_def Let_def) (auto split: if_splits)
  then show "\<exists>h. decodeLightningInvoicePaymentHash (the (invoice r)) = Some h"
    "\<exists>t. invoice_expiresAt (decodeLightningInvoiceMetadata (the (invoice r))) = Some t \<and> t \<le> now div 1000"
    using decoders_read_normal [OF assms(2)] by (auto simp: validation_ok)
qed

lemma retry_history_covers:
  assumes "list_ex (same_prior_invoice current) old = retained"
  defines "history \<equiv> if retained then distinct_prior_invoices [] old else distinct_prior_invoices [] old @ [current]"
  shows "\<forall>p \<in> set old. \<exists>q \<in> set history. same_prior_invoice p q"
    "\<exists>q \<in> set history. same_prior_invoice current q"
    "set history \<subseteq> set old \<union> {current}"
proof -
  have old: "\<exists>q \<in> set (distinct_prior_invoices [] old). same_prior_invoice p q" if "p \<in> set old" for p
    using distinct_prior_covers [OF that, of "[]"] by simp
  then show "\<forall>p \<in> set old. \<exists>q \<in> set history. same_prior_invoice p q" by (auto simp: history_def)
  show "\<exists>q \<in> set history. same_prior_invoice current q"
  proof (cases retained)
    case True
    then obtain p where "p \<in> set old" "same_prior_invoice current p" using assms(1) by (auto simp: list_ex_iff)
    with old [of p] True show ?thesis using same_prior_invoice_equiv(3) by (auto simp: history_def)
  qed (simp add: history_def same_prior_invoice_equiv(1))
  show "set history \<subseteq> set old \<union> {current}" using distinct_prior_subset [of "[]" old] by (auto simp: history_def)
qed

text \<open>Retrying an expired invoice loses no evidence.  When the retry is granted, the stored history
  covers every entry of the old history and the replaced invoice with its payment hash and expiry, it
  holds nothing else, and it grows to at most 32 entries; the replaced invoice's expiry has passed, and
  no payment attempt is recorded for the order.  The stored invoice is not wrapped in a second
  \<open>lightning:\<close> scheme.\<close>

theorem expired_retry_retains_evidence:
  assumes call: "claimExpiredOrderInvoiceForRetry net lc uuid input expected revision go now d = Inr (res, e)"
    and claimed: "op_status res = Claimed"
    and row: "getOrderLifecycle (in_orderId input) d = Some r"
    and plain: "normalizeLightningInvoice (normalizeLightningInvoice (the (invoice r)))
      = normalizeLightningInvoice (the (invoice r))"
  shows "getPaymentAttempt (in_orderId input) d = None
    \<and> (\<exists>r' history current. getOrderLifecycle (in_orderId input) e = Some r'
         \<and> priorExpiredManualInvoices r' = Some history
         \<and> prior_invoice current = normalizeLightningInvoice (the (invoice r))
         \<and> decodeLightningInvoicePaymentHash (the (invoice r)) = Some (prior_paymentHash current)
         \<and> invoice_expiresAt (decodeLightningInvoiceMetadata (the (invoice r))) = Some (prior_expiresAt current)
         \<and> prior_expiresAt current \<le> now div 1000
         \<and> (\<forall>p \<in> set (or_else (priorExpiredManualInvoices r) []). \<exists>q \<in> set history. same_prior_invoice p q)
         \<and> (\<exists>q \<in> set history. same_prior_invoice current q)
         \<and> set history \<subseteq> set (or_else (priorExpiredManualInvoices r) []) \<union> {current}
         \<and> length history \<le> max (length (or_else (priorExpiredManualInvoices r) [])) 32)"
proof -
  let ?old = "or_else (priorExpiredManualInvoices r) []"
  let ?current = "current_prior_invoice net r now"
  let ?retained = "list_ex (same_prior_invoice ?current) ?old"
  let ?history = "if ?retained then distinct_prior_invoices [] ?old else distinct_prior_invoices [] ?old @ [?current]"
  let ?claimed = "buildClaimedOrderLifecycle uuid r input (max now (updatedAt r + 1)) [Set_priorExpiredManualInvoices (Some ?history)]"
  from call claimed row have eligible: "isExpiredManualInvoiceRetryEligible net r (normalizeLightningInvoice expected) now"
    and match: "paymentClaimMatchesLifecycle lc r input"
    and attempt: "getPaymentAttempt (in_orderId input) d = None"
    and room: "?retained \<or> length (distinct_prior_invoices [] ?old) < 32"
    and e: "e = putOrderLifecycle ?claimed d"
    by (auto simp: claimExpiredOrderInvoiceForRetry_def answer_defs op_result_def Let_def
        MAX_PRIOR_EXPIRED_MANUAL_INVOICES_def split: if_splits)
  have stored: "getOrderLifecycle (in_orderId input) e = Some ?claimed" "priorExpiredManualInvoices ?claimed = Some ?history"
    using matching_identity(1) [OF match] by (simp_all add: e store_simps claimed_fields claimed_history)
  have current: "prior_invoice ?current = normalizeLightningInvoice (the (invoice r))"
    "decodeLightningInvoicePaymentHash (the (invoice r)) = Some (prior_paymentHash ?current)"
    "invoice_expiresAt (decodeLightningInvoiceMetadata (the (invoice r))) = Some (prior_expiresAt ?current)"
    "prior_expiresAt ?current \<le> now div 1000"
    using eligible_facts [OF eligible plain] by (auto simp: current_prior_invoice_def Let_def)
  have "length ?history \<le> max (length ?old) 32"
    using room distinct_prior_length [of "[]" ?old] by auto
  with stored current attempt retry_history_covers [of ?current ?old ?retained, OF refl] show ?thesis by blast
qed

definition sample_expired :: OrderLifecycle where
  "sample_expired = sample_order
     \<lparr>invoice := Some sample_invoice, invoiceStatus := InvoiceManualRequired,
      paymentStatus := PaymentManualRequired\<rparr>"

lemma sample_expired_eligible:
  "isExpiredManualInvoiceRetryEligible ''mainnet'' sample_expired (normalizeLightningInvoice sample_invoice) 3600000"
proof -
  have f: "invoice sample_expired = Some sample_invoice" "totalMsats sample_expired = 1000000"
    by (simp_all add: sample_expired_def sample_order_def)
  have v: "ok (validateLightningInvoiceForPayment ''mainnet'' sample_invoice 1000000 None 3600 True)"
    by (simp add: validation_ok isInvoiceCompatibleWithCurrentNetwork_def getExpectedLightningNetworks_def
        sample_network sample_amount sample_expiry)
  have "sample_invoice \<noteq> []" unfolding sample_text by simp
  with v show ?thesis
    unfolding isExpiredManualInvoiceRetryEligible_def Let_def f
    by (simp add: sample_normal sample_expiry sample_hash) (simp add: sample_expired_def sample_order_def)
qed

lemma sample_retry:
  "\<exists>res e. claimExpiredOrderInvoiceForRetry ''mainnet'' (\<lambda>_ _. 0) ''u'' (sample_claim ''c'') sample_invoice None True
       3600000 (sample_database sample_expired) = Inr (res, e) \<and> op_status res = Claimed"
proof -
  have row: "getOrderLifecycle (in_orderId (sample_claim ''c'')) (sample_database sample_expired) = Some sample_expired"
    by (simp add: sample_claim_def sample_expired_def sample_order_def)
  have match: "paymentClaimMatchesLifecycle (\<lambda>_ _. 0) sample_expired (sample_claim ''c'')"
    by (simp add: paymentClaimMatchesLifecycle_def paymentClaimIdentityMatchesLifecycle_def
        checkoutModesMatchForPayment_def effective_signer_def sample_expired_def sample_order_def sample_claim_def Let_def)
  have history: "or_else (priorExpiredManualInvoices sample_expired) [] = []"
    by (simp add: sample_expired_def sample_order_def)
  have id: "js_trim (in_paymentClaimId (sample_claim ''c'')) \<noteq> []" "in_paymentTarget (sample_claim ''c'') = ManualTarget"
    by (simp_all add: sample_claim_def js_trim_def is_js_space_def char_code_def)
  show ?thesis
    using id
    by (simp add: claimExpiredOrderInvoiceForRetry_def row match sample_expired_eligible history Let_def
        MAX_PRIOR_EXPIRED_MANUAL_INVOICES_def store_claim_def op_result_def del: get_sample_database(1))
qed

theorem expired_retry_retains_evidence_witness:
  "\<exists>res e r' history. claimExpiredOrderInvoiceForRetry ''mainnet'' (\<lambda>_ _. 0) ''u'' (sample_claim ''c'') sample_invoice None
       True 3600000 (sample_database sample_expired) = Inr (res, e)
     \<and> getOrderLifecycle (in_orderId (sample_claim ''c'')) e = Some r'
     \<and> priorExpiredManualInvoices r' = Some history \<and> length history \<le> 32"
proof -
  obtain res e where call: "claimExpiredOrderInvoiceForRetry ''mainnet'' (\<lambda>_ _. 0) ''u'' (sample_claim ''c'')
      sample_invoice None True 3600000 (sample_database sample_expired) = Inr (res, e)" "op_status res = Claimed"
    using sample_retry by blast
  have row: "getOrderLifecycle (in_orderId (sample_claim ''c'')) (sample_database sample_expired) = Some sample_expired"
    by (simp add: sample_claim_def sample_expired_def sample_order_def)
  have plain: "normalizeLightningInvoice (normalizeLightningInvoice (the (invoice sample_expired)))
      = normalizeLightningInvoice (the (invoice sample_expired))"
    by (simp add: sample_expired_def sample_normal)
  have "or_else (priorExpiredManualInvoices sample_expired) [] = []"
    by (simp add: sample_expired_def sample_order_def)
  with call expired_retry_retains_evidence [OF call row plain] show ?thesis by auto
qed

end
