(* ===== verification/Order_Messages.thy ===== *)
theory Order_Messages
  imports Js_Prelude
begin

text \<open>
  The decrypted order messages of \<open>orders.ts\<close>, with the message schemas of \<open>schemas/index.ts\<close>
  that the order projections read: the fields of a message, its typed payload, and the tests for
  payment evidence.  Amounts that the code only passes on are \<open>js_number\<close>.  Payload parts no
  projection reads (order lines, market receipts) are not in the model.
\<close>

subsection \<open>Order statuses\<close>

definition KNOWN_ORDER_STATUSES :: "js_string list" where
  "KNOWN_ORDER_STATUSES =
     [''pending'', ''invoiced'', ''paid'', ''accepted'', ''processing'', ''shipped'',
      ''complete'', ''delivered'', ''cancelled'', ''refund_requested'']"

definition isKnownOrderStatus :: "js_string \<Rightarrow> bool" where
  "isKnownOrderStatus s \<longleftrightarrow> s \<in> set KNOWN_ORDER_STATUSES"

subsection \<open>Payloads\<close>

record OrderSchema =
  order_payload_id :: js_string
  order_buyer :: js_string
  order_merchant :: js_string
  order_buyerIdentityKind :: "js_string option"
  order_subtotal :: js_number
  order_currency :: js_string
  order_shippingCostSats :: "js_number option"
  order_shippingCostStatus :: "js_string option"
  order_note :: "js_string option"

record PaymentRequest =
  request_invoice :: js_string
  request_amount :: "js_number option"
  request_currency :: "js_string option"

record StatusUpdate =
  update_status :: js_string
  update_reopens :: "js_string option"

record ShippingUpdate =
  carrier :: "js_string option"
  trackingNumber :: "js_string option"
  trackingUrl :: "js_string option"

record PaymentProof =
  proof_action :: "js_string option"
  proof_source :: "js_string option"
  proof_amount :: "js_number option"
  proof_currency :: "js_string option"
  proof_invoice :: "js_string option"
  proof_preimage :: "js_string option"
  proof_zapRequestId :: "js_string option"
  proof_zapReceiptId :: "js_string option"
  proof_verification_state :: "js_string option"

text \<open>The message variants; an order carries its private payment route hint.\<close>

datatype MessagePayload =
    OrderMsg OrderSchema "js_string option"
  | PaymentRequestMsg PaymentRequest
  | StatusUpdateMsg StatusUpdate
  | ShippingUpdateMsg ShippingUpdate
  | ReceiptMsg
  | ConversationMsg
  | PaymentProofMsg PaymentProof
  | FutureMarketReadyMsg
  | FutureMarketRevokedMsg
  | FutureMarketHandedOutMsg

record ParsedOrderMessage =
  message_id :: js_string
  message_orderId :: js_string
  message_createdAt :: int
  senderPubkey :: js_string
  recipientPubkey :: js_string
  payload :: MessagePayload

fun is_order :: "MessagePayload \<Rightarrow> bool" where
  "is_order (OrderMsg _ _) = True"
| "is_order _ = False"

fun payment_request_of :: "MessagePayload \<Rightarrow> PaymentRequest option" where
  "payment_request_of (PaymentRequestMsg r) = Some r"
| "payment_request_of _ = None"

fun status_update_of :: "MessagePayload \<Rightarrow> StatusUpdate option" where
  "status_update_of (StatusUpdateMsg u) = Some u"
| "status_update_of _ = None"

fun shipping_update_of :: "MessagePayload \<Rightarrow> ShippingUpdate option" where
  "shipping_update_of (ShippingUpdateMsg u) = Some u"
| "shipping_update_of _ = None"

fun payment_proof_of :: "MessagePayload \<Rightarrow> PaymentProof option" where
  "payment_proof_of (PaymentProofMsg p) = Some p"
| "payment_proof_of _ = None"

subsection \<open>Payment evidence\<close>

definition hasText :: "js_string option \<Rightarrow> bool" where
  "hasText value \<longleftrightarrow> (case value of None \<Rightarrow> False | Some s \<Rightarrow> js_trim s \<noteq> [])"

definition rejected_proof :: "PaymentProof \<Rightarrow> bool" where
  "rejected_proof p \<longleftrightarrow>
     proof_verification_state p = Some ''verification_failed''
     \<or> proof_verification_state p = Some ''disputed''"

definition hasPaymentProofEvidence :: "PaymentProof \<Rightarrow> bool" where
  "hasPaymentProofEvidence p \<longleftrightarrow>
     (if rejected_proof p then False
      else if hasText (proof_invoice p) \<and> hasText (proof_preimage p) then True
      else hasText (proof_zapRequestId p) \<and> hasText (proof_zapReceiptId p))"

definition isPaymentProofEvidenceMessage :: "ParsedOrderMessage \<Rightarrow> bool" where
  "isPaymentProofEvidenceMessage m \<longleftrightarrow>
     (case payment_proof_of (payload m) of None \<Rightarrow> False | Some p \<Rightarrow> hasPaymentProofEvidence p)"

definition isExternalPaymentReport :: "ParsedOrderMessage \<Rightarrow> bool" where
  "isExternalPaymentReport m \<longleftrightarrow>
     (case payment_proof_of (payload m) of
        None \<Rightarrow> False
      | Some p \<Rightarrow>
          if rejected_proof p then False
          else truthy (proof_invoice p)
            \<and> (proof_action p = Some ''external_invoice'' \<or> proof_source p = Some ''external''))"

end
