(* ===== verification/Order_Status.thy ===== *)
theory Order_Status
  imports Order_Messages "HOL-Library.Multiset"
begin

text \<open>
  The flow-aware order status model of \<open>order-status.ts\<close>: the projection of the merchant's status
  messages to one effective status (with cancellations and their corrections), the gates derived
  from it, the status timeline and the merchant's next actions.  \<open>localeCompare\<close> is the
  parameter \<open>lc\<close>.  Optional booleans that the code only tests for truth are \<open>bool\<close>.
\<close>

subsection \<open>Vocabulary\<close>

definition ACCEPTED_STATUSES :: "js_string list" where
  "ACCEPTED_STATUSES = [''accepted'', ''processing'', ''shipped'', ''complete'', ''delivered'']"

definition SHIPPED_STATUSES :: "js_string list" where
  "SHIPPED_STATUSES = [''shipped'', ''complete'', ''delivered'']"

definition DELIVERED_STATUSES :: "js_string list" where
  "DELIVERED_STATUSES = [''delivered'', ''complete'']"

definition PAID_STATUSES :: "js_string list" where
  "PAID_STATUSES = [''paid'', ''shipped'', ''complete'', ''delivered'']"

definition TERMINAL_ACTION_STATUSES :: "js_string list" where
  "TERMINAL_ACTION_STATUSES = [''cancelled'', ''complete'', ''delivered'', ''refund_requested'']"

record MerchantOrderCancellation =
  eventId :: js_string
  resumeStatus :: js_string

record EffectiveMerchantOrderStatus =
  eff_status :: "js_string option"
  eff_knownStatus :: "js_string option"
  eff_cancellation :: "MerchantOrderCancellation option"
  reopenedCancellationId :: "js_string option"

record MerchantOrderParticipants =
  part_buyer :: js_string
  part_merchant :: js_string

definition normalizeStatus :: "js_string option \<Rightarrow> js_string" where
  "normalizeStatus status = toLowerCase (or_else status ''pending'')"

definition knownOrderStatus :: "js_string option \<Rightarrow> js_string option" where
  "knownOrderStatus status =
     (if status = None then None
      else let normalized = normalizeStatus status
           in if isKnownOrderStatus normalized then Some normalized else None)"

definition safeOperationalStatus :: "js_string option \<Rightarrow> js_string option" where
  "safeOperationalStatus status =
     (if status = None then None
      else let normalized = normalizeStatus status
           in if \<not> isKnownOrderStatus normalized then None
              else if normalized \<in> set TERMINAL_ACTION_STATUSES then None
              else Some normalized)"

definition hasMerchantOrder :: "ParsedOrderMessage list \<Rightarrow> MerchantOrderParticipants \<Rightarrow> bool" where
  "hasMerchantOrder messages participants \<longleftrightarrow>
     list_ex (\<lambda>m. is_order (payload m) \<and> senderPubkey m = part_buyer participants
       \<and> recipientPubkey m = part_merchant participants) messages"

subsection \<open>The trusted status messages, in causal order\<close>

record MerchantStatusMessage =
  status_id :: js_string
  status_createdAt :: int
  status_payload :: StatusUpdate

fun merchant_status_message ::
    "MerchantOrderParticipants \<Rightarrow> ParsedOrderMessage \<Rightarrow> MerchantStatusMessage option" where
  "merchant_status_message participants m =
     (case status_update_of (payload m) of
        None \<Rightarrow> None
      | Some u \<Rightarrow>
          if senderPubkey m \<noteq> part_merchant participants
             \<or> recipientPubkey m \<noteq> part_buyer participants then None
          else Some \<lparr>status_id = message_id m, status_createdAt = message_createdAt m,
                     status_payload = u\<rparr>)"

text \<open>The first message of every id.\<close>

fun unique_statuses ::
    "MerchantStatusMessage list \<Rightarrow> js_string set \<Rightarrow> MerchantStatusMessage list" where
  "unique_statuses [] seen = []"
| "unique_statuses (m # ms) seen =
     (if status_id m \<in> seen then unique_statuses ms seen
      else m # unique_statuses ms (insert (status_id m) seen))"

definition status_order ::
    "(js_string \<Rightarrow> js_string \<Rightarrow> int) \<Rightarrow> MerchantStatusMessage \<Rightarrow> MerchantStatusMessage \<Rightarrow> int" where
  "status_order lc left right =
     (if status_createdAt left - status_createdAt right \<noteq> 0
      then status_createdAt left - status_createdAt right
      else lc (status_id left) (status_id right))"

definition ordered_statuses ::
    "(js_string \<Rightarrow> js_string \<Rightarrow> int) \<Rightarrow> ParsedOrderMessage list \<Rightarrow> MerchantOrderParticipants \<Rightarrow>
     MerchantStatusMessage list" where
  "ordered_statuses lc messages participants =
     js_sort (status_order lc)
       (unique_statuses (List.map_filter (merchant_status_message participants) messages) {})"

text \<open>\<open>indexById\<close>: the last index of an id.\<close>

definition index_by_id :: "MerchantStatusMessage list \<Rightarrow> js_string \<Rightarrow> nat option" where
  "index_by_id ordered i =
     (let ks = filter (\<lambda>k. status_id (ordered ! k) = i) [0..<length ordered]
      in if ks = [] then None else Some (last ks))"

text \<open>A correction that sorts before the cancellation it refers to waits for it.\<close>

definition is_deferred :: "MerchantStatusMessage list \<Rightarrow> nat \<Rightarrow> bool" where
  "is_deferred ordered index \<longleftrightarrow>
     (let message = ordered ! index;
          cancellationId = update_reopens (status_payload message)
      in truthy cancellationId
         \<and> (case index_by_id ordered (the cancellationId) of
              None \<Rightarrow> False
            | Some cancellationIndex \<Rightarrow>
                cancellationIndex > index
                \<and> safeOperationalStatus (Some (update_status (status_payload message))) \<noteq> None
                \<and> normalizeStatus (Some (update_status (status_payload (ordered ! cancellationIndex))))
                    = ''cancelled''))"

definition deferred_bucket ::
    "MerchantStatusMessage list \<Rightarrow> js_string \<Rightarrow> MerchantStatusMessage list" where
  "deferred_bucket ordered cancellationId =
     map (\<lambda>k. ordered ! k)
       (filter (\<lambda>k. is_deferred ordered k
          \<and> update_reopens (status_payload (ordered ! k)) = Some cancellationId)
         [0..<length ordered])"

definition causal_order :: "MerchantStatusMessage list \<Rightarrow> MerchantStatusMessage list" where
  "causal_order ordered =
     (let deferredIds = map (\<lambda>k. status_id (ordered ! k)) (filter (is_deferred ordered) [0..<length ordered])
      in if deferredIds = [] then ordered
         else concat (map (\<lambda>m. if status_id m \<in> set deferredIds then []
                               else m # deferred_bucket ordered (status_id m)) ordered))"

definition merchantStatusMessages ::
    "(js_string \<Rightarrow> js_string \<Rightarrow> int) \<Rightarrow> ParsedOrderMessage list \<Rightarrow> MerchantOrderParticipants \<Rightarrow>
     MerchantStatusMessage list" where
  "merchantStatusMessages lc messages participants =
     causal_order (ordered_statuses lc messages participants)"

subsection \<open>The effective status\<close>

text \<open>One turn of the projection loop; the accumulator is the result record.\<close>

definition project_status ::
    "MerchantStatusMessage \<Rightarrow> EffectiveMerchantOrderStatus \<Rightarrow> EffectiveMerchantOrderStatus" where
  "project_status message s =
     (let messageStatus = update_status (status_payload message);
          reopens = update_reopens (status_payload message);
          nextStatus = normalizeStatus (Some messageStatus)
      in case eff_cancellation s of
           Some c \<Rightarrow>
             (case (if reopens = Some (eventId c) then safeOperationalStatus (Some messageStatus) else None) of
                Some correctedStatus \<Rightarrow>
                  s\<lparr>eff_status := Some correctedStatus, eff_knownStatus := Some correctedStatus,
                    reopenedCancellationId := Some (eventId c), eff_cancellation := None\<rparr>
              | None \<Rightarrow>
                  if \<not> truthy reopens \<and> nextStatus = ''cancelled''
                  then s\<lparr>eff_cancellation := Some (c\<lparr>eventId := status_id message\<rparr>)\<rparr>
                  else if \<not> truthy reopens \<and> nextStatus \<in> set TERMINAL_ACTION_STATUSES
                  then s\<lparr>eff_status := Some nextStatus, eff_knownStatus := knownOrderStatus (Some nextStatus),
                         eff_cancellation := None\<rparr>
                  else s)
         | None \<Rightarrow>
             if truthy reopens then s
             else if normalizeStatus (eff_status s) \<in> set TERMINAL_ACTION_STATUSES
                  \<and> nextStatus \<notin> set TERMINAL_ACTION_STATUSES then s
             else if nextStatus = ''cancelled''
             then s\<lparr>eff_status := Some ''cancelled'', eff_knownStatus := Some ''cancelled'',
                    reopenedCancellationId := None,
                    eff_cancellation :=
                      map_option (\<lambda>r. \<lparr>eventId = status_id message, resumeStatus = r\<rparr>)
                        (safeOperationalStatus (eff_knownStatus s))\<rparr>
             else s\<lparr>eff_status := Some (if isKnownOrderStatus nextStatus then nextStatus else messageStatus),
                    eff_knownStatus := (if isKnownOrderStatus nextStatus then Some nextStatus
                                        else eff_knownStatus s)\<rparr>)"

definition initial_projection ::
    "ParsedOrderMessage list \<Rightarrow> MerchantOrderParticipants \<Rightarrow> js_string option \<Rightarrow>
     EffectiveMerchantOrderStatus" where
  "initial_projection messages participants fallbackStatus =
     (let status = (if hasMerchantOrder messages participants then Some ''pending'' else fallbackStatus)
      in \<lparr>eff_status = status, eff_knownStatus = knownOrderStatus status,
          eff_cancellation = None, reopenedCancellationId = None\<rparr>)"

definition getEffectiveMerchantOrderStatus ::
    "(js_string \<Rightarrow> js_string \<Rightarrow> int) \<Rightarrow> ParsedOrderMessage list \<Rightarrow> MerchantOrderParticipants \<Rightarrow>
     js_string option \<Rightarrow> EffectiveMerchantOrderStatus" where
  "getEffectiveMerchantOrderStatus lc messages participants fallbackStatus =
     (let statuses = merchantStatusMessages lc messages participants
      in if statuses = []
         then \<lparr>eff_status = fallbackStatus, eff_knownStatus = knownOrderStatus fallbackStatus,
               eff_cancellation = None, reopenedCancellationId = None\<rparr>
         else let s = fold project_status statuses (initial_projection messages participants fallbackStatus)
              in s\<lparr>eff_cancellation := (if eff_status s = Some ''cancelled'' then eff_cancellation s else None)\<rparr>)"

subsection \<open>The merchant-facing state\<close>

datatype FulfillmentMode = ModeShipping | ModePickup | ModeDigital | ModeUnknown

datatype BuyerReplyable = Replyable | NotReplyable | ReplyUnknown | ReplyUnset

record MerchantOrderState =
  order_status :: "js_string option"
  cancellation :: "MerchantOrderCancellation option"
  paid :: bool
  paymentObserved :: bool
  paymentReported :: bool
  accepted :: bool
  invoiceSent :: bool
  checkoutSparkRouted :: bool
  shippingUpdated :: bool
  requiresShipping :: "bool option"
  fulfillmentMode :: "FulfillmentMode option"
  isZeroCostPickup :: bool
  buyerReplyable :: BuyerReplyable

text \<open>A bare status, as \<open>toState\<close> wraps it.\<close>

definition toState :: "js_string option \<Rightarrow> MerchantOrderState" where
  "toState status =
     \<lparr>order_status = status, cancellation = None, paid = False, paymentObserved = False,
      paymentReported = False, accepted = False, invoiceSent = False, checkoutSparkRouted = False,
      shippingUpdated = False, requiresShipping = None, fulfillmentMode = None,
      isZeroCostPickup = False, buyerReplyable = ReplyUnset\<rparr>"

record MerchantOrderReopenTransition =
  transition_tags :: "js_string list list"
  transition_payload :: StatusUpdate

definition getMerchantOrderReopenTransition ::
    "MerchantOrderState \<Rightarrow> MerchantOrderReopenTransition option" where
  "getMerchantOrderReopenTransition state =
     (case cancellation state of
        None \<Rightarrow> None
      | Some c \<Rightarrow>
          if normalizeStatus (order_status state) \<noteq> ''cancelled'' then None
          else Some
            \<lparr>transition_tags = [[''status'', resumeStatus c], [''reopens'', eventId c]],
             transition_payload = \<lparr>update_status = resumeStatus c, update_reopens = Some (eventId c)\<rparr>\<rparr>)"

definition getMerchantOrderFulfillmentMode :: "MerchantOrderState \<Rightarrow> FulfillmentMode" where
  "getMerchantOrderFulfillmentMode state =
     (case fulfillmentMode state of
        Some mode \<Rightarrow> mode
      | None \<Rightarrow> if requiresShipping state = Some False then ModeDigital else ModeUnknown)"

definition isMerchantOrderPaid :: "MerchantOrderState \<Rightarrow> bool" where
  "isMerchantOrderPaid state \<longleftrightarrow>
     (if checkoutSparkRouted state then paid state
      else paid state \<or> shippingUpdated state
        \<or> normalizeStatus (order_status state) \<in> set PAID_STATUSES)"

definition isAuthorizedZeroCostPickup :: "MerchantOrderState \<Rightarrow> bool" where
  "isAuthorizedZeroCostPickup state \<longleftrightarrow>
     isZeroCostPickup state \<and> fulfillmentMode state = Some ModePickup
     \<and> requiresShipping state \<noteq> Some True"

definition isMerchantOrderAccepted :: "MerchantOrderState \<Rightarrow> bool" where
  "isMerchantOrderAccepted state \<longleftrightarrow>
     isMerchantOrderPaid state \<or> accepted state
     \<or> normalizeStatus (order_status state) \<in> set ACCEPTED_STATUSES"

datatype OrderFlow = Prepaid | InvoiceFlow

definition deriveOrderFlow :: "MerchantOrderState \<Rightarrow> OrderFlow" where
  "deriveOrderFlow state =
     (if (isMerchantOrderPaid state \<or> paymentObserved state \<or> checkoutSparkRouted state)
         \<and> \<not> invoiceSent state
      then Prepaid else InvoiceFlow)"

definition PREPAID_CHECKOUT_MODES :: "js_string list" where
  "PREPAID_CHECKOUT_MODES = [''anonymous_public_zap'', ''public_zap_as_shopper'', ''public_zap'']"

definition orderFlowFromCheckoutMode :: "js_string option \<Rightarrow> OrderFlow" where
  "orderFlowFromCheckoutMode mode =
     (case mode of
        None \<Rightarrow> InvoiceFlow
      | Some m \<Rightarrow> if m \<noteq> [] \<and> m \<in> set PREPAID_CHECKOUT_MODES then Prepaid else InvoiceFlow)"

subsection \<open>Display\<close>

datatype OrderStatusTone = ToneSuccess | ToneInfo | ToneWarning | ToneError | ToneNeutral

definition ORDER_STATUS_DISPLAYS :: "(js_string \<times> OrderStatusTone \<times> js_string) list" where
  "ORDER_STATUS_DISPLAYS =
     [(''pending'', ToneWarning, ''Pending''),
      (''invoiced'', ToneInfo, ''Invoiced''),
      (''paid'', ToneInfo, ''Paid''),
      (''accepted'', ToneInfo, ''Accepted''),
      (''processing'', ToneInfo, ''Processing''),
      (''shipped'', ToneInfo, ''Shipped''),
      (''complete'', ToneSuccess, ''Complete''),
      (''delivered'', ToneSuccess, ''Delivered''),
      (''cancelled'', ToneNeutral, ''Cancelled''),
      (''refund_requested'', ToneWarning, ''Refund requested'')]"

definition is_word_char :: "char \<Rightarrow> bool" where
  "is_word_char c \<longleftrightarrow> is_lower_alpha c \<or> is_upper_alpha c \<or> is_digit c \<or> c = CHR ''_''"

text \<open>The replacement \<open>/[_-]+/g\<close> by a blank.\<close>

fun blank_separators :: "bool \<Rightarrow> js_string \<Rightarrow> js_string" where
  "blank_separators inRun [] = []"
| "blank_separators inRun (c # cs) =
     (if c = CHR ''_'' \<or> c = CHR ''-''
      then (if inRun then blank_separators True cs else CHR '' '' # blank_separators True cs)
      else c # blank_separators False cs)"

text \<open>The replacement \<open>/\b\w/g\<close> by the upper-case letter.\<close>

fun capitalize_words :: "bool \<Rightarrow> js_string \<Rightarrow> js_string" where
  "capitalize_words afterWord [] = []"
| "capitalize_words afterWord (c # cs) =
     (if is_word_char c \<and> \<not> afterWord \<and> is_lower_alpha c then char_of (char_code c - 32) else c)
       # capitalize_words (is_word_char c) cs"

definition titleCase :: "js_string \<Rightarrow> js_string" where
  "titleCase value =
     (let s = capitalize_words False (js_trim (blank_separators False value))
      in if s = [] then ''Unknown'' else s)"

definition getOrderStatusDisplay :: "js_string option \<Rightarrow> OrderStatusTone \<times> js_string" where
  "getOrderStatusDisplay status =
     (case map_of ORDER_STATUS_DISPLAYS (normalizeStatus status) of
        Some display \<Rightarrow> display
      | None \<Rightarrow> (ToneNeutral, titleCase (or_else status [])))"

subsection \<open>The timeline\<close>

datatype OrderTimelineStepStatus = StepWaiting | StepInProgress | StepComplete | StepFailed | StepRetryNeeded

record OrderTimelineStep =
  step_key :: js_string
  step_title :: js_string
  step_subtitle :: js_string
  step_status :: OrderTimelineStepStatus
  step_label :: "js_string option"

type_synonym stage_text = "js_string \<times> js_string"

record StageSpec =
  stage_key :: js_string
  stage_done :: bool
  stage_complete :: stage_text
  stage_active :: stage_text
  stage_waiting :: stage_text

definition placed_stage :: StageSpec where
  "placed_stage =
     \<lparr>stage_key = ''placed'', stage_done = True,
      stage_complete = (''Order placed'', ''Order received from buyer.''),
      stage_active = (''Receiving order'', ''Wait for the buyer's order details.''),
      stage_waiting = (''Order'', ''The buyer's order will appear here.'')\<rparr>"

definition payment_active_text :: "MerchantOrderState \<Rightarrow> stage_text" where
  "payment_active_text state =
     (if isMerchantOrderPaid state \<or> paymentObserved state
      then (''Confirm payment'', ''Verify settlement before fulfilling the order.'')
      else if checkoutSparkRouted state \<and> \<not> invoiceSent state
      then (''Await checkout settlement'', ''Verify the routed payment when evidence arrives.'')
      else if deriveOrderFlow state = Prepaid
      then (''Await payment evidence'', ''Verify the checkout payment when evidence arrives.'')
      else if invoiceSent state
      then (''Await payment'', ''Confirm payment after the buyer pays the invoice.'')
      else (''Request payment'',
            if buyerReplyable state = NotReplyable
            then ''Contact the buyer outside Nostr to request payment.''
            else if buyerReplyable state = ReplyUnknown
            then ''Recover the buyer identity before requesting payment.''
            else ''Send an invoice to the buyer.''))"

definition payment_stage :: "MerchantOrderState \<Rightarrow> StageSpec" where
  "payment_stage state =
     \<lparr>stage_key = ''payment'',
      stage_done = (isMerchantOrderPaid state \<or> isAuthorizedZeroCostPickup state),
      stage_complete =
        (if isAuthorizedZeroCostPickup state
         then (''No payment required'', ''Verified zero-cost pickup order.'')
         else (''Payment confirmed'', ''Settlement confirmed by merchant.'')),
      stage_active = payment_active_text state,
      stage_waiting =
        (''Payment'',
         if deriveOrderFlow state = Prepaid
         then if checkoutSparkRouted state \<and> \<not> invoiceSent state
              then ''Verify the routed payment when evidence arrives.''
              else ''Verify payment evidence when it arrives.''
         else ''Accept the order before requesting payment.'')\<rparr>"

definition accepted_stage :: "MerchantOrderState \<Rightarrow> StageSpec" where
  "accepted_stage state =
     \<lparr>stage_key = ''accepted'', stage_done = isMerchantOrderAccepted state,
      stage_complete = (''Order accepted'', ''Merchant confirmed the order.''),
      stage_active =
        (''Review order'',
         if deriveOrderFlow state = Prepaid then ''Accept the order after payment is confirmed.''
         else ''Accept the order to request payment.''),
      stage_waiting =
        (''Order review'',
         if deriveOrderFlow state = Prepaid then ''Review the order after payment is verified.''
         else ''Review the order before requesting payment.'')\<rparr>"

definition shipped_stage :: "MerchantOrderState \<Rightarrow> StageSpec" where
  "shipped_stage state =
     \<lparr>stage_key = ''shipped'',
      stage_done =
        (shippingUpdated state \<or> normalizeStatus (order_status state) \<in> set SHIPPED_STATUSES),
      stage_complete =
        (''Shipped'',
         if shippingUpdated state then ''Tracking details recorded.'' else ''Order marked shipped.''),
      stage_active =
        (''Shipping in progress'', ''Add tracking details to mark this order shipped.''),
      stage_waiting = (''Shipping'', ''Add tracking after payment is confirmed.'')\<rparr>"

definition delivered_stage :: "MerchantOrderState \<Rightarrow> StageSpec" where
  "delivered_stage state =
     (let pickup = (getMerchantOrderFulfillmentMode state = ModePickup)
      in \<lparr>stage_key = ''delivered'',
          stage_done = (normalizeStatus (order_status state) \<in> set DELIVERED_STATUSES),
          stage_complete =
            (if pickup then (''Picked up'', ''Pickup completed.'')
             else (''Delivered'', ''Order completed.'')),
          stage_active =
            (if pickup
             then (''Complete pickup'', ''Mark the order complete after the buyer picks it up.'')
             else (''Confirm delivery'', ''Mark the order delivered when fulfillment is complete.'')),
          stage_waiting =
            (if pickup
             then (''Pickup'',
                   if isAuthorizedZeroCostPickup state
                   then ''Complete pickup after accepting the order.''
                   else ''Complete pickup after payment is confirmed.'')
             else (''Delivery'',
                   if getMerchantOrderFulfillmentMode state = ModeDigital
                      \<or> requiresShipping state = Some False
                   then ''Confirm delivery after fulfilling the digital order.''
                   else ''Confirm delivery after shipment.''))\<rparr>)"

definition timeline_stages :: "MerchantOrderState \<Rightarrow> StageSpec list" where
  "timeline_stages state =
     (let paid = isMerchantOrderPaid state;
          observed = paid \<or> paymentObserved state;
          mode = getMerchantOrderFulfillmentMode state;
          fulfillmentStages =
            (if mode = ModePickup \<or> mode = ModeDigital \<or> requiresShipping state = Some False
             then [] else [shipped_stage state]);
          paymentFirst =
            [placed_stage, payment_stage state, accepted_stage state] @ fulfillmentStages
              @ [delivered_stage state]
      in if isAuthorizedZeroCostPickup state then paymentFirst
         else if observed \<and> \<not> paid then paymentFirst
         else if deriveOrderFlow state = Prepaid then paymentFirst
         else [placed_stage, accepted_stage state, payment_stage state] @ fulfillmentStages
              @ [delivered_stage state])"

definition stopped_row :: "js_string \<Rightarrow> StageSpec \<Rightarrow> OrderTimelineStep" where
  "stopped_row stopped stage =
     (if stopped = ''cancelled''
      then \<lparr>step_key = stage_key stage, step_title = ''Order cancelled'',
            step_subtitle = ''No further order action is required.'',
            step_status = StepFailed, step_label = Some ''Cancelled''\<rparr>
      else \<lparr>step_key = stage_key stage, step_title = ''Refund requested'',
            step_subtitle = ''Coordinate the Lightning refund outside Conduit.'',
            step_status = StepRetryNeeded, step_label = Some ''Refund requested''\<rparr>)"

definition stage_row :: "StageSpec \<Rightarrow> stage_text \<Rightarrow> OrderTimelineStepStatus \<Rightarrow> OrderTimelineStep" where
  "stage_row stage txt st =
     \<lparr>step_key = stage_key stage, step_title = fst txt, step_subtitle = snd txt,
      step_status = st, step_label = None\<rparr>"

fun timeline_rows :: "js_string option \<Rightarrow> bool \<Rightarrow> StageSpec list \<Rightarrow> OrderTimelineStep list" where
  "timeline_rows stopped frontMarked [] = []"
| "timeline_rows stopped frontMarked (stage # stages) =
     (if stage_done stage
      then stage_row stage (stage_complete stage) StepComplete # timeline_rows stopped frontMarked stages
      else if \<not> frontMarked
      then (case stopped of
              Some s \<Rightarrow> [stopped_row s stage]
            | None \<Rightarrow> stage_row stage (stage_active stage) StepInProgress # timeline_rows stopped True stages)
      else stage_row stage (stage_waiting stage) StepWaiting # timeline_rows stopped frontMarked stages)"

definition buildOrderStatusTimeline :: "MerchantOrderState \<Rightarrow> OrderTimelineStep list" where
  "buildOrderStatusTimeline state =
     (let status = normalizeStatus (order_status state);
          stoppedStatus = (if status = ''cancelled'' \<or> status = ''refund_requested''
                           then Some status else None)
      in timeline_rows stoppedStatus False (timeline_stages state))"

subsection \<open>The merchant's next actions\<close>

datatype MerchantAction = Accept | ConfirmPayment | RecordShipment | Complete | Cancel | Reopen

record MerchantOrderAction =
  action :: MerchantAction
  action_status :: "js_string option"
  action_label :: js_string
  destructive :: bool

definition cancel_action :: "js_string \<Rightarrow> MerchantOrderAction" where
  "cancel_action text_label =
     \<lparr>action = Cancel, action_status = Some ''cancelled'', action_label = text_label, destructive = True\<rparr>"

definition primary_action :: "MerchantAction \<Rightarrow> js_string option \<Rightarrow> js_string \<Rightarrow> MerchantOrderAction" where
  "primary_action a st text_label =
     \<lparr>action = a, action_status = st, action_label = text_label, destructive = False\<rparr>"

definition getMerchantOrderActions :: "MerchantOrderState \<Rightarrow> MerchantOrderAction list" where
  "getMerchantOrderActions state =
     (let status = normalizeStatus (order_status state);
          pickedUp = primary_action Complete (Some ''complete'') ''Mark picked up / complete''
      in if \<not> isKnownOrderStatus status then []
         else if status = ''cancelled'' \<and> cancellation state \<noteq> None
         then [primary_action Reopen None ''Reopen order'']
         else if status \<in> set TERMINAL_ACTION_STATUSES then []
         else if isMerchantOrderPaid state
         then if fulfillmentMode state = Some ModePickup
              then [cancel_action ''Cancel order'', pickedUp]
              else if requiresShipping state = Some False
              then [cancel_action ''Cancel order'',
                    primary_action Complete (Some ''complete'') ''Confirm delivery'']
              else if shippingUpdated state \<or> status = ''shipped''
              then [primary_action Complete (Some ''complete'') ''Mark delivered'']
              else [cancel_action ''Cancel order'',
                    primary_action RecordShipment None ''Add shipping details'']
         else if isAuthorizedZeroCostPickup state \<and> isMerchantOrderAccepted state
         then [cancel_action ''Cancel order'', pickedUp]
         else if paymentObserved state
         then [cancel_action ''Cancel order'',
               primary_action ConfirmPayment (Some ''paid'') ''Confirm payment'']
         else if \<not> isMerchantOrderAccepted state
         then [cancel_action ''Decline order'',
               primary_action Accept (Some ''accepted'') ''Accept order'']
         else if status \<in> set SHIPPED_STATUSES then []
         else if invoiceSent state \<or> buyerReplyable state = NotReplyable
         then [cancel_action ''Cancel order'',
               primary_action ConfirmPayment (Some ''paid'') ''Confirm payment received'']
         else [cancel_action ''Cancel order''])"

subsection \<open>Lemmas on statuses\<close>

lemma known_lower: "isKnownOrderStatus s \<Longrightarrow> toLowerCase s = s"
proof -
  have "list_all (\<lambda>s. toLowerCase s = s) KNOWN_ORDER_STATUSES" by code_simp
  then show "isKnownOrderStatus s \<Longrightarrow> toLowerCase s = s"
    by (simp add: isKnownOrderStatus_def list_all_iff)
qed

lemma terminal_known: "s \<in> set TERMINAL_ACTION_STATUSES \<Longrightarrow> isKnownOrderStatus s"
proof -
  have "list_all isKnownOrderStatus TERMINAL_ACTION_STATUSES" by code_simp
  then show "s \<in> set TERMINAL_ACTION_STATUSES \<Longrightarrow> isKnownOrderStatus s"
    by (simp add: list_all_iff)
qed

lemma cancelled_terminal: "''cancelled'' \<in> set TERMINAL_ACTION_STATUSES"
  by (simp add: TERMINAL_ACTION_STATUSES_def)

lemma terminal_lower: "s \<in> set TERMINAL_ACTION_STATUSES \<Longrightarrow> toLowerCase s = s"
  by (rule known_lower [OF terminal_known])

lemma normalizeStatus_Some: "normalizeStatus (Some s) = toLowerCase s"
  by (simp add: normalizeStatus_def)

lemma safeOperational_Some:
  "safeOperationalStatus x = Some r \<longleftrightarrow>
     x \<noteq> None \<and> r = normalizeStatus x \<and> isKnownOrderStatus r \<and> r \<notin> set TERMINAL_ACTION_STATUSES"
  by (auto simp: safeOperationalStatus_def Let_def)

lemma safeOperational_fixed: "safeOperationalStatus x = Some r \<Longrightarrow> safeOperationalStatus (Some r) = Some r"
  by (auto simp: safeOperational_Some normalizeStatus_Some known_lower)

lemma safeOperational_cancelled:
  "normalizeStatus (Some s) = ''cancelled'' \<Longrightarrow> safeOperationalStatus (Some s) = None"
  using cancelled_terminal by (simp add: safeOperationalStatus_def Let_def)

subsection \<open>Lemmas on the causal order\<close>

lemma unique_statuses_ids:
  "set (map status_id (unique_statuses ms seen)) = status_id ` set ms - seen
   \<and> distinct (map status_id (unique_statuses ms seen))"
  by (induction ms arbitrary: seen) auto

lemma distinct_ordered: "distinct (map status_id (ordered_statuses lc messages p))"
  unfolding ordered_statuses_def distinct_js_sort using unique_statuses_ids by blast

lemma index_by_id_Some:
  assumes "index_by_id ordered i = Some k"
  shows "k < length ordered \<and> status_id (ordered ! k) = i"
proof -
  let ?ks = "filter (\<lambda>k. status_id (ordered ! k) = i) [0..<length ordered]"
  have "?ks \<noteq> [] \<and> k = last ?ks"
    using assms by (auto simp: index_by_id_def Let_def split: if_split_asm)
  then have "k \<in> set ?ks" using last_in_set by blast
  then show ?thesis by simp
qed

lemma is_deferred_reopens:
  assumes "is_deferred ordered k"
  obtains j where "update_reopens (status_payload (ordered ! k)) = Some (status_id (ordered ! j))"
    "k < j" "j < length ordered" "\<not> is_deferred ordered j"
    "safeOperationalStatus (Some (update_status (status_payload (ordered ! k)))) \<noteq> None"
    "normalizeStatus (Some (update_status (status_payload (ordered ! j)))) = ''cancelled''"
proof -
  let ?c = "update_reopens (status_payload (ordered ! k))"
  from assms obtain j where j: "truthy ?c" "index_by_id ordered (the ?c) = Some j" "j > k"
      "safeOperationalStatus (Some (update_status (status_payload (ordered ! k)))) \<noteq> None"
      "normalizeStatus (Some (update_status (status_payload (ordered ! j)))) = ''cancelled''"
    by (auto simp: is_deferred_def Let_def split: option.splits)
  moreover have "\<not> is_deferred ordered j"
    using safeOperational_cancelled [OF j(5)] by (auto simp: is_deferred_def Let_def split: option.splits)
  ultimately show thesis
    using that index_by_id_Some [OF j(2)] by (cases ?c) auto
qed

text \<open>The causal order by positions: every position that does not wait, followed by the
  positions that wait for it.\<close>

definition waiting_for :: "MerchantStatusMessage list \<Rightarrow> nat \<Rightarrow> nat list" where
  "waiting_for ordered i =
     filter (\<lambda>k. is_deferred ordered k
        \<and> update_reopens (status_payload (ordered ! k)) = Some (status_id (ordered ! i)))
       [0..<length ordered]"

definition causal_positions :: "MerchantStatusMessage list \<Rightarrow> nat list" where
  "causal_positions ordered =
     concat (map (\<lambda>i. i # waiting_for ordered i) (filter (\<lambda>i. \<not> is_deferred ordered i) [0..<length ordered]))"

lemma map_nth_filter: "map (\<lambda>i. f (xs ! i)) [0..<length xs] = map f xs"
  by (rule nth_equalityI) auto

lemma causal_order_positions:
  assumes "distinct (map status_id ordered)"
  shows "causal_order ordered = map (\<lambda>i. ordered ! i) (causal_positions ordered)"
proof -
  let ?D = "map (\<lambda>k. status_id (ordered ! k)) (filter (is_deferred ordered) [0..<length ordered])"
  have mem: "i < length ordered \<Longrightarrow> status_id (ordered ! i) \<in> set ?D \<longleftrightarrow> is_deferred ordered i" for i
    using assms by (auto simp: distinct_conv_nth)
  have "concat (map (\<lambda>m. if status_id m \<in> set ?D then [] else m # deferred_bucket ordered (status_id m)) ordered)
      = concat (map (\<lambda>i. if status_id (ordered ! i) \<in> set ?D then []
          else ordered ! i # deferred_bucket ordered (status_id (ordered ! i))) [0..<length ordered])"
    by (rule arg_cong [where f = concat], rule map_nth_filter [symmetric])
  also have "\<dots> = concat (map (\<lambda>i. if is_deferred ordered i then []
          else ordered ! i # deferred_bucket ordered (status_id (ordered ! i))) [0..<length ordered])"
    using mem by (intro arg_cong [where f = concat] map_cong) auto
  also have "\<dots> = map (\<lambda>i. ordered ! i) (causal_positions ordered)"
  proof -
    have "concat (map (\<lambda>i. if is_deferred ordered i then []
          else ordered ! i # deferred_bucket ordered (status_id (ordered ! i))) is)
        = map (\<lambda>i. ordered ! i) (concat (map (\<lambda>i. i # waiting_for ordered i) (filter (\<lambda>i. \<not> is_deferred ordered i) is)))"
      for "is"
      by (induction "is") (auto simp: deferred_bucket_def waiting_for_def)
    then show ?thesis by (simp add: causal_positions_def)
  qed
  finally have *: "concat (map (\<lambda>m. if status_id m \<in> set ?D then [] else m # deferred_bucket ordered (status_id m)) ordered)
      = map (\<lambda>i. ordered ! i) (causal_positions ordered)" .
  show ?thesis
  proof (cases "?D = []")
    case True
    then have none: "\<forall>i < length ordered. \<not> is_deferred ordered i" by (auto simp: filter_empty_conv)
    then have "concat (map (\<lambda>m. if status_id m \<in> set ?D then [] else m # deferred_bucket ordered (status_id m)) ordered) = ordered"
      unfolding True by (simp add: deferred_bucket_def)
    with * True show ?thesis by (simp add: causal_order_def Let_def)
  next
    case False
    then have "causal_order ordered = concat (map (\<lambda>m. if status_id m \<in> set ?D then [] else m # deferred_bucket ordered (status_id m)) ordered)"
      by (simp only: causal_order_def Let_def if_False)
    with * show ?thesis by (simp only:)
  qed
qed

lemma set_causal_positions:
  assumes "distinct (map status_id ordered)"
  shows "set (causal_positions ordered) = {0..<length ordered}"
proof (intro equalityI subsetI)
  fix k assume "k \<in> set (causal_positions ordered)"
  then show "k \<in> {0..<length ordered}" by (auto simp: causal_positions_def waiting_for_def)
next
  fix k assume k: "k \<in> {0..<length ordered}"
  show "k \<in> set (causal_positions ordered)"
  proof (cases "is_deferred ordered k")
    case True
    then obtain j where "update_reopens (status_payload (ordered ! k)) = Some (status_id (ordered ! j))"
        "j < length ordered" "\<not> is_deferred ordered j" by (rule is_deferred_reopens)
    with True k have "k \<in> set (waiting_for ordered j)" by (simp add: waiting_for_def)
    with \<open>j < length ordered\<close> \<open>\<not> is_deferred ordered j\<close> show ?thesis
      by (auto simp: causal_positions_def)
  next
    case False
    with k show ?thesis by (auto simp: causal_positions_def)
  qed
qed

lemma distinct_causal_positions:
  assumes "distinct (map status_id ordered)"
  shows "distinct (causal_positions ordered)"
proof -
  let ?f = "\<lambda>i. i # waiting_for ordered i"
  let ?is = "filter (\<lambda>i. \<not> is_deferred ordered i) [0..<length ordered]"
  have "distinct (map ?f ?is)" by (simp add: distinct_map inj_on_def)
  moreover have "\<forall>i \<in> set ?is. distinct (?f i)" by (auto simp: waiting_for_def)
  moreover have "\<forall>i \<in> set ?is. \<forall>j \<in> set ?is. ?f i \<noteq> ?f j \<longrightarrow> set (?f i) \<inter> set (?f j) = {}"
  proof (intro ballI impI)
    fix i j assume ij: "i \<in> set ?is" "j \<in> set ?is" "?f i \<noteq> ?f j"
    then have "i \<noteq> j" by auto
    with ij assms have "status_id (ordered ! i) \<noteq> status_id (ordered ! j)"
      by (auto simp: distinct_conv_nth)
    with ij \<open>i \<noteq> j\<close> show "set (?f i) \<inter> set (?f j) = {}"
      by (auto simp: waiting_for_def)
  qed
  ultimately show ?thesis unfolding causal_positions_def
    by (intro distinct_concat) (simp_all only: set_map, blast+)
qed

lemma mset_causal_order:
  assumes "distinct (map status_id ordered)"
  shows "mset (causal_order ordered) = mset ordered"
proof -
  have "mset (causal_positions ordered) = mset [0..<length ordered]"
    using set_causal_positions [OF assms] distinct_causal_positions [OF assms]
    by (intro set_eq_iff_mset_eq_distinct [THEN iffD1]) auto
  then have "mset (map (\<lambda>i. ordered ! i) (causal_positions ordered)) = mset (map (\<lambda>i. ordered ! i) [0..<length ordered])"
    by (simp only: mset_map)
  then show ?thesis by (simp only: causal_order_positions [OF assms] map_nth)
qed

lemma set_merchantStatusMessages:
  "set (merchantStatusMessages lc messages p) = set (ordered_statuses lc messages p)"
  unfolding merchantStatusMessages_def
  by (rule mset_eq_setD [OF mset_causal_order [OF distinct_ordered]])

subsection \<open>Lemmas on the projection loop\<close>

definition is_cancellation :: "MerchantStatusMessage \<Rightarrow> bool" where
  "is_cancellation m \<longleftrightarrow>
     \<not> truthy (update_reopens (status_payload m))
     \<and> normalizeStatus (Some (update_status (status_payload m))) = ''cancelled''"

definition corrects :: "js_string \<Rightarrow> MerchantStatusMessage \<Rightarrow> bool" where
  "corrects cancellationId m \<longleftrightarrow>
     update_reopens (status_payload m) = Some cancellationId
     \<and> safeOperationalStatus (Some (update_status (status_payload m))) \<noteq> None"

definition terminal_status :: "js_string option \<Rightarrow> bool" where
  "terminal_status st \<longleftrightarrow> normalizeStatus st \<in> set TERMINAL_ACTION_STATUSES"

text \<open>A held cancellation is one of the observed messages and remembers an active status.\<close>

definition cancellation_ok :: "MerchantStatusMessage set \<Rightarrow> EffectiveMerchantOrderStatus \<Rightarrow> bool" where
  "cancellation_ok M s \<longleftrightarrow>
     (case eff_cancellation s of
        None \<Rightarrow> True
      | Some c \<Rightarrow> eff_status s = Some ''cancelled''
          \<and> safeOperationalStatus (Some (resumeStatus c)) = Some (resumeStatus c)
          \<and> (\<exists>m \<in> M. status_id m = eventId c \<and> is_cancellation m))"

text \<open>Once a cancellation was observed, the status is terminal or an observed message corrected a
  cancellation.\<close>

definition correction_ok :: "MerchantStatusMessage set \<Rightarrow> EffectiveMerchantOrderStatus \<Rightarrow> bool" where
  "correction_ok M s \<longleftrightarrow>
     ((\<exists>m \<in> M. is_cancellation m) \<longrightarrow>
        terminal_status (eff_status s)
        \<or> (\<exists>x. reopenedCancellationId s = Some x \<and> (\<exists>m \<in> M. corrects x m)
               \<and> (\<exists>m \<in> M. status_id m = x \<and> is_cancellation m)))"

lemma terminal_Some: "s \<in> set TERMINAL_ACTION_STATUSES \<Longrightarrow> terminal_status (Some s)"
  by (simp add: terminal_status_def normalizeStatus_Some terminal_lower)

lemma cancellation_ok_step:
  assumes "cancellation_ok M s" "m \<in> M"
  shows "cancellation_ok M (project_status m s)"
proof (cases "eff_cancellation s")
  case None
  with assms show ?thesis
    using safeOperational_fixed
    by (auto simp: project_status_def cancellation_ok_def is_cancellation_def Let_def split: option.split)
next
  case (Some c)
  with assms show ?thesis
    by (auto simp: project_status_def cancellation_ok_def is_cancellation_def Let_def split: option.split)
qed

lemma cancellation_ok_fold:
  "cancellation_ok M s \<Longrightarrow> set ms \<subseteq> M \<Longrightarrow> cancellation_ok M (fold project_status ms s)"
  by (induction ms arbitrary: s) (auto intro: cancellation_ok_step)

lemma cancellation_ok_mono: "cancellation_ok M s \<Longrightarrow> M \<subseteq> N \<Longrightarrow> cancellation_ok N s"
  unfolding cancellation_ok_def by (auto split: option.splits)

lemma correction_ok_step:
  assumes "correction_ok M s" "cancellation_ok M s"
  shows "correction_ok (insert m M) (project_status m s)"
proof -
  let ?st = "update_status (status_payload m)"
  let ?re = "update_reopens (status_payload m)"
  show ?thesis
  proof (cases "eff_cancellation s")
    case (Some c)
    with assms(2) have st: "eff_status s = Some ''cancelled''" "\<exists>n \<in> M. status_id n = eventId c \<and> is_cancellation n"
      by (auto simp: cancellation_ok_def)
    then have stop: "terminal_status (eff_status s)" by (simp add: terminal_Some cancelled_terminal)
    show ?thesis
    proof (cases "corrects (eventId c) m")
      case True
      then show ?thesis
        using Some st(2) by (auto simp: project_status_def correction_ok_def corrects_def Let_def)
    next
      case False
      then have "terminal_status (eff_status (project_status m s))"
        using Some stop
        by (auto simp: project_status_def corrects_def Let_def intro: terminal_Some split: option.split)
      then show ?thesis by (simp add: correction_ok_def)
    qed
  next
    case None
    show ?thesis
    proof (cases "truthy ?re")
      case True
      then have "\<not> is_cancellation m" "project_status m s = s"
        using None by (simp_all add: is_cancellation_def project_status_def Let_def)
      then show ?thesis using assms(1) by (auto simp: correction_ok_def)
    next
      case plain: False
      show ?thesis
      proof (cases "normalizeStatus (Some ?st) \<in> set TERMINAL_ACTION_STATUSES")
        case True
        then have "terminal_status (eff_status (project_status m s))"
          using None plain terminal_known [OF True] cancelled_terminal
          by (auto simp: project_status_def Let_def intro: terminal_Some)
        then show ?thesis by (simp add: correction_ok_def)
      next
        case False
        then have nc: "normalizeStatus (Some ?st) \<noteq> ''cancelled''" using cancelled_terminal by auto
        then have "\<not> is_cancellation m" by (simp add: is_cancellation_def)
        moreover have "reopenedCancellationId (project_status m s) = reopenedCancellationId s"
          "terminal_status (eff_status s) \<Longrightarrow> project_status m s = s"
          using None plain False nc by (simp_all add: project_status_def Let_def terminal_status_def)
        ultimately show ?thesis using assms(1) unfolding correction_ok_def by auto
      qed
    qed
  qed
qed

lemma projection_ok_fold:
  "correction_ok M s \<Longrightarrow> cancellation_ok M s \<Longrightarrow>
   correction_ok (M \<union> set ms) (fold project_status ms s) \<and> cancellation_ok (M \<union> set ms) (fold project_status ms s)"
proof (induction ms arbitrary: M s)
  case (Cons m ms)
  have "correction_ok (insert m M) (project_status m s)" by (rule correction_ok_step [OF Cons.prems])
  moreover have "cancellation_ok (insert m M) (project_status m s)"
    using cancellation_ok_mono [OF Cons.prems(2)] cancellation_ok_step [of "insert m M" s m] by blast
  ultimately show ?case using Cons.IH [of "insert m M" "project_status m s"] by simp
qed simp

lemma initial_projection_ok:
  "correction_ok {} (initial_projection messages p fb)" "cancellation_ok {} (initial_projection messages p fb)"
  by (simp_all add: correction_ok_def cancellation_ok_def initial_projection_def Let_def)

text \<open>What holds of every projection with at least one status message.\<close>

lemma correction_ok_update: "correction_ok M (s\<lparr>eff_cancellation := x\<rparr>) = correction_ok M s"
  by (simp add: correction_ok_def)

lemma cancellation_ok_update:
  "cancellation_ok M s \<Longrightarrow> cancellation_ok M (s\<lparr>eff_cancellation := (if b then eff_cancellation s else None)\<rparr>)"
  by (cases b; cases "eff_cancellation s") (simp_all add: cancellation_ok_def)

lemma effective_status_ok:
  assumes "merchantStatusMessages lc messages p \<noteq> []"
  shows "correction_ok (set (merchantStatusMessages lc messages p)) (getEffectiveMerchantOrderStatus lc messages p fb)
    \<and> cancellation_ok (set (merchantStatusMessages lc messages p)) (getEffectiveMerchantOrderStatus lc messages p fb)"
proof -
  let ?ms = "merchantStatusMessages lc messages p"
  have "correction_ok (set ?ms) (fold project_status ?ms (initial_projection messages p fb))
      \<and> cancellation_ok (set ?ms) (fold project_status ?ms (initial_projection messages p fb))"
    using projection_ok_fold [OF initial_projection_ok, of ?ms messages p fb] by simp
  then show ?thesis
    using assms cancellation_ok_update
    by (simp only: getEffectiveMerchantOrderStatus_def Let_def if_False correction_ok_update)
qed

subsection \<open>Lemmas on a new latest message\<close>

lemma unique_statuses_append:
  "unique_statuses (xs @ [m]) seen =
     unique_statuses xs seen @ (if status_id m \<in> seen \<union> status_id ` set xs then [] else [m])"
  by (induction xs arbitrary: seen) auto

lemma insert_by_append: "cmp x y \<le> 0 \<Longrightarrow> insert_by cmp x (zs @ [y]) = insert_by cmp x zs @ [y]"
  by (induction zs) auto

lemma js_sort_append: "\<forall>x \<in> set xs. cmp x y \<le> 0 \<Longrightarrow> js_sort cmp (xs @ [y]) = js_sort cmp xs @ [y]"
  by (induction xs) (auto simp: js_sort_def insert_by_append)

lemma index_by_id_append:
  "index_by_id (xs @ [m]) i = (if status_id m = i then Some (length xs) else index_by_id xs i)"
proof -
  have "filter (\<lambda>k. status_id ((xs @ [m]) ! k) = i) [0..<length xs] = filter (\<lambda>k. status_id (xs ! k) = i) [0..<length xs]"
    by (intro filter_cong) (auto simp: nth_append)
  then show ?thesis by (auto simp: index_by_id_def Let_def)
qed

lemma is_deferred_append:
  assumes "k < length xs" "normalizeStatus (Some (update_status (status_payload m))) \<noteq> ''cancelled''"
    "status_id m \<notin> status_id ` set xs"
  shows "is_deferred (xs @ [m]) k \<longleftrightarrow> is_deferred xs k"
proof -
  have none: "index_by_id xs (status_id m) = None"
    using index_by_id_Some [of xs "status_id m"] assms(3) by (metis image_eqI nth_mem option.exhaust)
  have inside: "j < length xs" if "index_by_id xs i = Some j" for i j
    using index_by_id_Some [OF that] by blast
  show ?thesis
  proof (cases "the (update_reopens (status_payload (xs ! k))) = status_id m")
    case True
    with assms(1,2) none show ?thesis
      by (simp add: is_deferred_def Let_def nth_append index_by_id_append)
  next
    case False
    then have i: "index_by_id (xs @ [m]) (the (update_reopens (status_payload (xs ! k))))
        = index_by_id xs (the (update_reopens (status_payload (xs ! k))))"
      by (simp add: index_by_id_append)
    show ?thesis
      using assms(1) i inside
      by (cases "index_by_id xs (the (update_reopens (status_payload (xs ! k))))")
        (simp_all add: is_deferred_def Let_def nth_append)
  qed
qed

lemma last_not_deferred: "\<not> is_deferred (xs @ [m]) (length xs)"
  using index_by_id_Some [of "xs @ [m]"]
  by (fastforce simp: is_deferred_def Let_def split: option.splits)

lemma causal_order_append:
  assumes "distinct (map status_id (xs @ [m]))"
    "normalizeStatus (Some (update_status (status_payload m))) \<noteq> ''cancelled''"
  shows "causal_order (xs @ [m]) = causal_order xs @ [m]"
proof -
  have fresh: "status_id m \<notin> status_id ` set xs" using assms(1) by auto
  have def: "k < length xs \<Longrightarrow> is_deferred (xs @ [m]) k \<longleftrightarrow> is_deferred xs k" for k
    by (rule is_deferred_append [OF _ assms(2) fresh])
  have wait: "waiting_for (xs @ [m]) i = waiting_for xs i" if "i < length xs" for i
  proof -
    have "filter (\<lambda>k. is_deferred (xs @ [m]) k
          \<and> update_reopens (status_payload ((xs @ [m]) ! k)) = Some (status_id ((xs @ [m]) ! i))) [0..<length xs]
        = waiting_for xs i"
      unfolding waiting_for_def using that def by (intro filter_cong) (auto simp: nth_append)
    then show ?thesis using last_not_deferred [of xs m] by (simp add: waiting_for_def)
  qed
  have none: "waiting_for (xs @ [m]) (length xs) = []"
  proof -
    have "\<not> (is_deferred (xs @ [m]) k \<and> update_reopens (status_payload ((xs @ [m]) ! k)) = Some (status_id m))" for k
    proof
      assume k: "is_deferred (xs @ [m]) k \<and> update_reopens (status_payload ((xs @ [m]) ! k)) = Some (status_id m)"
      then have "is_deferred (xs @ [m]) k" by blast
      then obtain j where "update_reopens (status_payload ((xs @ [m]) ! k)) = Some (status_id ((xs @ [m]) ! j))"
          "j < length (xs @ [m])" "normalizeStatus (Some (update_status (status_payload ((xs @ [m]) ! j)))) = ''cancelled''"
        by (rule is_deferred_reopens)
      with k have j: "status_id ((xs @ [m]) ! j) = status_id m" by simp
      have "j = length xs"
      proof (rule ccontr)
        assume "j \<noteq> length xs"
        with \<open>j < length (xs @ [m])\<close> have "j < length xs" by simp
        with j have "status_id (xs ! j) = status_id m" by (simp add: nth_append)
        with \<open>j < length xs\<close> fresh show False by (metis image_eqI nth_mem)
      qed
      with \<open>normalizeStatus (Some (update_status (status_payload ((xs @ [m]) ! j)))) = ''cancelled''\<close> assms(2)
      show False by simp
    qed
    then show ?thesis unfolding waiting_for_def nth_append_length filter_empty_conv by blast
  qed
  have "causal_positions (xs @ [m]) = causal_positions xs @ [length xs]"
  proof -
    have a: "filter (\<lambda>i. \<not> is_deferred (xs @ [m]) i) [0..<length xs] = filter (\<lambda>i. \<not> is_deferred xs i) [0..<length xs]"
      using def by (intro filter_cong) auto
    have b: "map (\<lambda>i. i # waiting_for (xs @ [m]) i) (filter (\<lambda>i. \<not> is_deferred xs i) [0..<length xs])
        = map (\<lambda>i. i # waiting_for xs i) (filter (\<lambda>i. \<not> is_deferred xs i) [0..<length xs])"
      using wait by (intro map_cong) auto
    show ?thesis
      using none last_not_deferred [of xs m] by (simp add: causal_positions_def a b)
  qed
  moreover have "map (\<lambda>i. (xs @ [m]) ! i) (causal_positions xs) = map (\<lambda>i. xs ! i) (causal_positions xs)"
    using set_causal_positions [of xs] assms(1) by (intro map_cong) (auto simp: nth_append)
  ultimately show ?thesis
    using causal_order_positions [OF assms(1)] causal_order_positions [of xs] assms(1) by simp
qed

text \<open>A fresh, later status message that is no cancellation is projected last.\<close>

lemma merchantStatusMessages_append:
  assumes "merchant_status_message p m = Some u"
    "message_id m \<notin> message_id ` set messages"
    "\<forall>n \<in> set messages. message_createdAt n < message_createdAt m"
    "normalizeStatus (Some (update_status (status_payload u))) \<noteq> ''cancelled''"
  shows "merchantStatusMessages lc (messages @ [m]) p = merchantStatusMessages lc messages p @ [u]"
proof -
  let ?f = "merchant_status_message p"
  have u: "status_id u = message_id m" "status_createdAt u = message_createdAt m"
    using assms(1) by (auto split: option.splits if_split_asm)
  have src: "\<exists>n \<in> set messages. status_id v = message_id n \<and> status_createdAt v = message_createdAt n"
    if "v \<in> set (List.map_filter ?f messages)" for v
    using that by (auto simp: List.map_filter_def split: option.splits if_split_asm)
  have fresh: "status_id u \<notin> status_id ` set (List.map_filter ?f messages)"
  proof
    assume "status_id u \<in> status_id ` set (List.map_filter ?f messages)"
    then obtain v where "v \<in> set (List.map_filter ?f messages)" "status_id v = message_id m"
      using u(1) by auto
    with src [of v] assms(2) show False by auto
  qed
  have app: "List.map_filter ?f (messages @ [m]) = List.map_filter ?f messages @ [u]"
    using assms(1) by (simp add: List.map_filter_def)
  have sub: "set (unique_statuses ms S) \<subseteq> set ms" for ms S
    by (induction ms arbitrary: S) auto
  let ?U = "unique_statuses (List.map_filter ?f messages) {}"
  have "status_order lc v u \<le> 0" if vU: "v \<in> set ?U" for v
  proof -
    obtain n where "n \<in> set messages" "status_createdAt v = message_createdAt n"
      using vU sub src by blast
    then have "status_createdAt v < status_createdAt u" using assms(3) u(2) by simp
    then show ?thesis by (simp add: status_order_def)
  qed
  then have "ordered_statuses lc (messages @ [m]) p = ordered_statuses lc messages p @ [u]"
    unfolding ordered_statuses_def app unique_statuses_append using fresh by (simp add: js_sort_append)
  then show ?thesis
    unfolding merchantStatusMessages_def
    using causal_order_append [of "ordered_statuses lc messages p" u] assms(4)
      distinct_ordered [of lc "messages @ [m]" p] by simp
qed

text \<open>Messages outside the trusted pair play no part.\<close>

definition trusted_message :: "MerchantOrderParticipants \<Rightarrow> ParsedOrderMessage \<Rightarrow> bool" where
  "trusted_message p m \<longleftrightarrow>
     (senderPubkey m = part_merchant p \<and> recipientPubkey m = part_buyer p)
     \<or> (senderPubkey m = part_buyer p \<and> recipientPubkey m = part_merchant p)"

lemma statuses_of_trusted:
  "List.map_filter (merchant_status_message p) (filter (trusted_message p) messages)
     = List.map_filter (merchant_status_message p) messages"
  by (induction messages)
    (auto simp: List.map_filter_simps trusted_message_def split: option.splits)

lemma order_of_trusted:
  "hasMerchantOrder (filter (trusted_message p) messages) p = hasMerchantOrder messages p"
  by (auto simp: hasMerchantOrder_def list_ex_iff trusted_message_def)

lemma final_projection:
  assumes "merchantStatusMessages lc (messages @ [m]) p = merchantStatusMessages lc messages p @ [u]"
    "\<not> is_order (payload m)" "merchantStatusMessages lc messages p \<noteq> []"
    "eff_cancellation (getEffectiveMerchantOrderStatus lc messages p fb) = Some c" "corrects (eventId c) u"
  shows "getEffectiveMerchantOrderStatus lc (messages @ [m]) p fb =
     \<lparr>eff_status = safeOperationalStatus (Some (update_status (status_payload u))),
      eff_knownStatus = safeOperationalStatus (Some (update_status (status_payload u))),
      eff_cancellation = None, reopenedCancellationId = Some (eventId c)\<rparr>"
proof -
  let ?s = "fold project_status (merchantStatusMessages lc messages p) (initial_projection messages p fb)"
  have c: "eff_cancellation ?s = Some c"
    using assms(3,4) by (auto simp: getEffectiveMerchantOrderStatus_def Let_def split: if_split_asm)
  have "initial_projection (messages @ [m]) p fb = initial_projection messages p fb"
    using assms(2) by (simp add: initial_projection_def hasMerchantOrder_def)
  then have "getEffectiveMerchantOrderStatus lc (messages @ [m]) p fb =
      (let s = project_status u ?s in s\<lparr>eff_cancellation := (if eff_status s = Some ''cancelled'' then eff_cancellation s else None)\<rparr>)"
    using assms(1) by (simp add: getEffectiveMerchantOrderStatus_def)
  moreover obtain r where "safeOperationalStatus (Some (update_status (status_payload u))) = Some r"
    using assms(5) by (auto simp: corrects_def)
  ultimately show ?thesis
    using c assms(5) by (simp add: project_status_def corrects_def Let_def)
qed

subsection \<open>Lemmas on the timeline\<close>

lemma timeline_rows_marked:
  "map step_status (timeline_rows stopped True stages) =
     map (\<lambda>s. if stage_done s then StepComplete else StepWaiting) stages"
  by (induction stages) (auto simp: stage_row_def)

lemma timeline_rows_statuses:
  "map step_status (timeline_rows stopped False stages) =
     (let n = length (takeWhile stage_done stages)
      in replicate n StepComplete @
         (if n = length stages then []
          else case stopped of
            Some s \<Rightarrow> [if s = ''cancelled'' then StepFailed else StepRetryNeeded]
          | None \<Rightarrow> StepInProgress #
              map (\<lambda>s. if stage_done s then StepComplete else StepWaiting) (drop (Suc n) stages)))"
  by (induction stages)
    (auto simp: stage_row_def stopped_row_def Let_def timeline_rows_marked split: option.splits)

lemma timeline_rows_keys:
  "map step_key (timeline_rows stopped marked stages) =
     take (length (timeline_rows stopped marked stages)) (map stage_key stages)"
  by (induction stopped marked stages rule: timeline_rows.induct)
    (auto simp: stage_row_def stopped_row_def split: option.splits)

subsection \<open>Properties\<close>

text \<open>The conversation of the witnesses: an order, its acceptance and its cancellation.\<close>

definition sample_parties :: MerchantOrderParticipants where
  "sample_parties = \<lparr>part_buyer = ''b'', part_merchant = ''m''\<rparr>"

definition sample_status :: "js_string \<Rightarrow> int \<Rightarrow> js_string \<Rightarrow> js_string option \<Rightarrow> ParsedOrderMessage" where
  "sample_status i t st re =
     \<lparr>message_id = i, message_orderId = ''o'', message_createdAt = t, senderPubkey = ''m'',
      recipientPubkey = ''b'',
      payload = StatusUpdateMsg \<lparr>update_status = st, update_reopens = re\<rparr>\<rparr>"

definition sample_cancelled :: "ParsedOrderMessage list" where
  "sample_cancelled = [sample_status ''e1'' 1 ''accepted'' None, sample_status ''e2'' 2 ''cancelled'' None]"

definition sample_compare :: "js_string \<Rightarrow> js_string \<Rightarrow> int" where
  "sample_compare a b = (if a = b then 0 else if a < b then -1 else 1)"

definition sample_projection :: EffectiveMerchantOrderStatus where
  "sample_projection = getEffectiveMerchantOrderStatus sample_compare sample_cancelled sample_parties None"

lemma sample_projection_eq:
  "sample_projection =
     \<lparr>eff_status = Some ''cancelled'', eff_knownStatus = Some ''cancelled'',
      eff_cancellation = Some \<lparr>eventId = ''e2'', resumeStatus = ''accepted''\<rparr>,
      reopenedCancellationId = None\<rparr>"
  by code_simp


text \<open>C32. A cancelled order never becomes active silently: if the merchant's observed statuses
  contain a cancellation, the effective status is terminal, or the projection names a cancellation
  that an observed message corrects by exact reference with an active status.\<close>

theorem cancellation_needs_exact_correction:
  assumes "u \<in> set (merchantStatusMessages lc messages p)" "is_cancellation u"
  shows "terminal_status (eff_status (getEffectiveMerchantOrderStatus lc messages p fb))
    \<or> (\<exists>x v w. reopenedCancellationId (getEffectiveMerchantOrderStatus lc messages p fb) = Some x
         \<and> v \<in> set (merchantStatusMessages lc messages p) \<and> corrects x v
         \<and> w \<in> set (merchantStatusMessages lc messages p) \<and> status_id w = x \<and> is_cancellation w)"
proof -
  have "merchantStatusMessages lc messages p \<noteq> []" using assms(1) by auto
  then have "correction_ok (set (merchantStatusMessages lc messages p)) (getEffectiveMerchantOrderStatus lc messages p fb)"
    using effective_status_ok by blast
  then show ?thesis using assms unfolding correction_ok_def by blast
qed

theorem cancellation_needs_exact_correction_witness:
  "terminal_status (eff_status sample_projection)"
proof -
  have "\<lparr>status_id = ''e2'', status_createdAt = 2,
         status_payload = \<lparr>update_status = ''cancelled'', update_reopens = None\<rparr>\<rparr>
      \<in> set (merchantStatusMessages sample_compare sample_cancelled sample_parties)"
    by code_simp
  from cancellation_needs_exact_correction [OF this, of None] show ?thesis
    unfolding sample_projection_def [symmetric]
    by (auto simp: is_cancellation_def normalizeStatus_Some toLowerCase_def char_lower_def char_code_def
        sample_projection_eq)
qed

text \<open>Reopening works and restores the status it promises: when the projection holds a
  cancellation, the reopen transition exists, and once the merchant sends its payload as a fresh,
  latest message, the effective status is the status before the cancellation, the cancellation
  is gone and its id is reported as reopened.\<close>

theorem reopen_transition_restores_status:
  assumes "eff_cancellation (getEffectiveMerchantOrderStatus lc messages p fb) = Some c"
    "order_status state = eff_status (getEffectiveMerchantOrderStatus lc messages p fb)"
    "cancellation state = Some c"
    "payload m = StatusUpdateMsg \<lparr>update_status = resumeStatus c, update_reopens = Some (eventId c)\<rparr>"
    "senderPubkey m = part_merchant p" "recipientPubkey m = part_buyer p"
    "message_id m \<notin> message_id ` set messages"
    "\<forall>n \<in> set messages. message_createdAt n < message_createdAt m"
  shows "map_option (\<lambda>t. StatusUpdateMsg (transition_payload t)) (getMerchantOrderReopenTransition state)
      = Some (payload m)
    \<and> getEffectiveMerchantOrderStatus lc (messages @ [m]) p fb =
        \<lparr>eff_status = Some (resumeStatus c), eff_knownStatus = Some (resumeStatus c),
         eff_cancellation = None, reopenedCancellationId = Some (eventId c)\<rparr>"
proof -
  let ?pay = "\<lparr>update_status = resumeStatus c, update_reopens = Some (eventId c)\<rparr>"
  let ?u = "\<lparr>status_id = message_id m, status_createdAt = message_createdAt m, status_payload = ?pay\<rparr>"
  have ne: "merchantStatusMessages lc messages p \<noteq> []"
    using assms(1) by (auto simp: getEffectiveMerchantOrderStatus_def Let_def split: if_split_asm)
  with effective_status_ok [OF ne, of fb] assms(1)
  have c: "eff_status (getEffectiveMerchantOrderStatus lc messages p fb) = Some ''cancelled''"
      "safeOperationalStatus (Some (resumeStatus c)) = Some (resumeStatus c)"
    by (simp_all add: cancellation_ok_def)
  have "merchant_status_message p m = Some ?u" using assms(4-6) by simp
  moreover have "normalizeStatus (Some (resumeStatus c)) \<noteq> ''cancelled''"
    using c(2) safeOperational_cancelled by fastforce
  ultimately have "merchantStatusMessages lc (messages @ [m]) p = merchantStatusMessages lc messages p @ [?u]"
    using merchantStatusMessages_append [of p m ?u messages lc] assms(7,8) by simp
  from final_projection [OF this _ ne assms(1)] c assms(2-4) show ?thesis
    by (simp add: corrects_def getMerchantOrderReopenTransition_def normalizeStatus_Some terminal_lower
        cancelled_terminal)
qed

theorem reopen_transition_restores_status_witness:
  "getEffectiveMerchantOrderStatus sample_compare
     (sample_cancelled @ [sample_status ''e3'' 3 ''accepted'' (Some ''e2'')]) sample_parties None =
   \<lparr>eff_status = Some ''accepted'', eff_knownStatus = Some ''accepted'',
    eff_cancellation = None, reopenedCancellationId = Some ''e2''\<rparr>"
  using reopen_transition_restores_status [of sample_compare sample_cancelled sample_parties None
      "\<lparr>eventId = ''e2'', resumeStatus = ''accepted''\<rparr>"
      "toState (Some ''cancelled'')\<lparr>cancellation := Some \<lparr>eventId = ''e2'', resumeStatus = ''accepted''\<rparr>\<rparr>"
      "sample_status ''e3'' 3 ''accepted'' (Some ''e2'')"]
  unfolding sample_projection_def [symmetric]
  by (simp add: sample_projection_eq toState_def sample_status_def sample_cancelled_def sample_parties_def)

text \<open>The timeline shows progress in order: its rows are the stages in their order, the
  stages done before the first open one are complete, the first open stage is the only one in
  progress, later ones are complete or waiting, and for a cancelled or refunded order the
  timeline ends at the first open stage with the stop.\<close>

theorem timeline_has_one_front:
  "let stages = timeline_stages state; rows = buildOrderStatusTimeline state;
       n = length (takeWhile stage_done stages); status = normalizeStatus (order_status state)
   in map step_key rows = take (length rows) (map stage_key stages)
      \<and> map step_status rows =
          replicate n StepComplete @
            (if n = length stages then []
             else if status = ''cancelled'' then [StepFailed]
             else if status = ''refund_requested'' then [StepRetryNeeded]
             else StepInProgress #
               map (\<lambda>s. if stage_done s then StepComplete else StepWaiting) (drop (Suc n) stages))"
  unfolding Let_def buildOrderStatusTimeline_def
  using timeline_rows_keys timeline_rows_statuses by (simp add: Let_def)

text \<open>The merchant is only offered what the gates allow: shipment only for a paid order,
  completion only when paid or as an accepted, verified zero-cost pickup, payment confirmation
  only while unpaid, acceptance only while not accepted, and on a terminal status nothing but the
  reopening of a held cancellation.  A routed order without settlement is never offered shipment.\<close>

theorem merchant_actions_respect_gates:
  assumes "a \<in> set (getMerchantOrderActions state)"
  shows "(action a = RecordShipment \<longrightarrow> isMerchantOrderPaid state)
    \<and> (action a = Complete \<longrightarrow> isMerchantOrderPaid state
         \<or> isAuthorizedZeroCostPickup state \<and> isMerchantOrderAccepted state)
    \<and> (action a = ConfirmPayment \<longrightarrow> \<not> isMerchantOrderPaid state)
    \<and> (action a = Accept \<longrightarrow> \<not> isMerchantOrderAccepted state)
    \<and> (terminal_status (order_status state) \<longrightarrow> action a = Reopen)
    \<and> (action a = Reopen \<longrightarrow> getMerchantOrderReopenTransition state \<noteq> None)
    \<and> (checkoutSparkRouted state \<and> \<not> paid state \<longrightarrow> action a \<noteq> RecordShipment)"
proof -
  let ?st = "normalizeStatus (order_status state)"
  have known: "isKnownOrderStatus ?st"
    using assms by (auto simp: getMerchantOrderActions_def Let_def split: if_split_asm)
  show ?thesis
  proof (cases "?st \<in> set TERMINAL_ACTION_STATUSES")
    case True
    with assms known have "?st = ''cancelled''" "cancellation state \<noteq> None" "action a = Reopen"
      by (auto simp: getMerchantOrderActions_def Let_def primary_action_def split: if_split_asm)
    then show ?thesis by (auto simp: getMerchantOrderReopenTransition_def)
  next
    case False
    then have "?st \<noteq> ''cancelled''" using cancelled_terminal by auto
    with False have offered: "\<not> terminal_status (order_status state)"
      "\<not> (?st = ''cancelled'' \<and> cancellation state \<noteq> None)"
      by (simp_all add: terminal_status_def)
    have "(action a = RecordShipment \<longrightarrow> isMerchantOrderPaid state)
      \<and> (action a = Complete \<longrightarrow> isMerchantOrderPaid state
         \<or> isAuthorizedZeroCostPickup state \<and> isMerchantOrderAccepted state)
      \<and> (action a = ConfirmPayment \<longrightarrow> \<not> isMerchantOrderPaid state)
      \<and> (action a = Accept \<longrightarrow> \<not> isMerchantOrderAccepted state) \<and> action a \<noteq> Reopen"
      using assms offered(2) False
      unfolding getMerchantOrderActions_def Let_def primary_action_def cancel_action_def
      by (auto split: if_split_asm)
    then show ?thesis using offered(1) by (auto simp: isMerchantOrderPaid_def)
  qed
qed

theorem merchant_actions_respect_gates_witness:
  "\<not> isMerchantOrderAccepted (toState (Some ''pending''))"
proof -
  have "primary_action Accept (Some ''accepted'') ''Accept order''
      \<in> set (getMerchantOrderActions (toState (Some ''pending'')))"
    by code_simp
  from merchant_actions_respect_gates [OF this] show ?thesis by (simp add: primary_action_def)
qed

end
