(* ===== verification/Order_Summary.thy ===== *)
theory Order_Summary
  imports Order_Status Bolt11
begin

text \<open>
  The evidence part of \<open>extractOrderSummary\<close> of \<open>order-summary.ts\<close>: what the messages of one order
  say about its routing, invoices, payment reports, acceptance, settlement and shipment.  The
  order lines, the address and the contact that the function copies from the order message are
  not in the model.  A message list is in the order the caller passes it.
\<close>

record OrderSummaryParticipants =
  sum_buyer :: js_string
  sum_merchant :: js_string
  sum_orderId :: "js_string option"

record LatestMerchantInvoice =
  latest_messageId :: js_string
  latest_orderId :: js_string
  latest_createdAt :: int
  latest_sender :: js_string
  latest_recipient :: js_string
  latest_invoice :: js_string

record OrderSummary =
  summary_buyerIdentityKind :: "js_string option"
  summary_checkoutSparkRouted :: bool
  summary_shippingCostSats :: "js_number option"
  summary_shippingCostStatus :: "js_string option"
  summary_subtotal :: js_number
  summary_currency :: js_string
  summary_orderNote :: "js_string option"
  summary_invoiceSent :: bool
  summary_invoiceCount :: nat
  summary_invoiceAmount :: "js_number option"
  summary_invoiceCurrency :: "js_string option"
  latestMerchantInvoice :: "LatestMerchantInvoice option"
  paymentProofReceived :: bool
  paymentProofCount :: nat
  paymentProofAmount :: "js_number option"
  paymentProofCurrency :: "js_string option"
  paymentReportReceived :: bool
  externalPaymentReportReceived :: bool
  paymentReportCount :: nat
  paymentReportAmount :: "js_number option"
  paymentReportCurrency :: "js_string option"
  summary_accepted :: bool
  paymentConfirmed :: bool
  shippingUpdateReceived :: bool
  trackingCarrier :: "js_string option"
  summary_trackingNumber :: "js_string option"
  summary_trackingUrl :: "js_string option"

text \<open>The parties of the projection: the given ones, or those of the first order message.\<close>

definition first_order :: "ParsedOrderMessage list \<Rightarrow> ParsedOrderMessage option" where
  "first_order messages = find (\<lambda>m. is_order (payload m)) messages"

definition summary_buyer :: "ParsedOrderMessage list \<Rightarrow> OrderSummaryParticipants option \<Rightarrow> js_string" where
  "summary_buyer messages participants =
     (case participants of
        Some p \<Rightarrow> sum_buyer p
      | None \<Rightarrow> or_else (map_option senderPubkey (first_order messages)) [])"

definition summary_merchant :: "ParsedOrderMessage list \<Rightarrow> OrderSummaryParticipants option \<Rightarrow> js_string" where
  "summary_merchant messages participants =
     (case participants of
        Some p \<Rightarrow> sum_merchant p
      | None \<Rightarrow> or_else (map_option recipientPubkey (first_order messages)) [])"

definition summary_order_id :: "ParsedOrderMessage list \<Rightarrow> OrderSummaryParticipants option \<Rightarrow> js_string" where
  "summary_order_id messages participants =
     (case Option.bind participants sum_orderId of
        Some i \<Rightarrow> i
      | None \<Rightarrow> or_else (map_option message_orderId (first_order messages)) [])"

definition between :: "js_string \<Rightarrow> js_string \<Rightarrow> ParsedOrderMessage \<Rightarrow> bool" where
  "between sender recipient m \<longleftrightarrow>
     sender \<noteq> [] \<and> recipient \<noteq> [] \<and> senderPubkey m = sender \<and> recipientPubkey m = recipient"

text \<open>\<open>[...messages].reverse().find(...)\<close>, and the payload the type guard exposes.\<close>

definition latest :: "('a \<Rightarrow> bool) \<Rightarrow> 'a list \<Rightarrow> 'a option" where
  "latest P xs = find P (rev xs)"

definition status_implies :: "(MerchantOrderState \<Rightarrow> bool) \<Rightarrow> ParsedOrderMessage \<Rightarrow> bool" where
  "status_implies gate m \<longleftrightarrow>
     (case status_update_of (payload m) of
        None \<Rightarrow> False | Some u \<Rightarrow> gate (toState (Some (update_status u))))"

definition routed_order :: "js_string \<Rightarrow> js_string \<Rightarrow> js_string \<Rightarrow> ParsedOrderMessage \<Rightarrow> bool" where
  "routed_order buyer merchant orderId m \<longleftrightarrow>
     (case payload m of
        OrderMsg ord route \<Rightarrow>
          route = Some ''spark_router_v1'' \<and> between buyer merchant m
          \<and> orderId \<noteq> [] \<and> message_orderId m = orderId \<and> order_payload_id ord = orderId
          \<and> toLowerCase (order_buyer ord) = toLowerCase buyer
          \<and> toLowerCase (order_merchant ord) = toLowerCase merchant
      | _ \<Rightarrow> False)"

fun order_payload_of :: "MessagePayload \<Rightarrow> OrderSchema option" where
  "order_payload_of (OrderMsg ord _) = Some ord"
| "order_payload_of _ = None"

definition extractOrderSummary ::
    "ParsedOrderMessage list \<Rightarrow> OrderSummaryParticipants option \<Rightarrow> OrderSummary" where
  "extractOrderSummary messages participants =
     (let buyer = summary_buyer messages participants;
          merchant = summary_merchant messages participants;
          orderId = summary_order_id messages participants;
          order = Option.bind (first_order messages) (order_payload_of \<circ> payload);
          is_invoice = (\<lambda>m. payment_request_of (payload m) \<noteq> None \<and> between merchant buyer m);
          latestInvoice = latest is_invoice messages;
          request = Option.bind latestInvoice (payment_request_of \<circ> payload);
          proofs = filter (\<lambda>m. isPaymentProofEvidenceMessage m \<and> between buyer merchant m) messages;
          latestProof = Option.bind (latest (\<lambda>_. True) proofs) (payment_proof_of \<circ> payload);
          reports = filter (\<lambda>m. between buyer merchant m
                       \<and> (isPaymentProofEvidenceMessage m \<or> isExternalPaymentReport m)) messages;
          latestReport = Option.bind (latest (\<lambda>_. True) reports) (payment_proof_of \<circ> payload);
          latestShipping = latest (\<lambda>m. shipping_update_of (payload m) \<noteq> None \<and> between merchant buyer m) messages;
          shipping = Option.bind latestShipping (shipping_update_of \<circ> payload);
          statuses = filter (\<lambda>m. status_update_of (payload m) \<noteq> None \<and> between merchant buyer m) messages;
          decoded = map_option (\<lambda>r. decodeLightningInvoiceAmount (request_invoice r)) request
      in \<lparr>summary_buyerIdentityKind = Option.bind order order_buyerIdentityKind,
          summary_checkoutSparkRouted = list_ex (routed_order buyer merchant orderId) messages,
          summary_shippingCostSats = Option.bind order order_shippingCostSats,
          summary_shippingCostStatus = Option.bind order order_shippingCostStatus,
          summary_subtotal = or_else (map_option order_subtotal order) (JSInt 0),
          summary_currency = or_else (map_option order_currency order) ''USD'',
          summary_orderNote = (if truthy (Option.bind order order_note)
                               then Option.bind order order_note else None),
          summary_invoiceSent = (latestInvoice \<noteq> None),
          summary_invoiceCount = length (filter is_invoice messages),
          summary_invoiceAmount =
            (case Option.bind decoded sats of
               Some s \<Rightarrow> Some (JSInt s)
             | None \<Rightarrow>
                 (case Option.bind decoded msats of
                    Some ms \<Rightarrow> Some (JSInt ms)
                  | None \<Rightarrow> Option.bind request request_amount)),
          summary_invoiceCurrency =
            (case Option.bind decoded amount_currency of
               Some c \<Rightarrow> Some c
             | None \<Rightarrow> Option.bind request request_currency),
          latestMerchantInvoice =
            (case (latestInvoice, request) of
               (Some m, Some r) \<Rightarrow>
                 Some \<lparr>latest_messageId = message_id m, latest_orderId = message_orderId m,
                       latest_createdAt = message_createdAt m, latest_sender = senderPubkey m,
                       latest_recipient = recipientPubkey m, latest_invoice = request_invoice r\<rparr>
             | _ \<Rightarrow> None),
          paymentProofReceived = (latestProof \<noteq> None),
          paymentProofCount = length proofs,
          paymentProofAmount = Option.bind latestProof proof_amount,
          paymentProofCurrency = Option.bind latestProof proof_currency,
          paymentReportReceived = (latestReport \<noteq> None),
          externalPaymentReportReceived =
            list_ex (\<lambda>m. between buyer merchant m \<and> isExternalPaymentReport m) messages,
          paymentReportCount = length reports,
          paymentReportAmount = Option.bind latestReport proof_amount,
          paymentReportCurrency = Option.bind latestReport proof_currency,
          summary_accepted = list_ex (status_implies isMerchantOrderAccepted) statuses,
          paymentConfirmed = list_ex (status_implies isMerchantOrderPaid) statuses,
          shippingUpdateReceived = (latestShipping \<noteq> None),
          trackingCarrier = Option.bind shipping carrier,
          summary_trackingNumber = Option.bind shipping trackingNumber,
          summary_trackingUrl = Option.bind shipping trackingUrl\<rparr>)"

end
