(* ===== verification/Lifecycle_Delivery.thy ===== *)
theory Lifecycle_Delivery
  imports Lifecycle_Claims Order_Summary
begin

text \<open>
  What happens under a claim in \<open>order-lifecycle.ts\<close>: the fenced patch and its renewal, receipts,
  proof delivery and its claims, the binding of a merchant invoice and the claim of an external
  payment proof.  \<open>net\<close> is the deployment's Lightning network, \<open>lc\<close> is \<open>localeCompare\<close>.
\<close>

subsection \<open>Fenced patches\<close>

definition claim_held :: "js_string \<Rightarrow> OrderLifecycle \<Rightarrow> bool" where
  "claim_held claimId lifecycle \<longleftrightarrow>
     claimId \<noteq> [] \<and> truthy (paymentClaimId lifecycle) \<and> paymentClaimId lifecycle = Some claimId"

text \<open>The patch type allows \<open>paymentClaimId\<close> only as \<open>undefined\<close>.\<close>

definition patchClaimedOrderLifecyclePayment ::
    "js_string \<Rightarrow> js_string \<Rightarrow> lifecycle_patch \<Rightarrow> int \<Rightarrow> database \<Rightarrow> OrderOpResult \<times> database" where
  "patchClaimedOrderLifecyclePayment i claimId patch now d =
     (case getOrderLifecycle i d of
        None \<Rightarrow> missing d
      | Some lifecycle \<Rightarrow>
          if \<not> claim_held claimId lifecycle
             \<or> phase lifecycle = Cancelled
             \<or> phase lifecycle = Completed
             \<or> (paymentStatus lifecycle = Paid
                \<and> patched_paymentStatus patch \<noteq> None \<and> patched_paymentStatus patch \<noteq> Some Paid)
             \<or> (proofDeliveryStatus lifecycle = ProofSent
                \<and> patched_proofDeliveryStatus patch \<noteq> None \<and> patched_proofDeliveryStatus patch \<noteq> Some ProofSent)
          then refuse ClaimMismatch lifecycle d
          else store Patched
            (mergeOrderLifecyclePatch lifecycle
               (patch @ (if releases_payment_claim patch then []
                         else [Set_paymentClaimLeaseExpiresAt (Some (now + ORDER_PAYMENT_CLAIM_LEASE_MS))]))
               now) d)"

text \<open>The fence also selects the merchant profile; the selection is a parameter.\<close>

definition fenceClaimedOrderLifecyclePaymentAuthority ::
    "(js_string \<Rightarrow> json option \<Rightarrow> 'p) \<Rightarrow> js_string \<Rightarrow> js_string \<Rightarrow> js_string \<Rightarrow> int \<Rightarrow> database \<Rightarrow>
     (OrderOpResult \<times> 'p option) \<times> database" where
  "fenceClaimedOrderLifecyclePaymentAuthority select i claimId merchant now d =
     (case getOrderLifecycle i d of
        None \<Rightarrow> ((op_result Missing None, None), d)
      | Some lifecycle \<Rightarrow>
          if \<not> claim_held claimId lifecycle
             \<or> phase lifecycle = Cancelled
             \<or> phase lifecycle = Completed
             \<or> paymentStatus lifecycle = Paid
             \<or> proofDeliveryStatus lifecycle = ProofSent
          then ((op_result ClaimMismatch (Some lifecycle), None), d)
          else let updated = mergeOrderLifecyclePatch lifecycle
                     [Set_paymentClaimLeaseExpiresAt (Some (now + ORDER_PAYMENT_CLAIM_LEASE_MS))] now;
                   d1 = putOrderLifecycle updated d
          in ((op_result Fenced (Some updated), Some (select merchant (table_get (profiles d1) merchant))), d1))"

definition renewOrderLifecyclePaymentClaim ::
    "js_string \<Rightarrow> js_string \<Rightarrow> int \<Rightarrow> database \<Rightarrow> OrderOpResult \<times> database" where
  "renewOrderLifecyclePaymentClaim i claimId now d = patchClaimedOrderLifecyclePayment i claimId [] now d"

subsection \<open>Receipts\<close>

definition live_until :: "int option \<Rightarrow> int \<Rightarrow> bool" where
  "live_until deadline now \<longleftrightarrow> or_else deadline 0 > now"

definition observed_proof_claim :: "OrderLifecycle \<Rightarrow> AttemptProofStatus \<Rightarrow> js_string option \<Rightarrow> int \<Rightarrow> bool \<times> OrderProofDeliveryStatus" where
  "observed_proof_claim lifecycle requested claimId now =
     (let hasLiveProofDeliveryClaim =
            proofDeliveryStatus lifecycle = ProofPending \<and> truthy (proofDeliveryClaimId lifecycle)
            \<and> live_until (proofDeliveryClaimLeaseExpiresAt lifecycle) now;
          claimed = proofDeliveryStatus lifecycle \<noteq> ProofSent \<and> requested = AttemptPending
            \<and> truthy claimId \<and> \<not> hasLiveProofDeliveryClaim
      in (claimed,
          if proofDeliveryStatus lifecycle = ProofSent \<or> requested = AttemptSent then ProofSent
          else if hasLiveProofDeliveryClaim \<or> claimed then ProofPending
          else ProofRetryNeeded))"

definition recordObservedOrderPaymentReceipt ::
    "js_string \<Rightarrow> js_string \<Rightarrow> js_string \<Rightarrow> AttemptProofStatus \<Rightarrow> js_string option \<Rightarrow> int \<Rightarrow> database \<Rightarrow>
     OrderOpResult \<times> database" where
  "recordObservedOrderPaymentReceipt i requestId receiptId requested inputClaimId now d =
     (case getOrderLifecycle i d of
        None \<Rightarrow> missing d
      | Some lifecycle \<Rightarrow>
          if requestId = [] \<or> zapRequestId lifecycle \<noteq> Some requestId
          then refuse RequestMismatch lifecycle d
          else let claimId = map_option js_trim inputClaimId;
                   (claimed, status) = observed_proof_claim lifecycle requested claimId now;
                   recorded = mergeOrderLifecyclePatch lifecycle
                     ([Set_paymentClaimId None, Set_invoiceStatus Received, Set_paymentStatus Paid,
                       Set_proofDeliveryStatus status]
                      @ (if claimed
                         then [Set_proofDeliveryClaimId claimId, Set_proofDeliveryClaimedAt (Some now),
                               Set_proofDeliveryClaimLeaseExpiresAt (Some (now + ORDER_PROOF_DELIVERY_CLAIM_LEASE_MS))]
                         else [])
                      @ [Set_zapReceiptStatus Observed, Set_zapReceiptId (Some receiptId), Set_lastError None])
                     now
          in ((op_result Recorded (Some recorded))\<lparr>proofDeliveryClaimed := claimed\<rparr>,
              putOrderLifecycle recorded d))"

definition recordOrderPaymentReceiptTimeout ::
    "js_string \<Rightarrow> js_string \<Rightarrow> int \<Rightarrow> database \<Rightarrow> OrderOpResult \<times> database" where
  "recordOrderPaymentReceiptTimeout i requestId now d =
     (case getOrderLifecycle i d of
        None \<Rightarrow> missing d
      | Some lifecycle \<Rightarrow>
          if requestId = [] \<or> zapRequestId lifecycle \<noteq> Some requestId
          then refuse RequestMismatch lifecycle d
          else if zapReceiptStatus lifecycle = Observed \<or> truthy (zapReceiptId lifecycle)
          then refuse Preserved lifecycle d
          else if paymentStatus lifecycle = Paid
          then store Recorded
            (mergeOrderLifecyclePatch lifecycle [Set_zapReceiptStatus ReceiptNotObserved] now) d
          else store Recorded
            (mergeOrderLifecyclePatch lifecycle
               [Set_paymentStatus Ambiguous, Set_zapReceiptStatus ReceiptNotObserved,
                Set_lastError (Some ''A matching public receipt was not observed. Do not pay again if your wallet shows payment.'')]
               now) d)"

subsection \<open>Proof delivery\<close>

fun proof_status_of :: "AttemptProofStatus \<Rightarrow> OrderProofDeliveryStatus" where
  "proof_status_of AttemptPending = ProofPending"
| "proof_status_of AttemptSent = ProofSent"
| "proof_status_of AttemptRetryNeeded = ProofRetryNeeded"

text \<open>The extra patch carries a delivery notice and an error only.\<close>

definition recordOrderPaymentProofDelivery ::
    "js_string \<Rightarrow> AttemptProofStatus \<Rightarrow> js_string option option \<Rightarrow> js_string option option \<Rightarrow>
     js_string option \<Rightarrow> int \<Rightarrow> database \<Rightarrow> OrderOpResult \<times> database" where
  "recordOrderPaymentProofDelivery i status notice error claimId now d =
     (case getOrderLifecycle i d of
        None \<Rightarrow> missing d
      | Some lifecycle \<Rightarrow>
          if proofDeliveryStatus lifecycle = ProofSent \<and> status \<noteq> AttemptSent
          then refuse Preserved lifecycle d
          else if status \<noteq> AttemptSent \<and> truthy (proofDeliveryClaimId lifecycle)
                  \<and> proofDeliveryClaimId lifecycle \<noteq> claimId
          then refuse ClaimMismatch lifecycle d
          else store Recorded
            (mergeOrderLifecyclePatch lifecycle
               ((case notice of None \<Rightarrow> [] | Some n \<Rightarrow> [Set_deliveryNotice n])
                @ (case error of None \<Rightarrow> [] | Some e \<Rightarrow> [Set_lastError e])
                @ [Set_proofDeliveryStatus (proof_status_of status)]) now) d)"

definition claimOrderPaymentProofDelivery ::
    "js_string \<Rightarrow> js_string \<Rightarrow> int \<Rightarrow> database \<Rightarrow> OrderOpResult \<times> database" where
  "claimOrderPaymentProofDelivery i claimId now d =
     (case getOrderLifecycle i d of
        None \<Rightarrow> missing d
      | Some lifecycle \<Rightarrow>
          let normalizedClaimId = js_trim claimId
          in if normalizedClaimId = []
                \<or> proofDeliveryStatus lifecycle = ProofSent
                \<or> (proofDeliveryStatus lifecycle = ProofPending
                   \<and> proofDeliveryClaimId lifecycle \<noteq> Some normalizedClaimId
                   \<and> live_until (proofDeliveryClaimLeaseExpiresAt lifecycle) now)
             then refuse Preserved lifecycle d
             else store Claimed
               (mergeOrderLifecyclePatch lifecycle
                  [Set_proofDeliveryStatus ProofPending,
                   Set_proofDeliveryClaimId (Some normalizedClaimId),
                   Set_proofDeliveryClaimedAt
                     (Some (if proofDeliveryClaimId lifecycle = Some normalizedClaimId
                            then or_else (proofDeliveryClaimedAt lifecycle) now else now)),
                   Set_proofDeliveryClaimLeaseExpiresAt (Some (now + ORDER_PROOF_DELIVERY_CLAIM_LEASE_MS))]
                  now) d)"

definition renewOrderPaymentProofDeliveryClaim ::
    "js_string \<Rightarrow> js_string \<Rightarrow> int \<Rightarrow> database \<Rightarrow> OrderOpResult \<times> database" where
  "renewOrderPaymentProofDeliveryClaim i claimId now d =
     (case getOrderLifecycle i d of
        None \<Rightarrow> missing d
      | Some lifecycle \<Rightarrow>
          let normalizedClaimId = js_trim claimId
          in if normalizedClaimId = []
                \<or> proofDeliveryStatus lifecycle \<noteq> ProofPending
                \<or> proofDeliveryClaimId lifecycle \<noteq> Some normalizedClaimId
             then refuse Preserved lifecycle d
             else store Claimed
               (mergeOrderLifecyclePatch lifecycle
                  [Set_proofDeliveryClaimLeaseExpiresAt (Some (now + ORDER_PROOF_DELIVERY_CLAIM_LEASE_MS))]
                  now) d)"

subsection \<open>Merchant invoices\<close>

record MerchantInvoiceReopenEvidence =
  cancellationEventId :: js_string
  evidence_messages :: "ParsedOrderMessage list"

record ProjectedMerchantInvoiceClaim =
  mi_buyerPubkey :: js_string
  mi_merchantPubkey :: js_string
  mi_totalMsats :: int
  mi_invoice :: js_string
  mi_paymentHash :: js_string
  mi_expiresAt :: int
  reopenEvidence :: "MerchantInvoiceReopenEvidence option"

record AdmittedProjectedMerchantInvoice =
  admitted_invoice :: js_string
  admitted_paymentHash :: js_string
  admitted_expiresAt :: int
  alreadyBound :: bool

definition hasEffectiveMerchantInvoiceReopenEvidence ::
    "locale_compare \<Rightarrow> OrderLifecycle \<Rightarrow> MerchantInvoiceReopenEvidence option \<Rightarrow> bool" where
  "hasEffectiveMerchantInvoiceReopenEvidence lc lifecycle evidenceOpt \<longleftrightarrow>
     (case evidenceOpt of
        None \<Rightarrow> False
      | Some evidence \<Rightarrow>
          if \<not> is_hex64 (cancellationEventId evidence) then False
          else let exactOrderMessages =
                     filter (\<lambda>m. message_orderId m = orderId lifecycle) (evidence_messages evidence);
                   projection = getEffectiveMerchantOrderStatus lc exactOrderMessages
                     \<lparr>part_buyer = buyerPubkey lifecycle, part_merchant = merchantPubkey lifecycle\<rparr> None;
                   summary = extractOrderSummary exactOrderMessages
                     (Some \<lparr>sum_buyer = buyerPubkey lifecycle, sum_merchant = merchantPubkey lifecycle,
                            sum_orderId = None\<rparr>)
          in reopenedCancellationId projection = Some (cancellationEventId evidence)
             \<and> eff_knownStatus projection \<noteq> None
             \<and> eff_knownStatus projection \<noteq> Some ''cancelled''
             \<and> eff_knownStatus projection \<noteq> Some ''refund_requested''
             \<and> \<not> paymentConfirmed summary
             \<and> \<not> shippingUpdateReceived summary)"

definition awaiting_merchant_invoice :: "OrderLifecycle \<Rightarrow> bool" where
  "awaiting_merchant_invoice lifecycle \<longleftrightarrow>
     invoiceStatus lifecycle = NotRequested
     \<and> paymentStatus lifecycle = PaymentNotStarted
     \<and> \<not> truthy (invoice lifecycle)
     \<and> \<not> truthy (paymentHash lifecycle)
     \<and> invoiceExpiresAt lifecycle = None"

definition same_active_merchant_invoice :: "OrderLifecycle \<Rightarrow> js_string \<Rightarrow> js_string \<Rightarrow> int \<Rightarrow> bool" where
  "same_active_merchant_invoice lifecycle normalizedInvoice hash expiry \<longleftrightarrow>
     invoiceStatus lifecycle = InvoiceManualRequired
     \<and> paymentStatus lifecycle = PaymentManualRequired
     \<and> truthy (invoice lifecycle)
     \<and> toLowerCase (normalizeLightningInvoice (the (invoice lifecycle))) = toLowerCase normalizedInvoice
     \<and> (\<not> truthy (paymentHash lifecycle) \<or> toLowerCase (the (paymentHash lifecycle)) = hash)
     \<and> (invoiceExpiresAt lifecycle = None \<or> invoiceExpiresAt lifecycle = Some expiry)"

definition admitProjectedMerchantInvoice ::
    "js_string \<Rightarrow> locale_compare \<Rightarrow> OrderLifecycle \<Rightarrow> ProjectedMerchantInvoiceClaim \<Rightarrow> int \<Rightarrow> bool \<Rightarrow>
     AdmittedProjectedMerchantInvoice option" where
  "admitProjectedMerchantInvoice net lc lifecycle mi nowMs allowExpired =
     (if checkoutSparkRouterBinding lifecycle \<noteq> None then None
      else let normalizedInvoice = normalizeLightningInvoice (mi_invoice mi);
               hash = toLowerCase (js_trim (mi_paymentHash mi));
               decoded = decodeLightningInvoicePaymentHash normalizedInvoice;
               validation = validateLightningInvoiceForPayment net normalizedInvoice (totalMsats lifecycle) None
                              (nowMs div 1000) allowExpired;
               same = same_active_merchant_invoice lifecycle normalizedInvoice hash (mi_expiresAt mi);
               exact = same \<and> map_option toLowerCase (paymentHash lifecycle) = Some hash
                 \<and> invoiceExpiresAt lifecycle = Some (mi_expiresAt mi);
               hasReopenEvidence = hasEffectiveMerchantInvoiceReopenEvidence lc lifecycle (reopenEvidence mi)
      in if effective_signer lifecycle \<noteq> None
            \<or> checkoutMode lifecycle \<noteq> PayLater
            \<or> orderDeliveryStatus lifecycle \<noteq> DeliverySent
            \<or> phase lifecycle = Completed
            \<or> (phase lifecycle = Cancelled \<and> \<not> hasReopenEvidence)
            \<or> (reopenEvidence mi \<noteq> None \<and> \<not> hasReopenEvidence)
            \<or> proofDeliveryStatus lifecycle \<noteq> ProofNotStarted
            \<or> truthy (paymentClaimId lifecycle)
            \<or> buyerPubkey lifecycle \<noteq> mi_buyerPubkey mi
            \<or> merchantPubkey lifecycle \<noteq> mi_merchantPubkey mi
            \<or> totalMsats lifecycle \<noteq> mi_totalMsats mi
            \<or> \<not> is_hex64 hash
            \<or> decoded \<noteq> Some hash
            \<or> \<not> ok validation
            \<or> invoice_expiresAt (metadata validation) \<noteq> Some (mi_expiresAt mi)
            \<or> \<not> is_safe (mi_expiresAt mi)
            \<or> mi_expiresAt mi \<le> 0
            \<or> (\<not> awaiting_merchant_invoice lifecycle \<and> \<not> same)
         then None
         else Some \<lparr>admitted_invoice = normalizedInvoice, admitted_paymentHash = hash,
                    admitted_expiresAt = mi_expiresAt mi, alreadyBound = exact\<rparr>)"

definition bindMerchantInvoiceForPayment ::
    "js_string \<Rightarrow> locale_compare \<Rightarrow> js_string \<Rightarrow> ProjectedMerchantInvoiceClaim \<Rightarrow> int \<Rightarrow> database \<Rightarrow>
     OrderOpResult \<times> database" where
  "bindMerchantInvoiceForPayment net lc i mi nowMs d =
     (case getOrderLifecycle i d of
        None \<Rightarrow> missing d
      | Some lifecycle \<Rightarrow>
          (case admitProjectedMerchantInvoice net lc lifecycle mi nowMs False of
             None \<Rightarrow> refuse Preserved lifecycle d
           | Some admitted \<Rightarrow>
               if alreadyBound admitted then refuse Bound lifecycle d
               else store Bound
                 (mergeOrderLifecyclePatch lifecycle
                    [Set_invoiceStatus InvoiceManualRequired, Set_paymentStatus PaymentManualRequired,
                     Set_invoice (Some (admitted_invoice admitted)),
                     Set_paymentHash (Some (admitted_paymentHash admitted)),
                     Set_invoiceExpiresAt (Some (admitted_expiresAt admitted)),
                     Set_lastError None] nowMs) d))"

subsection \<open>External payment proofs\<close>

definition prior_history_entry ::
    "js_string \<Rightarrow> OrderLifecycle \<Rightarrow> PriorExpiredManualInvoice \<Rightarrow> int \<Rightarrow> PriorExpiredManualInvoice option" where
  "prior_history_entry net lifecycle evidence now =
     (let normalized = normalizeLightningInvoice (prior_invoice evidence);
          validation = validateLightningInvoiceForPayment net normalized (totalMsats lifecycle) None
                         (now div 1000) True
      in find (\<lambda>entry.
             toLowerCase (normalizeLightningInvoice (prior_invoice entry)) = toLowerCase normalized
             \<and> toLowerCase (prior_paymentHash entry) = toLowerCase (prior_paymentHash evidence)
             \<and> prior_expiresAt entry = prior_expiresAt evidence
             \<and> Some (prior_expiresAt evidence) = invoice_expiresAt (metadata validation))
           (or_else (priorExpiredManualInvoices lifecycle) []))"

definition prior_base_admissible ::
    "js_string \<Rightarrow> OrderLifecycle \<Rightarrow> PriorExpiredManualInvoice \<Rightarrow> int \<Rightarrow> bool" where
  "prior_base_admissible net lifecycle evidence now \<longleftrightarrow>
     (let normalized = normalizeLightningInvoice (prior_invoice evidence);
          validation = validateLightningInvoiceForPayment net normalized (totalMsats lifecycle) None
                         (now div 1000) True;
          decoded = decodeLightningInvoicePaymentHash normalized
      in (checkoutMode lifecycle = PrivateCheckout \<or> checkoutMode lifecycle = ExternalWallet)
         \<and> publicZapSigner lifecycle = None
         \<and> paymentTarget lifecycle = Some ManualTarget
         \<and> orderDeliveryStatus lifecycle = DeliverySent
         \<and> phase lifecycle \<noteq> Completed
         \<and> completedAt lifecycle = None
         \<and> walletPaymentAttemptId lifecycle = None
         \<and> paymentClaimId lifecycle = None
         \<and> proofDeliveryClaimId lifecycle = None
         \<and> proofDeliveryStatus lifecycle = ProofNotStarted
         \<and> preimage lifecycle = None
         \<and> feeMsats lifecycle = None
         \<and> zapReceiptId lifecycle = None
         \<and> zapRequestId lifecycle = None
         \<and> zapReceiptStatus lifecycle = NotApplicable
         \<and> prior_history_entry net lifecycle evidence now \<noteq> None
         \<and> is_hex64_i (prior_paymentHash evidence)
         \<and> map_option toLowerCase decoded = Some (toLowerCase (prior_paymentHash evidence))
         \<and> ok validation
         \<and> invoice_expiresAt (metadata validation) \<noteq> None)"

definition active_replacement_admissible ::
    "js_string \<Rightarrow> OrderLifecycle \<Rightarrow> PriorExpiredManualInvoice \<Rightarrow> int \<Rightarrow> bool" where
  "active_replacement_admissible net lifecycle evidence now \<longleftrightarrow>
     (let normalized = normalizeLightningInvoice (prior_invoice evidence)
      in (paymentStatus lifecycle = PaymentFailed
          \<and> invoiceStatus lifecycle = InvoiceFailed
          \<and> \<not> truthy (invoice lifecycle))
         \<or> (paymentStatus lifecycle = PaymentManualRequired
            \<and> invoiceStatus lifecycle = InvoiceManualRequired
            \<and> truthy (invoice lifecycle)
            \<and> (let active = the (invoice lifecycle);
                   hash = decodeLightningInvoicePaymentHash active;
                   validation = validateLightningInvoiceForPayment net active (totalMsats lifecycle) None
                                  (now div 1000) True
               in toLowerCase (normalizeLightningInvoice active) \<noteq> toLowerCase normalized
                  \<and> hash \<noteq> None
                  \<and> (paymentHash lifecycle = None
                     \<or> map_option toLowerCase hash = map_option toLowerCase (paymentHash lifecycle))
                  \<and> ok validation
                  \<and> (invoiceExpiresAt lifecycle = None
                     \<or> invoice_expiresAt (metadata validation) = invoiceExpiresAt lifecycle))))"

definition external_proof_patch ::
    "AdmittedProjectedMerchantInvoice option \<Rightarrow> PriorExpiredManualInvoice option \<Rightarrow> js_string \<Rightarrow> int \<Rightarrow>
     lifecycle_patch" where
  "external_proof_patch admitted prior claimId now =
     (case admitted of
        None \<Rightarrow> []
      | Some a \<Rightarrow> [Set_invoiceStatus InvoiceManualRequired, Set_invoice (Some (admitted_invoice a)),
                  Set_paymentHash (Some (admitted_paymentHash a)),
                  Set_invoiceExpiresAt (Some (admitted_expiresAt a))])
     @ (case prior of
          None \<Rightarrow> []
        | Some e \<Rightarrow> [Set_invoice (Some (prior_invoice e)), Set_paymentHash (Some (prior_paymentHash e)),
                    Set_invoiceExpiresAt (Some (prior_expiresAt e))])
     @ [Set_paymentStatus Paid, Set_proofDeliveryStatus ProofPending,
        Set_proofDeliveryClaimId (Some claimId), Set_proofDeliveryClaimedAt (Some now),
        Set_proofDeliveryClaimLeaseExpiresAt (Some (now + ORDER_PROOF_DELIVERY_CLAIM_LEASE_MS)),
        Set_lastError None]"

definition claimExternalOrderPaymentProof ::
    "js_string \<Rightarrow> locale_compare \<Rightarrow> js_string \<Rightarrow> js_string \<Rightarrow> ProjectedMerchantInvoiceClaim option \<Rightarrow>
     PriorExpiredManualInvoice option \<Rightarrow> (OrderLifecycle \<Rightarrow> bool) \<Rightarrow> int \<Rightarrow> database \<Rightarrow>
     OrderOpResult \<times> database" where
  "claimExternalOrderPaymentProof net lc i claimId merchantInvoice priorEvidence authorizeClaim now d =
     (case getOrderLifecycle i d of
        None \<Rightarrow> missing d
      | Some lifecycle \<Rightarrow>
          if checkoutSparkRouterBinding lifecycle \<noteq> None then refuse Preserved lifecycle d
          else let normalizedClaimId = js_trim claimId;
                   admitted = Option.bind merchantInvoice
                     (\<lambda>mi. admitProjectedMerchantInvoice net lc lifecycle mi now True);
                   existingAdmissible = merchantInvoice = None \<and> priorEvidence = None
                     \<and> truthy (invoice lifecycle) \<and> paymentStatus lifecycle = PaymentManualRequired;
                   priorAdmissible = merchantInvoice = None
                     \<and> (case priorEvidence of
                          None \<Rightarrow> False
                        | Some evidence \<Rightarrow> prior_base_admissible net lifecycle evidence now
                            \<and> active_replacement_admissible net lifecycle evidence now)
          in if normalizedClaimId = []
                \<or> phase lifecycle = Completed
                \<or> proofDeliveryStatus lifecycle \<noteq> ProofNotStarted
                \<or> (admitted = None \<and> \<not> existingAdmissible \<and> \<not> priorAdmissible)
             then refuse Preserved lifecycle d
             else if priorAdmissible \<and> getPaymentAttempt i d \<noteq> None
             then refuse Preserved lifecycle d
             else if \<not> authorizeClaim lifecycle then refuse Preserved lifecycle d
             else store Claimed
               (mergeOrderLifecyclePatch lifecycle
                  (external_proof_patch admitted
                     (if priorAdmissible
                      then Option.bind priorEvidence (\<lambda>evidence. prior_history_entry net lifecycle evidence now)
                      else None)
                     normalizedClaimId now) now) d)"

subsection \<open>Recovery after wallet success\<close>

record OrderPaymentWalletSuccessRecoveryInput =
  ws_proofDeliveryStatus :: AttemptProofStatus
  ws_proofDeliveryClaimId :: "js_string option"
  ws_invoice :: js_string
  ws_paymentHash :: "js_string option"
  ws_preimage :: js_string
  ws_feeMsats :: "int option"
  ws_zapRequestId :: "js_string option"

definition wallet_success_proof_status ::
    "OrderLifecycle \<Rightarrow> OrderPaymentWalletSuccessRecoveryInput \<Rightarrow> int \<Rightarrow> OrderProofDeliveryStatus" where
  "wallet_success_proof_status lifecycle input now =
     (let hasLive = truthy (proofDeliveryClaimId lifecycle)
            \<and> live_until (proofDeliveryClaimLeaseExpiresAt lifecycle) now;
          matches = \<not> truthy (proofDeliveryClaimId lifecycle)
            \<or> proofDeliveryClaimId lifecycle = ws_proofDeliveryClaimId input
      in if proofDeliveryStatus lifecycle = ProofSent \<or> ws_proofDeliveryStatus input = AttemptSent
         then ProofSent
         else if \<not> matches then proofDeliveryStatus lifecycle
         else if ws_proofDeliveryStatus input = AttemptPending
                 \<and> proofDeliveryStatus lifecycle = ProofPending
                 \<and> zapReceiptStatus lifecycle = Observed \<and> hasLive
         then ProofPending
         else ProofRetryNeeded)"

definition recordOrderPaymentWalletSuccessRecovery ::
    "js_string \<Rightarrow> OrderPaymentWalletSuccessRecoveryInput \<Rightarrow> int \<Rightarrow> database \<Rightarrow> OrderOpResult \<times> database" where
  "recordOrderPaymentWalletSuccessRecovery i input now d =
     (case getOrderLifecycle i d of
        None \<Rightarrow> missing d
      | Some lifecycle \<Rightarrow>
          store Recorded
            (mergeOrderLifecyclePatch lifecycle
               [Set_paymentClaimId None, Set_invoiceStatus Received, Set_paymentStatus Paid,
                Set_proofDeliveryStatus (wallet_success_proof_status lifecycle input now),
                Set_invoice (Some (ws_invoice input)), Set_paymentHash (ws_paymentHash input),
                Set_preimage (Some (ws_preimage input)), Set_feeMsats (ws_feeMsats input),
                Set_zapRequestId (ws_zapRequestId input), Set_lastError None] now) d)"

subsection \<open>What the payment service patches\<close>

text \<open>The fields \<open>order-payment-service.ts\<close> writes under a claim; it takes over a proof delivery only
  together with the pending status.\<close>

fun worker_field :: "field_value \<Rightarrow> bool" where
  "worker_field (Set_paymentClaimId v) = (v = None)"
| "worker_field (Set_invoiceStatus _) = True"
| "worker_field (Set_paymentStatus _) = True"
| "worker_field (Set_proofDeliveryStatus _) = True"
| "worker_field (Set_proofDeliveryClaimId _) = True"
| "worker_field (Set_proofDeliveryClaimedAt _) = True"
| "worker_field (Set_proofDeliveryClaimLeaseExpiresAt _) = True"
| "worker_field (Set_zapReceiptStatus _) = True"
| "worker_field (Set_invoice _) = True"
| "worker_field (Set_paymentHash _) = True"
| "worker_field (Set_preimage _) = True"
| "worker_field (Set_feeMsats _) = True"
| "worker_field (Set_zapRequestId _) = True"
| "worker_field (Set_zapRequestCreatedAt _) = True"
| "worker_field (Set_zapReceiptId _) = True"
| "worker_field (Set_zapReceiptRelayUrls _) = True"
| "worker_field (Set_zapLnurl _) = True"
| "worker_field (Set_zapReceiptPubkey _) = True"
| "worker_field (Set_invoiceExpiresAt _) = True"
| "worker_field (Set_zapReceiptObservationDeadline _) = True"
| "worker_field (Set_phase _) = True"
| "worker_field (Set_completedAt _) = True"
| "worker_field (Set_lastError _) = True"
| "worker_field (Set_deliveryNotice _) = True"
| "worker_field _ = False"

definition worker_patch :: "lifecycle_patch \<Rightarrow> bool" where
  "worker_patch patch \<longleftrightarrow>
     list_all worker_field patch
     \<and> (patched_proofDeliveryClaimId patch = None \<or> patched_proofDeliveryClaimId patch = Some None
        \<or> patched_proofDeliveryStatus patch = Some ProofPending)"

lemma worker_patch_frame:
  assumes "list_all worker_field patch"
  shows "checkoutSparkRouterBinding (apply_patch patch r) = checkoutSparkRouterBinding r"
    "priorExpiredManualInvoices (apply_patch patch r) = priorExpiredManualInvoices r"
    "paymentClaimId (apply_patch patch r) \<in> {paymentClaimId r, None}"
proof -
  have f: "checkoutSparkRouterBinding (set_field f s) = checkoutSparkRouterBinding s"
    "priorExpiredManualInvoices (set_field f s) = priorExpiredManualInvoices s"
    "paymentClaimId (set_field f s) \<in> {paymentClaimId s, None}" if "worker_field f" for f s
    using that by (cases f; simp)+
  show "checkoutSparkRouterBinding (apply_patch patch r) = checkoutSparkRouterBinding r"
    using assms by (induction patch arbitrary: r) (simp_all add: f)
  show "priorExpiredManualInvoices (apply_patch patch r) = priorExpiredManualInvoices r"
    using assms by (induction patch arbitrary: r) (simp_all add: f)
  show "paymentClaimId (apply_patch patch r) \<in> {paymentClaimId r, None}"
    using assms
  proof (induction patch arbitrary: r)
    case (Cons x xs)
    then have "paymentClaimId (set_field x r) \<in> {paymentClaimId r, None}" using f(3) by simp
    moreover have "paymentClaimId (apply_patch xs (set_field x r)) \<in> {paymentClaimId (set_field x r), None}"
      using Cons by simp
    ultimately show ?case by auto
  qed simp
qed

subsection \<open>Every operation follows the protocol\<close>

lemma patchClaimed_follows:
  assumes "well_keyed_database d" "worker_patch patch"
  shows "follows d (snd (patchClaimedOrderLifecyclePayment i c patch now d))"
proof (cases "op_status (fst (patchClaimedOrderLifecyclePayment i c patch now d)) = Patched")
  case False
  then show ?thesis
    using assms(1) by (auto simp: patchClaimedOrderLifecyclePayment_def answer_defs op_result_def split: option.splits if_splits)
next
  case True
  let ?p = "patch @ (if releases_payment_claim patch then []
      else [Set_paymentClaimLeaseExpiresAt (Some (now + ORDER_PAYMENT_CLAIM_LEASE_MS))])"
  from True obtain r where r: "getOrderLifecycle i d = Some r" "claim_held c r"
    and paid: "paymentStatus r = Paid \<longrightarrow> patched_paymentStatus patch \<in> {None, Some Paid}"
    and sent: "proofDeliveryStatus r = ProofSent \<longrightarrow> patched_proofDeliveryStatus patch \<in> {None, Some ProofSent}"
    and e: "snd (patchClaimedOrderLifecyclePayment i c patch now d) =
        putOrderLifecycle (mergeOrderLifecyclePatch r ?p now) d"
    by (auto simp: patchClaimedOrderLifecyclePayment_def answer_defs op_result_def split: option.splits if_splits)
  let ?m = "mergeOrderLifecyclePatch r ?p now"
  have reads: "patched_paymentStatus ?p = patched_paymentStatus patch"
    "patched_proofDeliveryStatus ?p = patched_proofDeliveryStatus patch"
    "patched_proofDeliveryClaimId ?p = patched_proofDeliveryClaimId patch"
    by (simp_all add: patched_append)
  have frame: "checkoutSparkRouterBinding ?m = checkoutSparkRouterBinding r"
    "priorExpiredManualInvoices ?m = priorExpiredManualInvoices r"
    "paymentClaimId ?m = paymentClaimId r \<or> paymentClaimId ?m = None"
    using assms(2) worker_patch_frame [of patch r] by (auto simp: merge_fields worker_patch_def)
  have pay: "paymentStatus ?m = or_else (patched_paymentStatus patch) (paymentStatus r)"
    by (simp only: merge_fields apply_patch_paymentStatus reads)
  have proof_status: "proofDeliveryStatus ?m = or_else (patched_proofDeliveryStatus patch) (proofDeliveryStatus r)"
    by (simp only: merge_fields apply_patch_proofDeliveryStatus reads)
  have owner: "proofDeliveryClaimId ?m = (if releases_proof_claim patch then None
      else or_else (patched_proofDeliveryClaimId patch) (proofDeliveryClaimId r))"
    by (simp only: merge_fields apply_patch_proofDeliveryClaimId reads releases_proof_claim_def)
  have move: "proof_move (view r) (view ?m)"
    using assms(2) unfolding proof_move_def view_simps proof_status owner worker_patch_def releases_proof_claim_def
    by (auto split: option.splits)
  have "protocol_step (view r) (view ?m)"
    by (rule work) (use r(2) frame pay proof_status paid sent move in
      \<open>auto simp: claim_held_def keeps_frame_def keeps_sent_def split: option.splits\<close>)
  then show ?thesis unfolding e by (intro follows_put [OF assms(1) r(1)]) simp_all
qed

lemma fence_follows:
  assumes "well_keyed_database d"
  shows "follows d (snd (fenceClaimedOrderLifecyclePaymentAuthority select i c merchant now d))"
  using assms
  by (auto simp: fenceClaimedOrderLifecyclePaymentAuthority_def Let_def claim_held_def merge_fields release_defs
      frame_defs split: option.splits intro!: follows_put work)

lemma renewOrderLifecyclePaymentClaim_follows:
  assumes "well_keyed_database d"
  shows "follows d (snd (renewOrderLifecyclePaymentClaim i c now d))"
  unfolding renewOrderLifecyclePaymentClaim_def
  by (rule patchClaimed_follows [OF assms]) (simp add: worker_patch_def)

lemma recordObservedOrderPaymentReceipt_follows:
  assumes "well_keyed_database d"
  shows "follows d (snd (recordObservedOrderPaymentReceipt i req receipt requested claim now d))"
  using assms
  by (auto simp: recordObservedOrderPaymentReceipt_def answer_defs Let_def observed_proof_claim_def merge_fields
      release_defs frame_defs split: option.splits intro!: follows_put settle)

lemma doubt_or_unseen:
  "w = v \<or> (v_payment v \<noteq> Paid \<and> w = v\<lparr>v_payment := Ambiguous\<rparr>) \<Longrightarrow> protocol_step v w"
  by (auto intro: unseen doubt)

lemma recordOrderPaymentReceiptTimeout_follows:
  assumes "well_keyed_database d"
  shows "follows d (snd (recordOrderPaymentReceiptTimeout i req now d))"
  using assms
  by (auto simp: recordOrderPaymentReceiptTimeout_def answer_defs merge_fields release_defs view_def
      split: option.splits intro!: follows_put doubt_or_unseen)

lemma recordOrderPaymentProofDelivery_follows:
  assumes "well_keyed_database d"
  shows "follows d (snd (recordOrderPaymentProofDelivery i status notice error claim now d))"
  using assms
  by (cases status; cases notice; cases error)
    (auto simp: recordOrderPaymentProofDelivery_def answer_defs merge_fields release_defs frame_defs
      split: option.splits intro!: follows_put deliver)

lemma claimOrderPaymentProofDelivery_follows:
  assumes "well_keyed_database d"
  shows "follows d (snd (claimOrderPaymentProofDelivery i claim now d))"
  using assms
  by (auto simp: claimOrderPaymentProofDelivery_def answer_defs Let_def merge_fields release_defs frame_defs
      split: option.splits intro!: follows_put deliver)

lemma renewOrderPaymentProofDeliveryClaim_follows:
  assumes "well_keyed_database d"
  shows "follows d (snd (renewOrderPaymentProofDeliveryClaim i claim now d))"
  using assms
  by (auto simp: renewOrderPaymentProofDeliveryClaim_def answer_defs Let_def merge_fields release_defs frame_defs
      split: option.splits intro!: follows_put deliver)

lemma payment_hash_of_nothing: "decodeLightningInvoicePaymentHash [] = None"
  by (simp add: decodeLightningInvoicePaymentHash_def parseBolt11Invoice_def normalizeLightningInvoice_def
      isValidBech32Invoice_def toLowerCase_def Let_def)

text \<open>What the admission of a merchant invoice checks.\<close>

lemma if_None_Some: "(if b then None else Some x) = Some y \<longleftrightarrow> \<not> b \<and> y = x"
  "(if b then None else if c then None else Some x) = Some y \<longleftrightarrow> \<not> b \<and> \<not> c \<and> y = x"
  by auto

lemma admitted_facts:
  assumes "admitProjectedMerchantInvoice net lc r mi now allow = Some a"
  shows "checkoutSparkRouterBinding r = None" "effective_signer r = None" "checkoutMode r = PayLater"
    "orderDeliveryStatus r = DeliverySent" "phase r \<noteq> Completed"
    "proofDeliveryStatus r = ProofNotStarted" "\<not> truthy (paymentClaimId r)"
    "buyerPubkey r = mi_buyerPubkey mi" "merchantPubkey r = mi_merchantPubkey mi" "totalMsats r = mi_totalMsats mi"
    "admitted_invoice a = normalizeLightningInvoice (mi_invoice mi)"
    "admitted_expiresAt a = mi_expiresAt mi" "is_safe (mi_expiresAt mi)" "0 < mi_expiresAt mi"
    "is_hex64 (admitted_paymentHash a)"
    "decodeLightningInvoicePaymentHash (admitted_invoice a) = Some (admitted_paymentHash a)"
    "ok (validateLightningInvoiceForPayment net (admitted_invoice a) (totalMsats r) None (now div 1000) allow)"
    "invoice_expiresAt (decodeLightningInvoiceMetadata (admitted_invoice a)) = Some (admitted_expiresAt a)"
    "alreadyBound a \<longleftrightarrow> same_active_merchant_invoice r (admitted_invoice a) (admitted_paymentHash a) (admitted_expiresAt a)
       \<and> map_option toLowerCase (paymentHash r) = Some (admitted_paymentHash a)
       \<and> invoiceExpiresAt r = Some (admitted_expiresAt a)"
  using assms unfolding admitProjectedMerchantInvoice_def Let_def if_None_Some de_Morgan_disj not_not linorder_not_le
  by - (elim conjE, ((simp (no_asm_simp); fail) | simp))+

lemma admitted_choices:
  assumes "admitProjectedMerchantInvoice net lc r mi now allow = Some a"
  shows "phase r = Cancelled \<longrightarrow> hasEffectiveMerchantInvoiceReopenEvidence lc r (reopenEvidence mi)"
    "awaiting_merchant_invoice r
     \<or> same_active_merchant_invoice r (admitted_invoice a) (admitted_paymentHash a) (admitted_expiresAt a)"
    "toLowerCase (admitted_paymentHash a) = admitted_paymentHash a"
  using assms unfolding admitProjectedMerchantInvoice_def Let_def if_None_Some by auto

lemma admitted_invoice_nonempty:
  assumes "admitProjectedMerchantInvoice net lc r mi now allow = Some a"
  shows "admitted_invoice a \<noteq> []"
  using admitted_facts(16) [OF assms] payment_hash_of_nothing by auto

lemma admitted_payment_status:
  assumes "admitProjectedMerchantInvoice net lc r mi now allow = Some a"
  shows "paymentStatus r = PaymentNotStarted \<or> paymentStatus r = PaymentManualRequired"
  using admitted_choices(2) [OF assms] by (auto simp: awaiting_merchant_invoice_def same_active_merchant_invoice_def)

lemma bind_step:
  assumes a: "admitProjectedMerchantInvoice net lc r mi now allow = Some a"
  shows "protocol_step (view r) (view (mergeOrderLifecyclePatch r
    [Set_invoiceStatus InvoiceManualRequired, Set_paymentStatus PaymentManualRequired,
     Set_invoice (Some (admitted_invoice a)), Set_paymentHash (Some (admitted_paymentHash a)),
     Set_invoiceExpiresAt (Some (admitted_expiresAt a)), Set_lastError None] now))"
  by (rule bind) (use admitted_facts(1,6,7) [OF a] admitted_invoice_nonempty [OF a] admitted_payment_status [OF a] in
    \<open>auto simp: merge_fields release_defs frame_defs\<close>)

lemma bindMerchantInvoiceForPayment_follows:
  assumes "well_keyed_database d"
  shows "follows d (snd (bindMerchantInvoiceForPayment net lc i mi now d))"
  using assms
  by (auto simp: bindMerchantInvoiceForPayment_def answer_defs
      split: option.splits if_splits intro!: follows_put bind_step)

lemma external_proof_step:
  assumes "checkoutSparkRouterBinding r = None" "proofDeliveryStatus r = ProofNotStarted"
    "paymentStatus r \<in> {PaymentNotStarted, PaymentManualRequired, PaymentFailed}"
  shows "protocol_step (view r) (view (mergeOrderLifecyclePatch r (external_proof_patch admitted prior c now) now))"
  by (rule prove [where c = c])
    (use assms in \<open>auto simp: merge_fields external_proof_patch_def release_defs frame_defs split: option.split\<close>)

lemma active_replacement_status:
  "active_replacement_admissible net r evidence now \<Longrightarrow>
   paymentStatus r = PaymentFailed \<or> paymentStatus r = PaymentManualRequired"
  by (auto simp: active_replacement_admissible_def Let_def)

lemma claimExternalOrderPaymentProof_follows:
  assumes "well_keyed_database d"
  shows "follows d (snd (claimExternalOrderPaymentProof net lc i c mi prior authorize now d))"
  using assms
  by (auto simp: claimExternalOrderPaymentProof_def answer_defs Let_def bind_eq_Some_conv
      dest: admitted_payment_status active_replacement_status
      split: option.splits intro!: follows_put external_proof_step)

lemma recordOrderPaymentWalletSuccessRecovery_follows:
  assumes "well_keyed_database d" "ws_invoice input \<noteq> []"
  shows "follows d (snd (recordOrderPaymentWalletSuccessRecovery i input now d))"
  using assms
  by (auto simp: recordOrderPaymentWalletSuccessRecovery_def wallet_success_proof_status_def Let_def answer_defs
      merge_fields release_defs frame_defs split: option.splits intro!: follows_put settle)

subsection \<open>Properties\<close>

text \<open>C10. A document that lost its claim cannot write.  With another claim id, an empty one, or a closed
  order, the fenced patch, the renewal and the authority fence leave the database as it is.  A patch
  that is applied keeps a paid payment paid and a sent proof sent, and it renews the lease for 15
  seconds, or gives up claim and lease together.\<close>

theorem stale_claim_cannot_write:
  assumes row: "getOrderLifecycle i d = Some r"
  shows "(\<not> claim_held c r \<or> phase r = Cancelled \<or> phase r = Completed \<longrightarrow>
            patchClaimedOrderLifecyclePayment i c patch now d = refuse ClaimMismatch r d
            \<and> renewOrderLifecyclePaymentClaim i c now d = refuse ClaimMismatch r d
            \<and> snd (fenceClaimedOrderLifecyclePaymentAuthority select i c merchant now d) = d)
    \<and> (\<forall>r'. op_status (fst (patchClaimedOrderLifecyclePayment i c patch now d)) = Patched
          \<and> op_lifecycle (fst (patchClaimedOrderLifecyclePayment i c patch now d)) = Some r' \<longrightarrow>
            paymentClaimId r = Some c \<and> c \<noteq> []
            \<and> (paymentStatus r = Paid \<longrightarrow> paymentStatus r' = Paid)
            \<and> (proofDeliveryStatus r = ProofSent \<longrightarrow> proofDeliveryStatus r' = ProofSent)
            \<and> (patched_paymentClaimId patch \<noteq> Some None \<longrightarrow> paymentClaimLeaseExpiresAt r' = Some (now + 15000))
            \<and> (patched_paymentClaimId patch = Some None \<longrightarrow>
                 paymentClaimId r' = None \<and> paymentClaimLeaseExpiresAt r' = None))"
proof (intro conjI impI allI)
  let ?out = "patchClaimedOrderLifecyclePayment i c patch now d"
  fix r'
  assume patched: "op_status (fst ?out) = Patched \<and> op_lifecycle (fst ?out) = Some r'"
  let ?p = "patch @ (if releases_payment_claim patch then []
      else [Set_paymentClaimLeaseExpiresAt (Some (now + ORDER_PAYMENT_CLAIM_LEASE_MS))])"
  from patched row have r': "r' = mergeOrderLifecyclePatch r ?p now" and held: "claim_held c r"
    and paid: "paymentStatus r = Paid \<longrightarrow> patched_paymentStatus patch \<in> {None, Some Paid}"
    and sent: "proofDeliveryStatus r = ProofSent \<longrightarrow> patched_proofDeliveryStatus patch \<in> {None, Some ProofSent}"
    by (auto simp: patchClaimedOrderLifecyclePayment_def answer_defs op_result_def split: if_splits)
  show "paymentClaimId r = Some c" "c \<noteq> []" using held by (simp_all add: claim_held_def)
  have reads: "patched_paymentStatus ?p = patched_paymentStatus patch"
    "patched_proofDeliveryStatus ?p = patched_proofDeliveryStatus patch"
    "patched_paymentClaimId ?p = patched_paymentClaimId patch"
    by (simp_all add: patched_append)
  show "paymentStatus r' = Paid" if "paymentStatus r = Paid"
    using paid that by (auto simp only: r' merge_fields apply_patch_paymentStatus reads or_else.simps)
  show "proofDeliveryStatus r' = ProofSent" if "proofDeliveryStatus r = ProofSent"
    using sent that by (auto simp only: r' merge_fields apply_patch_proofDeliveryStatus reads or_else.simps)
  show "paymentClaimLeaseExpiresAt r' = Some (now + 15000)" if "patched_paymentClaimId patch \<noteq> Some None"
    using that by (simp add: r' merge_fields releases_payment_claim_def reads patched_append lease_constants)
  show "paymentClaimId r' = None" "paymentClaimLeaseExpiresAt r' = None" if "patched_paymentClaimId patch = Some None"
    using that by (simp_all add: r' merge_fields releases_payment_claim_def apply_patch_paymentClaimId)
qed (use row in \<open>auto simp: patchClaimedOrderLifecyclePayment_def renewOrderLifecyclePaymentClaim_def
      fenceClaimedOrderLifecyclePaymentAuthority_def\<close>)

theorem stale_claim_cannot_write_witness:
  "patchClaimedOrderLifecyclePayment ''order-1'' ''stale'' [Set_paymentStatus Paid] 5
     (sample_database (sample_order\<lparr>paymentClaimId := Some ''owner''\<rparr>))
   = refuse ClaimMismatch (sample_order\<lparr>paymentClaimId := Some ''owner''\<rparr>)
       (sample_database (sample_order\<lparr>paymentClaimId := Some ''owner''\<rparr>))"
proof -
  let ?r = "sample_order\<lparr>paymentClaimId := Some ''owner''\<rparr>"
  have "getOrderLifecycle ''order-1'' (sample_database ?r) = Some ?r" by (simp add: sample_order_def)
  from stale_claim_cannot_write [OF this, of "''stale''" "[Set_paymentStatus Paid]" 5 "\<lambda>_ _. ()" "[]"] show ?thesis
    by (simp add: claim_held_def)
qed

text \<open>C13. A bound merchant invoice pays this order.  When the binding reports success, the order is a
  pay-later order between the two parties, not routed, delivered, not completed and unclaimed, and the
  stored invoice is the offered one: it encodes exactly the order total for the deployment's network,
  commits to the stored payment hash, has the announced expiry, and had not expired; payment waits
  for the buyer.  A cancelled order is bound only on evidence that it was reopened.\<close>

theorem bound_merchant_invoice_pays_order:
  assumes row: "getOrderLifecycle i d = Some r" and key: "orderId r = i"
    and bound: "op_status (fst (bindMerchantInvoiceForPayment net lc i mi now d)) = Bound"
  shows "\<exists>r' inv h. getOrderLifecycle i (snd (bindMerchantInvoiceForPayment net lc i mi now d)) = Some r'
    \<and> inv = normalizeLightningInvoice (mi_invoice mi)
    \<and> (invoice r' = Some inv
       \<or> (r' = r \<and> truthy (invoice r) \<and> toLowerCase (normalizeLightningInvoice (the (invoice r))) = toLowerCase inv))
    \<and> map_option toLowerCase (paymentHash r') = Some h \<and> is_hex64 h
    \<and> decodeLightningInvoicePaymentHash inv = Some h
    \<and> msats (decodeLightningInvoiceMetadata inv) = Some (totalMsats r') \<and> totalMsats r' = mi_totalMsats mi
    \<and> isInvoiceCompatibleWithCurrentNetwork net inv
    \<and> invoiceExpiresAt r' = Some (mi_expiresAt mi) \<and> now div 1000 < mi_expiresAt mi
    \<and> invoiceStatus r' = InvoiceManualRequired \<and> paymentStatus r' = PaymentManualRequired
    \<and> checkoutMode r' = PayLater \<and> checkoutSparkRouterBinding r' = None
    \<and> \<not> truthy (paymentClaimId r')
    \<and> buyerPubkey r' = mi_buyerPubkey mi \<and> merchantPubkey r' = mi_merchantPubkey mi
    \<and> orderDeliveryStatus r' = DeliverySent \<and> phase r \<noteq> Completed
    \<and> (phase r = Cancelled \<longrightarrow> hasEffectiveMerchantInvoiceReopenEvidence lc r (reopenEvidence mi))"
proof -
  from bound row obtain a where a: "admitProjectedMerchantInvoice net lc r mi now False = Some a"
    by (auto simp: bindMerchantInvoiceForPayment_def split: option.splits)
  let ?m = "mergeOrderLifecyclePatch r
    [Set_invoiceStatus InvoiceManualRequired, Set_paymentStatus PaymentManualRequired,
     Set_invoice (Some (admitted_invoice a)), Set_paymentHash (Some (admitted_paymentHash a)),
     Set_invoiceExpiresAt (Some (admitted_expiresAt a)), Set_lastError None] now"
  note facts = admitted_facts [OF a]
  have valid: "isInvoiceCompatibleWithCurrentNetwork net (admitted_invoice a)"
    "msats (decodeLightningInvoiceMetadata (admitted_invoice a)) = Some (totalMsats r)"
    "now div 1000 < admitted_expiresAt a"
    using facts(17,18) by (auto simp: validation_ok)
  have low: "toLowerCase (admitted_paymentHash a) = admitted_paymentHash a"
    by (rule admitted_choices(3) [OF a])
  show ?thesis
  proof (cases "alreadyBound a")
    case True
    then have "snd (bindMerchantInvoiceForPayment net lc i mi now d) = d"
      using row a by (simp add: bindMerchantInvoiceForPayment_def)
    moreover have same: "same_active_merchant_invoice r (admitted_invoice a) (admitted_paymentHash a) (admitted_expiresAt a)"
      "map_option toLowerCase (paymentHash r) = Some (admitted_paymentHash a)" "invoiceExpiresAt r = Some (admitted_expiresAt a)"
      using True facts(19) by simp_all
    ultimately show ?thesis
      using row valid same facts admitted_choices(1) [OF a]
      by (intro exI [of _ r] exI [of _ "admitted_invoice a"] exI [of _ "admitted_paymentHash a"])
        (simp add: same_active_merchant_invoice_def)
  next
    case False
    then have "snd (bindMerchantInvoiceForPayment net lc i mi now d) = putOrderLifecycle ?m d"
      using row a by (simp add: bindMerchantInvoiceForPayment_def)
    then show ?thesis
      using key valid low facts admitted_choices(1) [OF a]
      by (intro exI [of _ ?m] exI [of _ "admitted_invoice a"] exI [of _ "admitted_paymentHash a"])
        (simp add: store_simps merge_fields)
  qed
qed

definition sample_offer :: ProjectedMerchantInvoiceClaim where
  "sample_offer =
     \<lparr>mi_buyerPubkey = ''buyer'', mi_merchantPubkey = ''shop'', mi_totalMsats = 1000000,
      mi_invoice = sample_invoice, mi_paymentHash = replicate 64 (CHR ''0''), mi_expiresAt = 3600,
      reopenEvidence = None\<rparr>"

definition sample_pay_later :: OrderLifecycle where
  "sample_pay_later = sample_order\<lparr>checkoutMode := PayLater\<rparr>"

lemma sample_offer_admitted:
  "\<exists>a. admitProjectedMerchantInvoice ''mainnet'' lc sample_pay_later sample_offer 3599000 False = Some a
     \<and> \<not> alreadyBound a"
proof -
  let ?h = "replicate 64 (CHR ''0'')"
  have r: "totalMsats sample_pay_later = 1000000" "invoice sample_pay_later = None"
    by (simp_all add: sample_pay_later_def sample_order_def)
  have mi: "mi_invoice sample_offer = sample_invoice" "mi_paymentHash sample_offer = ?h" "mi_expiresAt sample_offer = 3600"
    "reopenEvidence sample_offer = None"
    by (simp_all add: sample_offer_def)
  have h: "toLowerCase (js_trim ?h) = ?h" "is_hex64 ?h"
    by (simp_all add: toLowerCase_def js_trim_def is_js_space_def char_lower_def char_code_def is_hex64_def Let_def
        is_lower_hex_def is_digit_def numeral_eq_Suc)
  have v: "ok (validateLightningInvoiceForPayment ''mainnet'' sample_invoice 1000000 None 3599 False)"
    by (simp add: validation_ok isInvoiceCompatibleWithCurrentNetwork_def getExpectedLightningNetworks_def
        sample_network sample_amount sample_expiry)
  have safe: "is_safe 3600" by (simp add: is_safe_def MAX_SAFE_INTEGER_def)
  show ?thesis
    unfolding admitProjectedMerchantInvoice_def Let_def mi h sample_normal sample_hash r
    using v h safe
    by (simp add: sample_expiry same_active_merchant_invoice_def)
      (simp add: sample_pay_later_def sample_offer_def sample_order_def effective_signer_def awaiting_merchant_invoice_def)
qed

theorem bound_merchant_invoice_pays_order_witness:
  "\<exists>r'. getOrderLifecycle ''order-1'' (snd (bindMerchantInvoiceForPayment ''mainnet'' (\<lambda>_ _. 0) ''order-1'' sample_offer
       3599000 (sample_database sample_pay_later))) = Some r' \<and> paymentStatus r' = PaymentManualRequired"
proof -
  have row: "getOrderLifecycle ''order-1'' (sample_database sample_pay_later) = Some sample_pay_later"
    and key: "orderId sample_pay_later = ''order-1''"
    by (simp_all add: sample_pay_later_def sample_order_def)
  have "op_status (fst (bindMerchantInvoiceForPayment ''mainnet'' (\<lambda>_ _. 0) ''order-1'' sample_offer 3599000
      (sample_database sample_pay_later))) = Bound"
    using sample_offer_admitted [of "\<lambda>_ _. 0"] row by (auto simp: bindMerchantInvoiceForPayment_def)
  from bound_merchant_invoice_pays_order [OF row key this] show ?thesis by blast
qed

end
