(* ===== verification/Lifecycle_Recovery.thy ===== *)
theory Lifecycle_Recovery
  imports Lifecycle_Delivery
begin

text \<open>
  Recovery in \<open>order-lifecycle.ts\<close>: the reconciliation of interrupted payments, of interrupted proof
  deliveries and of rows from before claim tokens, the unfenced patch, the listing and the
  pruning of guest data.
\<close>

subsection \<open>Conclusive evidence\<close>

definition isMatchingPaymentAttemptForLifecycle :: "StoredPaymentAttempt option \<Rightarrow> OrderLifecycle \<Rightarrow> bool" where
  "isMatchingPaymentAttemptForLifecycle attemptOpt lifecycle \<longleftrightarrow>
     (case attemptOpt of
        None \<Rightarrow> False
      | Some attempt \<Rightarrow>
          truthy (invoice lifecycle)
          \<and> attempt_orderId attempt = orderId lifecycle
          \<and> attempt_buyerPubkey attempt = buyerPubkey lifecycle
          \<and> attempt_merchantPubkey attempt = merchantPubkey lifecycle
          \<and> attempt_amountMsats attempt = totalMsats lifecycle
          \<and> attempt_currency attempt = ''SATS''
          \<and> attempt_invoice attempt = invoice lifecycle)"

definition isConclusivePaymentAttemptForLifecycle :: "StoredPaymentAttempt option \<Rightarrow> OrderLifecycle \<Rightarrow> bool" where
  "isConclusivePaymentAttemptForLifecycle attemptOpt lifecycle \<longleftrightarrow>
     isMatchingPaymentAttemptForLifecycle attemptOpt lifecycle
     \<and> (case attemptOpt of
          None \<Rightarrow> False
        | Some attempt \<Rightarrow>
            truthy (attempt_preimage attempt)
            \<or> (truthy (attempt_zapReceiptId attempt)
               \<and> truthy (attempt_zapRequestId attempt)
               \<and> attempt_zapRequestId attempt = zapRequestId lifecycle))"

definition hasConclusiveLifecyclePaymentProof :: "OrderLifecycle \<Rightarrow> bool" where
  "hasConclusiveLifecyclePaymentProof lifecycle \<longleftrightarrow>
     truthy (invoice lifecycle)
     \<and> (truthy (preimage lifecycle)
        \<or> (truthy (zapReceiptId lifecycle) \<and> truthy (zapRequestId lifecycle)))"

subsection \<open>Interrupted payments\<close>

definition attempt_proof_status :: "StoredPaymentAttempt \<Rightarrow> AttemptProofStatus" where
  "attempt_proof_status attempt =
     (if attempt_proofDeliveryStatus attempt = AttemptSent then AttemptSent else AttemptRetryNeeded)"

definition attempt_evidence :: "StoredPaymentAttempt \<Rightarrow> lifecycle_patch" where
  "attempt_evidence attempt =
     [Set_invoiceStatus Received, Set_paymentStatus Paid,
      Set_proofDeliveryStatus (proof_status_of (attempt_proof_status attempt)),
      Set_invoice (attempt_invoice attempt), Set_paymentHash (attempt_paymentHash attempt),
      Set_preimage (attempt_preimage attempt), Set_feeMsats (attempt_feeMsats attempt),
      Set_zapRequestId (attempt_zapRequestId attempt)]"

definition restored_patch :: "StoredPaymentAttempt \<Rightarrow> lifecycle_patch" where
  "restored_patch attempt =
     [Set_paymentClaimId None] @ attempt_evidence attempt
     @ (if truthy (attempt_zapReceiptId attempt)
        then [Set_zapReceiptId (attempt_zapReceiptId attempt), Set_zapReceiptStatus Observed]
        else [])
     @ [Set_lastError None]"

definition settled_attempt :: "StoredPaymentAttempt \<Rightarrow> int \<Rightarrow> StoredPaymentAttempt" where
  "settled_attempt attempt now =
     attempt\<lparr>attempt_proofDeliveryStatus := attempt_proof_status attempt, attempt_updatedAt := now\<rparr>"

definition interrupted_before_wallet :: "OrderLifecycle \<Rightarrow> StoredPaymentAttempt option \<Rightarrow> bool" where
  "interrupted_before_wallet lifecycle attemptOpt \<longleftrightarrow>
     invoiceStatus lifecycle = Requesting
     \<and> (paymentStatus lifecycle = PaymentNotStarted \<or> paymentStatus lifecycle = Paying)
     \<and> \<not> truthy (invoice lifecycle)
     \<and> \<not> truthy (preimage lifecycle)
     \<and> \<not> truthy (paymentHash lifecycle)
     \<and> \<not> truthy (zapReceiptId lifecycle)
     \<and> attemptOpt = None"

definition invoice_may_have_reached_wallet :: "OrderLifecycle \<Rightarrow> bool" where
  "invoice_may_have_reached_wallet lifecycle \<longleftrightarrow>
     truthy (invoice lifecycle)
     \<and> (invoiceStatus lifecycle = Requesting \<or> invoiceStatus lifecycle = Received)
     \<and> (paymentStatus lifecycle = PaymentNotStarted \<or> paymentStatus lifecycle = Paying)"

definition before_wallet_patch :: lifecycle_patch where
  "before_wallet_patch =
     [Set_paymentClaimId None, Set_invoiceStatus InvoiceFailed, Set_paymentStatus PaymentFailed,
      Set_proofDeliveryStatus ProofNotStarted, Set_zapReceiptStatus NotApplicable,
      Set_invoice None, Set_paymentHash None, Set_preimage None, Set_feeMsats None,
      Set_zapRequestId None, Set_zapRequestCreatedAt None, Set_zapReceiptId None,
      Set_zapReceiptRelayUrls None, Set_zapLnurl None, Set_zapReceiptPubkey None,
      Set_invoiceExpiresAt None, Set_zapReceiptObservationDeadline None,
      Set_lastError (Some ORDER_PAYMENT_INTERRUPTED_BEFORE_WALLET_ERROR)]"

definition reconcileInterruptedOrderPayment ::
    "js_string \<Rightarrow> js_string \<Rightarrow> int \<Rightarrow> database \<Rightarrow> OrderOpResult \<times> database" where
  "reconcileInterruptedOrderPayment i claimId now d =
     (case getOrderLifecycle i d of
        None \<Rightarrow> missing d
      | Some lifecycle \<Rightarrow>
          if \<not> claim_held claimId lifecycle then refuse ClaimMismatch lifecycle d
          else if (case paymentClaimLeaseExpiresAt lifecycle of None \<Rightarrow> False | Some t \<Rightarrow> t > now)
          then refuse ClaimActive lifecycle d
          else let attemptOpt = getPaymentAttempt i d
          in if isConclusivePaymentAttemptForLifecycle attemptOpt lifecycle
             then let attempt = the attemptOpt;
                      restored = mergeOrderLifecyclePatch lifecycle (restored_patch attempt) now
                  in (op_result RestoredPaid (Some restored),
                      putPaymentAttempt (settled_attempt attempt now) (putOrderLifecycle restored d))
             else if hasConclusiveLifecyclePaymentProof lifecycle
             then store RestoredPaid
               (mergeOrderLifecyclePatch lifecycle
                  [Set_paymentClaimId None, Set_invoiceStatus Received, Set_paymentStatus Paid,
                   Set_proofDeliveryStatus
                     (if proofDeliveryStatus lifecycle = ProofSent then ProofSent else ProofRetryNeeded),
                   Set_lastError None] now) d
             else if interrupted_before_wallet lifecycle attemptOpt
             then store RecoveredBeforePayment (mergeOrderLifecyclePatch lifecycle before_wallet_patch now) d
             else if invoice_may_have_reached_wallet lifecycle
             then store MarkedAmbiguous
               (mergeOrderLifecyclePatch lifecycle
                  [Set_paymentClaimId None, Set_invoiceStatus Received, Set_paymentStatus Ambiguous,
                   Set_lastError (Some ORDER_PAYMENT_INTERRUPTED_AFTER_WALLET_ERROR)] now) d
             else refuse NotInterrupted lifecycle d)"

subsection \<open>Interrupted proof deliveries\<close>

definition reconcileInterruptedOrderProofDelivery ::
    "js_string \<Rightarrow> js_string \<Rightarrow> int \<Rightarrow> database \<Rightarrow> OrderOpResult \<times> database" where
  "reconcileInterruptedOrderProofDelivery i claimId now d =
     (case getOrderLifecycle i d of
        None \<Rightarrow> missing d
      | Some lifecycle \<Rightarrow>
          if paymentStatus lifecycle \<noteq> Paid \<or> proofDeliveryStatus lifecycle \<noteq> ProofPending
             \<or> \<not> truthy (proofDeliveryClaimId lifecycle)
          then refuse NotInterrupted lifecycle d
          else if claimId = [] \<or> proofDeliveryClaimId lifecycle \<noteq> Some claimId
          then refuse ClaimMismatch lifecycle d
          else if live_until (proofDeliveryClaimLeaseExpiresAt lifecycle) now
          then refuse ClaimActive lifecycle d
          else if paymentClaimId lifecycle = proofDeliveryClaimId lifecycle
                  \<and> live_until (paymentClaimLeaseExpiresAt lifecycle) now
          then refuse ClaimActive lifecycle d
          else let attemptOpt = getPaymentAttempt i d;
                   proofWasSent = isMatchingPaymentAttemptForLifecycle attemptOpt lifecycle
                     \<and> map_option attempt_proofDeliveryStatus attemptOpt = Some AttemptSent
          in store Recovered
            (mergeOrderLifecyclePatch lifecycle
               [Set_paymentClaimId None, Set_proofDeliveryClaimId None,
                Set_proofDeliveryStatus (if proofWasSent then ProofSent else ProofRetryNeeded)] now) d)"

subsection \<open>Rows without claim tokens\<close>

definition isLegacyInterruptedOrderPayment :: "OrderLifecycle \<Rightarrow> bool" where
  "isLegacyInterruptedOrderPayment lifecycle \<longleftrightarrow>
     (paymentStatus lifecycle = Paying
      \<and> (invoiceStatus lifecycle = Requesting \<or> invoiceStatus lifecycle = Received))
     \<or> (paymentStatus lifecycle = Paid
        \<and> proofDeliveryStatus lifecycle = ProofPending
        \<and> \<not> truthy (proofDeliveryClaimId lifecycle))"

definition retry_paid_patch :: lifecycle_patch where
  "retry_paid_patch =
     [Set_invoiceStatus Received, Set_paymentStatus Paid, Set_proofDeliveryStatus ProofRetryNeeded,
      Set_lastError None]"

definition reconcileLegacyInterruptedOrderPayment ::
    "js_string \<Rightarrow> int \<Rightarrow> database \<Rightarrow> OrderOpResult \<times> database" where
  "reconcileLegacyInterruptedOrderPayment i now d =
     (case getOrderLifecycle i d of
        None \<Rightarrow> missing d
      | Some lifecycle \<Rightarrow>
          if truthy (paymentClaimId lifecycle) then refuse NotLegacyInterrupted lifecycle d
          else if truthy (proofDeliveryClaimId lifecycle) then refuse NotLegacyInterrupted lifecycle d
          else if \<not> isLegacyInterruptedOrderPayment lifecycle then refuse NotLegacyInterrupted lifecycle d
          else if now - updatedAt lifecycle < LEGACY_ORDER_PAYMENT_RECOVERY_GRACE_MS
          then refuse NotStale lifecycle d
          else let attemptOpt = getPaymentAttempt i d
          in if isConclusivePaymentAttemptForLifecycle attemptOpt lifecycle
             then let attempt = the attemptOpt;
                      restored = mergeOrderLifecyclePatch lifecycle
                        (attempt_evidence attempt @ [Set_lastError None]) now
                  in (op_result RestoredPaid (Some restored),
                      putPaymentAttempt (settled_attempt attempt now) (putOrderLifecycle restored d))
             else if hasConclusiveLifecyclePaymentProof lifecycle
             then store RestoredPaid (mergeOrderLifecyclePatch lifecycle retry_paid_patch now) d
             else if paymentStatus lifecycle = Paid \<and> proofDeliveryStatus lifecycle = ProofPending
                     \<and> truthy (invoice lifecycle) \<and> effective_signer lifecycle = None
             then store RestoredPaid (mergeOrderLifecyclePatch lifecycle retry_paid_patch now) d
             else if \<not> truthy (invoice lifecycle)
             then store RecoveredBeforePayment
               (mergeOrderLifecyclePatch lifecycle
                  [Set_invoiceStatus InvoiceFailed, Set_paymentStatus PaymentFailed,
                   Set_proofDeliveryStatus ProofNotStarted,
                   Set_lastError (Some ORDER_PAYMENT_INTERRUPTED_BEFORE_WALLET_ERROR)] now) d
             else store MarkedAmbiguous
               (mergeOrderLifecyclePatch lifecycle
                  [Set_invoiceStatus Received, Set_paymentStatus Ambiguous,
                   Set_lastError (Some ORDER_PAYMENT_INTERRUPTED_AFTER_WALLET_ERROR)] now) d)"

subsection \<open>Patch, list and prune\<close>

definition patchOrderLifecycle ::
    "js_string \<Rightarrow> lifecycle_patch \<Rightarrow> int \<Rightarrow> database \<Rightarrow> OrderLifecycle option \<times> database" where
  "patchOrderLifecycle i patch now d =
     (case getOrderLifecycle i d of
        None \<Rightarrow> (None, d)
      | Some existing \<Rightarrow>
          let merged = mergeOrderLifecyclePatch existing patch now
          in (Some merged, putOrderLifecycle merged d))"

definition listOrderLifecycles :: "js_string \<Rightarrow> database \<Rightarrow> OrderLifecycle list" where
  "listOrderLifecycles buyer d =
     js_sort (\<lambda>a b. updatedAt b - updatedAt a)
       (filter (\<lambda>r. buyerPubkey r = buyer) (table_rows (orderLifecycles d)))"

text \<open>\<open>bulkDelete(orderIds)\<close>, and \<open>where("orderId").anyOf(orderIds).delete()\<close>.\<close>

definition bulkDelete :: "js_string list \<Rightarrow> 'v table \<Rightarrow> 'v table" where
  "bulkDelete ids t = fold table_remove ids t"

definition delete_where :: "('v \<Rightarrow> bool) \<Rightarrow> 'v table \<Rightarrow> 'v table" where
  "delete_where P t = filter (\<lambda>(_, v). \<not> P v) t"

definition pruneExpiredGuestOrderData :: "int \<Rightarrow> int \<Rightarrow> database \<Rightarrow> nat \<times> database" where
  "pruneExpiredGuestOrderData nowMs retentionMs d =
     (let expired = filter (\<lambda>r. isGuestOrderDataExpired r nowMs retentionMs) (table_rows (orderLifecycles d))
      in if expired = [] then (0, d)
         else let orderIds = map orderId expired
         in (length orderIds,
             d\<lparr>orderLifecycles := bulkDelete orderIds (orderLifecycles d),
               paymentAttempts := delete_where (\<lambda>a. attempt_orderId a \<in> set orderIds) (paymentAttempts d),
               orderMessages := delete_where (\<lambda>m. stored_orderId m \<in> set orderIds) (orderMessages d)\<rparr>))"

subsection \<open>Every operation follows the protocol\<close>

lemma conclusive_facts:
  assumes "isConclusivePaymentAttemptForLifecycle attemptOpt r"
  obtains a where "attemptOpt = Some a" "truthy (invoice r)" "attempt_orderId a = orderId r"
    "attempt_amountMsats a = totalMsats r" "attempt_invoice a = invoice r"
    "truthy (attempt_preimage a)
     \<or> (truthy (attempt_zapReceiptId a) \<and> attempt_zapRequestId a = zapRequestId r)"
  using assms
  by (auto simp: isConclusivePaymentAttemptForLifecycle_def isMatchingPaymentAttemptForLifecycle_def split: option.splits)

lemma attempt_proof_cases: "attempt_proof_status a = AttemptSent \<or> attempt_proof_status a = AttemptRetryNeeded"
  by (simp add: attempt_proof_status_def)

lemma restored_step:
  assumes "truthy (paymentClaimId r)" "attempt_invoice a = invoice r"
  shows "protocol_step (view r) (view (mergeOrderLifecyclePatch r (restored_patch a) now))"
  using assms attempt_proof_cases [of a]
  by (intro recover) (auto simp: restored_patch_def attempt_evidence_def merge_fields release_defs frame_defs)

lemma proven_step:
  assumes "truthy (paymentClaimId r)" "s = ProofSent \<or> s = ProofRetryNeeded"
  shows "protocol_step (view r) (view (mergeOrderLifecyclePatch r
    [Set_paymentClaimId None, Set_invoiceStatus Received, Set_paymentStatus Paid,
     Set_proofDeliveryStatus s, Set_lastError None] now))"
  using assms by (intro recover) (auto simp: merge_fields release_defs frame_defs)

lemma before_wallet_step:
  assumes "truthy (paymentClaimId r)" "interrupted_before_wallet r attemptOpt"
  shows "protocol_step (view r) (view (mergeOrderLifecyclePatch r before_wallet_patch now))"
  using assms
  by (intro recover)
    (auto simp: before_wallet_patch_def interrupted_before_wallet_def merge_fields release_defs frame_defs)

lemma ambiguous_step:
  assumes "truthy (paymentClaimId r)" "invoice_may_have_reached_wallet r"
  shows "protocol_step (view r) (view (mergeOrderLifecyclePatch r
    [Set_paymentClaimId None, Set_invoiceStatus Received, Set_paymentStatus Ambiguous,
     Set_lastError (Some e)] now))"
  using assms
  by (intro recover) (auto simp: invoice_may_have_reached_wallet_def merge_fields release_defs frame_defs)

lemma reconcileInterruptedOrderPayment_follows:
  assumes "well_keyed_database d"
  shows "follows d (snd (reconcileInterruptedOrderPayment i claim now d))"
proof (cases "getOrderLifecycle i d")
  case (Some r)
  show ?thesis
  proof (cases "isConclusivePaymentAttemptForLifecycle (getPaymentAttempt i d) r")
    case True
    then obtain a where "getPaymentAttempt i d = Some a" "attempt_invoice a = invoice r" by (rule conclusive_facts)
    with True Some assms show ?thesis
      by (auto simp: reconcileInterruptedOrderPayment_def answer_defs Let_def claim_held_def
          intro!: follows_put_attempt follows_put restored_step)
  next
    case False
    with Some assms show ?thesis
      by (auto simp: reconcileInterruptedOrderPayment_def answer_defs Let_def claim_held_def
          simp del: if_split split: if_split_asm
          intro!: follows_put proven_step before_wallet_step ambiguous_step)
  qed
qed (use assms in \<open>simp add: reconcileInterruptedOrderPayment_def answer_defs\<close>)

lemma reconcileInterruptedOrderProofDelivery_follows:
  assumes "well_keyed_database d"
  shows "follows d (snd (reconcileInterruptedOrderProofDelivery i claim now d))"
  using assms
  by (auto simp: reconcileInterruptedOrderProofDelivery_def answer_defs Let_def merge_fields release_defs frame_defs
      split: option.splits intro!: follows_put deliver)

lemma legacy_restored_step:
  assumes "\<not> truthy (paymentClaimId r)" "\<not> truthy (proofDeliveryClaimId r)"
    "isLegacyInterruptedOrderPayment r" "attempt_invoice a = invoice r"
  shows "protocol_step (view r)
    (view (mergeOrderLifecyclePatch r (attempt_evidence a @ [Set_lastError None]) now))"
  using assms attempt_proof_cases [of a]
  by (intro recover_legacy)
    (auto simp: isLegacyInterruptedOrderPayment_def attempt_evidence_def merge_fields release_defs frame_defs)

lemma reconcileLegacyInterruptedOrderPayment_follows:
  assumes "well_keyed_database d"
  shows "follows d (snd (reconcileLegacyInterruptedOrderPayment i now d))"
proof (cases "getOrderLifecycle i d")
  case (Some r)
  show ?thesis
  proof (cases "isConclusivePaymentAttemptForLifecycle (getPaymentAttempt i d) r")
    case True
    then obtain a where "getPaymentAttempt i d = Some a" "attempt_invoice a = invoice r" by (rule conclusive_facts)
    with True Some assms show ?thesis
      by (auto simp: reconcileLegacyInterruptedOrderPayment_def answer_defs Let_def
          intro!: follows_put_attempt follows_put legacy_restored_step)
  next
    case False
    with Some assms show ?thesis
      by (auto simp: reconcileLegacyInterruptedOrderPayment_def answer_defs Let_def retry_paid_patch_def
          isLegacyInterruptedOrderPayment_def merge_fields release_defs frame_defs
          intro!: follows_put recover_legacy)
  qed
qed (use assms in \<open>simp add: reconcileLegacyInterruptedOrderPayment_def answer_defs\<close>)

lemma bulkDelete_rows:
  assumes "table_keyed t"
  shows "table_keyed (bulkDelete ids t)" "table_get (bulkDelete ids t) k = (if k \<in> set ids then None else table_get t k)"
  unfolding bulkDelete_def using tbl.remove_all_keyed [OF assms] tbl.get_remove_all [OF assms] by simp_all

lemma pruneExpiredGuestOrderData_follows:
  assumes "well_keyed_database d"
  shows "follows d (snd (pruneExpiredGuestOrderData now retention d))"
  using assms
  by (auto simp: pruneExpiredGuestOrderData_def Let_def follows_def well_keyed_database_def getOrderLifecycle_def
      bulkDelete_rows split: if_splits intro: unseen)

text \<open>The unfenced patch: its callers mark a checkout as recovered, or as not, and note the delivery.\<close>

fun checkout_field :: "field_value \<Rightarrow> bool" where
  "checkout_field (Set_checkoutRecoveryPending _) = True"
| "checkout_field (Set_deliveryNotice _) = True"
| "checkout_field _ = False"

lemma patchOrderLifecycle_follows:
  assumes "well_keyed_database d" "list_all checkout_field patch"
  shows "follows d (snd (patchOrderLifecycle i patch now d))"
proof -
  have v: "view (set_field f r) = view r" if "checkout_field f" for f r
    using that by (cases f) (simp_all add: view_def)
  have a: "view (apply_patch patch r) = view r" for r
    using assms(2) by (induction patch arbitrary: r) (simp_all add: v)
  have none: "\<not> releases_proof_claim patch"
  proof -
    have "patched_proofDeliveryClaimId patch = None" "patched_proofDeliveryStatus patch = None"
      using assms(2) by (induction patch) (auto split: field_value.splits)
    then show ?thesis by (simp add: releases_proof_claim_def)
  qed
  have "view (mergeOrderLifecyclePatch r patch now) = view (apply_patch patch r)" for r
    by (simp add: view_def merge_fields none)
  then show ?thesis
    using assms(1) by (auto simp: patchOrderLifecycle_def Let_def a split: option.splits intro!: follows_put unseen)
qed

subsection \<open>Properties\<close>

definition lease_live :: "int option \<Rightarrow> int \<Rightarrow> bool" where
  "lease_live lease now \<longleftrightarrow> (case lease of None \<Rightarrow> False | Some t \<Rightarrow> t > now)"

text \<open>C6. The recovery of an interrupted payment.  Under a foreign claim id, or while the lease lives,
  nothing is written.  Otherwise the outcome follows the evidence: a conclusive attempt or proof
  restores the order as paid; without an invoice, hash, preimage, receipt and attempt, the payment
  failed before a wallet was asked; an invoice without proof leaves the payment ambiguous.  Every
  write releases the claim with its lease, and an order that holds an invoice is never recovered as
  failed: the buyer cannot be asked to pay twice.\<close>

theorem interrupted_recovery_follows_evidence:
  assumes row: "getOrderLifecycle i d = Some r" and key: "orderId r = i"
  shows "let out = reconcileInterruptedOrderPayment i c now d;
        conclusive = isConclusivePaymentAttemptForLifecycle (getPaymentAttempt i d) r
          \<or> hasConclusiveLifecyclePaymentProof r
   in (\<not> claim_held c r \<longrightarrow> out = refuse ClaimMismatch r d)
    \<and> (claim_held c r \<and> lease_live (paymentClaimLeaseExpiresAt r) now \<longrightarrow> out = refuse ClaimActive r d)
    \<and> (claim_held c r \<and> \<not> lease_live (paymentClaimLeaseExpiresAt r) now \<longrightarrow>
         op_status (fst out) =
           (if conclusive then RestoredPaid
            else if interrupted_before_wallet r (getPaymentAttempt i d) then RecoveredBeforePayment
            else if invoice_may_have_reached_wallet r then MarkedAmbiguous
            else NotInterrupted))
    \<and> (\<forall>r'. getOrderLifecycle i (snd out) = Some r' \<longrightarrow>
         (op_status (fst out) \<in> {RestoredPaid, RecoveredBeforePayment, MarkedAmbiguous} \<longrightarrow>
            paymentClaimId r' = None \<and> paymentClaimLeaseExpiresAt r' = None)
         \<and> (op_status (fst out) = RestoredPaid \<longrightarrow> paymentStatus r' = Paid \<and> truthy (invoice r'))
         \<and> (op_status (fst out) = MarkedAmbiguous \<longrightarrow> paymentStatus r' = Ambiguous)
         \<and> (truthy (invoice r) \<longrightarrow>
              truthy (invoice r') \<and> (paymentStatus r' = PaymentFailed \<longrightarrow> paymentStatus r = PaymentFailed)))"
proof (cases "claim_held c r \<and> \<not> lease_live (paymentClaimLeaseExpiresAt r) now")
  case False
  then show ?thesis
    using row by (auto simp: Let_def reconcileInterruptedOrderPayment_def lease_live_def)
next
  case True
  then have held: "claim_held c r" "\<not> (case paymentClaimLeaseExpiresAt r of None \<Rightarrow> False | Some t \<Rightarrow> t > now)"
    by (simp_all add: lease_live_def)
  show ?thesis
  proof (cases "isConclusivePaymentAttemptForLifecycle (getPaymentAttempt i d) r")
    case conclusive: True
    then obtain a where "getPaymentAttempt i d = Some a" "truthy (invoice r)" "attempt_invoice a = invoice r"
      by (rule conclusive_facts)
    with conclusive True held row key show ?thesis
      by (simp add: reconcileInterruptedOrderPayment_def op_result_def store_simps Let_def
          restored_patch_def attempt_evidence_def merge_fields release_defs)
  next
    case inconclusive: False
    show ?thesis
    proof (cases "hasConclusiveLifecyclePaymentProof r")
      case proven: True
      then have "truthy (invoice r)" by (simp add: hasConclusiveLifecyclePaymentProof_def)
      with inconclusive proven True held row key show ?thesis
        by (simp add: reconcileInterruptedOrderPayment_def store_simps Let_def
            merge_fields release_defs)
    next
      case False
      with inconclusive True held row key show ?thesis
        by (simp add: reconcileInterruptedOrderPayment_def store_simps Let_def
            interrupted_before_wallet_def before_wallet_patch_def invoice_may_have_reached_wallet_def
            merge_fields release_defs)
    qed
  qed
qed

definition sample_interrupted :: OrderLifecycle where
  "sample_interrupted = sample_order
     \<lparr>paymentClaimId := Some ''c'', paymentClaimLeaseExpiresAt := Some 50, invoiceStatus := Received,
      paymentStatus := Paying, invoice := Some ''lnbc1''\<rparr>"

theorem interrupted_recovery_follows_evidence_witness:
  "op_status (fst (reconcileInterruptedOrderPayment ''order-1'' ''c'' 60 (sample_database sample_interrupted)))
     = MarkedAmbiguous"
proof -
  have row: "getOrderLifecycle ''order-1'' (sample_database sample_interrupted) = Some sample_interrupted"
    and key: "orderId sample_interrupted = ''order-1''"
    by (simp_all add: sample_interrupted_def sample_order_def)
  show ?thesis
    using interrupted_recovery_follows_evidence [OF row key, of "''c''" 60] row
    by (simp add: Let_def claim_held_def lease_live_def isConclusivePaymentAttemptForLifecycle_def
        hasConclusiveLifecyclePaymentProof_def interrupted_before_wallet_def invoice_may_have_reached_wallet_def
        sample_interrupted_def sample_order_def)
qed



lemma expired_rows:
  assumes "well_keyed_database d"
  shows "i \<in> orderId ` {r \<in> set (table_rows (orderLifecycles d)). P r} \<longleftrightarrow> (\<exists>r. getOrderLifecycle i d = Some r \<and> P r)"
proof -
  have "r \<in> set (table_rows (orderLifecycles d)) \<longleftrightarrow> getOrderLifecycle (orderId r) d = Some r" for r
    using assms table_get_rows [of "orderLifecycles d" r]
    by (auto simp: well_keyed_database_def getOrderLifecycle_def)
  moreover have "orderId r = i" if "getOrderLifecycle i d = Some r" for r
    using assms that by (simp add: well_keyed_database_def)
  ultimately show ?thesis by (auto simp: image_iff)
qed

text \<open>Pruning removes exactly the expired guest data.  A lifecycle row stays, unchanged, exactly when
  it is not an expired guest row; the payment attempts and the cached messages that stay are those of
  orders without an expired row; profiles are untouched; and a guest order that stays is younger than
  the retention and its session, when it has a deadline, is not over.\<close>

theorem prune_removes_exactly_expired:
  assumes "well_keyed_database d"
  shows "let e = snd (pruneExpiredGuestOrderData now retention d);
        expired = (\<lambda>i. \<exists>r. getOrderLifecycle i d = Some r \<and> isGuestOrderDataExpired r now retention)
   in (\<forall>i. getOrderLifecycle i e = (if expired i then None else getOrderLifecycle i d))
    \<and> paymentAttempts e = filter (\<lambda>(_, a). \<not> expired (attempt_orderId a)) (paymentAttempts d)
    \<and> orderMessages e = filter (\<lambda>(_, m). \<not> expired (stored_orderId m)) (orderMessages d)
    \<and> profiles e = profiles d
    \<and> (\<forall>i r. getOrderLifecycle i e = Some r \<and> buyerIdentityKind r = Some GuestEphemeral \<longrightarrow>
          createdAt r > now - retention
          \<and> (\<forall>n. guestSessionExpiresAt r = Some n \<longrightarrow>
                (\<exists>t. n = JSInt t \<and> now < t \<and> t \<le> createdAt r + 24 * 60 * 60 * 1000)))"
proof -
  let ?E = "filter (\<lambda>r. isGuestOrderDataExpired r now retention) (table_rows (orderLifecycles d))"
  let ?ids = "map orderId ?E"
  let ?e = "snd (pruneExpiredGuestOrderData now retention d)"
  let ?expired = "\<lambda>i. \<exists>r. getOrderLifecycle i d = Some r \<and> isGuestOrderDataExpired r now retention"
  have mem: "i \<in> set ?ids \<longleftrightarrow> ?expired i" for i
    using expired_rows [OF assms, of i "\<lambda>r. isGuestOrderDataExpired r now retention"] by simp
  have keyed: "table_keyed (orderLifecycles d)" using assms by (simp add: well_keyed_database_def)
  have e: "?e = d\<lparr>orderLifecycles := bulkDelete ?ids (orderLifecycles d),
      paymentAttempts := delete_where (\<lambda>a. attempt_orderId a \<in> set ?ids) (paymentAttempts d),
      orderMessages := delete_where (\<lambda>m. stored_orderId m \<in> set ?ids) (orderMessages d)\<rparr>"
  proof (cases "?E = []")
    case True
    then have "set ?ids = {}" by (simp only: list.map list.set)
    then show ?thesis
      by (simp only: pruneExpiredGuestOrderData_def Let_def True if_True snd_conv list.map bulkDelete_def delete_where_def
          fold.simps id_apply list.set empty_iff simp_thms filter_True split_def) simp
  qed (simp add: pruneExpiredGuestOrderData_def Let_def)
  have rows: "getOrderLifecycle i ?e = (if ?expired i then None else getOrderLifecycle i d)" for i
    unfolding e getOrderLifecycle_def using bulkDelete_rows(2) [OF keyed, of ?ids i] mem [of i]
    by (simp add: getOrderLifecycle_def)
  have "createdAt r > now - retention
      \<and> (\<forall>n. guestSessionExpiresAt r = Some n \<longrightarrow>
            (\<exists>t. n = JSInt t \<and> now < t \<and> t \<le> createdAt r + 24 * 60 * 60 * 1000))"
    if "getOrderLifecycle i ?e = Some r" "buyerIdentityKind r = Some GuestEphemeral" for i r
  proof -
    have "\<not> isGuestOrderDataExpired r now retention" using that(1) rows [of i] by (auto split: if_splits)
    then show ?thesis
      using that(2)
      by (auto simp: isGuestOrderDataExpired_def Let_def safe_value_Some GUEST_ORDER_LOCAL_RETENTION_MS_def
          split: option.splits if_splits)
  qed
  moreover have "paymentAttempts ?e = filter (\<lambda>(_, a). \<not> ?expired (attempt_orderId a)) (paymentAttempts d)"
    "orderMessages ?e = filter (\<lambda>(_, m). \<not> ?expired (stored_orderId m)) (orderMessages d)" "profiles ?e = profiles d"
    unfolding e delete_where_def mem by simp_all
  ultimately show ?thesis unfolding Let_def using rows by blast
qed

definition sample_guest :: OrderLifecycle where
  "sample_guest = sample_order\<lparr>buyerIdentityKind := Some GuestEphemeral, createdAt := 1000\<rparr>"

lemma sample_keyed: "well_keyed_database (sample_database r)"
  by (simp add: well_keyed_database_def table_keyed_def) (simp add: sample_database_def)

theorem prune_removes_exactly_expired_witness:
  "getOrderLifecycle ''order-1'' (snd (pruneExpiredGuestOrderData 2000 500 (sample_database sample_guest))) = None"
proof -
  have "getOrderLifecycle ''order-1'' (sample_database sample_guest) = Some sample_guest"
    "isGuestOrderDataExpired sample_guest 2000 500"
    by (simp_all add: sample_guest_def sample_order_def isGuestOrderDataExpired_def)
  then show ?thesis
    using prune_removes_exactly_expired [OF sample_keyed [of sample_guest], of 2000 500, unfolded Let_def,
        THEN conjunct1, THEN spec, of "''order-1''"] by auto
qed

subsection \<open>A sent proof that is asked for again\<close>

definition sample_sent :: OrderLifecycle where
  "sample_sent = sample_order
     \<lparr>paymentClaimId := Some ''c'', invoiceStatus := Received, paymentStatus := Paid,
      proofDeliveryStatus := ProofSent, invoice := Some ''lnbc1'', preimage := Some ''00''\<rparr>"

definition sample_attempt :: StoredPaymentAttempt where
  "sample_attempt =
     \<lparr>attempt_id = ''order-1'', attempt_orderId = ''order-1'', attempt_buyerPubkey = ''buyer'',
      attempt_merchantPubkey = ''shop'', attempt_amountMsats = 1000000, attempt_currency = ''SATS'',
      attempt_invoice = Some ''lnbc1'', attempt_paymentHash = None, attempt_preimage = Some ''00'',
      attempt_feeMsats = None, attempt_zapRequestId = None, attempt_zapReceiptId = None,
      attempt_proofDeliveryStatus = AttemptPending, attempt_createdAt = 1, attempt_updatedAt = 1\<rparr>"

text \<open>The recovery of an interrupted payment can undo a sent proof: when the stored attempt has not
  yet recorded that its proof was sent, an order whose proof delivery is \<open>sent\<close> is restored with the
  delivery to be retried, although the branch without an attempt keeps it.\<close>

theorem recovery_can_undo_sent_proof:
  "let d = putPaymentAttempt sample_attempt (sample_database sample_sent);
       d' = sample_database sample_sent;
       status = (\<lambda>e. map_option proofDeliveryStatus (getOrderLifecycle ''order-1'' e))
   in status d = Some ProofSent
    \<and> status (snd (reconcileInterruptedOrderPayment ''order-1'' ''c'' 9 d)) = Some ProofRetryNeeded
    \<and> status (snd (reconcileInterruptedOrderPayment ''order-1'' ''c'' 9 d')) = Some ProofSent"
proof -
  have k: "orderId sample_sent = ''order-1''" "attempt_id sample_attempt = ''order-1''"
    by (simp_all add: sample_sent_def sample_order_def sample_attempt_def)
  have held: "claim_held ''c'' sample_sent" "paymentClaimLeaseExpiresAt sample_sent = None"
    "proofDeliveryStatus sample_sent = ProofSent"
    by (simp_all add: claim_held_def sample_sent_def sample_order_def)
  have conclusive: "isConclusivePaymentAttemptForLifecycle (Some sample_attempt) sample_sent"
    "\<not> isConclusivePaymentAttemptForLifecycle None sample_sent" "hasConclusiveLifecyclePaymentProof sample_sent"
    by (simp_all add: isConclusivePaymentAttemptForLifecycle_def isMatchingPaymentAttemptForLifecycle_def
        hasConclusiveLifecyclePaymentProof_def sample_sent_def sample_order_def sample_attempt_def)
  have "attempt_proof_status sample_attempt = AttemptRetryNeeded"
    by (simp add: attempt_proof_status_def sample_attempt_def)
  then show ?thesis
    by (simp add: Let_def reconcileInterruptedOrderPayment_def store_simps k held conclusive restored_patch_def
        attempt_evidence_def merge_fields release_defs)
qed

end
