(* ===== verification/Lifecycle_System.thy ===== *)
theory Lifecycle_System
  imports Lifecycle_Recovery
begin

text \<open>
  The order lifecycle as a whole: a step is any transaction of \<open>order-lifecycle.ts\<close> on the database,
  with any arguments.  The unfenced and the fenced patch take the fields their callers write
  (\<open>order-publish.ts\<close>, \<open>orders.tsx\<close> and \<open>checkout.tsx\<close>; \<open>order-payment-service.ts\<close>), and a wallet
  success reports an invoice.  A new order has a fresh identity and no claim, proof or history yet.
\<close>

subsection \<open>Steps\<close>

inductive lifecycle_step :: "js_string \<Rightarrow> locale_compare \<Rightarrow> database \<Rightarrow> database \<Rightarrow> bool"
  for net :: js_string and lc :: locale_compare
where
  pay: "claimOrderLifecyclePayment lc uuid input go now d = Inr (res, e) \<Longrightarrow> lifecycle_step net lc d e"
| retry_expired: "claimExpiredOrderInvoiceForRetry net lc uuid input expected revision go now d = Inr (res, e)
    \<Longrightarrow> lifecycle_step net lc d e"
| pay_new_address: "claimOrderLifecycleUpdatedAddressPayment lc uuid input revision' address go now d = Inr (res, e)
    \<Longrightarrow> lifecycle_step net lc d e"
| pay_privately: "lifecycle_step net lc d (snd (claimOrderLifecyclePrivateFallbackPayment lc uuid input go now d))"
| replace_target: "lifecycle_step net lc d (snd (replaceOrderPaymentTarget i target go now d))"
| fail_preparation: "lifecycle_step net lc d (snd (recordOrderPaymentPreparationFailure lc input error now d))"
| patch_claimed: "worker_patch patch \<Longrightarrow>
    lifecycle_step net lc d (snd (patchClaimedOrderLifecyclePayment i claim patch now d))"
| fence: "lifecycle_step net lc d
    (snd (fenceClaimedOrderLifecyclePaymentAuthority (\<lambda>_ profile. profile) i claim merchant now d))"
| renew: "lifecycle_step net lc d (snd (renewOrderLifecyclePaymentClaim i claim now d))"
| observe_receipt: "lifecycle_step net lc d
    (snd (recordObservedOrderPaymentReceipt i request receipt requested owner now d))"
| receipt_timeout: "lifecycle_step net lc d (snd (recordOrderPaymentReceiptTimeout i request now d))"
| deliver_proof: "lifecycle_step net lc d
    (snd (recordOrderPaymentProofDelivery i status notice failure owner now d))"
| claim_proof: "lifecycle_step net lc d (snd (claimOrderPaymentProofDelivery i claim now d))"
| renew_proof: "lifecycle_step net lc d (snd (renewOrderPaymentProofDeliveryClaim i claim now d))"
| bind_invoice: "lifecycle_step net lc d (snd (bindMerchantInvoiceForPayment net lc i mi now d))"
| claim_external: "lifecycle_step net lc d
    (snd (claimExternalOrderPaymentProof net lc i claim offered prior authorize now d))"
| wallet_success: "ws_invoice reported \<noteq> [] \<Longrightarrow>
    lifecycle_step net lc d (snd (recordOrderPaymentWalletSuccessRecovery i reported now d))"
| recover_payment: "lifecycle_step net lc d (snd (reconcileInterruptedOrderPayment i claim now d))"
| recover_proof: "lifecycle_step net lc d (snd (reconcileInterruptedOrderProofDelivery i claim now d))"
| recover_unclaimed: "lifecycle_step net lc d (snd (reconcileLegacyInterruptedOrderPayment i now d))"
| patch_checkout: "list_all checkout_field patch \<Longrightarrow>
    lifecycle_step net lc d (snd (patchOrderLifecycle i patch now d))"
| prune: "lifecycle_step net lc d (snd (pruneExpiredGuestOrderData now retention d))"

lemma step_follows: "lifecycle_step net lc d e \<Longrightarrow> well_keyed_database d \<Longrightarrow> follows d e"
  by (induction rule: lifecycle_step.induct)
    (simp_all add: claimOrderLifecyclePayment_follows claimExpiredOrderInvoiceForRetry_follows
      claimOrderLifecycleUpdatedAddressPayment_follows claimOrderLifecyclePrivateFallbackPayment_follows
      replaceOrderPaymentTarget_follows recordOrderPaymentPreparationFailure_follows patchClaimed_follows
      fence_follows renewOrderLifecyclePaymentClaim_follows recordObservedOrderPaymentReceipt_follows
      recordOrderPaymentReceiptTimeout_follows recordOrderPaymentProofDelivery_follows
      claimOrderPaymentProofDelivery_follows renewOrderPaymentProofDeliveryClaim_follows
      bindMerchantInvoiceForPayment_follows claimExternalOrderPaymentProof_follows
      recordOrderPaymentWalletSuccessRecovery_follows reconcileInterruptedOrderPayment_follows
      reconcileInterruptedOrderProofDelivery_follows reconcileLegacyInterruptedOrderPayment_follows
      patchOrderLifecycle_follows pruneExpiredGuestOrderData_follows)

interpretation lifecycle: protocol_store "\<lambda>d i. getOrderLifecycle i d" view well_keyed_database "lifecycle_step net lc"
  by unfold_locales (auto dest: step_follows simp: follows_def)

subsection \<open>Reachable databases\<close>

definition new_order :: "OrderLifecycle \<Rightarrow> bool" where
  "new_order r \<longleftrightarrow>
     paymentClaimId r = None \<and> proofDeliveryClaimId r = None \<and> priorExpiredManualInvoices r = None"

definition empty_database :: database where
  "empty_database = \<lparr>orderLifecycles = [], paymentAttempts = [], orderMessages = [], profiles = []\<rparr>"

inductive lifecycle_reachable :: "js_string \<Rightarrow> locale_compare \<Rightarrow> database \<Rightarrow> bool"
  for net :: js_string and lc :: locale_compare
where
  empty: "lifecycle_reachable net lc empty_database"
| create: "\<lbrakk>lifecycle_reachable net lc d; new_order input; getOrderLifecycle (orderId input) d = None\<rbrakk>
    \<Longrightarrow> lifecycle_reachable net lc (snd (createOrderLifecycle input created pinned now d))"
| step: "\<lbrakk>lifecycle_reachable net lc d; lifecycle_step net lc d e\<rbrakk> \<Longrightarrow> lifecycle_reachable net lc e"

lemma created_database:
  "well_keyed_database d \<Longrightarrow> well_keyed_database (snd (createOrderLifecycle input created pinned now d))"
  "getOrderLifecycle i (snd (createOrderLifecycle input created pinned now d)) = Some r \<Longrightarrow> new_order input \<Longrightarrow>
     getOrderLifecycle i d = Some r \<or> coherent_view (view r)"
  by (auto simp: createOrderLifecycle_def Let_def well_keyed_database_def store_simps coherent_view_def new_order_def
      table_put_keyed putOrderLifecycle_def getOrderLifecycle_def split: if_splits)

lemma reachable_coherent:
  "lifecycle_reachable net lc d \<Longrightarrow>
     well_keyed_database d \<and> (\<forall>i r. getOrderLifecycle i d = Some r \<longrightarrow> coherent_view (view r))"
proof (induction rule: lifecycle_reachable.induct)
  case empty
  then show ?case
    by (simp add: empty_database_def well_keyed_database_def table_keyed_def getOrderLifecycle_def table_get_def)
next
  case (create d input created pinned now)
  then show ?case using created_database by blast
next
  case (step d e)
  then have "follows d e" using step_follows by blast
  with step.IH show ?case
    using step_keeps_coherent unfolding follows_def by blast
qed

subsection \<open>Properties\<close>




lemma sample_reachable:
  "lifecycle_reachable net lc
     (snd (claimOrderPaymentProofDelivery ''order-1'' ''a'' 10
       (snd (createOrderLifecycle sample_order None None 1 empty_database))))"
proof (rule lifecycle_reachable.step [OF lifecycle_reachable.create [OF lifecycle_reachable.empty] claim_proof])
  show "new_order sample_order" by (simp add: new_order_def sample_order_def)
  show "getOrderLifecycle (orderId sample_order) empty_database = None"
    by (simp add: getOrderLifecycle_def empty_database_def table_get_def)
qed




end
