(* ===== verification/Lightning_Validity.thy ===== *)
theory Lightning_Validity
  imports Json_Text
begin

text \<open>
  \<open>isValidLightningInvoice\<close> of \<open>lightning.ts\<close>: the intrinsic checks of a BOLT11 invoice before it is
  shown to an external wallet or frozen into a checkout plan.  SHA-256 and secp256k1 come from
  third-party packages: they are the fields of \<open>crypto\<close>, where \<open>None\<close> is a thrown error.  The
  module-level set of verified signatures is the explicit \<open>cache\<close>, in insertion order.
\<close>

record crypto =
  sha256 :: "nat list \<Rightarrow> nat list"
  recoverPublicKey :: "nat list \<Rightarrow> nat list \<Rightarrow> nat list option"
  verifySignature :: "nat list \<Rightarrow> nat list \<Rightarrow> nat list \<Rightarrow> bool \<Rightarrow> bool option"

type_synonym signature_cache = "js_string list"

definition MAX_VERIFIED_BOLT11_SIGNATURES :: nat where
  "MAX_VERIFIED_BOLT11_SIGNATURES = 4096"

subsection \<open>Fatal UTF-8 decoding\<close>

definition continuation :: "nat \<Rightarrow> bool" where
  "continuation b \<longleftrightarrow> 128 \<le> b \<and> b \<le> 191"

text \<open>Whether \<open>new TextDecoder("utf-8", { fatal: true }).decode\<close> accepts the bytes.\<close>

function utf8_ok :: "nat list \<Rightarrow> bool" where
  "utf8_ok bs =
     (case bs of
        [] \<Rightarrow> True
      | b # rest \<Rightarrow>
          if b < 128 then utf8_ok rest
          else if 194 \<le> b \<and> b \<le> 223 then
            1 \<le> length rest \<and> continuation (rest ! 0) \<and> utf8_ok (drop 1 rest)
          else if 224 \<le> b \<and> b \<le> 239 then
            2 \<le> length rest
            \<and> (if b = 224 then 160 else 128) \<le> rest ! 0 \<and> rest ! 0 \<le> (if b = 237 then 159 else 191)
            \<and> continuation (rest ! 1) \<and> utf8_ok (drop 2 rest)
          else if 240 \<le> b \<and> b \<le> 244 then
            3 \<le> length rest
            \<and> (if b = 240 then 144 else 128) \<le> rest ! 0 \<and> rest ! 0 \<le> (if b = 244 then 143 else 191)
            \<and> continuation (rest ! 1) \<and> continuation (rest ! 2) \<and> utf8_ok (drop 3 rest)
          else False)"
  by pat_completeness auto
termination by (relation "measure length") auto

declare utf8_ok.simps [simp del]

subsection \<open>Tagged fields\<close>

definition knownFeaturePairs :: "nat list" where
  "knownFeaturePairs = [0, 8, 12, 14, 16, 24, 36, 44, 48]"

text \<open>The loop over the even feature bits: a set even bit must be known.\<close>

definition features_known :: "nat list \<Rightarrow> bool" where
  "features_known ws \<longleftrightarrow>
     list_all (\<lambda>b. odd b
                  \<or> \<not> bit (ws ! (length ws - 1 - b div 5)) (b mod 5)
                  \<or> b \<in> set knownFeaturePairs)
       [0..<length ws * 5]"

definition field_ok :: "Bolt11TaggedField \<Rightarrow> bool" where
  "field_ok f \<longleftrightarrow>
     (let t = tag f; ws = words f; byteLength = (if t = CHR ''n'' then 33 else 32)
      in (t \<in> set ''pshn'' \<longrightarrow>
            length ws = (if t = CHR ''n'' then 53 else 52) \<and> wordsToBytes ws byteLength \<noteq> None)
         \<and> (t = CHR ''d'' \<longrightarrow>
            (case fromWords ws False of None \<Rightarrow> False | Some description \<Rightarrow> utf8_ok description))
         \<and> (t \<in> set ''cx9'' \<longrightarrow> \<not> (ws \<noteq> [] \<and> hd ws = 0))
         \<and> (t = CHR ''9'' \<longrightarrow> features_known ws))"

subsection \<open>The signature\<close>

record invoice_signature =
  sig_digest :: "nat list"
  sig_bytes :: "nat list"
  sig_payee :: "nat list option"

definition signatureKey :: "invoice_signature \<Rightarrow> js_string" where
  "signatureKey s =
     bytesToHex (sig_digest s) @ '':'' @ bytesToHex (sig_bytes s) @ '':''
     @ (case sig_payee s of Some key \<Rightarrow> ''payee-low-s:'' @ bytesToHex key | None \<Rightarrow> ''recover'')"

definition signature_valid :: "crypto \<Rightarrow> invoice_signature \<Rightarrow> bool" where
  "signature_valid crypto s \<longleftrightarrow>
     (let compact = take 64 (sig_bytes s)
      in case sig_payee s of
           Some payeePublicKey \<Rightarrow>
             verifySignature crypto compact (sig_digest s) payeePublicKey True = Some True
         | None \<Rightarrow>
             (case recoverPublicKey crypto (drop 64 (sig_bytes s) @ compact) (sig_digest s) of
                None \<Rightarrow> False
              | Some publicKey \<Rightarrow>
                  verifySignature crypto compact (sig_digest s) publicKey False = Some True))"

text \<open>The checks before the signature, and the signature they leave to verify.\<close>

definition invoice_to_verify :: "crypto \<Rightarrow> js_string \<Rightarrow> invoice_signature option" where
  "invoice_to_verify crypto invoice =
     (case parseBolt11Invoice invoice of
        None \<Rightarrow> None
      | Some parsed \<Rightarrow>
          let values = data_values parsed;
              hasDescription = (fields_tagged (CHR ''d'') parsed \<noteq> []);
              hasDescriptionHash = (fields_tagged (CHR ''h'') parsed \<noteq> [])
          in if fields_tagged (CHR ''p'') parsed = [] \<or> fields_tagged (CHR ''s'') parsed = []
                \<or> hasDescription = hasDescriptionHash
             then None
             else if \<not> list_all field_ok (taggedFields parsed) then None
             else let signatureStart = length values - BECH32_CHECKSUM_WORD_COUNT - BOLT11_SIGNATURE_WORD_COUNT
             in case (fromWords (drop signatureStart (take (length values - BECH32_CHECKSUM_WORD_COUNT) values)) False,
                      fromWords (take signatureStart values) True) of
                  (Some signature, Some signedData) \<Rightarrow>
                    if length signature \<noteq> 65 \<or> signature ! 64 > 3 then None
                    else Some \<lparr>sig_digest = sha256 crypto (utf8_bytes (hrp parsed) @ signedData),
                               sig_bytes = signature,
                               sig_payee =
                                 (case fields_tagged (CHR ''n'') parsed of
                                    [] \<Rightarrow> None
                                  | payee # _ \<Rightarrow> wordsToBytes (words payee) 33)\<rparr>
                | _ \<Rightarrow> None)"

text \<open>Adding a verified key evicts the oldest one when the set is full.\<close>

definition remember_signature :: "js_string \<Rightarrow> signature_cache \<Rightarrow> signature_cache" where
  "remember_signature key cache =
     (if length cache \<ge> MAX_VERIFIED_BOLT11_SIGNATURES then tl cache else cache) @ [key]"

definition isValidLightningInvoice ::
    "crypto \<Rightarrow> js_string \<Rightarrow> signature_cache \<Rightarrow> bool \<times> signature_cache" where
  "isValidLightningInvoice crypto invoice cache =
     (case invoice_to_verify crypto invoice of
        None \<Rightarrow> (False, cache)
      | Some s \<Rightarrow>
          if signatureKey s \<in> set cache then (True, cache)
          else if signature_valid crypto s then (True, remember_signature (signatureKey s) cache)
          else (False, cache))"

text \<open>The answer of a fresh process, with nothing cached.\<close>

definition invoice_valid :: "crypto \<Rightarrow> js_string \<Rightarrow> bool" where
  "invoice_valid crypto invoice \<longleftrightarrow> fst (isValidLightningInvoice crypto invoice [])"

subsection \<open>Keys of verified signatures\<close>

lemma hex_digit_inj: "n < 16 \<Longrightarrow> m < 16 \<Longrightarrow> hex_digit n = hex_digit m \<longleftrightarrow> n = m"
proof -
  have "list_all (\<lambda>n. list_all (\<lambda>m. hex_digit n = hex_digit m \<longleftrightarrow> n = m) [0..<16]) [0..<16]" by code_simp
  then show "n < 16 \<Longrightarrow> m < 16 \<Longrightarrow> hex_digit n = hex_digit m \<longleftrightarrow> n = m" by (simp add: list_all_iff)
qed

lemma bytesToHex_inj:
  "list_all (\<lambda>b. b < 256) xs \<Longrightarrow> list_all (\<lambda>b. b < 256) ys \<Longrightarrow> bytesToHex xs = bytesToHex ys \<Longrightarrow> xs = ys"
proof (induction xs arbitrary: ys)
  case (Cons x xs)
  then obtain y ys' where ys: "ys = y # ys'" by (cases ys) (auto simp: bytesToHex_def)
  have "x div 16 < 16" "y div 16 < 16" using Cons.prems ys by auto
  with Cons.prems(3) have "x div 16 = y div 16" "x mod 16 = y mod 16"
    by (simp_all add: ys bytesToHex_def hex_digit_inj)
  then have "x = y" by (metis mult_div_mod_eq)
  moreover have "xs = ys'" using Cons ys by (simp add: bytesToHex_def)
  ultimately show ?case by (simp add: ys)
qed (auto simp: bytesToHex_def concat_eq_Nil_conv)

lemma hex_no_colon: "CHR '':'' \<notin> set (bytesToHex bs)"
proof
  assume "CHR '':'' \<in> set (bytesToHex bs)"
  then have "is_lower_hex (CHR '':'')" using bytesToHex_hex [of bs] by (auto simp: list_all_iff)
  moreover have "\<not> is_lower_hex (CHR '':'')" by code_simp
  ultimately show False by simp
qed

lemma split_at_separator:
  "c \<notin> set xs \<Longrightarrow> c \<notin> set xs' \<Longrightarrow> xs @ c # ys = xs' @ c # ys' \<longleftrightarrow> xs = xs' \<and> ys = ys'"
proof (induction xs arbitrary: xs')
  case Nil
  then show ?case by (cases xs') auto
next
  case (Cons x xs)
  then show ?case by (cases xs') auto
qed

definition signature_of_bytes :: "invoice_signature \<Rightarrow> bool" where
  "signature_of_bytes s \<longleftrightarrow>
     list_all (\<lambda>b. b < 256) (sig_digest s) \<and> list_all (\<lambda>b. b < 256) (sig_bytes s)
     \<and> (case sig_payee s of None \<Rightarrow> True | Some key \<Rightarrow> list_all (\<lambda>b. b < 256) key)"

lemma signatureKey_inj:
  assumes "signature_of_bytes s" "signature_of_bytes t" "signatureKey s = signatureKey t"
  shows "s = t"
proof -
  from assms(3) have d: "bytesToHex (sig_digest s) = bytesToHex (sig_digest t)"
    and b: "bytesToHex (sig_bytes s) = bytesToHex (sig_bytes t)"
    and p: "(case sig_payee s of Some key \<Rightarrow> ''payee-low-s:'' @ bytesToHex key | None \<Rightarrow> ''recover'')
      = (case sig_payee t of Some key \<Rightarrow> ''payee-low-s:'' @ bytesToHex key | None \<Rightarrow> ''recover'')"
    by (simp_all add: signatureKey_def split_at_separator hex_no_colon)
  have "sig_payee s = sig_payee t"
    using p assms(1,2) bytesToHex_inj by (auto simp: signature_of_bytes_def split: option.splits)
  moreover have "sig_digest s = sig_digest t" "sig_bytes s = sig_bytes t"
    using d b assms(1,2) bytesToHex_inj by (auto simp: signature_of_bytes_def)
  ultimately show ?thesis by (cases s, cases t) simp
qed

lemma fromWords_small: "fromWords ws pad = Some bytes \<Longrightarrow> list_all (\<lambda>b. b < 256) bytes"
  unfolding fromWords_def list_all_iff
  by (auto split: option.splits prod.splits if_split_asm dest: pack_bytes_small)

lemma wordsToBytes_small: "wordsToBytes ws n = Some bytes \<Longrightarrow> list_all (\<lambda>b. b < 256) bytes"
  using wordsToBytes_Some by (simp add: list_all_iff)

lemma invoice_to_verify_bytes:
  "digests_bytes (sha256 crypto) \<Longrightarrow> invoice_to_verify crypto invoice = Some s \<Longrightarrow> signature_of_bytes s"
  unfolding invoice_to_verify_def signature_of_bytes_def Let_def
  by (auto simp: digests_bytes_def split: option.splits if_split_asm list.splits
      dest: fromWords_small wordsToBytes_small)

subsection \<open>The cache\<close>

definition cache_sound :: "crypto \<Rightarrow> signature_cache \<Rightarrow> bool" where
  "cache_sound crypto cache \<longleftrightarrow>
     length cache \<le> MAX_VERIFIED_BOLT11_SIGNATURES
     \<and> (\<forall>key \<in> set cache. \<exists>s. key = signatureKey s \<and> signature_of_bytes s \<and> signature_valid crypto s)"

lemma invoice_valid_iff:
  "invoice_valid crypto invoice \<longleftrightarrow>
     (\<exists>s. invoice_to_verify crypto invoice = Some s \<and> signature_valid crypto s)"
  by (simp add: invoice_valid_def isValidLightningInvoice_def split: option.split)

lemma remember_sound:
  assumes "cache_sound crypto cache" "signature_of_bytes s" "signature_valid crypto s"
  shows "cache_sound crypto (remember_signature (signatureKey s) cache)"
proof -
  have "set (tl cache) \<subseteq> set cache" by (cases cache) auto
  with assms show ?thesis
    by (auto simp: cache_sound_def remember_signature_def MAX_VERIFIED_BOLT11_SIGNATURES_def)
qed

lemma cached_answer:
  assumes "digests_bytes (sha256 crypto)" "cache_sound crypto cache"
  shows "fst (isValidLightningInvoice crypto invoice cache) = invoice_valid crypto invoice
    \<and> cache_sound crypto (snd (isValidLightningInvoice crypto invoice cache))"
proof (cases "invoice_to_verify crypto invoice")
  case None
  with assms(2) show ?thesis by (simp add: isValidLightningInvoice_def invoice_valid_iff)
next
  case (Some s)
  have bytes: "signature_of_bytes s" by (rule invoice_to_verify_bytes [OF assms(1) Some])
  have "signature_valid crypto s" if cached: "signatureKey s \<in> set cache"
  proof -
    obtain t where "signatureKey s = signatureKey t" "signature_of_bytes t" "signature_valid crypto t"
      using assms(2) cached by (auto simp: cache_sound_def)
    with signatureKey_inj [OF bytes] show ?thesis by blast
  qed
  with Some bytes assms(2) show ?thesis
    by (auto simp: isValidLightningInvoice_def invoice_valid_iff remember_sound)
qed

text \<open>A process validates one invoice after another with the same set.\<close>

fun validate_all :: "crypto \<Rightarrow> js_string list \<Rightarrow> signature_cache \<Rightarrow> bool list \<times> signature_cache" where
  "validate_all crypto [] cache = ([], cache)"
| "validate_all crypto (invoice # invoices) cache =
     (let (answer, cache1) = isValidLightningInvoice crypto invoice cache;
          (answers, cache2) = validate_all crypto invoices cache1
      in (answer # answers, cache2))"

lemma validate_all_sound:
  "digests_bytes (sha256 crypto) \<Longrightarrow> cache_sound crypto cache \<Longrightarrow>
   fst (validate_all crypto invoices cache) = map (invoice_valid crypto) invoices
   \<and> cache_sound crypto (snd (validate_all crypto invoices cache))"
proof (induction invoices arbitrary: cache)
  case (Cons invoice invoices)
  let ?r = "isValidLightningInvoice crypto invoice cache"
  note step = cached_answer [OF Cons.prems, of invoice]
  have "validate_all crypto (invoice # invoices) cache
      = (fst ?r # fst (validate_all crypto invoices (snd ?r)), snd (validate_all crypto invoices (snd ?r)))"
    by (simp add: Let_def split: prod.split)
  with step Cons.IH [OF Cons.prems(1), of "snd ?r"] show ?case by simp
qed simp

subsection \<open>A valid invoice\<close>

text \<open>An invoice with a payment hash, a payment secret and an empty description, all zero, whose
  signature a permissive \<open>crypto\<close> accepts.\<close>

definition offer_symbols :: "nat list" where
  "offer_symbols = replicate 7 0 @ [1, 1, 20] @ replicate 52 0 @ [16, 1, 20] @ replicate 52 0 @ [13, 0, 0] @ replicate 104 0"

definition offer_fields :: "Bolt11TaggedField list" where
  "offer_fields = [\<lparr>tag = CHR ''p'', words = replicate 52 0\<rparr>, \<lparr>tag = CHR ''s'', words = replicate 52 0\<rparr>,
     \<lparr>tag = CHR ''d'', words = []\<rparr>]"

lemma zero_signature: "fromWords (replicate 104 0) False = Some (replicate 65 0)"
  by code_simp

text \<open>What makes an invoice of 224 symbols with a zero signature ready to verify.\<close>

definition signable :: "nat list \<Rightarrow> Bolt11TaggedField list \<Rightarrow> bool" where
  "signable ws fs \<longleftrightarrow>
     length ws = 224 \<and> tagged_fields (drop 7 (take 120 ws)) = Some fs \<and> list_all field_ok fs
     \<and> drop 120 ws = replicate 104 0 \<and> fromWords (take 120 ws) True \<noteq> None
     \<and> list_ex (\<lambda>f. tag f = CHR ''p'') fs \<and> list_ex (\<lambda>f. tag f = CHR ''s'') fs
     \<and> list_ex (\<lambda>f. tag f = CHR ''d'') fs \<and> \<not> list_ex (\<lambda>f. tag f = CHR ''h'') fs
     \<and> \<not> list_ex (\<lambda>f. tag f = CHR ''n'') fs \<and> \<not> list_ex (\<lambda>f. tag f = CHR ''x'') fs"

lemma filter_list_ex: "filter P xs = [] \<longleftrightarrow> \<not> list_ex P xs"
  by (induction xs) auto

lemma signable_tagged: "signable ws fs \<Longrightarrow> tagged_fields (drop 7 (take (length ws - 104) ws)) = Some fs"
  by (simp add: signable_def)

lemma signable_to_verify:
  assumes w: "well_written h ws" and s: "signable ws fs"
  shows "\<exists>d. invoice_to_verify crypto (written_invoice h ws)
     = Some \<lparr>sig_digest = d, sig_bytes = replicate 65 0, sig_payee = None\<rparr>"
proof -
  have p: "parseBolt11Invoice (written_invoice h ws) = Some \<lparr>hrp = h, data_values = written_values h ws, taggedFields = fs\<rparr>"
    by (rule written_parsed [OF w signable_tagged [OF s]])
  have l: "length ws = 224" using s by (simp add: signable_def)
  have sg: "drop 120 (take 224 (written_values h ws)) = replicate 104 0"
    using s by (simp add: written_values_def signable_def)
  have sd: "take 120 (written_values h ws) = take 120 ws"
    by (simp add: written_values_def l)
  obtain signed where signed: "fromWords (take 120 ws) True = Some signed" using s by (auto simp: signable_def)
  have t: "filter (\<lambda>f. tag f = CHR ''p'') fs \<noteq> []" "filter (\<lambda>f. tag f = CHR ''s'') fs \<noteq> []"
    "filter (\<lambda>f. tag f = CHR ''d'') fs \<noteq> []" "filter (\<lambda>f. tag f = CHR ''h'') fs = []"
    "filter (\<lambda>f. tag f = CHR ''n'') fs = []"
    using s by (auto simp: signable_def filter_list_ex)
  have f: "list_all field_ok fs" using s by (simp add: signable_def)
  have len: "length (written_values h ws) = 230" by (simp add: length_written_values l)
  show ?thesis
    unfolding invoice_to_verify_def p option.case Let_def fields_tagged_def ParsedBolt11Invoice.simps
    using f t signed by (simp add: len word_counts sg sd zero_signature)
qed

lemma offer_signable: "signable offer_symbols offer_fields"
  by code_simp

definition sample_crypto :: crypto where
  "sample_crypto = \<lparr>sha256 = (\<lambda>bs. replicate 31 0 @ [length bs mod 256]),
     recoverPublicKey = (\<lambda>_ _. Some []), verifySignature = (\<lambda>_ _ _ _. Some True)\<rparr>"

lemma sample_crypto_bytes: "digests_bytes (sha256 sample_crypto)"
  by (simp add: sample_crypto_def digests_bytes_def list_all_iff)

lemma signable_valid:
  "well_written h ws \<Longrightarrow> signable ws fs \<Longrightarrow> invoice_valid sample_crypto (written_invoice h ws)"
  using signable_to_verify [of h ws fs sample_crypto]
  by (auto simp: invoice_valid_iff signature_valid_def sample_crypto_def Let_def)

lemmas offer_valid = signable_valid [OF _ offer_signable]

subsection \<open>Property\<close>

text \<open>C35.
  The set of already verified signatures is invisible: whatever invoices a process validates one
  after another, each gets the answer a fresh process gives, although a cached signature is not
  verified again, and the set never exceeds its bound.\<close>

theorem signature_cache_is_invisible:
  assumes "digests_bytes (sha256 crypto)"
  shows "fst (validate_all crypto invoices []) = map (invoice_valid crypto) invoices
    \<and> length (snd (validate_all crypto invoices [])) \<le> MAX_VERIFIED_BOLT11_SIGNATURES"
  using validate_all_sound [OF assms, of "[]" invoices] by (simp add: cache_sound_def)

theorem signature_cache_is_invisible_witness:
  "fst (validate_all sample_crypto (replicate 2 (written_invoice ''lnbc10u'' offer_symbols)) []) = [True, True]"
proof -
  have "well_written ''lnbc10u'' offer_symbols" by code_simp
  then show ?thesis
    using signature_cache_is_invisible [OF sample_crypto_bytes, of "replicate 2 (written_invoice ''lnbc10u'' offer_symbols)"]
      offer_valid [of "''lnbc10u''"] by (simp add: numeral_2_eq_2 del: validate_all.simps)
qed

end
