(* ===== verification/Settled_Plan.thy ===== *)
theory Settled_Plan
  imports Lightning_Validity Spark_Fees
begin

text \<open>
  The settled checkout plan of \<open>checkout-spark-settled-router.ts\<close>: validation of its texts, amounts,
  times and invoices, the freezing of a plan with its digest and leg identities, its restoration,
  and the transfer identities derived from it; with the native treasury plan of
  \<open>checkout-spark-treasury-finalization.ts\<close> that a plan of version 4 or 5 contains.

  \<^item> A number field is an \<open>int\<close>.  The code lets no number through without
    \<open>Number.isSafeInteger\<close>; a fraction or NaN fails that test just as an unsafe integer does.
  \<^item> An optional property is an \<open>option\<close>; \<open>Object.hasOwn\<close> is its presence.
  \<^item> What other modules check of a plan (signed product lines, the event market binding, the
    public zap and the receiver binding) is a record of functions, \<open>settled_ports\<close>; every theorem
    holds for all of them.
\<close>

subsection \<open>Data\<close>

datatype CheckoutSparkObligationKind = Merchant | Supplier | Organizer | Conduit | OtherKind js_string

fun kind_name :: "CheckoutSparkObligationKind \<Rightarrow> js_string" where
  "kind_name Merchant = ''merchant''"
| "kind_name Supplier = ''supplier''"
| "kind_name Organizer = ''organizer''"
| "kind_name Conduit = ''conduit''"
| "kind_name (OtherKind s) = s"

datatype CheckoutSparkSettledDestinationSource =
  SignedProfile (profileEventId: js_string) (profileEventCreatedAt: int)
| SignedEventMarket (marketCoordinate: js_string) (source_eventId: js_string) (source_eventCreatedAt: int)
| ConduitAllowlist (policy: js_string)

record CheckoutSparkSettledDestination =
  destination_type :: js_string
  destination_value :: js_string
  destination_source :: CheckoutSparkSettledDestinationSource

record CheckoutSparkSettledRecipientInput =
  kind :: CheckoutSparkObligationKind
  recipientId :: js_string
  destination :: CheckoutSparkSettledDestination
  weightSats :: int

record CheckoutSparkSettledRecipient = CheckoutSparkSettledRecipientInput +
  position :: nat
  legId :: js_string

record CheckoutSparkSettledFundingPlan =
  funding_requestId :: js_string
  funding_paymentRequest :: js_string
  funding_paymentHash :: js_string
  funding_receiverIdentityPublicKey :: js_string
  grossFundingSats :: int
  funding_createdAt :: int
  funding_expiresAt :: int

text \<open>Of a quote the router reads the total, of an event market binding the organizer's terms; the
  rest is evidence that only the ports look into.\<close>

record CheckoutSparkCommerceQuote =
  quote_commerceTotalSats :: int
  quote_evidence :: json

record EventMarketOrganizerFee =
  fee_createdAt :: int
  fee_state :: js_string
  fee_lightningAddress :: js_string
  fee_evidence :: json

record CheckoutSparkEventMarketBinding =
  market_organizerPubkey :: js_string
  market_coordinate :: js_string
  market_eventId :: js_string
  market_organizerFee :: EventMarketOrganizerFee
  market_organizerFeeSats :: int
  market_evidence :: json

record CheckoutSparkNativeTreasuryPlan =
  treasury_schemaVersion :: int
  sparkAddress :: js_string
  treasury_receiverIdentityPublicKey :: js_string
  treasury_senderIdentityPublicKey :: js_string
  treasury_invoiceId :: js_string
  treasury_invoiceRequest :: js_string
  feePolicy :: js_string
  residualPolicy :: js_string

record 'r FreezeCheckoutSparkSettledPlanInput =
  checkoutId :: js_string
  orderId :: js_string
  merchantPubkey :: js_string
  walletId :: js_string
  network :: js_string
  createdAt :: int
  takeoverAt :: int
  commerceQuote :: CheckoutSparkCommerceQuote
  funding :: CheckoutSparkSettledFundingPlan
  recipients :: "'r list"
  merchantPublicZapPolicy :: "json option"
  conduitFeePolicy :: fee_policy

record CheckoutSparkSettledPlan =
  "CheckoutSparkSettledRecipient FreezeCheckoutSparkSettledPlanInput" +
  plan_schemaVersion :: int
  nativeTreasury :: "CheckoutSparkNativeTreasuryPlan option"
  eventMarket :: "CheckoutSparkEventMarketBinding option"
  planDigest :: js_string

record CheckoutSparkReceiverBinding =
  binding_lud16 :: js_string
  binding_mode :: js_string
  binding_evidence :: json

record public_zap_expectation =
  zap_policy :: json
  zap_recipientPubkey :: js_string
  zap_lud16 :: js_string
  zap_amountSats :: int
  zap_paymentRequest :: js_string
  zap_preparedAt :: int
  zap_planCreatedAt :: int

subsection \<open>The checks of other modules\<close>

record settled_ports = crypto +
  freezeCheckoutSparkCommerceQuote ::
    "CheckoutSparkCommerceQuote \<Rightarrow> js_string \<Rightarrow> bool \<Rightarrow> CheckoutSparkCommerceQuote result"
  checkoutSparkCommerceQuoteDigestValue :: "CheckoutSparkCommerceQuote \<Rightarrow> json"
  freezeCheckoutSparkEventMarketBinding ::
    "CheckoutSparkEventMarketBinding \<Rightarrow> js_string \<Rightarrow> CheckoutSparkCommerceQuote \<Rightarrow> int
     \<Rightarrow> CheckoutSparkEventMarketBinding result"
  checkoutSparkEventMarketBindingDigestValue :: "CheckoutSparkEventMarketBinding \<Rightarrow> json"
  freezeCheckoutSparkMerchantPublicZapPolicy :: "json \<Rightarrow> json result"
  checkoutSparkMerchantPublicZapPolicyDigestValue :: "json \<Rightarrow> json result"
  restoreCheckoutSparkPublicZapContext :: "json \<Rightarrow> public_zap_expectation \<Rightarrow> json result"
  freezeCheckoutSparkReceiverBinding :: "CheckoutSparkReceiverBinding \<Rightarrow> CheckoutSparkReceiverBinding result"

subsection \<open>Validation\<close>

fun traverse :: "('a \<Rightarrow> 'e + 'b) \<Rightarrow> 'a list \<Rightarrow> 'e + 'b list" where
  "traverse f [] = Inr []"
| "traverse f (x # xs) = bind_result (f x) (\<lambda>y. bind_result (traverse f xs) (\<lambda>ys. Inr (y # ys)))"

definition settled_digest :: "'p crypto_scheme \<Rightarrow> json \<Rightarrow> js_string" where
  "settled_digest env value = json_digest (sha256 env) value"

definition MAX_ID_LENGTH :: nat where "MAX_ID_LENGTH = 512"
definition MAX_REQUEST_LENGTH :: nat where "MAX_REQUEST_LENGTH = 16384"

definition settled_text :: "js_string \<Rightarrow> js_string \<Rightarrow> nat \<Rightarrow> js_string result" where
  "settled_text value label limit =
     (if value = [] \<or> length value > limit \<or> js_trim value \<noteq> value then Inl (label @ '' is invalid.'')
      else Inr value)"

definition settled_hex :: "js_string \<Rightarrow> js_string \<Rightarrow> js_string result" where
  "settled_hex value label = (if \<not> is_hex64 value then Inl (label @ '' is invalid.'') else Inr value)"

definition is_compressed_pubkey :: "js_string \<Rightarrow> bool" where
  "is_compressed_pubkey value \<longleftrightarrow> (take 2 value = ''02'' \<or> take 2 value = ''03'') \<and> is_hex64 (drop 2 value)"

definition compressedPublicKey :: "js_string \<Rightarrow> js_string \<Rightarrow> js_string result" where
  "compressedPublicKey value label =
     (if \<not> is_compressed_pubkey value then Inl (label @ '' is invalid.'') else Inr value)"

definition settled_sats :: "int \<Rightarrow> js_string \<Rightarrow> bool \<Rightarrow> int result" where
  "settled_sats value label allowZero =
     (if \<not> is_safe value \<or> value < 0 \<or> (\<not> allowZero \<and> value = 0) then Inl (label @ '' is invalid.'')
      else Inr value)"

definition settled_time :: "int \<Rightarrow> js_string \<Rightarrow> int result" where
  "settled_time value label =
     (if \<not> is_safe value \<or> value < 0 then Inl (label @ '' is invalid.'') else Inr value)"

record normalized_invoice =
  normal_paymentRequest :: js_string
  normal_paymentHash :: js_string
  normal_expiresAt :: int

definition normalizeInvoice ::
    "'p crypto_scheme \<Rightarrow> js_string \<Rightarrow> js_string \<Rightarrow> int \<Rightarrow> js_string \<Rightarrow> int \<Rightarrow> normalized_invoice result" where
  "normalizeInvoice env request hash amountSats net at_ms =
     bind_result (settled_text (toLowerCase (normalizeLightningInvoice request)) ''Checkout Spark invoice'' MAX_REQUEST_LENGTH)
       (\<lambda>paymentRequest.
     if \<not> invoice_valid (crypto.truncate env) paymentRequest
        \<or> network_name (getLightningInvoiceNetwork paymentRequest) \<noteq> net
     then Inl ''Checkout Spark invoice network or signature is invalid.''
     else let metadata = decodeLightningInvoiceMetadata paymentRequest; expectedMsats = amountSats * 1000
     in bind_result (settled_hex hash ''Checkout Spark invoice hash'')
       (\<lambda>paymentHash.
     let refusal = ''Checkout Spark invoice amount, hash, or expiry is invalid.''
     in case invoice_expiresAt metadata of
          None \<Rightarrow> Inl refusal
        | Some expirySeconds \<Rightarrow>
            let expiresAt = expirySeconds * 1000
            in if expectedMsats > MAX_SAFE_INTEGER \<or> msats metadata \<noteq> Some expectedMsats
                  \<or> decodeLightningInvoicePaymentHash paymentRequest \<noteq> Some paymentHash
                  \<or> \<not> is_safe expiresAt \<or> expiresAt \<le> at_ms
               then Inl refusal
               else Inr \<lparr>normal_paymentRequest = paymentRequest, normal_paymentHash = paymentHash,
                         normal_expiresAt = expiresAt\<rparr>))"

text \<open>The first sixteen bytes of a digest as a UUID of version 5.\<close>

definition uuidFromDigest :: "js_string \<Rightarrow> js_string" where
  "uuidFromDigest value =
     (let bytes = take 16 (hexToBytes value);
          encoded = bytesToHex (bytes[6 := (bytes ! 6 AND 15) OR 80, 8 := (bytes ! 8 AND 63) OR 128])
      in take 8 encoded @ ''-'' @ take 4 (drop 8 encoded) @ ''-'' @ take 4 (drop 12 encoded) @ ''-''
         @ take 4 (drop 16 encoded) @ ''-'' @ drop 20 encoded)"

definition normalizeHex64 :: "js_string \<Rightarrow> js_string \<Rightarrow> js_string result" where
  "normalizeHex64 value label =
     (let normalized = toLowerCase (js_trim value)
      in if \<not> is_hex64 normalized then Inl (label @ '' is invalid.'') else Inr normalized)"

definition assertCheckoutSparkMerchantPayoutRecipient ::
    "js_string \<Rightarrow> 'x CheckoutSparkSettledRecipientInput_scheme list \<Rightarrow> unit result" where
  "assertCheckoutSparkMerchantPayoutRecipient merchant obligations =
     (let refusal = ''Checkout Spark merchant payout differs from signed quote.''
      in case filter (\<lambda>leg. kind leg = Merchant) obligations of
           [leg] \<Rightarrow>
             bind_result (normalizeHex64 merchant ''Merchant pubkey'')
               (\<lambda>expected. if recipientId leg \<noteq> expected then Inl refusal else Inr ())
         | _ \<Rightarrow> Inl refusal)"

definition normalizeCheckoutSparkReceiverAddress :: "js_string \<Rightarrow> js_string option" where
  "normalizeCheckoutSparkReceiverAddress value =
     (let result = toLowerCase (js_trim value) in if isValidLud16Address result then Some result else None)"

subsection \<open>The native treasury plan\<close>

definition treasury_id :: "js_string \<Rightarrow> nat \<Rightarrow> bool" where
  "treasury_id value max_length \<longleftrightarrow> value \<noteq> [] \<and> length value \<le> max_length \<and> js_trim value = value"

definition treasury_refusal :: js_string where
  "treasury_refusal = ''Checkout Spark native treasury evidence is invalid.''"

definition deriveCheckoutSparkNativeTreasuryInvoiceId ::
    "'p crypto_scheme \<Rightarrow> 'x FreezeCheckoutSparkSettledPlanInput \<Rightarrow> CheckoutSparkNativeTreasuryPlan \<Rightarrow> js_string result" where
  "deriveCheckoutSparkNativeTreasuryInvoiceId env plan treasury =
     (if \<not> treasury_id (checkoutId plan) MAX_ID_LENGTH \<or> \<not> treasury_id (orderId plan) MAX_ID_LENGTH
         \<or> \<not> treasury_id (walletId plan) MAX_ID_LENGTH \<or> \<not> treasury_id (sparkAddress treasury) 16384
         \<or> \<not> (is_safe (createdAt plan) \<and> createdAt plan \<ge> 0)
         \<or> (network plan \<noteq> ''mainnet'' \<and> network plan \<noteq> ''regtest'')
         \<or> \<not> is_compressed_pubkey (treasury_receiverIdentityPublicKey treasury)
         \<or> \<not> is_compressed_pubkey (treasury_senderIdentityPublicKey treasury)
      then Inl treasury_refusal
      else Inr (uuidFromDigest (settled_digest env (JArray
        [JString ''conduit:checkout-spark-native-treasury-invoice:v1'', JString (checkoutId plan),
         JString (orderId plan), JString (walletId plan), JString (network plan), JInt (createdAt plan),
         JString (sparkAddress treasury), JString (treasury_receiverIdentityPublicKey treasury),
         JString (treasury_senderIdentityPublicKey treasury)]))))"

definition restoreCheckoutSparkNativeTreasuryPlan ::
    "'p crypto_scheme \<Rightarrow> CheckoutSparkNativeTreasuryPlan \<Rightarrow> 'x FreezeCheckoutSparkSettledPlanInput
     \<Rightarrow> CheckoutSparkNativeTreasuryPlan result" where
  "restoreCheckoutSparkNativeTreasuryPlan env treasury plan =
     (if treasury_schemaVersion treasury \<noteq> 1 \<or> feePolicy treasury \<noteq> ''zero_required''
         \<or> residualPolicy treasury \<noteq> ''unused_commerce_reserves''
         \<or> \<not> treasury_id (treasury_invoiceRequest treasury) 16384
         \<or> treasury_senderIdentityPublicKey treasury \<noteq> funding_receiverIdentityPublicKey (funding plan)
      then Inl treasury_refusal
      else bind_result (deriveCheckoutSparkNativeTreasuryInvoiceId env plan treasury)
        (\<lambda>expected. if treasury_invoiceId treasury \<noteq> expected then Inl treasury_refusal else Inr treasury))"

subsection \<open>The digest of a plan\<close>

definition isCheckoutSparkNativeTreasuryPlan :: "'x CheckoutSparkSettledPlan_scheme \<Rightarrow> bool" where
  "isCheckoutSparkNativeTreasuryPlan plan \<longleftrightarrow> plan_schemaVersion plan = 4 \<or> plan_schemaVersion plan = 5"

fun destinationSourceDigestValue :: "CheckoutSparkSettledDestinationSource \<Rightarrow> json" where
  "destinationSourceDigestValue (SignedProfile event at_s) =
     JArray [JString ''signed_profile'', JString event, JInt at_s]"
| "destinationSourceDigestValue (SignedEventMarket coordinate event at_s) =
     JArray [JString ''signed_event_market'', JString coordinate, JString event, JInt at_s]"
| "destinationSourceDigestValue (ConduitAllowlist p) = JArray [JString ''conduit_allowlist'', JString p]"

definition recipient_digest_value :: "CheckoutSparkSettledRecipient \<Rightarrow> json" where
  "recipient_digest_value r = JArray
     [JInt (int (position r)), JString (legId r), JString (kind_name (kind r)), JString (recipientId r),
      JString (destination_type (destination r)), JString (destination_value (destination r)),
      destinationSourceDigestValue (destination_source (destination r)), JInt (weightSats r)]"

definition canonicalPlanValue :: "'p settled_ports_scheme \<Rightarrow> CheckoutSparkSettledPlan \<Rightarrow> json result" where
  "canonicalPlanValue env plan =
     (let v = plan_schemaVersion plan; f = funding plan;
          head = [JString (if v = 5 then ''conduit:checkout-spark-settled-plan:v5''
                           else if v = 4 then ''conduit:checkout-spark-settled-plan:v4''
                           else ''conduit:checkout-spark-settled-plan:v3''),
                  JInt v, JString (checkoutId plan), JString (orderId plan), JString (merchantPubkey plan),
                  JString (walletId plan), JString (network plan), JInt (createdAt plan), JInt (takeoverAt plan),
                  checkoutSparkCommerceQuoteDigestValue env (commerceQuote plan),
                  JArray [JString (funding_requestId f), JString (funding_paymentRequest f),
                          JString (funding_paymentHash f), JString (funding_receiverIdentityPublicKey f),
                          JInt (grossFundingSats f), JInt (funding_createdAt f), JInt (funding_expiresAt f)],
                  JArray (map recipient_digest_value (recipients plan))];
          native = (case nativeTreasury plan of
                      Some t \<Rightarrow>
                        if isCheckoutSparkNativeTreasuryPlan plan
                        then [JArray [JInt (treasury_schemaVersion t), JString (sparkAddress t),
                                JString (treasury_receiverIdentityPublicKey t),
                                JString (treasury_senderIdentityPublicKey t), JString (treasury_invoiceId t),
                                JString (treasury_invoiceRequest t), JString (feePolicy t),
                                JString (residualPolicy t)]]
                        else []
                    | None \<Rightarrow> []);
          event = (case eventMarket plan of
                     Some b \<Rightarrow> if v = 5 then [checkoutSparkEventMarketBindingDigestValue env b] else []
                   | None \<Rightarrow> []);
          fee = (case conduitFeePolicy plan of
                   Some p \<Rightarrow> [JArray [JString ''conduit-fee-policy'', JString p]]
                 | None \<Rightarrow> [])
      in bind_result
           (case merchantPublicZapPolicy plan of
              Some p \<Rightarrow> bind_result (checkoutSparkMerchantPublicZapPolicyDigestValue env p) (\<lambda>d. Inr [d])
            | None \<Rightarrow> Inr [])
           (\<lambda>zap. Inr (JArray (head @ native @ event @ zap @ fee))))"

subsection \<open>Freezing a plan\<close>

text \<open>The weights of the frozen terms, and the gross funding they ask for.\<close>

definition plan_weights ::
    "CheckoutSparkCommerceQuote \<Rightarrow> CheckoutSparkEventMarketBinding option \<Rightarrow> fee_policy
     \<Rightarrow> (int \<times> int) result" where
  "plan_weights quote event p =
     (case event of
        Some b \<Rightarrow>
          bind_result (calculateCheckoutSparkEventAllocationWeights (JSInt (quote_commerceTotalSats quote))
            (JSInt (market_organizerFeeSats b)) p)
            (\<lambda>w. Inr (int_of_number (commerceWeightSats w), int_of_number (conduitWeightSats w)))
      | None \<Rightarrow>
          bind_result (calculateCheckoutSparkAllocationWeights (JSInt (quote_commerceTotalSats quote)) p)
            (\<lambda>w. Inr (int_of_number (commerceWeightSats w), int_of_number (conduitWeightSats w))))"

definition plan_gross ::
    "CheckoutSparkCommerceQuote \<Rightarrow> CheckoutSparkEventMarketBinding option \<Rightarrow> fee_policy \<Rightarrow> int result" where
  "plan_gross quote event p =
     (case event of
        Some b \<Rightarrow>
          calculateCheckoutSparkEventSettledGrossFundingSats (JSInt (quote_commerceTotalSats quote))
            (JSInt (market_organizerFeeSats b)) p
      | None \<Rightarrow> calculateCheckoutSparkSettledGrossFundingSats (JSInt (quote_commerceTotalSats quote)) p)"

definition normalize_source ::
    "CheckoutSparkEventMarketBinding option \<Rightarrow> int \<Rightarrow> js_string \<Rightarrow>
     'x CheckoutSparkSettledRecipientInput_scheme \<Rightarrow> CheckoutSparkSettledDestinationSource result" where
  "normalize_source event created rid candidate =
     (let value = destination_value (destination candidate); source = destination_source (destination candidate)
      in if kind candidate = Conduit then
           (case source of
              ConduitAllowlist p \<Rightarrow>
                if rid \<noteq> value then Inl ''Checkout Spark Conduit destination is invalid.''
                else bind_result (checkoutSparkConduitFeeRecipient p)
                  (\<lambda>expected. if value \<noteq> expected then Inl ''Checkout Spark Conduit destination is invalid.''
                              else Inr (ConduitAllowlist p))
            | _ \<Rightarrow> Inl ''Checkout Spark Conduit destination is invalid.'')
         else if event \<noteq> None \<and> kind candidate = Organizer then
           (case (event, source) of
              (Some b, SignedEventMarket coordinate eventId eventCreatedAt) \<Rightarrow>
                let fee = market_organizerFee b
                in if rid \<noteq> market_organizerPubkey b \<or> coordinate \<noteq> market_coordinate b
                      \<or> eventId \<noteq> market_eventId b \<or> eventCreatedAt * 1000 > created
                      \<or> eventCreatedAt \<noteq> fee_createdAt fee \<or> fee_state fee \<noteq> ''active''
                      \<or> value \<noteq> fee_lightningAddress fee
                      \<or> weightSats candidate \<noteq> market_organizerFeeSats b
                   then Inl ''Checkout Spark organizer lacks exact signed event fee evidence.''
                   else bind_result (settled_hex eventId ''Organizer fee event'') (\<lambda>e.
                        bind_result (settled_time eventCreatedAt ''Organizer fee time'') (\<lambda>t.
                        Inr (SignedEventMarket coordinate e t)))
            | _ \<Rightarrow> Inl ''Checkout Spark organizer lacks exact signed event fee evidence.'')
         else (case source of
              SignedProfile eventId profileCreatedAt \<Rightarrow>
                if \<not> is_hex64 rid then Inl ''Checkout Spark recipient lacks signed profile evidence.''
                else bind_result (settled_time profileCreatedAt ''Recipient profile time'') (\<lambda>t.
                     if t * 1000 > created then Inl ''Checkout Spark recipient profile postdates plan.''
                     else bind_result (settled_hex eventId ''Recipient profile event'') (\<lambda>e.
                          Inr (SignedProfile e t)))
            | _ \<Rightarrow> Inl ''Checkout Spark recipient lacks signed profile evidence.''))"

definition freeze_recipient ::
    "'p crypto_scheme \<Rightarrow> js_string \<Rightarrow> js_string \<Rightarrow> CheckoutSparkEventMarketBinding option \<Rightarrow> int \<Rightarrow>
     nat \<times> 'x CheckoutSparkSettledRecipientInput_scheme \<Rightarrow> CheckoutSparkSettledRecipient result" where
  "freeze_recipient env checkout order event created indexed =
     (case indexed of (index, candidate) \<Rightarrow>
        if kind candidate \<notin> {Merchant, Supplier, Organizer, Conduit}
        then Inl ''Checkout Spark recipient kind is invalid.''
        else if destination_type (destination candidate) \<noteq> ''lightning_address''
        then Inl ''Checkout Spark destination type is invalid.''
        else bind_result (settled_text (recipientId candidate) ''Recipient id'' MAX_ID_LENGTH) (\<lambda>rid.
             bind_result (normalize_source event created rid candidate) (\<lambda>source.
             bind_result (settled_text (destination_value (destination candidate)) ''Recipient destination'' MAX_ID_LENGTH)
               (\<lambda>value.
             bind_result (settled_sats (weightSats candidate) ''Recipient weight'' False) (\<lambda>weight.
             let dest = \<lparr>destination_type = destination_type (destination candidate),
                         destination_value = value, destination_source = source\<rparr>
             in Inr \<lparr>kind = kind candidate, recipientId = rid, destination = dest, weightSats = weight,
                     position = index,
                     legId = settled_digest env (JArray
                       [JString ''conduit:checkout-spark-settled-leg:v3'', JString checkout, JString order,
                        JInt (int index), JString (kind_name (kind candidate)), JString rid,
                        JString (destination_type dest), JString value,
                        destinationSourceDigestValue source, JInt weight])\<rparr>)))))"

definition kind_rank :: "CheckoutSparkObligationKind \<Rightarrow> nat" where
  "kind_rank k = (case k of Merchant \<Rightarrow> 0 | Supplier \<Rightarrow> 1 | Organizer \<Rightarrow> 2 | _ \<Rightarrow> 3)"

text \<open>Who may be paid, and how much in total.\<close>

definition check_recipients ::
    "js_string \<Rightarrow> CheckoutSparkCommerceQuote \<Rightarrow> CheckoutSparkEventMarketBinding option \<Rightarrow> int \<Rightarrow> int \<Rightarrow>
     CheckoutSparkSettledRecipient list \<Rightarrow> unit result" where
  "check_recipients merchant quote event commerceWeight conduitWeight rs =
     (let conduit = filter (\<lambda>r. kind r = Conduit) rs; total = quote_commerceTotalSats quote
      in if length conduit \<noteq> 1 \<or> rs = [] \<or> kind (last rs) \<noteq> Conduit
            \<or> weightSats (hd conduit) \<noteq> conduitWeight
            \<or> length (filter (\<lambda>r. kind r = Merchant) rs) \<noteq> (if event \<noteq> None \<and> total = 0 then 0 else 1)
         then Inl ''Checkout Spark recipient authority is invalid.''
         else bind_result
           (if event = None \<or> total > 0 then assertCheckoutSparkMerchantPayoutRecipient merchant rs else Inr ())
           (\<lambda>_.
              let commerce = filter (\<lambda>r. if event \<noteq> None then kind r = Merchant \<or> kind r = Supplier
                                          else kind r \<noteq> Conduit) rs
              in if sum_list (map weightSats commerce) \<noteq> commerceWeight
                 then Inl ''Checkout Spark recipients differ from commerce quote.''
                 else case event of
                   None \<Rightarrow> Inr ()
                 | Some b \<Rightarrow>
                     if length (filter (\<lambda>r. kind r = Organizer) rs) \<noteq> (if market_organizerFeeSats b > 0 then 1 else 0)
                        \<or> \<not> sorted (map (\<lambda>r. kind_rank (kind r)) rs)
                     then Inl ''Checkout Spark event payout ordering is invalid.''
                     else Inr ()))"

definition freeze_funding ::
    "'p crypto_scheme \<Rightarrow> 'x FreezeCheckoutSparkSettledPlanInput \<Rightarrow> int \<Rightarrow> int \<Rightarrow>
     CheckoutSparkSettledFundingPlan result" where
  "freeze_funding env input created gross =
     (let f = funding input
      in bind_result (normalizeInvoice env (funding_paymentRequest f) (funding_paymentHash f) gross (network input) created)
           (\<lambda>request.
         bind_result (settled_text (funding_requestId f) ''Funding request id'' MAX_ID_LENGTH) (\<lambda>rid.
         bind_result (compressedPublicKey (funding_receiverIdentityPublicKey f) ''Funding receiver identity'') (\<lambda>key.
         bind_result (settled_time (funding_createdAt f) ''Funding creation time'') (\<lambda>fc.
         bind_result (settled_time (funding_expiresAt f) ''Funding expiry time'') (\<lambda>fe.
         if fc \<noteq> created \<or> fe \<noteq> normal_expiresAt request \<or> fe \<le> created
         then Inl ''Checkout Spark funding window is invalid.''
         else Inr \<lparr>funding_requestId = rid, funding_paymentRequest = normal_paymentRequest request,
                   funding_paymentHash = normal_paymentHash request,
                   funding_receiverIdentityPublicKey = key, grossFundingSats = gross,
                   funding_createdAt = fc, funding_expiresAt = fe\<rparr>))))))"

definition freezeCheckoutSparkSettledPlanInternal ::
    "'p settled_ports_scheme \<Rightarrow> 'r CheckoutSparkSettledRecipientInput_scheme FreezeCheckoutSparkSettledPlanInput
     \<Rightarrow> bool \<Rightarrow> CheckoutSparkNativeTreasuryPlan option \<Rightarrow> CheckoutSparkEventMarketBinding option
     \<Rightarrow> CheckoutSparkSettledPlan result" where
  "freezeCheckoutSparkSettledPlanInternal env input allowPreAllowanceV3 treasury event_input =
     bind_result (settled_text (checkoutId input) ''Checkout id'' MAX_ID_LENGTH) (\<lambda>checkout.
     bind_result (settled_text (orderId input) ''Order id'' MAX_ID_LENGTH) (\<lambda>order.
     bind_result (settled_hex (merchantPubkey input) ''Merchant pubkey'') (\<lambda>merchant.
     bind_result (settled_text (walletId input) ''Wallet id'' MAX_ID_LENGTH) (\<lambda>wallet.
     if network input \<noteq> ''mainnet'' \<and> network input \<noteq> ''regtest''
     then Inl ''Checkout Spark network is invalid.''
     else
     bind_result (settled_time (createdAt input) ''Plan creation time'') (\<lambda>created.
     bind_result (settled_time (takeoverAt input) ''Takeover time'') (\<lambda>takeover.
     if takeover \<le> created then Inl ''Checkout Spark takeover must follow plan creation.''
     else
     bind_result (freezeCheckoutSparkCommerceQuote env (commerceQuote input) merchant (event_input \<noteq> None)) (\<lambda>quote.
     bind_result
       (case event_input of
          None \<Rightarrow> Inr None
        | Some b \<Rightarrow> bind_result (freezeCheckoutSparkEventMarketBinding env b merchant quote created) (\<lambda>e. Inr (Some e)))
       (\<lambda>event.
     if event \<noteq> None \<and> treasury = None
     then Inl ''Checkout Spark event plans require native final collection.''
     else
     bind_result (plan_weights quote event (conduitFeePolicy input)) (\<lambda>(commerceWeight, conduitWeight).
     bind_result (settled_sats (grossFundingSats (funding input)) ''Gross funding'' False) (\<lambda>gross.
     bind_result (plan_gross quote event (conduitFeePolicy input)) (\<lambda>expectedGross.
     if gross \<noteq> expectedGross
        \<and> (\<not> allowPreAllowanceV3 \<or> conduitFeePolicy input \<noteq> None \<or> gross \<noteq> commerceWeight + conduitWeight)
     then Inl ''Checkout Spark gross funding differs from frozen terms.''
     else
     bind_result (freeze_funding env input created gross) (\<lambda>frozenFunding.
     if length (recipients input) < 2 then Inl ''Checkout Spark recipients are missing.''
     else
     bind_result (traverse (freeze_recipient env checkout order event created) (enumerate 0 (recipients input))) (\<lambda>rs.
     bind_result (check_recipients merchant quote event commerceWeight conduitWeight rs) (\<lambda>_.
     bind_result
       (case merchantPublicZapPolicy input of
          None \<Rightarrow> Inr None
        | Some p \<Rightarrow> bind_result (freezeCheckoutSparkMerchantPublicZapPolicy env p) (\<lambda>z. Inr (Some z)))
       (\<lambda>zap.
     let terms = FreezeCheckoutSparkSettledPlanInput.make checkout order merchant wallet (network input) created takeover
                   quote frozenFunding rs zap (conduitFeePolicy input)
     in bind_result
       (case treasury of
          None \<Rightarrow> Inr None
        | Some t \<Rightarrow> bind_result (restoreCheckoutSparkNativeTreasuryPlan env t terms) (\<lambda>n. Inr (Some n)))
       (\<lambda>native.
     let unsigned = FreezeCheckoutSparkSettledPlanInput.extend terms
           \<lparr>plan_schemaVersion = (if event \<noteq> None then 5 else if native \<noteq> None then 4 else 3),
            nativeTreasury = native, eventMarket = event, planDigest = []\<rparr>
     in bind_result (canonicalPlanValue env unsigned) (\<lambda>value.
     Inr (unsigned\<lparr>planDigest := settled_digest env value\<rparr>))))))))))))))))))"

definition assertPrivateCheckoutSparkSettledPlanInput :: "'r FreezeCheckoutSparkSettledPlanInput \<Rightarrow> unit result" where
  "assertPrivateCheckoutSparkSettledPlanInput input =
     (if merchantPublicZapPolicy input \<noteq> None
      then Inl ''Public routed zaps are unavailable for new checkout plans.'' else Inr ())"

text \<open>An input whose type has no \<open>eventMarket\<close> property cannot own one.\<close>

definition assertOrdinaryCheckoutSparkSettledPlanInput ::
    "'r CheckoutSparkSettledRecipientInput_scheme FreezeCheckoutSparkSettledPlanInput \<Rightarrow> unit result" where
  "assertOrdinaryCheckoutSparkSettledPlanInput input =
     (if list_ex (\<lambda>r. kind r = Organizer) (recipients input)
      then Inl ''Checkout Spark event obligations require an event plan.'' else Inr ())"

definition freezeCheckoutSparkSettledPlan ::
    "'p settled_ports_scheme \<Rightarrow> CheckoutSparkSettledRecipientInput FreezeCheckoutSparkSettledPlanInput
     \<Rightarrow> CheckoutSparkSettledPlan result" where
  "freezeCheckoutSparkSettledPlan env input =
     bind_result (assertPrivateCheckoutSparkSettledPlanInput input) (\<lambda>_.
     bind_result (assertOrdinaryCheckoutSparkSettledPlanInput input) (\<lambda>_.
     freezeCheckoutSparkSettledPlanInternal env input False None None))"

definition freezeCheckoutSparkSettledTreasuryPlan ::
    "'p settled_ports_scheme \<Rightarrow> CheckoutSparkSettledRecipientInput FreezeCheckoutSparkSettledPlanInput
     \<Rightarrow> CheckoutSparkNativeTreasuryPlan \<Rightarrow> CheckoutSparkSettledPlan result" where
  "freezeCheckoutSparkSettledTreasuryPlan env input treasury =
     bind_result (assertPrivateCheckoutSparkSettledPlanInput input) (\<lambda>_.
     bind_result (assertOrdinaryCheckoutSparkSettledPlanInput input) (\<lambda>_.
     freezeCheckoutSparkSettledPlanInternal env input False (Some treasury) None))"

definition freezeCheckoutSparkSettledEventPlan ::
    "'p settled_ports_scheme \<Rightarrow> CheckoutSparkSettledRecipientInput FreezeCheckoutSparkSettledPlanInput
     \<Rightarrow> CheckoutSparkNativeTreasuryPlan \<Rightarrow> CheckoutSparkEventMarketBinding \<Rightarrow> CheckoutSparkSettledPlan result" where
  "freezeCheckoutSparkSettledEventPlan env input treasury event =
     bind_result (assertPrivateCheckoutSparkSettledPlanInput input) (\<lambda>_.
     freezeCheckoutSparkSettledPlanInternal env input False (Some treasury) (Some event))"

subsection \<open>Restoring a plan\<close>

definition restoreCheckoutSparkSettledPlan ::
    "'p settled_ports_scheme \<Rightarrow> CheckoutSparkSettledPlan \<Rightarrow> CheckoutSparkSettledPlan result" where
  "restoreCheckoutSparkSettledPlan env plan =
     (let v = plan_schemaVersion plan
      in if v \<notin> {3, 4, 5} \<or> (v = 3 \<and> nativeTreasury plan \<noteq> None)
            \<or> (isCheckoutSparkNativeTreasuryPlan plan \<and> nativeTreasury plan = None)
            \<or> (if v = 5 then eventMarket plan = None else eventMarket plan \<noteq> None)
            \<or> (v = 5 \<and> merchantPublicZapPolicy plan \<noteq> None)
         then Inl ''Checkout Spark settled plan version is invalid.''
         else bind_result
           (freezeCheckoutSparkSettledPlanInternal env (FreezeCheckoutSparkSettledPlanInput.truncate plan)
              (v = 3) (nativeTreasury plan) (eventMarket plan))
           (\<lambda>canonical.
              if planDigest canonical \<noteq> planDigest plan
                 \<or> map (\<lambda>r. (position r, legId r)) (recipients plan)
                   \<noteq> map (\<lambda>r. (position r, legId r)) (recipients canonical)
              then Inl ''Checkout Spark settled plan integrity check failed.''
              else Inr canonical))"

definition find_recipient :: "CheckoutSparkSettledPlan \<Rightarrow> js_string \<Rightarrow> CheckoutSparkSettledRecipient option" where
  "find_recipient plan leg = find (\<lambda>r. legId r = leg) (recipients plan)"

text \<open>Whether a leg is the native final collection, which no Lightning payment settles.\<close>

definition is_native_leg :: "CheckoutSparkSettledPlan \<Rightarrow> js_string \<Rightarrow> bool" where
  "is_native_leg plan leg \<longleftrightarrow>
     isCheckoutSparkNativeTreasuryPlan plan \<and> map_option kind (find_recipient plan leg) = Some Conduit"

definition deriveCheckoutSparkSettledTransferId ::
    "'p settled_ports_scheme \<Rightarrow> CheckoutSparkSettledPlan \<Rightarrow> js_string \<Rightarrow> js_string result" where
  "deriveCheckoutSparkSettledTransferId env plan leg =
     bind_result (restoreCheckoutSparkSettledPlan env plan) (\<lambda>canonical.
     if is_native_leg canonical leg
     then Inl ''Checkout Spark native treasury has no local provider transfer ID.''
     else if find_recipient canonical leg = None then Inl ''Checkout Spark settled leg is out of scope.''
     else Inr (uuidFromDigest (settled_digest env (JArray
            [JString ''conduit:checkout-spark-settled-transfer:v3'', JString (planDigest canonical), JString leg]))))"

definition deriveCheckoutSparkSettledRenewalTransferId ::
    "'p settled_ports_scheme \<Rightarrow> CheckoutSparkSettledPlan \<Rightarrow> js_string \<Rightarrow> js_string result" where
  "deriveCheckoutSparkSettledRenewalTransferId env plan leg =
     bind_result (deriveCheckoutSparkSettledTransferId env plan leg) (\<lambda>parent.
     Inr (uuidFromDigest (settled_digest env (JArray
            [JString ''conduit:checkout-spark-settled-transfer-generation:v1'', JString (planDigest plan),
             JString leg, JInt 1, JString parent]))))"

end
