(* ===== verification/Settled_Returned.thy ===== *)
theory Settled_Returned
  imports Settled_Plan
begin

text \<open>
  Returned outgoing transfers: the intent of a leg, the exact outgoing request of
  \<open>checkout-spark-settled-outgoing-history.ts\<close>, and the proofs of
  \<open>checkout-spark-settled-returned.ts\<close> that a transfer came back in full, which alone allow a leg to
  be renewed; with the send window of \<open>checkout-spark-invoice-expiry.ts\<close>.  A proof is an
  unforgeable handle into a module-private map; the model passes the entry itself, \<open>None\<close> for a
  handle the map does not know.
\<close>

subsection \<open>Data\<close>

record CheckoutSparkSettledLegIntent =
  intent_legId :: js_string
  intent_transferId :: js_string
  intent_paymentRequest :: js_string
  intent_paymentHash :: js_string
  invoiceAmountSats :: int
  maxFeeSats :: int
  preparedAt :: int
  publicZap :: "json option"
  receiverBinding :: "CheckoutSparkReceiverBinding option"

record CheckoutSparkSettledOutgoingTarget =
  target_generation :: "int option"
  target_walletId :: js_string
  target_network :: js_string
  target_legId :: js_string
  target_recipientId :: js_string
  target_allocationSats :: int
  unpaidAllocationSats :: int
  target_intent :: CheckoutSparkSettledLegIntent

record returned_leaf =
  leaf_id :: js_string
  leaf_valueSats :: int

record CheckoutSparkSettledClosedReturnedEvidence =
  ev_network :: js_string
  ev_walletIdentityPublicKey :: js_string
  ev_transferId :: js_string
  ev_requestId :: js_string
  ev_paymentRequest :: js_string
  ev_paymentHash :: js_string
  ev_invoiceAmountSats :: int
  ev_maxFeeSats :: int
  ev_debitedSats :: int
  ev_returnedSats :: int
  ev_sspStatus :: js_string
  ev_operatorStatus :: js_string
  ev_htlcStatus :: js_string
  ev_preimage :: "js_string option"
  ev_returnedLeaves :: "returned_leaf list"
  ev_observedAt :: int

record CheckoutSparkSettledReturnedEvidence = CheckoutSparkSettledClosedReturnedEvidence +
  ev_availableSats :: int
  ev_availableLeaves :: "returned_leaf list"

record CheckoutSparkSettledReturnClosure =
  closure_schemaVersion :: int
  closure_planDigest :: js_string
  closure_legId :: js_string
  closure_intentDigest :: js_string
  closure_transferId :: js_string
  closure_requestId :: js_string
  closure_paymentHash :: js_string
  closure_debitedSats :: int
  closure_returnedSats :: int
  netDebitSats :: int
  closure_observedAt :: int

record returned_proof =
  proof_closure :: CheckoutSparkSettledReturnClosure
  proof_allocationSats :: int
  proof_availableSats :: int

record closed_returned_proof =
  closed_proof_closure :: CheckoutSparkSettledReturnClosure
  closed_proof_walletId :: js_string
  closed_proof_network :: js_string

subsection \<open>The send window\<close>

definition checkoutSparkProviderSendWindowEndsAt :: "'p crypto_scheme \<Rightarrow> js_string \<Rightarrow> int option" where
  "checkoutSparkProviderSendWindowEndsAt env request =
     (if \<not> invoice_valid (crypto.truncate env) request then None
      else case invoice_expiresAt (decodeLightningInvoiceMetadata request) of
        None \<Rightarrow> None
      | Some e \<Rightarrow> if is_safe (e * 1000) then Some (e * 1000) else None)"

definition hasCheckoutSparkProviderSendWindow :: "'p crypto_scheme \<Rightarrow> js_string \<Rightarrow> int \<Rightarrow> bool" where
  "hasCheckoutSparkProviderSendWindow env request nowMs \<longleftrightarrow>
     is_safe nowMs \<and> nowMs \<ge> 0
     \<and> (case checkoutSparkProviderSendWindowEndsAt env request of None \<Rightarrow> False | Some e \<Rightarrow> nowMs < e)"

definition assertCheckoutSparkOutgoingInvoiceLifetime ::
    "'p crypto_scheme \<Rightarrow> js_string list \<Rightarrow> int \<Rightarrow> int \<Rightarrow> unit result" where
  "assertCheckoutSparkOutgoingInvoiceLifetime env requests fundingExpiresAt takeover =
     (if \<not> is_safe fundingExpiresAt \<or> fundingExpiresAt < 0 \<or> \<not> is_safe takeover \<or> takeover < 0 \<or> requests = []
      then Inl ''Checkout Spark invoice window terms are invalid.''
      else let allowance = max 300000 (int (length requests) * 60000);
               deadline = max fundingExpiresAt takeover + allowance
      in if \<not> is_safe deadline then Inl ''Checkout Spark invoice window is unsafe.''
         else if list_ex (\<lambda>r. case checkoutSparkProviderSendWindowEndsAt env r of
                                None \<Rightarrow> True | Some e \<Rightarrow> e \<le> deadline) requests
         then Inl ''Checkout Spark outgoing invoice lifetime is insufficient.''
         else Inr ())"

subsection \<open>The exact outgoing request\<close>

record outgoing_request =
  out_network :: js_string
  out_transferId :: js_string
  out_paymentRequest :: js_string
  out_amountSats :: int
  out_maxFeeSats :: int

definition requireCheckoutSparkSettledExactOutgoingRequest ::
    "'p settled_ports_scheme \<Rightarrow> CheckoutSparkSettledPlan \<Rightarrow> CheckoutSparkSettledOutgoingTarget
     \<Rightarrow> outgoing_request result" where
  "requireCheckoutSparkSettledExactOutgoingRequest env plan target =
     (let refusal = ''Checkout Spark settled payout differs from its plan.''; intent = target_intent target
      in if plan_schemaVersion plan \<notin> {3, 4, 5} \<or> target_walletId target \<noteq> walletId plan
            \<or> target_network target \<noteq> network plan
         then Inl refusal
         else case find_recipient plan (target_legId target) of
           None \<Rightarrow> Inl refusal
         | Some recipient \<Rightarrow>
             if (isCheckoutSparkNativeTreasuryPlan plan \<and> kind recipient = Conduit)
                \<or> target_recipientId target \<noteq> recipientId recipient
                \<or> intent_legId intent \<noteq> legId recipient
                \<or> target_generation target \<notin> {None, Some 0, Some 1}
             then Inl refusal
             else bind_result
               (if target_generation target = Some 1
                then deriveCheckoutSparkSettledRenewalTransferId env plan (legId recipient)
                else deriveCheckoutSparkSettledTransferId env plan (legId recipient))
               (\<lambda>expected.
                  if intent_transferId intent \<noteq> expected
                     \<or> \<not> is_safe (target_allocationSats target) \<or> target_allocationSats target \<le> 0
                     \<or> invoiceAmountSats intent + maxFeeSats intent \<noteq> target_allocationSats target
                     \<or> \<not> is_safe (unpaidAllocationSats target)
                     \<or> unpaidAllocationSats target < target_allocationSats target
                     \<or> unpaidAllocationSats target > grossFundingSats (funding plan)
                     \<or> decodeLightningInvoicePaymentHash (intent_paymentRequest intent) \<noteq> Some (intent_paymentHash intent)
                  then Inl refusal
                  else Inr \<lparr>out_network = network plan, out_transferId = intent_transferId intent,
                            out_paymentRequest = intent_paymentRequest intent,
                            out_amountSats = invoiceAmountSats intent, out_maxFeeSats = maxFeeSats intent\<rparr>))"

subsection \<open>Closures\<close>

definition returned_refusal :: js_string where
  "returned_refusal = ''Checkout Spark returned transfer proof is unavailable.''"

definition valid_amount :: "int \<Rightarrow> bool" where
  "valid_amount n \<longleftrightarrow> is_safe n \<and> n \<ge> 0"

definition intentDigest ::
    "'p crypto_scheme \<Rightarrow> CheckoutSparkSettledPlan \<Rightarrow> CheckoutSparkSettledLegIntent \<Rightarrow> js_string" where
  "intentDigest env plan intent = settled_digest env (JArray
     [JString ''conduit:checkout-spark-returned-intent:v1'', JString (planDigest plan),
      JString (walletId plan), JString (network plan), JString (intent_legId intent),
      JString (intent_transferId intent), JString (intent_paymentRequest intent),
      JString (intent_paymentHash intent), JInt (invoiceAmountSats intent), JInt (maxFeeSats intent),
      JInt (preparedAt intent)])"

definition restoreCheckoutSparkSettledReturnClosure ::
    "'p crypto_scheme \<Rightarrow> CheckoutSparkSettledReturnClosure \<Rightarrow> CheckoutSparkSettledPlan
     \<Rightarrow> CheckoutSparkSettledLegIntent \<Rightarrow> CheckoutSparkSettledReturnClosure result" where
  "restoreCheckoutSparkSettledReturnClosure env closure plan intent =
     (if closure_schemaVersion closure \<noteq> 1 \<or> closure_planDigest closure \<noteq> planDigest plan
         \<or> closure_legId closure \<noteq> intent_legId intent
         \<or> closure_intentDigest closure \<noteq> intentDigest env plan intent
         \<or> closure_transferId closure \<noteq> intent_transferId intent
         \<or> closure_paymentHash closure \<noteq> intent_paymentHash intent
         \<or> js_trim (closure_requestId closure) = [] \<or> length (closure_requestId closure) > 512
         \<or> \<not> valid_amount (closure_debitedSats closure)
         \<or> closure_debitedSats closure < invoiceAmountSats intent
         \<or> closure_debitedSats closure > invoiceAmountSats intent + maxFeeSats intent
         \<or> closure_returnedSats closure \<noteq> closure_debitedSats closure
         \<or> netDebitSats closure \<noteq> 0
         \<or> \<not> valid_amount (closure_observedAt closure)
         \<or> closure_observedAt closure < preparedAt intent
      then Inl returned_refusal else Inr closure)"

text \<open>Leaves with distinct, non-empty identities and positive safe values, and their sum.\<close>

definition leaves_ok :: "returned_leaf list \<Rightarrow> bool" where
  "leaves_ok leaves \<longleftrightarrow>
     list_all (\<lambda>l. leaf_id l \<noteq> [] \<and> is_safe (leaf_valueSats l) \<and> leaf_valueSats l > 0) leaves
     \<and> distinct (map leaf_id leaves)"

definition leaves_total :: "returned_leaf list \<Rightarrow> int" where
  "leaves_total leaves = sum_list (map leaf_valueSats leaves)"

definition exactReturnedClosure ::
    "'p settled_ports_scheme \<Rightarrow> CheckoutSparkSettledPlan \<Rightarrow> CheckoutSparkSettledOutgoingTarget
     \<Rightarrow> 'e CheckoutSparkSettledClosedReturnedEvidence_scheme \<Rightarrow> CheckoutSparkSettledReturnClosure result" where
  "exactReturnedClosure env plan target evidence =
     bind_result (requireCheckoutSparkSettledExactOutgoingRequest env plan target) (\<lambda>_.
     if target_generation target = Some 1 then Inl returned_refusal
     else let intent = target_intent target; returnedSats = leaves_total (ev_returnedLeaves evidence)
     in if plan_schemaVersion plan \<notin> {3, 4, 5}
           \<or> (case find_recipient plan (target_legId target) of
                None \<Rightarrow> True | Some recipient \<Rightarrow> target_recipientId target \<noteq> recipientId recipient)
           \<or> target_walletId target \<noteq> walletId plan \<or> target_network target \<noteq> network plan
           \<or> intent_legId intent \<noteq> target_legId target
           \<or> ev_network evidence \<noteq> network plan
           \<or> ev_walletIdentityPublicKey evidence \<noteq> funding_receiverIdentityPublicKey (funding plan)
           \<or> ev_transferId evidence \<noteq> intent_transferId intent
           \<or> ev_paymentRequest evidence \<noteq> intent_paymentRequest intent
           \<or> ev_paymentHash evidence \<noteq> intent_paymentHash intent
           \<or> ev_invoiceAmountSats evidence \<noteq> invoiceAmountSats intent
           \<or> ev_maxFeeSats evidence \<noteq> maxFeeSats intent
           \<or> ev_sspStatus evidence \<notin> {''USER_SWAP_RETURNED'', ''LIGHTNING_PAYMENT_FAILED''}
           \<or> ev_operatorStatus evidence \<notin> {''RETURNED'', ''EXPIRED''}
           \<or> ev_htlcStatus evidence \<noteq> ''RETURNED'' \<or> ev_preimage evidence \<noteq> None
           \<or> \<not> leaves_ok (ev_returnedLeaves evidence) \<or> ev_returnedLeaves evidence = []
           \<or> \<not> valid_amount returnedSats \<or> returnedSats \<noteq> ev_debitedSats evidence
           \<or> ev_returnedSats evidence \<noteq> returnedSats
        then Inl returned_refusal
        else restoreCheckoutSparkSettledReturnClosure env
          \<lparr>closure_schemaVersion = 1, closure_planDigest = planDigest plan, closure_legId = target_legId target,
           closure_intentDigest = intentDigest env plan intent, closure_transferId = ev_transferId evidence,
           closure_requestId = ev_requestId evidence, closure_paymentHash = ev_paymentHash evidence,
           closure_debitedSats = ev_debitedSats evidence, closure_returnedSats = ev_returnedSats evidence,
           netDebitSats = 0, closure_observedAt = ev_observedAt evidence\<rparr> plan intent)"

subsection \<open>Proofs\<close>

definition proveCheckoutSparkSettledReturnedTransfer ::
    "'p settled_ports_scheme \<Rightarrow> CheckoutSparkSettledPlan \<Rightarrow> CheckoutSparkSettledOutgoingTarget
     \<Rightarrow> CheckoutSparkSettledReturnedEvidence \<Rightarrow> returned_proof result" where
  "proveCheckoutSparkSettledReturnedTransfer env plan target evidence =
     bind_result (exactReturnedClosure env plan target evidence) (\<lambda>closure.
     let available = ev_availableLeaves evidence
     in if \<not> valid_amount (ev_availableSats evidence)
           \<or> ev_availableSats evidence < unpaidAllocationSats target
           \<or> \<not> leaves_ok available
           \<or> list_ex (\<lambda>leaf. map_of (map (\<lambda>l. (leaf_id l, leaf_valueSats l)) available) (leaf_id leaf)
                              \<noteq> Some (leaf_valueSats leaf)) (ev_returnedLeaves evidence)
           \<or> \<not> valid_amount (leaves_total available) \<or> leaves_total available \<noteq> ev_availableSats evidence
        then Inl returned_refusal
        else Inr \<lparr>proof_closure = closure, proof_allocationSats = target_allocationSats target,
                  proof_availableSats = ev_availableSats evidence\<rparr>)"

definition PROOF_LIFETIME_MS :: int where "PROOF_LIFETIME_MS = 5000"

definition assertCheckoutSparkSettledReturnedProof ::
    "'p settled_ports_scheme \<Rightarrow> returned_proof option \<Rightarrow> CheckoutSparkSettledPlan
     \<Rightarrow> CheckoutSparkSettledOutgoingTarget \<Rightarrow> int \<Rightarrow> CheckoutSparkSettledReturnClosure result" where
  "assertCheckoutSparkSettledReturnedProof env handle plan target nowMs =
     bind_result (requireCheckoutSparkSettledExactOutgoingRequest env plan target) (\<lambda>_.
     if target_generation target = Some 1 then Inl returned_refusal
     else case handle of
       None \<Rightarrow> Inl returned_refusal
     | Some observed \<Rightarrow>
         if proof_allocationSats observed \<noteq> target_allocationSats target
            \<or> proof_availableSats observed < unpaidAllocationSats target
            \<or> \<not> valid_amount nowMs \<or> closure_observedAt (proof_closure observed) > nowMs
            \<or> nowMs - closure_observedAt (proof_closure observed) > PROOF_LIFETIME_MS
         then Inl returned_refusal
         else restoreCheckoutSparkSettledReturnClosure env (proof_closure observed) plan (target_intent target))"

definition proveCheckoutSparkSettledClosedReturnedTransfer ::
    "'p settled_ports_scheme \<Rightarrow> CheckoutSparkSettledPlan \<Rightarrow> CheckoutSparkSettledOutgoingTarget
     \<Rightarrow> CheckoutSparkSettledClosedReturnedEvidence \<Rightarrow> closed_returned_proof result" where
  "proveCheckoutSparkSettledClosedReturnedTransfer env plan target evidence =
     bind_result (exactReturnedClosure env plan target evidence) (\<lambda>closure.
     Inr \<lparr>closed_proof_closure = closure, closed_proof_walletId = walletId plan,
          closed_proof_network = network plan\<rparr>)"

definition assertCheckoutSparkSettledClosedReturnedProof ::
    "closed_returned_proof option \<Rightarrow> js_string \<Rightarrow> js_string \<Rightarrow> int \<Rightarrow> CheckoutSparkSettledReturnClosure result" where
  "assertCheckoutSparkSettledClosedReturnedProof handle wallet net nowMs =
     (case handle of
        None \<Rightarrow> Inl returned_refusal
      | Some observed \<Rightarrow>
          if closed_proof_walletId observed \<noteq> wallet \<or> closed_proof_network observed \<noteq> net
             \<or> \<not> valid_amount nowMs \<or> closure_observedAt (closed_proof_closure observed) > nowMs
             \<or> nowMs - closure_observedAt (closed_proof_closure observed) > PROOF_LIFETIME_MS
          then Inl returned_refusal
          else Inr (closed_proof_closure observed))"

end
