(* ===== verification/Settled_Router.thy ===== *)
theory Settled_Router
  imports Settled_Returned
begin

text \<open>
  The settled checkout router of \<open>checkout-spark-settled-router.ts\<close> and the native treasury
  finalization of \<open>checkout-spark-treasury-finalization.ts\<close>: the reconciliation state of one
  checkout, its restoration from storage, and every operation on it.  Each operation restores its
  input state first, so a state read back from storage is validated before it is used;
  \<open>Object.freeze\<close> has no effect on values and is left out.
\<close>

subsection \<open>State\<close>

datatype CheckoutSparkSettledLegStatus =
  Unprepared | Prepared | Submitted | Ambiguous | LookupUnavailable | ConflictingEvidence | Paid
| TerminalFailure | OtherStatus js_string

record CheckoutSparkSettledCreditEvidence =
  credit_requestId :: js_string
  credit_paymentHash :: js_string
  credit_transferId :: js_string
  credit_receiverIdentityPublicKey :: js_string
  grossSats :: int
  creditedSats :: int
  credit_observedAt :: int

record CheckoutSparkSettledClosedGeneration =
  closed_generation :: int
  closed_intent :: CheckoutSparkSettledLegIntent
  closed_status :: CheckoutSparkSettledLegStatus
  closed_observedAt :: int
  closed_finalFeeSats :: "int option"
  closed_finalDebitSats :: "int option"
  closure :: CheckoutSparkSettledReturnClosure

record CheckoutSparkSettledLegProgress =
  leg_legId :: js_string
  allocationSats :: "int option"
  leg_intent :: "CheckoutSparkSettledLegIntent option"
  leg_status :: CheckoutSparkSettledLegStatus
  leg_observedAt :: "int option"
  finalFeeSats :: "int option"
  finalDebitSats :: "int option"
  generation :: "int option"
  closedGenerations :: "CheckoutSparkSettledClosedGeneration list option"

record CheckoutSparkNativeTreasuryBudget =
  baseConduitAllocationSats :: int
  unusedCommerceReserveSats :: int
  authorizedDebitSats :: int
  accountingDigest :: js_string

record CheckoutSparkNativeTreasuryIntent = CheckoutSparkNativeTreasuryBudget +
  native_invoiceId :: js_string
  native_invoiceRequest :: js_string
  native_amountSats :: int
  native_preparedAt :: int

record CheckoutSparkNativeTreasuryFinalization =
  native_intent :: "CheckoutSparkNativeTreasuryIntent option"
  native_status :: CheckoutSparkSettledLegStatus
  providerTransferId :: "js_string option"
  native_observedAt :: "int option"
  native_finalFeeSats :: "int option"
  native_finalDebitSats :: "int option"

record CheckoutSparkSettledReconciliation =
  state_schemaVersion :: int
  treasuryFinalization :: "CheckoutSparkNativeTreasuryFinalization option"
  state_plan :: CheckoutSparkSettledPlan
  credit :: "CheckoutSparkSettledCreditEvidence option"
  legs :: "CheckoutSparkSettledLegProgress list"
  updatedAt :: int

definition getCheckoutSparkSettledLegGeneration :: "CheckoutSparkSettledLegProgress \<Rightarrow> int" where
  "getCheckoutSparkSettledLegGeneration leg = or_else (generation leg) 0"

definition getCheckoutSparkSettledClosedGeneration ::
    "CheckoutSparkSettledLegProgress \<Rightarrow> CheckoutSparkSettledClosedGeneration option" where
  "getCheckoutSparkSettledClosedGeneration leg =
     (case closedGenerations leg of Some (g # _) \<Rightarrow> Some g | _ \<Rightarrow> None)"

definition fingerprintCheckoutSparkSettledLegIntent ::
    "'p crypto_scheme \<Rightarrow> (CheckoutSparkReceiverBinding \<Rightarrow> json) \<Rightarrow> CheckoutSparkSettledLegIntent \<Rightarrow> js_string" where
  "fingerprintCheckoutSparkSettledLegIntent env binding_json intent = settled_digest env (JArray
     ([JString ''conduit:checkout-spark-settled-intent-review:v3'', JString (intent_legId intent),
       JString (intent_transferId intent), JString (intent_paymentRequest intent),
       JString (intent_paymentHash intent), JInt (invoiceAmountSats intent), JInt (maxFeeSats intent),
       JInt (preparedAt intent)]
      @ (case publicZap intent of None \<Rightarrow> [] | Some z \<Rightarrow> [z])
      @ (case receiverBinding intent of None \<Rightarrow> [] | Some b \<Rightarrow> [binding_json b])))"

subsection \<open>Allocation\<close>

record divided_credit =
  divided_commerce :: int
  divided_conduit :: int

text \<open>The event market of a plan counts only in version 5.\<close>

definition plan_event :: "CheckoutSparkSettledPlan \<Rightarrow> CheckoutSparkEventMarketBinding option" where
  "plan_event plan = (if plan_schemaVersion plan = 5 then eventMarket plan else None)"

definition divide_credit :: "CheckoutSparkSettledPlan \<Rightarrow> int \<Rightarrow> divided_credit result" where
  "divide_credit plan credited =
     (let total = JSInt (quote_commerceTotalSats (commerceQuote plan)); p = conduitFeePolicy plan;
          gross = JSInt (grossFundingSats (funding plan))
      in case plan_event plan of
           Some b \<Rightarrow>
             bind_result (calculateCheckoutSparkEventAllocationWeights total (JSInt (market_organizerFeeSats b)) p) (\<lambda>w.
             bind_result (allocateCheckoutSparkEventSettledSats (JSInt credited) gross w p) (\<lambda>a.
             Inr \<lparr>divided_commerce = commerceAllocationSats a, divided_conduit = conduitAllocationSats a\<rparr>))
         | None \<Rightarrow>
             bind_result (calculateCheckoutSparkAllocationWeights total p) (\<lambda>w.
             bind_result (allocateCheckoutSparkSettledSats (JSInt credited) gross w p) (\<lambda>a.
             Inr \<lparr>divided_commerce = commerceAllocationSats a, divided_conduit = conduitAllocationSats a\<rparr>)))"

text \<open>A recipient whose share of the commerce allocation is proportional to its weight.\<close>

definition is_proportional :: "CheckoutSparkSettledPlan \<Rightarrow> CheckoutSparkSettledRecipient \<Rightarrow> bool" where
  "is_proportional plan r \<longleftrightarrow>
     kind r \<noteq> Merchant \<and> kind r \<noteq> Conduit \<and> \<not> (plan_event plan \<noteq> None \<and> kind r = Organizer)"

definition proportional_share :: "divided_credit \<Rightarrow> int \<Rightarrow> CheckoutSparkSettledRecipient \<Rightarrow> int" where
  "proportional_share divided commerceWeight r = (divided_commerce divided * weightSats r) div commerceWeight"

definition fresh_leg ::
    "CheckoutSparkSettledPlan \<Rightarrow> CheckoutSparkSettledRecipient \<Rightarrow> int option \<Rightarrow> CheckoutSparkSettledLegProgress" where
  "fresh_leg plan r allocation =
     \<lparr>leg_legId = legId r, allocationSats = allocation, leg_intent = None, leg_status = Unprepared,
      leg_observedAt = None, finalFeeSats = None, finalDebitSats = None,
      generation = (if isCheckoutSparkNativeTreasuryPlan plan then Some 0 else None),
      closedGenerations = (if isCheckoutSparkNativeTreasuryPlan plan then Some [] else None)\<rparr>"

text \<open>The code first fills a map from leg identities to the proportional shares, then reads it:
  a later recipient with the same identity overwrites, and the assigned sum counts both.\<close>

definition recipient_allocation ::
    "CheckoutSparkSettledPlan \<Rightarrow> divided_credit \<Rightarrow> int \<Rightarrow> CheckoutSparkSettledRecipient \<Rightarrow> int option" where
  "recipient_allocation plan divided commerceWeight r =
     (let others = filter (is_proportional plan) (recipients plan);
          share = proportional_share divided commerceWeight;
          assigned = sum_list (map share others)
      in if kind r = Conduit then Some (divided_conduit divided)
         else case (plan_event plan, kind r) of
           (Some b, Organizer) \<Rightarrow> Some (market_organizerFeeSats b)
         | (_, Merchant) \<Rightarrow> Some (divided_commerce divided - assigned)
         | _ \<Rightarrow> map_of (rev (map (\<lambda>o'. (legId o', share o')) others)) (legId r))"

definition allocatedLegs ::
    "CheckoutSparkSettledPlan \<Rightarrow> int \<Rightarrow> CheckoutSparkSettledLegProgress list result" where
  "allocatedLegs plan credited =
     bind_result (plan_weights (commerceQuote plan) (plan_event plan) (conduitFeePolicy plan)) (\<lambda>(commerceWeight, _).
     bind_result (divide_credit plan credited) (\<lambda>divided.
     Inr (map (\<lambda>r. fresh_leg plan r (recipient_allocation plan divided commerceWeight r)) (recipients plan))))"

definition assertCheckoutSparkSettledFundingCoverage :: "CheckoutSparkSettledPlan \<Rightarrow> int \<Rightarrow> unit result" where
  "assertCheckoutSparkSettledFundingCoverage plan credited =
     bind_result (plan_weights (commerceQuote plan) (plan_event plan) (conduitFeePolicy plan))
       (\<lambda>(commerceWeight, conduitWeight).
          if \<not> is_safe credited
             \<or> credited < commerceWeight + conduitWeight
                 + (case plan_event plan of None \<Rightarrow> 0 | Some b \<Rightarrow> market_organizerFeeSats b)
          then Inl ''Checkout Spark funding shortfall requires reconciliation.'' else Inr ())"

definition normalizeCredit ::
    "CheckoutSparkSettledPlan \<Rightarrow> CheckoutSparkSettledCreditEvidence \<Rightarrow> CheckoutSparkSettledCreditEvidence result" where
  "normalizeCredit plan evidence =
     bind_result (settled_text (credit_requestId evidence) ''Funding request id'' MAX_ID_LENGTH) (\<lambda>rid.
     bind_result (settled_hex (credit_paymentHash evidence) ''Funding payment hash'') (\<lambda>hash.
     bind_result (settled_text (credit_transferId evidence) ''Funding transfer id'' MAX_ID_LENGTH) (\<lambda>transfer.
     let refusal = ''Checkout Spark settled credit is out of scope.''; f = funding plan
     in if rid \<noteq> funding_requestId f \<or> hash \<noteq> funding_paymentHash f \<or> grossSats evidence \<noteq> grossFundingSats f
        then Inl refusal
        else bind_result (compressedPublicKey (credit_receiverIdentityPublicKey evidence) ''Funding receiver identity'') (\<lambda>key.
     if key \<noteq> funding_receiverIdentityPublicKey f then Inl refusal
     else bind_result (settled_sats (creditedSats evidence) ''Settled credit'' False) (\<lambda>credited.
     if credited > grossFundingSats f then Inl ''Checkout Spark settled credit exceeds invoice.''
     else bind_result (settled_time (credit_observedAt evidence) ''Funding credit time'') (\<lambda>observed.
     if observed < createdAt plan then Inl ''Checkout Spark settled credit predates plan.''
     else Inr \<lparr>credit_requestId = rid, credit_paymentHash = hash, credit_transferId = transfer,
               credit_receiverIdentityPublicKey = credit_receiverIdentityPublicKey evidence,
               grossSats = grossFundingSats f, creditedSats = credited, credit_observedAt = observed\<rparr>))))))"

subsection \<open>Intents\<close>

definition normalizeIntent ::
    "'p settled_ports_scheme \<Rightarrow> CheckoutSparkSettledPlan \<Rightarrow> CheckoutSparkSettledLegProgress
     \<Rightarrow> CheckoutSparkSettledLegIntent \<Rightarrow> int \<Rightarrow> CheckoutSparkSettledLegIntent result" where
  "normalizeIntent env plan leg input gen =
     (let scope = ''Checkout Spark settled intent is out of scope.'';
          exceeds = ''Checkout Spark outgoing invoice exceeds allocation.''
      in if intent_legId input \<noteq> leg_legId leg then Inl scope
         else bind_result
           (if gen = 0 then deriveCheckoutSparkSettledTransferId env plan (leg_legId leg)
            else deriveCheckoutSparkSettledRenewalTransferId env plan (leg_legId leg)) (\<lambda>transfer.
         if intent_transferId input \<noteq> transfer then Inl scope
         else case allocationSats leg of
           None \<Rightarrow> Inl scope
         | Some allocation \<Rightarrow>
         bind_result (settled_sats (invoiceAmountSats input) ''Outgoing invoice'' False) (\<lambda>amount.
         bind_result (settled_sats (maxFeeSats input) ''Outgoing fee cap'' True) (\<lambda>maxFee.
         bind_result (settled_time (preparedAt input) ''Outgoing preparation time'') (\<lambda>prepared.
         if prepared < createdAt plan \<or> amount \<ge> allocation \<or> maxFee \<noteq> allocation - amount then Inl exceeds
         else bind_result (normalizeInvoice env (intent_paymentRequest input) (intent_paymentHash input) amount (network plan) prepared)
           (\<lambda>invoice.
         case find_recipient plan (leg_legId leg) of
           None \<Rightarrow> Inl scope
         | Some recipient \<Rightarrow>
         bind_result
           (case publicZap input of
              None \<Rightarrow> Inr None
            | Some z \<Rightarrow>
                (case merchantPublicZapPolicy plan of
                   None \<Rightarrow> Inl ''Checkout Spark public zap is outside the approved Merchant leg.''
                 | Some p \<Rightarrow>
                     if kind recipient \<noteq> Merchant
                     then Inl ''Checkout Spark public zap is outside the approved Merchant leg.''
                     else bind_result (restoreCheckoutSparkPublicZapContext env z
                       \<lparr>zap_policy = p, zap_recipientPubkey = merchantPubkey plan,
                        zap_lud16 = destination_value (destination recipient), zap_amountSats = amount,
                        zap_paymentRequest = normal_paymentRequest invoice, zap_preparedAt = prepared,
                        zap_planCreatedAt = createdAt plan\<rparr>) (\<lambda>z'. Inr (Some z'))))
           (\<lambda>zap.
         bind_result
           (case receiverBinding input of
              None \<Rightarrow> Inr None
            | Some b \<Rightarrow>
                bind_result (freezeCheckoutSparkReceiverBinding env b) (\<lambda>b'.
                if Some (binding_lud16 b') \<noteq> normalizeCheckoutSparkReceiverAddress (destination_value (destination recipient))
                   \<or> binding_mode b' \<noteq> (if zap \<noteq> None then ''public'' else ''private'')
                then Inl ''Checkout Spark receiver binding is out of scope.'' else Inr (Some b')))
           (\<lambda>binding.
         Inr \<lparr>intent_legId = leg_legId leg, intent_transferId = intent_transferId input,
              intent_paymentRequest = normal_paymentRequest invoice, intent_paymentHash = normal_paymentHash invoice,
              invoiceAmountSats = amount, maxFeeSats = maxFee, preparedAt = prepared,
              publicZap = zap, receiverBinding = binding\<rparr>))))))))"

subsection \<open>The native treasury\<close>

definition createCheckoutSparkNativeTreasuryFinalization :: CheckoutSparkNativeTreasuryFinalization where
  "createCheckoutSparkNativeTreasuryFinalization =
     \<lparr>native_intent = None, native_status = Unprepared, providerTransferId = None, native_observedAt = None,
      native_finalFeeSats = None, native_finalDebitSats = None\<rparr>"

definition conduit_recipient :: "CheckoutSparkSettledPlan \<Rightarrow> CheckoutSparkSettledRecipient option" where
  "conduit_recipient plan = find (\<lambda>r. kind r = Conduit) (recipients plan)"

fun json_of_int_option :: "int option \<Rightarrow> json" where
  "json_of_int_option None = JNull"
| "json_of_int_option (Some i) = JInt i"

definition closed_generations :: "CheckoutSparkSettledLegProgress \<Rightarrow> CheckoutSparkSettledClosedGeneration list" where
  "closed_generations leg = or_else (closedGenerations leg) []"

definition commerce_leg_settled :: "CheckoutSparkSettledLegProgress \<Rightarrow> bool" where
  "commerce_leg_settled leg \<longleftrightarrow>
     leg_status leg = Paid \<and> leg_intent leg \<noteq> None
     \<and> (case finalDebitSats leg of None \<Rightarrow> False | Some d \<Rightarrow> is_safe d \<and> d > 0)
     \<and> list_all (\<lambda>g. netDebitSats (closure g) = 0) (closed_generations leg)"

definition accounting_value ::
    "CheckoutSparkSettledPlan \<Rightarrow> CheckoutSparkSettledCreditEvidence \<Rightarrow> CheckoutSparkSettledLegProgress list
     \<Rightarrow> int \<Rightarrow> int \<Rightarrow> int \<Rightarrow> json" where
  "accounting_value plan c commerce base unused authorized = JArray
     [JString ''conduit:checkout-spark-native-treasury-accounting:v1'', JString (planDigest plan),
      JString (credit_transferId c), JInt (creditedSats c),
      JArray (map (\<lambda>leg. JArray
        [JString (leg_legId leg),
         (case leg_intent leg of None \<Rightarrow> JNull | Some i \<Rightarrow> JString (intent_transferId i)),
         json_of_int_option (finalDebitSats leg), json_of_int_option (finalFeeSats leg),
         JArray (map (\<lambda>g. JArray [JString (intent_transferId (closed_intent g)), JInt (netDebitSats (closure g))])
           (closed_generations leg))]) commerce),
      JInt base, JInt unused, JInt authorized]"

definition budgetFromExactState ::
    "'p crypto_scheme \<Rightarrow> CheckoutSparkSettledReconciliation \<Rightarrow> CheckoutSparkNativeTreasuryBudget result" where
  "budgetFromExactState env state =
     (let plan = state_plan state
      in if \<not> isCheckoutSparkNativeTreasuryPlan plan \<or> nativeTreasury plan = None then Inl treasury_refusal
         else case (credit state, conduit_recipient plan) of
           (Some c, Some fee) \<Rightarrow>
             (let commerce = filter (\<lambda>leg. leg_legId leg \<noteq> legId fee) (legs state)
              in case find (\<lambda>leg. leg_legId leg = legId fee) (legs state) of
                   None \<Rightarrow> Inl treasury_refusal
                 | Some feeLeg \<Rightarrow>
                     (case allocationSats feeLeg of
                        None \<Rightarrow> Inl treasury_refusal
                      | Some base \<Rightarrow>
                          if \<not> (is_safe base \<and> base \<ge> 0) \<or> \<not> list_all commerce_leg_settled commerce
                          then Inl treasury_refusal
                          else let debits = sum_list (map (\<lambda>leg. or_else (finalDebitSats leg) 0) commerce);
                                   authorized = creditedSats c - debits;
                                   unused = authorized - base
                          in if \<not> (is_safe authorized \<and> authorized \<ge> 0) \<or> \<not> (is_safe unused \<and> unused \<ge> 0)
                             then Inl treasury_refusal
                             else Inr \<lparr>baseConduitAllocationSats = base, unusedCommerceReserveSats = unused,
                                       authorizedDebitSats = authorized,
                                       accountingDigest = settled_digest env
                                         (accounting_value plan c commerce base unused authorized)\<rparr>))
         | _ \<Rightarrow> Inl treasury_refusal)"

text \<open>The statuses a provider observation may carry, and those of a leg with an intent.\<close>

definition observable_statuses :: "CheckoutSparkSettledLegStatus list" where
  "observable_statuses = [Submitted, Ambiguous, LookupUnavailable, ConflictingEvidence, Paid, TerminalFailure]"

definition intent_observations :: "CheckoutSparkSettledLegProgress list \<Rightarrow> int list" where
  "intent_observations ls =
     List.map_filter (\<lambda>leg. if leg_intent leg = None then None else leg_observedAt leg) ls"

definition restoreCheckoutSparkNativeTreasuryFinalization ::
    "'p crypto_scheme \<Rightarrow> CheckoutSparkNativeTreasuryFinalization option \<Rightarrow> CheckoutSparkSettledReconciliation
     \<Rightarrow> CheckoutSparkNativeTreasuryFinalization result" where
  "restoreCheckoutSparkNativeTreasuryFinalization env stored state =
     (case stored of
        None \<Rightarrow> Inl treasury_refusal
      | Some value \<Rightarrow>
          (case native_intent value of
             None \<Rightarrow>
               if native_status value \<noteq> Unprepared \<or> providerTransferId value \<noteq> None
                  \<or> native_observedAt value \<noteq> None \<or> native_finalFeeSats value \<noteq> None
                  \<or> native_finalDebitSats value \<noteq> None
               then Inl treasury_refusal else Inr createCheckoutSparkNativeTreasuryFinalization
           | Some intent \<Rightarrow>
               bind_result (budgetFromExactState env state) (\<lambda>budget.
               case (nativeTreasury (state_plan state), credit state, native_observedAt value) of
                 (Some treasury, Some c, Some observed) \<Rightarrow>
                   if native_invoiceId intent \<noteq> treasury_invoiceId treasury
                      \<or> native_invoiceRequest intent \<noteq> treasury_invoiceRequest treasury
                      \<or> native_amountSats intent \<le> 0
                      \<or> native_amountSats intent \<noteq> authorizedDebitSats budget
                      \<or> CheckoutSparkNativeTreasuryBudget.truncate intent \<noteq> budget
                      \<or> \<not> (is_safe (native_preparedAt intent) \<and> native_preparedAt intent \<ge> 0)
                      \<or> native_preparedAt intent < fold max (intent_observations (legs state)) (credit_observedAt c)
                      \<or> \<not> (is_safe observed \<and> observed \<ge> 0) \<or> observed < native_preparedAt intent
                      \<or> native_status value \<notin> set (Prepared # observable_statuses)
                      \<or> (case providerTransferId value of None \<Rightarrow> False | Some t \<Rightarrow> \<not> treasury_id t MAX_ID_LENGTH)
                   then Inl treasury_refusal
                   else if native_status value = Paid
                   then (if providerTransferId value = None \<or> native_finalFeeSats value \<noteq> Some 0
                            \<or> native_finalDebitSats value \<noteq> Some (native_amountSats intent)
                         then Inl treasury_refusal else Inr value)
                   else (if native_finalFeeSats value \<noteq> None \<or> native_finalDebitSats value \<noteq> None
                         then Inl treasury_refusal else Inr value)
               | _ \<Rightarrow> Inl treasury_refusal)))"

subsection \<open>Restoring a reconciliation\<close>

definition createCheckoutSparkSettledReconciliation ::
    "'p settled_ports_scheme \<Rightarrow> CheckoutSparkSettledPlan \<Rightarrow> CheckoutSparkSettledReconciliation result" where
  "createCheckoutSparkSettledReconciliation env plan =
     bind_result (restoreCheckoutSparkSettledPlan env plan) (\<lambda>canonical.
     Inr \<lparr>state_schemaVersion = (if plan_schemaVersion canonical = 5 then 6
                                  else if plan_schemaVersion canonical = 4 then 5 else 3),
          treasuryFinalization = (if isCheckoutSparkNativeTreasuryPlan canonical
                                  then Some createCheckoutSparkNativeTreasuryFinalization else None),
          state_plan = canonical, credit = None,
          legs = map (\<lambda>r. fresh_leg canonical r None) (recipients canonical),
          updatedAt = createdAt canonical\<rparr>)"

text \<open>The archived first attempt of a renewed leg.\<close>

definition restore_closed_generation ::
    "'p settled_ports_scheme \<Rightarrow> CheckoutSparkSettledPlan \<Rightarrow> CheckoutSparkSettledLegProgress
     \<Rightarrow> CheckoutSparkSettledLegIntent \<Rightarrow> CheckoutSparkSettledClosedGeneration
     \<Rightarrow> CheckoutSparkSettledClosedGeneration result" where
  "restore_closed_generation env plan baseline intent entry =
     (if closed_generation entry \<noteq> 0
         \<or> closed_status entry \<notin> {Prepared, Submitted, Ambiguous, LookupUnavailable, ConflictingEvidence, TerminalFailure}
         \<or> closed_finalFeeSats entry \<noteq> None \<or> closed_finalDebitSats entry \<noteq> None
      then Inl ''Checkout Spark closed generation is invalid.''
      else bind_result (normalizeIntent env plan baseline (closed_intent entry) 0) (\<lambda>oldIntent.
           bind_result (restoreCheckoutSparkSettledReturnClosure env (closure entry) plan oldIntent) (\<lambda>c.
           if \<not> is_safe (closed_observedAt entry) \<or> closed_observedAt entry < preparedAt oldIntent
              \<or> closure_observedAt c < closed_observedAt entry \<or> closure_observedAt c > preparedAt intent
              \<or> preparedAt intent < takeoverAt plan
              \<or> intent_paymentHash intent = intent_paymentHash oldIntent
              \<or> intent_paymentRequest intent = intent_paymentRequest oldIntent
              \<or> (case checkoutSparkProviderSendWindowEndsAt env (intent_paymentRequest oldIntent) of
                   None \<Rightarrow> True | Some e \<Rightarrow> e > preparedAt intent)
           then Inl ''Checkout Spark renewal progression is invalid.''
           else Inr (entry\<lparr>closed_intent := oldIntent, closure := c\<rparr>))))"

definition restore_generation_shape :: "int \<Rightarrow> CheckoutSparkSettledLegProgress \<Rightarrow> bool" where
  "restore_generation_shape version leg \<longleftrightarrow>
     (if version = 3 then generation leg = None \<and> closedGenerations leg = None
      else generation leg \<in> {Some 0, Some 1}
           \<and> (case closedGenerations leg of
                None \<Rightarrow> False
              | Some archived \<Rightarrow> int (length archived) = getCheckoutSparkSettledLegGeneration leg))"

text \<open>The archive of a leg of the given generation.\<close>

definition restore_archive ::
    "'p settled_ports_scheme \<Rightarrow> CheckoutSparkSettledPlan \<Rightarrow> CheckoutSparkSettledLegProgress
     \<Rightarrow> CheckoutSparkSettledLegIntent \<Rightarrow> CheckoutSparkSettledLegProgress
     \<Rightarrow> CheckoutSparkSettledClosedGeneration list result" where
  "restore_archive env plan baseline intent leg =
     (if getCheckoutSparkSettledLegGeneration leg = 1
      then (case closed_generations leg of
              entry # _ \<Rightarrow> bind_result (restore_closed_generation env plan baseline intent entry) (\<lambda>c. Inr [c])
            | [] \<Rightarrow> Inl ''Checkout Spark closed generation is invalid.'')
      else Inr [])"

definition check_final_amounts ::
    "CheckoutSparkSettledLegProgress \<Rightarrow> CheckoutSparkSettledLegIntent \<Rightarrow> int \<Rightarrow> unit result" where
  "check_final_amounts leg intent allocation =
     (if leg_status leg = Paid
      then (case (finalFeeSats leg, finalDebitSats leg) of
              (Some fee, Some debit) \<Rightarrow>
                bind_result (settled_sats fee ''Checkout Spark final fee'' True) (\<lambda>_.
                bind_result (settled_sats debit ''Checkout Spark final debit'' False) (\<lambda>_.
                if debit \<noteq> invoiceAmountSats intent + fee \<or> debit > allocation
                then Inl ''Checkout Spark settled leg exceeded its allocation.'' else Inr ()))
            | (None, _) \<Rightarrow> Inl ''Checkout Spark final fee is invalid.''
            | (_, None) \<Rightarrow> Inl ''Checkout Spark final debit is invalid.'')
      else if finalFeeSats leg \<noteq> None \<or> finalDebitSats leg \<noteq> None
      then Inl ''Checkout Spark unconfirmed fee is invalid.'' else Inr ())"

text \<open>A leg with an attempt, once its credit is known.\<close>

definition restore_attempt ::
    "'p settled_ports_scheme \<Rightarrow> int \<Rightarrow> CheckoutSparkSettledPlan \<Rightarrow> CheckoutSparkSettledLegProgress
     \<Rightarrow> CheckoutSparkSettledLegProgress \<Rightarrow> CheckoutSparkSettledLegIntent \<Rightarrow> int
     \<Rightarrow> CheckoutSparkSettledLegProgress result" where
  "restore_attempt env version plan baseline leg stored allocation =
     bind_result (normalizeIntent env plan baseline stored (getCheckoutSparkSettledLegGeneration leg)) (\<lambda>intent.
     bind_result (restore_archive env plan baseline intent leg) (\<lambda>archived.
     case leg_observedAt leg of
       None \<Rightarrow> Inl ''Checkout Spark settled leg progress is invalid.''
     | Some observed \<Rightarrow>
         if \<not> is_safe observed \<or> observed < preparedAt intent
            \<or> leg_status leg \<notin> set (Prepared # observable_statuses)
         then Inl ''Checkout Spark settled leg progress is invalid.''
         else bind_result (check_final_amounts leg intent allocation) (\<lambda>_.
           Inr (leg\<lparr>leg_intent := Some intent,
             generation := (if version \<noteq> 3 then Some (getCheckoutSparkSettledLegGeneration leg) else generation leg),
             closedGenerations := (if version \<noteq> 3 then Some archived else closedGenerations leg)\<rparr>))))"

definition restore_leg ::
    "'p settled_ports_scheme \<Rightarrow> int \<Rightarrow> CheckoutSparkSettledPlan \<Rightarrow> CheckoutSparkSettledCreditEvidence option
     \<Rightarrow> CheckoutSparkSettledRecipient \<times> CheckoutSparkSettledLegProgress \<times> CheckoutSparkSettledLegProgress
     \<Rightarrow> CheckoutSparkSettledLegProgress result" where
  "restore_leg env version plan restoredCredit row =
     (case row of (recipient, leg, baseline) \<Rightarrow>
        let gen = getCheckoutSparkSettledLegGeneration leg
        in if \<not> restore_generation_shape version leg then Inl ''Checkout Spark settled generation is invalid.''
           else if leg_legId leg \<noteq> leg_legId baseline \<or> allocationSats leg \<noteq> allocationSats baseline
           then Inl ''Checkout Spark settled allocation is invalid.''
           else if isCheckoutSparkNativeTreasuryPlan plan \<and> kind recipient = Conduit
           then (if leg_intent leg \<noteq> None \<or> gen \<noteq> 0 \<or> closed_generations leg \<noteq> []
                 then Inl ''Checkout Spark native treasury cannot contain Lightning intents.''
                 else Inr (leg\<lparr>generation := Some 0, closedGenerations := Some []\<rparr>))
           else case leg_intent leg of
             None \<Rightarrow>
               if leg_status leg \<noteq> Unprepared \<or> leg_observedAt leg \<noteq> None \<or> finalFeeSats leg \<noteq> None
                  \<or> finalDebitSats leg \<noteq> None
               then Inl ''Checkout Spark settled empty leg is invalid.''
               else if gen \<noteq> 0 then Inl ''Checkout Spark renewed leg lacks its intent.''
               else Inr (if version \<noteq> 3 then baseline\<lparr>generation := Some 0, closedGenerations := Some []\<rparr> else baseline)
           | Some stored \<Rightarrow>
               (case (restoredCredit, allocationSats baseline) of
                  (Some _, Some allocation) \<Rightarrow> restore_attempt env version plan baseline leg stored allocation
                | _ \<Rightarrow> Inl ''Checkout Spark settled leg lacks exact credit.''))"

definition zip3 :: "'a list \<Rightarrow> 'b list \<Rightarrow> 'c list \<Rightarrow> ('a \<times> 'b \<times> 'c) list" where
  "zip3 xs ys zs = zip xs (zip ys zs)"

text \<open>What a leg has cost: its archived attempts and its final debit.\<close>

definition leg_debit :: "CheckoutSparkSettledLegProgress \<Rightarrow> int" where
  "leg_debit leg =
     sum_list (map (\<lambda>g. netDebitSats (closure g)) (closed_generations leg)) + or_else (finalDebitSats leg) 0"

definition total_debit :: "CheckoutSparkSettledLegProgress list \<Rightarrow> int" where
  "total_debit ls = sum_list (map leg_debit ls)"

definition leg_overspent :: "CheckoutSparkSettledPlan \<Rightarrow> CheckoutSparkSettledLegProgress \<Rightarrow> bool" where
  "leg_overspent plan leg \<longleftrightarrow>
     \<not> is_safe (leg_debit leg)
     \<or> (\<not> is_native_leg plan (leg_legId leg) \<and> leg_debit leg > or_else (allocationSats leg) 0)"

definition latest_observation :: "CheckoutSparkSettledPlan \<Rightarrow> CheckoutSparkSettledCreditEvidence option
    \<Rightarrow> CheckoutSparkSettledLegProgress list \<Rightarrow> int" where
  "latest_observation plan c ls =
     fold max (map (\<lambda>leg. or_else (leg_observedAt leg) (createdAt plan)) ls)
       (max (createdAt plan) (case c of None \<Rightarrow> createdAt plan | Some e \<Rightarrow> credit_observedAt e))"

definition native_mirror_ok ::
    "CheckoutSparkSettledPlan \<Rightarrow> CheckoutSparkSettledLegProgress list \<Rightarrow> CheckoutSparkNativeTreasuryFinalization \<Rightarrow> bool" where
  "native_mirror_ok plan ls fin \<longleftrightarrow>
     (case find (\<lambda>leg. map_option kind (find_recipient plan (leg_legId leg)) = Some Conduit) ls of
        None \<Rightarrow> False
      | Some leg \<Rightarrow> leg_status leg = native_status fin \<and> leg_observedAt leg = native_observedAt fin
                    \<and> finalFeeSats leg = native_finalFeeSats fin \<and> finalDebitSats leg = native_finalDebitSats fin)"

definition restoreCheckoutSparkSettledReconciliation ::
    "'p settled_ports_scheme \<Rightarrow> CheckoutSparkSettledReconciliation \<Rightarrow> CheckoutSparkSettledReconciliation result" where
  "restoreCheckoutSparkSettledReconciliation env state =
     (let v = state_schemaVersion state
      in if v \<notin> {3, 4, 5, 6} then Inl ''Checkout Spark settled state version is invalid.''
         else bind_result (restoreCheckoutSparkSettledPlan env (state_plan state)) (\<lambda>plan.
         if (plan_schemaVersion plan = 4) \<noteq> (v = 5) \<or> (plan_schemaVersion plan = 5) \<noteq> (v = 6)
            \<or> (v \<noteq> 5 \<and> v \<noteq> 6 \<and> treasuryFinalization state \<noteq> None)
         then Inl ''Checkout Spark treasury state version is invalid.''
         else bind_result (settled_time (updatedAt state) ''Checkout Spark settled update time'') (\<lambda>_.
         if updatedAt state < createdAt plan \<or> length (legs state) \<noteq> length (recipients plan)
         then Inl ''Checkout Spark settled state is invalid.''
         else bind_result (createCheckoutSparkSettledReconciliation env plan) (\<lambda>initial.
         bind_result
           (case credit state of
              None \<Rightarrow> Inr (None, legs initial)
            | Some evidence \<Rightarrow>
                bind_result (normalizeCredit plan evidence) (\<lambda>c.
                bind_result (allocatedLegs plan (creditedSats c)) (\<lambda>ls. Inr (Some c, ls))))
           (\<lambda>(restoredCredit, expected).
         bind_result (traverse (restore_leg env v plan restoredCredit) (zip3 (recipients plan) (legs state) expected)) (\<lambda>ls.
         if v = 4 \<and> \<not> list_ex (\<lambda>leg. getCheckoutSparkSettledLegGeneration leg = 1) ls
         then Inl ''Checkout Spark renewed state lacks a closed generation.''
         else if list_ex (leg_overspent plan) ls
         then Inl ''Checkout Spark cumulative debit exceeds its allocation.''
         else if \<not> is_safe (total_debit ls)
                 \<or> total_debit ls > (case restoredCredit of None \<Rightarrow> 0 | Some c \<Rightarrow> creditedSats c)
         then Inl ''Checkout Spark cumulative debit exceeds its credit.''
         else if updatedAt state < latest_observation plan restoredCredit ls
         then Inl ''Checkout Spark settled state timestamp is stale.''
         else bind_result
           (if v = 5 \<or> v = 6
            then bind_result (restoreCheckoutSparkNativeTreasuryFinalization env (treasuryFinalization state)
                     (state\<lparr>state_plan := plan, credit := restoredCredit, legs := ls\<rparr>)) (\<lambda>fin.
                 if \<not> native_mirror_ok plan ls fin then Inl ''Checkout Spark native treasury mirror is invalid.''
                 else Inr (Some fin))
            else Inr None)
           (\<lambda>fin.
         Inr \<lparr>state_schemaVersion = v, treasuryFinalization = fin, state_plan = plan, credit = restoredCredit,
              legs = ls, updatedAt = updatedAt state\<rparr>)))))))"

subsection \<open>Operations\<close>

definition recordCheckoutSparkSettledCredit ::
    "'p settled_ports_scheme \<Rightarrow> CheckoutSparkSettledReconciliation \<Rightarrow> CheckoutSparkSettledCreditEvidence
     \<Rightarrow> CheckoutSparkSettledReconciliation result" where
  "recordCheckoutSparkSettledCredit env state evidence =
     bind_result (restoreCheckoutSparkSettledReconciliation env state) (\<lambda>current.
     bind_result (normalizeCredit (state_plan current) evidence) (\<lambda>c.
     case credit current of
       Some prior \<Rightarrow>
         if prior\<lparr>credit_observedAt := 0\<rparr> \<noteq> c\<lparr>credit_observedAt := 0\<rparr>
         then Inl ''Checkout Spark settled credit conflicts with prior evidence.'' else Inr current
     | None \<Rightarrow>
         bind_result (assertCheckoutSparkSettledFundingCoverage (state_plan current) (creditedSats c)) (\<lambda>_.
         bind_result (allocatedLegs (state_plan current) (creditedSats c)) (\<lambda>ls.
         Inr (current\<lparr>credit := Some c, legs := ls, updatedAt := max (updatedAt current) (credit_observedAt c)\<rparr>)))))"

definition leg_index :: "CheckoutSparkSettledLegProgress list \<Rightarrow> js_string \<Rightarrow> nat option" where
  "leg_index ls leg = map_option fst (find (\<lambda>(_, l). leg_legId l = leg) (enumerate 0 ls))"

text \<open>A leg takes its intent once; the same intent again changes nothing.\<close>

definition store_intent ::
    "CheckoutSparkSettledReconciliation \<Rightarrow> CheckoutSparkSettledCreditEvidence \<Rightarrow> nat \<Rightarrow> CheckoutSparkSettledLegIntent
     \<Rightarrow> CheckoutSparkSettledReconciliation result" where
  "store_intent current c index intent =
     (let leg = legs current ! index
      in case leg_intent leg of
           Some stored \<Rightarrow>
             if stored \<noteq> intent then Inl ''Checkout Spark settled intent cannot be replaced.'' else Inr current
         | None \<Rightarrow>
             if preparedAt intent < credit_observedAt c then Inl ''Checkout Spark settled intent is stale.''
             else Inr (current\<lparr>
               legs := (legs current)[index := leg\<lparr>leg_intent := Some intent, leg_status := Prepared,
                          leg_observedAt := Some (preparedAt intent)\<rparr>],
               updatedAt := max (updatedAt current) (preparedAt intent)\<rparr>))"

definition prepareCheckoutSparkSettledLeg ::
    "'p settled_ports_scheme \<Rightarrow> CheckoutSparkSettledReconciliation \<Rightarrow> CheckoutSparkSettledLegIntent
     \<Rightarrow> CheckoutSparkSettledReconciliation result" where
  "prepareCheckoutSparkSettledLeg env state input =
     bind_result (restoreCheckoutSparkSettledReconciliation env state) (\<lambda>current.
     let plan = state_plan current
     in bind_result
       (case credit current of
          None \<Rightarrow> Inr () | Some c \<Rightarrow> assertCheckoutSparkSettledFundingCoverage plan (creditedSats c)) (\<lambda>_.
     if is_native_leg plan (intent_legId input)
     then Inl ''Checkout Spark native treasury cannot prepare a Lightning invoice.''
     else case (leg_index (legs current) (intent_legId input), credit current) of
       (Some index, Some c) \<Rightarrow>
         bind_result
           (normalizeIntent env plan (legs current ! index) input
              (getCheckoutSparkSettledLegGeneration (legs current ! index)))
           (store_intent current c index)
     | _ \<Rightarrow> Inl ''Checkout Spark settled leg is not funded.''))"

definition renewCheckoutSparkSettledLeg ::
    "'p settled_ports_scheme \<Rightarrow> CheckoutSparkSettledReconciliation \<Rightarrow> js_string \<Rightarrow> CheckoutSparkSettledLegIntent
     \<Rightarrow> returned_proof option \<Rightarrow> int \<Rightarrow> CheckoutSparkSettledReconciliation result" where
  "renewCheckoutSparkSettledLeg env state target_leg input proof_handle nowMs =
     bind_result (restoreCheckoutSparkSettledReconciliation env state) (\<lambda>current.
     let plan = state_plan current; refusal = ''Checkout Spark payout cannot be renewed.''
     in case (credit current, find (\<lambda>l. leg_legId l = target_leg) (legs current), find_recipient plan target_leg) of
       (Some _, Some leg, Some recipient) \<Rightarrow>
         (case (leg_intent leg, allocationSats leg) of
            (Some old, Some allocation) \<Rightarrow>
              if leg_status leg = Paid \<or> getCheckoutSparkSettledLegGeneration leg \<noteq> 0
                 \<or> \<not> is_safe nowMs \<or> nowMs < takeoverAt plan \<or> nowMs < updatedAt current
                 \<or> preparedAt input \<noteq> nowMs
                 \<or> (case checkoutSparkProviderSendWindowEndsAt env (intent_paymentRequest old) of
                      None \<Rightarrow> True | Some e \<Rightarrow> e > nowMs)
              then Inl refusal
              else let protectedSats = sum_list (map (\<lambda>l. if leg_status l = Paid then 0 else or_else (allocationSats l) 0) (legs current))
              in bind_result (assertCheckoutSparkSettledReturnedProof env proof_handle plan
                   \<lparr>target_generation = None, target_walletId = walletId plan, target_network = network plan,
                    target_legId = leg_legId leg, target_recipientId = recipientId recipient,
                    target_allocationSats = allocation, unpaidAllocationSats = protectedSats, target_intent = old\<rparr>
                   nowMs) (\<lambda>c.
              if closure_observedAt c < or_else (leg_observedAt leg) (preparedAt old)
              then Inl ''Checkout Spark returned transfer observation is stale.''
              else if publicZap old \<noteq> None \<and> publicZap input = None
              then Inl ''Checkout Spark public payout renewal requires fresh buyer signing.''
              else bind_result (normalizeIntent env plan leg input 1) (\<lambda>intent.
              let archived = \<lparr>closed_generation = 0, closed_intent = old, closed_status = leg_status leg,
                    closed_observedAt = or_else (leg_observedAt leg) 0, closed_finalFeeSats = None,
                    closed_finalDebitSats = None, closure = c\<rparr>
              in restoreCheckoutSparkSettledReconciliation env (current\<lparr>
                   state_schemaVersion := (if plan_schemaVersion plan = 5 then 6
                                           else if plan_schemaVersion plan = 4 then 5 else 4),
                   legs := map (\<lambda>l. if leg_legId l = target_leg
                       then l\<lparr>generation := Some 1, closedGenerations := Some [archived], leg_intent := Some intent,
                              leg_status := Prepared, leg_observedAt := Some (preparedAt intent),
                              finalFeeSats := None, finalDebitSats := None\<rparr>
                       else l\<lparr>generation := Some (getCheckoutSparkSettledLegGeneration l),
                              closedGenerations := Some (closed_generations l)\<rparr>) (legs current),
                   updatedAt := nowMs\<rparr>)))
          | _ \<Rightarrow> Inl refusal)
     | _ \<Rightarrow> Inl refusal)"

record CheckoutSparkSettledLegEvidence =
  evidence_legId :: js_string
  evidence_transferId :: js_string
  evidence_paymentHash :: js_string
  evidence_status :: CheckoutSparkSettledLegStatus
  evidence_observedAt :: int
  evidence_finalFeeSats :: "int option"
  evidence_finalDebitSats :: "int option"

text \<open>The amounts a status carries: both for \<open>paid\<close>, none otherwise.\<close>

definition evidence_amounts ::
    "CheckoutSparkSettledLegEvidence \<Rightarrow> CheckoutSparkSettledLegIntent \<Rightarrow> int \<Rightarrow> (int option \<times> int option) result" where
  "evidence_amounts evidence intent allocation =
     (if evidence_status evidence = Paid
      then (case evidence_finalFeeSats evidence of
              None \<Rightarrow> Inl ''Checkout Spark final fee is invalid.''
            | Some f \<Rightarrow> bind_result (settled_sats f ''Checkout Spark final fee'' True) (\<lambda>fee.
            case evidence_finalDebitSats evidence of
              None \<Rightarrow> Inl ''Checkout Spark final debit is invalid.''
            | Some d \<Rightarrow> bind_result (settled_sats d ''Checkout Spark final debit'' False) (\<lambda>debit.
            if debit \<noteq> invoiceAmountSats intent + fee \<or> fee > maxFeeSats intent \<or> debit > allocation
            then Inl ''Checkout Spark paid leg exceeded allocation.'' else Inr (Some fee, Some debit))))
      else if evidence_finalFeeSats evidence \<noteq> None \<or> evidence_finalDebitSats evidence \<noteq> None
      then Inl ''Checkout Spark unconfirmed fee is invalid.'' else Inr (None, None))"

definition recordCheckoutSparkSettledLegStatus ::
    "'p settled_ports_scheme \<Rightarrow> CheckoutSparkSettledReconciliation \<Rightarrow> CheckoutSparkSettledLegEvidence
     \<Rightarrow> CheckoutSparkSettledReconciliation result" where
  "recordCheckoutSparkSettledLegStatus env state evidence =
     bind_result (restoreCheckoutSparkSettledReconciliation env state) (\<lambda>current.
     let scope = ''Checkout Spark settled leg evidence is out of scope.''; next = evidence_status evidence
     in case leg_index (legs current) (evidence_legId evidence) of
          None \<Rightarrow> Inl scope
        | Some index \<Rightarrow>
     let leg = legs current ! index
     in case leg_intent leg of
          None \<Rightarrow> Inl scope
        | Some intent \<Rightarrow>
     if evidence_transferId evidence \<noteq> intent_transferId intent
        \<or> evidence_paymentHash evidence \<noteq> intent_paymentHash intent \<or> next \<notin> set observable_statuses
     then Inl scope
     else bind_result (settled_time (evidence_observedAt evidence) ''Outgoing observation time'') (\<lambda>observed.
     if observed < preparedAt intent \<or> observed < or_else (leg_observedAt leg) (preparedAt intent)
     then Inl ''Checkout Spark settled leg observation is stale.''
     else if leg_status leg = Paid \<and> next \<noteq> Paid
     then Inl ''Checkout Spark paid leg cannot become payable again.''
     else if leg_status leg = TerminalFailure \<and> next \<noteq> TerminalFailure \<and> next \<noteq> Paid
     then Inl ''Checkout Spark terminal leg cannot be retried.''
     else if leg_status leg \<noteq> Prepared \<and> next = Submitted \<and> leg_status leg \<noteq> Submitted
     then Inl ''Checkout Spark uncertain leg cannot be resubmitted.''
     else bind_result (evidence_amounts evidence intent (or_else (allocationSats leg) 0)) (\<lambda>(fee, debit).
     if leg_status leg = next \<and> finalFeeSats leg = fee \<and> finalDebitSats leg = debit then Inr current
     else Inr (current\<lparr>
       legs := (legs current)[index := leg\<lparr>leg_status := next, leg_observedAt := Some observed,
                  finalFeeSats := fee, finalDebitSats := debit\<rparr>],
       updatedAt := max (updatedAt current) observed\<rparr>))))"

subsection \<open>Retirement\<close>

record CheckoutSparkRetirementEvidence =
  retire_walletId :: js_string
  retire_network :: js_string
  retire_observedAt :: int
  availableSats :: int
  ownedSats :: int
  incomingSats :: int
  fundingReceiveTerminal :: bool
  sendHistoryTerminal :: bool
  claimsTerminal :: bool
  refundsTerminal :: bool

datatype CheckoutSparkRetirementPendingReason =
  StaleFundsEvidence | FundsRemaining | TransferInFlight | FundingReceiveOpen | SendHistoryOpen
| ClaimPathOpen | RefundPathOpen | ObligationOpen

datatype CheckoutSparkRetirementAssessment =
  RetirementReady | RetirementPending "CheckoutSparkRetirementPendingReason list"

record CheckoutSparkRetirementTombstone =
  tombstone_schemaVersion :: int
  tombstone_planDigest :: js_string
  retiredAt :: int

definition retirement_reasons ::
    "CheckoutSparkSettledReconciliation \<Rightarrow> CheckoutSparkRetirementEvidence \<Rightarrow> CheckoutSparkRetirementPendingReason list" where
  "retirement_reasons current e =
     (if retire_observedAt e \<le> updatedAt current then [StaleFundsEvidence] else [])
     @ (if availableSats e > 0 \<or> ownedSats e > 0 then [FundsRemaining] else [])
     @ (if incomingSats e > 0 then [TransferInFlight] else [])
     @ (if \<not> fundingReceiveTerminal e then [FundingReceiveOpen] else [])
     @ (if \<not> sendHistoryTerminal e then [SendHistoryOpen] else [])
     @ (if \<not> claimsTerminal e then [ClaimPathOpen] else [])
     @ (if \<not> refundsTerminal e then [RefundPathOpen] else [])
     @ (if list_ex (\<lambda>leg. leg_status leg \<noteq> Paid \<and> leg_status leg \<noteq> TerminalFailure) (legs current)
        then [ObligationOpen] else [])"

definition assessCheckoutSparkSettledRetirement ::
    "'p settled_ports_scheme \<Rightarrow> CheckoutSparkSettledReconciliation \<Rightarrow> CheckoutSparkRetirementEvidence
     \<Rightarrow> CheckoutSparkRetirementAssessment result" where
  "assessCheckoutSparkSettledRetirement env state evidence =
     bind_result (restoreCheckoutSparkSettledReconciliation env state) (\<lambda>current.
     if retire_walletId evidence \<noteq> walletId (state_plan current) \<or> retire_network evidence \<noteq> network (state_plan current)
     then Inl ''Checkout Spark retirement evidence is out of scope.''
     else bind_result (settled_time (retire_observedAt evidence) ''Retirement observation time'') (\<lambda>_.
     bind_result (settled_sats (availableSats evidence) ''Available retirement funds'' True) (\<lambda>available.
     bind_result (settled_sats (ownedSats evidence) ''Owned retirement funds'' True) (\<lambda>owned.
     bind_result (settled_sats (incomingSats evidence) ''Incoming retirement funds'' True) (\<lambda>_.
     if owned < available then Inl ''Checkout Spark retirement funds are inconsistent.''
     else Inr (let reasons = retirement_reasons current evidence
               in if reasons \<noteq> [] then RetirementPending reasons else RetirementReady))))))"

definition retireCheckoutSparkSettledReconciliation ::
    "'p settled_ports_scheme \<Rightarrow> CheckoutSparkSettledReconciliation \<Rightarrow> CheckoutSparkRetirementEvidence
     \<Rightarrow> CheckoutSparkRetirementTombstone result" where
  "retireCheckoutSparkSettledReconciliation env state evidence =
     bind_result (assessCheckoutSparkSettledRetirement env state evidence) (\<lambda>assessment.
     if assessment \<noteq> RetirementReady then Inl ''Checkout Spark settled reconciliation is not ready to retire.''
     else Inr \<lparr>tombstone_schemaVersion = 1, tombstone_planDigest = planDigest (state_plan state),
               retiredAt = retire_observedAt evidence\<rparr>)"

subsection \<open>Native treasury operations\<close>

text \<open>The merchant's settlement record, as far as the budget reads it; its own validation
  (\<open>checkout-spark-merchant-settlement.ts\<close>) is an argument.\<close>

record settlement_paid_leg =
  paid_legId :: js_string
  paid_transferId :: js_string
  paid_allocationSats :: int
  paid_finalDebitSats :: int
  paid_finalFeeSats :: int
  recipientVerified :: bool

record CheckoutSparkMerchantSettlementRecord =
  settlement_credit :: "(js_string \<times> int) option"
  requiredCommerceLegIds :: "js_string list"
  paidLegs :: "settlement_paid_leg list"
  settlement_evidence :: json

type_synonym settlement_restorer =
  "CheckoutSparkMerchantSettlementRecord \<Rightarrow> CheckoutSparkSettledPlan \<Rightarrow> CheckoutSparkMerchantSettlementRecord result"

definition payout_recorded ::
    "CheckoutSparkSettledReconciliation \<Rightarrow> CheckoutSparkMerchantSettlementRecord \<Rightarrow> js_string \<Rightarrow> bool" where
  "payout_recorded state settlement leg_id \<longleftrightarrow>
     (case (find (\<lambda>l. leg_legId l = leg_id) (legs state), find (\<lambda>p. paid_legId p = leg_id) (paidLegs settlement)) of
        (Some leg, Some paid) \<Rightarrow>
          recipientVerified paid \<and> Some (paid_transferId paid) = map_option intent_transferId (leg_intent leg)
          \<and> Some (paid_allocationSats paid) = allocationSats leg
          \<and> Some (paid_finalDebitSats paid) = finalDebitSats leg
          \<and> Some (paid_finalFeeSats paid) = finalFeeSats leg
      | _ \<Rightarrow> False)"

definition deriveCheckoutSparkNativeTreasuryBudget ::
    "'p settled_ports_scheme \<Rightarrow> settlement_restorer \<Rightarrow> CheckoutSparkSettledReconciliation
     \<Rightarrow> CheckoutSparkMerchantSettlementRecord \<Rightarrow> CheckoutSparkNativeTreasuryBudget result" where
  "deriveCheckoutSparkNativeTreasuryBudget env restoreSettlement input settlement =
     bind_result (restoreCheckoutSparkSettledReconciliation env input) (\<lambda>state.
     bind_result (restoreSettlement settlement (state_plan state)) (\<lambda>record.
     bind_result (budgetFromExactState env state) (\<lambda>budget.
     if settlement_credit record = None
        \<or> settlement_credit record \<noteq> map_option (\<lambda>c. (credit_transferId c, creditedSats c)) (credit state)
     then Inl treasury_refusal
     else let required = (if plan_schemaVersion (state_plan state) = 5
                          then map legId (filter (\<lambda>r. kind r \<noteq> Conduit) (recipients (state_plan state)))
                          else requiredCommerceLegIds record)
     in if \<not> list_all (payout_recorded state record) required then Inl treasury_refusal else Inr budget)))"

definition treasury_mirror ::
    "'p settled_ports_scheme \<Rightarrow> CheckoutSparkSettledReconciliation \<Rightarrow> CheckoutSparkNativeTreasuryFinalization
     \<Rightarrow> CheckoutSparkSettledReconciliation result" where
  "treasury_mirror env state fin =
     (case conduit_recipient (state_plan state) of
        None \<Rightarrow> Inl treasury_refusal
      | Some fee \<Rightarrow>
          restoreCheckoutSparkSettledReconciliation env (state\<lparr>treasuryFinalization := Some fin,
            legs := map (\<lambda>leg. if leg_legId leg = legId fee
                then leg\<lparr>leg_status := native_status fin, leg_observedAt := native_observedAt fin,
                         finalFeeSats := native_finalFeeSats fin, finalDebitSats := native_finalDebitSats fin\<rparr>
                else leg) (legs state),
            updatedAt := max (updatedAt state) (or_else (native_observedAt fin) (updatedAt state))\<rparr>))"

definition prepareCheckoutSparkNativeTreasury ::
    "'p settled_ports_scheme \<Rightarrow> settlement_restorer \<Rightarrow> CheckoutSparkSettledReconciliation
     \<Rightarrow> CheckoutSparkMerchantSettlementRecord \<Rightarrow> int \<Rightarrow> CheckoutSparkSettledReconciliation result" where
  "prepareCheckoutSparkNativeTreasury env restoreSettlement input settlement prepared =
     bind_result (restoreCheckoutSparkSettledReconciliation env input) (\<lambda>state.
     bind_result (deriveCheckoutSparkNativeTreasuryBudget env restoreSettlement state settlement) (\<lambda>budget.
     if authorizedDebitSats budget = 0 then Inl ''Checkout Spark native treasury has zero attributed remainder.''
     else case (treasuryFinalization state, nativeTreasury (state_plan state)) of
       (Some fin, Some treasury) \<Rightarrow>
         if native_intent fin \<noteq> None then Inr state
         else treasury_mirror env state (createCheckoutSparkNativeTreasuryFinalization
           \<lparr>native_status := Prepared, native_observedAt := Some prepared,
            native_intent := Some (CheckoutSparkNativeTreasuryBudget.extend budget
              \<lparr>native_invoiceId = treasury_invoiceId treasury, native_invoiceRequest = treasury_invoiceRequest treasury,
               native_amountSats = authorizedDebitSats budget, native_preparedAt = prepared\<rparr>)\<rparr>)
     | _ \<Rightarrow> Inl treasury_refusal))"

record CheckoutSparkNativeTreasuryEvidence =
  nev_invoiceId :: js_string
  nev_status :: CheckoutSparkSettledLegStatus
  nev_providerTransferId :: "js_string option"
  nev_observedAt :: int
  nev_finalFeeSats :: "int option"
  nev_finalDebitSats :: "int option"

definition recordCheckoutSparkNativeTreasuryStatus ::
    "'p settled_ports_scheme \<Rightarrow> CheckoutSparkSettledReconciliation \<Rightarrow> CheckoutSparkNativeTreasuryEvidence
     \<Rightarrow> CheckoutSparkSettledReconciliation result" where
  "recordCheckoutSparkNativeTreasuryStatus env input evidence =
     bind_result (restoreCheckoutSparkSettledReconciliation env input) (\<lambda>state.
     case treasuryFinalization state of
       None \<Rightarrow> Inl treasury_refusal
     | Some previous \<Rightarrow>
         (case native_intent previous of
            None \<Rightarrow> Inl treasury_refusal
          | Some intent \<Rightarrow>
              if nev_invoiceId evidence \<noteq> native_invoiceId intent
                 \<or> nev_observedAt evidence < or_else (native_observedAt previous) 0
                 \<or> (truthy (providerTransferId previous) \<and> truthy (nev_providerTransferId evidence)
                    \<and> nev_providerTransferId evidence \<noteq> providerTransferId previous)
              then Inl treasury_refusal
              else let next = previous\<lparr>native_status := nev_status evidence,
                     providerTransferId := (if nev_providerTransferId evidence = None
                                            then providerTransferId previous else nev_providerTransferId evidence),
                     native_observedAt := Some (nev_observedAt evidence),
                     native_finalFeeSats := nev_finalFeeSats evidence,
                     native_finalDebitSats := nev_finalDebitSats evidence\<rparr>
              in if native_status previous = Paid
                    \<and> (native_status next \<noteq> Paid \<or> native_finalFeeSats next \<noteq> native_finalFeeSats previous
                       \<or> native_finalDebitSats next \<noteq> native_finalDebitSats previous)
                 then Inl treasury_refusal
                 else treasury_mirror env state next))"

definition recordCheckoutSparkNativeTreasurySubmittedReference ::
    "'p settled_ports_scheme \<Rightarrow> CheckoutSparkSettledReconciliation \<Rightarrow> js_string \<Rightarrow> int
     \<Rightarrow> CheckoutSparkSettledReconciliation result" where
  "recordCheckoutSparkNativeTreasurySubmittedReference env input transfer observed =
     bind_result (restoreCheckoutSparkSettledReconciliation env input) (\<lambda>state.
     case treasuryFinalization state of
       None \<Rightarrow> Inl treasury_refusal
     | Some previous \<Rightarrow>
         (case native_intent previous of
            None \<Rightarrow> Inl treasury_refusal
          | Some intent \<Rightarrow>
              if native_status previous \<noteq> Submitted \<or> providerTransferId previous \<noteq> None
                 \<or> native_finalFeeSats previous \<noteq> None \<or> native_finalDebitSats previous \<noteq> None
                 \<or> \<not> treasury_id transfer MAX_ID_LENGTH
              then Inl treasury_refusal
              else recordCheckoutSparkNativeTreasuryStatus env state
                \<lparr>nev_invoiceId = native_invoiceId intent, nev_status = Submitted,
                 nev_providerTransferId = Some transfer, nev_observedAt = observed,
                 nev_finalFeeSats = None, nev_finalDebitSats = None\<rparr>))"

end
