(* ===== verification/Settled_Accounting.thy ===== *)
theory Settled_Accounting
  imports Settled_Router
begin

text \<open>
  What a frozen plan and a restored reconciliation guarantee about money: who is paid, that the
  allocations partition the credit, and that the debits stay within it.
\<close>

named_theorems settled_checks "when the validators of the router accept"

subsection \<open>The validators\<close>

lemma settled_text_Inr [settled_checks]:
  "settled_text value label limit = Inr x \<longleftrightarrow> x = value \<and> value \<noteq> [] \<and> length value \<le> limit \<and> js_trim value = value"
  by (auto simp: settled_text_def)

lemma settled_hex_Inr [settled_checks]: "settled_hex value label = Inr x \<longleftrightarrow> x = value \<and> is_hex64 value"
  by (auto simp: settled_hex_def)

lemma compressedPublicKey_Inr [settled_checks]:
  "compressedPublicKey value label = Inr x \<longleftrightarrow> x = value \<and> is_compressed_pubkey value"
  by (auto simp: compressedPublicKey_def)

lemma settled_sats_Inr [settled_checks]:
  "settled_sats value label z = Inr x \<longleftrightarrow> x = value \<and> is_safe value \<and> 0 \<le> value \<and> (z \<or> value \<noteq> 0)"
  by (auto simp: settled_sats_def)

lemma settled_time_Inr [settled_checks]:
  "settled_time value label = Inr x \<longleftrightarrow> x = value \<and> is_safe value \<and> 0 \<le> value"
  by (auto simp: settled_time_def)

lemma traverse_Inr: "traverse f xs = Inr ys \<longleftrightarrow> list_all2 (\<lambda>x y. f x = Inr y) xs ys"
proof (induction xs arbitrary: ys)
  case (Cons x xs)
  then show ?case by (cases ys) (auto simp: bind_result_Inr)
qed auto

lemma traverse_length: "traverse f xs = Inr ys \<Longrightarrow> length ys = length xs"
  by (auto simp: traverse_Inr dest: list_all2_lengthD)

lemma traverse_nth: "traverse f xs = Inr ys \<Longrightarrow> i < length xs \<Longrightarrow> f (xs ! i) = Inr (ys ! i)"
  using list_all2_nthD [of "\<lambda>x y. f x = Inr y" xs ys i] by (simp add: traverse_Inr)

lemma traverse_set: "traverse f xs = Inr ys \<Longrightarrow> y \<in> set ys \<Longrightarrow> \<exists>x \<in> set xs. f x = Inr y"
  by (metis in_set_conv_nth traverse_length traverse_nth nth_mem)

subsection \<open>Frozen plans\<close>

lemma freeze_recipient_Inr:
  assumes "freeze_recipient env checkout order event created (i, c) = Inr r"
  shows "kind r = kind c \<and> kind r \<in> {Merchant, Supplier, Organizer, Conduit} \<and> weightSats r = weightSats c
    \<and> 0 < weightSats r \<and> is_safe (weightSats r) \<and> position r = i \<and> recipientId r = recipientId c
    \<and> destination_value (destination r) = destination_value (destination c)
    \<and> normalize_source event created (recipientId r) c = Inr (destination_source (destination r))"
  using assms
  by (auto simp: freeze_recipient_def bind_result_Inr settled_checks Let_def split: if_split_asm)

text \<open>The terms of a frozen plan.\<close>

definition plan_sound :: "CheckoutSparkSettledPlan \<Rightarrow> bool" where
  "plan_sound plan \<longleftrightarrow>
     plan_event plan = eventMarket plan
     \<and> (plan_schemaVersion plan = 5 \<longleftrightarrow> eventMarket plan \<noteq> None)
     \<and> (isCheckoutSparkNativeTreasuryPlan plan \<longleftrightarrow> nativeTreasury plan \<noteq> None)
     \<and> plan_schemaVersion plan \<in> {3, 4, 5}
     \<and> createdAt plan < takeoverAt plan \<and> 0 \<le> createdAt plan
     \<and> 0 < grossFundingSats (funding plan) \<and> is_safe (grossFundingSats (funding plan))
     \<and> (\<exists>cw dw. plan_weights (commerceQuote plan) (plan_event plan) (conduitFeePolicy plan) = Inr (cw, dw)
          \<and> check_recipients (merchantPubkey plan) (commerceQuote plan) (plan_event plan) cw dw (recipients plan) = Inr ()
          \<and> (plan_gross (commerceQuote plan) (plan_event plan) (conduitFeePolicy plan) = Inr (grossFundingSats (funding plan))
             \<or> (plan_schemaVersion plan = 3 \<and> grossFundingSats (funding plan) = cw + dw)))
     \<and> (\<forall>r \<in> set (recipients plan).
          kind r \<in> {Merchant, Supplier, Organizer, Conduit} \<and> 0 < weightSats r \<and> is_safe (weightSats r)
          \<and> (\<forall>b. eventMarket plan = Some b \<longrightarrow> kind r = Organizer \<longrightarrow> weightSats r = market_organizerFeeSats b))"

lemmas plan_records = FreezeCheckoutSparkSettledPlanInput.defs

lemma bind_elim: "bind_result r f = Inr y \<Longrightarrow> (\<And>x. r = Inr x \<Longrightarrow> f x = Inr y \<Longrightarrow> R) \<Longrightarrow> R"
  by (cases r) auto

lemma throw_elim: "(if b then Inl e else r) = Inr y \<Longrightarrow> (\<not> b \<Longrightarrow> r = Inr y \<Longrightarrow> R) \<Longrightarrow> R"
  by (auto split: if_split_asm)

lemma some_elim:
  "(case x of None \<Rightarrow> Inl e | Some y \<Rightarrow> f y) = Inr z \<Longrightarrow> (\<And>y. x = Some y \<Longrightarrow> f y = Inr z \<Longrightarrow> R) \<Longrightarrow> R"
  by (cases x) auto

lemmas step_elims = bind_elim throw_elim some_elim

text \<open>The plan that the checked terms make, before its digest.\<close>

definition unsigned_plan ::
    "'r FreezeCheckoutSparkSettledPlanInput \<Rightarrow> CheckoutSparkCommerceQuote \<Rightarrow> CheckoutSparkSettledFundingPlan
     \<Rightarrow> CheckoutSparkSettledRecipient list \<Rightarrow> json option \<Rightarrow> CheckoutSparkNativeTreasuryPlan option
     \<Rightarrow> CheckoutSparkEventMarketBinding option \<Rightarrow> CheckoutSparkSettledPlan" where
  "unsigned_plan input quote frozen rs zap native event =
     FreezeCheckoutSparkSettledPlanInput.extend
       (FreezeCheckoutSparkSettledPlanInput.make (checkoutId input) (orderId input) (merchantPubkey input) (walletId input)
         (network input) (createdAt input) (takeoverAt input) quote frozen rs zap (conduitFeePolicy input))
       \<lparr>plan_schemaVersion = (if event \<noteq> None then 5 else if native \<noteq> None then 4 else 3),
        nativeTreasury = native, eventMarket = event, planDigest = []\<rparr>"

lemma freeze_steps:
  assumes "freezeCheckoutSparkSettledPlanInternal env input allow treasury event = Inr plan"
  obtains quote event' w g frozen rs m zap native digested where
    "\<not> (network input \<noteq> ''mainnet'' \<and> network input \<noteq> ''regtest'')"
    "\<not> takeoverAt input \<le> createdAt input"
    "freezeCheckoutSparkCommerceQuote env (commerceQuote input) (merchantPubkey input) (event \<noteq> None) = Inr quote"
    "(case event of None \<Rightarrow> Inr None
      | Some b \<Rightarrow> bind_result (freezeCheckoutSparkEventMarketBinding env b (merchantPubkey input) quote (createdAt input))
                 (\<lambda>e. Inr (Some e))) = Inr event'"
    "\<not> (event' \<noteq> None \<and> treasury = None)"
    "plan_weights quote event' (conduitFeePolicy input) = Inr w"
    "plan_gross quote event' (conduitFeePolicy input) = Inr g"
    "\<not> (grossFundingSats (funding input) \<noteq> g
        \<and> (\<not> allow \<or> conduitFeePolicy input \<noteq> None \<or> grossFundingSats (funding input) \<noteq> fst w + snd w))"
    "freeze_funding env input (createdAt input) (grossFundingSats (funding input)) = Inr frozen"
    "\<not> length (recipients input) < 2"
    "traverse (freeze_recipient env (checkoutId input) (orderId input) event' (createdAt input))
       (enumerate 0 (recipients input)) = Inr rs"
    "check_recipients (merchantPubkey input) quote event' (fst w) (snd w) rs = Inr m"
    "(case merchantPublicZapPolicy input of None \<Rightarrow> Inr None
      | Some p \<Rightarrow> bind_result (freezeCheckoutSparkMerchantPublicZapPolicy env p) (\<lambda>z. Inr (Some z))) = Inr zap"
    "(case treasury of None \<Rightarrow> Inr None
      | Some t \<Rightarrow> bind_result (restoreCheckoutSparkNativeTreasuryPlan env t
            (FreezeCheckoutSparkSettledPlanInput.make (checkoutId input) (orderId input) (merchantPubkey input) (walletId input)
              (network input) (createdAt input) (takeoverAt input) quote frozen rs zap (conduitFeePolicy input)))
          (\<lambda>n. Inr (Some n))) = Inr native"
    "canonicalPlanValue env (unsigned_plan input quote frozen rs zap native event') = Inr digested"
    "(unsigned_plan input quote frozen rs zap native event')\<lparr>planDigest := settled_digest env digested\<rparr> = plan"
    "is_hex64 (merchantPubkey input)" "checkoutId input \<noteq> []" "orderId input \<noteq> []" "walletId input \<noteq> []"
    "is_safe (createdAt input)" "0 \<le> createdAt input" "is_safe (takeoverAt input)" "0 \<le> takeoverAt input"
    "is_safe (grossFundingSats (funding input))"
    "length (checkoutId input) \<le> MAX_ID_LENGTH" "js_trim (checkoutId input) = checkoutId input"
    "length (orderId input) \<le> MAX_ID_LENGTH" "js_trim (orderId input) = orderId input"
    "length (walletId input) \<le> MAX_ID_LENGTH" "js_trim (walletId input) = walletId input"
    "0 \<le> grossFundingSats (funding input)" "False \<or> grossFundingSats (funding input) \<noteq> 0"
  using assms(1) unfolding freezeCheckoutSparkSettledPlanInternal_def Let_def case_prod_unfold
  apply (elim step_elims)
  apply (unfold settled_checks sum.inject)
  apply (elim conjE)
  apply hypsubst
  apply (fold unsigned_plan_def)
  apply (rule that, (assumption | (rule sym, assumption))+)
  done

lemma freeze_sound:
  assumes "freezeCheckoutSparkSettledPlanInternal env input allow treasury event = Inr plan"
    and "allow \<Longrightarrow> treasury = None \<and> event = None"
  shows "plan_sound plan"
  using assms(1)
proof (rule freeze_steps)
  fix quote event' w g frozen rs m zap native digested
  assume steps: "\<not> takeoverAt input \<le> createdAt input" "\<not> (event' \<noteq> None \<and> treasury = None)"
      "plan_weights quote event' (conduitFeePolicy input) = Inr w"
      "plan_gross quote event' (conduitFeePolicy input) = Inr g"
      "\<not> (grossFundingSats (funding input) \<noteq> g
          \<and> (\<not> allow \<or> conduitFeePolicy input \<noteq> None \<or> grossFundingSats (funding input) \<noteq> fst w + snd w))"
      "check_recipients (merchantPubkey input) quote event' (fst w) (snd w) rs = Inr m"
      "0 \<le> createdAt input" "is_safe (grossFundingSats (funding input))" "0 \<le> grossFundingSats (funding input)"
      "False \<or> grossFundingSats (funding input) \<noteq> 0"
    and ev: "(case event of None \<Rightarrow> Inr None
      | Some b \<Rightarrow> bind_result (freezeCheckoutSparkEventMarketBinding env b (merchantPubkey input) quote (createdAt input))
                 (\<lambda>e. Inr (Some e))) = Inr event'"
    and ff: "freeze_funding env input (createdAt input) (grossFundingSats (funding input)) = Inr frozen"
    and tr: "traverse (freeze_recipient env (checkoutId input) (orderId input) event' (createdAt input))
       (enumerate 0 (recipients input)) = Inr rs"
    and nat: "(case treasury of None \<Rightarrow> Inr None
      | Some t \<Rightarrow> bind_result (restoreCheckoutSparkNativeTreasuryPlan env t
            (FreezeCheckoutSparkSettledPlanInput.make (checkoutId input) (orderId input) (merchantPubkey input) (walletId input)
              (network input) (createdAt input) (takeoverAt input) quote frozen rs zap (conduitFeePolicy input)))
          (\<lambda>n. Inr (Some n))) = Inr native"
    and plan: "(unsigned_plan input quote frozen rs zap native event')\<lparr>planDigest := settled_digest env digested\<rparr> = plan"
  have gross: "grossFundingSats frozen = grossFundingSats (funding input)"
    using ff by (auto simp: freeze_funding_def bind_result_Inr Let_def split: if_split_asm)
  have r: "kind r \<in> {Merchant, Supplier, Organizer, Conduit} \<and> 0 < weightSats r \<and> is_safe (weightSats r)
      \<and> (\<forall>b. event' = Some b \<longrightarrow> kind r = Organizer \<longrightarrow> weightSats r = market_organizerFeeSats b)"
    if member: "r \<in> set rs" for r
  proof -
    obtain ic where "ic \<in> set (enumerate 0 (recipients input))"
      and "freeze_recipient env (checkoutId input) (orderId input) event' (createdAt input) ic = Inr r"
      using traverse_set [OF tr member] by blast
    then have "freeze_recipient env (checkoutId input) (orderId input) event' (createdAt input) (fst ic, snd ic) = Inr r"
      by simp
    from freeze_recipient_Inr [OF this] show ?thesis
      by (auto simp: normalize_source_def Let_def split: if_split_asm CheckoutSparkSettledDestinationSource.split_asm)
  qed
  have none: "event' = None \<longleftrightarrow> event = None" "native = None \<longleftrightarrow> treasury = None"
    using ev nat by (auto simp: bind_result_Inr split: option.splits)
  have p: "plan = (unsigned_plan input quote frozen rs zap native event')\<lparr>planDigest := settled_digest env digested\<rparr>"
    using plan by simp
  obtain cw dw where w: "w = (cw, dw)" by (cases w)
  have g: "plan_gross quote event' (conduitFeePolicy input) = Inr (grossFundingSats (funding input))
      \<or> (event' = None \<and> native = None \<and> grossFundingSats (funding input) = cw + dw)"
    using steps(4,5) none assms(2) w by auto
  show "plan_sound plan"
    unfolding plan_sound_def p
    using steps(1-3,7-10) r none g steps(6) gross w
    by (auto simp: unsigned_plan_def plan_records plan_event_def isCheckoutSparkNativeTreasuryPlan_def)
qed

lemma restore_plan_sound:
  assumes "restoreCheckoutSparkSettledPlan env stored = Inr plan"
  shows "plan_sound plan"
  using assms freeze_sound
  by (force simp: restoreCheckoutSparkSettledPlan_def bind_result_Inr Let_def isCheckoutSparkNativeTreasuryPlan_def
      split: if_split_asm)

subsection \<open>Allocations partition the credit\<close>

lemma sum_filter_split:
  fixes f :: "'a \<Rightarrow> int"
  shows "sum_list (map f xs) = sum_list (map f (filter P xs)) + sum_list (map f (filter (\<lambda>x. \<not> P x) xs))"
  by (induction xs) auto

lemma sum_list_const: "\<forall>x \<in> set xs. f x = (c :: int) \<Longrightarrow> sum_list (map f xs) = int (length xs) * c"
  by (induction xs) (auto simp: algebra_simps)

lemma sum_list_ge_member: "\<forall>y \<in> set xs. 0 \<le> (y :: int) \<Longrightarrow> x \<in> set xs \<Longrightarrow> x \<le> sum_list xs"
proof (induction xs)
  case (Cons y xs)
  then have "0 \<le> sum_list xs" by (intro sum_list_nonneg) auto
  with Cons show ?case by (cases "x = y") force+
qed simp

text \<open>Who the recipients of a sound plan are.\<close>

lemma check_recipients_Inr:
  assumes "check_recipients merchant quote event cw dw rs = Inr ()"
  shows "length (filter (\<lambda>r. kind r = Conduit) rs) = 1" "rs \<noteq> []" "kind (last rs) = Conduit"
    "weightSats (hd (filter (\<lambda>r. kind r = Conduit) rs)) = dw"
    "length (filter (\<lambda>r. kind r = Merchant) rs) = (if event \<noteq> None \<and> quote_commerceTotalSats quote = 0 then 0 else 1)"
    "sum_list (map weightSats (filter (\<lambda>r. if event \<noteq> None then kind r = Merchant \<or> kind r = Supplier
        else kind r \<noteq> Conduit) rs)) = cw"
    "\<And>b. event = Some b \<Longrightarrow>
       length (filter (\<lambda>r. kind r = Organizer) rs) = (if market_organizerFeeSats b > 0 then 1 else 0)"
  using assms
  by (auto simp: check_recipients_def Let_def bind_result_Inr split: if_split_asm option.splits)

lemma plan_weights_Inr:
  assumes "plan_weights quote event p = Inr (cw, dw)"
  shows "cw = quote_commerceTotalSats quote" "0 \<le> cw" "0 \<le> dw" "event = None \<Longrightarrow> 0 < cw"
    "\<And>b. event = Some b \<Longrightarrow> 0 \<le> market_organizerFeeSats b"
  using assms conduit_fee_bounds(1)
  by (auto simp: plan_weights_def bind_result_Inr weights_Inr event_weights_Inr split: option.splits)

lemma divide_credit_Inr:
  assumes "divide_credit plan credited = Inr v"
    and w: "plan_weights (commerceQuote plan) (plan_event plan) (conduitFeePolicy plan) = Inr (cw, dw)"
  shows "divided_commerce v + divided_conduit v
      + (case plan_event plan of None \<Rightarrow> 0 | Some b \<Rightarrow> market_organizerFeeSats b) = credited
    \<and> 0 \<le> divided_commerce v \<and> 0 \<le> divided_conduit v \<and> credited \<le> grossFundingSats (funding plan)
    \<and> (cw = 0 \<longrightarrow> divided_commerce v = 0)
    \<and> (cw + dw + (case plan_event plan of None \<Rightarrow> 0 | Some b \<Rightarrow> market_organizerFeeSats b) \<le> credited
       \<longrightarrow> cw \<le> divided_commerce v \<and> dw \<le> divided_conduit v)"
proof (cases "plan_event plan")
  case None
  with assms(1) obtain w' a where
    w': "calculateCheckoutSparkAllocationWeights (JSInt (quote_commerceTotalSats (commerceQuote plan))) (conduitFeePolicy plan) = Inr w'"
    and a: "allocateCheckoutSparkSettledSats (JSInt credited) (JSInt (grossFundingSats (funding plan))) w' (conduitFeePolicy plan) = Inr a"
    and v: "v = \<lparr>divided_commerce = commerceAllocationSats a, divided_conduit = conduitAllocationSats a\<rparr>"
    by (auto simp: divide_credit_def Let_def bind_result_Inr)
  from a obtain c d where cd: "commerceWeightSats w' = JSInt c" "conduitWeightSats w' = JSInt d" "0 < c" "0 < credited"
      "credited \<le> grossFundingSats (funding plan)"
    and fee: "calculateConduitCheckoutFeeSats (JSInt c) (conduitFeePolicy plan) = Inr d"
    and aeq: "a = \<lparr>commerceAllocationSats = credited - (credited * d) div (c + d),
             conduitAllocationSats = (credited * d) div (c + d)\<rparr>"
    unfolding allocate_Inr by auto
  have "cw = c" "dw = d" using w w' cd None by (simp_all add: plan_weights_def)
  moreover have "0 \<le> d" using fee by (rule conduit_fee_bounds)
  moreover note proportional_share_bounds [OF cd(3) this, of credited]
  ultimately show ?thesis using None cd v aeq by simp
next
  case (Some b)
  with assms(1) obtain w' a where
    w': "calculateCheckoutSparkEventAllocationWeights (JSInt (quote_commerceTotalSats (commerceQuote plan)))
           (JSInt (market_organizerFeeSats b)) (conduitFeePolicy plan) = Inr w'"
    and a: "allocateCheckoutSparkEventSettledSats (JSInt credited) (JSInt (grossFundingSats (funding plan))) w' (conduitFeePolicy plan) = Inr a"
    and v: "v = \<lparr>divided_commerce = commerceAllocationSats a, divided_conduit = conduitAllocationSats a\<rparr>"
    by (auto simp: divide_credit_def Let_def bind_result_Inr)
  from event_allocation_parts [OF a] obtain c d f where cdf: "commerceWeightSats w' = JSInt c" "conduitWeightSats w' = JSInt d"
      "organizerWeightSats w' = JSInt f" "0 \<le> c" "0 \<le> d" "0 \<le> f" "credited \<le> grossFundingSats (funding plan)"
      "c = 0 \<longrightarrow> commerceAllocationSats a = 0" "organizerAllocationSats a = f"
      "commerceAllocationSats a + conduitAllocationSats a + organizerAllocationSats a = credited"
      "c \<le> commerceAllocationSats a" "d \<le> conduitAllocationSats a"
    by auto
  have "cw = c" "dw = d" using w w' cdf Some by (simp_all add: plan_weights_def)
  moreover have "market_organizerFeeSats b = f" using w' cdf unfolding event_weights_Inr by auto
  ultimately show ?thesis using Some cdf v by simp
qed

lemma floor_shares_sum:
  fixes D W :: int
  assumes "0 < W"
  shows "sum_list (map (\<lambda>r. (D * f r) div W) xs) \<le> (D * sum_list (map f xs)) div W"
proof (induction xs)
  case (Cons x xs)
  have "(D * f x) div W + (D * sum_list (map f xs)) div W \<le> (D * f x + D * sum_list (map f xs)) div W"
    using assms zdiv_mono1 [of "W * ((D * f x) div W + (D * sum_list (map f xs)) div W)" "D * f x + D * sum_list (map f xs)" W]
    by (simp add: algebra_simps)
      (smt (verit, best) div_mult_mod_eq mult.commute pos_mod_sign)
  with Cons show ?case by (simp add: algebra_simps)
qed simp

lemma share_covers_weight:
  fixes D W w :: int
  assumes "0 < W" "0 \<le> w" "W \<le> D"
  shows "w \<le> (D * w) div W"
proof -
  have "W * w \<le> D * w" using assms by (intro mult_right_mono)
  then have "w * W \<le> D * w" by (simp add: mult.commute)
  then show ?thesis using assms(1) zdiv_mono1 [of "w * W" "D * w" W] by simp
qed

lemma remainder_covers_weight:
  fixes D W w v :: int
  assumes "0 < W" "w + v = W" "W \<le> D" "0 \<le> w"
  shows "w \<le> D - (D * v) div W"
proof -
  let ?q = "(D * v) div W"
  have q: "?q * W \<le> D * v"
    using assms(1) by (metis div_mult_mod_eq le_add_same_cancel1 pos_mod_sign)
  have v: "D * w + D * v = D * W" unfolding assms(2) [symmetric] by (simp only: distrib_left)
  have "W * w \<le> D * w" using assms(3,4) by (intro mult_right_mono)
  then have "w * W \<le> D * w" by (simp add: mult.commute)
  moreover have "(D - ?q) * W = D * W - ?q * W" by (rule left_diff_distrib)
  ultimately have "w * W \<le> (D - ?q) * W" using q v by linarith
  then show ?thesis using assms(1) by simp
qed

text \<open>The satoshis a recipient is allotted.\<close>

definition allotted :: "CheckoutSparkSettledPlan \<Rightarrow> divided_credit \<Rightarrow> int \<Rightarrow> CheckoutSparkSettledRecipient \<Rightarrow> int" where
  "allotted plan v cw r =
     (if kind r = Conduit then divided_conduit v
      else if kind r = Merchant
      then divided_commerce v - sum_list (map (proportional_share v cw) (filter (is_proportional plan) (recipients plan)))
      else case (plan_event plan, kind r) of
        (Some b, Organizer) \<Rightarrow> market_organizerFeeSats b
      | _ \<Rightarrow> proportional_share v cw r)"

lemma recipient_allocation_allotted:
  assumes "distinct (map legId (recipients plan))" "r \<in> set (recipients plan)"
  shows "recipient_allocation plan v cw r = Some (allotted plan v cw r)"
proof -
  let ?o = "filter (is_proportional plan) (recipients plan)"
  have "map_of (rev (map (\<lambda>o'. (legId o', proportional_share v cw o')) ?o)) (legId r) = Some (proportional_share v cw r)"
    if "r \<in> set ?o"
  proof -
    have "distinct (map fst (rev (map (\<lambda>o'. (legId o', proportional_share v cw o')) ?o)))"
      using assms(1) by (simp add: rev_map [symmetric] o_def distinct_map_filter)
    then show ?thesis using that by (intro map_of_is_SomeI) auto
  qed
  then show ?thesis
    using assms(2)
    by (cases "kind r"; cases "plan_event plan")
      (auto simp: recipient_allocation_def allotted_def Let_def is_proportional_def)
qed

text \<open>The recipients of a sound plan by kind: one Conduit recipient; a merchant unless nothing is
  bought; an event organizer exactly when there is a fee; all others share the commerce part.\<close>

lemma recipients_by_kind:
  fixes f :: "CheckoutSparkSettledRecipient \<Rightarrow> int"
  assumes "\<forall>r \<in> set rs. kind r \<in> {Merchant, Supplier, Organizer, Conduit}"
  shows "sum_list (map f rs) =
     sum_list (map f (filter (\<lambda>r. kind r = Conduit) rs)) + sum_list (map f (filter (\<lambda>r. kind r = Merchant) rs))
     + (if plan_event plan = None then 0 else sum_list (map f (filter (\<lambda>r. kind r = Organizer) rs)))
     + sum_list (map f (filter (is_proportional plan) rs))"
  using assms
proof (induction rs)
  case (Cons r rs)
  then show ?case by (cases "kind r"; cases "plan_event plan") (auto simp: is_proportional_def)
qed simp

lemma allotted_sum:
  assumes sound: "plan_sound plan"
    and w: "plan_weights (commerceQuote plan) (plan_event plan) (conduitFeePolicy plan) = Inr (cw, dw)"
    and v: "divide_credit plan credited = Inr v"
  shows "sum_list (map (allotted plan v cw) (recipients plan)) = credited"
proof -
  let ?rs = "recipients plan" and ?others = "filter (is_proportional plan) (recipients plan)"
  let ?assigned = "sum_list (map (proportional_share v cw) ?others)"
  from sound w have chk: "check_recipients (merchantPubkey plan) (commerceQuote plan) (plan_event plan) cw dw ?rs = Inr ()"
    and kinds: "\<forall>r \<in> set ?rs. kind r \<in> {Merchant, Supplier, Organizer, Conduit}"
    and pos: "\<forall>r \<in> set ?rs. 0 < weightSats r"
    by (auto simp: plan_sound_def)
  note rec = check_recipients_Inr [OF chk] and pw = plan_weights_Inr [OF w] and dv = divide_credit_Inr [OF v w]
  have c: "sum_list (map (allotted plan v cw) (filter (\<lambda>r. kind r = Conduit) ?rs)) = divided_conduit v"
    using sum_list_const [of "filter (\<lambda>r. kind r = Conduit) ?rs" "allotted plan v cw" "divided_conduit v"] rec(1)
    by (simp add: allotted_def)
  have m: "sum_list (map (allotted plan v cw) (filter (\<lambda>r. kind r = Merchant) ?rs))
      = int (length (filter (\<lambda>r. kind r = Merchant) ?rs)) * (divided_commerce v - ?assigned)"
    by (rule sum_list_const) (simp add: allotted_def)
  have o: "sum_list (map (allotted plan v cw) (filter (\<lambda>r. kind r = Organizer) ?rs))
      = int (length (filter (\<lambda>r. kind r = Organizer) ?rs)) * market_organizerFeeSats b" if "plan_event plan = Some b" for b
    by (rule sum_list_const) (simp add: allotted_def that)
  have p: "sum_list (map (allotted plan v cw) ?others) = ?assigned"
  proof (rule arg_cong [where f = sum_list], rule map_cong [OF refl])
    fix r assume "r \<in> set ?others"
    then show "allotted plan v cw r = proportional_share v cw r"
      by (cases "kind r"; cases "plan_event plan") (auto simp: allotted_def is_proportional_def)
  qed
  have none: "divided_commerce v = 0 \<and> ?assigned = 0"
    if e: "plan_event plan \<noteq> None" "quote_commerceTotalSats (commerceQuote plan) = 0"
  proof -
    have cw: "cw = 0" using pw(1) e(2) by simp
    have empty: "?others = []"
    proof (rule ccontr)
      let ?s = "filter (\<lambda>r. kind r = Merchant \<or> kind r = Supplier) ?rs"
      assume "?others \<noteq> []"
      then obtain r where r: "r \<in> set ?others" by (cases ?others) auto
      with e kinds have r: "r \<in> set ?s" by (auto simp: is_proportional_def)
      have "0 < sum_list (map weightSats ?s)"
      proof -
        have "\<forall>x \<in> set (map weightSats ?s). 0 \<le> x" using pos by (auto simp: less_imp_le)
        moreover have "weightSats r \<in> set (map weightSats ?s)" using r by auto
        ultimately have "weightSats r \<le> sum_list (map weightSats ?s)" by (rule sum_list_ge_member)
        moreover have "0 < weightSats r" using pos r by auto
        ultimately show ?thesis by linarith
      qed
      moreover have "sum_list (map weightSats ?s) = 0" using rec(6) e(1) cw by auto
      ultimately show False by simp
    qed
    show ?thesis using dv cw empty by simp
  qed
  show ?thesis
    unfolding recipients_by_kind [OF kinds, of "allotted plan v cw" plan] c m p
    using o rec(5) rec(7) none dv pw(5)
    by (cases "plan_event plan") (auto split: if_split_asm)
qed

text \<open>A recipient is never allotted a negative amount, and a credit that covers the frozen weights
  gives each recipient at least its own weight.\<close>

lemma others_weights:
  assumes sound: "plan_sound plan"
    and w: "plan_weights (commerceQuote plan) (plan_event plan) (conduitFeePolicy plan) = Inr (cw, dw)"
    and r: "r \<in> set (recipients plan)" "kind r = Merchant"
  shows "weightSats r + sum_list (map weightSats (filter (is_proportional plan) (recipients plan))) = cw"
proof -
  let ?rs = "recipients plan"
  let ?in = "\<lambda>r. if plan_event plan \<noteq> None then kind r = Merchant \<or> kind r = Supplier else kind r \<noteq> Conduit"
  from sound w have chk: "check_recipients (merchantPubkey plan) (commerceQuote plan) (plan_event plan) cw dw ?rs = Inr ()"
    and kinds: "\<forall>r \<in> set ?rs. kind r \<in> {Merchant, Supplier, Organizer, Conduit}"
    by (auto simp: plan_sound_def)
  have one: "filter (\<lambda>r. kind r = Merchant) ?rs = [r]"
  proof -
    have "r \<in> set (filter (\<lambda>r. kind r = Merchant) ?rs)" using r by simp
    moreover have "length (filter (\<lambda>r. kind r = Merchant) ?rs) \<le> 1" using check_recipients_Inr(5) [OF chk] by auto
    ultimately show ?thesis by (cases "filter (\<lambda>r. kind r = Merchant) ?rs") auto
  qed
  have m: "filter (\<lambda>x. kind x = Merchant) (filter ?in ?rs) = filter (\<lambda>r. kind r = Merchant) ?rs"
    by (simp add: filter_filter) (rule filter_cong, auto)
  have p: "filter (\<lambda>x. kind x \<noteq> Merchant) (filter ?in ?rs) = filter (is_proportional plan) ?rs"
    by (simp add: filter_filter) (rule filter_cong [OF refl], use kinds in \<open>auto simp: is_proportional_def split: option.splits\<close>)
  have "cw = sum_list (map weightSats (filter ?in ?rs))" using check_recipients_Inr(6) [OF chk] by simp
  also have "\<dots> = weightSats r + sum_list (map weightSats (filter (is_proportional plan) ?rs))"
    using sum_filter_split [of weightSats "filter ?in ?rs" "\<lambda>x. kind x = Merchant"] unfolding m p one by simp
  finally show ?thesis by simp
qed

lemma allotted_bounds:
  assumes sound: "plan_sound plan"
    and w: "plan_weights (commerceQuote plan) (plan_event plan) (conduitFeePolicy plan) = Inr (cw, dw)"
    and v: "divide_credit plan credited = Inr v" and r: "r \<in> set (recipients plan)"
  shows "0 \<le> allotted plan v cw r"
    and "cw + dw + (case plan_event plan of None \<Rightarrow> 0 | Some b \<Rightarrow> market_organizerFeeSats b) \<le> credited
      \<Longrightarrow> weightSats r \<le> allotted plan v cw r"
proof -
  let ?rs = "recipients plan" and ?others = "filter (is_proportional plan) (recipients plan)"
  let ?D = "divided_commerce v"
  from sound w have chk: "check_recipients (merchantPubkey plan) (commerceQuote plan) (plan_event plan) cw dw ?rs = Inr ()"
    and pos: "\<forall>r \<in> set ?rs. 0 < weightSats r"
    by (auto simp: plan_sound_def)
  note dv = divide_credit_Inr [OF v w] and pw = plan_weights_Inr [OF w]
  have wr: "0 < weightSats r" using pos r by blast
  have D: "0 \<le> ?D" using dv by simp
  have share: "0 \<le> proportional_share v cw r"
    using D wr pw(2) by (cases "cw = 0") (simp_all add: proportional_share_def pos_imp_zdiv_nonneg_iff)
  have cw: "0 < cw" if "kind r = Merchant \<or> is_proportional plan r"
  proof -
    have "weightSats r \<le> sum_list (map weightSats (filter (\<lambda>r. if plan_event plan \<noteq> None then kind r = Merchant \<or> kind r = Supplier
        else kind r \<noteq> Conduit) ?rs))"
      using that r sound pos
      by (intro sum_list_ge_member) (auto simp: is_proportional_def plan_sound_def less_imp_le image_iff intro!: bexI [of _ r] split: if_split_asm)
    then show ?thesis using check_recipients_Inr(6) [OF chk] wr by linarith
  qed
  have rest: "(?D * sum_list (map weightSats ?others)) div cw \<le> ?D \<and>
      (cw \<le> ?D \<longrightarrow> weightSats r \<le> ?D - (?D * sum_list (map weightSats ?others)) div cw)" if "kind r = Merchant"
  proof -
    have sum: "weightSats r + sum_list (map weightSats ?others) = cw" by (rule others_weights [OF sound w r that])
    have "?D * sum_list (map weightSats ?others) \<le> ?D * cw" using D wr sum by (intro mult_left_mono) auto
    then have "(?D * sum_list (map weightSats ?others)) div cw \<le> (?D * cw) div cw" using cw that by (intro zdiv_mono1) auto
    moreover have "cw \<le> ?D \<Longrightarrow> weightSats r \<le> ?D - (?D * sum_list (map weightSats ?others)) div cw"
      using remainder_covers_weight [OF _ sum] cw wr that by auto
    ultimately show ?thesis using cw that by auto
  qed
  have floors: "sum_list (map (proportional_share v cw) ?others) \<le> (?D * sum_list (map weightSats ?others)) div cw"
    if "kind r = Merchant"
    using floor_shares_sum [of cw ?D weightSats ?others] cw that unfolding proportional_share_def by blast
  have org: "0 \<le> market_organizerFeeSats b" if "plan_event plan = Some b" for b using pw(5) that by simp
  show "0 \<le> allotted plan v cw r"
    using dv share rest floors org by (cases "kind r"; cases "plan_event plan") (auto simp: allotted_def)
  assume cover: "cw + dw + (case plan_event plan of None \<Rightarrow> 0 | Some b \<Rightarrow> market_organizerFeeSats b) \<le> credited"
  have orgw: "\<forall>b. plan_event plan = Some b \<longrightarrow> kind r = Organizer \<longrightarrow> weightSats r = market_organizerFeeSats b"
    using sound r by (auto simp: plan_sound_def)
  have le: "cw \<le> ?D" "dw \<le> divided_conduit v" using dv cover by auto
  have conduit: "weightSats r = dw" if "kind r = Conduit"
  proof -
    have "r \<in> set (filter (\<lambda>r. kind r = Conduit) ?rs)" using r that by simp
    with check_recipients_Inr(1,4) [OF chk] show ?thesis
      by (cases "filter (\<lambda>r. kind r = Conduit) ?rs") auto
  qed
  have sharew: "weightSats r \<le> proportional_share v cw r" if "is_proportional plan r"
    unfolding proportional_share_def using share_covers_weight [of cw "weightSats r" ?D] cw that wr le(1) by simp
  have kinds: "kind r \<in> {Merchant, Supplier, Organizer, Conduit}" using sound r by (auto simp: plan_sound_def)
  show "weightSats r \<le> allotted plan v cw r"
    using le rest floors conduit sharew orgw kinds
    by (cases "kind r"; cases "plan_event plan") (auto simp: allotted_def is_proportional_def)
qed

lemma allocatedLegs_Inr:
  assumes sound: "plan_sound plan" and ls: "allocatedLegs plan credited = Inr ls"
    and distinct: "distinct (map legId (recipients plan))"
  obtains cw dw v where
    "plan_weights (commerceQuote plan) (plan_event plan) (conduitFeePolicy plan) = Inr (cw, dw)"
    "divide_credit plan credited = Inr v"
    "ls = map (\<lambda>r. fresh_leg plan r (Some (allotted plan v cw r))) (recipients plan)"
proof -
  from ls obtain cw dw v where w: "plan_weights (commerceQuote plan) (plan_event plan) (conduitFeePolicy plan) = Inr (cw, dw)"
    and v: "divide_credit plan credited = Inr v"
    and eq: "ls = map (\<lambda>r. fresh_leg plan r (recipient_allocation plan v cw r)) (recipients plan)"
    by (auto simp: allocatedLegs_def bind_result_Inr)
  have "ls = map (\<lambda>r. fresh_leg plan r (Some (allotted plan v cw r))) (recipients plan)"
    unfolding eq using recipient_allocation_allotted [OF distinct] by simp
  with w v show thesis by (rule that)
qed

definition total_allocation :: "CheckoutSparkSettledLegProgress list \<Rightarrow> int" where
  "total_allocation ls = sum_list (map (\<lambda>l. or_else (allocationSats l) 0) ls)"

lemma allocations_partition:
  assumes "plan_sound plan" "allocatedLegs plan credited = Inr ls" "distinct (map legId (recipients plan))"
  shows "total_allocation ls = credited" "credited \<le> grossFundingSats (funding plan)"
    "map leg_legId ls = map legId (recipients plan)"
    "\<forall>l \<in> set ls. \<exists>a. allocationSats l = Some a \<and> 0 \<le> a"
proof -
  from assms obtain cw dw v where w: "plan_weights (commerceQuote plan) (plan_event plan) (conduitFeePolicy plan) = Inr (cw, dw)"
    and v: "divide_credit plan credited = Inr v"
    and ls: "ls = map (\<lambda>r. fresh_leg plan r (Some (allotted plan v cw r))) (recipients plan)"
    by (rule allocatedLegs_Inr)
  show "total_allocation ls = credited"
    using allotted_sum [OF assms(1) w v] by (simp add: total_allocation_def ls fresh_leg_def o_def)
  show "credited \<le> grossFundingSats (funding plan)" using divide_credit_Inr [OF v w] by simp
  show "map leg_legId ls = map legId (recipients plan)" by (simp add: ls fresh_leg_def)
  show "\<forall>l \<in> set ls. \<exists>a. allocationSats l = Some a \<and> 0 \<le> a"
    using allotted_bounds(1) [OF assms(1) w v] by (auto simp: ls fresh_leg_def)
qed

lemma covered_allocations:
  assumes "plan_sound plan" "allocatedLegs plan credited = Inr ls" "distinct (map legId (recipients plan))"
    "assertCheckoutSparkSettledFundingCoverage plan credited = Inr ()"
  shows "list_all2 (\<lambda>r l. \<exists>a. allocationSats l = Some a \<and> weightSats r \<le> a) (recipients plan) ls"
proof -
  from assms(1-3) obtain cw dw v where w: "plan_weights (commerceQuote plan) (plan_event plan) (conduitFeePolicy plan) = Inr (cw, dw)"
    and v: "divide_credit plan credited = Inr v"
    and ls: "ls = map (\<lambda>r. fresh_leg plan r (Some (allotted plan v cw r))) (recipients plan)"
    by (rule allocatedLegs_Inr)
  have "cw + dw + (case plan_event plan of None \<Rightarrow> 0 | Some b \<Rightarrow> market_organizerFeeSats b) \<le> credited"
    using assms(4) w by (auto simp: assertCheckoutSparkSettledFundingCoverage_def split: if_split_asm)
  with allotted_bounds(2) [OF assms(1) w v] show ?thesis
    by (auto simp: ls fresh_leg_def list_all2_conv_all_nth)
qed

end
