(* ===== verification/Settled_Safety.thy ===== *)
theory Settled_Safety
  imports Settled_Accounting
begin

text \<open>
  The reconciliation state of the settled router as a state machine: what every restored state
  satisfies, which moves the operations make on a leg, and what follows for every run.
\<close>

subsection \<open>Intents\<close>

text \<open>The same outgoing attempt; restoring may rewrite the text of an invoice, but not what
  identifies the attempt.\<close>

definition same_attempt :: "CheckoutSparkSettledLegIntent \<Rightarrow> CheckoutSparkSettledLegIntent \<Rightarrow> bool" where
  "same_attempt i j \<longleftrightarrow> intent_legId i = intent_legId j \<and> intent_transferId i = intent_transferId j
     \<and> intent_paymentHash i = intent_paymentHash j \<and> invoiceAmountSats i = invoiceAmountSats j
     \<and> maxFeeSats i = maxFeeSats j \<and> preparedAt i = preparedAt j"

lemma same_attempt_refl [simp]: "same_attempt i i"
  by (simp add: same_attempt_def)

lemma normalizeInvoice_hash:
  "normalizeInvoice env request hash amount net at_ms = Inr n \<Longrightarrow> normal_paymentHash n = hash"
  by (auto simp: normalizeInvoice_def bind_result_Inr settled_checks Let_def split: if_split_asm option.splits)

lemma normalizeIntent_Inr:
  assumes "normalizeIntent env plan leg input gen = Inr i"
  shows "same_attempt i input" "intent_legId i = leg_legId leg"
    "\<exists>a. allocationSats leg = Some a \<and> invoiceAmountSats i + maxFeeSats i = a \<and> 0 < invoiceAmountSats i
       \<and> invoiceAmountSats i < a \<and> is_safe (invoiceAmountSats i)"
    "(if gen = 0 then deriveCheckoutSparkSettledTransferId env plan (leg_legId leg)
      else deriveCheckoutSparkSettledRenewalTransferId env plan (leg_legId leg)) = Inr (intent_transferId i)"
    "is_safe (preparedAt i)"
proof -
  obtain transfer a invoice zap binding where f: "intent_legId input = leg_legId leg"
      "(if gen = 0 then deriveCheckoutSparkSettledTransferId env plan (leg_legId leg)
        else deriveCheckoutSparkSettledRenewalTransferId env plan (leg_legId leg)) = Inr transfer"
      "intent_transferId input = transfer" "allocationSats leg = Some a"
      "is_safe (invoiceAmountSats input)" "0 < invoiceAmountSats input" "invoiceAmountSats input < a"
      "maxFeeSats input = a - invoiceAmountSats input" "is_safe (preparedAt input)"
      "normalizeInvoice env (intent_paymentRequest input) (intent_paymentHash input) (invoiceAmountSats input)
        (network plan) (preparedAt input) = Inr invoice"
    and i: "i = \<lparr>intent_legId = leg_legId leg, intent_transferId = intent_transferId input,
              intent_paymentRequest = normal_paymentRequest invoice, intent_paymentHash = normal_paymentHash invoice,
              invoiceAmountSats = invoiceAmountSats input, maxFeeSats = maxFeeSats input, preparedAt = preparedAt input,
              publicZap = zap, receiverBinding = binding\<rparr>"
    using assms unfolding normalizeIntent_def Let_def
    by (auto simp: bind_result_Inr settled_checks split: if_split_asm option.splits)
  then show "same_attempt i input" "intent_legId i = leg_legId leg"
    "\<exists>a. allocationSats leg = Some a \<and> invoiceAmountSats i + maxFeeSats i = a \<and> 0 < invoiceAmountSats i
       \<and> invoiceAmountSats i < a \<and> is_safe (invoiceAmountSats i)"
    "(if gen = 0 then deriveCheckoutSparkSettledTransferId env plan (leg_legId leg)
      else deriveCheckoutSparkSettledRenewalTransferId env plan (leg_legId leg)) = Inr (intent_transferId i)"
    "is_safe (preparedAt i)"
    using normalizeInvoice_hash by (auto simp: same_attempt_def)
qed

lemma restore_closure_Inr:
  assumes "restoreCheckoutSparkSettledReturnClosure env c plan intent = Inr c'"
  shows "c' = c \<and> netDebitSats c = 0 \<and> closure_returnedSats c = closure_debitedSats c
    \<and> invoiceAmountSats intent \<le> closure_debitedSats c \<and> closure_transferId c = intent_transferId intent
    \<and> preparedAt intent \<le> closure_observedAt c"
  using assms by (auto simp: restoreCheckoutSparkSettledReturnClosure_def split: if_split_asm)

subsection \<open>Sound legs\<close>

definition native_recipient :: "CheckoutSparkSettledPlan \<Rightarrow> CheckoutSparkSettledRecipient \<Rightarrow> bool" where
  "native_recipient plan r \<longleftrightarrow> isCheckoutSparkNativeTreasuryPlan plan \<and> kind r = Conduit"

text \<open>An archived attempt: unpaid, its debit returned in full before the new attempt was prepared,
  which pays another invoice.\<close>

definition archive_sound :: "CheckoutSparkSettledPlan \<Rightarrow> CheckoutSparkSettledLegProgress \<Rightarrow> CheckoutSparkSettledClosedGeneration \<Rightarrow> bool" where
  "archive_sound plan leg g \<longleftrightarrow>
     closed_status g \<noteq> Paid \<and> netDebitSats (closure g) = 0
     \<and> closure_returnedSats (closure g) = closure_debitedSats (closure g)
     \<and> invoiceAmountSats (closed_intent g) \<le> closure_debitedSats (closure g)
     \<and> closure_transferId (closure g) = intent_transferId (closed_intent g)
     \<and> (\<exists>i. leg_intent leg = Some i \<and> intent_paymentHash i \<noteq> intent_paymentHash (closed_intent g)
           \<and> closure_observedAt (closure g) \<le> preparedAt i \<and> takeoverAt plan \<le> preparedAt i)"

definition amounts_sound :: "CheckoutSparkSettledLegProgress \<Rightarrow> CheckoutSparkSettledLegIntent \<Rightarrow> int \<Rightarrow> bool" where
  "amounts_sound leg i a \<longleftrightarrow>
     (if leg_status leg = Paid
      then \<exists>fee debit. finalFeeSats leg = Some fee \<and> finalDebitSats leg = Some debit \<and> 0 \<le> fee
             \<and> debit = invoiceAmountSats i + fee \<and> debit \<le> a \<and> is_safe debit
      else finalFeeSats leg = None \<and> finalDebitSats leg = None)"

definition leg_sound :: "CheckoutSparkSettledPlan \<Rightarrow> CheckoutSparkSettledRecipient \<Rightarrow> CheckoutSparkSettledLegProgress \<Rightarrow> bool" where
  "leg_sound plan r leg \<longleftrightarrow>
     leg_legId leg = legId r
     \<and> (closed_generations leg = [] \<and> getCheckoutSparkSettledLegGeneration leg = 0
        \<or> (\<exists>g. closed_generations leg = [g] \<and> getCheckoutSparkSettledLegGeneration leg = 1 \<and> archive_sound plan leg g))
     \<and> (if native_recipient plan r then leg_intent leg = None \<and> closed_generations leg = []
        else case leg_intent leg of
          None \<Rightarrow> leg_status leg = Unprepared \<and> leg_observedAt leg = None \<and> finalFeeSats leg = None \<and> finalDebitSats leg = None
        | Some i \<Rightarrow>
            (\<exists>a t. allocationSats leg = Some a \<and> leg_observedAt leg = Some t \<and> is_safe t \<and> preparedAt i \<le> t
               \<and> 0 < invoiceAmountSats i \<and> invoiceAmountSats i < a \<and> invoiceAmountSats i + maxFeeSats i = a
               \<and> leg_status leg \<in> set (Prepared # observable_statuses) \<and> amounts_sound leg i a))"

lemma check_final_Inr: "check_final_amounts leg i a = Inr u \<Longrightarrow> amounts_sound leg i a"
  unfolding check_final_amounts_def amounts_sound_def
  by (auto simp: bind_result_Inr settled_checks split: option.splits if_split_asm)

text \<open>What restoring keeps of a leg.\<close>

definition leg_kept :: "CheckoutSparkSettledLegProgress \<Rightarrow> CheckoutSparkSettledLegProgress \<Rightarrow> bool" where
  "leg_kept leg leg' \<longleftrightarrow>
     leg_legId leg' = leg_legId leg \<and> allocationSats leg' = allocationSats leg
     \<and> rel_option same_attempt (leg_intent leg') (leg_intent leg) \<and> leg_status leg' = leg_status leg
     \<and> leg_observedAt leg' = leg_observedAt leg \<and> finalFeeSats leg' = finalFeeSats leg
     \<and> finalDebitSats leg' = finalDebitSats leg
     \<and> getCheckoutSparkSettledLegGeneration leg' = getCheckoutSparkSettledLegGeneration leg
     \<and> map closure (closed_generations leg') = map closure (closed_generations leg)
     \<and> list_all2 same_attempt (map closed_intent (closed_generations leg')) (map closed_intent (closed_generations leg))"

lemma restore_closed_Inr:
  assumes "restore_closed_generation env plan baseline intent entry = Inr g"
    and "leg_intent leg = Some intent"
  shows "archive_sound plan leg g \<and> closure g = closure entry \<and> same_attempt (closed_intent g) (closed_intent entry)"
  using assms unfolding restore_closed_generation_def
  by (auto simp: bind_result_Inr archive_sound_def split: if_split_asm dest!: restore_closure_Inr dest: normalizeIntent_Inr(1))

lemma generation_shape:
  assumes "restore_generation_shape v leg"
  shows "getCheckoutSparkSettledLegGeneration leg = int (length (closed_generations leg))"
    "length (closed_generations leg) \<le> 1"
    "v = 3 \<Longrightarrow> generation leg = None \<and> closedGenerations leg = None"
  using assms
  by (auto simp: restore_generation_shape_def getCheckoutSparkSettledLegGeneration_def closed_generations_def
      split: if_split_asm option.splits)

lemma restore_leg_native:
  assumes "restore_leg env v plan c (r, leg, fresh_leg plan r alloc) = Inr leg'" "native_recipient plan r"
  shows "leg_sound plan r leg' \<and> leg_kept leg leg' \<and> allocationSats leg' = alloc"
  using assms generation_shape(1) [of v leg]
  by (auto simp: restore_leg_def native_recipient_def Let_def leg_sound_def leg_kept_def fresh_leg_def
      getCheckoutSparkSettledLegGeneration_def closed_generations_def option.rel_refl split: if_split_asm)

lemma restore_leg_empty:
  assumes "restore_leg env v plan c (r, leg, fresh_leg plan r alloc) = Inr leg'" "\<not> native_recipient plan r"
    "leg_intent leg = None"
  shows "leg_sound plan r leg' \<and> leg_kept leg leg' \<and> allocationSats leg' = alloc"
  using assms generation_shape(1) [of v leg]
  by (auto simp: restore_leg_def native_recipient_def Let_def leg_sound_def leg_kept_def fresh_leg_def
      getCheckoutSparkSettledLegGeneration_def closed_generations_def split: if_split_asm)

lemma restore_leg_attempt:
  assumes restored: "restore_leg env v plan c (r, leg, fresh_leg plan r alloc) = Inr leg'"
    and "\<not> native_recipient plan r" "leg_intent leg = Some stored"
  shows "leg_sound plan r leg' \<and> leg_kept leg leg' \<and> allocationSats leg' = alloc \<and> c \<noteq> None"
proof -
  let ?baseline = "fresh_leg plan r alloc" and ?gen = "getCheckoutSparkSettledLegGeneration leg"
  from restored assms(2,3) obtain a where shape: "restore_generation_shape v leg"
    and ids: "leg_legId leg = legId r" "allocationSats leg = alloc" and c: "c \<noteq> None" and a: "alloc = Some a"
    and attempt: "restore_attempt env v plan ?baseline leg stored a = Inr leg'"
    by (auto simp: restore_leg_def Let_def native_recipient_def fresh_leg_def split: if_split_asm option.splits)
  from attempt obtain intent archived t where
    intent: "normalizeIntent env plan ?baseline stored ?gen = Inr intent"
    and archived: "restore_archive env plan ?baseline intent leg = Inr archived"
    and t: "leg_observedAt leg = Some t" "is_safe t" "preparedAt intent \<le> t" "leg_status leg \<in> set (Prepared # observable_statuses)"
    and amounts: "amounts_sound leg intent a"
    and leg': "leg' = leg\<lparr>leg_intent := Some intent,
                  generation := (if v \<noteq> 3 then Some ?gen else generation leg),
                  closedGenerations := (if v \<noteq> 3 then Some archived else closedGenerations leg)\<rparr>"
    unfolding restore_attempt_def bind_result_Inr
    by (elim exE conjE) (auto simp: bind_result_Inr dest: check_final_Inr split: if_split_asm option.split_asm)
  note i = normalizeIntent_Inr [OF intent]
  have gen: "getCheckoutSparkSettledLegGeneration leg' = ?gen"
    by (simp add: leg' getCheckoutSparkSettledLegGeneration_def)
  have legi: "leg_intent leg' = Some intent" by (simp add: leg')
  have arch: "closed_generations leg' = archived \<and> map closure archived = map closure (closed_generations leg)
      \<and> list_all2 same_attempt (map closed_intent archived) (map closed_intent (closed_generations leg))
      \<and> (archived = [] \<and> ?gen = 0 \<or> (\<exists>g. archived = [g] \<and> ?gen = 1 \<and> archive_sound plan leg' g))"
  proof (cases "?gen = 1")
    case True
    then obtain entry where entry: "closed_generations leg = [entry]"
      using generation_shape(1) [OF shape] by (cases "closed_generations leg") auto
    with archived True obtain g where g: "archived = [g]" "restore_closed_generation env plan ?baseline intent entry = Inr g"
      by (auto simp: bind_result_Inr restore_archive_def)
    have "v \<noteq> 3" using generation_shape(3) [OF shape] True by (auto simp: getCheckoutSparkSettledLegGeneration_def)
    then have "closed_generations leg' = archived" by (simp add: leg' closed_generations_def)
    with restore_closed_Inr [OF g(2) legi] g(1) entry True show ?thesis by simp
  next
    case False
    with generation_shape(1,2) [OF shape] have "?gen = 0" "closed_generations leg = []" by (cases "closed_generations leg"; auto)+
    moreover have "archived = []" using archived False by (simp add: restore_archive_def)
    moreover have "closed_generations leg' = []"
      using calculation by (simp add: leg' closed_generations_def)
    ultimately show ?thesis by simp
  qed
  have "leg_sound plan r leg'"
    unfolding leg_sound_def gen
    using arch assms(2) i(3) t amounts ids a
    by (auto simp: leg' fresh_leg_def amounts_sound_def)
  moreover have "leg_kept leg leg'"
    unfolding leg_kept_def gen using arch i(1) assms(3) by (simp add: leg')
  ultimately show ?thesis using ids c by (simp add: leg')
qed

lemma restore_leg_Inr:
  assumes "restore_leg env v plan c (r, leg, fresh_leg plan r alloc) = Inr leg'"
  shows "leg_sound plan r leg' \<and> leg_kept leg leg' \<and> allocationSats leg' = alloc
    \<and> (leg_intent leg' \<noteq> None \<longrightarrow> c \<noteq> None)"
proof (cases "native_recipient plan r")
  case True
  with restore_leg_native [OF assms] show ?thesis by (auto simp: leg_sound_def)
next
  case False
  show ?thesis
  proof (cases "leg_intent leg")
    case None
    with restore_leg_empty [OF assms False] show ?thesis by (auto simp: leg_kept_def)
  next
    case (Some i)
    with restore_leg_attempt [OF assms False] show ?thesis by auto
  qed
qed

subsection \<open>Restored states\<close>

lemma freeze_options:
  assumes "freezeCheckoutSparkSettledPlanInternal env input allow treasury event = Inr plan"
  shows "(nativeTreasury plan = None \<longleftrightarrow> treasury = None) \<and> (eventMarket plan = None \<longleftrightarrow> event = None)"
  using assms
proof (rule freeze_steps)
  fix quote event' w g frozen rs m zap native digested
  assume "(case event of None \<Rightarrow> Inr None
      | Some b \<Rightarrow> bind_result (freezeCheckoutSparkEventMarketBinding env b (merchantPubkey input) quote (createdAt input))
                 (\<lambda>e. Inr (Some e))) = Inr event'"
    "(case treasury of None \<Rightarrow> Inr None
      | Some t \<Rightarrow> bind_result (restoreCheckoutSparkNativeTreasuryPlan env t
            (FreezeCheckoutSparkSettledPlanInput.make (checkoutId input) (orderId input) (merchantPubkey input) (walletId input)
              (network input) (createdAt input) (takeoverAt input) quote frozen rs zap (conduitFeePolicy input)))
          (\<lambda>n. Inr (Some n))) = Inr native"
    and plan: "(unsigned_plan input quote frozen rs zap native event')\<lparr>planDigest := settled_digest env digested\<rparr> = plan"
  then have "event' = None \<longleftrightarrow> event = None" "native = None \<longleftrightarrow> treasury = None"
    by (auto simp: bind_result_Inr split: option.splits)
  moreover have "nativeTreasury plan = native" "eventMarket plan = event'"
    unfolding plan [symmetric] by (simp_all add: unsigned_plan_def plan_records)
  ultimately show ?thesis by simp
qed

lemma restore_plan_Inr:
  assumes "restoreCheckoutSparkSettledPlan env stored = Inr plan"
  shows "map legId (recipients plan) = map legId (recipients stored)"
    "isCheckoutSparkNativeTreasuryPlan plan \<longleftrightarrow> nativeTreasury stored \<noteq> None"
    "length (recipients plan) = length (recipients stored)" "planDigest plan = planDigest stored"
proof -
  from assms obtain allow where f: "freezeCheckoutSparkSettledPlanInternal env (FreezeCheckoutSparkSettledPlanInput.truncate stored)
        allow (nativeTreasury stored) (eventMarket stored) = Inr plan"
    and ids: "map (\<lambda>r. (position r, legId r)) (recipients stored) = map (\<lambda>r. (position r, legId r)) (recipients plan)"
    and d: "planDigest plan = planDigest stored"
    by (auto simp: restoreCheckoutSparkSettledPlan_def bind_result_Inr Let_def split: if_split_asm)
  show "map legId (recipients plan) = map legId (recipients stored)"
    using arg_cong [OF ids, of "map snd"] by (simp add: o_def)
  then show "length (recipients plan) = length (recipients stored)" by (metis length_map)
  show "isCheckoutSparkNativeTreasuryPlan plan \<longleftrightarrow> nativeTreasury stored \<noteq> None"
    using restore_plan_sound [OF assms] freeze_options [OF f] by (simp add: plan_sound_def)
  show "planDigest plan = planDigest stored" by (rule d)
qed

definition credit_total :: "CheckoutSparkSettledCreditEvidence option \<Rightarrow> int" where
  "credit_total c = (case c of None \<Rightarrow> 0 | Some e \<Rightarrow> creditedSats e)"

lemma restore_steps:
  assumes "restoreCheckoutSparkSettledReconciliation env state = Inr state'"
  obtains plan initial rows ls fin where
    "\<not> state_schemaVersion state \<notin> {3, 4, 5, 6}"
    "restoreCheckoutSparkSettledPlan env (state_plan state) = Inr plan"
    "\<not> ((plan_schemaVersion plan = 4) \<noteq> (state_schemaVersion state = 5)
        \<or> (plan_schemaVersion plan = 5) \<noteq> (state_schemaVersion state = 6)
        \<or> (state_schemaVersion state \<noteq> 5 \<and> state_schemaVersion state \<noteq> 6 \<and> treasuryFinalization state \<noteq> None))"
    "\<not> (updatedAt state < createdAt plan \<or> length (legs state) \<noteq> length (recipients plan))"
    "createCheckoutSparkSettledReconciliation env plan = Inr initial"
    "(case credit state of
        None \<Rightarrow> Inr (None, legs initial)
      | Some evidence \<Rightarrow>
          bind_result (normalizeCredit plan evidence) (\<lambda>c.
          bind_result (allocatedLegs plan (creditedSats c)) (\<lambda>ls. Inr (Some c, ls)))) = Inr rows"
    "traverse (restore_leg env (state_schemaVersion state) plan (fst rows)) (zip3 (recipients plan) (legs state) (snd rows)) = Inr ls"
    "\<not> (state_schemaVersion state = 4 \<and> \<not> list_ex (\<lambda>leg. getCheckoutSparkSettledLegGeneration leg = 1) ls)"
    "\<not> list_ex (leg_overspent plan) ls"
    "\<not> (\<not> is_safe (total_debit ls) \<or> total_debit ls > (case fst rows of None \<Rightarrow> 0 | Some c \<Rightarrow> creditedSats c))"
    "\<not> updatedAt state < latest_observation plan (fst rows) ls"
    "(if state_schemaVersion state = 5 \<or> state_schemaVersion state = 6
      then bind_result (restoreCheckoutSparkNativeTreasuryFinalization env (treasuryFinalization state)
               (state\<lparr>state_plan := plan, credit := fst rows, legs := ls\<rparr>)) (\<lambda>fin.
           if \<not> native_mirror_ok plan ls fin then Inl ''Checkout Spark native treasury mirror is invalid.''
           else Inr (Some fin))
      else Inr None) = Inr fin"
    "\<lparr>state_schemaVersion = state_schemaVersion state, treasuryFinalization = fin, state_plan = plan, credit = fst rows,
      legs = ls, updatedAt = updatedAt state\<rparr> = state'"
    "is_safe (updatedAt state)" "0 \<le> updatedAt state"
  using assms unfolding restoreCheckoutSparkSettledReconciliation_def Let_def case_prod_unfold
  apply (elim step_elims)
  apply (unfold settled_checks sum.inject)
  apply (elim conjE)
  apply hypsubst
  apply (rule that, (assumption | (rule sym, assumption))+)
  done

lemma normalizeCredit_Inr:
  assumes "normalizeCredit plan evidence = Inr c"
  shows "c = evidence \<and> 0 < creditedSats c \<and> is_safe (creditedSats c) \<and> creditedSats c \<le> grossFundingSats (funding plan)
    \<and> createdAt plan \<le> credit_observedAt c \<and> is_safe (credit_observedAt c)"
  using assms unfolding normalizeCredit_def Let_def
  by (auto simp: bind_result_Inr settled_checks split: if_split_asm)

definition state_sound :: "CheckoutSparkSettledReconciliation \<Rightarrow> bool" where
  "state_sound s \<longleftrightarrow>
     plan_sound (state_plan s)
     \<and> list_all2 (leg_sound (state_plan s)) (recipients (state_plan s)) (legs s)
     \<and> (case credit s of
          None \<Rightarrow> list_all (\<lambda>l. allocationSats l = None \<and> leg_intent l = None) (legs s)
        | Some c \<Rightarrow> 0 < creditedSats c
            \<and> (\<exists>base. allocatedLegs (state_plan s) (creditedSats c) = Inr base
                  \<and> map allocationSats base = map allocationSats (legs s)))"

lemma create_legs:
  assumes "createCheckoutSparkSettledReconciliation env plan = Inr initial" "plan_sound plan"
  shows "legs initial = map (\<lambda>r. fresh_leg plan r None) (recipients plan) \<and> credit initial = None"
proof -
  from assms(1) obtain canonical where c: "restoreCheckoutSparkSettledPlan env plan = Inr canonical"
    and l: "legs initial = map (\<lambda>r. fresh_leg canonical r None) (recipients canonical)" "credit initial = None"
    by (auto simp: createCheckoutSparkSettledReconciliation_def bind_result_Inr)
  have n: "isCheckoutSparkNativeTreasuryPlan canonical = isCheckoutSparkNativeTreasuryPlan plan"
    using restore_plan_Inr(2) [OF c] assms(2) by (simp add: plan_sound_def)
  have "legs initial = map (\<lambda>i. (fresh_leg plan (undefined\<lparr>legId := i\<rparr>) None)\<lparr>leg_legId := i\<rparr>) (map legId (recipients canonical))"
    using n by (simp add: l(1) fresh_leg_def)
  also have "map legId (recipients canonical) = map legId (recipients plan)" by (rule restore_plan_Inr(1) [OF c])
  finally show ?thesis using l(2) by (simp add: fresh_leg_def)
qed

lemma restore_sound:
  assumes "restoreCheckoutSparkSettledReconciliation env s = Inr s'"
  shows "state_sound s'" "list_all2 leg_kept (legs s) (legs s')" "credit s' = credit s" "updatedAt s' = updatedAt s"
    "restoreCheckoutSparkSettledPlan env (state_plan s) = Inr (state_plan s')"
    "total_debit (legs s') \<le> credit_total (credit s')"
    "is_safe (total_debit (legs s'))"
    "\<not> list_ex (leg_overspent (state_plan s')) (legs s')"
    "\<And>c. credit s' = Some c \<Longrightarrow> creditedSats c \<le> grossFundingSats (funding (state_plan s'))"
proof -
  from assms obtain plan initial rows ls fin where
    plan: "restoreCheckoutSparkSettledPlan env (state_plan s) = Inr plan"
    and len: "length (legs s) = length (recipients plan)"
    and initial: "createCheckoutSparkSettledReconciliation env plan = Inr initial"
    and rows: "(case credit s of
        None \<Rightarrow> Inr (None, legs initial)
      | Some evidence \<Rightarrow>
          bind_result (normalizeCredit plan evidence) (\<lambda>c.
          bind_result (allocatedLegs plan (creditedSats c)) (\<lambda>ls. Inr (Some c, ls)))) = Inr rows"
    and ls: "traverse (restore_leg env (state_schemaVersion s) plan (fst rows)) (zip3 (recipients plan) (legs s) (snd rows)) = Inr ls"
    and debit: "is_safe (total_debit ls)" "total_debit ls \<le> (case fst rows of None \<Rightarrow> 0 | Some c \<Rightarrow> creditedSats c)"
    and over: "\<not> list_ex (leg_overspent plan) ls"
    and s': "s' = \<lparr>state_schemaVersion = state_schemaVersion s, treasuryFinalization = fin, state_plan = plan, credit = fst rows,
      legs = ls, updatedAt = updatedAt s\<rparr>"
    by (rule restore_steps) auto
  have sound: "plan_sound plan" by (rule restore_plan_sound [OF plan])
  have credit: "fst rows = credit s \<and> (\<forall>c. credit s = Some c \<longrightarrow> normalizeCredit plan c = Inr c
      \<and> allocatedLegs plan (creditedSats c) = Inr (snd rows))"
    using rows by (auto simp: bind_result_Inr dest: normalizeCredit_Inr split: option.splits)
  obtain alloc where base: "snd rows = map (\<lambda>r. fresh_leg plan r (alloc r)) (recipients plan)"
    and none: "credit s = None \<Longrightarrow> \<forall>r. alloc r = None"
  proof (cases "credit s")
    case None
    with rows create_legs [OF initial sound] have "snd rows = map (\<lambda>r. fresh_leg plan r None) (recipients plan)" by auto
    then show thesis by (rule that) simp
  next
    case (Some c)
    with credit have "allocatedLegs plan (creditedSats c) = Inr (snd rows)" by simp
    then obtain v cw where e: "map (\<lambda>r. fresh_leg plan r (recipient_allocation plan v cw r)) (recipients plan) = snd rows"
      by (auto simp: allocatedLegs_def bind_result_Inr)
    show thesis by (rule that [OF e [symmetric]]) (simp add: Some)
  qed
  have n: "length ls = length (recipients plan)"
    using traverse_length [OF ls] len by (simp add: zip3_def base)
  have leg: "leg_sound plan (recipients plan ! i) (ls ! i) \<and> leg_kept (legs s ! i) (ls ! i)
      \<and> allocationSats (ls ! i) = alloc (recipients plan ! i) \<and> (leg_intent (ls ! i) \<noteq> None \<longrightarrow> credit s \<noteq> None)"
    if "i < length ls" for i
  proof -
    have "restore_leg env (state_schemaVersion s) plan (fst rows)
        (recipients plan ! i, legs s ! i, fresh_leg plan (recipients plan ! i) (alloc (recipients plan ! i))) = Inr (ls ! i)"
      using traverse_nth [OF ls, of i] that n len by (simp add: zip3_def base)
    from restore_leg_Inr [OF this] credit show ?thesis by simp
  qed
  show "state_sound s'"
  proof -
    have "list_all2 (leg_sound plan) (recipients plan) ls" using leg n by (simp add: list_all2_conv_all_nth)
    moreover have "map allocationSats (snd rows) = map allocationSats ls"
      using leg n by (intro nth_equalityI) (simp_all add: base fresh_leg_def)
    moreover have "list_all (\<lambda>l. allocationSats l = None \<and> leg_intent l = None) ls" if "credit s = None"
      using leg none that by (auto simp: list_all_length)
    ultimately show ?thesis
      using sound credit by (auto simp: state_sound_def s' dest: normalizeCredit_Inr split: option.splits)
  qed
  show "list_all2 leg_kept (legs s) (legs s')" using leg n len by (simp add: s' list_all2_conv_all_nth)
  show "credit s' = credit s" "updatedAt s' = updatedAt s" using credit by (simp_all add: s')
  show "restoreCheckoutSparkSettledPlan env (state_plan s) = Inr (state_plan s')" using plan by (simp add: s')
  show "total_debit (legs s') \<le> credit_total (credit s')" using debit by (simp add: s' credit_total_def)
  show "is_safe (total_debit (legs s'))" using debit by (simp add: s')
  show "\<not> list_ex (leg_overspent (state_plan s')) (legs s')" using over by (simp add: s')
  show "creditedSats c \<le> grossFundingSats (funding (state_plan s'))" if "credit s' = Some c" for c
    using credit normalizeCredit_Inr that by (auto simp: s')
qed

end
