(* ===== verification/Settled_Protocol.thy ===== *)
theory Settled_Protocol
  imports Settled_Router
begin

text \<open>
  The abstract life of a payout leg: what a checkout may observe of one payout, and the steps it may
  take.  The locale \<open>leg_runs\<close> is the contract of a system whose operations move legs by these
  steps; its lemmas hold along every run.  The router is interpreted in \<open>Settled_Checkout\<close>.
\<close>

subsection \<open>The abstract leg\<close>

record attempt_view =
  view_generation :: int
  view_attempt :: "js_string option"
  view_status :: CheckoutSparkSettledLegStatus
  view_debit :: "int option"

text \<open>Which provider observation may follow which status: paid is final, a terminal failure can only
  turn out to be paid, and an uncertain attempt is never submitted again.\<close>

definition may_follow :: "CheckoutSparkSettledLegStatus \<Rightarrow> CheckoutSparkSettledLegStatus \<Rightarrow> bool" where
  "may_follow st st' \<longleftrightarrow>
     st' \<in> set observable_statuses
     \<and> (st = Paid \<longrightarrow> st' = Paid)
     \<and> (st = TerminalFailure \<longrightarrow> st' = TerminalFailure \<or> st' = Paid)
     \<and> (st' = Submitted \<longrightarrow> st = Prepared \<or> st = Submitted)"

inductive leg_moves :: "bool \<Rightarrow> attempt_view \<Rightarrow> attempt_view \<Rightarrow> bool" for native :: bool where
  stays: "leg_moves native v v"
| prepares: "\<not> native \<Longrightarrow>
    leg_moves native \<lparr>view_generation = 0, view_attempt = None, view_status = Unprepared, view_debit = None\<rparr>
      \<lparr>view_generation = 0, view_attempt = Some t, view_status = Prepared, view_debit = None\<rparr>"
| observes: "\<not> native \<Longrightarrow> may_follow st st' \<Longrightarrow> (st' = Paid \<longleftrightarrow> d' \<noteq> None) \<Longrightarrow>
    leg_moves native \<lparr>view_generation = n, view_attempt = Some t, view_status = st, view_debit = d\<rparr>
      \<lparr>view_generation = n, view_attempt = Some t, view_status = st', view_debit = d'\<rparr>"
| renews: "\<not> native \<Longrightarrow> st \<noteq> Paid \<Longrightarrow>
    leg_moves native \<lparr>view_generation = 0, view_attempt = Some t, view_status = st, view_debit = None\<rparr>
      \<lparr>view_generation = 1, view_attempt = Some t', view_status = Prepared, view_debit = None\<rparr>"
| collects: "native \<Longrightarrow> (st = Paid \<longrightarrow> st' = Paid \<and> d' = d) \<Longrightarrow>
    leg_moves native \<lparr>view_generation = 0, view_attempt = None, view_status = st, view_debit = d\<rparr>
      \<lparr>view_generation = 0, view_attempt = None, view_status = st', view_debit = d'\<rparr>"

inductive_cases leg_movesE: "leg_moves native v w"

subsection \<open>What a step keeps\<close>

definition attempt_kept :: "bool \<Rightarrow> attempt_view \<Rightarrow> attempt_view \<Rightarrow> bool" where
  "attempt_kept native v w \<longleftrightarrow>
     view_generation v \<le> view_generation w
     \<and> (view_attempt v \<noteq> None \<longrightarrow> view_generation w = view_generation v \<longrightarrow> view_attempt w = view_attempt v)
     \<and> (view_status v = Paid \<longrightarrow>
          view_status w = Paid \<and> view_attempt w = view_attempt v \<and> view_generation w = view_generation v
          \<and> (native \<longrightarrow> view_debit w = view_debit v))"

lemma attempt_kept_refl: "attempt_kept native v v"
  by (simp add: attempt_kept_def)

lemma attempt_kept_trans:
  assumes uv: "attempt_kept native u v" and vw: "attempt_kept native v w"
  shows "attempt_kept native u w"
  unfolding attempt_kept_def
proof (intro conjI impI)
  note u = uv [unfolded attempt_kept_def] and v = vw [unfolded attempt_kept_def]
  have le: "view_generation u \<le> view_generation v" "view_generation v \<le> view_generation w" using u v by blast+
  then show "view_generation u \<le> view_generation w" by (rule order_trans)
  show "view_attempt w = view_attempt u" if "view_attempt u \<noteq> None" "view_generation w = view_generation u"
  proof -
    have g: "view_generation v = view_generation u" "view_generation w = view_generation v" using le that(2) by linarith+
    then have e: "view_attempt v = view_attempt u" using u that(1) by blast
    have "view_attempt v \<noteq> None" unfolding e by (rule that(1))
    then have "view_attempt w = view_attempt v" using v g(2) by blast
    then show ?thesis using e by (rule trans)
  qed
  assume p: "view_status u = Paid"
  then have pu: "view_status v = Paid" "view_attempt v = view_attempt u" "view_generation v = view_generation u"
      "native \<longrightarrow> view_debit v = view_debit u"
    using u by blast+
  then have pv: "view_status w = Paid" "view_attempt w = view_attempt v" "view_generation w = view_generation v"
      "native \<longrightarrow> view_debit w = view_debit v"
    using v by blast+
  show "view_status w = Paid" by (rule pv(1))
  show "view_attempt w = view_attempt u" by (rule trans [OF pv(2) pu(2)])
  show "view_generation w = view_generation u" by (rule trans [OF pv(3) pu(3)])
  show "view_debit w = view_debit u" if native using trans [OF pv(4) [rule_format, OF that] pu(4) [rule_format, OF that]] .
qed

lemma step_keeps_attempt: "leg_moves native v w \<Longrightarrow> attempt_kept native v w"
  by (erule leg_movesE) (simp_all add: attempt_kept_def may_follow_def)

lemma run_keeps_attempt: "(leg_moves native)\<^sup>*\<^sup>* v w \<Longrightarrow> attempt_kept native v w"
proof (induction rule: rtranclp_induct)
  case (step v' w)
  show ?case by (rule attempt_kept_trans [OF step.IH step_keeps_attempt [OF step.hyps(2)]])
qed (rule attempt_kept_refl)

subsection \<open>Systems whose operations move legs\<close>

locale leg_runs =
  fixes step :: "'op \<Rightarrow> 's \<Rightarrow> 's"
    and legs_of :: "'s \<Rightarrow> attempt_view list"
    and natives :: "'s \<Rightarrow> bool list"
    and admissible :: "'s \<Rightarrow> bool"
  assumes step_admissible: "admissible s \<Longrightarrow> admissible (step op s)"
    and step_natives: "admissible s \<Longrightarrow> natives (step op s) = natives s"
    and step_length: "admissible s \<Longrightarrow> length (legs_of (step op s)) = length (legs_of s)"
    and step_moves: "admissible s \<Longrightarrow> i < length (legs_of s) \<Longrightarrow>
          leg_moves (natives s ! i) (legs_of s ! i) (legs_of (step op s) ! i)"
begin

lemma run_moves:
  "admissible s \<Longrightarrow>
   length (legs_of (fold step ops s)) = length (legs_of s) \<and>
   (\<forall>i < length (legs_of s). (leg_moves (natives s ! i))\<^sup>*\<^sup>* (legs_of s ! i) (legs_of (fold step ops s) ! i))"
proof (induction ops arbitrary: s)
  case (Cons op ops)
  note a = Cons.prems
  have ih: "length (legs_of (fold step ops (step op s))) = length (legs_of s) \<and>
      (\<forall>i < length (legs_of s). (leg_moves (natives s ! i))\<^sup>*\<^sup>* (legs_of (step op s) ! i) (legs_of (fold step ops (step op s)) ! i))"
    using Cons.IH [OF step_admissible [OF a]] step_natives [OF a] step_length [OF a] by simp
  then show ?case using step_moves [OF a] by (auto intro: converse_rtranclp_into_rtranclp)
qed simp

lemma run_keeps:
  assumes "admissible s" "i < length (legs_of s)"
  shows "attempt_kept (natives s ! i) (legs_of s ! i) (legs_of (fold step ops s) ! i)"
  using run_moves [OF assms(1)] assms(2) by (blast intro: run_keeps_attempt)

end

end
