(* ===== verification/Settled_Lifecycle.thy ===== *)
theory Settled_Lifecycle
  imports Settled_Safety Settled_Protocol
begin

text \<open>
  The refinement of the abstract payout leg: every operation of the router moves every leg along its
  life.  \<open>distinct_legs\<close> says that SHA-256 does not collide on the recipients of the plan at hand, so
  that a leg identity names one leg.
\<close>

subsection \<open>The view of a leg\<close>

definition leg_view :: "CheckoutSparkSettledLegProgress \<Rightarrow> attempt_view" where
  "leg_view l = \<lparr>view_generation = getCheckoutSparkSettledLegGeneration l,
     view_attempt = map_option intent_transferId (leg_intent l), view_status = leg_status l,
     view_debit = finalDebitSats l\<rparr>"

lemma kept_view: "leg_kept l l' \<Longrightarrow> leg_view l' = leg_view l"
  by (auto simp: leg_kept_def leg_view_def same_attempt_def option_rel_Some2 elim!: option.rel_cases)

subsection \<open>Distinct legs\<close>

definition distinct_legs :: "CheckoutSparkSettledReconciliation \<Rightarrow> bool" where
  "distinct_legs s \<longleftrightarrow> distinct (map legId (recipients (state_plan s)))"

lemma find_by_id:
  assumes "distinct (map f xs)" "i < length xs"
  shows "find (\<lambda>x. f x = f (xs ! i)) xs = Some (xs ! i)"
proof -
  have "\<forall>j < i. f (xs ! j) \<noteq> f (xs ! i)"
    using assms by (auto simp: distinct_conv_nth)
  then show ?thesis using assms(2) unfolding find_Some_iff by blast
qed

lemma leg_index_Some: "leg_index ls x = Some i \<Longrightarrow> i < length ls \<and> leg_legId (ls ! i) = x"
  by (auto simp: leg_index_def find_Some_iff nth_enumerate_eq)

lemma sound_ids:
  assumes "state_sound s"
  shows "map leg_legId (legs s) = map legId (recipients (state_plan s))"
    "length (legs s) = length (recipients (state_plan s))"
proof -
  have a: "list_all2 (leg_sound (state_plan s)) (recipients (state_plan s)) (legs s)"
    using assms by (simp add: state_sound_def)
  show "length (legs s) = length (recipients (state_plan s))" using a by (simp add: list_all2_lengthD)
  then show "map leg_legId (legs s) = map legId (recipients (state_plan s))"
    using a by (intro nth_equalityI) (auto simp: list_all2_conv_all_nth leg_sound_def)
qed

lemma sound_leg:
  "state_sound s \<Longrightarrow> i < length (legs s) \<Longrightarrow> leg_sound (state_plan s) (recipients (state_plan s) ! i) (legs s ! i)"
  by (simp add: state_sound_def list_all2_conv_all_nth)

lemma native_leg_at:
  assumes "state_sound s" "distinct_legs s" "i < length (legs s)"
  shows "is_native_leg (state_plan s) (leg_legId (legs s ! i))
     \<longleftrightarrow> native_recipient (state_plan s) (recipients (state_plan s) ! i)"
proof -
  have "leg_legId (legs s ! i) = legId (recipients (state_plan s) ! i)"
    using sound_leg [OF assms(1,3)] by (simp add: leg_sound_def)
  moreover have "find_recipient (state_plan s) (legId (recipients (state_plan s) ! i)) = Some (recipients (state_plan s) ! i)"
    unfolding find_recipient_def using assms sound_ids(2) [OF assms(1)] by (intro find_by_id) (auto simp: distinct_legs_def)
  ultimately show ?thesis by (simp add: is_native_leg_def native_recipient_def)
qed

lemma same_leg_index:
  assumes "state_sound s" "distinct_legs s" "i < length (legs s)" "j < length (legs s)"
    "leg_legId (legs s ! i) = leg_legId (legs s ! j)"
  shows "i = j"
proof -
  have "distinct (map leg_legId (legs s))" using assms(1,2) sound_ids(1) by (simp add: distinct_legs_def)
  then show ?thesis using assms(3-5) by (simp add: distinct_conv_nth) (metis nth_map length_map)
qed

subsection \<open>The native treasury leg\<close>

definition finalization_sound :: "'p crypto_scheme \<Rightarrow> CheckoutSparkSettledReconciliation \<Rightarrow> CheckoutSparkNativeTreasuryFinalization \<Rightarrow> bool" where
  "finalization_sound env s fin \<longleftrightarrow>
     (case native_intent fin of
        None \<Rightarrow> fin = createCheckoutSparkNativeTreasuryFinalization
      | Some intent \<Rightarrow>
          (\<exists>budget. budgetFromExactState env s = Inr budget \<and> native_amountSats intent = authorizedDebitSats budget
             \<and> 0 < native_amountSats intent)
          \<and> native_status fin \<in> set (Prepared # observable_statuses)
          \<and> (if native_status fin = Paid
             then native_finalFeeSats fin = Some 0 \<and> native_finalDebitSats fin = Some (native_amountSats intent)
             else native_finalFeeSats fin = None \<and> native_finalDebitSats fin = None))"

lemma restore_finalization_Inr:
  assumes "restoreCheckoutSparkNativeTreasuryFinalization env stored s = Inr fin"
  shows "stored = Some fin \<and> finalization_sound env s fin"
proof -
  from assms obtain fin' where stored: "stored = Some fin'"
    by (auto simp: restoreCheckoutSparkNativeTreasuryFinalization_def split: option.split_asm)
  show ?thesis
  proof (cases "native_intent fin'")
    case None
    with assms stored have "fin' = createCheckoutSparkNativeTreasuryFinalization \<and> fin = fin'"
      by (cases fin') (auto simp: restoreCheckoutSparkNativeTreasuryFinalization_def
          createCheckoutSparkNativeTreasuryFinalization_def split: if_split_asm)
    with stored None show ?thesis by (simp add: finalization_sound_def)
  next
    case (Some intent)
    with assms stored obtain budget where budget: "budgetFromExactState env s = Inr budget"
      and rest: "(case (nativeTreasury (state_plan s), credit s, native_observedAt fin') of
                 (Some treasury, Some c, Some observed) \<Rightarrow>
                   if native_invoiceId intent \<noteq> treasury_invoiceId treasury
                      \<or> native_invoiceRequest intent \<noteq> treasury_invoiceRequest treasury
                      \<or> native_amountSats intent \<le> 0
                      \<or> native_amountSats intent \<noteq> authorizedDebitSats budget
                      \<or> CheckoutSparkNativeTreasuryBudget.truncate intent \<noteq> budget
                      \<or> \<not> (is_safe (native_preparedAt intent) \<and> native_preparedAt intent \<ge> 0)
                      \<or> native_preparedAt intent < fold max (intent_observations (legs s)) (credit_observedAt c)
                      \<or> \<not> (is_safe observed \<and> observed \<ge> 0) \<or> observed < native_preparedAt intent
                      \<or> native_status fin' \<notin> set (Prepared # observable_statuses)
                      \<or> (case providerTransferId fin' of None \<Rightarrow> False | Some t \<Rightarrow> \<not> treasury_id t MAX_ID_LENGTH)
                   then Inl treasury_refusal
                   else if native_status fin' = Paid
                   then (if providerTransferId fin' = None \<or> native_finalFeeSats fin' \<noteq> Some 0
                            \<or> native_finalDebitSats fin' \<noteq> Some (native_amountSats intent)
                         then Inl treasury_refusal else Inr fin')
                   else (if native_finalFeeSats fin' \<noteq> None \<or> native_finalDebitSats fin' \<noteq> None
                         then Inl treasury_refusal else Inr fin')
               | _ \<Rightarrow> Inl treasury_refusal) = Inr fin"
      unfolding restoreCheckoutSparkNativeTreasuryFinalization_def
      by (simp only: option.case) (elim bind_elim, blast)
    from rest have "fin = fin' \<and> native_amountSats intent = authorizedDebitSats budget \<and> 0 < native_amountSats intent
        \<and> native_status fin' \<in> set (Prepared # observable_statuses)
        \<and> (if native_status fin' = Paid
           then native_finalFeeSats fin' = Some 0 \<and> native_finalDebitSats fin' = Some (native_amountSats intent)
           else native_finalFeeSats fin' = None \<and> native_finalDebitSats fin' = None)"
      by (simp only: prod.case split: option.split_asm if_split_asm) simp_all
    with stored Some budget show ?thesis by (simp add: finalization_sound_def)
  qed
qed

lemma budget_cong:
  assumes "state_plan s = state_plan t" "credit s = credit t" "legs s = legs t"
  shows "budgetFromExactState env s = budgetFromExactState env t"
  unfolding budgetFromExactState_def assms ..

lemma finalization_sound_cong:
  "state_plan s = state_plan t \<Longrightarrow> credit s = credit t \<Longrightarrow> legs s = legs t \<Longrightarrow>
   finalization_sound env s fin \<Longrightarrow> finalization_sound env t fin"
  using budget_cong [of s t env] by (auto simp: finalization_sound_def split: option.splits)

lemma restore_native:
  assumes "restoreCheckoutSparkSettledReconciliation env s = Inr s'" "isCheckoutSparkNativeTreasuryPlan (state_plan s')"
  obtains fin where "treasuryFinalization s' = Some fin" "treasuryFinalization s = Some fin"
    "finalization_sound env s' fin" "native_mirror_ok (state_plan s') (legs s') fin"
  using assms(1)
proof (rule restore_steps)
  fix plan initial rows ls fin
  let ?t = "s\<lparr>state_plan := plan, credit := fst rows, legs := ls\<rparr>"
  assume v: "\<not> ((plan_schemaVersion plan = 4) \<noteq> (state_schemaVersion s = 5)
        \<or> (plan_schemaVersion plan = 5) \<noteq> (state_schemaVersion s = 6)
        \<or> (state_schemaVersion s \<noteq> 5 \<and> state_schemaVersion s \<noteq> 6 \<and> treasuryFinalization s \<noteq> None))"
    and fin: "(if state_schemaVersion s = 5 \<or> state_schemaVersion s = 6
      then bind_result (restoreCheckoutSparkNativeTreasuryFinalization env (treasuryFinalization s) ?t) (\<lambda>fin.
           if \<not> native_mirror_ok plan ls fin then Inl ''Checkout Spark native treasury mirror is invalid.''
           else Inr (Some fin))
      else Inr None) = Inr fin"
    and s': "\<lparr>state_schemaVersion = state_schemaVersion s, treasuryFinalization = fin, state_plan = plan, credit = fst rows,
      legs = ls, updatedAt = updatedAt s\<rparr> = s'"
  have "state_schemaVersion s = 5 \<or> state_schemaVersion s = 6"
    using v assms(2) s' by (auto simp: isCheckoutSparkNativeTreasuryPlan_def)
  with fin obtain f where f: "restoreCheckoutSparkNativeTreasuryFinalization env (treasuryFinalization s) ?t = Inr f"
      "native_mirror_ok plan ls f" "fin = Some f"
    by (auto simp: bind_result_Inr split: if_split_asm)
  from restore_finalization_Inr [OF f(1)] have "treasuryFinalization s = Some f" "finalization_sound env ?t f" by auto
  moreover have "finalization_sound env s' f"
    using finalization_sound_cong [OF _ _ _ calculation(2), of s'] s' by auto
  ultimately show thesis using f s' that [of f] by auto
qed

lemma one_index:
  assumes "length (filter P xs) = 1" "i < length xs" "j < length xs" "P (xs ! i)" "P (xs ! j)"
  shows "i = j"
proof -
  have "card {i. i < length xs \<and> P (xs ! i)} = 1" using assms(1) by (simp add: length_filter_conv_card)
  then obtain k where k: "{i. i < length xs \<and> P (xs ! i)} = {k}" by (auto simp: card_1_singleton_iff)
  have "i \<in> {i. i < length xs \<and> P (xs ! i)}" "j \<in> {i. i < length xs \<and> P (xs ! i)}" using assms by auto
  then show ?thesis unfolding k by simp
qed

lemma one_conduit:
  assumes "plan_sound plan"
  shows "length (filter (\<lambda>r. kind r = Conduit) (recipients plan)) = 1"
  using assms check_recipients_Inr(1) by (auto simp: plan_sound_def)

lemma recipient_of_leg:
  assumes "state_sound s" "distinct_legs s" "i < length (legs s)"
  shows "find_recipient (state_plan s) (leg_legId (legs s ! i)) = Some (recipients (state_plan s) ! i)"
proof -
  have "leg_legId (legs s ! i) = legId (recipients (state_plan s) ! i)"
    using sound_leg [OF assms(1,3)] by (simp add: leg_sound_def)
  then show ?thesis
    unfolding find_recipient_def using assms sound_ids(2) [OF assms(1)]
    by (simp only:) (rule find_by_id, auto simp: distinct_legs_def)
qed

lemma mirror_leg:
  assumes s: "state_sound s" "distinct_legs s" and i: "i < length (legs s)" "native_recipient (state_plan s) (recipients (state_plan s) ! i)"
    and m: "native_mirror_ok (state_plan s) (legs s) fin"
  shows "leg_status (legs s ! i) = native_status fin \<and> finalDebitSats (legs s ! i) = native_finalDebitSats fin
    \<and> finalFeeSats (legs s ! i) = native_finalFeeSats fin \<and> leg_observedAt (legs s ! i) = native_observedAt fin"
proof -
  let ?P = "\<lambda>leg. map_option kind (find_recipient (state_plan s) (leg_legId leg)) = Some Conduit"
  from m obtain leg where leg: "find ?P (legs s) = Some leg"
    and eq: "leg_status leg = native_status fin \<and> finalDebitSats leg = native_finalDebitSats fin
      \<and> finalFeeSats leg = native_finalFeeSats fin \<and> leg_observedAt leg = native_observedAt fin"
    by (auto simp: native_mirror_ok_def split: option.splits)
  from leg obtain j where j: "j < length (legs s)" "legs s ! j = leg" "?P leg" by (auto simp: find_Some_iff)
  then have "kind (recipients (state_plan s) ! j) = Conduit" using recipient_of_leg [OF s j(1)] by simp
  moreover have "plan_sound (state_plan s)" using s by (simp add: state_sound_def)
  ultimately have "j = i"
    using one_index [OF one_conduit] i j(1) sound_ids(2) [OF s(1)] by (auto simp: native_recipient_def)
  with j eq show ?thesis by auto
qed

subsection \<open>Restoring keeps the recipients\<close>

lemma freeze_kinds:
  assumes "freezeCheckoutSparkSettledPlanInternal env input allow treasury event = Inr plan"
  shows "map kind (recipients plan) = map kind (recipients input)"
  using assms
proof (rule freeze_steps)
  fix quote event' w g frozen rs m zap native digested
  assume tr: "traverse (freeze_recipient env (checkoutId input) (orderId input) event' (createdAt input))
       (enumerate 0 (recipients input)) = Inr rs"
    and plan: "(unsigned_plan input quote frozen rs zap native event')\<lparr>planDigest := settled_digest env digested\<rparr> = plan"
  have l: "length rs = length (recipients input)" using traverse_length [OF tr] by simp
  have "kind (rs ! i) = kind (recipients input ! i)" if i: "i < length rs" for i
  proof -
    have "freeze_recipient env (checkoutId input) (orderId input) event' (createdAt input) (i, recipients input ! i) = Inr (rs ! i)"
      using traverse_nth [OF tr, of i] i l by (simp add: nth_enumerate_eq)
    from freeze_recipient_Inr [OF this] show ?thesis by blast
  qed
  then have "map kind rs = map kind (recipients input)" using l by (intro nth_equalityI) simp_all
  then show ?thesis unfolding plan [symmetric] by (simp add: unsigned_plan_def plan_records)
qed

lemma restore_kinds:
  assumes "restoreCheckoutSparkSettledPlan env stored = Inr plan"
  shows "map kind (recipients plan) = map kind (recipients stored)"
proof -
  from assms obtain allow where "freezeCheckoutSparkSettledPlanInternal env (FreezeCheckoutSparkSettledPlanInput.truncate stored)
        allow (nativeTreasury stored) (eventMarket stored) = Inr plan"
    by (auto simp: restoreCheckoutSparkSettledPlan_def bind_result_Inr Let_def split: if_split_asm)
  from freeze_kinds [OF this] show ?thesis by (simp add: plan_records)
qed

lemma restore_native_recipients:
  assumes "restoreCheckoutSparkSettledPlan env stored = Inr plan"
  shows "map (native_recipient plan) (recipients plan) = map (native_recipient stored) (recipients stored)"
proof -
  have "isCheckoutSparkNativeTreasuryPlan stored \<longleftrightarrow> nativeTreasury stored \<noteq> None"
    using assms by (auto simp: restoreCheckoutSparkSettledPlan_def Let_def isCheckoutSparkNativeTreasuryPlan_def split: if_split_asm)
  then have "isCheckoutSparkNativeTreasuryPlan plan \<longleftrightarrow> isCheckoutSparkNativeTreasuryPlan stored"
    using restore_plan_Inr(2) [OF assms] by simp
  moreover have "map (\<lambda>k. isCheckoutSparkNativeTreasuryPlan stored \<and> k = Conduit) (map kind (recipients plan))
      = map (\<lambda>k. isCheckoutSparkNativeTreasuryPlan stored \<and> k = Conduit) (map kind (recipients stored))"
    by (simp only: restore_kinds [OF assms])
  ultimately show ?thesis by (simp add: o_def native_recipient_def [abs_def])
qed

subsection \<open>Operations move legs\<close>

definition legs_move :: "CheckoutSparkSettledReconciliation \<Rightarrow> CheckoutSparkSettledReconciliation \<Rightarrow> bool" where
  "legs_move s s' \<longleftrightarrow>
     length (legs s') = length (legs s) \<and> length (recipients (state_plan s')) = length (legs s)
     \<and> map leg_legId (legs s') = map leg_legId (legs s)
     \<and> planDigest (state_plan s') = planDigest (state_plan s)
     \<and> map legId (recipients (state_plan s')) = map legId (recipients (state_plan s))
     \<and> map (native_recipient (state_plan s')) (recipients (state_plan s'))
         = map (native_recipient (state_plan s)) (recipients (state_plan s))
     \<and> (\<forall>i < length (legs s). leg_moves (native_recipient (state_plan s') (recipients (state_plan s') ! i))
          (leg_view (legs s ! i)) (leg_view (legs s' ! i)))"

lemma restored_moves:
  assumes "restoreCheckoutSparkSettledReconciliation env s = Inr s'"
  shows "length (legs s') = length (legs s)" "map leg_legId (legs s') = map leg_legId (legs s)"
    "planDigest (state_plan s') = planDigest (state_plan s)"
    "\<And>i. i < length (legs s) \<Longrightarrow> leg_view (legs s' ! i) = leg_view (legs s ! i)"
    "map legId (recipients (state_plan s')) = map legId (recipients (state_plan s))"
    "map (native_recipient (state_plan s')) (recipients (state_plan s'))
       = map (native_recipient (state_plan s)) (recipients (state_plan s))"
    "length (recipients (state_plan s')) = length (legs s)"
proof -
  note r = restore_sound [OF assms]
  show l: "length (legs s') = length (legs s)" using r(2) by (simp add: list_all2_lengthD)
  show "leg_view (legs s' ! i) = leg_view (legs s ! i)" if "i < length (legs s)" for i
    using r(2) that by (intro kept_view) (simp add: list_all2_conv_all_nth)
  show "map leg_legId (legs s') = map leg_legId (legs s)"
    using r(2) l by (intro nth_equalityI) (auto simp: list_all2_conv_all_nth leg_kept_def)
  show "planDigest (state_plan s') = planDigest (state_plan s)" "map legId (recipients (state_plan s')) = map legId (recipients (state_plan s))"
    using restore_plan_Inr [OF r(5)] by auto
  show "map (native_recipient (state_plan s')) (recipients (state_plan s'))
       = map (native_recipient (state_plan s)) (recipients (state_plan s))"
    by (rule restore_native_recipients [OF r(5)])
  show "length (recipients (state_plan s')) = length (legs s)" using sound_ids(2) [OF r(1)] l by simp
qed

text \<open>After restoring, it is enough to move the restored legs.\<close>

lemma moves_after_restore:
  assumes c: "restoreCheckoutSparkSettledReconciliation env s = Inr current"
    and "length (legs s') = length (legs current)" "map leg_legId (legs s') = map leg_legId (legs current)"
    "state_plan s' = state_plan current"
    "\<And>i. i < length (legs current) \<Longrightarrow> leg_moves (native_recipient (state_plan current) (recipients (state_plan current) ! i))
          (leg_view (legs current ! i)) (leg_view (legs s' ! i))"
  shows "legs_move s s'"
  using assms restored_moves [OF c] by (simp add: legs_move_def)

lemma restore_legs_move:
  "restoreCheckoutSparkSettledReconciliation env s = Inr s' \<Longrightarrow> legs_move s s'"
  by (rule moves_after_restore) (auto intro: leg_moves.stays)

subsubsection \<open>The credit\<close>

text \<open>Before the credit no leg has moved, the native one included.\<close>

lemma uncredited_leg:
  assumes c: "restoreCheckoutSparkSettledReconciliation env s = Inr current" and d: "distinct_legs current"
    and n: "credit current = None" and i: "i < length (legs current)"
  shows "leg_view (legs current ! i) = \<lparr>view_generation = 0, view_attempt = None, view_status = Unprepared, view_debit = None\<rparr>"
proof -
  have s: "state_sound current" by (rule restore_sound [OF c])
  let ?l = "legs current ! i" and ?r = "recipients (state_plan current) ! i"
  have none: "leg_intent ?l = None" using s n i by (simp add: state_sound_def list_all_length)
  note leg = sound_leg [OF s i]
  have gen: "getCheckoutSparkSettledLegGeneration ?l = 0"
    using leg none by (auto simp: leg_sound_def archive_sound_def)
  show ?thesis
  proof (cases "native_recipient (state_plan current) ?r")
    case False
    then show ?thesis using leg none gen by (auto simp: leg_sound_def leg_view_def)
  next
    case True
    then obtain fin where fin: "finalization_sound env current fin" "native_mirror_ok (state_plan current) (legs current) fin"
      using restore_native [OF c] by (auto simp: native_recipient_def)
    have "budgetFromExactState env current = Inl treasury_refusal"
      using n by (simp add: budgetFromExactState_def Let_def)
    with fin(1) have "fin = createCheckoutSparkNativeTreasuryFinalization"
      by (auto simp: finalization_sound_def split: option.splits)
    with mirror_leg [OF s d i True fin(2)] none gen show ?thesis
      by (simp add: leg_view_def createCheckoutSparkNativeTreasuryFinalization_def)
  qed
qed

lemma credit_moves:
  assumes r: "recordCheckoutSparkSettledCredit env s e = Inr s'" and d: "distinct_legs s"
  shows "legs_move s s'"
proof -
  obtain current c where c: "restoreCheckoutSparkSettledReconciliation env s = Inr current"
    and s': "s' = current \<or> (credit current = None \<and> (\<exists>ls. allocatedLegs (state_plan current) (creditedSats c) = Inr ls
          \<and> s' = current\<lparr>credit := Some c, legs := ls, updatedAt := max (updatedAt current) (credit_observedAt c)\<rparr>))"
    using r unfolding recordCheckoutSparkSettledCredit_def
    by (elim bind_elim) (auto simp: bind_result_Inr split: option.split_asm if_split_asm)
  have dc: "distinct_legs current" using d restored_moves(5) [OF c] by (simp add: distinct_legs_def)
  have sound: "state_sound current" by (rule restore_sound [OF c])
  show ?thesis
  proof (cases "s' = current")
    case True
    then show ?thesis using restore_legs_move [OF c] by simp
  next
    case False
    with s' obtain ls where n: "credit current = None" and ls: "allocatedLegs (state_plan current) (creditedSats c) = Inr ls"
      and eq: "s' = current\<lparr>credit := Some c, legs := ls, updatedAt := max (updatedAt current) (credit_observedAt c)\<rparr>" by auto
    obtain v cw where fresh: "map (\<lambda>r. fresh_leg (state_plan current) r (recipient_allocation (state_plan current) v cw r))
        (recipients (state_plan current)) = ls"
      using ls by (auto simp: allocatedLegs_def bind_result_Inr)
    note len = sound_ids [OF sound]
    show ?thesis
    proof (rule moves_after_restore [OF c])
      fix i assume i: "i < length (legs current)"
      have "leg_view (ls ! i) = \<lparr>view_generation = 0, view_attempt = None, view_status = Unprepared, view_debit = None\<rparr>"
        using i len(2) by (simp add: fresh [symmetric] leg_view_def fresh_leg_def getCheckoutSparkSettledLegGeneration_def)
      with uncredited_leg [OF c dc n i]
      show "leg_moves (native_recipient (state_plan current) (recipients (state_plan current) ! i))
          (leg_view (legs current ! i)) (leg_view (legs s' ! i))"
        by (simp add: eq leg_moves.stays)
    qed (use len in \<open>simp_all add: eq fresh [symmetric] fresh_leg_def o_def\<close>)
  qed
qed

subsubsection \<open>One leg changes\<close>

text \<open>An operation that replaces the leg at one index, and the moves of the others are none.\<close>

lemma one_leg_moves:
  assumes c: "restoreCheckoutSparkSettledReconciliation env s = Inr current"
    and index: "index < length (legs current)"
    and s': "legs s' = (legs current)[index := l]" "state_plan s' = state_plan current"
    and l: "leg_legId l = leg_legId (legs current ! index)"
      "leg_moves (native_recipient (state_plan current) (recipients (state_plan current) ! index))
         (leg_view (legs current ! index)) (leg_view l)"
  shows "legs_move s s'"
proof (rule moves_after_restore [OF c _ _ s'(2)])
  show "map leg_legId (legs s') = map leg_legId (legs current)"
    using index l(1) by (simp add: s' map_update)
      (metis length_map list_update_id nth_map)
  fix i assume "i < length (legs current)"
  then show "leg_moves (native_recipient (state_plan current) (recipients (state_plan current) ! i))
      (leg_view (legs current ! i)) (leg_view (legs s' ! i))"
    using l(2) by (cases "i = index") (simp_all add: s' leg_moves.stays)
qed (simp add: s')

lemma prepare_moves:
  assumes r: "prepareCheckoutSparkSettledLeg env s input = Inr s'" and d: "distinct_legs s"
  shows "legs_move s s'"
proof -
  from r obtain current cr index intent where c: "restoreCheckoutSparkSettledReconciliation env s = Inr current"
    and nat: "\<not> is_native_leg (state_plan current) (intent_legId input)"
    and index: "leg_index (legs current) (intent_legId input) = Some index"
    and st: "store_intent current cr index intent = Inr s'"
    by (auto simp: prepareCheckoutSparkSettledLeg_def bind_result_Inr Let_def split: option.split_asm if_split_asm)
  have s': "s' = current \<or> (leg_intent (legs current ! index) = None
        \<and> s' = current\<lparr>legs := (legs current)[index := (legs current ! index)\<lparr>leg_intent := Some intent, leg_status := Prepared,
                          leg_observedAt := Some (preparedAt intent)\<rparr>],
               updatedAt := max (updatedAt current) (preparedAt intent)\<rparr>)"
    using st by (auto simp: store_intent_def Let_def split: option.split_asm if_split_asm)
  have dc: "distinct_legs current" using d restored_moves(5) [OF c] by (simp add: distinct_legs_def)
  have sound: "state_sound current" by (rule restore_sound [OF c])
  note i = leg_index_Some [OF index]
  have native: "\<not> native_recipient (state_plan current) (recipients (state_plan current) ! index)"
    using nat native_leg_at [OF sound dc, of index] i by simp
  show ?thesis
  proof (cases "s' = current")
    case True
    then show ?thesis using restore_legs_move [OF c] by simp
  next
    case False
    with s' have none: "leg_intent (legs current ! index) = None"
      and eq: "s' = current\<lparr>legs := (legs current)[index := (legs current ! index)\<lparr>leg_intent := Some intent, leg_status := Prepared,
                          leg_observedAt := Some (preparedAt intent)\<rparr>],
               updatedAt := max (updatedAt current) (preparedAt intent)\<rparr>" by auto
    have "leg_view (legs current ! index) = \<lparr>view_generation = 0, view_attempt = None, view_status = Unprepared, view_debit = None\<rparr>"
      using sound_leg [OF sound, of index] i native none by (auto simp: leg_sound_def leg_view_def archive_sound_def)
    then show ?thesis
      using i native none leg_moves.prepares [of False "intent_transferId intent"]
      by (intro one_leg_moves [OF c, of index]) (auto simp: eq leg_view_def getCheckoutSparkSettledLegGeneration_def)
  qed
qed

lemma status_moves:
  assumes r: "recordCheckoutSparkSettledLegStatus env s e = Inr s'"
  shows "legs_move s s'"
proof -
  obtain current index intent amounts observed where c: "restoreCheckoutSparkSettledReconciliation env s = Inr current"
    and index: "leg_index (legs current) (evidence_legId e) = Some index"
    and intent: "leg_intent (legs current ! index) = Some intent"
    and obs: "\<not> (evidence_transferId e \<noteq> intent_transferId intent \<or> evidence_paymentHash e \<noteq> intent_paymentHash intent
        \<or> evidence_status e \<notin> set observable_statuses)"
    and g: "\<not> (leg_status (legs current ! index) = Paid \<and> evidence_status e \<noteq> Paid)"
      "\<not> (leg_status (legs current ! index) = TerminalFailure \<and> evidence_status e \<noteq> TerminalFailure \<and> evidence_status e \<noteq> Paid)"
      "\<not> (leg_status (legs current ! index) \<noteq> Prepared \<and> evidence_status e = Submitted
          \<and> leg_status (legs current ! index) \<noteq> Submitted)"
    and a: "evidence_amounts e intent (or_else (allocationSats (legs current ! index)) 0) = Inr amounts"
    and res: "(if leg_status (legs current ! index) = evidence_status e \<and> finalFeeSats (legs current ! index) = fst amounts
            \<and> finalDebitSats (legs current ! index) = snd amounts then Inr current
        else Inr (current\<lparr>legs := (legs current)[index := (legs current ! index)\<lparr>leg_status := evidence_status e,
                  leg_observedAt := Some observed, finalFeeSats := fst amounts, finalDebitSats := snd amounts\<rparr>],
               updatedAt := max (updatedAt current) observed\<rparr>)) = (Inr s' :: CheckoutSparkSettledReconciliation result)"
    using r unfolding recordCheckoutSparkSettledLegStatus_def Let_def case_prod_unfold
    by (elim step_elims) (rule that, assumption+)
  obtain fee debit where amounts: "amounts = (fee, debit)" by (cases amounts)
  have s': "s' = current \<or> s' = current\<lparr>legs := (legs current)[index := (legs current ! index)\<lparr>leg_status := evidence_status e,
                  leg_observedAt := Some observed, finalFeeSats := fee, finalDebitSats := debit\<rparr>],
               updatedAt := max (updatedAt current) observed\<rparr>"
    using res by (auto simp: amounts split: if_split_asm)
  have sound: "state_sound current" by (rule restore_sound [OF c])
  note i = leg_index_Some [OF index]
  have native: "\<not> native_recipient (state_plan current) (recipients (state_plan current) ! index)"
    using sound_leg [OF sound, of index] i intent by (auto simp: leg_sound_def)
  have debit: "evidence_status e = Paid \<longleftrightarrow> debit \<noteq> None"
    using a by (auto simp: amounts evidence_amounts_def bind_result_Inr split: if_split_asm option.split_asm)
  show ?thesis
  proof (cases "s' = current")
    case True
    then show ?thesis using restore_legs_move [OF c] by simp
  next
    case False
    with s' have eq: "s' = current\<lparr>legs := (legs current)[index := (legs current ! index)\<lparr>leg_status := evidence_status e,
                  leg_observedAt := Some observed, finalFeeSats := fee, finalDebitSats := debit\<rparr>],
               updatedAt := max (updatedAt current) observed\<rparr>" by auto
    have "may_follow (leg_status (legs current ! index)) (evidence_status e)"
      using obs g by (auto simp: may_follow_def)
    from leg_moves.observes [of False, OF _ this debit] show ?thesis
      using i native intent
      by (intro one_leg_moves [OF c, of index]) (auto simp: eq leg_view_def getCheckoutSparkSettledLegGeneration_def)
  qed
qed

subsubsection \<open>A second restoration\<close>

text \<open>The renewal and the native treasury restore the state they build.\<close>

lemma moves_between_restores:
  assumes c: "restoreCheckoutSparkSettledReconciliation env s = Inr current"
    and m: "restoreCheckoutSparkSettledReconciliation env mid = Inr s'"
    and ids: "map leg_legId (legs mid) = map leg_legId (legs current)" "state_plan mid = state_plan current"
    and moves: "\<And>i. i < length (legs current) \<Longrightarrow>
        leg_moves (native_recipient (state_plan s') (recipients (state_plan s') ! i))
          (leg_view (legs current ! i)) (leg_view (legs mid ! i))"
  shows "legs_move s s'"
proof -
  have "length (legs mid) = length (legs current)" using ids(1) by (metis length_map)
  then show ?thesis using restored_moves [OF c] restored_moves [OF m] ids moves by (simp add: legs_move_def)
qed

lemma renew_steps:
  assumes "renewCheckoutSparkSettledLeg env s target input handle now = Inr s'"
  obtains current cr leg recipient old allocation c intent where
    "restoreCheckoutSparkSettledReconciliation env s = Inr current"
    "credit current = Some cr" "find (\<lambda>l. leg_legId l = target) (legs current) = Some leg"
    "find_recipient (state_plan current) target = Some recipient"
    "leg_intent leg = Some old" "allocationSats leg = Some allocation"
    "\<not> (leg_status leg = Paid \<or> getCheckoutSparkSettledLegGeneration leg \<noteq> 0
        \<or> \<not> is_safe now \<or> now < takeoverAt (state_plan current) \<or> now < updatedAt current
        \<or> preparedAt input \<noteq> now
        \<or> (case checkoutSparkProviderSendWindowEndsAt env (intent_paymentRequest old) of
             None \<Rightarrow> True | Some e \<Rightarrow> e > now))"
    "assertCheckoutSparkSettledReturnedProof env handle (state_plan current)
       \<lparr>target_generation = None, target_walletId = walletId (state_plan current), target_network = network (state_plan current),
        target_legId = leg_legId leg, target_recipientId = recipientId recipient, target_allocationSats = allocation,
        unpaidAllocationSats = sum_list (map (\<lambda>l. if leg_status l = Paid then 0 else or_else (allocationSats l) 0) (legs current)),
        target_intent = old\<rparr> now = Inr c"
    "\<not> closure_observedAt c < or_else (leg_observedAt leg) (preparedAt old)"
    "normalizeIntent env (state_plan current) leg input 1 = Inr intent"
    "restoreCheckoutSparkSettledReconciliation env (current\<lparr>
       state_schemaVersion := (if plan_schemaVersion (state_plan current) = 5 then 6
                               else if plan_schemaVersion (state_plan current) = 4 then 5 else 4),
       legs := map (\<lambda>l. if leg_legId l = target
           then l\<lparr>generation := Some 1, closedGenerations := Some [\<lparr>closed_generation = 0, closed_intent = old,
                    closed_status = leg_status leg, closed_observedAt = or_else (leg_observedAt leg) 0,
                    closed_finalFeeSats = None, closed_finalDebitSats = None, closure = c\<rparr>],
                  leg_intent := Some intent, leg_status := Prepared, leg_observedAt := Some (preparedAt intent),
                  finalFeeSats := None, finalDebitSats := None\<rparr>
           else l\<lparr>generation := Some (getCheckoutSparkSettledLegGeneration l),
                  closedGenerations := Some (closed_generations l)\<rparr>) (legs current),
       updatedAt := now\<rparr>) = Inr s'"
  using assms unfolding renewCheckoutSparkSettledLeg_def Let_def prod.case
  apply (elim step_elims)
  apply (rule that, assumption+)
  done

lemma renew_moves:
  assumes r: "renewCheckoutSparkSettledLeg env s target input handle now = Inr s'" and d: "distinct_legs s"
  shows "legs_move s s'"
  using r
proof (rule renew_steps)
  fix current :: CheckoutSparkSettledReconciliation and leg :: CheckoutSparkSettledLegProgress
    and old intent :: CheckoutSparkSettledLegIntent and c :: CheckoutSparkSettledReturnClosure
  let ?archived = "\<lparr>closed_generation = 0, closed_intent = old, closed_status = leg_status leg,
      closed_observedAt = or_else (leg_observedAt leg) 0, closed_finalFeeSats = None, closed_finalDebitSats = None, closure = c\<rparr>"
  let ?renewed = "\<lambda>l. if leg_legId l = target
           then l\<lparr>generation := Some 1, closedGenerations := Some [?archived],
                  leg_intent := Some intent, leg_status := Prepared, leg_observedAt := Some (preparedAt intent),
                  finalFeeSats := None, finalDebitSats := None\<rparr>
           else l\<lparr>generation := Some (getCheckoutSparkSettledLegGeneration l),
                  closedGenerations := Some (closed_generations l)\<rparr>"
  let ?mid = "current\<lparr>state_schemaVersion := (if plan_schemaVersion (state_plan current) = 5 then 6
                               else if plan_schemaVersion (state_plan current) = 4 then 5 else 4),
       legs := map ?renewed (legs current), updatedAt := now\<rparr>"
  assume c: "restoreCheckoutSparkSettledReconciliation env s = Inr current"
    and leg: "find (\<lambda>l. leg_legId l = target) (legs current) = Some leg" "leg_intent leg = Some old"
    and guard: "\<not> (leg_status leg = Paid \<or> getCheckoutSparkSettledLegGeneration leg \<noteq> 0
        \<or> \<not> is_safe now \<or> now < takeoverAt (state_plan current) \<or> now < updatedAt current
        \<or> preparedAt input \<noteq> now
        \<or> (case checkoutSparkProviderSendWindowEndsAt env (intent_paymentRequest old) of
             None \<Rightarrow> True | Some e \<Rightarrow> e > now))"
    and m: "restoreCheckoutSparkSettledReconciliation env ?mid = Inr s'"
  have sound: "state_sound current" by (rule restore_sound [OF c])
  have dc: "distinct_legs current" using d restored_moves(5) [OF c] by (simp add: distinct_legs_def)
  obtain j where j: "j < length (legs current)" "legs current ! j = leg" "leg_legId leg = target"
    using leg(1) by (auto simp: find_Some_iff)
  have old_view: "leg_view leg = \<lparr>view_generation = 0, view_attempt = Some (intent_transferId old),
      view_status = leg_status leg, view_debit = None\<rparr>"
    using sound_leg [OF sound j(1)] j(2) leg(2) guard
    by (auto simp: leg_sound_def leg_view_def amounts_sound_def split: if_split_asm)
  show ?thesis
  proof (rule moves_between_restores [OF c m])
    show "map leg_legId (legs ?mid) = map leg_legId (legs current)" by simp
    fix i assume i: "i < length (legs current)"
    show "leg_moves (native_recipient (state_plan s') (recipients (state_plan s') ! i))
          (leg_view (legs current ! i)) (leg_view (legs ?mid ! i))"
    proof (cases "leg_legId (legs current ! i) = target")
      case True
      then have "i = j" using same_leg_index [OF sound dc i j(1)] j by simp
      have i': "i < length (legs s')" using i restored_moves(1) [OF m] by simp
      have "leg_intent (legs s' ! i) \<noteq> None"
        using restored_moves(4) [OF m, of i] i True by (auto simp: leg_view_def)
      then have "\<not> native_recipient (state_plan s') (recipients (state_plan s') ! i)"
        using sound_leg [OF restore_sound(1) [OF m] i'] by (auto simp: leg_sound_def)
      then show ?thesis
        using leg_moves.renews [of False "leg_status leg" "intent_transferId old" "intent_transferId intent"] guard
        using True \<open>i = j\<close> j i old_view leg(2)
        by (simp add: leg_view_def getCheckoutSparkSettledLegGeneration_def)
    next
      case False
      then show ?thesis using i by (simp add: leg_view_def getCheckoutSparkSettledLegGeneration_def leg_moves.stays)
    qed
  qed simp
qed

subsubsection \<open>The native treasury\<close>

lemma restored_native:
  assumes "restoreCheckoutSparkSettledReconciliation env s = Inr s'" "i < length (recipients (state_plan s'))"
  shows "native_recipient (state_plan s') (recipients (state_plan s') ! i)
    \<longleftrightarrow> native_recipient (state_plan s) (recipients (state_plan s) ! i)"
  using restored_moves(6) [OF assms(1)] assms(2) by (metis length_map nth_map)

lemma restore_treasury:
  assumes "restoreCheckoutSparkSettledReconciliation env s = Inr s'"
  shows "(treasuryFinalization s' \<noteq> None \<longleftrightarrow> isCheckoutSparkNativeTreasuryPlan (state_plan s'))
    \<and> (treasuryFinalization s \<noteq> None \<longrightarrow> isCheckoutSparkNativeTreasuryPlan (state_plan s'))"
  using assms
proof (rule restore_steps)
  fix plan initial rows ls fin
  assume v: "\<not> ((plan_schemaVersion plan = 4) \<noteq> (state_schemaVersion s = 5)
        \<or> (plan_schemaVersion plan = 5) \<noteq> (state_schemaVersion s = 6)
        \<or> (state_schemaVersion s \<noteq> 5 \<and> state_schemaVersion s \<noteq> 6 \<and> treasuryFinalization s \<noteq> None))"
    and fin: "(if state_schemaVersion s = 5 \<or> state_schemaVersion s = 6
      then bind_result (restoreCheckoutSparkNativeTreasuryFinalization env (treasuryFinalization s)
               (s\<lparr>state_plan := plan, credit := fst rows, legs := ls\<rparr>)) (\<lambda>fin.
           if \<not> native_mirror_ok plan ls fin then Inl ''Checkout Spark native treasury mirror is invalid.''
           else Inr (Some fin))
      else Inr None) = Inr fin"
    and s': "\<lparr>state_schemaVersion = state_schemaVersion s, treasuryFinalization = fin, state_plan = plan, credit = fst rows,
      legs = ls, updatedAt = updatedAt s\<rparr> = s'"
  have f: "fin \<noteq> None \<longleftrightarrow> state_schemaVersion s = 5 \<or> state_schemaVersion s = 6"
    using fin by (auto simp: bind_result_Inr split: if_split_asm)
  have "treasuryFinalization s' = fin" "state_plan s' = plan" unfolding s' [symmetric] by simp_all
  with f v show ?thesis by (auto simp: isCheckoutSparkNativeTreasuryPlan_def)
qed

text \<open>Mirroring a finalization moves the native leg alone.\<close>

lemma mirror_moves:
  assumes c: "restoreCheckoutSparkSettledReconciliation env s = Inr current" and d: "distinct_legs s"
    and previous: "treasuryFinalization current = Some previous"
    and m: "treasury_mirror env current fin = Inr s'"
    and mono: "native_status previous = Paid \<Longrightarrow>
        native_status fin = Paid \<and> native_finalDebitSats fin = native_finalDebitSats previous"
  shows "legs_move s s'"
proof -
  have sound: "state_sound current" by (rule restore_sound [OF c])
  have dc: "distinct_legs current" using d restored_moves(5) [OF c] by (simp add: distinct_legs_def)
  obtain fee where fee: "conduit_recipient (state_plan current) = Some fee"
    and r: "restoreCheckoutSparkSettledReconciliation env (current\<lparr>treasuryFinalization := Some fin,
            legs := map (\<lambda>leg. if leg_legId leg = legId fee
                then leg\<lparr>leg_status := native_status fin, leg_observedAt := native_observedAt fin,
                         finalFeeSats := native_finalFeeSats fin, finalDebitSats := native_finalDebitSats fin\<rparr>
                else leg) (legs current),
            updatedAt := max (updatedAt current) (or_else (native_observedAt fin) (updatedAt current))\<rparr>) = Inr s'"
      (is "restoreCheckoutSparkSettledReconciliation env ?mid = _")
    using m by (auto simp: treasury_mirror_def split: option.split_asm)
  have native: "isCheckoutSparkNativeTreasuryPlan (state_plan current)" "isCheckoutSparkNativeTreasuryPlan (state_plan s')"
    using restore_treasury [OF c] restore_treasury [OF r] previous by auto
  obtain fin0 where "treasuryFinalization current = Some fin0" "native_mirror_ok (state_plan current) (legs current) fin0"
    by (rule restore_native [OF c native(1)])
  then have mirror: "native_mirror_ok (state_plan current) (legs current) previous" using previous by simp
  obtain j where j: "j < length (recipients (state_plan current))" "recipients (state_plan current) ! j = fee" "kind fee = Conduit"
    using fee by (auto simp: conduit_recipient_def find_Some_iff)
  then have jl: "j < length (legs current)" and jn: "native_recipient (state_plan current) (recipients (state_plan current) ! j)"
    using sound_ids(2) [OF sound] native by (simp_all add: native_recipient_def)
  have jid: "leg_legId (legs current ! j) = legId fee" using sound_leg [OF sound jl] j(2) by (simp add: leg_sound_def)
  have old: "leg_view (legs current ! j) = \<lparr>view_generation = 0, view_attempt = None,
      view_status = native_status previous, view_debit = native_finalDebitSats previous\<rparr>"
    using sound_leg [OF sound jl] mirror_leg [OF sound dc jl jn mirror] jn
    by (auto simp: leg_sound_def leg_view_def archive_sound_def)
  show ?thesis
  proof (rule moves_between_restores [OF c r])
    fix i assume i: "i < length (legs current)"
    show "leg_moves (native_recipient (state_plan s') (recipients (state_plan s') ! i))
          (leg_view (legs current ! i)) (leg_view (legs ?mid ! i))"
    proof (cases "leg_legId (legs current ! i) = legId fee")
      case True
      then have "i = j" using same_leg_index [OF sound dc i jl] jid by simp
      then have n: "native_recipient (state_plan s') (recipients (state_plan s') ! i)"
        using restored_native [OF r, of i] jn jl restored_moves(1) [OF r] sound_ids(2) [OF restore_sound(1) [OF r]] by simp
      from leg_moves.collects [OF this, of "native_status previous" "native_status fin" "native_finalDebitSats fin"
          "native_finalDebitSats previous"] old mono True i \<open>i = j\<close>
      show ?thesis by (simp add: leg_view_def getCheckoutSparkSettledLegGeneration_def)
    next
      case False
      then show ?thesis using i by (simp add: leg_moves.stays)
    qed
  qed simp_all
qed

lemma treasury_steps:
  assumes "prepareCheckoutSparkNativeTreasury env restorer s settlement now = Inr s'"
  obtains current budget fin treasury where
    "restoreCheckoutSparkSettledReconciliation env s = Inr current"
    "deriveCheckoutSparkNativeTreasuryBudget env restorer current settlement = Inr budget"
    "authorizedDebitSats budget \<noteq> 0"
    "treasuryFinalization current = Some fin" "nativeTreasury (state_plan current) = Some treasury"
    "(if native_intent fin \<noteq> None then Inr current
      else treasury_mirror env current (createCheckoutSparkNativeTreasuryFinalization
           \<lparr>native_status := Prepared, native_observedAt := Some now,
            native_intent := Some (CheckoutSparkNativeTreasuryBudget.extend budget
              \<lparr>native_invoiceId = treasury_invoiceId treasury, native_invoiceRequest = treasury_invoiceRequest treasury,
               native_amountSats = authorizedDebitSats budget, native_preparedAt = now\<rparr>)\<rparr>)) = Inr s'"
  using assms unfolding prepareCheckoutSparkNativeTreasury_def Let_def prod.case
  by (elim step_elims) (rule that, assumption+)

lemma treasury_moves:
  assumes r: "prepareCheckoutSparkNativeTreasury env restorer s settlement now = Inr s'" and d: "distinct_legs s"
  shows "legs_move s s'"
  using r
proof (rule treasury_steps)
  fix current :: CheckoutSparkSettledReconciliation and fin and budget :: CheckoutSparkNativeTreasuryBudget and treasury
  let ?prepared = "createCheckoutSparkNativeTreasuryFinalization
           \<lparr>native_status := Prepared, native_observedAt := Some now,
            native_intent := Some (CheckoutSparkNativeTreasuryBudget.extend budget
              \<lparr>native_invoiceId = treasury_invoiceId treasury, native_invoiceRequest = treasury_invoiceRequest treasury,
               native_amountSats = authorizedDebitSats budget, native_preparedAt = now\<rparr>)\<rparr>"
  assume c: "restoreCheckoutSparkSettledReconciliation env s = Inr current"
    and fin: "treasuryFinalization current = Some fin"
    and res: "(if native_intent fin \<noteq> None then Inr current else treasury_mirror env current ?prepared) = Inr s'"
  show ?thesis
  proof (cases "native_intent fin")
    case (Some i)
    then show ?thesis using res restore_legs_move [OF c] by simp
  next
    case None
    have "isCheckoutSparkNativeTreasuryPlan (state_plan current)" using restore_treasury [OF c] fin by auto
    then obtain fin' where "treasuryFinalization current = Some fin'" "finalization_sound env current fin'"
      by (rule restore_native [OF c])
    then have "fin = createCheckoutSparkNativeTreasuryFinalization" using fin None by (simp add: finalization_sound_def)
    moreover have "treasury_mirror env current ?prepared = Inr s'" using res None by simp
    ultimately show ?thesis
      using mirror_moves [OF c d fin, of ?prepared s'] by (simp add: createCheckoutSparkNativeTreasuryFinalization_def)
  qed
qed

lemma treasury_status_moves:
  assumes r: "recordCheckoutSparkNativeTreasuryStatus env s e = Inr s'" and d: "distinct_legs s"
  shows "legs_move s s'"
proof -
  let ?next = "\<lambda>previous. previous\<lparr>native_status := nev_status e,
                     providerTransferId := (if nev_providerTransferId e = None
                                            then providerTransferId previous else nev_providerTransferId e),
                     native_observedAt := Some (nev_observedAt e),
                     native_finalFeeSats := nev_finalFeeSats e,
                     native_finalDebitSats := nev_finalDebitSats e\<rparr>"
  obtain current previous where c: "restoreCheckoutSparkSettledReconciliation env s = Inr current"
    and previous: "treasuryFinalization current = Some previous"
    and mono: "\<not> (native_status previous = Paid
                    \<and> (native_status (?next previous) \<noteq> Paid \<or> native_finalFeeSats (?next previous) \<noteq> native_finalFeeSats previous
                       \<or> native_finalDebitSats (?next previous) \<noteq> native_finalDebitSats previous))"
    and m: "treasury_mirror env current (?next previous) = Inr s'"
    using r unfolding recordCheckoutSparkNativeTreasuryStatus_def Let_def
    by (elim step_elims) (rule that, assumption+)
  show ?thesis using mono by (intro mirror_moves [OF c d previous m]) auto
qed

text \<open>An operation that restores its input first and hands it on.\<close>

lemma moves_through:
  assumes c: "restoreCheckoutSparkSettledReconciliation env s = Inr current" and m: "legs_move current s'"
  shows "legs_move s s'"
  using m restored_moves [OF c] by (simp add: legs_move_def)

lemma reference_moves:
  assumes r: "recordCheckoutSparkNativeTreasurySubmittedReference env s transfer now = Inr s'" and d: "distinct_legs s"
  shows "legs_move s s'"
proof -
  obtain current e where c: "restoreCheckoutSparkSettledReconciliation env s = Inr current"
    and m: "recordCheckoutSparkNativeTreasuryStatus env current e = Inr s'"
    using r unfolding recordCheckoutSparkNativeTreasurySubmittedReference_def Let_def
    by (elim step_elims) (rule that, assumption+)
  have "distinct_legs current" using d restored_moves(5) [OF c] by (simp add: distinct_legs_def)
  then show ?thesis using moves_through [OF c] treasury_status_moves [OF m] by blast
qed

subsection \<open>Runs\<close>

text \<open>The operations of the router as data, and their execution.\<close>

datatype router_operation =
  Reload
| Credit CheckoutSparkSettledCreditEvidence
| Prepare CheckoutSparkSettledLegIntent
| Renew js_string CheckoutSparkSettledLegIntent "returned_proof option" int
| Observe CheckoutSparkSettledLegEvidence
| PrepareNative CheckoutSparkMerchantSettlementRecord int
| ObserveNative CheckoutSparkNativeTreasuryEvidence
| ReferNative js_string int

fun run_operation ::
    "'p settled_ports_scheme \<Rightarrow> settlement_restorer \<Rightarrow> CheckoutSparkSettledReconciliation \<Rightarrow> router_operation
     \<Rightarrow> CheckoutSparkSettledReconciliation result" where
  "run_operation env restorer s Reload = restoreCheckoutSparkSettledReconciliation env s"
| "run_operation env restorer s (Credit e) = recordCheckoutSparkSettledCredit env s e"
| "run_operation env restorer s (Prepare i) = prepareCheckoutSparkSettledLeg env s i"
| "run_operation env restorer s (Renew leg i handle now) = renewCheckoutSparkSettledLeg env s leg i handle now"
| "run_operation env restorer s (Observe e) = recordCheckoutSparkSettledLegStatus env s e"
| "run_operation env restorer s (PrepareNative settlement now) = prepareCheckoutSparkNativeTreasury env restorer s settlement now"
| "run_operation env restorer s (ObserveNative e) = recordCheckoutSparkNativeTreasuryStatus env s e"
| "run_operation env restorer s (ReferNative transfer now) =
     recordCheckoutSparkNativeTreasurySubmittedReference env s transfer now"

definition natives :: "CheckoutSparkSettledReconciliation \<Rightarrow> bool list" where
  "natives s = map (native_recipient (state_plan s)) (recipients (state_plan s))"

text \<open>A refused operation leaves the stored state as it is.\<close>

definition attempt_operation ::
    "'p settled_ports_scheme \<Rightarrow> settlement_restorer \<Rightarrow> router_operation \<Rightarrow> CheckoutSparkSettledReconciliation
     \<Rightarrow> CheckoutSparkSettledReconciliation" where
  "attempt_operation env restorer op s = (case run_operation env restorer s op of Inl e \<Rightarrow> s | Inr s' \<Rightarrow> s')"

lemma operation_moves:
  assumes "run_operation env restorer s op = Inr s'" "distinct_legs s"
  shows "legs_move s s'"
  using assms
  by (cases op) (auto intro: restore_legs_move credit_moves prepare_moves renew_moves status_moves treasury_moves
      treasury_status_moves reference_moves)

lemma attempt_moves:
  assumes "distinct_legs s"
  shows "length (legs (attempt_operation env restorer op s)) = length (legs s)"
    "map leg_legId (legs (attempt_operation env restorer op s)) = map leg_legId (legs s)"
    "planDigest (state_plan (attempt_operation env restorer op s)) = planDigest (state_plan s)"
    "distinct_legs (attempt_operation env restorer op s)"
    "natives (attempt_operation env restorer op s) = natives s"
    "i < length (legs s) \<Longrightarrow> leg_moves (natives s ! i) (leg_view (legs s ! i))
       (leg_view (legs (attempt_operation env restorer op s) ! i))"
proof -
  let ?s' = "attempt_operation env restorer op s"
  have m: "?s' = s \<or> legs_move s ?s'"
    using operation_moves [OF _ assms, of env restorer op] by (simp add: attempt_operation_def split: sum.split)
  show n: "natives ?s' = natives s" using m by (auto simp: legs_move_def natives_def)
  show "length (legs ?s') = length (legs s)" "map leg_legId (legs ?s') = map leg_legId (legs s)"
    "planDigest (state_plan ?s') = planDigest (state_plan s)" "distinct_legs ?s'"
    using m assms by (auto simp: legs_move_def distinct_legs_def)
  assume i: "i < length (legs s)"
  from m show "leg_moves (natives s ! i) (leg_view (legs s ! i)) (leg_view (legs ?s' ! i))"
  proof
    assume move: "legs_move s ?s'"
    then have "i < length (recipients (state_plan ?s'))" using i by (simp add: legs_move_def)
    then have "natives ?s' ! i = native_recipient (state_plan ?s') (recipients (state_plan ?s') ! i)"
      by (simp add: natives_def)
    then show ?thesis using move i n by (simp add: legs_move_def)
  qed (simp add: leg_moves.stays)
qed

interpretation router: leg_runs "attempt_operation env restorer" "\<lambda>s. map leg_view (legs s)" natives distinct_legs
  for env restorer
proof unfold_locales
  fix s :: CheckoutSparkSettledReconciliation and i op
  assume d: "distinct_legs s" "i < length (map leg_view (legs s))"
  then show "leg_moves (natives s ! i) (map leg_view (legs s) ! i)
      (map leg_view (legs (attempt_operation env restorer op s)) ! i)"
    using attempt_moves(1) [OF d(1), of env restorer op] attempt_moves(6) [OF d(1)] by simp
qed (simp_all add: attempt_moves)

end
