(* ===== verification/Settled_Checkout.thy ===== *)
theory Settled_Checkout
  imports Settled_Lifecycle
begin

text \<open>
  What the settled router guarantees of a checkout: its payouts follow the abstract leg, a credit is
  divided without loss and never overspent, a renewal replaces only an attempt that came back, the
  native collection empties the credit, and a frozen plan is restored as it was stored.
\<close>

subsection \<open>Draining the credit\<close>

lemma budget_Inr:
  assumes "budgetFromExactState env s = Inr budget"
  obtains c fee where "credit s = Some c" "conduit_recipient (state_plan s) = Some fee"
    "list_all commerce_leg_settled (filter (\<lambda>l. leg_legId l \<noteq> legId fee) (legs s))"
    "authorizedDebitSats budget = creditedSats c
       - sum_list (map (\<lambda>l. or_else (finalDebitSats l) 0) (filter (\<lambda>l. leg_legId l \<noteq> legId fee) (legs s)))"
  using assms unfolding budgetFromExactState_def Let_def prod.case
  by (elim step_elims) auto

lemma settled_leg_debit: "commerce_leg_settled l \<Longrightarrow> leg_debit l = or_else (finalDebitSats l) 0"
proof -
  assume "commerce_leg_settled l"
  then have "\<forall>g \<in> set (closed_generations l). netDebitSats (closure g) = 0"
    by (simp add: commerce_leg_settled_def list_all_iff)
  then show ?thesis using sum_list_const [of "closed_generations l" "\<lambda>g. netDebitSats (closure g)" 0] by (simp add: leg_debit_def)
qed

lemma filter_one: "distinct (map f xs) \<Longrightarrow> x \<in> set xs \<Longrightarrow> filter (\<lambda>y. f y = f x) xs = [x]"
  by (induction xs) (auto simp: filter_empty_conv image_iff)

text \<open>Once the native collection is paid, the debits of all legs together are the credit.\<close>

lemma drained:
  assumes r: "restoreCheckoutSparkSettledReconciliation env s = Inr s'" and d: "distinct_legs s"
    and fin: "treasuryFinalization s' = Some fin" and paid: "native_status fin = Paid"
  shows "\<exists>c. credit s' = Some c \<and> total_debit (legs s') = creditedSats c"
proof -
  have sound: "state_sound s'" by (rule restore_sound [OF r])
  have ds: "distinct_legs s'" using d restored_moves(5) [OF r] by (simp add: distinct_legs_def)
  have native: "isCheckoutSparkNativeTreasuryPlan (state_plan s')" using restore_treasury [OF r] fin by auto
  then obtain fin' where f: "treasuryFinalization s' = Some fin'" "finalization_sound env s' fin'"
      "native_mirror_ok (state_plan s') (legs s') fin'"
    by (rule restore_native [OF r])
  then obtain budget where b: "budgetFromExactState env s' = Inr budget"
      "native_finalDebitSats fin = Some (authorizedDebitSats budget)"
    using fin paid by (auto simp: finalization_sound_def createCheckoutSparkNativeTreasuryFinalization_def split: option.splits)
  obtain c fee where c: "credit s' = Some c" and fee: "conduit_recipient (state_plan s') = Some fee"
    and settled: "list_all commerce_leg_settled (filter (\<lambda>l. leg_legId l \<noteq> legId fee) (legs s'))"
    and authorized: "authorizedDebitSats budget = creditedSats c
       - sum_list (map (\<lambda>l. or_else (finalDebitSats l) 0) (filter (\<lambda>l. leg_legId l \<noteq> legId fee) (legs s')))"
    by (rule budget_Inr [OF b(1)])
  obtain j where j: "j < length (legs s')" "recipients (state_plan s') ! j = fee" "kind fee = Conduit"
    using fee sound_ids(2) [OF sound] by (auto simp: conduit_recipient_def find_Some_iff)
  have n: "native_recipient (state_plan s') (recipients (state_plan s') ! j)" using j native by (simp add: native_recipient_def)
  have id: "leg_legId (legs s' ! j) = legId fee" using sound_leg [OF sound j(1)] j(2) by (simp add: leg_sound_def)
  have "leg_debit (legs s' ! j) = authorizedDebitSats budget"
    using mirror_leg [OF sound ds j(1) n f(3)] sound_leg [OF sound j(1)] n f(1) fin b(2) by (simp add: leg_debit_def leg_sound_def)
  moreover have "filter (\<lambda>l. leg_legId l = legId fee) (legs s') = [legs s' ! j]"
    using filter_one [of leg_legId "legs s'" "legs s' ! j"] ds sound_ids(1) [OF sound] j(1) id by (simp add: distinct_legs_def)
  moreover have "sum_list (map leg_debit (filter (\<lambda>l. leg_legId l \<noteq> legId fee) (legs s')))
      = sum_list (map (\<lambda>l. or_else (finalDebitSats l) 0) (filter (\<lambda>l. leg_legId l \<noteq> legId fee) (legs s')))"
    using settled settled_leg_debit by (intro arg_cong [where f = sum_list] map_cong [OF refl]) (auto simp: list_all_iff)
  ultimately have "total_debit (legs s') = creditedSats c"
    using sum_filter_split [of leg_debit "legs s'" "\<lambda>l. leg_legId l = legId fee"] authorized by (simp add: total_debit_def)
  with c show ?thesis by simp
qed

subsection \<open>Renewing an attempt\<close>

definition unpaid_allocation :: "CheckoutSparkSettledLegProgress list \<Rightarrow> int" where
  "unpaid_allocation ls = sum_list (map (\<lambda>l. if leg_status l = Paid then 0 else or_else (allocationSats l) 0) ls)"

lemma returned_proof_Inr:
  assumes "assertCheckoutSparkSettledReturnedProof env handle plan target now = Inr c"
  shows "\<exists>p. handle = Some p \<and> proof_closure p = c \<and> unpaidAllocationSats target \<le> proof_availableSats p
    \<and> closure_observedAt c \<le> now \<and> now \<le> closure_observedAt c + PROOF_LIFETIME_MS
    \<and> restoreCheckoutSparkSettledReturnClosure env c plan (target_intent target) = Inr c"
proof -
  obtain p where p: "handle = Some p"
    "\<not> (proof_allocationSats p \<noteq> target_allocationSats target
            \<or> proof_availableSats p < unpaidAllocationSats target
            \<or> \<not> valid_amount now \<or> closure_observedAt (proof_closure p) > now
            \<or> now - closure_observedAt (proof_closure p) > PROOF_LIFETIME_MS)"
    "restoreCheckoutSparkSettledReturnClosure env (proof_closure p) plan (target_intent target) = Inr c"
    using assms unfolding assertCheckoutSparkSettledReturnedProof_def
    by (elim step_elims) (rule that, assumption+)
  have "c = proof_closure p" using restore_closure_Inr [OF p(3)] by simp
  then show ?thesis using p by auto
qed

lemma same_debit:
  assumes "leg_view l = leg_view l'" "map closure (closed_generations l) = map closure (closed_generations l')"
  shows "leg_debit l = leg_debit l'"
proof -
  have "map netDebitSats (map closure (closed_generations l)) = map netDebitSats (map closure (closed_generations l'))"
    by (simp only: assms(2))
  then show ?thesis using assms(1) by (simp add: leg_debit_def leg_view_def o_def)
qed

text \<open>The evidence on which an attempt is renewed, and the state after it.\<close>

definition renewable ::
    "'p crypto_scheme \<Rightarrow> CheckoutSparkSettledReconciliation \<Rightarrow> CheckoutSparkSettledLegProgress
     \<Rightarrow> CheckoutSparkSettledLegIntent \<Rightarrow> returned_proof option \<Rightarrow> CheckoutSparkSettledReturnClosure \<Rightarrow> int \<Rightarrow> bool" where
  "renewable env s l old handle c now \<longleftrightarrow>
     leg_intent l = Some old \<and> leg_status l \<noteq> Paid \<and> getCheckoutSparkSettledLegGeneration l = 0
     \<and> takeoverAt (state_plan s) \<le> now
     \<and> (\<exists>e \<le> now. checkoutSparkProviderSendWindowEndsAt env (intent_paymentRequest old) = Some e)
     \<and> (\<exists>p. handle = Some p \<and> proof_closure p = c \<and> unpaid_allocation (legs s) \<le> proof_availableSats p)
     \<and> closure_transferId c = intent_transferId old
     \<and> invoiceAmountSats old \<le> closure_debitedSats c \<and> closure_returnedSats c = closure_debitedSats c
     \<and> closure_observedAt c \<le> now \<and> now \<le> closure_observedAt c + PROOF_LIFETIME_MS"

definition renewed ::
    "CheckoutSparkSettledLegIntent \<Rightarrow> CheckoutSparkSettledReturnClosure \<Rightarrow> CheckoutSparkSettledLegProgress \<Rightarrow> bool" where
  "renewed old c l \<longleftrightarrow>
     leg_status l = Prepared \<and> getCheckoutSparkSettledLegGeneration l = 1 \<and> finalDebitSats l = None
     \<and> map closure (closed_generations l) = [c]
     \<and> (\<exists>new. leg_intent l = Some new \<and> intent_paymentHash new \<noteq> intent_paymentHash old)"

lemma renewal_result:
  assumes r: "renewCheckoutSparkSettledLeg env s target input handle now = Inr s'" and d: "distinct_legs s"
  shows "\<exists>current i old c. restoreCheckoutSparkSettledReconciliation env s = Inr current
     \<and> i < length (legs current) \<and> leg_legId (legs current ! i) = target
     \<and> renewable env current (legs current ! i) old handle c now \<and> renewed old c (legs s' ! i)
     \<and> (\<forall>j < length (legs current). j \<noteq> i \<longrightarrow> leg_view (legs s' ! j) = leg_view (legs current ! j))
     \<and> total_debit (legs s') = total_debit (legs current)"
  using r
proof (rule renew_steps)
  fix current :: CheckoutSparkSettledReconciliation and leg :: CheckoutSparkSettledLegProgress
    and old intent :: CheckoutSparkSettledLegIntent and c :: CheckoutSparkSettledReturnClosure
    and recipient :: CheckoutSparkSettledRecipient and allocation
  let ?archived = "\<lparr>closed_generation = 0, closed_intent = old, closed_status = leg_status leg,
      closed_observedAt = or_else (leg_observedAt leg) 0, closed_finalFeeSats = None, closed_finalDebitSats = None, closure = c\<rparr>"
  let ?renewed = "\<lambda>l. if leg_legId l = target
           then l\<lparr>generation := Some 1, closedGenerations := Some [?archived],
                  leg_intent := Some intent, leg_status := Prepared, leg_observedAt := Some (preparedAt intent),
                  finalFeeSats := None, finalDebitSats := None\<rparr>
           else l\<lparr>generation := Some (getCheckoutSparkSettledLegGeneration l),
                  closedGenerations := Some (closed_generations l)\<rparr>"
  let ?mid = "current\<lparr>state_schemaVersion := (if plan_schemaVersion (state_plan current) = 5 then 6
                               else if plan_schemaVersion (state_plan current) = 4 then 5 else 4),
       legs := map ?renewed (legs current), updatedAt := now\<rparr>"
  assume res: "restoreCheckoutSparkSettledReconciliation env s = Inr current"
    and leg: "find (\<lambda>l. leg_legId l = target) (legs current) = Some leg" "leg_intent leg = Some old"
    and guard: "\<not> (leg_status leg = Paid \<or> getCheckoutSparkSettledLegGeneration leg \<noteq> 0
        \<or> \<not> is_safe now \<or> now < takeoverAt (state_plan current) \<or> now < updatedAt current
        \<or> preparedAt input \<noteq> now
        \<or> (case checkoutSparkProviderSendWindowEndsAt env (intent_paymentRequest old) of
             None \<Rightarrow> True | Some e \<Rightarrow> e > now))"
    and pf: "assertCheckoutSparkSettledReturnedProof env handle (state_plan current)
       \<lparr>target_generation = None, target_walletId = walletId (state_plan current), target_network = network (state_plan current),
        target_legId = leg_legId leg, target_recipientId = recipientId recipient, target_allocationSats = allocation,
        unpaidAllocationSats = sum_list (map (\<lambda>l. if leg_status l = Paid then 0 else or_else (allocationSats l) 0) (legs current)),
        target_intent = old\<rparr> now = Inr c"
    and m: "restoreCheckoutSparkSettledReconciliation env ?mid = Inr s'"
  have sound: "state_sound current" by (rule restore_sound [OF res])
  have dc: "distinct_legs current" using d restored_moves(5) [OF res] by (simp add: distinct_legs_def)
  obtain i where i: "i < length (legs current)" "legs current ! i = leg" "leg_legId leg = target"
    using leg(1) by (auto simp: find_Some_iff)
  have other: "leg_legId (legs current ! j) \<noteq> target" if "j < length (legs current)" "j \<noteq> i" for j
    using same_leg_index [OF sound dc that(1) i(1)] that(2) i by auto
  note p = returned_proof_Inr [OF pf]
  have evidence: "renewable env current (legs current ! i) old handle c now"
    using p guard leg(2) i(2) by (auto simp: renewable_def unpaid_allocation_def dest: restore_closure_Inr split: option.splits)
  have view: "leg_view (legs s' ! j) = leg_view (?renewed (legs current ! j))" if "j < length (legs current)" for j
    using restored_moves(4) [OF m, of j] that by (simp split: if_split)
  have kept: "leg_kept (?renewed (legs current ! j)) (legs s' ! j)" if "j < length (legs current)" for j
    using list_all2_nthD [OF restore_sound(2) [OF m], of j] that by simp
  have l': "length (legs s') = length (legs current)" using restored_moves(1) [OF m] by simp
  have new: "renewed old c (legs s' ! i)"
  proof -
    have k: "leg_kept (?renewed leg) (legs s' ! i)" using kept [OF i(1)] by (simp only: i(2))
    obtain new where n: "leg_intent (legs s' ! i) = Some new" using k i(3) by (auto simp: leg_kept_def option_rel_Some2)
    obtain g where g: "closed_generations (legs s' ! i) = [g]" "same_attempt (closed_intent g) old"
      using k i(3) by (auto simp: leg_kept_def closed_generations_def)
    have "i < length (legs s')" using i(1) l' by simp
    from sound_leg [OF restore_sound(1) [OF m] this] n g(1)
    have "archive_sound (state_plan s') (legs s' ! i) g" by (auto simp: leg_sound_def)
    then have "intent_paymentHash new \<noteq> intent_paymentHash old" using n g(2) by (simp add: archive_sound_def same_attempt_def)
    with n k i(3) show ?thesis
      by (simp add: renewed_def leg_kept_def closed_generations_def getCheckoutSparkSettledLegGeneration_def)
  qed
  have rest: "leg_view (legs s' ! j) = leg_view (legs current ! j)" if "j < length (legs current)" "j \<noteq> i" for j
    using view [OF that(1)] other [OF that] by (simp add: leg_view_def getCheckoutSparkSettledLegGeneration_def)
  have "leg_debit (legs s' ! j) = leg_debit (legs current ! j)" if j: "j < length (legs current)" for j
  proof (cases "j = i")
    case True
    have "netDebitSats c = 0" using p by (blast dest: restore_closure_Inr)
    moreover have "closed_generations leg = []" "finalDebitSats leg = None"
      using sound_leg [OF sound i(1)] i(2) leg(2) guard
      by (auto simp: leg_sound_def amounts_sound_def split: if_split_asm)
    moreover have "finalDebitSats (legs s' ! i) = None" "map closure (closed_generations (legs s' ! i)) = [c]"
      using new by (simp_all add: renewed_def)
    moreover from this(2) obtain g where "closed_generations (legs s' ! i) = [g]" "closure g = c" by auto
    ultimately show ?thesis using True i(2) by (simp add: leg_debit_def)
  next
    case False
    have "map closure (closed_generations (legs s' ! j)) = map closure (closed_generations (legs current ! j))"
      using kept [OF j] other [OF j False] by (simp add: leg_kept_def closed_generations_def)
    with rest [OF j False] show ?thesis by (rule same_debit)
  qed
  then have "total_debit (legs s') = total_debit (legs current)"
    using l' by (intro arg_cong [where f = sum_list] nth_equalityI | simp add: total_debit_def)+
  with res i evidence new rest show ?thesis by blast
qed

end
