(* ===== verification/Settled_Roundtrip.thy ===== *)
theory Settled_Roundtrip
  imports Settled_Safety
begin

text \<open>
  Freezing is idempotent: the terms of a frozen plan freeze to the plan itself, so a plan read back
  from storage is restored unchanged.  The validators of the other modules are assumed idempotent,
  which is how their callers use them; the invoice of the plan must be free of a second
  \<open>lightning:\<close> prefix, which \<open>normalizeInvoice\<close> would strip only now.
\<close>

subsection \<open>Validators accept what they returned\<close>

lemma settled_ok:
  "v \<noteq> [] \<Longrightarrow> length v \<le> n \<Longrightarrow> js_trim v = v \<Longrightarrow> settled_text v l n = Inr v"
  "is_hex64 v \<Longrightarrow> settled_hex v l = Inr v"
  "is_compressed_pubkey v \<Longrightarrow> compressedPublicKey v l = Inr v"
  "is_safe i \<Longrightarrow> 0 \<le> i \<Longrightarrow> z \<or> i \<noteq> 0 \<Longrightarrow> settled_sats i l z = Inr i"
  "is_safe i \<Longrightarrow> 0 \<le> i \<Longrightarrow> settled_time i l = Inr i"
  by (simp_all add: settled_text_def settled_hex_def compressedPublicKey_def settled_sats_def settled_time_def)

lemma char_lower_lower: "char_lower (char_lower c) = char_lower c"
  by (auto simp: char_lower_def char_code_def Let_def)

lemma lower_lower: "toLowerCase (toLowerCase s) = toLowerCase s"
  by (simp add: toLowerCase_def char_lower_lower)

lemma normalizeInvoice_again:
  assumes "normalizeInvoice env request hash amount net at_ms = Inr n"
    and "normalizeLightningInvoice (normal_paymentRequest n) = normal_paymentRequest n"
  shows "normalizeInvoice env (normal_paymentRequest n) (normal_paymentHash n) amount net at_ms = Inr n"
proof -
  let ?r = "toLowerCase (normalizeLightningInvoice request)"
  have r: "normal_paymentRequest n = ?r" and h: "normal_paymentHash n = hash" and h': "is_hex64 hash"
    and t: "?r \<noteq> []" "length ?r \<le> MAX_REQUEST_LENGTH" "js_trim ?r = ?r"
    using assms(1) by (auto simp: normalizeInvoice_def bind_result_Inr settled_checks Let_def split: if_split_asm option.splits)
  have "toLowerCase (normalizeLightningInvoice ?r) = ?r" using assms(2) r by (simp add: lower_lower)
  with assms(1) show ?thesis unfolding normalizeInvoice_def r h by simp
qed

lemma normalize_source_same:
  "normalize_source event created rid c = Inr source \<Longrightarrow> source = destination_source (destination c)"
  by (auto simp: normalize_source_def Let_def bind_result_Inr settled_checks
      split: if_split_asm CheckoutSparkSettledDestinationSource.split_asm option.split_asm)

lemma normalize_source_cong:
  assumes "kind r = kind c" "weightSats r = weightSats c" "destination_value (destination r) = destination_value (destination c)"
    "destination_source (destination r) = destination_source (destination c)"
  shows "normalize_source event created rid r = normalize_source event created rid c"
  unfolding normalize_source_def assms ..

lemma freeze_recipient_again:
  assumes "freeze_recipient env checkout order event created (i, c) = Inr r"
  shows "freeze_recipient env checkout order event created (i, r) = Inr r"
proof -
  obtain source where k: "kind c \<in> {Merchant, Supplier, Organizer, Conduit}" "destination_type (destination c) = ''lightning_address''"
    and t: "settled_text (recipientId c) ''Recipient id'' MAX_ID_LENGTH = Inr (recipientId c)"
      "settled_text (destination_value (destination c)) ''Recipient destination'' MAX_ID_LENGTH = Inr (destination_value (destination c))"
      "settled_sats (weightSats c) ''Recipient weight'' False = Inr (weightSats c)"
    and s: "normalize_source event created (recipientId c) c = Inr source"
    and r: "r = \<lparr>kind = kind c, recipientId = recipientId c, destination = \<lparr>destination_type = ''lightning_address'',
               destination_value = destination_value (destination c), destination_source = source\<rparr>,
               weightSats = weightSats c, position = i,
               legId = settled_digest env (JArray
                 [JString ''conduit:checkout-spark-settled-leg:v3'', JString checkout, JString order,
                  JInt (int i), JString (kind_name (kind c)), JString (recipientId c),
                  JString ''lightning_address'', JString (destination_value (destination c)),
                  destinationSourceDigestValue source, JInt (weightSats c)])\<rparr>"
    using assms unfolding freeze_recipient_def prod.case
    by (auto simp: bind_result_Inr Let_def settled_checks split: if_split_asm)
  have "normalize_source event created (recipientId r) r = normalize_source event created (recipientId c) c"
    using normalize_source_same [OF s] normalize_source_cong [of r c event created] by (simp add: r)
  with s have "normalize_source event created (recipientId r) r = Inr source" by simp
  then show ?thesis using k t unfolding freeze_recipient_def prod.case by (simp add: r Let_def)
qed

lemma freeze_recipients_again:
  assumes "traverse (freeze_recipient env checkout order event created) (enumerate 0 cs) = Inr rs"
  shows "traverse (freeze_recipient env checkout order event created) (enumerate 0 rs) = Inr rs"
proof -
  have l: "length rs = length cs" using traverse_length [OF assms] by simp
  have "freeze_recipient env checkout order event created (i, rs ! i) = Inr (rs ! i)" if "i < length cs" for i
    using traverse_nth [OF assms, of i] that by (intro freeze_recipient_again) (simp add: nth_enumerate_eq)
  then show ?thesis using l by (simp add: traverse_Inr list_all2_conv_all_nth nth_enumerate_eq)
qed

lemma freeze_funding_again:
  assumes "freeze_funding env input created gross = Inr f"
    and "normalizeLightningInvoice (funding_paymentRequest f) = funding_paymentRequest f"
    and "funding input' = f" "network input' = network input"
  shows "freeze_funding env input' created gross = Inr f" "grossFundingSats f = gross"
proof -
  let ?g = "funding input"
  obtain n where n: "normalizeInvoice env (funding_paymentRequest ?g) (funding_paymentHash ?g) gross (network input) created = Inr n"
    and c: "settled_text (funding_requestId ?g) ''Funding request id'' MAX_ID_LENGTH = Inr (funding_requestId ?g)"
      "compressedPublicKey (funding_receiverIdentityPublicKey ?g) ''Funding receiver identity'' = Inr (funding_receiverIdentityPublicKey ?g)"
      "settled_time (funding_createdAt ?g) ''Funding creation time'' = Inr (funding_createdAt ?g)"
      "settled_time (funding_expiresAt ?g) ''Funding expiry time'' = Inr (funding_expiresAt ?g)"
      "\<not> (funding_createdAt ?g \<noteq> created \<or> funding_expiresAt ?g \<noteq> normal_expiresAt n \<or> funding_expiresAt ?g \<le> created)"
    and f: "f = \<lparr>funding_requestId = funding_requestId ?g, funding_paymentRequest = normal_paymentRequest n,
                   funding_paymentHash = normal_paymentHash n,
                   funding_receiverIdentityPublicKey = funding_receiverIdentityPublicKey ?g, grossFundingSats = gross,
                   funding_createdAt = funding_createdAt ?g, funding_expiresAt = funding_expiresAt ?g\<rparr>"
    using assms(1) by (auto simp: freeze_funding_def Let_def bind_result_Inr settled_checks split: if_split_asm)
  show "grossFundingSats f = gross" by (simp add: f)
  have "normalizeInvoice env (normal_paymentRequest n) (normal_paymentHash n) gross (network input) created = Inr n"
    by (rule normalizeInvoice_again [OF n]) (use assms(2) in \<open>simp add: f\<close>)
  then show "freeze_funding env input' created gross = Inr f"
    using c unfolding freeze_funding_def assms(3,4) Let_def by (simp add: f)
qed

subsection \<open>Freezing again\<close>

text \<open>The validators of the other modules accept what they returned.\<close>

definition ports_idempotent :: "'p settled_ports_scheme \<Rightarrow> bool" where
  "ports_idempotent env \<longleftrightarrow>
     (\<forall>q m b q'. freezeCheckoutSparkCommerceQuote env q m b = Inr q' \<longrightarrow> freezeCheckoutSparkCommerceQuote env q' m b = Inr q')
     \<and> (\<forall>e m q t e'. freezeCheckoutSparkEventMarketBinding env e m q t = Inr e' \<longrightarrow>
          freezeCheckoutSparkEventMarketBinding env e' m q t = Inr e')"

lemma freeze_again:
  assumes f: "freezeCheckoutSparkSettledPlanInternal env input False treasury event = Inr plan"
    and ports: "ports_idempotent env"
    and zap: "merchantPublicZapPolicy input = None"
    and normal: "normalizeLightningInvoice (funding_paymentRequest (funding plan)) = funding_paymentRequest (funding plan)"
  shows "freezeCheckoutSparkSettledPlanInternal env (FreezeCheckoutSparkSettledPlanInput.truncate plan) allow
      (nativeTreasury plan) (eventMarket plan) = Inr plan \<and> merchantPublicZapPolicy plan = None"
  using f
proof (rule freeze_steps)
  fix quote event' w g frozen rs m zap' native digested
  assume n: "\<not> (network input \<noteq> ''mainnet'' \<and> network input \<noteq> ''regtest'')" "\<not> takeoverAt input \<le> createdAt input"
    and q: "freezeCheckoutSparkCommerceQuote env (commerceQuote input) (merchantPubkey input) (event \<noteq> None) = Inr quote"
    and e: "(case event of None \<Rightarrow> Inr None
      | Some b \<Rightarrow> bind_result (freezeCheckoutSparkEventMarketBinding env b (merchantPubkey input) quote (createdAt input))
                 (\<lambda>e. Inr (Some e))) = Inr event'"
    and et: "\<not> (event' \<noteq> None \<and> treasury = None)"
    and w: "plan_weights quote event' (conduitFeePolicy input) = Inr w"
    and g: "plan_gross quote event' (conduitFeePolicy input) = Inr g"
      "\<not> (grossFundingSats (funding input) \<noteq> g
        \<and> (\<not> False \<or> conduitFeePolicy input \<noteq> None \<or> grossFundingSats (funding input) \<noteq> fst w + snd w))"
    and ff: "freeze_funding env input (createdAt input) (grossFundingSats (funding input)) = Inr frozen"
    and two: "\<not> length (recipients input) < 2"
    and tr: "traverse (freeze_recipient env (checkoutId input) (orderId input) event' (createdAt input))
       (enumerate 0 (recipients input)) = Inr rs"
    and c: "check_recipients (merchantPubkey input) quote event' (fst w) (snd w) rs = Inr m"
    and z: "(case merchantPublicZapPolicy input of None \<Rightarrow> Inr None
      | Some p \<Rightarrow> bind_result (freezeCheckoutSparkMerchantPublicZapPolicy env p) (\<lambda>z. Inr (Some z))) = Inr zap'"
    and nat: "(case treasury of None \<Rightarrow> Inr None
      | Some t \<Rightarrow> bind_result (restoreCheckoutSparkNativeTreasuryPlan env t
            (FreezeCheckoutSparkSettledPlanInput.make (checkoutId input) (orderId input) (merchantPubkey input) (walletId input)
              (network input) (createdAt input) (takeoverAt input) quote frozen rs zap' (conduitFeePolicy input)))
          (\<lambda>n. Inr (Some n))) = Inr native"
    and v: "canonicalPlanValue env (unsigned_plan input quote frozen rs zap' native event') = Inr digested"
    and plan: "(unsigned_plan input quote frozen rs zap' native event')\<lparr>planDigest := settled_digest env digested\<rparr> = plan"
    and texts: "is_hex64 (merchantPubkey input)" "checkoutId input \<noteq> []" "orderId input \<noteq> []" "walletId input \<noteq> []"
      "is_safe (createdAt input)" "0 \<le> createdAt input" "is_safe (takeoverAt input)" "0 \<le> takeoverAt input"
      "is_safe (grossFundingSats (funding input))"
      "length (checkoutId input) \<le> MAX_ID_LENGTH" "js_trim (checkoutId input) = checkoutId input"
      "length (orderId input) \<le> MAX_ID_LENGTH" "js_trim (orderId input) = orderId input"
      "length (walletId input) \<le> MAX_ID_LENGTH" "js_trim (walletId input) = walletId input"
      "0 \<le> grossFundingSats (funding input)" "False \<or> grossFundingSats (funding input) \<noteq> 0"
  let ?again = "FreezeCheckoutSparkSettledPlanInput.truncate plan"
  have z': "zap' = None" using z zap by simp
  have again: "?again = FreezeCheckoutSparkSettledPlanInput.make (checkoutId input) (orderId input) (merchantPubkey input)
      (walletId input) (network input) (createdAt input) (takeoverAt input) quote frozen rs None (conduitFeePolicy input)"
    and opts: "nativeTreasury plan = native" "eventMarket plan = event'" "funding plan = frozen"
    unfolding plan [symmetric] by (simp_all add: unsigned_plan_def plan_records z')
  have fields: "checkoutId ?again = checkoutId input" "orderId ?again = orderId input" "merchantPubkey ?again = merchantPubkey input"
      "walletId ?again = walletId input" "network ?again = network input" "createdAt ?again = createdAt input"
      "takeoverAt ?again = takeoverAt input" "commerceQuote ?again = quote" "funding ?again = frozen" "recipients ?again = rs"
      "merchantPublicZapPolicy ?again = None" "conduitFeePolicy ?again = conduitFeePolicy input"
    unfolding again by (simp_all add: plan_records)
  have ev: "event' \<noteq> None \<longleftrightarrow> event \<noteq> None" using e by (auto simp: bind_result_Inr split: option.split_asm)
  have nv: "native = treasury" using nat
    by (auto simp: bind_result_Inr restoreCheckoutSparkNativeTreasuryPlan_def split: option.split_asm if_split_asm)
  have q': "freezeCheckoutSparkCommerceQuote env quote (merchantPubkey input) (event' \<noteq> None) = Inr quote"
    using ports q unfolding ev ports_idempotent_def by blast
  have e': "(case event' of None \<Rightarrow> Inr None
      | Some b \<Rightarrow> bind_result (freezeCheckoutSparkEventMarketBinding env b (merchantPubkey input) quote (createdAt input))
                 (\<lambda>e. Inr (Some e))) = (Inr event' :: CheckoutSparkEventMarketBinding option result)"
    using e ports unfolding ports_idempotent_def by (cases event) (auto simp: bind_result_Inr)
  note ff' = freeze_funding_again [OF ff normal [unfolded opts(3)] fields(9,5)]
  have l: "length rs = length (recipients input)" using traverse_length [OF tr] by simp
  note tr' = freeze_recipients_again [OF tr]
  have u: "unsigned_plan ?again quote frozen rs None native event' = unsigned_plan input quote frozen rs zap' native event'"
    by (simp add: unsigned_plan_def fields z')
  have "freezeCheckoutSparkSettledPlanInternal env ?again allow native event'
      = Inr ((unsigned_plan input quote frozen rs zap' native event')\<lparr>planDigest := settled_digest env digested\<rparr>)"
    using texts n q' e' w g et ff' two l tr' c v nat
    unfolding freezeCheckoutSparkSettledPlanInternal_def fields Let_def unsigned_plan_def z' nv case_prod_unfold
    by (simp add: settled_ok)
  moreover have "merchantPublicZapPolicy plan = None"
    unfolding plan [symmetric] by (simp add: unsigned_plan_def plan_records z')
  ultimately show ?thesis by (simp add: plan opts)
qed

text \<open>The three ways the program freezes a new plan.\<close>

definition frozen_plan ::
    "'p settled_ports_scheme \<Rightarrow> CheckoutSparkSettledRecipientInput FreezeCheckoutSparkSettledPlanInput
     \<Rightarrow> CheckoutSparkSettledPlan \<Rightarrow> bool" where
  "frozen_plan env input plan \<longleftrightarrow>
     freezeCheckoutSparkSettledPlan env input = Inr plan
     \<or> (\<exists>t. freezeCheckoutSparkSettledTreasuryPlan env input t = Inr plan)
     \<or> (\<exists>t e. freezeCheckoutSparkSettledEventPlan env input t e = Inr plan)"

lemma frozen_plan_internal:
  assumes "frozen_plan env input plan"
  obtains treasury event where
    "freezeCheckoutSparkSettledPlanInternal env input False treasury event = Inr plan"
    "merchantPublicZapPolicy input = None"
  using assms unfolding frozen_plan_def freezeCheckoutSparkSettledPlan_def freezeCheckoutSparkSettledTreasuryPlan_def
    freezeCheckoutSparkSettledEventPlan_def
  by (elim disjE exE bind_elim) (auto simp: assertPrivateCheckoutSparkSettledPlanInput_def split: if_split_asm)

lemma frozen_restores:
  assumes "frozen_plan env input plan" "ports_idempotent env"
    and normal: "normalizeLightningInvoice (funding_paymentRequest (funding plan)) = funding_paymentRequest (funding plan)"
  shows "restoreCheckoutSparkSettledPlan env plan = Inr plan"
proof -
  obtain treasury event where f: "freezeCheckoutSparkSettledPlanInternal env input False treasury event = Inr plan"
    and z: "merchantPublicZapPolicy input = None"
    by (rule frozen_plan_internal [OF assms(1)])
  have "plan_sound plan" by (rule freeze_sound [OF f]) simp
  then have v: "plan_schemaVersion plan \<in> {3, 4, 5}" "plan_schemaVersion plan = 5 \<longleftrightarrow> eventMarket plan \<noteq> None"
      "isCheckoutSparkNativeTreasuryPlan plan \<longleftrightarrow> nativeTreasury plan \<noteq> None"
    unfolding plan_sound_def by blast+
  show ?thesis
    using freeze_again [OF f assms(2) z normal, of "plan_schemaVersion plan = 3"] v
    unfolding restoreCheckoutSparkSettledPlan_def Let_def
    by (auto simp: isCheckoutSparkNativeTreasuryPlan_def)
qed

end
