(* ===== verification/Sample_Invoices.thy ===== *)
theory Sample_Invoices
  imports Settled_Plan Lightning_Validity
begin

text \<open>
  Invoices for the witnesses, as literals with valid checksums, and the ports that accept what they
  are given; SHA-256 is replaced by the length of its input.
\<close>

subsection \<open>Ports and invoices\<close>

definition sample_ports :: settled_ports where
  "sample_ports = crypto.extend sample_crypto
     \<lparr>freezeCheckoutSparkCommerceQuote = (\<lambda>q _ _. Inr q),
      checkoutSparkCommerceQuoteDigestValue = quote_evidence,
      freezeCheckoutSparkEventMarketBinding = (\<lambda>e _ _ _. Inr e),
      checkoutSparkEventMarketBindingDigestValue = market_evidence,
      freezeCheckoutSparkMerchantPublicZapPolicy = Inr,
      checkoutSparkMerchantPublicZapPolicyDigestValue = Inr,
      restoreCheckoutSparkPublicZapContext = (\<lambda>z _. Inr z),
      freezeCheckoutSparkReceiverBinding = Inr\<rparr>"

text \<open>A digest of the sample: the length it stands for.\<close>

definition short_digest :: "nat \<Rightarrow> js_string" where
  "short_digest n = replicate 62 CHR ''0'' @ [hex_digit (n div 16), hex_digit (n mod 16)]"

definition zero_hash :: js_string where
  "zero_hash = short_digest 0"

definition q :: "nat \<Rightarrow> js_string" where
  "q n = replicate n CHR ''q''"

text \<open>Invoices over 1113 and 1000 satoshis, and a later one over 1000 with another payment hash.\<close>

definition later_symbols :: "nat list" where
  "later_symbols = [0, 0, 0, 0, 4, 0, 0] @ [1, 1, 20] @ replicate 51 0 @ [16] @ [16, 1, 20] @ replicate 52 0
     @ [13, 0, 0] @ replicate 104 0"

definition later_fields :: "Bolt11TaggedField list" where
  "later_fields = [\<lparr>tag = CHR ''p'', words = replicate 51 0 @ [16]\<rparr>, \<lparr>tag = CHR ''s'', words = replicate 52 0\<rparr>,
     \<lparr>tag = CHR ''d'', words = []\<rparr>]"

definition funding_text :: js_string where
  "funding_text = ''lnbc11130n1'' @ q 7 @ ''pp5'' @ q 52 @ ''sp5'' @ q 52 @ ''dqq'' @ q 104 @ ''j06qep''"

definition payout_text :: js_string where
  "payout_text = ''lnbc10u1'' @ q 7 @ ''pp5'' @ q 52 @ ''sp5'' @ q 52 @ ''dqq'' @ q 104 @ ''28ut4q''"

definition later_text :: js_string where
  "later_text = ''lnbc10u1'' @ ''qqqqyqq'' @ ''pp5'' @ q 51 @ ''ssp5'' @ q 52 @ ''dqq'' @ q 104 @ ''4cdkr2''"

lemma funding_written: "funding_text = written_invoice ''lnbc11130n'' offer_symbols"
  by code_simp

lemma payout_written: "payout_text = written_invoice ''lnbc10u'' offer_symbols"
  by code_simp

lemma later_written: "later_text = written_invoice ''lnbc10u'' later_symbols"
  by code_simp

lemma sample_truncate [simp]: "crypto.truncate sample_ports = sample_crypto"
  by (simp add: sample_ports_def crypto.defs)

text \<open>What makes the text over the symbols \<open>ws\<close> a payable invoice over an amount, with its payment
  hash and its creation time in seconds.\<close>

definition payable ::
    "js_string \<Rightarrow> nat list \<Rightarrow> Bolt11TaggedField list \<Rightarrow> js_string \<Rightarrow> js_string \<Rightarrow> nat list \<Rightarrow> int \<Rightarrow> js_string \<Rightarrow> int \<Rightarrow> bool" where
  "payable h ws fs ds u ps amount hash t \<longleftrightarrow>
     well_written h ws \<and> signable ws fs \<and> 6 \<le> length h \<and> length h \<le> 100 \<and> startsWith h ''lnbc'' \<and> \<not> startsWith h ''lnbcrt''
     \<and> h = ''lnbc'' @ ds @ u \<and> ds \<noteq> [] \<and> list_all is_digit ds \<and> length u = 1 \<and> list_all is_unit_char u
     \<and> amount_msats ds u = Some (amount * 1000) \<and> amount * 1000 \<le> MAX_SAFE_INTEGER
     \<and> filter (\<lambda>f. tag f = CHR ''p'') fs = [\<lparr>tag = CHR ''p'', words = ps\<rparr>] \<and> length ps = 52
     \<and> map_option bytesToHex (wordsToBytes ps 32) = Some hash \<and> is_hex64 hash
     \<and> wordsToBigInt (take 7 ws) = t \<and> is_safe (t + 3600) \<and> t \<le> MAX_SAFE_INTEGER \<and> is_safe ((t + 3600) * 1000)"

lemma payable_read:
  assumes payable: "payable h ws fs ds u ps amount hash t"
  shows "invoice_valid sample_crypto (written_invoice h ws)"
    "decodeLightningInvoicePaymentHash (written_invoice h ws) = Some hash"
    "invoice_expiresAt (decodeLightningInvoiceMetadata (written_invoice h ws)) = Some (t + 3600)"
    "is_safe ((t + 3600) * 1000)"
proof -
  note p = payable [unfolded payable_def]
  have w: "well_written h ws" "signable ws fs" using p by blast+
  have f: "tagged_fields (drop 7 (take (length ws - 104) ws)) = Some fs" by (rule signable_tagged [OF w(2)])
  have x: "filter (\<lambda>f. tag f = CHR ''x'') fs = []" using w(2) by (simp add: signable_def filter_list_ex)
  have ps: "filter (\<lambda>f. tag f = CHR ''p'') fs = [\<lparr>tag = CHR ''p'', words = ps\<rparr>]" "length ps = 52"
      "map_option bytesToHex (wordsToBytes ps 32) = Some hash"
    using p by blast+
  show "decodeLightningInvoicePaymentHash (written_invoice h ws) = Some hash"
    using written_hash [OF w(1) f ps(1,2)] ps(3) by simp
  show "invoice_expiresAt (decodeLightningInvoiceMetadata (written_invoice h ws)) = Some (t + 3600)"
    by (rule written_expiry_at [OF w(1) f _ _ _ x]) (use p in blast)+
  show "invoice_valid sample_crypto (written_invoice h ws)" by (simp add: signable_valid [OF w])
  show "is_safe ((t + 3600) * 1000)" using p by blast
qed

lemma payable_normalized:
  assumes payable: "payable h ws fs ds u ps amount hash t" and time: "at_ms < (t + 3600) * 1000"
  shows "normalizeInvoice sample_ports (written_invoice h ws) hash amount ''mainnet'' at_ms
     = Inr \<lparr>normal_paymentRequest = written_invoice h ws, normal_paymentHash = hash, normal_expiresAt = (t + 3600) * 1000\<rparr>"
proof -
  note p = payable [unfolded payable_def]
  have w: "well_written h ws" "signable ws fs" using p by blast+
  have "length ws = 224" using w(2) by (simp add: signable_def)
  moreover have "length h \<le> 100" using p by blast
  ultimately have len: "length (written_invoice h ws) \<le> 16384" "written_invoice h ws \<noteq> []"
    by (simp_all add: written_invoice_def length_written_values)
  have request: "settled_text (toLowerCase (normalizeLightningInvoice (written_invoice h ws))) ''Checkout Spark invoice'' MAX_REQUEST_LENGTH
      = Inr (written_invoice h ws)"
    using len by (simp add: written_normal [OF w(1)] written_lower [OF w(1)] settled_text_def MAX_REQUEST_LENGTH_def
        plain_trim written_chars [OF w(1)])
  have h: "6 \<le> length h" "startsWith h ''lnbc''" "\<not> startsWith h ''lnbcrt''" "h = ''lnbc'' @ ds @ u" "ds \<noteq> []"
      "list_all is_digit ds"
    using p by blast+
  have m: "amount_msats ds u = Some (amount * 1000)" "amount * 1000 \<le> MAX_SAFE_INTEGER" using p by blast+
  have net: "network_name (getLightningInvoiceNetwork (written_invoice h ws)) = ''mainnet''"
    by (simp add: written_network [OF w(1) h(1-3)])
  have "length u = 1" "list_all is_unit_char u" using p by blast+
  then have u: "u = [] \<or> (\<exists>c. u = [c] \<and> is_unit_char c)" by (cases u) auto
  have "''lnbc'' \<in> set invoice_prefixes" by (simp add: invoice_prefixes_def)
  then have amount: "msats (decodeLightningInvoiceMetadata (written_invoice h ws)) = Some (amount * 1000)"
    using written_amount [OF w(1) h(4) _ h(5,6) u] m by simp
  have "amount * 1000 \<le> MAX_SAFE_INTEGER" "is_hex64 hash" "is_safe ((t + 3600) * 1000)" using p by blast+
  then show ?thesis
    using time unfolding normalizeInvoice_def sample_truncate
    by (simp add: Let_def request net amount payable_read [OF payable] settled_hex_def)
qed

lemma funding_payable: "payable ''lnbc11130n'' offer_symbols offer_fields ''11130'' ''n'' (replicate 52 0) 1113 zero_hash 0"
  by code_simp

lemma payout_payable: "payable ''lnbc10u'' offer_symbols offer_fields ''10'' ''u'' (replicate 52 0) 1000 zero_hash 0"
  by code_simp

lemma later_payable: "payable ''lnbc10u'' later_symbols later_fields ''10'' ''u'' (replicate 51 0 @ [16]) 1000 (short_digest 1) 4096"
  by code_simp

lemmas payout_read = payable_read [OF payout_payable, folded payout_written, simplified]

lemmas sample_invoices [simp] =
  payable_normalized [OF funding_payable, folded funding_written, simplified]
  payable_normalized [OF payout_payable, folded payout_written, simplified]
  payable_normalized [OF later_payable, folded later_written, simplified]

end
