(* ===== verification/Sample_Texts.thy ===== *)
theory Sample_Texts
  imports Json_Text
begin

text \<open>
  The size of a JSON text, computed from the value: for the witnesses, whose texts are plain ASCII
  without escapes.
\<close>

definition unescaped :: "char \<Rightarrow> bool" where
  "unescaped c \<longleftrightarrow> 32 \<le> char_code c \<and> char_code c < 128 \<and> char_code c \<noteq> 34 \<and> char_code c \<noteq> 92"

fun plain_json :: "json \<Rightarrow> bool" where
  "plain_json (JString s) = list_all unescaped s"
| "plain_json (JArray vs) = list_all plain_json vs"
| "plain_json (JObject kvs) = list_all (\<lambda>(k, v). list_all unescaped k \<and> plain_json v) kvs"
| "plain_json v = True"

fun text_size :: "json \<Rightarrow> nat" where
  "text_size JNull = 4"
| "text_size (JBool b) = (if b then 4 else 5)"
| "text_size (JNumber x) = length (number_text x)"
| "text_size (JString s) = length s + 2"
| "text_size (JArray vs) = (if vs = [] then 2 else sum_list (map text_size vs) + length vs + 1)"
| "text_size (JObject kvs) =
     (if kvs = [] then 2 else sum_list (map (\<lambda>(k, v). length k + 3 + text_size v) kvs) + length kvs + 1)"

definition ascii :: "js_string \<Rightarrow> bool" where
  "ascii s \<longleftrightarrow> list_all (\<lambda>c. char_code c < 128) s"

lemma ascii_Cons [simp]: "ascii (c # s) \<longleftrightarrow> char_code c < 128 \<and> ascii s"
  by (simp add: ascii_def)

lemma ascii_append [simp]: "ascii (s @ t) \<longleftrightarrow> ascii s \<and> ascii t"
  by (simp add: ascii_def)

lemma ascii_Nil [simp]: "ascii []"
  by (simp add: ascii_def)

lemma ascii_bytes: "ascii s \<Longrightarrow> length (utf8_bytes s) = length s"
  by (induction s) (simp_all add: utf8_bytes_def Let_def)

lemma ascii_digits: "ascii (decimal_digits n)"
proof (induction n rule: decimal_digits.induct)
  case (1 n)
  have "n mod 10 < 10" by simp
  then have "n mod 10 < 80" by (rule less_trans) simp
  with 1 show ?case by (subst decimal_digits.simps) (simp add: char_code_def)
qed

lemma unescaped_text: "list_all unescaped s \<Longrightarrow> concat (map json_char s) = s \<and> ascii s"
  by (induction s) (auto simp: json_char_def unescaped_def Let_def)

lemma separated_size: "length (separated ts) = (if ts = [] then 0 else sum_list (map length ts) + length ts - 1)"
  by (induction ts rule: separated.induct) auto

lemma separated_ascii: "list_all ascii ts \<Longrightarrow> ascii (separated ts)"
  by (induction ts rule: separated.induct) (auto simp: char_code_def)

lemma plain_text: "plain_json v \<Longrightarrow> ascii (stringify v) \<and> length (stringify v) = text_size v"
proof (induction v rule: text_size.induct)
  case (5 vs)
  then have vs: "\<forall>v \<in> set vs. ascii (stringify v) \<and> length (stringify v) = text_size v" by (cases vs) (auto simp: list_all_iff)
  then have "map (length \<circ> stringify) vs = map text_size vs" by simp
  then show ?case using vs
    by (auto simp: separated_size separated_ascii list_all_iff char_code_def simp del: map_eq_conv)
next
  case (4 s)
  then show ?case using unescaped_text [of s] by (simp add: string_text_def char_code_def)
next
  case (6 kvs)
  let ?field = "\<lambda>(k, v). string_text k @ '':'' @ stringify v"
  have field: "ascii (?field x) \<and> length (?field x) = (\<lambda>(k, v). length k + 3 + text_size v) x" if "x \<in> set kvs" for x
  proof -
    obtain k v where x: "x = (k, v)" by (cases x)
    have ne: "kvs \<noteq> []" using that by auto
    from 6(2) that have "case x of (k, v) \<Rightarrow> list_all unescaped k \<and> plain_json v" by (simp add: list_all_iff)
    then have p: "list_all unescaped k" "plain_json v" by (simp_all add: x)
    have "ascii (stringify v) \<and> length (stringify v) = text_size v"
      by (rule 6(1)) (use that x ne p in simp_all)
    then show ?thesis using p unescaped_text [of k] by (simp add: x string_text_def char_code_def)
  qed
  then have "map (length \<circ> ?field) kvs = map (\<lambda>(k, v). length k + 3 + text_size v) kvs" by simp
  moreover have "ascii (separated (map ?field kvs))" using field by (intro separated_ascii) (auto simp: list_all_iff)
  moreover have "stringify (JObject kvs) = ''{'' @ separated (map ?field kvs) @ ''}''" by simp
  ultimately show ?case by (simp only:) (auto simp: separated_size char_code_def simp del: map_eq_conv stringify.simps)
qed (auto simp: number_text_def ascii_digits char_code_def split: js_number.split)

subsection \<open>Bounds\<close>

text \<open>A bound on the bytes of any text: twelve for a character, twenty for a number.\<close>

fun short_numbers :: "json \<Rightarrow> bool" where
  "short_numbers (JNumber (JSInt i)) = (\<bar>i\<bar> < 10 ^ 16)"
| "short_numbers (JArray vs) = list_all short_numbers vs"
| "short_numbers (JObject kvs) = list_all (\<lambda>(k, v). short_numbers v) kvs"
| "short_numbers (JString s) = True"
| "short_numbers JNull = True"
| "short_numbers (JBool b) = True"
| "short_numbers (JNumber JSOther) = True"

fun text_bound :: "json \<Rightarrow> nat" where
  "text_bound (JString s) = 12 * length s + 2"
| "text_bound (JArray vs) = sum_list (map text_bound vs) + length vs + 2"
| "text_bound (JObject kvs) = sum_list (map (\<lambda>(k, v). 12 * length k + 3 + text_bound v) kvs) + length kvs + 2"
| "text_bound v = 20"

lemma bytes_append [simp]: "utf8_bytes (s @ t) = utf8_bytes s @ utf8_bytes t"
  by (simp add: utf8_bytes_def)

lemma bytes_Cons: "utf8_bytes (c # s) = utf8_bytes [c] @ utf8_bytes s"
  by (simp add: utf8_bytes_def)

lemma length_bytes: "length s \<le> length (utf8_bytes s)"
proof (induction s)
  case (Cons c s)
  moreover have "1 \<le> length (utf8_bytes [c])" by (simp add: utf8_bytes_def Let_def)
  ultimately show ?case by (subst bytes_Cons) simp
qed simp

lemma length_bytes_Cons: "char_code c < 128 \<Longrightarrow> length (utf8_bytes (c # s)) = Suc (length (utf8_bytes s))"
  by (simp add: utf8_bytes_def Let_def)

lemma length_bytes_Nil [simp]: "utf8_bytes [] = []"
  by (simp add: utf8_bytes_def)

lemma bytes_json_char: "length (utf8_bytes (json_char c)) \<le> 12"
proof -
  have "length (utf8_bytes s) \<le> 2 * length s" for s by (induction s) (simp_all add: utf8_bytes_def Let_def)
  from this [of "json_char c"] show ?thesis by (simp add: json_char_def Let_def split: if_split_asm)
qed

lemma bytes_string_text: "length (utf8_bytes (string_text s)) \<le> 12 * length s + 2"
proof -
  have "length (utf8_bytes (concat (map json_char s))) \<le> 12 * length s"
  proof (induction s)
    case (Cons c s)
    then show ?case using bytes_json_char [of c] by simp
  qed (simp add: utf8_bytes_def)
  then show ?thesis unfolding string_text_def by (simp add: length_bytes_Cons char_code_def)
qed

lemma bytes_separated: "length (utf8_bytes (separated ts)) \<le> sum_list (map (length \<circ> utf8_bytes) ts) + length ts"
proof (induction ts rule: separated.induct)
  case (3 t u ts)
  then show ?case by (simp add: length_bytes_Cons char_code_def)
qed (simp_all add: utf8_bytes_def)

lemma digits_size: "n < 10 ^ Suc k \<Longrightarrow> length (decimal_digits n) \<le> Suc k"
proof (induction k arbitrary: n)
  case (Suc k)
  have "n div 10 < 10 ^ Suc k" using Suc.prems by (simp add: div_less_iff_less_mult mult.commute)
  with Suc.IH [of "n div 10"] show ?case by (subst decimal_digits.simps) simp
qed (subst decimal_digits.simps, simp)

lemma bytes_number: "short_numbers (JNumber x) \<Longrightarrow> length (utf8_bytes (number_text x)) \<le> 20"
proof (cases x)
  case (JSInt i)
  assume "short_numbers (JNumber x)"
  with JSInt have "nat \<bar>i\<bar> < 10 ^ Suc 15" by simp
  from digits_size [OF this] have "length (utf8_bytes (decimal_digits (nat \<bar>i\<bar>))) \<le> 16"
    using ascii_bytes [OF ascii_digits] by simp
  moreover have "length (utf8_bytes (if i < 0 then ''-'' else [])) \<le> 1" by (simp add: utf8_bytes_def char_code_def)
  ultimately show ?thesis by (simp only: JSInt number_text_def js_number.case bytes_append length_append)
qed (simp add: number_text_def utf8_bytes_def char_code_def)

lemma bytes_stringify: "short_numbers v \<Longrightarrow> length (utf8_bytes (stringify v)) \<le> text_bound v"
proof (induction v rule: short_numbers.induct)
  case (2 vs)
  have "(length \<circ> utf8_bytes \<circ> stringify) v \<le> text_bound v" if "v \<in> set vs" for v
    using 2 that by (auto simp: list_all_iff)
  then have "sum_list (map (length \<circ> utf8_bytes \<circ> stringify) vs) \<le> sum_list (map text_bound vs)" by (rule sum_list_mono)
  with bytes_separated [of "map stringify vs"] show ?case by (simp add: length_bytes_Cons char_code_def o_assoc)
next
  case (3 kvs)
  let ?field = "\<lambda>(k, v). string_text k @ '':'' @ stringify v"
  have "(length \<circ> utf8_bytes \<circ> ?field) x \<le> (\<lambda>(k, v). 12 * length k + 3 + text_bound v) x" if x: "x \<in> set kvs" for x
  proof -
    obtain k v where kv: "x = (k, v)" by (cases x)
    from 3(2) x have "case x of (k, v) \<Rightarrow> short_numbers v" by (simp add: list_all_iff)
    then have "short_numbers v" by (simp add: kv)
    then have "length (utf8_bytes (stringify v)) \<le> text_bound v" by (intro 3(1)) (use x kv in auto)
    then show ?thesis using bytes_string_text [of k] by (simp add: kv length_bytes_Cons char_code_def)
  qed
  then have "sum_list (map (length \<circ> utf8_bytes \<circ> ?field) kvs) \<le> sum_list (map (\<lambda>(k, v). 12 * length k + 3 + text_bound v) kvs)"
    by (rule sum_list_mono)
  with bytes_separated [of "map ?field kvs"] show ?case by (simp add: length_bytes_Cons char_code_def o_assoc)
next
  case (4 s)
  show ?case using bytes_string_text by simp
qed (use bytes_number [of "JSInt _"] bytes_number [of JSOther] in \<open>auto simp: utf8_bytes_def char_code_def\<close>)

end
