(* ===== verification/Sample_Plan.thy ===== *)
theory Sample_Plan
  imports Settled_Roundtrip Sample_Invoices Sample_Texts
begin

text \<open>
  A plan for the witnesses, with a merchant and the native Conduit collection, frozen and restored.
\<close>

subsection \<open>Digests by size\<close>

lemma sample_sha: "sha256 sample_ports bs = replicate 31 0 @ [length bs mod 256]"
  by (simp add: sample_ports_def sample_crypto_def crypto.defs)

lemma zero_bytes_hex: "bytesToHex (replicate 31 0) = replicate 62 CHR ''0''"
  by code_simp

lemma sized_digest: "plain_json v \<Longrightarrow> settled_digest sample_ports v = short_digest (text_size v mod 256)"
  using plain_text [of v] ascii_bytes [of "stringify v"] zero_bytes_hex
  by (simp add: settled_digest_def json_digest_def sample_sha bytesToHex_def short_digest_def)

lemma plain_q: "list_all unescaped (q n)"
  by (auto simp: q_def list_all_iff unescaped_def char_code_def)

lemma plain_invoices: "list_all unescaped funding_text" "list_all unescaped payout_text" "list_all unescaped later_text"
  unfolding funding_text_def payout_text_def later_text_def list_all_append
  by (intro conjI plain_q; code_simp)+

lemma size_invoices: "length funding_text = 241" "length payout_text = 238" "length later_text = 238"
  by (simp_all add: funding_text_def payout_text_def later_text_def q_def)

lemma plain_hash: "list_all unescaped (short_digest n) \<longleftrightarrow> unescaped (hex_digit (n div 16)) \<and> unescaped (hex_digit (n mod 16))"
  by (auto simp: short_digest_def list_all_iff unescaped_def char_code_def)

lemma size_hash: "length (short_digest n) = 64"
  by (simp add: short_digest_def)

subsection \<open>The plan\<close>

definition sample_input :: "CheckoutSparkSettledRecipientInput FreezeCheckoutSparkSettledPlanInput" where
  "sample_input = \<lparr>checkoutId = ''checkout'', orderId = ''order'', merchantPubkey = zero_hash, walletId = ''wallet'',
     network = ''mainnet'', createdAt = 1000, takeoverAt = 2000,
     commerceQuote = \<lparr>quote_commerceTotalSats = 1000, quote_evidence = JNull\<rparr>,
     funding = \<lparr>funding_requestId = ''request'', funding_paymentRequest = funding_text,
       funding_paymentHash = zero_hash, funding_receiverIdentityPublicKey = ''02'' @ zero_hash,
       grossFundingSats = 1113, funding_createdAt = 1000, funding_expiresAt = 3600000\<rparr>,
     recipients =
       [\<lparr>kind = Merchant, recipientId = zero_hash,
         destination = \<lparr>destination_type = ''lightning_address'', destination_value = ''shop@conduit.market'',
                        destination_source = SignedProfile zero_hash 1\<rparr>,
         weightSats = 1000\<rparr>,
        \<lparr>kind = Conduit, recipientId = CONDUIT_CHECKOUT_FEE_RECIPIENT,
         destination = \<lparr>destination_type = ''lightning_address'', destination_value = CONDUIT_CHECKOUT_FEE_RECIPIENT,
                        destination_source = ConduitAllowlist ''production''\<rparr>,
         weightSats = 111\<rparr>],
     merchantPublicZapPolicy = None, conduitFeePolicy = None\<rparr>"

definition sample_recipients :: "CheckoutSparkSettledRecipient list" where
  "sample_recipients =
     [\<lparr>kind = Merchant, recipientId = zero_hash,
       destination = \<lparr>destination_type = ''lightning_address'', destination_value = ''shop@conduit.market'',
                      destination_source = SignedProfile zero_hash 1\<rparr>,
       weightSats = 1000, position = 0, legId = short_digest 19\<rparr>,
      \<lparr>kind = Conduit, recipientId = CONDUIT_CHECKOUT_FEE_RECIPIENT,
       destination = \<lparr>destination_type = ''lightning_address'', destination_value = CONDUIT_CHECKOUT_FEE_RECIPIENT,
                      destination_source = ConduitAllowlist ''production''\<rparr>,
       weightSats = 111, position = 1, legId = short_digest 187\<rparr>]"

definition sample_treasury :: CheckoutSparkNativeTreasuryPlan where
  "sample_treasury = \<lparr>treasury_schemaVersion = 1, sparkAddress = ''spark1'',
     treasury_receiverIdentityPublicKey = ''03'' @ zero_hash, treasury_senderIdentityPublicKey = ''02'' @ zero_hash,
     treasury_invoiceId = ''00000000-0000-5000-8000-000000000000'', treasury_invoiceRequest = ''spark-invoice'',
     feePolicy = ''zero_required'', residualPolicy = ''unused_commerce_reserves''\<rparr>"

definition unsigned_sample :: CheckoutSparkSettledPlan where
  "unsigned_sample = unsigned_plan sample_input (commerceQuote sample_input) (funding sample_input) sample_recipients None
     (Some sample_treasury) None"

lemmas sample_text_data = zero_hash_def plain_hash size_hash plain_invoices size_invoices hex_digit_def unescaped_def char_code_def
  number_text_def decimal_digits.simps CONDUIT_CHECKOUT_FEE_RECIPIENT_def

lemma sample_leg_digests:
  "settled_digest sample_ports (JArray [JString ''conduit:checkout-spark-settled-leg:v3'', JString ''checkout'', JString ''order'',
     JInt 0, JString ''merchant'', JString zero_hash, JString ''lightning_address'', JString ''shop@conduit.market'',
     JArray [JString ''signed_profile'', JString zero_hash, JInt 1], JInt 1000]) = short_digest 19"
  "settled_digest sample_ports (JArray [JString ''conduit:checkout-spark-settled-leg:v3'', JString ''checkout'', JString ''order'',
     JInt 1, JString ''conduit'', JString CONDUIT_CHECKOUT_FEE_RECIPIENT, JString ''lightning_address'', JString CONDUIT_CHECKOUT_FEE_RECIPIENT,
     JArray [JString ''conduit_allowlist'', JString ''production''], JInt 111]) = short_digest 187"
  by (simp_all add: sized_digest sample_text_data)

lemma sample_texts:
  "settled_text zero_hash l MAX_ID_LENGTH = Inr zero_hash"
  "settled_text ''shop@conduit.market'' l MAX_ID_LENGTH = Inr ''shop@conduit.market''"
  "settled_text CONDUIT_CHECKOUT_FEE_RECIPIENT l MAX_ID_LENGTH = Inr CONDUIT_CHECKOUT_FEE_RECIPIENT"
  "settled_text ''checkout'' l MAX_ID_LENGTH = Inr ''checkout''"
  "settled_text ''order'' l MAX_ID_LENGTH = Inr ''order''"
  "settled_text ''wallet'' l MAX_ID_LENGTH = Inr ''wallet''"
  "settled_text ''request'' l MAX_ID_LENGTH = Inr ''request''"
  "compressedPublicKey (CHR ''0'' # CHR ''2'' # zero_hash) l = Inr (CHR ''0'' # CHR ''2'' # zero_hash)"
  "settled_hex zero_hash l = Inr zero_hash" "is_hex64 zero_hash"
  by code_simp+

lemma sample_frozen_recipients:
  "traverse (freeze_recipient sample_ports ''checkout'' ''order'' None 1000) (enumerate 0 (recipients sample_input)) = Inr sample_recipients"
  using sample_leg_digests
  by (simp add: sample_input_def sample_recipients_def freeze_recipient_def normalize_source_def sample_texts
      settled_sats_def settled_time_def is_safe_def MAX_SAFE_INTEGER_def Let_def checkoutSparkConduitFeeRecipient_def
      enumerate_eq_zip)

lemma sample_checked: "check_recipients zero_hash (commerceQuote sample_input) None 1000 111 sample_recipients = Inr ()"
  by code_simp

lemma sample_weights: "plan_weights (commerceQuote sample_input) None None = Inr (1000, 111)"
  by code_simp

lemma sample_gross: "plan_gross (commerceQuote sample_input) None None = Inr 1113"
  by code_simp

lemma sample_treasury_restored:
  "restoreCheckoutSparkNativeTreasuryPlan sample_ports sample_treasury (FreezeCheckoutSparkSettledPlanInput.truncate unsigned_sample)
     = Inr sample_treasury"
  by code_simp
lemma sample_funding: "freeze_funding sample_ports sample_input 1000 1113 = Inr (funding sample_input)"
  unfolding freeze_funding_def Let_def
  by (simp add: sample_input_def sample_texts settled_time_def is_safe_def MAX_SAFE_INTEGER_def)

definition sample_digested :: json where
  "sample_digested = (case canonicalPlanValue sample_ports unsigned_sample of Inr v \<Rightarrow> v | Inl e \<Rightarrow> JNull)"

lemma sample_canonical: "canonicalPlanValue sample_ports unsigned_sample = Inr sample_digested"
  by (simp add: sample_digested_def canonicalPlanValue_def unsigned_sample_def unsigned_plan_def plan_records Let_def sample_input_def)

lemmas sample_data = unsigned_sample_def unsigned_plan_def plan_records sample_input_def sample_recipients_def sample_treasury_def

lemma sample_digest: "settled_digest sample_ports sample_digested = short_digest 25"
proof -
  have "plain_json sample_digested \<and> text_size sample_digested mod 256 = 25"
    by (simp add: sample_digested_def canonicalPlanValue_def sample_data Let_def isCheckoutSparkNativeTreasuryPlan_def
        recipient_digest_value_def sample_ports_def crypto.defs sample_text_data)
  then show ?thesis by (simp add: sized_digest)
qed

definition sample_plan :: CheckoutSparkSettledPlan where
  "sample_plan = unsigned_sample\<lparr>planDigest := short_digest 25\<rparr>"

lemma sample_texts_plan: "plan_event sample_plan = None"
  by (simp add: sample_plan_def sample_data plan_event_def)

lemma sample_freezes: "freezeCheckoutSparkSettledTreasuryPlan sample_ports sample_input sample_treasury = Inr sample_plan"
proof -
  let ?i = sample_input
  have f: "checkoutId ?i = ''checkout''" "orderId ?i = ''order''" "merchantPubkey ?i = zero_hash" "walletId ?i = ''wallet''"
    "network ?i = ''mainnet''" "createdAt ?i = 1000" "takeoverAt ?i = 2000" "grossFundingSats (funding ?i) = 1113"
    "length (recipients ?i) = 2" "merchantPublicZapPolicy ?i = None" "conduitFeePolicy ?i = None"
    "\<not> list_ex (\<lambda>r. kind r = Organizer) (recipients ?i)"
    by (simp_all add: sample_input_def)
  have q: "freezeCheckoutSparkCommerceQuote sample_ports (commerceQuote ?i) zero_hash b = Inr (commerceQuote ?i)" for b
    by (simp add: sample_ports_def crypto.defs)
  have t: "restoreCheckoutSparkNativeTreasuryPlan sample_ports sample_treasury
      (FreezeCheckoutSparkSettledPlanInput.make ''checkout'' ''order'' zero_hash ''wallet'' ''mainnet'' 1000 2000
        (commerceQuote ?i) (funding ?i) sample_recipients None None) = Inr sample_treasury"
    using sample_treasury_restored by (simp add: unsigned_sample_def unsigned_plan_def plan_records f)
  have "freezeCheckoutSparkSettledPlanInternal sample_ports ?i False (Some sample_treasury) None
      = Inr (unsigned_sample\<lparr>planDigest := settled_digest sample_ports sample_digested\<rparr>)"
    using sample_canonical sample_frozen_recipients sample_checked sample_weights sample_gross sample_funding t
    unfolding freezeCheckoutSparkSettledPlanInternal_def f Let_def case_prod_unfold unsigned_sample_def unsigned_plan_def
    by (simp add: q sample_texts settled_time_def settled_sats_def is_safe_def MAX_SAFE_INTEGER_def f)
  then show ?thesis
    by (simp add: freezeCheckoutSparkSettledTreasuryPlan_def assertPrivateCheckoutSparkSettledPlanInput_def
        assertOrdinaryCheckoutSparkSettledPlanInput_def f sample_digest sample_plan_def)
qed

lemma sample_idempotent: "ports_idempotent sample_ports"
  by (simp add: ports_idempotent_def sample_ports_def crypto.defs)

lemma sample_request_normal: "normalizeLightningInvoice (funding_paymentRequest (funding sample_plan)) = funding_paymentRequest (funding sample_plan)"
proof -
  have "funding_paymentRequest (funding sample_plan) = funding_text" by (simp add: sample_plan_def sample_data)
  moreover have "well_written ''lnbc11130n'' offer_symbols" using funding_payable by (simp add: payable_def)
  ultimately show ?thesis by (simp add: funding_written written_normal)
qed

lemma sample_frozen: "frozen_plan sample_ports sample_input sample_plan"
  unfolding frozen_plan_def using sample_freezes by blast

lemma sample_restores [simp]: "restoreCheckoutSparkSettledPlan sample_ports sample_plan = Inr sample_plan"
  by (rule frozen_restores [OF sample_frozen sample_idempotent sample_request_normal])

lemma sample_native: "isCheckoutSparkNativeTreasuryPlan sample_plan" "plan_schemaVersion sample_plan = 4"
  by (simp_all add: sample_plan_def sample_data isCheckoutSparkNativeTreasuryPlan_def)

lemma sample_find:
  "find_recipient sample_plan (short_digest 19) = Some (sample_recipients ! 0)"
  "find_recipient sample_plan (short_digest 187) = Some (sample_recipients ! 1)"
  "is_native_leg sample_plan (short_digest 19) \<longleftrightarrow> False"
  "is_native_leg sample_plan (short_digest 187) \<longleftrightarrow> True"
  using sample_native
  by (simp_all add: is_native_leg_def find_recipient_def sample_plan_def sample_data short_digest_def hex_digit_def)

lemma sample_plan_digest: "planDigest sample_plan = short_digest 25"
  by (simp add: sample_plan_def)

definition sample_transfer :: js_string where
  "sample_transfer = ''00000000-0000-5000-8000-000000000000''"

lemma sample_uuid: "uuidFromDigest (short_digest 180) = sample_transfer" "uuidFromDigest (short_digest 232) = sample_transfer"
  by code_simp+

lemma sample_transfers [simp]:
  "deriveCheckoutSparkSettledTransferId sample_ports sample_plan (short_digest 19) = Inr sample_transfer"
  "deriveCheckoutSparkSettledRenewalTransferId sample_ports sample_plan (short_digest 19) = Inr sample_transfer"
proof -
  show first: "deriveCheckoutSparkSettledTransferId sample_ports sample_plan (short_digest 19) = Inr sample_transfer"
    unfolding deriveCheckoutSparkSettledTransferId_def
    by (simp add: sample_find sized_digest sample_text_data sample_plan_digest sample_uuid)
  show "deriveCheckoutSparkSettledRenewalTransferId sample_ports sample_plan (short_digest 19) = Inr sample_transfer"
    unfolding deriveCheckoutSparkSettledRenewalTransferId_def first
    by (simp add: sized_digest sample_text_data sample_plan_digest sample_uuid sample_transfer_def)
qed

end
