(* ===== verification/Sample_States.thy ===== *)
theory Sample_States
  imports Settled_Checkout Sample_Plan
begin

text \<open>
  The states of the sample checkout: created, credited in full, with its merchant attempt prepared
  and paid, renewed after a return, and with the credit collected.
\<close>

definition sample_credit :: CheckoutSparkSettledCreditEvidence where
  "sample_credit = \<lparr>credit_requestId = ''request'', credit_paymentHash = zero_hash, credit_transferId = ''receive'',
     credit_receiverIdentityPublicKey = ''02'' @ zero_hash, grossSats = 1113, creditedSats = 1113, credit_observedAt = 1500\<rparr>"

definition sample_leg :: "js_string \<Rightarrow> int option \<Rightarrow> CheckoutSparkSettledLegProgress" where
  "sample_leg i allocation = \<lparr>leg_legId = i, allocationSats = allocation, leg_intent = None, leg_status = Unprepared,
     leg_observedAt = None, finalFeeSats = None, finalDebitSats = None, generation = Some 0, closedGenerations = Some []\<rparr>"

definition sample_state ::
    "CheckoutSparkNativeTreasuryFinalization \<Rightarrow> CheckoutSparkSettledCreditEvidence option
     \<Rightarrow> CheckoutSparkSettledLegProgress list \<Rightarrow> int \<Rightarrow> CheckoutSparkSettledReconciliation" where
  "sample_state fin c ls t = \<lparr>state_schemaVersion = 5, treasuryFinalization = Some fin, state_plan = sample_plan,
     credit = c, legs = ls, updatedAt = t\<rparr>"

definition created_state :: CheckoutSparkSettledReconciliation where
  "created_state = sample_state createCheckoutSparkNativeTreasuryFinalization None
     [sample_leg (short_digest 19) None, sample_leg (short_digest 187) None] 1000"

lemma sample_fields:
  "recipients sample_plan = sample_recipients" "createdAt sample_plan = 1000" "takeoverAt sample_plan = 2000"
  "network sample_plan = ''mainnet''" "walletId sample_plan = ''wallet''" "nativeTreasury sample_plan = Some sample_treasury"
  "funding sample_plan = funding sample_input" "plan_event sample_plan = None" "conduitFeePolicy sample_plan = None"
  "commerceQuote sample_plan = commerceQuote sample_input" "merchantPublicZapPolicy sample_plan = None"
  by (simp_all add: sample_plan_def sample_data plan_event_def)

lemma sample_created: "createCheckoutSparkSettledReconciliation sample_ports sample_plan = Inr created_state"
  by (simp add: createCheckoutSparkSettledReconciliation_def sample_native sample_fields created_state_def sample_state_def
      sample_leg_def fresh_leg_def sample_recipients_def)

definition allocated_legs :: "CheckoutSparkSettledLegProgress list" where
  "allocated_legs = [sample_leg (short_digest 19) (Some 1002), sample_leg (short_digest 187) (Some 111)]"

lemma sample_divided: "divide_credit sample_plan 1113 = Inr \<lparr>divided_commerce = 1002, divided_conduit = 111\<rparr>"
  by code_simp

lemma sample_allocated: "allocatedLegs sample_plan 1113 = Inr allocated_legs"
  using sample_weights
  by (simp add: allocatedLegs_def sample_fields sample_divided recipient_allocation_def fresh_leg_def sample_native
      sample_recipients_def allocated_legs_def sample_leg_def is_proportional_def Let_def)

lemma sample_transfer_id: "treasury_id ''receive'' MAX_ID_LENGTH"
  by code_simp

lemma sample_more_texts:
  "settled_text ''receive'' l MAX_ID_LENGTH = Inr ''receive''"
  "settled_text sample_transfer l MAX_ID_LENGTH = Inr sample_transfer"
  by code_simp+

lemma sample_credit_normal: "normalizeCredit sample_plan sample_credit = Inr sample_credit"
  by (simp add: normalizeCredit_def sample_credit_def sample_texts sample_more_texts sample_fields sample_input_def
      settled_sats_def settled_time_def is_safe_def MAX_SAFE_INTEGER_def Let_def)

subsection \<open>The merchant's payout\<close>

definition payout_intent :: CheckoutSparkSettledLegIntent where
  "payout_intent = \<lparr>intent_legId = short_digest 19, intent_transferId = sample_transfer, intent_paymentRequest = payout_text,
     intent_paymentHash = zero_hash, invoiceAmountSats = 1000, maxFeeSats = 2, preparedAt = 1600,
     publicZap = None, receiverBinding = None\<rparr>"

definition later_intent :: CheckoutSparkSettledLegIntent where
  "later_intent = \<lparr>intent_legId = short_digest 19, intent_transferId = sample_transfer, intent_paymentRequest = later_text,
     intent_paymentHash = short_digest 1, invoiceAmountSats = 1000, maxFeeSats = 2, preparedAt = 4000000,
     publicZap = None, receiverBinding = None\<rparr>"

lemma sample_found: "find_recipient sample_plan (short_digest 19) = Some (hd (recipients sample_plan))"
  by (simp add: sample_find sample_fields sample_recipients_def)

lemma sample_intents:
  assumes "leg_legId l = short_digest 19" "allocationSats l = Some 1002"
  shows "normalizeIntent sample_ports sample_plan l payout_intent 0 = Inr payout_intent"
    "normalizeIntent sample_ports sample_plan l later_intent 1 = Inr later_intent"
  using assms
  by (simp_all add: normalizeIntent_def payout_intent_def later_intent_def sample_fields sample_find sample_texts Let_def
      settled_sats_def settled_time_def is_safe_def MAX_SAFE_INTEGER_def)

definition attempted_leg ::
    "CheckoutSparkSettledLegIntent \<Rightarrow> CheckoutSparkSettledLegStatus \<Rightarrow> int \<Rightarrow> int option \<Rightarrow> int option
     \<Rightarrow> CheckoutSparkSettledLegProgress" where
  "attempted_leg intent st t fee debit = (sample_leg (short_digest 19) (Some 1002))\<lparr>leg_intent := Some intent,
     leg_status := st, leg_observedAt := Some t, finalFeeSats := fee, finalDebitSats := debit\<rparr>"

definition conduit_leg :: "CheckoutSparkNativeTreasuryFinalization \<Rightarrow> CheckoutSparkSettledLegProgress" where
  "conduit_leg fin = (sample_leg (short_digest 187) (Some 111))\<lparr>leg_status := native_status fin,
     leg_observedAt := native_observedAt fin, finalFeeSats := native_finalFeeSats fin, finalDebitSats := native_finalDebitSats fin\<rparr>"

definition paid_leg :: CheckoutSparkSettledLegProgress where
  "paid_leg = attempted_leg payout_intent Paid 1700 (Some 1) (Some 1001)"

definition submitted_state :: CheckoutSparkSettledReconciliation where
  "submitted_state = sample_state createCheckoutSparkNativeTreasuryFinalization (Some sample_credit)
     [attempted_leg payout_intent Submitted 1700 None None, conduit_leg createCheckoutSparkNativeTreasuryFinalization] 1700"

lemma sample_ids: "short_digest 19 \<noteq> short_digest 187" "short_digest 187 \<noteq> short_digest 19"
  by (simp_all add: short_digest_def hex_digit_def)

lemma sample_conduit: "conduit_recipient sample_plan = Some (sample_recipients ! 1)"
  by (simp add: conduit_recipient_def sample_fields sample_recipients_def)

text \<open>How a state of the sample is restored, its merchant leg and its collection being in order.\<close>

lemma sample_state_restores:
  assumes leg: "restore_leg sample_ports 5 sample_plan (Some sample_credit)
      (hd (recipients sample_plan), l, sample_leg (short_digest 19) (Some 1002)) = Inr l"
    and fin: "restoreCheckoutSparkNativeTreasuryFinalization sample_ports (Some fin)
      (sample_state fin (Some sample_credit) [l, conduit_leg fin] t) = Inr fin"
    and id: "leg_legId l = short_digest 19"
    and spent: "is_safe (leg_debit l)" "leg_debit l \<le> or_else (allocationSats l) 0"
      "is_safe (leg_debit (conduit_leg fin))" "is_safe (leg_debit l + leg_debit (conduit_leg fin))"
      "leg_debit l + leg_debit (conduit_leg fin) \<le> 1113"
    and time: "is_safe t" "1500 \<le> t" "or_else (leg_observedAt l) 1000 \<le> t" "or_else (native_observedAt fin) 1000 \<le> t"
  shows "restoreCheckoutSparkSettledReconciliation sample_ports (sample_state fin (Some sample_credit) [l, conduit_leg fin] t)
    = Inr (sample_state fin (Some sample_credit) [l, conduit_leg fin] t)"
proof -
  have c: "restore_leg sample_ports 5 sample_plan (Some sample_credit)
      (sample_recipients ! 1, conduit_leg fin, sample_leg (short_digest 187) (Some 111)) = Inr (conduit_leg fin)"
    by (simp add: restore_leg_def conduit_leg_def sample_leg_def sample_native sample_recipients_def closed_generations_def
        restore_generation_shape_def getCheckoutSparkSettledLegGeneration_def)
  have m: "native_mirror_ok sample_plan [l, conduit_leg fin] fin"
    using id by (simp add: native_mirror_ok_def conduit_leg_def sample_leg_def sample_find sample_recipients_def)
  have row: "restore_leg sample_ports 5 sample_plan (Some sample_credit)
      (sample_recipients ! 0, l, sample_leg (short_digest 19) (Some 1002)) = Inr l"
    using leg by (simp add: sample_fields sample_recipients_def)
  have o: "\<not> list_ex (leg_overspent sample_plan) [l, conduit_leg fin]"
    using spent id by (simp add: leg_overspent_def sample_find conduit_leg_def sample_leg_def)
  have r: "recipients sample_plan = [sample_recipients ! 0, sample_recipients ! 1]"
    by (simp add: sample_fields sample_recipients_def)
  have f: "creditedSats sample_credit = 1113" "credit_observedAt sample_credit = 1500" by (simp_all add: sample_credit_def)
  have late: "latest_observation sample_plan (Some sample_credit) [l, conduit_leg fin] \<le> t"
    using time by (simp add: latest_observation_def f sample_fields conduit_leg_def)
  show ?thesis
    using fin spent time m o late
    unfolding restoreCheckoutSparkSettledReconciliation_def sample_state_def
    by (simp add: sample_native sample_created sample_credit_normal sample_allocated allocated_legs_def f r row c [unfolded One_nat_def] zip3_def
        settled_time_def sample_fields(2) total_debit_def created_state_def sample_state_def plan_event_def)
qed

lemma attempt_restores:
  assumes "st \<in> set (Prepared # observable_statuses)" "is_safe t" "1600 \<le> t"
    "check_final_amounts (attempted_leg payout_intent st t fee debit) payout_intent 1002 = Inr ()"
  shows "restore_leg sample_ports 5 sample_plan (Some sample_credit)
      (hd (recipients sample_plan), attempted_leg payout_intent st t fee debit, sample_leg (short_digest 19) (Some 1002))
    = Inr (attempted_leg payout_intent st t fee debit)"
proof -
  have k: "kind (hd (recipients sample_plan)) = Merchant" by (simp add: sample_fields sample_recipients_def)
  show ?thesis
    using assms sample_intents(1) [of "sample_leg (short_digest 19) (Some 1002)"] k
    by (simp add: restore_leg_def restore_attempt_def restore_archive_def attempted_leg_def sample_leg_def
        restore_generation_shape_def getCheckoutSparkSettledLegGeneration_def closed_generations_def payout_intent_def)
qed

subsection \<open>The states on the way\<close>

lemma sample_short: "leg_debit (attempted_leg intent st t fee debit) = or_else debit 0"
  "leg_debit (conduit_leg fin) = or_else (native_finalDebitSats fin) 0"
  by (simp_all add: leg_debit_def attempted_leg_def conduit_leg_def sample_leg_def closed_generations_def)

lemma attempted_fields:
  "leg_legId (attempted_leg intent st t fee debit) = short_digest 19" "allocationSats (attempted_leg intent st t fee debit) = Some 1002"
  "leg_observedAt (attempted_leg intent st t fee debit) = Some t" "leg_status (attempted_leg intent st t fee debit) = st"
  "finalFeeSats (attempted_leg intent st t fee debit) = fee" "finalDebitSats (attempted_leg intent st t fee debit) = debit"
  "leg_intent (attempted_leg intent st t fee debit) = Some intent" "closed_generations (attempted_leg intent st t fee debit) = []"
  "getCheckoutSparkSettledLegGeneration (attempted_leg intent st t fee debit) = 0"
  by (simp_all add: attempted_leg_def sample_leg_def closed_generations_def getCheckoutSparkSettledLegGeneration_def)

lemma submitted_restores [simp]:
  "restoreCheckoutSparkSettledReconciliation sample_ports submitted_state = Inr submitted_state"
  unfolding submitted_state_def
proof (rule sample_state_restores [OF attempt_restores])
  show "check_final_amounts (attempted_leg payout_intent Submitted 1700 None None) payout_intent 1002 = Inr ()"
    by (simp add: check_final_amounts_def attempted_fields)
qed (simp_all add: sample_short observable_statuses_def is_safe_def MAX_SAFE_INTEGER_def attempted_fields
    createCheckoutSparkNativeTreasuryFinalization_def restoreCheckoutSparkNativeTreasuryFinalization_def)

text \<open>The collection: one satoshi of the payout's fee reserve is left over and joins the base.\<close>

definition sample_budget :: CheckoutSparkNativeTreasuryBudget where
  "sample_budget = \<lparr>baseConduitAllocationSats = 111, unusedCommerceReserveSats = 1, authorizedDebitSats = 112,
     accountingDigest = short_digest 12\<rparr>"

definition native_final :: CheckoutSparkNativeTreasuryFinalization where
  "native_final = \<lparr>native_intent = Some (CheckoutSparkNativeTreasuryBudget.extend sample_budget
       \<lparr>native_invoiceId = sample_transfer, native_invoiceRequest = ''spark-invoice'', native_amountSats = 112, native_preparedAt = 1800\<rparr>),
     native_status = Paid, providerTransferId = Some ''receive'', native_observedAt = Some 1900,
     native_finalFeeSats = Some 0, native_finalDebitSats = Some 112\<rparr>"

definition final_state :: CheckoutSparkSettledReconciliation where
  "final_state = sample_state native_final (Some sample_credit) [paid_leg, conduit_leg native_final] 1900"

lemma sample_accounting:
  "settled_digest sample_ports (accounting_value sample_plan sample_credit [paid_leg] 111 1 112) = short_digest 12"
  by (simp add: sized_digest accounting_value_def paid_leg_def attempted_leg_def sample_leg_def payout_intent_def
      closed_generations_def sample_plan_digest sample_credit_def sample_transfer_def sample_text_data)

lemma final_budget: "budgetFromExactState sample_ports final_state = Inr sample_budget"
proof -
  have p: "leg_legId paid_leg = short_digest 19" "finalDebitSats paid_leg = Some 1001" "commerce_leg_settled paid_leg"
    by (simp_all add: paid_leg_def attempted_fields commerce_leg_settled_def is_safe_def MAX_SAFE_INTEGER_def)
  have c: "leg_legId (conduit_leg native_final) = short_digest 187" "allocationSats (conduit_leg native_final) = Some 111"
    "creditedSats sample_credit = 1113" "legId (sample_recipients ! 1) = short_digest 187"
    by (simp_all add: conduit_leg_def sample_leg_def sample_credit_def sample_recipients_def)
  show ?thesis
    using sample_accounting
    by (simp add: budgetFromExactState_def final_state_def sample_state_def sample_native sample_fields sample_conduit p c [unfolded One_nat_def]
        sample_ids is_safe_def MAX_SAFE_INTEGER_def Let_def sample_budget_def)
qed

lemma final_restores [simp]:
  "restoreCheckoutSparkSettledReconciliation sample_ports final_state = Inr final_state"
proof -
  have fin: "restoreCheckoutSparkNativeTreasuryFinalization sample_ports (Some native_final) final_state = Inr native_final"
    using final_budget sample_transfer_id
    by (simp add: restoreCheckoutSparkNativeTreasuryFinalization_def native_final_def final_state_def sample_state_def
        sample_fields sample_treasury_def sample_budget_def CheckoutSparkNativeTreasuryBudget.defs sample_transfer_def
        is_safe_def MAX_SAFE_INTEGER_def intent_observations_def paid_leg_def attempted_fields conduit_leg_def sample_leg_def
        sample_credit_def observable_statuses_def)
  have leg: "check_final_amounts paid_leg payout_intent 1002 = Inr ()"
    by (simp add: check_final_amounts_def paid_leg_def attempted_fields settled_sats_def is_safe_def MAX_SAFE_INTEGER_def
        payout_intent_def)
  show ?thesis
    unfolding final_state_def paid_leg_def
  proof (rule sample_state_restores [OF attempt_restores])
    show "check_final_amounts (attempted_leg payout_intent Paid 1700 (Some 1) (Some 1001)) payout_intent 1002 = Inr ()"
      using leg by (simp add: paid_leg_def)
    show "restoreCheckoutSparkNativeTreasuryFinalization sample_ports (Some native_final)
        (sample_state native_final (Some sample_credit)
          [attempted_leg payout_intent Paid 1700 (Some 1) (Some 1001), conduit_leg native_final] 1900) = Inr native_final"
      using fin by (simp add: final_state_def paid_leg_def)
  qed (simp_all add: sample_short observable_statuses_def is_safe_def MAX_SAFE_INTEGER_def attempted_fields native_final_def)
qed

lemma sample_distinct: "distinct_legs final_state" "distinct_legs submitted_state"
  by (simp_all add: distinct_legs_def final_state_def submitted_state_def sample_state_def paid_leg_def attempted_fields
      conduit_leg_def sample_leg_def sample_ids sample_fields sample_recipients_def)

subsection \<open>The renewal\<close>

text \<open>The submitted payout came back from the provider; the merchant is paid by a later invoice.\<close>

definition sample_closure :: CheckoutSparkSettledReturnClosure where
  "sample_closure = \<lparr>closure_schemaVersion = 1, closure_planDigest = planDigest sample_plan, closure_legId = short_digest 19,
     closure_intentDigest = intentDigest sample_ports sample_plan payout_intent, closure_transferId = sample_transfer,
     closure_requestId = ''request'', closure_paymentHash = zero_hash, closure_debitedSats = 1001,
     closure_returnedSats = 1001, netDebitSats = 0, closure_observedAt = 3999000\<rparr>"

definition sample_proof :: returned_proof where
  "sample_proof = \<lparr>proof_closure = sample_closure, proof_allocationSats = 1002, proof_availableSats = 1113\<rparr>"

definition archived_payout :: CheckoutSparkSettledClosedGeneration where
  "archived_payout = \<lparr>closed_generation = 0, closed_intent = payout_intent, closed_status = Submitted, closed_observedAt = 1700,
     closed_finalFeeSats = None, closed_finalDebitSats = None, closure = sample_closure\<rparr>"

definition renewed_leg :: CheckoutSparkSettledLegProgress where
  "renewed_leg = (sample_leg (short_digest 19) (Some 1002))\<lparr>leg_intent := Some later_intent, leg_status := Prepared,
     leg_observedAt := Some 4000000, generation := Some 1, closedGenerations := Some [archived_payout]\<rparr>"

definition renewed_state :: CheckoutSparkSettledReconciliation where
  "renewed_state = sample_state createCheckoutSparkNativeTreasuryFinalization (Some sample_credit)
     [renewed_leg, conduit_leg createCheckoutSparkNativeTreasuryFinalization] 4000000"

lemma payout_window: "checkoutSparkProviderSendWindowEndsAt sample_ports payout_text = Some 3600000"
  using payout_read by (simp add: checkoutSparkProviderSendWindowEndsAt_def)

lemma sample_closed: "restoreCheckoutSparkSettledReturnClosure sample_ports sample_closure sample_plan payout_intent = Inr sample_closure"
proof -
  have t: "js_trim ''request'' = ''request''" by code_simp
  show ?thesis
    by (simp add: restoreCheckoutSparkSettledReturnClosure_def sample_closure_def payout_intent_def valid_amount_def is_safe_def
        MAX_SAFE_INTEGER_def t)
qed

lemma sample_returned:
  "assertCheckoutSparkSettledReturnedProof sample_ports (Some sample_proof) sample_plan
     \<lparr>target_generation = None, target_walletId = ''wallet'', target_network = ''mainnet'', target_legId = short_digest 19,
      target_recipientId = zero_hash, target_allocationSats = 1002, unpaidAllocationSats = 1113, target_intent = payout_intent\<rparr> 4000000
   = Inr sample_closure"
  using sample_closed
  by (simp add: assertCheckoutSparkSettledReturnedProof_def requireCheckoutSparkSettledExactOutgoingRequest_def sample_native
      sample_fields sample_find sample_recipients_def sample_input_def payout_intent_def payout_read sample_proof_def
      valid_amount_def is_safe_def MAX_SAFE_INTEGER_def PROOF_LIFETIME_MS_def sample_closure_def Let_def
      del: sample_invoices)

lemma renewed_allocation: "leg_legId renewed_leg = short_digest 19" "allocationSats renewed_leg = Some 1002"
  by (simp_all add: renewed_leg_def sample_leg_def)

lemma renewed_restores:
  "restore_leg sample_ports 5 sample_plan (Some sample_credit)
     (hd (recipients sample_plan), renewed_leg, sample_leg (short_digest 19) (Some 1002)) = Inr renewed_leg"
proof -
  have k: "kind (hd (recipients sample_plan)) = Merchant" by (simp add: sample_fields sample_recipients_def)
  have b: "leg_legId (sample_leg (short_digest 19) (Some 1002)) = short_digest 19"
    "allocationSats (sample_leg (short_digest 19) (Some 1002)) = Some 1002" by (simp_all add: sample_leg_def)
  have i: "preparedAt payout_intent = 1600" "preparedAt later_intent = 4000000" "intent_paymentHash payout_intent = zero_hash"
    "intent_paymentHash later_intent = short_digest 1" "intent_paymentRequest payout_intent = payout_text"
    "intent_paymentRequest later_intent = later_text"
    by (simp_all add: payout_intent_def later_intent_def)
  have ne: "short_digest 1 \<noteq> zero_hash" "later_text \<noteq> payout_text" by code_simp+
  have closed: "restore_closed_generation sample_ports sample_plan (sample_leg (short_digest 19) (Some 1002)) later_intent archived_payout
      = Inr archived_payout"
    using sample_intents(1) [OF b] sample_closed ne
    by (simp add: restore_closed_generation_def archived_payout_def i payout_window sample_fields sample_closure_def
        is_safe_def MAX_SAFE_INTEGER_def)
  have l: "leg_intent renewed_leg = Some later_intent" "leg_status renewed_leg = Prepared" "leg_observedAt renewed_leg = Some 4000000"
    "generation renewed_leg = Some 1" "closedGenerations renewed_leg = Some [archived_payout]" "finalFeeSats renewed_leg = None"
    "finalDebitSats renewed_leg = None" "renewed_leg\<lparr>leg_intent := Some later_intent, generation := Some 1,
       closedGenerations := Some [archived_payout]\<rparr> = renewed_leg"
    by (simp_all add: renewed_leg_def sample_leg_def)
  show ?thesis
    using sample_intents(2) [OF b] closed k b
    by (simp add: restore_leg_def restore_attempt_def restore_archive_def restore_generation_shape_def
        getCheckoutSparkSettledLegGeneration_def closed_generations_def l i renewed_allocation check_final_amounts_def
        is_safe_def MAX_SAFE_INTEGER_def)
qed

lemma renewed_state_restores [simp]:
  "restoreCheckoutSparkSettledReconciliation sample_ports renewed_state = Inr renewed_state"
  unfolding renewed_state_def
proof (rule sample_state_restores [OF renewed_restores])
  have "leg_debit renewed_leg = 0"
    by (simp add: leg_debit_def renewed_leg_def sample_leg_def closed_generations_def archived_payout_def sample_closure_def)
  then show "is_safe (leg_debit renewed_leg)" "leg_debit renewed_leg \<le> or_else (allocationSats renewed_leg) 0"
    "is_safe (leg_debit renewed_leg + leg_debit (conduit_leg createCheckoutSparkNativeTreasuryFinalization))"
    "leg_debit renewed_leg + leg_debit (conduit_leg createCheckoutSparkNativeTreasuryFinalization) \<le> 1113"
    by (simp_all add: sample_short renewed_allocation createCheckoutSparkNativeTreasuryFinalization_def is_safe_def
        MAX_SAFE_INTEGER_def)
qed (simp_all add: sample_short renewed_leg_def sample_leg_def is_safe_def MAX_SAFE_INTEGER_def
    createCheckoutSparkNativeTreasuryFinalization_def restoreCheckoutSparkNativeTreasuryFinalization_def)

lemma sample_renews:
  "renewCheckoutSparkSettledLeg sample_ports submitted_state (short_digest 19) later_intent (Some sample_proof) 4000000
   = Inr renewed_state"
proof -
  let ?conduit = "conduit_leg createCheckoutSparkNativeTreasuryFinalization"
  let ?leg = "attempted_leg payout_intent Submitted 1700 None None"
  have c: "leg_legId ?conduit = short_digest 187" "allocationSats ?conduit = Some 111" "leg_status ?conduit = Unprepared"
    "?conduit\<lparr>generation := Some (getCheckoutSparkSettledLegGeneration ?conduit), closedGenerations := Some (closed_generations ?conduit)\<rparr>
      = ?conduit"
    by (simp_all add: conduit_leg_def sample_leg_def createCheckoutSparkNativeTreasuryFinalization_def
        getCheckoutSparkSettledLegGeneration_def closed_generations_def)
  have i: "publicZap payout_intent = None" "preparedAt later_intent = 4000000" "preparedAt payout_intent = 1600"
    "intent_paymentRequest payout_intent = payout_text" by (simp_all add: payout_intent_def later_intent_def)
  have f: "state_plan submitted_state = sample_plan" "credit submitted_state = Some sample_credit"
    "legs submitted_state = [?leg, ?conduit]" "updatedAt submitted_state = 1700"
    by (simp_all add: submitted_state_def sample_state_def)
  have p: "walletId sample_plan = ''wallet''" "network sample_plan = ''mainnet''" "recipientId (sample_recipients ! 0) = zero_hash"
    by (simp_all add: sample_fields sample_recipients_def)
  have o: "closure_observedAt sample_closure = 3999000" by (simp add: sample_closure_def)
  have a: "?leg\<lparr>generation := Some 1, closedGenerations := Some [archived_payout], leg_intent := Some later_intent,
      leg_status := Prepared, leg_observedAt := Some 4000000, finalFeeSats := None, finalDebitSats := None\<rparr> = renewed_leg"
    by (simp add: attempted_leg_def renewed_leg_def sample_leg_def)
  have m: "submitted_state\<lparr>state_schemaVersion := 5, legs := [renewed_leg, ?conduit], updatedAt := 4000000\<rparr> = renewed_state"
    by (simp add: submitted_state_def sample_state_def renewed_state_def)
  show ?thesis
    using sample_returned
    by (simp add: renewCheckoutSparkSettledLeg_def f attempted_fields c sample_find sample_ids p sample_fields sample_native i
        payout_window o sample_intents Let_def is_safe_def MAX_SAFE_INTEGER_def a m flip: archived_payout_def)
qed

end
