(* ===== verification/Settled_Claims.thy ===== *)
theory Settled_Claims
  imports Sample_States
begin

text \<open>
  The properties of the settled checkout: what the router and its plan guarantee, each with an
  instance on the sample checkout.
\<close>

subsection \<open>The life of a payout\<close>

text \<open>C12. Whatever sequence of operations the router is given, refused ones included, every payout leg
  moves only by the steps of the abstract leg: it is prepared once, its status follows the order of
  provider observations, it is renewed at most once and only unpaid, and the leg of the native
  treasury takes no Lightning attempt.\<close>

theorem router_refines_leg_protocol:
  assumes "distinct_legs s" and "i < length (legs s)"
  shows "(leg_moves (natives s ! i))\<^sup>*\<^sup>* (leg_view (legs s ! i)) (leg_view (legs (fold (attempt_operation env restorer) ops s) ! i))"
proof -
  let ?s' = "fold (attempt_operation env restorer) ops s"
  note run = router.run_moves [OF assms(1), of env restorer ops]
  have "length (legs ?s') = length (legs s)" using run by simp
  moreover have "(leg_moves (natives s ! i))\<^sup>*\<^sup>* (map leg_view (legs s) ! i) (map leg_view (legs ?s') ! i)"
    using run assms(2) by (simp del: nth_map)
  ultimately show ?thesis using assms(2) by simp
qed

lemma router_refines_leg_protocol_witness:
  "(leg_moves False)\<^sup>*\<^sup>* (leg_view (attempted_leg payout_intent Submitted 1700 None None))
     (leg_view (legs (fold (attempt_operation sample_ports (\<lambda>settlement _. Inr settlement))
        [Renew (short_digest 19) later_intent (Some sample_proof) 4000000, Reload] submitted_state) ! 0))"
proof -
  have n: "natives submitted_state ! 0 = False" "legs submitted_state ! 0 = attempted_leg payout_intent Submitted 1700 None None"
    "0 < length (legs submitted_state)"
    by (simp_all add: natives_def submitted_state_def sample_state_def sample_fields sample_recipients_def native_recipient_def)
  show ?thesis using router_refines_leg_protocol [OF sample_distinct(2) n(3)] unfolding n .
qed

text \<open>C3. A paid payout is final: no sequence of operations takes the leg out of paid, gives it another
  transfer or another generation, and the amount the native treasury collected never changes.\<close>

theorem paid_payout_is_final:
  assumes "distinct_legs s" and "i < length (legs s)" and "leg_status (legs s ! i) = Paid"
  shows "attempt_kept (natives s ! i) (leg_view (legs s ! i))
           (leg_view (legs (fold (attempt_operation env restorer) ops s) ! i))
    \<and> leg_status (legs (fold (attempt_operation env restorer) ops s) ! i) = Paid"
proof -
  let ?s' = "fold (attempt_operation env restorer) ops s"
  have l: "length (legs ?s') = length (legs s)" using router.run_moves [OF assms(1), of env restorer ops] by simp
  have k: "attempt_kept (natives s ! i) (leg_view (legs s ! i)) (leg_view (legs ?s' ! i))"
    using router.run_keeps [OF assms(1), of i env restorer ops] assms(2) l by simp
  then show ?thesis using assms(3) by (simp add: attempt_kept_def leg_view_def)
qed

lemma paid_payout_is_final_witness:
  "leg_status (legs (fold (attempt_operation sample_ports (\<lambda>settlement _. Inr settlement))
     [Observe \<lparr>evidence_legId = short_digest 19, evidence_transferId = sample_transfer, evidence_paymentHash = zero_hash,
        evidence_status = TerminalFailure, evidence_observedAt = 2000, evidence_finalFeeSats = None, evidence_finalDebitSats = None\<rparr>]
     final_state) ! 0) = Paid"
proof -
  have "leg_status (legs final_state ! 0) = Paid" "0 < length (legs final_state)"
    by (simp_all add: final_state_def sample_state_def paid_leg_def attempted_fields)
  from paid_payout_is_final [OF sample_distinct(1) this(2,1)] show ?thesis by blast
qed

subsection \<open>The credit\<close>

text \<open>C18. Recording a credit divides it without loss: the allocations of the legs together are the
  credited amount, which the invoice bounds; and when the checkout had no credit yet, every recipient
  is allocated at least the weight the plan froze for it.\<close>

theorem recorded_credit_is_divided:
  assumes r: "recordCheckoutSparkSettledCredit env s e = Inr s'" and d: "distinct_legs s"
  shows "\<exists>c. credit s' = Some c \<and> total_allocation (legs s') = creditedSats c
     \<and> creditedSats c \<le> grossFundingSats (funding (state_plan s'))
     \<and> (credit s = None \<longrightarrow>
          list_all2 (\<lambda>r l. \<exists>a. allocationSats l = Some a \<and> weightSats r \<le> a) (recipients (state_plan s')) (legs s'))"
proof -
  obtain current c where c: "restoreCheckoutSparkSettledReconciliation env s = Inr current"
    and s': "s' = current \<and> credit current \<noteq> None \<or> (credit current = None
          \<and> (\<exists>ls. allocatedLegs (state_plan current) (creditedSats c) = Inr ls
          \<and> assertCheckoutSparkSettledFundingCoverage (state_plan current) (creditedSats c) = Inr ()
          \<and> s' = current\<lparr>credit := Some c, legs := ls, updatedAt := max (updatedAt current) (credit_observedAt c)\<rparr>))"
    using r unfolding recordCheckoutSparkSettledCredit_def
    by (elim bind_elim) (auto simp: bind_result_Inr split: option.split_asm if_split_asm)
  have sound: "state_sound current" by (rule restore_sound [OF c])
  then have ps: "plan_sound (state_plan current)" by (simp add: state_sound_def)
  have dc: "distinct (map legId (recipients (state_plan current)))"
    using d restored_moves(5) [OF c] by (simp add: distinct_legs_def)
  show ?thesis
  proof (cases "credit current")
    case None
    then obtain ls where ls: "allocatedLegs (state_plan current) (creditedSats c) = Inr ls"
      "assertCheckoutSparkSettledFundingCoverage (state_plan current) (creditedSats c) = Inr ()"
      "s' = current\<lparr>credit := Some c, legs := ls, updatedAt := max (updatedAt current) (credit_observedAt c)\<rparr>"
      using s' by blast
    show ?thesis
      using allocations_partition [OF ps ls(1) dc] covered_allocations [OF ps ls(1) dc ls(2)] by (simp add: ls(3))
  next
    case (Some prior)
    then obtain base where b: "allocatedLegs (state_plan current) (creditedSats prior) = Inr base"
      "map allocationSats base = map allocationSats (legs current)"
      using sound by (auto simp: state_sound_def)
    have "map (\<lambda>a. or_else a 0) (map allocationSats base) = map (\<lambda>a. or_else a 0) (map allocationSats (legs current))"
      by (simp only: b(2))
    then have "total_allocation (legs current) = total_allocation base" by (simp add: total_allocation_def o_def)
    moreover have "credit s = credit current" using restore_sound(3) [OF c] by simp
    ultimately show ?thesis using allocations_partition [OF ps b(1) dc] s' Some by simp
  qed
qed

lemma created_restores: "restoreCheckoutSparkSettledReconciliation sample_ports created_state = Inr created_state"
proof -
  let ?m = "sample_leg (short_digest 19) None" and ?c = "sample_leg (short_digest 187) None"
  have rows: "restore_leg sample_ports 5 sample_plan None (sample_recipients ! 0, ?m, ?m) = Inr ?m"
      "restore_leg sample_ports 5 sample_plan None (sample_recipients ! Suc 0, ?c, ?c) = Inr ?c"
    by (simp_all add: restore_leg_def sample_leg_def sample_native sample_recipients_def closed_generations_def
        restore_generation_shape_def getCheckoutSparkSettledLegGeneration_def)
  have r: "recipients sample_plan = [sample_recipients ! 0, sample_recipients ! Suc 0]"
    by (simp add: sample_fields sample_recipients_def)
  have m: "native_mirror_ok sample_plan [?m, ?c] createCheckoutSparkNativeTreasuryFinalization"
    by (simp add: native_mirror_ok_def sample_leg_def sample_find sample_recipients_def createCheckoutSparkNativeTreasuryFinalization_def)
  have f: "restoreCheckoutSparkNativeTreasuryFinalization sample_ports (Some createCheckoutSparkNativeTreasuryFinalization) x
      = Inr createCheckoutSparkNativeTreasuryFinalization" for x
    by (simp add: restoreCheckoutSparkNativeTreasuryFinalization_def createCheckoutSparkNativeTreasuryFinalization_def)
  show ?thesis
    using rows m
    by (simp add: restoreCheckoutSparkSettledReconciliation_def created_state_def sample_state_def sample_native r
        sample_created [unfolded created_state_def sample_state_def] zip3_def settled_time_def is_safe_def MAX_SAFE_INTEGER_def
        sample_fields(2) total_debit_def leg_overspent_def leg_debit_def sample_leg_def closed_generations_def
        latest_observation_def f)
qed

lemma sample_credited:
  "recordCheckoutSparkSettledCredit sample_ports created_state sample_credit
   = Inr (created_state\<lparr>credit := Some sample_credit, legs := allocated_legs, updatedAt := 1500\<rparr>)"
proof -
  have f: "state_plan created_state = sample_plan" "credit created_state = None" "updatedAt created_state = 1000"
    "creditedSats sample_credit = 1113" "credit_observedAt sample_credit = 1500"
    by (simp_all add: created_state_def sample_state_def sample_credit_def)
  have "assertCheckoutSparkSettledFundingCoverage sample_plan 1113 = Inr ()"
    using sample_weights by (simp add: assertCheckoutSparkSettledFundingCoverage_def sample_fields is_safe_def MAX_SAFE_INTEGER_def)
  then show ?thesis
    by (simp add: recordCheckoutSparkSettledCredit_def created_restores f sample_credit_normal sample_allocated)
qed

lemma recorded_credit_is_divided_witness:
  "total_allocation allocated_legs = 1113
    \<and> list_all2 (\<lambda>r l. \<exists>a. allocationSats l = Some a \<and> weightSats r \<le> a) sample_recipients allocated_legs"
proof -
  have "distinct_legs created_state"
    by (simp add: distinct_legs_def created_state_def sample_state_def sample_fields sample_recipients_def sample_ids)
  from recorded_credit_is_divided [OF sample_credited this] show ?thesis
    by (simp add: sample_credit_def created_state_def sample_state_def sample_fields)
qed

text \<open>C15. A state the router accepts never spends more than its credit: the debits of all legs together
  are a safe integer within the credited amount, which the funding invoice bounds, no leg but the
  native treasury's spends more than its allocation, and every leg is in order (one archived attempt at
  most, returned in full; a paid leg debited by exactly its invoice and its fee).\<close>

theorem accepted_state_within_credit:
  assumes r: "restoreCheckoutSparkSettledReconciliation env s = Inr s'"
  shows "state_sound s' \<and> is_safe (total_debit (legs s')) \<and> total_debit (legs s') \<le> credit_total (credit s')
    \<and> credit_total (credit s') \<le> grossFundingSats (funding (state_plan s'))
    \<and> \<not> list_ex (leg_overspent (state_plan s')) (legs s')"
proof -
  have "0 < grossFundingSats (funding (state_plan s'))" using restore_sound(1) [OF r] by (simp add: state_sound_def plan_sound_def)
  then have "credit_total (credit s') \<le> grossFundingSats (funding (state_plan s'))"
    using restore_sound(9) [OF r] by (cases "credit s'") (simp_all add: credit_total_def)
  with restore_sound(1,6-8) [OF r] show ?thesis by blast
qed

lemma accepted_state_within_credit_witness: "state_sound final_state \<and> total_debit (legs final_state) = 1113"
  using accepted_state_within_credit [OF final_restores]
  by (simp add: final_state_def sample_state_def total_debit_def paid_leg_def sample_short native_final_def)

text \<open>C9. Once the native treasury of a checkout has been collected, nothing is left over: the payouts and
  the collection together debit exactly the credited amount.\<close>

theorem native_treasury_drains_credit:
  assumes "restoreCheckoutSparkSettledReconciliation env s = Inr s'" and "distinct_legs s"
    and "treasuryFinalization s' = Some fin" and "native_status fin = Paid"
  shows "\<exists>c. credit s' = Some c \<and> total_debit (legs s') = creditedSats c"
  by (rule drained [OF assms])

lemma native_treasury_drains_credit_witness: "\<exists>c. credit final_state = Some c \<and> total_debit (legs final_state) = creditedSats c"
proof -
  have "treasuryFinalization final_state = Some native_final" "native_status native_final = Paid"
    by (simp_all add: final_state_def sample_state_def native_final_def)
  with native_treasury_drains_credit [OF final_restores sample_distinct(1)] show ?thesis by blast
qed

subsection \<open>Renewal and restoration\<close>

text \<open>C5. A payout attempt is replaced only when it cannot be paid any more: it is the first and unpaid, the
  takeover time has come, its invoice can no longer be sent, and a fresh proof shows that the provider
  returned its whole debit and that the wallet still covers every unpaid allocation.  The new attempt
  pays another invoice, the old one is archived with its closure, and no debit changes.\<close>

theorem renewal_replaces_only_returned_attempt:
  assumes "renewCheckoutSparkSettledLeg env s target input handle now = Inr s'" and "distinct_legs s"
  shows "\<exists>current i old c. restoreCheckoutSparkSettledReconciliation env s = Inr current
     \<and> i < length (legs current) \<and> leg_legId (legs current ! i) = target
     \<and> renewable env current (legs current ! i) old handle c now \<and> renewed old c (legs s' ! i)
     \<and> (\<forall>j < length (legs current). j \<noteq> i \<longrightarrow> leg_view (legs s' ! j) = leg_view (legs current ! j))
     \<and> total_debit (legs s') = total_debit (legs current)"
  by (rule renewal_result [OF assms])

lemma renewal_replaces_only_returned_attempt_witness:
  "total_debit (legs renewed_state) = total_debit (legs submitted_state)
    \<and> (\<exists>i old c l. renewable sample_ports submitted_state l old (Some sample_proof) c 4000000 \<and> renewed old c (legs renewed_state ! i))"
  using renewal_replaces_only_returned_attempt [OF sample_renews sample_distinct(2)] by auto



subsection \<open>A second paid observation\<close>

text \<open>The router takes a second \<open>paid\<close> observation of a paid payout and rewrites its fee and debit, also when
  the native treasury has been collected on the first amounts.  The state it returns is then not
  accepted any more: the debits exceed the credit.\<close>

definition late_evidence :: CheckoutSparkSettledLegEvidence where
  "late_evidence = \<lparr>evidence_legId = short_digest 19, evidence_transferId = sample_transfer, evidence_paymentHash = zero_hash,
     evidence_status = Paid, evidence_observedAt = 2000, evidence_finalFeeSats = Some 2, evidence_finalDebitSats = Some 1002\<rparr>"

definition stranded_state :: CheckoutSparkSettledReconciliation where
  "stranded_state = sample_state native_final (Some sample_credit)
     [attempted_leg payout_intent Paid 2000 (Some 2) (Some 1002), conduit_leg native_final] 2000"

lemma late_evidence_recorded: "recordCheckoutSparkSettledLegStatus sample_ports final_state late_evidence = Inr stranded_state"
proof -
  have f: "legs final_state = [paid_leg, conduit_leg native_final]" "updatedAt final_state = 1900"
    "final_state\<lparr>legs := x, updatedAt := t\<rparr> = sample_state native_final (Some sample_credit) x t" for x t
    by (simp_all add: final_state_def sample_state_def)
  have i: "leg_index [paid_leg, conduit_leg native_final] (short_digest 19) = Some 0"
    by (simp add: leg_index_def paid_leg_def attempted_fields)
  have p: "intent_transferId payout_intent = sample_transfer" "intent_paymentHash payout_intent = zero_hash"
    "preparedAt payout_intent = 1600" "invoiceAmountSats payout_intent = 1000" "maxFeeSats payout_intent = 2"
    by (simp_all add: payout_intent_def)
  have l: "paid_leg\<lparr>leg_status := Paid, leg_observedAt := Some 2000, finalFeeSats := Some 2, finalDebitSats := Some 1002\<rparr>
      = attempted_leg payout_intent Paid 2000 (Some 2) (Some 1002)"
    by (simp add: paid_leg_def attempted_leg_def sample_leg_def)
  have pl: "leg_intent paid_leg = Some payout_intent" "leg_status paid_leg = Paid" "leg_observedAt paid_leg = Some 1700"
    "finalFeeSats paid_leg = Some 1" "finalDebitSats paid_leg = Some 1001" "allocationSats paid_leg = Some 1002"
    by (simp_all add: paid_leg_def attempted_fields)
  show ?thesis
    by (simp add: recordCheckoutSparkSettledLegStatus_def f i late_evidence_def Let_def p pl attempted_fields
        observable_statuses_def settled_time_def evidence_amounts_def settled_sats_def is_safe_def MAX_SAFE_INTEGER_def
        l stranded_state_def)
qed

lemma paid_evidence_can_strand_checkout:
  "\<exists>s'. recordCheckoutSparkSettledLegStatus sample_ports final_state late_evidence = Inr s'
      \<and> (\<forall>s''. restoreCheckoutSparkSettledReconciliation sample_ports s' \<noteq> Inr s'')"
proof (intro exI conjI allI notI)
  show "recordCheckoutSparkSettledLegStatus sample_ports final_state late_evidence = Inr stranded_state"
    by (rule late_evidence_recorded)
  fix s'' assume r: "restoreCheckoutSparkSettledReconciliation sample_ports stranded_state = Inr s''"
  note kept = restore_sound(2) [OF r] and sound = restore_sound(1,3,6) [OF r]
  obtain m c where legs: "legs s'' = [m, c]" "leg_kept (attempted_leg payout_intent Paid 2000 (Some 2) (Some 1002)) m"
      "leg_kept (conduit_leg native_final) c"
    using kept by (auto simp: stranded_state_def sample_state_def list_all2_Cons1)
  have conduit: "finalDebitSats (conduit_leg native_final) = Some 112" "closed_generations (conduit_leg native_final) = []"
    by (simp_all add: conduit_leg_def sample_leg_def native_final_def closed_generations_def)
  have "finalDebitSats m = Some 1002" "closed_generations m = []" "finalDebitSats c = Some 112" "closed_generations c = []"
    using legs(2,3) by (auto simp: leg_kept_def attempted_fields conduit)
  then have "total_debit (legs s'') = 1114" by (simp add: legs(1) total_debit_def leg_debit_def)
  moreover have "credit_total (credit s'') = 1113"
    using sound(2) by (simp add: stranded_state_def sample_state_def credit_total_def sample_credit_def)
  ultimately show False using sound(3) by simp
qed

end
