(* ===== verification/Stock_Authority.thy ===== *)
theory Stock_Authority
  imports Json_Text
begin

text \<open>
  The private messages by which a merchant entrusts stock to an event organizer
  (\<open>event-market-stock-authority.ts\<close>): a grant of the merchant, the organizer's acceptances, close
  and handouts.  A message is an unsigned event (a rumor) whose content is the JSON text of one
  payload.

  The decoder refuses every content that is not the canonical text of the payload it decodes, so the
  content of a rumor is kept as that payload, or \<open>None\<close> for any other text.  The hash of an event and
  the test of a public key are functions of third-party packages.
\<close>

subsection \<open>Events\<close>

record 'c UnsignedNostrEvent =
  event_kind :: int
  event_pubkey :: js_string
  created_at :: int
  event_tags :: "js_string list list"
  event_content :: 'c

record 'c PrivateMessageRumor = "'c UnsignedNostrEvent" +
  rumor_id :: js_string

text \<open>What third-party packages compute: \<open>getEventHash\<close> over the text of an event, \<open>lift_x\<close> of a
  public key, and the padded length of an encrypted text.\<close>

record stock_ports =
  getEventHash :: "js_string UnsignedNostrEvent \<Rightarrow> js_string"
  liftable :: "js_string \<Rightarrow> bool"
  calcPaddedLen :: "nat \<Rightarrow> nat"

subsection \<open>Identifiers\<close>

definition isValidNostrPublicKey :: "'p stock_ports_scheme \<Rightarrow> js_string \<Rightarrow> bool" where
  "isValidNostrPublicKey env value \<longleftrightarrow> is_hex64_i value \<and> liftable env value"

definition is_uuid_v4 :: "js_string \<Rightarrow> bool" where
  "is_uuid_v4 s \<longleftrightarrow>
     length s = 36
     \<and> list_all (\<lambda>(i, c). if i \<in> {8, 13, 18, 23} then c = CHR ''-''
                          else if i = 14 then c = CHR ''4''
                          else if i = 19 then c \<in> {CHR ''8'', CHR ''9'', CHR ''a'', CHR ''b''}
                          else is_lower_hex c)
         (enumerate 0 s)"

definition is_control :: "char \<Rightarrow> bool" where
  "is_control c \<longleftrightarrow> char_code c < 32 \<or> (127 \<le> char_code c \<and> char_code c < 160)"

definition EVENT_MARKET_MAX_D_TAG_LENGTH :: nat where "EVENT_MARKET_MAX_D_TAG_LENGTH = 128"

definition validDTag :: "js_string \<Rightarrow> bool" where
  "validDTag value \<longleftrightarrow>
     value \<noteq> [] \<and> length value \<le> EVENT_MARKET_MAX_D_TAG_LENGTH \<and> \<not> list_ex is_control value"

record AddressableEventCoordinate =
  coordinate_kind :: nat
  authorPubkey :: js_string
  dTag :: js_string
  coordinate_text :: js_string

definition parseAddressableCoordinate :: "js_string \<Rightarrow> nat list \<Rightarrow> AddressableEventCoordinate option" where
  "parseAddressableCoordinate value allowed =
     (let trimmed = js_trim value
      in case indexOf trimmed CHR '':'' of
           None \<Rightarrow> None
         | Some first \<Rightarrow>
             (case indexOf (drop (Suc first) trimmed) CHR '':'' of
                None \<Rightarrow> None
              | Some second \<Rightarrow>
                  let kindText = take first trimmed;
                      author = take second (drop (Suc first) trimmed);
                      d = drop (Suc second) (drop (Suc first) trimmed);
                      k = nat (decimal_value kindText)
                  in if kindText = [] \<or> length kindText > 5 \<or> \<not> list_all is_digit kindText
                        \<or> k < 30000 \<or> 40000 \<le> k \<or> k \<notin> set allowed \<or> \<not> is_hex64_i author \<or> \<not> validDTag d
                     then None
                     else Some \<lparr>coordinate_kind = k, authorPubkey = toLowerCase author, dTag = d,
                                coordinate_text = decimal_digits k @ '':'' @ toLowerCase author @ '':'' @ d\<rparr>))"

subsection \<open>Payloads\<close>

record EventMarketStockAuthorityParties =
  version :: int
  merchantPubkey :: js_string
  organizerPubkey :: js_string
  writerId :: js_string

record EventMarketStockGrant = EventMarketStockAuthorityParties +
  nonce :: js_string
  productCoordinate :: js_string
  assignmentCoordinate :: js_string
  marketCoordinate :: js_string
  occurrenceCoordinate :: js_string
  productEventId :: js_string
  assignmentEventId :: js_string
  marketEventId :: js_string
  occurrenceEventId :: js_string
  grantEventId :: js_string
  scheduleEventId :: "js_string option"
  grant_quantity :: int
  expiresAtMs :: int

record EventMarketStockAcceptance = EventMarketStockAuthorityParties +
  accepted_poolId :: js_string
  accepted_sequence :: int
  previousId :: js_string
  accepted_orderId :: js_string
  identityBinding :: js_string
  termsBinding :: js_string
  accepted_claimRef :: js_string
  accepted_quantity :: int
  acceptedAtMs :: int

record EventMarketStockClose = EventMarketStockAuthorityParties +
  closed_poolId :: js_string
  closed_sequence :: int
  closed_lastAcceptedId :: js_string
  closed_acceptedQuantity :: int

record handout_entry =
  handout_poolId :: js_string
  handout_acceptedId :: js_string
  handout_quantity :: int

record EventMarketStockHandout = EventMarketStockAuthorityParties +
  handout_orderId :: js_string
  handout_identityBinding :: js_string
  handout_termsBinding :: js_string
  handout_claimRef :: js_string
  handout_entries :: "handout_entry list"
  handedOutAtMs :: int

datatype EventMarketStockAuthorityPayload =
  Grant EventMarketStockGrant
| Accepted EventMarketStockAcceptance
| Closed EventMarketStockClose
| HandedOut EventMarketStockHandout

type_synonym stock_rumor = "EventMarketStockAuthorityPayload option PrivateMessageRumor"

fun payload_parties :: "EventMarketStockAuthorityPayload \<Rightarrow> EventMarketStockAuthorityParties" where
  "payload_parties (Grant g) = EventMarketStockAuthorityParties.truncate g"
| "payload_parties (Accepted a) = EventMarketStockAuthorityParties.truncate a"
| "payload_parties (Closed c) = EventMarketStockAuthorityParties.truncate c"
| "payload_parties (HandedOut h) = EventMarketStockAuthorityParties.truncate h"

subsection \<open>The structure of a payload\<close>

definition MAX_STOCK :: int where "MAX_STOCK = 2147483647"
definition MAX_PAYLOAD_BYTES :: nat where "MAX_PAYLOAD_BYTES = 16384"

definition stock_refusal :: js_string where
  "stock_refusal = ''Event Market stock authority is invalid.''"

definition stock_count :: "int \<Rightarrow> bool \<Rightarrow> bool" where
  "stock_count value positive \<longleftrightarrow> value \<ge> (if positive then 1 else 0) \<and> value \<le> MAX_STOCK"

definition stock_time :: "int \<Rightarrow> bool" where
  "stock_time value \<longleftrightarrow> is_safe value \<and> value \<ge> 0"

definition stock_coordinate :: "js_string \<Rightarrow> nat list \<Rightarrow> js_string \<Rightarrow> bool" where
  "stock_coordinate value kinds author \<longleftrightarrow>
     (case parseAddressableCoordinate value kinds of
        None \<Rightarrow> False | Some parsed \<Rightarrow> coordinate_text parsed = value \<and> authorPubkey parsed = author)"

definition valid_orderId :: "js_string \<Rightarrow> bool" where
  "valid_orderId s \<longleftrightarrow> s \<noteq> [] \<and> length s \<le> 512 \<and> js_trim s = s \<and> \<not> list_ex is_control s"

definition valid_parties :: "'p stock_ports_scheme \<Rightarrow> EventMarketStockAuthorityParties \<Rightarrow> bool" where
  "valid_parties env p \<longleftrightarrow>
     version p = 1
     \<and> isValidNostrPublicKey env (merchantPubkey p) \<and> is_hex64 (merchantPubkey p)
     \<and> isValidNostrPublicKey env (organizerPubkey p) \<and> is_hex64 (organizerPubkey p)
     \<and> merchantPubkey p \<noteq> organizerPubkey p \<and> is_uuid_v4 (writerId p)"

definition valid_grant :: "EventMarketStockGrant \<Rightarrow> bool" where
  "valid_grant g \<longleftrightarrow>
     is_uuid_v4 (nonce g)
     \<and> list_all is_hex64 [productEventId g, assignmentEventId g, marketEventId g, occurrenceEventId g, grantEventId g]
     \<and> (case scheduleEventId g of None \<Rightarrow> True | Some s \<Rightarrow> is_hex64 s)
     \<and> stock_count (grant_quantity g) True \<and> stock_time (expiresAtMs g)
     \<and> stock_coordinate (productCoordinate g) [30402] (merchantPubkey g)
     \<and> stock_coordinate (assignmentCoordinate g) [30410] (merchantPubkey g)
     \<and> stock_coordinate (marketCoordinate g) [30409] (organizerPubkey g)
     \<and> stock_coordinate (occurrenceCoordinate g) [31922, 31923] (organizerPubkey g)"

definition valid_acceptance :: "EventMarketStockAcceptance \<Rightarrow> bool" where
  "valid_acceptance a \<longleftrightarrow>
     list_all is_hex64 [accepted_poolId a, previousId a, identityBinding a, termsBinding a, accepted_claimRef a]
     \<and> stock_count (accepted_sequence a) True \<and> stock_count (accepted_quantity a) True \<and> stock_time (acceptedAtMs a)
     \<and> valid_orderId (accepted_orderId a)
     \<and> (if accepted_sequence a = 1 then previousId a = accepted_poolId a else previousId a \<noteq> accepted_poolId a)"

definition valid_close :: "EventMarketStockClose \<Rightarrow> bool" where
  "valid_close c \<longleftrightarrow>
     is_hex64 (closed_poolId c) \<and> is_hex64 (closed_lastAcceptedId c)
     \<and> stock_count (closed_sequence c) False \<and> stock_count (closed_acceptedQuantity c) False
     \<and> (if closed_sequence c = 0 then closed_lastAcceptedId c = closed_poolId c \<and> closed_acceptedQuantity c = 0
        else closed_lastAcceptedId c \<noteq> closed_poolId c \<and> closed_sequence c \<le> closed_acceptedQuantity c)"

definition valid_handout :: "EventMarketStockHandout \<Rightarrow> bool" where
  "valid_handout h \<longleftrightarrow>
     valid_orderId (handout_orderId h)
     \<and> list_all is_hex64 [handout_identityBinding h, handout_termsBinding h, handout_claimRef h]
     \<and> stock_time (handedOutAtMs h)
     \<and> handout_entries h \<noteq> [] \<and> length (handout_entries h) \<le> 128
     \<and> list_all (\<lambda>e. is_hex64 (handout_poolId e) \<and> is_hex64 (handout_acceptedId e) \<and> stock_count (handout_quantity e) True)
         (handout_entries h)
     \<and> distinct (map handout_acceptedId (handout_entries h))
     \<and> sorted_wrt (<) (map handout_poolId (handout_entries h))"

fun valid_terms :: "EventMarketStockAuthorityPayload \<Rightarrow> bool" where
  "valid_terms (Grant g) = valid_grant g"
| "valid_terms (Accepted a) = valid_acceptance a"
| "valid_terms (Closed c) = valid_close c"
| "valid_terms (HandedOut h) = valid_handout h"

definition parsePayload ::
    "'p stock_ports_scheme \<Rightarrow> EventMarketStockAuthorityPayload \<Rightarrow> EventMarketStockAuthorityPayload result" where
  "parsePayload env payload =
     (if valid_parties env (payload_parties payload) \<and> valid_terms payload then Inr payload else Inl stock_refusal)"

text \<open>The sender and the recipient of a message.\<close>

fun payload_sender :: "EventMarketStockAuthorityPayload \<Rightarrow> js_string" where
  "payload_sender (Grant g) = merchantPubkey g"
| "payload_sender p = organizerPubkey (payload_parties p)"

fun payload_recipient :: "EventMarketStockAuthorityPayload \<Rightarrow> js_string" where
  "payload_recipient (Grant g) = organizerPubkey g"
| "payload_recipient p = merchantPubkey (payload_parties p)"

fun time_bound :: "EventMarketStockAuthorityPayload \<Rightarrow> int \<Rightarrow> bool" where
  "time_bound (Grant g) t = (expiresAtMs g > t * 1000)"
| "time_bound (Accepted a) t = (acceptedAtMs a div 1000 = t)"
| "time_bound (Closed c) t = True"
| "time_bound (HandedOut h) t = (handedOutAtMs h div 1000 = t)"

definition assertTimeBinding :: "EventMarketStockAuthorityPayload \<Rightarrow> int \<Rightarrow> unit result" where
  "assertTimeBinding payload createdAt =
     (if \<not> stock_time createdAt \<or> \<not> is_safe (createdAt * 1000) \<or> \<not> time_bound payload createdAt
      then Inl stock_refusal else Inr ())"

subsection \<open>The text of a message\<close>

definition parties_json :: "EventMarketStockAuthorityParties \<Rightarrow> (js_string \<times> json) list" where
  "parties_json p = [(''version'', JInt (version p)), (''merchantPubkey'', JString (merchantPubkey p)),
     (''organizerPubkey'', JString (organizerPubkey p)), (''writerId'', JString (writerId p))]"

fun terms_json :: "EventMarketStockAuthorityPayload \<Rightarrow> (js_string \<times> json) list" where
  "terms_json (Grant g) =
     [(''type'', JString ''grant''), (''nonce'', JString (nonce g)), (''productCoordinate'', JString (productCoordinate g)),
      (''assignmentCoordinate'', JString (assignmentCoordinate g)), (''marketCoordinate'', JString (marketCoordinate g)),
      (''occurrenceCoordinate'', JString (occurrenceCoordinate g)), (''productEventId'', JString (productEventId g)),
      (''assignmentEventId'', JString (assignmentEventId g)), (''marketEventId'', JString (marketEventId g)),
      (''occurrenceEventId'', JString (occurrenceEventId g)), (''grantEventId'', JString (grantEventId g))]
     @ (case scheduleEventId g of None \<Rightarrow> [] | Some s \<Rightarrow> [(''scheduleEventId'', JString s)])
     @ [(''quantity'', JInt (grant_quantity g)), (''expiresAtMs'', JInt (expiresAtMs g))]"
| "terms_json (Accepted a) =
     [(''type'', JString ''accepted''), (''poolId'', JString (accepted_poolId a)), (''sequence'', JInt (accepted_sequence a)),
      (''previousId'', JString (previousId a)), (''orderId'', JString (accepted_orderId a)),
      (''identityBinding'', JString (identityBinding a)), (''termsBinding'', JString (termsBinding a)),
      (''claimRef'', JString (accepted_claimRef a)), (''quantity'', JInt (accepted_quantity a)),
      (''acceptedAtMs'', JInt (acceptedAtMs a))]"
| "terms_json (Closed c) =
     [(''type'', JString ''closed''), (''poolId'', JString (closed_poolId c)), (''sequence'', JInt (closed_sequence c)),
      (''lastAcceptedId'', JString (closed_lastAcceptedId c)), (''acceptedQuantity'', JInt (closed_acceptedQuantity c))]"
| "terms_json (HandedOut h) =
     [(''type'', JString ''handed_out''), (''orderId'', JString (handout_orderId h)),
      (''identityBinding'', JString (handout_identityBinding h)), (''termsBinding'', JString (handout_termsBinding h)),
      (''claimRef'', JString (handout_claimRef h)),
      (''entries'', JArray (map (\<lambda>e. JObject [(''poolId'', JString (handout_poolId e)),
         (''acceptedId'', JString (handout_acceptedId e)), (''quantity'', JInt (handout_quantity e))]) (handout_entries h))),
      (''handedOutAtMs'', JInt (handedOutAtMs h))]"

definition payload_text :: "EventMarketStockAuthorityPayload \<Rightarrow> js_string" where
  "payload_text payload = stringify (JObject (parties_json (payload_parties payload) @ terms_json payload))"

definition stock_tags :: "js_string \<Rightarrow> js_string list list" where
  "stock_tags recipient = [[''p'', recipient], [''subject'', ''conduit-event-stock''], [''conduit'', ''event-stock'', ''1'']]"

text \<open>The size of the relay frame that will carry a message, gift wrapped and encrypted twice.\<close>

definition MAX_RELAY_MESSAGE_CHARS :: nat where "MAX_RELAY_MESSAGE_CHARS = 512 * 1024"

definition encryptedChars :: "'p stock_ports_scheme \<Rightarrow> nat \<Rightarrow> nat" where
  "encryptedChars env plaintextBytes =
     (let prefixBytes = (if plaintextBytes < 65536 then 2 else 6)
      in 4 * ((65 + prefixBytes + calcPaddedLen env plaintextBytes + 2) div 3))"

definition signed_shell :: "int \<Rightarrow> json list \<Rightarrow> json" where
  "signed_shell k tags = JObject
     [(''id'', JString (replicate 64 CHR ''0'')), (''pubkey'', JString (replicate 64 CHR ''0'')),
      (''created_at'', JInt MAX_SAFE_INTEGER), (''kind'', JInt k), (''tags'', JArray tags), (''content'', JString []),
      (''sig'', JString (replicate 128 CHR ''0''))]"

definition event_json :: "js_string UnsignedNostrEvent \<Rightarrow> json" where
  "event_json e = JObject
     [(''kind'', JInt (event_kind e)), (''pubkey'', JString (event_pubkey e)), (''created_at'', JInt (created_at e)),
      (''tags'', JArray (map (\<lambda>tag. JArray (map JString tag)) (event_tags e))), (''content'', JString (event_content e)),
      (''id'', JString (replicate 64 CHR ''0''))]"

definition assertPrivateMessageFitsTransport :: "'p stock_ports_scheme \<Rightarrow> js_string UnsignedNostrEvent \<Rightarrow> unit result" where
  "assertPrivateMessageFitsTransport env e =
     (let hex64 = JString (replicate 64 CHR ''0'');
          rumorBytes = length (utf8_bytes (stringify (event_json e)));
          sealBytes = length (stringify (signed_shell 13 [])) + encryptedChars env rumorBytes;
          frameChars = length (stringify (JArray [JString ''EVENT'', hex64,
              signed_shell 1059 [JArray [JString ''p'', hex64]]])) + encryptedChars env sealBytes
      in if frameChars > MAX_RELAY_MESSAGE_CHARS
         then Inl (''This message is too large to send securely. For an order, remove items from the cart ''
                   @ ''or contact the merchant to arrange a smaller order.'')
         else Inr ())"

definition unsigned_stock_event :: "EventMarketStockAuthorityPayload \<Rightarrow> int \<Rightarrow> js_string UnsignedNostrEvent" where
  "unsigned_stock_event payload createdAt =
     \<lparr>event_kind = 14, event_pubkey = payload_sender payload, created_at = createdAt,
      event_tags = stock_tags (payload_recipient payload), event_content = payload_text payload\<rparr>"

subsection \<open>Construction and decoding\<close>

definition stock_rumor_of :: "'p stock_ports_scheme \<Rightarrow> EventMarketStockAuthorityPayload \<Rightarrow> int \<Rightarrow> stock_rumor" where
  "stock_rumor_of env payload createdAt =
     \<lparr>event_kind = 14, event_pubkey = payload_sender payload, created_at = createdAt,
      event_tags = stock_tags (payload_recipient payload), event_content = Some payload,
      rumor_id = getEventHash env (unsigned_stock_event payload createdAt)\<rparr>"

definition createEventMarketStockAuthorityRumor ::
    "'p stock_ports_scheme \<Rightarrow> EventMarketStockAuthorityPayload \<Rightarrow> int \<Rightarrow> stock_rumor result" where
  "createEventMarketStockAuthorityRumor env input createdAt =
     bind_result (parsePayload env input) (\<lambda>payload.
     bind_result (assertTimeBinding payload createdAt) (\<lambda>_.
     if length (utf8_bytes (payload_text payload)) > MAX_PAYLOAD_BYTES then Inl stock_refusal
     else bind_result (assertPrivateMessageFitsTransport env (unsigned_stock_event payload createdAt)) (\<lambda>_.
     Inr (stock_rumor_of env payload createdAt))))"

text \<open>Decoding catches every error and refuses.\<close>

definition catch_refusal :: "'a result \<Rightarrow> 'a result" where
  "catch_refusal r = (case r of Inl _ \<Rightarrow> Inl stock_refusal | Inr x \<Rightarrow> Inr x)"

definition parseEventMarketStockAuthorityRumor ::
    "'p stock_ports_scheme \<Rightarrow> stock_rumor \<Rightarrow> EventMarketStockAuthorityPayload result" where
  "parseEventMarketStockAuthorityRumor env rumor = catch_refusal
     (if event_kind rumor \<noteq> 14 \<or> \<not> is_hex64 (rumor_id rumor) then Inl stock_refusal
      else case event_content rumor of
        None \<Rightarrow> Inl stock_refusal
      | Some stored \<Rightarrow>
          if length (utf8_bytes (payload_text stored)) > MAX_PAYLOAD_BYTES then Inl stock_refusal
          else bind_result (parsePayload env stored) (\<lambda>payload.
          bind_result (assertTimeBinding payload (created_at rumor)) (\<lambda>_.
          if event_pubkey rumor \<noteq> payload_sender payload
             \<or> event_tags rumor \<noteq> stock_tags (payload_recipient payload)
             \<or> rumor_id rumor \<noteq> getEventHash env (unsigned_stock_event payload (created_at rumor))
          then Inl stock_refusal
          else bind_result (assertPrivateMessageFitsTransport env (unsigned_stock_event payload (created_at rumor)))
            (\<lambda>_. Inr payload))))"

text \<open>What the code relies on of the event hash: it is a SHA-256 digest in lower-case hex.\<close>

definition hashes_hex :: "'p stock_ports_scheme \<Rightarrow> bool" where
  "hashes_hex env \<longleftrightarrow> (\<forall>e. is_hex64 (getEventHash env e))"

lemma created_rumor:
  "createEventMarketStockAuthorityRumor env p t = Inr r \<Longrightarrow>
   r = stock_rumor_of env p t \<and> parsePayload env p = Inr p"
  unfolding createEventMarketStockAuthorityRumor_def
  by (auto simp: bind_result_Inr parsePayload_def split: if_split_asm)

text \<open>A rumor that was created is decoded to the payload it was created from.\<close>

lemma created_is_decoded:
  assumes "createEventMarketStockAuthorityRumor env p t = Inr r" and "hashes_hex env"
  shows "parseEventMarketStockAuthorityRumor env r = Inr p"
  using assms unfolding createEventMarketStockAuthorityRumor_def parseEventMarketStockAuthorityRumor_def
  by (auto simp: bind_result_Inr parsePayload_def stock_rumor_of_def hashes_hex_def catch_refusal_def split: if_split_asm)

text \<open>Conversely, whatever is decoded is the rumor of its payload.\<close>

lemma decoded_rumor:
  assumes "parseEventMarketStockAuthorityRumor env r = Inr p"
  shows "event_content r = Some p" "rumor_id r = getEventHash env (unsigned_stock_event p (created_at r))"
    "event_pubkey r = payload_sender p" "is_hex64 (rumor_id r)" "parsePayload env p = Inr p"
    "assertTimeBinding p (created_at r) = Inr ()"
  using assms unfolding parseEventMarketStockAuthorityRumor_def
  by (auto simp: bind_result_Inr parsePayload_def catch_refusal_def split: if_split_asm option.split_asm sum.split_asm)

end
