(* ===== verification/Signed_Events.thy ===== *)
theory Signed_Events
  imports Stock_Authority
begin

text \<open>
  Signed public events (\<open>signed-event.ts\<close>): shape, canonical identifier and BIP-340 signature, the
  memory of verified signatures, the order of replaceable events, and the relay authentication event.
\<close>

record SignedPublicNostrEvent = "js_string UnsignedNostrEvent" +
  event_id :: js_string
  event_sig :: js_string

record url_shape =
  url_protocol :: js_string
  url_hostname :: js_string
  url_username :: js_string
  url_password :: js_string
  url_hash :: js_string

text \<open>SHA-256 and \<open>schnorr.verify\<close> (\<open>None\<close> when it throws) are functions of third-party packages,
  \<open>new URL\<close> is one of the browser.\<close>

record event_ports = stock_ports +
  event_sha256 :: "nat list \<Rightarrow> nat list"
  schnorr_verify :: "nat list \<Rightarrow> nat list \<Rightarrow> nat list \<Rightarrow> bool option"
  new_URL :: "js_string \<Rightarrow> url_shape option"

definition MAX_VERIFIED_SIGNATURES :: nat where "MAX_VERIFIED_SIGNATURES = 4096"

definition is_hex128_i :: "js_string \<Rightarrow> bool" where
  "is_hex128_i s \<longleftrightarrow> length s = 128 \<and> list_all is_any_hex s"

definition tags_json :: "js_string list list \<Rightarrow> json" where
  "tags_json tags = JArray (map (\<lambda>tag. JArray (map JString tag)) tags)"

definition computeEventId :: "'p event_ports_scheme \<Rightarrow> SignedPublicNostrEvent \<Rightarrow> js_string" where
  "computeEventId env event =
     json_digest (event_sha256 env) (JArray [JInt 0, JString (event_pubkey event), JInt (created_at event),
       JInt (event_kind event), tags_json (event_tags event), JString (event_content event)])"

definition event_shape_ok :: "SignedPublicNostrEvent \<Rightarrow> bool" where
  "event_shape_ok event \<longleftrightarrow>
     is_hex64_i (event_id event) \<and> is_hex64_i (event_pubkey event) \<and> is_hex128_i (event_sig event)
     \<and> is_safe (created_at event) \<and> created_at event \<ge> 0 \<and> is_safe (event_kind event)
     \<and> list_all (\<lambda>tag. tag \<noteq> []) (event_tags event)"

definition event_signature_key :: "SignedPublicNostrEvent \<Rightarrow> js_string" where
  "event_signature_key event =
     toLowerCase (event_pubkey event) @ '':'' @ toLowerCase (event_id event) @ '':'' @ toLowerCase (event_sig event)"

definition remember_event :: "js_string \<Rightarrow> js_string list \<Rightarrow> js_string list" where
  "remember_event key cache =
     (let kept = (if length cache \<ge> MAX_VERIFIED_SIGNATURES then tl cache else cache)
      in if key \<in> set kept then kept else kept @ [key])"

definition schnorr_ok :: "'p event_ports_scheme \<Rightarrow> SignedPublicNostrEvent \<Rightarrow> bool" where
  "schnorr_ok env event \<longleftrightarrow>
     schnorr_verify env (hexToBytes (event_sig event)) (hexToBytes (event_id event)) (hexToBytes (event_pubkey event)) = Some True"

text \<open>The verdict and the memory after it; the memory is a set in insertion order.\<close>

definition isValidSignedPublicNostrEvent ::
    "'p event_ports_scheme \<Rightarrow> js_string list \<Rightarrow> SignedPublicNostrEvent \<Rightarrow> bool \<times> js_string list" where
  "isValidSignedPublicNostrEvent env cache event =
     (if \<not> event_shape_ok event \<or> computeEventId env event \<noteq> toLowerCase (event_id event) then (False, cache)
      else if event_signature_key event \<in> set cache then (True, cache)
      else if schnorr_ok env event then (True, remember_event (event_signature_key event) cache)
      else (False, cache))"

text \<open>The verdict of a fresh process.\<close>

definition valid_event :: "'p event_ports_scheme \<Rightarrow> SignedPublicNostrEvent \<Rightarrow> bool" where
  "valid_event env event = fst (isValidSignedPublicNostrEvent env [] event)"

definition isExactRelayAuthEvent ::
    "'p event_ports_scheme \<Rightarrow> SignedPublicNostrEvent \<Rightarrow> js_string \<Rightarrow> js_string \<Rightarrow> js_string \<Rightarrow> int \<Rightarrow> bool" where
  "isExactRelayAuthEvent env event expectedPubkey relayUrl challenge createdAt \<longleftrightarrow>
     valid_event env event \<and> event_kind event = 22242
     \<and> toLowerCase (event_pubkey event) = toLowerCase expectedPubkey \<and> created_at event = createdAt
     \<and> event_content event = []
     \<and> stringify (tags_json (event_tags event)) = stringify (tags_json [[''relay'', relayUrl], [''challenge'', challenge]])"

subsection \<open>Replaceable events\<close>

record ReplaceableEventFrontier =
  frontier_createdAt :: "js_number option"
  frontier_eventId :: "js_string option"

definition normalizeFrontierCreatedAt :: "js_number option \<Rightarrow> int option" where
  "normalizeFrontierCreatedAt value =
     (case value of None \<Rightarrow> None
      | Some x \<Rightarrow> (case safe_value x of None \<Rightarrow> None | Some i \<Rightarrow> if i \<ge> 0 then Some i else None))"

definition normalizeFrontierEventId :: "js_string option \<Rightarrow> js_string option" where
  "normalizeFrontierEventId value =
     (case value of None \<Rightarrow> None
      | Some s \<Rightarrow> (let n = toLowerCase (js_trim s) in if n = [] then None else Some n))"

definition compareReplaceableEventFrontiers :: "ReplaceableEventFrontier \<Rightarrow> ReplaceableEventFrontier \<Rightarrow> int" where
  "compareReplaceableEventFrontiers candidate current =
     (case (normalizeFrontierCreatedAt (frontier_createdAt candidate), normalizeFrontierCreatedAt (frontier_createdAt current)) of
        (None, None) \<Rightarrow> 0
      | (None, Some _) \<Rightarrow> - 1
      | (Some _, None) \<Rightarrow> 1
      | (Some t, Some u) \<Rightarrow>
          if t > u then 1 else if t < u then - 1
          else (case (normalizeFrontierEventId (frontier_eventId candidate), normalizeFrontierEventId (frontier_eventId current)) of
                  (None, None) \<Rightarrow> 0
                | (None, Some _) \<Rightarrow> - 1
                | (Some _, None) \<Rightarrow> 1
                | (Some a, Some b) \<Rightarrow> if a = b then 0 else if a < b then 1 else - 1))"

text \<open>The normalized time and identifier, the only thing the comparison looks at.\<close>

definition frontier_rank :: "ReplaceableEventFrontier \<Rightarrow> int \<times> js_string option" where
  "frontier_rank f =
     (case normalizeFrontierCreatedAt (frontier_createdAt f) of
        None \<Rightarrow> (- 1, None) | Some t \<Rightarrow> (t, normalizeFrontierEventId (frontier_eventId f)))"

fun rank_above :: "int \<times> js_string option \<Rightarrow> int \<times> js_string option \<Rightarrow> bool" where
  "rank_above (t, a) (u, b) \<longleftrightarrow>
     t > u \<or> t = u \<and> (case (a, b) of (Some x, Some y) \<Rightarrow> x < y | (Some x, None) \<Rightarrow> True | _ \<Rightarrow> False)"

lemma normalized_time: "normalizeFrontierCreatedAt x = Some t \<Longrightarrow> 0 \<le> t"
  by (auto simp: normalizeFrontierCreatedAt_def split: option.splits if_splits)

lemma frontier_rank_simps:
  "normalizeFrontierCreatedAt (frontier_createdAt f) = None \<Longrightarrow> frontier_rank f = (- 1, None)"
  "normalizeFrontierCreatedAt (frontier_createdAt f) = Some t \<Longrightarrow> frontier_rank f = (t, normalizeFrontierEventId (frontier_eventId f))"
  by (simp_all add: frontier_rank_def)

lemma compare_rank:
  "compareReplaceableEventFrontiers c d =
     (if rank_above (frontier_rank c) (frontier_rank d) then 1 else if frontier_rank c = frontier_rank d then 0 else - 1)"
proof (cases "normalizeFrontierCreatedAt (frontier_createdAt c)"; cases "normalizeFrontierCreatedAt (frontier_createdAt d)")
  fix t u
  assume t: "normalizeFrontierCreatedAt (frontier_createdAt c) = Some t" and u: "normalizeFrontierCreatedAt (frontier_createdAt d) = Some u"
  show ?thesis
    unfolding compareReplaceableEventFrontiers_def frontier_rank_simps(2) [OF t] frontier_rank_simps(2) [OF u] t u
    by (simp split: option.split)
qed (auto simp: compareReplaceableEventFrontiers_def frontier_rank_def dest: normalized_time)

lemma rank_above_trans: "rank_above a b \<Longrightarrow> rank_above b c \<Longrightarrow> rank_above a c"
  by (cases a; cases b; cases c) (auto split: option.splits dest: less_trans)

lemma rank_above_total: "a \<noteq> b \<Longrightarrow> rank_above a b \<or> rank_above b a"
  by (cases a; cases b) (auto split: option.splits)

lemma rank_above_irrefl: "\<not> rank_above a a"
  by (cases a) (auto split: option.splits)

subsection \<open>The memory of verified signatures\<close>

definition remembered_soundly :: "'p event_ports_scheme \<Rightarrow> js_string list \<Rightarrow> bool" where
  "remembered_soundly env cache \<longleftrightarrow>
     (\<forall>event. event_shape_ok event \<longrightarrow> event_signature_key event \<in> set cache \<longrightarrow> schnorr_ok env event)"

lemma lower_hex_char: "is_any_hex c \<Longrightarrow> hex_value (char_lower c) = hex_value c"
  by (auto simp: is_any_hex_def is_lower_hex_def is_digit_def char_lower_def hex_value_def Let_def char_code_char_of)

lemma lower_hex_bytes: "list_all is_any_hex s \<Longrightarrow> hexToBytes (toLowerCase s) = hexToBytes s"
  by (induction s rule: hexToBytes.induct) (simp_all add: toLowerCase_def lower_hex_char)

lemma same_key_schnorr:
  assumes "event_shape_ok e" "event_shape_ok f" "event_signature_key e = event_signature_key f"
  shows "schnorr_ok env e = schnorr_ok env f"
proof -
  have len: "length (event_pubkey e) = length (event_pubkey f)" "length (event_id e) = length (event_id f)"
    using assms(1,2) by (simp_all add: event_shape_ok_def is_hex64_i_def)
  then have "toLowerCase (event_pubkey e) = toLowerCase (event_pubkey f)" "toLowerCase (event_id e) = toLowerCase (event_id f)"
    "toLowerCase (event_sig e) = toLowerCase (event_sig f)"
    using assms(3) by (auto simp: event_signature_key_def)
  moreover have hex: "list_all is_any_hex (event_pubkey x)" "list_all is_any_hex (event_id x)" "list_all is_any_hex (event_sig x)"
    if "event_shape_ok x" for x
    using that by (simp_all add: event_shape_ok_def is_hex64_i_def is_hex128_i_def)
  ultimately show ?thesis
    using hex [OF assms(1)] hex [OF assms(2)] lower_hex_bytes unfolding schnorr_ok_def by metis
qed

text \<open>Remembering verified signatures never changes a verdict, and the memory stays bounded.\<close>

lemma event_memory_is_transparent:
  assumes sound: "remembered_soundly env cache" and bound: "length cache \<le> MAX_VERIFIED_SIGNATURES"
  shows "fst (isValidSignedPublicNostrEvent env cache e) = valid_event env e"
    "remembered_soundly env (snd (isValidSignedPublicNostrEvent env cache e))"
    "length (snd (isValidSignedPublicNostrEvent env cache e)) \<le> MAX_VERIFIED_SIGNATURES"
proof -
  let ?k = "event_signature_key e"
  have "schnorr_ok env f" if "event_shape_ok f" "event_signature_key f \<in> set (remember_event ?k cache)" "schnorr_ok env e" "event_shape_ok e" for f
  proof (cases "event_signature_key f \<in> set cache")
    case False
    then have "event_signature_key f = ?k"
      using that(2) by (cases cache) (auto simp: remember_event_def Let_def split: if_split_asm)
    then show ?thesis using same_key_schnorr that by metis
  qed (use sound that(1) in \<open>simp add: remembered_soundly_def\<close>)
  then show "remembered_soundly env (snd (isValidSignedPublicNostrEvent env cache e))"
    using sound by (auto simp: isValidSignedPublicNostrEvent_def remembered_soundly_def)
  show "fst (isValidSignedPublicNostrEvent env cache e) = valid_event env e"
    using sound by (auto simp: valid_event_def isValidSignedPublicNostrEvent_def remembered_soundly_def)
  show "length (snd (isValidSignedPublicNostrEvent env cache e)) \<le> MAX_VERIFIED_SIGNATURES"
    using bound by (auto simp: isValidSignedPublicNostrEvent_def remember_event_def Let_def MAX_VERIFIED_SIGNATURES_def)
qed

lemma valid_event_shape: "valid_event env e \<Longrightarrow> event_shape_ok e \<and> computeEventId env e = toLowerCase (event_id e) \<and> schnorr_ok env e"
  by (simp add: valid_event_def isValidSignedPublicNostrEvent_def split: if_split_asm)

end
