(* ===== verification/Event_Assignment.thy ===== *)
theory Event_Assignment
  imports Signed_Events
begin

text \<open>
  The public assignment of a product to an event occurrence (\<open>event-market-assignment.ts\<close>): the draft
  that is built and signed, the strict parser of a signed event, and the suitability of a product.
\<close>

subsection \<open>Values\<close>

datatype assignment_inventory = Tracked int | Untracked

record EventMarketAssignmentOrganizerStockPool =
  sp_state :: js_string
  sp_poolId :: js_string
  sp_organizerPubkey :: js_string
  sp_quantity :: int
  sp_importedQuantity :: int

datatype stock_pool_status = PoolAbsent | PoolInvalid | PoolValid EventMarketAssignmentOrganizerStockPool

record EventMarketAssignmentTuple =
  tuple_market :: js_string
  tuple_occurrence :: js_string
  tuple_product :: js_string

record EventMarketAssignmentRelayHints =
  hint_market :: "js_string option"
  hint_occurrence :: "js_string option"
  hint_product :: "js_string option"

record EventMarketAssignmentDraftInput = EventMarketAssignmentTuple +
  draft_merchantPubkey :: js_string
  draft_state :: js_string
  draft_inventory :: assignment_inventory
  draft_fulfillmentMethods :: "js_string list"
  draft_previousEventId :: "js_string option"
  draft_relayHints :: EventMarketAssignmentRelayHints
  draft_organizerStockPool :: "EventMarketAssignmentOrganizerStockPool option"

record ParsedEventMarketAssignment = EventMarketAssignmentTuple +
  assignment_coordinate :: js_string
  assignment_dTag :: js_string
  assignment_eventId :: js_string
  assignment_createdAt :: int
  assignment_organizerPubkey :: js_string
  assignment_merchantPubkey :: js_string
  assignment_state :: js_string
  assignment_inventory :: assignment_inventory
  assignment_fulfillmentMethods :: "js_string list"
  assignment_previousEventId :: "js_string option"
  assignment_relayHints :: EventMarketAssignmentRelayHints
  assignment_stockPool :: stock_pool_status
  assignment_signedEvent :: SignedPublicNostrEvent

definition ASSIGNMENT_KIND :: int where "ASSIGNMENT_KIND = 30410"
definition MAX_ALLOCATION :: int where "MAX_ALLOCATION = 2147483647"
definition MAX_EVENT_BYTES :: nat where "MAX_EVENT_BYTES = 65536"
definition PROFILE :: js_string where "PROFILE = ''event-market-assignment''"
definition ALT :: js_string where "ALT = ''Open Markets occurrence product assignment''"
definition STOCK_POOL_TAG :: js_string where "STOCK_POOL_TAG = ''conduit_stock_pool''"

subsection \<open>Coordinates\<close>

definition parseCanonicalCoordinate :: "js_string \<Rightarrow> nat list \<Rightarrow> AddressableEventCoordinate option" where
  "parseCanonicalCoordinate value kinds =
     (case parseAddressableCoordinate value kinds of
        None \<Rightarrow> None | Some parsed \<Rightarrow> if coordinate_text parsed = value then Some parsed else None)"

definition parseTuple ::
    "'a EventMarketAssignmentTuple_scheme
     \<Rightarrow> (AddressableEventCoordinate \<times> AddressableEventCoordinate \<times> AddressableEventCoordinate) option" where
  "parseTuple input =
     (case (parseCanonicalCoordinate (tuple_market input) [30409],
            parseCanonicalCoordinate (tuple_occurrence input) [31922, 31923],
            parseCanonicalCoordinate (tuple_product input) [30402]) of
        (Some market, Some occurrence, Some product) \<Rightarrow>
          if authorPubkey market \<noteq> authorPubkey occurrence then None else Some (market, occurrence, product)
      | _ \<Rightarrow> None)"

definition tupleHash :: "'p event_ports_scheme \<Rightarrow> 'a EventMarketAssignmentTuple_scheme \<Rightarrow> js_string" where
  "tupleHash env tuple =
     json_digest (event_sha256 env) (JArray [JString (tuple_market tuple), JString (tuple_occurrence tuple),
       JString (tuple_product tuple)])"

definition computeEventMarketAssignmentDTag ::
    "'p event_ports_scheme \<Rightarrow> 'a EventMarketAssignmentTuple_scheme \<Rightarrow> js_string result" where
  "computeEventMarketAssignmentDTag env tuple =
     (if parseTuple tuple = None then Inl ''Invalid occurrence assignment tuple.'' else Inr (tupleHash env tuple))"

subsection \<open>Checks\<close>

definition validRelayHint :: "'p event_ports_scheme \<Rightarrow> js_string option \<Rightarrow> bool" where
  "validRelayHint env value =
     (case value of
        None \<Rightarrow> True
      | Some v \<Rightarrow>
          if v = [] \<or> js_trim v \<noteq> v then False
          else (case new_URL env v of
                  None \<Rightarrow> False
                | Some url \<Rightarrow>
                    (url_protocol url = ''wss:'' \<or> url_protocol url = ''ws:'') \<and> url_hostname url \<noteq> []
                    \<and> url_username url = [] \<and> url_password url = [] \<and> url_hash url = []))"

definition validInventory :: "assignment_inventory \<Rightarrow> bool" where
  "validInventory inventory =
     (case inventory of Untracked \<Rightarrow> True | Tracked quantity \<Rightarrow> quantity \<ge> 0 \<and> quantity \<le> MAX_ALLOCATION)"

definition validFulfillment :: "js_string list \<Rightarrow> js_string \<Rightarrow> assignment_inventory \<Rightarrow> bool" where
  "validFulfillment methods st inventory =
     (if list_ex (\<lambda>m. m \<noteq> ''pickup'' \<and> m \<noteq> ''shipping'' \<and> m \<noteq> ''digital'') methods \<or> \<not> distinct methods then False
      else if st = ''removed'' then methods = [] \<and> (inventory = Untracked \<or> inventory = Tracked 0)
      else methods \<noteq> [] \<and> (inventory = Untracked \<or> inventory = Tracked 0 \<or> ''pickup'' \<in> set methods))"

definition validOrganizerStockPool ::
    "EventMarketAssignmentOrganizerStockPool \<Rightarrow> js_string \<Rightarrow> assignment_inventory \<Rightarrow> bool" where
  "validOrganizerStockPool pool organizer inventory \<longleftrightarrow>
     inventory \<noteq> Untracked \<and> (sp_state pool = ''active'' \<or> sp_state pool = ''closed'')
     \<and> is_hex64 (sp_poolId pool) \<and> is_hex64 (sp_organizerPubkey pool) \<and> sp_organizerPubkey pool = organizer
     \<and> sp_quantity pool > 0 \<and> sp_quantity pool \<le> MAX_ALLOCATION
     \<and> sp_importedQuantity pool \<ge> 0 \<and> sp_importedQuantity pool \<le> sp_quantity pool"

subsection \<open>Tags\<close>

text \<open>An element of a tag, undefined out of range; \<open>String(n)\<close> and \<open>Number(text)\<close> on plain decimal digits.\<close>

definition tag_at :: "js_string list \<Rightarrow> nat \<Rightarrow> js_string option" where
  "tag_at tg i = (if i < length tg then Some (tg ! i) else None)"

definition tags_named :: "js_string \<Rightarrow> js_string list list \<Rightarrow> js_string list list" where
  "tags_named name tags = filter (\<lambda>tg. tag_at tg 0 = Some name) tags"

definition text_or_empty :: "js_string option \<Rightarrow> js_string" where
  "text_or_empty t = (case t of None \<Rightarrow> [] | Some s \<Rightarrow> s)"

definition positive_text :: "js_string \<Rightarrow> bool" where
  "positive_text s \<longleftrightarrow> s \<noteq> [] \<and> hd s \<noteq> CHR ''0'' \<and> list_all is_digit s"

definition natural_text :: "js_string \<Rightarrow> bool" where
  "natural_text s \<longleftrightarrow> s = ''0'' \<or> positive_text s"

definition int_text :: "int \<Rightarrow> js_string" where
  "int_text i = number_text (JSInt i)"

definition parseOrganizerStockPool ::
    "js_string list list \<Rightarrow> js_string \<Rightarrow> assignment_inventory \<Rightarrow> stock_pool_status" where
  "parseOrganizerStockPool tags organizer inventory =
     (case tags_named STOCK_POOL_TAG tags of
        [] \<Rightarrow> PoolAbsent
      | marker # others \<Rightarrow>
          if others \<noteq> [] \<or> length marker \<noteq> 7 \<or> tag_at marker 1 \<noteq> Some ''1''
             \<or> (tag_at marker 2 \<noteq> Some ''active'' \<and> tag_at marker 2 \<noteq> Some ''closed'')
             \<or> \<not> positive_text (text_or_empty (tag_at marker 5)) \<or> \<not> natural_text (text_or_empty (tag_at marker 6))
          then PoolInvalid
          else let pool = \<lparr>sp_state = marker ! 2, sp_poolId = marker ! 3, sp_organizerPubkey = marker ! 4,
                           sp_quantity = decimal_value (marker ! 5), sp_importedQuantity = decimal_value (marker ! 6)\<rparr>
          in if validOrganizerStockPool pool organizer inventory then PoolValid pool else PoolInvalid)"

subsection \<open>The draft\<close>

record EventMarketEventDraft =
  draft_kind :: int
  draft_content :: js_string
  draft_tags :: "js_string list list"

definition reference_tag :: "js_string \<Rightarrow> js_string option \<Rightarrow> js_string list" where
  "reference_tag coordinate hint = (if truthy hint then [''a'', coordinate, the hint] else [''a'', coordinate])"

definition inventory_tag :: "assignment_inventory \<Rightarrow> js_string list" where
  "inventory_tag inventory =
     (case inventory of Tracked n \<Rightarrow> [''inventory'', ''tracked'', int_text n] | Untracked \<Rightarrow> [''inventory'', ''untracked''])"

definition stock_pool_tag :: "EventMarketAssignmentOrganizerStockPool \<Rightarrow> js_string list" where
  "stock_pool_tag pool =
     [STOCK_POOL_TAG, ''1'', sp_state pool, sp_poolId pool, sp_organizerPubkey pool, int_text (sp_quantity pool),
      int_text (sp_importedQuantity pool)]"

definition assignment_tags :: "'p event_ports_scheme \<Rightarrow> EventMarketAssignmentDraftInput \<Rightarrow> js_string list list" where
  "assignment_tags env input =
     [[''d'', tupleHash env input], [''openmarkets'', PROFILE, ''1''],
      reference_tag (tuple_market input) (hint_market (draft_relayHints input)),
      reference_tag (tuple_occurrence input) (hint_occurrence (draft_relayHints input)),
      reference_tag (tuple_product input) (hint_product (draft_relayHints input)),
      [''state'', draft_state input], inventory_tag (draft_inventory input)]
     @ map (\<lambda>m. [''fulfillment'', m]) (draft_fulfillmentMethods input)
     @ (if truthy (draft_previousEventId input) then [[''prev'', the (draft_previousEventId input)]] else [])
     @ (case draft_organizerStockPool input of None \<Rightarrow> [] | Some pool \<Rightarrow> [stock_pool_tag pool])
     @ [[''alt'', ALT]]"

definition buildEventMarketAssignmentDraft ::
    "'p event_ports_scheme \<Rightarrow> EventMarketAssignmentDraftInput \<Rightarrow> EventMarketEventDraft result" where
  "buildEventMarketAssignmentDraft env input =
     (case parseTuple input of
        None \<Rightarrow> Inl ''Event Market occurrence assignment is invalid.''
      | Some (market, occurrence, product) \<Rightarrow>
          if authorPubkey product \<noteq> draft_merchantPubkey input
             \<or> (draft_state input \<noteq> ''active'' \<and> draft_state input \<noteq> ''removed'')
             \<or> \<not> validInventory (draft_inventory input)
             \<or> \<not> validFulfillment (draft_fulfillmentMethods input) (draft_state input) (draft_inventory input)
             \<or> (case draft_previousEventId input of None \<Rightarrow> False | Some p \<Rightarrow> \<not> is_hex64 p)
             \<or> \<not> validRelayHint env (hint_market (draft_relayHints input))
             \<or> \<not> validRelayHint env (hint_occurrence (draft_relayHints input))
             \<or> \<not> validRelayHint env (hint_product (draft_relayHints input))
             \<or> (case draft_organizerStockPool input of None \<Rightarrow> False
                | Some pool \<Rightarrow> \<not> validOrganizerStockPool pool (authorPubkey market) (draft_inventory input))
          then Inl ''Event Market occurrence assignment is invalid.''
          else Inr \<lparr>draft_kind = ASSIGNMENT_KIND, draft_content = [], draft_tags = assignment_tags env input\<rparr>)"

subsection \<open>The parser\<close>

definition one_tag :: "js_string list list \<Rightarrow> js_string \<Rightarrow> nat \<Rightarrow> js_string list option" where
  "one_tag tags name n =
     (case tags_named name tags of [tg] \<Rightarrow> if length tg = n then Some tg else None | _ \<Rightarrow> None)"

definition one_at :: "js_string list option \<Rightarrow> nat \<Rightarrow> js_string option" where
  "one_at tg i = (case tg of None \<Rightarrow> None | Some t \<Rightarrow> tag_at t i)"

definition signed_event_json :: "SignedPublicNostrEvent \<Rightarrow> json" where
  "signed_event_json event = JObject
     [(''id'', JString (event_id event)), (''pubkey'', JString (event_pubkey event)), (''created_at'', JInt (created_at event)),
      (''kind'', JInt (event_kind event)), (''tags'', tags_json (event_tags event)),
      (''content'', JString (event_content event)), (''sig'', JString (event_sig event))]"

definition frame_ok :: "js_string list list \<Rightarrow> js_string \<Rightarrow> 'p event_ports_scheme \<Rightarrow> bool" where
  "frame_ok tags eventId env \<longleftrightarrow>
     is_hex64 (text_or_empty (one_at (one_tag tags ''d'' 2) 1))
     \<and> one_at (one_tag tags ''openmarkets'' 3) 1 = Some PROFILE \<and> one_at (one_tag tags ''openmarkets'' 3) 2 = Some ''1''
     \<and> (one_at (one_tag tags ''state'' 2) 1 = Some ''active'' \<or> one_at (one_tag tags ''state'' 2) 1 = Some ''removed'')
     \<and> length (tags_named ''inventory'' tags) = 1
     \<and> one_at (one_tag tags ''alt'' 2) 1 = Some ALT
     \<and> (case tags_named ''prev'' tags of
          [] \<Rightarrow> True
        | [t] \<Rightarrow> length t = 2 \<and> is_hex64 (text_or_empty (tag_at t 1)) \<and> tag_at t 1 \<noteq> Some eventId
        | _ \<Rightarrow> False)
     \<and> length (tags_named ''a'' tags) = 3
     \<and> list_all (\<lambda>t. (length t = 2 \<or> length t = 3) \<and> validRelayHint env (tag_at t 2)) (tags_named ''a'' tags)
     \<and> list_all (\<lambda>t. length t = 2) (tags_named ''fulfillment'' tags)"

definition references_to :: "js_string list list \<Rightarrow> js_string list \<Rightarrow> (js_string \<times> js_string option) list" where
  "references_to tags prefixes =
     filter (\<lambda>(coordinate, _). list_ex (startsWith coordinate) prefixes)
       (map (\<lambda>t. (text_or_empty (tag_at t 1), tag_at t 2)) (tags_named ''a'' tags))"

definition parse_inventory :: "js_string list \<Rightarrow> assignment_inventory option" where
  "parse_inventory tg =
     (if tag_at tg 1 = Some ''tracked''
      then if length tg = 3 \<and> natural_text (text_or_empty (tag_at tg 2))
              \<and> decimal_value (text_or_empty (tag_at tg 2)) \<le> MAX_ALLOCATION
           then Some (Tracked (decimal_value (text_or_empty (tag_at tg 2)))) else None
      else if tag_at tg 1 = Some ''untracked'' \<and> length tg = 2 then Some Untracked else None)"

definition present_hint :: "js_string option \<Rightarrow> js_string option" where
  "present_hint h = (if truthy h then h else None)"

definition parseEventMarketAssignmentEvent ::
    "'p event_ports_scheme \<Rightarrow> SignedPublicNostrEvent \<Rightarrow> ParsedEventMarketAssignment option" where
  "parseEventMarketAssignmentEvent env event =
     (let tags = event_tags event
      in if event_kind event \<noteq> ASSIGNMENT_KIND \<or> event_content event \<noteq> [] \<or> \<not> valid_event env event
            \<or> length (utf8_bytes (stringify (signed_event_json event))) > MAX_EVENT_BYTES
         then None
         else if \<not> frame_ok tags (event_id event) env then None
         else case (references_to tags [''30409:''], references_to tags [''31922:'', ''31923:''], references_to tags [''30402:'']) of
           ([(m, mHint)], [(c, cHint)], [(p, pHint)]) \<Rightarrow>
             let tuple = \<lparr>tuple_market = m, tuple_occurrence = c, tuple_product = p\<rparr>;
                 d = text_or_empty (one_at (one_tag tags ''d'' 2) 1);
                 st = text_or_empty (one_at (one_tag tags ''state'' 2) 1);
                 methods = map (\<lambda>t. text_or_empty (tag_at t 1)) (tags_named ''fulfillment'' tags)
             in (case parseTuple tuple of
                   None \<Rightarrow> None
                 | Some (market, _, product) \<Rightarrow>
                     if authorPubkey product \<noteq> event_pubkey event \<or> tupleHash env tuple \<noteq> d then None
                     else (case parse_inventory (hd (tags_named ''inventory'' tags)) of
                             None \<Rightarrow> None
                           | Some inventory \<Rightarrow>
                               if \<not> validFulfillment methods st inventory then None
                               else Some
                                 \<lparr>tuple_market = m, tuple_occurrence = c, tuple_product = p,
                                  assignment_coordinate = ''30410:'' @ event_pubkey event @ '':'' @ d,
                                  assignment_dTag = d, assignment_eventId = event_id event,
                                  assignment_createdAt = created_at event,
                                  assignment_organizerPubkey = authorPubkey market,
                                  assignment_merchantPubkey = event_pubkey event, assignment_state = st,
                                  assignment_inventory = inventory, assignment_fulfillmentMethods = methods,
                                  assignment_previousEventId =
                                    (case tags_named ''prev'' tags of [] \<Rightarrow> None | t # _ \<Rightarrow> tag_at t 1),
                                  assignment_relayHints =
                                    \<lparr>hint_market = present_hint mHint, hint_occurrence = present_hint cHint, hint_product = present_hint pHint\<rparr>,
                                  assignment_stockPool = parseOrganizerStockPool tags (authorPubkey market) inventory,
                                  assignment_signedEvent = event\<rparr>))
         | _ \<Rightarrow> None)"

subsection \<open>Suitable products\<close>

text \<open>What the test reads of a product.\<close>

record ProductSchema =
  product_id :: js_string
  product_pubkey :: js_string
  product_visibility :: js_string
  product_type :: js_string
  product_stock :: "js_number option"
  parentProductId :: "js_string option"
  product_format :: js_string

definition handoff_ready :: "ParsedEventMarketAssignment \<Rightarrow> js_string \<Rightarrow> bool" where
  "handoff_ready assignment organizer \<longleftrightarrow>
     (case assignment_stockPool assignment of
        PoolValid pool \<Rightarrow> sp_state pool = ''active'' \<and> sp_organizerPubkey pool = organizer
          \<and> sp_importedQuantity pool < sp_quantity pool \<and> assignment_inventory assignment \<noteq> Untracked
      | _ \<Rightarrow> False)"

definition stock_suffices :: "js_number option \<Rightarrow> assignment_inventory \<Rightarrow> bool" where
  "stock_suffices stock inventory \<longleftrightarrow>
     (case inventory of
        Tracked n \<Rightarrow> (case stock of Some (JSInt s) \<Rightarrow> n \<le> s | _ \<Rightarrow> False)
      | Untracked \<Rightarrow> stock = None)"

definition isEventMarketAssignmentProductSuitable ::
    "ParsedEventMarketAssignment \<Rightarrow> ProductSchema \<Rightarrow> ProductSchema option \<Rightarrow> js_string option \<Rightarrow> bool" where
  "isEventMarketAssignmentProductSuitable assignment product parentProduct organizerHandoff =
     (if (case organizerHandoff of None \<Rightarrow> False | Some organizer \<Rightarrow> \<not> handoff_ready assignment organizer) then False
      else if assignment_state assignment \<noteq> ''active''
        \<or> (case assignment_stockPool assignment of
             PoolInvalid \<Rightarrow> True | PoolAbsent \<Rightarrow> False
           | PoolValid pool \<Rightarrow> sp_state pool = ''active'' \<and> organizerHandoff = None)
        \<or> product_id product \<noteq> tuple_product assignment \<or> product_pubkey product \<noteq> assignment_merchantPubkey assignment
        \<or> product_visibility product \<noteq> ''public'' \<or> product_type product = ''variable''
        \<or> \<not> stock_suffices (product_stock product) (assignment_inventory assignment)
      then False
      else if product_type product = ''variation'' \<and>
        (case (parseCanonicalCoordinate (text_or_empty (parentProductId product)) [30402], parentProduct) of
           (Some parent, Some q) \<Rightarrow>
             authorPubkey parent \<noteq> assignment_merchantPubkey assignment \<or> product_id q \<noteq> coordinate_text parent
             \<or> product_pubkey q \<noteq> assignment_merchantPubkey assignment \<or> product_type q \<noteq> ''variable''
             \<or> product_visibility q \<noteq> ''public''
         | _ \<Rightarrow> True)
      then False
      else if product_format product = ''digital'' then assignment_fulfillmentMethods assignment = [''digital'']
      else ''digital'' \<notin> set (assignment_fulfillmentMethods assignment))"

subsection \<open>Decimal texts\<close>

lemma decimal_value_digits: "decimal_value (decimal_digits n) = int n"
proof (induction n rule: decimal_digits.induct)
  case (1 n)
  show ?case
  proof (cases "n < 10")
    case True
    then show ?thesis by (subst decimal_digits.simps) (simp add: decimal_value_def char_code_char_of)
  next
    case False
    then have "decimal_digits n = decimal_digits (n div 10) @ [char_of (48 + n mod 10)]" by (subst decimal_digits.simps) simp
    moreover have "int n = 10 * int (n div 10) + int (n mod 10)" by presburger
    ultimately show ?thesis using 1 False by (simp only: decimal_value_append) (simp add: char_code_char_of)
  qed
qed

lemma digits_all: "list_all is_digit (decimal_digits n)"
proof (induction n rule: decimal_digits.induct)
  case (1 n)
  have d: "is_digit (char_of (48 + m))" if "m < 10" for m :: nat
    using that by (simp add: is_digit_def char_code_char_of)
  from 1 show ?case by (subst decimal_digits.simps) (simp add: d)
qed

lemma digits_not_empty: "decimal_digits n \<noteq> []"
  by (subst decimal_digits.simps) simp

lemma digits_lead: "0 < n \<Longrightarrow> hd (decimal_digits n) \<noteq> CHR ''0''"
proof (induction n rule: decimal_digits.induct)
  case (1 n)
  show ?case
  proof (cases "n < 10")
    case True
    have "char_code (char_of (48 + n)) \<noteq> char_code CHR ''0''" using True 1(2) by (simp add: char_code_char_of) (simp add: char_code_def)
    then show ?thesis using True by (subst decimal_digits.simps) auto
  next
    case False
    then have "decimal_digits n = decimal_digits (n div 10) @ [char_of (48 + n mod 10)]" by (subst decimal_digits.simps) simp
    then show ?thesis using 1(1) [OF False] False digits_not_empty by simp
  qed
qed

lemma int_text_reads:
  assumes "0 \<le> i"
  shows "natural_text (int_text i)" "0 < i \<Longrightarrow> positive_text (int_text i)" "decimal_value (int_text i) = i"
proof -
  have t: "int_text i = decimal_digits (nat i)" using assms by (simp add: int_text_def number_text_def)
  show "positive_text (int_text i)" if "0 < i"
    using that digits_all digits_lead digits_not_empty by (simp add: t positive_text_def)
  then show "natural_text (int_text i)"
    using assms t by (cases "i = 0") (simp_all add: natural_text_def decimal_digits.simps [of 0] char_of_def bit_0)
  show "decimal_value (int_text i) = i" using assms by (simp add: t decimal_value_digits)
qed

subsection \<open>Canonical coordinates\<close>

lemma kind_digits: "decimal_digits 30402 = ''30402''" "decimal_digits 30409 = ''30409''" "decimal_digits 30410 = ''30410''"
  "decimal_digits 31922 = ''31922''" "decimal_digits 31923 = ''31923''"
  by (simp_all add: decimal_digits.simps [of "numeral _"] decimal_digits.simps [of 1] char_of_def bit_0)

lemma lower_hex_of: "is_any_hex x \<Longrightarrow> is_lower_hex (char_lower x)"
proof (cases "65 \<le> char_code x \<and> char_code x \<le> 90")
  case True
  assume "is_any_hex x"
  with True have "char_code x \<le> 70" by (auto simp: is_any_hex_def is_lower_hex_def is_digit_def)
  with True have "char_lower x = char_of (char_code x + 32)" "char_code (char_of (char_code x + 32) :: char) = char_code x + 32"
    by (simp_all add: char_lower_def char_code_char_of)
  with True \<open>char_code x \<le> 70\<close> show ?thesis by (simp add: is_lower_hex_def)
next
  case False
  assume "is_any_hex x"
  with False have "is_lower_hex x" by (auto simp: is_any_hex_def)
  moreover from this False have "char_lower x = x" by (auto simp: char_lower_def Let_def is_lower_hex_def is_digit_def)
  ultimately show ?thesis by simp
qed

lemma coordinate_parts:
  assumes "parseAddressableCoordinate v kinds = Some c"
  shows "\<exists>k a d. k \<in> set kinds \<and> is_hex64_i a \<and> authorPubkey c = toLowerCase a
    \<and> coordinate_text c = decimal_digits k @ '':'' @ toLowerCase a @ '':'' @ d"
proof -
  from assms obtain i j where i: "indexOf (js_trim v) CHR '':'' = Some i"
    and j: "indexOf (drop (Suc i) (js_trim v)) CHR '':'' = Some j"
    by (auto simp: parseAddressableCoordinate_def Let_def split: option.split_asm)
  let ?k = "nat (decimal_value (take i (js_trim v)))" and ?a = "take j (drop (Suc i) (js_trim v))"
    and ?d = "drop (Suc j) (drop (Suc i) (js_trim v))"
  show ?thesis
    by (rule exI [of _ ?k], rule exI [of _ ?a], rule exI [of _ ?d])
      (use assms i j in \<open>clarsimp simp: parseAddressableCoordinate_def Let_def split: if_split_asm\<close>)
qed

lemma canonical_coordinate:
  assumes "parseCanonicalCoordinate v kinds = Some c"
  shows "\<exists>k rest. k \<in> set kinds \<and> v = decimal_digits k @ '':'' @ rest" "is_hex64 (authorPubkey c)"
proof -
  from assms have p: "parseAddressableCoordinate v kinds = Some c" and t: "coordinate_text c = v"
    by (auto simp: parseCanonicalCoordinate_def split: option.split_asm if_split_asm)
  from coordinate_parts [OF p] obtain k a d where c: "k \<in> set kinds" "is_hex64_i a" "authorPubkey c = toLowerCase a"
    "coordinate_text c = decimal_digits k @ '':'' @ toLowerCase a @ '':'' @ d" by blast
  show "\<exists>k rest. k \<in> set kinds \<and> v = decimal_digits k @ '':'' @ rest"
    by (rule exI [of _ k], rule exI [of _ "toLowerCase a @ '':'' @ d"]) (use c t in simp)
  show "is_hex64 (authorPubkey c)" using c(2,3) lower_hex_of
    by (simp add: is_hex64_i_def is_hex64_def toLowerCase_def list_all_iff)
qed

subsection \<open>A draft is read back\<close>

definition hashes_bytes :: "'p event_ports_scheme \<Rightarrow> bool" where
  "hashes_bytes env \<longleftrightarrow> (\<forall>bs. length (event_sha256 env bs) = 32)"

definition declared_pool :: "EventMarketAssignmentOrganizerStockPool option \<Rightarrow> stock_pool_status" where
  "declared_pool pool = (case pool of None \<Rightarrow> PoolAbsent | Some p \<Rightarrow> PoolValid p)"

text \<open>The parsed form of a signed draft.\<close>

definition assignment_of :: "'p event_ports_scheme \<Rightarrow> EventMarketAssignmentDraftInput \<Rightarrow> SignedPublicNostrEvent \<Rightarrow> ParsedEventMarketAssignment" where
  "assignment_of env input e =
     \<lparr>tuple_market = tuple_market input, tuple_occurrence = tuple_occurrence input, tuple_product = tuple_product input,
      assignment_coordinate = ''30410:'' @ draft_merchantPubkey input @ '':'' @ tupleHash env input,
      assignment_dTag = tupleHash env input, assignment_eventId = event_id e, assignment_createdAt = created_at e,
      assignment_organizerPubkey = (case parseTuple input of None \<Rightarrow> [] | Some (market, _) \<Rightarrow> authorPubkey market),
      assignment_merchantPubkey = draft_merchantPubkey input, assignment_state = draft_state input,
      assignment_inventory = draft_inventory input, assignment_fulfillmentMethods = draft_fulfillmentMethods input,
      assignment_previousEventId = draft_previousEventId input, assignment_relayHints = draft_relayHints input,
      assignment_stockPool = declared_pool (draft_organizerStockPool input), assignment_signedEvent = e\<rparr>"

text \<open>The event a wallet makes of a draft.\<close>

definition signs_draft :: "'p event_ports_scheme \<Rightarrow> EventMarketEventDraft \<Rightarrow> js_string \<Rightarrow> SignedPublicNostrEvent \<Rightarrow> bool" where
  "signs_draft env draft author e \<longleftrightarrow>
     event_kind e = draft_kind draft \<and> event_content e = draft_content draft \<and> event_tags e = draft_tags draft
     \<and> event_pubkey e = author \<and> valid_event env e"

lemma build_Inr:
  assumes "buildEventMarketAssignmentDraft env input = Inr draft"
  obtains market occurrence product where "parseTuple input = Some (market, occurrence, product)"
    "authorPubkey product = draft_merchantPubkey input" "draft_state input = ''active'' \<or> draft_state input = ''removed''"
    "validInventory (draft_inventory input)"
    "validFulfillment (draft_fulfillmentMethods input) (draft_state input) (draft_inventory input)"
    "\<And>p. draft_previousEventId input = Some p \<Longrightarrow> is_hex64 p"
    "validRelayHint env (hint_market (draft_relayHints input))" "validRelayHint env (hint_occurrence (draft_relayHints input))"
    "validRelayHint env (hint_product (draft_relayHints input))"
    "\<And>pool. draft_organizerStockPool input = Some pool \<Longrightarrow>
       validOrganizerStockPool pool (authorPubkey market) (draft_inventory input)"
    "draft = \<lparr>draft_kind = ASSIGNMENT_KIND, draft_content = [], draft_tags = assignment_tags env input\<rparr>"
  using assms unfolding buildEventMarketAssignmentDraft_def
  by (auto split: option.split_asm if_split_asm)

lemma tuple_hash_hex: "hashes_bytes env \<Longrightarrow> is_hex64 (tupleHash env t)"
  using bytesToHex_hex by (simp add: hashes_bytes_def tupleHash_def json_digest_def is_hex64_def)

lemma hint_shown: "validRelayHint env h \<Longrightarrow> present_hint h = h"
  "validRelayHint env h \<Longrightarrow> tag_at (reference_tag c h) 2 = h"
  "length (reference_tag c h) = 2 \<or> length (reference_tag c h) = 3" "tag_at (reference_tag c h) 0 = Some ''a''"
  "tag_at (reference_tag c h) (Suc 0) = Some c"
  by (cases h; auto simp: validRelayHint_def present_hint_def reference_tag_def tag_at_def)+

lemma pool_read:
  assumes "validOrganizerStockPool pool organizer inventory" "tags_named STOCK_POOL_TAG tags = [stock_pool_tag pool]"
  shows "parseOrganizerStockPool tags organizer inventory = PoolValid pool"
proof -
  have q: "0 < sp_quantity pool" "0 \<le> sp_importedQuantity pool" "sp_state pool = ''active'' \<or> sp_state pool = ''closed''"
    using assms(1) by (simp_all add: validOrganizerStockPool_def)
  note reads = int_text_reads [OF q(2)] int_text_reads(2,3) [OF less_imp_le [OF q(1)]]
  show ?thesis
    using assms q reads
    by (cases pool) (simp add: parseOrganizerStockPool_def stock_pool_tag_def tag_at_def text_or_empty_def Let_def)
qed

lemma inventory_read: "validInventory inventory \<Longrightarrow> parse_inventory (inventory_tag inventory) = Some inventory"
  using int_text_reads
  by (cases inventory) (simp_all add: validInventory_def parse_inventory_def inventory_tag_def tag_at_def text_or_empty_def)

lemma tags_named_simps [simp]:
  "tags_named n [] = []" "tags_named n (t # ts) = (if tag_at t 0 = Some n then t # tags_named n ts else tags_named n ts)"
  "tags_named n (ts @ us) = tags_named n ts @ tags_named n us"
  by (simp_all add: tags_named_def)

lemma tag_at_simps [simp]: "tag_at (x # xs) 0 = Some x" "tag_at (x # xs) (Suc i) = tag_at xs i"
  "tag_at (x # xs) (numeral k) = tag_at xs (pred_numeral k)" "tag_at (x # y # xs) 1 = Some y" "tag_at [] i = None"
  by (simp_all add: tag_at_def numeral_eq_Suc)

lemma fulfillment_named: "tags_named n (map (\<lambda>m. [''fulfillment'', m]) ms) = (if n = ''fulfillment'' then map (\<lambda>m. [''fulfillment'', m]) ms else [])"
  by (cases "n = ''fulfillment''"; induction ms) simp_all

lemma draft_tags_named:
  fixes env :: "'p event_ports_scheme" and input :: EventMarketAssignmentDraftInput
  defines "tags \<equiv> assignment_tags env input"
  shows "tags_named ''d'' tags = [[''d'', tupleHash env input]]" "tags_named ''openmarkets'' tags = [[''openmarkets'', PROFILE, ''1'']]"
    "tags_named ''a'' tags = [reference_tag (tuple_market input) (hint_market (draft_relayHints input)),
       reference_tag (tuple_occurrence input) (hint_occurrence (draft_relayHints input)),
       reference_tag (tuple_product input) (hint_product (draft_relayHints input))]"
    "tags_named ''state'' tags = [[''state'', draft_state input]]"
    "tags_named ''inventory'' tags = [inventory_tag (draft_inventory input)]"
    "tags_named ''fulfillment'' tags = map (\<lambda>m. [''fulfillment'', m]) (draft_fulfillmentMethods input)"
    "tags_named ''prev'' tags = (case draft_previousEventId input of None \<Rightarrow> [] | Some v \<Rightarrow> if v = [] then [] else [[''prev'', v]])"
    "tags_named STOCK_POOL_TAG tags = (case draft_organizerStockPool input of None \<Rightarrow> [] | Some pool \<Rightarrow> [stock_pool_tag pool])"
    "tags_named ''alt'' tags = [[''alt'', ALT]]"
  unfolding tags_def assignment_tags_def
  by (auto simp: hint_shown(4) fulfillment_named inventory_tag_def stock_pool_tag_def STOCK_POOL_TAG_def split: assignment_inventory.split option.split)

lemma starts_six: "length p = 6 \<Longrightarrow> startsWith s p \<longleftrightarrow> take 6 s = p"
  by (simp add: startsWith_def)

lemma tuple_prefixes:
  assumes "parseTuple input = Some t"
  shows "take 6 (tuple_market input) = ''30409:''" "take 6 (tuple_product input) = ''30402:''"
    "take 6 (tuple_occurrence input) = ''31922:'' \<or> take 6 (tuple_occurrence input) = ''31923:''"
  using assms unfolding parseTuple_def
  by (auto simp: kind_digits split: option.split_asm if_split_asm dest!: canonical_coordinate(1))

lemma build_parse:
  assumes built: "buildEventMarketAssignmentDraft env input = Inr draft"
    and signed: "signs_draft env draft (draft_merchantPubkey input) e"
    and env: "hashes_bytes env" and prev: "draft_previousEventId input \<noteq> Some (event_id e)"
    and size: "length (utf8_bytes (stringify (signed_event_json e))) \<le> MAX_EVENT_BYTES"
  shows "parseEventMarketAssignmentEvent env e = Some (assignment_of env input e)"
  using built
proof (rule build_Inr)
  fix market occurrence product
  assume t: "parseTuple input = Some (market, occurrence, product)" "authorPubkey product = draft_merchantPubkey input"
    and st: "draft_state input = ''active'' \<or> draft_state input = ''removed''"
    and inv: "validInventory (draft_inventory input)"
    and ms: "validFulfillment (draft_fulfillmentMethods input) (draft_state input) (draft_inventory input)"
    and p: "\<And>p. draft_previousEventId input = Some p \<Longrightarrow> is_hex64 p"
    and hints: "validRelayHint env (hint_market (draft_relayHints input))" "validRelayHint env (hint_occurrence (draft_relayHints input))"
      "validRelayHint env (hint_product (draft_relayHints input))"
    and pool: "\<And>pool. draft_organizerStockPool input = Some pool \<Longrightarrow>
       validOrganizerStockPool pool (authorPubkey market) (draft_inventory input)"
    and draft: "draft = \<lparr>draft_kind = ASSIGNMENT_KIND, draft_content = [], draft_tags = assignment_tags env input\<rparr>"
  have e: "event_kind e = ASSIGNMENT_KIND" "event_content e = []" "event_tags e = assignment_tags env input"
    "event_pubkey e = draft_merchantPubkey input" "valid_event env e"
    using signed by (simp_all add: signs_draft_def draft)
  have prevs: "tags_named ''prev'' (assignment_tags env input) = (case draft_previousEventId input of None \<Rightarrow> [] | Some v \<Rightarrow> [[''prev'', v]])"
    using p by (auto simp: draft_tags_named is_hex64_def split: option.split)
  note named = draft_tags_named(1-6,8,9) [of env input] prevs
  note shown = hint_shown(1,2) [OF hints(1)] hint_shown(1,2) [OF hints(2)] hint_shown(1,2) [OF hints(3)]
  have frame: "frame_ok (assignment_tags env input) (event_id e) env"
    unfolding frame_ok_def named using tuple_hash_hex [OF env] st hints p prev hint_shown(3)
    by (auto simp: one_tag_def named one_at_def text_or_empty_def shown list_all_iff split: option.split)
  have starts: "startsWith (tuple_market input) q \<longleftrightarrow> q = ''30409:''" "startsWith (tuple_product input) q \<longleftrightarrow> q = ''30402:''"
    if "q \<in> {''30409:'', ''31922:'', ''31923:'', ''30402:''}" for q
    using tuple_prefixes [OF t(1)] that by (auto simp: starts_six)
  have occurrence: "startsWith (tuple_occurrence input) ''31922:'' \<or> startsWith (tuple_occurrence input) ''31923:''"
    "\<not> startsWith (tuple_occurrence input) ''30409:''" "\<not> startsWith (tuple_occurrence input) ''30402:''"
    using tuple_prefixes [OF t(1)] by (auto simp: starts_six)
  have refs: "references_to (assignment_tags env input) [''30409:''] = [(tuple_market input, hint_market (draft_relayHints input))]"
    "references_to (assignment_tags env input) [''31922:'', ''31923:''] = [(tuple_occurrence input, hint_occurrence (draft_relayHints input))]"
    "references_to (assignment_tags env input) [''30402:''] = [(tuple_product input, hint_product (draft_relayHints input))]"
    using occurrence by (simp_all add: references_to_def named hint_shown(5) shown text_or_empty_def starts(1,2))
  have same: "parseTuple \<lparr>tuple_market = tuple_market input, tuple_occurrence = tuple_occurrence input, tuple_product = tuple_product input\<rparr>
      = parseTuple input" "tupleHash env \<lparr>tuple_market = tuple_market input, tuple_occurrence = tuple_occurrence input,
      tuple_product = tuple_product input\<rparr> = tupleHash env input"
    by (simp_all add: parseTuple_def tupleHash_def)
  have one: "text_or_empty (one_at (one_tag (assignment_tags env input) ''d'' 2) 1) = tupleHash env input"
    "text_or_empty (one_at (one_tag (assignment_tags env input) ''state'' 2) 1) = draft_state input"
    by (simp_all add: one_tag_def named one_at_def text_or_empty_def)
  have methods: "map (\<lambda>t. text_or_empty (tag_at t 1)) (tags_named ''fulfillment'' (assignment_tags env input)) = draft_fulfillmentMethods input"
    by (simp add: named text_or_empty_def o_def)
  have read_pool: "parseOrganizerStockPool (assignment_tags env input) (authorPubkey market) (draft_inventory input)
      = declared_pool (draft_organizerStockPool input)"
    using pool pool_read [of _ _ _ "assignment_tags env input"] named(7)
    by (cases "draft_organizerStockPool input") (simp_all add: declared_pool_def parseOrganizerStockPool_def)
  have prior: "(case tags_named ''prev'' (assignment_tags env input) of [] \<Rightarrow> None | t # _ \<Rightarrow> tag_at t 1) = draft_previousEventId input"
    by (simp add: prevs split: option.split)
  have inventory: "parse_inventory (hd (tags_named ''inventory'' (assignment_tags env input))) = Some (draft_inventory input)"
    by (simp add: named inventory_read [OF inv])
  show ?thesis
    unfolding parseEventMarketAssignmentEvent_def Let_def e(1-4) one methods inventory read_pool prior refs same
    using e(5) size frame t ms hints by (simp add: same assignment_of_def shown read_pool)
qed

end
