(* ===== verification/Stock_Journal.thy ===== *)
theory Stock_Journal
  imports Event_Assignment
begin

text \<open>
  The organizer's stock journal (\<open>event-market-stock-journal.ts\<close>, \<open>event-market-stock-writer-guard.ts\<close>):
  pools of entrusted stock, the hash-linked acceptances that consume them and their close, in the
  tables of one browser.  Every operation runs in one transaction: an error leaves the tables as
  they were.

  \<^item> The session callback of the caller is the flag \<open>continues\<close>: a session lost at any of its checks
    aborts the transaction.
  \<^item> The merchant's published assignments are signed public events, read by \<open>parseEventMarketAssignmentEvent\<close>.
  \<^item> The envelopes retained for delivery are not modelled.
\<close>

subsection \<open>Rows\<close>

datatype organizer_pool_state = PoolPrepared | PoolActive | PoolClosing | PoolClosed

record EventMarketOrganizerStockPool =
  pool_id :: js_string
  pool_accountPubkey :: js_string
  pool_poolId :: js_string
  pool_merchantPubkey :: js_string
  pool_organizerPubkey :: js_string
  pool_writerId :: js_string
  pool_assignmentCoordinate :: js_string
  pool_productCoordinate :: js_string
  grantRumor :: stock_rumor
  pool_quantity :: int
  acceptedQuantity :: int
  acceptedSequence :: int
  lastAcceptedId :: js_string
  importedQuantity :: int
  importedSequence :: int
  lastImportedId :: js_string
  pool_state :: organizer_pool_state
  closingRumor :: "stock_rumor option"
  readOnlyRecovery :: bool

record EventMarketOrganizerStockEntry =
  entry_id :: js_string
  entry_accountPubkey :: js_string
  entry_poolId :: js_string
  entry_sequence :: int
  entry_orderId :: js_string
  entry_claimRef :: js_string
  entry_rumor :: stock_rumor
  entry_quantity :: int
  entry_evidence :: js_string
  entry_orderPoolBinding :: "js_string option"
  entry_imported :: bool

datatype organizer_writer_state = WriterTarget | WriterActive | WriterRetired

record EventMarketOrganizerStockWriter =
  writer_id :: js_string
  writer_accountPubkey :: js_string
  writer_marketCoordinate :: js_string
  deviceId :: js_string
  writer_writerId :: "js_string option"
  writer_state :: organizer_writer_state
  installedPoolIds :: "js_string list"
  writer_generation :: int
  transferId :: "js_string option"

record organizer_db =
  eventMarketOrganizerStockPools :: "EventMarketOrganizerStockPool table"
  eventMarketOrganizerStockEntries :: "EventMarketOrganizerStockEntry table"
  eventMarketOrganizerStockWriters :: "EventMarketOrganizerStockWriter table"

subsection \<open>Keys and guards\<close>

definition poolKey :: "js_string \<Rightarrow> js_string \<Rightarrow> js_string" where
  "poolKey account pool = account @ '':'' @ pool"

definition entryKey :: "js_string \<Rightarrow> js_string \<Rightarrow> js_string" where
  "entryKey account entry = account @ '':'' @ entry"

definition organizerStockWriterKey :: "js_string \<Rightarrow> js_string \<Rightarrow> js_string" where
  "organizerStockWriterKey account market = account @ '':'' @ market"

definition requireTime :: "int \<Rightarrow> unit result" where
  "requireTime nowMs = (if \<not> is_safe nowMs \<or> nowMs < 0 then Inl ''Invalid stock journal time'' else Inr ())"

definition requireSession :: "bool \<Rightarrow> unit result" where
  "requireSession continues = (if \<not> continues then Inl ''Stock authority session changed'' else Inr ())"

definition readGrant :: "'p stock_ports_scheme \<Rightarrow> stock_rumor \<Rightarrow> EventMarketStockGrant result" where
  "readGrant env rumor =
     bind_result (parseEventMarketStockAuthorityRumor env rumor) (\<lambda>payload.
     case payload of Grant g \<Rightarrow> Inr g | _ \<Rightarrow> Inl ''Stock grant required'')"

definition pool_count :: "EventMarketStockGrant \<Rightarrow> int \<Rightarrow> bool" where
  "pool_count grant n \<longleftrightarrow> n \<ge> 0 \<and> n \<le> grant_quantity grant"

definition assertPool ::
    "'p stock_ports_scheme \<Rightarrow> EventMarketOrganizerStockPool \<Rightarrow> EventMarketStockGrant result" where
  "assertPool env pool =
     bind_result (readGrant env (grantRumor pool)) (\<lambda>grant.
     if pool_poolId pool \<noteq> rumor_id (grantRumor pool)
        \<or> pool_id pool \<noteq> poolKey (pool_accountPubkey pool) (pool_poolId pool)
        \<or> pool_accountPubkey pool \<notin> {merchantPubkey grant, organizerPubkey grant}
        \<or> pool_merchantPubkey pool \<noteq> merchantPubkey grant
        \<or> pool_organizerPubkey pool \<noteq> organizerPubkey grant
        \<or> pool_writerId pool \<noteq> writerId grant
        \<or> pool_assignmentCoordinate pool \<noteq> assignmentCoordinate grant
        \<or> pool_productCoordinate pool \<noteq> productCoordinate grant
        \<or> pool_quantity pool \<noteq> grant_quantity grant
        \<or> \<not> pool_count grant (acceptedQuantity pool) \<or> \<not> pool_count grant (acceptedSequence pool)
        \<or> \<not> pool_count grant (importedQuantity pool) \<or> \<not> pool_count grant (importedSequence pool)
        \<or> acceptedSequence pool > acceptedQuantity pool
        \<or> importedSequence pool > importedQuantity pool
        \<or> importedSequence pool > acceptedSequence pool
        \<or> importedQuantity pool > acceptedQuantity pool
        \<or> (importedSequence pool = acceptedSequence pool
           \<and> (importedQuantity pool \<noteq> acceptedQuantity pool \<or> lastImportedId pool \<noteq> lastAcceptedId pool))
        \<or> (pool_state pool = PoolClosed
           \<and> (closingRumor pool = None \<or> importedSequence pool \<noteq> acceptedSequence pool
              \<or> importedQuantity pool \<noteq> acceptedQuantity pool))
        \<or> (acceptedSequence pool = 0 \<and> (acceptedQuantity pool \<noteq> 0 \<or> lastAcceptedId pool \<noteq> pool_poolId pool))
        \<or> (importedSequence pool = 0 \<and> (importedQuantity pool \<noteq> 0 \<or> lastImportedId pool \<noteq> pool_poolId pool))
        \<or> \<not> is_hex64 (lastAcceptedId pool) \<or> \<not> is_hex64 (lastImportedId pool)
     then Inl ''Organizer stock journal requires reconciliation'' else Inr grant)"

definition validateOrganizerStockJournalPool ::
    "'p stock_ports_scheme \<Rightarrow> EventMarketOrganizerStockPool \<Rightarrow> EventMarketStockGrant result" where
  "validateOrganizerStockJournalPool env pool = assertPool env pool"

definition newPool ::
    "'p stock_ports_scheme \<Rightarrow> js_string \<Rightarrow> stock_rumor \<Rightarrow> organizer_pool_state
     \<Rightarrow> EventMarketOrganizerStockPool result" where
  "newPool env account rumor st =
     bind_result (readGrant env rumor) (\<lambda>grant.
     Inr \<lparr>pool_id = poolKey account (rumor_id rumor), pool_accountPubkey = account, pool_poolId = rumor_id rumor,
          pool_merchantPubkey = merchantPubkey grant, pool_organizerPubkey = organizerPubkey grant,
          pool_writerId = writerId grant, pool_assignmentCoordinate = assignmentCoordinate grant,
          pool_productCoordinate = productCoordinate grant, grantRumor = rumor, pool_quantity = grant_quantity grant,
          acceptedQuantity = 0, acceptedSequence = 0, lastAcceptedId = rumor_id rumor,
          importedQuantity = 0, importedSequence = 0, lastImportedId = rumor_id rumor,
          pool_state = st, closingRumor = None, readOnlyRecovery = False\<rparr>)"

definition assertOrganizerStockWriterCurrent ::
    "organizer_db \<Rightarrow> js_string \<Rightarrow> js_string \<Rightarrow> js_string \<Rightarrow> unit result" where
  "assertOrganizerStockWriterCurrent db account market writer =
     (case table_get (eventMarketOrganizerStockWriters db) (organizerStockWriterKey account market) of
        None \<Rightarrow> Inr ()
      | Some row \<Rightarrow>
          if writer_accountPubkey row \<noteq> account \<or> writer_marketCoordinate row \<noteq> market
             \<or> writer_state row \<noteq> WriterActive \<or> writer_writerId row \<noteq> Some writer
          then Inl ''This stock writer has moved or needs explicit recovery.'' else Inr ())"

subsection \<open>Tables\<close>

text \<open>\<open>add\<close> fails on a duplicate primary key, and on a duplicate of a unique index: sequence, order
  and claim are unique within a pool.\<close>

definition entry_of_pool :: "js_string \<Rightarrow> js_string \<Rightarrow> EventMarketOrganizerStockEntry \<Rightarrow> bool" where
  "entry_of_pool account pool e \<longleftrightarrow> entry_accountPubkey e = account \<and> entry_poolId e = pool"

definition pool_entries :: "organizer_db \<Rightarrow> js_string \<Rightarrow> js_string \<Rightarrow> EventMarketOrganizerStockEntry list" where
  "pool_entries db account pool =
     filter (entry_of_pool account pool) (table_rows (eventMarketOrganizerStockEntries db))"

definition add_entry ::
    "EventMarketOrganizerStockEntry \<Rightarrow> organizer_db \<Rightarrow> organizer_db result" where
  "add_entry e db =
     (if table_get (eventMarketOrganizerStockEntries db) (entry_id e) \<noteq> None
         \<or> list_ex (\<lambda>f. entry_sequence f = entry_sequence e \<or> entry_orderId f = entry_orderId e
                          \<or> entry_claimRef f = entry_claimRef e)
             (pool_entries db (entry_accountPubkey e) (entry_poolId e))
      then Inl ''ConstraintError''
      else Inr (db\<lparr>eventMarketOrganizerStockEntries := table_put (entry_id e) e (eventMarketOrganizerStockEntries db)\<rparr>))"

definition put_entry :: "EventMarketOrganizerStockEntry \<Rightarrow> organizer_db \<Rightarrow> organizer_db" where
  "put_entry e db =
     db\<lparr>eventMarketOrganizerStockEntries := table_put (entry_id e) e (eventMarketOrganizerStockEntries db)\<rparr>"

definition put_pool :: "EventMarketOrganizerStockPool \<Rightarrow> organizer_db \<Rightarrow> organizer_db" where
  "put_pool p db = db\<lparr>eventMarketOrganizerStockPools := table_put (pool_id p) p (eventMarketOrganizerStockPools db)\<rparr>"

definition add_pool :: "EventMarketOrganizerStockPool \<Rightarrow> organizer_db \<Rightarrow> organizer_db result" where
  "add_pool p db =
     (if table_get (eventMarketOrganizerStockPools db) (pool_id p) \<noteq> None
         \<or> list_ex (\<lambda>r. pool_accountPubkey r = pool_accountPubkey p \<and> pool_poolId r = pool_poolId p)
             (table_rows (eventMarketOrganizerStockPools db))
      then Inl ''ConstraintError'' else Inr (put_pool p db))"

subsection \<open>Acceptance\<close>

record acceptance_input =
  input_authenticatedPubkey :: js_string
  input_writerId :: js_string
  input_poolId :: js_string
  input_orderId :: js_string
  input_identityBinding :: js_string
  input_termsBinding :: js_string
  input_claimRef :: js_string
  input_quantity :: int
  input_evidence :: js_string
  input_orderPoolBinding :: "js_string option"

text \<open>The writer's pool and its grant.\<close>

definition writer_pool ::
    "'p stock_ports_scheme \<Rightarrow> organizer_db \<Rightarrow> js_string \<Rightarrow> js_string \<Rightarrow> js_string
     \<Rightarrow> (EventMarketOrganizerStockPool \<times> EventMarketStockGrant) result" where
  "writer_pool env db account writer poolId =
     (case table_get (eventMarketOrganizerStockPools db) (poolKey account poolId) of
        None \<Rightarrow> Inl ''Organizer stock writer unavailable''
      | Some pool \<Rightarrow>
          if pool_organizerPubkey pool \<noteq> account \<or> pool_writerId pool \<noteq> writer
          then Inl ''Organizer stock writer unavailable''
          else bind_result (assertPool env pool) (\<lambda>grant.
               bind_result (assertOrganizerStockWriterCurrent db account (marketCoordinate grant) writer) (\<lambda>_.
               Inr (pool, grant))))"

text \<open>The last accepted entry must be the head of the chain and not lie in the future.\<close>

definition check_predecessor ::
    "'p stock_ports_scheme \<Rightarrow> organizer_db \<Rightarrow> js_string \<Rightarrow> EventMarketOrganizerStockPool \<Rightarrow> int \<Rightarrow> unit result" where
  "check_predecessor env db account pool nowMs =
     (if acceptedSequence pool > 0
      then (case table_get (eventMarketOrganizerStockEntries db) (entryKey account (lastAcceptedId pool)) of
              None \<Rightarrow> Inl ''Organizer journal predecessor requires reconciliation''
            | Some predecessor \<Rightarrow>
                bind_result (parseEventMarketStockAuthorityRumor env (entry_rumor predecessor)) (\<lambda>previous.
                case previous of
                  Accepted a \<Rightarrow>
                    if accepted_sequence a \<noteq> acceptedSequence pool \<or> accepted_poolId a \<noteq> pool_poolId pool
                       \<or> acceptedAtMs a > nowMs
                    then Inl ''Organizer journal predecessor requires reconciliation'' else Inr ()
                | _ \<Rightarrow> Inl ''Organizer journal predecessor requires reconciliation''))
      else Inr ())"

definition prior_matches :: "acceptance_input \<Rightarrow> EventMarketOrganizerStockEntry \<Rightarrow> EventMarketStockAcceptance \<Rightarrow> bool" where
  "prior_matches input prior accepted \<longleftrightarrow>
     identityBinding accepted = input_identityBinding input \<and> termsBinding accepted = input_termsBinding input
     \<and> accepted_claimRef accepted = input_claimRef input \<and> accepted_quantity accepted = input_quantity input
     \<and> (entry_orderPoolBinding prior = None \<or> entry_orderPoolBinding prior = input_orderPoolBinding input)
     \<and> entry_evidence prior = input_evidence input"

definition acceptance_payload :: "acceptance_input \<Rightarrow> EventMarketOrganizerStockPool \<Rightarrow> int \<Rightarrow> EventMarketStockAcceptance" where
  "acceptance_payload input pool nowMs =
     \<lparr>version = 1, merchantPubkey = pool_merchantPubkey pool, organizerPubkey = pool_organizerPubkey pool,
      writerId = pool_writerId pool, accepted_poolId = pool_poolId pool, accepted_sequence = acceptedSequence pool + 1,
      previousId = lastAcceptedId pool, accepted_orderId = input_orderId input,
      identityBinding = input_identityBinding input, termsBinding = input_termsBinding input,
      accepted_claimRef = input_claimRef input, accepted_quantity = input_quantity input, acceptedAtMs = nowMs\<rparr>"

definition acceptance_entry ::
    "acceptance_input \<Rightarrow> EventMarketOrganizerStockPool \<Rightarrow> stock_rumor \<Rightarrow> EventMarketOrganizerStockEntry" where
  "acceptance_entry input pool rumor =
     \<lparr>entry_id = entryKey (input_authenticatedPubkey input) (rumor_id rumor),
      entry_accountPubkey = input_authenticatedPubkey input, entry_poolId = pool_poolId pool,
      entry_sequence = acceptedSequence pool + 1, entry_orderId = input_orderId input,
      entry_claimRef = input_claimRef input, entry_rumor = rumor, entry_quantity = input_quantity input,
      entry_evidence = input_evidence input,
      entry_orderPoolBinding = (if truthy (input_orderPoolBinding input) then input_orderPoolBinding input else None),
      entry_imported = False\<rparr>"

definition accept_new ::
    "'p stock_ports_scheme \<Rightarrow> organizer_db \<Rightarrow> acceptance_input \<Rightarrow> EventMarketOrganizerStockPool \<Rightarrow> EventMarketStockGrant
     \<Rightarrow> int \<Rightarrow> (organizer_db \<times> bool \<times> EventMarketOrganizerStockEntry) result" where
  "accept_new env db input pool grant nowMs =
     (if pool_state pool \<noteq> PoolActive \<or> readOnlyRecovery pool \<or> nowMs \<ge> expiresAtMs grant
         \<or> nowMs < created_at (grantRumor pool) * 1000
      then Inl ''Organizer stock acceptance has ended''
      else bind_result (check_predecessor env db (input_authenticatedPubkey input) pool nowMs) (\<lambda>_.
      if input_quantity input < 1 \<or> input_quantity input > pool_quantity pool - acceptedQuantity pool
      then Inl ''Insufficient entrusted organizer stock''
      else bind_result (createEventMarketStockAuthorityRumor env
             (Accepted (acceptance_payload input pool nowMs)) (nowMs div 1000)) (\<lambda>rumor.
      let entry = acceptance_entry input pool rumor;
          pool' = pool\<lparr>acceptedQuantity := acceptedQuantity pool + input_quantity input,
                       acceptedSequence := acceptedSequence pool + 1, lastAcceptedId := rumor_id rumor\<rparr>
      in bind_result (add_entry entry db) (\<lambda>db'. Inr (put_pool pool' db', False, entry)))))"

definition commitOrganizerStockAcceptance ::
    "'p stock_ports_scheme \<Rightarrow> organizer_db \<Rightarrow> acceptance_input \<Rightarrow> bool \<Rightarrow> int
     \<Rightarrow> (organizer_db \<times> bool \<times> EventMarketOrganizerStockEntry) result" where
  "commitOrganizerStockAcceptance env db input continues nowMs =
     bind_result (requireTime nowMs) (\<lambda>_.
     bind_result (requireSession continues) (\<lambda>_.
     if input_evidence input = [] \<or> length (utf8_bytes (input_evidence input)) > 65536
     then Inl ''Invalid organizer order evidence''
     else bind_result (writer_pool env db (input_authenticatedPubkey input) (input_writerId input) (input_poolId input))
       (\<lambda>(pool, grant).
     case find (\<lambda>e. entry_orderId e = input_orderId input)
            (pool_entries db (input_authenticatedPubkey input) (input_poolId input)) of
       Some prior \<Rightarrow>
         bind_result (parseEventMarketStockAuthorityRumor env (entry_rumor prior)) (\<lambda>payload.
         case payload of
           Accepted accepted \<Rightarrow>
             if prior_matches input prior accepted then Inr (db, True, prior)
             else Inl ''Organizer order ID is bound to different terms''
         | _ \<Rightarrow> Inl ''Organizer order ID is bound to different terms'')
     | None \<Rightarrow> accept_new env db input pool grant nowMs)))"

subsection \<open>Whole orders\<close>

record order_line =
  line_poolId :: js_string
  line_writerId :: js_string
  line_quantity :: int

record order_input =
  order_authenticatedPubkey :: js_string
  order_orderId :: js_string
  order_identityBinding :: js_string
  order_termsBinding :: js_string
  order_claimRef :: js_string
  order_evidence :: js_string
  order_entries :: "order_line list"

definition valid_line :: "order_line \<Rightarrow> bool" where
  "valid_line l \<longleftrightarrow>
     is_hex64 (line_poolId l) \<and> is_uuid_v4 (line_writerId l) \<and> line_quantity l \<ge> 1 \<and> line_quantity l \<le> 2147483647"

text \<open>The manifest of the order: its lines in the order of their pool ids (\<open>localeCompare\<close> orders
  lower-case hexadecimal texts as their code units).\<close>

definition compare_text :: "js_string \<Rightarrow> js_string \<Rightarrow> int" where
  "compare_text a b = (if a < b then - 1 else if a = b then 0 else 1)"

definition pool_binding :: "order_line list \<Rightarrow> js_string" where
  "pool_binding ls = stringify (JArray (map (\<lambda>l. JObject [(''poolId'', JString (line_poolId l)),
     (''writerId'', JString (line_writerId l)), (''quantity'', JInt (line_quantity l))])
     (js_sort (\<lambda>a b. compare_text (line_poolId a) (line_poolId b)) ls)))"

definition line_acceptance :: "order_input \<Rightarrow> js_string \<Rightarrow> order_line \<Rightarrow> acceptance_input" where
  "line_acceptance input binding l =
     \<lparr>input_authenticatedPubkey = order_authenticatedPubkey input, input_writerId = line_writerId l,
      input_poolId = line_poolId l, input_orderId = order_orderId input,
      input_identityBinding = order_identityBinding input, input_termsBinding = order_termsBinding input,
      input_claimRef = order_claimRef input, input_quantity = line_quantity l,
      input_evidence = order_evidence input, input_orderPoolBinding = Some binding\<rparr>"

fun commit_lines ::
    "'p stock_ports_scheme \<Rightarrow> organizer_db \<Rightarrow> order_input \<Rightarrow> js_string \<Rightarrow> bool \<Rightarrow> int \<Rightarrow> order_line list
     \<Rightarrow> (organizer_db \<times> (bool \<times> EventMarketOrganizerStockEntry) list) result" where
  "commit_lines env db input binding continues nowMs [] = Inr (db, [])"
| "commit_lines env db input binding continues nowMs (l # ls) =
     bind_result (commitOrganizerStockAcceptance env db (line_acceptance input binding l) continues nowMs)
       (\<lambda>(db', result).
     bind_result (commit_lines env db' input binding continues nowMs ls)
       (\<lambda>(db'', results). Inr (db'', result # results)))"

text \<open>Legacy entries without a manifest are bound to the one of the order.\<close>

definition bind_entry :: "js_string \<Rightarrow> EventMarketOrganizerStockEntry \<Rightarrow> EventMarketOrganizerStockEntry" where
  "bind_entry binding e = (if entry_orderPoolBinding e = None then e\<lparr>entry_orderPoolBinding := Some binding\<rparr> else e)"

definition bind_entries ::
    "js_string \<Rightarrow> (bool \<times> EventMarketOrganizerStockEntry) list \<Rightarrow> organizer_db \<Rightarrow> organizer_db" where
  "bind_entries binding results db =
     fold (\<lambda>(_, e) db. if entry_orderPoolBinding e = None then put_entry (bind_entry binding e) db else db) results db"

definition accepted_times ::
    "'p stock_ports_scheme \<Rightarrow> EventMarketOrganizerStockEntry list \<Rightarrow> int list result" where
  "accepted_times env entries =
     foldr (\<lambda>e r. bind_result (parseEventMarketStockAuthorityRumor env (entry_rumor e)) (\<lambda>payload.
        case payload of
          Accepted a \<Rightarrow> bind_result r (\<lambda>ts. Inr (acceptedAtMs a # ts))
        | _ \<Rightarrow> Inl ''Organizer order entry requires reconciliation'')) entries (Inr [])"

definition commitOrganizerStockOrder ::
    "'p stock_ports_scheme \<Rightarrow> organizer_db \<Rightarrow> order_input \<Rightarrow> bool \<Rightarrow> int
     \<Rightarrow> (organizer_db \<times> bool \<times> EventMarketOrganizerStockEntry list) result" where
  "commitOrganizerStockOrder env db input continues nowMs =
     bind_result (requireTime nowMs) (\<lambda>_.
     bind_result (requireSession continues) (\<lambda>_.
     if order_entries input = [] \<or> \<not> list_all valid_line (order_entries input)
        \<or> \<not> distinct (map line_poolId (order_entries input))
     then Inl ''An exact unique organizer pool is required for every order line''
     else let binding = pool_binding (order_entries input);
              priorEntries = filter (\<lambda>e. entry_accountPubkey e = order_authenticatedPubkey input
                                          \<and> entry_orderId e = order_orderId input)
                (table_rows (eventMarketOrganizerStockEntries db))
     in if list_ex (\<lambda>e. entry_poolId e \<notin> set (map line_poolId (order_entries input))
                       \<or> (entry_orderPoolBinding e \<noteq> None \<and> entry_orderPoolBinding e \<noteq> Some binding)) priorEntries
        then Inl ''Organizer order is bound to a different complete pool manifest''
        else if priorEntries \<noteq> [] \<and> length priorEntries \<noteq> length (order_entries input)
        then Inl ''Partial legacy organizer order needs reconciliation before whole-order replay''
        else bind_result (accepted_times env priorEntries) (\<lambda>times.
        if length (remdups times) > 1
        then Inl ''Organizer order acceptance times do not form one atomic decision''
        else bind_result (commit_lines env db input binding continues nowMs (order_entries input)) (\<lambda>(db', results).
        Inr (bind_entries binding results db', list_all fst results, map (bind_entry binding \<circ> snd) results)))))"

subsection \<open>Closing\<close>

definition close_payload :: "EventMarketOrganizerStockPool \<Rightarrow> EventMarketStockClose" where
  "close_payload pool =
     \<lparr>version = 1, merchantPubkey = pool_merchantPubkey pool, organizerPubkey = pool_organizerPubkey pool,
      writerId = pool_writerId pool, closed_poolId = pool_poolId pool, closed_sequence = acceptedSequence pool,
      closed_lastAcceptedId = lastAcceptedId pool, closed_acceptedQuantity = acceptedQuantity pool\<rparr>"

definition beginOrganizerStockClose ::
    "'p stock_ports_scheme \<Rightarrow> organizer_db \<Rightarrow> js_string \<Rightarrow> js_string \<Rightarrow> js_string \<Rightarrow> bool \<Rightarrow> int
     \<Rightarrow> (organizer_db \<times> stock_rumor) result" where
  "beginOrganizerStockClose env db account writer poolId continues nowMs =
     bind_result (requireTime nowMs) (\<lambda>_.
     bind_result (requireSession continues) (\<lambda>_.
     bind_result (writer_pool env db account writer poolId) (\<lambda>(pool, grant).
     case closingRumor pool of
       Some rumor \<Rightarrow> Inr (db, rumor)
     | None \<Rightarrow>
         if pool_state pool \<noteq> PoolActive then Inl ''Organizer stock pool cannot close''
         else if nowMs < created_at (grantRumor pool) * 1000 then Inl ''Organizer stock close predates its grant''
         else bind_result (check_predecessor env db account pool nowMs) (\<lambda>_.
         bind_result (createEventMarketStockAuthorityRumor env (Closed (close_payload pool)) (nowMs div 1000)) (\<lambda>rumor.
         Inr (put_pool (pool\<lparr>pool_state := PoolClosing, closingRumor := Some rumor\<rparr>) db, rumor))))))"

subsection \<open>A retained close\<close>

definition close_refusal :: js_string where
  "close_refusal = ''An organizer writer already holds this assignment''"

text \<open>The walk over the entries of a closed pool, in sequence order.\<close>

record close_cursor =
  cursor_previousId :: js_string
  cursor_quantity :: int
  cursor_time :: int
  cursor_importedId :: js_string
  cursor_importedQuantity :: int

definition close_entry_ok ::
    "EventMarketOrganizerStockPool \<Rightarrow> EventMarketStockGrant \<Rightarrow> stock_rumor \<Rightarrow> nat \<Rightarrow> close_cursor
     \<Rightarrow> EventMarketOrganizerStockEntry \<Rightarrow> EventMarketStockAcceptance \<Rightarrow> bool" where
  "close_entry_ok pool grant closing_rumor index cur e a \<longleftrightarrow>
     entry_id e = entryKey (pool_accountPubkey pool) (rumor_id (entry_rumor e))
     \<and> entry_accountPubkey e = pool_accountPubkey pool \<and> entry_poolId e = pool_poolId pool
     \<and> entry_sequence e = int index + 1 \<and> accepted_sequence a = entry_sequence e
     \<and> accepted_poolId a = pool_poolId pool \<and> merchantPubkey a = merchantPubkey grant
     \<and> organizerPubkey a = organizerPubkey grant \<and> writerId a = writerId grant
     \<and> accepted_orderId a = entry_orderId e \<and> accepted_claimRef a = entry_claimRef e
     \<and> accepted_quantity a = entry_quantity e \<and> previousId a = cursor_previousId cur
     \<and> acceptedAtMs a \<ge> cursor_time cur \<and> acceptedAtMs a < expiresAtMs grant
     \<and> acceptedAtMs a \<le> created_at closing_rumor * 1000 + 999"

fun walk_entries ::
    "'p stock_ports_scheme \<Rightarrow> EventMarketOrganizerStockPool \<Rightarrow> EventMarketStockGrant \<Rightarrow> stock_rumor \<Rightarrow> nat \<Rightarrow> close_cursor
     \<Rightarrow> EventMarketOrganizerStockEntry list \<Rightarrow> close_cursor result" where
  "walk_entries env pool grant closing_rumor index cur [] = Inr cur"
| "walk_entries env pool grant closing_rumor index cur (e # es) =
     bind_result (parseEventMarketStockAuthorityRumor env (entry_rumor e)) (\<lambda>payload.
     case payload of
       Accepted a \<Rightarrow>
         if \<not> close_entry_ok pool grant closing_rumor index cur e a then Inl close_refusal
         else walk_entries env pool grant closing_rumor (Suc index)
           \<lparr>cursor_previousId = rumor_id (entry_rumor e), cursor_quantity = cursor_quantity cur + accepted_quantity a,
            cursor_time = acceptedAtMs a,
            cursor_importedId = (if entry_sequence e \<le> importedSequence pool then rumor_id (entry_rumor e)
                                 else cursor_importedId cur),
            cursor_importedQuantity = (if entry_sequence e \<le> importedSequence pool
                                       then cursor_importedQuantity cur + accepted_quantity a
                                       else cursor_importedQuantity cur)\<rparr> es
     | _ \<Rightarrow> Inl close_refusal)"

text \<open>The merchant's published assignment that declares the pool closed.\<close>

definition closes_pool :: "EventMarketStockGrant \<Rightarrow> js_string \<Rightarrow> ParsedEventMarketAssignment \<Rightarrow> bool" where
  "closes_pool grant poolId a \<longleftrightarrow>
     assignment_coordinate a = assignmentCoordinate grant
     \<and> (case assignment_stockPool a of PoolValid pool \<Rightarrow> sp_state pool = ''closed'' \<and> sp_poolId pool = poolId | _ \<Rightarrow> False)"

definition closing_assignment_ok ::
    "EventMarketStockGrant \<Rightarrow> EventMarketStockClose \<Rightarrow> stock_rumor \<Rightarrow> int \<Rightarrow> ParsedEventMarketAssignment \<Rightarrow> bool" where
  "closing_assignment_ok grant closing closing_rumor nowMs a \<longleftrightarrow>
     assignment_merchantPubkey a = merchantPubkey grant \<and> assignment_organizerPubkey a = organizerPubkey grant
     \<and> tuple_market a = marketCoordinate grant
     \<and> tuple_occurrence a = occurrenceCoordinate grant
     \<and> tuple_product a = productCoordinate grant
     \<and> created_at closing_rumor \<le> assignment_createdAt a \<and> assignment_createdAt a * 1000 \<le> nowMs
     \<and> (case assignment_stockPool a of
          PoolValid pool \<Rightarrow>
            sp_organizerPubkey pool = organizerPubkey grant \<and> sp_quantity pool = grant_quantity grant
            \<and> sp_importedQuantity pool = closed_acceptedQuantity closing
        | _ \<Rightarrow> False)"

definition reconcileOriginalOrganizerStockClose ::
    "'p stock_ports_scheme \<Rightarrow> EventMarketOrganizerStockPool \<Rightarrow> EventMarketOrganizerStockEntry list \<Rightarrow> EventMarketStockGrant
     \<Rightarrow> ParsedEventMarketAssignment option list \<Rightarrow> int \<Rightarrow> EventMarketOrganizerStockPool result" where
  "reconcileOriginalOrganizerStockClose env pool entries nextGrant closedAssignments nowMs =
     bind_result (assertPool env pool) (\<lambda>grant.
     case closingRumor pool of
       None \<Rightarrow> Inl close_refusal
     | Some closing_rumor \<Rightarrow>
     if pool_state pool \<noteq> PoolClosing \<or> readOnlyRecovery pool
        \<or> pool_accountPubkey pool \<noteq> organizerPubkey nextGrant \<or> pool_organizerPubkey pool \<noteq> organizerPubkey nextGrant
        \<or> pool_merchantPubkey pool \<noteq> merchantPubkey nextGrant \<or> pool_writerId pool \<noteq> writerId nextGrant
        \<or> marketCoordinate grant \<noteq> marketCoordinate nextGrant
        \<or> occurrenceCoordinate grant \<noteq> occurrenceCoordinate nextGrant
        \<or> assignmentCoordinate grant \<noteq> assignmentCoordinate nextGrant
        \<or> productCoordinate grant \<noteq> productCoordinate nextGrant
     then Inl close_refusal
     else bind_result (parseEventMarketStockAuthorityRumor env closing_rumor) (\<lambda>payload.
     case payload of
       Closed closing \<Rightarrow>
         if closed_poolId closing \<noteq> pool_poolId pool \<or> merchantPubkey closing \<noteq> merchantPubkey grant
            \<or> organizerPubkey closing \<noteq> organizerPubkey grant \<or> writerId closing \<noteq> writerId grant
            \<or> closed_sequence closing \<noteq> acceptedSequence pool
            \<or> closed_acceptedQuantity closing \<noteq> acceptedQuantity pool
            \<or> closed_lastAcceptedId closing \<noteq> lastAcceptedId pool
            \<or> created_at closing_rumor < created_at (grantRumor pool) \<or> created_at closing_rumor * 1000 > nowMs
         then Inl close_refusal
         else let projections = filter (closes_pool grant (pool_poolId pool)) (List.map_filter id closedAssignments)
         in if projections = [] \<or> \<not> list_all (closing_assignment_ok grant closing closing_rumor nowMs) projections
         then Inl close_refusal
         else if int (length entries) \<noteq> closed_sequence closing then Inl close_refusal
         else bind_result (walk_entries env pool grant closing_rumor 0
             \<lparr>cursor_previousId = pool_poolId pool, cursor_quantity = 0,
              cursor_time = created_at (grantRumor pool) * 1000, cursor_importedId = pool_poolId pool,
              cursor_importedQuantity = 0\<rparr>
             (js_sort (\<lambda>a b. entry_sequence a - entry_sequence b) entries)) (\<lambda>cur.
         if cursor_quantity cur \<noteq> closed_acceptedQuantity closing
            \<or> cursor_previousId cur \<noteq> closed_lastAcceptedId closing
            \<or> cursor_importedQuantity cur \<noteq> importedQuantity pool \<or> cursor_importedId cur \<noteq> lastImportedId pool
         then Inl close_refusal
         else Inr (pool\<lparr>pool_state := PoolClosed, importedQuantity := cursor_quantity cur,
                        importedSequence := closed_sequence closing, lastImportedId := cursor_previousId cur\<rparr>))
     | _ \<Rightarrow> Inl close_refusal))"

subsection \<open>Installation\<close>

record writer_registration =
  expected_deviceId :: js_string
  expected_generation :: int
  expected_installedPoolIds :: "js_string list"
  expected_transferId :: "js_string option"

text \<open>The merchant's signed assignment commits to exactly the granted stock.\<close>

definition commits_grant :: "EventMarketStockGrant \<Rightarrow> stock_rumor \<Rightarrow> int \<Rightarrow> ParsedEventMarketAssignment \<Rightarrow> bool" where
  "commits_grant grant rumor nowMs a \<longleftrightarrow>
     assignment_coordinate a = assignmentCoordinate grant
     \<and> tuple_product a = productCoordinate grant
     \<and> tuple_market a = marketCoordinate grant
     \<and> tuple_occurrence a = occurrenceCoordinate grant
     \<and> assignment_previousEventId a = Some (assignmentEventId grant) \<and> assignment_state a = ''active''
     \<and> (case assignment_inventory a of Tracked n \<Rightarrow> n \<ge> grant_quantity grant | Untracked \<Rightarrow> False)
     \<and> created_at rumor \<le> assignment_createdAt a \<and> assignment_createdAt a * 1000 \<le> nowMs
     \<and> (case assignment_stockPool a of
          PoolValid pool \<Rightarrow>
            sp_state pool = ''active'' \<and> sp_poolId pool = rumor_id rumor \<and> sp_organizerPubkey pool = organizerPubkey grant
            \<and> sp_quantity pool = grant_quantity grant \<and> sp_importedQuantity pool = 0
        | _ \<Rightarrow> False)"

definition missing_journal :: js_string where
  "missing_journal = ''The original stock journal is missing; recover it before continuing.''"

fun check_installed ::
    "'p stock_ports_scheme \<Rightarrow> organizer_db \<Rightarrow> js_string \<Rightarrow> js_string \<Rightarrow> js_string \<Rightarrow> js_string list \<Rightarrow> unit result" where
  "check_installed env db account writer market [] = Inr ()"
| "check_installed env db account writer market (poolId # rest) =
     (case table_get (eventMarketOrganizerStockPools db) (poolKey account poolId) of
        None \<Rightarrow> Inl missing_journal
      | Some saved \<Rightarrow>
          if pool_poolId saved \<noteq> poolId \<or> pool_accountPubkey saved \<noteq> account \<or> pool_organizerPubkey saved \<noteq> account
             \<or> pool_writerId saved \<noteq> writer \<or> readOnlyRecovery saved
          then Inl missing_journal
          else bind_result (assertPool env saved) (\<lambda>grant.
          if marketCoordinate grant \<noteq> market then Inl missing_journal
          else check_installed env db account writer market rest))"

definition check_registration ::
    "'p stock_ports_scheme \<Rightarrow> organizer_db \<Rightarrow> js_string \<Rightarrow> js_string \<Rightarrow> js_string
     \<Rightarrow> EventMarketOrganizerStockWriter option \<Rightarrow> writer_registration option \<Rightarrow> unit result" where
  "check_registration env db account writer market registration expected =
     (if (case expected of
            None \<Rightarrow> False
          | Some x \<Rightarrow>
              (case registration of
                 None \<Rightarrow> True
               | Some r \<Rightarrow> deviceId r \<noteq> expected_deviceId x \<or> writer_generation r \<noteq> expected_generation x
                   \<or> transferId r \<noteq> expected_transferId x \<or> installedPoolIds r \<noteq> expected_installedPoolIds x))
      then Inl ''The verified stock writer registration changed.''
      else case registration of
        None \<Rightarrow> Inr ()
      | Some r \<Rightarrow>
          if \<not> distinct (installedPoolIds r) \<or> \<not> list_all is_hex64 (installedPoolIds r) then Inl missing_journal
          else check_installed env db account writer market (installedPoolIds r))"

text \<open>Every older pool of the assignment has to be closed, or is closed now by its retained close.\<close>

fun close_overlapping ::
    "'p stock_ports_scheme \<Rightarrow> organizer_db \<Rightarrow> js_string \<Rightarrow> EventMarketStockGrant
     \<Rightarrow> ParsedEventMarketAssignment option list \<Rightarrow> int \<Rightarrow> EventMarketOrganizerStockPool list \<Rightarrow> organizer_db result" where
  "close_overlapping env db account grant closedAssignments nowMs [] = Inr db"
| "close_overlapping env db account grant closedAssignments nowMs (previous # rest) =
     (if pool_state previous = PoolClosed then close_overlapping env db account grant closedAssignments nowMs rest
      else bind_result (reconcileOriginalOrganizerStockClose env previous
             (pool_entries db account (pool_poolId previous)) grant closedAssignments nowMs) (\<lambda>closed.
           close_overlapping env (put_pool closed db) account grant closedAssignments nowMs rest))"

definition register_pool :: "js_string \<Rightarrow> EventMarketOrganizerStockWriter option \<Rightarrow> organizer_db \<Rightarrow> organizer_db" where
  "register_pool poolId registration db =
     (case registration of
        None \<Rightarrow> db
      | Some r \<Rightarrow> db\<lparr>eventMarketOrganizerStockWriters := table_put (writer_id r)
          (r\<lparr>installedPoolIds := (if poolId \<in> set (installedPoolIds r) then installedPoolIds r
                                else installedPoolIds r @ [poolId])\<rparr>) (eventMarketOrganizerStockWriters db)\<rparr>)"

definition installOrganizerStockHandover ::
    "'p event_ports_scheme \<Rightarrow> organizer_db \<Rightarrow> js_string \<Rightarrow> js_string \<Rightarrow> stock_rumor \<Rightarrow> SignedPublicNostrEvent \<Rightarrow> SignedPublicNostrEvent list
     \<Rightarrow> writer_registration option \<Rightarrow> bool \<Rightarrow> int \<Rightarrow> (organizer_db \<times> EventMarketOrganizerStockPool) result" where
  "installOrganizerStockHandover env db account writer rumor committed closedEvents expected continues nowMs =
     bind_result (readGrant env rumor) (\<lambda>grant.
     bind_result (requireTime nowMs) (\<lambda>_.
     bind_result (requireSession continues) (\<lambda>_.
     if account \<noteq> organizerPubkey grant \<or> writer \<noteq> writerId grant
        \<or> nowMs < created_at rumor * 1000 \<or> nowMs \<ge> expiresAtMs grant
        \<or> (case parseEventMarketAssignmentEvent env committed of
             None \<Rightarrow> True | Some a \<Rightarrow> \<not> commits_grant grant rumor nowMs a)
     then Inl ''Organizer stock handover does not match its commitment''
     else bind_result (assertOrganizerStockWriterCurrent db account (marketCoordinate grant) writer) (\<lambda>_.
     let prior = table_get (eventMarketOrganizerStockPools db) (poolKey (organizerPubkey grant) (rumor_id rumor));
         registration = table_get (eventMarketOrganizerStockWriters db)
           (organizerStockWriterKey account (marketCoordinate grant))
     in bind_result (check_registration env db account writer (marketCoordinate grant) registration expected) (\<lambda>_.
     if (case registration of None \<Rightarrow> False | Some r \<Rightarrow> rumor_id rumor \<in> set (installedPoolIds r)) \<and> prior = None
     then Inl missing_journal
     else case prior of
       Some p \<Rightarrow>
         bind_result (assertPool env p) (\<lambda>_.
         if grantRumor p \<noteq> rumor then Inl ''Stock grant identity conflict'' else Inr (db, p))
     | None \<Rightarrow>
         bind_result (close_overlapping env db account grant (map (parseEventMarketAssignmentEvent env) closedEvents) nowMs
           (filter (\<lambda>p. pool_accountPubkey p = organizerPubkey grant
                        \<and> pool_assignmentCoordinate p = assignmentCoordinate grant)
              (table_rows (eventMarketOrganizerStockPools db)))) (\<lambda>db'.
         bind_result (newPool env (organizerPubkey grant) rumor PoolActive) (\<lambda>pool.
         bind_result (add_pool pool db') (\<lambda>db''.
         Inr (register_pool (rumor_id rumor) registration db'', pool)))))))))"

end
