(* ===== verification/Stock_Chain.thy ===== *)
theory Stock_Chain
  imports Stock_Journal "HOL-Library.Multiset"
begin

text \<open>
  The invariant of the organizer's journal: the entries of every pool, in sequence order, form a
  hash-linked chain of acceptances that starts at the grant and ends at the pool's frontier, and
  their quantities add up to what the pool counts as accepted.
\<close>

subsection \<open>Sorting by sequence\<close>

lemma insert_by_key: "insert_by (\<lambda>a b. f a - f b) x ys = insort_key f x ys"
  for f :: "'a \<Rightarrow> int"
  by (induction ys) auto

lemma js_sort_key: "js_sort (\<lambda>a b. f a - f b) xs = sort_key f xs"
  for f :: "'a \<Rightarrow> int"
  by (induction xs) (simp_all add: js_sort_def insert_by_key)

lemma filter_key: "distinct (map f xs) \<Longrightarrow> x \<in> set xs \<Longrightarrow> filter (\<lambda>y. f x = f y) xs = [x]"
  by (induction xs) (auto simp: filter_empty_conv image_iff)

lemma sort_key_unique:
  assumes "mset ys = mset xs" "distinct (map f xs)" "sorted (map f ys)"
  shows "sort_key f xs = ys"
proof (rule properties_for_sort_key)
  fix k assume k: "k \<in> set ys"
  have s: "set ys = set xs" using assms(1) by (rule mset_eq_setD)
  have "distinct (map f ys)"
    using assms(1,2) by (metis mset_map mset_eq_imp_distinct_iff)
  with k s assms(2) show "filter (\<lambda>x. f k = f x) ys = filter (\<lambda>x. f k = f x) xs" by (simp add: filter_key)
qed (use assms in auto)

subsection \<open>Tables\<close>

lemma rows_put_fresh:
  "table_get t k = None \<Longrightarrow> mset (table_rows (table_put k v t)) = add_mset v (mset (table_rows t))"
  by (induction k v t rule: table_put.induct) (auto simp: table_rows_def table_get_def split: if_split_asm)

lemma rows_put_filter:
  assumes "table_keyed t" "\<And>u. table_get t k = Some u \<Longrightarrow> \<not> P u" "\<not> P v"
  shows "filter P (table_rows (table_put k v t)) = filter P (table_rows t)"
  using assms
proof (induction k v t rule: table_put.induct)
  case (2 k v k' v' t)
  then have "table_keyed t" "\<forall>x \<in> fst ` set t. k' < x" by (auto simp: table_keyed_def)
  moreover have "table_get t k = Some u \<Longrightarrow> \<not> P u" if "k \<noteq> k'" for u using 2(3) [of u] that by (simp add: table_get_def)
  ultimately show ?case using 2 by (auto simp: table_rows_def table_get_def split: if_split_asm)
qed (auto simp: table_rows_def)

subsection \<open>Chains\<close>

text \<open>The entry at position \<open>index\<close> after the entry \<open>prev\<close>, which was accepted at the time \<open>t\<close>.\<close>

definition entry_fits ::
    "EventMarketOrganizerStockPool \<Rightarrow> EventMarketStockGrant \<Rightarrow> nat \<Rightarrow> js_string \<Rightarrow> int
     \<Rightarrow> EventMarketOrganizerStockEntry \<Rightarrow> EventMarketStockAcceptance \<Rightarrow> bool" where
  "entry_fits pool grant index prev t e a \<longleftrightarrow>
     entry_id e = entryKey (pool_accountPubkey pool) (rumor_id (entry_rumor e))
     \<and> entry_accountPubkey e = pool_accountPubkey pool \<and> entry_poolId e = pool_poolId pool
     \<and> entry_sequence e = int index + 1 \<and> accepted_sequence a = entry_sequence e
     \<and> accepted_poolId a = pool_poolId pool \<and> merchantPubkey a = merchantPubkey grant
     \<and> organizerPubkey a = organizerPubkey grant \<and> writerId a = writerId grant
     \<and> accepted_orderId a = entry_orderId e \<and> accepted_claimRef a = entry_claimRef e
     \<and> accepted_quantity a = entry_quantity e \<and> 1 \<le> entry_quantity e \<and> previousId a = prev
     \<and> t \<le> acceptedAtMs a \<and> acceptedAtMs a < expiresAtMs grant"

fun chained ::
    "'p stock_ports_scheme \<Rightarrow> EventMarketOrganizerStockPool \<Rightarrow> EventMarketStockGrant \<Rightarrow> nat \<Rightarrow> js_string \<Rightarrow> int
     \<Rightarrow> EventMarketOrganizerStockEntry list \<Rightarrow> bool" where
  "chained env pool grant index prev t [] = True"
| "chained env pool grant index prev t (e # es) =
     (case parseEventMarketStockAuthorityRumor env (entry_rumor e) of
        Inr (Accepted a) \<Rightarrow>
          entry_fits pool grant index prev t e a
          \<and> chained env pool grant (Suc index) (rumor_id (entry_rumor e)) (acceptedAtMs a) es
      | _ \<Rightarrow> False)"

lemma chained_Cons:
  "chained env pool grant index prev t (e # es) \<longleftrightarrow>
     (\<exists>a. parseEventMarketStockAuthorityRumor env (entry_rumor e) = Inr (Accepted a)
        \<and> entry_fits pool grant index prev t e a
        \<and> chained env pool grant (Suc index) (rumor_id (entry_rumor e)) (acceptedAtMs a) es)"
  by (auto split: sum.split EventMarketStockAuthorityPayload.split)

declare chained.simps(2) [simp del]

definition last_id :: "js_string \<Rightarrow> EventMarketOrganizerStockEntry list \<Rightarrow> js_string" where
  "last_id prev es = (if es = [] then prev else rumor_id (entry_rumor (last es)))"

text \<open>The time of an accepted entry.\<close>

definition entry_time :: "EventMarketOrganizerStockEntry \<Rightarrow> int" where
  "entry_time e = (case event_content (entry_rumor e) of Some (Accepted a) \<Rightarrow> acceptedAtMs a | _ \<Rightarrow> 0)"

definition last_time :: "int \<Rightarrow> EventMarketOrganizerStockEntry list \<Rightarrow> int" where
  "last_time t es = (if es = [] then t else entry_time (last es))"

lemma decoded_time: "parseEventMarketStockAuthorityRumor env (entry_rumor e) = Inr (Accepted a) \<Longrightarrow> entry_time e = acceptedAtMs a"
  by (simp add: entry_time_def decoded_rumor(1))

lemma chained_snoc:
  "chained env pool grant index prev t (es @ [e]) \<longleftrightarrow>
     chained env pool grant index prev t es
     \<and> (\<exists>a. parseEventMarketStockAuthorityRumor env (entry_rumor e) = Inr (Accepted a)
          \<and> entry_fits pool grant (index + length es) (last_id prev es) (last_time t es) e a)"
proof (induction es arbitrary: index prev t)
  case Nil
  then show ?case by (auto simp: chained_Cons last_id_def last_time_def)
next
  case (Cons f es)
  have "last_id (rumor_id (entry_rumor f)) es = last_id prev (f # es)" by (simp add: last_id_def)
  moreover have "last_time (acceptedAtMs a) es = last_time t (f # es)"
    if "parseEventMarketStockAuthorityRumor env (entry_rumor f) = Inr (Accepted a)" for a
    using decoded_time [OF that] by (simp add: last_time_def)
  ultimately show ?case using Cons.IH by (auto simp: chained_Cons)
qed

lemma chained_nth:
  assumes "chained env pool grant index prev t es" "i < length es"
  shows "\<exists>a p u. parseEventMarketStockAuthorityRumor env (entry_rumor (es ! i)) = Inr (Accepted a)
     \<and> entry_fits pool grant (index + i) p u (es ! i) a"
  using assms
proof (induction es arbitrary: index prev t i)
  case (Cons e es)
  then show ?case
  proof (cases i)
    case (Suc j)
    with Cons.prems obtain u where "chained env pool grant (Suc index) (rumor_id (entry_rumor e)) u es" "j < length es"
      by (auto simp: chained_Cons)
    from Cons.IH [OF this] Suc show ?thesis by simp
  qed (auto simp: chained_Cons)
qed simp

text \<open>The chain depends only on the identity of the pool.\<close>

lemma chained_cong:
  assumes "pool_accountPubkey p = pool_accountPubkey q" "pool_poolId p = pool_poolId q"
  shows "chained env p grant index prev t es = chained env q grant index prev t es"
proof (induction es arbitrary: index prev t)
  case (Cons e es)
  have "entry_fits p grant index prev t e a = entry_fits q grant index prev t e a" for a
    by (simp add: entry_fits_def assms)
  with Cons show ?case by (simp add: chained_Cons)
qed simp

lemma chained_sequences: "chained env pool grant index prev t es \<Longrightarrow> map entry_sequence es = map (\<lambda>i. int i + 1) [index..<index + length es]"
proof (induction es arbitrary: index prev t)
  case (Cons e es)
  from Cons.prems obtain u where c: "chained env pool grant (Suc index) (rumor_id (entry_rumor e)) u es"
    and s: "entry_sequence e = int index + 1"
    by (auto simp: chained_Cons entry_fits_def)
  have "[index..<index + length (e # es)] = index # [Suc index..<Suc index + length es]" by (simp add: upt_rec)
  with Cons.IH [OF c] s show ?case by simp
qed simp

lemma chained_sorted:
  assumes "chained env pool grant 0 prev t es"
  shows "distinct (map entry_sequence es)" "sorted (map entry_sequence es)"
proof -
  have m: "map entry_sequence es = map (\<lambda>i. int i + 1) [0..<length es]" using chained_sequences [OF assms] by simp
  show "distinct (map entry_sequence es)" unfolding m by (simp add: distinct_map inj_on_def)
  show "sorted (map entry_sequence es)" unfolding m by (rule sorted_map_mono) (auto simp: mono_on_def)
qed

subsection \<open>The journal of one pool\<close>

definition ordered_entries :: "organizer_db \<Rightarrow> EventMarketOrganizerStockPool \<Rightarrow> EventMarketOrganizerStockEntry list" where
  "ordered_entries db p =
     js_sort (\<lambda>a b. entry_sequence a - entry_sequence b) (pool_entries db (pool_accountPubkey p) (pool_poolId p))"

definition journal_pool :: "'p stock_ports_scheme \<Rightarrow> organizer_db \<Rightarrow> EventMarketOrganizerStockPool \<Rightarrow> bool" where
  "journal_pool env db p \<longleftrightarrow>
     (case assertPool env p of
        Inl _ \<Rightarrow> False
      | Inr grant \<Rightarrow>
          let es = ordered_entries db p
          in chained env p grant 0 (pool_poolId p) (created_at (grantRumor p) * 1000) es
             \<and> int (length es) = acceptedSequence p
             \<and> sum_list (map entry_quantity es) = acceptedQuantity p
             \<and> last_id (pool_poolId p) es = lastAcceptedId p)"

definition rows_keyed :: "organizer_db \<Rightarrow> bool" where
  "rows_keyed db \<longleftrightarrow>
     table_keyed (eventMarketOrganizerStockPools db) \<and> table_keyed (eventMarketOrganizerStockEntries db)
     \<and> list_all (\<lambda>(k, p). k = pool_id p) (eventMarketOrganizerStockPools db)
     \<and> list_all (\<lambda>(k, e). k = entry_id e) (eventMarketOrganizerStockEntries db)"

text \<open>The journal of an organizer: every pool of the account in which it is the organizer.\<close>

definition journal_ok :: "'p stock_ports_scheme \<Rightarrow> js_string \<Rightarrow> organizer_db \<Rightarrow> bool" where
  "journal_ok env account db \<longleftrightarrow>
     rows_keyed db
     \<and> list_all (\<lambda>p. pool_accountPubkey p = account \<longrightarrow> pool_organizerPubkey p = account \<longrightarrow> journal_pool env db p)
         (table_rows (eventMarketOrganizerStockPools db))
     \<and> list_all (\<lambda>e. entry_accountPubkey e = account \<longrightarrow>
           table_get (eventMarketOrganizerStockPools db) (poolKey account (entry_poolId e)) \<noteq> None)
         (table_rows (eventMarketOrganizerStockEntries db))"

lemma table_row_keys: "table_keyed t \<Longrightarrow> list_all (\<lambda>(k, x). k = f x) t \<Longrightarrow> table_get t k = Some x \<Longrightarrow> k = f x"
  by (auto simp: table_get_def list_all_iff dest: map_of_SomeD)

lemma table_get_row: "table_keyed t \<Longrightarrow> list_all (\<lambda>(k, x). k = f x) t \<Longrightarrow> x \<in> set (table_rows t) \<Longrightarrow> table_get t (f x) = Some x"
proof -
  assume t: "table_keyed t" "list_all (\<lambda>(k, x). k = f x) t" "x \<in> set (table_rows t)"
  then have "(f x, x) \<in> set t" by (auto simp: table_rows_def list_all_iff)
  moreover have "distinct (map fst t)" using t(1) by (auto simp: table_keyed_def strict_sorted_iff)
  ultimately show ?thesis by (simp add: table_get_def)
qed

lemma keyed_put: "list_all (\<lambda>(k, x). k = f x) t \<Longrightarrow> list_all (\<lambda>(k, x). k = f x) (table_put (f v) v t)"
  by (induction "f v" v t rule: table_put.induct) auto

lemma pool_row: "rows_keyed db \<Longrightarrow> p \<in> set (table_rows (eventMarketOrganizerStockPools db))
    \<longleftrightarrow> (\<exists>k. table_get (eventMarketOrganizerStockPools db) k = Some p)"
  unfolding rows_keyed_def by (elim conjE) (rule table_get_rows)

lemma entry_row: "rows_keyed db \<Longrightarrow> e \<in> set (table_rows (eventMarketOrganizerStockEntries db))
    \<longleftrightarrow> (\<exists>k. table_get (eventMarketOrganizerStockEntries db) k = Some e)"
  unfolding rows_keyed_def by (elim conjE) (rule table_get_rows)

lemma journal_poolD:
  assumes "journal_pool env db p"
  obtains grant where "assertPool env p = Inr grant"
    "chained env p grant 0 (pool_poolId p) (created_at (grantRumor p) * 1000) (ordered_entries db p)"
    "int (length (ordered_entries db p)) = acceptedSequence p"
    "sum_list (map entry_quantity (ordered_entries db p)) = acceptedQuantity p"
    "last_id (pool_poolId p) (ordered_entries db p) = lastAcceptedId p"
  using assms by (auto simp: journal_pool_def Let_def split: sum.split_asm)

lemma journal_pool_iff:
  "journal_pool env db p \<longleftrightarrow>
     (\<exists>grant. assertPool env p = Inr grant
        \<and> chained env p grant 0 (pool_poolId p) (created_at (grantRumor p) * 1000) (ordered_entries db p)
        \<and> int (length (ordered_entries db p)) = acceptedSequence p
        \<and> sum_list (map entry_quantity (ordered_entries db p)) = acceptedQuantity p
        \<and> last_id (pool_poolId p) (ordered_entries db p) = lastAcceptedId p)"
  by (auto simp: journal_pool_def Let_def split: sum.split)

lemma set_ordered: "set (ordered_entries db p) = set (pool_entries db (pool_accountPubkey p) (pool_poolId p))"
  by (simp add: ordered_entries_def)

subsection \<open>Valid pools\<close>

lemma readGrant_Inr: "readGrant env r = Inr g \<Longrightarrow> parseEventMarketStockAuthorityRumor env r = Inr (Grant g)"
proof -
  assume "readGrant env r = Inr g"
  then obtain p where "parseEventMarketStockAuthorityRumor env r = Inr p" "(case p of Grant g \<Rightarrow> Inr g | _ \<Rightarrow> Inl ''Stock grant required'') = Inr g"
    by (auto simp: readGrant_def bind_result_Inr)
  then show ?thesis by (cases p) simp_all
qed

lemma assertPool_Inr:
  assumes "assertPool env p = Inr g"
  shows "parseEventMarketStockAuthorityRumor env (grantRumor p) = Inr (Grant g)"
    "pool_id p = poolKey (pool_accountPubkey p) (pool_poolId p)" "pool_poolId p = rumor_id (grantRumor p)"
    "pool_accountPubkey p = merchantPubkey g \<or> pool_accountPubkey p = organizerPubkey g"
    "pool_merchantPubkey p = merchantPubkey g" "pool_organizerPubkey p = organizerPubkey g" "pool_writerId p = writerId g"
    "pool_quantity p = grant_quantity g" "acceptedQuantity p \<le> grant_quantity g" "0 \<le> acceptedSequence p"
    "acceptedSequence p \<le> acceptedQuantity p" "is_hex64 (lastAcceptedId p)" "pool_assignmentCoordinate p = assignmentCoordinate g"
    "acceptedSequence p = 0 \<longrightarrow> acceptedQuantity p = 0 \<and> lastAcceptedId p = pool_poolId p"
    "pool_productCoordinate p = productCoordinate g"
  using assms unfolding assertPool_def
  by (auto simp: bind_result_Inr readGrant_Inr pool_count_def split: if_split_asm)

lemma grant_keys:
  assumes "parseEventMarketStockAuthorityRumor env r = Inr (Grant g)"
  shows "length (merchantPubkey g) = 64" "length (organizerPubkey g) = 64"
proof -
  have "parsePayload env (Grant g) = Inr (Grant g)" by (rule decoded_rumor(5) [OF assms])
  then have "valid_parties env (EventMarketStockAuthorityParties.truncate g)" by (simp add: parsePayload_def split: if_split_asm)
  then show "length (merchantPubkey g) = 64" "length (organizerPubkey g) = 64"
    by (simp_all add: valid_parties_def is_hex64_def EventMarketStockAuthorityParties.defs)
qed

text \<open>The row of a writer's pool is the row of its account and grant.\<close>

lemma writer_pool_Inr:
  assumes "writer_pool env db account writer poolId = Inr (pool, grant)"
    and keyed: "rows_keyed db"
  shows "table_get (eventMarketOrganizerStockPools db) (poolKey account poolId) = Some pool" "assertPool env pool = Inr grant"
    "pool_accountPubkey pool = account" "pool_organizerPubkey pool = account" "pool_poolId pool = poolId" "pool_writerId pool = writer"
proof -
  show g: "table_get (eventMarketOrganizerStockPools db) (poolKey account poolId) = Some pool"
    and a: "assertPool env pool = Inr grant" and o: "pool_organizerPubkey pool = account" and "pool_writerId pool = writer"
    using assms(1) unfolding writer_pool_def
    by (auto simp: bind_result_Inr split: option.split_asm if_split_asm)
  have "pool_id pool = poolKey account poolId"
    using table_row_keys [of _ pool_id, OF _ _ g] keyed by (simp add: rows_keyed_def)
  then have k: "poolKey (pool_accountPubkey pool) (pool_poolId pool) = poolKey account poolId"
    using assertPool_Inr(2) [OF a] by simp
  have "length (pool_accountPubkey pool) = 64" "length account = 64"
    using grant_keys [OF assertPool_Inr(1) [OF a]] assertPool_Inr(4,6) [OF a] o by auto
  with k show "pool_accountPubkey pool = account" "pool_poolId pool = poolId" by (auto simp: poolKey_def)
qed

lemma journal_row:
  assumes "journal_ok env account db" "table_get (eventMarketOrganizerStockPools db) k = Some p"
    "pool_accountPubkey p = account" "pool_organizerPubkey p = account"
  shows "journal_pool env db p"
proof -
  have "p \<in> set (table_rows (eventMarketOrganizerStockPools db))"
    using assms(1,2) table_get_rows by (fastforce simp: journal_ok_def rows_keyed_def)
  with assms show ?thesis by (auto simp: journal_ok_def list_all_iff)
qed

lemma journal_keyed: "journal_ok env account db \<Longrightarrow> rows_keyed db"
  by (simp add: journal_ok_def)

text \<open>The head of the chain is the row the frontier names.\<close>

lemma head_row:
  assumes keyed: "rows_keyed db" and j: "journal_pool env db p" and ne: "ordered_entries db p \<noteq> []"
  shows "table_get (eventMarketOrganizerStockEntries db) (entryKey (pool_accountPubkey p) (lastAcceptedId p))
    = Some (last (ordered_entries db p))"
proof -
  let ?es = "ordered_entries db p"
  from j obtain grant where c: "chained env p grant 0 (pool_poolId p) (created_at (grantRumor p) * 1000) ?es"
    and l: "last_id (pool_poolId p) ?es = lastAcceptedId p" by (rule journal_poolD)
  have "length ?es - 1 < length ?es" using ne by simp
  from chained_nth [OF c this] obtain a q u where "entry_fits p grant (0 + (length ?es - 1)) q u (last ?es) a"
    using ne by (auto simp: last_conv_nth)
  then have "entry_id (last ?es) = entryKey (pool_accountPubkey p) (lastAcceptedId p)"
    using l ne by (simp add: entry_fits_def last_id_def)
  moreover have "last ?es \<in> set (table_rows (eventMarketOrganizerStockEntries db))"
    using ne set_ordered [of db p] last_in_set [OF ne] by (auto simp: pool_entries_def)
  ultimately show ?thesis
    using table_get_row [of _ entry_id] keyed by (metis rows_keyed_def)
qed

subsection \<open>Writing one pool\<close>

lemma ordered_put_pool [simp]: "ordered_entries (put_pool q db) p = ordered_entries db p"
  by (simp add: ordered_entries_def pool_entries_def put_pool_def)

lemma journal_pool_cong: "ordered_entries db' q = ordered_entries db q \<Longrightarrow> journal_pool env db' q = journal_pool env db q"
  unfolding journal_pool_def by (simp only:)

lemma journal_pool_put_pool [simp]: "journal_pool env (put_pool q db) p = journal_pool env db p"
  unfolding journal_pool_def ordered_put_pool ..

text \<open>A pool row is replaced by one of the same key that is in order; rows of the account stay.\<close>

lemma put_pool_ok:
  assumes j: "journal_ok env account db"
    and p: "pool_accountPubkey p = account \<Longrightarrow> pool_organizerPubkey p = account \<Longrightarrow> journal_pool env db p"
  shows "journal_ok env account (put_pool p db)"
proof -
  let ?t = "eventMarketOrganizerStockPools db" and ?t' = "table_put (pool_id p) p (eventMarketOrganizerStockPools db)"
  have k: "table_keyed ?t" "list_all (\<lambda>(k, p). k = pool_id p) ?t" using j by (simp_all add: journal_ok_def rows_keyed_def)
  have k': "table_keyed ?t'" "list_all (\<lambda>(k, p). k = pool_id p) ?t'"
    using table_put_keyed [OF k(1)] keyed_put [OF k(2)] by blast+
  have "list_all (\<lambda>p. pool_accountPubkey p = account \<longrightarrow> pool_organizerPubkey p = account \<longrightarrow> journal_pool env db p) (table_rows ?t')"
    unfolding list_all_iff
  proof (intro ballI impI)
    fix q assume q: "q \<in> set (table_rows ?t')" "pool_accountPubkey q = account" "pool_organizerPubkey q = account"
    then obtain key where "table_get ?t' key = Some q" using table_get_rows [OF k'(1)] by blast
    then have "q = p \<or> table_get ?t key = Some q" by (simp add: table_get_put split: if_split_asm)
    then show "journal_pool env db q" using p q(2,3) journal_row [OF j] by blast
  qed
  moreover have "list_all (\<lambda>e. entry_accountPubkey e = account \<longrightarrow> table_get ?t' (poolKey account (entry_poolId e)) \<noteq> None)
      (table_rows (eventMarketOrganizerStockEntries db))"
    using j by (auto simp: journal_ok_def list_all_iff table_get_put)
  ultimately show ?thesis
    using j k' by (simp add: journal_ok_def rows_keyed_def put_pool_def) (simp add: put_pool_def [symmetric] journal_pool_put_pool)
qed

subsection \<open>Adding an entry\<close>

lemma add_entry_Inr:
  assumes "add_entry e db = Inr db'"
  shows "db' = put_entry e db" "table_get (eventMarketOrganizerStockEntries db) (entry_id e) = None"
    "f \<in> set (pool_entries db (entry_accountPubkey e) (entry_poolId e)) \<Longrightarrow>
       entry_sequence f \<noteq> entry_sequence e \<and> entry_orderId f \<noteq> entry_orderId e \<and> entry_claimRef f \<noteq> entry_claimRef e"
  using assms by (auto simp: add_entry_def put_entry_def list_ex_iff split: if_split_asm)

lemma put_entry_other:
  assumes "rows_keyed db" "table_get (eventMarketOrganizerStockEntries db) (entry_id e) = None" "\<not> entry_of_pool a q e"
  shows "pool_entries (put_entry e db) a q = pool_entries db a q"
  using assms rows_put_filter [of "eventMarketOrganizerStockEntries db" "entry_id e" "entry_of_pool a q" e]
  by (simp add: pool_entries_def put_entry_def rows_keyed_def)

lemma ordered_put_entry:
  assumes keyed: "rows_keyed db" and fresh: "table_get (eventMarketOrganizerStockEntries db) (entry_id e) = None"
    and e: "entry_of_pool (pool_accountPubkey p) (pool_poolId p) e"
    and c: "chained env p grant 0 prev t (ordered_entries db p)" and s: "entry_sequence e = int (length (ordered_entries db p)) + 1"
  shows "ordered_entries (put_entry e db) p = ordered_entries db p @ [e]"
proof -
  let ?es = "ordered_entries db p" and ?P = "entry_of_pool (pool_accountPubkey p) (pool_poolId p)"
  have m: "mset (table_rows (eventMarketOrganizerStockEntries (put_entry e db)))
      = add_mset e (mset (table_rows (eventMarketOrganizerStockEntries db)))"
    using rows_put_fresh [OF fresh, of e] by (simp add: put_entry_def)
  have "mset (pool_entries (put_entry e db) (pool_accountPubkey p) (pool_poolId p))
      = filter_mset ?P (mset (table_rows (eventMarketOrganizerStockEntries (put_entry e db))))"
    by (simp add: pool_entries_def mset_filter)
  also have "\<dots> = add_mset e (mset (pool_entries db (pool_accountPubkey p) (pool_poolId p)))"
    using e by (simp add: m pool_entries_def mset_filter)
  also have "\<dots> = mset (?es @ [e])" by (simp add: ordered_entries_def js_sort_key)
  finally have mset: "mset (?es @ [e]) = mset (pool_entries (put_entry e db) (pool_accountPubkey p) (pool_poolId p))" ..
  have seqs: "map entry_sequence ?es = map (\<lambda>i. int i + 1) [0..<length ?es]" using chained_sequences [OF c] by simp
  then have lt: "\<forall>x \<in> set (map entry_sequence ?es). x < entry_sequence e" using s by auto
  have d: "distinct (map entry_sequence (?es @ [e]))" "sorted (map entry_sequence (?es @ [e]))"
    using chained_sorted [OF c] lt by (auto simp: sorted_append)
  have "distinct (map entry_sequence (pool_entries (put_entry e db) (pool_accountPubkey p) (pool_poolId p)))"
    using d(1) mset by (metis mset_map mset_eq_imp_distinct_iff)
  from sort_key_unique [OF mset this d(2)] show ?thesis
    by (simp add: ordered_entries_def js_sort_key)
qed

lemma put_entry_keyed:
  assumes "rows_keyed db"
  shows "rows_keyed (put_entry e db)"
proof -
  have "list_all (\<lambda>(k, x). k = entry_id x) (table_put (entry_id e) e (eventMarketOrganizerStockEntries db))"
    using assms keyed_put [of entry_id "eventMarketOrganizerStockEntries db" e] by (simp add: rows_keyed_def)
  moreover have "table_keyed (table_put (entry_id e) e (eventMarketOrganizerStockEntries db))"
    using assms by (simp add: rows_keyed_def table_put_keyed)
  ultimately show ?thesis using assms by (simp add: rows_keyed_def put_entry_def)
qed

subsection \<open>An acceptance\<close>

lemma check_predecessor_Inr:
  assumes "check_predecessor env db account pool now = Inr u" "0 < acceptedSequence pool"
  shows "\<exists>e a. table_get (eventMarketOrganizerStockEntries db) (entryKey account (lastAcceptedId pool)) = Some e
    \<and> parseEventMarketStockAuthorityRumor env (entry_rumor e) = Inr (Accepted a) \<and> acceptedAtMs a \<le> now"
proof -
  from assms obtain e where e: "table_get (eventMarketOrganizerStockEntries db) (entryKey account (lastAcceptedId pool)) = Some e"
    by (auto simp: check_predecessor_def split: option.split_asm)
  with assms obtain p where p: "parseEventMarketStockAuthorityRumor env (entry_rumor e) = Inr p"
    by (auto simp: check_predecessor_def bind_result_Inr)
  show ?thesis using assms e p by (cases p) (auto simp: check_predecessor_def split: if_split_asm)
qed

lemma accept_new_Inr:
  assumes "accept_new env db input pool grant now = Inr (db', replayed, entry)"
  obtains rumor where "pool_state pool = PoolActive" "\<not> readOnlyRecovery pool" "now < expiresAtMs grant"
    "created_at (grantRumor pool) * 1000 \<le> now" "check_predecessor env db (input_authenticatedPubkey input) pool now = Inr ()"
    "1 \<le> input_quantity input" "input_quantity input \<le> pool_quantity pool - acceptedQuantity pool"
    "createEventMarketStockAuthorityRumor env (Accepted (acceptance_payload input pool now)) (now div 1000) = Inr rumor"
    "entry = acceptance_entry input pool rumor" "\<not> replayed"
    "add_entry entry db = Inr (put_entry entry db)"
    "db' = put_pool (pool\<lparr>acceptedQuantity := acceptedQuantity pool + input_quantity input,
             acceptedSequence := acceptedSequence pool + 1, lastAcceptedId := rumor_id rumor\<rparr>) (put_entry entry db)"
proof -
  from assms obtain rumor db1 where "pool_state pool = PoolActive" "\<not> readOnlyRecovery pool" "now < expiresAtMs grant"
    "created_at (grantRumor pool) * 1000 \<le> now" "check_predecessor env db (input_authenticatedPubkey input) pool now = Inr ()"
    "1 \<le> input_quantity input" "input_quantity input \<le> pool_quantity pool - acceptedQuantity pool"
    "createEventMarketStockAuthorityRumor env (Accepted (acceptance_payload input pool now)) (now div 1000) = Inr rumor"
    "entry = acceptance_entry input pool rumor" "\<not> replayed" "add_entry entry db = Inr db1"
    "db' = put_pool (pool\<lparr>acceptedQuantity := acceptedQuantity pool + input_quantity input,
             acceptedSequence := acceptedSequence pool + 1, lastAcceptedId := rumor_id rumor\<rparr>) db1"
    unfolding accept_new_def by (auto simp: bind_result_Inr Let_def split: if_split_asm)
  then show thesis using add_entry_Inr(1) [of entry db db1] that by blast
qed

lemma last_entry_time:
  assumes keyed: "rows_keyed db" and j: "journal_pool env db p"
    and pre: "check_predecessor env db (pool_accountPubkey p) p now = Inr u"
    and from_grant: "created_at (grantRumor p) * 1000 \<le> now"
  shows "last_time (created_at (grantRumor p) * 1000) (ordered_entries db p) \<le> now"
proof (cases "ordered_entries db p = []")
  case False
  from j have "int (length (ordered_entries db p)) = acceptedSequence p" by (rule journal_poolD)
  with False have "0 < acceptedSequence p" by (metis length_greater_0_conv of_nat_0_less_iff)
  from check_predecessor_Inr [OF pre this] head_row [OF keyed j False] obtain a
    where "parseEventMarketStockAuthorityRumor env (entry_rumor (last (ordered_entries db p))) = Inr (Accepted a)" "acceptedAtMs a \<le> now"
    by auto
  then show ?thesis using False by (simp add: last_time_def decoded_time)
qed (simp add: last_time_def from_grant)

text \<open>The pool after an acceptance, and the chain it heads.\<close>

lemma accepted_pool:
  assumes keyed: "rows_keyed db" and j: "journal_pool env db pool" and g: "assertPool env pool = Inr grant"
    and account: "pool_accountPubkey pool = input_authenticatedPubkey input" and hex: "hashes_hex env"
    and r: "accept_new env db input pool grant now = Inr (db', replayed, entry)"
  shows "\<exists>pool' rumor. db' = put_pool pool' (put_entry entry db) \<and> entry = acceptance_entry input pool rumor \<and> \<not> replayed
    \<and> pool' = pool\<lparr>acceptedQuantity := acceptedQuantity pool + input_quantity input,
             acceptedSequence := acceptedSequence pool + 1, lastAcceptedId := rumor_id rumor\<rparr>
    \<and> parseEventMarketStockAuthorityRumor env rumor = Inr (Accepted (acceptance_payload input pool now))
    \<and> add_entry entry db = Inr (put_entry entry db)
    \<and> assertPool env pool' = Inr grant \<and> ordered_entries (put_entry entry db) pool' = ordered_entries db pool @ [entry]
    \<and> journal_pool env (put_entry entry db) pool'"
proof -
  obtain rumor where act: "pool_state pool = PoolActive" "\<not> readOnlyRecovery pool" "now < expiresAtMs grant"
      "created_at (grantRumor pool) * 1000 \<le> now" "check_predecessor env db (input_authenticatedPubkey input) pool now = Inr ()"
    and q: "1 \<le> input_quantity input" "input_quantity input \<le> pool_quantity pool - acceptedQuantity pool"
    and c: "createEventMarketStockAuthorityRumor env (Accepted (acceptance_payload input pool now)) (now div 1000) = Inr rumor"
    and e: "entry = acceptance_entry input pool rumor" "\<not> replayed" "add_entry entry db = Inr (put_entry entry db)"
    and db': "db' = put_pool (pool\<lparr>acceptedQuantity := acceptedQuantity pool + input_quantity input,
             acceptedSequence := acceptedSequence pool + 1, lastAcceptedId := rumor_id rumor\<rparr>) (put_entry entry db)"
    by (rule accept_new_Inr [OF r])
  let ?es = "ordered_entries db pool"
  let ?pool' = "pool\<lparr>acceptedQuantity := acceptedQuantity pool + input_quantity input,
             acceptedSequence := acceptedSequence pool + 1, lastAcceptedId := rumor_id rumor\<rparr>"
  note ap = assertPool_Inr [OF g] and decoded = created_is_decoded [OF c hex]
  have id: "is_hex64 (rumor_id rumor)" by (rule decoded_rumor(4) [OF decoded])
  have g': "assertPool env ?pool' = Inr grant"
  proof -
    have rg: "readGrant env (grantRumor pool) = Inr grant"
      using g unfolding assertPool_def by (auto simp: bind_result_Inr split: if_split_asm)
    show ?thesis using g q act(1) id unfolding assertPool_def
      by (simp add: rg pool_count_def) (auto split: if_split_asm)
  qed
  from j obtain grant' where "assertPool env pool = Inr grant'"
    and chain': "chained env pool grant' 0 (pool_poolId pool) (created_at (grantRumor pool) * 1000) ?es"
    and len: "int (length ?es) = acceptedSequence pool" and sum: "sum_list (map entry_quantity ?es) = acceptedQuantity pool"
    and lst: "last_id (pool_poolId pool) ?es = lastAcceptedId pool"
    by (rule journal_poolD)
  with g have chain: "chained env pool grant 0 (pool_poolId pool) (created_at (grantRumor pool) * 1000) ?es" by simp
  have time: "last_time (created_at (grantRumor pool) * 1000) ?es \<le> now"
    using last_entry_time [OF keyed j _ act(4)] act(5) account by simp
  have f: "entry_accountPubkey entry = pool_accountPubkey pool" "entry_poolId entry = pool_poolId pool"
    "entry_sequence entry = int (length ?es) + 1" "entry_rumor entry = rumor" "entry_quantity entry = input_quantity input"
    by (simp_all add: e acceptance_entry_def account len)
  have fits: "entry_fits pool grant (0 + length ?es) (last_id (pool_poolId pool) ?es)
      (last_time (created_at (grantRumor pool) * 1000) ?es) entry (acceptance_payload input pool now)"
    using ap q time act(3) len lst
    by (simp add: entry_fits_def acceptance_payload_def e(1) acceptance_entry_def account)
  have ordered: "ordered_entries (put_entry entry db) pool = ?es @ [entry]"
    using ordered_put_entry [OF keyed add_entry_Inr(2) [OF e(3)] _ chain f(3)] f(1,2) by (simp add: entry_of_pool_def)
  moreover have "ordered_entries (put_entry entry db) ?pool' = ordered_entries (put_entry entry db) pool"
    by (simp add: ordered_entries_def)
  ultimately have ordered': "ordered_entries (put_entry entry db) ?pool' = ?es @ [entry]" by simp
  have "chained env pool grant 0 (pool_poolId pool) (created_at (grantRumor pool) * 1000) (?es @ [entry])"
    using chain fits decoded f(4) unfolding chained_snoc by blast
  then have "chained env ?pool' grant 0 (pool_poolId pool) (created_at (grantRumor pool) * 1000) (?es @ [entry])"
    using chained_cong [of pool ?pool' env grant] by simp
  then have "journal_pool env (put_entry entry db) ?pool'"
    using g' len sum f(4,5) by (simp add: journal_pool_def ordered' Let_def last_id_def)
  with db' e g' ordered' decoded show ?thesis by blast
qed

text \<open>An entry and the pool it extends are written together.\<close>

lemma extend_pool_ok:
  assumes j: "journal_ok env account db" and fresh: "table_get (eventMarketOrganizerStockEntries db) (entry_id e) = None"
    and p: "pool_id p = poolKey account (pool_poolId p)" "entry_of_pool account (pool_poolId p) e"
    and jp: "journal_pool env (put_entry e db) p"
  shows "journal_ok env account (put_pool p (put_entry e db))"
proof -
  let ?db = "put_pool p (put_entry e db)"
  note keyed = journal_keyed [OF j]
  have pools: "eventMarketOrganizerStockPools ?db = table_put (pool_id p) p (eventMarketOrganizerStockPools db)"
    and entries: "eventMarketOrganizerStockEntries ?db = table_put (entry_id e) e (eventMarketOrganizerStockEntries db)"
    by (simp_all add: put_pool_def put_entry_def)
  have k: "table_keyed (eventMarketOrganizerStockPools db)" "list_all (\<lambda>(k, p). k = pool_id p) (eventMarketOrganizerStockPools db)"
    using keyed by (simp_all add: rows_keyed_def)
  have keyed': "rows_keyed ?db"
    using put_entry_keyed [OF keyed] k table_put_keyed [OF k(1)] keyed_put [OF k(2)]
    by (simp add: rows_keyed_def put_pool_def put_entry_def)
  have "journal_pool env ?db q"
    if q: "q \<in> set (table_rows (eventMarketOrganizerStockPools ?db))" "pool_accountPubkey q = account" "pool_organizerPubkey q = account" for q
  proof (cases "q = p")
    case False
    from q(1) keyed' obtain key where "table_get (eventMarketOrganizerStockPools ?db) key = Some q"
      using pool_row [of ?db q] by blast
    with False have row: "key \<noteq> pool_id p" "table_get (eventMarketOrganizerStockPools db) key = Some q"
      by (auto simp: pools table_get_put split: if_split_asm)
    have jq: "journal_pool env db q" by (rule journal_row [OF j row(2) q(2,3)])
    then obtain g where "assertPool env q = Inr g" by (rule journal_poolD)
    then have "pool_id q = poolKey account (pool_poolId q)" using assertPool_Inr(2) q(2) by metis
    moreover have "key = pool_id q" by (rule table_row_keys [OF k row(2)])
    ultimately have "pool_poolId q \<noteq> pool_poolId p" using row(1) p(1) by auto
    then have "\<not> entry_of_pool (pool_accountPubkey q) (pool_poolId q) e" using p(2) by (simp add: entry_of_pool_def)
    then have "ordered_entries (put_entry e db) q = ordered_entries db q"
      using put_entry_other [OF keyed fresh] by (simp add: ordered_entries_def)
    then have "journal_pool env (put_entry e db) q" using jq journal_pool_cong by blast
    then show ?thesis by simp
  qed (simp add: jp)
  moreover have "table_get (eventMarketOrganizerStockPools ?db) (poolKey account (entry_poolId f)) \<noteq> None"
    if f: "f \<in> set (table_rows (eventMarketOrganizerStockEntries ?db))" "entry_accountPubkey f = account" for f
  proof (cases "f = e")
    case True
    then show ?thesis using p by (simp add: pools table_get_put entry_of_pool_def)
  next
    case False
    from f(1) keyed' obtain key where "table_get (eventMarketOrganizerStockEntries ?db) key = Some f"
      using entry_row [of ?db f] by blast
    with False have "table_get (eventMarketOrganizerStockEntries db) key = Some f" by (auto simp: entries table_get_put split: if_split_asm)
    then have "f \<in> set (table_rows (eventMarketOrganizerStockEntries db))"
      using entry_row [OF keyed] by blast
    then show ?thesis using j f(2) by (auto simp: journal_ok_def list_all_iff pools table_get_put)
  qed
  ultimately show ?thesis using keyed' by (simp add: journal_ok_def list_all_iff)
qed

lemma commit_Inr:
  assumes r: "commitOrganizerStockAcceptance env db input continues now = Inr (db', replayed, entry)" and keyed: "rows_keyed db"
  obtains pool grant where "writer_pool env db (input_authenticatedPubkey input) (input_writerId input) (input_poolId input) = Inr (pool, grant)"
    "pool_accountPubkey pool = input_authenticatedPubkey input" "pool_poolId pool = input_poolId input" "assertPool env pool = Inr grant"
    "db' = db \<and> replayed
       \<and> find (\<lambda>e. entry_orderId e = input_orderId input) (pool_entries db (input_authenticatedPubkey input) (input_poolId input)) = Some entry
       \<and> (\<exists>a. parseEventMarketStockAuthorityRumor env (entry_rumor entry) = Inr (Accepted a) \<and> prior_matches input entry a)
     \<or> find (\<lambda>e. entry_orderId e = input_orderId input) (pool_entries db (input_authenticatedPubkey input) (input_poolId input)) = None
       \<and> accept_new env db input pool grant now = Inr (db', replayed, entry)"
proof -
  from r obtain pool grant where w: "writer_pool env db (input_authenticatedPubkey input) (input_writerId input) (input_poolId input) = Inr (pool, grant)"
    and c: "(case find (\<lambda>e. entry_orderId e = input_orderId input)
            (pool_entries db (input_authenticatedPubkey input) (input_poolId input)) of
       Some prior \<Rightarrow>
         bind_result (parseEventMarketStockAuthorityRumor env (entry_rumor prior)) (\<lambda>payload.
         case payload of
           Accepted accepted \<Rightarrow>
             if prior_matches input prior accepted then Inr (db, True, prior)
             else Inl ''Organizer order ID is bound to different terms''
         | _ \<Rightarrow> Inl ''Organizer order ID is bound to different terms'')
     | None \<Rightarrow> accept_new env db input pool grant now) = Inr (db', replayed, entry)"
    unfolding commitOrganizerStockAcceptance_def by (auto simp: bind_result_Inr split: if_split_asm prod.split_asm)
  note wp = writer_pool_Inr [OF w keyed]
  show thesis
  proof (cases "find (\<lambda>e. entry_orderId e = input_orderId input)
            (pool_entries db (input_authenticatedPubkey input) (input_poolId input))")
    case None
    then show thesis using c by (intro that [OF w wp(3,5,2)]) simp
  next
    case (Some prior)
    with c obtain p where p: "parseEventMarketStockAuthorityRumor env (entry_rumor prior) = Inr p" by (auto simp: bind_result_Inr)
    with Some c show thesis by (intro that [OF w wp(3,5,2)]) (cases p; simp split: if_split_asm)
  qed
qed

lemma commit_ok:
  assumes r: "commitOrganizerStockAcceptance env db input continues now = Inr (db', replayed, entry)"
    and j: "journal_ok env (input_authenticatedPubkey input) db" and hex: "hashes_hex env"
  shows "journal_ok env (input_authenticatedPubkey input) db'"
proof (rule commit_Inr [OF r journal_keyed [OF j]])
  fix pool grant
  assume w: "writer_pool env db (input_authenticatedPubkey input) (input_writerId input) (input_poolId input) = Inr (pool, grant)"
    and a: "pool_accountPubkey pool = input_authenticatedPubkey input" "assertPool env pool = Inr grant"
    and new: "db' = db \<and> replayed
       \<and> find (\<lambda>e. entry_orderId e = input_orderId input) (pool_entries db (input_authenticatedPubkey input) (input_poolId input)) = Some entry
       \<and> (\<exists>a. parseEventMarketStockAuthorityRumor env (entry_rumor entry) = Inr (Accepted a) \<and> prior_matches input entry a)
     \<or> find (\<lambda>e. entry_orderId e = input_orderId input) (pool_entries db (input_authenticatedPubkey input) (input_poolId input)) = None
       \<and> accept_new env db input pool grant now = Inr (db', replayed, entry)"
  note keyed = journal_keyed [OF j] and wp = writer_pool_Inr [OF w journal_keyed [OF j]]
  show ?thesis
  proof (cases "db' = db")
    case False
    with new have n: "accept_new env db input pool grant now = Inr (db', replayed, entry)" by blast
    have jp: "journal_pool env db pool" by (rule journal_row [OF j wp(1) wp(3,4)])
    from accepted_pool [OF keyed jp a(2,1) hex n] obtain pool' rumor where
      p: "db' = put_pool pool' (put_entry entry db)" "entry = acceptance_entry input pool rumor"
      "pool' = pool\<lparr>acceptedQuantity := acceptedQuantity pool + input_quantity input,
             acceptedSequence := acceptedSequence pool + 1, lastAcceptedId := rumor_id rumor\<rparr>"
      "add_entry entry db = Inr (put_entry entry db)" "journal_pool env (put_entry entry db) pool'"
      by blast
    have "entry_of_pool (input_authenticatedPubkey input) (pool_poolId pool') entry"
      by (simp add: p(2,3) acceptance_entry_def entry_of_pool_def)
    moreover have "pool_id pool' = poolKey (input_authenticatedPubkey input) (pool_poolId pool')"
      using assertPool_Inr(2) [OF a(2)] a(1) by (simp add: p(3))
    ultimately show ?thesis
      unfolding p(1) using extend_pool_ok [OF j add_entry_Inr(2) [OF p(4)] _ _ p(5)] by blast
  qed (use j in simp)
qed

end
