(* ===== verification/Stock_Orders.thy ===== *)
theory Stock_Orders
  imports Stock_Chain
begin

text \<open>
  Whole orders, closes and installations keep the journal in order, a repeated acceptance is a
  replay, and a pool that began to close stays as it is until its close is reconciled.
\<close>

subsection \<open>Binding a legacy entry\<close>

lemma sort_key_map:
  fixes f :: "'a \<Rightarrow> 'a" and key :: "'a \<Rightarrow> int"
  assumes "\<And>x. key (f x) = key x"
  shows "sort_key key (map f xs) = map f (sort_key key xs)"
proof (induction xs)
  case (Cons x xs)
  have "insort_key key (f x) (map f ys) = map f (insort_key key x ys)" for ys by (induction ys) (simp_all add: assms)
  with Cons show ?case by simp
qed simp

lemma filter_map_same: "(\<And>x. P (f x) = P x) \<Longrightarrow> filter P (map f xs) = map f (filter P xs)"
  by (induction xs) auto

lemma rows_put_replace:
  assumes "table_keyed t" "list_all (\<lambda>(k, x). k = f x) t" "table_get t (f v) = Some u" "f u = f v"
  shows "table_rows (table_put (f v) v t) = map (\<lambda>x. if x = u then v else x) (table_rows t)"
  using assms
proof (induction "f v" v t rule: table_put.induct)
  case (2 v k' v' t)
  note keyed = "2.prems"(1) and ids' = "2.prems"(2) and get' = "2.prems"(3) and u = "2.prems"(4)
  have t: "table_keyed t" "list_all (\<lambda>(k, x). k = f x) t" "\<forall>x \<in> fst ` set t. k' < x" "k' = f v'"
    using keyed ids' by (auto simp: table_keyed_def)
  have ids: "\<forall>x \<in> set (table_rows t). f x \<in> fst ` set t"
    using t(2) by (force simp: table_rows_def list_all_iff)
  show ?case
  proof (cases "f v = k'")
    case True
    then have "v' = u" using get' by (simp add: table_get_def)
    moreover have "u \<notin> set (table_rows t)" using ids t(3) True u by force
    ultimately show ?thesis using True by (auto simp: table_rows_def intro: map_idI [symmetric])
  next
    case False
    then have get: "table_get t (f v) = Some u" using get' by (simp add: table_get_def)
    then have "f v \<in> fst ` set t" by (auto simp: table_get_def dest: map_of_SomeD intro: rev_image_eqI)
    then have lt: "\<not> f v < k'" using t(3) by auto
    moreover have "v' \<noteq> u" using t(4) u False by auto
    ultimately show ?thesis using False "2.hyps" t(1,2) get u by (simp add: table_rows_def)
  qed
qed (simp add: table_get_def)

lemma bind_fields [simp]:
  "entry_id (bind_entry b e) = entry_id e" "entry_accountPubkey (bind_entry b e) = entry_accountPubkey e"
  "entry_poolId (bind_entry b e) = entry_poolId e" "entry_sequence (bind_entry b e) = entry_sequence e"
  "entry_orderId (bind_entry b e) = entry_orderId e" "entry_claimRef (bind_entry b e) = entry_claimRef e"
  "entry_rumor (bind_entry b e) = entry_rumor e" "entry_quantity (bind_entry b e) = entry_quantity e"
  by (simp_all add: bind_entry_def)

lemma chained_map:
  assumes "\<And>e. entry_rumor (f e) = entry_rumor e" "\<And>i prev t e a. entry_fits pool grant i prev t (f e) a = entry_fits pool grant i prev t e a"
  shows "chained env pool grant index prev t (map f es) = chained env pool grant index prev t es"
  by (induction es arbitrary: index prev t) (simp_all add: chained_Cons assms)

definition rebind :: "js_string \<Rightarrow> EventMarketOrganizerStockEntry \<Rightarrow> EventMarketOrganizerStockEntry \<Rightarrow> EventMarketOrganizerStockEntry" where
  "rebind b u e = (if e = u then bind_entry b u else e)"

lemma rebind_fields [simp]:
  "entry_id (rebind b u e) = entry_id e" "entry_accountPubkey (rebind b u e) = entry_accountPubkey e"
  "entry_poolId (rebind b u e) = entry_poolId e" "entry_sequence (rebind b u e) = entry_sequence e"
  "entry_orderId (rebind b u e) = entry_orderId e" "entry_claimRef (rebind b u e) = entry_claimRef e"
  "entry_rumor (rebind b u e) = entry_rumor e" "entry_quantity (rebind b u e) = entry_quantity e"
  by (simp_all add: rebind_def)

lemma bound_rows:
  assumes keyed: "rows_keyed db" and row: "table_get (eventMarketOrganizerStockEntries db) (entry_id u) = Some u"
  shows "table_rows (eventMarketOrganizerStockEntries (put_entry (bind_entry b u) db))
      = map (rebind b u) (table_rows (eventMarketOrganizerStockEntries db))"
proof -
  have "table_rows (table_put (entry_id (bind_entry b u)) (bind_entry b u) (eventMarketOrganizerStockEntries db))
      = map (\<lambda>x. if x = u then bind_entry b u else x) (table_rows (eventMarketOrganizerStockEntries db))"
    using keyed row by (intro rows_put_replace) (simp_all add: rows_keyed_def)
  then show ?thesis by (simp add: put_entry_def rebind_def [abs_def])
qed

lemma bound_entries:
  assumes keyed: "rows_keyed db" and row: "table_get (eventMarketOrganizerStockEntries db) (entry_id u) = Some u"
  shows "pool_entries (put_entry (bind_entry b u) db) a q = map (rebind b u) (pool_entries db a q)"
  unfolding pool_entries_def bound_rows [OF assms] by (rule filter_map_same) (simp add: entry_of_pool_def)

lemma bound_ordered:
  assumes "rows_keyed db" "table_get (eventMarketOrganizerStockEntries db) (entry_id u) = Some u"
  shows "ordered_entries (put_entry (bind_entry b u) db) p = map (rebind b u) (ordered_entries db p)"
  by (simp add: ordered_entries_def js_sort_key bound_entries [OF assms] sort_key_map)

lemma bound_journal_pool:
  assumes "rows_keyed db" "table_get (eventMarketOrganizerStockEntries db) (entry_id u) = Some u"
  shows "journal_pool env (put_entry (bind_entry b u) db) p = journal_pool env db p"
proof -
  let ?es = "ordered_entries db p"
  have "chained env p g 0 prev t (map (rebind b u) ?es) = chained env p g 0 prev t ?es" for g prev t
    by (rule chained_map) (simp_all add: entry_fits_def)
  moreover have "last_id prev (map (rebind b u) ?es) = last_id prev ?es" for prev by (simp add: last_id_def last_map)
  moreover have "map entry_quantity (map (rebind b u) ?es) = map entry_quantity ?es" by simp
  ultimately show ?thesis
    unfolding journal_pool_def bound_ordered [OF assms] Let_def by (simp only: length_map)
qed

lemma bound_ok:
  assumes j: "journal_ok env account db" and row: "table_get (eventMarketOrganizerStockEntries db) (entry_id u) = Some u"
  shows "journal_ok env account (put_entry (bind_entry b u) db)"
proof -
  note keyed = journal_keyed [OF j]
  have "eventMarketOrganizerStockPools (put_entry (bind_entry b u) db) = eventMarketOrganizerStockPools db"
    by (simp add: put_entry_def)
  then show ?thesis
    using j put_entry_keyed [OF keyed] bound_rows [OF keyed row]
    by (simp add: journal_ok_def bound_journal_pool [OF keyed row] list_all_iff)
qed

lemma bind_entries_ok:
  assumes "journal_ok env account db"
    and "\<forall>(r, e) \<in> set results. table_get (eventMarketOrganizerStockEntries db) (entry_id e) = Some e"
    and "distinct (map (entry_id \<circ> snd) results)"
  shows "journal_ok env account (bind_entries b results db)"
  using assms
proof (induction results arbitrary: db)
  case (Cons x results)
  obtain r e where x: "x = (r, e)" by (cases x)
  let ?db = "if entry_orderPoolBinding e = None then put_entry (bind_entry b e) db else db"
  have "journal_ok env account ?db" using bound_ok [OF Cons.prems(1)] Cons.prems(1,2) x by simp
  moreover have "\<forall>(r, e) \<in> set results. table_get (eventMarketOrganizerStockEntries ?db) (entry_id e) = Some e"
  proof (clarify)
    fix r' e' assume e': "(r', e') \<in> set results"
    have "entry_id e' \<noteq> entry_id e" using Cons.prems(3) e' by (force simp: x)
    moreover have "table_get (eventMarketOrganizerStockEntries db) (entry_id e') = Some e'"
      using Cons.prems(2) e' by fastforce
    ultimately show "table_get (eventMarketOrganizerStockEntries ?db) (entry_id e') = Some e'"
      by (simp add: put_entry_def table_get_put)
  qed
  ultimately have "journal_ok env account (bind_entries b results ?db)" using Cons.IH Cons.prems(3) by simp
  then show ?case by (simp add: bind_entries_def x)
qed (simp add: bind_entries_def)

subsection \<open>Whole orders\<close>

lemma commit_entry:
  assumes r: "commitOrganizerStockAcceptance env db input continues now = Inr (db', replayed, entry)" and keyed: "rows_keyed db"
  shows "table_get (eventMarketOrganizerStockEntries db') (entry_id entry) = Some entry"
    "entry_of_pool (input_authenticatedPubkey input) (input_poolId input) entry" "entry_orderId entry = input_orderId input"
    "rows_keyed db'"
    "table_get (eventMarketOrganizerStockEntries db) k = Some e \<Longrightarrow> table_get (eventMarketOrganizerStockEntries db') k = Some e"
proof -
  let ?a = "input_authenticatedPubkey input"
  obtain pool grant where pool: "pool_accountPubkey pool = ?a" "pool_poolId pool = input_poolId input" "assertPool env pool = Inr grant"
    and c: "db' = db \<and> replayed
       \<and> find (\<lambda>e. entry_orderId e = input_orderId input) (pool_entries db ?a (input_poolId input)) = Some entry
       \<and> (\<exists>a. parseEventMarketStockAuthorityRumor env (entry_rumor entry) = Inr (Accepted a) \<and> prior_matches input entry a)
     \<or> find (\<lambda>e. entry_orderId e = input_orderId input) (pool_entries db ?a (input_poolId input)) = None
       \<and> accept_new env db input pool grant now = Inr (db', replayed, entry)"
    by (rule commit_Inr [OF r keyed])
  have "table_get (eventMarketOrganizerStockEntries db') (entry_id entry) = Some entry
    \<and> entry_of_pool ?a (input_poolId input) entry \<and> entry_orderId entry = input_orderId input \<and> rows_keyed db'
    \<and> (\<forall>k e. table_get (eventMarketOrganizerStockEntries db) k = Some e \<longrightarrow> table_get (eventMarketOrganizerStockEntries db') k = Some e)"
    using c
  proof (elim disjE conjE)
    assume "db' = db" and f: "find (\<lambda>e. entry_orderId e = input_orderId input) (pool_entries db ?a (input_poolId input)) = Some entry"
    from f have "entry \<in> set (pool_entries db ?a (input_poolId input))" "entry_orderId entry = input_orderId input"
      by (auto simp: find_Some_iff)
    then show ?thesis
      using \<open>db' = db\<close> keyed table_get_row [of "eventMarketOrganizerStockEntries db" entry_id entry]
      by (simp add: pool_entries_def rows_keyed_def)
  next
    assume "accept_new env db input pool grant now = Inr (db', replayed, entry)"
    then obtain rumor p where e: "entry = acceptance_entry input pool rumor" and a: "add_entry entry db = Inr (put_entry entry db)"
      and db': "db' = put_pool p (put_entry entry db)"
      by (rule accept_new_Inr) blast
    have "rows_keyed db'" using put_entry_keyed [OF keyed, of entry] keyed_put [of pool_id "eventMarketOrganizerStockPools db" p]
      by (simp add: db' rows_keyed_def put_pool_def put_entry_def table_put_keyed)
    then show ?thesis
      using add_entry_Inr(2) [OF a] by (auto simp: db' put_pool_def put_entry_def table_get_put e acceptance_entry_def entry_of_pool_def pool)
  qed
  then show "table_get (eventMarketOrganizerStockEntries db') (entry_id entry) = Some entry"
    "entry_of_pool (input_authenticatedPubkey input) (input_poolId input) entry" "entry_orderId entry = input_orderId input"
    "rows_keyed db'"
    "table_get (eventMarketOrganizerStockEntries db) k = Some e \<Longrightarrow> table_get (eventMarketOrganizerStockEntries db') k = Some e"
    by blast+
qed

lemma lines_ok:
  assumes "commit_lines env db input b continues now ls = Inr (db', results)"
    and "journal_ok env (order_authenticatedPubkey input) db" and "hashes_hex env"
  shows "journal_ok env (order_authenticatedPubkey input) db'
    \<and> (\<forall>k e. table_get (eventMarketOrganizerStockEntries db) k = Some e \<longrightarrow> table_get (eventMarketOrganizerStockEntries db') k = Some e)
    \<and> (\<forall>(r, e) \<in> set results. table_get (eventMarketOrganizerStockEntries db') (entry_id e) = Some e)
    \<and> map (entry_poolId \<circ> snd) results = map line_poolId ls"
  using assms
proof (induction ls arbitrary: db results)
  case (Cons l ls)
  from Cons.prems(1) obtain db1 r e rs where c: "commitOrganizerStockAcceptance env db (line_acceptance input b l) continues now = Inr (db1, r, e)"
    and rest: "commit_lines env db1 input b continues now ls = Inr (db', rs)" and rs: "results = (r, e) # rs"
    by (auto simp: bind_result_Inr)
  have a: "input_authenticatedPubkey (line_acceptance input b l) = order_authenticatedPubkey input"
    "input_poolId (line_acceptance input b l) = line_poolId l" by (simp_all add: line_acceptance_def)
  have "journal_ok env (order_authenticatedPubkey input) db1"
    using commit_ok [OF c] Cons.prems(2,3) a by simp
  note ih = Cons.IH [OF rest this Cons.prems(3)] and e = commit_entry [OF c journal_keyed [OF Cons.prems(2)]]
  show ?case using ih e(1,2,5) by (simp add: rs a entry_of_pool_def)
qed simp

lemma results_distinct:
  assumes "\<forall>(r, e) \<in> set results. table_get t (entry_id e) = Some e" "distinct (map (entry_poolId \<circ> snd) results)"
  shows "distinct (map (entry_id \<circ> snd) results)"
  using assms
proof (induction results)
  case (Cons x results)
  have "entry_id e \<noteq> entry_id (snd x)" if "(r, e) \<in> set results" for r e
  proof
    assume eq: "entry_id e = entry_id (snd x)"
    have rows: "table_get t (entry_id (snd y)) = Some (snd y)" if "y \<in> set (x # results)" for y
      using bspec [OF Cons.prems(1) that] by (simp add: case_prod_unfold)
    have "table_get t (entry_id e) = Some e" using rows [of "(r, e)"] that by simp
    moreover have "table_get t (entry_id e) = Some (snd x)" unfolding eq using rows [of x] by simp
    ultimately have "e = snd x" by simp
    then have "entry_poolId (snd x) \<in> (entry_poolId \<circ> snd) ` set results"
      using imageI [OF that, of "entry_poolId \<circ> snd"] by simp
    then show False using Cons.prems(2) by simp
  qed
  then have "entry_id (snd x) \<notin> (entry_id \<circ> snd) ` set results" by force
  moreover have "distinct (map (entry_id \<circ> snd) results)" by (rule Cons.IH) (use Cons.prems in simp_all)
  ultimately show ?case by (simp add: o_def)
qed simp

lemma order_ok:
  assumes r: "commitOrganizerStockOrder env db input continues now = Inr (db', replayed, entries)"
    and j: "journal_ok env (order_authenticatedPubkey input) db" and hex: "hashes_hex env"
  shows "journal_ok env (order_authenticatedPubkey input) db'"
proof -
  let ?b = "pool_binding (order_entries input)"
  from r obtain db1 results where d: "distinct (map line_poolId (order_entries input))"
    and l: "commit_lines env db input ?b continues now (order_entries input) = Inr (db1, results)"
    and db': "db' = bind_entries ?b results db1"
    unfolding commitOrganizerStockOrder_def by (auto simp: bind_result_Inr Let_def split: if_split_asm)
  note ok = lines_ok [OF l j hex]
  then have "distinct (map (entry_id \<circ> snd) results)" using d by (intro results_distinct) auto
  with ok show ?thesis unfolding db' by (intro bind_entries_ok) blast+
qed

subsection \<open>Beginning a close\<close>

lemma begin_close_Inr:
  assumes r: "beginOrganizerStockClose env db account writer poolId continues now = Inr (db', rumor)" and keyed: "rows_keyed db"
  obtains pool grant where "writer_pool env db account writer poolId = Inr (pool, grant)"
    "db' = db \<and> closingRumor pool = Some rumor
     \<or> closingRumor pool = None \<and> pool_state pool = PoolActive \<and> created_at (grantRumor pool) * 1000 \<le> now
       \<and> check_predecessor env db account pool now = Inr ()
       \<and> createEventMarketStockAuthorityRumor env (Closed (close_payload pool)) (now div 1000) = Inr rumor
       \<and> db' = put_pool (pool\<lparr>pool_state := PoolClosing, closingRumor := Some rumor\<rparr>) db"
proof -
  from r obtain pool grant where w: "writer_pool env db account writer poolId = Inr (pool, grant)"
    and c: "(case closingRumor pool of
       Some rumor \<Rightarrow> Inr (db, rumor)
     | None \<Rightarrow>
         if pool_state pool \<noteq> PoolActive then Inl ''Organizer stock pool cannot close''
         else if now < created_at (grantRumor pool) * 1000 then Inl ''Organizer stock close predates its grant''
         else bind_result (check_predecessor env db account pool now) (\<lambda>_.
         bind_result (createEventMarketStockAuthorityRumor env (Closed (close_payload pool)) (now div 1000)) (\<lambda>rumor.
         Inr (put_pool (pool\<lparr>pool_state := PoolClosing, closingRumor := Some rumor\<rparr>) db, rumor)))) = Inr (db', rumor)"
    unfolding beginOrganizerStockClose_def by (auto simp only: bind_result_Inr prod.case split_paired_Ex)
  show thesis
  proof (cases "closingRumor pool")
    case None
    with c show thesis by (intro that [OF w]) (auto simp: bind_result_Inr split: if_split_asm)
  next
    case (Some x)
    with c show thesis by (intro that [OF w]) simp
  qed
qed

lemma closing_pool_ok:
  assumes "journal_pool env db p" "pool_state p = PoolActive"
  shows "journal_pool env db (p\<lparr>pool_state := PoolClosing, closingRumor := c\<rparr>)"
proof -
  let ?p = "p\<lparr>pool_state := PoolClosing, closingRumor := c\<rparr>"
  have "assertPool env ?p = assertPool env p" using assms(2) by (simp add: assertPool_def)
  moreover have "ordered_entries db ?p = ordered_entries db p" by (simp add: ordered_entries_def)
  moreover have "chained env ?p g i prev t es = chained env p g i prev t es" for g i prev t es
    by (rule chained_cong) simp_all
  ultimately show ?thesis using assms(1) by (simp add: journal_pool_iff)
qed

lemma begin_close_ok:
  assumes r: "beginOrganizerStockClose env db account writer poolId continues now = Inr (db', rumor)" and j: "journal_ok env account db"
  shows "journal_ok env account db'"
proof (rule begin_close_Inr [OF r journal_keyed [OF j]])
  fix pool grant
  assume w: "writer_pool env db account writer poolId = Inr (pool, grant)"
    and c: "db' = db \<and> closingRumor pool = Some rumor
     \<or> closingRumor pool = None \<and> pool_state pool = PoolActive \<and> created_at (grantRumor pool) * 1000 \<le> now
       \<and> check_predecessor env db account pool now = Inr ()
       \<and> createEventMarketStockAuthorityRumor env (Closed (close_payload pool)) (now div 1000) = Inr rumor
       \<and> db' = put_pool (pool\<lparr>pool_state := PoolClosing, closingRumor := Some rumor\<rparr>) db"
  note wp = writer_pool_Inr [OF w journal_keyed [OF j]]
  show ?thesis
  proof (cases "db' = db")
    case False
    with c have "pool_state pool = PoolActive" "db' = put_pool (pool\<lparr>pool_state := PoolClosing, closingRumor := Some rumor\<rparr>) db" by blast+
    then show ?thesis using closing_pool_ok [OF journal_row [OF j wp(1,3,4)]] put_pool_ok [OF j] by simp
  qed (use j in simp)
qed

end
