(* ===== verification/Stock_System.thy ===== *)
theory Stock_System
  imports Stock_Orders
begin

text \<open>
  The journal as a system: installation and the retained close, what every operation keeps of a pool,
  and the runs of the organizer's operations.
\<close>

subsection \<open>Reconciling a close\<close>

lemma reconcile_Inr:
  assumes "reconcileOriginalOrganizerStockClose env pool entries next as now = Inr pool'"
  shows "\<exists>grant. assertPool env pool = Inr grant" "pool_state pool = PoolClosing" "closingRumor pool \<noteq> None"
    "pool_accountPubkey pool = organizerPubkey next" "pool_organizerPubkey pool = organizerPubkey next"
    "pool' = pool\<lparr>pool_state := PoolClosed, importedQuantity := acceptedQuantity pool,
       importedSequence := acceptedSequence pool, lastImportedId := lastAcceptedId pool\<rparr>"
proof -
  from assms obtain grant where g: "assertPool env pool = Inr grant"
    unfolding reconcileOriginalOrganizerStockClose_def by (auto simp: bind_result_Inr)
  with assms obtain r where r: "closingRumor pool = Some r"
    unfolding reconcileOriginalOrganizerStockClose_def by (auto split: option.split_asm)
  from assms g r have st: "pool_state pool = PoolClosing \<and> pool_accountPubkey pool = organizerPubkey next
      \<and> pool_organizerPubkey pool = organizerPubkey next"
    unfolding reconcileOriginalOrganizerStockClose_def by (simp split: if_split_asm)
  from assms g r obtain p where p: "parseEventMarketStockAuthorityRumor env r = Inr p"
    unfolding reconcileOriginalOrganizerStockClose_def by (auto simp: bind_result_Inr split: if_split_asm)
  show "\<exists>grant. assertPool env pool = Inr grant" "pool_state pool = PoolClosing" "closingRumor pool \<noteq> None"
    "pool_accountPubkey pool = organizerPubkey next" "pool_organizerPubkey pool = organizerPubkey next"
    using g r st by auto
  show "pool' = pool\<lparr>pool_state := PoolClosed, importedQuantity := acceptedQuantity pool,
       importedSequence := acceptedSequence pool, lastImportedId := lastAcceptedId pool\<rparr>"
    using assms g r p unfolding reconcileOriginalOrganizerStockClose_def
    by (cases p) (auto simp: bind_result_Inr Let_def split: if_split_asm)
qed

lemma reconciled_pool_ok:
  assumes j: "journal_pool env db p" and c: "closingRumor p \<noteq> None"
  shows "journal_pool env db (p\<lparr>pool_state := PoolClosed, importedQuantity := acceptedQuantity p,
       importedSequence := acceptedSequence p, lastImportedId := lastAcceptedId p\<rparr>)" (is "journal_pool env db ?p")
proof -
  from j obtain g where g: "assertPool env p = Inr g" by (rule journal_poolD)
  then have rg: "readGrant env (grantRumor p) = Inr g"
    unfolding assertPool_def by (auto simp: bind_result_Inr split: if_split_asm)
  have "assertPool env ?p = Inr g"
    using g c unfolding assertPool_def by (simp add: rg) (auto split: if_split_asm)
  moreover have "ordered_entries db ?p = ordered_entries db p" by (simp add: ordered_entries_def)
  moreover have "chained env ?p g i prev t es = chained env p g i prev t es" for i prev t es
    by (rule chained_cong) simp_all
  ultimately show ?thesis using j g by (simp add: journal_pool_iff)
qed

subsection \<open>Installation\<close>

lemma close_overlapping_ok:
  assumes "close_overlapping env db account grant as now ps = Inr db'" "journal_ok env account db"
    "organizerPubkey grant = account"
    "\<forall>p \<in> set ps. pool_organizerPubkey p = account \<longrightarrow> journal_pool env db p"
  shows "journal_ok env account db'"
  using assms
proof (induction ps arbitrary: db)
  case (Cons p ps)
  show ?case
  proof (cases "pool_state p = PoolClosed")
    case True
    then show ?thesis using Cons by simp
  next
    case False
    then obtain closed where r: "reconcileOriginalOrganizerStockClose env p (pool_entries db account (pool_poolId p)) grant as now = Inr closed"
      and rest: "close_overlapping env (put_pool closed db) account grant as now ps = Inr db'"
      using Cons.prems(1) by (auto simp: bind_result_Inr)
    have "journal_pool env db p" using Cons.prems(3,4) reconcile_Inr(5) [OF r] by simp
    then have "journal_pool env db closed" unfolding reconcile_Inr(6) [OF r] using reconcile_Inr(3) [OF r] by (rule reconciled_pool_ok)
    then have "journal_ok env account (put_pool closed db)" using put_pool_ok [OF Cons.prems(2)] by blast
    then show ?thesis using Cons.IH [OF rest] Cons.prems(3,4) by simp
  qed
qed simp

lemma new_pool_Inr:
  assumes "newPool env account rumor st = Inr p"
  obtains grant where "readGrant env rumor = Inr grant"
    "p = \<lparr>pool_id = poolKey account (rumor_id rumor), pool_accountPubkey = account, pool_poolId = rumor_id rumor,
          pool_merchantPubkey = merchantPubkey grant, pool_organizerPubkey = organizerPubkey grant,
          pool_writerId = writerId grant, pool_assignmentCoordinate = assignmentCoordinate grant,
          pool_productCoordinate = productCoordinate grant, grantRumor = rumor, pool_quantity = grant_quantity grant,
          acceptedQuantity = 0, acceptedSequence = 0, lastAcceptedId = rumor_id rumor,
          importedQuantity = 0, importedSequence = 0, lastImportedId = rumor_id rumor,
          pool_state = st, closingRumor = None, readOnlyRecovery = False\<rparr>"
  using assms by (auto simp: newPool_def bind_result_Inr)

text \<open>A grant gives a positive quantity, and its rumor has a hash for its id.\<close>

lemma grant_facts:
  assumes "readGrant env rumor = Inr grant"
  shows "1 \<le> grant_quantity grant" "is_hex64 (rumor_id rumor)"
proof -
  note d = decoded_rumor [OF readGrant_Inr [OF assms]]
  have "valid_grant grant" using d(5) by (simp add: parsePayload_def split: if_split_asm)
  then show "1 \<le> grant_quantity grant" by (simp add: valid_grant_def stock_count_def)
  show "is_hex64 (rumor_id rumor)" by (rule d(4))
qed

lemma new_pool_valid:
  assumes "newPool env account rumor st = Inr p" "readGrant env rumor = Inr grant"
    "account = organizerPubkey grant \<or> account = merchantPubkey grant" "st \<noteq> PoolClosed"
  shows "assertPool env p = Inr grant"
  using assms grant_facts [OF assms(2)] by (auto simp: newPool_def assertPool_def pool_count_def)

lemma new_pool_journal:
  assumes n: "newPool env account rumor st = Inr p" and g: "readGrant env rumor = Inr grant"
    and o: "account = organizerPubkey grant" "st \<noteq> PoolClosed" and j: "journal_ok env account db"
    and fresh: "table_get (eventMarketOrganizerStockPools db) (pool_id p) = None"
  shows "journal_pool env db p"
proof -
  have p: "pool_accountPubkey p = account" "pool_poolId p = rumor_id rumor" "pool_id p = poolKey account (rumor_id rumor)"
    "acceptedSequence p = 0" "acceptedQuantity p = 0" "lastAcceptedId p = rumor_id rumor"
    using n by (auto elim: new_pool_Inr)
  have "\<not> entry_of_pool account (rumor_id rumor) e" if "e \<in> set (table_rows (eventMarketOrganizerStockEntries db))" for e
    using j that fresh p(3) by (auto simp: journal_ok_def list_all_iff entry_of_pool_def)
  then have "ordered_entries db p = []" by (simp add: ordered_entries_def pool_entries_def p js_sort_def filter_empty_conv)
  then show ?thesis using new_pool_valid [OF n g] o p by (simp add: journal_pool_iff last_id_def)
qed

lemma register_pool_tables [simp]:
  "eventMarketOrganizerStockPools (register_pool x r db) = eventMarketOrganizerStockPools db"
  "eventMarketOrganizerStockEntries (register_pool x r db) = eventMarketOrganizerStockEntries db"
  by (simp_all add: register_pool_def split: option.split)

lemma journal_same_tables:
  assumes "eventMarketOrganizerStockPools db' = eventMarketOrganizerStockPools db"
    "eventMarketOrganizerStockEntries db' = eventMarketOrganizerStockEntries db"
  shows "journal_ok env account db' = journal_ok env account db"
proof -
  have "ordered_entries db' p = ordered_entries db p" for p by (simp add: ordered_entries_def pool_entries_def assms)
  then have "journal_pool env db' p = journal_pool env db p" for p by (rule journal_pool_cong)
  then show ?thesis by (simp add: journal_ok_def rows_keyed_def assms)
qed

lemma install_Inr:
  assumes "installOrganizerStockHandover env db account writer rumor committed closedEvents expected continues now = Inr (db', pool)"
  obtains grant where "readGrant env rumor = Inr grant" "account = organizerPubkey grant"
    "db' = db \<or> (\<exists>db1 r. close_overlapping env db account grant (map (parseEventMarketAssignmentEvent env) closedEvents) now
           (filter (\<lambda>p. pool_accountPubkey p = organizerPubkey grant \<and> pool_assignmentCoordinate p = assignmentCoordinate grant)
              (table_rows (eventMarketOrganizerStockPools db))) = Inr db1
         \<and> newPool env account rumor PoolActive = Inr pool \<and> table_get (eventMarketOrganizerStockPools db1) (pool_id pool) = None
         \<and> db' = register_pool (rumor_id rumor) r (put_pool pool db1))"
proof -
  from assms obtain grant where g: "readGrant env rumor = Inr grant"
    unfolding installOrganizerStockHandover_def by (auto simp: bind_result_Inr)
  from assms g have o: "account = organizerPubkey grant"
    unfolding installOrganizerStockHandover_def by (auto simp: bind_result_Inr split: if_split_asm)
  show thesis
  proof (rule that [OF g o])
    show "db' = db \<or> (\<exists>db1 r. close_overlapping env db account grant (map (parseEventMarketAssignmentEvent env) closedEvents) now
           (filter (\<lambda>p. pool_accountPubkey p = organizerPubkey grant \<and> pool_assignmentCoordinate p = assignmentCoordinate grant)
              (table_rows (eventMarketOrganizerStockPools db))) = Inr db1
         \<and> newPool env account rumor PoolActive = Inr pool \<and> table_get (eventMarketOrganizerStockPools db1) (pool_id pool) = None
         \<and> db' = register_pool (rumor_id rumor) r (put_pool pool db1))"
    proof (cases "table_get (eventMarketOrganizerStockPools db) (poolKey (organizerPubkey grant) (rumor_id rumor))")
      case None
      with assms g show ?thesis
        unfolding installOrganizerStockHandover_def
        by (auto simp: bind_result_Inr Let_def add_pool_def o split: if_split_asm)
    next
      case (Some p)
      with assms g show ?thesis
        unfolding installOrganizerStockHandover_def
        by (auto simp: bind_result_Inr Let_def split: if_split_asm)
    qed
  qed
qed

lemma install_ok:
  assumes r: "installOrganizerStockHandover env db account writer rumor committed closedEvents expected continues now = Inr (db', pool)"
    and j: "journal_ok env account db"
  shows "journal_ok env account db'"
proof (rule install_Inr [OF r])
  fix grant :: EventMarketStockGrant
  let ?ps = "filter (\<lambda>p. pool_accountPubkey p = organizerPubkey grant \<and> pool_assignmentCoordinate p = assignmentCoordinate grant)
              (table_rows (eventMarketOrganizerStockPools db))"
  assume g: "readGrant env rumor = Inr grant" "account = organizerPubkey grant"
    and c: "db' = db \<or> (\<exists>db1 r. close_overlapping env db account grant (map (parseEventMarketAssignmentEvent env) closedEvents) now
           ?ps = Inr db1
         \<and> newPool env account rumor PoolActive = Inr pool \<and> table_get (eventMarketOrganizerStockPools db1) (pool_id pool) = None
         \<and> db' = register_pool (rumor_id rumor) r (put_pool pool db1))"
  have rows: "\<forall>p \<in> set ?ps. pool_organizerPubkey p = account \<longrightarrow> journal_pool env db p"
    using j g(2) by (auto simp: journal_ok_def list_all_iff)
  show ?thesis
  proof (cases "db' = db")
    case False
    with c obtain db1 r where o: "close_overlapping env db account grant (map (parseEventMarketAssignmentEvent env) closedEvents) now ?ps = Inr db1"
      and n: "newPool env account rumor PoolActive = Inr pool" "table_get (eventMarketOrganizerStockPools db1) (pool_id pool) = None"
      and db': "db' = register_pool (rumor_id rumor) r (put_pool pool db1)"
      by blast
    have "journal_ok env account db1" by (rule close_overlapping_ok [OF o j g(2) [symmetric] rows])
    moreover from new_pool_journal [OF n(1) g _ this n(2)] have "journal_pool env db1 pool" by simp
    ultimately have "journal_ok env account (put_pool pool db1)" using put_pool_ok by blast
    then show ?thesis unfolding db' journal_same_tables [OF register_pool_tables] .
  qed (use j in simp)
qed

subsection \<open>What an operation keeps of a pool\<close>

text \<open>A pool keeps its grant and never un-accepts; once it is not active, its frontier is final; it is
  imported only as it is closed, and closed for good.\<close>

definition pool_kept :: "EventMarketOrganizerStockPool \<Rightarrow> EventMarketOrganizerStockPool \<Rightarrow> bool" where
  "pool_kept p q \<longleftrightarrow>
     pool_id q = pool_id p \<and> pool_accountPubkey q = pool_accountPubkey p \<and> pool_poolId q = pool_poolId p
     \<and> pool_merchantPubkey q = pool_merchantPubkey p \<and> pool_organizerPubkey q = pool_organizerPubkey p
     \<and> pool_writerId q = pool_writerId p \<and> grantRumor q = grantRumor p \<and> pool_quantity q = pool_quantity p
     \<and> readOnlyRecovery q = readOnlyRecovery p
     \<and> acceptedQuantity p \<le> acceptedQuantity q \<and> acceptedSequence p \<le> acceptedSequence q
     \<and> (pool_state p \<noteq> PoolActive \<longrightarrow>
          pool_state q \<noteq> PoolActive \<and> acceptedQuantity q = acceptedQuantity p \<and> acceptedSequence q = acceptedSequence p
          \<and> lastAcceptedId q = lastAcceptedId p \<and> closingRumor q = closingRumor p
          \<and> (pool_state q = pool_state p \<or> pool_state q = PoolClosed))
     \<and> (pool_state p = PoolClosed \<longrightarrow> pool_state q = PoolClosed)
     \<and> (pool_state q \<noteq> PoolClosed \<longrightarrow>
          importedQuantity q = importedQuantity p \<and> importedSequence q = importedSequence p \<and> lastImportedId q = lastImportedId p)"

lemma pool_kept_refl: "pool_kept p p"
  by (simp add: pool_kept_def)

lemma pool_kept_trans: "pool_kept p q \<Longrightarrow> pool_kept q r \<Longrightarrow> pool_kept p r"
  by (auto simp: pool_kept_def)

definition pools_kept :: "organizer_db \<Rightarrow> organizer_db \<Rightarrow> bool" where
  "pools_kept db db' \<longleftrightarrow>
     (\<forall>k p. table_get (eventMarketOrganizerStockPools db) k = Some p \<longrightarrow>
        (\<exists>q. table_get (eventMarketOrganizerStockPools db') k = Some q \<and> pool_kept p q))"

lemma pools_kept_refl: "pools_kept db db"
  by (auto simp: pools_kept_def pool_kept_refl)

lemma pools_kept_trans: "pools_kept a b \<Longrightarrow> pools_kept b c \<Longrightarrow> pools_kept a c"
  unfolding pools_kept_def by (meson pool_kept_trans)

lemma put_pool_kept:
  assumes "\<And>p. table_get (eventMarketOrganizerStockPools db) (pool_id q) = Some p \<Longrightarrow> pool_kept p q"
  shows "pools_kept db (put_pool q db)"
  using assms by (auto simp: pools_kept_def put_pool_def table_get_put pool_kept_refl)

lemma put_entry_kept [simp]:
  "eventMarketOrganizerStockPools (put_entry e db) = eventMarketOrganizerStockPools db"
  by (simp add: put_entry_def)

lemma pools_kept_same: "eventMarketOrganizerStockPools db' = eventMarketOrganizerStockPools db \<Longrightarrow> pools_kept a db' = pools_kept a db"
  by (simp add: pools_kept_def)

lemma commit_kept:
  assumes r: "commitOrganizerStockAcceptance env db input continues now = Inr (db', replayed, entry)" and keyed: "rows_keyed db"
  shows "pools_kept db db'"
proof (rule commit_Inr [OF r keyed])
  fix pool :: EventMarketOrganizerStockPool and grant :: EventMarketStockGrant
  assume w: "writer_pool env db (input_authenticatedPubkey input) (input_writerId input) (input_poolId input) = Inr (pool, grant)"
    and a: "pool_accountPubkey pool = input_authenticatedPubkey input" "pool_poolId pool = input_poolId input" "assertPool env pool = Inr grant"
    and c: "db' = db \<and> replayed
       \<and> find (\<lambda>e. entry_orderId e = input_orderId input) (pool_entries db (input_authenticatedPubkey input) (input_poolId input)) = Some entry
       \<and> (\<exists>a. parseEventMarketStockAuthorityRumor env (entry_rumor entry) = Inr (Accepted a) \<and> prior_matches input entry a)
     \<or> find (\<lambda>e. entry_orderId e = input_orderId input) (pool_entries db (input_authenticatedPubkey input) (input_poolId input)) = None
       \<and> accept_new env db input pool grant now = Inr (db', replayed, entry)"
  show ?thesis
  proof (cases "db' = db")
    case False
    with c have acc: "accept_new env db input pool grant now = Inr (db', replayed, entry)" by blast
    obtain rumor where n: "pool_state pool = PoolActive" "\<not> readOnlyRecovery pool" "now < expiresAtMs grant"
      "created_at (grantRumor pool) * 1000 \<le> now" "check_predecessor env db (input_authenticatedPubkey input) pool now = Inr ()"
      "1 \<le> input_quantity input" "input_quantity input \<le> pool_quantity pool - acceptedQuantity pool"
      "createEventMarketStockAuthorityRumor env (Accepted (acceptance_payload input pool now)) (now div 1000) = Inr rumor"
      "entry = acceptance_entry input pool rumor" "\<not> replayed" "add_entry entry db = Inr (put_entry entry db)"
      and db': "db' = put_pool (pool\<lparr>acceptedQuantity := acceptedQuantity pool + input_quantity input,
             acceptedSequence := acceptedSequence pool + 1, lastAcceptedId := rumor_id rumor\<rparr>) (put_entry entry db)"
      by (rule accept_new_Inr [OF acc])
    have "table_get (eventMarketOrganizerStockPools db) (pool_id pool) = Some pool"
      using writer_pool_Inr(1) [OF w keyed] assertPool_Inr(2) [OF a(3)] a(1,2) by simp
    then have "pools_kept (put_entry entry db) db'"
      unfolding db' using n by (intro put_pool_kept) (simp add: pool_kept_def)
    then show ?thesis by (simp add: pools_kept_def)
  qed (simp add: pools_kept_refl)
qed

lemma lines_kept:
  "commit_lines env db input b continues now ls = Inr (db', results) \<Longrightarrow> rows_keyed db \<Longrightarrow> pools_kept db db' \<and> rows_keyed db'"
proof (induction ls arbitrary: db results)
  case (Cons l ls)
  from Cons.prems(1) obtain db1 r e rs where c: "commitOrganizerStockAcceptance env db (line_acceptance input b l) continues now = Inr (db1, r, e)"
    and rest: "commit_lines env db1 input b continues now ls = Inr (db', rs)"
    by (auto simp: bind_result_Inr)
  note k = commit_kept [OF c Cons.prems(2)] commit_entry(4) [OF c Cons.prems(2)]
  show ?case using Cons.IH [OF rest k(2)] pools_kept_trans [OF k(1)] by blast
qed (simp add: pools_kept_refl)

lemma bind_entries_pools [simp]:
  "eventMarketOrganizerStockPools (bind_entries b results db) = eventMarketOrganizerStockPools db"
  unfolding bind_entries_def by (induction results arbitrary: db) auto

lemma order_kept:
  assumes "commitOrganizerStockOrder env db input continues now = Inr (db', replayed, entries)" "rows_keyed db"
  shows "pools_kept db db'"
proof -
  from assms(1) obtain db1 results where
    l: "commit_lines env db input (pool_binding (order_entries input)) continues now (order_entries input) = Inr (db1, results)"
    and db': "db' = bind_entries (pool_binding (order_entries input)) results db1"
    unfolding commitOrganizerStockOrder_def by (auto simp: bind_result_Inr Let_def split: if_split_asm)
  show ?thesis using lines_kept [OF l assms(2)] by (simp add: db' pools_kept_def)
qed

lemma begin_close_kept:
  assumes r: "beginOrganizerStockClose env db account writer poolId continues now = Inr (db', rumor)" and keyed: "rows_keyed db"
  shows "pools_kept db db'"
proof (rule begin_close_Inr [OF r keyed])
  fix pool :: EventMarketOrganizerStockPool and grant :: EventMarketStockGrant
  assume w: "writer_pool env db account writer poolId = Inr (pool, grant)"
    and c: "db' = db \<and> closingRumor pool = Some rumor
     \<or> closingRumor pool = None \<and> pool_state pool = PoolActive \<and> created_at (grantRumor pool) * 1000 \<le> now
       \<and> check_predecessor env db account pool now = Inr ()
       \<and> createEventMarketStockAuthorityRumor env (Closed (close_payload pool)) (now div 1000) = Inr rumor
       \<and> db' = put_pool (pool\<lparr>pool_state := PoolClosing, closingRumor := Some rumor\<rparr>) db"
  note wp = writer_pool_Inr [OF w keyed]
  have row: "table_get (eventMarketOrganizerStockPools db) (pool_id pool) = Some pool"
    using wp(1,3,5) assertPool_Inr(2) [OF wp(2)] by simp
  show ?thesis using c
  proof (elim disjE conjE)
    assume "pool_state pool = PoolActive" and db': "db' = put_pool (pool\<lparr>pool_state := PoolClosing, closingRumor := Some rumor\<rparr>) db"
    then show ?thesis unfolding db' using row by (intro put_pool_kept) (simp add: pool_kept_def)
  qed (simp add: pools_kept_refl)
qed

lemma overlapping_kept:
  assumes "close_overlapping env db account grant as now ps = Inr db'" "\<forall>p \<in> set ps. table_get (eventMarketOrganizerStockPools db) (pool_id p) = Some p"
    "distinct (map pool_id ps)"
  shows "pools_kept db db'"
  using assms
proof (induction ps arbitrary: db)
  case (Cons p ps)
  show ?case
  proof (cases "pool_state p = PoolClosed")
    case True
    then show ?thesis using Cons by simp
  next
    case False
    then obtain closed where r: "reconcileOriginalOrganizerStockClose env p (pool_entries db account (pool_poolId p)) grant as now = Inr closed"
      and rest: "close_overlapping env (put_pool closed db) account grant as now ps = Inr db'"
      using Cons.prems(1) by (auto simp: bind_result_Inr)
    have id: "pool_id closed = pool_id p" unfolding reconcile_Inr(6) [OF r] by simp
    have k: "pools_kept db (put_pool closed db)"
      using Cons.prems(2) reconcile_Inr(2) [OF r] by (intro put_pool_kept) (simp add: id, simp add: reconcile_Inr(6) [OF r] pool_kept_def)
    have "\<forall>q \<in> set ps. table_get (eventMarketOrganizerStockPools (put_pool closed db)) (pool_id q) = Some q"
    proof
      fix q assume q: "q \<in> set ps"
      then have "pool_id q \<noteq> pool_id p" using Cons.prems(3) by (metis distinct.simps(2) image_eqI list.simps(9) list.set_map)
      with q Cons.prems(2) show "table_get (eventMarketOrganizerStockPools (put_pool closed db)) (pool_id q) = Some q"
        by (simp add: put_pool_def table_get_put id)
    qed
    from Cons.IH [OF rest this] Cons.prems(3) show ?thesis using pools_kept_trans [OF k] by simp
  qed
qed (simp add: pools_kept_refl)

lemma install_kept:
  assumes r: "installOrganizerStockHandover env db account writer rumor committed closedEvents expected continues now = Inr (db', pool)"
    and keyed: "rows_keyed db"
  shows "pools_kept db db'"
proof (rule install_Inr [OF r])
  fix grant :: EventMarketStockGrant
  let ?ps = "filter (\<lambda>p. pool_accountPubkey p = organizerPubkey grant \<and> pool_assignmentCoordinate p = assignmentCoordinate grant)
              (table_rows (eventMarketOrganizerStockPools db))"
  let ?t = "eventMarketOrganizerStockPools db"
  assume c: "db' = db \<or> (\<exists>db1 r. close_overlapping env db account grant (map (parseEventMarketAssignmentEvent env) closedEvents) now
           ?ps = Inr db1
         \<and> newPool env account rumor PoolActive = Inr pool \<and> table_get (eventMarketOrganizerStockPools db1) (pool_id pool) = None
         \<and> db' = register_pool (rumor_id rumor) r (put_pool pool db1))"
  have k: "table_keyed ?t" "list_all (\<lambda>(k, p). k = pool_id p) ?t" using keyed by (simp_all add: rows_keyed_def)
  have rows: "\<forall>p \<in> set ?ps. table_get ?t (pool_id p) = Some p" using table_get_row [OF k] by simp
  have "map pool_id (table_rows ?t) = map fst ?t" using k(2) by (auto simp: table_rows_def list_all_iff)
  then have "distinct (map pool_id (table_rows ?t))" using k(1) by (auto simp: table_keyed_def strict_sorted_iff)
  then have d: "distinct (map pool_id ?ps)" by (rule distinct_map_filter)
  show ?thesis
  proof (cases "db' = db")
    case False
    with c obtain db1 r where o: "close_overlapping env db account grant (map (parseEventMarketAssignmentEvent env) closedEvents) now ?ps = Inr db1"
      and n: "table_get (eventMarketOrganizerStockPools db1) (pool_id pool) = None"
      and db': "db' = register_pool (rumor_id rumor) r (put_pool pool db1)"
      by blast
    have "pools_kept db1 (put_pool pool db1)" using n by (intro put_pool_kept) simp
    then have "pools_kept db (put_pool pool db1)" by (rule pools_kept_trans [OF overlapping_kept [OF o rows d]])
    then show ?thesis by (simp add: db' pools_kept_def)
  qed (simp add: pools_kept_refl)
qed

end
