(* ===== verification/Guarded_Runs.thy ===== *)
theory Guarded_Runs
  imports Main
begin

text \<open>
  Stores written by guarded operations: an operation that is refused leaves the store as it was, one
  that is accepted keeps an invariant and a relation between the store before and after it.  Both then
  hold along every sequence of attempts.
\<close>

fun attempts :: "('s \<Rightarrow> 'op \<Rightarrow> 's) \<Rightarrow> 's \<Rightarrow> 'op list \<Rightarrow> 's" where
  "attempts attempt s [] = s"
| "attempts attempt s (x # xs) = attempts attempt (attempt s x) xs"

lemma attempts_append: "attempts attempt s (xs @ ys) = attempts attempt (attempts attempt s xs) ys"
  by (induction xs arbitrary: s) simp_all

locale guarded_store =
  fixes attempt :: "'s \<Rightarrow> 'op \<Rightarrow> 's"
    and ok :: "'s \<Rightarrow> bool"
    and kept :: "'s \<Rightarrow> 's \<Rightarrow> bool"
  assumes attempt_ok: "ok s \<Longrightarrow> ok (attempt s x)"
    and attempt_kept: "ok s \<Longrightarrow> kept s (attempt s x)"
    and kept_refl: "kept s s"
    and kept_trans: "kept s t \<Longrightarrow> kept t u \<Longrightarrow> kept s u"
begin

lemma run_ok: "ok s \<Longrightarrow> ok (attempts attempt s xs)"
  by (induction xs arbitrary: s) (simp_all add: attempt_ok)

lemma run_kept: "ok s \<Longrightarrow> kept s (attempts attempt s xs)"
proof (induction xs arbitrary: s)
  case (Cons x xs)
  show ?case using kept_trans [OF attempt_kept [OF Cons.prems] Cons.IH [OF attempt_ok [OF Cons.prems]]] by simp
qed (simp add: kept_refl)

lemma later_kept: "ok s \<Longrightarrow> kept (attempts attempt s xs) (attempts attempt s (xs @ ys))"
  unfolding attempts_append by (rule run_kept [OF run_ok])

end

end
