(* ===== verification/Stock_Runs.thy ===== *)
theory Stock_Runs
  imports Stock_System Guarded_Runs
begin

text \<open>
  Runs of the organizer's journal: the operations of one account in one browser, in any order and
  with any arguments.  The indexes of the journal, the acceptance that is repeated, and the close that
  can always be completed.
\<close>

subsection \<open>The unique indexes\<close>

definition order_key :: "EventMarketOrganizerStockEntry \<Rightarrow> js_string \<times> js_string \<times> js_string" where
  "order_key e = (entry_accountPubkey e, entry_poolId e, entry_orderId e)"

definition claim_key :: "EventMarketOrganizerStockEntry \<Rightarrow> js_string \<times> js_string \<times> js_string" where
  "claim_key e = (entry_accountPubkey e, entry_poolId e, entry_claimRef e)"

definition indexed :: "organizer_db \<Rightarrow> bool" where
  "indexed db \<longleftrightarrow>
     distinct (map order_key (table_rows (eventMarketOrganizerStockEntries db)))
     \<and> distinct (map claim_key (table_rows (eventMarketOrganizerStockEntries db)))"

lemma indexed_same:
  "eventMarketOrganizerStockEntries db' = eventMarketOrganizerStockEntries db \<Longrightarrow> indexed db' = indexed db"
  by (simp add: indexed_def)

lemma put_pool_indexed [simp]: "indexed (put_pool p db) = indexed db"
  by (rule indexed_same) (simp add: put_pool_def)

lemma distinct_add:
  "mset ys = add_mset x (mset xs) \<Longrightarrow> distinct (map f ys) \<longleftrightarrow> f x \<notin> f ` set xs \<and> distinct (map f xs)"
proof -
  assume "mset ys = add_mset x (mset xs)"
  then have "mset (map f ys) = mset (map f (x # xs))" by simp
  then have "distinct (map f ys) = distinct (map f (x # xs))" by (rule mset_eq_imp_distinct_iff)
  then show ?thesis by simp
qed

lemma add_entry_indexed:
  assumes "add_entry e db = Inr db'" "indexed db"
  shows "indexed db'"
proof -
  let ?rows = "table_rows (eventMarketOrganizerStockEntries db)"
  note a = add_entry_Inr [OF assms(1)]
  have m: "mset (table_rows (eventMarketOrganizerStockEntries db')) = add_mset e (mset ?rows)"
    using rows_put_fresh [OF a(2), of e] by (simp add: a(1) put_entry_def)
  have "order_key f \<noteq> order_key e" "claim_key f \<noteq> claim_key e" if "f \<in> set ?rows" for f
    using a(3) [of f] that by (auto simp: order_key_def claim_key_def pool_entries_def entry_of_pool_def)
  then have "order_key e \<notin> order_key ` set ?rows" "claim_key e \<notin> claim_key ` set ?rows" by (metis image_iff)+
  then show ?thesis using assms(2) unfolding indexed_def distinct_add [OF m] by blast
qed

lemma bound_indexed:
  assumes "rows_keyed db" "table_get (eventMarketOrganizerStockEntries db) (entry_id u) = Some u" "indexed db"
  shows "indexed (put_entry (bind_entry b u) db)"
proof -
  have "order_key (rebind b u e) = order_key e" "claim_key (rebind b u e) = claim_key e" for e
    by (simp_all add: order_key_def claim_key_def)
  then show ?thesis using assms(3) by (simp add: indexed_def bound_rows [OF assms(1,2)] o_def)
qed

lemma commit_indexed:
  assumes r: "commitOrganizerStockAcceptance env db input continues now = Inr (db', replayed, entry)"
    and keyed: "rows_keyed db" and i: "indexed db"
  shows "indexed db'"
proof (rule commit_Inr [OF r keyed])
  fix pool :: EventMarketOrganizerStockPool and grant :: EventMarketStockGrant
  assume c: "db' = db \<and> replayed
       \<and> find (\<lambda>e. entry_orderId e = input_orderId input) (pool_entries db (input_authenticatedPubkey input) (input_poolId input)) = Some entry
       \<and> (\<exists>a. parseEventMarketStockAuthorityRumor env (entry_rumor entry) = Inr (Accepted a) \<and> prior_matches input entry a)
     \<or> find (\<lambda>e. entry_orderId e = input_orderId input) (pool_entries db (input_authenticatedPubkey input) (input_poolId input)) = None
       \<and> accept_new env db input pool grant now = Inr (db', replayed, entry)"
  show ?thesis
  proof (cases "db' = db")
    case False
    with c have "accept_new env db input pool grant now = Inr (db', replayed, entry)" by blast
    then obtain p where "add_entry entry db = Inr (put_entry entry db)" "db' = put_pool p (put_entry entry db)"
      by (rule accept_new_Inr) metis
    with add_entry_indexed [of entry db] i show ?thesis by simp
  qed (use i in simp)
qed

lemma bind_entries_other:
  assumes "\<forall>y \<in> set rs. entry_id (snd y) \<noteq> k"
  shows "table_get (eventMarketOrganizerStockEntries (bind_entries b rs db)) k = table_get (eventMarketOrganizerStockEntries db) k"
  using assms
proof (induction rs arbitrary: db)
  case (Cons y rs)
  then show ?case by (cases y) (auto simp: bind_entries_def put_entry_def table_get_put)
qed (simp add: bind_entries_def)

lemma bind_entries_indexed:
  assumes "rows_keyed db" "indexed db" "\<forall>(r, e) \<in> set results. table_get (eventMarketOrganizerStockEntries db) (entry_id e) = Some e"
    "distinct (map (entry_id \<circ> snd) results)"
  shows "indexed (bind_entries b results db) \<and>
    (\<forall>(r, e) \<in> set results. table_get (eventMarketOrganizerStockEntries (bind_entries b results db)) (entry_id e) = Some (bind_entry b e))"
  using assms
proof (induction results arbitrary: db)
  case (Cons x results)
  obtain r e where x: "x = (r, e)" by (cases x)
  have e: "table_get (eventMarketOrganizerStockEntries db) (entry_id e) = Some e" using Cons.prems(3) by (simp add: x)
  let ?db = "if entry_orderPoolBinding e = None then put_entry (bind_entry b e) db else db"
  have notin: "entry_id e \<notin> (\<lambda>y. entry_id (snd y)) ` set results" using Cons.prems(4) by (simp add: x o_def)
  have fresh: "entry_id e' \<noteq> entry_id e" if "(r', e') \<in> set results" for r' e'
    using notin imageI [OF that, of "\<lambda>y. entry_id (snd y)"] by (metis snd_conv)
  have get: "table_get (eventMarketOrganizerStockEntries ?db) k
      = (if k = entry_id e then Some (bind_entry b e) else table_get (eventMarketOrganizerStockEntries db) k)" for k
    using e by (simp add: put_entry_def table_get_put bind_entry_def)
  have 1: "rows_keyed ?db" "indexed ?db" using put_entry_keyed [OF Cons.prems(1)] bound_indexed [OF Cons.prems(1) e] Cons.prems(1,2) by simp_all
  have 2: "\<forall>(r, e) \<in> set results. table_get (eventMarketOrganizerStockEntries ?db) (entry_id e) = Some e"
  proof (intro ballI)
    fix y assume y: "y \<in> set results"
    then have "entry_id (snd y) \<noteq> entry_id e" using fresh [of "fst y" "snd y"] by simp
    moreover have "table_get (eventMarketOrganizerStockEntries db) (entry_id (snd y)) = Some (snd y)"
      using bspec [OF Cons.prems(3), of y] y by (simp add: case_prod_unfold)
    ultimately show "case y of (r, e) \<Rightarrow> table_get (eventMarketOrganizerStockEntries ?db) (entry_id e) = Some e"
      by (simp add: get case_prod_unfold)
  qed
  have "distinct (map (entry_id \<circ> snd) results)" using Cons.prems(4) by (simp add: o_def)
  note ih = Cons.IH [OF 1 2 this]
  have step: "bind_entries b (x # results) db = bind_entries b results ?db" by (simp add: bind_entries_def x)
  have "table_get (eventMarketOrganizerStockEntries (bind_entries b results ?db)) (entry_id e) = Some (bind_entry b e)"
    using bind_entries_other [of results "entry_id e" b ?db] fresh get [of "entry_id e"] by (metis prod.collapse)
  with ih show ?case unfolding step by (simp add: x)
qed (simp add: bind_entries_def)

subsection \<open>What an operation keeps of an entry\<close>

text \<open>An accepted entry stays as it is; an entry without a manifest may be bound to one.\<close>

definition entry_kept :: "EventMarketOrganizerStockEntry \<Rightarrow> EventMarketOrganizerStockEntry \<Rightarrow> bool" where
  "entry_kept e f \<longleftrightarrow>
     f\<lparr>entry_orderPoolBinding := entry_orderPoolBinding e\<rparr> = e
     \<and> (entry_orderPoolBinding e = None \<or> entry_orderPoolBinding f = entry_orderPoolBinding e)"

lemma entry_kept_refl: "entry_kept e e"
  by (simp add: entry_kept_def)

lemma entry_kept_trans: "entry_kept e f \<Longrightarrow> entry_kept f g \<Longrightarrow> entry_kept e g"
  unfolding entry_kept_def by (metis EventMarketOrganizerStockEntry.surjective EventMarketOrganizerStockEntry.update_convs(10))

lemma bind_entry_kept: "entry_kept e (bind_entry b e)"
  by (simp add: entry_kept_def bind_entry_def)

lemma entry_kept_rumor: "entry_kept e f \<Longrightarrow> entry_rumor f = entry_rumor e"
  unfolding entry_kept_def
  by (metis EventMarketOrganizerStockEntry.select_convs(7) EventMarketOrganizerStockEntry.surjective EventMarketOrganizerStockEntry.update_convs(10))

lemma entry_kept_bound: "entry_kept e f \<Longrightarrow> entry_orderPoolBinding e \<noteq> None \<Longrightarrow> f = e"
  by (cases f) (auto simp: entry_kept_def)

definition entries_kept :: "organizer_db \<Rightarrow> organizer_db \<Rightarrow> bool" where
  "entries_kept db db' \<longleftrightarrow>
     (\<forall>k e. table_get (eventMarketOrganizerStockEntries db) k = Some e \<longrightarrow>
        (\<exists>f. table_get (eventMarketOrganizerStockEntries db') k = Some f \<and> entry_kept e f))"

lemma entries_kept_refl: "entries_kept db db"
  by (auto simp: entries_kept_def entry_kept_refl)

lemma entries_kept_trans: "entries_kept a b \<Longrightarrow> entries_kept b c \<Longrightarrow> entries_kept a c"
  unfolding entries_kept_def by (meson entry_kept_trans)

lemma entries_kept_grow:
  "(\<And>k e. table_get (eventMarketOrganizerStockEntries db) k = Some e \<Longrightarrow> table_get (eventMarketOrganizerStockEntries db') k = Some e)
   \<Longrightarrow> entries_kept db db'"
  unfolding entries_kept_def using entry_kept_refl by blast

lemma entries_kept_same: "eventMarketOrganizerStockEntries db' = eventMarketOrganizerStockEntries db \<Longrightarrow> entries_kept db db'"
  by (rule entries_kept_grow) simp

lemma overlapping_entries:
  "close_overlapping env db account grant as now ps = Inr db' \<Longrightarrow> eventMarketOrganizerStockEntries db' = eventMarketOrganizerStockEntries db"
  by (induction ps arbitrary: db) (auto simp: bind_result_Inr put_pool_def split: if_split_asm)

lemma install_entries:
  assumes "installOrganizerStockHandover env db account writer rumor committed closedEvents expected continues now = Inr (db', pool)"
  shows "eventMarketOrganizerStockEntries db' = eventMarketOrganizerStockEntries db"
  by (rule install_Inr [OF assms]) (auto simp: put_pool_def dest: overlapping_entries)

lemma begin_close_entries:
  assumes "beginOrganizerStockClose env db account writer poolId continues now = Inr (db', rumor)" "rows_keyed db"
  shows "eventMarketOrganizerStockEntries db' = eventMarketOrganizerStockEntries db"
  by (rule begin_close_Inr [OF assms]) (auto simp: put_pool_def)

lemma order_facts:
  assumes r: "commitOrganizerStockOrder env db input continues now = Inr (db', replayed, entries)"
    and j: "journal_ok env (order_authenticatedPubkey input) db" and hex: "hashes_hex env"
  obtains db1 results where
    "commit_lines env db input (pool_binding (order_entries input)) continues now (order_entries input) = Inr (db1, results)"
    "db' = bind_entries (pool_binding (order_entries input)) results db1"
    "entries = map (bind_entry (pool_binding (order_entries input)) \<circ> snd) results"
    "distinct (map line_poolId (order_entries input))"
    "distinct (map (entry_id \<circ> snd) results)"
    "\<forall>e \<in> set (table_rows (eventMarketOrganizerStockEntries db)).
       entry_accountPubkey e = order_authenticatedPubkey input \<longrightarrow> entry_orderId e = order_orderId input \<longrightarrow>
       entry_poolId e \<in> set (map line_poolId (order_entries input))
       \<and> (entry_orderPoolBinding e = None \<or> entry_orderPoolBinding e = Some (pool_binding (order_entries input)))"
proof -
  let ?b = "pool_binding (order_entries input)"
  from r obtain db1 results where d: "distinct (map line_poolId (order_entries input))"
    and l: "commit_lines env db input ?b continues now (order_entries input) = Inr (db1, results)"
    and db': "db' = bind_entries ?b results db1" "entries = map (bind_entry ?b \<circ> snd) results"
    and prior: "\<not> list_ex (\<lambda>e. entry_poolId e \<notin> set (map line_poolId (order_entries input))
                       \<or> (entry_orderPoolBinding e \<noteq> None \<and> entry_orderPoolBinding e \<noteq> Some ?b))
          (filter (\<lambda>e. entry_accountPubkey e = order_authenticatedPubkey input \<and> entry_orderId e = order_orderId input)
            (table_rows (eventMarketOrganizerStockEntries db)))"
    unfolding commitOrganizerStockOrder_def by (auto simp: bind_result_Inr Let_def split: if_split_asm)
  note ok = lines_ok [OF l j hex]
  then have "distinct (map (entry_id \<circ> snd) results)" using d by (intro results_distinct) auto
  moreover have "\<forall>e \<in> set (table_rows (eventMarketOrganizerStockEntries db)).
       entry_accountPubkey e = order_authenticatedPubkey input \<longrightarrow> entry_orderId e = order_orderId input \<longrightarrow>
       entry_poolId e \<in> set (map line_poolId (order_entries input))
       \<and> (entry_orderPoolBinding e = None \<or> entry_orderPoolBinding e = Some ?b)"
    using prior by (auto simp: list_ex_iff)
  ultimately show thesis using that l db' d by blast
qed

lemma lines_indexed:
  "commit_lines env db input b continues now ls = Inr (db', results) \<Longrightarrow> rows_keyed db \<Longrightarrow> indexed db \<Longrightarrow> indexed db'"
proof (induction ls arbitrary: db results)
  case (Cons l ls)
  from Cons.prems(1) obtain db1 r e rs where c: "commitOrganizerStockAcceptance env db (line_acceptance input b l) continues now = Inr (db1, r, e)"
    and rest: "commit_lines env db1 input b continues now ls = Inr (db', rs)"
    by (auto simp: bind_result_Inr)
  show ?case by (rule Cons.IH [OF rest commit_entry(4) [OF c Cons.prems(2)] commit_indexed [OF c Cons.prems(2,3)]])
qed simp

lemma order_stored:
  assumes r: "commitOrganizerStockOrder env db input continues now = Inr (db', replayed, entries)"
    and j: "journal_ok env (order_authenticatedPubkey input) db" and hex: "hashes_hex env" and i: "indexed db"
  shows "indexed db'" "\<forall>e \<in> set entries. table_get (eventMarketOrganizerStockEntries db') (entry_id e) = Some e"
    "entries_kept db db'"
proof (atomize (full), rule order_facts [OF r j hex])
  let ?b = "pool_binding (order_entries input)"
  fix db1 results
  assume l: "commit_lines env db input ?b continues now (order_entries input) = Inr (db1, results)"
    and db': "db' = bind_entries ?b results db1" "entries = map (bind_entry ?b \<circ> snd) results"
    and d: "distinct (map (entry_id \<circ> snd) results)"
  note ok = lines_ok [OF l j hex]
  then have rows: "\<forall>(r, e) \<in> set results. table_get (eventMarketOrganizerStockEntries db1) (entry_id e) = Some e" by blast
  have bound: "indexed db' \<and> (\<forall>(r, e) \<in> set results. table_get (eventMarketOrganizerStockEntries db') (entry_id e) = Some (bind_entry ?b e))"
    unfolding db'(1) using ok lines_indexed [OF l journal_keyed [OF j] i]
    by (intro bind_entries_indexed [OF _ _ rows d]) (auto dest: journal_keyed)
  have stored: "\<forall>e \<in> set entries. table_get (eventMarketOrganizerStockEntries db') (entry_id e) = Some e"
    using bound unfolding db'(2) by (auto simp: bind_entry_def)
  have "entries_kept db db1" using ok by (intro entries_kept_grow) blast
  moreover have "entries_kept db1 db'"
    unfolding entries_kept_def
  proof (intro allI impI)
    fix k e assume e: "table_get (eventMarketOrganizerStockEntries db1) k = Some e"
    show "\<exists>f. table_get (eventMarketOrganizerStockEntries db') k = Some f \<and> entry_kept e f"
    proof (cases "\<exists>y \<in> set results. entry_id (snd y) = k")
      case True
      then obtain y where y: "y \<in> set results" "entry_id (snd y) = k" by blast
      then have "table_get (eventMarketOrganizerStockEntries db1) k = Some (snd y)"
        "table_get (eventMarketOrganizerStockEntries db') k = Some (bind_entry ?b (snd y))"
        using rows bound by (auto simp: case_prod_unfold)
      with e show ?thesis by (simp add: bind_entry_kept)
    next
      case False
      then show ?thesis using e bind_entries_other [of results k ?b db1] by (simp add: db' entry_kept_refl)
    qed
  qed
  ultimately show "indexed db' \<and> (\<forall>e \<in> set entries. table_get (eventMarketOrganizerStockEntries db') (entry_id e) = Some e)
      \<and> entries_kept db db'"
    using bound stored entries_kept_trans by blast
qed

subsection \<open>Attempts\<close>

text \<open>A request to the journal of an account; a refused request leaves the tables as they are.\<close>

datatype journal_request =
  RequestAcceptance acceptance_input
| RequestOrder order_input
| RequestClose js_string js_string
| RequestInstall js_string stock_rumor SignedPublicNostrEvent "SignedPublicNostrEvent list" "writer_registration option"

fun perform ::
    "'p event_ports_scheme \<Rightarrow> js_string \<Rightarrow> organizer_db \<Rightarrow> journal_request \<Rightarrow> bool \<Rightarrow> int \<Rightarrow> organizer_db result" where
  "perform env account db (RequestAcceptance input) continues now =
     bind_result (commitOrganizerStockAcceptance env db (input\<lparr>input_authenticatedPubkey := account\<rparr>) continues now)
       (\<lambda>(db', _). Inr db')"
| "perform env account db (RequestOrder input) continues now =
     bind_result (commitOrganizerStockOrder env db (input\<lparr>order_authenticatedPubkey := account\<rparr>) continues now)
       (\<lambda>(db', _). Inr db')"
| "perform env account db (RequestClose writer poolId) continues now =
     bind_result (beginOrganizerStockClose env db account writer poolId continues now) (\<lambda>(db', _). Inr db')"
| "perform env account db (RequestInstall writer rumor committed closed_events expected) continues now =
     bind_result (installOrganizerStockHandover env db account writer rumor committed closed_events expected continues now)
       (\<lambda>(db', _). Inr db')"

fun attempt ::
    "'p event_ports_scheme \<Rightarrow> js_string \<Rightarrow> organizer_db \<Rightarrow> journal_request \<times> bool \<times> int \<Rightarrow> organizer_db" where
  "attempt env account db (request, continues, now) =
     (case perform env account db request continues now of Inl _ \<Rightarrow> db | Inr db' \<Rightarrow> db')"

definition organizer_journal :: "'p event_ports_scheme \<Rightarrow> js_string \<Rightarrow> organizer_db \<Rightarrow> bool" where
  "organizer_journal env account db \<longleftrightarrow> hashes_hex env \<and> journal_ok env account db \<and> indexed db"

definition journal_kept :: "organizer_db \<Rightarrow> organizer_db \<Rightarrow> bool" where
  "journal_kept db db' \<longleftrightarrow> pools_kept db db' \<and> entries_kept db db'"

lemma journal_kept_refl: "journal_kept db db"
  by (simp add: journal_kept_def pools_kept_refl entries_kept_refl)

lemma result_db: "bind_result r (\<lambda>(d, _). Inr d) = Inr d' \<longleftrightarrow> (\<exists>x. r = Inr (d', x))"
  by (auto simp: bind_result_Inr)

lemma performed:
  assumes "perform env account db request continues now = Inr db'" and j: "organizer_journal env account db"
  shows "organizer_journal env account db' \<and> journal_kept db db'"
proof -
  from j have hex: "hashes_hex env" and ok: "journal_ok env account db" and i: "indexed db" by (simp_all add: organizer_journal_def)
  note keyed = journal_keyed [OF ok]
  show ?thesis
  proof (cases request)
    case (RequestAcceptance input)
    with assms(1) obtain r e where c: "commitOrganizerStockAcceptance env db (input\<lparr>input_authenticatedPubkey := account\<rparr>) continues now = Inr (db', r, e)"
      by (auto simp: result_db)
    have "entries_kept db db'" by (rule entries_kept_grow) (rule commit_entry(5) [OF c keyed])
    then show ?thesis
      using commit_ok [OF c] commit_kept [OF c keyed] commit_indexed [OF c keyed i] ok hex
      by (simp add: organizer_journal_def journal_kept_def)
  next
    case (RequestOrder input)
    with assms(1) obtain r es where c: "commitOrganizerStockOrder env db (input\<lparr>order_authenticatedPubkey := account\<rparr>) continues now = Inr (db', r, es)"
      by (auto simp: result_db)
    then show ?thesis
      using order_ok [OF c _ hex] order_kept [OF c keyed] order_stored [OF c _ hex i] ok hex
      by (simp add: organizer_journal_def journal_kept_def)
  next
    case (RequestClose writer poolId)
    with assms(1) obtain r where c: "beginOrganizerStockClose env db account writer poolId continues now = Inr (db', r)"
      by (auto simp: result_db)
    show ?thesis
      using begin_close_ok [OF c ok] begin_close_kept [OF c keyed] entries_kept_same [OF begin_close_entries [OF c keyed]]
        indexed_same [OF begin_close_entries [OF c keyed]] i hex
      by (simp add: organizer_journal_def journal_kept_def)
  next
    case (RequestInstall writer rumor committed closed_events expected)
    with assms(1) obtain p where c: "installOrganizerStockHandover env db account writer rumor committed closed_events expected continues now = Inr (db', p)"
      by (auto simp: result_db)
    show ?thesis
      using install_ok [OF c ok] install_kept [OF c keyed] entries_kept_same [OF install_entries [OF c]]
        indexed_same [OF install_entries [OF c]] i hex
      by (simp add: organizer_journal_def journal_kept_def)
  qed
qed

interpretation journal: guarded_store "attempt env account" "organizer_journal env account" journal_kept
  for env :: "'p event_ports_scheme" and account
proof
  fix s :: organizer_db and x :: "journal_request \<times> bool \<times> int"
  assume s: "organizer_journal env account s"
  obtain request continues now where x: "x = (request, continues, now)" by (cases x)
  have "organizer_journal env account (attempt env account s x) \<and> journal_kept s (attempt env account s x)"
  proof (cases "perform env account s request continues now")
    case Inl
    then have "attempt env account s x = s" by (simp add: x)
    then show ?thesis using s journal_kept_refl by metis
  next
    case (Inr db')
    then have "attempt env account s x = db'" by (simp add: x)
    then show ?thesis using performed [OF Inr s] by metis
  qed
  then show "organizer_journal env account (attempt env account s x)" "journal_kept s (attempt env account s x)" by blast+
next
  show "journal_kept s s" for s by (rule journal_kept_refl)
  show "journal_kept s u" if "journal_kept s t" "journal_kept t u" for s t u
    using that pools_kept_trans entries_kept_trans unfolding journal_kept_def by blast
qed

end
