(* ===== verification/Sample_Stock.thy ===== *)
theory Sample_Stock
  imports Stock_Runs Sample_Texts
begin

text \<open>
  A sample journal: a merchant grants ten pieces to an organizer, who installs the grant, accepts two
  orders and begins the close.
\<close>

definition sample_hash :: "js_string UnsignedNostrEvent \<Rightarrow> js_string" where
  "sample_hash e = (let s = take 64 (decimal_digits (nat (created_at e))) in replicate (64 - length s) CHR ''0'' @ s)"

definition journal_env :: event_ports where
  "journal_env = \<lparr>getEventHash = sample_hash, liftable = (\<lambda>_. True), calcPaddedLen = (\<lambda>n. n),
     event_sha256 = (\<lambda>_. replicate 32 0), schnorr_verify = (\<lambda>_ _ _. Some True), new_URL = (\<lambda>_. None)\<rparr>"

definition key_of :: "char \<Rightarrow> js_string" where
  "key_of c = replicate 64 c"

definition sample_writer :: js_string where
  "sample_writer = ''00000000-0000-4000-8000-000000000000''"

definition sample_grant :: EventMarketStockGrant where
  "sample_grant =
     \<lparr>version = 1, merchantPubkey = key_of CHR ''a'', organizerPubkey = key_of CHR ''b'', writerId = sample_writer,
      nonce = sample_writer,
      productCoordinate = ''30402:'' @ key_of CHR ''a'' @ '':cap'',
      assignmentCoordinate = ''30410:'' @ key_of CHR ''a'' @ '':'' @ key_of CHR ''0'',
      marketCoordinate = ''30409:'' @ key_of CHR ''b'' @ '':fair'',
      occurrenceCoordinate = ''31923:'' @ key_of CHR ''b'' @ '':june'',
      productEventId = key_of CHR ''1'', assignmentEventId = key_of CHR ''2'', marketEventId = key_of CHR ''3'',
      occurrenceEventId = key_of CHR ''4'', grantEventId = key_of CHR ''5'', scheduleEventId = None,
      grant_quantity = 10, expiresAtMs = 9000000\<rparr>"

definition grant_message :: stock_rumor where
  "grant_message = stock_rumor_of journal_env (Grant sample_grant) 1000"

definition granted_input :: "bool \<Rightarrow> int \<Rightarrow> EventMarketAssignmentDraftInput" where
  "granted_input closed_flag imported =
     \<lparr>tuple_market = marketCoordinate sample_grant, tuple_occurrence = occurrenceCoordinate sample_grant,
      tuple_product = productCoordinate sample_grant, draft_merchantPubkey = merchantPubkey sample_grant,
      draft_state = ''active'', draft_inventory = Tracked 10, draft_fulfillmentMethods = [''pickup''],
      draft_previousEventId = Some (key_of CHR ''2''),
      draft_relayHints = \<lparr>hint_market = None, hint_occurrence = None, hint_product = None\<rparr>,
      draft_organizerStockPool = Some
        \<lparr>sp_state = if closed_flag then ''closed'' else ''active'', sp_poolId = rumor_id grant_message,
         sp_organizerPubkey = organizerPubkey sample_grant, sp_quantity = 10, sp_importedQuantity = imported\<rparr>\<rparr>"

definition granted_event :: "bool \<Rightarrow> int \<Rightarrow> int \<Rightarrow> SignedPublicNostrEvent" where
  "granted_event closed_flag t imported =
     \<lparr>event_kind = ASSIGNMENT_KIND, event_pubkey = merchantPubkey sample_grant, created_at = t,
      event_tags = assignment_tags journal_env (granted_input closed_flag imported), event_content = [],
      event_id = key_of CHR ''0'', event_sig = replicate 128 CHR ''0''\<rparr>"

definition granted_assignment :: "bool \<Rightarrow> int \<Rightarrow> int \<Rightarrow> ParsedEventMarketAssignment" where
  "granted_assignment closed_flag t imported =
     assignment_of journal_env (granted_input closed_flag imported) (granted_event closed_flag t imported)"

definition empty_journal :: organizer_db where
  "empty_journal = \<lparr>eventMarketOrganizerStockPools = [], eventMarketOrganizerStockEntries = [], eventMarketOrganizerStockWriters = []\<rparr>"

subsection \<open>Messages\<close>

lemma sample_hashes: "hashes_hex journal_env"
proof -
  have "list_all is_lower_hex (take 64 (decimal_digits n))" for n
    using digits_all [of n] by (auto simp: list_all_iff is_lower_hex_def dest: in_set_takeD)
  then show ?thesis by (auto simp: hashes_hex_def journal_env_def sample_hash_def Let_def is_hex64_def list_all_iff is_lower_hex_def is_digit_def char_code_def)
qed

lemma fits_transport:
  assumes "short_numbers (event_json e)" "text_bound (event_json e) \<le> 200000"
  shows "assertPrivateMessageFitsTransport journal_env e = Inr ()"
proof -
  let ?hex = "JString (replicate 64 CHR ''0'')"
  let ?frame = "JArray [JString ''EVENT'', ?hex, signed_shell 1059 [JArray [JString ''p'', ?hex]]]"
  have enc: "3 * encryptedChars journal_env n \<le> 4 * n + 292" for n
  proof -
    have "12 * (m div 3) \<le> 4 * m" for m :: nat using times_div_less_eq_dividend [of 3 m] by linarith
    from this [of "69 + n"] this [of "73 + n"] show ?thesis
      by (cases "n < 65536") (simp_all add: encryptedChars_def journal_env_def Let_def)
  qed
  have short: "short_numbers (signed_shell 13 [])" "short_numbers ?frame"
    and bound: "text_bound (signed_shell 13 []) \<le> 5000" "text_bound ?frame \<le> 9000"
    by (simp_all add: signed_shell_def MAX_SAFE_INTEGER_def)
  have shells: "length (stringify (signed_shell 13 [])) \<le> 5000" "length (stringify ?frame) \<le> 9000"
    by (rule order_trans [OF length_bytes order_trans [OF bytes_stringify]], rule short, rule bound)+
  have rumor: "length (utf8_bytes (stringify (event_json e))) \<le> 200000"
    using bytes_stringify [OF assms(1)] assms(2) by (rule order_trans)
  define r where "r = length (utf8_bytes (stringify (event_json e)))"
  define seal where "seal = length (stringify (signed_shell 13 [])) + encryptedChars journal_env r"
  have "seal \<le> 272000" using enc [of r] rumor shells(1) unfolding r_def [symmetric] seal_def by linarith
  then have "length (stringify ?frame) + encryptedChars journal_env seal \<le> 524288"
    using enc [of seal] shells(2) by linarith
  moreover have "MAX_RELAY_MESSAGE_CHARS = 524288" by (simp add: MAX_RELAY_MESSAGE_CHARS_def)
  ultimately show ?thesis
    unfolding assertPrivateMessageFitsTransport_def Let_def r_def [symmetric] seal_def [symmetric] by (simp only: not_le [symmetric]) simp
qed

text \<open>A message of a bounded payload is created as the rumor of that payload.\<close>

abbreviation payload_json :: "EventMarketStockAuthorityPayload \<Rightarrow> json" where
  "payload_json p \<equiv> JObject (parties_json (payload_parties p) @ terms_json p)"

lemma stock_created:
  assumes valid: "valid_parties journal_env (payload_parties p)" "valid_terms p" "assertTimeBinding p t = Inr ()"
    and plain: "short_numbers (payload_json p)" "text_bound (payload_json p) \<le> 15000"
    and keys: "length (payload_sender p) = 64" "length (payload_recipient p) = 64" "\<bar>t\<bar> < 10 ^ 16"
  shows "createEventMarketStockAuthorityRumor journal_env p t = Inr (stock_rumor_of journal_env p t)"
proof -
  have "length (utf8_bytes (payload_text p)) \<le> 15000"
    unfolding payload_text_def using bytes_stringify [OF plain(1)] plain(2) by (rule order_trans)
  then have bytes: "\<not> MAX_PAYLOAD_BYTES < length (utf8_bytes (payload_text p))" and "length (payload_text p) \<le> 15000"
    using length_bytes [of "payload_text p"] by (simp_all add: MAX_PAYLOAD_BYTES_def)
  then have "text_bound (event_json (unsigned_stock_event p t)) \<le> 200000"
    using keys by (simp add: event_json_def unsigned_stock_event_def stock_tags_def)
  moreover have "short_numbers (event_json (unsigned_stock_event p t))"
    using keys(3) by (simp add: event_json_def unsigned_stock_event_def stock_tags_def)
  ultimately have "assertPrivateMessageFitsTransport journal_env (unsigned_stock_event p t) = Inr ()" by (intro fits_transport)
  with valid bytes show ?thesis by (simp add: createEventMarketStockAuthorityRumor_def parsePayload_def)
qed

lemma hex_chars [simp]:
  "is_lower_hex CHR ''a''" "is_lower_hex CHR ''b''" "is_lower_hex CHR ''6''" "is_lower_hex CHR ''7''" "is_lower_hex CHR ''8''"
  "is_lower_hex CHR ''1''" "is_lower_hex CHR ''2''" "is_lower_hex CHR ''3''" "is_lower_hex CHR ''4''" "is_lower_hex CHR ''5''"
  by code_simp+

lemma key_hex: "is_lower_hex c \<Longrightarrow> is_hex64 (key_of c) \<and> is_hex64_i (key_of c)"
  by (simp add: key_of_def is_hex64_def is_hex64_i_def list_all_iff is_any_hex_def)

lemma key_distinct: "key_of CHR ''a'' \<noteq> key_of CHR ''b''"
  by code_simp

lemma writer_uuid: "is_uuid_v4 sample_writer"
  by code_simp

lemma indexOf_append: "c \<notin> set s \<Longrightarrow> indexOf (s @ c # t) c = Some (length s)"
  by (induction s) auto

lemma coordinate_of:
  assumes ks: "list_all is_digit ks" "ks \<noteq> []" "length ks \<le> 5" "decimal_value ks = int k" "decimal_digits k = ks"
    and k: "30000 \<le> k" "k < 40000" "k \<in> set kinds" and c: "c \<in> {CHR ''a'', CHR ''b''}" and d: "validDTag d"
    and trimmed: "js_trim (ks @ '':'' @ key_of c @ '':'' @ d) = ks @ '':'' @ key_of c @ '':'' @ d"
  shows "stock_coordinate (ks @ '':'' @ key_of c @ '':'' @ d) kinds (key_of c)"
proof -
  have "CHR '':'' \<notin> set ks" using ks(1) by (auto simp: list_all_iff is_digit_def char_code_def)
  then have 1: "indexOf (ks @ CHR '':'' # key_of c @ CHR '':'' # d) CHR '':'' = Some (length ks)" by (rule indexOf_append)
  have "CHR '':'' \<notin> set (key_of c)" using c by (auto simp: key_of_def)
  then have 2: "indexOf (key_of c @ CHR '':'' # d) CHR '':'' = Some (length (key_of c))" by (rule indexOf_append)
  have lower: "toLowerCase (key_of c) = key_of c" using c by (auto simp: key_of_def toLowerCase_def char_lower_def char_code_def)
  have hex: "is_hex64_i (key_of c)" using c key_hex by auto
  show ?thesis
    using ks k d trimmed hex by (simp add: stock_coordinate_def parseAddressableCoordinate_def Let_def 1 2 lower)
qed

lemma sample_coordinates:
  "stock_coordinate (productCoordinate sample_grant) [30402] (merchantPubkey sample_grant)"
  "stock_coordinate (assignmentCoordinate sample_grant) [30410] (merchantPubkey sample_grant)"
  "stock_coordinate (marketCoordinate sample_grant) [30409] (organizerPubkey sample_grant)"
  "stock_coordinate (occurrenceCoordinate sample_grant) [31922, 31923] (organizerPubkey sample_grant)"
proof -
  have d: "validDTag ''cap''" "validDTag ''fair''" "validDTag ''june''" "validDTag (key_of CHR ''0'')" by code_simp+
  have n: "decimal_value ''30402'' = int 30402" "decimal_value ''30410'' = int 30410" "decimal_value ''30409'' = int 30409"
    "decimal_value ''31923'' = int 31923"
    by (simp_all add: decimal_value_def char_code_def)
  have "stock_coordinate (''30402'' @ '':'' @ key_of CHR ''a'' @ '':'' @ ''cap'') [30402] (key_of CHR ''a'')"
    by (rule coordinate_of [OF _ _ _ n(1) kind_digits(1) _ _ _ _ d(1)]) (code_simp, simp_all, code_simp)
  then show "stock_coordinate (productCoordinate sample_grant) [30402] (merchantPubkey sample_grant)" by (simp add: sample_grant_def)
  have "stock_coordinate (''30410'' @ '':'' @ key_of CHR ''a'' @ '':'' @ key_of CHR ''0'') [30410] (key_of CHR ''a'')"
    by (rule coordinate_of [OF _ _ _ n(2) kind_digits(3) _ _ _ _ d(4)]) (code_simp, simp_all, code_simp)
  then show "stock_coordinate (assignmentCoordinate sample_grant) [30410] (merchantPubkey sample_grant)" by (simp add: sample_grant_def)
  have "stock_coordinate (''30409'' @ '':'' @ key_of CHR ''b'' @ '':'' @ ''fair'') [30409] (key_of CHR ''b'')"
    by (rule coordinate_of [OF _ _ _ n(3) kind_digits(2) _ _ _ _ d(2)]) (code_simp, simp_all, code_simp)
  then show "stock_coordinate (marketCoordinate sample_grant) [30409] (organizerPubkey sample_grant)" by (simp add: sample_grant_def)
  have "stock_coordinate (''31923'' @ '':'' @ key_of CHR ''b'' @ '':'' @ ''june'') [31922, 31923] (key_of CHR ''b'')"
    by (rule coordinate_of [OF _ _ _ n(4) kind_digits(5) _ _ _ _ d(3)]) (code_simp, simp_all, code_simp)
  then show "stock_coordinate (occurrenceCoordinate sample_grant) [31922, 31923] (organizerPubkey sample_grant)" by (simp add: sample_grant_def)
qed

lemma grant_valid: "valid_parties journal_env (payload_parties (Grant sample_grant))" "valid_terms (Grant sample_grant)"
  using key_hex key_distinct writer_uuid sample_coordinates
  by (simp_all add: valid_parties_def isValidNostrPublicKey_def valid_grant_def sample_grant_def journal_env_def
      EventMarketStockAuthorityParties.defs stock_count_def stock_time_def is_safe_def MAX_SAFE_INTEGER_def MAX_STOCK_def)

lemma grant_created: "createEventMarketStockAuthorityRumor journal_env (Grant sample_grant) 1000 = Inr grant_message"
  unfolding grant_message_def
proof (rule stock_created)
  show "assertTimeBinding (Grant sample_grant) 1000 = Inr ()"
    by (simp add: assertTimeBinding_def sample_grant_def stock_time_def is_safe_def MAX_SAFE_INTEGER_def)
  show "text_bound (payload_json (Grant sample_grant)) \<le> 15000"
    by (simp add: parties_json_def sample_grant_def EventMarketStockAuthorityParties.defs key_of_def sample_writer_def)
qed (use grant_valid in \<open>simp_all add: parties_json_def sample_grant_def EventMarketStockAuthorityParties.defs key_of_def\<close>)

lemma grant_read [simp]: "readGrant journal_env grant_message = Inr sample_grant"
  using created_is_decoded [OF grant_created sample_hashes] by (simp add: readGrant_def)

lemma stock_ids: "getEventHash journal_env e = (let s = take 64 (decimal_digits (nat (created_at e))) in replicate (64 - length s) CHR ''0'' @ s)"
  by (simp add: journal_env_def sample_hash_def)

definition padded :: "js_string \<Rightarrow> js_string" where
  "padded s = replicate (64 - length s) CHR ''0'' @ s"

lemma message_id:
  assumes "decimal_digits (nat t) = s" "length s \<le> 64"
  shows "rumor_id (stock_rumor_of journal_env p t) = padded s"
  using assms by (simp add: stock_rumor_of_def unsigned_stock_event_def stock_ids Let_def padded_def)

lemma digit_texts: "decimal_digits (nat 1000) = ''1000''" "decimal_digits (nat 2000) = ''2000''" "decimal_digits (nat 4000) = ''4000''"
  by code_simp+

lemma padded_hex: "is_hex64 (padded ''1000'')" "is_hex64 (padded ''2000'')" "padded ''1000'' \<noteq> padded ''2000''"
  "padded ''2000'' \<noteq> padded ''1000''"
  by code_simp+

lemma grant_id: "rumor_id grant_message = padded ''1000''" "created_at grant_message = 1000"
  unfolding grant_message_def by (rule message_id [OF digit_texts(1)], simp) (simp add: stock_rumor_of_def)

subsection \<open>The published assignment\<close>

lemma zero_digest: "json_digest (event_sha256 journal_env) v = key_of CHR ''0''" "bytesToHex (replicate 32 0) = key_of CHR ''0''"
proof -
  show b: "bytesToHex (replicate 32 0) = key_of CHR ''0''" by code_simp
  show "json_digest (event_sha256 journal_env) v = key_of CHR ''0''" by (simp add: json_digest_def journal_env_def b)
qed

lemma canonical_sample: "stock_coordinate v kinds author \<Longrightarrow> \<exists>c. parseCanonicalCoordinate v kinds = Some c \<and> authorPubkey c = author"
  by (auto simp: stock_coordinate_def parseCanonicalCoordinate_def split: option.split_asm)

lemma granted_tuple:
  "\<exists>market occurrence product. parseTuple (granted_input f i) = Some (market, occurrence, product)
     \<and> authorPubkey market = organizerPubkey sample_grant \<and> authorPubkey product = merchantPubkey sample_grant"
  using canonical_sample [OF sample_coordinates(1)] canonical_sample [OF sample_coordinates(3)] canonical_sample [OF sample_coordinates(4)]
  by (auto simp: parseTuple_def granted_input_def)

lemma granted_fields:
  "assignment_coordinate (granted_assignment f t i) = assignmentCoordinate sample_grant"
  "assignment_createdAt (granted_assignment f t i) = t"
  "assignment_organizerPubkey (granted_assignment f t i) = organizerPubkey sample_grant"
  "assignment_merchantPubkey (granted_assignment f t i) = merchantPubkey sample_grant"
  "tuple_market (granted_assignment f t i) = marketCoordinate sample_grant"
  "tuple_occurrence (granted_assignment f t i) = occurrenceCoordinate sample_grant"
  "tuple_product (granted_assignment f t i) = productCoordinate sample_grant"
  "assignment_state (granted_assignment f t i) = ''active''" "assignment_inventory (granted_assignment f t i) = Tracked 10"
  "assignment_previousEventId (granted_assignment f t i) = Some (key_of CHR ''2'')"
  "assignment_stockPool (granted_assignment f t i) = PoolValid
     \<lparr>sp_state = if f then ''closed'' else ''active'', sp_poolId = rumor_id grant_message,
      sp_organizerPubkey = organizerPubkey sample_grant, sp_quantity = 10, sp_importedQuantity = i\<rparr>"
  using granted_tuple [of f i]
  by (auto simp: granted_assignment_def assignment_of_def granted_event_def granted_input_def tupleHash_def zero_digest declared_pool_def
      sample_grant_def)

definition granted_draft :: "bool \<Rightarrow> int \<Rightarrow> EventMarketEventDraft" where
  "granted_draft f i = \<lparr>draft_kind = ASSIGNMENT_KIND, draft_content = [], draft_tags = assignment_tags journal_env (granted_input f i)\<rparr>"

lemma granted_signed:
  assumes "0 \<le> t" "t < 10 ^ 12" "0 \<le> i" "i \<le> 10"
  shows "buildEventMarketAssignmentDraft journal_env (granted_input f i) = Inr (granted_draft f i)"
    "signs_draft journal_env (granted_draft f i) (draft_merchantPubkey (granted_input f i)) (granted_event f t i)"
    "hashes_bytes journal_env" "draft_previousEventId (granted_input f i) \<noteq> Some (event_id (granted_event f t i))"
    "length (utf8_bytes (stringify (signed_event_json (granted_event f t i)))) \<le> MAX_EVENT_BYTES"
proof -
  have keys: "is_hex64_i (key_of CHR ''0'')" "is_hex128_i (replicate 128 CHR ''0'')" "toLowerCase (key_of CHR ''0'') = key_of CHR ''0''"
    by code_simp+
  have merchant: "is_hex64_i (merchantPubkey sample_grant)" "is_hex64 (organizerPubkey sample_grant)"
    using key_hex by (simp_all add: sample_grant_def)
  have tags: "list_all (\<lambda>tag. tag \<noteq> []) (assignment_tags journal_env (granted_input f i))"
    by (simp add: assignment_tags_def granted_input_def reference_tag_def inventory_tag_def stock_pool_tag_def)
  show "hashes_bytes journal_env" by (simp add: hashes_bytes_def journal_env_def)
  show "draft_previousEventId (granted_input f i) \<noteq> Some (event_id (granted_event f t i))"
    by (simp add: granted_input_def granted_event_def key_of_def)
  have "valid_event journal_env (granted_event f t i)"
    using assms(1,2) keys merchant tags
    by (simp add: valid_event_def isValidSignedPublicNostrEvent_def event_shape_ok_def granted_event_def computeEventId_def zero_digest
        schnorr_ok_def is_safe_def MAX_SAFE_INTEGER_def ASSIGNMENT_KIND_def) (simp add: journal_env_def)
  then show "signs_draft journal_env (granted_draft f i) (draft_merchantPubkey (granted_input f i)) (granted_event f t i)"
    by (simp add: signs_draft_def granted_draft_def granted_event_def granted_input_def)
  have hex: "is_hex64 (rumor_id grant_message)" using padded_hex by (simp add: grant_id)
  show "buildEventMarketAssignmentDraft journal_env (granted_input f i) = Inr (granted_draft f i)"
    using granted_tuple [of f i] assms(3,4) hex merchant key_hex [of "CHR ''2''"]
    by (auto simp: buildEventMarketAssignmentDraft_def granted_draft_def granted_input_def [of f i] validInventory_def MAX_ALLOCATION_def validFulfillment_def
        validRelayHint_def validOrganizerStockPool_def)
  have d: "length (int_text n) \<le> 16" if "0 \<le> n" "n \<le> 10" for n
    using that digits_size [of "nat n" 15] by (simp add: int_text_def number_text_def)
  let ?v = "signed_event_json (granted_event f t i)"
  have "text_bound ?v \<le> 30000"
    using d [OF assms(3,4)] d [of 10] grant_id(1)
    by (simp add: signed_event_json_def granted_event_def tags_json_def assignment_tags_def granted_input_def reference_tag_def
        inventory_tag_def stock_pool_tag_def tupleHash_def zero_digest key_of_def sample_grant_def padded_def PROFILE_def ALT_def STOCK_POOL_TAG_def)
  moreover have "short_numbers ?v"
    using assms(1,2) by (simp add: signed_event_json_def granted_event_def tags_json_def ASSIGNMENT_KIND_def list_all_iff)
  ultimately show "length (utf8_bytes (stringify ?v)) \<le> MAX_EVENT_BYTES"
    using bytes_stringify [of ?v] unfolding MAX_EVENT_BYTES_def by linarith
qed

lemma granted_read:
  assumes "0 \<le> t" "t < 10 ^ 12" "0 \<le> i" "i \<le> 10"
  shows "parseEventMarketAssignmentEvent journal_env (granted_event f t i) = Some (granted_assignment f t i)"
  unfolding granted_assignment_def by (rule build_parse [OF granted_signed [OF assms]])

definition sample_pool :: EventMarketOrganizerStockPool where
  "sample_pool = (case newPool journal_env (key_of CHR ''b'') grant_message PoolActive of Inr p \<Rightarrow> p)"

definition installed_journal :: organizer_db where
  "installed_journal = put_pool sample_pool empty_journal"

lemma sample_installed:
  "perform journal_env (key_of CHR ''b'') empty_journal
     (RequestInstall sample_writer grant_message (granted_event False 1500 0) [] None) True 1600000 = Inr installed_journal"
proof -
  have t: "created_at grant_message = 1000" by (simp add: grant_message_def stock_rumor_of_def)
  have g: "organizerPubkey sample_grant = key_of CHR ''b''" "writerId sample_grant = sample_writer" "expiresAtMs sample_grant = 9000000"
    "grant_quantity sample_grant = 10" "assignmentEventId sample_grant = key_of CHR ''2''"
    by (simp_all add: sample_grant_def)
  have c: "commits_grant sample_grant grant_message 1600000 (granted_assignment False 1500 0)"
    by (simp add: commits_grant_def granted_fields t g)
  have p: "parseEventMarketAssignmentEvent journal_env (granted_event False 1500 0) = Some (granted_assignment False 1500 0)"
    by (rule granted_read) simp_all
  show ?thesis
    by (simp add: installOrganizerStockHandover_def requireTime_def requireSession_def is_safe_def MAX_SAFE_INTEGER_def t g p c
        assertOrganizerStockWriterCurrent_def check_registration_def empty_journal_def table_get_def Let_def
        add_pool_def table_rows_def register_pool_def installed_journal_def sample_pool_def newPool_def)
qed

subsection \<open>An acceptance and a close\<close>

definition sample_line :: order_line where
  "sample_line = \<lparr>line_poolId = padded ''1000'', line_writerId = sample_writer, line_quantity = 3\<rparr>"

definition sample_binding :: js_string where
  "sample_binding = pool_binding [sample_line]"

lemma sample_bound: "sample_binding \<noteq> []"
  by (simp add: sample_binding_def pool_binding_def js_sort_def)

definition sample_input :: acceptance_input where
  "sample_input =
     \<lparr>input_authenticatedPubkey = key_of CHR ''b'', input_writerId = sample_writer, input_poolId = padded ''1000'',
      input_orderId = ''first'', input_identityBinding = key_of CHR ''6'', input_termsBinding = key_of CHR ''7'',
      input_claimRef = key_of CHR ''8'', input_quantity = 3, input_evidence = ''{}'', input_orderPoolBinding = Some sample_binding\<rparr>"

definition accepted_message :: stock_rumor where
  "accepted_message = stock_rumor_of journal_env (Accepted (acceptance_payload sample_input sample_pool 2000000)) 2000"

lemma accepted_id: "rumor_id accepted_message = padded ''2000''"
  unfolding accepted_message_def by (rule message_id [OF digit_texts(2)]) simp

lemma grant_fields:
  "merchantPubkey sample_grant = key_of CHR ''a''" "organizerPubkey sample_grant = key_of CHR ''b''" "writerId sample_grant = sample_writer"
  "expiresAtMs sample_grant = 9000000" "grant_quantity sample_grant = 10"
  by (simp_all add: sample_grant_def)

lemma pool_fields:
  "pool_id sample_pool = poolKey (key_of CHR ''b'') (padded ''1000'')" "pool_accountPubkey sample_pool = key_of CHR ''b''"
  "pool_poolId sample_pool = padded ''1000''" "pool_merchantPubkey sample_pool = key_of CHR ''a''"
  "pool_organizerPubkey sample_pool = key_of CHR ''b''" "pool_writerId sample_pool = sample_writer" "grantRumor sample_pool = grant_message"
  "pool_quantity sample_pool = 10" "acceptedQuantity sample_pool = 0" "acceptedSequence sample_pool = 0"
  "lastAcceptedId sample_pool = padded ''1000''" "importedQuantity sample_pool = 0" "importedSequence sample_pool = 0"
  "lastImportedId sample_pool = padded ''1000''" "pool_state sample_pool = PoolActive" "closingRumor sample_pool = None"
  "\<not> readOnlyRecovery sample_pool" "pool_assignmentCoordinate sample_pool = assignmentCoordinate sample_grant"
  "pool_productCoordinate sample_pool = productCoordinate sample_grant"
  by (simp_all add: sample_pool_def newPool_def grant_id grant_fields)

lemma accepted_created:
  "createEventMarketStockAuthorityRumor journal_env (Accepted (acceptance_payload sample_input sample_pool 2000000)) 2000 = Inr accepted_message"
  unfolding accepted_message_def
proof (rule stock_created)
  let ?p = "Accepted (acceptance_payload sample_input sample_pool 2000000)"
  note fields = pool_fields sample_input_def acceptance_payload_def EventMarketStockAuthorityParties.defs
  show "valid_parties journal_env (payload_parties ?p)"
    using key_hex key_distinct writer_uuid by (simp add: fields valid_parties_def isValidNostrPublicKey_def journal_env_def)
  show "valid_terms ?p"
    using key_hex padded_hex by (simp add: fields valid_acceptance_def stock_count_def stock_time_def is_safe_def MAX_SAFE_INTEGER_def
        MAX_STOCK_def valid_orderId_def js_trim_def is_js_space_def is_control_def char_code_def)
  show "assertTimeBinding ?p 2000 = Inr ()"
    by (simp add: assertTimeBinding_def fields stock_time_def is_safe_def MAX_SAFE_INTEGER_def)
  show "text_bound (payload_json ?p) \<le> 15000"
    by (simp add: parties_json_def fields key_of_def sample_writer_def padded_def)
qed (simp_all add: parties_json_def pool_fields sample_input_def acceptance_payload_def EventMarketStockAuthorityParties.defs key_of_def)

lemma no_writer: "eventMarketOrganizerStockWriters db = [] \<Longrightarrow> assertOrganizerStockWriterCurrent db account market writer = Inr ()"
  by (simp add: assertOrganizerStockWriterCurrent_def table_get_def)

definition accepted_pool_row :: EventMarketOrganizerStockPool where
  "accepted_pool_row = sample_pool\<lparr>acceptedQuantity := 3, acceptedSequence := 1, lastAcceptedId := padded ''2000''\<rparr>"

definition accepted_entry :: EventMarketOrganizerStockEntry where
  "accepted_entry = acceptance_entry sample_input sample_pool accepted_message"

definition accepted_journal :: organizer_db where
  "accepted_journal = put_pool accepted_pool_row (put_entry accepted_entry installed_journal)"

lemma sample_accepted:
  "commitOrganizerStockAcceptance journal_env installed_journal sample_input True 2000000 = Inr (accepted_journal, False, accepted_entry)"
proof -
  have pool: "assertPool journal_env sample_pool = Inr sample_grant"
    using padded_hex by (simp add: assertPool_def pool_fields grant_fields grant_id pool_count_def)
  have row: "table_get (eventMarketOrganizerStockPools installed_journal) (poolKey (key_of CHR ''b'') (padded ''1000'')) = Some sample_pool"
    "eventMarketOrganizerStockEntries installed_journal = []" "eventMarketOrganizerStockWriters installed_journal = []"
    by (simp_all add: installed_journal_def put_pool_def empty_journal_def pool_fields table_get_def)
  have w: "writer_pool journal_env installed_journal (key_of CHR ''b'') sample_writer (padded ''1000'') = Inr (sample_pool, sample_grant)"
    using no_writer [OF row(3)] by (simp add: writer_pool_def row(1) pool_fields pool)
  have i: "input_authenticatedPubkey sample_input = key_of CHR ''b''" "input_writerId sample_input = sample_writer"
    "input_poolId sample_input = padded ''1000''" "input_quantity sample_input = 3" "input_evidence sample_input = ''{}''"
    by (simp_all add: sample_input_def)
  have "accept_new journal_env installed_journal sample_input sample_pool sample_grant 2000000 = Inr (accepted_journal, False, accepted_entry)"
    using accepted_created
    by (simp add: accept_new_def pool_fields grant_fields grant_id check_predecessor_def i Let_def add_entry_def pool_entries_def row
        table_get_def table_rows_def accepted_journal_def accepted_pool_row_def accepted_entry_def put_entry_def accepted_id)
  then show ?thesis
    by (simp add: commitOrganizerStockAcceptance_def requireTime_def requireSession_def is_safe_def MAX_SAFE_INTEGER_def i w
        pool_entries_def row table_rows_def utf8_bytes_def char_code_def)
qed

definition close_message :: stock_rumor where
  "close_message = stock_rumor_of journal_env (Closed (close_payload accepted_pool_row)) 4000"

lemma close_created:
  "createEventMarketStockAuthorityRumor journal_env (Closed (close_payload accepted_pool_row)) 4000 = Inr close_message"
  unfolding close_message_def
proof (rule stock_created)
  let ?p = "Closed (close_payload accepted_pool_row)"
  note fields = pool_fields accepted_pool_row_def close_payload_def EventMarketStockAuthorityParties.defs
  show "valid_parties journal_env (payload_parties ?p)"
    using key_hex key_distinct writer_uuid by (simp add: fields valid_parties_def isValidNostrPublicKey_def journal_env_def)
  show "valid_terms ?p" using padded_hex by (simp add: fields valid_close_def stock_count_def MAX_STOCK_def)
  show "assertTimeBinding ?p 4000 = Inr ()"
    by (simp add: assertTimeBinding_def fields stock_time_def is_safe_def MAX_SAFE_INTEGER_def)
  show "text_bound (payload_json ?p) \<le> 15000"
    by (simp add: parties_json_def fields key_of_def sample_writer_def padded_def)
qed (simp_all add: parties_json_def pool_fields accepted_pool_row_def close_payload_def EventMarketStockAuthorityParties.defs key_of_def)

definition closing_pool_row :: EventMarketOrganizerStockPool where
  "closing_pool_row = accepted_pool_row\<lparr>pool_state := PoolClosing, closingRumor := Some close_message\<rparr>"

definition closing_journal :: organizer_db where
  "closing_journal = put_pool closing_pool_row accepted_journal"

lemma rows_of_accepted:
  "table_get (eventMarketOrganizerStockPools accepted_journal) (poolKey (key_of CHR ''b'') (padded ''1000'')) = Some accepted_pool_row"
  "table_get (eventMarketOrganizerStockEntries accepted_journal) (entryKey (key_of CHR ''b'') (padded ''2000'')) = Some accepted_entry"
  "eventMarketOrganizerStockWriters accepted_journal = []"
  by (simp_all add: accepted_journal_def put_pool_def put_entry_def table_get_put accepted_pool_row_def pool_fields
      accepted_entry_def acceptance_entry_def accepted_id sample_input_def installed_journal_def
      empty_journal_def table_get_def)

lemma accepted_valid: "assertPool journal_env accepted_pool_row = Inr sample_grant"
  using padded_hex by (simp add: assertPool_def accepted_pool_row_def pool_fields grant_fields grant_id pool_count_def)

lemma accepted_read:
  "parseEventMarketStockAuthorityRumor journal_env accepted_message = Inr (Accepted (acceptance_payload sample_input sample_pool 2000000))"
  by (rule created_is_decoded [OF accepted_created sample_hashes])

lemma stock_closed:
  "beginOrganizerStockClose journal_env accepted_journal (key_of CHR ''b'') sample_writer (padded ''1000'') True 4000000
    = Inr (closing_journal, close_message)"
proof -
  have w: "writer_pool journal_env accepted_journal (key_of CHR ''b'') sample_writer (padded ''1000'') = Inr (accepted_pool_row, sample_grant)"
    using no_writer [OF rows_of_accepted(3)]
    by (simp add: writer_pool_def rows_of_accepted(1) accepted_valid) (simp add: accepted_pool_row_def pool_fields)
  have "check_predecessor journal_env accepted_journal (key_of CHR ''b'') accepted_pool_row 4000000 = Inr ()"
    using rows_of_accepted(2) accepted_read
    by (simp add: check_predecessor_def accepted_pool_row_def accepted_entry_def acceptance_entry_def acceptance_payload_def sample_input_def pool_fields)
  then show ?thesis
    using close_created
    by (simp add: beginOrganizerStockClose_def requireTime_def requireSession_def is_safe_def MAX_SAFE_INTEGER_def w closing_journal_def closing_pool_row_def)
       (simp add: accepted_pool_row_def pool_fields grant_id)
qed

subsection \<open>The journal in order\<close>

lemma empty_in_order: "organizer_journal journal_env account empty_journal"
  by (simp add: organizer_journal_def sample_hashes journal_ok_def rows_keyed_def empty_journal_def table_keyed_def table_rows_def indexed_def)

lemma installed_in_order: "organizer_journal journal_env (key_of CHR ''b'') installed_journal"
  using performed [OF sample_installed empty_in_order] by blast

lemma accepted_in_order: "organizer_journal journal_env (key_of CHR ''b'') accepted_journal"
proof -
  have "perform journal_env (key_of CHR ''b'') installed_journal (RequestAcceptance sample_input) True 2000000 = Inr accepted_journal"
    using sample_accepted by (simp add: sample_input_def)
  from performed [OF this installed_in_order] show ?thesis by blast
qed

subsection \<open>Requests\<close>

definition sample_order :: order_input where
  "sample_order =
     \<lparr>order_authenticatedPubkey = key_of CHR ''b'', order_orderId = ''first'', order_identityBinding = key_of CHR ''6'',
      order_termsBinding = key_of CHR ''7'', order_claimRef = key_of CHR ''8'', order_evidence = ''{}'',
      order_entries = [sample_line]\<rparr>"

lemma installed_rows:
  "table_rows (eventMarketOrganizerStockEntries installed_journal) = []"
  by (simp add: installed_journal_def put_pool_def empty_journal_def table_rows_def)

lemma bound_entry: "entry_orderPoolBinding accepted_entry = Some sample_binding" "bind_entry b accepted_entry = accepted_entry"
  using sample_bound by (simp_all add: accepted_entry_def acceptance_entry_def sample_input_def bind_entry_def)

lemma sample_ordered:
  "commitOrganizerStockOrder journal_env installed_journal sample_order True 2000000 = Inr (accepted_journal, False, [accepted_entry])"
proof -
  have line: "line_acceptance sample_order (pool_binding [sample_line]) sample_line = sample_input"
    by (simp add: line_acceptance_def sample_order_def sample_line_def sample_input_def sample_binding_def)
  have "valid_line sample_line" using padded_hex writer_uuid by (simp add: valid_line_def sample_line_def)
  then show ?thesis
    by (simp add: commitOrganizerStockOrder_def requireTime_def requireSession_def is_safe_def MAX_SAFE_INTEGER_def
        sample_order_def [THEN arg_cong, of order_entries, simplified] installed_rows accepted_times_def line sample_accepted
        bind_entries_def bound_entry Let_def)
qed

definition sample_requests :: "(journal_request \<times> bool \<times> int) list" where
  "sample_requests =
     [(RequestInstall sample_writer grant_message (granted_event False 1500 0) [] None, True, 1600000),
      (RequestAcceptance sample_input, True, 2000000), (RequestClose sample_writer (padded ''1000''), True, 4000000)]"

lemma sample_run:
  "attempts (attempt journal_env (key_of CHR ''b'')) empty_journal sample_requests = closing_journal"
proof -
  have "sample_input\<lparr>input_authenticatedPubkey := key_of CHR ''b''\<rparr> = sample_input" by (simp add: sample_input_def)
  then show ?thesis
    using sample_installed sample_accepted stock_closed by (simp add: sample_requests_def)
qed

lemma closing_row:
  "table_get (eventMarketOrganizerStockPools closing_journal) (poolKey (key_of CHR ''b'') (padded ''1000'')) = Some closing_pool_row"
  "pool_accountPubkey closing_pool_row = key_of CHR ''b''" "pool_organizerPubkey closing_pool_row = key_of CHR ''b''"
  by (simp_all add: closing_journal_def put_pool_def table_get_put closing_pool_row_def accepted_pool_row_def pool_fields)

lemma closing_writer:
  "writer_pool journal_env closing_journal (key_of CHR ''b'') sample_writer (padded ''1000'') = Inr (closing_pool_row, sample_grant)"
proof -
  have "eventMarketOrganizerStockWriters closing_journal = []" using rows_of_accepted(3) by (simp add: closing_journal_def put_pool_def)
  moreover have "assertPool journal_env closing_pool_row = Inr sample_grant"
    using padded_hex by (simp add: assertPool_def closing_pool_row_def accepted_pool_row_def pool_fields grant_fields grant_id pool_count_def)
  ultimately show ?thesis
    by (simp add: writer_pool_def closing_row no_writer) (simp add: closing_pool_row_def accepted_pool_row_def pool_fields)
qed

end
