(* ===== verification/Stock_Claims.thy ===== *)
theory Stock_Claims
  imports Stock_Runs Sample_Stock
begin

text \<open>
  What the organizer's journal guarantees along every run of its operations: stock is never oversold,
  a begun close fixes the accepted stock and can always be completed, and an accepted order stays
  accepted.
\<close>

subsection \<open>A begun close\<close>

lemma begun_close:
  assumes r: "beginOrganizerStockClose env db account writer poolId continues now = Inr (db', rumor)"
    and j: "organizer_journal env account db"
    and row: "table_get (eventMarketOrganizerStockPools db) (poolKey account poolId) = Some p" "closingRumor p = None"
  shows "db' = put_pool (p\<lparr>pool_state := PoolClosing, closingRumor := Some rumor\<rparr>) db"
    "pool_accountPubkey p = account" "pool_organizerPubkey p = account" "pool_poolId p = poolId" "pool_id p = poolKey account poolId"
    "parseEventMarketStockAuthorityRumor env rumor = Inr (Closed (close_payload p))" "created_at rumor = now div 1000"
    "created_at (grantRumor p) * 1000 \<le> now" "check_predecessor env db account p now = Inr ()"
proof -
  from j have hex: "hashes_hex env" and keyed: "rows_keyed db" by (auto simp: organizer_journal_def dest: journal_keyed)
  obtain pool grant where w: "writer_pool env db account writer poolId = Inr (pool, grant)"
    and c: "db' = db \<and> closingRumor pool = Some rumor
     \<or> closingRumor pool = None \<and> pool_state pool = PoolActive \<and> created_at (grantRumor pool) * 1000 \<le> now
       \<and> check_predecessor env db account pool now = Inr ()
       \<and> createEventMarketStockAuthorityRumor env (Closed (close_payload pool)) (now div 1000) = Inr rumor
       \<and> db' = put_pool (pool\<lparr>pool_state := PoolClosing, closingRumor := Some rumor\<rparr>) db"
    by (rule begin_close_Inr [OF r keyed])
  note wp = writer_pool_Inr [OF w keyed]
  have p: "pool = p" using wp(1) row(1) by simp
  with c row(2) have c': "created_at (grantRumor p) * 1000 \<le> now" "check_predecessor env db account p now = Inr ()"
    "createEventMarketStockAuthorityRumor env (Closed (close_payload p)) (now div 1000) = Inr rumor"
    "db' = put_pool (p\<lparr>pool_state := PoolClosing, closingRumor := Some rumor\<rparr>) db" by auto
  show "db' = put_pool (p\<lparr>pool_state := PoolClosing, closingRumor := Some rumor\<rparr>) db"
    "created_at (grantRumor p) * 1000 \<le> now" "check_predecessor env db account p now = Inr ()" by (rule c')+
  show "pool_accountPubkey p = account" "pool_organizerPubkey p = account" "pool_poolId p = poolId" using wp p by auto
  show "pool_id p = poolKey account poolId" using assertPool_Inr(2) [OF wp(2)] wp(3,5) p by simp
  show "parseEventMarketStockAuthorityRumor env rumor = Inr (Closed (close_payload p))" by (rule created_is_decoded [OF c'(3) hex])
  show "created_at rumor = now div 1000" using created_rumor [OF c'(3)] by (simp add: stock_rumor_of_def)
qed

lemma begun_close_kept:
  assumes r: "beginOrganizerStockClose env db account writer poolId continues now = Inr (db', rumor)"
    and j: "organizer_journal env account db"
    and row: "table_get (eventMarketOrganizerStockPools db) (poolKey account poolId) = Some p" "closingRumor p = None"
    and later: "db2 = attempts (attempt env account) db' ops"
  obtains q where "table_get (eventMarketOrganizerStockPools db2) (poolKey account poolId) = Some q"
    "pool_kept (p\<lparr>pool_state := PoolClosing, closingRumor := Some rumor\<rparr>) q"
    "organizer_journal env account db2" "journal_kept db' db2"
proof -
  note b = begun_close [OF assms(1-4)]
  have "perform env account db (RequestClose writer poolId) continues now = Inr db'" by (simp add: r)
  from performed [OF this j] have j': "organizer_journal env account db'" by blast
  have kept: "journal_kept db' db2" unfolding later by (rule journal.run_kept [OF j'])
  have "table_get (eventMarketOrganizerStockPools db') (poolKey account poolId)
      = Some (p\<lparr>pool_state := PoolClosing, closingRumor := Some rumor\<rparr>)"
    by (simp add: b(1,5) put_pool_def table_get_put)
  with kept obtain q where "table_get (eventMarketOrganizerStockPools db2) (poolKey account poolId) = Some q"
    "pool_kept (p\<lparr>pool_state := PoolClosing, closingRumor := Some rumor\<rparr>) q"
    by (auto simp: journal_kept_def pools_kept_def)
  moreover have "organizer_journal env account db2" unfolding later by (rule journal.run_ok [OF j'])
  ultimately show thesis using kept that by blast
qed

text \<open>C27. Once a close of a pool is begun, no later run of operations re-opens the pool, accepts further
  stock from it or changes its closing message, and that message states exactly the frontier of the
  pool: what was accepted, by how many acceptances and which one was the last.\<close>

theorem begun_close_freezes_pool:
  assumes r: "beginOrganizerStockClose env db account writer poolId continues now = Inr (db', rumor)"
    and j: "organizer_journal env account db"
    and row: "table_get (eventMarketOrganizerStockPools db) (poolKey account poolId) = Some p" "closingRumor p = None"
    and later: "db2 = attempts (attempt env account) db' ops"
  shows "\<exists>q. table_get (eventMarketOrganizerStockPools db2) (poolKey account poolId) = Some q
    \<and> (pool_state q = PoolClosing \<or> pool_state q = PoolClosed)
    \<and> acceptedQuantity q = acceptedQuantity p \<and> acceptedSequence q = acceptedSequence p
    \<and> closingRumor q = Some rumor
    \<and> parseEventMarketStockAuthorityRumor env rumor = Inr (Closed (close_payload q))"
proof (rule begun_close_kept [OF assms])
  fix q assume q: "table_get (eventMarketOrganizerStockPools db2) (poolKey account poolId) = Some q"
    and k: "pool_kept (p\<lparr>pool_state := PoolClosing, closingRumor := Some rumor\<rparr>) q"
    and j2: "organizer_journal env account db2" "journal_kept db' db2"
  have "close_payload q = close_payload p" using k by (simp add: pool_kept_def close_payload_def)
  then show ?thesis using q k begun_close(6) [OF r j row] by (auto simp: pool_kept_def)
qed

lemma begun_close_freezes_pool_witness:
  "\<exists>q. table_get (eventMarketOrganizerStockPools (attempts (attempt journal_env (key_of CHR ''b'')) closing_journal
        [(RequestAcceptance sample_input, True, 5000000), (RequestClose sample_writer (padded ''1000''), True, 6000000)]))
        (poolKey (key_of CHR ''b'') (padded ''1000'')) = Some q
    \<and> (pool_state q = PoolClosing \<or> pool_state q = PoolClosed)
    \<and> acceptedQuantity q = acceptedQuantity accepted_pool_row \<and> acceptedSequence q = acceptedSequence accepted_pool_row
    \<and> closingRumor q = Some close_message
    \<and> parseEventMarketStockAuthorityRumor journal_env close_message = Inr (Closed (close_payload q))"
  by (rule begun_close_freezes_pool [OF stock_closed accepted_in_order rows_of_accepted(1) _ refl])
     (simp add: accepted_pool_row_def pool_fields)

subsection \<open>Completing a close\<close>

lemma chained_times:
  "chained env p g i prev t es \<Longrightarrow> t \<le> last_time t es \<and> (\<forall>e \<in> set es. entry_time e \<le> last_time t es)"
proof (induction es arbitrary: i prev t)
  case (Cons e es)
  from Cons.prems obtain a where a: "parseEventMarketStockAuthorityRumor env (entry_rumor e) = Inr (Accepted a)"
    and t: "t \<le> acceptedAtMs a" and c: "chained env p g (Suc i) (rumor_id (entry_rumor e)) (acceptedAtMs a) es"
    by (auto simp: chained_Cons entry_fits_def)
  have "last_time (acceptedAtMs a) es = last_time t (e # es)" using decoded_time [OF a] by (simp add: last_time_def)
  with Cons.IH [OF c] t decoded_time [OF a] show ?case by auto
qed (simp add: last_time_def)

lemma walk_chained:
  assumes "chained env p g i prev t es" "importedSequence p = 0" "\<forall>e \<in> set es. entry_time e \<le> created_at r * 1000 + 999"
    "cursor_previousId cur = prev" "cursor_time cur = t"
  shows "\<exists>cur'. walk_entries env p g r i cur es = Inr cur'
    \<and> cursor_quantity cur' = cursor_quantity cur + sum_list (map entry_quantity es)
    \<and> cursor_previousId cur' = last_id prev es \<and> cursor_importedId cur' = cursor_importedId cur
    \<and> cursor_importedQuantity cur' = cursor_importedQuantity cur"
  using assms
proof (induction es arbitrary: i prev t cur)
  case Nil
  then show ?case by (simp add: last_id_def)
next
  case (Cons e es)
  from Cons.prems(1) obtain a where a: "parseEventMarketStockAuthorityRumor env (entry_rumor e) = Inr (Accepted a)"
    and f: "entry_fits p g i prev t e a" and c: "chained env p g (Suc i) (rumor_id (entry_rumor e)) (acceptedAtMs a) es"
    by (auto simp: chained_Cons)
  have "close_entry_ok p g r i cur e a"
    using f Cons.prems(3-5) decoded_time [OF a] by (simp add: entry_fits_def close_entry_ok_def)
  moreover have s: "\<not> entry_sequence e \<le> importedSequence p" "accepted_quantity a = entry_quantity e"
    using f Cons.prems(2) by (simp_all add: entry_fits_def)
  let ?cur = "\<lparr>cursor_previousId = rumor_id (entry_rumor e), cursor_quantity = cursor_quantity cur + accepted_quantity a,
            cursor_time = acceptedAtMs a, cursor_importedId = cursor_importedId cur,
            cursor_importedQuantity = cursor_importedQuantity cur\<rparr>"
  have step: "walk_entries env p g r i cur (e # es) = walk_entries env p g r (Suc i) ?cur es"
    using calculation s(1) by (simp add: a)
  have "last_id (rumor_id (entry_rumor e)) es = last_id prev (e # es)" by (simp add: last_id_def)
  with Cons.IH [OF c Cons.prems(2), of ?cur] Cons.prems(3) show ?case unfolding step by (simp add: s(2)) (metis add.assoc)
qed

text \<open>The head of the chain is the same entry in a later journal.\<close>

lemma later_last_time:
  assumes "rows_keyed db" "journal_pool env db p" "rows_keyed db2" "journal_pool env db2 q" "entries_kept db db2"
    and q: "pool_accountPubkey q = pool_accountPubkey p" "acceptedSequence q = acceptedSequence p" "lastAcceptedId q = lastAcceptedId p"
  shows "last_time t (ordered_entries db2 q) = last_time t (ordered_entries db p)"
proof -
  have len: "int (length (ordered_entries db p)) = acceptedSequence p" "int (length (ordered_entries db2 q)) = acceptedSequence p"
    using assms(2,4) q(2) by (auto elim!: journal_poolD)
  show ?thesis
  proof (cases "ordered_entries db p = []")
    case True
    then show ?thesis using len by (simp add: last_time_def)
  next
    case False
    then have ne: "ordered_entries db2 q \<noteq> []" using len by auto
    note h = head_row [OF assms(1,2) False] head_row [OF assms(3,4) ne]
    from assms(5) h(1) obtain f where "table_get (eventMarketOrganizerStockEntries db2) (entryKey (pool_accountPubkey p) (lastAcceptedId p)) = Some f"
      "entry_kept (last (ordered_entries db p)) f" unfolding entries_kept_def by blast
    then have "entry_kept (last (ordered_entries db p)) (last (ordered_entries db2 q))" using h(2) q by simp
    then have "entry_time (last (ordered_entries db2 q)) = entry_time (last (ordered_entries db p))"
      by (simp add: entry_time_def entry_kept_rumor)
    then show ?thesis using False ne by (simp add: last_time_def)
  qed
qed

text \<open>The grant under which a next pool of the same assignment is installed.\<close>

definition same_assignment :: "EventMarketStockGrant \<Rightarrow> EventMarketStockGrant \<Rightarrow> bool" where
  "same_assignment grant next \<longleftrightarrow>
     organizerPubkey grant = organizerPubkey next \<and> merchantPubkey grant = merchantPubkey next \<and> writerId grant = writerId next
     \<and> marketCoordinate grant = marketCoordinate next \<and> occurrenceCoordinate grant = occurrenceCoordinate next
     \<and> assignmentCoordinate grant = assignmentCoordinate next \<and> productCoordinate grant = productCoordinate next"

lemma reconcile_completes:
  assumes j: "journal_pool env db q" "assertPool env q = Inr grant" and st: "pool_state q = PoolClosing" "\<not> readOnlyRecovery q"
    and organizer: "pool_accountPubkey q = pool_organizerPubkey q"
    and r: "closingRumor q = Some rumor" "parseEventMarketStockAuthorityRumor env rumor = Inr (Closed (close_payload q))"
    and imported: "importedSequence q = 0"
    and times: "last_time (created_at (grantRumor q) * 1000) (ordered_entries db q) \<le> created_at rumor * 1000 + 999"
      "created_at (grantRumor q) \<le> created_at rumor" "created_at rumor * 1000 \<le> nowMs"
    and same_grant: "same_assignment grant next"
    and projections: "filter (closes_pool grant (pool_poolId q)) (List.map_filter id as) \<noteq> []"
      "list_all (closing_assignment_ok grant (close_payload q) rumor nowMs)
         (filter (closes_pool grant (pool_poolId q)) (List.map_filter id as))"
  shows "reconcileOriginalOrganizerStockClose env q (pool_entries db (pool_accountPubkey q) (pool_poolId q)) next as nowMs
    = Inr (q\<lparr>pool_state := PoolClosed, importedQuantity := acceptedQuantity q,
             importedSequence := acceptedSequence q, lastImportedId := lastAcceptedId q\<rparr>)"
proof -
  let ?es = "ordered_entries db q" and ?t = "created_at (grantRumor q) * 1000"
  let ?cur = "\<lparr>cursor_previousId = pool_poolId q, cursor_quantity = 0, cursor_time = ?t,
      cursor_importedId = pool_poolId q, cursor_importedQuantity = 0\<rparr>"
  from j(1) obtain g where "assertPool env q = Inr g" and c: "chained env q g 0 (pool_poolId q) ?t ?es"
    and sums: "int (length ?es) = acceptedSequence q" "sum_list (map entry_quantity ?es) = acceptedQuantity q"
      "last_id (pool_poolId q) ?es = lastAcceptedId q"
    by (rule journal_poolD)
  with j(2) have c: "chained env q grant 0 (pool_poolId q) ?t ?es" by simp
  have bound: "\<forall>e \<in> set ?es. entry_time e \<le> created_at rumor * 1000 + 999" using chained_times [OF c] times(1) by fastforce
  from walk_chained [OF c imported bound, of ?cur] obtain cur where
    w: "walk_entries env q grant rumor 0 ?cur ?es = Inr cur"
      "cursor_quantity cur = acceptedQuantity q" "cursor_previousId cur = lastAcceptedId q"
      "cursor_importedId cur = pool_poolId q" "cursor_importedQuantity cur = 0"
    by (auto simp: sums)
  note ap = assertPool_Inr [OF j(2)]
  have len: "int (length (pool_entries db (pool_accountPubkey q) (pool_poolId q))) = acceptedSequence q"
    using sums(1) by (simp add: ordered_entries_def)
  have zero: "importedQuantity q = 0" "lastImportedId q = pool_poolId q"
    using j(2) imported unfolding assertPool_def by (auto simp: bind_result_Inr split: if_split_asm)
  have payload: "closed_poolId (close_payload q) = pool_poolId q" "merchantPubkey (close_payload q) = pool_merchantPubkey q"
    "organizerPubkey (close_payload q) = pool_organizerPubkey q" "writerId (close_payload q) = pool_writerId q"
    "closed_sequence (close_payload q) = acceptedSequence q" "closed_acceptedQuantity (close_payload q) = acceptedQuantity q"
    "closed_lastAcceptedId (close_payload q) = lastAcceptedId q"
    by (simp_all add: close_payload_def)
  have n: "pool_accountPubkey q = organizerPubkey next" "pool_organizerPubkey q = organizerPubkey next"
    "pool_merchantPubkey q = merchantPubkey next" "pool_writerId q = writerId next"
    "marketCoordinate grant = marketCoordinate next" "occurrenceCoordinate grant = occurrenceCoordinate next"
    "assignmentCoordinate grant = assignmentCoordinate next" "productCoordinate grant = productCoordinate next"
    using same_grant organizer ap by (simp_all add: same_assignment_def)
  have sort: "js_sort (\<lambda>a b. entry_sequence a - entry_sequence b) (pool_entries db (pool_accountPubkey q) (pool_poolId q)) = ?es"
    by (simp add: ordered_entries_def)
  have p: "pool_merchantPubkey q = merchantPubkey grant" "pool_organizerPubkey q = organizerPubkey grant" "pool_writerId q = writerId grant"
    using ap by simp_all
  show ?thesis
    unfolding reconcileOriginalOrganizerStockClose_def sort j(2) bind_result_simps r option.case
      EventMarketStockAuthorityPayload.case payload Let_def
    using st n times(2,3) projections len w zero p by (simp add: if_split)
qed

text \<open>C17. A begun close can always be completed.  Whatever operations the organizer runs after beginning
  the close, as soon as the merchant's published assignments that declare the pool closed confirm the
  accepted quantity, the retained journal satisfies every check of the reconciliation and the pool is
  closed with all its accepted stock imported; the organizer is never locked out of the assignment.\<close>

theorem begun_close_can_be_completed:
  assumes r: "beginOrganizerStockClose env db account writer poolId continues now = Inr (db', rumor)"
    and j: "organizer_journal env account db"
    and row: "table_get (eventMarketOrganizerStockPools db) (poolKey account poolId) = Some p" "closingRumor p = None"
    and p: "importedSequence p = 0" "\<not> readOnlyRecovery p"
    and later: "db2 = attempts (attempt env account) db' ops"
    and q: "table_get (eventMarketOrganizerStockPools db2) (poolKey account poolId) = Some q" "pool_state q \<noteq> PoolClosed"
    and grant: "readGrant env (grantRumor p) = Inr grant" "same_assignment grant next"
    and projections: "filter (closes_pool grant poolId) (List.map_filter id as) \<noteq> []"
      "list_all (closing_assignment_ok grant (close_payload p) rumor nowMs) (filter (closes_pool grant poolId) (List.map_filter id as))"
    and time: "created_at rumor * 1000 \<le> nowMs"
  shows "reconcileOriginalOrganizerStockClose env q (pool_entries db2 account poolId) next as nowMs
    = Inr (q\<lparr>pool_state := PoolClosed, importedQuantity := acceptedQuantity p,
             importedSequence := acceptedSequence p, lastImportedId := lastAcceptedId p\<rparr>)"
proof (rule begun_close_kept [OF r j row later])
  fix q' assume "table_get (eventMarketOrganizerStockPools db2) (poolKey account poolId) = Some q'"
    and "pool_kept (p\<lparr>pool_state := PoolClosing, closingRumor := Some rumor\<rparr>) q'"
    and j2: "organizer_journal env account db2" and kept: "journal_kept db' db2"
  with q(1) have k: "pool_kept (p\<lparr>pool_state := PoolClosing, closingRumor := Some rumor\<rparr>) q" by simp
  note b = begun_close [OF r j row]
  have same: "pool_accountPubkey q = account" "pool_organizerPubkey q = account" "pool_poolId q = poolId" "grantRumor q = grantRumor p"
    "acceptedQuantity q = acceptedQuantity p" "acceptedSequence q = acceptedSequence p" "lastAcceptedId q = lastAcceptedId p"
    "closingRumor q = Some rumor" "pool_state q = PoolClosing" "importedSequence q = 0" "\<not> readOnlyRecovery q"
    "close_payload q = close_payload p"
    using k q(2) p b(2-4) by (simp_all add: pool_kept_def close_payload_def)
  have jp: "journal_pool env db p" using j row(1) b(2,3) by (intro journal_row [of env account]) (simp_all add: organizer_journal_def)
  have jq: "journal_pool env db2 q" using j2 q(1) same(1,2) by (intro journal_row [of env account]) (simp_all add: organizer_journal_def)
  then obtain g where g: "assertPool env q = Inr g" by (rule journal_poolD)
  have "readGrant env (grantRumor q) = Inr g"
    using g unfolding assertPool_def by (auto simp: bind_result_Inr split: if_split_asm)
  with grant(1) same(4) have [simp]: "g = grant" by simp
  have keyed: "rows_keyed db" "rows_keyed db2" using j j2 by (auto simp: organizer_journal_def dest: journal_keyed)
  have "entries_kept db db2" using kept by (simp add: journal_kept_def b(1) entries_kept_def put_pool_def)
  note t = later_last_time [OF keyed(1) jp keyed(2) jq this]
  have "last_time (created_at (grantRumor p) * 1000) (ordered_entries db p) \<le> now"
    using last_entry_time [OF keyed(1) jp _ b(8)] b(9) b(2) by simp
  moreover have "now \<le> created_at rumor * 1000 + 999" "created_at (grantRumor p) \<le> created_at rumor" using b(7,8) by linarith+
  ultimately have "last_time (created_at (grantRumor q) * 1000) (ordered_entries db2 q) \<le> created_at rumor * 1000 + 999"
    "created_at (grantRumor q) \<le> created_at rumor"
    using t same b(2) by simp_all
  with reconcile_completes [OF jq g same(9,11) _ same(8) _ same(10) _ _ time] b(6) grant(2) projections same
  show ?thesis by simp
qed

lemma begun_close_can_be_completed_witness:
  "reconcileOriginalOrganizerStockClose journal_env closing_pool_row (pool_entries closing_journal (key_of CHR ''b'') (padded ''1000''))
     sample_grant [Some (granted_assignment True 5000 3)] 6000000
   = Inr (closing_pool_row\<lparr>pool_state := PoolClosed, importedQuantity := 3, importedSequence := 1, lastImportedId := padded ''2000''\<rparr>)"
proof -
  have p: "closingRumor accepted_pool_row = None" "importedSequence accepted_pool_row = 0" "\<not> readOnlyRecovery accepted_pool_row"
    "pool_state closing_pool_row \<noteq> PoolClosed" "grantRumor accepted_pool_row = grant_message"
    by (simp_all add: accepted_pool_row_def closing_pool_row_def pool_fields)
  have cp: "closes_pool sample_grant (padded ''1000'') (granted_assignment True 5000 3)"
    unfolding closes_pool_def by (simp add: granted_fields grant_id)
  have t: "created_at close_message = 4000" by (simp add: close_message_def stock_rumor_of_def)
  have c: "closing_assignment_ok sample_grant (close_payload accepted_pool_row) close_message 6000000 (granted_assignment True 5000 3)"
    by (simp add: closing_assignment_ok_def granted_fields t grant_fields close_payload_def accepted_pool_row_def)
  have "reconcileOriginalOrganizerStockClose journal_env closing_pool_row (pool_entries closing_journal (key_of CHR ''b'') (padded ''1000''))
      sample_grant [Some (granted_assignment True 5000 3)] 6000000
    = Inr (closing_pool_row\<lparr>pool_state := PoolClosed, importedQuantity := acceptedQuantity accepted_pool_row,
             importedSequence := acceptedSequence accepted_pool_row, lastImportedId := lastAcceptedId accepted_pool_row\<rparr>)"
    by (rule begun_close_can_be_completed [OF stock_closed accepted_in_order rows_of_accepted(1) p(1-3) _ closing_row(1) p(4),
          where ops = "[]" and grant = sample_grant])
       (simp_all add: p(5) same_assignment_def cp c t List.map_filter_simps)
  then show ?thesis by (simp add: accepted_pool_row_def)
qed

subsection \<open>Accepted stock\<close>

definition pool_balanced :: "organizer_db \<Rightarrow> EventMarketOrganizerStockPool \<Rightarrow> bool" where
  "pool_balanced db p \<longleftrightarrow>
     (let es = pool_entries db (pool_accountPubkey p) (pool_poolId p)
      in sum_list (map entry_quantity es) = acceptedQuantity p \<and> acceptedQuantity p \<le> pool_quantity p
         \<and> int (length es) = acceptedSequence p
         \<and> distinct (map entry_orderId es) \<and> distinct (map entry_claimRef es))"

lemma sum_list_sort_key: "sum_list (map f (sort_key k xs)) = sum_list (map f xs)" for f :: "'a \<Rightarrow> int"
  by (metis mset_map mset_sort sum_mset_sum_list)

lemma distinct_rows:
  assumes "distinct (map (\<lambda>e. (entry_accountPubkey e, entry_poolId e, f e)) (table_rows t))"
  shows "distinct (map f (filter (entry_of_pool a q) (table_rows t)))"
proof -
  let ?es = "filter (entry_of_pool a q) (table_rows t)"
  have "distinct (map (\<lambda>e. (entry_accountPubkey e, entry_poolId e, f e)) ?es)" using assms by (rule distinct_map_filter)
  moreover have "map (\<lambda>e. (entry_accountPubkey e, entry_poolId e, f e)) ?es = map (Pair a \<circ> Pair q) (map f ?es)"
    by (simp add: entry_of_pool_def)
  ultimately show ?thesis by (metis distinct_map)
qed

lemma journal_pool_balanced:
  assumes "journal_pool env db p" "indexed db"
  shows "pool_balanced db p"
proof -
  let ?es = "pool_entries db (pool_accountPubkey p) (pool_poolId p)"
  from assms(1) obtain g where g: "assertPool env p = Inr g" and s: "int (length (ordered_entries db p)) = acceptedSequence p"
    "sum_list (map entry_quantity (ordered_entries db p)) = acceptedQuantity p"
    by (rule journal_poolD)
  have "acceptedQuantity p \<le> pool_quantity p" using assertPool_Inr(8,9) [OF g] by simp
  moreover have "sum_list (map entry_quantity ?es) = acceptedQuantity p" "int (length ?es) = acceptedSequence p"
    using s by (simp_all add: ordered_entries_def js_sort_key sum_list_sort_key)
  moreover have "distinct (map entry_orderId ?es)" "distinct (map entry_claimRef ?es)"
    using assms(2) by (simp_all add: indexed_def order_key_def [abs_def] claim_key_def [abs_def] pool_entries_def distinct_rows)
  ultimately show ?thesis by (simp add: pool_balanced_def Let_def)
qed

text \<open>C14. Entrusted stock is never oversold.  After any sequence of requests to the journal of an organizer,
  in any order, with any arguments and refusals, every pool of the organizer has accepted exactly the sum of its
  entries and at most the quantity the merchant granted, and no order and no claim is accepted twice from
  a pool.\<close>

theorem entrusted_stock_is_never_oversold:
  assumes "organizer_journal env account db" and "db' = attempts (attempt env account) db ops"
    and "table_get (eventMarketOrganizerStockPools db') k = Some p" "pool_accountPubkey p = account" "pool_organizerPubkey p = account"
  shows "pool_balanced db' p \<and> organizer_journal env account db'"
proof -
  have j: "organizer_journal env account db'" unfolding assms(2) by (rule journal.run_ok [OF assms(1)])
  then have "journal_pool env db' p" using assms(3-5) by (intro journal_row [of env account]) (simp_all add: organizer_journal_def)
  with j show ?thesis by (simp add: journal_pool_balanced organizer_journal_def)
qed

lemma entrusted_stock_is_never_oversold_witness:
  "pool_balanced closing_journal closing_pool_row \<and> organizer_journal journal_env (key_of CHR ''b'') closing_journal"
  by (rule entrusted_stock_is_never_oversold [OF empty_in_order sample_run [symmetric] closing_row])

subsection \<open>Repeated requests\<close>

lemma commit_matches:
  assumes r: "commitOrganizerStockAcceptance env db input continues now = Inr (db', replayed, entry)"
    and keyed: "rows_keyed db" and hex: "hashes_hex env" and bound: "entry_orderPoolBinding entry \<noteq> None"
  shows "\<exists>a. parseEventMarketStockAuthorityRumor env (entry_rumor entry) = Inr (Accepted a) \<and> prior_matches input entry a"
proof (rule commit_Inr [OF r keyed])
  fix pool :: EventMarketOrganizerStockPool and grant :: EventMarketStockGrant
  assume c: "db' = db \<and> replayed
       \<and> find (\<lambda>e. entry_orderId e = input_orderId input) (pool_entries db (input_authenticatedPubkey input) (input_poolId input)) = Some entry
       \<and> (\<exists>a. parseEventMarketStockAuthorityRumor env (entry_rumor entry) = Inr (Accepted a) \<and> prior_matches input entry a)
     \<or> find (\<lambda>e. entry_orderId e = input_orderId input) (pool_entries db (input_authenticatedPubkey input) (input_poolId input)) = None
       \<and> accept_new env db input pool grant now = Inr (db', replayed, entry)"
  show ?thesis
  proof (cases "accept_new env db input pool grant now = Inr (db', replayed, entry)")
    case True
    obtain rumor where n: "pool_state pool = PoolActive" "\<not> readOnlyRecovery pool" "now < expiresAtMs grant"
      "created_at (grantRumor pool) * 1000 \<le> now" "check_predecessor env db (input_authenticatedPubkey input) pool now = Inr ()"
      "1 \<le> input_quantity input" "input_quantity input \<le> pool_quantity pool - acceptedQuantity pool"
      and rumor: "createEventMarketStockAuthorityRumor env (Accepted (acceptance_payload input pool now)) (now div 1000) = Inr rumor"
      and e: "entry = acceptance_entry input pool rumor" "\<not> replayed" "add_entry entry db = Inr (put_entry entry db)"
      "db' = put_pool (pool\<lparr>acceptedQuantity := acceptedQuantity pool + input_quantity input,
             acceptedSequence := acceptedSequence pool + 1, lastAcceptedId := rumor_id rumor\<rparr>) (put_entry entry db)"
      by (rule accept_new_Inr [OF True])
    have "parseEventMarketStockAuthorityRumor env (entry_rumor entry) = Inr (Accepted (acceptance_payload input pool now))"
      using created_is_decoded [OF rumor hex] by (simp add: e(1) acceptance_entry_def)
    moreover have "prior_matches input entry (acceptance_payload input pool now)"
      using bound by (simp add: prior_matches_def e(1) acceptance_entry_def acceptance_payload_def split: if_split_asm)
    ultimately show ?thesis by blast
  qed (use c in blast)
qed

lemma find_order:
  assumes "indexed db" "rows_keyed db" "table_get (eventMarketOrganizerStockEntries db) k = Some e" "entry_of_pool a q e"
  shows "find (\<lambda>f. entry_orderId f = entry_orderId e) (pool_entries db a q) = Some e"
proof -
  have row: "e \<in> set (pool_entries db a q)"
    using assms(2-4) table_get_rows by (fastforce simp: pool_entries_def rows_keyed_def)
  then obtain f where f: "find (\<lambda>f. entry_orderId f = entry_orderId e) (pool_entries db a q) = Some f"
    by (cases "find (\<lambda>f. entry_orderId f = entry_orderId e) (pool_entries db a q)") (auto simp: find_None_iff)
  then have "f \<in> set (pool_entries db a q)" "entry_orderId f = entry_orderId e" by (auto simp: find_Some_iff)
  moreover have "distinct (map entry_orderId (pool_entries db a q))"
    using assms(1) by (simp add: indexed_def order_key_def [abs_def] pool_entries_def distinct_rows)
  ultimately have "f = e" using row by (metis distinct_map inj_onD)
  with f show ?thesis by simp
qed

text \<open>An accepted order line stays accepted.  Once the journal has accepted a line with its manifest, the
  same request is answered with the same entry after any later run of operations, also when the pool is
  closing, closed, expired or sold out, and it never consumes stock a second time; it is refused only when
  this browser is no longer the writer.\<close>

theorem accepted_line_is_replayed:
  assumes c: "commitOrganizerStockAcceptance env db input continues now = Inr (db', replayed, entry)"
    and j: "organizer_journal env (input_authenticatedPubkey input) db" and bound: "entry_orderPoolBinding entry \<noteq> None"
    and later: "db2 = attempts (attempt env (input_authenticatedPubkey input)) db' ops"
    and writer: "writer_pool env db2 (input_authenticatedPubkey input) (input_writerId input) (input_poolId input) = Inr w"
    and time: "requireTime then_ms = Inr ()"
  shows "commitOrganizerStockAcceptance env db2 input True then_ms = Inr (db2, True, entry)"
proof -
  let ?a = "input_authenticatedPubkey input"
  have same: "input\<lparr>input_authenticatedPubkey := ?a\<rparr> = input" by simp
  have "perform env ?a db (RequestAcceptance input) continues now = Inr db'" by (simp add: same c)
  from performed [OF this j] have j': "organizer_journal env ?a db'" by blast
  have keyed: "rows_keyed db" using j by (auto simp: organizer_journal_def dest: journal_keyed)
  note e = commit_entry [OF c keyed]
  have "journal_kept db' db2" "organizer_journal env ?a db2"
    unfolding later by (rule journal.run_kept [OF j'], rule journal.run_ok [OF j'])
  then have k: "table_get (eventMarketOrganizerStockEntries db2) (entry_id entry) = Some entry"
    and i2: "indexed db2" "rows_keyed db2"
    using e(1) entry_kept_bound [OF _ bound] by (auto simp: journal_kept_def entries_kept_def organizer_journal_def dest: journal_keyed)
  have f: "find (\<lambda>f. entry_orderId f = input_orderId input) (pool_entries db2 ?a (input_poolId input)) = Some entry"
    using find_order [OF i2 k e(2)] e(3) by simp
  have "\<exists>a. parseEventMarketStockAuthorityRumor env (entry_rumor entry) = Inr (Accepted a) \<and> prior_matches input entry a"
    using commit_matches [OF c keyed] j bound by (simp add: organizer_journal_def)
  then obtain a where a: "parseEventMarketStockAuthorityRumor env (entry_rumor entry) = Inr (Accepted a)" "prior_matches input entry a"
    by blast
  have ev: "input_evidence input \<noteq> []" "length (utf8_bytes (input_evidence input)) \<le> 65536"
    using c unfolding commitOrganizerStockAcceptance_def by (auto simp: bind_result_Inr split: if_split_asm)
  show ?thesis
    unfolding commitOrganizerStockAcceptance_def writer f option.case
    using time a ev by (simp add: requireSession_def case_prod_unfold)
qed

lemma accepted_line_is_replayed_witness:
  "commitOrganizerStockAcceptance journal_env closing_journal sample_input True 9500000 = Inr (closing_journal, True, accepted_entry)"
proof (rule accepted_line_is_replayed [OF sample_accepted])
  show "organizer_journal journal_env (input_authenticatedPubkey sample_input) installed_journal"
    using installed_in_order by (simp add: sample_input_def)
  show "closing_journal = attempts (attempt journal_env (input_authenticatedPubkey sample_input)) accepted_journal
      [(RequestClose sample_writer (padded ''1000''), True, 4000000)]"
    using stock_closed by (simp add: sample_input_def)
  show "writer_pool journal_env closing_journal (input_authenticatedPubkey sample_input) (input_writerId sample_input)
      (input_poolId sample_input) = Inr (closing_pool_row, sample_grant)"
    using closing_writer by (simp add: sample_input_def)
qed (simp_all add: bound_entry requireTime_def is_safe_def MAX_SAFE_INTEGER_def)

subsection \<open>Whole orders\<close>

lemma commit_terms:
  assumes r: "commitOrganizerStockAcceptance env db input continues now = Inr (db', replayed, entry)"
    and j: "journal_ok env (input_authenticatedPubkey input) db"
  shows "entry_claimRef entry = input_claimRef input" "entry_quantity entry = input_quantity input"
    "entry_orderPoolBinding entry = None \<or> entry_orderPoolBinding entry = input_orderPoolBinding input"
    "table_get (eventMarketOrganizerStockEntries db') k = Some f \<Longrightarrow> table_get (eventMarketOrganizerStockEntries db) k = Some f \<or> f = entry"
proof (atomize (full), rule commit_Inr [OF r journal_keyed [OF j]])
  let ?a = "input_authenticatedPubkey input"
  fix pool :: EventMarketOrganizerStockPool and grant :: EventMarketStockGrant
  assume w: "writer_pool env db ?a (input_writerId input) (input_poolId input) = Inr (pool, grant)"
    and p: "pool_accountPubkey pool = ?a" "pool_poolId pool = input_poolId input" "assertPool env pool = Inr grant"
    and c: "db' = db \<and> replayed
       \<and> find (\<lambda>e. entry_orderId e = input_orderId input) (pool_entries db ?a (input_poolId input)) = Some entry
       \<and> (\<exists>a. parseEventMarketStockAuthorityRumor env (entry_rumor entry) = Inr (Accepted a) \<and> prior_matches input entry a)
     \<or> find (\<lambda>e. entry_orderId e = input_orderId input) (pool_entries db ?a (input_poolId input)) = None
       \<and> accept_new env db input pool grant now = Inr (db', replayed, entry)"
  have jp: "journal_pool env db pool" using writer_pool_Inr(1,3,4) [OF w journal_keyed [OF j]] by (intro journal_row [OF j])
  show "(entry_claimRef entry = input_claimRef input \<and> entry_quantity entry = input_quantity input)
      \<and> (entry_orderPoolBinding entry = None \<or> entry_orderPoolBinding entry = input_orderPoolBinding input)
      \<and> (table_get (eventMarketOrganizerStockEntries db') k = Some f \<longrightarrow> table_get (eventMarketOrganizerStockEntries db) k = Some f \<or> f = entry)"
  proof (cases "accept_new env db input pool grant now = Inr (db', replayed, entry)")
    case False
    with c obtain a where "db' = db" and f: "find (\<lambda>e. entry_orderId e = input_orderId input) (pool_entries db ?a (input_poolId input)) = Some entry"
      and a: "parseEventMarketStockAuthorityRumor env (entry_rumor entry) = Inr (Accepted a)" "prior_matches input entry a" by blast
    from f have "entry \<in> set (ordered_entries db pool)" unfolding set_ordered p(1,2) by (auto simp: find_Some_iff)
    then obtain i where i: "i < length (ordered_entries db pool)" "ordered_entries db pool ! i = entry" by (auto simp: in_set_conv_nth)
    from jp obtain g where "chained env pool g 0 (pool_poolId pool) (created_at (grantRumor pool) * 1000) (ordered_entries db pool)"
      by (rule journal_poolD)
    from chained_nth [OF this i(1)] i(2) a(1) obtain q u where "entry_fits pool g (0 + i) q u entry a" by auto
    then show ?thesis using a(2) \<open>db' = db\<close> by (auto simp: entry_fits_def prior_matches_def)
  next
    case n: True
    obtain rumor where "pool_state pool = PoolActive" "\<not> readOnlyRecovery pool" "now < expiresAtMs grant"
      "created_at (grantRumor pool) * 1000 \<le> now" "check_predecessor env db ?a pool now = Inr ()"
      "1 \<le> input_quantity input" "input_quantity input \<le> pool_quantity pool - acceptedQuantity pool"
      "createEventMarketStockAuthorityRumor env (Accepted (acceptance_payload input pool now)) (now div 1000) = Inr rumor"
      and e: "entry = acceptance_entry input pool rumor" "\<not> replayed" "add_entry entry db = Inr (put_entry entry db)"
      "db' = put_pool (pool\<lparr>acceptedQuantity := acceptedQuantity pool + input_quantity input,
             acceptedSequence := acceptedSequence pool + 1, lastAcceptedId := rumor_id rumor\<rparr>) (put_entry entry db)"
      by (rule accept_new_Inr [OF n])
    have "table_get (eventMarketOrganizerStockEntries db') k = (if k = entry_id entry then Some entry else table_get (eventMarketOrganizerStockEntries db) k)"
      by (simp add: e(4) put_pool_def put_entry_def table_get_put)
    then show ?thesis by (simp add: e(1) acceptance_entry_def)
  qed
qed

definition line_accepted :: "order_input \<Rightarrow> js_string \<Rightarrow> order_line \<Rightarrow> EventMarketOrganizerStockEntry \<Rightarrow> bool" where
  "line_accepted input b l e \<longleftrightarrow>
     entry_of_pool (order_authenticatedPubkey input) (line_poolId l) e \<and> entry_orderId e = order_orderId input
     \<and> entry_claimRef e = order_claimRef input \<and> entry_quantity e = line_quantity l \<and> entry_orderPoolBinding e = Some b"

lemma bound_line_accepted:
  assumes "commitOrganizerStockAcceptance env db (line_acceptance input b l) continues now = Inr (db1, r, e)"
    "journal_ok env (order_authenticatedPubkey input) db"
  shows "line_accepted input b l (bind_entry b e)"
proof -
  have j: "journal_ok env (input_authenticatedPubkey (line_acceptance input b l)) db" using assms(2) by (simp add: line_acceptance_def)
  have k: "rows_keyed db" by (rule journal_keyed [OF assms(2)])
  show ?thesis
    using commit_entry(2,3) [OF assms(1) k] commit_terms(1-3) [OF assms(1) j]
    by (auto simp: line_accepted_def line_acceptance_def bind_entry_def entry_of_pool_def)
qed

lemma lines_accepted:
  assumes "commit_lines env db input b continues now ls = Inr (db', results)"
    and "journal_ok env (order_authenticatedPubkey input) db" and "hashes_hex env"
  shows "list_all2 (\<lambda>l x. line_accepted input b l (bind_entry b (snd x))) ls results
    \<and> (\<forall>k f. table_get (eventMarketOrganizerStockEntries db') k = Some f \<longrightarrow>
         table_get (eventMarketOrganizerStockEntries db) k = Some f \<or> f \<in> snd ` set results)"
  using assms
proof (induction ls arbitrary: db results)
  case (Cons l ls)
  from Cons.prems(1) obtain db1 r e rs where c: "commitOrganizerStockAcceptance env db (line_acceptance input b l) continues now = Inr (db1, r, e)"
    and rest: "commit_lines env db1 input b continues now ls = Inr (db', rs)" and rs: "results = (r, e) # rs"
    by (auto simp: bind_result_Inr)
  have a: "input_authenticatedPubkey (line_acceptance input b l) = order_authenticatedPubkey input" by (simp add: line_acceptance_def)
  have "journal_ok env (order_authenticatedPubkey input) db1" using commit_ok [OF c] Cons.prems(2,3) a by simp
  note ih = Cons.IH [OF rest this Cons.prems(3)]
  have "table_get (eventMarketOrganizerStockEntries db) k = Some f \<or> f = e" if "table_get (eventMarketOrganizerStockEntries db1) k = Some f" for k f
    using commit_terms(4) [OF c _ that] Cons.prems(2) a by simp
  with ih bound_line_accepted [OF c Cons.prems(2)] show ?case by (auto simp: rs)
qed simp

lemma bind_entries_rows:
  "table_get (eventMarketOrganizerStockEntries (bind_entries b rs db)) k = Some f \<Longrightarrow>
   table_get (eventMarketOrganizerStockEntries db) k = Some f \<or> (\<exists>x \<in> set rs. f = bind_entry b (snd x))"
proof (induction rs arbitrary: db)
  case (Cons x rs)
  obtain r e where x: "x = (r, e)" by (cases x)
  let ?db = "if entry_orderPoolBinding e = None then put_entry (bind_entry b e) db else db"
  have "bind_entries b (x # rs) db = bind_entries b rs ?db" by (simp add: bind_entries_def x)
  with Cons.IH [of ?db] Cons.prems
  have "table_get (eventMarketOrganizerStockEntries ?db) k = Some f \<or> (\<exists>x \<in> set rs. f = bind_entry b (snd x))" by simp
  then show ?case by (auto simp: x put_entry_def table_get_put split: if_split_asm)
qed (simp add: bind_entries_def)

lemma bind_entry_pool: "entry_poolId (bind_entry b e) = entry_poolId e"
  by (simp add: bind_entry_def)

definition order_rows :: "organizer_db \<Rightarrow> js_string \<Rightarrow> js_string \<Rightarrow> EventMarketOrganizerStockEntry list" where
  "order_rows db account orderId =
     filter (\<lambda>e. entry_accountPubkey e = account \<and> entry_orderId e = orderId) (table_rows (eventMarketOrganizerStockEntries db))"

text \<open>C25. An order is accepted whole or not at all.  When an order commits, every line has its entry, in its
  own pool, for the quantity of the line and bound to the manifest of the whole order; the journal holds no
  other entry of the order.  A request that fails on any line leaves no entry behind.\<close>

theorem order_is_accepted_whole:
  assumes r: "commitOrganizerStockOrder env db input continues now = Inr (db', replayed, entries)"
    and j: "organizer_journal env (order_authenticatedPubkey input) db"
  shows "list_all2 (line_accepted input (pool_binding (order_entries input))) (order_entries input) entries
    \<and> set (order_rows db' (order_authenticatedPubkey input) (order_orderId input)) = set entries"
proof -
  let ?b = "pool_binding (order_entries input)" and ?a = "order_authenticatedPubkey input"
  from j have ok: "journal_ok env ?a db" and hex: "hashes_hex env" and i: "indexed db" by (simp_all add: organizer_journal_def)
  note st = order_stored [OF r ok hex i]
  have keyed: "rows_keyed db'" by (rule journal_keyed [OF order_ok [OF r ok hex]])
  obtain db1 results where l: "commit_lines env db input ?b continues now (order_entries input) = Inr (db1, results)"
    and d: "db' = bind_entries ?b results db1" "entries = map (bind_entry ?b \<circ> snd) results"
    and prior: "\<forall>e \<in> set (table_rows (eventMarketOrganizerStockEntries db)).
       entry_accountPubkey e = ?a \<longrightarrow> entry_orderId e = order_orderId input \<longrightarrow> entry_poolId e \<in> set (map line_poolId (order_entries input))
       \<and> (entry_orderPoolBinding e = None \<or> entry_orderPoolBinding e = Some ?b)"
    by (rule order_facts [OF r ok hex]) blast
  note la = lines_accepted [OF l ok hex]
  have lines: "list_all2 (line_accepted input ?b) (order_entries input) entries"
    using la by (simp add: d(2) list_all2_conv_all_nth)
  have pools: "map entry_poolId entries = map line_poolId (order_entries input)"
    using lines by (auto simp: list_all2_conv_all_nth line_accepted_def entry_of_pool_def intro!: nth_equalityI)
  have accepted: "entry_accountPubkey e = ?a \<and> entry_orderId e = order_orderId input" if "e \<in> set entries" for e
    using lines that by (auto simp: list_all2_conv_all_nth in_set_conv_nth line_accepted_def entry_of_pool_def)
  have pool: "entry_poolId f \<in> set (map line_poolId (order_entries input))"
    if f: "f \<in> set (order_rows db' ?a (order_orderId input))" for f
  proof -
    from f have row: "f \<in> set (table_rows (eventMarketOrganizerStockEntries db'))" "entry_accountPubkey f = ?a" "entry_orderId f = order_orderId input"
      by (auto simp: order_rows_def)
    then obtain k where "table_get (eventMarketOrganizerStockEntries db') k = Some f" using entry_row [OF keyed] by blast
    from bind_entries_rows [OF this [unfolded d(1)]] la
    have "table_get (eventMarketOrganizerStockEntries db) k = Some f \<or> (\<exists>x \<in> set results. f = snd x \<or> f = bind_entry ?b (snd x))"
      by blast
    then have "table_get (eventMarketOrganizerStockEntries db) k = Some f \<or> (\<exists>x \<in> set results. entry_poolId f = entry_poolId (bind_entry ?b (snd x)))"
      using bind_entry_pool by metis
    then show ?thesis
    proof
      assume "table_get (eventMarketOrganizerStockEntries db) k = Some f"
      then have "f \<in> set (table_rows (eventMarketOrganizerStockEntries db))" using entry_row [OF journal_keyed [OF ok]] by blast
      then show ?thesis using prior row(2,3) by blast
    next
      assume "\<exists>x \<in> set results. entry_poolId f = entry_poolId (bind_entry ?b (snd x))"
      then have "entry_poolId f \<in> set (map entry_poolId entries)" by (auto simp: d(2))
      then show ?thesis unfolding pools .
    qed
  qed
  have "f \<in> set entries" if f: "f \<in> set (order_rows db' ?a (order_orderId input))" for f
  proof -
    from pool [OF f] obtain e where e: "e \<in> set entries" "entry_poolId e = entry_poolId f" unfolding pools [symmetric] by auto
    have rows: "e \<in> set (table_rows (eventMarketOrganizerStockEntries db'))" "f \<in> set (table_rows (eventMarketOrganizerStockEntries db'))"
      using st(2) e(1) entry_row [OF keyed] f by (auto simp: order_rows_def)
    have "order_key e = order_key f" using accepted [OF e(1)] e(2) f by (simp add: order_key_def order_rows_def)
    then have "e = f" using st(1) rows by (auto simp: indexed_def distinct_map dest: inj_onD)
    then show ?thesis using e(1) by simp
  qed
  moreover have "e \<in> set (order_rows db' ?a (order_orderId input))" if "e \<in> set entries" for e
    using st(2) that accepted [OF that] entry_row [OF keyed] by (auto simp: order_rows_def)
  ultimately show ?thesis using lines by blast
qed

lemma order_is_accepted_whole_witness:
  "list_all2 (line_accepted sample_order (pool_binding (order_entries sample_order))) (order_entries sample_order) [accepted_entry]
    \<and> set (order_rows accepted_journal (order_authenticatedPubkey sample_order) (order_orderId sample_order)) = set [accepted_entry]"
  by (rule order_is_accepted_whole [OF sample_ordered]) (use installed_in_order in \<open>simp add: sample_order_def\<close>)

subsection \<open>Messages\<close>



end
