(* ===== verification/Assignment_Claims.thy ===== *)
theory Assignment_Claims
  imports Sample_Stock
begin

text \<open>
  What holds of published assignments: the draft a merchant builds is what every reader of the signed
  event gets, a reader accepts only an authentic assignment, and competing replaceable events are
  ordered the same way by everyone.
\<close>

subsection \<open>An accepted assignment\<close>

lemma of_tuple:
  "parseTuple \<lparr>tuple_market = m, tuple_occurrence = c, tuple_product = p, assignment_coordinate = x1, assignment_dTag = x2,
       assignment_eventId = x3, assignment_createdAt = x4, assignment_organizerPubkey = x5, assignment_merchantPubkey = x6,
       assignment_state = x7, assignment_inventory = x8, assignment_fulfillmentMethods = x9, assignment_previousEventId = x10,
       assignment_relayHints = x11, assignment_stockPool = x12, assignment_signedEvent = x13\<rparr>
   = parseTuple \<lparr>tuple_market = m, tuple_occurrence = c, tuple_product = p\<rparr>"
  "tupleHash env \<lparr>tuple_market = m, tuple_occurrence = c, tuple_product = p, assignment_coordinate = x1, assignment_dTag = x2,
       assignment_eventId = x3, assignment_createdAt = x4, assignment_organizerPubkey = x5, assignment_merchantPubkey = x6,
       assignment_state = x7, assignment_inventory = x8, assignment_fulfillmentMethods = x9, assignment_previousEventId = x10,
       assignment_relayHints = x11, assignment_stockPool = x12, assignment_signedEvent = x13\<rparr>
   = tupleHash env \<lparr>tuple_market = m, tuple_occurrence = c, tuple_product = p\<rparr>"
  by (simp_all add: parseTuple_def tupleHash_def)

lemma assignment_parsed:
  assumes "parseEventMarketAssignmentEvent env e = Some a"
  obtains market occurrence product where "valid_event env e" "event_kind e = ASSIGNMENT_KIND"
    "frame_ok (event_tags e) (event_id e) env" "parseTuple a = Some (market, occurrence, product)"
    "authorPubkey product = event_pubkey e" "tupleHash env a = assignment_dTag a"
    "assignment_organizerPubkey a = authorPubkey market" "assignment_merchantPubkey a = event_pubkey e"
    "assignment_coordinate a = ''30410:'' @ event_pubkey e @ '':'' @ assignment_dTag a"
    "validFulfillment (assignment_fulfillmentMethods a) (assignment_state a) (assignment_inventory a)"
    "parse_inventory (hd (tags_named ''inventory'' (event_tags e))) = Some (assignment_inventory a)"
    "assignment_stockPool a = parseOrganizerStockPool (event_tags e) (authorPubkey market) (assignment_inventory a)"
    "assignment_state a = text_or_empty (one_at (one_tag (event_tags e) ''state'' 2) 1)" "assignment_signedEvent a = e"
proof -
  obtain m h1 c h2 p h3 where refs: "references_to (event_tags e) [''30409:''] = [(m, h1)]"
    "references_to (event_tags e) [''31922:'', ''31923:''] = [(c, h2)]" "references_to (event_tags e) [''30402:''] = [(p, h3)]"
    using assms unfolding parseEventMarketAssignmentEvent_def Let_def
    by (auto split: if_split_asm list.split_asm prod.split_asm)
  show ?thesis
    using assms unfolding parseEventMarketAssignmentEvent_def Let_def refs
    by (clarsimp split: if_split_asm option.split_asm prod.split_asm) (rule that, auto simp: of_tuple)
qed

text \<open>C28. A published assignment is read back exactly.  Every event signed by the merchant over a draft that
  \<open>buildEventMarketAssignmentDraft\<close> accepts parses, and to exactly the tuple, state, inventory, methods, previous
  event, relay hints and stock pool the draft was built from.  SHA-256 is assumed to return 32 bytes.\<close>

theorem signed_assignment_is_read_back:
  assumes "buildEventMarketAssignmentDraft env input = Inr draft"
    and "signs_draft env draft (draft_merchantPubkey input) e" and "hashes_bytes env"
    and "draft_previousEventId input \<noteq> Some (event_id e)"
    and "length (utf8_bytes (stringify (signed_event_json e))) \<le> MAX_EVENT_BYTES"
  shows "parseEventMarketAssignmentEvent env e = Some (assignment_of env input e)"
  by (rule build_parse [OF assms])

lemma signed_assignment_is_read_back_witness:
  "parseEventMarketAssignmentEvent journal_env (granted_event True 1500 10)
   = Some (assignment_of journal_env (granted_input True 10) (granted_event True 1500 10))"
  by (rule signed_assignment_is_read_back [OF granted_signed [of 1500 10]]) simp_all

definition pool_within :: "ParsedEventMarketAssignment \<Rightarrow> bool" where
  "pool_within a \<longleftrightarrow>
     (case assignment_stockPool a of
        PoolValid pool \<Rightarrow>
          assignment_inventory a \<noteq> Untracked \<and> sp_organizerPubkey pool = assignment_organizerPubkey a
          \<and> 0 \<le> sp_importedQuantity pool \<and> sp_importedQuantity pool \<le> sp_quantity pool \<and> sp_quantity pool \<le> MAX_ALLOCATION
      | _ \<Rightarrow> True)"

lemma parsed_pool_within: "parseOrganizerStockPool tags organizer inventory = PoolValid pool \<Longrightarrow> validOrganizerStockPool pool organizer inventory"
  by (auto simp: parseOrganizerStockPool_def Let_def split: list.split_asm if_split_asm)

lemma parsed_inventory_within: "parse_inventory tg = Some inventory \<Longrightarrow> validInventory inventory"
  using decimal_value_nonneg by (auto simp: parse_inventory_def validInventory_def split: if_split_asm)

lemma canonical_stock: "parseCanonicalCoordinate v kinds = Some c \<Longrightarrow> stock_coordinate v kinds (authorPubkey c)"
  by (auto simp: parseCanonicalCoordinate_def stock_coordinate_def split: option.split_asm if_split_asm)

text \<open>C24. An accepted assignment is authentic.  Whatever event is accepted carries the canonical identifier and
  a valid signature of the merchant, who is the author of the product; the market and the occurrence have
  one author, the organizer; the identifier commits to exactly this tuple; the inventory is in bounds; a
  stock pool belongs to that organizer and imports at most what it declares; and an active assignment of
  tracked stock offers pickup.\<close>

theorem accepted_assignment_is_authentic:
  assumes "parseEventMarketAssignmentEvent env e = Some a"
  shows "schnorr_ok env e \<and> computeEventId env e = toLowerCase (event_id e) \<and> assignment_merchantPubkey a = event_pubkey e
    \<and> stock_coordinate (tuple_product a) [30402] (assignment_merchantPubkey a)
    \<and> stock_coordinate (tuple_market a) [30409] (assignment_organizerPubkey a)
    \<and> stock_coordinate (tuple_occurrence a) [31922, 31923] (assignment_organizerPubkey a)
    \<and> assignment_coordinate a = ''30410:'' @ assignment_merchantPubkey a @ '':'' @ tupleHash env a
    \<and> validInventory (assignment_inventory a) \<and> pool_within a
    \<and> (assignment_state a = ''active'' \<and> (\<exists>n > 0. assignment_inventory a = Tracked n)
         \<longrightarrow> ''pickup'' \<in> set (assignment_fulfillmentMethods a))"
  using assms
proof (rule assignment_parsed)
  fix market occurrence product
  assume v: "valid_event env e" and t: "parseTuple a = Some (market, occurrence, product)" "authorPubkey product = event_pubkey e"
    and d: "tupleHash env a = assignment_dTag a" "assignment_organizerPubkey a = authorPubkey market"
      "assignment_merchantPubkey a = event_pubkey e" "assignment_coordinate a = ''30410:'' @ event_pubkey e @ '':'' @ assignment_dTag a"
    and f: "validFulfillment (assignment_fulfillmentMethods a) (assignment_state a) (assignment_inventory a)"
    and i: "parse_inventory (hd (tags_named ''inventory'' (event_tags e))) = Some (assignment_inventory a)"
    and s: "assignment_stockPool a = parseOrganizerStockPool (event_tags e) (authorPubkey market) (assignment_inventory a)"
  have "stock_coordinate (tuple_market a) [30409] (authorPubkey market)" "stock_coordinate (tuple_product a) [30402] (authorPubkey product)"
    "stock_coordinate (tuple_occurrence a) [31922, 31923] (authorPubkey market)"
    using t(1) unfolding parseTuple_def by (auto split: option.split_asm if_split_asm dest: canonical_stock)
  moreover have "pool_within a"
    using s parsed_pool_within [of "event_tags e"] d(2) by (auto simp: pool_within_def validOrganizerStockPool_def split: stock_pool_status.split)
  moreover have "assignment_state a = ''active'' \<and> (\<exists>n > 0. assignment_inventory a = Tracked n)
      \<longrightarrow> ''pickup'' \<in> set (assignment_fulfillmentMethods a)"
    using f by (auto simp: validFulfillment_def split: if_split_asm)
  ultimately show ?thesis
    using valid_event_shape [OF v] t(2) d parsed_inventory_within [OF i] by simp
qed

lemma accepted_assignment_is_authentic_witness:
  "schnorr_ok journal_env (granted_event False 1500 0) \<and> pool_within (granted_assignment False 1500 0)"
  using accepted_assignment_is_authentic [OF granted_read, of 1500 0 False] by simp

subsection \<open>Competing replaceable events\<close>

text \<open>Replaceable events have one order.  The comparison by creation time and, at the same second, by the
  smaller identifier is antisymmetric and transitive, and two events tie only when their normalized times and
  identifiers are the same, so every client keeps the same newest event in whatever order events arrive.\<close>

theorem replaceable_events_have_one_order:
  "compareReplaceableEventFrontiers d c = - compareReplaceableEventFrontiers c d
   \<and> (compareReplaceableEventFrontiers c d = 0 \<longleftrightarrow> frontier_rank c = frontier_rank d)
   \<and> (compareReplaceableEventFrontiers c d \<ge> 0 \<longrightarrow> compareReplaceableEventFrontiers d f \<ge> 0
        \<longrightarrow> compareReplaceableEventFrontiers c f \<ge> 0)"
proof (intro conjI impI)
  have asym: "\<not> rank_above a b" if "rank_above b a" for a b using that rank_above_trans rank_above_irrefl by blast
  show "compareReplaceableEventFrontiers d c = - compareReplaceableEventFrontiers c d"
    using rank_above_total [of "frontier_rank c" "frontier_rank d"] asym [of "frontier_rank c" "frontier_rank d"]
      asym [of "frontier_rank d" "frontier_rank c"] rank_above_irrefl
    by (auto simp: compare_rank)
  show "compareReplaceableEventFrontiers c d = 0 \<longleftrightarrow> frontier_rank c = frontier_rank d"
    using rank_above_irrefl by (simp add: compare_rank)
  have up: "compareReplaceableEventFrontiers x y \<ge> 0 \<longleftrightarrow> rank_above (frontier_rank x) (frontier_rank y) \<or> frontier_rank x = frontier_rank y"
    for x y by (simp add: compare_rank)
  show "compareReplaceableEventFrontiers c d \<ge> 0 \<Longrightarrow> compareReplaceableEventFrontiers d f \<ge> 0
      \<Longrightarrow> compareReplaceableEventFrontiers c f \<ge> 0"
    unfolding up using rank_above_trans by metis
qed

lemma replaceable_events_have_one_order_witness:
  "compareReplaceableEventFrontiers \<lparr>frontier_createdAt = Some (JSInt 7), frontier_eventId = Some ''A''\<rparr>
     \<lparr>frontier_createdAt = Some (JSInt 5), frontier_eventId = None\<rparr> \<ge> 0"
proof -
  let ?c = "\<lparr>frontier_createdAt = Some (JSInt 7), frontier_eventId = Some ''A''\<rparr>"
  let ?d = "\<lparr>frontier_createdAt = Some (JSInt 7), frontier_eventId = Some '' b''\<rparr>"
  let ?f = "\<lparr>frontier_createdAt = Some (JSInt 5), frontier_eventId = None\<rparr>"
  have "compareReplaceableEventFrontiers ?c ?d \<ge> 0" "compareReplaceableEventFrontiers ?d ?f \<ge> 0" by code_simp+
  with replaceable_events_have_one_order [of ?d ?c ?f] show ?thesis by blast
qed

end
