(* ===== verification/Merchant_Inventory.thy ===== *)
theory Merchant_Inventory
  imports Event_Assignment
begin

text \<open>
  The merchant's stock (\<open>merchant-inventory.ts\<close>): products with tracked or untracked stock, the part of it
  assigned to event occurrences or held by an organizer, and the local edits of both.  Every operation
  runs in one transaction of the browser's database: an error leaves the tables as they were.

  \<^item> \<open>js_Number\<close> is \<open>Number(text)\<close> of the language, which the source applies to text it has not checked.
  \<^item> The stock checkpoint kept with a product is not modelled.
  \<^item> Stored quantities are integers, so the \<open>typeof\<close> and \<open>Number.isInteger\<close> tests of stored rows always hold.
\<close>

subsection \<open>Rows\<close>

record organizer_stock_hold =
  hold_poolId :: js_string
  hold_organizerPubkey :: js_string
  hold_quantity :: int
  hold_importedQuantity :: int
  hold_closed :: bool

datatype publication_state = AwaitingSignature | JobSigned | JobDelivered | JobSuperseded

record assignment_snapshot =
  snapshot_state :: js_string
  snapshot_inventory :: assignment_inventory
  snapshot_fulfillmentMethods :: "js_string list"
  snapshot_organizerStockHold :: "organizer_stock_hold option"

record MerchantInventoryPublicationJob =
  job_id :: js_string
  job_state :: publication_state
  job_revision :: int
  job_createdAt :: int
  job_productStock :: "int option"
  job_assignmentSnapshot :: "assignment_snapshot option"
  job_draft :: "js_string UnsignedNostrEvent option"
  job_signedEvent :: "SignedPublicNostrEvent option"

record MerchantInventoryProduct =
  mp_coordinate :: js_string
  mp_merchantPubkey :: js_string
  mp_stock :: "int option"
  mp_revision :: int
  mp_sourceProductEvent :: SignedPublicNostrEvent
  mp_signedProductEvent :: SignedPublicNostrEvent
  mp_publicationJobs :: "MerchantInventoryPublicationJob list"

record MerchantInventoryAssignment =
  ma_coordinate :: js_string
  ma_merchantPubkey :: js_string
  ma_productCoordinate :: js_string
  ma_marketCoordinate :: js_string
  ma_occurrenceCoordinate :: js_string
  ma_inventory :: assignment_inventory
  ma_state :: js_string
  ma_fulfillmentMethods :: "js_string list"
  ma_occurrenceEndMs :: int
  ma_terminal :: bool
  ma_organizerStockHold :: "organizer_stock_hold option"
  ma_revision :: int
  ma_signedAssignmentEvent :: "SignedPublicNostrEvent option"
  ma_publicationJobs :: "MerchantInventoryPublicationJob list"

record accepted_item =
  ai_productCoordinate :: js_string
  ai_assignmentCoordinate :: "js_string option"
  ai_method :: js_string
  ai_quantity :: int
  ai_remainingStock :: "int option"
  ai_remainingAllocation :: "int option"

record MerchantInventoryAcceptedOrder =
  ao_orderId :: js_string
  ao_merchantPubkey :: js_string
  ao_identityBinding :: js_string
  ao_termsBinding :: js_string
  ao_evidence :: js_string
  ao_evidenceFormat :: "js_string option"
  ao_evidenceBinding :: "js_string option"
  ao_items :: "accepted_item list"
  ao_acceptedAt :: int

text \<open>What the acceptance reads of a checkpoint of the earlier stock owner.\<close>

record LocalProductStockCheckpoint =
  cp_merchantPubkey :: js_string
  cp_orderId :: js_string
  cp_productAddressId :: js_string
  cp_quantity :: int
  cp_shortfall :: int
  cp_custom :: bool

record roster_evidence_row =
  evidence_marketCoordinate :: js_string
  evidence_signedEvent :: SignedPublicNostrEvent

record merchant_db =
  merchantInventoryProducts :: "MerchantInventoryProduct table"
  merchantInventoryAssignments :: "MerchantInventoryAssignment table"
  merchantInventoryAcceptedOrders :: "MerchantInventoryAcceptedOrder table"
  localProductStockCheckpoints :: "LocalProductStockCheckpoint table"
  eventMarketRosterEvidence :: "roster_evidence_row table"

record inventory_ports = event_ports +
  js_Number :: "js_string \<Rightarrow> js_number"
  verifySignedEventBatches :: "SignedPublicNostrEvent list \<Rightarrow> SignedPublicNostrEvent list"
  calendar_end :: "SignedPublicNostrEvent \<Rightarrow> int option"

subsection \<open>Loops that may throw\<close>

fun some_r :: "('a \<Rightarrow> bool result) \<Rightarrow> 'a list \<Rightarrow> bool result" where
  "some_r p [] = Inr False"
| "some_r p (x # xs) = bind_result (p x) (\<lambda>b. if b then Inr True else some_r p xs)"

fun sum_r :: "('a \<Rightarrow> int result) \<Rightarrow> 'a list \<Rightarrow> int result" where
  "sum_r f [] = Inr 0"
| "sum_r f (x # xs) = bind_result (f x) (\<lambda>n. bind_result (sum_r f xs) (\<lambda>s. Inr (n + s)))"

subsection \<open>Sources\<close>

definition requireStock :: "int \<Rightarrow> js_string \<Rightarrow> unit result" where
  "requireStock n what = (if n < 0 \<or> n > MAX_ALLOCATION then Inl (''Invalid '' @ what) else Inr ())"

record coordinate_parts =
  part_kind :: int
  part_pubkey :: js_string
  part_d :: js_string

definition coordinateParts :: "'p inventory_ports_scheme \<Rightarrow> js_string \<Rightarrow> coordinate_parts result" where
  "coordinateParts env v =
     (case indexOf v CHR '':'' of
        None \<Rightarrow> Inl ''Invalid coordinate''
      | Some first \<Rightarrow>
          (case indexOf (drop (Suc first) v) CHR '':'' of
             None \<Rightarrow> Inl ''Invalid coordinate''
           | Some second \<Rightarrow>
               if first < 1 then Inl ''Invalid coordinate''
               else let pubkey = take second (drop (Suc first) v); d = drop (Suc second) (drop (Suc first) v)
               in (case js_Number env (take first v) of
                     JSOther \<Rightarrow> Inl ''Invalid coordinate''
                   | JSInt k \<Rightarrow>
                       if \<not> is_hex64 pubkey \<or> d = [] then Inl ''Invalid coordinate''
                       else Inr \<lparr>part_kind = k, part_pubkey = pubkey, part_d = d\<rparr>)))"

definition isExactSource :: "'p inventory_ports_scheme \<Rightarrow> SignedPublicNostrEvent \<Rightarrow> js_string \<Rightarrow> bool result" where
  "isExactSource env event coordinate =
     bind_result (coordinateParts env coordinate) (\<lambda>parts.
     Inr (valid_event env event \<and> event_kind event = part_kind parts \<and> event_pubkey event = part_pubkey parts
          \<and> (case tags_named ''d'' (event_tags event) of [tg] \<Rightarrow> tag_at tg 1 = Some (part_d parts) | _ \<Rightarrow> False)))"

definition new_job :: "js_string \<Rightarrow> int \<Rightarrow> int \<Rightarrow> MerchantInventoryPublicationJob" where
  "new_job jid revision at_time =
     \<lparr>job_id = jid, job_state = AwaitingSignature, job_revision = revision, job_createdAt = at_time,
      job_productStock = None, job_assignmentSnapshot = None, job_draft = None, job_signedEvent = None\<rparr>"

definition product_mismatch :: js_string where
  "product_mismatch = ''Product source does not match the merchant coordinate''"

definition initializeMerchantInventoryProduct ::
    "'p inventory_ports_scheme \<Rightarrow> merchant_db \<Rightarrow> js_string \<Rightarrow> js_string \<Rightarrow> int option \<Rightarrow> SignedPublicNostrEvent
     \<Rightarrow> (merchant_db \<times> MerchantInventoryProduct) result" where
  "initializeMerchantInventoryProduct env db pc merchant stock event =
     bind_result (case stock of None \<Rightarrow> Inr () | Some n \<Rightarrow> requireStock n ''stock'') (\<lambda>_.
     bind_result (coordinateParts env pc) (\<lambda>parts.
     if part_kind parts \<noteq> 30402 \<or> part_pubkey parts \<noteq> merchant then Inl product_mismatch
     else bind_result (isExactSource env event pc) (\<lambda>exact.
     let stockTags = tags_named ''stock'' (event_tags event); typeTags = tags_named ''type'' (event_tags event)
     in if \<not> exact then Inl product_mismatch
     else if length stockTags > 1
       \<or> (case stock of None \<Rightarrow> stockTags \<noteq> []
          | Some n \<Rightarrow> length stockTags \<noteq> 1 \<or> length (hd stockTags) \<noteq> 2 \<or> tag_at (hd stockTags) 1 \<noteq> Some (int_text n))
     then Inl ''Committed stock must match the exact signed product''
     else if length typeTags > 1
       \<or> (length typeTags = 1 \<and> tag_at (hd typeTags) 1 \<noteq> Some ''simple'' \<and> tag_at (hd typeTags) 1 \<noteq> Some ''variation'')
     then Inl ''Only sellable products have inventory''
     else case table_get (merchantInventoryProducts db) pc of
       Some current \<Rightarrow> Inr (db, current)
     | None \<Rightarrow>
         let created = \<lparr>mp_coordinate = pc, mp_merchantPubkey = merchant, mp_stock = stock, mp_revision = 0,
                        mp_sourceProductEvent = event, mp_signedProductEvent = event, mp_publicationJobs = []\<rparr>
         in Inr (db\<lparr>merchantInventoryProducts := table_put pc created (merchantInventoryProducts db)\<rparr>, created))))"

definition getMerchantInventoryAcceptedOrder ::
    "merchant_db \<Rightarrow> js_string \<Rightarrow> js_string \<Rightarrow> MerchantInventoryAcceptedOrder option" where
  "getMerchantInventoryAcceptedOrder db merchant orderId =
     (case table_get (merchantInventoryAcceptedOrders db) orderId of
        None \<Rightarrow> None | Some order \<Rightarrow> if ao_merchantPubkey order = merchant then Some order else None)"

subsection \<open>Allocations\<close>

definition listMerchantInventoryAssignments :: "merchant_db \<Rightarrow> js_string \<Rightarrow> MerchantInventoryAssignment list" where
  "listMerchantInventoryAssignments db pc =
     filter (\<lambda>a. ma_productCoordinate a = pc) (table_rows (merchantInventoryAssignments db))"

definition hold_sound :: "organizer_stock_hold \<Rightarrow> bool" where
  "hold_sound hold \<longleftrightarrow>
     js_trim (hold_poolId hold) \<noteq> [] \<and> is_hex64 (hold_organizerPubkey hold)
     \<and> 1 \<le> hold_quantity hold \<and> hold_quantity hold \<le> MAX_ALLOCATION
     \<and> 0 \<le> hold_importedQuantity hold \<and> hold_importedQuantity hold \<le> hold_quantity hold"

definition outstandingOrganizerStockHold :: "MerchantInventoryAssignment \<Rightarrow> int result" where
  "outstandingOrganizerStockHold a =
     (case ma_organizerStockHold a of
        None \<Rightarrow> Inr 0
      | Some hold \<Rightarrow>
          if \<not> hold_sound hold then Inl ''Organizer stock hold requires reconciliation''
          else let outstanding = (if hold_closed hold then 0 else hold_quantity hold - hold_importedQuantity hold)
          in if outstanding > 0 \<and> ma_inventory a = Untracked then Inl ''Organizer stock hold requires tracked inventory''
             else Inr outstanding)"

definition live_allocation :: "MerchantInventoryAssignment \<Rightarrow> int \<Rightarrow> int" where
  "live_allocation a nowMs =
     (case ma_inventory a of
        Untracked \<Rightarrow> 0
      | Tracked n \<Rightarrow> if ma_state a = ''active'' \<and> \<not> ma_terminal a \<and> nowMs < ma_occurrenceEndMs a then n else 0)"

definition effectiveAllocation :: "MerchantInventoryAssignment \<Rightarrow> int \<Rightarrow> int result" where
  "effectiveAllocation a nowMs =
     bind_result (outstandingOrganizerStockHold a) (\<lambda>held. Inr (max (live_allocation a nowMs) held))"

definition reserved :: "MerchantInventoryAssignment list \<Rightarrow> int \<Rightarrow> int result" where
  "reserved assignments nowMs = sum_r (\<lambda>a. effectiveAllocation a nowMs) assignments"

definition commitMerchantInventoryStockEdit ::
    "merchant_db \<Rightarrow> js_string \<Rightarrow> int \<Rightarrow> int option \<Rightarrow> js_string \<Rightarrow> int \<Rightarrow> (merchant_db \<times> MerchantInventoryProduct) result" where
  "commitMerchantInventoryStockEdit db pc expectedRevision stock mutationId nowMs =
     bind_result (case stock of None \<Rightarrow> Inr () | Some n \<Rightarrow> requireStock n ''stock'') (\<lambda>_.
     if mutationId = [] \<or> \<not> is_safe nowMs then Inl ''Invalid stock edit''
     else case table_get (merchantInventoryProducts db) pc of
       None \<Rightarrow> Inl ''Product inventory is not initialized''
     | Some product \<Rightarrow>
         (case List.find (\<lambda>work. job_id work = mutationId) (mp_publicationJobs product) of
            Some prior \<Rightarrow>
              if job_productStock prior \<noteq> stock then Inl ''Stock mutation ID is bound to different stock'' else Inr (db, product)
          | None \<Rightarrow>
              if mp_revision product \<noteq> expectedRevision then Inl ''Stale product stock edit''
              else let assignments = listMerchantInventoryAssignments db pc
              in bind_result (some_r (\<lambda>a.
                   bind_result (if stock = None then outstandingOrganizerStockHold a else Inr 0) (\<lambda>held.
                   Inr (held > 0 \<or> (ma_state a = ''active'' \<and> (ma_inventory a = Untracked) \<noteq> (stock = None))))) assignments)
                   (\<lambda>mismatch.
                 if mismatch then Inl ''Tracking mode requires assignment reconciliation''
                 else bind_result (reserved assignments nowMs) (\<lambda>held.
                 if (case stock of None \<Rightarrow> False | Some n \<Rightarrow> n < held) then Inl ''Edited stock is below current allocations''
                 else let next_job = (new_job mutationId (mp_revision product + 1) nowMs)\<lparr>job_productStock := stock\<rparr>;
                          product' = product\<lparr>mp_stock := stock, mp_revision := mp_revision product + 1,
                                             mp_publicationJobs := mp_publicationJobs product @ [next_job]\<rparr>
                 in Inr (db\<lparr>merchantInventoryProducts := table_put pc product' (merchantInventoryProducts db)\<rparr>,
                         product')))))"

record inventory_availability =
  available_product :: MerchantInventoryProduct
  available_assignments :: "MerchantInventoryAssignment list"
  ordinaryAvailable :: "int option"

definition readMerchantInventoryAvailability :: "merchant_db \<Rightarrow> js_string \<Rightarrow> int \<Rightarrow> inventory_availability result" where
  "readMerchantInventoryAvailability db pc nowMs =
     (case table_get (merchantInventoryProducts db) pc of
        None \<Rightarrow> Inl ''Product inventory is not initialized''
      | Some product \<Rightarrow>
          let assignments = listMerchantInventoryAssignments db pc
          in (case mp_stock product of
                None \<Rightarrow>
                  bind_result (some_r (\<lambda>a. bind_result (outstandingOrganizerStockHold a) (\<lambda>held.
                      Inr (held > 0 \<or> (ma_inventory a \<noteq> Untracked \<and> ma_state a = ''active'')))) assignments) (\<lambda>mismatch.
                  if mismatch then Inl ''Inventory tracking mismatch''
                  else Inr \<lparr>available_product = product, available_assignments = assignments, ordinaryAvailable = None\<rparr>)
              | Some stock \<Rightarrow>
                  if list_ex (\<lambda>a. ma_inventory a = Untracked \<and> ma_state a = ''active'') assignments
                  then Inl ''Inventory tracking mismatch''
                  else bind_result (reserved assignments nowMs) (\<lambda>held.
                  if held > stock then Inl ''Committed allocations exceed stock''
                  else Inr \<lparr>available_product = product, available_assignments = assignments,
                            ordinaryAvailable = Some (stock - held)\<rparr>)))"

subsection \<open>Assignment of stock to an occurrence\<close>

record ValidatedAssignmentContext =
  context_productEventId :: js_string
  context_marketEventId :: js_string
  context_occurrenceEventId :: js_string
  context_scheduleEventId :: "js_string option"
  context_grantEventId :: js_string
  context_occurrenceEndMs :: int
  context_terminal :: bool

datatype assignment_context = ValidatedContext ValidatedAssignmentContext | RemovalContext

record assignment_input =
  in_productCoordinate :: js_string
  in_assignmentCoordinate :: js_string
  in_marketCoordinate :: js_string
  in_occurrenceCoordinate :: js_string
  in_inventory :: assignment_inventory
  in_state :: js_string
  in_fulfillmentMethods :: "js_string list"
  in_context :: assignment_context
  in_expectedRevision :: "int option"
  in_mutationId :: js_string

definition check_context :: "assignment_context \<Rightarrow> js_string \<Rightarrow> unit result" where
  "check_context ctx st =
     (case ctx of
        RemovalContext \<Rightarrow> if st \<noteq> ''removed'' then Inl ''Removal context cannot activate an assignment'' else Inr ()
      | ValidatedContext c \<Rightarrow>
          if \<not> is_safe (context_occurrenceEndMs c) \<or> context_occurrenceEndMs c \<le> 0 then Inl ''Invalid occurrence end''
          else if \<not> list_all is_hex64 (filter (\<lambda>v. v \<noteq> [])
                 ([context_productEventId c, context_marketEventId c, context_occurrenceEventId c, context_grantEventId c]
                  @ (case context_scheduleEventId c of None \<Rightarrow> [] | Some v \<Rightarrow> [v])))
          then Inl ''Invalid assignment evidence'' else Inr ())"

definition check_terms :: "assignment_inventory \<Rightarrow> js_string \<Rightarrow> js_string list \<Rightarrow> unit result" where
  "check_terms inventory st methods =
     bind_result (case inventory of Untracked \<Rightarrow> Inr () | Tracked n \<Rightarrow> requireStock n ''allocation'') (\<lambda>_.
     if st = ''removed'' \<and> (methods \<noteq> [] \<or> (case inventory of Untracked \<Rightarrow> False | Tracked n \<Rightarrow> n \<noteq> 0))
     then Inl ''Removed assignment must release its unused allocation''
     else if st = ''active'' \<and> methods = [] then Inl ''Active assignment requires fulfillment''
     else if \<not> distinct methods \<or> list_ex (\<lambda>m. m \<noteq> ''pickup'' \<and> m \<noteq> ''shipping'' \<and> m \<noteq> ''digital'') methods
     then Inl ''Invalid fulfillment methods''
     else if st = ''active'' \<and> (case inventory of Untracked \<Rightarrow> False | Tracked n \<Rightarrow> n > 0) \<and> ''pickup'' \<notin> set methods
     then Inl ''Positive allocation requires pickup'' else Inr ())"

definition check_tuple :: "'p inventory_ports_scheme \<Rightarrow> assignment_input \<Rightarrow> unit result" where
  "check_tuple env inp =
     bind_result (coordinateParts env (in_productCoordinate inp)) (\<lambda>product.
     bind_result (coordinateParts env (in_assignmentCoordinate inp)) (\<lambda>assignment.
     if part_kind product \<noteq> 30402 \<or> part_kind assignment \<noteq> 30410 \<or> part_pubkey product \<noteq> part_pubkey assignment
     then Inl ''Assignment tuple mismatch''
     else bind_result (computeEventMarketAssignmentDTag env
         \<lparr>tuple_market = in_marketCoordinate inp, tuple_occurrence = in_occurrenceCoordinate inp,
          tuple_product = in_productCoordinate inp\<rparr>) (\<lambda>d.
     if part_d assignment \<noteq> d then Inl ''Assignment tuple mismatch'' else Inr ())))"

definition same_snapshot :: "assignment_snapshot option \<Rightarrow> assignment_input \<Rightarrow> bool" where
  "same_snapshot snapshot inp \<longleftrightarrow>
     (case snapshot of
        None \<Rightarrow> False
      | Some x \<Rightarrow> snapshot_state x = in_state inp \<and> snapshot_inventory x = in_inventory inp
          \<and> snapshot_fulfillmentMethods x = in_fulfillmentMethods inp)"

text \<open>The row that is written, and the end and terminal flag of the occurrence.\<close>

definition occurrence_of :: "assignment_context \<Rightarrow> MerchantInventoryAssignment option \<Rightarrow> int \<times> bool" where
  "occurrence_of ctx existing =
     (case ctx of
        RemovalContext \<Rightarrow> (case existing of None \<Rightarrow> (0, False) | Some a \<Rightarrow> (ma_occurrenceEndMs a, ma_terminal a))
      | ValidatedContext c \<Rightarrow>
          (context_occurrenceEndMs c, context_terminal c \<or> (case existing of None \<Rightarrow> False | Some a \<Rightarrow> ma_terminal a)))"

definition committed_assignment ::
    "MerchantInventoryProduct \<Rightarrow> assignment_input \<Rightarrow> MerchantInventoryAssignment option \<Rightarrow> int \<Rightarrow> MerchantInventoryAssignment" where
  "committed_assignment product inp existing nowMs =
     (let revision = (case existing of None \<Rightarrow> 0 | Some a \<Rightarrow> ma_revision a) + 1;
          held = (case existing of None \<Rightarrow> None | Some a \<Rightarrow> ma_organizerStockHold a);
          next_job = (new_job (in_mutationId inp) revision nowMs)\<lparr>job_assignmentSnapshot := Some
            \<lparr>snapshot_state = in_state inp, snapshot_inventory = in_inventory inp,
             snapshot_fulfillmentMethods = in_fulfillmentMethods inp, snapshot_organizerStockHold = held\<rparr>\<rparr>
      in \<lparr>ma_coordinate = in_assignmentCoordinate inp, ma_merchantPubkey = mp_merchantPubkey product,
          ma_productCoordinate = in_productCoordinate inp, ma_marketCoordinate = in_marketCoordinate inp,
          ma_occurrenceCoordinate = in_occurrenceCoordinate inp, ma_inventory = in_inventory inp, ma_state = in_state inp,
          ma_fulfillmentMethods = in_fulfillmentMethods inp, ma_occurrenceEndMs = fst (occurrence_of (in_context inp) existing),
          ma_terminal = snd (occurrence_of (in_context inp) existing), ma_organizerStockHold = held, ma_revision = revision,
          ma_signedAssignmentEvent = (case existing of None \<Rightarrow> None | Some a \<Rightarrow> ma_signedAssignmentEvent a),
          ma_publicationJobs = (case existing of None \<Rightarrow> [] | Some a \<Rightarrow> ma_publicationJobs a) @ [next_job]\<rparr>)"

definition commitMerchantInventoryAssignment ::
    "'p inventory_ports_scheme \<Rightarrow> merchant_db \<Rightarrow> assignment_input \<Rightarrow> int \<Rightarrow> (merchant_db \<times> MerchantInventoryAssignment) result" where
  "commitMerchantInventoryAssignment env db inp nowMs =
     (if in_mutationId inp = [] \<or> \<not> is_safe nowMs then Inl ''Invalid assignment context''
      else bind_result (check_context (in_context inp) (in_state inp)) (\<lambda>_.
      bind_result (check_tuple env inp) (\<lambda>_.
      bind_result (check_terms (in_inventory inp) (in_state inp) (in_fulfillmentMethods inp)) (\<lambda>_.
      case table_get (merchantInventoryProducts db) (in_productCoordinate inp) of
        None \<Rightarrow> Inl ''Product inventory is not initialized''
      | Some product \<Rightarrow>
          if (mp_stock product = None) \<noteq> (in_inventory inp = Untracked) then Inl ''Inventory tracking mismatch''
          else let existing = table_get (merchantInventoryAssignments db) (in_assignmentCoordinate inp)
          in bind_result (case existing of None \<Rightarrow> Inr 0 | Some a \<Rightarrow> outstandingOrganizerStockHold a) (\<lambda>organizerHold.
             if organizerHold > 0 \<and> in_inventory inp = Untracked then Inl ''Organizer stock hold requires tracked inventory''
             else case List.find (\<lambda>j. job_id j = in_mutationId inp) (case existing of None \<Rightarrow> [] | Some a \<Rightarrow> ma_publicationJobs a) of
               Some prior \<Rightarrow>
                 if \<not> same_snapshot (job_assignmentSnapshot prior) inp
                 then Inl ''Assignment mutation ID is bound to different terms''
                 else Inr (db, the existing)
             | None \<Rightarrow>
                 if in_context inp = RemovalContext \<and> existing = None then Inl ''No committed assignment to remove''
                 else if map_option ma_revision existing \<noteq> in_expectedRevision inp then Inl ''Stale assignment revision''
                 else if (case existing of None \<Rightarrow> False
                          | Some a \<Rightarrow> ma_productCoordinate a \<noteq> in_productCoordinate inp
                              \<or> ma_marketCoordinate a \<noteq> in_marketCoordinate inp
                              \<or> ma_occurrenceCoordinate a \<noteq> in_occurrenceCoordinate inp)
                 then Inl ''Assignment tuple changed''
                 else if in_state inp = ''active''
                         \<and> (snd (occurrence_of (in_context inp) existing) \<or> nowMs \<ge> fst (occurrence_of (in_context inp) existing))
                 then Inl ''Occurrence is no longer eligible''
                 else bind_result (reserved (filter (\<lambda>a. ma_coordinate a \<noteq> in_assignmentCoordinate inp)
                        (listMerchantInventoryAssignments db (in_productCoordinate inp))) nowMs) (\<lambda>reservedElsewhere.
                 let assignment = committed_assignment product inp existing nowMs
                 in if (case mp_stock product of None \<Rightarrow> False
                        | Some stock \<Rightarrow> reservedElsewhere + max (live_allocation assignment nowMs) organizerHold > stock)
                 then Inl ''Insufficient ordinary stock for allocation''
                 else Inr (db\<lparr>merchantInventoryAssignments :=
                          table_put (in_assignmentCoordinate inp) assignment (merchantInventoryAssignments db)\<rparr>, assignment)))))))"

subsection \<open>The known lifecycle of an occurrence\<close>

text \<open>\<open>merchant-occurrence-lifecycle.ts\<close>: retained evidence of the calendar cancels an occurrence or moves its end.
  The batch verification of retained events and the end of a parsed calendar event are ports; events that
  leave the verification carry its brand, so the deletion rules read every kind-5 event among them.\<close>

definition event_scheduled :: "js_string list list \<Rightarrow> js_string list list" where
  "event_scheduled tags = tags_named ''event_occurrence'' tags"

definition isOccurrenceCancelled :: "SignedPublicNostrEvent \<Rightarrow> bool" where
  "isOccurrenceCancelled event \<longleftrightarrow>
     length (event_scheduled (event_tags event)) > 1
     \<or> list_ex (\<lambda>t. length t \<noteq> 3 \<or> tag_at t 1 \<noteq> Some ''1'' \<or> tag_at t 2 \<noteq> Some ''scheduled'') (event_scheduled (event_tags event))"

text \<open>The first \<open>d\<close> tag; the text of an absent one is \<open>undefined\<close>.\<close>

definition first_d :: "SignedPublicNostrEvent \<Rightarrow> js_string option" where
  "first_d event = (case tags_named ''d'' (event_tags event) of [] \<Rightarrow> None | t # _ \<Rightarrow> tag_at t 1)"

definition event_address :: "SignedPublicNostrEvent \<Rightarrow> js_string" where
  "event_address event =
     int_text (event_kind event) @ '':'' @ event_pubkey event @ '':''
     @ (case first_d event of None \<Rightarrow> ''undefined'' | Some d \<Rightarrow> d)"

definition event_frontier :: "SignedPublicNostrEvent \<Rightarrow> ReplaceableEventFrontier" where
  "event_frontier event = \<lparr>frontier_createdAt = Some (JSInt (created_at event)), frontier_eventId = Some (event_id event)\<rparr>"

definition newestAddressableEvidence ::
    "'p event_ports_scheme \<Rightarrow> SignedPublicNostrEvent list \<Rightarrow> js_string \<Rightarrow> SignedPublicNostrEvent option" where
  "newestAddressableEvidence env events coordinate =
     (case js_sort (\<lambda>a b. - compareReplaceableEventFrontiers (event_frontier a) (event_frontier b))
             (filter (\<lambda>e. event_address e = coordinate \<and> valid_event env e) events) of
        [] \<Rightarrow> None | e # _ \<Rightarrow> Some e)"

definition EVENT_MARKET_ADDRESSABLE_KINDS :: "nat list" where
  "EVENT_MARKET_ADDRESSABLE_KINDS = [30402, 30405, 30406, 30409, 31922, 31923, 31924]"

text \<open>A deletion event names the exact revision, or its address and is not older.\<close>

definition deletion_covers :: "AddressableEventCoordinate \<Rightarrow> js_string \<Rightarrow> int \<Rightarrow> SignedPublicNostrEvent \<Rightarrow> bool" where
  "deletion_covers coordinate eventId createdAt deletion \<longleftrightarrow>
     toLowerCase (event_pubkey deletion) = authorPubkey coordinate
     \<and> (list_ex (\<lambda>t. case tag_at t 1 of None \<Rightarrow> False | Some v \<Rightarrow> is_hex64_i v \<and> toLowerCase v = toLowerCase eventId)
           (tags_named ''e'' (event_tags deletion))
        \<or> (list_ex (\<lambda>t. case parseAddressableCoordinate (text_or_empty (tag_at t 1)) [30000..<40000] of
              None \<Rightarrow> False | Some target \<Rightarrow> coordinate_text target = coordinate_text coordinate)
              (tags_named ''a'' (event_tags deletion))
           \<and> created_at deletion \<ge> createdAt))"

definition isEventMarketAddressableRevisionDeleted :: "js_string \<Rightarrow> js_string \<Rightarrow> int \<Rightarrow> SignedPublicNostrEvent list \<Rightarrow> bool" where
  "isEventMarketAddressableRevisionDeleted address eventId createdAt events =
     (case parseAddressableCoordinate address EVENT_MARKET_ADDRESSABLE_KINDS of
        None \<Rightarrow> False
      | Some coordinate \<Rightarrow>
          is_hex64_i eventId
          \<and> list_ex (deletion_covers coordinate eventId createdAt) (filter (\<lambda>e. event_kind e = 5) events))"

definition cancels_occurrence :: "SignedPublicNostrEvent \<Rightarrow> SignedPublicNostrEvent \<Rightarrow> bool" where
  "cancels_occurrence occurrence event \<longleftrightarrow>
     event_kind event = event_kind occurrence \<and> event_pubkey event = event_pubkey occurrence
     \<and> list_ex (\<lambda>t. tag_at t 1 = first_d occurrence) (tags_named ''d'' (event_tags event))
     \<and> length (event_scheduled (event_tags event)) = 1
     \<and> list_ex (\<lambda>t. length t = 3 \<and> tag_at t 1 = Some ''1'' \<and> tag_at t 2 = Some ''cancelled'') (event_scheduled (event_tags event))"

definition market_evidence :: "'p inventory_ports_scheme \<Rightarrow> merchant_db \<Rightarrow> js_string \<Rightarrow> SignedPublicNostrEvent list" where
  "market_evidence env db market =
     verifySignedEventBatches env (map evidence_signedEvent
       (filter (\<lambda>row. evidence_marketCoordinate row = market) (table_rows (eventMarketRosterEvidence db))))"

definition reconciled_assignment ::
    "'p inventory_ports_scheme \<Rightarrow> merchant_db \<Rightarrow> MerchantInventoryAssignment \<Rightarrow> MerchantInventoryAssignment" where
  "reconciled_assignment env db current =
     (if ma_terminal current \<or> parseCanonicalCoordinate (ma_marketCoordinate current) [30409] = None then current
      else let evidence = market_evidence env db (ma_marketCoordinate current)
      in case newestAddressableEvidence env evidence (ma_occurrenceCoordinate current) of
        None \<Rightarrow> current
      | Some occurrence \<Rightarrow>
          let cancelled = list_ex (cancels_occurrence occurrence) evidence;
              deleted = isEventMarketAddressableRevisionDeleted (ma_occurrenceCoordinate current) (event_id occurrence)
                (created_at occurrence) evidence;
              calendar = (case verifySignedEventBatches env [occurrence] of [] \<Rightarrow> None | e # _ \<Rightarrow> calendar_end env e);
              moved = (case calendar of None \<Rightarrow> False
                       | Some end_ms \<Rightarrow> \<not> isOccurrenceCancelled occurrence \<and> end_ms \<noteq> ma_occurrenceEndMs current)
          in if cancelled \<or> deleted \<or> moved
             then current\<lparr>ma_terminal := cancelled \<or> deleted,
                          ma_occurrenceEndMs := (if cancelled \<or> deleted \<or> calendar = None then ma_occurrenceEndMs current
                                                 else the calendar),
                          ma_revision := ma_revision current + 1\<rparr>
             else current)"

definition reconcile_row :: "'p inventory_ports_scheme \<Rightarrow> js_string \<Rightarrow> merchant_db \<Rightarrow> merchant_db" where
  "reconcile_row env coordinate db =
     (case table_get (merchantInventoryAssignments db) coordinate of
        None \<Rightarrow> db
      | Some current \<Rightarrow> db\<lparr>merchantInventoryAssignments :=
          table_put coordinate (reconciled_assignment env db current) (merchantInventoryAssignments db)\<rparr>)"

definition reconcileKnownOccurrenceLifecycle ::
    "'p inventory_ports_scheme \<Rightarrow> js_string \<Rightarrow> js_string option \<Rightarrow> merchant_db \<Rightarrow> merchant_db" where
  "reconcileKnownOccurrenceLifecycle env merchant pc db =
     fold (\<lambda>a. reconcile_row env (ma_coordinate a))
       (filter (\<lambda>a. (case pc of None \<Rightarrow> True
                     | Some v \<Rightarrow> if v = [] then ma_merchantPubkey a = [] else ma_productCoordinate a = v)
                   \<and> ma_merchantPubkey a = merchant)
          (table_rows (merchantInventoryAssignments db))) db"

end
