(* ===== verification/Merchant_Publication.thy ===== *)
theory Merchant_Publication
  imports Merchant_Inventory Guarded_Runs
begin

text \<open>
  The queue of public revisions of the merchant's inventory (\<open>merchant-inventory.ts\<close>): drafts that are
  stored before a signer sees them, the first signature of each, its delivery, and the loop that signs the
  queue of one address.

  \<^item> The order of event identifiers (\<open>localeCompare\<close>) is a port; the signer is an argument that may refuse.
  \<^item> \<open>JSON.stringify\<close> of two objects with the same keys in the same order is the same text exactly when their
    fields are, so the comparison of a signed event with its draft is equality of the fields.
\<close>

subsection \<open>Records\<close>

record publication_ports = inventory_ports +
  localeCompare :: "js_string \<Rightarrow> js_string \<Rightarrow> int"

type_synonym draft = "js_string UnsignedNostrEvent"

datatype publication_kind = ProductPublication | AssignmentPublication

datatype publication_record =
  ProductRecord MerchantInventoryProduct
| AssignmentRecord MerchantInventoryAssignment

definition get_record :: "merchant_db \<Rightarrow> publication_kind \<Rightarrow> js_string \<Rightarrow> publication_record option" where
  "get_record db kind coordinate =
     (case kind of
        ProductPublication \<Rightarrow> map_option ProductRecord (table_get (merchantInventoryProducts db) coordinate)
      | AssignmentPublication \<Rightarrow> map_option AssignmentRecord (table_get (merchantInventoryAssignments db) coordinate))"

fun put_record :: "publication_record \<Rightarrow> merchant_db \<Rightarrow> merchant_db" where
  "put_record (ProductRecord p) db =
     db\<lparr>merchantInventoryProducts := table_put (mp_coordinate p) p (merchantInventoryProducts db)\<rparr>"
| "put_record (AssignmentRecord a) db =
     db\<lparr>merchantInventoryAssignments := table_put (ma_coordinate a) a (merchantInventoryAssignments db)\<rparr>"

fun publication_jobs :: "publication_record \<Rightarrow> MerchantInventoryPublicationJob list" where
  "publication_jobs (ProductRecord p) = mp_publicationJobs p"
| "publication_jobs (AssignmentRecord a) = ma_publicationJobs a"

fun with_jobs :: "MerchantInventoryPublicationJob list \<Rightarrow> publication_record \<Rightarrow> publication_record" where
  "with_jobs jobs (ProductRecord p) = ProductRecord (p\<lparr>mp_publicationJobs := jobs\<rparr>)"
| "with_jobs jobs (AssignmentRecord a) = AssignmentRecord (a\<lparr>ma_publicationJobs := jobs\<rparr>)"

fun newest_signed :: "publication_record \<Rightarrow> SignedPublicNostrEvent option" where
  "newest_signed (ProductRecord p) = Some (mp_signedProductEvent p)"
| "newest_signed (AssignmentRecord a) = ma_signedAssignmentEvent a"

fun with_signed :: "SignedPublicNostrEvent \<Rightarrow> publication_record \<Rightarrow> publication_record" where
  "with_signed e (ProductRecord p) = ProductRecord (p\<lparr>mp_signedProductEvent := e\<rparr>)"
| "with_signed e (AssignmentRecord a) = AssignmentRecord (a\<lparr>ma_signedAssignmentEvent := Some e\<rparr>)"

text \<open>A job that \<open>find\<close> returned is changed in place.\<close>

fun update_first :: "('a \<Rightarrow> bool) \<Rightarrow> ('a \<Rightarrow> 'a) \<Rightarrow> 'a list \<Rightarrow> 'a list" where
  "update_first p f [] = []"
| "update_first p f (x # xs) = (if p x then f x # xs else x # update_first p f xs)"

subsection \<open>Drafts\<close>

definition makeProductDraft :: "MerchantInventoryProduct \<Rightarrow> MerchantInventoryPublicationJob \<Rightarrow> SignedPublicNostrEvent \<Rightarrow> draft" where
  "makeProductDraft product work predecessor =
     \<lparr>event_kind = 30402, event_pubkey = mp_merchantPubkey product,
      created_at = max (job_createdAt work div 1000) (created_at predecessor + 1),
      event_tags = filter (\<lambda>t. tag_at t 0 \<noteq> Some ''stock'') (event_tags predecessor)
        @ (case job_productStock work of None \<Rightarrow> [] | Some n \<Rightarrow> [[''stock'', int_text n]]),
      event_content = event_content predecessor\<rparr>"

definition declared_hold :: "organizer_stock_hold \<Rightarrow> EventMarketAssignmentOrganizerStockPool" where
  "declared_hold hold =
     \<lparr>sp_state = (if hold_closed hold then ''closed'' else ''active''), sp_poolId = hold_poolId hold,
      sp_organizerPubkey = hold_organizerPubkey hold, sp_quantity = hold_quantity hold,
      sp_importedQuantity = hold_importedQuantity hold\<rparr>"

definition draft_input ::
    "MerchantInventoryAssignment \<Rightarrow> assignment_snapshot \<Rightarrow> SignedPublicNostrEvent option \<Rightarrow> EventMarketAssignmentDraftInput" where
  "draft_input a snapshot predecessor =
     \<lparr>tuple_market = ma_marketCoordinate a, tuple_occurrence = ma_occurrenceCoordinate a, tuple_product = ma_productCoordinate a,
      draft_merchantPubkey = ma_merchantPubkey a, draft_state = snapshot_state snapshot,
      draft_inventory = snapshot_inventory snapshot, draft_fulfillmentMethods = snapshot_fulfillmentMethods snapshot,
      draft_previousEventId = map_option event_id predecessor,
      draft_relayHints = \<lparr>hint_market = None, hint_occurrence = None, hint_product = None\<rparr>,
      draft_organizerStockPool = map_option declared_hold (snapshot_organizerStockHold snapshot)\<rparr>"

definition makeAssignmentDraft ::
    "'p event_ports_scheme \<Rightarrow> MerchantInventoryAssignment \<Rightarrow> MerchantInventoryPublicationJob \<Rightarrow> SignedPublicNostrEvent option
     \<Rightarrow> draft result" where
  "makeAssignmentDraft env a work predecessor =
     (case job_assignmentSnapshot work of
        None \<Rightarrow> Inl ''Missing assignment publication snapshot''
      | Some snapshot \<Rightarrow>
          bind_result (buildEventMarketAssignmentDraft env (draft_input a snapshot predecessor)) (\<lambda>d.
          Inr \<lparr>event_kind = draft_kind d, event_pubkey = ma_merchantPubkey a,
               created_at = max (job_createdAt work div 1000) ((case predecessor of None \<Rightarrow> -1 | Some e \<Rightarrow> created_at e) + 1),
               event_tags = draft_tags d, event_content = draft_content d\<rparr>))"

fun make_draft ::
    "'p event_ports_scheme \<Rightarrow> publication_record \<Rightarrow> MerchantInventoryPublicationJob \<Rightarrow> SignedPublicNostrEvent option \<Rightarrow> draft result" where
  "make_draft env (ProductRecord p) work predecessor =
     (case predecessor of None \<Rightarrow> Inl ''TypeError'' | Some e \<Rightarrow> Inr (makeProductDraft p work e))"
| "make_draft env (AssignmentRecord a) work predecessor = makeAssignmentDraft env a work predecessor"

subsection \<open>The queue\<close>

definition is_pending :: "MerchantInventoryPublicationJob \<Rightarrow> bool" where
  "is_pending work \<longleftrightarrow> job_state work = AwaitingSignature"

definition newest_first :: "'p publication_ports_scheme \<Rightarrow> SignedPublicNostrEvent \<Rightarrow> SignedPublicNostrEvent \<Rightarrow> int" where
  "newest_first env a b =
     (let later = created_at b - created_at a in if later \<noteq> 0 then later else localeCompare env (event_id a) (event_id b))"

definition previous_jobs :: "publication_record \<Rightarrow> MerchantInventoryPublicationJob \<Rightarrow> MerchantInventoryPublicationJob list" where
  "previous_jobs r pending = filter (\<lambda>j. job_revision j < job_revision pending) (publication_jobs r)"

definition newest_predecessor ::
    "'p publication_ports_scheme \<Rightarrow> publication_record \<Rightarrow> MerchantInventoryPublicationJob \<Rightarrow> SignedPublicNostrEvent option" where
  "newest_predecessor env r pending =
     (case js_sort (newest_first env)
         (List.map_filter job_signedEvent (previous_jobs r pending) @ (case newest_signed r of None \<Rightarrow> [] | Some e \<Rightarrow> [e])) of
        [] \<Rightarrow> None | e # _ \<Rightarrow> Some e)"

definition prepareNextPublication ::
    "'p publication_ports_scheme \<Rightarrow> merchant_db \<Rightarrow> publication_kind \<Rightarrow> js_string
     \<Rightarrow> (merchant_db \<times> (js_string \<times> draft) option) result" where
  "prepareNextPublication env db kind coordinate =
     (case get_record db kind coordinate of
        None \<Rightarrow> Inr (db, None)
      | Some r \<Rightarrow>
          (case List.find is_pending (publication_jobs r) of
             None \<Rightarrow> Inr (db, None)
           | Some pending \<Rightarrow>
               if list_ex (\<lambda>j. job_signedEvent j = None) (previous_jobs r pending) then Inr (db, None)
               else (case job_draft pending of
                       Some d \<Rightarrow> Inr (db, Some (job_id pending, d))
                     | None \<Rightarrow>
                         bind_result (make_draft env r pending (newest_predecessor env r pending)) (\<lambda>d.
                         Inr (put_record (with_jobs (update_first is_pending (job_draft_update (\<lambda>_. Some d)) (publication_jobs r)) r) db,
                              Some (job_id pending, d))))))"

definition unsigned_part :: "SignedPublicNostrEvent \<Rightarrow> draft" where
  "unsigned_part e =
     \<lparr>event_kind = event_kind e, event_pubkey = event_pubkey e, created_at = created_at e, event_tags = event_tags e,
      event_content = event_content e\<rparr>"

definition signed_job :: "SignedPublicNostrEvent \<Rightarrow> MerchantInventoryPublicationJob \<Rightarrow> MerchantInventoryPublicationJob" where
  "signed_job e work = work\<lparr>job_signedEvent := Some e, job_state := JobSigned\<rparr>"

definition saveSignedPublication ::
    "'p event_ports_scheme \<Rightarrow> merchant_db \<Rightarrow> publication_kind \<Rightarrow> js_string \<Rightarrow> js_string \<Rightarrow> SignedPublicNostrEvent
     \<Rightarrow> (merchant_db \<times> bool) result" where
  "saveSignedPublication env db kind coordinate jobId e =
     (case get_record db kind coordinate of
        None \<Rightarrow> Inl ''Signed publication does not match retained draft''
      | Some r \<Rightarrow>
          (case List.find (\<lambda>j. job_id j = jobId) (publication_jobs r) of
             None \<Rightarrow> Inl ''Signed publication does not match retained draft''
           | Some work \<Rightarrow>
               if job_draft work = None \<or> \<not> valid_event env e \<or> Some (unsigned_part e) \<noteq> job_draft work
               then Inl ''Signed publication does not match retained draft''
               else if job_signedEvent work \<noteq> None then Inr (db, False)
               else Inr (put_record (with_signed e
                           (with_jobs (update_first (\<lambda>j. job_id j = jobId) (signed_job e) (publication_jobs r)) r)) db, True)))"

definition markDelivered ::
    "merchant_db \<Rightarrow> publication_kind \<Rightarrow> js_string \<Rightarrow> js_string \<Rightarrow> bool \<Rightarrow> merchant_db result" where
  "markDelivered db kind coordinate jobId superseded =
     (case get_record db kind coordinate of
        None \<Rightarrow> Inl ''Signed publication missing''
      | Some r \<Rightarrow>
          (case List.find (\<lambda>j. job_id j = jobId) (publication_jobs r) of
             None \<Rightarrow> Inl ''Signed publication missing''
           | Some work \<Rightarrow>
               if job_signedEvent work = None then Inl ''Signed publication missing''
               else Inr (put_record (with_jobs (update_first (\<lambda>j. job_id j = jobId)
                           (job_state_update (\<lambda>_. if superseded then JobSuperseded else JobDelivered)) (publication_jobs r)) r) db)))"

text \<open>The signing loop of one address: the database, the number of new signatures, and the error that ended it.\<close>

partial_function (option) sign_publications ::
    "'p publication_ports_scheme \<Rightarrow> (draft \<Rightarrow> SignedPublicNostrEvent option) \<Rightarrow> publication_kind \<Rightarrow> js_string \<Rightarrow> merchant_db
     \<Rightarrow> nat \<Rightarrow> (merchant_db \<times> nat \<times> js_string option) option" where
  "sign_publications env sign kind coordinate db count =
     (case prepareNextPublication env db kind coordinate of
        Inl err \<Rightarrow> Some (db, count, Some err)
      | Inr prepared \<Rightarrow>
          (case snd prepared of
             None \<Rightarrow> Some (fst prepared, count, None)
           | Some work \<Rightarrow>
               (case sign (snd work) of
                  None \<Rightarrow> Some (fst prepared, count, None)
                | Some e \<Rightarrow>
                    (case saveSignedPublication env (fst prepared) kind coordinate (fst work) e of
                       Inl err \<Rightarrow> Some (fst prepared, count, Some err)
                     | Inr saved \<Rightarrow>
                         sign_publications env sign kind coordinate (fst saved) (if snd saved then Suc count else count)))))"

end
