(* ===== verification/Merchant_Acceptance.thy ===== *)
theory Merchant_Acceptance
  imports Merchant_Inventory "HOL-Library.AList"
begin

text \<open>
  The merchant's one decision to accept an order (\<open>acceptMerchantInventoryOrder\<close> of
  \<open>merchant-inventory.ts\<close>): validation, replay of an accepted order, credit for stock an earlier owner
  already debited, the debit of every line and the stored order, in one transaction.  Orders imported from
  an organizer's journal are not modelled.  The live account fence \<open>assertCurrent\<close> is the flag
  \<open>still_current\<close>: a fence that fails at any of its checks aborts the transaction.
\<close>

subsection \<open>The request\<close>

record event_market_admission =
  admission_settlement :: bool
  admission_assignmentCoordinate :: js_string
  admission_assignmentEventId :: "js_string option"
  admission_marketEventId :: js_string
  admission_occurrenceEventId :: js_string
  admission_grantEventId :: js_string
  admission_scheduleEventId :: "js_string option"

record ValidatedOrderAdmission =
  admission_productTermsEventId :: "js_string option"
  admission_productEventId :: js_string
  admission_market :: "event_market_admission option"

text \<open>\<open>admission_market\<close> is \<open>None\<close> for the kind \<open>validated-ordinary-product\<close>.\<close>

record MerchantInventoryOrderItem =
  item_productCoordinate :: js_string
  item_assignmentCoordinate :: "js_string option"
  item_method :: js_string
  item_quantity :: int
  item_admission :: ValidatedOrderAdmission

record stock_adjustment =
  adjusted_productCoordinate :: js_string
  adjusted_quantity :: int
  adjusted_shortfall :: int
  adjusted_custom :: bool

record accept_input =
  accept_orderId :: js_string
  accept_merchantPubkey :: js_string
  accept_identityBinding :: js_string
  accept_termsBinding :: js_string
  accept_evidence :: js_string
  accept_evidenceFormat :: "js_string option"
  accept_evidenceBinding :: "js_string option"
  accept_items :: "MerchantInventoryOrderItem list"
  accept_priorStockAdjustments :: "stock_adjustment list"

definition is_sha256_binding :: "js_string \<Rightarrow> bool" where
  "is_sha256_binding s \<longleftrightarrow> take 7 s = ''sha256:'' \<and> is_hex64 (drop 7 s)"

definition check_order :: "accept_input \<Rightarrow> int \<Rightarrow> unit result" where
  "check_order inp acceptedAt =
     (if accept_orderId inp = [] \<or> accept_merchantPubkey inp = [] \<or> accept_identityBinding inp = []
         \<or> accept_termsBinding inp = [] \<or> accept_evidence inp = []
         \<or> (accept_evidenceFormat inp \<noteq> None
            \<and> (accept_evidenceFormat inp \<noteq> Some ''device-encrypted-v1'' \<or> \<not> is_sha256_binding (accept_identityBinding inp)
               \<or> \<not> is_sha256_binding (accept_termsBinding inp)
               \<or> \<not> is_sha256_binding (text_or_empty (accept_evidenceBinding inp))))
         \<or> \<not> is_safe acceptedAt \<or> accept_items inp = []
      then Inl ''Invalid accepted order'' else Inr ())"

definition admission_ids :: "ValidatedOrderAdmission \<Rightarrow> js_string list" where
  "admission_ids adm =
     admission_productEventId adm
     # (case admission_market adm of
          None \<Rightarrow> []
        | Some market \<Rightarrow>
            [admission_marketEventId market, admission_occurrenceEventId market, admission_grantEventId market]
            @ List.map_filter id [admission_scheduleEventId market, admission_assignmentEventId market])
     @ List.map_filter id [admission_productTermsEventId adm]"

definition check_item :: "MerchantInventoryOrderItem \<Rightarrow> unit result" where
  "check_item item =
     (if item_quantity item < 1 \<or> item_quantity item > MAX_ALLOCATION then Inl ''Invalid order quantity''
      else if \<not> list_all is_hex64 (admission_ids (item_admission item)) then Inl ''Invalid order evidence''
      else if (item_method item = ''ordinary'') \<noteq> (admission_market (item_admission item) = None)
         \<or> (item_method item = ''ordinary'') \<noteq> (item_assignmentCoordinate item = None)
         \<or> (case admission_market (item_admission item) of None \<Rightarrow> False
            | Some market \<Rightarrow> Some (admission_assignmentCoordinate market) \<noteq> item_assignmentCoordinate item)
      then Inl ''Order admission does not match its inventory lane'' else Inr ())"

fun check_all :: "('a \<Rightarrow> unit result) \<Rightarrow> 'a list \<Rightarrow> unit result" where
  "check_all check [] = Inr ()"
| "check_all check (x # xs) = bind_result (check x) (\<lambda>_. check_all check xs)"

subsection \<open>Replay\<close>

definition accepted_shape :: "accepted_item \<Rightarrow> js_string \<times> js_string option \<times> js_string \<times> int" where
  "accepted_shape item = (ai_productCoordinate item, ai_assignmentCoordinate item, ai_method item, ai_quantity item)"

definition item_shape :: "MerchantInventoryOrderItem \<Rightarrow> js_string \<times> js_string option \<times> js_string \<times> int" where
  "item_shape item = (item_productCoordinate item, item_assignmentCoordinate item, item_method item, item_quantity item)"

definition same_order :: "MerchantInventoryAcceptedOrder \<Rightarrow> accept_input \<Rightarrow> bool" where
  "same_order prior inp \<longleftrightarrow>
     ao_merchantPubkey prior = accept_merchantPubkey inp \<and> ao_identityBinding prior = accept_identityBinding inp
     \<and> ao_termsBinding prior = accept_termsBinding inp \<and> ao_evidenceFormat prior = accept_evidenceFormat inp
     \<and> or_else (ao_evidenceBinding prior) (ao_evidence prior) = or_else (accept_evidenceBinding inp) (accept_evidence inp)
     \<and> map accepted_shape (ao_items prior) = map item_shape (accept_items inp)"

subsection \<open>Stock the earlier owner debited\<close>

definition first_occurrences :: "'a list \<Rightarrow> 'a list" where
  "first_occurrences xs = rev (remdups (rev xs))"

definition ordered_quantity :: "MerchantInventoryOrderItem list \<Rightarrow> js_string \<Rightarrow> int" where
  "ordered_quantity items coordinate =
     sum_list (map item_quantity (filter (\<lambda>item. item_productCoordinate item = coordinate) items))"

definition prior_adjustments :: "merchant_db \<Rightarrow> accept_input \<Rightarrow> js_string \<Rightarrow> stock_adjustment list" where
  "prior_adjustments db inp coordinate =
     map (\<lambda>row. \<lparr>adjusted_productCoordinate = cp_productAddressId row, adjusted_quantity = cp_quantity row,
                adjusted_shortfall = cp_shortfall row, adjusted_custom = cp_custom row\<rparr>)
       (filter (\<lambda>row. cp_orderId row = accept_orderId inp \<and> cp_merchantPubkey row = accept_merchantPubkey inp
                     \<and> cp_productAddressId row = coordinate) (table_rows (localProductStockCheckpoints db)))
     @ filter (\<lambda>row. adjusted_productCoordinate row = coordinate) (accept_priorStockAdjustments inp)"

fun already_consumed :: "int \<Rightarrow> int option \<Rightarrow> stock_adjustment list \<Rightarrow> int option result" where
  "already_consumed quantity found [] = Inr found"
| "already_consumed quantity found (adjustment # rest) =
     (if adjusted_quantity adjustment \<noteq> quantity \<or> \<not> is_safe (adjusted_shortfall adjustment)
         \<or> adjusted_shortfall adjustment < 0 \<or> adjusted_shortfall adjustment > quantity
      then Inl ''Existing order stock decision needs reconciliation''
      else let counted = (if adjusted_custom adjustment then quantity else quantity - adjusted_shortfall adjustment)
      in if found \<noteq> None \<and> found \<noteq> Some counted then Inl ''Conflicting order stock decisions need reconciliation''
         else already_consumed quantity (Some counted) rest)"

fun consumed_stock :: "merchant_db \<Rightarrow> accept_input \<Rightarrow> js_string list \<Rightarrow> (js_string \<times> int) list result" where
  "consumed_stock db inp [] = Inr []"
| "consumed_stock db inp (coordinate # rest) =
     bind_result (already_consumed (ordered_quantity (accept_items inp) coordinate) None (prior_adjustments db inp coordinate)) (\<lambda>found.
     bind_result (consumed_stock db inp rest) (\<lambda>others. Inr ((coordinate, or_else found 0) # others)))"

subsection \<open>One line\<close>

text \<open>The maps of the decision, in insertion order, and the tables reconciled so far.\<close>

record acceptance =
  acc_db :: merchant_db
  acc_products :: "(js_string \<times> MerchantInventoryProduct) list"
  acc_assignments :: "(js_string \<times> MerchantInventoryAssignment) list"
  acc_debited :: "js_string list"
  acc_consumed :: "(js_string \<times> int) list"
  acc_output :: "accepted_item list"

definition open_product ::
    "'p inventory_ports_scheme \<Rightarrow> accept_input \<Rightarrow> acceptance \<Rightarrow> MerchantInventoryOrderItem
     \<Rightarrow> (acceptance \<times> MerchantInventoryProduct) result" where
  "open_product env inp st item =
     (case map_of (acc_products st) (item_productCoordinate item) of
        Some product \<Rightarrow> Inr (st, product)
      | None \<Rightarrow>
          (case table_get (merchantInventoryProducts (acc_db st)) (item_productCoordinate item) of
             None \<Rightarrow> Inl ''Committed merchant product unavailable''
           | Some product \<Rightarrow>
               if mp_merchantPubkey product \<noteq> accept_merchantPubkey inp then Inl ''Committed merchant product unavailable''
               else if (case admission_productTermsEventId (item_admission item) of None \<Rightarrow> False
                        | Some terms \<Rightarrow> event_id (mp_sourceProductEvent product) \<noteq> terms)
               then Inl ''The product changed during acceptance. Review it and try again.''
               else Inr (st\<lparr>acc_db := reconcileKnownOccurrenceLifecycle env (accept_merchantPubkey inp)
                                        (Some (item_productCoordinate item)) (acc_db st),
                            acc_products := AList.update (item_productCoordinate item) product (acc_products st)\<rparr>, product)))"

definition current_assignment :: "acceptance \<Rightarrow> MerchantInventoryAssignment \<Rightarrow> MerchantInventoryAssignment" where
  "current_assignment st a = or_else (map_of (acc_assignments st) (ma_coordinate a)) a"

definition expired_settlement :: "MerchantInventoryOrderItem \<Rightarrow> MerchantInventoryAssignment \<Rightarrow> int \<Rightarrow> bool" where
  "expired_settlement item a acceptedAt \<longleftrightarrow>
     (case admission_market (item_admission item) of None \<Rightarrow> False | Some market \<Rightarrow> admission_settlement market)
     \<and> acceptedAt \<ge> ma_occurrenceEndMs a"

definition open_assignment ::
    "acceptance \<Rightarrow> MerchantInventoryOrderItem \<Rightarrow> MerchantInventoryAssignment list \<Rightarrow> int
     \<Rightarrow> (acceptance \<times> MerchantInventoryAssignment option \<times> bool) result" where
  "open_assignment st item siblings acceptedAt =
     (if \<not> truthy (item_assignmentCoordinate item) then Inr (st, None, False)
      else let coordinate = the (item_assignmentCoordinate item)
      in case (case map_of (acc_assignments st) coordinate of
                 Some a \<Rightarrow> Some a | None \<Rightarrow> List.find (\<lambda>a. ma_coordinate a = coordinate) siblings) of
           None \<Rightarrow> Inl ''Assignment is not available for this order''
         | Some a \<Rightarrow>
             let expired = expired_settlement item a acceptedAt
             in if ma_productCoordinate a \<noteq> item_productCoordinate item \<or> ma_state a \<noteq> ''active'' \<or> ma_terminal a
                   \<or> (\<not> expired \<and> acceptedAt \<ge> ma_occurrenceEndMs a) \<or> item_method item \<notin> set (ma_fulfillmentMethods a)
                then Inl ''Assignment is not available for this order''
                else Inr (st\<lparr>acc_assignments := AList.update (ma_coordinate a) a (acc_assignments st)\<rparr>, Some a, expired))"

text \<open>The test of the lane of a line against the stock that is not reserved.\<close>

definition check_lane ::
    "MerchantInventoryOrderItem \<Rightarrow> MerchantInventoryAssignment option \<Rightarrow> bool \<Rightarrow> int \<Rightarrow> int \<Rightarrow> int \<Rightarrow> int \<Rightarrow> unit result" where
  "check_lane item assignment expired stock debit effective acceptedAt =
     (if item_method item = ''pickup''
      then (case assignment of
              None \<Rightarrow> Inl ''Insufficient pickup allocation''
            | Some a \<Rightarrow>
                if ma_inventory a = Untracked then Inl ''Insufficient pickup allocation''
                else if expired
                then if stock - effective < debit then Inl ''Insufficient unallocated stock for settled pickup'' else Inr ()
                else bind_result (effectiveAllocation a acceptedAt) (\<lambda>allocated.
                     bind_result (outstandingOrganizerStockHold a) (\<lambda>held.
                     if allocated - held < item_quantity item \<or> stock - debit < effective - item_quantity item
                     then Inl ''Insufficient pickup allocation'' else Inr ())))
      else if stock - effective < debit then Inl ''Insufficient ordinary stock'' else Inr ())"

definition picked_up :: "MerchantInventoryOrderItem \<Rightarrow> bool \<Rightarrow> MerchantInventoryAssignment \<Rightarrow> MerchantInventoryAssignment" where
  "picked_up item expired a =
     (case ma_inventory a of
        Untracked \<Rightarrow> a
      | Tracked n \<Rightarrow>
          if item_method item \<noteq> ''pickup'' then a
          else a\<lparr>ma_inventory := Tracked (if expired then max 0 (n - item_quantity item) else n - item_quantity item)\<rparr>)"

definition item_output ::
    "MerchantInventoryOrderItem \<Rightarrow> int option \<Rightarrow> MerchantInventoryAssignment option \<Rightarrow> accepted_item" where
  "item_output item stock assignment =
     \<lparr>ai_productCoordinate = item_productCoordinate item, ai_assignmentCoordinate = item_assignmentCoordinate item,
      ai_method = item_method item, ai_quantity = item_quantity item, ai_remainingStock = stock,
      ai_remainingAllocation =
        (case assignment of None \<Rightarrow> None | Some a \<Rightarrow> (case ma_inventory a of Tracked n \<Rightarrow> Some n | Untracked \<Rightarrow> None))\<rparr>"

text \<open>A line of a product with tracked stock.\<close>

definition debit_line ::
    "acceptance \<Rightarrow> MerchantInventoryOrderItem \<Rightarrow> MerchantInventoryProduct \<Rightarrow> int \<Rightarrow> MerchantInventoryAssignment list
     \<Rightarrow> MerchantInventoryAssignment option \<Rightarrow> bool \<Rightarrow> int \<Rightarrow> int \<Rightarrow> acceptance result" where
  "debit_line st item product stock siblings assignment expired effective acceptedAt =
     (let pc = item_productCoordinate item;
          credit = or_else (map_of (acc_consumed st) pc) 0;
          credited = min (item_quantity item) credit;
          debit = item_quantity item - credited
      in if list_ex (\<lambda>a. ma_state a = ''active'' \<and> ma_inventory a = Untracked) siblings
            \<or> effective > stock + (if item_method item = ''pickup'' \<and> \<not> expired then credited else 0)
         then Inl ''Committed inventory requires reconciliation''
         else bind_result (check_lane item assignment expired stock debit effective acceptedAt) (\<lambda>_.
           let product' = product\<lparr>mp_stock := Some (stock - debit)\<rparr>;
               assignment' = map_option (picked_up item expired) assignment
           in Inr (st\<lparr>acc_products := AList.update pc product' (acc_products st),
                      acc_assignments := (case assignment' of None \<Rightarrow> acc_assignments st
                                          | Some a \<Rightarrow> AList.update (ma_coordinate a) a (acc_assignments st)),
                      acc_debited := (if debit > 0 then mp_coordinate product # acc_debited st else acc_debited st),
                      acc_consumed := AList.update pc (credit - credited) (acc_consumed st),
                      acc_output := acc_output st @ [item_output item (Some (stock - debit)) assignment']\<rparr>)))"

definition accept_item ::
    "'p inventory_ports_scheme \<Rightarrow> accept_input \<Rightarrow> int \<Rightarrow> acceptance \<Rightarrow> MerchantInventoryOrderItem \<Rightarrow> acceptance result" where
  "accept_item env inp acceptedAt st item =
     bind_result (open_product env inp st item) (\<lambda>(st1, product).
     let siblings = listMerchantInventoryAssignments (acc_db st1) (item_productCoordinate item)
     in bind_result (open_assignment st1 item siblings acceptedAt) (\<lambda>(st2, assignment, expired).
     bind_result (reserved (map (current_assignment st2) siblings) acceptedAt) (\<lambda>effective.
     case mp_stock product of
       Some stock \<Rightarrow> debit_line st2 item product stock siblings assignment expired effective acceptedAt
     | None \<Rightarrow>
         bind_result (some_r (\<lambda>a. bind_result (outstandingOrganizerStockHold a) (\<lambda>held.
             Inr (held > 0 \<or> (ma_state a = ''active'' \<and> ma_inventory a \<noteq> Untracked)))) siblings) (\<lambda>mismatch.
         if mismatch then Inl ''Inventory tracking mismatch''
         else Inr (st2\<lparr>acc_output := acc_output st2 @ [item_output item None assignment]\<rparr>)))))"

fun accept_items_in_turn ::
    "'p inventory_ports_scheme \<Rightarrow> accept_input \<Rightarrow> int \<Rightarrow> acceptance \<Rightarrow> MerchantInventoryOrderItem list \<Rightarrow> acceptance result" where
  "accept_items_in_turn env inp acceptedAt st [] = Inr st"
| "accept_items_in_turn env inp acceptedAt st (item # rest) =
     bind_result (accept_item env inp acceptedAt st item) (\<lambda>st'. accept_items_in_turn env inp acceptedAt st' rest)"

subsection \<open>The decision\<close>

definition settled_product :: "accept_input \<Rightarrow> int \<Rightarrow> acceptance \<Rightarrow> MerchantInventoryProduct \<Rightarrow> MerchantInventoryProduct" where
  "settled_product inp acceptedAt st product =
     (let revision = mp_revision product + 1;
          product' = product\<lparr>mp_revision := revision\<rparr>
      in if mp_stock product \<noteq> None \<and> mp_coordinate product \<in> set (acc_debited st)
         then product'\<lparr>mp_publicationJobs := mp_publicationJobs product
                @ [(new_job (accept_orderId inp @ '':product:'' @ mp_coordinate product) revision acceptedAt)
                     \<lparr>job_productStock := mp_stock product\<rparr>]\<rparr>
         else product')"

definition put_products :: "accept_input \<Rightarrow> int \<Rightarrow> acceptance \<Rightarrow> merchant_db \<Rightarrow> merchant_db" where
  "put_products inp acceptedAt st db =
     db\<lparr>merchantInventoryProducts :=
       fold (\<lambda>(_, p). table_put (mp_coordinate p) (settled_product inp acceptedAt st p)) (acc_products st)
         (merchantInventoryProducts db)\<rparr>"

definition picked_assignment :: "acceptance \<Rightarrow> MerchantInventoryAssignment \<Rightarrow> bool" where
  "picked_assignment st a \<longleftrightarrow>
     ma_inventory a \<noteq> Untracked
     \<and> list_ex (\<lambda>i. ai_assignmentCoordinate i = Some (ma_coordinate a) \<and> ai_method i = ''pickup'') (acc_output st)"

definition settled_assignment :: "accept_input \<Rightarrow> int \<Rightarrow> MerchantInventoryAssignment \<Rightarrow> MerchantInventoryAssignment" where
  "settled_assignment inp acceptedAt a =
     (let revision = ma_revision a + 1
      in a\<lparr>ma_revision := revision, ma_publicationJobs := ma_publicationJobs a
            @ [(new_job (accept_orderId inp @ '':assignment:'' @ ma_coordinate a) revision acceptedAt)
                 \<lparr>job_assignmentSnapshot := Some
                   \<lparr>snapshot_state = ma_state a, snapshot_inventory = ma_inventory a,
                    snapshot_fulfillmentMethods = ma_fulfillmentMethods a,
                    snapshot_organizerStockHold = ma_organizerStockHold a\<rparr>\<rparr>]\<rparr>)"

definition put_assignments :: "accept_input \<Rightarrow> int \<Rightarrow> acceptance \<Rightarrow> merchant_db \<Rightarrow> merchant_db" where
  "put_assignments inp acceptedAt st db =
     db\<lparr>merchantInventoryAssignments :=
       fold (\<lambda>(_, a). table_put (ma_coordinate a) (settled_assignment inp acceptedAt a))
         (filter (\<lambda>(_, a). picked_assignment st a) (acc_assignments st)) (merchantInventoryAssignments db)\<rparr>"

definition accepted_order :: "accept_input \<Rightarrow> int \<Rightarrow> acceptance \<Rightarrow> MerchantInventoryAcceptedOrder" where
  "accepted_order inp acceptedAt st =
     \<lparr>ao_orderId = accept_orderId inp, ao_merchantPubkey = accept_merchantPubkey inp,
      ao_identityBinding = accept_identityBinding inp, ao_termsBinding = accept_termsBinding inp,
      ao_evidence = accept_evidence inp, ao_evidenceFormat = accept_evidenceFormat inp,
      ao_evidenceBinding = (if truthy (accept_evidenceFormat inp) then accept_evidenceBinding inp else None),
      ao_items = acc_output st, ao_acceptedAt = acceptedAt\<rparr>"

definition begin_acceptance :: "merchant_db \<Rightarrow> (js_string \<times> int) list \<Rightarrow> acceptance" where
  "begin_acceptance db consumed =
     \<lparr>acc_db = db, acc_products = [], acc_assignments = [], acc_debited = [], acc_consumed = consumed, acc_output = []\<rparr>"

definition acceptMerchantInventoryOrder ::
    "'p inventory_ports_scheme \<Rightarrow> merchant_db \<Rightarrow> accept_input \<Rightarrow> bool \<Rightarrow> int
     \<Rightarrow> (merchant_db \<times> bool \<times> MerchantInventoryAcceptedOrder) result" where
  "acceptMerchantInventoryOrder env db inp still_current acceptedAt =
     (if \<not> still_current then Inl ''The account changed''
      else bind_result (check_order inp acceptedAt) (\<lambda>_.
      bind_result (check_all check_item (accept_items inp)) (\<lambda>_.
      case table_get (merchantInventoryAcceptedOrders db) (accept_orderId inp) of
        Some prior \<Rightarrow>
          if \<not> same_order prior inp then Inl ''Order ID is bound to different identity or terms''
          else Inr (db, True, prior)
      | None \<Rightarrow>
          bind_result (consumed_stock db inp (first_occurrences (map item_productCoordinate (accept_items inp)))) (\<lambda>consumed.
          bind_result (accept_items_in_turn env inp acceptedAt (begin_acceptance db consumed) (accept_items inp)) (\<lambda>st.
          let order = accepted_order inp acceptedAt st;
              db' = put_assignments inp acceptedAt st (put_products inp acceptedAt st (acc_db st))
          in Inr (db'\<lparr>merchantInventoryAcceptedOrders :=
                 table_put (accept_orderId inp) order (merchantInventoryAcceptedOrders db')\<rparr>, False, order))))))"

end
