(* ===== verification/Inventory_Accounts.thy ===== *)
theory Inventory_Accounts
  imports Merchant_Acceptance Guarded_Runs
begin

text \<open>
  Reservations as sums over the assignments of a product, and how the operations change them.
\<close>

subsection \<open>Tables with the same keys\<close>

lemma keyed_unique:
  assumes "table_keyed t" "table_keyed u" "table_get t = table_get u"
  shows "t = u"
proof -
  have d: "distinct (map fst t)" "distinct (map fst u)" using assms(1,2) by (auto simp: table_keyed_def strict_sorted_iff)
  have g: "map_of t = map_of u" using assms(3) by (auto simp: table_get_def fun_eq_iff)
  then have "fst ` set t = fst ` set u" by (metis dom_map_of_conv_image_fst)
  then have k: "map fst t = map fst u"
    using assms(1,2) by (intro strict_sorted_equal) (simp_all add: table_keyed_def)
  have rebuild: "x = map (\<lambda>k. (k, the (map_of x k))) (map fst x)" if "distinct (map fst x)" for x :: "'a table"
  proof -
    have "map (\<lambda>(k, v). (k, the (map_of x k))) x = map (\<lambda>y. y) x" using that by (intro map_cong) auto
    then show ?thesis by (simp add: case_prod_unfold o_def)
  qed
  show ?thesis using rebuild [OF d(1)] rebuild [OF d(2)] g k by metis
qed

lemma keyed_map:
  assumes "table_keyed t" "table_keyed u" "\<And>k. table_get u k = map_option (f k) (table_get t k)"
  shows "u = map (\<lambda>(k, v). (k, f k v)) t"
proof (rule keyed_unique [OF assms(2)])
  show "table_keyed (map (\<lambda>(k, v). (k, f k v)) t)" using assms(1) by (simp add: table_keyed_def o_def case_prod_unfold)
  have "map_of (map (\<lambda>(k, v). (k, f k v)) t) k = map_option (f k) (map_of t k)" for k
    by (induction t) auto
  then show "table_get u = table_get (map (\<lambda>(k, v). (k, f k v)) t)"
    using assms(3) by (simp add: table_get_def fun_eq_iff)
qed

lemma table_get_fold_put:
  assumes "distinct (map key xs)"
  shows "table_get (fold (\<lambda>x. table_put (key x) (f x)) xs t) k
    = (case List.find (\<lambda>x. key x = k) xs of Some x \<Rightarrow> Some (f x) | None \<Rightarrow> table_get t k)"
  using assms
proof (induction xs arbitrary: t)
  case (Cons x xs)
  have "key y \<noteq> key x" if "y \<in> set xs" for y using Cons.prems that by (metis distinct.simps(2) imageI list.map(2) list.set_map)
  then have "List.find (\<lambda>y. key y = key x) xs = None" by (simp add: find_None_iff)
  with Cons show ?case by (auto simp: table_get_put split: option.splits)
qed simp

lemma fold_put_keyed: "table_keyed t \<Longrightarrow> table_keyed (fold (\<lambda>x. table_put (key x) (f x)) xs t)"
  by (induction xs arbitrary: t) (simp_all add: table_put_keyed)

subsection \<open>Sums of reservations\<close>

lemma sum_r_cong: "list_all2 (\<lambda>x y. f x = g y) xs ys \<Longrightarrow> sum_r f xs = sum_r g ys"
  by (induction xs ys rule: list_all2_induct) simp_all

lemma some_r_cong: "list_all2 (\<lambda>x y. f x = g y) xs ys \<Longrightarrow> some_r f xs = some_r g ys"
  by (induction xs ys rule: list_all2_induct) (simp_all cong: if_cong)

lemma sum_r_each: "sum_r f xs = Inr s \<Longrightarrow> x \<in> set xs \<Longrightarrow> \<exists>n. f x = Inr n"
  by (induction xs arbitrary: s) (auto simp: bind_result_Inr)

lemma sum_r_nonneg: "(\<And>x n. x \<in> set xs \<Longrightarrow> f x = Inr n \<Longrightarrow> 0 \<le> n) \<Longrightarrow> sum_r f xs = Inr s \<Longrightarrow> 0 \<le> s"
proof (induction xs arbitrary: s)
  case (Cons x xs)
  then obtain n m where "f x = Inr n" "sum_r f xs = Inr m" "s = n + m" by (auto simp: bind_result_Inr)
  with Cons show ?case by (metis add_nonneg_nonneg list.set_intros(1,2))
qed simp

lemma sum_r_replace:
  assumes "distinct (map key xs)" "x \<in> set xs" "key x = c" "f x = Inr m" "f y = Inr n" "sum_r f xs = Inr s"
  shows "sum_r f (map (\<lambda>z. if key z = c then y else z) xs) = Inr (s - m + n)"
  using assms
proof (induction xs arbitrary: s)
  case (Cons z xs)
  obtain k r where z: "f z = Inr k" "sum_r f xs = Inr r" "s = k + r" using Cons.prems(6) by (auto simp: bind_result_Inr)
  show ?case
  proof (cases "key z = c")
    case True
    then have "z = x" using Cons.prems(1-3) by (auto simp: image_iff)
    moreover have "key w \<noteq> c" if "w \<in> set xs" for w
      using Cons.prems(1) True that by (metis distinct.simps(2) imageI list.map(2) list.set_map)
    then have "map (\<lambda>w. if key w = c then y else w) xs = xs" by (intro map_idI) simp
    ultimately show ?thesis using z Cons.prems by simp
  next
    case False
    then have "sum_r f (map (\<lambda>w. if key w = c then y else w) xs) = Inr (r - m + n)"
      using Cons.prems z by (intro Cons.IH) auto
    then show ?thesis using z False by simp
  qed
qed simp

lemma sum_r_filter: "sum_r f (filter p xs) = Inr a \<Longrightarrow> sum_r f (filter (\<lambda>x. \<not> p x) xs) = Inr b \<Longrightarrow> sum_r f xs = Inr (a + b)"
proof (induction xs arbitrary: a b)
  case (Cons x xs)
  show ?case
  proof (cases "p x")
    case True
    then obtain n a' where "f x = Inr n" "sum_r f (filter p xs) = Inr a'" "a = n + a'" using Cons.prems(1) by (auto simp: bind_result_Inr)
    then show ?thesis using Cons.IH [of a' b] Cons.prems(2) True by simp
  next
    case False
    then obtain n b' where "f x = Inr n" "sum_r f (filter (\<lambda>x. \<not> p x) xs) = Inr b'" "b = n + b'"
      using Cons.prems(2) by (auto simp: bind_result_Inr)
    then show ?thesis using Cons.IH [of a b'] Cons.prems(1) False by simp
  qed
qed simp

lemma outstanding_nonneg: "outstandingOrganizerStockHold a = Inr h \<Longrightarrow> 0 \<le> h"
  by (auto simp: outstandingOrganizerStockHold_def hold_sound_def Let_def split: option.split_asm if_split_asm)

lemma effective_nonneg: "effectiveAllocation a t = Inr n \<Longrightarrow> 0 \<le> n"
  by (auto simp: effectiveAllocation_def bind_result_Inr dest: outstanding_nonneg)

lemma reserved_nonneg: "reserved as t = Inr s \<Longrightarrow> 0 \<le> s"
  unfolding reserved_def by (erule sum_r_nonneg [rotated]) (rule effective_nonneg)

text \<open>Time only releases: a reservation never grows while its row is unchanged.\<close>

lemma effective_antimono:
  assumes "effectiveAllocation a t = Inr n" "t \<le> u"
  shows "\<exists>m. effectiveAllocation a u = Inr m \<and> m \<le> n"
proof -
  obtain h where h: "outstandingOrganizerStockHold a = Inr h" "n = max (live_allocation a t) h" "0 \<le> h"
    using assms(1) outstanding_nonneg by (auto simp: effectiveAllocation_def bind_result_Inr)
  have "max (live_allocation a u) h \<le> n"
    using assms(2) h(2,3) by (auto simp: live_allocation_def max_def split: assignment_inventory.splits if_splits)
  with h(1) show ?thesis by (simp add: effectiveAllocation_def)
qed

lemma reserved_antimono: "reserved as t = Inr n \<Longrightarrow> t \<le> u \<Longrightarrow> \<exists>m. reserved as u = Inr m \<and> m \<le> n"
proof (induction as arbitrary: n)
  case (Cons a as)
  then obtain k r where "effectiveAllocation a t = Inr k" "reserved as t = Inr r" "n = k + r"
    by (auto simp: reserved_def bind_result_Inr)
  with Cons effective_antimono [of a t k u] obtain k' r' where
    "effectiveAllocation a u = Inr k'" "k' \<le> k" "reserved as u = Inr r'" "r' \<le> r" by blast
  with \<open>n = k + r\<close> show ?case by (simp add: reserved_def)
qed (simp add: reserved_def)

lemma some_r_False: "some_r p xs = Inr False \<longleftrightarrow> (\<forall>x \<in> set xs. p x = Inr False)"
  by (induction xs) (auto simp: bind_result_Inr)

subsection \<open>Rows that reserve the same\<close>

definition alike :: "MerchantInventoryAssignment \<Rightarrow> MerchantInventoryAssignment \<Rightarrow> bool" where
  "alike a b \<longleftrightarrow>
     ma_productCoordinate a = ma_productCoordinate b \<and> ma_inventory a = ma_inventory b \<and> ma_state a = ma_state b
     \<and> ma_terminal a = ma_terminal b \<and> ma_occurrenceEndMs a = ma_occurrenceEndMs b
     \<and> ma_organizerStockHold a = ma_organizerStockHold b"

lemma alike_outstanding: "alike a b \<Longrightarrow> outstandingOrganizerStockHold a = outstandingOrganizerStockHold b"
  by (simp add: alike_def outstandingOrganizerStockHold_def split: option.split)

lemma alike_effective: "alike a b \<Longrightarrow> effectiveAllocation a t = effectiveAllocation b t"
  using alike_outstanding [of a b] by (auto simp: alike_def effectiveAllocation_def live_allocation_def cong: assignment_inventory.case_cong)

lemma alike_reserved: "list_all2 alike as bs \<Longrightarrow> reserved as t = reserved bs t"
  unfolding reserved_def by (rule sum_r_cong) (auto elim: list_all2_mono simp: alike_effective)

definition rows_addressed :: "merchant_db \<Rightarrow> bool" where
  "rows_addressed db \<longleftrightarrow>
     table_keyed (merchantInventoryProducts db) \<and> table_keyed (merchantInventoryAssignments db)
     \<and> (\<forall>k p. table_get (merchantInventoryProducts db) k = Some p \<longrightarrow> mp_coordinate p = k \<and> k \<noteq> [])
     \<and> (\<forall>k a. table_get (merchantInventoryAssignments db) k = Some a \<longrightarrow> ma_coordinate a = k)"

lemma listed_distinct: "rows_addressed db \<Longrightarrow> distinct (map ma_coordinate (listMerchantInventoryAssignments db pc))"
proof -
  assume r: "rows_addressed db"
  let ?t = "merchantInventoryAssignments db"
  have d: "distinct (map fst ?t)" using r by (auto simp: rows_addressed_def table_keyed_def strict_sorted_iff)
  have "ma_coordinate v = k" if "(k, v) \<in> set ?t" for k v
    using that d r by (auto simp: rows_addressed_def table_get_def)
  then have "map ma_coordinate (table_rows ?t) = map fst ?t" by (auto simp: table_rows_def)
  with d show ?thesis by (simp add: listMerchantInventoryAssignments_def distinct_map_filter)
qed

lemma listed: "rows_addressed db \<Longrightarrow> a \<in> set (listMerchantInventoryAssignments db pc)
    \<longleftrightarrow> table_get (merchantInventoryAssignments db) (ma_coordinate a) = Some a \<and> ma_productCoordinate a = pc"
  unfolding listMerchantInventoryAssignments_def
  by (auto simp: rows_addressed_def table_get_rows)

end
