(* ===== verification/Acceptance_Accounts.thy ===== *)
theory Acceptance_Accounts
  imports Inventory_Accounts
begin

text \<open>
  The accounts of one acceptance: what every line leaves of the stock of its product, and that the
  reservations of the product stay covered.
\<close>

subsection \<open>The rows of the decision\<close>

text \<open>The assignments of a product as the decision sees them.\<close>

definition current_rows :: "acceptance \<Rightarrow> js_string \<Rightarrow> MerchantInventoryAssignment list" where
  "current_rows st pc = map (current_assignment st) (listMerchantInventoryAssignments (acc_db st) pc)"

definition opened :: "acceptance \<Rightarrow> js_string \<Rightarrow> bool" where
  "opened st pc \<longleftrightarrow> map_of (acc_products st) pc \<noteq> None"

definition picked_out :: "acceptance \<Rightarrow> js_string \<Rightarrow> bool" where
  "picked_out st coordinate \<longleftrightarrow>
     list_ex (\<lambda>i. ai_assignmentCoordinate i = Some coordinate \<and> ai_method i = ''pickup'') (acc_output st)"

definition maps_ok :: "merchant_db \<Rightarrow> acceptance \<Rightarrow> bool" where
  "maps_ok db st \<longleftrightarrow>
     rows_addressed (acc_db st) \<and> merchantInventoryProducts (acc_db st) = merchantInventoryProducts db
     \<and> (\<forall>k a. map_of (acc_assignments st) k = Some a \<longrightarrow>
          ma_coordinate a = k \<and> opened st (ma_productCoordinate a)
          \<and> (\<exists>b. table_get (merchantInventoryAssignments (acc_db st)) k = Some b
                \<and> a = b\<lparr>ma_inventory := ma_inventory a\<rparr>
                \<and> (a \<noteq> b \<longrightarrow> ma_inventory a \<noteq> Untracked \<and> picked_out st k)
                \<and> (ma_inventory a = Untracked \<longleftrightarrow> ma_inventory b = Untracked)))
     \<and> (\<forall>pc p. map_of (acc_products st) pc = Some p \<longrightarrow>
          (\<exists>q. table_get (merchantInventoryProducts db) pc = Some q \<and> p = q\<lparr>mp_stock := mp_stock p\<rparr>
               \<and> (mp_stock p = None \<longleftrightarrow> mp_stock q = None)))
     \<and> distinct (map fst (acc_products st)) \<and> distinct (map fst (acc_assignments st))"

text \<open>Reservations of a product are covered by its stock, or the product and its assignments are untracked.\<close>

definition rows_covered :: "int option \<Rightarrow> MerchantInventoryAssignment list \<Rightarrow> int \<Rightarrow> bool" where
  "rows_covered stock rows t \<longleftrightarrow>
     (case stock of
        Some s \<Rightarrow> \<not> list_ex (\<lambda>a. ma_state a = ''active'' \<and> ma_inventory a = Untracked) rows
          \<and> (\<exists>r. reserved rows t = Inr r \<and> r \<le> s)
      | None \<Rightarrow> some_r (\<lambda>a. bind_result (outstandingOrganizerStockHold a) (\<lambda>held.
            Inr (held > 0 \<or> (ma_state a = ''active'' \<and> ma_inventory a \<noteq> Untracked)))) rows = Inr False)"

definition line_ok :: "acceptance \<Rightarrow> int \<Rightarrow> js_string \<Rightarrow> bool" where
  "line_ok st t pc \<longleftrightarrow>
     (case map_of (acc_products st) pc of None \<Rightarrow> True | Some p \<Rightarrow> rows_covered (mp_stock p) (current_rows st pc) t)"

subsection \<open>Reconciliation of an occurrence\<close>

lemma reconciled_same:
  "ma_coordinate (reconciled_assignment env db a) = ma_coordinate a"
  "ma_productCoordinate (reconciled_assignment env db a) = ma_productCoordinate a"
  by (simp_all add: reconciled_assignment_def Let_def split: option.split)

lemma reconcile_row_addressed: "rows_addressed db \<Longrightarrow> rows_addressed (reconcile_row env c db)"
  by (auto simp: reconcile_row_def rows_addressed_def table_put_keyed table_get_put reconciled_same split: option.split)

text \<open>Only the rows of some keys change, and none changes its product.\<close>

definition only_moved :: "js_string set \<Rightarrow> merchant_db \<Rightarrow> merchant_db \<Rightarrow> bool" where
  "only_moved C db db' \<longleftrightarrow>
     rows_addressed db' \<and> merchantInventoryProducts db' = merchantInventoryProducts db
     \<and> merchantInventoryAcceptedOrders db' = merchantInventoryAcceptedOrders db
     \<and> localProductStockCheckpoints db' = localProductStockCheckpoints db
     \<and> (\<forall>k. k \<notin> C \<longrightarrow> table_get (merchantInventoryAssignments db') k = table_get (merchantInventoryAssignments db) k)
     \<and> (\<forall>k. map_option ma_productCoordinate (table_get (merchantInventoryAssignments db') k)
            = map_option ma_productCoordinate (table_get (merchantInventoryAssignments db) k))"

lemma only_moved_trans: "only_moved C a b \<Longrightarrow> only_moved D b c \<Longrightarrow> only_moved (C \<union> D) a c"
  by (simp add: only_moved_def)

lemma only_moved_row: "rows_addressed db \<Longrightarrow> only_moved {c} db (reconcile_row env c db)"
  using reconcile_row_addressed [of db env c]
  by (auto simp: only_moved_def reconcile_row_def table_get_put reconciled_same split: option.split)

lemma only_moved_fold:
  "rows_addressed db \<Longrightarrow> only_moved (ma_coordinate ` set xs) db (fold (\<lambda>a. reconcile_row env (ma_coordinate a)) xs db)"
proof (induction xs arbitrary: db)
  case (Cons x xs)
  have r: "only_moved {ma_coordinate x} db (reconcile_row env (ma_coordinate x) db)" by (rule only_moved_row [OF Cons.prems])
  have "only_moved (ma_coordinate ` set xs) (reconcile_row env (ma_coordinate x) db)
      (fold (\<lambda>a. reconcile_row env (ma_coordinate a)) xs (reconcile_row env (ma_coordinate x) db))"
    by (rule Cons.IH [OF reconcile_row_addressed [OF Cons.prems]])
  from only_moved_trans [OF r this] show ?case by simp
qed (simp add: only_moved_def)

lemma reconciled_rows:
  assumes "rows_addressed db" "pc \<noteq> []"
  obtains C where "only_moved C db (reconcileKnownOccurrenceLifecycle env merchant (Some pc) db)"
    "\<And>k a. table_get (merchantInventoryAssignments db) k = Some a \<Longrightarrow> k \<in> C \<Longrightarrow> ma_productCoordinate a = pc"
proof (rule that)
  let ?xs = "filter (\<lambda>a. (case Some pc of None \<Rightarrow> True | Some v \<Rightarrow> if v = [] then ma_merchantPubkey a = [] else ma_productCoordinate a = v)
      \<and> ma_merchantPubkey a = merchant) (table_rows (merchantInventoryAssignments db))"
  show "only_moved (ma_coordinate ` set ?xs) db (reconcileKnownOccurrenceLifecycle env merchant (Some pc) db)"
    unfolding reconcileKnownOccurrenceLifecycle_def by (rule only_moved_fold [OF assms(1)])
  fix k a assume a: "table_get (merchantInventoryAssignments db) k = Some a" "k \<in> ma_coordinate ` set ?xs"
  then obtain b where b: "b \<in> set (table_rows (merchantInventoryAssignments db))" "ma_productCoordinate b = pc" "ma_coordinate b = k"
    using assms(2) by auto
  then have "table_get (merchantInventoryAssignments db) k = Some b" using assms(1) by (auto simp: rows_addressed_def table_get_rows)
  with a(1) b(2) show "ma_productCoordinate a = pc" by simp
qed

lemma filter_map_unselected:
  "(\<And>x. x \<in> set xs \<Longrightarrow> (P (g x) \<longleftrightarrow> P (h x)) \<and> (P (h x) \<longrightarrow> g x = h x)) \<Longrightarrow> filter P (map g xs) = filter P (map h xs)"
  by (induction xs) auto

lemma listed_unmoved:
  assumes m: "only_moved C db db'" and r: "rows_addressed db"
    and out: "\<And>k a. table_get (merchantInventoryAssignments db) k = Some a \<Longrightarrow> k \<in> C \<Longrightarrow> ma_productCoordinate a \<noteq> pc"
  shows "listMerchantInventoryAssignments db' pc = listMerchantInventoryAssignments db pc"
proof -
  let ?T = "merchantInventoryAssignments db" and ?T' = "merchantInventoryAssignments db'"
  let ?f = "\<lambda>k v. if k \<in> C then the (table_get ?T' k) else v"
  have d: "distinct (map fst ?T)" using r by (auto simp: rows_addressed_def table_keyed_def strict_sorted_iff)
  have some: "table_get ?T' k \<noteq> None \<longleftrightarrow> table_get ?T k \<noteq> None" for k
    using m by (metis only_moved_def map_option_is_None)
  have "?T' = map (\<lambda>(k, v). (k, ?f k v)) ?T"
  proof (rule keyed_map)
    show "table_keyed ?T" "table_keyed ?T'" using r m by (simp_all add: only_moved_def rows_addressed_def)
    show "table_get ?T' k = map_option (?f k) (table_get ?T k)" for k
      using some [of k] m by (cases "table_get ?T k"; cases "k \<in> C") (auto simp: only_moved_def)
  qed
  from arg_cong [OF this, of "map snd"] have rows: "table_rows ?T' = map (\<lambda>(k, v). ?f k v) ?T"
    by (simp only: table_rows_def map_map) (simp add: o_def case_prod_unfold)
  have same: "ma_productCoordinate (?f k v) = ma_productCoordinate v" if "(k, v) \<in> set ?T" for k v
  proof -
    have v: "table_get ?T k = Some v" using that d by (simp add: table_get_def)
    then obtain w where "table_get ?T' k = Some w" using some [of k] by auto
    then show ?thesis using m v by (auto simp: only_moved_def dest: spec [of _ k])
  qed
  have "k \<notin> C" if "(k, v) \<in> set ?T" "ma_productCoordinate v = pc" for k v
    using that d out [of k v] by (auto simp: table_get_def)
  then show ?thesis
    unfolding listMerchantInventoryAssignments_def rows unfolding table_rows_def
    by (intro filter_map_unselected) (auto simp: same)
qed

subsection \<open>Opening a product and an assignment\<close>

lemma maps_okD:
  assumes "maps_ok db st"
  shows "rows_addressed (acc_db st)" "merchantInventoryProducts (acc_db st) = merchantInventoryProducts db"
    "distinct (map fst (acc_products st))" "distinct (map fst (acc_assignments st))"
  using assms by (simp_all add: maps_ok_def)

lemma maps_ok_assignment:
  assumes "maps_ok db st" "map_of (acc_assignments st) k = Some a"
  obtains b where "table_get (merchantInventoryAssignments (acc_db st)) k = Some b" "a = b\<lparr>ma_inventory := ma_inventory a\<rparr>"
    "a \<noteq> b \<Longrightarrow> ma_inventory a \<noteq> Untracked \<and> picked_out st k" "ma_inventory a = Untracked \<longleftrightarrow> ma_inventory b = Untracked"
    "ma_coordinate a = k" "opened st (ma_productCoordinate a)" "ma_productCoordinate b = ma_productCoordinate a"
proof -
  from assms obtain b where b: "table_get (merchantInventoryAssignments (acc_db st)) k = Some b" "a = b\<lparr>ma_inventory := ma_inventory a\<rparr>"
    "a \<noteq> b \<longrightarrow> ma_inventory a \<noteq> Untracked \<and> picked_out st k" "ma_inventory a = Untracked \<longleftrightarrow> ma_inventory b = Untracked"
    "ma_coordinate a = k" "opened st (ma_productCoordinate a)"
    unfolding maps_ok_def by blast
  moreover have "ma_productCoordinate b = ma_productCoordinate a" by (subst b(2)) simp
  ultimately show ?thesis using that by blast
qed

lemma maps_ok_product_rows:
  assumes "maps_ok db st"
  shows "\<forall>pc p. map_of (acc_products st) pc = Some p \<longrightarrow> (\<exists>q. table_get (merchantInventoryProducts db) pc = Some q
      \<and> p = q\<lparr>mp_stock := mp_stock p\<rparr> \<and> (mp_stock p = None \<longleftrightarrow> mp_stock q = None))"
  using assms unfolding maps_ok_def by (elim conjE)

lemma maps_ok_product:
  assumes "maps_ok db st" "map_of (acc_products st) pc = Some p"
  obtains q where "table_get (merchantInventoryProducts db) pc = Some q" "p = q\<lparr>mp_stock := mp_stock p\<rparr>"
    "mp_stock p = None \<longleftrightarrow> mp_stock q = None"
  using maps_ok_product_rows [OF assms(1)] assms(2) that by meson

lemma opened_product:
  assumes o: "open_product env inp st item = Inr (st1, product)" and m: "maps_ok db st"
  defines "pc \<equiv> item_productCoordinate item"
  shows "maps_ok db st1" "map_of (acc_products st1) pc = Some product"
    "\<And>k. opened st1 k \<longleftrightarrow> opened st k \<or> k = pc"
    "\<And>k. k \<noteq> pc \<Longrightarrow> map_of (acc_products st1) k = map_of (acc_products st) k"
    "\<And>k. k \<noteq> pc \<Longrightarrow> current_rows st1 k = current_rows st k"
    "acc_assignments st1 = acc_assignments st" "acc_debited st1 = acc_debited st" "acc_consumed st1 = acc_consumed st"
    "acc_output st1 = acc_output st"
    "merchantInventoryAcceptedOrders (acc_db st1) = merchantInventoryAcceptedOrders (acc_db st)"
    "\<not> opened st pc \<Longrightarrow> table_get (merchantInventoryProducts db) pc = Some product"
    "opened st pc \<Longrightarrow> st1 = st"
proof -
  show all: "opened st pc \<Longrightarrow> st1 = st" and "\<not> opened st pc \<Longrightarrow> table_get (merchantInventoryProducts db) pc = Some product"
    using o m by (auto simp: open_product_def opened_def pc_def maps_okD split: option.split_asm if_split_asm)
  have p: "map_of (acc_products st) pc = Some product" if "opened st pc"
    using o that by (auto simp: open_product_def opened_def pc_def split: option.split_asm)
  let ?db' = "reconcileKnownOccurrenceLifecycle env (accept_merchantPubkey inp) (Some pc) (acc_db st)"
  have st1: "st1 = st\<lparr>acc_db := ?db', acc_products := AList.update pc product (acc_products st)\<rparr>"
    and got: "table_get (merchantInventoryProducts (acc_db st)) pc = Some product" if "\<not> opened st pc"
    using o that by (auto simp: open_product_def opened_def pc_def split: option.split_asm if_split_asm)
  show "acc_assignments st1 = acc_assignments st" "acc_debited st1 = acc_debited st" "acc_consumed st1 = acc_consumed st"
    "acc_output st1 = acc_output st" "map_of (acc_products st1) pc = Some product"
    "\<And>k. opened st1 k \<longleftrightarrow> opened st k \<or> k = pc"
    "\<And>k. k \<noteq> pc \<Longrightarrow> map_of (acc_products st1) k = map_of (acc_products st) k"
    by (cases "opened st pc"; auto simp: all p st1 opened_def update_conv')+
  have ne: "pc \<noteq> []" if "\<not> opened st pc" using got [OF that] maps_okD(1) [OF m] by (auto simp: rows_addressed_def)
  have moved: "\<exists>C. only_moved C (acc_db st) ?db'
      \<and> (\<forall>k a. table_get (merchantInventoryAssignments (acc_db st)) k = Some a \<longrightarrow> k \<in> C \<longrightarrow> ma_productCoordinate a = pc)"
    if "\<not> opened st pc"
    by (rule reconciled_rows [OF maps_okD(1) [OF m] ne [OF that], of env "accept_merchantPubkey inp"]) blast
  show "merchantInventoryAcceptedOrders (acc_db st1) = merchantInventoryAcceptedOrders (acc_db st)"
    using moved by (cases "opened st pc") (auto simp: all st1 only_moved_def)
  show "maps_ok db st1"
  proof (cases "opened st pc")
    case False
    then obtain C where C: "only_moved C (acc_db st) ?db'"
      "\<And>k a. table_get (merchantInventoryAssignments (acc_db st)) k = Some a \<Longrightarrow> k \<in> C \<Longrightarrow> ma_productCoordinate a = pc"
      using moved by blast
    have row: "table_get (merchantInventoryAssignments ?db') k = table_get (merchantInventoryAssignments (acc_db st)) k"
      if a: "map_of (acc_assignments st) k = Some a" for k a
    proof -
      obtain b where b: "table_get (merchantInventoryAssignments (acc_db st)) k = Some b"
        "opened st (ma_productCoordinate a)" "ma_productCoordinate b = ma_productCoordinate a"
        using m a by (rule maps_ok_assignment) blast
      then have "k \<notin> C" using C(2) [OF b(1)] b(2,3) False by auto
      then show ?thesis using C(1) by (simp add: only_moved_def)
    qed
    have new: "map_of (acc_products st1) k = (if k = pc then Some product else map_of (acc_products st) k)" for k
      by (simp add: st1 [OF False] update_conv')
    show ?thesis
      using m got [OF False] C(1) row unfolding maps_ok_def
      by (auto simp: st1 [OF False] opened_def update_conv' distinct_update only_moved_def picked_out_def)
  qed (simp add: all m)
  fix k assume k: "k \<noteq> pc"
  show "current_rows st1 k = current_rows st k"
  proof (cases "opened st pc")
    case False
    then obtain C where C: "only_moved C (acc_db st) ?db'"
      "\<And>k a. table_get (merchantInventoryAssignments (acc_db st)) k = Some a \<Longrightarrow> k \<in> C \<Longrightarrow> ma_productCoordinate a = pc"
      using moved by blast
    have "listMerchantInventoryAssignments ?db' k = listMerchantInventoryAssignments (acc_db st) k"
      using C(2) k by (intro listed_unmoved [OF C(1) maps_okD(1) [OF m]]) auto
    then show ?thesis by (simp add: current_rows_def current_assignment_def st1 [OF False])
  qed (simp add: all)
qed

lemma current_row:
  assumes m: "maps_ok db st" and a: "a \<in> set (listMerchantInventoryAssignments (acc_db st) pc)"
  shows "ma_coordinate (current_assignment st a) = ma_coordinate a" "ma_productCoordinate (current_assignment st a) = pc"
    "ma_state (current_assignment st a) = ma_state a"
    "ma_inventory (current_assignment st a) = Untracked \<longleftrightarrow> ma_inventory a = Untracked"
    "outstandingOrganizerStockHold (current_assignment st a) = outstandingOrganizerStockHold a"
proof -
  have g: "table_get (merchantInventoryAssignments (acc_db st)) (ma_coordinate a) = Some a" "ma_productCoordinate a = pc"
    using a listed [OF maps_okD(1) [OF m]] by simp_all
  show "ma_coordinate (current_assignment st a) = ma_coordinate a" "ma_productCoordinate (current_assignment st a) = pc"
    "ma_state (current_assignment st a) = ma_state a"
    "ma_inventory (current_assignment st a) = Untracked \<longleftrightarrow> ma_inventory a = Untracked"
    "outstandingOrganizerStockHold (current_assignment st a) = outstandingOrganizerStockHold a"
  proof (induction "map_of (acc_assignments st) (ma_coordinate a)")
    case None
    { case 1 then show ?case by (simp add: current_assignment_def None [symmetric]) }
    { case 2 then show ?case by (simp add: current_assignment_def None [symmetric] g) }
    { case 3 then show ?case by (simp add: current_assignment_def None [symmetric]) }
    { case 4 then show ?case by (simp add: current_assignment_def None [symmetric]) }
    { case 5 then show ?case by (simp add: current_assignment_def None [symmetric]) }
  next
    case (Some c)
    have c: "current_assignment st a = c" by (simp add: current_assignment_def Some [symmetric])
    obtain b where b: "table_get (merchantInventoryAssignments (acc_db st)) (ma_coordinate a) = Some b"
      "c = b\<lparr>ma_inventory := ma_inventory c\<rparr>" "ma_inventory c = Untracked \<longleftrightarrow> ma_inventory b = Untracked"
      "ma_coordinate c = ma_coordinate a" "ma_productCoordinate b = ma_productCoordinate c"
      using m Some [symmetric] by (rule maps_ok_assignment) blast
    have ba: "b = a" using b(1) g(1) by simp
    have st: "ma_state c = ma_state a" "ma_organizerStockHold c = ma_organizerStockHold a" by (subst b(2), simp add: ba)+
    { case 1 show ?case using b(4) by (simp add: c) }
    { case 2 show ?case using b(5) g(2) by (simp add: c ba) }
    { case 3 show ?case using st by (simp add: c) }
    { case 4 show ?case using b(3) by (simp add: c ba) }
    { case 5 show ?case using b(3) st by (auto simp: c ba outstandingOrganizerStockHold_def Let_def split: option.split) }
  qed
qed

lemma maps_ok_put:
  assumes m: "maps_ok db st"
    and row: "opened st (ma_productCoordinate a')
      \<and> (\<exists>b. table_get (merchantInventoryAssignments (acc_db st)) c = Some b
          \<and> a' = b\<lparr>ma_inventory := ma_inventory a'\<rparr> \<and> (a' \<noteq> b \<longrightarrow> ma_inventory a' \<noteq> Untracked \<and> picked_out st c)
          \<and> (ma_inventory a' = Untracked \<longleftrightarrow> ma_inventory b = Untracked))"
    and c: "ma_coordinate a' = c" and st': "st' = st\<lparr>acc_assignments := AList.update c a' (acc_assignments st)\<rparr>"
  shows "maps_ok db st'"
  unfolding maps_ok_def
proof (intro conjI allI impI)
  fix k x assume x: "map_of (acc_assignments st') k = Some x"
  have "ma_coordinate x = k \<and> opened st (ma_productCoordinate x)
    \<and> (\<exists>b. table_get (merchantInventoryAssignments (acc_db st)) k = Some b
        \<and> x = b\<lparr>ma_inventory := ma_inventory x\<rparr> \<and> (x \<noteq> b \<longrightarrow> ma_inventory x \<noteq> Untracked \<and> picked_out st k)
        \<and> (ma_inventory x = Untracked \<longleftrightarrow> ma_inventory b = Untracked))"
  proof (cases "k = c")
    case False
    then have "map_of (acc_assignments st) k = Some x" using x by (simp add: st' update_conv')
    with m show ?thesis by (rule maps_ok_assignment) blast
  next
    case True
    then have "x = a'" using x by (simp add: st' update_conv')
    with row c True show ?thesis by (simp only: simp_thms)
  qed
  then show "ma_coordinate x = k" "opened st' (ma_productCoordinate x)"
    "\<exists>b. table_get (merchantInventoryAssignments (acc_db st')) k = Some b
      \<and> x = b\<lparr>ma_inventory := ma_inventory x\<rparr> \<and> (x \<noteq> b \<longrightarrow> ma_inventory x \<noteq> Untracked \<and> picked_out st' k)
      \<and> (ma_inventory x = Untracked \<longleftrightarrow> ma_inventory b = Untracked)"
    by (simp_all add: st' opened_def picked_out_def)
next
  fix pc p assume "map_of (acc_products st') pc = Some p"
  then have "map_of (acc_products st) pc = Some p" by (simp add: st')
  with maps_ok_product_rows [OF m] show "\<exists>q. table_get (merchantInventoryProducts db) pc = Some q
      \<and> p = q\<lparr>mp_stock := mp_stock p\<rparr> \<and> (mp_stock p = None \<longleftrightarrow> mp_stock q = None)" by (elim allE impE)
qed (use maps_okD [OF m] in \<open>simp_all add: st' distinct_update\<close>)

text \<open>An assignment the decision already sees, put into its map.\<close>

lemma put_current:
  assumes m: "maps_ok db st" and o: "opened st (ma_productCoordinate a)"
    and a: "a \<in> set (current_rows st (ma_productCoordinate a))"
    and st': "st' = st\<lparr>acc_assignments := AList.update (ma_coordinate a) a (acc_assignments st)\<rparr>"
  shows "maps_ok db st'" "current_rows st' pc = current_rows st pc"
proof -
  obtain b where b: "b \<in> set (listMerchantInventoryAssignments (acc_db st) (ma_productCoordinate a))" "a = current_assignment st b"
    using a by (auto simp: current_rows_def)
  have g: "table_get (merchantInventoryAssignments (acc_db st)) (ma_coordinate b) = Some b"
    using b(1) listed [OF maps_okD(1) [OF m]] by simp
  have cb: "ma_coordinate a = ma_coordinate b" using current_row(1) [OF m b(1)] b(2) by simp
  have same: "current_assignment st' x = current_assignment st x"
    if "x \<in> set (listMerchantInventoryAssignments (acc_db st) pc)" for x pc
  proof (cases "ma_coordinate x = ma_coordinate a")
    case True
    then have "table_get (merchantInventoryAssignments (acc_db st)) (ma_coordinate b) = Some x"
      using that listed [OF maps_okD(1) [OF m]] cb by simp
    then have "x = b" using g by simp
    then show ?thesis using b(2) by (simp add: current_assignment_def st' update_conv' True cb)
  qed (simp add: current_assignment_def st' update_conv')
  show "current_rows st' pc = current_rows st pc" using same by (simp add: current_rows_def st')
  have row: "\<exists>b. table_get (merchantInventoryAssignments (acc_db st)) (ma_coordinate a) = Some b
      \<and> a = b\<lparr>ma_inventory := ma_inventory a\<rparr> \<and> (a \<noteq> b \<longrightarrow> ma_inventory a \<noteq> Untracked \<and> picked_out st (ma_coordinate a))
      \<and> (ma_inventory a = Untracked \<longleftrightarrow> ma_inventory b = Untracked)"
  proof (cases "map_of (acc_assignments st) (ma_coordinate b)")
    case None
    then have "a = b" using b(2) by (simp add: current_assignment_def)
    then show ?thesis using g by auto
  next
    case (Some c)
    then have "a = c" using b(2) by (simp add: current_assignment_def)
    with Some have x: "map_of (acc_assignments st) (ma_coordinate a) = Some a" unfolding cb by simp
    show ?thesis using m x by (rule maps_ok_assignment) blast
  qed
  show "maps_ok db st'" by (rule maps_ok_put [OF m conjI [OF o row] refl st'])
qed

lemma opened_assignment:
  assumes o: "open_assignment st item siblings t = Inr (st', assignment, expired)" and m: "maps_ok db st"
    and pc: "pc = item_productCoordinate item" "opened st pc" "siblings = listMerchantInventoryAssignments (acc_db st) pc"
  shows "maps_ok db st'" "current_rows st' k = current_rows st k"
    "st' = st\<lparr>acc_assignments := acc_assignments st'\<rparr>"
    "assignment = None \<Longrightarrow> \<not> expired"
    "assignment = Some a \<Longrightarrow> a \<in> set (current_rows st' pc) \<and> ma_productCoordinate a = pc
       \<and> item_assignmentCoordinate item = Some (ma_coordinate a) \<and> ma_state a = ''active'' \<and> \<not> ma_terminal a
       \<and> (expired \<longleftrightarrow> \<not> t < ma_occurrenceEndMs a)"
proof -
  have "maps_ok db st' \<and> (\<forall>k. current_rows st' k = current_rows st k) \<and> st' = st\<lparr>acc_assignments := acc_assignments st'\<rparr>
    \<and> (assignment = None \<longrightarrow> \<not> expired)
    \<and> (\<forall>a. assignment = Some a \<longrightarrow> a \<in> set (current_rows st' pc) \<and> ma_productCoordinate a = pc
       \<and> item_assignmentCoordinate item = Some (ma_coordinate a) \<and> ma_state a = ''active'' \<and> \<not> ma_terminal a
       \<and> (expired \<longleftrightarrow> \<not> t < ma_occurrenceEndMs a))"
  proof (cases "truthy (item_assignmentCoordinate item)")
    case False
    with o m show ?thesis by (auto simp: open_assignment_def)
  next
    case True
    then obtain c where c: "item_assignmentCoordinate item = Some c" by (cases "item_assignmentCoordinate item") auto
    obtain a where a: "(case map_of (acc_assignments st) c of Some a \<Rightarrow> Some a | None \<Rightarrow> List.find (\<lambda>a. ma_coordinate a = c) siblings) = Some a"
      using o True c by (auto simp: open_assignment_def Let_def split: option.split_asm)
    have facts: "ma_productCoordinate a = pc" "ma_state a = ''active''" "\<not> ma_terminal a" "expired \<longleftrightarrow> \<not> t < ma_occurrenceEndMs a"
      "assignment = Some a" "st' = st\<lparr>acc_assignments := AList.update (ma_coordinate a) a (acc_assignments st)\<rparr>"
      using o True c a pc(1) by (auto simp: open_assignment_def Let_def expired_settlement_def split: if_split_asm)
    have in_rows: "a \<in> set (current_rows st pc) \<and> ma_coordinate a = c"
    proof (cases "map_of (acc_assignments st) c")
      case None
      then have s: "a \<in> set siblings" "ma_coordinate a = c" using a by (auto simp: find_Some_iff)
      then have "current_assignment st a = a" using None by (simp add: current_assignment_def)
      with s show ?thesis unfolding current_rows_def pc(3) by (metis image_eqI list.set_map)
    next
      case (Some x)
      then have x: "x = a" using a by simp
      obtain b where b: "table_get (merchantInventoryAssignments (acc_db st)) c = Some b" "ma_coordinate x = c"
        "ma_productCoordinate b = ma_productCoordinate x"
        using m Some by (rule maps_ok_assignment) blast
      have "ma_coordinate b = c" using b(1) maps_okD(1) [OF m] by (simp add: rows_addressed_def)
      then have "b \<in> set (listMerchantInventoryAssignments (acc_db st) pc)" "current_assignment st b = a"
        using b x facts(1) Some listed [OF maps_okD(1) [OF m]] by (simp_all add: current_assignment_def)
      with b(2) x show ?thesis unfolding current_rows_def by (metis image_eqI list.set_map)
    qed
    with put_current [OF m _ _ facts(6)] pc(2) facts c show ?thesis by simp
  qed
  then show "maps_ok db st'" "current_rows st' k = current_rows st k" "st' = st\<lparr>acc_assignments := acc_assignments st'\<rparr>"
    "assignment = None \<Longrightarrow> \<not> expired"
    "assignment = Some a \<Longrightarrow> a \<in> set (current_rows st' pc) \<and> ma_productCoordinate a = pc
       \<and> item_assignmentCoordinate item = Some (ma_coordinate a) \<and> ma_state a = ''active'' \<and> \<not> ma_terminal a
       \<and> (expired \<longleftrightarrow> \<not> t < ma_occurrenceEndMs a)"
    by blast+
qed

subsection \<open>One line\<close>

lemma picked_same:
  "ma_coordinate (picked_up item expired a) = ma_coordinate a" "ma_productCoordinate (picked_up item expired a) = ma_productCoordinate a"
  "ma_state (picked_up item expired a) = ma_state a" "ma_inventory (picked_up item expired a) = Untracked \<longleftrightarrow> ma_inventory a = Untracked"
  "picked_up item expired a = a\<lparr>ma_inventory := ma_inventory (picked_up item expired a)\<rparr>"
  "item_method item \<noteq> ''pickup'' \<Longrightarrow> picked_up item expired a = a" "ma_inventory a = Untracked \<Longrightarrow> picked_up item expired a = a"
  by (auto simp: picked_up_def split: assignment_inventory.split)

lemma picked_effective:
  assumes a: "ma_state a = ''active''" "\<not> ma_terminal a" "expired \<longleftrightarrow> \<not> t < ma_occurrenceEndMs a"
    and e: "effectiveAllocation a t = Inr m" and item: "item_method item = ''pickup''" "ma_inventory a = Tracked n"
  shows "expired \<Longrightarrow> effectiveAllocation (picked_up item expired a) t = Inr m"
    "\<not> expired \<Longrightarrow> outstandingOrganizerStockHold a = Inr h \<Longrightarrow> item_quantity item \<le> m - h \<Longrightarrow> 1 \<le> item_quantity item
       \<Longrightarrow> effectiveAllocation (picked_up item expired a) t = Inr (m - item_quantity item)"
proof -
  have h: "outstandingOrganizerStockHold (picked_up item expired a) = outstandingOrganizerStockHold a"
    using item(2) by (simp add: outstandingOrganizerStockHold_def picked_up_def Let_def split: option.split)
  show "effectiveAllocation (picked_up item expired a) t = Inr m" if "expired"
    using that e a item unfolding effectiveAllocation_def h by (simp add: live_allocation_def picked_up_def)
  show "effectiveAllocation (picked_up item expired a) t = Inr (m - item_quantity item)"
    if "\<not> expired" "outstandingOrganizerStockHold a = Inr h" "item_quantity item \<le> m - h" "1 \<le> item_quantity item"
    using that e a item unfolding effectiveAllocation_def h by (auto simp: live_allocation_def picked_up_def)
qed

lemma put_picked:
  assumes m: "maps_ok db st" and a: "a \<in> set (current_rows st pc)"
    and st': "acc_assignments st' = AList.update (ma_coordinate a) a' (acc_assignments st)" "acc_db st' = acc_db st"
    and a': "ma_coordinate a' = ma_coordinate a"
  shows "current_rows st' pc = map (\<lambda>z. if ma_coordinate z = ma_coordinate a then a' else z) (current_rows st pc)"
    "k \<noteq> pc \<Longrightarrow> current_rows st' k = current_rows st k"
proof -
  obtain b where b: "b \<in> set (listMerchantInventoryAssignments (acc_db st) pc)" "a = current_assignment st b"
    using a by (auto simp: current_rows_def)
  have cb: "ma_coordinate a = ma_coordinate b" using current_row(1) [OF m b(1)] b(2) by simp
  have upd: "current_assignment st' x = (if ma_coordinate x = ma_coordinate a then a' else current_assignment st x)" for x
    by (simp add: current_assignment_def st' update_conv')
  show "current_rows st' pc = map (\<lambda>z. if ma_coordinate z = ma_coordinate a then a' else z) (current_rows st pc)"
    unfolding current_rows_def st'(2) map_map by (rule map_cong [OF refl]) (simp add: upd current_row(1) [OF m])
  assume k: "k \<noteq> pc"
  have "ma_coordinate x \<noteq> ma_coordinate a" if "x \<in> set (listMerchantInventoryAssignments (acc_db st) k)" for x
    using that b(1) k cb listed [OF maps_okD(1) [OF m]] by (metis option.inject)
  then show "current_rows st' k = current_rows st k" by (simp add: current_rows_def st'(2) upd)
qed

lemma rows_distinct: "maps_ok db st \<Longrightarrow> distinct (map ma_coordinate (current_rows st pc))"
proof -
  assume m: "maps_ok db st"
  have "map ma_coordinate (current_rows st pc) = map ma_coordinate (listMerchantInventoryAssignments (acc_db st) pc)"
    using current_row(1) [OF m] by (simp add: current_rows_def)
  then show ?thesis using listed_distinct [OF maps_okD(1) [OF m]] by simp
qed

lemma check_lane_covers:
  assumes c: "check_lane item assignment expired stock debit e t = Inr ()" and q: "1 \<le> item_quantity item"
    and m: "maps_ok db st" and e: "reserved (current_rows st pc) t = Inr e"
    and none: "assignment = None \<Longrightarrow> \<not> expired"
    and some: "\<And>a. assignment = Some a \<Longrightarrow> a \<in> set (current_rows st pc) \<and> ma_state a = ''active'' \<and> \<not> ma_terminal a
      \<and> (expired \<longleftrightarrow> \<not> t < ma_occurrenceEndMs a)"
  shows "\<exists>r. reserved (case assignment of None \<Rightarrow> current_rows st pc
      | Some a \<Rightarrow> map (\<lambda>z. if ma_coordinate z = ma_coordinate a then picked_up item expired a else z) (current_rows st pc)) t = Inr r
    \<and> r \<le> stock - debit"
proof (cases assignment)
  case None
  with c e show ?thesis by (auto simp: check_lane_def split: if_split_asm)
next
  case (Some a)
  note a = some [OF Some]
  obtain n where n: "effectiveAllocation a t = Inr n" using sum_r_each [OF e [unfolded reserved_def]] a by blast
  note swap = sum_r_replace [OF rows_distinct [OF m] conjunct1 [OF a] refl, where f = "\<lambda>a. effectiveAllocation a t",
      OF n _ e [unfolded reserved_def], folded reserved_def]
  show ?thesis
  proof (cases "item_method item = ''pickup''")
    case False
    then have "stock - debit \<ge> e" using c by (simp add: check_lane_def split: if_split_asm)
    then show ?thesis using swap [of a n] n unfolding picked_same(6) [OF False] by (simp add: Some)
  next
    case True
    then obtain i where i: "ma_inventory a = Tracked i"
      using c Some by (cases "ma_inventory a") (auto simp: check_lane_def)
    note p = picked_effective [of a expired t n item i, OF _ _ _ n True i]
    show ?thesis
    proof (cases expired)
      case True
      then have "stock - debit \<ge> e" using c Some i \<open>item_method item = _\<close> by (simp add: check_lane_def split: if_split_asm)
      then show ?thesis using swap [of "picked_up item expired a" n] p(1) a True by (simp add: Some)
    next
      case False
      obtain h where h: "outstandingOrganizerStockHold a = Inr h" using n by (auto simp: effectiveAllocation_def bind_result_Inr)
      have "item_quantity item \<le> n - h" "e - item_quantity item \<le> stock - debit"
        using c Some i True False n h by (auto simp: check_lane_def split: if_split_asm)
      then show ?thesis using swap [of "picked_up item expired a" "n - item_quantity item"] p(2) [OF _ _ _ False h] a q False
        by (simp add: Some)
    qed
  qed
qed

lemma maps_ok_more:
  assumes m: "maps_ok db st" and st': "acc_db st' = acc_db st" "acc_products st' = acc_products st"
      "acc_assignments st' = acc_assignments st" "acc_output st' = acc_output st @ out"
  shows "maps_ok db st'"
  unfolding maps_ok_def
proof (intro conjI allI impI)
  fix k x assume "map_of (acc_assignments st') k = Some x"
  then have "map_of (acc_assignments st) k = Some x" by (simp add: st')
  with m have "ma_coordinate x = k \<and> opened st' (ma_productCoordinate x)
    \<and> (\<exists>b. table_get (merchantInventoryAssignments (acc_db st')) k = Some b
        \<and> x = b\<lparr>ma_inventory := ma_inventory x\<rparr> \<and> (x \<noteq> b \<longrightarrow> ma_inventory x \<noteq> Untracked \<and> picked_out st' k)
        \<and> (ma_inventory x = Untracked \<longleftrightarrow> ma_inventory b = Untracked))"
    by (rule maps_ok_assignment) (auto simp: st' opened_def picked_out_def)
  then show "ma_coordinate x = k" "opened st' (ma_productCoordinate x)"
    "\<exists>b. table_get (merchantInventoryAssignments (acc_db st')) k = Some b
      \<and> x = b\<lparr>ma_inventory := ma_inventory x\<rparr> \<and> (x \<noteq> b \<longrightarrow> ma_inventory x \<noteq> Untracked \<and> picked_out st' k)
      \<and> (ma_inventory x = Untracked \<longleftrightarrow> ma_inventory b = Untracked)" by blast+
next
  fix pc p assume "map_of (acc_products st') pc = Some p"
  then have "map_of (acc_products st) pc = Some p" by (simp add: st')
  with maps_ok_product_rows [OF m] show "\<exists>q. table_get (merchantInventoryProducts db) pc = Some q
      \<and> p = q\<lparr>mp_stock := mp_stock p\<rparr> \<and> (mp_stock p = None \<longleftrightarrow> mp_stock q = None)" by (elim allE impE)
qed (use maps_okD [OF m] in \<open>simp_all add: st'\<close>)

lemma maps_ok_stock:
  assumes m: "maps_ok db st" and prods: "map_of (acc_products st) pc = Some product" "mp_stock product \<noteq> None"
    and st': "acc_db st' = acc_db st" "acc_products st' = AList.update pc (product\<lparr>mp_stock := Some s\<rparr>) (acc_products st)"
      "acc_assignments st' = acc_assignments st" "acc_output st' = acc_output st @ out"
  shows "maps_ok db st'"
  unfolding maps_ok_def
proof (intro conjI allI impI)
  fix k x assume "map_of (acc_assignments st') k = Some x"
  then have "map_of (acc_assignments st) k = Some x" by (simp add: st')
  with m have "ma_coordinate x = k \<and> opened st' (ma_productCoordinate x)
    \<and> (\<exists>b. table_get (merchantInventoryAssignments (acc_db st')) k = Some b
        \<and> x = b\<lparr>ma_inventory := ma_inventory x\<rparr> \<and> (x \<noteq> b \<longrightarrow> ma_inventory x \<noteq> Untracked \<and> picked_out st' k)
        \<and> (ma_inventory x = Untracked \<longleftrightarrow> ma_inventory b = Untracked))"
    by (rule maps_ok_assignment) (auto simp: st' opened_def picked_out_def update_conv')
  then show "ma_coordinate x = k" "opened st' (ma_productCoordinate x)"
    "\<exists>b. table_get (merchantInventoryAssignments (acc_db st')) k = Some b
      \<and> x = b\<lparr>ma_inventory := ma_inventory x\<rparr> \<and> (x \<noteq> b \<longrightarrow> ma_inventory x \<noteq> Untracked \<and> picked_out st' k)
      \<and> (ma_inventory x = Untracked \<longleftrightarrow> ma_inventory b = Untracked)" by blast+
next
  fix k p assume p: "map_of (acc_products st') k = Some p"
  obtain q where q: "table_get (merchantInventoryProducts db) pc = Some q" "product = q\<lparr>mp_stock := mp_stock product\<rparr>"
    "mp_stock product = None \<longleftrightarrow> mp_stock q = None"
    using m prods(1) by (rule maps_ok_product)
  have same: "product\<lparr>mp_stock := Some s\<rparr> = q\<lparr>mp_stock := Some s\<rparr>" by (subst q(2)) simp
  show "\<exists>q. table_get (merchantInventoryProducts db) k = Some q \<and> p = q\<lparr>mp_stock := mp_stock p\<rparr>
      \<and> (mp_stock p = None \<longleftrightarrow> mp_stock q = None)"
  proof (cases "k = pc")
    case True
    then have "p = product\<lparr>mp_stock := Some s\<rparr>" using p by (simp add: st' update_conv')
    then show ?thesis using True prods(2) q(1,3) same by (intro exI [of _ q]) simp
  next
    case False
    then have "map_of (acc_products st) k = Some p" using p by (simp add: st' update_conv')
    with maps_ok_product_rows [OF m] show ?thesis by (elim allE impE)
  qed
qed (use maps_okD [OF m] in \<open>simp_all add: st' distinct_update\<close>)

text \<open>An assignment a line was picked up from.\<close>

lemma picked_in_map:
  assumes m: "maps_ok db st" and a: "a \<in> set (current_rows st pc)" "opened st pc"
    and out: "item_method item = ''pickup'' \<Longrightarrow> picked_out st (ma_coordinate a)"
    and st': "st' = st\<lparr>acc_assignments := AList.update (ma_coordinate a) (picked_up item expired a) (acc_assignments st)\<rparr>"
  shows "maps_ok db st'"
proof -
  obtain b where b: "b \<in> set (listMerchantInventoryAssignments (acc_db st) pc)" "a = current_assignment st b"
    using a(1) by (auto simp: current_rows_def)
  have g: "table_get (merchantInventoryAssignments (acc_db st)) (ma_coordinate b) = Some b"
    using b(1) listed [OF maps_okD(1) [OF m]] by simp
  have cb: "ma_coordinate a = ma_coordinate b" "ma_productCoordinate a = pc" "ma_inventory a = Untracked \<longleftrightarrow> ma_inventory b = Untracked"
    using current_row(1,2,4) [OF m b(1)] b(2) by simp_all
  have upd: "a = b\<lparr>ma_inventory := ma_inventory a\<rparr> \<and> (a \<noteq> b \<longrightarrow> ma_inventory a \<noteq> Untracked \<and> picked_out st (ma_coordinate a))"
  proof (cases "map_of (acc_assignments st) (ma_coordinate b)")
    case None
    then show ?thesis using b(2) by (simp add: current_assignment_def)
  next
    case (Some c)
    then have c: "c = a" using b(2) by (simp add: current_assignment_def)
    obtain x where x: "table_get (merchantInventoryAssignments (acc_db st)) (ma_coordinate b) = Some x" "c = x\<lparr>ma_inventory := ma_inventory c\<rparr>"
      "c \<noteq> x \<longrightarrow> ma_inventory c \<noteq> Untracked \<and> picked_out st (ma_coordinate b)"
      using m Some by (rule maps_ok_assignment) blast
    have "x = b" using x(1) g by simp
    then show ?thesis using x(2,3) unfolding c cb(1) by blast
  qed
  let ?a = "picked_up item expired a"
  have "?a = b\<lparr>ma_inventory := ma_inventory ?a\<rparr>" by (subst picked_same(5), subst upd [THEN conjunct1]) simp
  moreover have "?a \<noteq> b \<longrightarrow> ma_inventory ?a \<noteq> Untracked \<and> picked_out st (ma_coordinate a)"
  proof -
    have "?a = a \<or> item_method item = ''pickup'' \<and> ma_inventory a \<noteq> Untracked" using picked_same(6,7) by blast
    then show ?thesis
    proof
      assume "?a = a"
      then show ?thesis using upd by simp
    qed (use picked_same(4) out in simp)
  qed
  ultimately have row: "opened st (ma_productCoordinate ?a)
      \<and> (\<exists>b. table_get (merchantInventoryAssignments (acc_db st)) (ma_coordinate a) = Some b
          \<and> ?a = b\<lparr>ma_inventory := ma_inventory ?a\<rparr> \<and> (?a \<noteq> b \<longrightarrow> ma_inventory ?a \<noteq> Untracked \<and> picked_out st (ma_coordinate a))
          \<and> (ma_inventory ?a = Untracked \<longleftrightarrow> ma_inventory b = Untracked))"
  proof (intro conjI exI [of _ b])
    show "opened st (ma_productCoordinate ?a)" unfolding picked_same(2) cb(2) by (rule a(2))
    show "table_get (merchantInventoryAssignments (acc_db st)) (ma_coordinate a) = Some b" unfolding cb(1) by (rule g)
    show "ma_inventory ?a = Untracked \<longleftrightarrow> ma_inventory b = Untracked" unfolding picked_same(4) by (rule cb(3))
  qed
  show ?thesis by (rule maps_ok_put [OF m row picked_same(1) st'])
qed

lemma debited_line:
  assumes d: "debit_line st item product stock siblings assignment expired e t = Inr st'"
    and m: "maps_ok db st" and prods: "map_of (acc_products st) pc = Some product" "mp_stock product = Some stock"
    and pc: "pc = item_productCoordinate item" "siblings = listMerchantInventoryAssignments (acc_db st) pc"
    and e: "reserved (current_rows st pc) t = Inr e" and q: "1 \<le> item_quantity item"
    and none: "assignment = None \<Longrightarrow> \<not> expired"
    and some: "\<And>a. assignment = Some a \<Longrightarrow> a \<in> set (current_rows st pc) \<and> ma_productCoordinate a = pc
       \<and> item_assignmentCoordinate item = Some (ma_coordinate a) \<and> ma_state a = ''active'' \<and> \<not> ma_terminal a
       \<and> (expired \<longleftrightarrow> \<not> t < ma_occurrenceEndMs a)"
  defines "credited \<equiv> min (item_quantity item) (or_else (map_of (acc_consumed st) pc) 0)"
  defines "left \<equiv> stock - (item_quantity item - credited)"
  shows "maps_ok db st'" "rows_covered (Some left) (current_rows st' pc) t"
    "\<And>k. k \<noteq> pc \<Longrightarrow> current_rows st' k = current_rows st k"
    "acc_products st' = AList.update pc (product\<lparr>mp_stock := Some left\<rparr>) (acc_products st)"
    "acc_consumed st' = AList.update pc (or_else (map_of (acc_consumed st) pc) 0 - credited) (acc_consumed st)"
    "acc_db st' = acc_db st" "\<exists>asg. acc_output st' = acc_output st @ [item_output item (Some left) asg]"
proof -
  let ?asg = "map_option (picked_up item expired) assignment"
  have c: "check_lane item assignment expired stock (item_quantity item - credited) e t = Inr ()"
    and tracked: "\<not> list_ex (\<lambda>a. ma_state a = ''active'' \<and> ma_inventory a = Untracked) siblings"
    and st': "st' = st\<lparr>acc_products := AList.update pc (product\<lparr>mp_stock := Some left\<rparr>) (acc_products st),
      acc_assignments := (case ?asg of None \<Rightarrow> acc_assignments st | Some a \<Rightarrow> AList.update (ma_coordinate a) a (acc_assignments st)),
      acc_debited := (if item_quantity item - credited > 0 then mp_coordinate product # acc_debited st else acc_debited st),
      acc_consumed := AList.update pc (or_else (map_of (acc_consumed st) pc) 0 - credited) (acc_consumed st),
      acc_output := acc_output st @ [item_output item (Some left) ?asg]\<rparr>"
    using d unfolding debit_line_def Let_def pc(1) [symmetric] credited_def [symmetric] left_def [symmetric]
    by (auto simp: bind_result_Inr split: if_split_asm)
  show "acc_products st' = AList.update pc (product\<lparr>mp_stock := Some left\<rparr>) (acc_products st)"
    "acc_consumed st' = AList.update pc (or_else (map_of (acc_consumed st) pc) 0 - credited) (acc_consumed st)"
    "acc_db st' = acc_db st" "\<exists>asg. acc_output st' = acc_output st @ [item_output item (Some left) asg]"
    by (auto simp: st')
  have covers: "\<exists>r. reserved (case assignment of None \<Rightarrow> current_rows st pc
      | Some a \<Rightarrow> map (\<lambda>z. if ma_coordinate z = ma_coordinate a then picked_up item expired a else z) (current_rows st pc)) t = Inr r
    \<and> r \<le> left"
    unfolding left_def by (rule check_lane_covers [OF c q m e none]) (use some in auto)
  have o: "opened st pc" using prods(1) by (simp add: opened_def)
  have stock: "mp_stock product \<noteq> None" using prods(2) by simp
  let ?st = "st'\<lparr>acc_assignments := acc_assignments st\<rparr>"
  have m1: "maps_ok db ?st"
    by (rule maps_ok_stock [OF m prods(1) stock, where out = "[item_output item (Some left) ?asg]"]) (simp_all add: st')
  have rows1: "current_rows ?st k = current_rows st k" for k by (simp add: current_rows_def current_assignment_def st')
  have result: "maps_ok db st' \<and> current_rows st' pc = (case assignment of None \<Rightarrow> current_rows st pc
      | Some a \<Rightarrow> map (\<lambda>z. if ma_coordinate z = ma_coordinate a then picked_up item expired a else z) (current_rows st pc))
    \<and> (\<forall>k. k \<noteq> pc \<longrightarrow> current_rows st' k = current_rows st k)"
  proof (cases assignment)
    case None
    then have "st' = ?st" by (simp add: st')
    then show ?thesis using m1 rows1 None by simp
  next
    case (Some a)
    note a = some [OF Some]
    have st2: "st' = ?st\<lparr>acc_assignments := AList.update (ma_coordinate a) (picked_up item expired a) (acc_assignments ?st)\<rparr>"
      by (simp add: st' Some picked_same(1))
    have "maps_ok db st'"
      by (rule picked_in_map [OF m1 _ _ _ st2, where pc = pc])
        (use a o in \<open>simp_all add: rows1, simp_all add: st' opened_def update_conv' picked_out_def item_output_def\<close>)
    moreover have "current_rows st' pc = map (\<lambda>z. if ma_coordinate z = ma_coordinate a then picked_up item expired a else z) (current_rows st pc)"
      "k \<noteq> pc \<Longrightarrow> current_rows st' k = current_rows st k" for k
      by (rule put_picked [OF m conjunct1 [OF a] _ _ picked_same(1)]; simp add: st' Some picked_same(1))+
    ultimately show ?thesis by (simp add: Some)
  qed
  then show m': "maps_ok db st'" and "\<And>k. k \<noteq> pc \<Longrightarrow> current_rows st' k = current_rows st k" by blast+
  have "\<not> list_ex (\<lambda>a. ma_state a = ''active'' \<and> ma_inventory a = Untracked) (current_rows st' pc)"
  proof -
    have "acc_db st' = acc_db st" by (simp add: st')
    then have l: "listMerchantInventoryAssignments (acc_db st') pc = siblings" using pc(2) by simp
    show ?thesis using tracked current_row(3,4) [OF m', of _ pc] unfolding current_rows_def l
      by (auto simp: list_ex_iff)
  qed
  then show "rows_covered (Some left) (current_rows st' pc) t"
    using covers by (simp add: rows_covered_def result)
qed

subsection \<open>All lines\<close>

definition out_quantity :: "acceptance \<Rightarrow> js_string \<Rightarrow> int" where
  "out_quantity st pc = sum_list (map ai_quantity (filter (\<lambda>i. ai_productCoordinate i = pc) (acc_output st)))"

definition credit :: "(js_string \<times> int) list \<Rightarrow> js_string \<Rightarrow> int" where
  "credit consumed pc = or_else (map_of consumed pc) 0"

text \<open>What a product lost: the quantity of its lines, less the credit used up first.\<close>

definition accounts_ok :: "merchant_db \<Rightarrow> (js_string \<times> int) list \<Rightarrow> acceptance \<Rightarrow> bool" where
  "accounts_ok db consumed st \<longleftrightarrow>
     (\<forall>pc. 0 \<le> out_quantity st pc)
     \<and> (\<forall>pc. \<not> opened st pc \<longrightarrow> out_quantity st pc = 0 \<and> credit (acc_consumed st) pc = credit consumed pc)
     \<and> (\<forall>pc p q s. map_of (acc_products st) pc = Some p \<longrightarrow> table_get (merchantInventoryProducts db) pc = Some q
          \<longrightarrow> mp_stock q = Some s
          \<longrightarrow> credit (acc_consumed st) pc = credit consumed pc - min (out_quantity st pc) (credit consumed pc)
              \<and> mp_stock p = Some (s - (out_quantity st pc - min (out_quantity st pc) (credit consumed pc))))"

definition decision_ok :: "merchant_db \<Rightarrow> (js_string \<times> int) list \<Rightarrow> int \<Rightarrow> acceptance \<Rightarrow> bool" where
  "decision_ok db consumed t st \<longleftrightarrow>
     maps_ok db st \<and> (\<forall>pc. line_ok st t pc) \<and> accounts_ok db consumed st
     \<and> (\<forall>pc. \<not> opened st pc \<longrightarrow> current_rows st pc = listMerchantInventoryAssignments db pc)"

lemma out_quantity_snoc:
  "acc_output st' = acc_output st @ [i] \<Longrightarrow>
   out_quantity st' pc = out_quantity st pc + (if ai_productCoordinate i = pc then ai_quantity i else 0)"
  by (simp add: out_quantity_def)

lemma item_output_simps: "ai_productCoordinate (item_output item s a) = item_productCoordinate item"
  "ai_quantity (item_output item s a) = item_quantity item" "accepted_shape (item_output item s a) = item_shape item"
  by (simp_all add: item_output_def accepted_shape_def item_shape_def)

text \<open>An untracked product leaves its rows as they are.\<close>

lemma untracked_covered:
  assumes m: "maps_ok db st" and l: "some_r (\<lambda>a. bind_result (outstandingOrganizerStockHold a) (\<lambda>held.
      Inr (held > 0 \<or> (ma_state a = ''active'' \<and> ma_inventory a \<noteq> Untracked)))) (listMerchantInventoryAssignments (acc_db st) pc) = Inr False"
  shows "rows_covered None (current_rows st pc) t"
proof -
  have "some_r (\<lambda>a. bind_result (outstandingOrganizerStockHold a) (\<lambda>held.
      Inr (held > 0 \<or> (ma_state a = ''active'' \<and> ma_inventory a \<noteq> Untracked)))) (current_rows st pc)
    = some_r (\<lambda>a. bind_result (outstandingOrganizerStockHold a) (\<lambda>held.
      Inr (held > 0 \<or> (ma_state a = ''active'' \<and> ma_inventory a \<noteq> Untracked)))) (listMerchantInventoryAssignments (acc_db st) pc)"
    unfolding current_rows_def
    by (rule some_r_cong) (simp add: list_all2_map1 list_all2_same current_row(3-5) [OF m])
  with l show ?thesis by (simp add: rows_covered_def)
qed

lemma accept_item_ok:
  assumes a: "accept_item env inp t st item = Inr st'" and ok: "decision_ok db consumed t st"
    and q: "1 \<le> item_quantity item" and consumed: "\<And>pc. 0 \<le> credit consumed pc"
  shows "decision_ok db consumed t st'" "opened st' k \<longleftrightarrow> opened st k \<or> k = item_productCoordinate item"
    "map accepted_shape (acc_output st') = map accepted_shape (acc_output st) @ [item_shape item]"
    "merchantInventoryAcceptedOrders (acc_db st') = merchantInventoryAcceptedOrders (acc_db st)"
proof -
  define pc where "pc = item_productCoordinate item"
  obtain st1 product where o: "open_product env inp st item = Inr (st1, product)" using a by (auto simp: accept_item_def bind_result_Inr)
  define siblings where "siblings = listMerchantInventoryAssignments (acc_db st1) pc"
  obtain st2 assignment expired where p: "open_assignment st1 item siblings t = Inr (st2, assignment, expired)"
    using a o by (auto simp: accept_item_def bind_result_Inr Let_def siblings_def pc_def)
  obtain e where e: "reserved (map (current_assignment st2) siblings) t = Inr e"
    and rest: "(case mp_stock product of
       Some stock \<Rightarrow> debit_line st2 item product stock siblings assignment expired e t
     | None \<Rightarrow> bind_result (some_r (\<lambda>a. bind_result (outstandingOrganizerStockHold a) (\<lambda>held.
             Inr (held > 0 \<or> (ma_state a = ''active'' \<and> ma_inventory a \<noteq> Untracked)))) siblings) (\<lambda>mismatch.
         if mismatch then Inl ''Inventory tracking mismatch''
         else Inr (st2\<lparr>acc_output := acc_output st2 @ [item_output item None assignment]\<rparr>))) = Inr st'"
    using a o p unfolding siblings_def pc_def by (auto simp: accept_item_def bind_result_Inr Let_def)
  have m: "maps_ok db st" and lines: "\<And>k. line_ok st t k" and acc: "accounts_ok db consumed st" using ok by (simp_all add: decision_ok_def)
  note o1 = opened_product [OF o m, folded pc_def]
  have op: "opened st1 pc" using o1(2) by (simp add: opened_def)
  note p1 = opened_assignment [OF p o1(1) pc_def op siblings_def]
  have m2: "maps_ok db st2" by (rule p1(1))
  have db2: "acc_db st2 = acc_db st1" "acc_products st2 = acc_products st1" "acc_output st2 = acc_output st" "acc_consumed st2 = acc_consumed st"
    using p1(3) o1(8,9) by (metis acceptance.select_convs(1,2) acceptance.surjective acceptance.update_convs(3),
      metis acceptance.select_convs(2) acceptance.surjective acceptance.update_convs(3),
      metis acceptance.select_convs(6) acceptance.surjective acceptance.update_convs(3),
      metis acceptance.select_convs(5) acceptance.surjective acceptance.update_convs(3))
  have e2: "reserved (current_rows st2 pc) t = Inr e" using e by (simp add: current_rows_def siblings_def db2)
  have prods: "map_of (acc_products st2) pc = Some product" using o1(2) by (simp add: db2)
  have sib2: "siblings = listMerchantInventoryAssignments (acc_db st2) pc" by (simp add: siblings_def db2)
  obtain q0 where q0: "table_get (merchantInventoryProducts db) pc = Some q0" "product = q0\<lparr>mp_stock := mp_stock product\<rparr>"
    "mp_stock product = None \<longleftrightarrow> mp_stock q0 = None"
    using m2 prods by (rule maps_ok_product)
  have result: "maps_ok db st' \<and> (\<forall>k. k \<noteq> pc \<longrightarrow> current_rows st' k = current_rows st k)
    \<and> (\<exists>s a. acc_output st' = acc_output st @ [item_output item s a]) \<and> acc_db st' = acc_db st1
    \<and> (\<exists>product'. acc_products st' = AList.update pc product' (acc_products st1) \<and> rows_covered (mp_stock product') (current_rows st' pc) t
        \<and> (case mp_stock product of None \<Rightarrow> mp_stock product' = None \<and> acc_consumed st' = acc_consumed st
           | Some stock \<Rightarrow> (let credited = min (item_quantity item) (credit (acc_consumed st) pc) in
               mp_stock product' = Some (stock - (item_quantity item - credited))
               \<and> acc_consumed st' = AList.update pc (credit (acc_consumed st) pc - credited) (acc_consumed st))))"
  proof (cases "mp_stock product")
    case None
    then have un: "some_r (\<lambda>a. bind_result (outstandingOrganizerStockHold a) (\<lambda>held.
        Inr (held > 0 \<or> (ma_state a = ''active'' \<and> ma_inventory a \<noteq> Untracked)))) siblings = Inr False"
      and st': "st' = st2\<lparr>acc_output := acc_output st2 @ [item_output item None assignment]\<rparr>"
      using rest by (auto simp: bind_result_Inr split: if_split_asm)
    have rows: "current_rows st' k = current_rows st2 k" for k by (simp add: current_rows_def current_assignment_def st')
    have m': "maps_ok db st'" by (rule maps_ok_more [OF m2, where out = "[item_output item None assignment]"]) (simp_all add: st')
    have "rows_covered None (current_rows st2 pc) t" by (rule untracked_covered [OF m2 un [unfolded sib2]])
    moreover have "acc_products st' = AList.update pc product (acc_products st1)"
      using o1(2) by (simp add: st' db2 update_triv)
    ultimately show ?thesis using m' None rows p1(2) o1(5) by (auto simp: st' db2)
  next
    case (Some stock)
    then have d: "debit_line st2 item product stock siblings assignment expired e t = Inr st'" using rest by simp
    note l = debited_line [OF d m2 prods Some pc_def sib2 e2 q p1(4) p1(5)]
    show ?thesis
      using l p1(2) o1(5) by (auto simp: Some db2 credit_def Let_def)
  qed
  then obtain s x where out: "acc_output st' = acc_output st @ [item_output item s x]" by blast
  then show "map accepted_shape (acc_output st') = map accepted_shape (acc_output st) @ [item_shape item]"
    by (simp add: item_output_simps)
  show "merchantInventoryAcceptedOrders (acc_db st') = merchantInventoryAcceptedOrders (acc_db st)" using result o1(10) by simp
  obtain product' where p': "acc_products st' = AList.update pc product' (acc_products st1)"
    "rows_covered (mp_stock product') (current_rows st' pc) t"
    and stock': "case mp_stock product of None \<Rightarrow> mp_stock product' = None \<and> acc_consumed st' = acc_consumed st
       | Some stock \<Rightarrow> (let credited = min (item_quantity item) (credit (acc_consumed st) pc) in
           mp_stock product' = Some (stock - (item_quantity item - credited))
           \<and> acc_consumed st' = AList.update pc (credit (acc_consumed st) pc - credited) (acc_consumed st))"
    using result by blast
  have prods': "map_of (acc_products st') k = (if k = pc then Some product' else map_of (acc_products st) k)" for k
    using o1(4) by (simp add: p' update_conv')
  show op': "opened st' k \<longleftrightarrow> opened st k \<or> k = item_productCoordinate item" for k
    using prods' by (auto simp: opened_def pc_def)
  have "line_ok st' t k" for k
    using lines [of k] result p'(2) by (auto simp: line_ok_def prods' split: option.split)
  moreover have "accounts_ok db consumed st'"
    unfolding accounts_ok_def
  proof (intro conjI allI impI)
    note before = acc [unfolded accounts_ok_def]
    have more: "out_quantity st' k = out_quantity st k + (if k = pc then item_quantity item else 0)" for k
      by (simp add: out_quantity_snoc [OF out] item_output_simps pc_def)
    have other: "credit (acc_consumed st') k = credit (acc_consumed st) k" if "k \<noteq> pc" for k
      using stock' that by (auto simp: credit_def Let_def update_conv' split: option.split_asm)
    show "0 \<le> out_quantity st' k" for k using before q by (simp add: more)
    show "out_quantity st' k = 0" "credit (acc_consumed st') k = credit consumed k" if "\<not> opened st' k" for k
      using before that op' [of k] other [of k] by (auto simp: more pc_def)
    fix k p r s
    assume k: "map_of (acc_products st') k = Some p" "table_get (merchantInventoryProducts db) k = Some r" "mp_stock r = Some s"
    let ?c = "credit consumed k" and ?Q = "out_quantity st k"
    have "credit (acc_consumed st') k = ?c - min (out_quantity st' k) ?c
      \<and> mp_stock p = Some (s - (out_quantity st' k - min (out_quantity st' k) ?c))"
    proof (cases "k = pc")
      case False
      then show ?thesis using before k prods' [of k] other [of k] by (simp add: more)
    next
      case True
      have now: "credit (acc_consumed st) pc = ?c - min ?Q ?c" "mp_stock product = Some (s - (?Q - min ?Q ?c))"
      proof -
        have "r = q0" using k(2) q0(1) True by simp
        have "credit (acc_consumed st) pc = ?c - min ?Q ?c \<and> mp_stock product = Some (s - (?Q - min ?Q ?c))"
        proof (cases "opened st pc")
          case True
          then have "map_of (acc_products st) pc = Some product" using o1(2,12) by simp
          then show ?thesis using before k(2,3) \<open>k = pc\<close> by blast
        next
          case False
          then have "product = r" using o1(11) k(2) \<open>k = pc\<close> by simp
          then show ?thesis using before False k(3) consumed [of pc] \<open>k = pc\<close> by simp
        qed
        then show "credit (acc_consumed st) pc = ?c - min ?Q ?c" "mp_stock product = Some (s - (?Q - min ?Q ?c))" by simp_all
      qed
      have p: "p = product'" using k(1) prods' True by simp
      have Q: "0 \<le> ?Q" "0 \<le> ?c" using before consumed by simp_all
      from stock' now have s': "mp_stock p = Some (s - (?Q - min ?Q ?c) - (item_quantity item - min (item_quantity item) (?c - min ?Q ?c)))"
        "credit (acc_consumed st') pc = ?c - min ?Q ?c - min (item_quantity item) (?c - min ?Q ?c)"
        by (simp_all add: p Let_def credit_def update_conv')
      have "min ?Q ?c + min (item_quantity item) (?c - min ?Q ?c) = min (?Q + item_quantity item) ?c"
        using Q q by (simp add: min_def)
      then show ?thesis using s' True by (simp add: more)
    qed
    then show "credit (acc_consumed st') k = ?c - min (out_quantity st' k) ?c"
      "mp_stock p = Some (s - (out_quantity st' k - min (out_quantity st' k) ?c))" by simp_all
  qed
  moreover have "current_rows st' k = listMerchantInventoryAssignments db k" if "\<not> opened st' k" for k
    using that op' [of k] result ok by (simp add: decision_ok_def pc_def)
  ultimately show "decision_ok db consumed t st'" using result by (simp add: decision_ok_def)
qed

lemma accept_all_ok:
  assumes "accept_items_in_turn env inp t st items = Inr st'" "decision_ok db consumed t st"
    and "\<forall>item \<in> set items. 1 \<le> item_quantity item" "\<And>pc. 0 \<le> credit consumed pc"
  shows "decision_ok db consumed t st' \<and> (\<forall>k. opened st' k \<longleftrightarrow> opened st k \<or> k \<in> item_productCoordinate ` set items)
    \<and> map accepted_shape (acc_output st') = map accepted_shape (acc_output st) @ map item_shape items
    \<and> merchantInventoryAcceptedOrders (acc_db st') = merchantInventoryAcceptedOrders (acc_db st)"
  using assms
proof (induction items arbitrary: st)
  case (Cons item items)
  then obtain st1 where 1: "accept_item env inp t st item = Inr st1" "accept_items_in_turn env inp t st1 items = Inr st'"
    by (auto simp: bind_result_Inr)
  have "1 \<le> item_quantity item" using Cons.prems(3) by simp
  note a = accept_item_ok [OF 1(1) Cons.prems(2) this Cons.prems(4)]
  have "\<forall>item \<in> set items. 1 \<le> item_quantity item" using Cons.prems(3) by simp
  from Cons.IH [OF 1(2) a(1) this Cons.prems(4)] a(2-4) show ?case by auto
qed simp

lemma begin_ok: "rows_addressed db \<Longrightarrow> decision_ok db consumed t (begin_acceptance db consumed)"
proof -
  assume "rows_addressed db"
  moreover have "current_rows (begin_acceptance db consumed) pc = listMerchantInventoryAssignments db pc" for pc
    unfolding current_rows_def by (simp add: current_assignment_def begin_acceptance_def map_idI)
  ultimately show ?thesis
    by (simp add: decision_ok_def maps_ok_def line_ok_def accounts_ok_def out_quantity_def opened_def)
      (simp add: begin_acceptance_def)
qed

subsection \<open>The rows that are written\<close>

text \<open>The row of an assignment after the decision.\<close>

definition settle :: "accept_input \<Rightarrow> int \<Rightarrow> acceptance \<Rightarrow> MerchantInventoryAssignment \<Rightarrow> MerchantInventoryAssignment" where
  "settle inp t st a =
     (case map_of (acc_assignments st) (ma_coordinate a) of
        Some x \<Rightarrow> if picked_assignment st x then settled_assignment inp t x else a
      | None \<Rightarrow> a)"

lemma settled_alike: "alike (settled_assignment inp t x) x" "ma_coordinate (settled_assignment inp t x) = ma_coordinate x"
  by (simp_all add: settled_assignment_def alike_def Let_def)

lemma settle_alike:
  assumes m: "maps_ok db st" and a: "table_get (merchantInventoryAssignments (acc_db st)) (ma_coordinate a) = Some a"
  shows "alike (settle inp t st a) (current_assignment st a)" "ma_coordinate (settle inp t st a) = ma_coordinate a"
    "ma_productCoordinate (settle inp t st a) = ma_productCoordinate a"
proof -
  have "alike (settle inp t st a) (current_assignment st a) \<and> ma_coordinate (settle inp t st a) = ma_coordinate a
    \<and> ma_productCoordinate (settle inp t st a) = ma_productCoordinate a"
  proof (cases "map_of (acc_assignments st) (ma_coordinate a)")
    case None
    then show ?thesis by (simp add: settle_def current_assignment_def alike_def)
  next
    case (Some x)
    obtain b where b: "table_get (merchantInventoryAssignments (acc_db st)) (ma_coordinate a) = Some b"
      "x \<noteq> b \<Longrightarrow> ma_inventory x \<noteq> Untracked \<and> picked_out st (ma_coordinate a)" "ma_coordinate x = ma_coordinate a"
      "ma_productCoordinate b = ma_productCoordinate x"
      using m Some by (rule maps_ok_assignment) blast
    then have ba: "b = a" using a by simp
    have current: "current_assignment st a = x" by (simp add: current_assignment_def Some)
    show ?thesis
    proof (cases "picked_assignment st x")
      case True
      then have "settle inp t st a = settled_assignment inp t x" by (simp add: settle_def Some)
      then show ?thesis
        using settled_alike [of inp t x] b(3,4) unfolding current ba by (simp add: alike_def)
    next
      case False
      have "x = a"
      proof (rule ccontr)
        assume "x \<noteq> a"
        with b(2) ba have "ma_inventory x \<noteq> Untracked \<and> picked_out st (ma_coordinate a)" by blast
        with False show False by (simp add: picked_assignment_def picked_out_def b(3))
      qed
      moreover have "settle inp t st a = a" using False by (simp add: settle_def Some)
      ultimately show ?thesis unfolding current by (simp add: alike_def)
    qed
  qed
  then show "alike (settle inp t st a) (current_assignment st a)" "ma_coordinate (settle inp t st a) = ma_coordinate a"
    "ma_productCoordinate (settle inp t st a) = ma_productCoordinate a" by simp_all
qed

lemma find_map_of:
  assumes "distinct (map fst xs)" "\<And>k a. map_of xs k = Some a \<Longrightarrow> key a = k"
  shows "List.find (\<lambda>x. key (snd x) = k) (filter (\<lambda>(_, a). P a) xs)
    = (case map_of xs k of Some a \<Rightarrow> if P a then Some (k, a) else None | None \<Rightarrow> None)"
  using assms
proof (induction xs)
  case (Cons x xs)
  obtain k0 a0 where x: "x = (k0, a0)" by (cases x)
  have k0: "key a0 = k0" "k0 \<notin> fst ` set xs" using Cons.prems x by auto
  have "key a = k'" if "map_of xs k' = Some a" for k' a
  proof -
    have "k' \<noteq> k0" using that k0(2) by (auto dest: map_of_SomeD intro: image_eqI [where x = "(k', a)"])
    then show ?thesis using Cons.prems(2) [of k' a] that by (simp add: x)
  qed
  with Cons have IH: "List.find (\<lambda>x. key (snd x) = k) (filter (\<lambda>(_, a). P a) xs)
    = (case map_of xs k of Some a \<Rightarrow> if P a then Some (k, a) else None | None \<Rightarrow> None)" by simp
  have "map_of xs k0 = None" using k0(2) by (simp add: map_of_eq_None_iff)
  then show ?case using IH k0(1) by (auto simp: x)
qed simp

lemma put_assignments_rows:
  assumes m: "maps_ok db st" and d: "merchantInventoryAssignments d = merchantInventoryAssignments (acc_db st)"
  shows "merchantInventoryAssignments (put_assignments inp t st d)
    = map (\<lambda>(k, a). (k, settle inp t st a)) (merchantInventoryAssignments (acc_db st))"
proof (rule keyed_map)
  let ?T = "merchantInventoryAssignments (acc_db st)" and ?xs = "filter (\<lambda>(_, a). picked_assignment st a) (acc_assignments st)"
  have r: "rows_addressed (acc_db st)" by (rule maps_okD(1) [OF m])
  then show "table_keyed ?T" by (simp add: rows_addressed_def)
  have put: "merchantInventoryAssignments (put_assignments inp t st d)
      = fold (\<lambda>x. table_put (ma_coordinate (snd x)) (settled_assignment inp t (snd x))) ?xs ?T"
    by (simp add: put_assignments_def d case_prod_unfold)
  show "table_keyed (merchantInventoryAssignments (put_assignments inp t st d))"
    unfolding put by (rule fold_put_keyed [OF \<open>table_keyed ?T\<close>])
  have key: "map_of (acc_assignments st) k = Some a \<Longrightarrow> ma_coordinate a = k" for k a
    using m by (rule maps_ok_assignment)
  have "distinct (map (\<lambda>x. ma_coordinate (snd x)) ?xs)"
  proof -
    have "map (\<lambda>x. ma_coordinate (snd x)) (acc_assignments st) = map fst (acc_assignments st)"
      using key maps_okD(4) [OF m] by auto
    with maps_okD(4) [OF m] show ?thesis by (metis distinct_map_filter)
  qed
  note get = table_get_fold_put [OF this, of "\<lambda>x. settled_assignment inp t (snd x)" ?T, folded put]
  show "table_get (merchantInventoryAssignments (put_assignments inp t st d)) k = map_option (settle inp t st) (table_get ?T k)" for k
  proof (cases "table_get ?T k")
    case None
    have "map_of (acc_assignments st) k = None"
      using None m by (metis maps_ok_assignment option.distinct(1) option.exhaust)
    then show ?thesis
      using None get [of k] find_map_of [where key = ma_coordinate and k = k and P = "picked_assignment st", OF maps_okD(4) [OF m] key] by simp
  next
    case (Some a)
    then have "ma_coordinate a = k" using r by (simp add: rows_addressed_def)
    then show ?thesis
      using Some get [of k] find_map_of [where key = ma_coordinate and k = k and P = "picked_assignment st", OF maps_okD(4) [OF m] key]
      by (simp add: settle_def split: option.split)
  qed
qed

lemma put_products_get:
  assumes m: "maps_ok db st" and r: "rows_addressed db" and d: "merchantInventoryProducts d = merchantInventoryProducts db"
  shows "table_get (merchantInventoryProducts (put_products inp t st d)) k
    = (case map_of (acc_products st) k of Some p \<Rightarrow> Some (settled_product inp t st p) | None \<Rightarrow> table_get (merchantInventoryProducts db) k)"
    "table_keyed (merchantInventoryProducts (put_products inp t st d))"
proof -
  have key: "mp_coordinate p = k" if p: "map_of (acc_products st) k = Some p" for k p
  proof -
    obtain q where q: "table_get (merchantInventoryProducts db) k = Some q" "p = q\<lparr>mp_stock := mp_stock p\<rparr>"
      using m p by (rule maps_ok_product) blast
    then have "mp_coordinate q = k" using r by (simp add: rows_addressed_def)
    then show ?thesis by (subst q(2)) simp
  qed
  have put: "merchantInventoryProducts (put_products inp t st d)
      = fold (\<lambda>x. table_put (mp_coordinate (snd x)) (settled_product inp t st (snd x))) (acc_products st) (merchantInventoryProducts db)"
    by (simp add: put_products_def d case_prod_unfold)
  show "table_keyed (merchantInventoryProducts (put_products inp t st d))"
    unfolding put by (rule fold_put_keyed) (use r in \<open>simp add: rows_addressed_def\<close>)
  have "map (\<lambda>x. mp_coordinate (snd x)) (acc_products st) = map fst (acc_products st)" using key maps_okD(3) [OF m] by auto
  with maps_okD(3) [OF m] have "distinct (map (\<lambda>x. mp_coordinate (snd x)) (acc_products st))" by (simp only:)
  note get = table_get_fold_put [OF this, of "\<lambda>x. settled_product inp t st (snd x)" "merchantInventoryProducts db" k, folded put]
  show "table_get (merchantInventoryProducts (put_products inp t st d)) k
    = (case map_of (acc_products st) k of Some p \<Rightarrow> Some (settled_product inp t st p) | None \<Rightarrow> table_get (merchantInventoryProducts db) k)"
    using get find_map_of [where key = mp_coordinate and k = k and P = "\<lambda>_. True", OF maps_okD(3) [OF m] key]
    by (auto split: option.split_asm option.split)
qed

lemma already_consumed_within:
  "already_consumed q found as = Inr (Some n) \<Longrightarrow> (\<And>m. found = Some m \<Longrightarrow> 0 \<le> m \<and> m \<le> q) \<Longrightarrow> 0 \<le> n \<and> n \<le> q"
proof (induction as arbitrary: found)
  case (Cons a as)
  let ?n = "if adjusted_custom a then q else q - adjusted_shortfall a"
  from Cons.prems(1) have "already_consumed q (Some ?n) as = Inr (Some n)" "0 \<le> ?n \<and> ?n \<le> q"
    by (auto simp: Let_def split: if_split_asm)
  then show ?case by (intro Cons.IH [of "Some ?n"]) auto
qed simp

text \<open>The part of an order an earlier owner of the stock already debited.\<close>

definition credited_stock :: "merchant_db \<Rightarrow> accept_input \<Rightarrow> js_string \<Rightarrow> int" where
  "credited_stock db inp pc =
     (case already_consumed (ordered_quantity (accept_items inp) pc) None (prior_adjustments db inp pc) of
        Inr found \<Rightarrow> or_else found 0 | Inl _ \<Rightarrow> 0)"

lemma consumed_credit:
  assumes "consumed_stock db inp cs = Inr consumed"
  shows "credit consumed pc = (if pc \<in> set cs then credited_stock db inp pc else 0)"
  using assms
  by (induction cs arbitrary: consumed) (auto simp: bind_result_Inr credit_def credited_stock_def)

lemma credited_within:
  assumes "\<forall>item \<in> set (accept_items inp). 1 \<le> item_quantity item"
  shows "0 \<le> credited_stock db inp pc" "credited_stock db inp pc \<le> ordered_quantity (accept_items inp) pc"
proof -
  have q: "0 \<le> ordered_quantity (accept_items inp) pc"
    unfolding ordered_quantity_def using assms by (intro sum_list_nonneg) force
  have n: "0 \<le> n \<and> n \<le> ordered_quantity (accept_items inp) pc"
    if "already_consumed (ordered_quantity (accept_items inp) pc) None (prior_adjustments db inp pc) = Inr (Some n)" for n
    using that by (rule already_consumed_within) simp
  have "0 \<le> credited_stock db inp pc \<and> credited_stock db inp pc \<le> ordered_quantity (accept_items inp) pc"
  proof (cases "already_consumed (ordered_quantity (accept_items inp) pc) None (prior_adjustments db inp pc)")
    case (Inr found)
    with q n show ?thesis by (cases found) (auto simp: credited_stock_def)
  qed (simp add: credited_stock_def q)
  then show "0 \<le> credited_stock db inp pc" "credited_stock db inp pc \<le> ordered_quantity (accept_items inp) pc" by simp_all
qed

lemma check_all_each: "check_all check xs = Inr () \<Longrightarrow> x \<in> set xs \<Longrightarrow> check x = Inr ()"
  by (induction xs) (auto simp: bind_result_Inr)

lemma first_occurrences_set: "set (first_occurrences xs) = set xs"
  by (simp add: first_occurrences_def)

text \<open>What a fresh acceptance did.\<close>

lemma accepted_fresh:
  assumes a: "acceptMerchantInventoryOrder env db inp continues t = Inr (db', False, order)" and r: "rows_addressed db"
  obtains consumed st where "decision_ok db consumed t st" "order = accepted_order inp t st"
    "\<And>k. opened st k \<longleftrightarrow> k \<in> item_productCoordinate ` set (accept_items inp)"
    "map accepted_shape (acc_output st) = map item_shape (accept_items inp)"
    "\<And>pc. pc \<in> item_productCoordinate ` set (accept_items inp) \<Longrightarrow> credit consumed pc = credited_stock db inp pc"
    "\<forall>item \<in> set (accept_items inp). 1 \<le> item_quantity item"
    "merchantInventoryProducts db' = merchantInventoryProducts (put_products inp t st (acc_db st))"
    "merchantInventoryAssignments db' = merchantInventoryAssignments (put_assignments inp t st (acc_db st))"
    "merchantInventoryAcceptedOrders db' = table_put (accept_orderId inp) order (merchantInventoryAcceptedOrders db)"
    "table_get (merchantInventoryAcceptedOrders db) (accept_orderId inp) = None" "continues"
    "accept_items_in_turn env inp t (begin_acceptance db consumed) (accept_items inp) = Inr st"
proof -
  have checks: "check_all check_item (accept_items inp) = Inr ()" "continues"
    "table_get (merchantInventoryAcceptedOrders db) (accept_orderId inp) = None"
    using a by (auto simp: acceptMerchantInventoryOrder_def bind_result_Inr split: if_split_asm option.split_asm)
  then obtain consumed st where c: "consumed_stock db inp (first_occurrences (map item_productCoordinate (accept_items inp))) = Inr consumed"
    "accept_items_in_turn env inp t (begin_acceptance db consumed) (accept_items inp) = Inr st"
    "order = accepted_order inp t st"
    "db' = (put_assignments inp t st (put_products inp t st (acc_db st)))\<lparr>merchantInventoryAcceptedOrders :=
        table_put (accept_orderId inp) order (merchantInventoryAcceptedOrders (put_assignments inp t st (put_products inp t st (acc_db st))))\<rparr>"
    using a by (auto simp: acceptMerchantInventoryOrder_def bind_result_Inr Let_def)
  have q: "\<forall>item \<in> set (accept_items inp). 1 \<le> item_quantity item"
  proof
    fix item assume "item \<in> set (accept_items inp)"
    from check_all_each [OF checks(1) this] show "1 \<le> item_quantity item" by (simp add: check_item_def split: if_split_asm)
  qed
  have credits: "credit consumed pc = (if pc \<in> item_productCoordinate ` set (accept_items inp) then credited_stock db inp pc else 0)" for pc
    using consumed_credit [OF c(1)] by (simp add: first_occurrences_set)
  then have "0 \<le> credit consumed pc" for pc using credited_within(1) [OF q] by simp
  from accept_all_ok [OF c(2) begin_ok [OF r] q this]
  have d: "decision_ok db consumed t st" "\<And>k. opened st k \<longleftrightarrow> k \<in> item_productCoordinate ` set (accept_items inp)"
    "map accepted_shape (acc_output st) = map item_shape (accept_items inp)"
    "merchantInventoryAcceptedOrders (acc_db st) = merchantInventoryAcceptedOrders db"
    by (auto simp: begin_acceptance_def opened_def)
  show ?thesis
    by (rule that [OF d(1) c(3) d(2,3) _ q _ _ _ _ _ c(2)]) (use c(4) d(4) checks credits in \<open>simp_all add: put_assignments_def put_products_def\<close>)
qed

lemma covered_alike:
  assumes "list_all2 alike as bs"
  shows "rows_covered stock as t \<longleftrightarrow> rows_covered stock bs t"
proof -
  let ?p = "\<lambda>a. bind_result (outstandingOrganizerStockHold a) (\<lambda>held. Inr (held > 0 \<or> (ma_state a = ''active'' \<and> ma_inventory a \<noteq> Untracked)))"
  have "list_ex (\<lambda>a. ma_state a = ''active'' \<and> ma_inventory a = Untracked) as
      = list_ex (\<lambda>a. ma_state a = ''active'' \<and> ma_inventory a = Untracked) bs"
    using assms by (induction as bs rule: list_all2_induct) (auto simp: alike_def)
  moreover have "some_r ?p as = some_r ?p bs"
    by (rule some_r_cong, rule list_all2_mono [OF assms]) (simp add: alike_outstanding, simp add: alike_def)
  ultimately show ?thesis using alike_reserved [OF assms] by (simp add: rows_covered_def split: option.split)
qed

lemma covered_antimono: "rows_covered stock rows t \<Longrightarrow> t \<le> u \<Longrightarrow> rows_covered stock rows u"
  using reserved_antimono by (fastforce simp: rows_covered_def split: option.splits)

text \<open>The tables after a fresh acceptance.\<close>

lemma accepted_rows:
  assumes d: "decision_ok db consumed t st" and r: "rows_addressed db"
    and db': "merchantInventoryProducts db' = merchantInventoryProducts (put_products inp t st (acc_db st))"
      "merchantInventoryAssignments db' = merchantInventoryAssignments (put_assignments inp t st (acc_db st))"
  shows "rows_addressed db'" "list_all2 alike (listMerchantInventoryAssignments db' pc) (current_rows st pc)"
    "table_get (merchantInventoryProducts db') pc
      = (case map_of (acc_products st) pc of Some p \<Rightarrow> Some (settled_product inp t st p) | None \<Rightarrow> table_get (merchantInventoryProducts db) pc)"
proof -
  have m: "maps_ok db st" using d by (simp add: decision_ok_def)
  have ra: "rows_addressed (acc_db st)" by (rule maps_okD(1) [OF m])
  note prods = put_products_get [OF m r maps_okD(2) [OF m], of inp t, folded db'(1)]
  show "table_get (merchantInventoryProducts db') pc
      = (case map_of (acc_products st) pc of Some p \<Rightarrow> Some (settled_product inp t st p) | None \<Rightarrow> table_get (merchantInventoryProducts db) pc)"
    by (rule prods(1))
  have rows: "merchantInventoryAssignments db' = map (\<lambda>(k, a). (k, settle inp t st a)) (merchantInventoryAssignments (acc_db st))"
    unfolding db'(2) by (rule put_assignments_rows [OF m refl])
  have get: "table_get (merchantInventoryAssignments db') k = map_option (settle inp t st) (table_get (merchantInventoryAssignments (acc_db st)) k)" for k
  proof -
    have "map_of (map (\<lambda>(k, a). (k, f a)) xs) k = map_option f (map_of xs k)" for f :: "MerchantInventoryAssignment \<Rightarrow> MerchantInventoryAssignment" and xs
      by (induction xs) auto
    then show ?thesis unfolding rows table_get_def by simp
  qed
  have each: "table_get (merchantInventoryAssignments (acc_db st)) (ma_coordinate a) = Some a" if "a \<in> set (table_rows (merchantInventoryAssignments (acc_db st)))" for a
    using that ra by (auto simp: rows_addressed_def table_get_rows)
  have settled: "table_rows (merchantInventoryAssignments db') = map (settle inp t st) (table_rows (merchantInventoryAssignments (acc_db st)))"
    by (simp add: rows table_rows_def o_def case_prod_unfold)
  have list: "listMerchantInventoryAssignments db' pc = map (settle inp t st) (listMerchantInventoryAssignments (acc_db st) pc)"
    unfolding listMerchantInventoryAssignments_def settled filter_map
    by (rule arg_cong [where f = "map _"], rule filter_cong [OF refl]) (simp add: settle_alike(3) [OF m each])
  show "list_all2 alike (listMerchantInventoryAssignments db' pc) (current_rows st pc)"
    unfolding list current_rows_def list_all2_map1 list_all2_map2
    by (rule list.rel_refl_strong) (use settle_alike(1) [OF m] listed [OF ra] in blast)
  have "table_keyed (merchantInventoryAssignments db')"
    using ra by (simp add: rows rows_addressed_def table_keyed_def o_def case_prod_unfold)
  moreover have "ma_coordinate a = k" if row: "table_get (merchantInventoryAssignments db') k = Some a" for k a
  proof -
    obtain b where b: "table_get (merchantInventoryAssignments (acc_db st)) k = Some b" "a = settle inp t st b"
      using row get [of k] by auto
    then have "ma_coordinate b = k" using ra by (simp add: rows_addressed_def)
    with b settle_alike(2) [OF m, of b inp t] show ?thesis by simp
  qed
  moreover have "mp_coordinate p = k \<and> k \<noteq> []" if "table_get (merchantInventoryProducts db') k = Some p" for k p
  proof (cases "map_of (acc_products st) k")
    case None
    then show ?thesis using that prods(1) [of k] r by (simp add: rows_addressed_def)
  next
    case (Some x)
    obtain q where q: "table_get (merchantInventoryProducts db) k = Some q" "x = q\<lparr>mp_stock := mp_stock x\<rparr>"
      using m Some by (rule maps_ok_product) blast
    have "mp_coordinate x = mp_coordinate q" by (subst q(2)) simp
    then show ?thesis using that prods(1) [of k] Some q(1) r by (auto simp: rows_addressed_def settled_product_def Let_def)
  qed
  ultimately show "rows_addressed db'" using prods(2) by (simp add: rows_addressed_def)
qed

end
