(* ===== verification/Publication_Chain.thy ===== *)
theory Publication_Chain
  imports Merchant_Publication Acceptance_Accounts
begin

text \<open>
  The queue of an address as a chain: revisions grow, a job is drafted only after every earlier job was
  signed, and it is dated after all of them; each step of the queue keeps this.
\<close>

subsection \<open>Chained jobs\<close>

definition job_times :: "MerchantInventoryPublicationJob \<Rightarrow> int list" where
  "job_times j =
     (case job_draft j of None \<Rightarrow> [] | Some d \<Rightarrow> [created_at d])
     @ (case job_signedEvent j of None \<Rightarrow> [] | Some e \<Rightarrow> [created_at e])"

definition job_follows :: "MerchantInventoryPublicationJob \<Rightarrow> MerchantInventoryPublicationJob \<Rightarrow> bool" where
  "job_follows j k \<longleftrightarrow>
     job_revision j < job_revision k \<and> (\<forall>t \<in> set (job_times k). \<exists>e. job_signedEvent j = Some e \<and> created_at e < t)"

definition job_sound :: "MerchantInventoryPublicationJob \<Rightarrow> bool" where
  "job_sound j \<longleftrightarrow>
     (is_pending j \<longleftrightarrow> job_signedEvent j = None) \<and> (\<forall>e. job_signedEvent j = Some e \<longrightarrow> job_draft j = Some (unsigned_part e))"

definition jobs_chained :: "MerchantInventoryPublicationJob list \<Rightarrow> bool" where
  "jobs_chained jobs \<longleftrightarrow> sorted_wrt job_follows jobs \<and> list_all job_sound jobs"

lemma jobs_chained_Nil [simp]: "jobs_chained []"
  by (simp add: jobs_chained_def)

lemma chained_new:
  assumes "jobs_chained jobs" "\<forall>j \<in> set jobs. job_revision j \<le> r" "job_revision w = r + 1" "is_pending w"
    "job_draft w = None" "job_signedEvent w = None"
  shows "jobs_chained (jobs @ [w])"
  using assms by (auto simp: jobs_chained_def sorted_wrt_append job_follows_def job_times_def job_sound_def)

text \<open>The job found is changed; the others stay.\<close>

lemma update_found:
  "List.find p xs = Some x
   \<Longrightarrow> \<exists>ys zs. xs = ys @ x # zs \<and> (\<forall>y \<in> set ys. \<not> p y) \<and> p x \<and> (\<forall>f. update_first p f xs = ys @ f x # zs)"
proof (induction xs)
  case (Cons a xs)
  show ?case
  proof (cases "p a")
    case True
    with Cons.prems show ?thesis by (intro exI [of _ "[]"] exI [of _ xs]) simp
  next
    case False
    with Cons obtain ys zs where "xs = ys @ x # zs" "\<forall>y \<in> set ys. \<not> p y" "p x" "\<forall>f. update_first p f xs = ys @ f x # zs" by auto
    with False show ?thesis by (intro exI [of _ "a # ys"] exI [of _ zs]) simp
  qed
qed simp

lemma newest_first_head:
  assumes "newest_first env a b \<le> 0"
  shows "created_at b \<le> created_at a"
  using assms by (auto simp: newest_first_def Let_def split: if_split_asm)

lemma insert_newest:
  "sorted_wrt (\<lambda>a b. created_at b \<le> created_at a) xs
   \<Longrightarrow> sorted_wrt (\<lambda>a b. created_at b \<le> created_at a) (insert_by (newest_first env) x xs)"
proof (induction xs)
  case (Cons y ys)
  show ?case
  proof (cases "newest_first env x y \<le> 0")
    case True
    from newest_first_head [OF this] Cons.prems True show ?thesis by auto
  next
    case False
    then have "created_at x \<le> created_at y" by (auto simp: newest_first_def Let_def split: if_split_asm)
    with False Cons show ?thesis by auto
  qed
qed simp

lemma sort_newest: "sorted_wrt (\<lambda>a b. created_at b \<le> created_at a) (js_sort (newest_first env) xs)"
  by (induction xs) (simp_all add: js_sort_def insert_newest)

lemma newest_predecessor_bounds:
  assumes "j \<in> set (previous_jobs r pending)" "job_signedEvent j = Some e"
  shows "\<exists>x. newest_predecessor env r pending = Some x \<and> created_at e \<le> created_at x"
proof -
  let ?xs = "List.map_filter job_signedEvent (previous_jobs r pending) @ (case newest_signed r of None \<Rightarrow> [] | Some e \<Rightarrow> [e])"
  have "e \<in> set (js_sort (newest_first env) ?xs)"
    using assms by (force simp: map_filter_def)
  then show ?thesis using sort_newest [of env ?xs]
    by (cases "js_sort (newest_first env) ?xs") (auto simp: newest_predecessor_def)
qed

lemma drafted_later:
  assumes "make_draft env r work (Some x) = Inr d"
  shows "created_at x < created_at d"
  using assms by (cases r) (auto simp: makeProductDraft_def makeAssignmentDraft_def bind_result_Inr split: option.split_asm)

text \<open>A job in the middle of a chain may change its own times after all before it.\<close>

lemma chained_split:
  "jobs_chained (ys @ x # zs) \<longleftrightarrow>
     jobs_chained ys \<and> jobs_chained zs \<and> job_sound x \<and> (\<forall>y \<in> set ys. job_follows y x) \<and> (\<forall>z \<in> set zs. job_follows x z)
     \<and> (\<forall>y \<in> set ys. \<forall>z \<in> set zs. job_follows y z)"
  by (auto simp: jobs_chained_def sorted_wrt_append)

lemma chained_change:
  assumes c: "jobs_chained (ys @ x # zs)" and s: "job_sound x'" and r: "job_revision x' = job_revision x"
    and signed: "job_signedEvent x = None \<or> job_signedEvent x' = job_signedEvent x"
    and times: "\<And>y t. y \<in> set ys \<Longrightarrow> t \<in> set (job_times x') \<Longrightarrow> \<exists>e. job_signedEvent y = Some e \<and> created_at e < t"
  shows "jobs_chained (ys @ x' # zs)"
proof -
  have "job_follows x' z" if z: "z \<in> set zs" for z
  proof -
    have "job_follows x z" using c z by (simp add: chained_split)
    then show ?thesis using signed by (auto simp: job_follows_def r)
  qed
  moreover have "job_follows y x'" if y: "y \<in> set ys" for y
  proof -
    have "job_follows y x" using c y by (simp add: chained_split)
    then show ?thesis using times [OF y] by (simp add: job_follows_def r)
  qed
  ultimately show ?thesis using c s by (simp add: chained_split)
qed

text \<open>The job before which everything is signed.\<close>

lemma previous_of:
  assumes "jobs_chained (publication_jobs r)" "publication_jobs r = ys @ x # zs"
  shows "previous_jobs r x = ys"
proof -
  have "job_revision y < job_revision x" if "y \<in> set ys" for y using assms that by (simp add: chained_split job_follows_def)
  moreover have "\<not> job_revision z < job_revision x" if "z \<in> set zs" for z
    using assms that by (force simp: chained_split job_follows_def)
  ultimately show ?thesis using assms(2) by (simp add: previous_jobs_def filter_empty_conv)
qed

subsection \<open>Steps of the queue\<close>

fun record_key :: "publication_record \<Rightarrow> js_string" where
  "record_key (ProductRecord p) = mp_coordinate p"
| "record_key (AssignmentRecord a) = ma_coordinate a"

text \<open>Only the jobs and the newest signed event of the record changed, and the chain was kept.\<close>

definition requeued :: "publication_record \<Rightarrow> publication_record \<Rightarrow> bool" where
  "requeued r r' \<longleftrightarrow>
     (\<exists>jobs. (r' = with_jobs jobs r \<or> (\<exists>e. r' = with_signed e (with_jobs jobs r)))
       \<and> map job_revision jobs = map job_revision (publication_jobs r)
       \<and> map job_id jobs = map job_id (publication_jobs r)
       \<and> (jobs_chained (publication_jobs r) \<longrightarrow> jobs_chained jobs))"

definition republished :: "merchant_db \<Rightarrow> publication_kind \<Rightarrow> js_string \<Rightarrow> merchant_db \<Rightarrow> bool" where
  "republished db kind coordinate db' \<longleftrightarrow>
     db' = db \<or> (\<exists>r r'. get_record db kind coordinate = Some r \<and> requeued r r' \<and> db' = put_record r' db)"

lemma with_jobs_simps [simp]:
  "publication_jobs (with_jobs jobs r) = jobs" "publication_jobs (with_signed e r) = publication_jobs r"
  "record_key (with_jobs jobs r) = record_key r" "record_key (with_signed e r) = record_key r"
  by (cases r; simp)+

lemma requeued_jobs:
  assumes "requeued r r'"
  shows "map job_revision (publication_jobs r') = map job_revision (publication_jobs r)"
    "map job_id (publication_jobs r') = map job_id (publication_jobs r)" "record_key r' = record_key r"
    "jobs_chained (publication_jobs r) \<Longrightarrow> jobs_chained (publication_jobs r')"
  using assms by (auto simp: requeued_def)

lemma prepared:
  assumes p: "prepareNextPublication env db kind coordinate = Inr (db', work)" and g: "get_record db kind coordinate = Some r"
  shows "db' = db \<or> (\<exists>ys x zs d. publication_jobs r = ys @ x # zs \<and> is_pending x \<and> (\<forall>y \<in> set ys. \<not> is_pending y)
      \<and> (\<forall>y \<in> set (previous_jobs r x). job_signedEvent y \<noteq> None) \<and> job_draft x = None
      \<and> make_draft env r x (newest_predecessor env r x) = Inr d \<and> work = Some (job_id x, d)
      \<and> db' = put_record (with_jobs (ys @ x\<lparr>job_draft := Some d\<rparr> # zs) r) db)"
proof (cases "List.find is_pending (publication_jobs r)")
  case None
  then show ?thesis using p g by (simp add: prepareNextPublication_def)
next
  case (Some x)
  from update_found [OF this] obtain ys zs where s: "publication_jobs r = ys @ x # zs" "\<forall>y \<in> set ys. \<not> is_pending y" "is_pending x"
    "\<And>f. update_first is_pending f (publication_jobs r) = ys @ f x # zs" by blast
  note prepare = p [unfolded prepareNextPublication_def g option.case Some]
  show ?thesis
  proof (cases "list_ex (\<lambda>j. job_signedEvent j = None) (previous_jobs r x) \<or> job_draft x \<noteq> None")
    case True
    with prepare show ?thesis by (auto split: if_split_asm option.split_asm)
  next
    case False
    then obtain d where "make_draft env r x (newest_predecessor env r x) = Inr d" "work = Some (job_id x, d)"
      "db' = put_record (with_jobs (update_first is_pending (job_draft_update (\<lambda>_. Some d)) (publication_jobs r)) r) db"
      using prepare by (auto simp: bind_result_Inr)
    moreover from this(3) have "db' = put_record (with_jobs (ys @ x\<lparr>job_draft := Some d\<rparr> # zs) r) db" by (simp only: s(4))
    moreover have "\<forall>y \<in> set (previous_jobs r x). job_signedEvent y \<noteq> None" "job_draft x = None"
      using False by (auto simp: list_ex_iff)
    ultimately show ?thesis using s(1-3) by blast
  qed
qed

lemma drafted_requeued:
  assumes s: "publication_jobs r = ys @ x # zs" "is_pending x" "\<forall>y \<in> set (previous_jobs r x). job_signedEvent y \<noteq> None"
    and d: "make_draft env r x (newest_predecessor env r x) = Inr d"
  shows "requeued r (with_jobs (ys @ x\<lparr>job_draft := Some d\<rparr> # zs) r)"
proof -
  have "jobs_chained (ys @ x\<lparr>job_draft := Some d\<rparr> # zs)" if c: "jobs_chained (publication_jobs r)"
  proof (rule chained_change [of ys x zs])
    show "jobs_chained (ys @ x # zs)" using c s(1) by simp
    have x: "job_sound x" using c s(1) by (simp add: chained_split)
    with s(2) have unsigned: "job_signedEvent x = None" by (simp add: job_sound_def)
    with x show "job_sound (x\<lparr>job_draft := Some d\<rparr>)" by (simp add: job_sound_def is_pending_def)
    fix y t assume y: "y \<in> set ys" and t: "t \<in> set (job_times (x\<lparr>job_draft := Some d\<rparr>))"
    have prev: "y \<in> set (previous_jobs r x)" using previous_of [OF c s(1)] y by simp
    then obtain e where e: "job_signedEvent y = Some e" using s(3) by blast
    from newest_predecessor_bounds [OF prev e, of env] obtain n
      where n: "newest_predecessor env r x = Some n" "created_at e \<le> created_at n" by blast
    have "created_at n < created_at d" using d n(1) drafted_later [of env r x n d] by simp
    moreover have "t = created_at d" using t unsigned by (simp add: job_times_def)
    ultimately show "\<exists>e. job_signedEvent y = Some e \<and> created_at e < t" using e n(2) by auto
  qed simp_all
  moreover have "map job_revision (ys @ x\<lparr>job_draft := Some d\<rparr> # zs) = map job_revision (publication_jobs r)"
    "map job_id (ys @ x\<lparr>job_draft := Some d\<rparr> # zs) = map job_id (publication_jobs r)" by (simp_all add: s(1))
  ultimately show ?thesis unfolding requeued_def by blast
qed

lemma prepared_requeues:
  assumes p: "prepareNextPublication env db kind coordinate = Inr (db', work)"
  shows "republished db kind coordinate db'"
proof (cases "get_record db kind coordinate")
  case None
  then show ?thesis using p by (simp add: prepareNextPublication_def republished_def)
next
  case (Some r)
  from prepared [OF p this] show ?thesis using drafted_requeued Some unfolding republished_def by blast
qed

lemma saved:
  assumes "saveSignedPublication env db kind coordinate jobId e = Inr (db', fresh)"
  shows "\<not> fresh \<and> db' = db \<and> (\<exists>r x. get_record db kind coordinate = Some r \<and> List.find (\<lambda>j. job_id j = jobId) (publication_jobs r) = Some x
        \<and> job_signedEvent x \<noteq> None)
    \<or> fresh \<and> (\<exists>r ys x zs. get_record db kind coordinate = Some r \<and> publication_jobs r = ys @ x # zs
        \<and> List.find (\<lambda>j. job_id j = jobId) (publication_jobs r) = Some x
        \<and> job_signedEvent x = None \<and> job_draft x = Some (unsigned_part e)
        \<and> db' = put_record (with_signed e (with_jobs (ys @ signed_job e x # zs) r)) db)"
proof -
  obtain r x where r: "get_record db kind coordinate = Some r" "List.find (\<lambda>j. job_id j = jobId) (publication_jobs r) = Some x"
    using assms by (auto simp: saveSignedPublication_def split: option.split_asm)
  from update_found [OF r(2)] obtain ys zs where s: "publication_jobs r = ys @ x # zs"
    "\<And>f. update_first (\<lambda>j. job_id j = jobId) f (publication_jobs r) = ys @ f x # zs" by blast
  then have u: "update_first (\<lambda>j. job_id j = jobId) (signed_job e) (publication_jobs r) = ys @ signed_job e x # zs" by blast
  note save = assms [unfolded saveSignedPublication_def r option.case u]
  show ?thesis
  proof (cases "job_signedEvent x = None")
    case True
    with save have "fresh" "job_draft x = Some (unsigned_part e)"
      "db' = put_record (with_signed e (with_jobs (ys @ signed_job e x # zs) r)) db" by (auto split: if_split_asm)
    with True r s(1) show ?thesis by blast
  next
    case False
    with save have "\<not> fresh" "db' = db" by (auto split: if_split_asm)
    with False r show ?thesis by blast
  qed
qed

lemma signed_requeued:
  assumes s: "publication_jobs r = ys @ x # zs" "job_signedEvent x = None" "job_draft x = Some (unsigned_part e)"
  shows "requeued r (with_signed e (with_jobs (ys @ signed_job e x # zs) r))"
proof -
  have "jobs_chained (ys @ signed_job e x # zs)" if c: "jobs_chained (publication_jobs r)"
  proof (rule chained_change [of ys x zs])
    show "jobs_chained (ys @ x # zs)" using c s(1) by simp
    show "job_sound (signed_job e x)" using s(3) by (simp add: job_sound_def is_pending_def signed_job_def)
    fix y t assume "y \<in> set ys" "t \<in> set (job_times (signed_job e x))"
    moreover from this have "job_follows y x" "t = created_at (unsigned_part e)"
      using c s(1,3) by (auto simp: chained_split job_times_def signed_job_def unsigned_part_def)
    ultimately show "\<exists>e. job_signedEvent y = Some e \<and> created_at e < t" using s(3) by (auto simp: job_follows_def job_times_def)
  qed (simp_all add: signed_job_def s(2))
  moreover have "map job_revision (ys @ signed_job e x # zs) = map job_revision (publication_jobs r)"
    "map job_id (ys @ signed_job e x # zs) = map job_id (publication_jobs r)" by (simp_all add: s(1) signed_job_def)
  ultimately show ?thesis unfolding requeued_def by blast
qed

lemma saved_requeues:
  assumes "saveSignedPublication env db kind coordinate jobId e = Inr (db', fresh)"
  shows "republished db kind coordinate db'"
  using saved [OF assms] signed_requeued unfolding republished_def by blast

lemma delivered_requeues:
  assumes "markDelivered db kind coordinate jobId superseded = Inr db'"
  shows "republished db kind coordinate db'"
proof -
  let ?state = "if superseded then JobSuperseded else JobDelivered"
  obtain r x where r: "get_record db kind coordinate = Some r" "List.find (\<lambda>j. job_id j = jobId) (publication_jobs r) = Some x"
    "job_signedEvent x \<noteq> None"
    using assms by (auto simp: markDelivered_def split: option.split_asm if_split_asm)
  from update_found [OF r(2)] obtain ys zs where s: "publication_jobs r = ys @ x # zs"
    "\<And>f. update_first (\<lambda>j. job_id j = jobId) f (publication_jobs r) = ys @ f x # zs" by blast
  have db': "db' = put_record (with_jobs (ys @ x\<lparr>job_state := ?state\<rparr> # zs) r) db"
    using assms r s(2) [of "job_state_update (\<lambda>_. ?state)"] by (simp add: markDelivered_def)
  have "jobs_chained (ys @ x\<lparr>job_state := ?state\<rparr> # zs)" if c: "jobs_chained (publication_jobs r)"
  proof (rule chained_change [of ys x zs])
    show "jobs_chained (ys @ x # zs)" using c s(1) by simp
    then have x: "job_sound x" "\<And>y. y \<in> set ys \<Longrightarrow> job_follows y x" by (simp_all add: chained_split)
    from x(1) show "job_sound (x\<lparr>job_state := ?state\<rparr>)" using r(3) by (auto simp: job_sound_def is_pending_def)
    fix y t assume "y \<in> set ys" "t \<in> set (job_times (x\<lparr>job_state := ?state\<rparr>))"
    then show "\<exists>e. job_signedEvent y = Some e \<and> created_at e < t" using x(2) by (simp add: job_follows_def job_times_def)
  qed simp_all
  moreover have "map job_revision (ys @ x\<lparr>job_state := ?state\<rparr> # zs) = map job_revision (publication_jobs r)"
    "map job_id (ys @ x\<lparr>job_state := ?state\<rparr> # zs) = map job_id (publication_jobs r)" by (simp_all add: s(1))
  ultimately have "requeued r (with_jobs (ys @ x\<lparr>job_state := ?state\<rparr> # zs) r)" unfolding requeued_def by blast
  with r(1) db' show ?thesis unfolding republished_def by blast
qed

subsection \<open>The signing loop ends\<close>

lemma get_record_key: "rows_addressed db \<Longrightarrow> get_record db kind coordinate = Some r \<Longrightarrow> record_key r = coordinate"
  by (cases kind) (auto simp: get_record_def rows_addressed_def)

lemma get_requeued:
  assumes r: "rows_addressed db" and g: "get_record db kind coordinate = Some r" and q: "requeued r r'"
  shows "get_record (put_record r' db) kind coordinate = Some r' \<and> rows_addressed (put_record r' db)"
proof (cases kind)
  case ProductPublication
  then obtain p p' where p: "r = ProductRecord p" "r' = ProductRecord p'" "table_get (merchantInventoryProducts db) coordinate = Some p"
    using g q by (auto simp: get_record_def requeued_def)
  then have "mp_coordinate p' = coordinate" "coordinate \<noteq> []"
    using requeued_jobs(3) [OF q] r by (auto simp: rows_addressed_def)
  with p r ProductPublication show ?thesis
    by (simp add: get_record_def table_get_put rows_addressed_def table_put_keyed)
next
  case AssignmentPublication
  then obtain p p' where p: "r = AssignmentRecord p" "r' = AssignmentRecord p'" "table_get (merchantInventoryAssignments db) coordinate = Some p"
    using g q by (auto simp: get_record_def requeued_def)
  then have "ma_coordinate p' = coordinate"
    using requeued_jobs(3) [OF q] r by (auto simp: rows_addressed_def)
  with p r AssignmentPublication show ?thesis
    by (simp add: get_record_def table_get_put rows_addressed_def table_put_keyed)
qed

lemma first_pending:
  assumes "jobs_chained (publication_jobs r)" "publication_jobs r = ys @ x # zs" "\<forall>y \<in> set ys. \<not> is_pending y"
  shows "\<not> list_ex (\<lambda>j. job_signedEvent j = None) (previous_jobs r x)"
proof -
  have "job_sound y" if "y \<in> set ys" for y using assms(1,2) that by (simp add: jobs_chained_def list_all_iff)
  then show ?thesis unfolding previous_of [OF assms(1,2)] using assms(3) by (auto simp: list_ex_iff job_sound_def)
qed

lemma requeued_refl: "requeued r r"
  unfolding requeued_def by (intro exI [of _ "publication_jobs r"]) (cases r; simp)

lemma prepared_work:
  assumes c: "jobs_chained (publication_jobs r)" and p: "prepareNextPublication env db kind coordinate = Inr (db1, work)"
    and g: "get_record db kind coordinate = Some r" and ra: "rows_addressed db"
  shows "case work of
      None \<Rightarrow> db1 = db \<and> \<not> list_ex is_pending (publication_jobs r)
    | Some (jobId, d) \<Rightarrow> \<exists>r1 ys x zs. get_record db1 kind coordinate = Some r1 \<and> rows_addressed db1 \<and> requeued r r1
        \<and> publication_jobs r1 = ys @ x # zs \<and> is_pending x \<and> job_id x = jobId
        \<and> map is_pending (publication_jobs r1) = map is_pending (publication_jobs r)"
proof (cases "List.find is_pending (publication_jobs r)")
  case None
  with p g have "db1 = db" "work = None" by (simp_all add: prepareNextPublication_def)
  with None show ?thesis by (simp add: find_None_iff list_ex_iff)
next
  case (Some x)
  from update_found [OF this] obtain ys zs where s: "publication_jobs r = ys @ x # zs" "\<forall>y \<in> set ys. \<not> is_pending y" "is_pending x"
    "\<And>f. update_first is_pending f (publication_jobs r) = ys @ f x # zs" by blast
  note signed = first_pending [OF c s(1,2)]
  note prepare = p [unfolded prepareNextPublication_def g option.case Some]
  show ?thesis
  proof (cases "job_draft x")
    case None
    then obtain d where d: "make_draft env r x (newest_predecessor env r x) = Inr d" "work = Some (job_id x, d)"
      "db1 = put_record (with_jobs (update_first is_pending (job_draft_update (\<lambda>_. Some d)) (publication_jobs r)) r) db"
      using prepare signed by (auto simp: bind_result_Inr)
    let ?jobs = "ys @ x\<lparr>job_draft := Some d\<rparr> # zs"
    have db1: "db1 = put_record (with_jobs ?jobs r) db" using d(3) by (simp only: s(4))
    have q: "requeued r (with_jobs ?jobs r)"
      by (rule drafted_requeued [OF s(1,3) _ d(1)]) (use signed in \<open>auto simp: list_ex_iff\<close>)
    from get_requeued [OF ra g q] have "get_record db1 kind coordinate = Some (with_jobs ?jobs r)" "rows_addressed db1"
      unfolding db1 by blast+
    moreover have "is_pending (x\<lparr>job_draft := Some d\<rparr>)" "map is_pending ?jobs = map is_pending (publication_jobs r)"
      using s(3) by (simp_all add: s(1) is_pending_def)
    moreover have "publication_jobs (with_jobs ?jobs r) = ?jobs" "job_id (x\<lparr>job_draft := Some d\<rparr>) = job_id x" by simp_all
    ultimately show ?thesis unfolding d(2) option.case prod.case using q by metis
  next
    case (Some d)
    then have "db1 = db" "work = Some (job_id x, d)" using prepare signed by simp_all
    then show ?thesis using g ra s requeued_refl [of r] by auto
  qed
qed

lemma pending_count: "map p xs = map p ys \<Longrightarrow> length (filter p xs) = length (filter p ys)"
proof -
  assume e: "map p xs = map p ys"
  have l: "length (filter p zs) = length (filter id (map p zs))" for zs by (induction zs) simp_all
  show ?thesis unfolding l e ..
qed

lemma find_by_key: "distinct (map key (ys @ x # zs)) \<Longrightarrow> key x = k \<Longrightarrow> List.find (\<lambda>j. key j = k) (ys @ x # zs) = Some x"
  by (induction ys) auto

text \<open>Every pass of the loop signs one job for good: fewer are pending, so the loop ends, and without an error or a
  refusal nothing is left.\<close>

lemma signing_ends:
  assumes "rows_addressed db" "get_record db kind coordinate = Some r" "jobs_chained (publication_jobs r)"
    "distinct (map job_id (publication_jobs r))"
  shows "\<exists>db' n err r'. sign_publications env sign kind coordinate db count = Some (db', count + n, err)
    \<and> get_record db' kind coordinate = Some r'
    \<and> length (filter is_pending (publication_jobs r')) + n = length (filter is_pending (publication_jobs r))
    \<and> (err = None \<and> (\<forall>d. sign d \<noteq> None) \<longrightarrow> \<not> list_ex is_pending (publication_jobs r'))"
  using assms
proof (induction "length (filter is_pending (publication_jobs r))" arbitrary: db r count rule: less_induct)
  case less
  note unfold = sign_publications.simps [of env sign kind coordinate db count]
  show ?case
  proof (cases "prepareNextPublication env db kind coordinate")
    case (Inl err)
    then show ?thesis using unfold less.prems(2) by simp
  next
    case (Inr prepared)
    obtain db1 work where w: "prepared = (db1, work)" by force
    note pw = prepared_work [OF less.prems(3) Inr [unfolded w] less.prems(2,1)]
    show ?thesis
    proof (cases work)
      case None
      with pw show ?thesis using unfold Inr w less.prems(2) by simp
    next
      case (Some jd)
      obtain jobId d where jd: "jd = (jobId, d)" by force
      from pw [unfolded Some jd option.case prod.case] obtain r1 ys x zs where
        r1: "get_record db1 kind coordinate = Some r1" "rows_addressed db1" "requeued r r1" "publication_jobs r1 = ys @ x # zs"
        "is_pending x" "job_id x = jobId" "map is_pending (publication_jobs r1) = map is_pending (publication_jobs r)" by blast
      have count: "length (filter is_pending (publication_jobs r1)) = length (filter is_pending (publication_jobs r))"
        using pending_count [OF r1(7)] .
      have c1: "jobs_chained (publication_jobs r1)" "distinct (map job_id (publication_jobs r1))"
        using requeued_jobs(4) [OF r1(3) less.prems(3)] requeued_jobs(2) [OF r1(3)] less.prems(4) by auto
      show ?thesis
      proof (cases "sign d")
        case None
        then have "sign_publications env sign kind coordinate db count = Some (db1, count + 0, None)"
          using unfold Inr w \<open>work = Some jd\<close> jd by simp
        moreover have "\<not> (\<forall>d. sign d \<noteq> None)" using None by blast
        ultimately show ?thesis using r1(1) count by (metis add.right_neutral)
      next
        case (Some e)
        note step = unfold [unfolded Inr w \<open>work = Some jd\<close> jd, simplified, unfolded Some, simplified]
        show ?thesis
        proof (cases "saveSignedPublication env db1 kind coordinate jobId e")
          case (Inl err)
          then have "sign_publications env sign kind coordinate db count = Some (db1, count + 0, Some err)" using step by simp
          then show ?thesis using r1(1) count by (metis add.right_neutral option.distinct(1))
        next
          case (Inr saved)
          obtain db2 fresh where db2: "saved = (db2, fresh)" by force
          have x: "List.find (\<lambda>j. job_id j = jobId) (publication_jobs r1) = Some x"
            using c1(2) r1(6) unfolding r1(4) by (rule find_by_key)
          have "job_signedEvent x = None" using c1(1) r1(4,5) by (simp add: chained_split job_sound_def)
          with saved [OF Inr [unfolded db2]] r1(1) x obtain ys' zs' where f: "fresh" "publication_jobs r1 = ys' @ x # zs'"
            "job_signedEvent x = None" "job_draft x = Some (unsigned_part e)"
            "db2 = put_record (with_signed e (with_jobs (ys' @ signed_job e x # zs') r1)) db1" by auto
          define r2 where "r2 = with_signed e (with_jobs (ys' @ signed_job e x # zs') r1)"
          have q: "requeued r1 r2" unfolding r2_def by (rule signed_requeued [OF f(2-4)])
          from get_requeued [OF r1(2,1) q] f(5) have r2: "get_record db2 kind coordinate = Some r2" "rows_addressed db2"
            by (simp_all add: r2_def)
          have fewer: "Suc (length (filter is_pending (publication_jobs r2))) = length (filter is_pending (publication_jobs r))"
            unfolding count [symmetric] f(2) r2_def using r1(5) by (simp add: signed_job_def is_pending_def)
          then have "length (filter is_pending (publication_jobs r2)) < length (filter is_pending (publication_jobs r))" by simp
          moreover have "distinct (map job_id (publication_jobs r2))" using requeued_jobs(2) [OF q] c1(2) by simp
          ultimately obtain db' n err r' where
            "sign_publications env sign kind coordinate db2 (Suc count) = Some (db', Suc count + n, err)"
            "get_record db' kind coordinate = Some r'"
            "length (filter is_pending (publication_jobs r')) + n = length (filter is_pending (publication_jobs r2))"
            "err = None \<and> (\<forall>d. sign d \<noteq> None) \<longrightarrow> \<not> list_ex is_pending (publication_jobs r')"
            using less.hyps [OF _ r2(2,1) requeued_jobs(4) [OF q c1(1)], of "Suc count"] by blast
          then show ?thesis using step Inr db2 f(1) fewer
            by (intro exI [of _ db'] exI [of _ "Suc n"] exI [of _ err] exI [of _ r']) simp
        qed
      qed
    qed
  qed
qed

end
