(* ===== verification/Publication_Steps.thy ===== *)
theory Publication_Steps
  imports Publication_Chain
begin

text \<open>
  Every operation of the inventory keeps the queues of all addresses chained: it appends one job with the
  next revision, or none.
\<close>

fun record_revision :: "publication_record \<Rightarrow> int" where
  "record_revision (ProductRecord p) = mp_revision p"
| "record_revision (AssignmentRecord a) = ma_revision a"

definition record_chained :: "publication_record \<Rightarrow> bool" where
  "record_chained r \<longleftrightarrow>
     jobs_chained (publication_jobs r) \<and> (\<forall>j \<in> set (publication_jobs r). job_revision j \<le> record_revision r)"

definition queues_chained :: "merchant_db \<Rightarrow> bool" where
  "queues_chained db \<longleftrightarrow> (\<forall>kind coordinate r. get_record db kind coordinate = Some r \<longrightarrow> record_chained r)"

lemma queues_product:
  "queues_chained db \<Longrightarrow> table_get (merchantInventoryProducts db) pc = Some p \<Longrightarrow> record_chained (ProductRecord p)"
  unfolding queues_chained_def by (metis (no_types) get_record_def option.map(2) publication_kind.simps(3))

lemma queues_assignment:
  "queues_chained db \<Longrightarrow> table_get (merchantInventoryAssignments db) c = Some a \<Longrightarrow> record_chained (AssignmentRecord a)"
  unfolding queues_chained_def by (metis (no_types) get_record_def option.map(2) publication_kind.simps(4))

lemma queues_chainedI:
  assumes "\<And>pc p. table_get (merchantInventoryProducts db) pc = Some p \<Longrightarrow> record_chained (ProductRecord p)"
    and "\<And>c a. table_get (merchantInventoryAssignments db) c = Some a \<Longrightarrow> record_chained (AssignmentRecord a)"
  shows "queues_chained db"
  unfolding queues_chained_def get_record_def using assms by (auto split: publication_kind.split_asm)

lemma queues_put_product:
  "queues_chained db \<Longrightarrow> record_chained (ProductRecord p)
   \<Longrightarrow> queues_chained (db\<lparr>merchantInventoryProducts := table_put k p (merchantInventoryProducts db)\<rparr>)"
  by (rule queues_chainedI) (auto simp: table_get_put split: if_split_asm intro: queues_product queues_assignment)

lemma queues_put_assignment:
  "queues_chained db \<Longrightarrow> record_chained (AssignmentRecord a)
   \<Longrightarrow> queues_chained (db\<lparr>merchantInventoryAssignments := table_put k a (merchantInventoryAssignments db)\<rparr>)"
  by (rule queues_chainedI) (auto simp: table_get_put split: if_split_asm intro: queues_product queues_assignment)

text \<open>One more job, with the next revision.\<close>

lemma record_next:
  assumes "record_chained r" "publication_jobs r' = publication_jobs r @ [w]" "record_revision r' = record_revision r + 1"
    "job_revision w = record_revision r'" "is_pending w" "job_draft w = None" "job_signedEvent w = None"
  shows "record_chained r'"
  using assms chained_new [of "publication_jobs r" "record_revision r" w] by (fastforce simp: record_chained_def)

lemma record_later:
  assumes "record_chained r" "publication_jobs r' = publication_jobs r" "record_revision r \<le> record_revision r'"
  shows "record_chained r'"
  using assms by (fastforce simp: record_chained_def)

lemma new_job_pending [simp]:
  "is_pending (new_job i r t)" "is_pending ((new_job i r t)\<lparr>job_productStock := s\<rparr>)"
  "is_pending ((new_job i r t)\<lparr>job_assignmentSnapshot := x\<rparr>)"
  by (simp_all add: new_job_def is_pending_def)

lemma initialized_queues:
  assumes "initializeMerchantInventoryProduct env db pc merchant stock event = Inr (db', product)" "queues_chained db"
  shows "queues_chained db'"
proof -
  define created where "created = \<lparr>mp_coordinate = pc, mp_merchantPubkey = merchant, mp_stock = stock, mp_revision = 0,
      mp_sourceProductEvent = event, mp_signedProductEvent = event, mp_publicationJobs = []\<rparr>"
  have "db' = db \<or> db' = db\<lparr>merchantInventoryProducts := table_put pc created (merchantInventoryProducts db)\<rparr>"
    using assms(1) by (auto simp: initializeMerchantInventoryProduct_def bind_result_Inr Let_def created_def split: option.split_asm if_split_asm)
  moreover have "record_chained (ProductRecord created)" by (simp add: record_chained_def created_def)
  ultimately show ?thesis using assms(2) queues_put_product by auto
qed

lemma edited_queues:
  assumes "commitMerchantInventoryStockEdit db pc revision stock mutationId t = Inr (db', product)" "queues_chained db"
  shows "queues_chained db'"
proof -
  obtain p where p: "table_get (merchantInventoryProducts db) pc = Some p"
    using assms(1) by (auto simp: commitMerchantInventoryStockEdit_def bind_result_Inr split: option.split_asm if_split_asm)
  define p' where "p' = p\<lparr>mp_stock := stock, mp_revision := mp_revision p + 1,
      mp_publicationJobs := mp_publicationJobs p @ [(new_job mutationId (mp_revision p + 1) t)\<lparr>job_productStock := stock\<rparr>]\<rparr>"
  from assms(1) p have d: "db' = db \<or> db' = db\<lparr>merchantInventoryProducts := table_put pc p' (merchantInventoryProducts db)\<rparr>"
    unfolding commitMerchantInventoryStockEdit_def p'_def
    by (auto simp: bind_result_Inr Let_def split: option.split_asm if_split_asm)
  have "record_chained (ProductRecord p')"
    by (rule record_next [OF queues_product [OF assms(2) p]]) (simp_all add: p'_def, simp_all add: new_job_def is_pending_def)
  then show ?thesis using d assms(2) queues_put_product by auto
qed

lemma assigned_queues:
  assumes "commitMerchantInventoryAssignment env db inp t = Inr (db', a)" "queues_chained db"
  shows "queues_chained db'"
proof -
  let ?c = "in_assignmentCoordinate inp"
  let ?existing = "table_get (merchantInventoryAssignments db) ?c"
  obtain p where p: "table_get (merchantInventoryProducts db) (in_productCoordinate inp) = Some p"
    using assms(1) by (auto simp: commitMerchantInventoryAssignment_def bind_result_Inr split: option.split_asm if_split_asm)
  let ?a = "committed_assignment p inp ?existing t"
  have d: "db' = db \<or> db' = db\<lparr>merchantInventoryAssignments := table_put ?c ?a (merchantInventoryAssignments db)\<rparr>"
    using assms(1) p unfolding commitMerchantInventoryAssignment_def
    by (auto simp: bind_result_Inr Let_def split: option.split_asm if_split_asm)
  have "record_chained (AssignmentRecord ?a)"
  proof (cases ?existing)
    case None
    then show ?thesis
      by (simp add: record_chained_def committed_assignment_def Let_def jobs_chained_def job_sound_def is_pending_def new_job_def)
  next
    case (Some b)
    show ?thesis
      by (rule record_next [OF queues_assignment [OF assms(2) Some]])
        (simp_all add: Some committed_assignment_def Let_def, simp_all add: new_job_def is_pending_def)
  qed
  then show ?thesis using d assms(2) queues_put_assignment by auto
qed

subsection \<open>Acceptances\<close>

definition queue_kept :: "merchant_db \<Rightarrow> merchant_db \<Rightarrow> bool" where
  "queue_kept db d \<longleftrightarrow>
     (\<forall>k b. table_get (merchantInventoryAssignments d) k = Some b \<longrightarrow>
        (\<exists>a. table_get (merchantInventoryAssignments db) k = Some a \<and> ma_publicationJobs b = ma_publicationJobs a
             \<and> ma_revision a \<le> ma_revision b))"

lemma queue_kept_refl: "queue_kept db db"
  by (simp add: queue_kept_def)

lemma queue_kept_trans: "queue_kept a b \<Longrightarrow> queue_kept b c \<Longrightarrow> queue_kept a c"
  unfolding queue_kept_def by (metis order_trans)

lemma queue_kept_row: "queue_kept db (reconcile_row env c db)"
proof -
  have "ma_publicationJobs (reconciled_assignment env db a) = ma_publicationJobs a
    \<and> ma_revision a \<le> ma_revision (reconciled_assignment env db a)" for a
    by (simp add: reconciled_assignment_def Let_def split: option.split)
  then show ?thesis by (auto simp: queue_kept_def reconcile_row_def table_get_put split: option.split)
qed

lemma queue_kept_fold: "queue_kept db (fold (\<lambda>a. reconcile_row env (ma_coordinate a)) xs db)"
  by (induction xs arbitrary: db) (auto intro: queue_kept_refl queue_kept_trans [OF queue_kept_row])

lemma accept_item_queue:
  assumes "accept_item env inp t st item = Inr st'"
  shows "queue_kept (acc_db st) (acc_db st')"
proof -
  obtain st1 product where o: "open_product env inp st item = Inr (st1, product)" using assms by (auto simp: accept_item_def bind_result_Inr)
  then have "queue_kept (acc_db st) (acc_db st1)"
    by (auto simp: open_product_def reconcileKnownOccurrenceLifecycle_def queue_kept_refl queue_kept_fold
        split: option.split_asm if_split_asm)
  moreover have "acc_db st' = acc_db st1"
  proof -
    obtain st2 assignment expired where o2: "open_assignment st1 item (listMerchantInventoryAssignments (acc_db st1) (item_productCoordinate item)) t
        = Inr (st2, assignment, expired)"
      using assms o by (auto simp: accept_item_def bind_result_Inr Let_def)
    have "acc_db st2 = acc_db st1"
      using o2 by (auto simp: open_assignment_def Let_def split: if_split_asm option.split_asm)
    moreover have "acc_db st' = acc_db st2"
      using assms o o2 by (auto simp: accept_item_def bind_result_Inr Let_def debit_line_def split: if_split_asm option.split_asm)
    ultimately show ?thesis by simp
  qed
  ultimately show ?thesis by simp
qed

lemma accept_all_queue: "accept_items_in_turn env inp t st items = Inr st' \<Longrightarrow> queue_kept (acc_db st) (acc_db st')"
proof (induction items arbitrary: st)
  case (Cons item items)
  then obtain s where "accept_item env inp t st item = Inr s" "accept_items_in_turn env inp t s items = Inr st'"
    by (auto simp: bind_result_Inr)
  with Cons.IH accept_item_queue queue_kept_trans show ?case by blast
qed (simp add: queue_kept_refl)

lemma settled_queue:
  assumes "record_chained (ProductRecord p)"
  shows "record_chained (ProductRecord (settled_product inp t st (p\<lparr>mp_stock := s\<rparr>)))"
proof (cases "s \<noteq> None \<and> mp_coordinate p \<in> set (acc_debited st)")
  case True
  show ?thesis
    by (rule record_next [OF assms]) (use True in \<open>simp_all add: settled_product_def Let_def\<close>, simp_all add: new_job_def is_pending_def)
next
  case False
  then show ?thesis by (intro record_later [OF assms]) (auto simp: settled_product_def Let_def)
qed

lemma settle_queue:
  assumes m: "maps_ok db st" and a: "table_get (merchantInventoryAssignments (acc_db st)) (ma_coordinate a) = Some a"
    and c: "record_chained (AssignmentRecord a)"
  shows "record_chained (AssignmentRecord (settle inp t st a))"
proof (cases "map_of (acc_assignments st) (ma_coordinate a)")
  case None
  then show ?thesis using c by (simp add: settle_def)
next
  case (Some x)
  obtain b where "table_get (merchantInventoryAssignments (acc_db st)) (ma_coordinate a) = Some b" "x = b\<lparr>ma_inventory := ma_inventory x\<rparr>"
    using m Some by (rule maps_ok_assignment) blast
  then have x: "x = a\<lparr>ma_inventory := ma_inventory x\<rparr>" using a by simp
  have same: "ma_publicationJobs x = ma_publicationJobs a" "ma_revision x = ma_revision a" by (subst x, simp)+
  have "record_chained (AssignmentRecord (settled_assignment inp t x))"
    by (rule record_next [OF c]) (simp_all add: settled_assignment_def Let_def same, simp_all add: new_job_def is_pending_def)
  then show ?thesis using c Some by (simp add: settle_def)
qed

lemma accepted_queues:
  assumes a: "acceptMerchantInventoryOrder env db inp continues t = Inr (db', False, order)"
    and r: "rows_addressed db" and q: "queues_chained db"
  shows "queues_chained db'"
proof -
  obtain consumed st where d: "decision_ok db consumed t st"
    "merchantInventoryProducts db' = merchantInventoryProducts (put_products inp t st (acc_db st))"
    "merchantInventoryAssignments db' = merchantInventoryAssignments (put_assignments inp t st (acc_db st))"
    "accept_items_in_turn env inp t (begin_acceptance db consumed) (accept_items inp) = Inr st"
    by (rule accepted_fresh [OF a r]) blast
  have m: "maps_ok db st" using d(1) by (simp add: decision_ok_def)
  have ra: "rows_addressed (acc_db st)" by (rule maps_okD(1) [OF m])
  have kept: "queue_kept db (acc_db st)" using accept_all_queue [OF d(4)] by (simp add: begin_acceptance_def)
  have before: "record_chained (AssignmentRecord b)" if b: "table_get (merchantInventoryAssignments (acc_db st)) k = Some b" for k b
  proof -
    obtain a where a: "table_get (merchantInventoryAssignments db) k = Some a" "ma_publicationJobs b = ma_publicationJobs a"
      "ma_revision a \<le> ma_revision b"
      using kept b unfolding queue_kept_def by blast
    then show ?thesis by (intro record_later [OF queues_assignment [OF q a(1)]]) simp_all
  qed
  show ?thesis
  proof (rule queues_chainedI)
    fix pc p assume p: "table_get (merchantInventoryProducts db') pc = Some p"
    show "record_chained (ProductRecord p)"
    proof (cases "map_of (acc_products st) pc")
      case None
      then show ?thesis using p accepted_rows(3) [OF d(1) r d(2,3), of pc] queues_product [OF q] by simp
    next
      case (Some x)
      obtain y where "table_get (merchantInventoryProducts db) pc = Some y" "x = y\<lparr>mp_stock := mp_stock x\<rparr>"
        using m Some by (rule maps_ok_product) blast
      then have "record_chained (ProductRecord (settled_product inp t st x))" using settled_queue queues_product [OF q] by metis
      then show ?thesis using p Some accepted_rows(3) [OF d(1) r d(2,3), of pc] by simp
    qed
  next
    fix c a assume a: "table_get (merchantInventoryAssignments db') c = Some a"
    have rows: "merchantInventoryAssignments db' = map (\<lambda>(k, a). (k, settle inp t st a)) (merchantInventoryAssignments (acc_db st))"
      unfolding d(3) by (rule put_assignments_rows [OF m refl])
    have "map_of (map (\<lambda>(k, a). (k, f a)) xs) c = map_option f (map_of xs c)" for f :: "MerchantInventoryAssignment \<Rightarrow> MerchantInventoryAssignment" and xs
      by (induction xs) auto
    then obtain b where b: "table_get (merchantInventoryAssignments (acc_db st)) c = Some b" "a = settle inp t st b"
      using a unfolding rows table_get_def by auto
    then have "ma_coordinate b = c" using ra by (simp add: rows_addressed_def)
    with b settle_queue [OF m, of b] before [OF b(1)] show "record_chained (AssignmentRecord a)" by simp
  qed
qed

subsection \<open>The queue itself\<close>

lemma republished_queues:
  assumes "republished db kind coordinate db'" "queues_chained db"
  shows "queues_chained db'"
  using assms(1) unfolding republished_def
proof
  assume "\<exists>r r'. get_record db kind coordinate = Some r \<and> requeued r r' \<and> db' = put_record r' db"
  then obtain r r' where r: "get_record db kind coordinate = Some r" "requeued r r'" "db' = put_record r' db" by blast
  have "record_chained r" using assms(2) r(1) by (auto simp: queues_chained_def)
  moreover have "record_revision r' = record_revision r" using r(2) by (cases r) (auto simp: requeued_def)
  moreover have "set (map job_revision (publication_jobs r')) = set (map job_revision (publication_jobs r))"
    using requeued_jobs(1) [OF r(2)] by simp
  then have "job_revision ` set (publication_jobs r') = job_revision ` set (publication_jobs r)" by simp
  ultimately have "record_chained r'" using requeued_jobs(4) [OF r(2)] unfolding record_chained_def by (metis image_iff)
  then show ?thesis using r(3) assms(2) queues_put_product queues_put_assignment by (cases r') auto
qed (use assms(2) in simp)

text \<open>It changes no stock, no reservation and no accepted order.\<close>

lemma listed_alike:
  assumes "rows_addressed db" "rows_addressed db'"
    and get: "\<And>k. table_get (merchantInventoryAssignments db') k = map_option (f k) (table_get (merchantInventoryAssignments db) k)"
    and alike: "\<And>k a. table_get (merchantInventoryAssignments db) k = Some a \<Longrightarrow> alike (f k a) a"
  shows "list_all2 alike (listMerchantInventoryAssignments db' pc) (listMerchantInventoryAssignments db pc)"
proof -
  let ?T = "merchantInventoryAssignments db"
  have keyed: "table_keyed ?T" "table_keyed (merchantInventoryAssignments db')" using assms(1,2) by (simp_all add: rows_addressed_def)
  have rows: "merchantInventoryAssignments db' = map (\<lambda>(k, v). (k, f k v)) ?T" by (rule keyed_map [OF keyed get])
  have "distinct (map fst ?T)" using keyed(1) by (auto simp: table_keyed_def strict_sorted_iff)
  then have each: "\<forall>(k, v) \<in> set ?T. alike (f k v) v" using alike by (auto simp: table_get_def)
  have "list_all2 alike (filter (\<lambda>a. ma_productCoordinate a = pc) (map snd (map (\<lambda>(k, v). (k, f k v)) xs)))
      (filter (\<lambda>a. ma_productCoordinate a = pc) (map snd xs))" if "\<forall>(k, v) \<in> set xs. alike (f k v) v" for xs
    using that by (induction xs) (auto simp: alike_def)
  from this [OF each] show ?thesis unfolding listMerchantInventoryAssignments_def table_rows_def rows .
qed

lemma republished_rows:
  assumes "republished db kind coordinate db'" and r: "rows_addressed db"
  shows "rows_addressed db' \<and> list_all2 alike (listMerchantInventoryAssignments db' pc) (listMerchantInventoryAssignments db pc)
    \<and> map_option mp_stock (table_get (merchantInventoryProducts db') pc) = map_option mp_stock (table_get (merchantInventoryProducts db) pc)
    \<and> map_option ma_productCoordinate (table_get (merchantInventoryAssignments db') k)
      = map_option ma_productCoordinate (table_get (merchantInventoryAssignments db) k)
    \<and> merchantInventoryAcceptedOrders db' = merchantInventoryAcceptedOrders db"
  using assms(1) unfolding republished_def
proof
  assume "db' = db"
  then show ?thesis using r by (simp add: list.rel_refl alike_def)
next
  assume "\<exists>r r'. get_record db kind coordinate = Some r \<and> requeued r r' \<and> db' = put_record r' db"
  then obtain x x' where x: "get_record db kind coordinate = Some x" "requeued x x'" "db' = put_record x' db" by blast
  from get_requeued [OF r x(1,2)] have ra: "rows_addressed db'" unfolding x(3) by blast
  have key: "record_key x' = coordinate" using get_record_key [OF r x(1)] requeued_jobs(3) [OF x(2)] by simp
  show ?thesis
  proof (cases x)
    case (ProductRecord p)
    then obtain p' where p': "x' = ProductRecord p'" "mp_stock p' = mp_stock p" using x(2) by (auto simp: requeued_def)
    have "table_get (merchantInventoryProducts db) coordinate = Some p"
      using x(1) ProductRecord by (cases kind) (auto simp: get_record_def)
    then show ?thesis using ra key p'
      by (simp add: x(3) table_get_put list.rel_refl alike_def listMerchantInventoryAssignments_def)
  next
    case (AssignmentRecord a)
    then obtain a' where a': "x' = AssignmentRecord a'" "alike a' a" using x(2) by (auto simp: requeued_def alike_def)
    have a: "table_get (merchantInventoryAssignments db) coordinate = Some a"
      using x(1) AssignmentRecord by (cases kind) (auto simp: get_record_def)
    have "list_all2 alike (listMerchantInventoryAssignments db' pc) (listMerchantInventoryAssignments db pc)"
      by (rule listed_alike [OF r ra, of "\<lambda>k v. if k = coordinate then a' else v"])
        (use a a' key in \<open>auto simp: x(3) table_get_put alike_def option.map_ident\<close>)
    then show ?thesis using ra key a a' by (simp add: x(3) table_get_put alike_def)
  qed
qed

end
