(* ===== verification/Inventory_System.thy ===== *)
theory Inventory_System
  imports Publication_Steps
begin

text \<open>
  The merchant's inventory over time: every sequence of initializations, stock edits, assignments,
  acceptances and steps of the publication queues, each at its own time on a clock that does not go back.
\<close>

subsection \<open>Requests\<close>

datatype inventory_request =
  RequestProduct js_string js_string "int option" SignedPublicNostrEvent
| RequestStockEdit js_string int "int option" js_string
| RequestAssignment assignment_input
| RequestOrder accept_input bool
| RequestDraft publication_kind js_string
| RequestSignature publication_kind js_string js_string SignedPublicNostrEvent
| RequestDelivery publication_kind js_string js_string bool

fun perform_inventory ::
    "'p publication_ports_scheme \<Rightarrow> merchant_db \<Rightarrow> inventory_request \<Rightarrow> int \<Rightarrow> merchant_db result" where
  "perform_inventory env db (RequestProduct pc merchant stock event) nowMs =
     bind_result (initializeMerchantInventoryProduct env db pc merchant stock event) (\<lambda>(db', _). Inr db')"
| "perform_inventory env db (RequestStockEdit pc revision stock mutationId) nowMs =
     bind_result (commitMerchantInventoryStockEdit db pc revision stock mutationId nowMs) (\<lambda>(db', _). Inr db')"
| "perform_inventory env db (RequestAssignment inp) nowMs =
     bind_result (commitMerchantInventoryAssignment env db inp nowMs) (\<lambda>(db', _). Inr db')"
| "perform_inventory env db (RequestOrder inp continues) nowMs =
     bind_result (acceptMerchantInventoryOrder env db inp continues nowMs) (\<lambda>(db', _). Inr db')"
| "perform_inventory env db (RequestDraft kind coordinate) nowMs =
     bind_result (prepareNextPublication env db kind coordinate) (\<lambda>(db', _). Inr db')"
| "perform_inventory env db (RequestSignature kind coordinate jobId event) nowMs =
     bind_result (saveSignedPublication env db kind coordinate jobId event) (\<lambda>(db', _). Inr db')"
| "perform_inventory env db (RequestDelivery kind coordinate jobId superseded) nowMs =
     markDelivered db kind coordinate jobId superseded"

text \<open>The state is the database and the time; a request comes some milliseconds after the one before.\<close>

fun inventory_attempt ::
    "'p publication_ports_scheme \<Rightarrow> merchant_db \<times> int \<Rightarrow> inventory_request \<times> nat \<Rightarrow> merchant_db \<times> int" where
  "inventory_attempt env (db, t) (request, elapsed) =
     (case perform_inventory env db request (t + int elapsed) of Inl _ \<Rightarrow> db | Inr db' \<Rightarrow> db', t + int elapsed)"

definition empty_inventory :: merchant_db where
  "empty_inventory = \<lparr>merchantInventoryProducts = [], merchantInventoryAssignments = [], merchantInventoryAcceptedOrders = [],
     localProductStockCheckpoints = [], eventMarketRosterEvidence = []\<rparr>"

definition books_ok :: "merchant_db \<Rightarrow> int \<Rightarrow> bool" where
  "books_ok db t \<longleftrightarrow>
     rows_addressed db
     \<and> (\<forall>k a. table_get (merchantInventoryAssignments db) k = Some a
          \<longrightarrow> table_get (merchantInventoryProducts db) (ma_productCoordinate a) \<noteq> None)
     \<and> (\<forall>pc p. table_get (merchantInventoryProducts db) pc = Some p
          \<longrightarrow> rows_covered (mp_stock p) (listMerchantInventoryAssignments db pc) t)"

definition orders_kept :: "merchant_db \<Rightarrow> merchant_db \<Rightarrow> bool" where
  "orders_kept db db' \<longleftrightarrow>
     (\<forall>k order. table_get (merchantInventoryAcceptedOrders db) k = Some order
        \<longrightarrow> table_get (merchantInventoryAcceptedOrders db') k = Some order)"

lemma books_later: "books_ok db t \<Longrightarrow> t \<le> u \<Longrightarrow> books_ok db u"
  unfolding books_ok_def using covered_antimono by blast

lemma listed_same [simp]:
  "listMerchantInventoryAssignments (db\<lparr>merchantInventoryProducts := x\<rparr>) pc = listMerchantInventoryAssignments db pc"
  "listMerchantInventoryAssignments (db\<lparr>merchantInventoryAcceptedOrders := y\<rparr>) pc = listMerchantInventoryAssignments db pc"
  by (simp_all add: listMerchantInventoryAssignments_def)

lemma books_put_product:
  assumes "books_ok db t" "mp_coordinate p = pc" "pc \<noteq> []" "rows_covered (mp_stock p) (listMerchantInventoryAssignments db pc) t"
  shows "books_ok (db\<lparr>merchantInventoryProducts := table_put pc p (merchantInventoryProducts db)\<rparr>) t"
  using assms by (simp add: books_ok_def rows_addressed_def table_put_keyed table_get_put)

lemma coordinate_not_empty: "coordinateParts env [] = Inl ''Invalid coordinate''"
  by (simp add: coordinateParts_def)

subsection \<open>Products\<close>

lemma initialized_books:
  assumes r: "initializeMerchantInventoryProduct env db pc merchant stock event = Inr (db', product)" and ok: "books_ok db t"
  shows "books_ok db' t" "merchantInventoryAcceptedOrders db' = merchantInventoryAcceptedOrders db"
proof -
  have pc: "pc \<noteq> []" using r by (auto simp: initializeMerchantInventoryProduct_def bind_result_Inr coordinate_not_empty)
  have stock: "\<And>n. stock = Some n \<Longrightarrow> 0 \<le> n"
    using r by (auto simp: initializeMerchantInventoryProduct_def bind_result_Inr requireStock_def split: if_split_asm)
  define created where "created = \<lparr>mp_coordinate = pc, mp_merchantPubkey = merchant, mp_stock = stock, mp_revision = 0,
      mp_sourceProductEvent = event, mp_signedProductEvent = event, mp_publicationJobs = []\<rparr>"
  from r have d: "db' = db \<or> table_get (merchantInventoryProducts db) pc = None
      \<and> db' = db\<lparr>merchantInventoryProducts := table_put pc created (merchantInventoryProducts db)\<rparr>"
    by (auto simp: initializeMerchantInventoryProduct_def bind_result_Inr Let_def created_def split: option.split_asm if_split_asm)
  then show "merchantInventoryAcceptedOrders db' = merchantInventoryAcceptedOrders db" by auto
  from d show "books_ok db' t"
  proof
    assume n: "table_get (merchantInventoryProducts db) pc = None
      \<and> db' = db\<lparr>merchantInventoryProducts := table_put pc created (merchantInventoryProducts db)\<rparr>"
    have "listMerchantInventoryAssignments db pc = []"
    proof (rule ccontr)
      assume "listMerchantInventoryAssignments db pc \<noteq> []"
      then obtain a where "a \<in> set (listMerchantInventoryAssignments db pc)" by (meson list.set_sel(1))
      then have "table_get (merchantInventoryAssignments db) (ma_coordinate a) = Some a" "ma_productCoordinate a = pc"
        using ok listed [of db a pc] by (simp_all add: books_ok_def)
      moreover from ok have "\<forall>k a. table_get (merchantInventoryAssignments db) k = Some a
          \<longrightarrow> table_get (merchantInventoryProducts db) (ma_productCoordinate a) \<noteq> None" by (simp add: books_ok_def)
      ultimately show False using n by blast
    qed
    moreover have "rows_covered (mp_stock created) [] t"
      using stock by (simp add: rows_covered_def created_def reserved_def split: option.split)
    ultimately show ?thesis
      using books_put_product [OF ok _ pc, of created] n by (simp add: created_def)
  qed (use ok in simp)
qed

lemma edited_books:
  assumes r: "commitMerchantInventoryStockEdit db pc revision stock mutationId t = Inr (db', product)" and ok: "books_ok db t"
  shows "books_ok db' t" "merchantInventoryAcceptedOrders db' = merchantInventoryAcceptedOrders db"
proof -
  let ?as = "listMerchantInventoryAssignments db pc"
  obtain p where p: "table_get (merchantInventoryProducts db) pc = Some p"
    using r by (auto simp: commitMerchantInventoryStockEdit_def bind_result_Inr split: option.split_asm if_split_asm)
  have ra: "rows_addressed db" using ok by (simp add: books_ok_def)
  define p' where "p' = p\<lparr>mp_stock := stock, mp_revision := mp_revision p + 1,
      mp_publicationJobs := mp_publicationJobs p @ [(new_job mutationId (mp_revision p + 1) t)\<lparr>job_productStock := stock\<rparr>]\<rparr>"
  from r p have d: "db' = db \<or>
    (\<exists>held. some_r (\<lambda>a. bind_result (if stock = None then outstandingOrganizerStockHold a else Inr 0) (\<lambda>held.
         Inr (held > 0 \<or> (ma_state a = ''active'' \<and> (ma_inventory a = Untracked) \<noteq> (stock = None))))) ?as = Inr False
       \<and> reserved ?as t = Inr held \<and> (\<forall>n. stock = Some n \<longrightarrow> held \<le> n)
       \<and> db' = db\<lparr>merchantInventoryProducts := table_put pc p' (merchantInventoryProducts db)\<rparr>)"
    unfolding commitMerchantInventoryStockEdit_def p'_def
    by (auto simp: bind_result_Inr Let_def split: option.split_asm if_split_asm)
  then show "merchantInventoryAcceptedOrders db' = merchantInventoryAcceptedOrders db" by auto
  from d show "books_ok db' t"
  proof
    assume "\<exists>held. some_r (\<lambda>a. bind_result (if stock = None then outstandingOrganizerStockHold a else Inr 0) (\<lambda>held.
         Inr (held > 0 \<or> (ma_state a = ''active'' \<and> (ma_inventory a = Untracked) \<noteq> (stock = None))))) ?as = Inr False
       \<and> reserved ?as t = Inr held \<and> (\<forall>n. stock = Some n \<longrightarrow> held \<le> n)
       \<and> db' = db\<lparr>merchantInventoryProducts := table_put pc p' (merchantInventoryProducts db)\<rparr>"
    then obtain held where e: "some_r (\<lambda>a. bind_result (if stock = None then outstandingOrganizerStockHold a else Inr 0) (\<lambda>held.
         Inr (held > 0 \<or> (ma_state a = ''active'' \<and> (ma_inventory a = Untracked) \<noteq> (stock = None))))) ?as = Inr False"
      "reserved ?as t = Inr held" "\<And>n. stock = Some n \<Longrightarrow> held \<le> n"
      "db' = db\<lparr>merchantInventoryProducts := table_put pc p' (merchantInventoryProducts db)\<rparr>" by blast
    have p': "mp_coordinate p' = mp_coordinate p" "mp_stock p' = stock" by (simp_all add: p'_def)
    have "rows_covered stock ?as t"
      using e(1-3) by (cases stock) (auto simp: rows_covered_def some_r_False list_ex_iff bind_result_Inr)
    then show ?thesis
      using books_put_product [OF ok, of p' pc] p e(4) p' ra by (auto simp: rows_addressed_def)
  qed (use ok in simp)
qed

subsection \<open>Assignments\<close>

lemma rows_put:
  assumes "table_keyed t" "\<forall>(k, v) \<in> set t. key v = k" "key a = c"
  shows "filter (\<lambda>x. key x \<noteq> c) (table_rows (table_put c a t)) = filter (\<lambda>x. key x \<noteq> c) (table_rows t)
    \<and> filter (\<lambda>x. key x = c) (table_rows (table_put c a t)) = [a]"
  using assms
proof (induction t)
  case Nil
  then show ?case by (simp add: table_rows_def)
next
  case (Cons r t)
  obtain k v where r: "r = (k, v)" by force
  have up: "\<forall>(j, w) \<in> set t. key w = j \<and> k < j" and v: "key v = k" "table_keyed t"
    using Cons.prems(1,2) by (auto simp: r table_keyed_def)
  have gone: "filter (\<lambda>x. key x = d) (map snd u) = []" "filter (\<lambda>x. key x \<noteq> d) (map snd u) = map snd u"
    if "\<forall>(j, w) \<in> set u. key w = j \<and> d < j" for u d
    using that by (force simp: filter_empty_conv filter_id_conv)+
  consider (same) "k = c" | (before) "c < k" | (after) "k < c" by (meson linorder_less_linear)
  then show ?case
  proof cases
    case same
    then show ?thesis using gone [OF up] Cons.prems(3) v(1) by (simp add: r table_rows_def)
  next
    case before
    then have "\<forall>(j, w) \<in> set (r # t). key w = j \<and> c < j" using up v(1) by (auto simp: r)
    from gone [OF this] show ?thesis using before Cons.prems(3) v(1) by (auto simp: r table_rows_def)
  next
    case after
    then have "c \<noteq> k" "\<not> c < k" by auto
    then show ?thesis using Cons.IH [OF v(2)] Cons.prems(2,3) v(1) by (simp add: r table_rows_def)
  qed
qed

text \<open>The rows of a product when one assignment of it is written.\<close>

lemma listed_put:
  assumes r: "rows_addressed db" and a: "ma_coordinate a = c" "ma_productCoordinate a = pc"
    and old: "\<forall>b. table_get (merchantInventoryAssignments db) c = Some b \<longrightarrow> ma_productCoordinate b = pc"
  defines "db' \<equiv> db\<lparr>merchantInventoryAssignments := table_put c a (merchantInventoryAssignments db)\<rparr>"
  shows "filter (\<lambda>x. ma_coordinate x \<noteq> c) (listMerchantInventoryAssignments db' pc)
      = filter (\<lambda>x. ma_coordinate x \<noteq> c) (listMerchantInventoryAssignments db pc)"
    "filter (\<lambda>x. ma_coordinate x = c) (listMerchantInventoryAssignments db' pc) = [a]"
    "k \<noteq> pc \<Longrightarrow> listMerchantInventoryAssignments db' k = listMerchantInventoryAssignments db k"
    "x \<in> set (listMerchantInventoryAssignments db' pc) \<Longrightarrow> x = a \<or> x \<in> set (listMerchantInventoryAssignments db pc)"
    "rows_addressed db'"
proof -
  let ?T = "merchantInventoryAssignments db"
  have keyed: "table_keyed ?T" using r by (simp add: rows_addressed_def)
  then have "distinct (map fst ?T)" by (auto simp: table_keyed_def strict_sorted_iff)
  then have addressed: "\<forall>(k, v) \<in> set ?T. ma_coordinate v = k" using r by (auto simp: rows_addressed_def table_get_def)
  note put = conjunct1 [OF rows_put [OF keyed addressed a(1)]] conjunct2 [OF rows_put [OF keyed addressed a(1)]]
  have written: "merchantInventoryAssignments db' = table_put c a ?T" by (simp add: db'_def)
  have swap: "filter P (filter Q xs) = filter Q (filter P xs)" for P Q and xs :: "MerchantInventoryAssignment list"
    by (simp add: conj_commute)
  show "filter (\<lambda>x. ma_coordinate x \<noteq> c) (listMerchantInventoryAssignments db' pc)
      = filter (\<lambda>x. ma_coordinate x \<noteq> c) (listMerchantInventoryAssignments db pc)"
    unfolding listMerchantInventoryAssignments_def written swap [where P = "\<lambda>x. ma_coordinate x \<noteq> c"] put ..
  show "filter (\<lambda>x. ma_coordinate x = c) (listMerchantInventoryAssignments db' pc) = [a]"
    unfolding listMerchantInventoryAssignments_def written swap [where P = "\<lambda>x. ma_coordinate x = c"] put by (simp add: a)
  show ra: "rows_addressed db'" using r a(1) by (auto simp: rows_addressed_def db'_def table_put_keyed table_get_put)
  show "x \<in> set (listMerchantInventoryAssignments db' pc) \<Longrightarrow> x = a \<or> x \<in> set (listMerchantInventoryAssignments db pc)"
    using listed [OF ra] listed [OF r] by (auto simp: db'_def table_get_put split: if_split_asm)
  show "listMerchantInventoryAssignments db' k = listMerchantInventoryAssignments db k" if "k \<noteq> pc"
  proof -
    have split: "filter (\<lambda>x. ma_productCoordinate x = k) xs
        = filter (\<lambda>x. ma_productCoordinate x = k) (filter (\<lambda>x. ma_coordinate x \<noteq> c) xs)"
      if "\<forall>x \<in> set xs. ma_coordinate x = c \<longrightarrow> ma_productCoordinate x \<noteq> k" for xs
      using that by (induction xs) auto
    have "\<forall>x \<in> set (table_rows ?T). ma_coordinate x = c \<longrightarrow> ma_productCoordinate x \<noteq> k"
      using old that r by (auto simp: rows_addressed_def table_get_rows)
    moreover have "\<forall>x \<in> set (table_rows (table_put c a ?T)). ma_coordinate x = c \<longrightarrow> ma_productCoordinate x \<noteq> k"
    proof (intro ballI impI)
      fix x assume "x \<in> set (table_rows (table_put c a ?T))" "ma_coordinate x = c"
      then have "x \<in> set (filter (\<lambda>x. ma_coordinate x = c) (table_rows (table_put c a ?T)))" by simp
      then show "ma_productCoordinate x \<noteq> k" unfolding put(2) using a(2) that by simp
    qed
    ultimately have "filter (\<lambda>x. ma_productCoordinate x = k) (table_rows (table_put c a ?T))
        = filter (\<lambda>x. ma_productCoordinate x = k) (table_rows ?T)"
      using split [of "table_rows (table_put c a ?T)"] split [of "table_rows ?T"] unfolding put(1) by (simp only:)
    then show ?thesis unfolding listMerchantInventoryAssignments_def written .
  qed
qed

lemma assigned_books:
  assumes r: "commitMerchantInventoryAssignment env db inp t = Inr (db', a)" and ok: "books_ok db t"
  shows "books_ok db' t" "merchantInventoryAcceptedOrders db' = merchantInventoryAcceptedOrders db"
proof -
  let ?c = "in_assignmentCoordinate inp" and ?pc = "in_productCoordinate inp"
  let ?existing = "table_get (merchantInventoryAssignments db) ?c"
  obtain p where p: "table_get (merchantInventoryProducts db) ?pc = Some p" "(mp_stock p = None) = (in_inventory inp = Untracked)"
    using r by (auto simp: commitMerchantInventoryAssignment_def bind_result_Inr split: option.split_asm if_split_asm)
  obtain h where h: "(case ?existing of None \<Rightarrow> Inr 0 | Some a \<Rightarrow> outstandingOrganizerStockHold a) = Inr h"
    "\<not> (h > 0 \<and> in_inventory inp = Untracked)"
    using r p by (auto simp: commitMerchantInventoryAssignment_def bind_result_Inr Let_def split: if_split_asm)
  let ?a = "committed_assignment p inp ?existing t"
  have d: "db' = db \<or> (\<exists>elsewhere.
      reserved (filter (\<lambda>a. ma_coordinate a \<noteq> ?c) (listMerchantInventoryAssignments db ?pc)) t = Inr elsewhere
      \<and> (\<forall>s. mp_stock p = Some s \<longrightarrow> elsewhere + max (live_allocation ?a t) h \<le> s)
      \<and> (\<forall>b. ?existing = Some b \<longrightarrow> ma_productCoordinate b = ?pc)
      \<and> db' = db\<lparr>merchantInventoryAssignments := table_put ?c ?a (merchantInventoryAssignments db)\<rparr>)"
    using r p h unfolding commitMerchantInventoryAssignment_def
    by (auto simp: bind_result_Inr Let_def split: option.split_asm if_split_asm)
  then show "merchantInventoryAcceptedOrders db' = merchantInventoryAcceptedOrders db" by auto
  from d show "books_ok db' t"
  proof
    assume "\<exists>elsewhere. reserved (filter (\<lambda>a. ma_coordinate a \<noteq> ?c) (listMerchantInventoryAssignments db ?pc)) t = Inr elsewhere
      \<and> (\<forall>s. mp_stock p = Some s \<longrightarrow> elsewhere + max (live_allocation ?a t) h \<le> s)
      \<and> (\<forall>b. ?existing = Some b \<longrightarrow> ma_productCoordinate b = ?pc)
      \<and> db' = db\<lparr>merchantInventoryAssignments := table_put ?c ?a (merchantInventoryAssignments db)\<rparr>"
    then obtain elsewhere where e: "reserved (filter (\<lambda>a. ma_coordinate a \<noteq> ?c) (listMerchantInventoryAssignments db ?pc)) t = Inr elsewhere"
      "\<And>s. mp_stock p = Some s \<Longrightarrow> elsewhere + max (live_allocation ?a t) h \<le> s"
      "\<forall>b. ?existing = Some b \<longrightarrow> ma_productCoordinate b = ?pc"
      "db' = db\<lparr>merchantInventoryAssignments := table_put ?c ?a (merchantInventoryAssignments db)\<rparr>" by blast
    have ra: "rows_addressed db" using ok by (simp add: books_ok_def)
    have a: "ma_coordinate ?a = ?c" "ma_productCoordinate ?a = ?pc" "ma_inventory ?a = in_inventory inp"
      by (simp_all add: committed_assignment_def Let_def)
    have held: "outstandingOrganizerStockHold ?a = Inr h"
      using h by (cases ?existing)
        (auto simp: committed_assignment_def outstandingOrganizerStockHold_def Let_def split: option.split_asm if_split_asm)
    note l = listed_put [OF ra a(1,2) e(3), folded e(4)]
    have old: "rows_covered (mp_stock p) (listMerchantInventoryAssignments db ?pc) t" using ok p(1) by (simp add: books_ok_def)
    have new: "rows_covered (mp_stock p) (listMerchantInventoryAssignments db' ?pc) t"
    proof (cases "mp_stock p")
      case None
      then have "in_inventory inp = Untracked" using p(2) by simp
      then have "h = 0" "ma_inventory ?a = Untracked" using h(2) a(3) outstanding_nonneg [OF held] by auto
      then have "rows_covered None [?a] t" by (simp add: rows_covered_def held)
      then have one: "bind_result (outstandingOrganizerStockHold ?a) (\<lambda>held.
          Inr (held > 0 \<or> (ma_state ?a = ''active'' \<and> ma_inventory ?a \<noteq> Untracked))) = Inr False"
        by (simp add: rows_covered_def some_r_False del: some_r.simps)
      show ?thesis using old unfolding None rows_covered_def option.case some_r_False
      proof (intro ballI)
        fix x assume each: "\<forall>x \<in> set (listMerchantInventoryAssignments db ?pc). bind_result (outstandingOrganizerStockHold x) (\<lambda>held.
          Inr (held > 0 \<or> (ma_state x = ''active'' \<and> ma_inventory x \<noteq> Untracked))) = Inr False"
          and x: "x \<in> set (listMerchantInventoryAssignments db' ?pc)"
        from l(4) [OF x] show "bind_result (outstandingOrganizerStockHold x) (\<lambda>held.
          Inr (held > 0 \<or> (ma_state x = ''active'' \<and> ma_inventory x \<noteq> Untracked))) = Inr False"
          using each one by blast
      qed
    next
      case (Some s)
      then have "in_inventory inp \<noteq> Untracked" using p(2) by simp
      then have "\<not> list_ex (\<lambda>a. ma_state a = ''active'' \<and> ma_inventory a = Untracked) (listMerchantInventoryAssignments db' ?pc)"
      proof -
        have "\<not> (ma_state x = ''active'' \<and> ma_inventory x = Untracked)"
          if "x \<in> set (listMerchantInventoryAssignments db' ?pc)" for x
          using l(4) [OF that] old Some a(3) \<open>in_inventory inp \<noteq> Untracked\<close> by (auto simp: rows_covered_def list_ex_iff)
        then show ?thesis by (auto simp: list_ex_iff)
      qed
      moreover have "reserved (filter (\<lambda>x. ma_coordinate x = ?c) (listMerchantInventoryAssignments db' ?pc)) t = Inr (max (live_allocation ?a t) h)"
        unfolding l(2) by (simp add: reserved_def effectiveAllocation_def held)
      then have "reserved (listMerchantInventoryAssignments db' ?pc) t = Inr (max (live_allocation ?a t) h + elsewhere)"
        unfolding reserved_def by (rule sum_r_filter) (use e(1) l(1) in \<open>simp add: reserved_def\<close>)
      ultimately show ?thesis using e(2) [OF Some] Some by (simp add: rows_covered_def add.commute)
    qed
    have prods: "merchantInventoryProducts db' = merchantInventoryProducts db" by (simp add: e(4))
    show ?thesis
      unfolding books_ok_def
    proof (intro conjI allI impI)
      show "rows_addressed db'" by (rule l(5))
      show "table_get (merchantInventoryProducts db') (ma_productCoordinate x) \<noteq> None"
        if "table_get (merchantInventoryAssignments db') k = Some x" for k x
        using that p(1) a(2) ok by (auto simp: prods e(4) table_get_put books_ok_def split: if_split_asm)
      show "rows_covered (mp_stock q) (listMerchantInventoryAssignments db' k) t"
        if "table_get (merchantInventoryProducts db') k = Some q" for k q
        using that new l(3) p(1) ok by (cases "k = ?pc") (auto simp: prods books_ok_def)
    qed
  qed (use ok in simp)
qed

subsection \<open>Acceptances\<close>

lemma replayed_acceptance:
  "acceptMerchantInventoryOrder env db inp continues t = Inr (db', True, order)
   \<Longrightarrow> db' = db \<and> table_get (merchantInventoryAcceptedOrders db) (accept_orderId inp) = Some order"
  by (auto simp: acceptMerchantInventoryOrder_def bind_result_Inr Let_def split: if_split_asm option.split_asm)

lemma accepted_books:
  assumes a: "acceptMerchantInventoryOrder env db inp continues t = Inr (db', replay, order)" and ok: "books_ok db t"
  shows "books_ok db' t \<and> orders_kept db db'"
proof (cases replay)
  case True
  with a have "acceptMerchantInventoryOrder env db inp continues t = Inr (db', True, order)" by simp
  from replayed_acceptance [OF this] have "db' = db" by simp
  then show ?thesis using ok by (simp add: orders_kept_def)
next
  case False
  have r: "rows_addressed db" using ok by (simp add: books_ok_def)
  from a False have fresh: "acceptMerchantInventoryOrder env db inp continues t = Inr (db', False, order)" by simp
  obtain consumed st where d: "decision_ok db consumed t st"
    "merchantInventoryProducts db' = merchantInventoryProducts (put_products inp t st (acc_db st))"
    "merchantInventoryAssignments db' = merchantInventoryAssignments (put_assignments inp t st (acc_db st))"
    "merchantInventoryAcceptedOrders db' = table_put (accept_orderId inp) order (merchantInventoryAcceptedOrders db)"
    "table_get (merchantInventoryAcceptedOrders db) (accept_orderId inp) = None"
    by (rule accepted_fresh [OF fresh r]) blast
  note rows = accepted_rows [OF d(1) r d(2,3)]
  have unopened: "current_rows st pc = listMerchantInventoryAssignments db pc" if "map_of (acc_products st) pc = None" for pc
    using d(1) that by (simp add: decision_ok_def opened_def)
  have "table_get (merchantInventoryProducts db') (ma_productCoordinate x) \<noteq> None"
    if x: "table_get (merchantInventoryAssignments db') k = Some x" for k x
  proof (cases "map_of (acc_products st) (ma_productCoordinate x)")
    case None
    have "x \<in> set (listMerchantInventoryAssignments db' (ma_productCoordinate x))"
      using x rows(1) listed [OF rows(1)] by (auto simp: rows_addressed_def)
    then obtain y where "y \<in> set (listMerchantInventoryAssignments db (ma_productCoordinate x))"
      using rows(2) [of "ma_productCoordinate x"] unopened [OF None] by (metis list_all2_conv_all_nth in_set_conv_nth)
    then have "table_get (merchantInventoryAssignments db) (ma_coordinate y) = Some y" "ma_productCoordinate y = ma_productCoordinate x"
      using listed [OF r] by simp_all
    then have "table_get (merchantInventoryProducts db) (ma_productCoordinate x) \<noteq> None"
      using ok unfolding books_ok_def by metis
    then show ?thesis using rows(3) None by simp
  qed (use rows(3) in simp)
  moreover have "rows_covered (mp_stock p) (listMerchantInventoryAssignments db' pc) t"
    if p: "table_get (merchantInventoryProducts db') pc = Some p" for pc p
    unfolding covered_alike [OF rows(2)]
  proof (cases "map_of (acc_products st) pc")
    case None
    then show "rows_covered (mp_stock p) (current_rows st pc) t"
      using p rows(3) ok unopened [OF None] by (simp add: books_ok_def)
  next
    case (Some q)
    then have "line_ok st t pc" "mp_stock p = mp_stock q"
      using d(1) p rows(3) [of pc] by (auto simp: decision_ok_def settled_product_def Let_def)
    then show "rows_covered (mp_stock p) (current_rows st pc) t" using Some by (simp add: line_ok_def)
  qed
  ultimately have "books_ok db' t" using rows(1) by (simp add: books_ok_def)
  then show ?thesis using d(4,5) by (auto simp: orders_kept_def table_get_put)
qed

subsection \<open>The publication queues\<close>

lemma republished_books:
  assumes p: "republished db kind coordinate db'" and ok: "books_ok db t"
  shows "books_ok db' t \<and> orders_kept db db'"
proof -
  have ra: "rows_addressed db" using ok by (simp add: books_ok_def)
  note rows = republished_rows [OF p ra]
  have prods: "map_option mp_stock (table_get (merchantInventoryProducts db') pc) = map_option mp_stock (table_get (merchantInventoryProducts db) pc)" for pc
    using rows by blast
  have assigns: "map_option ma_productCoordinate (table_get (merchantInventoryAssignments db') k)
      = map_option ma_productCoordinate (table_get (merchantInventoryAssignments db) k)" for k
    using rows by blast
  have "table_get (merchantInventoryProducts db') (ma_productCoordinate x) \<noteq> None"
    if x: "table_get (merchantInventoryAssignments db') k = Some x" for k x
  proof -
    obtain y where "table_get (merchantInventoryAssignments db) k = Some y" "ma_productCoordinate y = ma_productCoordinate x"
      using assigns [of k] x by (cases "table_get (merchantInventoryAssignments db) k") auto
    then have "table_get (merchantInventoryProducts db) (ma_productCoordinate x) \<noteq> None" using ok unfolding books_ok_def by metis
    then show ?thesis using prods [of "ma_productCoordinate x"] by auto
  qed
  moreover have "rows_covered (mp_stock x) (listMerchantInventoryAssignments db' pc) t"
    if x: "table_get (merchantInventoryProducts db') pc = Some x" for pc x
  proof -
    obtain y where "table_get (merchantInventoryProducts db) pc = Some y" "mp_stock y = mp_stock x"
      using prods [of pc] x by (cases "table_get (merchantInventoryProducts db) pc") auto
    moreover have "list_all2 alike (listMerchantInventoryAssignments db' pc) (listMerchantInventoryAssignments db pc)" using rows by blast
    ultimately show ?thesis using ok covered_alike unfolding books_ok_def by metis
  qed
  ultimately show ?thesis using rows by (simp add: books_ok_def orders_kept_def)
qed

definition inventory_ok :: "merchant_db \<Rightarrow> int \<Rightarrow> bool" where
  "inventory_ok db t \<longleftrightarrow> books_ok db t \<and> queues_chained db"

lemma republished_ok:
  "republished db kind coordinate db' \<Longrightarrow> inventory_ok db t \<Longrightarrow> inventory_ok db' t \<and> orders_kept db db'"
  using republished_books republished_queues by (auto simp: inventory_ok_def)

lemma accepted_ok:
  assumes a: "acceptMerchantInventoryOrder env db inp continues t = Inr (db', replay, order)" and ok: "inventory_ok db t"
  shows "inventory_ok db' t \<and> orders_kept db db'"
proof -
  have "queues_chained db'"
  proof (cases replay)
    case True
    then have "db' = db" using replayed_acceptance [of env db inp continues t db' order] a by simp
    then show ?thesis using ok by (simp add: inventory_ok_def)
  next
    case False
    then show ?thesis using accepted_queues [of env db inp continues t db' order] a ok by (simp add: inventory_ok_def books_ok_def)
  qed
  then show ?thesis using accepted_books [OF a] ok by (simp add: inventory_ok_def)
qed

subsection \<open>Every step\<close>

lemma performed_inventory:
  assumes "perform_inventory env db request t = Inr db'" and ok: "inventory_ok db t"
  shows "inventory_ok db' t \<and> orders_kept db db'"
proof (cases request)
  case (RequestProduct pc merchant stock event)
  then obtain x where "initializeMerchantInventoryProduct env db pc merchant stock event = Inr (db', x)"
    using assms(1) by (auto simp: bind_result_Inr)
  with ok initialized_books initialized_queues show ?thesis unfolding inventory_ok_def orders_kept_def by metis
next
  case (RequestStockEdit pc revision stock mutationId)
  then obtain x where "commitMerchantInventoryStockEdit db pc revision stock mutationId t = Inr (db', x)"
    using assms(1) by (auto simp: bind_result_Inr)
  with ok edited_books edited_queues show ?thesis unfolding inventory_ok_def orders_kept_def by metis
next
  case (RequestAssignment inp)
  then obtain x where "commitMerchantInventoryAssignment env db inp t = Inr (db', x)"
    using assms(1) by (auto simp: bind_result_Inr)
  with ok assigned_books assigned_queues show ?thesis unfolding inventory_ok_def orders_kept_def by metis
next
  case (RequestOrder inp continues)
  then obtain replay x where "acceptMerchantInventoryOrder env db inp continues t = Inr (db', replay, x)"
    using assms(1) by (auto simp: bind_result_Inr)
  from accepted_ok [OF this ok] show ?thesis .
next
  case (RequestDraft kind coordinate)
  then obtain w where "prepareNextPublication env db kind coordinate = Inr (db', w)" using assms(1) by (auto simp: bind_result_Inr)
  from republished_ok [OF prepared_requeues [OF this] ok] show ?thesis .
next
  case (RequestSignature kind coordinate jobId event)
  then obtain w where "saveSignedPublication env db kind coordinate jobId event = Inr (db', w)" using assms(1) by (auto simp: bind_result_Inr)
  from republished_ok [OF saved_requeues [OF this] ok] show ?thesis .
next
  case (RequestDelivery kind coordinate jobId superseded)
  then have "markDelivered db kind coordinate jobId superseded = Inr db'" using assms(1) by simp
  from republished_ok [OF delivered_requeues [OF this] ok] show ?thesis .
qed

interpretation inventory: guarded_store "inventory_attempt env" "\<lambda>(db, t). inventory_ok db t"
    "\<lambda>(db, t) (db', t'). t \<le> t' \<and> orders_kept db db'"
proof
  fix s :: "merchant_db \<times> int" and x :: "inventory_request \<times> nat"
  obtain db t request elapsed where e: "s = (db, t)" "x = (request, elapsed)" by (metis surj_pair)
  assume "case s of (db, t) \<Rightarrow> inventory_ok db t"
  then have "inventory_ok db (t + int elapsed)" using books_later [of db t] by (simp add: e inventory_ok_def)
  then have "case inventory_attempt env s x of (db', t') \<Rightarrow> inventory_ok db' t' \<and> t \<le> t' \<and> orders_kept db db'"
    using performed_inventory [of env db request "t + int elapsed"]
    by (cases "perform_inventory env db request (t + int elapsed)") (auto simp: e orders_kept_def)
  then show "case inventory_attempt env s x of (db, t) \<Rightarrow> inventory_ok db t"
    "(case s of (db, t) \<Rightarrow> \<lambda>(db', t'). t \<le> t' \<and> orders_kept db db') (inventory_attempt env s x)"
    by (auto simp: e)
qed (auto simp: orders_kept_def)

lemma empty_ok: "inventory_ok empty_inventory t"
  by (auto simp: inventory_ok_def books_ok_def empty_inventory_def rows_addressed_def table_keyed_def table_get_def intro: queues_chainedI)

end
