(* ===== verification/Sample_Inventory.thy ===== *)
theory Sample_Inventory
  imports Inventory_System Sample_Stock
begin

text \<open>
  A sample inventory: ten pieces of a product, four of them assigned to an occurrence, and an order of five
  pieces to ship and three to pick up there, one of which an earlier owner of the stock already debited.
\<close>

subsection \<open>A product and a part of it\<close>

definition inventory_env :: publication_ports where
  "inventory_env = inventory_ports.extend
     (event_ports.extend journal_env
       \<lparr>js_Number = (\<lambda>s. if s = ''30402'' then JSInt 30402 else if s = ''30410'' then JSInt 30410 else JSOther),
        verifySignedEventBatches = (\<lambda>events. events), calendar_end = (\<lambda>_. None)\<rparr>)
     \<lparr>localeCompare = (\<lambda>a b. if a = b then 0 else if a < b then -1 else 1)\<rparr>"

definition cap :: js_string where
  "cap = productCoordinate sample_grant"

definition cap_event :: SignedPublicNostrEvent where
  "cap_event =
     \<lparr>event_kind = 30402, event_pubkey = key_of CHR ''a'', created_at = 1,
      event_tags = [[''d'', ''cap''], [''stock'', ''10''], [''type'', ''simple'']], event_content = [],
      event_id = key_of CHR ''0'', event_sig = replicate 128 CHR ''0''\<rparr>"

definition fair_assignment :: assignment_input where
  "fair_assignment =
     \<lparr>in_productCoordinate = cap, in_assignmentCoordinate = assignmentCoordinate sample_grant,
      in_marketCoordinate = marketCoordinate sample_grant, in_occurrenceCoordinate = occurrenceCoordinate sample_grant,
      in_inventory = Tracked 4, in_state = ''active'', in_fulfillmentMethods = [''pickup''],
      in_context = ValidatedContext
        \<lparr>context_productEventId = key_of CHR ''1'', context_marketEventId = key_of CHR ''3'',
         context_occurrenceEventId = key_of CHR ''4'', context_scheduleEventId = None, context_grantEventId = key_of CHR ''5'',
         context_occurrenceEndMs = 9000000, context_terminal = False\<rparr>,
      in_expectedRevision = None, in_mutationId = ''m1''\<rparr>"

definition cap_line :: MerchantInventoryOrderItem where
  "cap_line =
     \<lparr>item_productCoordinate = cap, item_assignmentCoordinate = None, item_method = ''ordinary'', item_quantity = 5,
      item_admission = \<lparr>admission_productTermsEventId = None, admission_productEventId = key_of CHR ''1'',
        admission_market = None\<rparr>\<rparr>"

definition fair_line :: MerchantInventoryOrderItem where
  "fair_line =
     \<lparr>item_productCoordinate = cap, item_assignmentCoordinate = Some (assignmentCoordinate sample_grant),
      item_method = ''pickup'', item_quantity = 3,
      item_admission = \<lparr>admission_productTermsEventId = None, admission_productEventId = key_of CHR ''1'',
        admission_market = Some \<lparr>admission_settlement = False,
          admission_assignmentCoordinate = assignmentCoordinate sample_grant, admission_assignmentEventId = None,
          admission_marketEventId = key_of CHR ''3'', admission_occurrenceEventId = key_of CHR ''4'',
          admission_grantEventId = key_of CHR ''5'', admission_scheduleEventId = None\<rparr>\<rparr>\<rparr>"

definition fair_order :: accept_input where
  "fair_order =
     \<lparr>accept_orderId = ''order-1'', accept_merchantPubkey = key_of CHR ''a'', accept_identityBinding = ''buyer'',
      accept_termsBinding = ''terms'', accept_evidence = ''evidence'', accept_evidenceFormat = None,
      accept_evidenceBinding = None,
      accept_items = [cap_line, fair_line],
      accept_priorStockAdjustments =
        [\<lparr>adjusted_productCoordinate = cap, adjusted_quantity = 8, adjusted_shortfall = 7, adjusted_custom = False\<rparr>]\<rparr>"

definition stocking :: "(inventory_request \<times> nat) list" where
  "stocking = [(RequestProduct cap (key_of CHR ''a'') (Some 10) cap_event, 0), (RequestAssignment fair_assignment, 10)]"

definition cap_row :: "int \<Rightarrow> int \<Rightarrow> MerchantInventoryPublicationJob list \<Rightarrow> MerchantInventoryProduct" where
  "cap_row stock revision jobs =
     \<lparr>mp_coordinate = cap, mp_merchantPubkey = key_of CHR ''a'', mp_stock = Some stock, mp_revision = revision,
      mp_sourceProductEvent = cap_event, mp_signedProductEvent = cap_event, mp_publicationJobs = jobs\<rparr>"

definition initialized :: merchant_db where
  "initialized = empty_inventory\<lparr>merchantInventoryProducts := [(cap, cap_row 10 0 [])]\<rparr>"

definition fair_row :: MerchantInventoryAssignment where
  "fair_row = committed_assignment (cap_row 10 0 []) fair_assignment None 1010"

definition stocked :: merchant_db where
  "stocked = initialized\<lparr>merchantInventoryAssignments := [(assignmentCoordinate sample_grant, fair_row)]\<rparr>"

lemma cap_parts: "coordinateParts inventory_env cap = Inr \<lparr>part_kind = 30402, part_pubkey = key_of CHR ''a'', part_d = ''cap''\<rparr>"
  by code_simp

lemma cap_exact: "isExactSource inventory_env cap_event cap = Inr True"
  by code_simp

lemma fair_parts: "coordinateParts inventory_env (assignmentCoordinate sample_grant)
    = Inr \<lparr>part_kind = 30410, part_pubkey = key_of CHR ''a'', part_d = key_of CHR ''0''\<rparr>"
  by code_simp

lemma inventory_digest: "json_digest (event_sha256 inventory_env) v = key_of CHR ''0''"
  using zero_digest(1) [of v] by (simp add: inventory_env_def journal_env_def event_ports.defs inventory_ports.defs)

lemma fair_tuple: "check_tuple inventory_env fair_assignment = Inr ()"
proof -
  have "parseTuple \<lparr>tuple_market = marketCoordinate sample_grant, tuple_occurrence = occurrenceCoordinate sample_grant,
      tuple_product = productCoordinate sample_grant\<rparr> = parseTuple (granted_input True 0)"
    by (simp add: parseTuple_def granted_input_def)
  then have "parseTuple \<lparr>tuple_market = marketCoordinate sample_grant, tuple_occurrence = occurrenceCoordinate sample_grant,
      tuple_product = productCoordinate sample_grant\<rparr> \<noteq> None"
    using granted_tuple [of True 0] by auto
  then show ?thesis
    by (simp add: check_tuple_def fair_assignment_def cap_parts fair_parts computeEventMarketAssignmentDTag_def tupleHash_def
        inventory_digest flip: cap_def)
qed

lemma fair_terms: "check_context (in_context fair_assignment) (in_state fair_assignment) = Inr ()"
  "check_terms (in_inventory fair_assignment) (in_state fair_assignment) (in_fulfillmentMethods fair_assignment) = Inr ()"
  by code_simp+

lemma fair_checks: "check_all check_item (accept_items fair_order) = Inr ()" "check_order fair_order 1010 = Inr ()"
  by code_simp+

lemma cap_initialized: "initializeMerchantInventoryProduct inventory_env empty_inventory cap (key_of CHR ''a'') (Some 10) cap_event
    = Inr (initialized, cap_row 10 0 [])"
proof -
  have "tags_named ''stock'' (event_tags cap_event) = [[''stock'', ''10'']]" "tags_named ''type'' (event_tags cap_event) = [[''type'', ''simple'']]"
    "int_text 10 = ''10''" by code_simp+
  then show ?thesis
    by (simp add: initializeMerchantInventoryProduct_def cap_parts cap_exact requireStock_def MAX_ALLOCATION_def tag_at_def
        empty_inventory_def table_get_def initialized_def cap_row_def Let_def)
qed

lemma fair_fields:
  "in_productCoordinate fair_assignment = cap" "in_assignmentCoordinate fair_assignment = assignmentCoordinate sample_grant"
  "in_inventory fair_assignment = Tracked 4" "in_state fair_assignment = ''active''" "in_mutationId fair_assignment = ''m1''"
  "in_expectedRevision fair_assignment = None" "\<And>old. occurrence_of (in_context fair_assignment) old = (9000000, (case old of None \<Rightarrow> False | Some a \<Rightarrow> ma_terminal a))"
  "in_context fair_assignment \<noteq> RemovalContext"
  by (simp_all add: fair_assignment_def occurrence_of_def)

lemma fair_row_fields:
  "ma_coordinate fair_row = assignmentCoordinate sample_grant" "ma_productCoordinate fair_row = cap" "ma_inventory fair_row = Tracked 4"
  "ma_state fair_row = ''active''" "ma_fulfillmentMethods fair_row = [''pickup'']" "ma_occurrenceEndMs fair_row = 9000000"
  "\<not> ma_terminal fair_row" "ma_organizerStockHold fair_row = None" "ma_merchantPubkey fair_row = key_of CHR ''a''"
  by (simp_all add: fair_row_def committed_assignment_def Let_def fair_fields) (simp_all add: fair_assignment_def cap_row_def)

lemma fair_assigned: "commitMerchantInventoryAssignment inventory_env initialized fair_assignment 1010 = Inr (stocked, fair_row)"
proof -
  have "table_get (merchantInventoryProducts initialized) cap = Some (cap_row 10 0 [])" "merchantInventoryAssignments initialized = []"
    "mp_stock (cap_row 10 0 []) = Some 10"
    by (simp_all add: initialized_def table_get_def empty_inventory_def cap_row_def)
  moreover have "live_allocation fair_row 1010 = 4" by (simp add: live_allocation_def fair_row_fields)
  ultimately show ?thesis
    using fair_tuple fair_terms
    by (simp add: commitMerchantInventoryAssignment_def fair_fields table_get_def is_safe_def MAX_SAFE_INTEGER_def
        listMerchantInventoryAssignments_def table_rows_def reserved_def stocked_def flip: fair_row_def)
qed

lemma sample_stocked: "attempts (inventory_attempt inventory_env) (empty_inventory, 1000) stocking = (stocked, 1010)"
  by (simp add: stocking_def cap_initialized fair_assigned)

subsection \<open>An accepted sample order\<close>

lemma fair_order_fields:
  "accept_merchantPubkey fair_order = key_of CHR ''a''" "accept_orderId fair_order = ''order-1''"
  by (simp_all add: fair_order_def)

lemma fair_present: "assignmentCoordinate sample_grant \<noteq> []"
  by code_simp

lemma sample_consumed:
  "consumed_stock stocked fair_order (first_occurrences (map item_productCoordinate (accept_items fair_order))) = Inr [(cap, 1)]"
  by (simp add: fair_order_def cap_line_def fair_line_def first_occurrences_def prior_adjustments_def ordered_quantity_def stocked_def initialized_def
      empty_inventory_def table_rows_def is_safe_def MAX_SAFE_INTEGER_def)

lemma sample_reconciled: "reconcileKnownOccurrenceLifecycle inventory_env (key_of CHR ''a'') (Some cap) stocked = stocked"
proof -
  have "market_evidence inventory_env stocked m = []" for m
    by (simp add: market_evidence_def stocked_def initialized_def empty_inventory_def table_rows_def inventory_env_def event_ports.defs inventory_ports.defs)
  then have "reconciled_assignment inventory_env stocked a = a" for a
    by (simp add: reconciled_assignment_def newestAddressableEvidence_def js_sort_def Let_def)
  then have "reconcile_row inventory_env c stocked = stocked" if "c = assignmentCoordinate sample_grant" for c
    using that by (simp add: reconcile_row_def stocked_def table_get_def)
  then show ?thesis
    by (simp add: reconcileKnownOccurrenceLifecycle_def) (simp add: stocked_def table_rows_def fair_row_fields)
qed

definition first_line :: acceptance where
  "first_line = (begin_acceptance stocked [(cap, 1)])
     \<lparr>acc_products := [(cap, cap_row 6 0 [])], acc_debited := [cap], acc_consumed := [(cap, 0)],
      acc_output := [item_output cap_line (Some 6) None]\<rparr>"

definition picked_row :: MerchantInventoryAssignment where
  "picked_row = fair_row\<lparr>ma_inventory := Tracked 1\<rparr>"

definition second_line :: acceptance where
  "second_line = first_line
     \<lparr>acc_products := [(cap, cap_row 3 0 [])], acc_assignments := [(assignmentCoordinate sample_grant, picked_row)],
      acc_debited := [cap, cap],
      acc_output := [item_output cap_line (Some 6) None,
                     item_output fair_line (Some 3) (Some picked_row)]\<rparr>"

lemma listed_stocked: "listMerchantInventoryAssignments stocked cap = [fair_row]"
  by (simp add: listMerchantInventoryAssignments_def stocked_def table_rows_def fair_row_fields)

lemma fair_effective: "effectiveAllocation fair_row 1010 = Inr 4" "outstandingOrganizerStockHold fair_row = Inr 0"
  by (simp_all add: effectiveAllocation_def outstandingOrganizerStockHold_def live_allocation_def fair_row_fields)

lemma line_fields:
  "item_productCoordinate cap_line = cap" "item_assignmentCoordinate cap_line = None" "item_method cap_line = ''ordinary''"
  "item_quantity cap_line = 5" "admission_productTermsEventId (item_admission cap_line) = None"
  "item_productCoordinate fair_line = cap" "item_assignmentCoordinate fair_line = Some (assignmentCoordinate sample_grant)"
  "item_method fair_line = ''pickup''" "item_quantity fair_line = 3" "\<And>a. \<not> expired_settlement fair_line a 1010"
  "accept_items fair_order = [cap_line, fair_line]"
  by (simp_all add: cap_line_def fair_line_def fair_order_def expired_settlement_def)

lemma cap_row_fields:
  "mp_coordinate (cap_row n r js) = cap" "mp_merchantPubkey (cap_row n r js) = key_of CHR ''a''" "mp_stock (cap_row n r js) = Some n"
  "cap_row n r js\<lparr>mp_stock := Some m\<rparr> = cap_row m r js"
  by (simp_all add: cap_row_def)

lemma first_accepted:
  "accept_item inventory_env fair_order 1010 (begin_acceptance stocked [(cap, 1)]) cap_line = Inr first_line"
proof -
  have "table_get (merchantInventoryProducts stocked) cap = Some (cap_row 10 0 [])"
    by (simp add: stocked_def initialized_def table_get_def)
  then show ?thesis
    by (simp add: accept_item_def open_product_def begin_acceptance_def fair_order_fields line_fields cap_row_fields sample_reconciled
        open_assignment_def listed_stocked current_assignment_def reserved_def fair_effective debit_line_def check_lane_def
        fair_row_fields first_line_def Let_def)
qed

lemma second_accepted:
  "accept_item inventory_env fair_order 1010 first_line fair_line = Inr second_line"
proof -
  have "acc_db first_line = stocked" "acc_products first_line = [(cap, cap_row 6 0 [])]" "acc_assignments first_line = []"
    "acc_consumed first_line = [(cap, 0)]" "acc_debited first_line = [cap]"
    "acc_output first_line = [item_output cap_line (Some 6) None]"
    by (simp_all add: first_line_def begin_acceptance_def)
  moreover have "picked_up fair_line False fair_row = picked_row"
    by (simp add: picked_up_def fair_row_fields line_fields picked_row_def)
  moreover have "ma_coordinate picked_row = assignmentCoordinate sample_grant" by (simp add: picked_row_def fair_row_fields)
  ultimately show ?thesis
    by (simp add: accept_item_def open_product_def line_fields cap_row_fields
        open_assignment_def fair_present listed_stocked current_assignment_def reserved_def fair_effective debit_line_def check_lane_def
        fair_row_fields second_line_def Let_def)
qed

lemma sample_order:
  "accept_items_in_turn inventory_env fair_order 1010 (begin_acceptance stocked [(cap, 1)]) (accept_items fair_order) = Inr second_line"
  unfolding line_fields(11) by (simp add: first_accepted second_accepted)

definition decided :: merchant_db where
  "decided = (let db = put_assignments fair_order 1010 second_line (put_products fair_order 1010 second_line stocked)
     in db\<lparr>merchantInventoryAcceptedOrders := [(''order-1'', accepted_order fair_order 1010 second_line)]\<rparr>)"

lemma sample_decided:
  "acceptMerchantInventoryOrder inventory_env stocked fair_order True 1010
   = Inr (decided, False, accepted_order fair_order 1010 second_line)"
proof -
  have "merchantInventoryAcceptedOrders stocked = []" by (simp add: stocked_def initialized_def empty_inventory_def)
  moreover have "acc_db second_line = stocked" by (simp add: second_line_def first_line_def begin_acceptance_def)
  ultimately show ?thesis
    by (simp add: acceptMerchantInventoryOrder_def fair_checks fair_order_fields sample_consumed sample_order table_get_def
        decided_def Let_def put_products_def put_assignments_def)
qed

lemma stocked_addressed: "rows_addressed stocked"
proof -
  have "cap \<noteq> []" by code_simp
  then show ?thesis
    by (simp add: rows_addressed_def stocked_def initialized_def empty_inventory_def table_keyed_def table_get_def
        cap_row_fields fair_row_fields)
qed

end
