(* ===== verification/Inventory_Claims.thy ===== *)
theory Inventory_Claims
  imports Sample_Inventory
begin

text \<open>
  What the merchant's inventory guarantees: an accepted order takes exactly its quantity and leaves every
  reservation covered, no sequence of operations overcommits stock, and an order is debited once.
\<close>

subsection \<open>Reading covered rows\<close>

lemma covered_readable:
  assumes "table_get (merchantInventoryProducts db) pc = Some p"
    and "rows_covered (mp_stock p) (listMerchantInventoryAssignments db pc) t"
  obtains av where "readMerchantInventoryAvailability db pc t = Inr av" "available_product av = p"
    "mp_stock p = None \<Longrightarrow> ordinaryAvailable av = None"
    "\<And>s. mp_stock p = Some s \<Longrightarrow> \<exists>r. reserved (listMerchantInventoryAssignments db pc) t = Inr r
        \<and> 0 \<le> r \<and> r \<le> s \<and> ordinaryAvailable av = Some (s - r)"
proof (cases "mp_stock p")
  case None
  have "readMerchantInventoryAvailability db pc t
      = Inr \<lparr>available_product = p, available_assignments = listMerchantInventoryAssignments db pc, ordinaryAvailable = None\<rparr>"
    using assms None by (simp add: readMerchantInventoryAvailability_def rows_covered_def conj_commute)
  then show ?thesis by (rule that) (simp_all add: None)
next
  case (Some s)
  then obtain r where r: "reserved (listMerchantInventoryAssignments db pc) t = Inr r" "r \<le> s"
    using assms(2) by (auto simp: rows_covered_def)
  have "readMerchantInventoryAvailability db pc t
      = Inr \<lparr>available_product = p, available_assignments = listMerchantInventoryAssignments db pc, ordinaryAvailable = Some (s - r)\<rparr>"
    using assms Some r by (simp add: readMerchantInventoryAvailability_def rows_covered_def conj_commute)
  then show ?thesis by (rule that) (use Some r reserved_nonneg [OF r(1)] in simp_all)
qed

subsection \<open>An accepted order\<close>

text \<open>C11. Accepting an order debits every product exactly: its stock falls by the ordered quantity less what an earlier
  owner of the stock already debited (between nothing and that quantity), and the reservations that remain for
  occurrences and organizers are still covered, so the product can be read with a nonnegative ordinary stock.\<close>

theorem accepted_order_debits_exactly:
  assumes "acceptMerchantInventoryOrder env db inp continues t = Inr (db', False, order)" and "rows_addressed db"
    and "pc \<in> item_productCoordinate ` set (accept_items inp)"
    and "table_get (merchantInventoryProducts db) pc = Some p" and "mp_stock p = Some s"
  shows "\<exists>av n. readMerchantInventoryAvailability db' pc t = Inr av \<and> ordinaryAvailable av = Some n \<and> 0 \<le> n
    \<and> mp_stock (available_product av) = Some (s - (ordered_quantity (accept_items inp) pc - credited_stock db inp pc))
    \<and> 0 \<le> credited_stock db inp pc \<and> credited_stock db inp pc \<le> ordered_quantity (accept_items inp) pc"
proof -
  let ?q = "ordered_quantity (accept_items inp) pc"
  obtain consumed st where d: "decision_ok db consumed t st" "opened st pc"
    "map accepted_shape (acc_output st) = map item_shape (accept_items inp)" "credit consumed pc = credited_stock db inp pc"
    "\<forall>item \<in> set (accept_items inp). 1 \<le> item_quantity item"
    "merchantInventoryProducts db' = merchantInventoryProducts (put_products inp t st (acc_db st))"
    "merchantInventoryAssignments db' = merchantInventoryAssignments (put_assignments inp t st (acc_db st))"
    by (rule accepted_fresh [OF assms(1,2)]) (use assms(3) in blast)
  obtain q where q: "map_of (acc_products st) pc = Some q" using d(2) by (auto simp: opened_def)
  note rows = accepted_rows [OF d(1) assms(2) d(6,7)]
  note within = credited_within [OF d(5), of db pc]
  have "out_quantity st pc = ?q"
  proof -
    have "map (\<lambda>i. (ai_productCoordinate i, ai_quantity i)) (acc_output st)
        = map (\<lambda>i. (item_productCoordinate i, item_quantity i)) (accept_items inp)"
      using arg_cong [OF d(3), of "map (\<lambda>(a, b, c, n). (a, n))"] by (simp add: accepted_shape_def item_shape_def o_def)
    moreover have "sum_list (map v (filter (\<lambda>x. k x = pc) xs)) = sum_list (map snd (filter (\<lambda>y. fst y = pc) (map (\<lambda>x. (k x, v x)) xs)))"
      for k :: "'x \<Rightarrow> js_string" and v :: "'x \<Rightarrow> int" and xs by (induction xs) auto
    ultimately show ?thesis unfolding out_quantity_def ordered_quantity_def by metis
  qed
  then have "mp_stock q = Some (s - (?q - credited_stock db inp pc))"
    using d(1,4) q assms(4,5) within by (fastforce simp: decision_ok_def accounts_ok_def)
  moreover have "rows_covered (mp_stock q) (listMerchantInventoryAssignments db' pc) t"
    unfolding covered_alike [OF rows(2)] using d(1) q by (auto simp: decision_ok_def line_ok_def split: option.split_asm)
  moreover have "table_get (merchantInventoryProducts db') pc = Some (settled_product inp t st q)" using rows(3) q by simp
  moreover have "mp_stock (settled_product inp t st q) = mp_stock q" by (simp add: settled_product_def Let_def)
  ultimately show ?thesis
    using covered_readable [of db' pc "settled_product inp t st q" t] within by (metis diff_ge_0_iff_ge)
qed

lemma accepted_order_debits_exactly_witness:
  "\<exists>av n. readMerchantInventoryAvailability decided cap 1010 = Inr av \<and> ordinaryAvailable av = Some n \<and> 0 \<le> n
    \<and> mp_stock (available_product av) = Some 3"
proof -
  have "table_get (merchantInventoryProducts stocked) cap = Some (cap_row 10 0 [])"
    by (simp add: stocked_def initialized_def table_get_def)
  moreover have "ordered_quantity (accept_items fair_order) cap = 8" by (simp add: line_fields ordered_quantity_def)
  moreover have "credited_stock stocked fair_order cap = 1"
    by (simp add: credited_stock_def fair_order_def cap_line_def fair_line_def prior_adjustments_def ordered_quantity_def stocked_def
        initialized_def empty_inventory_def table_rows_def is_safe_def MAX_SAFE_INTEGER_def)
  ultimately show ?thesis
    using accepted_order_debits_exactly [OF sample_decided stocked_addressed, of cap "cap_row 10 0 []" 10]
    by (simp add: line_fields cap_row_fields)
qed

subsection \<open>Every sequence of operations\<close>

lemma reached_ok:
  assumes "attempts (inventory_attempt env) (empty_inventory, start) ops = (db, t)"
  shows "inventory_ok db t"
  using inventory.run_ok [of "(empty_inventory, start)" env ops] assms empty_ok by simp

lemma reached_books:
  assumes "attempts (inventory_attempt env) (empty_inventory, start) ops = (db, t)"
  shows "books_ok db t"
  using reached_ok [OF assms] by (simp add: inventory_ok_def)



lemma order_stays:
  assumes "inventory_ok db t" and "acceptMerchantInventoryOrder env db inp continues t = Inr (db1, replay, order)"
    and "attempts (inventory_attempt env) (db1, t) later = (db2, u)"
  shows "table_get (merchantInventoryAcceptedOrders db2) (accept_orderId inp) = Some order"
proof -
  have "table_get (merchantInventoryAcceptedOrders db1) (accept_orderId inp) = Some order"
  proof (cases replay)
    case True
    then show ?thesis using replayed_acceptance [of env db inp continues t db1 order] assms(2) by simp
  next
    case False
    then have "acceptMerchantInventoryOrder env db inp continues t = Inr (db1, False, order)" "rows_addressed db"
      using assms(1,2) by (simp_all add: inventory_ok_def books_ok_def)
    then obtain "merchantInventoryAcceptedOrders db1 = table_put (accept_orderId inp) order (merchantInventoryAcceptedOrders db)"
      by (rule accepted_fresh) blast
    then show ?thesis by (simp add: table_get_put)
  qed
  moreover have "orders_kept db1 db2"
    using inventory.run_kept [of "(db1, t)" env later] accepted_ok [OF assms(2,1)] assms(3) by simp
  ultimately show ?thesis by (simp add: orders_kept_def)
qed

text \<open>C22. An order is debited once.  After an order was accepted, and after any further operations, a request with
  the same order id leaves the database as it is: it is refused, or it is the same request and gets the order that was
  stored, with its lines and remaining stock as they were.\<close>

theorem accepted_order_is_debited_once:
  assumes "attempts (inventory_attempt env) (empty_inventory, start) before = (db, t)"
    and "acceptMerchantInventoryOrder env db inp continues t = Inr (db1, replay, order)"
    and "attempts (inventory_attempt env) (db1, t) later = (db2, u)"
    and "accept_orderId again = accept_orderId inp"
  shows "case acceptMerchantInventoryOrder env db2 again continues2 u of
      Inl _ \<Rightarrow> True | Inr result \<Rightarrow> result = (db2, True, order) \<and> same_order order again"
  using order_stays [OF reached_ok [OF assms(1)] assms(2,3)] assms(4)
  by (auto simp: acceptMerchantInventoryOrder_def bind_result_Inr split: sum.split if_split_asm)

lemma accepted_order_is_debited_once_witness:
  "case acceptMerchantInventoryOrder inventory_env decided fair_order True 1010 of
      Inl _ \<Rightarrow> True | Inr result \<Rightarrow> result = (decided, True, accepted_order fair_order 1010 second_line)
        \<and> same_order (accepted_order fair_order 1010 second_line) fair_order"
  using accepted_order_is_debited_once [OF sample_stocked sample_decided, of "[]" decided 1010 fair_order True] by simp

text \<open>An accepted order stays answerable.  The same request, repeated after any further operations while the account
  is still the one it was made for, is not refused and not decided again: it returns the order that was stored.  (The
  request binds evidence by digest only together with an evidence format, as the callers of the code do.)\<close>

theorem accepted_order_is_answered_again:
  assumes "attempts (inventory_attempt env) (empty_inventory, start) before = (db, t)"
    and "acceptMerchantInventoryOrder env db inp continues t = Inr (db1, replay, order)"
    and "attempts (inventory_attempt env) (db1, t) later = (db2, u)"
    and "accept_evidenceFormat inp = None \<Longrightarrow> accept_evidenceBinding inp = None" and "is_safe u"
  shows "acceptMerchantInventoryOrder env db2 inp True u = Inr (db2, True, order)"
proof -
  have ok: "inventory_ok db t" by (rule reached_ok [OF assms(1)])
  have checks: "check_order inp u = Inr ()" "check_all check_item (accept_items inp) = Inr ()"
    using assms(2,5) by (auto simp: acceptMerchantInventoryOrder_def bind_result_Inr check_order_def split: if_split_asm)
  have stored: "table_get (merchantInventoryAcceptedOrders db2) (accept_orderId inp) = Some order"
    by (rule order_stays [OF ok assms(2,3)])
  have "same_order order inp"
  proof (cases replay)
    case True
    then show ?thesis using assms(2)
      by (auto simp: acceptMerchantInventoryOrder_def bind_result_Inr Let_def split: if_split_asm option.split_asm)
  next
    case False
    then have "acceptMerchantInventoryOrder env db inp continues t = Inr (db1, False, order)" "rows_addressed db"
      using assms(2) ok by (simp_all add: inventory_ok_def books_ok_def)
    then obtain st where "order = accepted_order inp t st" "map accepted_shape (acc_output st) = map item_shape (accept_items inp)"
      by (rule accepted_fresh) blast
    moreover have "accept_evidenceFormat inp = None \<or> accept_evidenceFormat inp = Some ''device-encrypted-v1''"
      using checks(1) by (auto simp: check_order_def split: if_split_asm)
    ultimately show ?thesis using assms(4) by (auto simp: same_order_def accepted_order_def)
  qed
  with checks stored show ?thesis by (simp add: acceptMerchantInventoryOrder_def)
qed

lemma accepted_order_is_answered_again_witness:
  "acceptMerchantInventoryOrder inventory_env decided fair_order True 1010
   = Inr (decided, True, accepted_order fair_order 1010 second_line)"
  by (rule accepted_order_is_answered_again [OF sample_stocked sample_decided, of "[]" decided 1010])
    (simp_all add: fair_order_def is_safe_def MAX_SAFE_INTEGER_def)

end
