(* ===== verification/Sample_Publications.thy ===== *)
theory Sample_Publications
  imports Inventory_Claims
begin

text \<open>
  A sample queue of publications.
\<close>

subsection \<open>Two revisions of a product\<close>

text \<open>Two edits of the stock are decided, then both revisions are drafted and signed.\<close>

definition edit_job :: "js_string \<Rightarrow> int \<Rightarrow> int \<Rightarrow> int \<Rightarrow> MerchantInventoryPublicationJob" where
  "edit_job jid revision t stock = (new_job jid revision t)\<lparr>job_productStock := Some stock\<rparr>"

definition edit_draft :: "int \<Rightarrow> js_string \<Rightarrow> draft" where
  "edit_draft t stock =
     \<lparr>event_kind = 30402, event_pubkey = key_of CHR ''a'', created_at = t,
      event_tags = [[''d'', ''cap''], [''type'', ''simple''], [''stock'', stock]], event_content = []\<rparr>"

definition sample_sign :: "draft \<Rightarrow> SignedPublicNostrEvent" where
  "sample_sign d =
     \<lparr>event_kind = event_kind d, event_pubkey = event_pubkey d, created_at = created_at d, event_tags = event_tags d,
      event_content = event_content d, event_id = key_of CHR ''0'', event_sig = replicate 128 CHR ''0''\<rparr>"

definition edits :: "(inventory_request \<times> nat) list" where
  "edits = [(RequestProduct cap (key_of CHR ''a'') (Some 10) cap_event, 0), (RequestStockEdit cap 0 (Some 8) ''e1'', 10),
     (RequestStockEdit cap 1 (Some 6) ''e2'', 10), (RequestDraft ProductPublication cap, 10),
     (RequestSignature ProductPublication cap ''e1'' (sample_sign (edit_draft 2 ''8'')), 0),
     (RequestDraft ProductPublication cap, 10),
     (RequestSignature ProductPublication cap ''e2'' (sample_sign (edit_draft 3 ''6'')), 0)]"

definition queue_row :: "int \<Rightarrow> int \<Rightarrow> SignedPublicNostrEvent \<Rightarrow> MerchantInventoryPublicationJob list \<Rightarrow> MerchantInventoryProduct" where
  "queue_row stock revision newest jobs = (cap_row stock revision jobs)\<lparr>mp_signedProductEvent := newest\<rparr>"

definition queue_db :: "MerchantInventoryProduct \<Rightarrow> merchant_db" where
  "queue_db p = empty_inventory\<lparr>merchantInventoryProducts := [(cap, p)]\<rparr>"

definition drafted_job :: "MerchantInventoryPublicationJob \<Rightarrow> draft \<Rightarrow> MerchantInventoryPublicationJob" where
  "drafted_job j d = j\<lparr>job_draft := Some d\<rparr>"

lemma sample_events_valid: "valid_event inventory_env (sample_sign (edit_draft 2 ''8''))" "valid_event inventory_env (sample_sign (edit_draft 3 ''6''))"
  by code_simp+

lemma sample_unsigned: "unsigned_part (sample_sign d) = d"
  by (simp add: unsigned_part_def sample_sign_def)

lemma queue_get: "get_record (queue_db p) ProductPublication cap = Some (ProductRecord p)"
  "table_get (merchantInventoryProducts (queue_db p)) cap = Some p"
  "listMerchantInventoryAssignments (queue_db p) cap = []"
  by (simp_all add: get_record_def queue_db_def table_get_def listMerchantInventoryAssignments_def table_rows_def empty_inventory_def)

lemma queue_put: "mp_coordinate p' = cap \<Longrightarrow> put_record (ProductRecord p') (queue_db p) = queue_db p'"
  "(queue_db p)\<lparr>merchantInventoryProducts := table_put cap p' (merchantInventoryProducts (queue_db p))\<rparr> = queue_db p'"
  by (simp_all add: queue_db_def)

lemma queue_fields:
  "mp_coordinate (queue_row s r e js) = cap" "mp_stock (queue_row s r e js) = Some s" "mp_revision (queue_row s r e js) = r"
  "mp_publicationJobs (queue_row s r e js) = js" "mp_signedProductEvent (queue_row s r e js) = e"
  "mp_merchantPubkey (queue_row s r e js) = key_of CHR ''a''"
  "(queue_row s r e js)\<lparr>mp_publicationJobs := ks\<rparr> = queue_row s r e ks"
  "(queue_row s r e js)\<lparr>mp_signedProductEvent := f\<rparr> = queue_row s r f js"
  "(queue_row s r e js)\<lparr>mp_stock := Some n, mp_revision := q, mp_publicationJobs := ks\<rparr> = queue_row n q e ks"
  by (simp_all add: queue_row_def cap_row_def)

lemma edit_fields:
  "job_id (edit_job i r t s) = i" "job_revision (edit_job i r t s) = r" "job_createdAt (edit_job i r t s) = t"
  "is_pending (edit_job i r t s)" "job_productStock (edit_job i r t s) = Some s" "job_draft (edit_job i r t s) = None"
  "job_signedEvent (edit_job i r t s) = None"
  by (simp_all add: edit_job_def) (simp_all add: new_job_def is_pending_def)

lemma queue_edit:
  assumes "0 \<le> s" "s \<le> MAX_ALLOCATION" "m \<noteq> []" "is_safe t" "\<forall>j \<in> set js. job_id j \<noteq> m"
  shows "commitMerchantInventoryStockEdit (queue_db (queue_row old r e js)) cap r (Some s) m t
    = Inr (queue_db (queue_row s (r + 1) e (js @ [edit_job m (r + 1) t s])), queue_row s (r + 1) e (js @ [edit_job m (r + 1) t s]))"
proof -
  have "List.find (\<lambda>work. job_id work = m) js = None" using assms(5) by (simp add: find_None_iff)
  then show ?thesis using assms(1-4)
    by (simp add: commitMerchantInventoryStockEdit_def requireStock_def queue_get queue_fields queue_put reserved_def Let_def
        flip: edit_job_def)
qed

lemma first_drafted:
  "prepareNextPublication inventory_env (queue_db (queue_row 6 2 cap_event [edit_job ''e1'' 1 1010 8, edit_job ''e2'' 2 1020 6])) ProductPublication cap
   = Inr (queue_db (queue_row 6 2 cap_event [drafted_job (edit_job ''e1'' 1 1010 8) (edit_draft 2 ''8''), edit_job ''e2'' 2 1020 6]),
          Some (''e1'', edit_draft 2 ''8''))"
proof -
  let ?r = "queue_row 6 2 cap_event [edit_job ''e1'' 1 1010 8, edit_job ''e2'' 2 1020 6]"
  have "newest_predecessor inventory_env (ProductRecord ?r) (edit_job ''e1'' 1 1010 8) = Some cap_event"
    by (simp add: newest_predecessor_def previous_jobs_def queue_fields edit_fields js_sort_def map_filter_def)
  moreover have "int_text 8 = ''8''" by code_simp
  then have "makeProductDraft ?r (edit_job ''e1'' 1 1010 8) cap_event = edit_draft 2 ''8''"
    by (simp add: makeProductDraft_def queue_fields edit_fields edit_draft_def cap_event_def tag_at_def)
  ultimately show ?thesis
    by (simp add: prepareNextPublication_def queue_get queue_fields edit_fields previous_jobs_def queue_put drafted_job_def)
qed

definition first_done :: MerchantInventoryPublicationJob where
  "first_done = signed_job (sample_sign (edit_draft 2 ''8'')) (drafted_job (edit_job ''e1'' 1 1010 8) (edit_draft 2 ''8''))"

definition second_done :: MerchantInventoryPublicationJob where
  "second_done = signed_job (sample_sign (edit_draft 3 ''6'')) (drafted_job (edit_job ''e2'' 2 1020 6) (edit_draft 3 ''6''))"

lemma drafted_fields:
  "job_id (drafted_job j d) = job_id j" "job_draft (drafted_job j d) = Some d" "job_signedEvent (drafted_job j d) = job_signedEvent j"
  "job_id (signed_job e j) = job_id j" "job_revision (signed_job e j) = job_revision j" "job_revision (drafted_job j d) = job_revision j"
  "job_draft (signed_job e j) = job_draft j" "job_signedEvent (signed_job e j) = Some e" "\<not> is_pending (signed_job e j)"
  "is_pending (drafted_job j d) = is_pending j"
  by (simp_all add: drafted_job_def signed_job_def is_pending_def)

lemma queue_signed:
  assumes "valid_event inventory_env (sample_sign d)" "List.find (\<lambda>j. job_id j = m) js = Some x" "job_draft x = Some d"
    "job_signedEvent x = None"
  shows "saveSignedPublication inventory_env (queue_db (queue_row s r e js)) ProductPublication cap m (sample_sign d)
    = Inr (queue_db (queue_row s r (sample_sign d) (update_first (\<lambda>j. job_id j = m) (signed_job (sample_sign d)) js)), True)"
  using assms by (simp add: saveSignedPublication_def queue_get queue_fields queue_put sample_unsigned)

lemma second_drafted:
  "prepareNextPublication inventory_env (queue_db (queue_row 6 2 (sample_sign (edit_draft 2 ''8'')) [first_done, edit_job ''e2'' 2 1020 6]))
     ProductPublication cap
   = Inr (queue_db (queue_row 6 2 (sample_sign (edit_draft 2 ''8'')) [first_done, drafted_job (edit_job ''e2'' 2 1020 6) (edit_draft 3 ''6'')]),
          Some (''e2'', edit_draft 3 ''6''))"
proof -
  let ?e = "sample_sign (edit_draft 2 ''8'')" and ?job = "edit_job ''e2'' 2 1020 6"
  let ?r = "queue_row 6 2 ?e [first_done, ?job]"
  have "newest_first inventory_env ?e ?e \<le> 0" by (simp add: newest_first_def inventory_env_def inventory_ports.defs)
  then have n: "newest_predecessor inventory_env (ProductRecord ?r) ?job = Some ?e"
    by (simp add: newest_predecessor_def previous_jobs_def queue_fields edit_fields drafted_fields first_done_def js_sort_def map_filter_def)
  have "int_text 6 = ''6''" by code_simp
  then have d: "makeProductDraft ?r ?job ?e = edit_draft 3 ''6''"
    by (simp add: makeProductDraft_def queue_fields edit_fields sample_sign_def edit_draft_def tag_at_def)
  have "\<not> is_pending first_done" "job_signedEvent first_done \<noteq> None" by (simp_all add: first_done_def drafted_fields)
  then show ?thesis
    using n d by (simp add: prepareNextPublication_def queue_get queue_fields edit_fields previous_jobs_def queue_put flip: drafted_job_def)
qed

definition edited :: merchant_db where
  "edited = queue_db (queue_row 6 2 (sample_sign (edit_draft 3 ''6'')) [first_done, second_done])"

lemma sample_edits: "attempts (inventory_attempt inventory_env) (empty_inventory, 1000) edits = (edited, 1040)"
proof -
  have i: "initialized = queue_db (queue_row 10 0 cap_event [])"
    by (simp add: initialized_def queue_db_def queue_row_def cap_row_def)
  have ids: "job_id first_done = ''e1''" by (simp add: first_done_def drafted_fields edit_fields)
  show ?thesis
    by (simp add: edits_def cap_initialized i queue_edit MAX_ALLOCATION_def is_safe_def MAX_SAFE_INTEGER_def edit_fields
        first_drafted queue_signed sample_events_valid drafted_fields second_drafted ids edited_def second_done_def flip: first_done_def)
qed

end
