(* ===== verification/Publication_Claims.thy ===== *)
theory Publication_Claims
  imports Sample_Publications
begin

text \<open>
  What the publication queues guarantee: the public revisions of an address are signed in the order of the
  local decisions, each dated after the ones before it, and the loop that signs them ends.
\<close>

subsection \<open>The order of public revisions\<close>

lemma jobs_chained_nth:
  assumes "jobs_chained jobs" "i < j" "j < length jobs" "job_signedEvent (jobs ! j) = Some e"
  shows "job_revision (jobs ! i) < job_revision (jobs ! j)
    \<and> (\<exists>e0. job_signedEvent (jobs ! i) = Some e0 \<and> created_at e0 < created_at e) \<and> job_draft (jobs ! j) = Some (unsigned_part e)"
proof -
  have "job_follows (jobs ! i) (jobs ! j)" using assms(1-3) by (simp add: jobs_chained_def sorted_wrt_iff_nth_less)
  moreover have "job_sound (jobs ! j)" using assms(1,3) by (simp add: jobs_chained_def list_all_iff)
  moreover have "created_at e \<in> set (job_times (jobs ! j))" using assms(4) by (simp add: job_times_def)
  ultimately show ?thesis using assms(4) by (auto simp: job_follows_def job_sound_def)
qed

text \<open>C26. Public revisions form a chain.  After any sequence of operations, with drafts, signatures and deliveries of
  any tab interleaved in any order, a product's or an assignment's job that was signed carries exactly the event of its
  stored draft, every job before it in the queue has a smaller revision and was signed too, and its event is dated
  strictly before; so readers who keep the newest event end with the newest local decision.\<close>

theorem public_revisions_form_a_chain:
  assumes "attempts (inventory_attempt env) (empty_inventory, start) ops = (db, t)"
    and "get_record db kind coordinate = Some r" and "i < j" and "j < length (publication_jobs r)"
    and "job_signedEvent (publication_jobs r ! j) = Some e"
  shows "job_draft (publication_jobs r ! j) = Some (unsigned_part e)
    \<and> job_revision (publication_jobs r ! i) < job_revision (publication_jobs r ! j)
    \<and> (\<exists>e0. job_signedEvent (publication_jobs r ! i) = Some e0 \<and> created_at e0 < created_at e)"
proof -
  have "queues_chained db" using reached_ok [OF assms(1)] by (simp add: inventory_ok_def)
  then have "jobs_chained (publication_jobs r)" using assms(2) by (auto simp: queues_chained_def record_chained_def)
  from jobs_chained_nth [OF this assms(3-5)] show ?thesis by blast
qed

lemma public_revisions_form_a_chain_witness:
  "created_at (sample_sign (edit_draft 2 ''8'')) < created_at (sample_sign (edit_draft 3 ''6''))
   \<and> job_draft second_done = Some (edit_draft 3 ''6'')"
proof -
  let ?r = "queue_row 6 2 (sample_sign (edit_draft 3 ''6'')) [first_done, second_done]"
  have "get_record edited ProductPublication cap = Some (ProductRecord ?r)" by (simp add: edited_def queue_get)
  from public_revisions_form_a_chain [OF sample_edits this, of 0 1 "sample_sign (edit_draft 3 ''6'')"] show ?thesis
    by (simp add: queue_fields first_done_def second_done_def drafted_fields sample_unsigned)
qed

subsection \<open>The signing loop\<close>

text \<open>C30. The signing loop ends.  From every reachable inventory and with any signer, the loop over one address (whose
  job identifiers differ) returns; each new signature it counts leaves one job fewer to sign, and unless an operation
  failed or the signer refused, nothing is left to sign.\<close>

theorem signing_loop_ends:
  assumes "attempts (inventory_attempt env) (empty_inventory, start) ops = (db, t)"
    and "get_record db kind coordinate = Some r" and "distinct (map job_id (publication_jobs r))"
  shows "\<exists>db' n err r'. sign_publications env sign kind coordinate db 0 = Some (db', n, err)
    \<and> get_record db' kind coordinate = Some r'
    \<and> length (filter is_pending (publication_jobs r')) + n = length (filter is_pending (publication_jobs r))
    \<and> (err = None \<and> (\<forall>d. sign d \<noteq> None) \<longrightarrow> \<not> list_ex is_pending (publication_jobs r'))"
proof -
  have "rows_addressed db" "queues_chained db" using reached_ok [OF assms(1)] by (simp_all add: inventory_ok_def books_ok_def)
  moreover from this(2) have "jobs_chained (publication_jobs r)" using assms(2) by (auto simp: queues_chained_def record_chained_def)
  ultimately show ?thesis using signing_ends [of db kind coordinate r env sign 0] assms(2,3) by simp
qed

lemma decided_twice: "attempts (inventory_attempt inventory_env) (empty_inventory, 1000) (take 3 edits)
    = (queue_db (queue_row 6 2 cap_event [edit_job ''e1'' 1 1010 8, edit_job ''e2'' 2 1020 6]), 1020)"
proof -
  have i: "initialized = queue_db (queue_row 10 0 cap_event [])"
    by (simp add: initialized_def queue_db_def queue_row_def cap_row_def)
  show ?thesis
    by (simp add: edits_def cap_initialized i queue_edit MAX_ALLOCATION_def is_safe_def MAX_SAFE_INTEGER_def edit_fields)
qed

lemma signing_loop_ends_witness:
  "\<exists>db' n err r'. sign_publications inventory_env (\<lambda>d. Some (sample_sign d)) ProductPublication cap
      (queue_db (queue_row 6 2 cap_event [edit_job ''e1'' 1 1010 8, edit_job ''e2'' 2 1020 6])) 0 = Some (db', n, err)
    \<and> get_record db' ProductPublication cap = Some r' \<and> length (filter is_pending (publication_jobs r')) + n = 2
    \<and> (err = None \<longrightarrow> \<not> list_ex is_pending (publication_jobs r'))"
  using signing_loop_ends [OF decided_twice queue_get(1), of "\<lambda>d. Some (sample_sign d)"]
  by (simp add: queue_fields edit_fields numeral_2_eq_2)

end
