(* ===== verification/Network_Safety.thy ===== *)
theory Network_Safety
  imports Bolt11 Signed_Events "HOL-Library.Word"
begin

text \<open>
  Which untrusted addresses an application may contact (\<open>network-target-safety.ts\<close>): IPv4 and IPv6 literals
  outside the special-purpose blocks and public-looking domain names.  \<open>new URL\<close> is a port that gives the
  parts of a parsed URL and its text.  The replacement of the full-width dots is outside the modelled code units.
\<close>

unbundle bit_operations_syntax

subsection \<open>IPv4\<close>

fun split_on :: "char \<Rightarrow> js_string \<Rightarrow> js_string list" where
  "split_on c [] = [[]]"
| "split_on c (x # xs) =
     (if x = c then [] # split_on c xs else (case split_on c xs of [] \<Rightarrow> [[x]] | p # ps \<Rightarrow> (x # p) # ps))"

definition octet_text :: "js_string \<Rightarrow> bool" where
  "octet_text part \<longleftrightarrow> 1 \<le> length part \<and> length part \<le> 3 \<and> list_all is_digit part \<and> decimal_value part \<le> 255"

definition parseIpv4Address :: "js_string \<Rightarrow> 32 word option" where
  "parseIpv4Address hostname =
     (let parts = split_on CHR ''.'' hostname
      in if length parts \<noteq> 4 \<or> \<not> list_all octet_text parts then None
         else Some (foldl (\<lambda>v part. v * 256 + word_of_int (decimal_value part)) 0 parts))"

definition ipv4Octets :: "32 word \<Rightarrow> 32 word \<times> 32 word \<times> 32 word \<times> 32 word" where
  "ipv4Octets v = (drop_bit 24 v AND 255, drop_bit 16 v AND 255, drop_bit 8 v AND 255, v AND 255)"

definition isPublicIpv4Address :: "32 word \<Rightarrow> bool" where
  "isPublicIpv4Address v =
     (case ipv4Octets v of (a, b, c, _) \<Rightarrow>
        if a = 0 \<or> a = 10 \<or> a = 127 then False
        else if a = 100 \<and> b \<ge> 64 \<and> b \<le> 127 then False
        else if a = 169 \<and> b = 254 then False
        else if a = 172 \<and> b \<ge> 16 \<and> b \<le> 31 then False
        else if a = 192 \<and> b = 0 \<and> (c = 0 \<or> c = 2) then False
        else if a = 192 \<and> b = 88 \<and> c = 99 then False
        else if a = 192 \<and> b = 168 then False
        else if a = 192 \<and> b = 31 \<and> c = 196 then False
        else if a = 192 \<and> b = 52 \<and> c = 193 then False
        else if a = 198 \<and> (b = 18 \<or> b = 19) then False
        else if a = 198 \<and> b = 51 \<and> c = 100 then False
        else if a = 203 \<and> b = 0 \<and> c = 113 then False
        else if a \<ge> 224 then False
        else True)"

subsection \<open>IPv6\<close>

definition strip_brackets :: "js_string \<Rightarrow> js_string" where
  "strip_brackets s = (if startsWith s ''['' \<and> s \<noteq> [] \<and> last s = CHR '']'' then butlast (tl s) else s)"

definition double_colons :: "js_string \<Rightarrow> nat list" where
  "double_colons s = filter (\<lambda>i. take 2 (drop i s) = ''::'') [0..<length s]"

definition hex_group :: "js_string \<Rightarrow> bool" where
  "hex_group digits \<longleftrightarrow> 1 \<le> length digits \<and> length digits \<le> 4 \<and> list_all is_any_hex digits"

definition group_value :: "js_string \<Rightarrow> int" where
  "group_value digits = foldl (\<lambda>v c. v * 16 + int (hex_value c)) 0 digits"

definition parseIpv6Address :: "js_string \<Rightarrow> int option" where
  "parseIpv6Address hostname =
     (let unbracketed = strip_brackets hostname; doubles = double_colons unbracketed
      in if CHR '':'' \<notin> set unbracketed then None
         else if doubles \<noteq> [] \<and> hd doubles \<noteq> last doubles then None
         else let (leftRaw, rightRaw) =
                (case doubles of [] \<Rightarrow> (unbracketed, []) | i # _ \<Rightarrow> (take i unbracketed, drop (i + 2) unbracketed));
              left = (if leftRaw = [] then [] else split_on CHR '':'' leftRaw);
              right = (if rightRaw = [] then [] else split_on CHR '':'' rightRaw);
              missing = 8 - int (length left) - int (length right)
         in if (doubles = [] \<and> missing \<noteq> 0) \<or> (doubles \<noteq> [] \<and> missing < 1) then None
            else let groups = left @ replicate (nat (max 0 missing)) ''0'' @ right
            in if length groups \<noteq> 8 \<or> \<not> list_all hex_group groups then None
               else Some (foldl (\<lambda>v digits. v * 65536 + group_value digits) 0 groups))"

definition hasIpv6Prefix :: "int \<Rightarrow> int \<Rightarrow> nat \<Rightarrow> bool" where
  "hasIpv6Prefix v prefix prefixLength \<longleftrightarrow> v div 2 ^ (128 - prefixLength) = prefix div 2 ^ (128 - prefixLength)"

definition isPublicIetfProtocolAssignment :: "int \<Rightarrow> bool" where
  "isPublicIetfProtocolAssignment v \<longleftrightarrow>
     v = 0x20010001000000000000000000000001 \<or> v = 0x20010001000000000000000000000002
     \<or> v = 0x20010001000000000000000000000003
     \<or> hasIpv6Prefix v 0x20010003000000000000000000000000 32
     \<or> hasIpv6Prefix v 0x20010004011200000000000000000000 48
     \<or> hasIpv6Prefix v 0x20010030000000000000000000000000 28"

definition isPublicIpv6Address :: "int \<Rightarrow> bool" where
  "isPublicIpv6Address v =
     (if v div 2 ^ 125 \<noteq> 1 then False
      else if hasIpv6Prefix v 0x20010db8000000000000000000000000 32 then False
      else if hasIpv6Prefix v 0x20010010000000000000000000000000 28 then False
      else if hasIpv6Prefix v 0x20010020000000000000000000000000 28 then False
      else if hasIpv6Prefix v 0x20010000000000000000000000000000 32 then False
      else if hasIpv6Prefix v 0x20020000000000000000000000000000 16 then False
      else if hasIpv6Prefix v 0x20010002000000000000000000000000 48 then False
      else if hasIpv6Prefix v 0x3fff0000000000000000000000000000 20 then False
      else if hasIpv6Prefix v 0x20010000000000000000000000000000 23 \<and> \<not> isPublicIetfProtocolAssignment v then False
      else True)"

subsection \<open>Names\<close>

definition normalizeHostnameForClassification :: "js_string \<Rightarrow> js_string" where
  "normalizeHostnameForClassification hostname =
     (let lowered = toLowerCase (js_trim hostname)
      in strip_brackets (if lowered \<noteq> [] \<and> last lowered = CHR ''.'' then butlast lowered else lowered))"

definition SPECIAL_USE_HOSTNAME_SUFFIXES :: "js_string list" where
  "SPECIAL_USE_HOSTNAME_SUFFIXES =
     [''localhost'', ''local'', ''localdomain'', ''internal'', ''home'', ''lan'', ''arpa'', ''test'', ''invalid'', ''example'',
      ''example.com'', ''example.net'', ''example.org'', ''alt'', ''onion'']"

definition endsWith :: "js_string \<Rightarrow> js_string \<Rightarrow> bool" where
  "endsWith s suffix \<longleftrightarrow> length suffix \<le> length s \<and> drop (length s - length suffix) s = suffix"

text \<open>The patterns \<open>/^(?:0x[0-9a-f]+|[0-9.]+)$/i\<close> and \<open>/^[a-z0-9](?:[a-z0-9-]*[a-z0-9])?$/\<close>.\<close>

definition numeric_looking :: "js_string \<Rightarrow> bool" where
  "numeric_looking s \<longleftrightarrow>
     (take 2 (toLowerCase s) = ''0x'' \<and> length s > 2 \<and> list_all is_any_hex (drop 2 s))
     \<or> (s \<noteq> [] \<and> list_all (\<lambda>c. is_digit c \<or> c = CHR ''.'') s)"

definition label_text :: "js_string \<Rightarrow> bool" where
  "label_text s \<longleftrightarrow>
     s \<noteq> [] \<and> list_all (\<lambda>c. is_lower_alpha c \<or> is_digit c \<or> c = CHR ''-'') s \<and> hd s \<noteq> CHR ''-'' \<and> last s \<noteq> CHR ''-''"

definition isPublicNetworkHostname :: "js_string \<Rightarrow> bool" where
  "isPublicNetworkHostname hostname =
     (let normalized = normalizeHostnameForClassification hostname
      in if normalized = [] \<or> length normalized > 253 then False
         else case parseIpv4Address normalized of
           Some v \<Rightarrow> isPublicIpv4Address v
         | None \<Rightarrow>
             (case parseIpv6Address normalized of
                Some v \<Rightarrow> isPublicIpv6Address v
              | None \<Rightarrow>
                  if CHR '':'' \<in> set normalized then False
                  else if numeric_looking normalized then False
                  else if list_ex (\<lambda>suffix. normalized = suffix \<or> endsWith normalized (''.'' @ suffix)) SPECIAL_USE_HOSTNAME_SUFFIXES
                  then False
                  else let labels = split_on CHR ''.'' normalized
                  in length labels \<ge> 2 \<and> list_all (\<lambda>l. length l > 0 \<and> length l \<le> 63 \<and> label_text l) labels))"

subsection \<open>URLs\<close>

record parsed_url = url_shape +
  url_href :: js_string

definition MAX_UNTRUSTED_NETWORK_URL_LENGTH :: nat where
  "MAX_UNTRUSTED_NETWORK_URL_LENGTH = 4096"

definition normalizePublicNetworkUrl ::
    "(js_string \<Rightarrow> parsed_url option) \<Rightarrow> js_string option \<Rightarrow> js_string list \<Rightarrow> bool \<Rightarrow> js_string option" where
  "normalizePublicNetworkUrl parse_url raw allowedProtocols allowFragment =
     (case raw of
        None \<Rightarrow> None
      | Some s \<Rightarrow>
          if s = [] \<or> s \<noteq> js_trim s \<or> length s > MAX_UNTRUSTED_NETWORK_URL_LENGTH then None
          else case parse_url s of
            None \<Rightarrow> None
          | Some url \<Rightarrow>
              if url_protocol url \<notin> set allowedProtocols \<or> url_username url \<noteq> [] \<or> url_password url \<noteq> []
                 \<or> (\<not> allowFragment \<and> url_hash url \<noteq> []) \<or> \<not> isPublicNetworkHostname (url_hostname url)
              then None
              else Some (url_href url))"

definition normalizePublicMediaUrl :: "(js_string \<Rightarrow> parsed_url option) \<Rightarrow> js_string option \<Rightarrow> js_string option" where
  "normalizePublicMediaUrl parse_url raw = normalizePublicNetworkUrl parse_url raw [''http:'', ''https:''] True"

definition normalizePublicHttpsUrl :: "(js_string \<Rightarrow> parsed_url option) \<Rightarrow> js_string option \<Rightarrow> js_string option" where
  "normalizePublicHttpsUrl parse_url raw = normalizePublicNetworkUrl parse_url raw [''https:''] False"

definition normalizePublicWebSocketUrl :: "(js_string \<Rightarrow> parsed_url option) \<Rightarrow> js_string option \<Rightarrow> js_string option" where
  "normalizePublicWebSocketUrl parse_url raw = normalizePublicNetworkUrl parse_url raw [''wss:''] False"

end
