(* ===== verification/Supplier_Allocation.thy ===== *)
theory Supplier_Allocation
  imports Network_Safety Event_Assignment
begin

text \<open>
  Supplier allocations of a product (\<open>product-supplier-allocation.ts\<close> and their schema): authoring, the
  signed tags, reading them back, and the division of an amount by weight.  \<open>nip19.decode\<close> and \<open>new URL\<close>
  are ports.
\<close>

datatype nip19 = Npub js_string | Nprofile js_string "js_string list" | OtherEntity

record allocation_ports = event_ports +
  nip19_decode :: "js_string \<Rightarrow> nip19 option"
  network_URL :: "js_string \<Rightarrow> parsed_url option"

datatype recipient_role = MerchantRole | SupplierRole

datatype ProductSupplierAllocationIssue =
    InvalidVersion | InvalidAuthor | InvalidRecipient | InvalidRelayHint | InvalidWeight
  | DuplicateRecipient | MissingMerchant | DuplicateMerchant | MissingSupplier | WeightTotalOverflow

record ProductSupplierAllocationRecipient =
  recipient_pubkey :: js_string
  recipient_relayHint :: js_string
  recipient_weight :: int
  recipient_role :: recipient_role

datatype allocation_state = AllocationAbsent | AllocationValid | AllocationInvalid

record ProductSupplierAllocation =
  allocation_state :: allocation_state
  allocation_recipients :: "ProductSupplierAllocationRecipient list"
  allocation_issues :: "ProductSupplierAllocationIssue list"
  revisionEventId :: "js_string option"
  revisionCreatedAt :: "int option"
  revisionEvent :: "SignedPublicNostrEvent option"

datatype weight_input = WeightNumber js_number | WeightText js_string | WeightMissing

record ProductSupplierAllocationAuthoringRecipient =
  authoring_identity :: js_string
  authoring_relayHint :: "js_string option"
  authoring_weight :: weight_input

record BuildProductSupplierAllocationInput =
  input_merchantPubkey :: js_string
  input_merchantRelayHint :: "js_string option"
  input_merchantWeight :: weight_input
  input_suppliers :: "ProductSupplierAllocationAuthoringRecipient list"

datatype BuildProductSupplierAllocationResult =
    Built ProductSupplierAllocation "js_string list list"
  | Refused "ProductSupplierAllocationIssue list" "ProductSupplierAllocationRecipient list"

text \<open>The flag tells whether the event object carries the process-local proof of
  \<open>verified-public-event.ts\<close>.\<close>

record ParseProductSupplierAllocationInput =
  parse_tags :: "js_string list list option"
  parse_merchantPubkey :: js_string
  parse_signedRevision :: "(SignedPublicNostrEvent \<times> bool) option"

record ProductSupplierAllocationShare =
  share_pubkey :: js_string
  share_role :: recipient_role
  share_sats :: int

subsection \<open>Identities and weights\<close>

definition normalizePubkey :: "'p allocation_ports_scheme \<Rightarrow> js_string option \<Rightarrow> js_string option" where
  "normalizePubkey env value =
     (case value of
        None \<Rightarrow> None
      | Some s \<Rightarrow>
          (let trimmed = js_trim s
           in if trimmed = [] then None
              else if is_hex64_i trimmed then Some (toLowerCase trimmed)
              else (case nip19_decode env trimmed of
                      Some (Npub k) \<Rightarrow> Some (toLowerCase k)
                    | Some (Nprofile k _) \<Rightarrow> Some (toLowerCase k)
                    | _ \<Rightarrow> None)))"

definition normalizeAllocationIdentity :: "'p allocation_ports_scheme \<Rightarrow> js_string option \<Rightarrow> js_string option" where
  "normalizeAllocationIdentity env value =
     (case normalizePubkey env value of
        None \<Rightarrow> None
      | Some k \<Rightarrow> if k \<noteq> [] \<and> isValidNostrPublicKey env k then Some k else None)"

text \<open>The pattern \<open>/^[1-9]\d*$/\<close>.\<close>

definition positive_integer_text :: "js_string \<Rightarrow> bool" where
  "positive_integer_text s \<longleftrightarrow> s \<noteq> [] \<and> list_all is_digit s \<and> hd s \<noteq> CHR ''0''"

definition parsePositiveWeight :: "weight_input \<Rightarrow> int option" where
  "parsePositiveWeight value =
     (let normalized =
        (case value of
           WeightNumber x \<Rightarrow> (case safe_value x of Some i \<Rightarrow> (if i < 0 then ''-'' else []) @ decimal_digits (nat \<bar>i\<bar>) | None \<Rightarrow> [])
         | WeightText s \<Rightarrow> js_trim s
         | WeightMissing \<Rightarrow> [])
      in if \<not> positive_integer_text normalized then None
         else let weight = decimal_value normalized
         in if is_safe weight \<and> weight > 0 then Some weight else None)"

definition getNprofileRelayHints :: "'p allocation_ports_scheme \<Rightarrow> js_string \<Rightarrow> js_string list" where
  "getNprofileRelayHints env identity =
     (case nip19_decode env (js_trim identity) of Some (Nprofile _ relays) \<Rightarrow> relays | _ \<Rightarrow> [])"

fun first_hint :: "'p allocation_ports_scheme \<Rightarrow> js_string list \<Rightarrow> js_string option" where
  "first_hint env [] = None"
| "first_hint env (candidate # rest) =
     (case normalizePublicWebSocketUrl (network_URL env) (Some candidate) of
        Some normalized \<Rightarrow> if normalized \<noteq> [] then Some normalized else first_hint env rest
      | None \<Rightarrow> first_hint env rest)"

definition resolveProductSupplierAllocationRelayHint ::
    "'p allocation_ports_scheme \<Rightarrow> js_string \<Rightarrow> js_string option \<Rightarrow> js_string option" where
  "resolveProductSupplierAllocationRelayHint env identity explicitRelayHint =
     first_hint env ((case explicitRelayHint of Some h \<Rightarrow> [h] | None \<Rightarrow> []) @ getNprofileRelayHints env identity)"

subsection \<open>Recipients\<close>

type_synonym issues = "ProductSupplierAllocationIssue list"

definition createRecipient ::
    "'p allocation_ports_scheme \<Rightarrow> ProductSupplierAllocationAuthoringRecipient \<Rightarrow> recipient_role \<Rightarrow> issues
     \<Rightarrow> ProductSupplierAllocationRecipient option \<times> issues" where
  "createRecipient env input role issues =
     (case normalizeAllocationIdentity env (Some (authoring_identity input)) of
        None \<Rightarrow> (None, issues @ [if role = MerchantRole then InvalidAuthor else InvalidRecipient])
      | Some pubkey \<Rightarrow>
          (case resolveProductSupplierAllocationRelayHint env (authoring_identity input) (authoring_relayHint input) of
             None \<Rightarrow> (None, issues @ [InvalidRelayHint])
           | Some relayHint \<Rightarrow>
               (case parsePositiveWeight (authoring_weight input) of
                  None \<Rightarrow> (None, issues @ [InvalidWeight])
                | Some weight \<Rightarrow>
                    (Some \<lparr>recipient_pubkey = pubkey, recipient_relayHint = relayHint, recipient_weight = weight,
                           recipient_role = role\<rparr>, issues))))"

text \<open>The running totals of the loop.  A sum of positive doubles that has left the safe range does not
  return to it, so the exact sum fails the check exactly when the rounded one does.\<close>

record recipient_scan =
  seen_pubkeys :: "js_string list"
  merchantCount :: nat
  supplierCount :: nat
  totalWeight :: int
  scan_issues :: issues

definition scan_recipient :: "js_string option \<Rightarrow> recipient_scan \<Rightarrow> ProductSupplierAllocationRecipient \<Rightarrow> recipient_scan" where
  "scan_recipient merchantKey s r =
     (let issues = (if recipient_pubkey r \<in> set (seen_pubkeys s) then scan_issues s @ [DuplicateRecipient] else scan_issues s);
          own = (merchantKey = Some (recipient_pubkey r));
          total = totalWeight s + recipient_weight r
      in \<lparr>seen_pubkeys = recipient_pubkey r # seen_pubkeys s,
          merchantCount = (if own then merchantCount s + 1 else merchantCount s),
          supplierCount = (if own then supplierCount s else supplierCount s + 1),
          totalWeight = total,
          scan_issues = (if is_safe total then issues else issues @ [WeightTotalOverflow])\<rparr>)"

definition validateRecipientSet :: "ProductSupplierAllocationRecipient list \<Rightarrow> js_string option \<Rightarrow> issues \<Rightarrow> issues" where
  "validateRecipientSet recipients merchantKey issues =
     (let s = foldl (scan_recipient merchantKey)
            \<lparr>seen_pubkeys = [], merchantCount = 0, supplierCount = 0, totalWeight = 0, scan_issues = issues\<rparr> recipients
      in scan_issues s @ (if merchantCount s = 0 then [MissingMerchant] else [])
           @ (if merchantCount s > 1 then [DuplicateMerchant] else [])
           @ (if supplierCount s = 0 then [MissingSupplier] else []))"

definition uniqueIssues :: "issues \<Rightarrow> issues" where
  "uniqueIssues issues = rev (remdups (rev issues))"

subsection \<open>The schema\<close>

definition recipient_schema :: "'p allocation_ports_scheme \<Rightarrow> ProductSupplierAllocationRecipient \<Rightarrow> bool" where
  "recipient_schema env r \<longleftrightarrow>
     is_hex64 (recipient_pubkey r) \<and> recipient_relayHint r \<noteq> []
     \<and> normalizePublicWebSocketUrl (network_URL env) (Some (recipient_relayHint r)) = Some (recipient_relayHint r)
     \<and> recipient_weight r > 0"

definition is_hex128 :: "js_string \<Rightarrow> bool" where
  "is_hex128 s \<longleftrightarrow> length s = 128 \<and> list_all is_lower_hex s"

definition revision_event_schema :: "SignedPublicNostrEvent \<Rightarrow> bool" where
  "revision_event_schema e \<longleftrightarrow>
     is_hex64 (event_id e) \<and> is_hex64 (event_pubkey e) \<and> created_at e \<ge> 0 \<and> event_kind e = 30402 \<and> is_hex128 (event_sig e)"

definition productSupplierAllocationSchema :: "'p allocation_ports_scheme \<Rightarrow> ProductSupplierAllocation \<Rightarrow> bool" where
  "productSupplierAllocationSchema env a \<longleftrightarrow>
     list_all (recipient_schema env) (allocation_recipients a)
     \<and> (case revisionEventId a of Some i \<Rightarrow> is_hex64 i | None \<Rightarrow> True)
     \<and> (case revisionCreatedAt a of Some t \<Rightarrow> t \<ge> 0 | None \<Rightarrow> True)
     \<and> (case revisionEvent a of Some e \<Rightarrow> revision_event_schema e | None \<Rightarrow> True)
     \<and> (case allocation_state a of
          AllocationAbsent \<Rightarrow> allocation_recipients a = [] \<and> allocation_issues a = []
        | AllocationInvalid \<Rightarrow> allocation_issues a \<noteq> []
        | AllocationValid \<Rightarrow>
            allocation_issues a = []
            \<and> (case revisionEvent a of
                 Some e \<Rightarrow> revisionEventId a = Some (event_id e) \<and> revisionCreatedAt a = Some (created_at e)
               | None \<Rightarrow> True)
            \<and> distinct (map recipient_pubkey (allocation_recipients a))
            \<and> length (filter (\<lambda>r. recipient_role r = MerchantRole) (allocation_recipients a)) = 1
            \<and> length (filter (\<lambda>r. recipient_role r = SupplierRole) (allocation_recipients a)) \<noteq> 0
            \<and> is_safe (sum_list (map recipient_weight (allocation_recipients a))))"

subsection \<open>Authoring\<close>

definition recipient_tag :: "ProductSupplierAllocationRecipient \<Rightarrow> js_string list" where
  "recipient_tag r = [''zap'', recipient_pubkey r, recipient_relayHint r, decimal_digits (nat (recipient_weight r))]"

definition emitProductSupplierAllocationTags ::
    "'p allocation_ports_scheme \<Rightarrow> ProductSupplierAllocation \<Rightarrow> js_string list list result" where
  "emitProductSupplierAllocationTags env a =
     (if allocation_state a \<noteq> AllocationValid then Inr []
      else if \<not> list_all (\<lambda>r. isValidNostrPublicKey env (recipient_pubkey r)) (allocation_recipients a)
      then Inl ''Product supplier allocation contains an invalid pubkey''
      else if \<not> productSupplierAllocationSchema env a then Inl ''Product supplier allocation is not internally valid''
      else Inr ([''conduit_supplier_allocation'', ''1''] # map recipient_tag (allocation_recipients a)))"

fun create_suppliers ::
    "'p allocation_ports_scheme \<Rightarrow> ProductSupplierAllocationAuthoringRecipient list
     \<Rightarrow> ProductSupplierAllocationRecipient list \<times> issues \<Rightarrow> ProductSupplierAllocationRecipient list \<times> issues" where
  "create_suppliers env [] acc = acc"
| "create_suppliers env (supplier # rest) (recipients, issues) =
     (case createRecipient env supplier SupplierRole issues of
        (Some r, issues') \<Rightarrow> create_suppliers env rest (recipients @ [r], issues')
      | (None, issues') \<Rightarrow> create_suppliers env rest (recipients, issues'))"

definition buildProductSupplierAllocation ::
    "'p allocation_ports_scheme \<Rightarrow> BuildProductSupplierAllocationInput \<Rightarrow> BuildProductSupplierAllocationResult result" where
  "buildProductSupplierAllocation env input =
     (let merchantKey = normalizeAllocationIdentity env (Some (input_merchantPubkey input));
          author = \<lparr>authoring_identity = input_merchantPubkey input, authoring_relayHint = input_merchantRelayHint input,
                    authoring_weight = input_merchantWeight input\<rparr>;
          (merchant, issues) = createRecipient env author MerchantRole [];
          (recipients, issues) =
            create_suppliers env (input_suppliers input) ((case merchant of Some r \<Rightarrow> [r] | None \<Rightarrow> []), issues);
          normalizedIssues = uniqueIssues (validateRecipientSet recipients merchantKey issues)
      in if normalizedIssues \<noteq> [] then Inr (Refused normalizedIssues recipients)
         else let allocation = \<lparr>allocation_state = AllocationValid, allocation_recipients = recipients, allocation_issues = [],
                    revisionEventId = None, revisionCreatedAt = None, revisionEvent = None\<rparr>
         in bind_result (emitProductSupplierAllocationTags env allocation) (\<lambda>tags. Inr (Built allocation tags)))"

subsection \<open>Reading\<close>

definition hasExactSignedRevision ::
    "'p allocation_ports_scheme \<Rightarrow> ParseProductSupplierAllocationInput \<Rightarrow> js_string option \<Rightarrow> SignedPublicNostrEvent option" where
  "hasExactSignedRevision env input merchantKey =
     (case (parse_signedRevision input, merchantKey) of
        (Some (e, proven), Some k) \<Rightarrow>
          if event_kind e = 30402 \<and> toLowerCase (event_pubkey e) = k
             \<and> stringify (tags_json (event_tags e)) = stringify (tags_json (or_else (parse_tags input) []))
             \<and> (proven \<or> valid_event env e)
          then Some e else None
      | _ \<Rightarrow> None)"

fun read_recipients ::
    "'p allocation_ports_scheme \<Rightarrow> js_string option \<Rightarrow> js_string list list
     \<Rightarrow> ProductSupplierAllocationRecipient list \<times> issues \<Rightarrow> ProductSupplierAllocationRecipient list \<times> issues" where
  "read_recipients env merchantKey [] acc = acc"
| "read_recipients env merchantKey (tg # rest) (recipients, issues) =
     (case normalizeAllocationIdentity env (tag_at tg 1) of
        None \<Rightarrow> read_recipients env merchantKey rest (recipients, issues @ [InvalidRecipient])
      | Some pubkey \<Rightarrow>
          (case normalizePublicWebSocketUrl (network_URL env) (tag_at tg 2) of
             None \<Rightarrow> read_recipients env merchantKey rest (recipients, issues @ [InvalidRelayHint])
           | Some relayHint \<Rightarrow>
               if relayHint = [] then read_recipients env merchantKey rest (recipients, issues @ [InvalidRelayHint])
               else (case parsePositiveWeight (case tag_at tg 3 of Some w \<Rightarrow> WeightText w | None \<Rightarrow> WeightMissing) of
                  None \<Rightarrow> read_recipients env merchantKey rest (recipients, issues @ [InvalidWeight])
                | Some weight \<Rightarrow>
                    read_recipients env merchantKey rest
                      (recipients @ [\<lparr>recipient_pubkey = pubkey, recipient_relayHint = relayHint, recipient_weight = weight,
                         recipient_role = (if merchantKey = Some pubkey then MerchantRole else SupplierRole)\<rparr>], issues))))"

definition parseProductSupplierAllocationTags ::
    "'p allocation_ports_scheme \<Rightarrow> ParseProductSupplierAllocationInput \<Rightarrow> ProductSupplierAllocation" where
  "parseProductSupplierAllocationTags env input =
     (let merchantKey = normalizeAllocationIdentity env (Some (parse_merchantPubkey input));
          revision = hasExactSignedRevision env input merchantKey;
          tags = or_else (parse_tags input) [];
          signed = (\<lambda>state recipients issues.
            \<lparr>allocation_state = state, allocation_recipients = recipients, allocation_issues = issues,
             revisionEventId = map_option (\<lambda>e. toLowerCase (event_id e)) revision,
             revisionCreatedAt = map_option created_at revision, revisionEvent = revision\<rparr>);
          versionTags = tags_named ''conduit_supplier_allocation'' tags
      in if versionTags = [] then signed AllocationAbsent [] []
         else let zapTags = tags_named ''zap'' tags;
                  issues = (if length versionTags \<noteq> 1 \<or> length (hd versionTags) \<noteq> 2 \<or> tag_at (hd versionTags) 1 \<noteq> Some ''1''
                            then [InvalidVersion] else []) @ (if merchantKey = None then [InvalidAuthor] else []);
                  (recipients, issues) = read_recipients env merchantKey zapTags ([], issues);
                  normalizedIssues = uniqueIssues (validateRecipientSet recipients merchantKey issues)
         in signed (if normalizedIssues = [] then AllocationValid else AllocationInvalid) recipients normalizedIssues)"

subsection \<open>Dividing an amount\<close>

definition add_remainder :: "nat \<Rightarrow> int \<Rightarrow> ProductSupplierAllocationShare list \<Rightarrow> ProductSupplierAllocationShare list" where
  "add_remainder i n shares = shares[i := (shares ! i)\<lparr>share_sats := share_sats (shares ! i) + n\<rparr>]"

definition allocateProductSupplierShares ::
    "js_number \<Rightarrow> ProductSupplierAllocation \<Rightarrow> ProductSupplierAllocationShare list result" where
  "allocateProductSupplierShares amount a =
     (case safe_value amount of
        None \<Rightarrow> Inl ''Allocation total must be a non-negative safe integer''
      | Some totalSats \<Rightarrow>
          if totalSats < 0 then Inl ''Allocation total must be a non-negative safe integer''
          else if allocation_state a \<noteq> AllocationValid then Inl ''A valid signed supplier allocation is required''
          else if \<not> list_ex (\<lambda>r. recipient_role r = MerchantRole) (allocation_recipients a)
          then Inl ''Supplier allocation requires a merchant remainder''
          else let merchantIndex = length (takeWhile (\<lambda>r. recipient_role r \<noteq> MerchantRole) (allocation_recipients a));
                   totalWeight = sum_list (map recipient_weight (allocation_recipients a))
          in if totalWeight \<le> 0 then Inl ''Supplier allocation requires positive weights''
             else let shares = map (\<lambda>r. \<lparr>share_pubkey = recipient_pubkey r, share_role = recipient_role r,
                                         share_sats = totalSats * recipient_weight r div totalWeight\<rparr>) (allocation_recipients a);
                      allocated = sum_list (map share_sats shares)
             in Inr (add_remainder merchantIndex (totalSats - allocated) shares))"

end
