(* ===== verification/Network_Claims.thy ===== *)
theory Network_Claims
  imports Network_Safety Event_Assignment
begin

text \<open>
  What the address filter admits: a dotted address passes exactly when it lies in no special-purpose block,
  and an admitted relay hint is a plain secure web socket URL of a public host.
\<close>

subsection \<open>Blocks of addresses\<close>

definition ipv4_address :: "int \<Rightarrow> int \<Rightarrow> int \<Rightarrow> int \<Rightarrow> int" where
  "ipv4_address a b c d = a * 2 ^ 24 + b * 2 ^ 16 + c * 2 ^ 8 + d"

text \<open>Base address and prefix length of the special-purpose blocks.\<close>

definition special_ipv4_blocks :: "(int \<times> nat) list" where
  "special_ipv4_blocks =
     [(ipv4_address 0 0 0 0, 8), (ipv4_address 10 0 0 0, 8), (ipv4_address 127 0 0 0, 8), (ipv4_address 100 64 0 0, 10),
      (ipv4_address 169 254 0 0, 16), (ipv4_address 172 16 0 0, 12), (ipv4_address 192 0 0 0, 24), (ipv4_address 192 0 2 0, 24),
      (ipv4_address 192 88 99 0, 24), (ipv4_address 192 168 0 0, 16), (ipv4_address 192 31 196 0, 24), (ipv4_address 192 52 193 0, 24),
      (ipv4_address 198 18 0 0, 15), (ipv4_address 198 51 100 0, 24), (ipv4_address 203 0 113 0, 24), (ipv4_address 224 0 0 0, 3)]"

definition in_ipv4_block :: "int \<Rightarrow> int \<times> nat \<Rightarrow> bool" where
  "in_ipv4_block address block \<longleftrightarrow> address div 2 ^ (32 - snd block) = fst block div 2 ^ (32 - snd block)"

lemma block_prefix:
  fixes a b c d :: int
  assumes "0 \<le> a" "a < 256" "0 \<le> b" "b < 256" "0 \<le> c" "c < 256" "0 \<le> d" "d < 256"
  shows "ipv4_address a b c d div 2 ^ 24 = a" "ipv4_address a b c d div 2 ^ 16 = a * 256 + b"
    "ipv4_address a b c d div 2 ^ 8 = a * 65536 + b * 256 + c"
    "ipv4_address a b c d div 2 ^ 22 = a * 4 + b div 64" "ipv4_address a b c d div 2 ^ 20 = a * 16 + b div 16"
    "ipv4_address a b c d div 2 ^ 17 = a * 128 + b div 2" "ipv4_address a b c d div 2 ^ 29 = a div 32"
  using assms by (simp_all add: ipv4_address_def)

lemma pair_eq:
  fixes a q m j k :: int
  assumes "0 \<le> q" "q < m" "0 \<le> j" "j < m"
  shows "a * m + q = k * m + j \<longleftrightarrow> a = k \<and> q = j"
proof
  assume e: "a * m + q = k * m + j"
  have d: "(x * m + y) div m = x" if "0 \<le> y" "y < m" for x y using that by simp
  from d [OF assms(1,2), of a] d [OF assms(3,4), of k] e show "a = k \<and> q = j" by simp
qed simp

lemma special_blocks:
  assumes "0 \<le> a" "a < 256" "0 \<le> b" "b < 256" "0 \<le> c" "c < 256" "0 \<le> d" "d < 256"
  shows "list_ex (in_ipv4_block (ipv4_address a b c d)) special_ipv4_blocks \<longleftrightarrow>
     a = 0 \<or> a = 10 \<or> a = 127 \<or> (a = 100 \<and> 64 \<le> b \<and> b \<le> 127) \<or> (a = 169 \<and> b = 254) \<or> (a = 172 \<and> 16 \<le> b \<and> b \<le> 31)
     \<or> (a = 192 \<and> b = 0 \<and> c = 0) \<or> (a = 192 \<and> b = 0 \<and> c = 2) \<or> (a = 192 \<and> b = 88 \<and> c = 99) \<or> (a = 192 \<and> b = 168)
     \<or> (a = 192 \<and> b = 31 \<and> c = 196) \<or> (a = 192 \<and> b = 52 \<and> c = 193) \<or> (a = 198 \<and> (b = 18 \<or> b = 19))
     \<or> (a = 198 \<and> b = 51 \<and> c = 100) \<or> (a = 203 \<and> b = 0 \<and> c = 113) \<or> 224 \<le> a"
proof -
  note p = block_prefix [OF assms, simplified]
  have blocks: "special_ipv4_blocks = [(0, 8), (167772160, 8), (2130706432, 8), (1681915904, 10), (2851995648, 16), (2886729728, 12),
      (3221225472, 24), (3221225984, 24), (3227017984, 24), (3232235520, 16), (3223307264, 24), (3224682752, 24),
      (3323068416, 15), (3325256704, 24), (3405803776, 24), (3758096384, 3)]"
    by (simp add: special_ipv4_blocks_def ipv4_address_def)
  have q: "0 \<le> b div 64" "b div 64 < 4" "0 \<le> b div 16" "b div 16 < 16" "0 \<le> b div 2" "b div 2 < 128"
    using assms(3,4) by (simp_all add: div_less_iff_less_mult)
  have small: "b div 64 = 1 \<longleftrightarrow> 64 \<le> b \<and> b \<le> 127" "b div 16 = 1 \<longleftrightarrow> 16 \<le> b \<and> b \<le> 31" "b div 2 = 9 \<longleftrightarrow> b = 18 \<or> b = 19"
    "a div 32 = 7 \<longleftrightarrow> 224 \<le> a" using assms(1-4) by linarith+
  have "a * 4 + b div 64 = 401 \<longleftrightarrow> a = 100 \<and> 64 \<le> b \<and> b \<le> 127"
    using pair_eq [OF q(1,2), of 1 a 100] small(1) by simp
  moreover have "a * 16 + b div 16 = 2753 \<longleftrightarrow> a = 172 \<and> 16 \<le> b \<and> b \<le> 31"
    using pair_eq [OF q(3,4), of 1 a 172] small(2) by simp
  moreover have "a * 128 + b div 2 = 25353 \<longleftrightarrow> a = 198 \<and> (b = 18 \<or> b = 19)"
    using pair_eq [OF q(5,6), of 9 a 198] small(3) by simp
  moreover have "a * 256 + b = 43518 \<longleftrightarrow> a = 169 \<and> b = 254" "a * 256 + b = 49320 \<longleftrightarrow> a = 192 \<and> b = 168"
    using pair_eq [OF assms(3,4), of 254 a 169] pair_eq [OF assms(3,4), of 168 a 192] by simp_all
  moreover have "a * 65536 + b * 256 + c = k * 65536 + j * 256 + i \<longleftrightarrow> a = k \<and> b = j \<and> c = i"
    if "0 \<le> j" "j < 256" "0 \<le> i" "i < 256" for i j k
    using pair_eq [of "b * 256 + c" 65536 "j * 256 + i" a k] pair_eq [OF assms(5,6) that(3,4), of b j] assms that by (simp add: add.assoc)
  from this [of 0 0 192] this [of 0 2 192] this [of 88 99 192] this [of 31 196 192] this [of 52 193 192] this [of 51 100 198] this [of 0 113 203]
  have "a * 65536 + b * 256 + c = 12582912 \<longleftrightarrow> a = 192 \<and> b = 0 \<and> c = 0" "a * 65536 + b * 256 + c = 12582914 \<longleftrightarrow> a = 192 \<and> b = 0 \<and> c = 2"
    "a * 65536 + b * 256 + c = 12605539 \<longleftrightarrow> a = 192 \<and> b = 88 \<and> c = 99" "a * 65536 + b * 256 + c = 12591044 \<longleftrightarrow> a = 192 \<and> b = 31 \<and> c = 196"
    "a * 65536 + b * 256 + c = 12596417 \<longleftrightarrow> a = 192 \<and> b = 52 \<and> c = 193" "a * 65536 + b * 256 + c = 12989284 \<longleftrightarrow> a = 198 \<and> b = 51 \<and> c = 100"
    "a * 65536 + b * 256 + c = 13303921 \<longleftrightarrow> a = 203 \<and> b = 0 \<and> c = 113" by simp_all
  moreover note small(4)
  ultimately show ?thesis
    unfolding blocks by (simp add: in_ipv4_block_def p)
qed

subsection \<open>The octets of a word\<close>

lemma small_word:
  fixes a k :: int
  assumes "0 \<le> a" "a < 256" "0 \<le> k" "k < 256"
  shows "(word_of_int a :: 32 word) = word_of_int k \<longleftrightarrow> a = k" "(word_of_int a :: 32 word) \<le> word_of_int k \<longleftrightarrow> a \<le> k"
  using assms by (simp_all add: word_uint_eq_iff word_le_def uint_word_of_int)

lemma small_uint: "0 \<le> x \<Longrightarrow> x < 2 ^ 32 \<Longrightarrow> uint (word_of_int x :: 32 word) = x"
  by (simp add: uint_word_of_int)

lemma octets_of:
  assumes "0 \<le> a" "a < 256" "0 \<le> b" "b < 256" "0 \<le> c" "c < 256" "0 \<le> d" "d < 256"
  shows "ipv4Octets (word_of_int (ipv4_address a b c d)) = (word_of_int a, word_of_int b, word_of_int c, word_of_int d)"
proof -
  let ?v = "word_of_int (ipv4_address a b c d) :: 32 word"
  have range: "0 \<le> ipv4_address a b c d" "ipv4_address a b c d < 2 ^ 32" using assms by (simp_all add: ipv4_address_def)
  then have u: "uint ?v = ipv4_address a b c d" by (rule small_uint)
  have m: "w AND 255 = take_bit 8 w" for w :: "32 word" by (simp add: take_bit_eq_mask mask_eq_exp_minus_1)
  have o: "uint (take_bit 8 (drop_bit n ?v)) = ipv4_address a b c d div 2 ^ n mod 256" for n
    unfolding unsigned_take_bit_eq unsigned_drop_bit_eq u using range by (simp add: drop_bit_eq_div take_bit_eq_mod)
  note p = block_prefix [OF assms, simplified]
  have low: "(a * 65536 + b * 256 + c) mod 256 = c"
    using assms(5,6) mod_mult_self1 [of c "a * 256 + b" 256] by (simp add: algebra_simps)
  have lowest: "ipv4_address a b c d mod 256 = d"
    using assms(7,8) mod_mult_self1 [of d "a * 65536 + b * 256 + c" 256] by (simp add: ipv4_address_def algebra_simps)
  have "take_bit 8 (drop_bit 24 ?v) = word_of_int a" "take_bit 8 (drop_bit 16 ?v) = word_of_int b"
    "take_bit 8 (drop_bit 8 ?v) = word_of_int c"
    using o [of 24] o [of 16] o [of 8] assms by (simp_all add: p low word_uint_eq_iff uint_word_of_int)
  moreover have "take_bit 8 ?v = word_of_int d"
    using o [of 0] assms lowest by (simp add: word_uint_eq_iff uint_word_of_int)
  ultimately show ?thesis by (simp add: ipv4Octets_def m)
qed

lemma public_word:
  assumes "0 \<le> a" "a < 256" "0 \<le> b" "b < 256" "0 \<le> c" "c < 256" "0 \<le> d" "d < 256"
  shows "isPublicIpv4Address (word_of_int (ipv4_address a b c d)) \<longleftrightarrow>
    \<not> list_ex (in_ipv4_block (ipv4_address a b c d)) special_ipv4_blocks"
proof -
  have e: "(word_of_int x :: 32 word) = numeral n \<longleftrightarrow> x = numeral n" if "0 \<le> x" "x < 256" "(numeral n :: int) < 256" for x n
    using small_word(1) [OF that(1,2), of "numeral n"] that(3) by simp
  have z: "(word_of_int x :: 32 word) = 0 \<longleftrightarrow> x = 0" if "0 \<le> x" "x < 256" for x
    using small_word(1) [OF that, of 0] by simp
  have l: "(word_of_int x :: 32 word) \<le> numeral n \<longleftrightarrow> x \<le> numeral n" if "0 \<le> x" "x < 256" "(numeral n :: int) < 256" for x n
    using small_word(2) [OF that(1,2), of "numeral n"] that(3) by simp
  have g: "numeral n \<le> (word_of_int x :: 32 word) \<longleftrightarrow> numeral n \<le> x" if "0 \<le> x" "x < 256" "(numeral n :: int) < 256" for x n
    using small_word(2) [OF _ that(3) that(1,2)] by simp
  note conv = e [OF assms(1,2)] e [OF assms(3,4)] e [OF assms(5,6)] z [OF assms(1,2)] z [OF assms(3,4)] z [OF assms(5,6)]
    l [OF assms(3,4)] g [OF assms(1,2)] g [OF assms(3,4)]
  show ?thesis
    unfolding special_blocks [OF assms] isPublicIpv4Address_def octets_of [OF assms] prod.case
    by (simp add: conv) argo
qed

subsection \<open>Dotted text\<close>

definition dotted :: "nat \<Rightarrow> nat \<Rightarrow> nat \<Rightarrow> nat \<Rightarrow> js_string" where
  "dotted a b c d = decimal_digits a @ ''.'' @ decimal_digits b @ ''.'' @ decimal_digits c @ ''.'' @ decimal_digits d"

lemma split_here: "c \<notin> set s \<Longrightarrow> split_on c (s @ c # t) = s # split_on c t"
  by (induction s) auto

lemma split_whole: "c \<notin> set s \<Longrightarrow> split_on c s = [s]"
  by (induction s) auto

lemma digit_not_dot: "is_digit c \<Longrightarrow> c \<noteq> CHR ''.'' \<and> c \<noteq> CHR ''['' \<and> c \<noteq> CHR '']'' \<and> \<not> is_js_space c \<and> char_lower c = c"
  by (auto simp: is_digit_def is_js_space_def char_lower_def Let_def char_code_def)

lemma digits_short: "n < 256 \<Longrightarrow> length (decimal_digits n) \<le> 3"
proof -
  assume n: "n < 256"
  have one: "length (decimal_digits m) = 1" if "m < 10" for m using that by (subst decimal_digits.simps) simp
  have two: "length (decimal_digits m) \<le> 2" if "m < 100" for m
    using that one [of "m div 10"] one [of m] by (cases "m < 10") (simp_all add: decimal_digits.simps [of m])
  show ?thesis using n two [of "n div 10"] one [of n] by (cases "n < 10") (simp_all add: decimal_digits.simps [of n])
qed

lemma octet_digits: "n < 256 \<Longrightarrow> octet_text (decimal_digits n)"
  using digits_all [of n] digits_not_empty [of n] digits_short [of n] decimal_value_digits [of n]
  by (simp add: octet_text_def Suc_le_eq)

lemma dotted_parsed:
  assumes "a < 256" "b < 256" "c < 256" "d < 256"
  shows "parseIpv4Address (dotted a b c d) = Some (word_of_int (ipv4_address (int a) (int b) (int c) (int d)))"
proof -
  have no_dot: "CHR ''.'' \<notin> set (decimal_digits n)" for n using digits_all [of n] digit_not_dot by (auto simp: list_all_iff)
  have "split_on CHR ''.'' (dotted a b c d) = [decimal_digits a, decimal_digits b, decimal_digits c, decimal_digits d]"
    by (simp add: dotted_def split_here split_whole no_dot)
  then show ?thesis using assms
    by (simp add: parseIpv4Address_def octet_digits decimal_value_digits ipv4_address_def)
qed

lemma dotted_kept:
  assumes "a < 256" "b < 256" "c < 256" "d < 256"
  shows "normalizeHostnameForClassification (dotted a b c d) = dotted a b c d" "dotted a b c d \<noteq> []" "length (dotted a b c d) \<le> 253"
proof -
  let ?s = "dotted a b c d"
  have plain: "\<not> is_js_space x \<and> char_lower x = x \<and> x \<noteq> CHR ''[''" if "x \<in> set ?s" for x
  proof -
    have "is_digit x \<or> x = CHR ''.''" using that digits_all by (auto simp: dotted_def list_all_iff)
    then show ?thesis using digit_not_dot by (auto simp: is_js_space_def char_lower_def char_code_def)
  qed
  have "last (decimal_digits d) \<in> set (decimal_digits d)" using digits_not_empty by simp
  then have "is_digit (last (decimal_digits d))" using digits_all [of d] by (auto simp: list_all_iff)
  then have last: "last ?s \<noteq> CHR ''.''" using digits_not_empty digit_not_dot by (simp add: dotted_def)
  show ne: "?s \<noteq> []" by (simp add: dotted_def)
  show "length ?s \<le> 253"
    using digits_short [OF assms(1)] digits_short [OF assms(2)] digits_short [OF assms(3)] digits_short [OF assms(4)]
    by (simp add: dotted_def)
  have "dropWhile is_js_space t = t" if "set t \<subseteq> set ?s" for t using that plain by (cases t) auto
  then have "js_trim ?s = ?s" by (simp add: js_trim_def)
  moreover have "toLowerCase ?s = ?s" unfolding toLowerCase_def using plain by (intro map_idI) simp
  moreover have "\<not> startsWith ?s ''[''" using plain ne by (cases ?s) (auto simp: startsWith_def)
  ultimately show "normalizeHostnameForClassification ?s = ?s"
    using last ne by (simp add: normalizeHostnameForClassification_def strip_brackets_def)
qed

lemma dotted_public:
  assumes "a < 256" "b < 256" "c < 256" "d < 256"
  shows "isPublicNetworkHostname (dotted a b c d) \<longleftrightarrow>
    \<not> list_ex (in_ipv4_block (ipv4_address (int a) (int b) (int c) (int d))) special_ipv4_blocks"
  using dotted_kept [OF assms] dotted_parsed [OF assms] public_word [of "int a" "int b" "int c" "int d"] assms
  by (simp add: isPublicNetworkHostname_def)

text \<open>C39. The dotted address filter is exactly the block table.  The chain of octet comparisons on the
  32-bit value that \<open>parseIpv4Address\<close> reads admits a dotted address if and only if the address lies in none
  of the sixteen special-purpose blocks, each given by its base address and prefix length.\<close>

theorem dotted_address_is_public:
  assumes "a < 256" "b < 256" "c < 256" "d < 256"
  shows "isPublicNetworkHostname (dotted a b c d) \<longleftrightarrow>
    \<not> list_ex (in_ipv4_block (ipv4_address (int a) (int b) (int c) (int d))) special_ipv4_blocks"
  by (rule dotted_public [OF assms])

lemma dotted_address_is_public_witness:
  "isPublicNetworkHostname (dotted 100 63 255 255) \<and> \<not> isPublicNetworkHostname (dotted 100 64 0 0)"
  using dotted_address_is_public [of 100 63 255 255] dotted_address_is_public [of 100 64 0 0]
  by (simp add: special_ipv4_blocks_def in_ipv4_block_def ipv4_address_def)

subsection \<open>Admitted URLs\<close>

lemma admitted_url:
  assumes "normalizePublicNetworkUrl parse_url raw protocols fragment = Some t"
  obtains s url where "raw = Some s" "parse_url s = Some url" "t = url_href url" "js_trim s = s" "s \<noteq> []" "length s \<le> 4096"
    "url_protocol url \<in> set protocols" "url_username url = []" "url_password url = []" "fragment \<or> url_hash url = []"
    "isPublicNetworkHostname (url_hostname url)"
  using assms unfolding normalizePublicNetworkUrl_def MAX_UNTRUSTED_NETWORK_URL_LENGTH_def
  by (auto split: option.split_asm if_split_asm)

text \<open>A literal is written with hexadecimal digits and separators only, so no special name can be one.\<close>

definition literal_char :: "char \<Rightarrow> bool" where
  "literal_char c \<longleftrightarrow> is_any_hex c \<or> c \<in> set '':.[]''"

lemma split_chars: "x \<in> set s \<Longrightarrow> x = c \<or> (\<exists>p \<in> set (split_on c s). x \<in> set p)"
  by (induction s) (auto split: list.splits)

lemma hex_digit: "is_digit c \<Longrightarrow> is_any_hex c"
  by (simp add: is_any_hex_def is_lower_hex_def is_digit_def)

lemma ipv4_text_chars: "parseIpv4Address s = Some v \<Longrightarrow> x \<in> set s \<Longrightarrow> literal_char x"
  using split_chars [of x s "CHR ''.''"]
  by (auto simp: parseIpv4Address_def Let_def octet_text_def list_all_iff literal_char_def hex_digit split: if_split_asm)

lemma bracketed_chars: "x \<in> set s \<Longrightarrow> x \<in> set (strip_brackets s) \<or> x = CHR ''['' \<or> x = CHR '']''"
proof (cases "startsWith s ''['' \<and> s \<noteq> [] \<and> last s = CHR '']''")
  case True
  assume x: "x \<in> set s"
  from True obtain r where s: "s = CHR ''['' # r" by (cases s) (auto simp: startsWith_def)
  have "r \<noteq> []" using True s by auto
  then have "s = CHR ''['' # butlast r @ [CHR '']'']" using True s append_butlast_last_id [of r] by simp
  moreover have "strip_brackets s = butlast r" using True s by (simp add: strip_brackets_def)
  ultimately show ?thesis using x by auto
qed (auto simp: strip_brackets_def)

lemma double_colon_split:
  assumes "double_colons s = i # is"
  shows "s = take i s @ ''::'' @ drop (i + 2) s"
proof -
  have "i \<in> set (double_colons s)" using assms by simp
  then have "take 2 (drop i s) = ''::''" by (simp add: double_colons_def)
  then show ?thesis by (metis append_take_drop_id add.commute drop_drop)
qed

lemma ipv6_text_chars:
  assumes "parseIpv6Address s = Some v" "x \<in> set s"
  shows "literal_char x"
proof (cases "x \<in> set (strip_brackets s)")
  case True
  let ?u = "strip_brackets s"
  let ?part = "\<lambda>t. if t = [] then [] else split_on CHR '':'' t"
  have char: "literal_char y" if "\<forall>g \<in> set (?part t). hex_group g" "y \<in> set t" for t y
    using split_chars [OF that(2), of "CHR '':''"] that
    by (auto simp: literal_char_def hex_group_def list_all_iff split: if_split_asm)
  show ?thesis
  proof (cases "double_colons ?u")
    case Nil
    then have "\<forall>g \<in> set (?part ?u). hex_group g"
      using assms(1) True by (auto simp: parseIpv6Address_def Let_def list_all_iff split: if_split_asm)
    then show ?thesis using char True by blast
  next
    case (Cons i rest)
    then have "\<forall>g \<in> set (?part (take i ?u)). hex_group g" "\<forall>g \<in> set (?part (drop (i + 2) ?u)). hex_group g"
      using assms(1) by (auto simp: parseIpv6Address_def Let_def list_all_iff split: if_split_asm)
    moreover have "x \<in> set (take i ?u) \<or> x = CHR '':'' \<or> x \<in> set (drop (i + 2) ?u)"
      using True double_colon_split [OF Cons] by (metis (no_types, lifting) Un_iff insert_iff empty_iff empty_set list.simps(15) set_append)
    ultimately show ?thesis using char [of "take i ?u" x] char [of "drop (i + 2) ?u" x] by (auto simp: literal_char_def)
  qed
qed (use bracketed_chars [OF assms(2)] in \<open>auto simp: literal_char_def\<close>)

lemma special_name_letter: "\<forall>s \<in> set SPECIAL_USE_HOSTNAME_SUFFIXES. \<exists>x \<in> set s. \<not> literal_char x"
  by (simp add: SPECIAL_USE_HOSTNAME_SUFFIXES_def) code_simp

lemma endsWith_chars: "endsWith s t \<Longrightarrow> x \<in> set t \<Longrightarrow> x \<in> set s"
  unfolding endsWith_def by (metis in_set_dropD)

lemma special_host_refused:
  assumes "isPublicNetworkHostname host" "s \<in> set SPECIAL_USE_HOSTNAME_SUFFIXES"
  shows "normalizeHostnameForClassification host \<noteq> s \<and> \<not> endsWith (normalizeHostnameForClassification host) (''.'' @ s)"
proof (rule ccontr)
  let ?n = "normalizeHostnameForClassification host"
  assume "\<not> ?thesis"
  then have special: "?n = s \<or> endsWith ?n (''.'' @ s)" by blast
  obtain x where "x \<in> set s" "\<not> literal_char x" using special_name_letter assms(2) by blast
  then have "x \<in> set ?n" "\<not> literal_char x" using special endsWith_chars by auto
  then have "parseIpv4Address ?n = None" "parseIpv6Address ?n = None"
    using ipv4_text_chars ipv6_text_chars by (metis not_None_eq)+
  then show False using assms special
    by (auto simp: isPublicNetworkHostname_def Let_def list_ex_iff split: if_split_asm)
qed


text \<open>A parser of one address, which appends the empty path as browsers do.\<close>

definition sample_url :: "js_string \<Rightarrow> parsed_url option" where
  "sample_url s = (if s = ''wss://relay.example.dev'' \<or> s = ''wss://relay.example.dev/'' then
     Some \<lparr>url_protocol = ''wss:'', url_hostname = ''relay.example.dev'', url_username = [], url_password = [], url_hash = [],
           url_href = ''wss://relay.example.dev/''\<rparr> else None)"

lemma sample_hint:
  "normalizePublicWebSocketUrl sample_url (Some ''wss://relay.example.dev'') = Some ''wss://relay.example.dev/''"
  "normalizePublicWebSocketUrl sample_url (Some ''wss://relay.example.dev/'') = Some ''wss://relay.example.dev/''"
  by code_simp+


end
