(* ===== verification/Supplier_Claims.thy ===== *)
theory Supplier_Claims
  imports Supplier_Allocation Network_Claims
begin

text \<open>
  What the readers of a supplier allocation rely on: the tags an author signs are read back as the terms that
  were built, and an accepted allocation divides every amount without loss.
\<close>

subsection \<open>The recipient check\<close>

lemma scan_result:
  fixes rs k issues
  defines "s \<equiv> foldl (scan_recipient k)
    \<lparr>seen_pubkeys = [], merchantCount = 0, supplierCount = 0, totalWeight = 0, scan_issues = issues\<rparr> rs"
  shows "set (seen_pubkeys s) = recipient_pubkey ` set rs \<and> merchantCount s = length (filter (\<lambda>r. k = Some (recipient_pubkey r)) rs)
    \<and> supplierCount s = length (filter (\<lambda>r. k \<noteq> Some (recipient_pubkey r)) rs) \<and> totalWeight s = sum_list (map recipient_weight rs)
    \<and> (scan_issues s = [] \<longrightarrow> issues = [] \<and> distinct (map recipient_pubkey rs) \<and> is_safe (sum_list (map recipient_weight rs)))"
  unfolding s_def
proof (induction rs rule: rev_induct)
  case Nil
  then show ?case by (simp add: is_safe_def MAX_SAFE_INTEGER_def)
next
  case (snoc r rs)
  then show ?case by (auto simp: scan_recipient_def Let_def split: if_split_asm)
qed

lemma unique_empty: "uniqueIssues xs = [] \<longleftrightarrow> xs = []"
  by (simp add: uniqueIssues_def)

lemma one_member: "xs \<noteq> [] \<Longrightarrow> \<not> Suc 0 < length xs \<Longrightarrow> length xs = Suc 0"
  by (cases xs) auto

lemma valid_recipients:
  assumes "uniqueIssues (validateRecipientSet rs k issues) = []"
  shows "issues = []" "distinct (map recipient_pubkey rs)" "is_safe (sum_list (map recipient_weight rs))"
    "length (filter (\<lambda>r. k = Some (recipient_pubkey r)) rs) = 1" "length (filter (\<lambda>r. k \<noteq> Some (recipient_pubkey r)) rs) \<noteq> 0"
  using assms scan_result [where rs=rs and k=k and issues=issues]
  by (auto simp: unique_empty validateRecipientSet_def Let_def intro: one_member split: if_split_asm)

subsection \<open>Reading the signed tags\<close>

lemma hex_not_space: "is_any_hex c \<Longrightarrow> \<not> is_js_space c"
  by (auto simp: is_any_hex_def is_lower_hex_def is_digit_def is_js_space_def Let_def)

lemma trim_kept: "list_all (\<lambda>c. \<not> is_js_space c) s \<Longrightarrow> js_trim s = s"
proof -
  assume s: "list_all (\<lambda>c. \<not> is_js_space c) s"
  have "dropWhile is_js_space t = t" if "set t \<subseteq> set s" for t using that s by (cases t) (auto simp: list_all_iff)
  then show ?thesis by (simp add: js_trim_def)
qed

lemma lower_hex_any: "is_lower_hex c \<Longrightarrow> is_any_hex c"
  by (simp add: is_any_hex_def)

lemma own_identity:
  assumes "is_hex64 k" "isValidNostrPublicKey env k"
  shows "normalizeAllocationIdentity env (Some k) = Some k"
proof -
  have h: "list_all is_lower_hex k" "length k = 64" using assms(1) by (simp_all add: is_hex64_def)
  have "js_trim k = k" using h(1) hex_not_space lower_hex_any by (intro trim_kept) (auto simp: list_all_iff)
  moreover have "toLowerCase k = k" unfolding toLowerCase_def
    using h(1) by (intro map_idI) (auto simp: list_all_iff is_lower_hex_def is_digit_def char_lower_def Let_def)
  moreover have "is_hex64_i k" using h lower_hex_any by (auto simp: is_hex64_i_def list_all_iff)
  moreover have "k \<noteq> []" using h(2) by auto
  ultimately show ?thesis using assms(2) by (simp add: normalizeAllocationIdentity_def normalizePubkey_def)
qed

lemma weight_text: "0 < w \<Longrightarrow> is_safe w \<Longrightarrow> parsePositiveWeight (WeightText (decimal_digits (nat w))) = Some w"
proof -
  assume w: "0 < w" "is_safe w"
  have "js_trim (decimal_digits (nat w)) = decimal_digits (nat w)"
    using digits_all [of "nat w"] hex_not_space hex_digit by (intro trim_kept) (auto simp: list_all_iff)
  then show ?thesis using w digits_all [of "nat w"] digits_not_empty [of "nat w"] digits_lead [of "nat w"]
    by (simp add: parsePositiveWeight_def positive_integer_text_def decimal_value_digits)
qed

lemma recipients_read:
  assumes "\<forall>r \<in> set rs. recipient_schema env r \<and> isValidNostrPublicKey env (recipient_pubkey r) \<and> is_safe (recipient_weight r)
    \<and> recipient_role r = (if k = Some (recipient_pubkey r) then MerchantRole else SupplierRole)"
  shows "read_recipients env k (map recipient_tag rs) (done_rs, issues) = (done_rs @ rs, issues)"
  using assms
proof (induction rs arbitrary: done_rs)
  case (Cons r rs)
  then have r: "recipient_schema env r" "isValidNostrPublicKey env (recipient_pubkey r)" "is_safe (recipient_weight r)"
    "recipient_role r = (if k = Some (recipient_pubkey r) then MerchantRole else SupplierRole)" by simp_all
  then have "normalizeAllocationIdentity env (Some (recipient_pubkey r)) = Some (recipient_pubkey r)"
    "parsePositiveWeight (WeightText (decimal_digits (nat (recipient_weight r)))) = Some (recipient_weight r)"
    by (simp_all add: own_identity weight_text recipient_schema_def)
  moreover have "\<lparr>recipient_pubkey = recipient_pubkey r, recipient_relayHint = recipient_relayHint r, recipient_weight = recipient_weight r,
      recipient_role = (if k = Some (recipient_pubkey r) then MerchantRole else SupplierRole)\<rparr> = r"
    using r(4) by (cases r) simp
  ultimately show ?case using Cons r(1) by (simp add: recipient_tag_def tag_at_def recipient_schema_def)
qed simp

subsection \<open>What was built\<close>

lemma created:
  assumes "createRecipient env input role issues = (r, issues')"
  shows "issues' = [] \<Longrightarrow> issues = [] \<and> (\<exists>x. r = Some x \<and> recipient_role x = role
    \<and> normalizeAllocationIdentity env (Some (authoring_identity input)) = Some (recipient_pubkey x))"
  using assms by (auto simp: createRecipient_def split: option.split_asm)

lemma suppliers_created:
  assumes "create_suppliers env ss (rs, issues) = (rs', [])"
  shows "issues = [] \<and> (\<exists>new. rs' = rs @ new \<and> (\<forall>r \<in> set new. recipient_role r = SupplierRole))"
  using assms
proof (induction ss arbitrary: rs issues)
  case (Cons s ss)
  obtain r issues' where c: "createRecipient env s SupplierRole issues = (r, issues')" by force
  show ?case
  proof (cases r)
    case None
    then have "issues' = []" using Cons c by auto
    with created [OF c] None show ?thesis by auto
  next
    case (Some x)
    then have "issues' = [] \<and> (\<exists>new. rs' = (rs @ [x]) @ new \<and> (\<forall>r \<in> set new. recipient_role r = SupplierRole))"
      using Cons.IH [of "rs @ [x]" issues'] Cons.prems c by simp
    then obtain new where "issues' = []" "rs' = rs @ x # new" "\<forall>r \<in> set new. recipient_role r = SupplierRole" by auto
    moreover have "recipient_role x = SupplierRole" "issues = []" using created [OF c] \<open>issues' = []\<close> Some by auto
    ultimately show ?thesis by auto
  qed
qed simp

lemma built:
  assumes "buildProductSupplierAllocation env input = Inr (Built a tags)"
  obtains rs k where "normalizeAllocationIdentity env (Some (input_merchantPubkey input)) = k"
    "a = \<lparr>allocation_state = AllocationValid, allocation_recipients = rs, allocation_issues = [],
          revisionEventId = None, revisionCreatedAt = None, revisionEvent = None\<rparr>"
    "uniqueIssues (validateRecipientSet rs k []) = []" "emitProductSupplierAllocationTags env a = Inr tags"
    "\<forall>r \<in> set rs. recipient_role r = (if k = Some (recipient_pubkey r) then MerchantRole else SupplierRole)"
proof -
  let ?k = "normalizeAllocationIdentity env (Some (input_merchantPubkey input))"
  let ?author = "\<lparr>authoring_identity = input_merchantPubkey input, authoring_relayHint = input_merchantRelayHint input,
    authoring_weight = input_merchantWeight input\<rparr>"
  obtain m i where m: "createRecipient env ?author MerchantRole [] = (m, i)" by force
  obtain rs i' where s: "create_suppliers env (input_suppliers input) ((case m of Some r \<Rightarrow> [r] | None \<Rightarrow> []), i) = (rs, i')" by force
  let ?a = "\<lparr>allocation_state = AllocationValid, allocation_recipients = rs, allocation_issues = [],
    revisionEventId = None, revisionCreatedAt = None, revisionEvent = None\<rparr>"
  have v: "uniqueIssues (validateRecipientSet rs ?k i') = []" and a: "a = ?a" "emitProductSupplierAllocationTags env a = Inr tags"
    using assms by (auto simp: buildProductSupplierAllocation_def Let_def m s bind_result_Inr split: if_split_asm)
  have "i' = []" by (rule valid_recipients(1) [OF v])
  with suppliers_created s obtain new where n: "rs = (case m of Some r \<Rightarrow> [r] | None \<Rightarrow> []) @ new"
    "\<forall>r \<in> set new. recipient_role r = SupplierRole" "i = []" by blast
  from created [OF m] n(3) obtain x where x: "m = Some x" "recipient_role x = MerchantRole" "?k = Some (recipient_pubkey x)" by auto
  have "filter (\<lambda>r. ?k = Some (recipient_pubkey r)) new = []" using valid_recipients(4) [OF v] n(1) x by simp
  then have "\<forall>r \<in> set rs. recipient_role r = (if ?k = Some (recipient_pubkey r) then MerchantRole else SupplierRole)"
    using n(1,2) x by (auto simp: filter_empty_conv)
  then show ?thesis using that [OF refl a(1) _ a(2)] v \<open>i' = []\<close> by simp
qed

lemma member_weight:
  assumes "\<forall>r \<in> set rs. recipient_weight r > 0" "r \<in> set rs"
  shows "recipient_weight r \<le> sum_list (map recipient_weight rs)"
  using assms
proof (induction rs)
  case (Cons x rs)
  have "0 \<le> sum_list (map recipient_weight rs)" using Cons.prems(1) by (intro sum_list_nonneg) auto
  with Cons show ?case by auto
qed simp

lemma built_read_back:
  assumes "buildProductSupplierAllocation env input = Inr (Built a tags)"
  shows "parseProductSupplierAllocationTags env
    \<lparr>parse_tags = Some tags, parse_merchantPubkey = input_merchantPubkey input, parse_signedRevision = None\<rparr> = a"
  using assms
proof (rule built)
  fix rs k
  assume k: "normalizeAllocationIdentity env (Some (input_merchantPubkey input)) = k"
    and a: "a = \<lparr>allocation_state = AllocationValid, allocation_recipients = rs, allocation_issues = [],
          revisionEventId = None, revisionCreatedAt = None, revisionEvent = None\<rparr>"
    and v: "uniqueIssues (validateRecipientSet rs k []) = []" and e: "emitProductSupplierAllocationTags env a = Inr tags"
    and roles: "\<forall>r \<in> set rs. recipient_role r = (if k = Some (recipient_pubkey r) then MerchantRole else SupplierRole)"
  have tags: "tags = [''conduit_supplier_allocation'', ''1''] # map recipient_tag rs"
    and ok: "productSupplierAllocationSchema env a" "\<forall>r \<in> set rs. isValidNostrPublicKey env (recipient_pubkey r)"
    using e a by (auto simp: emitProductSupplierAllocationTags_def list_all_iff split: if_split_asm)
  have schema: "\<forall>r \<in> set rs. recipient_schema env r" using ok(1) a by (simp add: productSupplierAllocationSchema_def list_all_iff)
  have "is_safe (recipient_weight r)" if "r \<in> set rs" for r
    using is_safe_mono [OF valid_recipients(3) [OF v] _ member_weight [of rs r]] schema that by (auto simp: recipient_schema_def less_imp_le)
  then have "read_recipients env k (map recipient_tag rs) ([], []) = ([] @ rs, [])"
    using schema ok(2) roles by (intro recipients_read) auto
  moreover have "tags_named ''zap'' tags = map recipient_tag rs" "tags_named ''conduit_supplier_allocation'' tags = [[''conduit_supplier_allocation'', ''1'']]"
    unfolding tags by (simp_all add: tags_named_def tag_at_def recipient_tag_def filter_map o_def)
  moreover obtain key where "k = Some key" using valid_recipients(4) [OF v] by (cases k) simp_all
  ultimately show ?thesis using a v k by (simp add: parseProductSupplierAllocationTags_def hasExactSignedRevision_def tag_at_def)
qed

subsection \<open>Dividing an amount\<close>

lemma floor_parts:
  fixes f :: "'a \<Rightarrow> int"
  assumes "0 < W"
  shows "W * (\<Sum>x\<leftarrow>xs. f x div W) \<le> (\<Sum>x\<leftarrow>xs. f x)
    \<and> (\<Sum>x\<leftarrow>xs. f x) - int (length xs) * (W - 1) \<le> W * (\<Sum>x\<leftarrow>xs. f x div W)"
proof (induction xs)
  case (Cons x xs)
  have "W * (f x div W) = f x - f x mod W" by (simp add: minus_mod_eq_mult_div)
  moreover have "0 \<le> f x mod W" "f x mod W \<le> W - 1" using pos_mod_bound [OF assms, of "f x"] assms by simp_all
  moreover have "int (length (x # xs)) * (W - 1) = int (length xs) * (W - 1) + (W - 1)" by (simp add: algebra_simps)
  ultimately show ?case using Cons.IH by (simp only: list.map sum_list.Cons distrib_left) linarith
qed simp

lemma split_merchant:
  assumes "list_ex (\<lambda>r. recipient_role r = MerchantRole) rs"
  obtains pre m post where "rs = pre @ m # post" "\<forall>r \<in> set pre. recipient_role r \<noteq> MerchantRole" "recipient_role m = MerchantRole"
    "takeWhile (\<lambda>r. recipient_role r \<noteq> MerchantRole) rs = pre"
proof -
  let ?P = "\<lambda>r. recipient_role r \<noteq> MerchantRole"
  have "dropWhile ?P rs \<noteq> []" using assms by (auto simp: dropWhile_eq_Nil_conv list_ex_iff)
  then obtain m post where d: "dropWhile ?P rs = m # post" by (cases "dropWhile ?P rs") auto
  then have m: "recipient_role m = MerchantRole" using hd_dropWhile [of ?P rs] by simp
  have s: "rs = takeWhile ?P rs @ m # post" using takeWhile_dropWhile_id [of ?P rs] unfolding d by (rule sym)
  have p: "\<forall>r \<in> set (takeWhile ?P rs). ?P r" by (auto dest: set_takeWhileD)
  show ?thesis by (rule that [OF s p m refl])
qed

lemma remainder_added:
  "length xs = i \<Longrightarrow> add_remainder i n (xs @ s # ys) = xs @ s\<lparr>share_sats := share_sats s + n\<rparr> # ys"
  by (auto simp: add_remainder_def list_update_append)

lemma shares_divided:
  assumes "0 \<le> t" "is_safe t" "allocation_state a = AllocationValid" "\<forall>r \<in> set (allocation_recipients a). recipient_weight r > 0"
    "length (filter (\<lambda>r. recipient_role r = MerchantRole) (allocation_recipients a)) = 1"
  defines "rs \<equiv> allocation_recipients a" and "W \<equiv> sum_list (map recipient_weight (allocation_recipients a))"
  shows "\<exists>shares. allocateProductSupplierShares (JSInt t) a = Inr shares
    \<and> map share_pubkey shares = map recipient_pubkey rs \<and> map share_role shares = map recipient_role rs
    \<and> sum_list (map share_sats shares) = t
    \<and> (\<forall>(r, s) \<in> set (zip rs shares). let part = t * recipient_weight r div W
         in if recipient_role r = MerchantRole then part \<le> share_sats s \<and> share_sats s < part + int (length rs) else share_sats s = part)"
proof -
  have ex: "list_ex (\<lambda>r. recipient_role r = MerchantRole) rs"
    using assms(5) unfolding rs_def list_ex_iff by (metis (mono_tags, lifting) filter_False list.size(3) zero_neq_one)
  obtain pre m post where rs: "rs = pre @ m # post" "\<forall>r \<in> set pre. recipient_role r \<noteq> MerchantRole" "recipient_role m = MerchantRole"
    "takeWhile (\<lambda>r. recipient_role r \<noteq> MerchantRole) rs = pre" by (rule split_merchant [OF ex])
  have post: "\<forall>r \<in> set post. recipient_role r \<noteq> MerchantRole"
    using assms(5) rs(1,3) unfolding rs_def [symmetric] by (auto simp: filter_empty_conv)
  have W: "0 < W"
    using member_weight [of rs m] assms(4) rs(1) unfolding W_def rs_def [symmetric] by fastforce
  let ?f = "\<lambda>r. t * recipient_weight r div W"
  let ?share = "\<lambda>r. \<lparr>share_pubkey = recipient_pubkey r, share_role = recipient_role r, share_sats = ?f r\<rparr>"
  define rest where "rest = t - sum_list (map ?f rs)"
  let ?own = "(?share m)\<lparr>share_sats := ?f m + rest\<rparr>"
  let ?shares = "map ?share pre @ ?own # map ?share post"
  have whole: "(\<Sum>r\<leftarrow>rs. t * recipient_weight r) = t * W" by (simp add: W_def rs_def sum_list_const_mult)
  have "W * sum_list (map ?f rs) \<le> W * t" "W * t - int (length rs) * (W - 1) \<le> W * sum_list (map ?f rs)"
    using floor_parts [OF W, of "\<lambda>r. t * recipient_weight r" rs] whole by (simp_all add: mult.commute)
  then have "0 \<le> rest" "W * rest \<le> int (length rs) * (W - 1)" using W by (simp_all add: rest_def algebra_simps)
  moreover have "int (length rs) * (W - 1) < int (length rs) * W" using rs(1) by simp
  moreover from calculation have "W * rest < W * int (length rs)" by (simp only: mult.commute [of "int (length rs)"])
  ultimately have rest: "0 \<le> rest" "rest < int (length rs)" using W by simp_all
  have sats: "share_sats \<circ> ?share = ?f" by auto
  have w: "sum_list (map recipient_weight rs) = W" by (simp add: W_def rs_def)
  have parts: "map ?share rs = map ?share pre @ ?share m # map ?share post" by (simp add: rs(1))
  have left: "t - sum_list (map share_sats (map ?share rs)) = rest" by (simp only: rest_def map_map sats)
  have "allocateProductSupplierShares (JSInt t) a
      = Inr (add_remainder (length pre) (t - sum_list (map share_sats (map ?share rs))) (map ?share rs))"
    using assms(1-3) ex W rs(4) by (simp add: allocateProductSupplierShares_def Let_def w flip: rs_def)
  then have "allocateProductSupplierShares (JSInt t) a = Inr ?shares"
    unfolding left unfolding parts by (simp add: remainder_added)
  moreover have "sum_list (map share_sats ?shares) = t" by (simp add: sats rest_def rs(1))
  moreover have "map share_pubkey ?shares = map recipient_pubkey rs" "map share_role ?shares = map recipient_role rs"
    by (simp_all add: rs(1) o_def)
  moreover have "zip rs ?shares = zip pre (map ?share pre) @ (m, ?own) # zip post (map ?share post)" by (simp add: rs(1))
  moreover have "\<forall>(r, s) \<in> set (zip xs (map ?share xs)). s = ?share r \<and> r \<in> set xs" for xs by (auto simp: set_zip)
  ultimately show ?thesis using rs(2,3) post rest by (intro exI [of _ ?shares]) (fastforce simp: Let_def)
qed

definition well_read :: "js_string option \<Rightarrow> ProductSupplierAllocationRecipient \<Rightarrow> bool" where
  "well_read k r \<longleftrightarrow> recipient_weight r > 0 \<and> recipient_role r = (if k = Some (recipient_pubkey r) then MerchantRole else SupplierRole)"

lemma positive_weight: "parsePositiveWeight w = Some n \<Longrightarrow> 0 < n"
  by (auto simp: parsePositiveWeight_def Let_def split: if_split_asm)

lemma read_step:
  "\<exists>new i'. (\<forall>r \<in> set new. well_read k r) \<and> read_recipients env k (tg # tags) (rs, i) = read_recipients env k tags (rs @ new, i')"
proof -
  have skip: ?thesis if "read_recipients env k (tg # tags) (rs, i) = read_recipients env k tags (rs, i')" for i'
    using that by (intro exI [of _ "[]"] exI [of _ i']) simp
  have keep: ?thesis if "read_recipients env k (tg # tags) (rs, i) = read_recipients env k tags (rs @ [r], i)" "well_read k r" for r
    using that by (intro exI [of _ "[r]"] exI [of _ i]) simp
  let ?w = "parsePositiveWeight (case tag_at tg 3 of Some w \<Rightarrow> WeightText w | None \<Rightarrow> WeightMissing)"
  show ?thesis
  proof (cases "normalizeAllocationIdentity env (tag_at tg 1)")
    case None
    then show ?thesis by (intro skip) simp
  next
    case key: (Some key)
    show ?thesis
    proof (cases "normalizePublicWebSocketUrl (network_URL env) (tag_at tg 2)")
      case None
      with key show ?thesis by (intro skip) simp
    next
      case hint: (Some hint)
      show ?thesis
      proof (cases "hint = [] \<or> ?w = None")
        case True
        with key hint show ?thesis
          by (intro skip [of "i @ [if hint = [] then InvalidRelayHint else InvalidWeight]"]) auto
      next
        case False
        then obtain n where "?w = Some n" by auto
        with key hint False positive_weight [OF this] show ?thesis
          by (intro keep [of "\<lparr>recipient_pubkey = key, recipient_relayHint = hint, recipient_weight = n,
                recipient_role = (if k = Some key then MerchantRole else SupplierRole)\<rparr>"]) (simp_all add: well_read_def)
      qed
    qed
  qed
qed

lemma recipients_checked:
  "read_recipients env k tags (rs, issues) = (rs', issues') \<Longrightarrow> \<forall>r \<in> set rs. well_read k r \<Longrightarrow> \<forall>r \<in> set rs'. well_read k r"
proof (induction tags arbitrary: rs issues)
  case (Cons tg tags)
  obtain new i' where new: "\<forall>r \<in> set new. well_read k r"
    "read_recipients env k (tg # tags) (rs, issues) = read_recipients env k tags (rs @ new, i')" using read_step by blast
  then show ?case using Cons.IH [of "rs @ new" i'] Cons.prems by auto
qed simp

lemma accepted_recipients:
  assumes "allocation_state (parseProductSupplierAllocationTags env input) = AllocationValid"
  defines "rs \<equiv> allocation_recipients (parseProductSupplierAllocationTags env input)"
  shows "\<forall>r \<in> set rs. recipient_weight r > 0" "distinct (map recipient_pubkey rs)"
    "length (filter (\<lambda>r. recipient_role r = MerchantRole) rs) = 1" "\<exists>r \<in> set rs. recipient_role r = SupplierRole"
proof -
  let ?k = "normalizeAllocationIdentity env (Some (parse_merchantPubkey input))"
  obtain tags i i' where r: "read_recipients env ?k tags ([], i) = (rs, i')" and v: "uniqueIssues (validateRecipientSet rs ?k i') = []"
    using assms(1) unfolding rs_def
    by (auto simp: parseProductSupplierAllocationTags_def Let_def split: if_split_asm prod.split_asm prod.splits)
  note c = recipients_checked [OF r, simplified, unfolded well_read_def]
  show "\<forall>r \<in> set rs. recipient_weight r > 0" using c by blast
  show "distinct (map recipient_pubkey rs)" by (rule valid_recipients(2) [OF v])
  have "filter (\<lambda>r. recipient_role r = MerchantRole) rs = filter (\<lambda>r. ?k = Some (recipient_pubkey r)) rs"
    using c by (intro filter_cong) auto
  then show "length (filter (\<lambda>r. recipient_role r = MerchantRole) rs) = 1" using valid_recipients(4) [OF v] by simp
  from valid_recipients(5) [OF v] obtain r where "r \<in> set rs" "?k \<noteq> Some (recipient_pubkey r)" by (auto simp: filter_empty_conv)
  then show "\<exists>r \<in> set rs. recipient_role r = SupplierRole" using c by auto
qed

subsection \<open>Claims\<close>

text \<open>C36. The terms an author builds are the terms a reader accepts.  When \<open>buildProductSupplierAllocation\<close>
  returns an allocation, reading its tags under the merchant identity of the input gives exactly that allocation:
  the same recipients with their keys, normalized hints, weights and roles in order, state valid, no issues.\<close>

theorem built_allocation_is_read_back:
  assumes "buildProductSupplierAllocation env input = Inr (Built a tags)"
  shows "parseProductSupplierAllocationTags env
    \<lparr>parse_tags = Some tags, parse_merchantPubkey = input_merchantPubkey input, parse_signedRevision = None\<rparr> = a"
  by (rule built_read_back [OF assms])

definition allocation_env :: allocation_ports where
  "allocation_env = \<lparr>getEventHash = (\<lambda>e. event_content e), liftable = (\<lambda>k. True), calcPaddedLen = (\<lambda>n. n),
     event_sha256 = (\<lambda>bytes. bytes), schnorr_verify = (\<lambda>_ _ _. Some True), new_URL = (\<lambda>_. None),
     nip19_decode = (\<lambda>_. None), network_URL = sample_url\<rparr>"

definition sample_terms :: BuildProductSupplierAllocationInput where
  "sample_terms = \<lparr>input_merchantPubkey = replicate 64 CHR ''a'', input_merchantRelayHint = Some ''wss://relay.example.dev'',
     input_merchantWeight = WeightText ''2'', input_suppliers = [\<lparr>authoring_identity = replicate 64 CHR ''b'',
       authoring_relayHint = Some ''wss://relay.example.dev'', authoring_weight = WeightNumber (JSInt 1)\<rparr>]\<rparr>"

definition sample_allocation :: ProductSupplierAllocation where
  "sample_allocation = \<lparr>allocation_state = AllocationValid,
     allocation_recipients =
       [\<lparr>recipient_pubkey = replicate 64 CHR ''a'', recipient_relayHint = ''wss://relay.example.dev/'', recipient_weight = 2, recipient_role = MerchantRole\<rparr>,
        \<lparr>recipient_pubkey = replicate 64 CHR ''b'', recipient_relayHint = ''wss://relay.example.dev/'', recipient_weight = 1, recipient_role = SupplierRole\<rparr>],
     allocation_issues = [], revisionEventId = None, revisionCreatedAt = None, revisionEvent = None\<rparr>"

lemma sample_built:
  "buildProductSupplierAllocation allocation_env sample_terms
    = Inr (Built sample_allocation ([''conduit_supplier_allocation'', ''1''] # map recipient_tag (allocation_recipients sample_allocation)))"
  by code_simp

lemma built_allocation_is_read_back_witness:
  "\<exists>tags. parseProductSupplierAllocationTags allocation_env
    \<lparr>parse_tags = Some tags, parse_merchantPubkey = replicate 64 CHR ''a'', parse_signedRevision = None\<rparr> = sample_allocation"
  using built_allocation_is_read_back [OF sample_built] by (auto simp: sample_terms_def)

text \<open>C34. An accepted allocation divides every amount without loss.  When the tags of a product are read as
  valid, dividing any non-negative safe amount succeeds and gives one share per recipient in order, to distinct
  keys; every supplier gets the rounded-down part of its weight, the merchant its own part and what rounding
  left over, less than one satoshi per recipient, and the shares sum to the amount.\<close>

theorem accepted_allocation_divides_amount:
  assumes "parseProductSupplierAllocationTags env input = a" "allocation_state a = AllocationValid" "0 \<le> t" "is_safe t"
  shows "\<exists>shares. allocateProductSupplierShares (JSInt t) a = Inr shares
    \<and> map share_pubkey shares = map recipient_pubkey (allocation_recipients a) \<and> distinct (map share_pubkey shares)
    \<and> map share_role shares = map recipient_role (allocation_recipients a)
    \<and> sum_list (map share_sats shares) = t
    \<and> (\<forall>(r, s) \<in> set (zip (allocation_recipients a) shares).
         let part = t * recipient_weight r div sum_list (map recipient_weight (allocation_recipients a))
         in if recipient_role r = MerchantRole
            then part \<le> share_sats s \<and> share_sats s < part + int (length (allocation_recipients a)) else share_sats s = part)"
proof -
  note v = assms(2) [folded assms(1)]
  from shares_divided [OF assms(3,4,2)] accepted_recipients(1,3) [OF v] obtain shares
    where "allocateProductSupplierShares (JSInt t) a = Inr shares"
      "map share_pubkey shares = map recipient_pubkey (allocation_recipients a)"
      "map share_role shares = map recipient_role (allocation_recipients a)" "sum_list (map share_sats shares) = t"
      "\<forall>(r, s) \<in> set (zip (allocation_recipients a) shares).
         let part = t * recipient_weight r div sum_list (map recipient_weight (allocation_recipients a))
         in if recipient_role r = MerchantRole
            then part \<le> share_sats s \<and> share_sats s < part + int (length (allocation_recipients a)) else share_sats s = part"
    unfolding assms(1) by blast
  moreover from this(2) have "distinct (map share_pubkey shares)" using accepted_recipients(2) [OF v] unfolding assms(1) by simp
  ultimately show ?thesis by blast
qed

lemma accepted_allocation_divides_amount_witness:
  "\<exists>shares. allocateProductSupplierShares (JSInt 1000) sample_allocation = Inr shares \<and> sum_list (map share_sats shares) = 1000"
  using accepted_allocation_divides_amount [OF built_read_back [OF sample_built], of 1000]
  by (auto simp: sample_allocation_def is_safe_def MAX_SAFE_INTEGER_def)

end
