(* ===== verification/Spec2Isabelle.thy ===== *)
theory Spec2Isabelle
  imports Relay_Health Spark_Fees Lifecycle_System Settled_Claims Stock_Claims Assignment_Claims Publication_Claims Supplier_Claims
begin

text \<open>
  The commerce core of Conduit: orders, payments, and stock in \<open>src/packages/core\<close>.

  Conduit is a marketplace without a server of its own.  A buyer's browser keeps a record of every order
  and pays Lightning invoices or settles a checkout over Spark; a merchant's browser keeps stock and
  publishes it as signed Nostr events; an organizer of an event market may be entrusted with stock of a
  merchant.  Each side keeps its state in IndexedDB and trusts only messages that verify.  The files below
  stand in \<open>src/packages/core/src/protocol\<close> unless a path says otherwise.

  \<^bold>\<open>How the code is rendered.\<close>  \<open>Js_Prelude\<close> holds the fragment of JavaScript in use: checked
  integers (\<open>js_number\<close>), strings as code units below 256, \<open>throw\<close> as \<open>Inl\<close>, and an object store as a
  table of keyed rows, whose laws are the locale \<open>object_store\<close>.  A read-write transaction is one function
  from the database to a result and the database after it; a transaction that throws writes nothing.
  Interfaces and row types are records, unions of literals are datatypes, and a function keeps its name, its
  early returns and their order.  \<open>Date.now()\<close>, fresh identifiers and the current session are arguments.
  What third-party packages and the browser compute is a parameter, collected in records of ports: hashes,
  Schnorr verification, \<open>lift_x\<close>, NIP-19, NIP-44 padding, \<open>new URL\<close> and the collation of
  \<open>localeCompare\<close>.  No law of a port is used unless a theorem states it as a hypothesis.

  \<^bold>\<open>The parts.\<close>

  \<^item> Invoices.  \<open>Bech32\<close> (the checksum of \<open>lightning.ts\<close> on 32-bit words), \<open>Bolt11\<close> (data part, tagged
    fields, amounts, the match of an invoice with an order), \<open>Json_Text\<close> (the text of \<open>JSON.stringify\<close>, its
    UTF-8 bytes and digest) and \<open>Lightning_Validity\<close> (\<open>isValidLightningInvoice\<close> and its bounded memory of
    verified signatures).

  \<^item> The buyer's order.  \<open>Lifecycle_Types\<close> and \<open>Lifecycle_Merge\<close> give the record of \<open>db/index.ts\<close>, its phase
    and the merge of \<open>order-lifecycle.ts\<close>; \<open>Lifecycle_Claims\<close> the payment claims, \<open>Lifecycle_Delivery\<close> what a
    claim may write and the delivery of the payment proof, \<open>Lifecycle_Recovery\<close> the reconciliation after an
    interruption.  \<open>Payment_Protocol\<close> is the abstract specification: ten kinds of step on a small view
    of an order, with the locale \<open>protocol_store\<close>.  \<open>Lifecycle_System\<close> lets the transactions run in any order
    (\<open>lifecycle_step\<close>, \<open>lifecycle_reachable\<close>) and interprets that locale: every transaction refines the protocol.

  \<^item> Order messages.  \<open>Order_Messages\<close> (\<open>orders.ts\<close>), \<open>Order_Summary\<close> (\<open>order-summary.ts\<close>) and \<open>Order_Status\<close>
    (\<open>order-status.ts\<close>: projection of statuses, corrections, cancellations, reopening).

  \<^item> The settled Spark checkout.  \<open>Spark_Fees\<close> (fee policy and the division of a settled credit),
    \<open>Settled_Plan\<close> (validation and freezing of a plan), \<open>Settled_Returned\<close> (proofs that an outgoing transfer
    came back) and \<open>Settled_Router\<close> (every operation of \<open>checkout-spark-settled-router.ts\<close>, with the native
    treasury finalization).  \<open>Settled_Protocol\<close> is the abstract life of one payout, with the locale
    \<open>leg_runs\<close>; \<open>Settled_Accounting\<close>, \<open>Settled_Safety\<close>, \<open>Settled_Roundtrip\<close> and \<open>Settled_Lifecycle\<close> prove the
    accounts, the state machine, the idempotence of freezing and the refinement, and interpret the locale;
    \<open>Settled_Checkout\<close> and \<open>Settled_Claims\<close> state what follows.

  \<^item> Entrusted stock.  \<open>Stock_Authority\<close> (the private messages of grant, acceptance, close and handout),
    \<open>Signed_Events\<close> and \<open>Event_Assignment\<close> (public events and the kind-30410 assignment),
    \<open>Stock_Journal\<close> (the organizer's journal and its writer guard).  \<open>Stock_Chain\<close> holds its invariant (entries
    form a hash chain whose quantities add up to the accepted stock), \<open>Stock_Orders\<close>, \<open>Stock_System\<close> and
    \<open>Stock_Runs\<close> its preservation, \<open>Stock_Claims\<close> and \<open>Assignment_Claims\<close> the properties.

  \<^item> The merchant's stock.  \<open>Merchant_Inventory\<close> (\<open>merchant-inventory.ts\<close>: initialization, edits,
    reservations of occurrences, with \<open>merchant-occurrence-lifecycle.ts\<close>), \<open>Merchant_Acceptance\<close> (the one
    transaction that debits an order) and \<open>Merchant_Publication\<close> (the queue of public revisions).
    \<open>Inventory_Accounts\<close> and \<open>Acceptance_Accounts\<close> show that reservations stay covered, \<open>Publication_Chain\<close> and
    \<open>Publication_Steps\<close> that queued revisions form a chain, \<open>Inventory_System\<close> joins both as one invariant;
    \<open>Inventory_Claims\<close> and \<open>Publication_Claims\<close> state the properties.

  \<^item> At the boundary.  \<open>Relay_Health\<close> (\<open>relay-health.ts\<close>, with the relay URLs of \<open>relay-settings.ts\<close>), \<open>Network_Safety\<close> and
    \<open>Network_Claims\<close> (\<open>src/packages/core/src/network-target-safety.ts\<close>), \<open>Supplier_Allocation\<close> and \<open>Supplier_Claims\<close>
    (\<open>product-supplier-allocation.ts\<close> with its schema).

  The theories named \<open>Sample_\<close> build concrete plans, journals, inventories and queues; every property with a
  hypothesis is applied to one of them or to a small instance beside it.

  \<^bold>\<open>How the parts meet.\<close>  The match of an invoice with its order, of \<open>Bolt11\<close>, is what the
  manual payment of \<open>Lifecycle_Delivery\<close> rests on.  The settled plan validates its invoices with
  \<open>Lightning_Validity\<close> and divides credit with \<open>Spark_Fees\<close>.  A relay hint of a supplier allocation passes
  \<open>Network_Safety\<close>, in the schema too, so a built allocation is one that its reader admits.  The journal,
  the inventory and the publication queue share the assignment and its digest.  The organizer's journal and the merchant's inventory are both
  stores written by guarded attempts: \<open>Guarded_Runs\<close> proves once, in the locale \<open>guarded_store\<close>, that an
  invariant holds along every run, and is interpreted on \<open>attempt\<close> (\<open>Stock_Runs\<close>) and on
  \<open>inventory_attempt\<close> (\<open>Inventory_System\<close>).

  \<^bold>\<open>Abstractions and invariants.\<close>  The payment protocol and the payout leg are state machines of a few
  fields; their steps are inductive relations, and the refinement says of every transaction that its view
  stays or takes one step.  From the steps alone follow the safety properties: claims exclude each
  other, a settled order is never paid again, a paid payout is final.  Invariants of the detailed state are
  \<open>coherent\<close> orders, restored router states within their credit, the journal chain, covered reservations
  (\<open>books_ok\<close>) and chained queues (\<open>queues_chained\<close>).

  \<^bold>\<open>Loops and bounds.\<close>  Recursion over data is structural or has a measure (\<open>tagged_fields\<close>, \<open>utf8_ok\<close>).
  The loop that signs the queued revisions of one address ends only when the queue is empty, so it is a
  \<open>partial_function (option)\<close>; that it returns, within one turn per pending job, is a theorem and not an
  assumption.  No fuel is used.  The caches keep their code's bound (4096 signatures, oldest evicted).

  \<^bold>\<open>Not modelled.\<close>  Relay transport, wallets and their SDKs, signers, user interfaces and migrations are not:
  they are I/O, third-party behaviour or rendering.  Listings, shipping rules, pricing sources, the market
  directory and private-message delivery are not reached.  Of the modelled files the following are left out:
  stock checkpoints and the import of organizer stock into the inventory, the outer loop of publication over
  addresses, the merchant side of entrusting stock and the sealing of envelopes, and the asynchronous provider
  steps of the treasury finalization.  A postponed occurrence is reconciled by
  a function of its own, which the runs of \<open>Inventory_System\<close> do not include.  Code units
  above 255 are outside the model of strings; SHA-256 is a function of bytes, and
  where a property needs that it does not collide, it says so for the values at hand.
\<close>

end
